(* ===== verification/Prelude.thy ===== *)
theory Prelude
  imports
    Complex_Main
    "HOL-Library.Char_ord"
    "HOL-Library.List_Lexorder"
    "HOL-Library.Product_Lexorder"
    "HOL-Library.AList"
    "HOL-Library.Multiset"
begin

text \<open>
  Shared vocabulary of the development: Go strings, instants, maps, messages and stable
  sorting as the components use them, the collections of rewrite rules the component proofs
  draw on, and the generic lemmas about them.

  A Go \<open>string\<close> is a list of bytes (\<open>char list\<close>).  A \<open>time.Time\<close> is the number of
  nanoseconds since the zero time (0001-01-01T00:00:00Z), a \<open>time.Duration\<close> a number of
  nanoseconds; time zones and monotonic readings do not occur in the code that is modelled.
  A Go map from strings is an association list, whose order stands for the iteration order
  the runtime happens to choose.  A pointer that may be nil is an \<open>option\<close>.
\<close>

named_theorems go_defs \<open>unfolding rules of the small helpers\<close>
named_theorems frame \<open>what an operation leaves unchanged\<close>
named_theorems inv_intros \<open>preservation of component invariants\<close>

type_synonym gotime = int
type_synonym duration = int
type_synonym gomap = "(string \<times> string) list"

section \<open>Instants\<close>

definition is_zero :: "gotime \<Rightarrow> bool" where
  "is_zero t \<longleftrightarrow> t = 0"

abbreviation millisecond :: duration where "millisecond \<equiv> 1000000"
abbreviation second :: duration where "second \<equiv> 1000000000"
abbreviation minute :: duration where "minute \<equiv> 60000000000"

text \<open>Go's \<open>Sub\<close> saturates at the range of an \<open>int64\<close>.\<close>

definition time_sub :: "gotime \<Rightarrow> gotime \<Rightarrow> duration" where
  "time_sub a b = max (- (2 ^ 63)) (min (2 ^ 63 - 1) (a - b))"

text \<open>Go's \<open>Duration.Milliseconds\<close> truncates towards zero.\<close>

definition milliseconds :: "duration \<Rightarrow> int" where
  "milliseconds d = sgn d * (\<bar>d\<bar> div millisecond)"

lemma milliseconds_nonneg: "0 \<le> d \<Longrightarrow> 0 \<le> milliseconds d"
  by (auto simp: milliseconds_def sgn_if pos_imp_zdiv_nonneg_iff)

section \<open>Contexts\<close>

text \<open>
  \<open>ctx.Err()\<close> is nil (\<open>None\<close>) or one of the two errors of the \<open>context\<close> package.  An
  operation that reads it receives what it reads as an argument.
\<close>

datatype ctx_err = CtxCanceled | CtxDeadlineExceeded

section \<open>Floating-point numbers\<close>

text \<open>
  A \<open>float64\<close> is NaN, an infinity or a finite rational; the sign of zero is not kept.
\<close>

datatype float64 = NaN | PosInf | NegInf | Fin rat

fun is_finite :: "float64 \<Rightarrow> bool" where
  "is_finite (Fin _) = True"
| "is_finite _ = False"

text \<open>The IEEE order: every comparison with NaN is false.\<close>

fun flt :: "float64 \<Rightarrow> float64 \<Rightarrow> bool" where
  "flt NaN _ = False"
| "flt _ NaN = False"
| "flt (Fin a) (Fin b) = (a < b)"
| "flt NegInf NegInf = False"
| "flt NegInf _ = True"
| "flt (Fin _) PosInf = True"
| "flt _ _ = False"

fun fle :: "float64 \<Rightarrow> float64 \<Rightarrow> bool" where
  "fle NaN _ = False"
| "fle _ NaN = False"
| "fle (Fin a) (Fin b) = (a \<le> b)"
| "fle NegInf _ = True"
| "fle _ PosInf = True"
| "fle _ _ = False"

text \<open>\<open>math.Float64bits\<close>: sign, biased exponent and fraction of a finite double.\<close>

fun bit_length :: "nat \<Rightarrow> nat" where
  "bit_length n = (if n = 0 then 0 else Suc (bit_length (n div 2)))"

declare bit_length.simps [simp del]

definition float_bits :: "float64 \<Rightarrow> int" where
  "float_bits x =
     (case x of
        NaN \<Rightarrow> 0x7FF8000000000001
      | PosInf \<Rightarrow> 0x7FF0000000000000
      | NegInf \<Rightarrow> 0xFFF0000000000000
      | Fin q \<Rightarrow>
          (if q = 0 then 0
           else let (n, d) = quotient_of q;
                    sign = (if n < 0 then 2 ^ 63 else 0);
                    guess = int (bit_length (nat \<bar>n\<bar>)) - int (bit_length (nat d));
                    e = (if \<bar>q\<bar> < 2 powi guess then guess - 1 else guess);
                    m = \<lfloor>\<bar>q\<bar> * 2 powi (52 - max e (- 1022))\<rfloor>
                in sign + (if e < - 1022 then m else (e + 1023) * 2 ^ 52 + (m - 2 ^ 52))))"

section \<open>Messages\<close>

text \<open>
  \<open>fmt.Sprintf\<close> and \<open>fmt.Errorf\<close> messages are kept unrendered: the format string and its
  arguments.  \<open>AMsgs\<close> is a list of messages joined with a separator.
\<close>

datatype fmt_arg = AStr string | AInt int | AFloat float64 | ATime gotime | ADur duration | AMsgs "msg list"
  and msg = Lit string | Fmt string "fmt_arg list"

abbreviation no_msg :: msg where "no_msg \<equiv> Lit []"

section \<open>Strings\<close>

definition byte :: "char \<Rightarrow> nat" where
  "byte c = of_char c"

text \<open>The UTF-8 encodings of the runes of \<open>unicode.White_Space\<close>, which \<open>strings.TrimSpace\<close> trims.\<close>

definition space_runes :: "nat list list" where
  "space_runes =
     [[0x09], [0x0A], [0x0B], [0x0C], [0x0D], [0x20], [0xC2, 0x85], [0xC2, 0xA0],
      [0xE1, 0x9A, 0x80],
      [0xE2, 0x80, 0x80], [0xE2, 0x80, 0x81], [0xE2, 0x80, 0x82], [0xE2, 0x80, 0x83],
      [0xE2, 0x80, 0x84], [0xE2, 0x80, 0x85], [0xE2, 0x80, 0x86], [0xE2, 0x80, 0x87],
      [0xE2, 0x80, 0x88], [0xE2, 0x80, 0x89], [0xE2, 0x80, 0x8A],
      [0xE2, 0x80, 0xA8], [0xE2, 0x80, 0xA9], [0xE2, 0x80, 0xAF], [0xE2, 0x81, 0x9F],
      [0xE3, 0x80, 0x80]]"

definition starts_with :: "nat list \<Rightarrow> string \<Rightarrow> bool" where
  "starts_with w s \<longleftrightarrow> take (length w) (map byte s) = w"

function strip :: "nat list list \<Rightarrow> string \<Rightarrow> string" where
  "strip ws s =
     (case find (\<lambda>w. w \<noteq> [] \<and> s \<noteq> [] \<and> starts_with w s) ws of
        None \<Rightarrow> s
      | Some w \<Rightarrow> strip ws (drop (length w) s))"
  by pat_completeness auto
termination
  by (relation "measure (length \<circ> snd)") (auto simp: find_Some_iff)

declare strip.simps [simp del]

definition trim_space :: "string \<Rightarrow> string" where
  "trim_space s = rev (strip (map rev space_runes) (rev (strip space_runes s)))"

text \<open>\<open>strings.TrimSpace(s) == ""\<close>, the emptiness test of every \<open>Validate\<close> method.\<close>

definition blank :: "string \<Rightarrow> bool" where
  "blank s \<longleftrightarrow> trim_space s = []"

lemma strip_Nil [simp]: "strip ws [] = []"
proof -
  have "find (\<lambda>w. w \<noteq> [] \<and> ([]::string) \<noteq> [] \<and> starts_with w []) ws = None"
    by (simp add: find_None_iff)
  then show ?thesis by (subst strip.simps) simp
qed

lemma blank_Nil [simp]: "blank []"
  by (simp add: blank_def trim_space_def)

lemma strip_id:
  assumes "\<And>w. w \<in> set ws \<Longrightarrow> w \<noteq> [] \<Longrightarrow> \<not> starts_with w s"
  shows "strip ws s = s"
proof -
  have "find (\<lambda>w. w \<noteq> [] \<and> s \<noteq> [] \<and> starts_with w s) ws = None"
    using assms by (auto simp: find_None_iff)
  then show ?thesis by (subst strip.simps) simp
qed

text \<open>A string whose first byte starts no white-space rune is not blank.\<close>

lemma strip_keeps_last:
  assumes "\<And>w. w \<in> set ws \<Longrightarrow> w \<noteq> [] \<Longrightarrow> last w \<noteq> byte c"
  shows "\<exists>v. strip ws (u @ [c]) = v @ [c]"
proof (induction "length u" arbitrary: u rule: less_induct)
  case less
  show ?case
  proof (cases "find (\<lambda>w. w \<noteq> [] \<and> u @ [c] \<noteq> [] \<and> starts_with w (u @ [c])) ws")
    case None
    then show ?thesis by (subst strip.simps) simp
  next
    case (Some w)
    then have w: "w \<in> set ws" "w \<noteq> []" "starts_with w (u @ [c])"
      by (auto simp: find_Some_iff)
    have len: "length w \<le> length u"
    proof (rule ccontr)
      assume "\<not> length w \<le> length u"
      with w(3) have "w = map byte (u @ [c])" by (simp add: starts_with_def)
      with assms [OF w(1,2)] show False by simp
    qed
    moreover have "length (drop (length w) u) < length u"
      using w(2) len by (cases w) auto
    ultimately obtain v where "strip ws (drop (length w) u @ [c]) = v @ [c]"
      using less by blast
    with Some len show ?thesis by (subst strip.simps) simp
  qed
qed

definition space_heads :: "nat list" where
  "space_heads = [9, 10, 11, 12, 13, 32, 194, 225, 226, 227]"

lemma space_runes_heads: "w \<in> set space_runes \<Longrightarrow> w \<noteq> [] \<and> hd w \<in> set space_heads"
  by (auto simp: space_runes_def space_heads_def)

lemma not_blank_Cons:
  assumes "byte c \<notin> set space_heads"
  shows "\<not> blank (c # s)"
proof -
  have "strip space_runes (c # s) = c # s"
  proof (rule strip_id)
    fix w assume w: "w \<in> set space_runes" "w \<noteq> []"
    then obtain x w' where "w = x # w'" "x \<in> set space_heads"
      using space_runes_heads [OF w(1)] by (metis list.collapse)
    with assms show "\<not> starts_with w (c # s)" by (auto simp: starts_with_def)
  qed
  moreover have "last (rev w) \<noteq> byte c" if "w \<in> set space_runes" for w
    using space_runes_heads [OF that] assms by (auto simp: last_rev)
  then have "\<exists>v. strip (map rev space_runes) (rev s @ [c]) = v @ [c]"
    by (intro strip_keeps_last) auto
  ultimately show ?thesis
    by (auto simp: blank_def trim_space_def)
qed
text \<open>\<open>strings.HasPrefix\<close> and \<open>strings.Contains\<close>.\<close>

definition has_prefix :: "string \<Rightarrow> string \<Rightarrow> bool" where
  "has_prefix s p \<longleftrightarrow> take (length p) s = p"

fun contains :: "string \<Rightarrow> string \<Rightarrow> bool" where
  "contains [] p \<longleftrightarrow> p = []"
| "contains (c # s) p \<longleftrightarrow> has_prefix (c # s) p \<or> contains s p"

text \<open>
  \<open>strings.ToLower\<close>.  The two non-ASCII runes whose lower case is an ASCII letter
  (U+0130 and U+212A) are mapped; every other non-ASCII rune keeps its bytes, which cannot
  change whether an ASCII keyword occurs in the result.
\<close>

definition lower_byte :: "char \<Rightarrow> char" where
  "lower_byte c = (if 65 \<le> byte c \<and> byte c \<le> 90 then char_of (byte c + 32) else c)"

fun to_lower :: "string \<Rightarrow> string" where
  "to_lower [] = []"
| "to_lower (a # s) =
     (if starts_with [0xC4, 0xB0] (a # s) then CHR ''i'' # to_lower (drop 1 s)
      else if starts_with [0xE2, 0x84, 0xAA] (a # s) then CHR ''k'' # to_lower (drop 2 s)
      else lower_byte a # to_lower s)"

text \<open>The slice expression \<open>s[n:]\<close>, which panics (\<open>None\<close>) when \<open>n\<close> exceeds the length.\<close>

definition slice_from :: "nat \<Rightarrow> string \<Rightarrow> string option" where
  "slice_from n s = (if length s < n then None else Some (drop n s))"

text \<open>Lower-case hexadecimal, the verb \<open>%x\<close> on bytes.\<close>

definition hex_digit :: "nat \<Rightarrow> char" where
  "hex_digit n = char_of (if n < 10 then 48 + n else 87 + n)"

definition hex_bytes :: "nat list \<Rightarrow> string" where
  "hex_bytes bs = concat (map (\<lambda>b. [hex_digit (b div 16 mod 16), hex_digit (b mod 16)]) bs)"

lemma length_hex_bytes [simp]: "length (hex_bytes bs) = 2 * length bs"
  by (induction bs) (auto simp: hex_bytes_def)

text \<open>The verb \<open>%d\<close>, and the wrap-around of an \<open>int64\<close>.\<close>

fun show_nat :: "nat \<Rightarrow> string" where
  "show_nat n = (if n < 10 then [char_of (48 + n)] else show_nat (n div 10) @ [char_of (48 + n mod 10)])"

declare show_nat.simps [simp del]

definition itoa :: "int \<Rightarrow> string" where
  "itoa i = (if i < 0 then ''-'' @ show_nat (nat (- i)) else show_nat (nat i))"

definition to_int64 :: "int \<Rightarrow> int" where
  "to_int64 i = (i + 2 ^ 63) mod 2 ^ 64 - 2 ^ 63"

text \<open>\<open>Time.UnixNano\<close>.\<close>

definition unix_nano :: "gotime \<Rightarrow> int" where
  "unix_nano t = to_int64 (t - 62135596800 * second)"

lemma to_int64_id: "- (2 ^ 63) \<le> i \<Longrightarrow> i < 2 ^ 63 \<Longrightarrow> to_int64 i = i"
  by (simp add: to_int64_def)

text \<open>\<open>strings.Join\<close>.\<close>

fun join :: "string \<Rightarrow> string list \<Rightarrow> string" where
  "join sep [] = []"
| "join sep [x] = x"
| "join sep (x # xs) = x @ sep @ join sep xs"

text \<open>\<open>strings.Split\<close> at a one-byte separator.\<close>

fun split_on :: "char \<Rightarrow> string \<Rightarrow> string list" where
  "split_on sep [] = [[]]"
| "split_on sep (c # s) =
     (if c = sep then [] # split_on sep s
      else case split_on sep s of [] \<Rightarrow> [[c]] | w # ws \<Rightarrow> (c # w) # ws)"

lemma split_on_not_Nil [simp]: "split_on sep s \<noteq> []"
  by (cases s) (auto split: list.splits)

lemma split_on_plain: "sep \<notin> set s \<Longrightarrow> split_on sep s = [s]"
  by (induction s) auto

lemma split_on_append: "sep \<notin> set u \<Longrightarrow> split_on sep (u @ sep # v) = u # split_on sep v"
  by (induction u) auto

lemma split_on_join:
  "xs \<noteq> [] \<Longrightarrow> (\<And>x. x \<in> set xs \<Longrightarrow> sep \<notin> set x) \<Longrightarrow> split_on sep (join [sep] xs) = xs"
  by (induction "[sep]" xs rule: join.induct) (auto simp: split_on_plain split_on_append)

lemma join_snoc: "xs \<noteq> [] \<Longrightarrow> join sep (xs @ [x]) = join sep xs @ sep @ x"
  by (induction sep xs rule: join.induct) auto

text \<open>\<open>strconv.Atoi\<close> on a 64-bit platform; \<open>None\<close> is its error.\<close>

fun parse_digits :: "nat \<Rightarrow> string \<Rightarrow> nat option" where
  "parse_digits acc [] = Some acc"
| "parse_digits acc (c # s) =
     (if 48 \<le> byte c \<and> byte c \<le> 57 then parse_digits (10 * acc + (byte c - 48)) s else None)"

definition atoi :: "string \<Rightarrow> int option" where
  "atoi s =
     (let neg = has_prefix s ''-'';
          body = (if has_prefix s ''-'' \<or> has_prefix s ''+'' then tl s else s)
      in if body = [] then None
         else case parse_digits 0 body of
           None \<Rightarrow> None
         | Some n \<Rightarrow> let i = (if neg then - int n else int n)
                     in if - (2 ^ 63) \<le> i \<and> i < 2 ^ 63 then Some i else None)"

lemma contains_iff: "contains s p \<longleftrightarrow> (\<exists>u v. s = u @ p @ v)"
proof (induction s)
  case Nil
  then show ?case by auto
next
  case (Cons c s)
  have pre: "has_prefix (c # s) p \<longleftrightarrow> (\<exists>v. c # s = p @ v)"
    by (auto simp: has_prefix_def) (metis append_take_drop_id)
  show ?case
  proof
    assume "contains (c # s) p"
    then consider "has_prefix (c # s) p" | "contains s p" by auto
    then show "\<exists>u v. c # s = u @ p @ v"
    proof cases
      case 1
      then obtain v where "c # s = [] @ p @ v" using pre by auto
      then show ?thesis by blast
    next
      case 2
      then obtain u v where "s = u @ p @ v" using Cons.IH by auto
      then have "c # s = (c # u) @ p @ v" by simp
      then show ?thesis by blast
    qed
  next
    assume "\<exists>u v. c # s = u @ p @ v"
    then obtain u v where uv: "c # s = u @ p @ v" by blast
    show "contains (c # s) p"
    proof (cases u)
      case Nil
      with uv have "has_prefix (c # s) p" using pre by auto
      then show ?thesis by simp
    next
      case (Cons d u')
      with uv have "s = u' @ p @ v" by simp
      with Cons.IH show ?thesis by auto
    qed
  qed
qed

section \<open>Stable sorting\<close>

text \<open>\<open>sort.SliceStable\<close> with the comparator \<open>lt\<close>.\<close>

fun insert_by :: "('a \<Rightarrow> 'a \<Rightarrow> bool) \<Rightarrow> 'a \<Rightarrow> 'a list \<Rightarrow> 'a list" where
  "insert_by lt x [] = [x]"
| "insert_by lt x (y # ys) =
     (if lt y x then y # insert_by lt x ys else x # y # ys)"

definition sort_by :: "('a \<Rightarrow> 'a \<Rightarrow> bool) \<Rightarrow> 'a list \<Rightarrow> 'a list" where
  "sort_by lt xs = foldr (insert_by lt) xs []"

lemma sort_by_Nil [simp]: "sort_by lt [] = []"
  by (simp add: sort_by_def)

lemma set_insert_by [simp]: "set (insert_by lt x xs) = insert x (set xs)"
  by (induction xs) auto

lemma length_insert_by [simp]: "length (insert_by lt x xs) = Suc (length xs)"
  by (induction xs) auto

lemma mset_insert_by [simp]: "mset (insert_by lt x xs) = add_mset x (mset xs)"
  by (induction xs) auto

lemma mset_sort_by [simp]: "mset (sort_by lt xs) = mset xs"
  unfolding sort_by_def by (induction xs) auto

lemma set_sort_by [simp]: "set (sort_by lt xs) = set xs"
  using mset_sort_by by (metis set_mset_mset)

lemma length_sort_by [simp]: "length (sort_by lt xs) = length xs"
  using mset_sort_by by (metis size_mset)

lemma sort_by_eq_Nil [simp]: "sort_by lt xs = [] \<longleftrightarrow> xs = []"
  using length_sort_by by (metis length_0_conv)

text \<open>
  The contract of a comparator: it compares some key in a linear order.  With it, Go's
  stable sort is the library's stable \<open>sort_key\<close>.
\<close>

locale keyed_order =
  fixes lt :: "'a \<Rightarrow> 'a \<Rightarrow> bool"
    and key :: "'a \<Rightarrow> 'k::linorder"
  assumes less_key: "lt a b \<longleftrightarrow> key a < key b"
begin

lemma insert_by_insort: "insert_by lt x xs = insort_key key x xs"
  by (induction xs) (auto simp: less_key not_less)

lemma sort_by_sort_key: "sort_by lt xs = sort_key key xs"
  unfolding sort_by_def sort_key_def by (induction xs) (simp_all add: insert_by_insort)

lemma sorted_sort_by: "sorted (map key (sort_by lt xs))"
  by (simp add: sort_by_sort_key)

lemma sort_by_hd_least:
  assumes "y \<in> set xs"
  shows "key (hd (sort_by lt xs)) \<le> key y"
proof -
  from assms have "y \<in> set (sort_by lt xs)" by simp
  then obtain x zs where xs: "sort_by lt xs = x # zs" and "y = x \<or> y \<in> set zs"
    by (cases "sort_by lt xs") auto
  moreover have "\<forall>z \<in> set zs. key x \<le> key z"
    using sorted_sort_by [of xs] by (simp add: xs)
  ultimately show ?thesis by auto
qed

lemma sort_by_stable:
  "filter (\<lambda>x. key x = k) (sort_by lt xs) = filter (\<lambda>x. key x = k) xs"
  by (simp add: sort_by_sort_key sort_key_stable)

end

section \<open>Status machines\<close>

text \<open>
  The contract of every status type of the program: a \<open>CanTransitionTo\<close> relation that
  allows staying put and, from a terminal status, nothing else.
\<close>

locale status_fsm =
  fixes can :: "'s \<Rightarrow> 's \<Rightarrow> bool"
    and terminal :: "'s \<Rightarrow> bool"
  assumes can_refl: "can s s"
    and terminal_stuck: "terminal s \<Longrightarrow> can s t \<Longrightarrow> t = s"
begin

text \<open>A history is a list of statuses, each reachable from the one before.\<close>

fun history_ok :: "'s \<Rightarrow> 's list \<Rightarrow> bool" where
  "history_ok s [] \<longleftrightarrow> True"
| "history_ok s (t # ts) \<longleftrightarrow> can s t \<and> history_ok t ts"

lemma terminal_forever:
  assumes "terminal s" and "history_ok s ts"
  shows "set ts \<subseteq> {s}"
  using assms
proof (induction ts arbitrary: s)
  case Nil
  then show ?case by simp
next
  case (Cons t ts)
  then have "t = s" by (auto dest: terminal_stuck)
  with Cons show ?case by auto
qed

lemma terminal_no_exit: "terminal s \<Longrightarrow> t \<noteq> s \<Longrightarrow> \<not> can s t"
  using terminal_stuck by blast

end

section \<open>Spending once\<close>

text \<open>
  The contract shared by the components that hand out something at most once: an operation
  that consumes \<open>i\<close> succeeds only while \<open>i\<close> is unspent, and spends it for good.  It is
  provided by the approval store (consuming an approval), by the executor (simulating a
  decision) and by the incident engine (processing a signal).
\<close>

locale consume_once =
  fixes step :: "'op \<Rightarrow> 's \<Rightarrow> bool \<times> 's"
    and consumes :: "'id \<Rightarrow> 'op \<Rightarrow> bool"
    and spent :: "'s \<Rightarrow> 'id \<Rightarrow> bool"
    and inv :: "'s \<Rightarrow> bool"
  assumes inv_step: "inv s \<Longrightarrow> inv (snd (step op s))"
    and spent_step: "inv s \<Longrightarrow> spent s i \<Longrightarrow> spent (snd (step op s)) i"
    and consume_fresh: "inv s \<Longrightarrow> consumes i op \<Longrightarrow> fst (step op s) \<Longrightarrow> \<not> spent s i"
    and consume_spends: "inv s \<Longrightarrow> consumes i op \<Longrightarrow> fst (step op s) \<Longrightarrow> spent (snd (step op s)) i"
begin

fun run :: "'op list \<Rightarrow> 's \<Rightarrow> 's" where
  "run [] s = s"
| "run (op # ops) s = run ops (snd (step op s))"

text \<open>The number of operations of a run that consume \<open>i\<close> and succeed.\<close>

fun successes :: "'id \<Rightarrow> 'op list \<Rightarrow> 's \<Rightarrow> nat" where
  "successes i [] s = 0"
| "successes i (op # ops) s =
     (if consumes i op \<and> fst (step op s) then 1 else 0) + successes i ops (snd (step op s))"

lemma run_inv: "inv s \<Longrightarrow> inv (run ops s)"
  by (induction ops arbitrary: s) (auto intro: inv_step)

lemma run_spent: "inv s \<Longrightarrow> spent s i \<Longrightarrow> spent (run ops s) i"
  by (induction ops arbitrary: s) (auto intro: inv_step spent_step)

lemma spent_no_success: "inv s \<Longrightarrow> spent s i \<Longrightarrow> successes i ops s = 0"
  by (induction ops arbitrary: s) (auto intro: inv_step spent_step dest: consume_fresh)

lemma at_most_one_success: "inv s \<Longrightarrow> successes i ops s \<le> 1"
proof (induction ops arbitrary: s)
  case Nil
  then show ?case by simp
next
  case (Cons op ops)
  then have inv': "inv (snd (step op s))" by (blast intro: inv_step)
  show ?case
  proof (cases "consumes i op \<and> fst (step op s)")
    case True
    then have "spent (snd (step op s)) i" using Cons.prems by (blast intro: consume_spends)
    then show ?thesis using True inv' by (simp add: spent_no_success)
  next
    case False
    then show ?thesis using Cons.IH [OF inv'] by auto
  qed
qed

lemma success_spends: "inv s \<Longrightarrow> 0 < successes i ops s \<Longrightarrow> spent (run ops s) i"
proof (induction ops arbitrary: s)
  case Nil
  then show ?case by simp
next
  case (Cons op ops)
  then have inv': "inv (snd (step op s))" by (blast intro: inv_step)
  then show ?case
    using Cons by (auto intro: run_spent consume_spends split: if_splits)
qed

end

section \<open>Tables\<close>

text \<open>
  A database table is the list of its rows in insertion order.  \<open>update_where\<close> is
  \<open>UPDATE ... SET f WHERE p\<close>; its count is \<open>RowsAffected\<close>.
\<close>

definition update_where :: "('r \<Rightarrow> bool) \<Rightarrow> ('r \<Rightarrow> 'r) \<Rightarrow> 'r list \<Rightarrow> 'r list" where
  "update_where p f rs = map (\<lambda>r. if p r then f r else r) rs"

definition rows_affected :: "('r \<Rightarrow> bool) \<Rightarrow> 'r list \<Rightarrow> nat" where
  "rows_affected p rs = length (filter p rs)"

lemma length_update_where [simp]: "length (update_where p f rs) = length rs"
  by (simp add: update_where_def)

lemma map_update_where:
  "(\<And>r. p r \<Longrightarrow> g (f r) = g r) \<Longrightarrow> map g (update_where p f rs) = map g rs"
  by (simp add: update_where_def)

lemma find_key_update_where:
  assumes "\<And>r. g (f r) = g r"
  shows "find (\<lambda>r. g r = k) (update_where p f rs) =
         map_option (\<lambda>r. if p r then f r else r) (find (\<lambda>r. g r = k) rs)"
  by (induction rs) (auto simp: update_where_def assms)

lemma update_where_False [simp]: "update_where (\<lambda>_. False) f rs = rs"
  by (simp add: update_where_def)

lemma update_where_none: "rows_affected p rs = 0 \<Longrightarrow> update_where p f rs = rs"
  by (auto simp: rows_affected_def update_where_def filter_empty_conv map_idI)

lemma rows_affected_le: "rows_affected p rs \<le> length rs"
  by (simp add: rows_affected_def)

lemma rows_affected_update_where:
  "(\<And>r. p r \<Longrightarrow> \<not> p (f r)) \<Longrightarrow> rows_affected p (update_where p f rs) = 0"
  by (auto simp: rows_affected_def update_where_def filter_empty_conv)

end
