(* ===== verification/Domain_Types.thy ===== *)
theory Domain_Types
  imports Prelude
begin

text \<open>
  The data contracts of \<open>shared/types\<close>: registration, heartbeat, telemetry, incident,
  mitigation and anomaly payloads, their \<open>Validate\<close> methods, and the status machines.

  A Go string enumeration is a datatype with one constructor per declared constant and an
  \<open>Other\<close> constructor for every further string the type can hold, so the branches that
  reject unknown values stay in the model.  A validation error is \<open>None\<close> (nil) or the sentinel the code returns.
\<close>

datatype type_err =
    ErrEmptyNodeID | ErrEmptyBatchID | ErrEmptyIncidentID | ErrEmptyHostname
  | ErrInvalidSequence | ErrEmptyMetrics | ErrInvalidSeverity | ErrInvalidStatus
  | ErrInvalidNodeStatus | ErrInvalidTimestamp | ErrEmptyMetricName | ErrInvalidMetricValue
  | ErrEmptyActionID | ErrInvalidActionType | ErrInvalidActionStatus | ErrEmptyRuleName
  | ErrMismatchedIncidentID | ErrMismatchedNodeID
  | ErrInvalidResolvedTimestamp | ErrInvalidCompletedTime | ErrInvalidFailureClassification
  | ErrEmptyAnomalyID | ErrEmptyDetectionMethod | ErrEmptyDetectorVersion
  | ErrInvalidAnomalyScore | ErrInvalidDeviation | ErrInvalidExpectedValue
  | ErrInvalidObservedValue

section \<open>Registration and heartbeat\<close>

record node_registration =
  nr_node_id :: string
  nr_hostname :: string
  nr_os :: string
  nr_architecture :: string
  nr_ip_address :: string
  nr_agent_version :: string
  nr_capabilities :: "string list"
  nr_labels :: gomap
  nr_registered_at :: gotime
  nr_updated_at :: "gotime option"
  nr_metadata_version :: int

definition node_registration_validate :: "node_registration \<Rightarrow> type_err option" where
  "node_registration_validate n =
     (if blank (nr_node_id n) then Some ErrEmptyNodeID
      else if blank (nr_hostname n) then Some ErrEmptyHostname
      else if is_zero (nr_registered_at n) then Some ErrInvalidTimestamp
      else if (case nr_updated_at n of None \<Rightarrow> False | Some t \<Rightarrow> is_zero t)
        then Some ErrInvalidTimestamp
      else if nr_metadata_version n < 0 then Some ErrInvalidSequence
      else None)"

datatype node_status = NodeStatusHealthy | NodeStatusDegraded | NodeStatusOffline
  | NodeStatusOther string

fun node_status_valid :: "node_status \<Rightarrow> bool" where
  "node_status_valid (NodeStatusOther _) = False"
| "node_status_valid _ = True"

record heartbeat =
  hb_node_id :: string
  hb_sequence_number :: int
  hb_timestamp :: gotime
  hb_status :: node_status
  hb_metrics_summary :: "(string \<times> float64) list"

definition heartbeat_validate :: "heartbeat \<Rightarrow> type_err option" where
  "heartbeat_validate h =
     (if blank (hb_node_id h) then Some ErrEmptyNodeID
      else if hb_sequence_number h < 0 then Some ErrInvalidSequence
      else if is_zero (hb_timestamp h) then Some ErrInvalidTimestamp
      else if \<not> node_status_valid (hb_status h) then Some ErrInvalidNodeStatus
      else None)"

section \<open>Telemetry\<close>

record metric_sample =
  ms_sample_id :: string
  ms_node_id :: string
  ms_name :: string
  ms_value :: float64
  ms_unit :: string
  ms_labels :: gomap
  ms_timestamp :: gotime

definition metric_sample_validate :: "metric_sample \<Rightarrow> type_err option" where
  "metric_sample_validate m =
     (if blank (ms_name m) then Some ErrEmptyMetricName
      else if \<not> is_finite (ms_value m) then Some ErrInvalidMetricValue
      else if is_zero (ms_timestamp m) then Some ErrInvalidTimestamp
      else None)"

record telemetry_batch =
  tb_batch_id :: string
  tb_node_id :: string
  tb_sequence_number :: int
  tb_collected_at :: gotime
  tb_sent_at :: "gotime option"
  tb_attempt :: int
  tb_metrics :: "metric_sample list"

fun validate_samples :: "string \<Rightarrow> metric_sample list \<Rightarrow> type_err option" where
  "validate_samples node [] = None"
| "validate_samples node (m # ms) =
     (case metric_sample_validate m of
        Some e \<Rightarrow> Some e
      | None \<Rightarrow>
          if ms_node_id m \<noteq> [] \<and> ms_node_id m \<noteq> node then Some ErrMismatchedNodeID
          else validate_samples node ms)"

definition telemetry_batch_validate :: "telemetry_batch \<Rightarrow> type_err option" where
  "telemetry_batch_validate b =
     (if blank (tb_batch_id b) then Some ErrEmptyBatchID
      else if blank (tb_node_id b) then Some ErrEmptyNodeID
      else if tb_sequence_number b < 0 then Some ErrInvalidSequence
      else if is_zero (tb_collected_at b) then Some ErrInvalidTimestamp
      else if tb_metrics b = [] then Some ErrEmptyMetrics
      else validate_samples (tb_node_id b) (tb_metrics b))"

lemma validate_samples_None:
  "validate_samples node ms = None \<longleftrightarrow>
     (\<forall>m \<in> set ms. metric_sample_validate m = None \<and> (ms_node_id m = [] \<or> ms_node_id m = node))"
  by (induction ms) (auto split: option.splits)

section \<open>Status machines\<close>

datatype action_type = ActionSimulatedThrottle | ActionSimulatedRestart
  | ActionSimulatedIsolate | ActionSimulatedAlert | ActionOther string

fun action_type_valid :: "action_type \<Rightarrow> bool" where
  "action_type_valid (ActionOther _) = False"
| "action_type_valid _ = True"

text \<open>\<open>string(actionType)\<close>.\<close>

fun action_type_string :: "action_type \<Rightarrow> string" where
  "action_type_string ActionSimulatedThrottle = ''SIMULATED_THROTTLE''"
| "action_type_string ActionSimulatedRestart = ''SIMULATED_RESTART''"
| "action_type_string ActionSimulatedIsolate = ''SIMULATED_ISOLATE''"
| "action_type_string ActionSimulatedAlert = ''SIMULATED_ALERT''"
| "action_type_string (ActionOther s) = s"

datatype mitigation_status = MitigationPending | MitigationExecuting | MitigationExecuted
  | MitigationFailed | MitigationSkipped | MitigationUnknownReconciliationRequired
  | MitigationOther string

fun mitigation_status_valid :: "mitigation_status \<Rightarrow> bool" where
  "mitigation_status_valid (MitigationOther _) = False"
| "mitigation_status_valid _ = True"

datatype approval_status = ApprovalPending | ApprovalApproved | ApprovalConsumed
  | ApprovalRejected | ApprovalExpired | ApprovalCancelled | ApprovalOther string

fun approval_status_valid :: "approval_status \<Rightarrow> bool" where
  "approval_status_valid (ApprovalOther _) = False"
| "approval_status_valid _ = True"

fun approval_terminal :: "approval_status \<Rightarrow> bool" where
  "approval_terminal ApprovalConsumed = True"
| "approval_terminal ApprovalRejected = True"
| "approval_terminal ApprovalExpired = True"
| "approval_terminal ApprovalCancelled = True"
| "approval_terminal _ = False"

definition approval_can :: "approval_status \<Rightarrow> approval_status \<Rightarrow> bool" where
  "approval_can s next \<longleftrightarrow>
     (if s = next then True
      else case s of
        ApprovalPending \<Rightarrow> next = ApprovalApproved \<or> next = ApprovalRejected \<or>
                           next = ApprovalExpired \<or> next = ApprovalCancelled
      | ApprovalApproved \<Rightarrow> next = ApprovalConsumed \<or> next = ApprovalExpired
      | _ \<Rightarrow> False)"

datatype verification_status = VerificationPending | VerificationRecovered
  | VerificationNotRecovered | VerificationTimedOut | VerificationCancelled
  | VerificationOther string

fun verification_status_valid :: "verification_status \<Rightarrow> bool" where
  "verification_status_valid (VerificationOther _) = False"
| "verification_status_valid _ = True"

fun verification_terminal :: "verification_status \<Rightarrow> bool" where
  "verification_terminal VerificationRecovered = True"
| "verification_terminal VerificationNotRecovered = True"
| "verification_terminal VerificationTimedOut = True"
| "verification_terminal VerificationCancelled = True"
| "verification_terminal _ = False"

definition verification_can :: "verification_status \<Rightarrow> verification_status \<Rightarrow> bool" where
  "verification_can s next \<longleftrightarrow>
     (if s = next then True
      else case s of
        VerificationPending \<Rightarrow> next = VerificationRecovered \<or> next = VerificationNotRecovered \<or>
                               next = VerificationTimedOut \<or> next = VerificationCancelled
      | _ \<Rightarrow> False)"

datatype failure_class = FailureMitigationFailed | FailureVerificationTimedOut
  | FailureVerificationRejected | FailureUnknownReconciliationRequired
  | FailureCooldownActive | FailureRetryBudgetExhausted | FailureCircuitBreakerOpen
  | FailureOther string

fun failure_class_valid :: "failure_class \<Rightarrow> bool" where
  "failure_class_valid (FailureOther _) = False"
| "failure_class_valid _ = True"

datatype circuit_state = CircuitClosed | CircuitOpen | CircuitOther string

fun circuit_state_valid :: "circuit_state \<Rightarrow> bool" where
  "circuit_state_valid (CircuitOther _) = False"
| "circuit_state_valid _ = True"

datatype escalation_status = EscalationPending | EscalationEscalated | EscalationResolved
  | EscalationOther string

fun escalation_status_valid :: "escalation_status \<Rightarrow> bool" where
  "escalation_status_valid (EscalationOther _) = False"
| "escalation_status_valid _ = True"

definition escalation_terminal :: "escalation_status \<Rightarrow> bool" where
  "escalation_terminal s \<longleftrightarrow> s = EscalationResolved"

definition escalation_can :: "escalation_status \<Rightarrow> escalation_status \<Rightarrow> bool" where
  "escalation_can s next \<longleftrightarrow>
     (if s = next then True
      else case s of
        EscalationPending \<Rightarrow> next = EscalationEscalated \<or> next = EscalationResolved
      | EscalationEscalated \<Rightarrow> next = EscalationResolved
      | _ \<Rightarrow> False)"

interpretation approval_fsm: status_fsm approval_can approval_terminal
  by unfold_locales (auto simp: approval_can_def split: approval_status.splits if_splits)

interpretation verification_fsm: status_fsm verification_can verification_terminal
  by unfold_locales (auto simp: verification_can_def split: verification_status.splits if_splits)

interpretation escalation_fsm: status_fsm escalation_can escalation_terminal
  by unfold_locales (auto simp: escalation_can_def escalation_terminal_def split: if_splits)

section \<open>Mitigation actions\<close>

record mitigation_action =
  ma_action_id :: string
  ma_incident_id :: string
  ma_action_type :: action_type
  ma_target :: string
  ma_status :: mitigation_status
  ma_message :: msg
  ma_error :: msg
  ma_triggered_at :: gotime
  ma_completed_at :: "gotime option"

text \<open>\<open>t != nil && t.Before(u)\<close>.\<close>

definition ptr_before :: "gotime option \<Rightarrow> gotime \<Rightarrow> bool" where
  "ptr_before p t \<longleftrightarrow> (case p of None \<Rightarrow> False | Some x \<Rightarrow> x < t)"

definition mitigation_action_validate :: "mitigation_action \<Rightarrow> type_err option" where
  "mitigation_action_validate a =
     (if blank (ma_action_id a) then Some ErrEmptyActionID
      else if blank (ma_incident_id a) then Some ErrEmptyIncidentID
      else if \<not> action_type_valid (ma_action_type a) then Some ErrInvalidActionType
      else if \<not> mitigation_status_valid (ma_status a) then Some ErrInvalidActionStatus
      else if is_zero (ma_triggered_at a) then Some ErrInvalidTimestamp
      else if ptr_before (ma_completed_at a) (ma_triggered_at a) then Some ErrInvalidCompletedTime
      else None)"

section \<open>Incidents\<close>

datatype severity = SeverityLow | SeverityMedium | SeverityHigh | SeverityCritical
  | SeverityOther string

fun severity_valid :: "severity \<Rightarrow> bool" where
  "severity_valid (SeverityOther _) = False"
| "severity_valid _ = True"

datatype incident_status = StatusNormal | StatusAnomalyDetected | StatusMitigating
  | StatusRecovered | StatusEscalated | StatusOther string

fun incident_status_valid :: "incident_status \<Rightarrow> bool" where
  "incident_status_valid (StatusOther _) = False"
| "incident_status_valid _ = True"

definition incident_can :: "incident_status \<Rightarrow> incident_status \<Rightarrow> bool" where
  "incident_can s next \<longleftrightarrow>
     (case s of
        StatusNormal \<Rightarrow> next = StatusAnomalyDetected
      | StatusAnomalyDetected \<Rightarrow> next = StatusMitigating \<or> next = StatusEscalated
      | StatusMitigating \<Rightarrow> next = StatusRecovered \<or> next = StatusEscalated
      | StatusRecovered \<Rightarrow> next = StatusNormal
      | StatusEscalated \<Rightarrow> next = StatusRecovered \<or> next = StatusNormal
      | StatusOther _ \<Rightarrow> False)"

record incident =
  inc_id :: string
  inc_node_id :: string
  inc_rule_name :: string
  inc_severity :: severity
  inc_status :: incident_status
  inc_description :: msg
  inc_trigger_metric :: string
  inc_trigger_value :: float64
  inc_threshold :: float64
  inc_evidence :: "(string \<times> msg) list option"
  inc_triggered_at :: gotime
  inc_updated_at :: gotime
  inc_resolved_at :: "gotime option"
  inc_mitigations :: "mitigation_action list"

fun validate_mitigations :: "string \<Rightarrow> mitigation_action list \<Rightarrow> type_err option" where
  "validate_mitigations iid [] = None"
| "validate_mitigations iid (m # ms) =
     (case mitigation_action_validate m of
        Some e \<Rightarrow> Some e
      | None \<Rightarrow> if ma_incident_id m \<noteq> iid then Some ErrMismatchedIncidentID
                else validate_mitigations iid ms)"

definition incident_validate :: "incident \<Rightarrow> type_err option" where
  "incident_validate inc =
     (if blank (inc_id inc) then Some ErrEmptyIncidentID
      else if blank (inc_node_id inc) then Some ErrEmptyNodeID
      else if blank (inc_rule_name inc) then Some ErrEmptyRuleName
      else if \<not> severity_valid (inc_severity inc) then Some ErrInvalidSeverity
      else if \<not> incident_status_valid (inc_status inc) then Some ErrInvalidStatus
      else if is_zero (inc_triggered_at inc) then Some ErrInvalidTimestamp
      else if ptr_before (inc_resolved_at inc) (inc_triggered_at inc)
        then Some ErrInvalidResolvedTimestamp
      else validate_mitigations (inc_id inc) (inc_mitigations inc))"

text \<open>\<open>TransitionTo\<close>: \<open>None\<close> is \<open>ErrInvalidStateTransition\<close>, which leaves the incident alone.\<close>

definition transition_to :: "incident_status \<Rightarrow> gotime \<Rightarrow> incident \<Rightarrow> incident option" where
  "transition_to next now inc =
     (if \<not> incident_can (inc_status inc) next then None
      else Some (let inc' = inc\<lparr>inc_status := next, inc_updated_at := now\<rparr>
                 in if next = StatusRecovered \<or> next = StatusNormal
                    then inc'\<lparr>inc_resolved_at := Some now\<rparr> else inc'))"

lemma transition_to_Some:
  "transition_to next now inc = Some inc' \<Longrightarrow>
     incident_can (inc_status inc) next \<and> inc_status inc' = next \<and> inc_updated_at inc' = now \<and>
     inc_id inc' = inc_id inc \<and> inc_node_id inc' = inc_node_id inc \<and>
     inc_trigger_metric inc' = inc_trigger_metric inc \<and>
     inc_triggered_at inc' = inc_triggered_at inc"
  by (auto simp: transition_to_def Let_def split: if_splits)

lemma transition_to_None:
  "transition_to next now inc = None \<longleftrightarrow> \<not> incident_can (inc_status inc) next"
  by (simp add: transition_to_def)

lemma incident_can_valid:
  "incident_can s t \<Longrightarrow> incident_status_valid s \<and> incident_status_valid t"
  by (auto simp: incident_can_def split: incident_status.splits)

text \<open>A transition keeps a valid incident valid, provided the clock is not behind the trigger.\<close>

lemma transition_to_validate:
  assumes "transition_to next now inc = Some inc'" and "incident_validate inc = None"
    and "inc_triggered_at inc \<le> now"
  shows "incident_validate inc' = None"
  using assms incident_can_valid [of "inc_status inc" "next"]
  by (auto simp: transition_to_def incident_validate_def Let_def ptr_before_def
           split: if_splits option.splits)

section \<open>Anomaly signals\<close>

record anomaly_signal =
  as_anomaly_id :: string
  as_node_id :: string
  as_metric_name :: string
  as_observed_value :: float64
  as_expected_value :: float64
  as_deviation :: float64
  as_anomaly_score :: float64
  as_detection_method :: string
  as_detected_at :: gotime
  as_evidence :: "(string \<times> msg) list option"
  as_correlation_id :: string
  as_detector_version :: string

definition anomaly_signal_validate :: "anomaly_signal \<Rightarrow> type_err option" where
  "anomaly_signal_validate a =
     (if blank (as_anomaly_id a) then Some ErrEmptyAnomalyID
      else if blank (as_node_id a) then Some ErrEmptyNodeID
      else if blank (as_metric_name a) then Some ErrEmptyMetricName
      else if \<not> is_finite (as_observed_value a) then Some ErrInvalidObservedValue
      else if \<not> is_finite (as_expected_value a) then Some ErrInvalidExpectedValue
      else if \<not> is_finite (as_deviation a) then Some ErrInvalidDeviation
      else if \<not> is_finite (as_anomaly_score a) \<or> flt (as_anomaly_score a) (Fin 0)
              \<or> flt (Fin 1) (as_anomaly_score a) then Some ErrInvalidAnomalyScore
      else if blank (as_detection_method a) then Some ErrEmptyDetectionMethod
      else if is_zero (as_detected_at a) then Some ErrInvalidTimestamp
      else if blank (as_detector_version a) then Some ErrEmptyDetectorVersion
      else None)"

lemma anomaly_signal_validate_None:
  assumes "anomaly_signal_validate a = None"
  shows "\<not> blank (as_anomaly_id a)" "\<not> blank (as_node_id a)" "\<not> blank (as_metric_name a)"
    "as_detected_at a \<noteq> 0"
    "\<exists>q. as_anomaly_score a = Fin q \<and> 0 \<le> q \<and> q \<le> 1"
    "\<exists>q. as_observed_value a = Fin q" "\<exists>q. as_deviation a = Fin q"
  using assms
  by (auto simp: anomaly_signal_validate_def is_zero_def not_less
           split: if_splits elim!: is_finite.elims)

end
