(* ===== verification/Response_Decision.thy ===== *)
theory Response_Decision
  imports Domain_Types
begin

text \<open>
  \<open>edge/agent/response/allowlist.go\<close> and \<open>decision.go\<close>: the closed allowlist of action
  types, the payload and target screens, the candidate decision and its deterministic
  identity.

  The digest \<open>sha :: string \<Rightarrow> nat list\<close> (the bytes SHA-256 yields) is an argument of the
  definitions that use it; nothing here depends on what it computes.
\<close>

type_synonym digest = "string \<Rightarrow> nat list"

section \<open>Allowlist\<close>

definition allowlisted_actions :: "action_type list" where
  "allowlisted_actions =
     [ActionSimulatedAlert, ActionSimulatedThrottle, ActionSimulatedRestart, ActionSimulatedIsolate]"

definition dangerous_keywords :: "string list" where
  "dangerous_keywords =
     [''rm '', ''rmdir'', ''kill'', ''pkill'', ''killall'', ''shutdown'', ''reboot'', ''halt'', ''poweroff'',
      ''/bin/sh'', ''/bin/bash'', ''cmd.exe'', ''powershell'', ''powershell.exe'',
      ''eval('', ''eval '', ''exec('', ''exec '', ''system('', ''system '', ''systemctl'', ''mkfs'', ''dd '', ''chmod'', ''chown'',
      ''curl'', ''wget'', ''nc '', ''netcat'', ''iptables'', ''nftables'', ''ufw'']"

definition dangerous_shell_chars :: "char list" where
  "dangerous_shell_chars =
     [CHR ''|'', CHR '';'', CHR ''&'', CHR 0x60, CHR ''$'', CHR ''('', CHR '')'', CHR ''{'', CHR ''}'',
      CHR ''<'', CHR ''>'', CHR 0x0A, CHR 0x0D, CHR 0x00]"

definition is_allowlisted :: "action_type \<Rightarrow> bool" where
  "is_allowlisted a \<longleftrightarrow> \<not> blank (action_type_string a) \<and> a \<in> set allowlisted_actions"

definition contains_dangerous_payload :: "string \<Rightarrow> bool" where
  "contains_dangerous_payload s \<longleftrightarrow>
     (let lower = to_lower s
      in list_ex (\<lambda>ch. contains s [ch]) dangerous_shell_chars \<or>
         list_ex (\<lambda>kw. contains lower kw) dangerous_keywords)"

definition prohibited_commands :: "string list" where
  "prohibited_commands =
     [''bash'', ''sh'', ''zsh'', ''cmd'', ''powershell'', ''powershell.exe'',
      ''kill'', ''pkill'', ''killall'', ''rm'', ''rmdir'', ''shutdown'', ''reboot'',
      ''halt'', ''poweroff'', ''init'', ''systemctl'', ''service'', ''eval'', ''exec'']"

definition safe_rune :: "char \<Rightarrow> bool" where
  "safe_rune c \<longleftrightarrow>
     (97 \<le> byte c \<and> byte c \<le> 122) \<or> (65 \<le> byte c \<and> byte c \<le> 90) \<or>
     (48 \<le> byte c \<and> byte c \<le> 57) \<or> c = CHR ''_'' \<or> c = CHR ''-'' \<or> c = CHR '':''"

definition is_valid_target :: "string \<Rightarrow> bool" where
  "is_valid_target target \<longleftrightarrow>
     (let t = trim_space target
      in if t = [] \<or> length t > 64 then False
         else if list_ex (\<lambda>c. c \<in> {CHR '' '', CHR 0x09, CHR 0x0A, CHR 0x0D}) t then False
         else if contains_dangerous_payload t then False
         else if to_lower t \<in> set prohibited_commands then False
         else list_all safe_rune t)"

lemma is_allowlisted_iff: "is_allowlisted a \<longleftrightarrow> action_type_valid a"
proof -
  have "\<not> blank ''SIMULATED_THROTTLE''" "\<not> blank ''SIMULATED_RESTART''"
    "\<not> blank ''SIMULATED_ISOLATE''" "\<not> blank ''SIMULATED_ALERT''"
    by code_simp+
  then show ?thesis
    by (cases a) (auto simp: is_allowlisted_def allowlisted_actions_def)
qed

text \<open>What the target screen guarantees of the trimmed target.\<close>

lemma is_valid_target_safe:
  assumes "is_valid_target t"
  shows "trim_space t \<noteq> []" "length (trim_space t) \<le> 64" "\<forall>c \<in> set (trim_space t). safe_rune c"
    "\<not> contains_dangerous_payload (trim_space t)"
    "to_lower (trim_space t) \<notin> set prohibited_commands"
  using assms by (auto simp: is_valid_target_def Let_def list_all_iff split: if_splits)

lemma is_valid_target_not_blank: "is_valid_target t \<Longrightarrow> \<not> blank t"
  by (auto simp: is_valid_target_def blank_def Let_def)

lemma safe_rune_not_meta: "safe_rune c \<Longrightarrow> c \<notin> set dangerous_shell_chars"
  by (auto simp: safe_rune_def dangerous_shell_chars_def byte_def)

section \<open>Decisions\<close>

datatype execution_mode = ModeDryRun | ModeAutoExecute | ModeApprovalRequired | ModeOther string

fun execution_mode_valid :: "execution_mode \<Rightarrow> bool" where
  "execution_mode_valid (ModeOther _) = False"
| "execution_mode_valid _ = True"

datatype auth_class = AuthAutoExecute | AuthApprovalRequired | AuthForbidden | AuthOther string

fun auth_class_valid :: "auth_class \<Rightarrow> bool" where
  "auth_class_valid (AuthOther _) = False"
| "auth_class_valid _ = True"

fun auth_class_string :: "auth_class \<Rightarrow> string" where
  "auth_class_string AuthAutoExecute = ''AUTO_EXECUTE''"
| "auth_class_string AuthApprovalRequired = ''APPROVAL_REQUIRED''"
| "auth_class_string AuthForbidden = ''FORBIDDEN''"
| "auth_class_string (AuthOther s) = s"

record decision =
  dec_id :: string
  dec_incident_id :: string
  dec_node_id :: string
  dec_rule_id :: string
  dec_action_type :: action_type
  dec_target :: string
  dec_parameters :: gomap
  dec_auth_class :: auth_class
  dec_reason :: string
  dec_policy_name :: string
  dec_policy_version :: string
  dec_mode :: execution_mode
  dec_timestamp :: gotime
  dec_evidence :: "(string \<times> msg) list"

definition compute_decision_id ::
  "digest \<Rightarrow> string \<Rightarrow> string \<Rightarrow> string \<Rightarrow> action_type \<Rightarrow> string \<Rightarrow> string" where
  "compute_decision_id sha incident_id policy_name policy_version act target =
     ''dec-'' @ hex_bytes (take 12 (sha (join '':''
       [trim_space incident_id, trim_space policy_name, trim_space policy_version,
        trim_space (action_type_string act), trim_space target])))"

datatype decision_err =
    ErrEmptyDecisionID | DecEmptyIncidentID | DecEmptyNodeID | ErrActionNotAllowlisted
  | ErrEmptyTarget | ErrInvalidTarget | ErrInvalidAuthClass | ErrEmptyPolicyName
  | ErrInvalidPolicyVer | ErrInvalidExecMode | ErrZeroTimestamp
  | ErrDecisionMismatch string string

definition decision_validate :: "digest \<Rightarrow> decision \<Rightarrow> decision_err option" where
  "decision_validate sha d =
     (if blank (dec_id d) then Some ErrEmptyDecisionID
      else if blank (dec_incident_id d) then Some DecEmptyIncidentID
      else if blank (dec_node_id d) then Some DecEmptyNodeID
      else if \<not> action_type_valid (dec_action_type d) \<or> \<not> is_allowlisted (dec_action_type d)
        then Some ErrActionNotAllowlisted
      else if blank (dec_target d) then Some ErrEmptyTarget
      else if \<not> is_valid_target (dec_target d) then Some ErrInvalidTarget
      else if \<not> auth_class_valid (dec_auth_class d) then Some ErrInvalidAuthClass
      else if blank (dec_policy_name d) then Some ErrEmptyPolicyName
      else if blank (dec_policy_version d) then Some ErrInvalidPolicyVer
      else if \<not> execution_mode_valid (dec_mode d) then Some ErrInvalidExecMode
      else if is_zero (dec_timestamp d) then Some ErrZeroTimestamp
      else let expected = compute_decision_id sha (dec_incident_id d) (dec_policy_name d)
             (dec_policy_version d) (dec_action_type d) (dec_target d)
           in if dec_id d \<noteq> expected then Some (ErrDecisionMismatch (dec_id d) expected) else None)"

lemma compute_decision_id_prefix:
  "has_prefix (compute_decision_id sha i n v a t) ''dec-''"
  "4 \<le> length (compute_decision_id sha i n v a t)"
  by (simp_all add: compute_decision_id_def has_prefix_def)

lemma decision_validate_id:
  "decision_validate sha d = None \<Longrightarrow>
     dec_id d = compute_decision_id sha (dec_incident_id d) (dec_policy_name d)
       (dec_policy_version d) (dec_action_type d) (dec_target d)"
  by (auto simp: decision_validate_def Let_def split: if_splits)

text \<open>The act identifiers built with \<open>DecisionID[4:]\<close>; a shorter identifier panics.\<close>

definition suffixed_id :: "string \<Rightarrow> string \<Rightarrow> string option" where
  "suffixed_id p did = map_option ((@) p) (slice_from 4 did)"

lemma suffixed_id_Some: "4 \<le> length did \<Longrightarrow> suffixed_id p did = Some (p @ drop 4 did)"
  by (simp add: suffixed_id_def slice_from_def)

lemma suffixed_id_None: "suffixed_id p did = None \<longleftrightarrow> length did < 4"
  by (simp add: suffixed_id_def slice_from_def)

lemma suffixed_id_prefix:
  "has_prefix did ''dec-'' \<Longrightarrow> suffixed_id p did = Some (p @ drop 4 did)"
  by (rule suffixed_id_Some) (auto simp: has_prefix_def dest: arg_cong [where f = length])

end
