(* ===== verification/Response_Policy.thy ===== *)
theory Response_Policy
  imports Response_Decision
begin

text \<open>
  \<open>edge/agent/response/policy.go\<close>: the rule table, the severity ranking, the ordering of
  candidate rules and \<open>RuleBasedPolicy.Evaluate\<close>, which turns an actionable incident into
  a candidate decision.
\<close>

record policy_rule =
  rule_id :: string
  rule_priority :: int
  rule_enabled :: bool
  rule_metric :: string
  rule_min_severity :: severity
  rule_action :: action_type
  rule_target :: string
  rule_parameters :: gomap
  rule_auth :: auth_class
  rule_cooldown :: duration
  rule_version :: string
  rule_reason :: string

record rule_policy =
  pol_name :: string
  pol_version :: string
  pol_mode :: execution_mode
  pol_rules :: "policy_rule list"
  pol_fallback :: "policy_rule option"

definition default_policy :: rule_policy where
  "default_policy = \<lparr>
     pol_name = ''default_edge_response_policy'', pol_version = ''1.0.0'', pol_mode = ModeDryRun,
     pol_rules =
       [\<lparr>rule_id = ''rule-cpu-throttle-01'', rule_priority = 100, rule_enabled = True,
          rule_metric = ''cpu_usage_percent'', rule_min_severity = SeverityHigh,
          rule_action = ActionSimulatedThrottle, rule_target = ''telemetry_generator'',
          rule_parameters = [(''throttle_percent'', ''50''), (''duration_sec'', ''300'')],
          rule_auth = AuthAutoExecute, rule_cooldown = 300 * second, rule_version = ''1.0.0'',
          rule_reason = ''CPU threshold exceeded with HIGH/CRITICAL severity; proposing throttle''\<rparr>,
        \<lparr>rule_id = ''rule-mem-restart-01'', rule_priority = 100, rule_enabled = True,
          rule_metric = ''memory_usage_percent'', rule_min_severity = SeverityCritical,
          rule_action = ActionSimulatedRestart, rule_target = ''collector'',
          rule_parameters = [(''grace_period_sec'', ''10'')],
          rule_auth = AuthAutoExecute, rule_cooldown = 300 * second, rule_version = ''1.0.0'',
          rule_reason = ''Memory threshold exceeded with CRITICAL severity; proposing worker restart''\<rparr>,
        \<lparr>rule_id = ''rule-disk-alert-01'', rule_priority = 50, rule_enabled = True,
          rule_metric = ''disk_usage_percent'', rule_min_severity = SeverityHigh,
          rule_action = ActionSimulatedAlert, rule_target = ''local_syslog'',
          rule_parameters = [(''priority'', ''HIGH'')],
          rule_auth = AuthAutoExecute, rule_cooldown = 60 * second, rule_version = ''1.0.0'',
          rule_reason = ''Disk threshold exceeded; proposing local high-priority alert''\<rparr>],
     pol_fallback = Some
       \<lparr>rule_id = ''rule-fallback-alert'', rule_priority = 0, rule_enabled = True,
          rule_metric = [], rule_min_severity = SeverityLow,
          rule_action = ActionSimulatedAlert, rule_target = ''local_syslog'',
          rule_parameters = [(''priority'', ''LOW'')],
          rule_auth = AuthAutoExecute, rule_cooldown = 60 * second, rule_version = ''1.0.0'',
          rule_reason = ''Standard operational anomaly breach; proposing low-priority alert''\<rparr>\<rparr>"

definition set_execution_mode :: "execution_mode \<Rightarrow> rule_policy \<Rightarrow> decision_err + rule_policy" where
  "set_execution_mode mode p =
     (if \<not> execution_mode_valid mode then Inl ErrInvalidExecMode else Inr (p\<lparr>pol_mode := mode\<rparr>))"

definition add_rule :: "policy_rule \<Rightarrow> rule_policy \<Rightarrow> rule_policy" where
  "add_rule r p = p\<lparr>pol_rules := pol_rules p @ [r]\<rparr>"

definition set_rules :: "policy_rule list \<Rightarrow> rule_policy \<Rightarrow> rule_policy" where
  "set_rules rs p = p\<lparr>pol_rules := rs\<rparr>"

definition set_fallback_rule :: "policy_rule \<Rightarrow> rule_policy \<Rightarrow> rule_policy" where
  "set_fallback_rule r p = p\<lparr>pol_fallback := Some r\<rparr>"

definition clear_fallback_rule :: "rule_policy \<Rightarrow> rule_policy" where
  "clear_fallback_rule p = p\<lparr>pol_fallback := None\<rparr>"

fun severity_rank :: "severity \<Rightarrow> int" where
  "severity_rank SeverityCritical = 4"
| "severity_rank SeverityHigh = 3"
| "severity_rank SeverityMedium = 2"
| "severity_rank SeverityLow = 1"
| "severity_rank (SeverityOther _) = 0"

definition severity_meets_or_exceeds :: "severity \<Rightarrow> severity \<Rightarrow> bool" where
  "severity_meets_or_exceeds actual min_required \<longleftrightarrow> severity_rank min_required \<le> severity_rank actual"

section \<open>Candidate rules and their order\<close>

definition rule_candidate :: "incident \<Rightarrow> policy_rule \<Rightarrow> bool" where
  "rule_candidate inc r \<longleftrightarrow>
     rule_enabled r \<and> severity_meets_or_exceeds (inc_severity inc) (rule_min_severity r) \<and>
     (rule_metric r = inc_trigger_metric inc \<or> rule_metric r = [] \<or> rule_metric r = ''*'')"

definition rule_specific :: "incident \<Rightarrow> policy_rule \<Rightarrow> bool" where
  "rule_specific inc r \<longleftrightarrow>
     rule_metric r = inc_trigger_metric inc \<and> rule_metric r \<noteq> [] \<and> rule_metric r \<noteq> ''*''"

definition rule_less :: "incident \<Rightarrow> policy_rule \<Rightarrow> policy_rule \<Rightarrow> bool" where
  "rule_less inc a b =
     (if rule_specific inc a \<noteq> rule_specific inc b then rule_specific inc a
      else if rule_priority a \<noteq> rule_priority b then rule_priority b < rule_priority a
      else if severity_rank (rule_min_severity a) \<noteq> severity_rank (rule_min_severity b)
        then severity_rank (rule_min_severity b) < severity_rank (rule_min_severity a)
      else rule_id a < rule_id b)"

text \<open>The precedence the comparator implements, as a key in lexicographic order.\<close>

definition rule_key :: "incident \<Rightarrow> policy_rule \<Rightarrow> bool \<times> int \<times> int \<times> string" where
  "rule_key inc r =
     (\<not> rule_specific inc r, - rule_priority r, - severity_rank (rule_min_severity r), rule_id r)"

interpretation rule_order: keyed_order "rule_less inc" "rule_key inc" for inc
  by unfold_locales (auto simp: rule_less_def rule_key_def less_prod_def less_eq_prod_def)

definition select_rule :: "rule_policy \<Rightarrow> incident \<Rightarrow> policy_rule option" where
  "select_rule p inc =
     (let candidates = filter (rule_candidate inc) (pol_rules p)
      in if candidates \<noteq> [] then Some (hd (sort_by (rule_less inc) candidates))
         else case pol_fallback p of
           None \<Rightarrow> None
         | Some r \<Rightarrow>
             if rule_enabled r \<and> severity_meets_or_exceeds (inc_severity inc) (rule_min_severity r)
             then Some r else None)"

datatype policy_err =
    PolicyCtx ctx_err | PolicyNilIncident | PolicyInvalidIncident type_err
  | ErrIncidentNotActionable | ErrIncidentAlreadyMitigating | ErrIncidentRecovered
  | ErrIncidentEscalated | ErrUnrecognizedStatus incident_status | ErrNoRuleMatched

definition build_decision :: "digest \<Rightarrow> rule_policy \<Rightarrow> incident \<Rightarrow> policy_rule \<Rightarrow> decision" where
  "build_decision sha p inc r = \<lparr>
     dec_id = compute_decision_id sha (inc_id inc) (pol_name p) (pol_version p) (rule_action r) (rule_target r),
     dec_incident_id = inc_id inc,
     dec_node_id = inc_node_id inc,
     dec_rule_id = rule_id r,
     dec_action_type = rule_action r,
     dec_target = rule_target r,
     dec_parameters = rule_parameters r,
     dec_auth_class = rule_auth r,
     dec_reason = rule_reason r,
     dec_policy_name = pol_name p,
     dec_policy_version = pol_version p,
     dec_mode = pol_mode p,
     dec_timestamp = inc_updated_at inc,
     dec_evidence = (case inc_evidence inc of None \<Rightarrow> [] | Some ev \<Rightarrow> ev)\<rparr>"

definition policy_evaluate ::
  "digest \<Rightarrow> ctx_err option \<Rightarrow> rule_policy \<Rightarrow> incident option \<Rightarrow> policy_err + decision" where
  "policy_evaluate sha ctx p inc_ptr =
     (case ctx of Some e \<Rightarrow> Inl (PolicyCtx e) | None \<Rightarrow>
      case inc_ptr of None \<Rightarrow> Inl PolicyNilIncident | Some inc \<Rightarrow>
      case incident_validate inc of Some e \<Rightarrow> Inl (PolicyInvalidIncident e) | None \<Rightarrow>
      case inc_status inc of
        StatusNormal \<Rightarrow> Inl ErrIncidentNotActionable
      | StatusMitigating \<Rightarrow> Inl ErrIncidentAlreadyMitigating
      | StatusRecovered \<Rightarrow> Inl ErrIncidentRecovered
      | StatusEscalated \<Rightarrow> Inl ErrIncidentEscalated
      | StatusOther s \<Rightarrow> Inl (ErrUnrecognizedStatus (StatusOther s))
      | StatusAnomalyDetected \<Rightarrow>
          (case select_rule p inc of
             None \<Rightarrow> Inl ErrNoRuleMatched
           | Some r \<Rightarrow> Inr (build_decision sha p inc r)))"

section \<open>Lemmas\<close>

lemma select_rule_candidates:
  assumes "filter (rule_candidate inc) (pol_rules p) \<noteq> []"
  obtains r where "select_rule p inc = Some r" "r \<in> set (pol_rules p)" "rule_candidate inc r"
    "\<And>r'. r' \<in> set (pol_rules p) \<Longrightarrow> rule_candidate inc r' \<Longrightarrow> rule_key inc r \<le> rule_key inc r'"
proof -
  let ?cs = "filter (rule_candidate inc) (pol_rules p)"
  let ?r = "hd (sort_by (rule_less inc) ?cs)"
  have sel: "select_rule p inc = Some ?r"
    using assms by (simp add: select_rule_def)
  have "?r \<in> set (sort_by (rule_less inc) ?cs)"
    by (rule hd_in_set) (use assms in simp)
  then have "?r \<in> set ?cs" by simp
  moreover have "\<And>r'. r' \<in> set ?cs \<Longrightarrow> rule_key inc ?r \<le> rule_key inc r'"
    by (rule rule_order.sort_by_hd_least)
  ultimately show ?thesis using that [OF sel] by auto
qed

lemma policy_evaluate_Inr:
  assumes "policy_evaluate sha ctx p ip = Inr d"
  obtains inc r where "ip = Some inc" "ctx = None" "incident_validate inc = None"
    "inc_status inc = StatusAnomalyDetected" "select_rule p inc = Some r"
    "d = build_decision sha p inc r"
  using assms
  by (auto simp: policy_evaluate_def split: option.splits incident_status.splits)

lemma select_rule_source:
  assumes "select_rule p inc = Some r"
  shows "r \<in> set (pol_rules p) \<or> pol_fallback p = Some r"
proof (cases "filter (rule_candidate inc) (pol_rules p) = []")
  case True
  with assms show ?thesis
    by (auto simp: select_rule_def split: option.splits if_splits)
next
  case False
  then obtain r' where "select_rule p inc = Some r'" "r' \<in> set (pol_rules p)"
    by (rule select_rule_candidates)
  with assms show ?thesis by simp
qed

lemma build_decision_sel [simp]:
  "dec_id (build_decision sha p inc r) =
     compute_decision_id sha (inc_id inc) (pol_name p) (pol_version p) (rule_action r) (rule_target r)"
  "dec_incident_id (build_decision sha p inc r) = inc_id inc"
  "dec_node_id (build_decision sha p inc r) = inc_node_id inc"
  "dec_action_type (build_decision sha p inc r) = rule_action r"
  "dec_target (build_decision sha p inc r) = rule_target r"
  "dec_parameters (build_decision sha p inc r) = rule_parameters r"
  "dec_auth_class (build_decision sha p inc r) = rule_auth r"
  "dec_policy_name (build_decision sha p inc r) = pol_name p"
  "dec_policy_version (build_decision sha p inc r) = pol_version p"
  "dec_mode (build_decision sha p inc r) = pol_mode p"
  "dec_timestamp (build_decision sha p inc r) = inc_updated_at inc"
  by (simp_all add: build_decision_def)

end
