(* ===== verification/Response_Validator.thy ===== *)
theory Response_Validator
  imports Response_Policy
begin

text \<open>
  \<open>edge/agent/response/validator.go\<close>: the process-local cooldown tracker and the safety
  validator with its eleven checks.

  Each numbered check of \<open>validateInternal\<close> is a definition that yields the violations it
  appends, each with the code it proposes; the code of the result is the one proposed
  first, as the guard \<open>if code == ValidationCodeAllowed\<close> has it.
\<close>

datatype validation_code =
    CodeAllowed | CodeInvalidIncident | CodeIncidentStateNotActionable | CodeUnknownActionType
  | CodeForbiddenAction | CodeInvalidAuthClass | CodeInvalidTarget | CodeMissingPolicyVersion
  | CodeInvalidDecisionID | CodePolicyMismatch | CodeCooldownActive | CodeInvalidParameters
  | CodeIdentityMismatch

fun validation_code_string :: "validation_code \<Rightarrow> string" where
  "validation_code_string CodeAllowed = ''ALLOWED''"
| "validation_code_string CodeInvalidIncident = ''INVALID_INCIDENT''"
| "validation_code_string CodeIncidentStateNotActionable = ''INCIDENT_STATE_NOT_ACTIONABLE''"
| "validation_code_string CodeUnknownActionType = ''UNKNOWN_ACTION_TYPE''"
| "validation_code_string CodeForbiddenAction = ''FORBIDDEN_ACTION''"
| "validation_code_string CodeInvalidAuthClass = ''INVALID_AUTHORIZATION_CLASS''"
| "validation_code_string CodeInvalidTarget = ''INVALID_TARGET''"
| "validation_code_string CodeMissingPolicyVersion = ''MISSING_POLICY_VERSION''"
| "validation_code_string CodeInvalidDecisionID = ''INVALID_DECISION_ID''"
| "validation_code_string CodePolicyMismatch = ''POLICY_MISMATCH''"
| "validation_code_string CodeCooldownActive = ''COOLDOWN_ACTIVE''"
| "validation_code_string CodeInvalidParameters = ''INVALID_PARAMETERS''"
| "validation_code_string CodeIdentityMismatch = ''IDENTITY_MISMATCH''"

record safety_result =
  sr_allowed :: bool
  sr_code :: validation_code
  sr_decision_id :: string
  sr_action_type :: action_type
  sr_policy_version :: string
  sr_reason :: msg
  sr_violations :: "msg list"
  sr_validated_at :: gotime

section \<open>Cooldown tracker\<close>

type_synonym cooldowns = "string \<rightharpoonup> gotime"

definition new_cooldowns :: cooldowns where
  "new_cooldowns = (\<lambda>_. None)"

text \<open>\<open>IsCoolingDown\<close>: the remaining duration, if the target is cooling down.\<close>

definition is_cooling_down :: "cooldowns \<Rightarrow> string \<Rightarrow> gotime \<Rightarrow> duration option" where
  "is_cooling_down t target now =
     (case t target of
        None \<Rightarrow> None
      | Some expires \<Rightarrow> if now < expires then Some (time_sub expires now) else None)"

text \<open>\<open>remaining.Round(time.Millisecond)\<close> of a positive duration.\<close>

definition round_ms :: "duration \<Rightarrow> duration" where
  "round_ms d =
     (let r = d mod millisecond
      in if r + r < millisecond then d - r else min (2 ^ 63 - 1) (d + millisecond - r))"

definition record_cooldown :: "string \<Rightarrow> duration \<Rightarrow> gotime \<Rightarrow> cooldowns \<Rightarrow> cooldowns" where
  "record_cooldown target cooldown now t =
     (if cooldown \<le> 0 \<or> blank target then t else t(target \<mapsto> now + cooldown))"

definition reset_cooldowns :: "cooldowns \<Rightarrow> cooldowns" where
  "reset_cooldowns t = (\<lambda>_. None)"

record validator =
  val_policies :: "string list"
  val_cooldowns :: cooldowns

definition new_standard_validator :: validator where
  "new_standard_validator =
     \<lparr>val_policies = [''default_edge_response_policy''], val_cooldowns = new_cooldowns\<rparr>"

definition register_allowed_policy :: "string \<Rightarrow> validator \<Rightarrow> validator" where
  "register_allowed_policy n v =
     (if \<not> blank n then v\<lparr>val_policies := trim_space n # val_policies v\<rparr> else v)"

definition record_execution :: "string \<Rightarrow> duration \<Rightarrow> gotime \<Rightarrow> validator \<Rightarrow> validator" where
  "record_execution target cooldown now v =
     v\<lparr>val_cooldowns := record_cooldown target cooldown now (val_cooldowns v)\<rparr>"

section \<open>The checks\<close>

type_synonym finding = "msg \<times> validation_code"

definition check_allowlist :: "decision \<Rightarrow> finding list" where
  "check_allowlist dec =
     (if \<not> is_allowlisted (dec_action_type dec)
      then [(Fmt ''action %q is not on the safety allowlist''
               [AStr (action_type_string (dec_action_type dec))], CodeUnknownActionType)]
      else [])"

definition check_incident :: "decision \<Rightarrow> incident \<Rightarrow> finding list" where
  "check_incident dec inc =
     (if blank (dec_incident_id dec)
      then [(Lit ''decision contains empty IncidentID'', CodeIdentityMismatch)]
      else if dec_incident_id dec \<noteq> inc_id inc
      then [(Fmt ''decision IncidentID %q does not match incident IncidentID %q''
               [AStr (dec_incident_id dec), AStr (inc_id inc)], CodeIdentityMismatch)]
      else [])"

definition check_node :: "decision \<Rightarrow> incident \<Rightarrow> finding list" where
  "check_node dec inc =
     (if blank (dec_node_id dec)
      then [(Lit ''decision contains empty NodeID'', CodeIdentityMismatch)]
      else if dec_node_id dec \<noteq> inc_node_id inc
      then [(Fmt ''decision NodeID %q does not match incident NodeID %q''
               [AStr (dec_node_id dec), AStr (inc_node_id inc)], CodeIdentityMismatch)]
      else [])"

definition check_target :: "decision \<Rightarrow> finding list" where
  "check_target dec =
     (if blank (dec_target dec) then [(Lit ''decision contains empty Target'', CodeInvalidTarget)]
      else if \<not> is_valid_target (dec_target dec)
      then [(Fmt ''target %q is invalid or contains prohibited characters/commands''
               [AStr (dec_target dec)], CodeInvalidTarget)]
      else [])"

definition check_auth :: "bool \<Rightarrow> decision \<Rightarrow> finding list" where
  "check_auth approved dec =
     (if \<not> auth_class_valid (dec_auth_class dec)
      then [(Fmt ''invalid authorization class %q'' [AStr (auth_class_string (dec_auth_class dec))],
             CodeInvalidAuthClass)]
      else if dec_auth_class dec = AuthForbidden
      then [(Fmt ''action %q on target %q is classified as FORBIDDEN and cannot be authorized''
               [AStr (action_type_string (dec_action_type dec)), AStr (dec_target dec)],
             CodeForbiddenAction)]
      else if dec_auth_class dec = AuthApprovalRequired \<and> \<not> approved
      then [(Lit ''action requires operator approval; automatic authorization is prohibited without verified approval'',
             CodeInvalidAuthClass)]
      else [])"

definition check_policy :: "validator \<Rightarrow> decision \<Rightarrow> finding list" where
  "check_policy v dec =
     (if blank (dec_policy_name dec)
      then [(Lit ''decision contains empty PolicyName'', CodePolicyMismatch)]
      else if dec_policy_name dec \<notin> set (val_policies v)
      then [(Fmt ''unrecognized policy name %q'' [AStr (dec_policy_name dec)], CodePolicyMismatch)]
      else []) @
     (if blank (dec_policy_version dec)
      then [(Lit ''decision contains empty PolicyVersion'', CodeMissingPolicyVersion)] else [])"

definition check_mode :: "decision \<Rightarrow> finding list" where
  "check_mode dec =
     (case dec_mode dec of
        ModeOther s \<Rightarrow> [(Fmt ''invalid execution mode %q'' [AStr s], CodeInvalidAuthClass)]
      | _ \<Rightarrow> [])"

definition check_state :: "incident \<Rightarrow> finding list" where
  "check_state inc =
     (case inc_status inc of
        StatusAnomalyDetected \<Rightarrow> []
      | StatusMitigating \<Rightarrow> []
      | StatusNormal \<Rightarrow>
          [(Lit ''incident is in NORMAL state; mitigation actions are prohibited'', CodeIncidentStateNotActionable)]
      | StatusRecovered \<Rightarrow>
          [(Lit ''incident is in RECOVERED state; mitigation actions are prohibited'', CodeIncidentStateNotActionable)]
      | StatusEscalated \<Rightarrow>
          [(Lit ''incident is in ESCALATED state; automated mitigation requires human operator override'',
            CodeIncidentStateNotActionable)]
      | StatusOther s \<Rightarrow>
          [(Fmt ''incident status %q is unsupported for mitigation'' [AStr s], CodeIncidentStateNotActionable)])"

definition expected_decision_id :: "digest \<Rightarrow> decision \<Rightarrow> string" where
  "expected_decision_id sha dec =
     compute_decision_id sha (dec_incident_id dec) (dec_policy_name dec) (dec_policy_version dec)
       (dec_action_type dec) (dec_target dec)"

definition check_identity :: "digest \<Rightarrow> decision \<Rightarrow> finding list" where
  "check_identity sha dec =
     (if dec_id dec \<noteq> expected_decision_id sha dec
      then [(Fmt ''decision ID mismatch: got %q, expected %q''
               [AStr (dec_id dec), AStr (expected_decision_id sha dec)], CodeInvalidDecisionID)]
      else [])"

definition check_cooldown :: "validator \<Rightarrow> gotime \<Rightarrow> decision \<Rightarrow> finding list" where
  "check_cooldown v now dec =
     (case is_cooling_down (val_cooldowns v) (dec_target dec) now of
        None \<Rightarrow> []
      | Some remaining \<Rightarrow>
          [(Fmt ''action target %q is currently cooling down (remaining: %v)''
              [AStr (dec_target dec), ADur (round_ms remaining)], CodeCooldownActive)])"

definition check_payloads :: "decision \<Rightarrow> finding list" where
  "check_payloads dec =
     map (\<lambda>(k, w). (Fmt ''parameter %q=%q contains prohibited shell or executable syntax'' [AStr k, AStr w],
                    CodeInvalidParameters))
       (filter (\<lambda>(k, w). contains_dangerous_payload k \<or> contains_dangerous_payload w)
          (dec_parameters dec))"

definition check_range :: "string \<Rightarrow> int \<Rightarrow> string \<Rightarrow> decision \<Rightarrow> finding list" where
  "check_range key hi fmt dec =
     (case map_of (dec_parameters dec) key of
        None \<Rightarrow> []
      | Some s \<Rightarrow>
          (case atoi s of
             Some n \<Rightarrow> if n < 1 \<or> hi < n then [(Fmt fmt [AStr s], CodeInvalidParameters)] else []
           | None \<Rightarrow> [(Fmt fmt [AStr s], CodeInvalidParameters)]))"

definition check_ranges :: "decision \<Rightarrow> finding list" where
  "check_ranges dec =
     (case dec_action_type dec of
        ActionSimulatedThrottle \<Rightarrow>
          check_range ''throttle_percent'' 100 ''throttle_percent must be an integer between 1 and 100, got %q'' dec @
          check_range ''duration_sec'' 3600 ''duration_sec must be an integer between 1 and 3600, got %q'' dec
      | ActionSimulatedRestart \<Rightarrow>
          check_range ''grace_period_sec'' 60 ''grace_period_sec must be an integer between 1 and 60, got %q'' dec
      | _ \<Rightarrow> [])"

definition safety_findings ::
  "digest \<Rightarrow> validator \<Rightarrow> gotime \<Rightarrow> bool \<Rightarrow> decision \<Rightarrow> incident \<Rightarrow> finding list" where
  "safety_findings sha v now approved dec inc =
     check_allowlist dec @ check_incident dec inc @ check_node dec inc @ check_target dec @
     check_auth approved dec @ check_policy v dec @ check_mode dec @ check_state inc @
     check_identity sha dec @ check_cooldown v now dec @ check_payloads dec @ check_ranges dec"

datatype validator_err = ValidatorCtx ctx_err | ErrNilDecision | ErrNilIncident

definition validate_internal ::
  "digest \<Rightarrow> ctx_err option \<Rightarrow> gotime \<Rightarrow> validator \<Rightarrow> decision option \<Rightarrow> incident option \<Rightarrow> bool \<Rightarrow>
   validator_err + safety_result" where
  "validate_internal sha ctx now v dec_ptr inc_ptr approved =
     (case ctx of Some e \<Rightarrow> Inl (ValidatorCtx e) | None \<Rightarrow>
      case dec_ptr of None \<Rightarrow> Inl ErrNilDecision | Some dec \<Rightarrow>
      case inc_ptr of None \<Rightarrow> Inl ErrNilIncident | Some inc \<Rightarrow>
        (case safety_findings sha v now approved dec inc of
           (m, code) # rest \<Rightarrow>
             Inr \<lparr>sr_allowed = False, sr_code = code, sr_decision_id = dec_id dec,
                  sr_action_type = dec_action_type dec, sr_policy_version = dec_policy_version dec,
                  sr_reason = Fmt ''safety validation failed: %s'' [AMsgs (m # map fst rest)],
                  sr_violations = m # map fst rest, sr_validated_at = now\<rparr>
         | [] \<Rightarrow>
             Inr \<lparr>sr_allowed = True, sr_code = CodeAllowed, sr_decision_id = dec_id dec,
                  sr_action_type = dec_action_type dec, sr_policy_version = dec_policy_version dec,
                  sr_reason = Lit ''all safety constraints satisfied'',
                  sr_violations = [], sr_validated_at = now\<rparr>))"

definition validate_auto ::
  "digest \<Rightarrow> ctx_err option \<Rightarrow> gotime \<Rightarrow> validator \<Rightarrow> decision option \<Rightarrow> incident option \<Rightarrow>
   validator_err + safety_result" where
  "validate_auto sha ctx now v dec inc = validate_internal sha ctx now v dec inc False"

definition validate_approved ::
  "digest \<Rightarrow> ctx_err option \<Rightarrow> gotime \<Rightarrow> validator \<Rightarrow> decision option \<Rightarrow> incident option \<Rightarrow>
   validator_err + safety_result" where
  "validate_approved sha ctx now v dec inc = validate_internal sha ctx now v dec inc True"

section \<open>What an ALLOWED verdict means\<close>

text \<open>
  The perimeter, stated without the accumulation of violations: the conjunction of the
  constraints an executable action satisfies.
\<close>

definition param_in_range :: "decision \<Rightarrow> string \<Rightarrow> int \<Rightarrow> bool" where
  "param_in_range dec key hi \<longleftrightarrow>
     (\<forall>s. map_of (dec_parameters dec) key = Some s \<longrightarrow> (\<exists>n. atoi s = Some n \<and> 1 \<le> n \<and> n \<le> hi))"

definition ranges_ok :: "decision \<Rightarrow> bool" where
  "ranges_ok dec \<longleftrightarrow>
     (dec_action_type dec = ActionSimulatedThrottle \<longrightarrow>
        param_in_range dec ''throttle_percent'' 100 \<and> param_in_range dec ''duration_sec'' 3600) \<and>
     (dec_action_type dec = ActionSimulatedRestart \<longrightarrow> param_in_range dec ''grace_period_sec'' 60)"

definition within_perimeter ::
  "digest \<Rightarrow> validator \<Rightarrow> gotime \<Rightarrow> bool \<Rightarrow> decision \<Rightarrow> incident \<Rightarrow> bool" where
  "within_perimeter sha v now approved dec inc \<longleftrightarrow>
     action_type_valid (dec_action_type dec) \<and>
     \<not> blank (inc_id inc) \<and> dec_incident_id dec = inc_id inc \<and>
     \<not> blank (inc_node_id inc) \<and> dec_node_id dec = inc_node_id inc \<and>
     is_valid_target (dec_target dec) \<and>
     (dec_auth_class dec = AuthAutoExecute \<or> dec_auth_class dec = AuthApprovalRequired \<and> approved) \<and>
     \<not> blank (dec_policy_name dec) \<and> dec_policy_name dec \<in> set (val_policies v) \<and>
     \<not> blank (dec_policy_version dec) \<and> execution_mode_valid (dec_mode dec) \<and>
     (inc_status inc = StatusAnomalyDetected \<or> inc_status inc = StatusMitigating) \<and>
     dec_id dec = expected_decision_id sha dec \<and>
     (\<forall>e. val_cooldowns v (dec_target dec) = Some e \<longrightarrow> e \<le> now) \<and>
     (\<forall>(k, w) \<in> set (dec_parameters dec).
        \<not> contains_dangerous_payload k \<and> \<not> contains_dangerous_payload w) \<and>
     ranges_ok dec"

lemma check_range_Nil: "check_range key hi fmt dec = [] \<longleftrightarrow> param_in_range dec key hi"
  by (auto simp: check_range_def param_in_range_def not_less split: option.splits)

lemma check_ranges_Nil: "check_ranges dec = [] \<longleftrightarrow> ranges_ok dec"
  by (simp add: check_ranges_def ranges_ok_def check_range_Nil split: action_type.splits)

lemma check_payloads_Nil:
  "check_payloads dec = [] \<longleftrightarrow>
     (\<forall>(k, w) \<in> set (dec_parameters dec).
        \<not> contains_dangerous_payload k \<and> \<not> contains_dangerous_payload w)"
  by (auto simp: check_payloads_def filter_empty_conv)

lemma check_cooldown_Nil:
  "check_cooldown v now dec = [] \<longleftrightarrow> (\<forall>e. val_cooldowns v (dec_target dec) = Some e \<longrightarrow> e \<le> now)"
  by (auto simp: check_cooldown_def is_cooling_down_def split: option.splits)

lemma check_auth_Nil:
  "check_auth approved dec = [] \<longleftrightarrow>
     dec_auth_class dec = AuthAutoExecute \<or> dec_auth_class dec = AuthApprovalRequired \<and> approved"
  by (cases "dec_auth_class dec") (auto simp: check_auth_def)

lemma check_mode_Nil: "check_mode dec = [] \<longleftrightarrow> execution_mode_valid (dec_mode dec)"
  by (cases "dec_mode dec") (auto simp: check_mode_def)

lemma check_state_Nil:
  "check_state inc = [] \<longleftrightarrow> inc_status inc = StatusAnomalyDetected \<or> inc_status inc = StatusMitigating"
  by (cases "inc_status inc") (auto simp: check_state_def)

lemma check_target_Nil: "check_target dec = [] \<longleftrightarrow> is_valid_target (dec_target dec)"
  using is_valid_target_not_blank by (auto simp: check_target_def)

lemmas checks_Nil = check_range_Nil check_ranges_Nil check_payloads_Nil check_cooldown_Nil
  check_auth_Nil check_mode_Nil check_state_Nil check_target_Nil

lemma safety_findings_Nil:
  "safety_findings sha v now approved dec inc = [] \<longleftrightarrow> within_perimeter sha v now approved dec inc"
  unfolding safety_findings_def within_perimeter_def append_is_Nil_conv checks_Nil
  by (auto simp: check_allowlist_def is_allowlisted_iff check_incident_def check_node_def
        check_policy_def check_identity_def)

lemma validate_internal_Inr:
  "validate_internal sha None now v (Some dec) (Some inc) approved = Inr r \<Longrightarrow>
     sr_allowed r = within_perimeter sha v now approved dec inc \<and> sr_decision_id r = dec_id dec"
  by (auto simp: validate_internal_def simp flip: safety_findings_Nil split: list.splits)

text \<open>No check proposes the code ALLOWED.\<close>

definition rejecting :: "finding list \<Rightarrow> bool" where
  "rejecting fs \<longleftrightarrow> list_all (\<lambda>f. snd f \<noteq> CodeAllowed) fs"

lemma rejecting_append [simp]: "rejecting (xs @ ys) \<longleftrightarrow> rejecting xs \<and> rejecting ys"
  by (simp add: rejecting_def)

lemma rejecting_range: "rejecting (check_range key hi fmt dec)"
  by (auto simp: rejecting_def check_range_def split: option.splits if_splits)

lemma rejecting_payloads: "rejecting (check_payloads dec)"
  by (auto simp: rejecting_def check_payloads_def list_all_iff)

lemma rejecting_cooldown: "rejecting (check_cooldown v now dec)"
  by (simp add: rejecting_def check_cooldown_def split: option.splits)

lemma rejecting_mode: "rejecting (check_mode dec)"
  by (simp add: rejecting_def check_mode_def split: execution_mode.splits)

lemma rejecting_state: "rejecting (check_state inc)"
  by (simp add: rejecting_def check_state_def split: incident_status.splits)

lemma rejecting_ranges: "rejecting (check_ranges dec)"
  by (simp add: check_ranges_def rejecting_range rejecting_def [of "[]"] split: action_type.splits)

lemma rejecting_if:
  "rejecting (check_allowlist dec)" "rejecting (check_incident dec inc)" "rejecting (check_node dec inc)"
  "rejecting (check_target dec)" "rejecting (check_auth approved dec)" "rejecting (check_identity sha dec)"
  "rejecting (check_policy v dec)"
  by (simp_all add: rejecting_def check_allowlist_def check_incident_def check_node_def
      check_target_def check_auth_def check_identity_def check_policy_def)

lemma safety_findings_codes:
  "CodeAllowed \<notin> snd ` set (safety_findings sha v now approved dec inc)"
proof -
  have "rejecting (safety_findings sha v now approved dec inc)"
    by (simp add: safety_findings_def rejecting_if rejecting_mode rejecting_state
        rejecting_cooldown rejecting_payloads rejecting_ranges)
  then show ?thesis by (auto simp: rejecting_def list_all_iff)
qed

lemma validator_total:
  "\<exists>r. validate_internal sha None now v (Some dec) (Some inc) approved = Inr r"
  by (cases "safety_findings sha v now approved dec inc") (auto simp: validate_internal_def)

lemma validate_internal_cases:
  assumes "validate_internal sha ctx now v dp ip approved = Inr r"
  obtains dec inc where "ctx = None" "dp = Some dec" "ip = Some inc"
    "sr_allowed r = within_perimeter sha v now approved dec inc" "sr_decision_id r = dec_id dec"
proof -
  from assms obtain dec inc where "ctx = None" "dp = Some dec" "ip = Some inc"
    by (auto simp: validate_internal_def split: option.splits)
  with assms show ?thesis using that validate_internal_Inr by blast
qed

lemma validate_internal_allowed_code:
  "validate_internal sha ctx now v dp ip approved = Inr r \<Longrightarrow>
     sr_allowed r \<longleftrightarrow> sr_violations r = []"
  by (auto simp: validate_internal_def split: option.splits list.splits)

lemma within_perimeter_approved:
  "dec_auth_class dec \<noteq> AuthApprovalRequired \<Longrightarrow>
     within_perimeter sha v now True dec inc = within_perimeter sha v now False dec inc"
  by (auto simp: within_perimeter_def)

lemma within_perimeter_mono:
  "within_perimeter sha v now False dec inc \<Longrightarrow> within_perimeter sha v now True dec inc"
  by (auto simp: within_perimeter_def)

lemma record_execution_cooldowns:
  "0 < d \<Longrightarrow> \<not> blank target \<Longrightarrow>
     val_cooldowns (record_execution target d now v) = (val_cooldowns v)(target \<mapsto> now + d)"
  by (simp add: record_execution_def record_cooldown_def)

lemma record_execution_policies [frame]:
  "val_policies (record_execution target d now v) = val_policies v"
  by (simp add: record_execution_def)

end
