(* ===== verification/Response_Safety.thy ===== *)
theory Response_Safety
  imports Response_Validator
begin

text \<open>
  What the policy and the validator promise together: the verdict of the validator as a
  declarative perimeter, the cooldown window, and the default policy's decisions passing
  its own validator.
\<close>

section \<open>The default policy\<close>

definition default_rules :: "policy_rule list" where
  "default_rules = pol_rules default_policy @ (case pol_fallback default_policy of None \<Rightarrow> [] | Some r \<Rightarrow> [r])"

lemma default_policy_texts:
  "\<not> blank ''default_edge_response_policy''" "\<not> blank ''1.0.0''"
  by code_simp+

text \<open>Every rule of the table proposes an allowlisted action on a clean target with clean parameters.\<close>

lemmas payload_eval = contains_dangerous_payload_def dangerous_keywords_def dangerous_shell_chars_def
  has_prefix_def starts_with_def lower_byte_def byte_def

lemma default_targets_clean:
  "\<not> contains_dangerous_payload ''telemetry_generator''"
  "\<not> contains_dangerous_payload ''collector''"
  "\<not> contains_dangerous_payload ''local_syslog''"
  by (simp_all add: payload_eval)

lemma default_keys_clean:
  "\<not> contains_dangerous_payload ''throttle_percent''" "\<not> contains_dangerous_payload ''duration_sec''"
  "\<not> contains_dangerous_payload ''grace_period_sec''" "\<not> contains_dangerous_payload ''priority''"
  by (simp_all add: payload_eval)

lemma default_values_clean:
  "\<not> contains_dangerous_payload ''50''" "\<not> contains_dangerous_payload ''300''"
  "\<not> contains_dangerous_payload ''10''"
  by (simp_all add: payload_eval)

lemma default_priorities_clean:
  "\<not> contains_dangerous_payload ''HIGH''" "\<not> contains_dangerous_payload ''LOW''"
  by code_simp+

lemma default_targets_trim:
  "trim_space ''telemetry_generator'' = ''telemetry_generator''"
  "trim_space ''collector'' = ''collector''" "trim_space ''local_syslog'' = ''local_syslog''"
  by code_simp+

lemma default_targets_valid:
  "is_valid_target ''telemetry_generator''" "is_valid_target ''collector''" "is_valid_target ''local_syslog''"
  by (simp_all add: is_valid_target_def default_targets_trim default_targets_clean prohibited_commands_def
      safe_rune_def starts_with_def lower_byte_def byte_def)

lemma default_rules_clean:
  "list_all (\<lambda>r. is_valid_target (rule_target r) \<and> action_type_valid (rule_action r) \<and>
       rule_auth r = AuthAutoExecute \<and>
       list_all (\<lambda>(k, w). \<not> contains_dangerous_payload k \<and> \<not> contains_dangerous_payload w)
         (rule_parameters r)) default_rules"
  by (simp add: default_rules_def default_policy_def default_targets_valid default_keys_clean
      default_values_clean default_priorities_clean)

lemma default_rules_parameters:
  "list_all (\<lambda>r. (rule_action r = ActionSimulatedThrottle \<longrightarrow>
        rule_parameters r = [(''throttle_percent'', ''50''), (''duration_sec'', ''300'')]) \<and>
      (rule_action r = ActionSimulatedRestart \<longrightarrow>
        rule_parameters r = [(''grace_period_sec'', ''10'')])) default_rules"
  by (simp add: default_rules_def default_policy_def)

lemma atoi_default: "atoi ''50'' = Some 50" "atoi ''300'' = Some 300" "atoi ''10'' = Some 10"
  by code_simp+

lemma select_default_rule:
  "select_rule default_policy inc = Some r \<Longrightarrow> r \<in> set default_rules"
  using select_rule_source [of default_policy inc r] by (auto simp: default_rules_def)

lemma default_rule_ranges:
  assumes "r \<in> set default_rules"
  shows "ranges_ok (build_decision sha p inc r)"
proof -
  have "(rule_action r = ActionSimulatedThrottle \<longrightarrow>
        rule_parameters r = [(''throttle_percent'', ''50''), (''duration_sec'', ''300'')]) \<and>
      (rule_action r = ActionSimulatedRestart \<longrightarrow> rule_parameters r = [(''grace_period_sec'', ''10'')])"
    using default_rules_parameters assms unfolding list_all_iff by blast
  then show ?thesis
    by (auto simp: ranges_ok_def param_in_range_def atoi_default)
qed

lemma incident_validate_ids:
  "incident_validate inc = None \<Longrightarrow> \<not> blank (inc_id inc) \<and> \<not> blank (inc_node_id inc)"
  by (auto simp: incident_validate_def split: if_splits)

lemma default_decision_within_perimeter:
  assumes "policy_evaluate sha ctx default_policy (Some inc) = Inr d"
  shows "within_perimeter sha new_standard_validator now approved d inc"
proof -
  obtain r where inc: "incident_validate inc = None" "inc_status inc = StatusAnomalyDetected"
    and r: "select_rule default_policy inc = Some r" and d: "d = build_decision sha default_policy inc r"
    by (rule policy_evaluate_Inr [OF assms]) auto
  from r have rd: "r \<in> set default_rules" by (rule select_default_rule)
  then have clean: "is_valid_target (rule_target r)" "action_type_valid (rule_action r)"
    "rule_auth r = AuthAutoExecute"
    "\<forall>(k, w) \<in> set (rule_parameters r). \<not> contains_dangerous_payload k \<and> \<not> contains_dangerous_payload w"
    using default_rules_clean unfolding list_all_iff by blast+
  have pol: "pol_name default_policy = ''default_edge_response_policy''"
    "pol_version default_policy = ''1.0.0''" "pol_mode default_policy = ModeDryRun"
    by (simp_all add: default_policy_def)
  show ?thesis
    using inc incident_validate_ids [OF inc(1)] clean default_rule_ranges [OF rd, of sha default_policy inc]
    by (simp add: within_perimeter_def d pol default_policy_texts new_standard_validator_def
        new_cooldowns_def expected_decision_id_def)
qed

definition sample_incident :: incident where
  "sample_incident = \<lparr>inc_id = ''inc-1'', inc_node_id = ''node-1'', inc_rule_name = ''r'',
     inc_severity = SeverityHigh, inc_status = StatusAnomalyDetected, inc_description = no_msg,
     inc_trigger_metric = ''disk'', inc_trigger_value = Fin 1, inc_threshold = Fin 0,
     inc_evidence = None, inc_triggered_at = second, inc_updated_at = second,
     inc_resolved_at = None, inc_mitigations = []\<rparr>"

lemma sample_incident_texts: "\<not> blank ''inc-1''" "\<not> blank ''node-1''" "\<not> blank ''r''"
  by code_simp+

lemma sample_incident_valid: "incident_validate sample_incident = None"
  by (simp add: incident_validate_def sample_incident_def sample_incident_texts is_zero_def ptr_before_def)

lemma sample_incident_fallback:
  "\<exists>r. select_rule default_policy sample_incident = Some r"
  by (simp add: select_rule_def default_policy_def sample_incident_def rule_candidate_def
      severity_meets_or_exceeds_def)

lemma sample_decision:
  "\<exists>d. policy_evaluate sha None default_policy (Some sample_incident) = Inr d"
  using sample_incident_fallback sample_incident_valid
  by (auto simp: policy_evaluate_def sample_incident_def)

section \<open>Properties\<close>


text \<open>
  The standard policy never proposes an action its validator refuses: whatever decision
  the default policy returns for an incident, a freshly constructed validator allows it for
  that incident, with or without an operator approval.
\<close>

theorem default_policy_decisions_are_allowed:
  assumes "policy_evaluate sha ctx default_policy (Some inc) = Inr d"
  shows "\<exists>r. validate_internal sha None now new_standard_validator (Some d) (Some inc) approved = Inr r \<and>
             sr_allowed r \<and> sr_decision_id r = dec_id d"
proof -
  obtain r where "validate_internal sha None now new_standard_validator (Some d) (Some inc) approved = Inr r"
    using validator_total by blast
  then show ?thesis
    using validate_internal_Inr default_decision_within_perimeter [OF assms] by blast
qed

theorem default_policy_decisions_are_allowed_witness:
  "\<exists>d r. policy_evaluate (\<lambda>_. []) None default_policy (Some sample_incident) = Inr d \<and>
     validate_internal (\<lambda>_. []) None 7 new_standard_validator (Some d) (Some sample_incident) False = Inr r \<and>
     sr_allowed r"
proof -
  obtain d where "policy_evaluate (\<lambda>_. []) None default_policy (Some sample_incident) = Inr d"
    using sample_decision by blast
  with default_policy_decisions_are_allowed [OF this, of 7 False] show ?thesis by blast
qed

text \<open>
  Which rule the policy applies.  When some rule is a candidate for the incident, the
  decision is built from a candidate rule of least key: a rule naming the metric beats a
  wildcard, then the higher priority wins, then the stricter severity floor, then the
  lexicographically smaller rule identifier.
\<close>

theorem policy_applies_the_most_specific_rule:
  assumes "incident_validate inc = None" and "inc_status inc = StatusAnomalyDetected"
    and "r0 \<in> set (pol_rules p)" and "rule_candidate inc r0"
  shows "\<exists>r. r \<in> set (pol_rules p) \<and> rule_candidate inc r \<and>
    policy_evaluate sha None p (Some inc) = Inr (build_decision sha p inc r) \<and>
    (rule_specific inc r0 \<le> rule_specific inc r) \<and>
    (rule_specific inc r0 = rule_specific inc r \<longrightarrow>
       rule_priority r0 \<le> rule_priority r \<and>
       (rule_priority r0 = rule_priority r \<longrightarrow>
          severity_rank (rule_min_severity r0) \<le> severity_rank (rule_min_severity r)))"
proof -
  have "filter (rule_candidate inc) (pol_rules p) \<noteq> []"
    using assms(3,4) by (auto simp: filter_empty_conv)
  then obtain r where r: "select_rule p inc = Some r" "r \<in> set (pol_rules p)" "rule_candidate inc r"
    and least: "\<And>r'. r' \<in> set (pol_rules p) \<Longrightarrow> rule_candidate inc r' \<Longrightarrow> rule_key inc r \<le> rule_key inc r'"
    by (rule select_rule_candidates) blast
  have "rule_key inc r \<le> rule_key inc r0" using least assms(3,4) by blast
  then show ?thesis
    using r assms(1,2)
    by (intro exI [of _ r]) (auto simp: policy_evaluate_def rule_key_def less_eq_prod_def less_prod_def)
qed

theorem policy_applies_the_most_specific_rule_witness:
  "\<exists>r. r \<in> set (pol_rules default_policy) \<and>
    policy_evaluate (\<lambda>_. []) None default_policy
      (Some (sample_incident\<lparr>inc_trigger_metric := ''cpu_usage_percent''\<rparr>)) =
    Inr (build_decision (\<lambda>_. []) default_policy
      (sample_incident\<lparr>inc_trigger_metric := ''cpu_usage_percent''\<rparr>) r)"
proof -
  let ?inc = "sample_incident\<lparr>inc_trigger_metric := ''cpu_usage_percent''\<rparr>"
  have "incident_validate ?inc = None" "inc_status ?inc = StatusAnomalyDetected"
    by (simp_all add: incident_validate_def sample_incident_def sample_incident_texts is_zero_def
        ptr_before_def)
  moreover have "hd (pol_rules default_policy) \<in> set (pol_rules default_policy)"
    "rule_candidate ?inc (hd (pol_rules default_policy))"
    by (simp_all add: default_policy_def rule_candidate_def sample_incident_def
        severity_meets_or_exceeds_def)
  ultimately show ?thesis
    using policy_applies_the_most_specific_rule [of ?inc "hd (pol_rules default_policy)"
      default_policy "\<lambda>_. []"] by blast
qed

text \<open>
  The cooldown window.  After an execution on a target with a positive cooldown, every
  decision for that target is refused until the window has passed, and a decision for
  another target is judged as before.
\<close>

theorem cooldown_blocks_the_target:
  assumes "0 < d" and "\<not> blank target"
  shows "(dec_target dec = target \<and> now < t + d \<longrightarrow>
      \<not> within_perimeter sha (record_execution target d t v) now approved dec inc \<and>
      (\<exists>r. validate_internal sha None now (record_execution target d t v) (Some dec) (Some inc) approved = Inr r \<and>
           \<not> sr_allowed r)) \<and>
    (dec_target dec \<noteq> target \<longrightarrow>
      validate_internal sha None now (record_execution target d t v) (Some dec) (Some inc) approved =
      validate_internal sha None now v (Some dec) (Some inc) approved) \<and>
    (dec_target dec = target \<and> t + d \<le> now \<and> (\<forall>e. val_cooldowns v target = Some e \<longrightarrow> e \<le> now) \<longrightarrow>
      within_perimeter sha (record_execution target d t v) now approved dec inc =
      within_perimeter sha v now approved dec inc)"
proof -
  let ?v = "record_execution target d t v"
  have cool: "val_cooldowns ?v = (val_cooldowns v)(target \<mapsto> t + d)" and pol: "val_policies ?v = val_policies v"
    using assms by (simp_all add: record_execution_cooldowns record_execution_policies)
  obtain r where r: "validate_internal sha None now ?v (Some dec) (Some inc) approved = Inr r"
    using validator_total by blast
  have other: "dec_target dec \<noteq> target \<Longrightarrow>
      safety_findings sha ?v now approved dec inc = safety_findings sha v now approved dec inc"
    by (simp add: safety_findings_def check_policy_def check_cooldown_def is_cooling_down_def cool pol)
  show ?thesis
    using r validate_internal_Inr [OF r] other
    by (auto simp: within_perimeter_def cool pol validate_internal_def)
qed

theorem cooldown_blocks_the_target_witness:
  "\<not> within_perimeter (\<lambda>_. []) (record_execution ''inc-1'' second 0 new_standard_validator) 5 True
     (build_decision (\<lambda>_. []) default_policy sample_incident ((hd default_rules)\<lparr>rule_target := ''inc-1''\<rparr>))
     sample_incident"
  using cooldown_blocks_the_target [of second "''inc-1''"
      "build_decision (\<lambda>_. []) default_policy sample_incident ((hd default_rules)\<lparr>rule_target := ''inc-1''\<rparr>)"
      5 0 "\<lambda>_. []" new_standard_validator True sample_incident] sample_incident_texts
  by simp

end
