(* ===== verification/Db_Time.thy ===== *)
theory Db_Time
  imports Prelude
begin

text \<open>
  Timestamps as the SQLite store keeps and compares them: \<open>formatDBTime\<close> and
  \<open>parseDBTime\<close> of \<open>edge/agent/storage/sqlite.go\<close> with the layout \<open>time.RFC3339Nano\<close>.

  The columns have type TEXT, so SQL compares the rendered strings byte by byte.  The
  date-time prefix \<open>YYYY-MM-DDTHH:MM:SS\<close> has a fixed width and is represented by its rank,
  the second it denotes.  The fraction that follows is not of fixed width: the layout drops
  trailing zeros, and drops the fraction altogether in a whole second.  It is kept as the
  string the code writes, closing \<open>Z\<close> included.
\<close>

type_synonym db_time = "int \<times> string"

fun digits_rev :: "nat \<Rightarrow> nat \<Rightarrow> nat list" where
  "digits_rev 0 n = []"
| "digits_rev (Suc k) n = n mod 10 # digits_rev k (n div 10)"

fun from_rev :: "nat list \<Rightarrow> nat" where
  "from_rev [] = 0"
| "from_rev (d # ds) = d + 10 * from_rev ds"

definition digit_char :: "nat \<Rightarrow> char" where
  "digit_char d = char_of (48 + d)"

definition char_digit :: "char \<Rightarrow> nat" where
  "char_digit c = byte c - 48"

definition frac_suffix :: "nat \<Rightarrow> string" where
  "frac_suffix ns =
     (if ns = 0 then ''Z''
      else ''.'' @ map digit_char (rev (dropWhile (\<lambda>d. d = 0) (digits_rev 9 ns))) @ ''Z'')"

definition format_db_time :: "gotime \<Rightarrow> db_time" where
  "format_db_time t = (t div second, frac_suffix (nat (t mod second)))"

definition parse_suffix :: "string \<Rightarrow> nat" where
  "parse_suffix s =
     (case s of
        c # rest \<Rightarrow>
          if c = CHR ''.''
          then let ds = map char_digit (butlast rest)
               in from_rev (rev ds) * 10 ^ (9 - length ds)
          else 0
      | [] \<Rightarrow> 0)"

definition parse_db_time :: "db_time \<Rightarrow> gotime" where
  "parse_db_time p = fst p * second + int (parse_suffix (snd p))"

section \<open>Round trip\<close>

lemma length_digits_rev [simp]: "length (digits_rev k n) = k"
  by (induction k arbitrary: n) auto

lemma digits_rev_lt: "d \<in> set (digits_rev k n) \<Longrightarrow> d < 10"
  by (induction k arbitrary: n) auto

lemma from_rev_digits_rev: "from_rev (digits_rev k n) = n mod 10 ^ k"
proof (induction k arbitrary: n)
  case 0
  then show ?case by simp
next
  case (Suc k)
  then show ?case by (simp add: mod_mult2_eq)
qed

lemma from_rev_trim:
  "from_rev xs = from_rev (dropWhile (\<lambda>d. d = 0) xs) * 10 ^ (length xs - length (dropWhile (\<lambda>d. d = 0) xs))"
proof (induction xs)
  case Nil
  then show ?case by simp
next
  case (Cons d xs)
  have "length (dropWhile (\<lambda>d. d = 0) xs) \<le> length xs" by (rule length_dropWhile_le)
  with Cons show ?case by (simp add: Suc_diff_le)
qed

lemma char_digit_digit_char: "d < 10 \<Longrightarrow> char_digit (digit_char d) = d"
  by (simp add: char_digit_def digit_char_def byte_def)

lemma parse_frac_suffix: "ns < 10 ^ 9 \<Longrightarrow> parse_suffix (frac_suffix ns) = ns"
proof (cases "ns = 0")
  case True
  then show ?thesis by (simp add: parse_suffix_def frac_suffix_def)
next
  case False
  assume lt: "ns < 10 ^ 9"
  let ?xs = "digits_rev 9 ns"
  let ?ts = "dropWhile (\<lambda>d. d = 0) ?xs"
  have inv: "map char_digit (map digit_char (rev ?ts)) = rev ?ts"
    by (auto intro!: map_idI char_digit_digit_char dest!: set_dropWhileD digits_rev_lt)
  have "parse_suffix (frac_suffix ns) = from_rev ?ts * 10 ^ (9 - length ?ts)"
    using False by (simp add: parse_suffix_def frac_suffix_def butlast_append Let_def
        inv del: map_map)
  also have "\<dots> = from_rev ?xs"
    using from_rev_trim [of ?xs] by simp
  also have "\<dots> = ns"
    using lt by (simp add: from_rev_digits_rev)
  finally show ?thesis .
qed

lemma parse_format_db_time [simp]: "parse_db_time (format_db_time t) = t"
proof -
  have "nat (t mod second) < 10 ^ 9" by simp
  then have "parse_suffix (frac_suffix (nat (t mod second))) = nat (t mod second)"
    by (rule parse_frac_suffix)
  then show ?thesis by (simp add: parse_db_time_def format_db_time_def)
qed

lemma format_db_time_inject [simp]: "format_db_time a = format_db_time b \<longleftrightarrow> a = b"
  by (metis parse_format_db_time)

section \<open>The order SQL sees\<close>

lemma format_db_time_less_iff:
  "format_db_time a < format_db_time b \<longleftrightarrow>
     a div second < b div second \<or>
     (a div second = b div second \<and>
      frac_suffix (nat (a mod second)) < frac_suffix (nat (b mod second)))"
  by (auto simp: format_db_time_def less_prod_def less_eq_prod_def)

text \<open>Across second boundaries the text order is the order of the instants.\<close>

lemma db_less_seconds:
  "a div second \<noteq> b div second \<Longrightarrow> format_db_time a < format_db_time b \<longleftrightarrow> a < b"
proof -
  assume "a div second \<noteq> b div second"
  moreover have "a div second < b div second \<Longrightarrow> a < b"
    by (metis div_pos_neg_trivial linorder_not_less zdiv_mono1 zero_less_numeral)
  moreover have "a < b \<Longrightarrow> a div second \<le> b div second"
    by (simp add: zdiv_mono1)
  ultimately show ?thesis by (auto simp: format_db_time_less_iff)
qed

lemma db_less_imp_within_second:
  assumes "format_db_time a < format_db_time b"
  shows "a < b + second"
proof -
  from assms have "a div second \<le> b div second"
    by (auto simp: format_db_time_less_iff)
  moreover have "a = a div second * second + a mod second" "b = b div second * second + b mod second"
    by simp_all
  moreover have "a mod second < second" "0 \<le> b mod second" by simp_all
  ultimately show ?thesis by linarith
qed

lemma db_less_of_second_later:
  assumes "a + second \<le> b"
  shows "format_db_time a < format_db_time b"
proof -
  from assms have "(a + second) div second \<le> b div second" by (rule zdiv_mono1) simp
  then have "a div second < b div second" by simp
  then show ?thesis by (simp add: format_db_time_less_iff)
qed

text \<open>Whole seconds are ordered correctly: both fractions are empty.\<close>

lemma db_less_whole:
  assumes "a mod second = 0" and "b mod second = 0"
  shows "format_db_time a < format_db_time b \<longleftrightarrow> a < b"
proof (cases "a div second = b div second")
  case True
  with assms have "a = b" by (metis div_mult_mod_eq)
  then show ?thesis by simp
next
  case False
  then show ?thesis by (rule db_less_seconds)
qed

end
