(* ===== verification/Approval_Store.thy ===== *)
theory Approval_Store
  imports Domain_Types Db_Time
begin

text \<open>
  The durable approval store: \<open>StoredApproval\<close> and its validation
  (\<open>edge/agent/storage/store.go\<close>) and the transactions on the table \<open>approval_records\<close>
  (\<open>edge/agent/storage/sqlite.go\<close>).

  The table is the list of its rows; \<open>approval_id\<close> is the primary key and \<open>decision_id\<close>
  is UNIQUE.  A row keeps instants; wherever SQL compares a stored timestamp with a bound
  one, the model compares their text forms (theory \<open>Db_Time\<close>), and reading a timestamp back
  is exact (\<open>parse_format_db_time\<close>).  Every operation runs in one transaction that commits
  or rolls back: a failure the database or the context reports (\<open>db_io\<close>) is an error that
  leaves the table alone.
\<close>

section \<open>Errors and failures of the database\<close>

datatype db_io = IoOk | IoCtx ctx_err | IoFault

datatype store_err =
    ErrStoreClosed | StoreCtx ctx_err | StoreFault | ErrBlankArgument string
  | ErrInvalidRecord string
  | ErrDuplicateApproval | ErrApprovalNotFound | ErrInvalidApprovalTransition approval_status
  | ErrStoreApprovalExpired | ErrStoreApprovalAlreadyConsumed | ErrCannotRejectApproved
  | ErrDuplicateMitigation | ErrMitigationNotFound
  | ErrInvalidMitigationTransition mitigation_status mitigation_status
  | ErrDuplicateEscalation | ErrEscalationNotFound
  | ErrEscalationTransition escalation_status escalation_status
  | ErrInvalidCircuitStateRecord
  | ErrDuplicateAnomaly | ErrIncidentNotFound | ErrNilObservation
  | ErrPersistInvalidIncident type_err
  | ErrDuplicateVerification | ErrStoreVerificationNotFound | ErrStoreVerificationTerminal
  | ErrInvalidVerificationTransition verification_status verification_status
  | ErrDuplicateBatch | ErrBatchNotFound | ErrPersistInvalidBatch type_err
  | ErrInvalidBatchTransition string string
  | ErrDuplicateAuditEvent | ErrAuditEventNotFound | ErrDuplicateCheckpoint | ErrCheckpointNotFound
  | ErrInvalidNodeIdentity | ErrNodeIdentityNotFound

text \<open>The guard every operation opens with: the store is open, the context live, the database answers.\<close>

fun io_err :: "db_io \<Rightarrow> store_err option" where
  "io_err IoOk = None"
| "io_err (IoCtx e) = Some (StoreCtx e)"
| "io_err IoFault = Some StoreFault"

definition db_guard :: "bool \<Rightarrow> db_io \<Rightarrow> store_err option" where
  "db_guard cl io = (if cl then Some ErrStoreClosed else io_err io)"

lemma db_guard_ok [simp]: "db_guard False IoOk = None"
  by (simp add: db_guard_def)

lemma db_guard_None: "db_guard cl io = None \<longleftrightarrow> \<not> cl \<and> io = IoOk"
  by (cases io) (auto simp: db_guard_def)

section \<open>Records\<close>

record stored_approval =
  sa_approval_id :: string
  sa_decision_id :: string
  sa_incident_id :: string
  sa_action_id :: string
  sa_node_id :: string
  sa_action_type :: action_type
  sa_target :: string
  sa_policy_version :: string
  sa_fingerprint :: string
  sa_status :: approval_status
  sa_requested_at :: gotime
  sa_expires_at :: gotime
  sa_requested_by :: string
  sa_approved_by :: string
  sa_rejected_by :: string
  sa_reason :: string
  sa_created_at :: gotime
  sa_updated_at :: gotime
  sa_consumed_at :: "gotime option"

definition stored_approval_validate :: "stored_approval \<Rightarrow> store_err option" where
  "stored_approval_validate a =
     (if blank (sa_approval_id a) then Some (ErrInvalidRecord ''approval_id cannot be empty'')
      else if blank (sa_decision_id a) then Some (ErrInvalidRecord ''decision_id cannot be empty'')
      else if blank (sa_incident_id a) then Some (ErrInvalidRecord ''incident_id cannot be empty'')
      else if blank (sa_action_id a) then Some (ErrInvalidRecord ''action_id cannot be empty'')
      else if blank (sa_node_id a) then Some (ErrInvalidRecord ''node_id cannot be empty'')
      else if \<not> action_type_valid (sa_action_type a) then Some (ErrInvalidRecord ''invalid action_type'')
      else if blank (sa_target a) then Some (ErrInvalidRecord ''target cannot be empty'')
      else if blank (sa_policy_version a) then Some (ErrInvalidRecord ''policy_version cannot be empty'')
      else if blank (sa_fingerprint a) then Some (ErrInvalidRecord ''decision_fingerprint cannot be empty'')
      else if \<not> approval_status_valid (sa_status a) then Some (ErrInvalidRecord ''invalid approval status'')
      else if is_zero (sa_requested_at a) then Some (ErrInvalidRecord ''requested_at cannot be zero'')
      else if is_zero (sa_expires_at a) then Some (ErrInvalidRecord ''expires_at cannot be zero'')
      else if sa_expires_at a < sa_requested_at a
        then Some (ErrInvalidRecord ''expires_at cannot be before requested_at'')
      else if blank (sa_requested_by a) then Some (ErrInvalidRecord ''requested_by cannot be empty'')
      else None)"

record approval_store =
  ap_closed :: bool
  ap_rows :: "stored_approval list"

definition find_approval :: "string \<Rightarrow> stored_approval list \<Rightarrow> stored_approval option" where
  "find_approval aid rows = find (\<lambda>r. sa_approval_id r = aid) rows"

definition set_rows :: "stored_approval list \<Rightarrow> approval_store \<Rightarrow> approval_store" where
  "set_rows rows s = s\<lparr>ap_rows := rows\<rparr>"

section \<open>Operations\<close>

definition record_approval ::
  "db_io \<Rightarrow> stored_approval option \<Rightarrow> approval_store \<Rightarrow> store_err option \<times> approval_store" where
  "record_approval io app_ptr s =
     (case app_ptr of None \<Rightarrow> (Some (ErrInvalidRecord ''approval''), s) | Some app \<Rightarrow>
      case stored_approval_validate app of Some e \<Rightarrow> (Some e, s) | None \<Rightarrow>
      case db_guard (ap_closed s) io of Some e \<Rightarrow> (Some e, s) | None \<Rightarrow>
        if list_ex (\<lambda>r. sa_approval_id r = sa_approval_id app \<or> sa_decision_id r = sa_decision_id app)
             (ap_rows s)
        then (Some ErrDuplicateApproval, s)
        else (None, set_rows (ap_rows s @ [app]) s))"

definition get_approval ::
  "db_io \<Rightarrow> string \<Rightarrow> approval_store \<Rightarrow> store_err + stored_approval" where
  "get_approval io aid s =
     (if blank aid then Inl (ErrBlankArgument ''approval_id'')
      else case db_guard (ap_closed s) io of Some e \<Rightarrow> Inl e | None \<Rightarrow>
        (case find_approval aid (ap_rows s) of
           None \<Rightarrow> Inl ErrApprovalNotFound | Some r \<Rightarrow> Inr r))"

definition get_approval_by_decision_id ::
  "db_io \<Rightarrow> string \<Rightarrow> approval_store \<Rightarrow> store_err + stored_approval" where
  "get_approval_by_decision_id io did s =
     (if blank did then Inl (ErrBlankArgument ''decision_id'')
      else case db_guard (ap_closed s) io of Some e \<Rightarrow> Inl e | None \<Rightarrow>
        (case find (\<lambda>r. sa_decision_id r = did) (ap_rows s) of
           None \<Rightarrow> Inl ErrApprovalNotFound | Some r \<Rightarrow> Inr r))"

text \<open>\<open>UPDATE ... SET status = 'EXPIRED', updated_at = now WHERE approval_id = ?\<close>.\<close>

definition expire_row :: "string \<Rightarrow> gotime \<Rightarrow> stored_approval list \<Rightarrow> stored_approval list" where
  "expire_row aid now rows =
     update_where (\<lambda>r. sa_approval_id r = aid)
       (\<lambda>r. r\<lparr>sa_status := ApprovalExpired, sa_updated_at := now\<rparr>) rows"

definition approve_approval ::
  "db_io \<Rightarrow> string \<Rightarrow> string \<Rightarrow> gotime \<Rightarrow> approval_store \<Rightarrow> store_err option \<times> approval_store" where
  "approve_approval io aid by_whom now s =
     (if blank aid then (Some (ErrBlankArgument ''approval_id''), s)
      else if blank by_whom then (Some (ErrBlankArgument ''approved_by''), s)
      else case db_guard (ap_closed s) io of Some e \<Rightarrow> (Some e, s) | None \<Rightarrow>
      case find_approval aid (ap_rows s) of None \<Rightarrow> (Some ErrApprovalNotFound, s) | Some r \<Rightarrow>
        if sa_status r = ApprovalApproved then (None, s)
        else if approval_terminal (sa_status r)
          then (Some (ErrInvalidApprovalTransition (sa_status r)), s)
        else if sa_expires_at r \<le> now
          then (Some ErrStoreApprovalExpired, set_rows (expire_row aid now (ap_rows s)) s)
        else let p = (\<lambda>r. sa_approval_id r = aid \<and> sa_status r = ApprovalPending)
             in if rows_affected p (ap_rows s) = 0
                then (Some (ErrInvalidApprovalTransition (sa_status r)), s)
                else (None, set_rows (update_where p
                       (\<lambda>r. r\<lparr>sa_status := ApprovalApproved, sa_approved_by := by_whom,
                              sa_updated_at := now\<rparr>) (ap_rows s)) s))"

definition reject_approval ::
  "db_io \<Rightarrow> string \<Rightarrow> string \<Rightarrow> string \<Rightarrow> gotime \<Rightarrow> approval_store \<Rightarrow> store_err option \<times> approval_store" where
  "reject_approval io aid by_whom reason now s =
     (if blank aid then (Some (ErrBlankArgument ''approval_id''), s)
      else if blank by_whom then (Some (ErrBlankArgument ''rejected_by''), s)
      else case db_guard (ap_closed s) io of Some e \<Rightarrow> (Some e, s) | None \<Rightarrow>
      case find_approval aid (ap_rows s) of None \<Rightarrow> (Some ErrApprovalNotFound, s) | Some r \<Rightarrow>
        if sa_status r = ApprovalRejected then (None, s)
        else if sa_status r = ApprovalApproved then (Some ErrCannotRejectApproved, s)
        else if approval_terminal (sa_status r)
          then (Some (ErrInvalidApprovalTransition (sa_status r)), s)
        else let p = (\<lambda>r. sa_approval_id r = aid \<and> sa_status r = ApprovalPending)
             in if rows_affected p (ap_rows s) = 0
                then (Some (ErrInvalidApprovalTransition (sa_status r)), s)
                else (None, set_rows (update_where p
                       (\<lambda>r. r\<lparr>sa_status := ApprovalRejected, sa_rejected_by := by_whom,
                              sa_reason := reason, sa_updated_at := now\<rparr>) (ap_rows s)) s))"

definition cancel_approval ::
  "db_io \<Rightarrow> string \<Rightarrow> string \<Rightarrow> gotime \<Rightarrow> approval_store \<Rightarrow> store_err option \<times> approval_store" where
  "cancel_approval io aid reason now s =
     (if blank aid then (Some (ErrBlankArgument ''approval_id''), s)
      else case db_guard (ap_closed s) io of Some e \<Rightarrow> (Some e, s) | None \<Rightarrow>
      case find_approval aid (ap_rows s) of None \<Rightarrow> (Some ErrApprovalNotFound, s) | Some r \<Rightarrow>
        if sa_status r = ApprovalCancelled then (None, s)
        else if sa_status r = ApprovalConsumed
          then (Some (ErrInvalidApprovalTransition (sa_status r)), s)
        else if approval_terminal (sa_status r)
          then (Some (ErrInvalidApprovalTransition (sa_status r)), s)
        else let p = (\<lambda>r. sa_approval_id r = aid \<and>
                          (sa_status r = ApprovalPending \<or> sa_status r = ApprovalApproved))
             in if rows_affected p (ap_rows s) = 0
                then (Some (ErrInvalidApprovalTransition (sa_status r)), s)
                else (None, set_rows (update_where p
                       (\<lambda>r. r\<lparr>sa_status := ApprovalCancelled, sa_reason := reason,
                              sa_updated_at := now\<rparr>) (ap_rows s)) s))"

definition consumable :: "string \<Rightarrow> gotime \<Rightarrow> stored_approval \<Rightarrow> bool" where
  "consumable aid now r \<longleftrightarrow>
     sa_approval_id r = aid \<and> sa_status r = ApprovalApproved \<and>
     format_db_time now < format_db_time (sa_expires_at r)"

definition consume_approval ::
  "db_io \<Rightarrow> string \<Rightarrow> gotime \<Rightarrow> approval_store \<Rightarrow> store_err option \<times> approval_store" where
  "consume_approval io aid now s =
     (if blank aid then (Some (ErrBlankArgument ''approval_id''), s)
      else case db_guard (ap_closed s) io of Some e \<Rightarrow> (Some e, s) | None \<Rightarrow>
        if rows_affected (consumable aid now) (ap_rows s) = 1
        then (None, set_rows (update_where (consumable aid now)
               (\<lambda>r. r\<lparr>sa_status := ApprovalConsumed, sa_consumed_at := Some now,
                      sa_updated_at := now\<rparr>) (ap_rows s)) s)
        else case find_approval aid (ap_rows s) of None \<Rightarrow> (Some ErrApprovalNotFound, s) | Some r \<Rightarrow>
          if sa_status r = ApprovalConsumed then (Some ErrStoreApprovalAlreadyConsumed, s)
          else if sa_expires_at r \<le> now
            then (Some ErrStoreApprovalExpired, set_rows (expire_row aid now (ap_rows s)) s)
          else (Some (ErrInvalidApprovalTransition (sa_status r)), s))"

definition stale_approval :: "gotime \<Rightarrow> stored_approval \<Rightarrow> bool" where
  "stale_approval now r \<longleftrightarrow>
     (sa_status r = ApprovalPending \<or> sa_status r = ApprovalApproved) \<and>
     format_db_time (sa_expires_at r) \<le> format_db_time now"

definition expire_stale_approvals ::
  "db_io \<Rightarrow> gotime \<Rightarrow> approval_store \<Rightarrow> (store_err + nat) \<times> approval_store" where
  "expire_stale_approvals io now s =
     (case db_guard (ap_closed s) io of Some e \<Rightarrow> (Inl e, s) | None \<Rightarrow>
        (Inr (rows_affected (stale_approval now) (ap_rows s)),
         set_rows (update_where (stale_approval now)
           (\<lambda>r. r\<lparr>sa_status := ApprovalExpired, sa_updated_at := now\<rparr>) (ap_rows s)) s))"

definition list_approvals ::
  "db_io \<Rightarrow> string \<Rightarrow> int \<Rightarrow> approval_store \<Rightarrow> store_err + stored_approval list" where
  "list_approvals io iid limit s =
     (case db_guard (ap_closed s) io of Some e \<Rightarrow> Inl e | None \<Rightarrow>
        let n = (if limit \<le> 0 then 100 else nat limit);
            rows = (if iid \<noteq> [] then filter (\<lambda>r. sa_incident_id r = iid) (ap_rows s) else ap_rows s)
        in Inr (take n (sort_key (\<lambda>r. format_db_time (sa_requested_at r)) rows)))"

definition count_approvals :: "db_io \<Rightarrow> approval_store \<Rightarrow> store_err + nat" where
  "count_approvals io s =
     (case db_guard (ap_closed s) io of Some e \<Rightarrow> Inl e | None \<Rightarrow> Inr (length (ap_rows s)))"

end
