(* ===== verification/Approval_Ledger.thy ===== *)
theory Approval_Ledger
  imports Approval_Store
begin

text \<open>
  What the approval store promises its clients, over every sequence of operations: unique
  identifiers, the life cycle of a record, and that an approval is consumed at most once.
\<close>

section \<open>Identifiers are unique\<close>

definition ids_unique :: "approval_store \<Rightarrow> bool" where
  "ids_unique s \<longleftrightarrow>
     distinct (map sa_approval_id (ap_rows s)) \<and> distinct (map sa_decision_id (ap_rows s))"

definition status_of :: "approval_store \<Rightarrow> string \<Rightarrow> approval_status option" where
  "status_of s aid = map_option sa_status (find_approval aid (ap_rows s))"

text \<open>The operations of the store as data.\<close>

datatype approval_op =
    OpRecord stored_approval
  | OpApprove string string gotime
  | OpReject string string string gotime
  | OpCancel string string gotime
  | OpConsume string gotime
  | OpExpireStale gotime

fun approval_exec :: "db_io \<Rightarrow> approval_op \<Rightarrow> approval_store \<Rightarrow> store_err option \<times> approval_store" where
  "approval_exec io (OpRecord a) s = record_approval io (Some a) s"
| "approval_exec io (OpApprove aid who now) s = approve_approval io aid who now s"
| "approval_exec io (OpReject aid who why now) s = reject_approval io aid who why now s"
| "approval_exec io (OpCancel aid why now) s = cancel_approval io aid why now s"
| "approval_exec io (OpConsume aid now) s = consume_approval io aid now s"
| "approval_exec io (OpExpireStale now) s =
     (case expire_stale_approvals io now s of (Inl e, s') \<Rightarrow> (Some e, s') | (Inr n, s') \<Rightarrow> (None, s'))"

lemma set_rows_sel [simp]: "ap_rows (set_rows rows s) = rows" "ap_closed (set_rows rows s) = ap_closed s"
  by (simp_all add: set_rows_def)

lemma find_approval_update [simp]:
  assumes "\<And>r. sa_approval_id (f r) = sa_approval_id r"
  shows "find_approval aid (update_where p f rows) =
         map_option (\<lambda>r. if p r then f r else r) (find_approval aid rows)"
  unfolding find_approval_def by (rule find_key_update_where) (rule assms)

lemma find_approval_Some:
  "find_approval aid rows = Some r \<Longrightarrow> r \<in> set rows \<and> sa_approval_id r = aid"
  by (auto simp: find_approval_def find_Some_iff)

lemma find_approval_snoc:
  "find_approval aid (rows @ [a]) =
     (case find_approval aid rows of Some r \<Rightarrow> Some r
      | None \<Rightarrow> if sa_approval_id a = aid then Some a else None)"
  by (induction rows) (auto simp: find_approval_def)

lemmas approval_op_defs = record_approval_def approve_approval_def reject_approval_def
  cancel_approval_def consume_approval_def expire_stale_approvals_def expire_row_def Let_def

lemma approval_exec_unique [inv_intros]:
  "ids_unique s \<Longrightarrow> ids_unique (snd (approval_exec io op s))"
proof (cases op)
  case (OpRecord a)
  moreover assume "ids_unique s"
  ultimately show ?thesis
    by (auto simp: ids_unique_def approval_op_defs list_ex_iff split: option.splits)
qed (auto simp: ids_unique_def approval_op_defs map_update_where split: option.splits)

section \<open>The life cycle the store implements\<close>

text \<open>With unique identifiers an update by identifier touches at most the row it names.\<close>

lemma rows_affected_by_id:
  assumes "distinct (map sa_approval_id rows)" and "\<And>r. p r \<Longrightarrow> sa_approval_id r = aid"
  shows "rows_affected p rows =
     (case find_approval aid rows of None \<Rightarrow> 0 | Some r \<Rightarrow> if p r then 1 else 0)"
  using assms(1)
proof (induction rows)
  case Nil
  then show ?case by (simp add: rows_affected_def find_approval_def)
next
  case (Cons r rows)
  show ?case
  proof (cases "sa_approval_id r = aid")
    case True
    with Cons.prems have "\<forall>q \<in> set rows. sa_approval_id q \<noteq> aid" by (auto simp: image_iff)
    then have "filter p rows = []" using assms(2) by (auto simp: filter_empty_conv)
    with True show ?thesis by (simp add: rows_affected_def find_approval_def)
  next
    case False
    with assms(2) have "\<not> p r" by blast
    with False Cons show ?thesis by (simp add: rows_affected_def find_approval_def)
  qed
qed

lemma rows_affected_consumable:
  "ids_unique s \<Longrightarrow> rows_affected (consumable aid now) (ap_rows s) =
     (case find_approval aid (ap_rows s) of None \<Rightarrow> 0
      | Some r \<Rightarrow> if consumable aid now r then 1 else 0)"
  by (rule rows_affected_by_id) (auto simp: ids_unique_def consumable_def)

text \<open>
  The moves of a record's status.  They are the documented ones, plus the two the store
  adds: an approved record can be cancelled, and approving or consuming past the expiry
  overwrites any status but \<open>CONSUMED\<close> (and, for approving, the terminal ones) with
  \<open>EXPIRED\<close>.
\<close>

definition approval_moves :: "approval_status \<Rightarrow> approval_status \<Rightarrow> bool" where
  "approval_moves st st' \<longleftrightarrow>
     approval_can st st' \<or> (st = ApprovalApproved \<and> st' = ApprovalCancelled) \<or>
     (st \<noteq> ApprovalConsumed \<and> st' = ApprovalExpired)"

lemma approval_moves_refl [simp]: "approval_moves st st"
  by (simp add: approval_moves_def approval_fsm.can_refl)

lemma approval_moves_consumed: "approval_moves ApprovalConsumed st \<longleftrightarrow> st = ApprovalConsumed"
  by (auto simp: approval_moves_def approval_can_def)

lemma approval_moves_intros:
  "approval_moves ApprovalPending ApprovalApproved" "approval_moves ApprovalPending ApprovalRejected"
  "approval_moves ApprovalPending ApprovalCancelled" "approval_moves ApprovalApproved ApprovalCancelled"
  "approval_moves ApprovalApproved ApprovalConsumed"
  "st \<noteq> ApprovalConsumed \<Longrightarrow> approval_moves st ApprovalExpired"
  by (auto simp: approval_moves_def approval_can_def)

lemma approval_terminal_consumed: "approval_terminal st \<or> st \<noteq> ApprovalConsumed"
  by (cases st) auto

text \<open>No operation removes a record, and each moves its status along \<open>approval_moves\<close>.\<close>

lemma record_approval_status:
  "status_of s aid = Some st \<Longrightarrow> status_of (snd (record_approval io a s)) aid = Some st"
  by (auto simp: record_approval_def status_of_def find_approval_snoc
      split: option.splits)

definition moved :: "approval_store \<Rightarrow> string \<Rightarrow> approval_status \<Rightarrow> bool" where
  "moved s aid st \<longleftrightarrow> (\<exists>st'. status_of s aid = Some st' \<and> approval_moves st st')"

lemma moved_refl: "find_approval aid (ap_rows s) = Some r \<Longrightarrow> moved s aid (sa_status r)"
  by (auto simp: moved_def status_of_def)

lemma moved_update:
  assumes "find_approval aid (ap_rows s) = Some r"
    and "\<And>r. sa_approval_id (f r) = sa_approval_id r"
    and "p r \<Longrightarrow> approval_moves (sa_status r) (sa_status (f r))"
  shows "moved (set_rows (update_where p f (ap_rows s)) s) aid (sa_status r)"
  using assms by (auto simp: moved_def status_of_def)

lemma find_approval_same:
  "find_approval aid rows = Some r \<Longrightarrow> find_approval i rows = Some q \<Longrightarrow> sa_approval_id r = i \<Longrightarrow> q = r"
  using find_approval_Some by fastforce

lemma approval_exec_moved:
  assumes "find_approval aid (ap_rows s) = Some r"
  shows "moved (snd (approval_exec io op s)) aid (sa_status r)"
proof (cases op)
  case (OpRecord a)
  moreover have "status_of s aid = Some (sa_status r)" using assms by (simp add: status_of_def)
  ultimately show ?thesis using record_approval_status [of s aid "sa_status r"]
    by (simp add: moved_def)
next
  case (OpApprove i w n)
  then show ?thesis using moved_refl [OF assms] approval_terminal_consumed [of "sa_status r"]
      find_approval_same [OF assms, of i]
    by (auto simp: approval_op_defs approval_moves_intros split: option.splits
        intro!: moved_update [OF assms])
next
  case (OpReject i w y n)
  then show ?thesis using moved_refl [OF assms]
    by (auto simp: approval_op_defs approval_moves_intros split: option.splits
        intro!: moved_update [OF assms])
next
  case (OpCancel i y n)
  then show ?thesis using moved_refl [OF assms]
    by (auto simp: approval_op_defs approval_moves_intros split: option.splits
        intro!: moved_update [OF assms])
next
  case (OpConsume i n)
  then show ?thesis using moved_refl [OF assms] find_approval_same [OF assms, of i]
    by (auto simp: approval_op_defs approval_moves_intros consumable_def split: option.splits
        intro!: moved_update [OF assms])
next
  case (OpExpireStale n)
  then show ?thesis using moved_refl [OF assms]
    by (auto simp: approval_op_defs approval_moves_intros stale_approval_def split: option.splits
        intro!: moved_update [OF assms])
qed

lemma approval_exec_moves:
  assumes "status_of s aid = Some st"
  shows "\<exists>st'. status_of (snd (approval_exec io op s)) aid = Some st' \<and> approval_moves st st'"
proof -
  from assms obtain r where "find_approval aid (ap_rows s) = Some r" "sa_status r = st"
    by (auto simp: status_of_def)
  then show ?thesis using approval_exec_moved unfolding moved_def by blast
qed

section \<open>Consuming\<close>

lemma consume_success:
  assumes "ids_unique s" and "consume_approval io aid now s = (None, s')"
  obtains r where "find_approval aid (ap_rows s) = Some r" "sa_status r = ApprovalApproved"
    "format_db_time now < format_db_time (sa_expires_at r)"
    "status_of s' aid = Some ApprovalConsumed"
proof -
  from assms(2) have one: "rows_affected (consumable aid now) (ap_rows s) = 1"
    by (auto simp: consume_approval_def split: if_splits option.splits)
  have "(case find_approval aid (ap_rows s) of None \<Rightarrow> 0
         | Some r \<Rightarrow> if consumable aid now r then 1 else 0) = (1 :: nat)"
    using rows_affected_consumable [OF assms(1)] one by metis
  then obtain r where r: "find_approval aid (ap_rows s) = Some r" "consumable aid now r"
    by (cases "find_approval aid (ap_rows s)") (simp_all split: if_splits)
  from assms(2) one have "s' = set_rows (update_where (consumable aid now)
      (\<lambda>r. r\<lparr>sa_status := ApprovalConsumed, sa_consumed_at := Some now, sa_updated_at := now\<rparr>) (ap_rows s)) s"
    by (auto simp: consume_approval_def split: if_splits option.splits)
  with r have "status_of s' aid = Some ApprovalConsumed"
    by (simp add: status_of_def)
  with r that show ?thesis by (auto simp: consumable_def)
qed

lemma consume_enabled:
  assumes "ids_unique s" "\<not> ap_closed s" "\<not> blank aid"
    and "find_approval aid (ap_rows s) = Some r" "sa_status r = ApprovalApproved"
    and "format_db_time now < format_db_time (sa_expires_at r)"
  shows "fst (consume_approval IoOk aid now s) = None"
  using assms find_approval_Some [OF assms(4)]
  by (simp add: consume_approval_def rows_affected_consumable consumable_def)

definition approval_step :: "db_io \<times> approval_op \<Rightarrow> approval_store \<Rightarrow> bool \<times> approval_store" where
  "approval_step iop s = (let (e, s') = approval_exec (fst iop) (snd iop) s in (e = None, s'))"

definition consumes_id :: "string \<Rightarrow> db_io \<times> approval_op \<Rightarrow> bool" where
  "consumes_id aid iop \<longleftrightarrow> (\<exists>now. snd iop = OpConsume aid now)"

lemma consumes_id_case:
  "consumes_id aid (io, op) = (case op of OpConsume i now \<Rightarrow> i = aid | _ \<Rightarrow> False)"
  by (cases op) (auto simp: consumes_id_def)

lemma approval_step_sel [simp]:
  "fst (approval_step iop s) = (fst (approval_exec (fst iop) (snd iop) s) = None)"
  "snd (approval_step iop s) = snd (approval_exec (fst iop) (snd iop) s)"
  by (simp_all add: approval_step_def split_beta)

interpretation ledger: consume_once approval_step consumes_id
  "\<lambda>s aid. status_of s aid = Some ApprovalConsumed" ids_unique
proof unfold_locales
  fix s op
  assume "ids_unique s"
  then show "ids_unique (snd (approval_step op s))" by (simp add: approval_exec_unique)
next
  fix s i op
  assume "status_of s i = Some ApprovalConsumed"
  then obtain st' where "status_of (snd (approval_exec (fst op) (snd op) s)) i = Some st'"
    "approval_moves ApprovalConsumed st'"
    using approval_exec_moves by blast
  then show "status_of (snd (approval_step op s)) i = Some ApprovalConsumed"
    by (simp add: approval_moves_consumed)
next
  fix s i op
  assume inv: "ids_unique s" and "consumes_id i op" and ok: "fst (approval_step op s)"
  then obtain now where op: "snd op = OpConsume i now" by (auto simp: consumes_id_def)
  with ok have "consume_approval (fst op) i now s = (None, snd (consume_approval (fst op) i now s))"
    by (simp add: prod_eq_iff)
  then obtain r where "find_approval i (ap_rows s) = Some r" "sa_status r = ApprovalApproved"
    "status_of (snd (consume_approval (fst op) i now s)) i = Some ApprovalConsumed"
    using consume_success [OF inv] by metis
  then show "status_of s i \<noteq> Some ApprovalConsumed"
    and "status_of (snd (approval_step op s)) i = Some ApprovalConsumed"
    by (simp_all add: status_of_def op)
qed

section \<open>Runs of the store\<close>

fun approval_run :: "(db_io \<times> approval_op) list \<Rightarrow> approval_store \<Rightarrow> approval_store" where
  "approval_run [] s = s"
| "approval_run ((io, op) # ops) s = approval_run ops (snd (approval_exec io op s))"

text \<open>How many \<open>ConsumeApproval\<close> calls for \<open>aid\<close> return nil in a run.\<close>

fun consume_count :: "string \<Rightarrow> (db_io \<times> approval_op) list \<Rightarrow> approval_store \<Rightarrow> nat" where
  "consume_count aid [] s = 0"
| "consume_count aid ((io, op) # ops) s =
     (let (e, s') = approval_exec io op s
      in (case op of OpConsume i now \<Rightarrow> if i = aid \<and> e = None then 1 else 0 | _ \<Rightarrow> 0) +
         consume_count aid ops s')"

lemma approval_run_ledger: "approval_run ops s = ledger.run ops s"
  by (induction ops s rule: approval_run.induct) simp_all

lemma consume_count_ledger: "consume_count aid ops s = ledger.successes aid ops s"
proof (induction ops arbitrary: s)
  case Nil
  then show ?case by simp
next
  case (Cons iop ops)
  obtain io op where iop: "iop = (io, op)" by (cases iop)
  show ?case
    by (cases op) (auto simp: iop Cons.IH consumes_id_case split_beta)
qed

definition sample_approval :: stored_approval where
  "sample_approval = \<lparr>sa_approval_id = ''app-1'', sa_decision_id = ''dec-1'', sa_incident_id = ''i'',
     sa_action_id = ''act-1'', sa_node_id = ''n'', sa_action_type = ActionSimulatedRestart,
     sa_target = ''collector'', sa_policy_version = ''1.0.0'', sa_fingerprint = ''fp'',
     sa_status = ApprovalApproved, sa_requested_at = second, sa_expires_at = 9 * second,
     sa_requested_by = ''op'', sa_approved_by = ''boss'', sa_rejected_by = [], sa_reason = [],
     sa_created_at = second, sa_updated_at = second, sa_consumed_at = None\<rparr>"

definition sample_store :: approval_store where
  "sample_store = \<lparr>ap_closed = False, ap_rows = [sample_approval]\<rparr>"

lemma sample_facts:
  "ids_unique sample_store" "\<not> blank ''app-1''"
  "find_approval ''app-1'' (ap_rows sample_store) = Some sample_approval"
  "ap_closed sample_store = False" "sa_status sample_approval = ApprovalApproved"
  "sa_expires_at sample_approval = 9 * second"
proof -
  show "\<not> blank ''app-1''" by code_simp
qed (simp_all add: ids_unique_def sample_store_def sample_approval_def find_approval_def)

section \<open>Properties\<close>

text \<open>
  C0. An approval is spent at most once.  In every sequence of store operations, with
  whatever database failures in between, at most one \<open>ConsumeApproval\<close> for a given
  approval returns nil, and after it the record stays \<open>CONSUMED\<close>.
\<close>

theorem approval_consumed_at_most_once:
  assumes "ids_unique s"
  shows "consume_count aid ops s \<le> 1 \<and>
    (consume_count aid ops s = 0 \<or> status_of (approval_run ops s) aid = Some ApprovalConsumed)"
  using ledger.at_most_one_success [OF assms, of aid ops] ledger.success_spends [OF assms, of aid ops]
  by (auto simp: consume_count_ledger approval_run_ledger)

theorem approval_consumed_at_most_once_witness:
  "consume_count ''app-1'' [(IoOk, OpConsume ''app-1'' (2 * second)), (IoOk, OpConsume ''app-1'' (3 * second))]
     sample_store \<le> 1 \<and>
   status_of (approval_run [(IoOk, OpConsume ''app-1'' (2 * second)), (IoOk, OpConsume ''app-1'' (3 * second))]
     sample_store) ''app-1'' = Some ApprovalConsumed"
proof -
  let ?ops = "[(IoOk, OpConsume ''app-1'' (2 * second)), (IoOk, OpConsume ''app-1'' (3 * second))]"
  have "format_db_time (2 * second) < format_db_time (9 * second)" by (simp add: db_less_whole)
  then have "fst (consume_approval IoOk ''app-1'' (2 * second) sample_store) = None"
    using sample_facts by (intro consume_enabled) auto
  then have "consume_count ''app-1'' ?ops sample_store \<noteq> 0"
    by (simp add: split_beta)
  with approval_consumed_at_most_once [OF sample_facts(1), of "''app-1''" ?ops] show ?thesis by auto
qed

text \<open>
  The life cycle of an approval record.  No operation, failing or not, removes a record,
  and each moves its status only along the documented transitions, to \<open>CANCELLED\<close> from
  \<open>APPROVED\<close>, or to \<open>EXPIRED\<close> from any status but \<open>CONSUMED\<close>; identifiers stay unique.
\<close>

theorem approval_lifecycle:
  assumes "ids_unique s" and "status_of s aid = Some st"
  shows "ids_unique (snd (approval_exec io op s)) \<and>
    (\<exists>st'. status_of (snd (approval_exec io op s)) aid = Some st' \<and>
       (approval_can st st' \<or> st = ApprovalApproved \<and> st' = ApprovalCancelled \<or>
        st \<noteq> ApprovalConsumed \<and> st' = ApprovalExpired))"
  using approval_exec_unique [OF assms(1)] approval_exec_moves [OF assms(2), of io op]
  by (simp add: approval_moves_def)

theorem approval_lifecycle_witness:
  "\<exists>st'. status_of (snd (approval_exec IoOk (OpCancel ''app-1'' [] 5) sample_store)) ''app-1'' = Some st' \<and>
     (approval_can ApprovalApproved st' \<or> st' = ApprovalCancelled \<or> st' = ApprovalExpired)"
  using approval_lifecycle [OF sample_facts(1), of "''app-1''" ApprovalApproved IoOk "OpCancel ''app-1'' [] 5"]
  by (auto simp: status_of_def sample_facts)

text \<open>
  What a successful consumption means.  The record existed in status \<open>APPROVED\<close>, it
  expires less than one second before the consumption at the earliest (the SQL comparison
  is exact up to the fraction of a second), with whole-second timestamps it has not expired,
  and it is \<open>CONSUMED\<close> afterwards.
\<close>

theorem consume_requires_live_approval:
  assumes "ids_unique s" and "consume_approval io aid now s = (None, s')"
  shows "\<exists>r. find_approval aid (ap_rows s) = Some r \<and> sa_status r = ApprovalApproved \<and>
    now < sa_expires_at r + second \<and>
    (now mod second = 0 \<and> sa_expires_at r mod second = 0 \<longrightarrow> now < sa_expires_at r) \<and>
    status_of s' aid = Some ApprovalConsumed"
  using consume_success [OF assms] db_less_imp_within_second db_less_whole by metis

theorem consume_requires_live_approval_witness:
  "\<exists>r. find_approval ''app-1'' (ap_rows sample_store) = Some r \<and> sa_status r = ApprovalApproved \<and>
    2 * second < sa_expires_at r + second"
proof -
  have "format_db_time (2 * second) < format_db_time (9 * second)" by (simp add: db_less_whole)
  then have "fst (consume_approval IoOk ''app-1'' (2 * second) sample_store) = None"
    using sample_facts by (intro consume_enabled) auto
  then have "consume_approval IoOk ''app-1'' (2 * second) sample_store =
      (None, snd (consume_approval IoOk ''app-1'' (2 * second) sample_store))"
    by (simp add: prod_eq_iff)
  from consume_requires_live_approval [OF sample_facts(1) this] show ?thesis by blast
qed

section \<open>Where the store departs from its documentation\<close>

text \<open>
  The comparison \<open>expires_at > now\<close> is made on text, and \<open>9Z\<close> sorts after \<open>9.5Z\<close>: an
  approval can be consumed although it has expired.
\<close>

theorem expired_approval_consumed:
  "\<exists>now. sa_expires_at sample_approval < now \<and> fst (consume_approval IoOk ''app-1'' now sample_store) = None"
proof (intro exI conjI)
  have nine: "(9::nat) = Suc (Suc (Suc (Suc (Suc (Suc (Suc (Suc (Suc 0))))))))" by simp
  have "digits_rev 9 500000000 = [0, 0, 0, 0, 0, 0, 0, 0, 5]"
    by (subst nine, simp only: digits_rev.simps) simp
  moreover have "digit_char 5 = CHR ''5''" by code_simp
  ultimately have "frac_suffix 500000000 = ''.5Z''"
    by (simp add: frac_suffix_def)
  then have "format_db_time (9 * second + 500000000) < format_db_time (9 * second)"
    by (simp add: format_db_time_def less_prod_def less_eq_prod_def frac_suffix_def [of 0])
  then show "fst (consume_approval IoOk ''app-1'' (9 * second + 500000000) sample_store) = None"
    using sample_facts by (intro consume_enabled) auto
  show "sa_expires_at sample_approval < 9 * second + 500000000" by (simp add: sample_facts)
qed

text \<open>
  Consuming a rejected approval after its expiry overwrites the terminal status, which the
  status machine forbids.
\<close>

theorem consume_overwrites_rejection:
  "\<exists>s. status_of s ''app-1'' = Some ApprovalRejected \<and>
     status_of (snd (consume_approval IoOk ''app-1'' (20 * second) s)) ''app-1'' = Some ApprovalExpired \<and>
     \<not> approval_can ApprovalRejected ApprovalExpired"
proof (intro exI conjI)
  let ?s = "\<lparr>ap_closed = False, ap_rows = [sample_approval\<lparr>sa_status := ApprovalRejected\<rparr>]\<rparr>"
  show "status_of ?s ''app-1'' = Some ApprovalRejected"
    by (simp add: status_of_def find_approval_def sample_approval_def)
  show "status_of (snd (consume_approval IoOk ''app-1'' (20 * second) ?s)) ''app-1'' = Some ApprovalExpired"
    by (simp add: consume_approval_def sample_facts rows_affected_def consumable_def find_approval_def
        sample_approval_def status_of_def expire_row_def update_where_def)
  show "\<not> approval_can ApprovalRejected ApprovalExpired" by (simp add: approval_can_def)
qed

end
