(* ===== verification/Approval.thy ===== *)
theory Approval
  imports Response_Safety Approval_Ledger
begin

text \<open>
  \<open>edge/agent/response/approval.go\<close>: operator approvals bound to a decision, the decision
  fingerprint, the execution-time gate, and the approval manager over the durable store.

  \<open>DecisionID[4:]\<close> panics on identifiers shorter than four bytes, and it is evaluated before
  the prefix test that would avoid it; the panic is an outcome of the gate.
\<close>

record operator_approval =
  oa_approval_id :: string
  oa_decision_id :: string
  oa_incident_id :: string
  oa_action_id :: string
  oa_node_id :: string
  oa_action_type :: action_type
  oa_target :: string
  oa_policy_version :: string
  oa_fingerprint :: string
  oa_status :: approval_status
  oa_requested_at :: gotime
  oa_expires_at :: gotime
  oa_requested_by :: string
  oa_approved_by :: string
  oa_rejected_by :: string
  oa_reason :: string
  oa_created_at :: gotime
  oa_updated_at :: gotime
  oa_consumed_at :: "gotime option"

datatype approval_err =
    AErrNilApproval | AErrNilDecision | AErrNilIncident | AErrInvalidDecision decision_err
  | ErrApprovalNotApproved approval_status | ErrApprovalAlreadyConsumed | ErrApprovalExpired
  | ErrApprovalRejected | ErrApprovalCancelled
  | ErrApprovalDecisionMismatch string string
  | ErrForbiddenNotOverridable | ErrNotApprovalRequired auth_class
  | ErrGateNotAllowlisted | ErrGateInvalidTarget
  | ErrNilApprovalStore | ErrEmptyRequestedBy | ErrFromStore store_err

section \<open>Identifiers and fingerprint\<close>

text \<open>\<open>act-\<close> or \<open>app-\<close> identifier of a decision; \<open>None\<close> is the panic of the slice.\<close>

definition bound_id :: "string \<Rightarrow> string \<Rightarrow> string option" where
  "bound_id p did =
     (case suffixed_id p did of
        None \<Rightarrow> None
      | Some s \<Rightarrow> Some (if has_prefix did ''dec-'' then s else p @ did))"

definition sorted_params :: "gomap \<Rightarrow> string" where
  "sorted_params ps =
     concat (map (\<lambda>k. k @ ''='' @ (case map_of ps k of None \<Rightarrow> [] | Some w \<Rightarrow> w) @ '';'')
       (sort (map fst ps)))"

definition fingerprint_preimage :: "decision \<Rightarrow> string \<Rightarrow> string" where
  "fingerprint_preimage dec action_id =
     join ''|'' [trim_space (dec_id dec), trim_space (dec_incident_id dec), action_id,
       trim_space (dec_node_id dec), trim_space (action_type_string (dec_action_type dec)),
       trim_space (dec_target dec), trim_space (dec_policy_version dec),
       trim_space (auth_class_string (dec_auth_class dec))] @ ''|'' @
     sorted_params (dec_parameters dec)"

definition compute_fingerprint :: "digest \<Rightarrow> decision \<Rightarrow> string option" where
  "compute_fingerprint sha dec =
     (case bound_id ''act-'' (dec_id dec) of
        None \<Rightarrow> None
      | Some action_id \<Rightarrow>
          Some (''fp-'' @ hex_bytes (take 16 (sha (fingerprint_preimage dec action_id)))))"

section \<open>Requesting an approval\<close>

record approval_request =
  rq_decision :: "decision option"
  rq_requested_by :: string
  rq_ttl :: duration
  rq_reason :: string

datatype 'a outcome = Panics | Fails approval_err | Gives 'a

definition new_approval_from_request ::
  "digest \<Rightarrow> approval_request \<Rightarrow> gotime \<Rightarrow> operator_approval outcome" where
  "new_approval_from_request sha req now =
     (case rq_decision req of None \<Rightarrow> Fails AErrNilDecision | Some dec \<Rightarrow>
      case decision_validate sha dec of Some e \<Rightarrow> Fails (AErrInvalidDecision e) | None \<Rightarrow>
      if dec_auth_class dec = AuthForbidden then Fails ErrForbiddenNotOverridable
      else if blank (rq_requested_by req) then Fails ErrEmptyRequestedBy
      else
        let ttl = (if rq_ttl req \<le> 0 then 15 * minute else rq_ttl req)
        in case (bound_id ''act-'' (dec_id dec), bound_id ''app-'' (dec_id dec), compute_fingerprint sha dec) of
             (Some action_id, Some approval_id, Some fp) \<Rightarrow>
               Gives \<lparr>oa_approval_id = approval_id, oa_decision_id = dec_id dec,
                 oa_incident_id = dec_incident_id dec, oa_action_id = action_id,
                 oa_node_id = dec_node_id dec, oa_action_type = dec_action_type dec,
                 oa_target = dec_target dec, oa_policy_version = dec_policy_version dec,
                 oa_fingerprint = fp, oa_status = ApprovalPending, oa_requested_at = now,
                 oa_expires_at = now + ttl, oa_requested_by = rq_requested_by req,
                 oa_approved_by = [], oa_rejected_by = [], oa_reason = rq_reason req,
                 oa_created_at = now, oa_updated_at = now, oa_consumed_at = None\<rparr>
           | _ \<Rightarrow> Panics)"

definition to_stored :: "operator_approval \<Rightarrow> stored_approval" where
  "to_stored a = \<lparr>sa_approval_id = oa_approval_id a, sa_decision_id = oa_decision_id a,
     sa_incident_id = oa_incident_id a, sa_action_id = oa_action_id a, sa_node_id = oa_node_id a,
     sa_action_type = oa_action_type a, sa_target = oa_target a,
     sa_policy_version = oa_policy_version a, sa_fingerprint = oa_fingerprint a,
     sa_status = oa_status a, sa_requested_at = oa_requested_at a, sa_expires_at = oa_expires_at a,
     sa_requested_by = oa_requested_by a, sa_approved_by = oa_approved_by a,
     sa_rejected_by = oa_rejected_by a, sa_reason = oa_reason a, sa_created_at = oa_created_at a,
     sa_updated_at = oa_updated_at a, sa_consumed_at = oa_consumed_at a\<rparr>"

definition stored_to_approval :: "stored_approval \<Rightarrow> operator_approval" where
  "stored_to_approval s = \<lparr>oa_approval_id = sa_approval_id s, oa_decision_id = sa_decision_id s,
     oa_incident_id = sa_incident_id s, oa_action_id = sa_action_id s, oa_node_id = sa_node_id s,
     oa_action_type = sa_action_type s, oa_target = sa_target s,
     oa_policy_version = sa_policy_version s, oa_fingerprint = sa_fingerprint s,
     oa_status = sa_status s, oa_requested_at = sa_requested_at s, oa_expires_at = sa_expires_at s,
     oa_requested_by = sa_requested_by s, oa_approved_by = sa_approved_by s,
     oa_rejected_by = sa_rejected_by s, oa_reason = sa_reason s, oa_created_at = sa_created_at s,
     oa_updated_at = sa_updated_at s, oa_consumed_at = sa_consumed_at s\<rparr>"

section \<open>The execution-time gate\<close>

definition status_gate :: "approval_status \<Rightarrow> approval_err option" where
  "status_gate st =
     (case st of
        ApprovalApproved \<Rightarrow> None
      | ApprovalPending \<Rightarrow> Some (ErrApprovalNotApproved st)
      | ApprovalConsumed \<Rightarrow> Some ErrApprovalAlreadyConsumed
      | ApprovalRejected \<Rightarrow> Some ErrApprovalRejected
      | ApprovalCancelled \<Rightarrow> Some ErrApprovalCancelled
      | ApprovalExpired \<Rightarrow> Some ErrApprovalExpired
      | ApprovalOther _ \<Rightarrow> Some (ErrApprovalNotApproved st))"

definition validate_for_execution ::
  "digest \<Rightarrow> operator_approval option \<Rightarrow> decision option \<Rightarrow> incident option \<Rightarrow> gotime \<Rightarrow> unit outcome" where
  "validate_for_execution sha app_ptr dec_ptr inc_ptr now =
     (case app_ptr of None \<Rightarrow> Fails AErrNilApproval | Some app \<Rightarrow>
      case dec_ptr of None \<Rightarrow> Fails AErrNilDecision | Some dec \<Rightarrow>
      case inc_ptr of None \<Rightarrow> Fails AErrNilIncident | Some inc \<Rightarrow>
      case status_gate (oa_status app) of Some e \<Rightarrow> Fails e | None \<Rightarrow>
      if oa_expires_at app \<le> now then Fails ErrApprovalExpired
      else if oa_consumed_at app \<noteq> None then Fails ErrApprovalAlreadyConsumed
      else if oa_incident_id app \<noteq> dec_incident_id dec
        then Fails (ErrApprovalDecisionMismatch (oa_incident_id app) (dec_incident_id dec))
      else if dec_incident_id dec \<noteq> inc_id inc
        then Fails (ErrApprovalDecisionMismatch (dec_incident_id dec) (inc_id inc))
      else if oa_decision_id app \<noteq> dec_id dec
        then Fails (ErrApprovalDecisionMismatch (oa_decision_id app) (dec_id dec))
      else case bound_id ''act-'' (dec_id dec) of None \<Rightarrow> Panics | Some expected \<Rightarrow>
      if oa_action_id app \<noteq> expected
        then Fails (ErrApprovalDecisionMismatch (oa_action_id app) expected)
      else if oa_node_id app \<noteq> dec_node_id dec
        then Fails (ErrApprovalDecisionMismatch (oa_node_id app) (dec_node_id dec))
      else if dec_node_id dec \<noteq> inc_node_id inc
        then Fails (ErrApprovalDecisionMismatch (dec_node_id dec) (inc_node_id inc))
      else if oa_action_type app \<noteq> dec_action_type dec
        then Fails (ErrApprovalDecisionMismatch (action_type_string (oa_action_type app))
               (action_type_string (dec_action_type dec)))
      else if oa_target app \<noteq> dec_target dec
        then Fails (ErrApprovalDecisionMismatch (oa_target app) (dec_target dec))
      else if oa_policy_version app \<noteq> dec_policy_version dec
        then Fails (ErrApprovalDecisionMismatch (oa_policy_version app) (dec_policy_version dec))
      else case compute_fingerprint sha dec of None \<Rightarrow> Panics | Some fp \<Rightarrow>
      if oa_fingerprint app \<noteq> fp
        then Fails (ErrApprovalDecisionMismatch fp (oa_fingerprint app))
      else if dec_auth_class dec \<noteq> AuthApprovalRequired
        then Fails (ErrNotApprovalRequired (dec_auth_class dec))
      else if dec_auth_class dec = AuthForbidden then Fails ErrForbiddenNotOverridable
      else if \<not> is_allowlisted (dec_action_type dec) then Fails ErrGateNotAllowlisted
      else if \<not> is_valid_target (dec_target dec) then Fails ErrGateInvalidTarget
      else Gives ())"

section \<open>The approval manager\<close>

text \<open>
  \<open>ApprovalManager\<close> over the durable store; \<open>None\<close> is a manager built without a store.
  The clock reading is the argument \<open>now\<close>.
\<close>

definition request_approval ::
  "digest \<Rightarrow> db_io \<Rightarrow> approval_request \<Rightarrow> gotime \<Rightarrow> approval_store option \<Rightarrow>
   operator_approval outcome \<times> approval_store option" where
  "request_approval sha io req now st =
     (case st of None \<Rightarrow> (Fails ErrNilApprovalStore, st) | Some s \<Rightarrow>
      case new_approval_from_request sha req now of
        Panics \<Rightarrow> (Panics, st)
      | Fails e \<Rightarrow> (Fails e, st)
      | Gives app \<Rightarrow>
          (case record_approval io (Some (to_stored app)) s of
             (Some e, s') \<Rightarrow> (Fails (ErrFromStore e), Some s')
           | (None, s') \<Rightarrow> (Gives app, Some s')))"

definition via_store ::
  "(approval_store \<Rightarrow> store_err option \<times> approval_store) \<Rightarrow> approval_store option \<Rightarrow>
   approval_err option \<times> approval_store option" where
  "via_store f st =
     (case st of None \<Rightarrow> (Some ErrNilApprovalStore, st)
      | Some s \<Rightarrow> (case f s of (e, s') \<Rightarrow> (map_option ErrFromStore e, Some s')))"

definition manager_approve ::
  "db_io \<Rightarrow> string \<Rightarrow> string \<Rightarrow> gotime \<Rightarrow> approval_store option \<Rightarrow> approval_err option \<times> approval_store option" where
  "manager_approve io aid who now = via_store (approve_approval io aid who now)"

definition manager_reject ::
  "db_io \<Rightarrow> string \<Rightarrow> string \<Rightarrow> string \<Rightarrow> gotime \<Rightarrow> approval_store option \<Rightarrow> approval_err option \<times> approval_store option" where
  "manager_reject io aid who why now = via_store (reject_approval io aid who why now)"

definition manager_cancel ::
  "db_io \<Rightarrow> string \<Rightarrow> string \<Rightarrow> gotime \<Rightarrow> approval_store option \<Rightarrow> approval_err option \<times> approval_store option" where
  "manager_cancel io aid why now = via_store (cancel_approval io aid why now)"

definition manager_consume ::
  "db_io \<Rightarrow> string \<Rightarrow> gotime \<Rightarrow> approval_store option \<Rightarrow> approval_err option \<times> approval_store option" where
  "manager_consume io aid now = via_store (consume_approval io aid now)"

definition manager_get :: "db_io \<Rightarrow> string \<Rightarrow> approval_store option \<Rightarrow> operator_approval outcome" where
  "manager_get io aid st =
     (case st of None \<Rightarrow> Fails ErrNilApprovalStore | Some s \<Rightarrow>
      case get_approval io aid s of Inl e \<Rightarrow> Fails (ErrFromStore e)
      | Inr r \<Rightarrow> Gives (stored_to_approval r))"

definition manager_get_by_decision :: "db_io \<Rightarrow> string \<Rightarrow> approval_store option \<Rightarrow> operator_approval outcome" where
  "manager_get_by_decision io did st =
     (case st of None \<Rightarrow> Fails ErrNilApprovalStore | Some s \<Rightarrow>
      case get_approval_by_decision_id io did s of Inl e \<Rightarrow> Fails (ErrFromStore e)
      | Inr r \<Rightarrow> Gives (stored_to_approval r))"

definition manager_validate ::
  "digest \<Rightarrow> db_io \<Rightarrow> string \<Rightarrow> decision option \<Rightarrow> incident option \<Rightarrow> gotime \<Rightarrow>
   approval_store option \<Rightarrow> operator_approval outcome" where
  "manager_validate sha io aid dec inc now st =
     (case st of None \<Rightarrow> Fails ErrNilApprovalStore | Some s \<Rightarrow>
      case get_approval io aid s of Inl e \<Rightarrow> Fails (ErrFromStore e) | Inr r \<Rightarrow>
        let app = stored_to_approval r
        in case validate_for_execution sha (Some app) dec inc now of
             Panics \<Rightarrow> Panics | Fails e \<Rightarrow> Fails e | Gives _ \<Rightarrow> Gives app)"

definition manager_expire_stale ::
  "db_io \<Rightarrow> gotime \<Rightarrow> approval_store option \<Rightarrow> (approval_err + nat) \<times> approval_store option" where
  "manager_expire_stale io now st =
     (case st of None \<Rightarrow> (Inl ErrNilApprovalStore, st) | Some s \<Rightarrow>
      case expire_stale_approvals io now s of
        (Inl e, s') \<Rightarrow> (Inl (ErrFromStore e), Some s') | (Inr n, s') \<Rightarrow> (Inr n, Some s'))"

section \<open>Lemmas\<close>

lemma stored_round_trip [simp]:
  "stored_to_approval (to_stored a) = a" "to_stored (stored_to_approval s) = s"
  by (simp_all add: stored_to_approval_def to_stored_def)

lemma bound_id_None: "bound_id p did = None \<longleftrightarrow> length did < 4"
  using suffixed_id_None [of p did] by (cases "suffixed_id p did") (auto simp: bound_id_def)

lemma compute_fingerprint_None: "compute_fingerprint sha dec = None \<longleftrightarrow> length (dec_id dec) < 4"
  using bound_id_None [of "''act-''" "dec_id dec"]
  by (cases "bound_id ''act-'' (dec_id dec)") (auto simp: compute_fingerprint_def)

lemma bound_id_Some: "4 \<le> length did \<Longrightarrow> \<exists>i. bound_id p did = Some i"
  using bound_id_None [of p did] by (cases "bound_id p did") auto

text \<open>The binding the gate enforces, as one predicate.\<close>

definition bound_to :: "digest \<Rightarrow> operator_approval \<Rightarrow> decision \<Rightarrow> incident \<Rightarrow> bool" where
  "bound_to sha app dec inc \<longleftrightarrow>
     oa_incident_id app = dec_incident_id dec \<and> dec_incident_id dec = inc_id inc \<and>
     oa_decision_id app = dec_id dec \<and> bound_id ''act-'' (dec_id dec) = Some (oa_action_id app) \<and>
     oa_node_id app = dec_node_id dec \<and> dec_node_id dec = inc_node_id inc \<and>
     oa_action_type app = dec_action_type dec \<and> oa_target app = dec_target dec \<and>
     oa_policy_version app = dec_policy_version dec \<and>
     compute_fingerprint sha dec = Some (oa_fingerprint app)"

lemma status_gate_None: "status_gate st = None \<longleftrightarrow> st = ApprovalApproved"
  by (simp add: status_gate_def split: approval_status.splits)

lemma validate_for_execution_iff:
  "validate_for_execution sha (Some app) (Some dec) (Some inc) now = Gives () \<longleftrightarrow>
     oa_status app = ApprovalApproved \<and> now < oa_expires_at app \<and> oa_consumed_at app = None \<and>
     bound_to sha app dec inc \<and> dec_auth_class dec = AuthApprovalRequired \<and>
     action_type_valid (dec_action_type dec) \<and> is_valid_target (dec_target dec)"
  by (cases "bound_id ''act-'' (dec_id dec)"; cases "compute_fingerprint sha dec";
      cases "status_gate (oa_status app)")
     (auto simp: validate_for_execution_def bound_to_def is_allowlisted_iff status_gate_None
        simp flip: status_gate_None)

lemma validate_for_execution_panics:
  "validate_for_execution sha (Some app) (Some dec) (Some inc) now = Panics \<Longrightarrow> length (dec_id dec) < 4"
  using bound_id_None [of "''act-''" "dec_id dec"] compute_fingerprint_None [of sha dec]
  by (auto simp: validate_for_execution_def split: option.splits if_splits)

lemma new_approval_Gives:
  assumes "new_approval_from_request sha req now = Gives app"
  obtains dec where "rq_decision req = Some dec" "decision_validate sha dec = None"
    "dec_auth_class dec \<noteq> AuthForbidden" "\<not> blank (rq_requested_by req)"
    "oa_status app = ApprovalPending" "oa_consumed_at app = None"
    "oa_expires_at app = now + (if rq_ttl req \<le> 0 then 15 * minute else rq_ttl req)"
    "oa_decision_id app = dec_id dec" "oa_incident_id app = dec_incident_id dec"
    "bound_id ''act-'' (dec_id dec) = Some (oa_action_id app)" "oa_node_id app = dec_node_id dec"
    "oa_action_type app = dec_action_type dec" "oa_target app = dec_target dec"
    "oa_policy_version app = dec_policy_version dec"
    "compute_fingerprint sha dec = Some (oa_fingerprint app)"
  using assms by (auto simp: new_approval_from_request_def Let_def split: option.splits if_splits)

section \<open>From request to execution\<close>

text \<open>What a successful request leaves in the store: the pending record, found under its identifier.\<close>

lemma request_approval_Gives:
  assumes "request_approval sha io req now (Some s) = (Gives app, Some s')"
  obtains "new_approval_from_request sha req now = Gives app" "io = IoOk" "ap_closed s' = False"
    "\<not> blank (oa_approval_id app)" "find_approval (oa_approval_id app) (ap_rows s') = Some (to_stored app)"
proof -
  from assms have gives: "new_approval_from_request sha req now = Gives app"
    and rec: "record_approval io (Some (to_stored app)) s = (None, s')"
    by (auto simp: request_approval_def split: outcome.splits prod.splits option.splits)
  from rec have valid: "stored_approval_validate (to_stored app) = None"
    and guard: "db_guard (ap_closed s) io = None"
    and fresh: "\<not> list_ex (\<lambda>r. sa_approval_id r = oa_approval_id app \<or> sa_decision_id r = oa_decision_id app) (ap_rows s)"
    and s': "s' = set_rows (ap_rows s @ [to_stored app]) s"
    by (auto simp: record_approval_def to_stored_def split: option.splits if_splits)
  from fresh have "find_approval (oa_approval_id app) (ap_rows s) = None"
    by (auto simp: find_approval_def find_None_iff list_ex_iff)
  then have "find_approval (oa_approval_id app) (ap_rows s') = Some (to_stored app)"
    by (simp add: s' find_approval_snoc to_stored_def)
  moreover from valid have "\<not> blank (oa_approval_id app)"
    by (auto simp: stored_approval_validate_def to_stored_def split: if_splits)
  ultimately show ?thesis using that gives guard by (simp add: db_guard_None s')
qed

lemma manager_approve_pending:
  assumes "find_approval aid (ap_rows s) = Some r" "sa_status r = ApprovalPending"
    and "\<not> ap_closed s" "\<not> blank aid" "\<not> blank who" "t < sa_expires_at r"
  obtains s2 where "manager_approve IoOk aid who t (Some s) = (None, Some s2)" "\<not> ap_closed s2"
    "find_approval aid (ap_rows s2) =
       Some (r\<lparr>sa_status := ApprovalApproved, sa_approved_by := who, sa_updated_at := t\<rparr>)"
proof -
  let ?p = "\<lambda>r. sa_approval_id r = aid \<and> sa_status r = ApprovalPending"
  let ?f = "\<lambda>r. r\<lparr>sa_status := ApprovalApproved, sa_approved_by := who, sa_updated_at := t\<rparr>"
  have r: "r \<in> set (ap_rows s)" "sa_approval_id r = aid" using find_approval_Some [OF assms(1)] by auto
  then have "rows_affected ?p (ap_rows s) \<noteq> 0"
    using assms(2) by (auto simp: rows_affected_def filter_empty_conv)
  then have "approve_approval IoOk aid who t s = (None, set_rows (update_where ?p ?f (ap_rows s)) s)"
    using assms by (simp add: approve_approval_def Let_def)
  moreover have "find_approval aid (ap_rows (set_rows (update_where ?p ?f (ap_rows s)) s)) = Some (?f r)"
    using assms(1,2) r by simp
  ultimately show ?thesis
    using that [of "set_rows (update_where ?p ?f (ap_rows s)) s"] assms(3)
    by (simp add: manager_approve_def via_store_def)
qed

lemma manager_validate_found:
  assumes "find_approval aid (ap_rows s) = Some r" "\<not> ap_closed s" "\<not> blank aid"
  shows "manager_validate sha IoOk aid dec inc now (Some s) =
    (case validate_for_execution sha (Some (stored_to_approval r)) dec inc now of
       Panics \<Rightarrow> Panics | Fails e \<Rightarrow> Fails e | Gives _ \<Rightarrow> Gives (stored_to_approval r))"
  using assms by (simp add: manager_validate_def get_approval_def Let_def)

lemma decision_validate_screens:
  "decision_validate sha dec = None \<Longrightarrow>
     action_type_valid (dec_action_type dec) \<and> is_valid_target (dec_target dec)"
  by (auto simp: decision_validate_def Let_def split: if_splits)

definition approval_rule :: policy_rule where
  "approval_rule = (case pol_fallback default_policy of Some r \<Rightarrow> r\<lparr>rule_auth := AuthApprovalRequired\<rparr>)"

definition sample_guarded_decision :: decision where
  "sample_guarded_decision = build_decision (\<lambda>_. []) default_policy sample_incident approval_rule"

definition sample_request :: approval_request where
  "sample_request = \<lparr>rq_decision = Some sample_guarded_decision, rq_requested_by = ''inc-1'', rq_ttl = 0,
     rq_reason = []\<rparr>"

definition empty_approvals :: approval_store where
  "empty_approvals = \<lparr>ap_closed = False, ap_rows = []\<rparr>"

lemma approval_rule_sel:
  "rule_action approval_rule = ActionSimulatedAlert" "rule_target approval_rule = ''local_syslog''"
  "rule_auth approval_rule = AuthApprovalRequired" "rule_parameters approval_rule = [(''priority'', ''LOW'')]"
  by (simp_all add: approval_rule_def default_policy_def)

lemma sample_guarded_sel:
  "dec_id sample_guarded_decision = ''dec-''" "dec_incident_id sample_guarded_decision = ''inc-1''"
  "dec_node_id sample_guarded_decision = ''node-1''"
  "dec_auth_class sample_guarded_decision = AuthApprovalRequired"
  "dec_policy_name sample_guarded_decision = ''default_edge_response_policy''"
  "dec_policy_version sample_guarded_decision = ''1.0.0''"
  "dec_mode sample_guarded_decision = ModeDryRun" "dec_timestamp sample_guarded_decision = second"
  "dec_action_type sample_guarded_decision = ActionSimulatedAlert"
  "dec_target sample_guarded_decision = ''local_syslog''"
  by (simp_all add: sample_guarded_decision_def approval_rule_sel compute_decision_id_def hex_bytes_def)
     (simp_all add: sample_incident_def default_policy_def)

lemma sample_guarded_valid: "decision_validate (\<lambda>_. []) sample_guarded_decision = None"
proof -
  have "\<not> blank ''dec-''" by code_simp
  then show ?thesis
    using default_targets_valid is_valid_target_not_blank default_policy_texts sample_incident_texts
    by (simp add: decision_validate_def sample_guarded_sel is_zero_def is_allowlisted_iff
        compute_decision_id_def hex_bytes_def)
qed

lemma sample_request_succeeds:
  "\<exists>app s'. request_approval (\<lambda>_. []) IoOk sample_request second (Some empty_approvals) = (Gives app, Some s') \<and>
     oa_expires_at app = second + 15 * minute"
proof -
  have ids: "bound_id p ''dec-'' = Some p" for p
    by (simp add: bound_id_def suffixed_id_def slice_from_def has_prefix_def)
  have fp: "compute_fingerprint (\<lambda>_. []) sample_guarded_decision = Some ''fp-''"
    by (simp add: compute_fingerprint_def sample_guarded_sel ids hex_bytes_def)
  have texts: "\<not> blank ''dec-''" "\<not> blank ''act-''" "\<not> blank ''app-''" "\<not> blank ''fp-''" by code_simp+
  obtain app where app: "new_approval_from_request (\<lambda>_. []) sample_request second = Gives app"
    and sel: "oa_approval_id app = ''app-''" "oa_decision_id app = ''dec-''" "oa_incident_id app = ''inc-1''"
      "oa_action_id app = ''act-''" "oa_node_id app = ''node-1''" "oa_action_type app = ActionSimulatedAlert"
      "oa_target app = ''local_syslog''" "oa_policy_version app = ''1.0.0''" "oa_fingerprint app = ''fp-''"
      "oa_status app = ApprovalPending" "oa_requested_at app = second"
      "oa_expires_at app = second + 15 * minute" "oa_requested_by app = ''inc-1''"
    by (simp add: new_approval_from_request_def sample_request_def sample_guarded_valid sample_guarded_sel
        ids fp sample_incident_texts)
  have "stored_approval_validate (to_stored app) = None"
    using texts sample_incident_texts default_policy_texts default_targets_valid is_valid_target_not_blank
    by (simp add: stored_approval_validate_def to_stored_def sel is_zero_def)
  then show ?thesis
    by (simp add: request_approval_def app record_approval_def empty_approvals_def sel)
qed

section \<open>Properties\<close>

text \<open>
  C5. The execution-time gate lets an approval through exactly when it is approved, unexpired
  and unconsumed, bound to this very decision and incident in every field and by the
  fingerprint, and the decision is an approval-required, allowlisted action on a valid
  target.  A nil approval, decision or incident never passes.
\<close>

theorem approval_gate_exact:
  "validate_for_execution sha ap dp ip now = Gives () \<longleftrightarrow>
     (\<exists>app dec inc. ap = Some app \<and> dp = Some dec \<and> ip = Some inc \<and>
        oa_status app = ApprovalApproved \<and> now < oa_expires_at app \<and> oa_consumed_at app = None \<and>
        bound_to sha app dec inc \<and> dec_auth_class dec = AuthApprovalRequired \<and>
        action_type_valid (dec_action_type dec) \<and> is_valid_target (dec_target dec))"
proof (cases "ap = None \<or> dp = None \<or> ip = None")
  case True
  then have "validate_for_execution sha ap dp ip now \<noteq> Gives ()"
    by (cases ap; cases dp; cases ip) (simp_all add: validate_for_execution_def)
  with True show ?thesis by auto
next
  case False
  then obtain app dec inc where "ap = Some app" "dp = Some dec" "ip = Some inc" by auto
  then show ?thesis by (simp add: validate_for_execution_iff)
qed

text \<open>
  A requested approval works once an operator grants it.  If \<open>RequestApproval\<close> succeeds
  for an approval-required decision on the incident at hand, then before the grant the gate
  refuses it as not approved; an approval before the expiry succeeds; from then on, until
  the expiry, the gate passes and names the operator.
\<close>

theorem requested_approval_passes_once_granted:
  assumes "request_approval sha io req now (Some s) = (Gives app, Some s1)"
    and "rq_decision req = Some dec" and "dec_auth_class dec = AuthApprovalRequired"
    and "dec_incident_id dec = inc_id inc" and "dec_node_id dec = inc_node_id inc"
    and "\<not> blank who" and "t < oa_expires_at app" and "t' < oa_expires_at app"
  shows "manager_validate sha IoOk (oa_approval_id app) (Some dec) (Some inc) t (Some s1) =
           Fails (ErrApprovalNotApproved ApprovalPending) \<and>
    (\<exists>s2. manager_approve IoOk (oa_approval_id app) who t (Some s1) = (None, Some s2) \<and>
      (\<exists>a. manager_validate sha IoOk (oa_approval_id app) (Some dec) (Some inc) t' (Some s2) = Gives a \<and>
           oa_approved_by a = who \<and> oa_fingerprint a = oa_fingerprint app))"
proof -
  let ?id = "oa_approval_id app"
  from assms(1) have new: "new_approval_from_request sha req now = Gives app" and open1: "ap_closed s1 = False"
    and nb: "\<not> blank ?id" and found: "find_approval ?id (ap_rows s1) = Some (to_stored app)"
    by (auto elim: request_approval_Gives)
  from new_approval_Gives [OF new] assms(2) have app: "decision_validate sha dec = None"
    "oa_status app = ApprovalPending" "oa_consumed_at app = None" "bound_to sha app dec inc"
    using assms(4,5) by (auto simp: bound_to_def)
  have "manager_validate sha IoOk ?id (Some dec) (Some inc) t (Some s1) =
      Fails (ErrApprovalNotApproved ApprovalPending)"
    using manager_validate_found [OF found _ nb] open1 app(2)
    by (simp add: validate_for_execution_def status_gate_def)
  moreover obtain s2 where s2: "manager_approve IoOk ?id who t (Some s1) = (None, Some s2)" "\<not> ap_closed s2"
    "find_approval ?id (ap_rows s2) = Some ((to_stored app)
       \<lparr>sa_status := ApprovalApproved, sa_approved_by := who, sa_updated_at := t\<rparr>)"
    using manager_approve_pending [OF found _ _ nb assms(6), of t] open1 app(2) assms(7)
    by (auto simp: to_stored_def)
  let ?a = "app\<lparr>oa_status := ApprovalApproved, oa_approved_by := who, oa_updated_at := t\<rparr>"
  have same: "stored_to_approval ((to_stored app)
      \<lparr>sa_status := ApprovalApproved, sa_approved_by := who, sa_updated_at := t\<rparr>) = ?a"
    by (simp add: stored_to_approval_def to_stored_def)
  have "validate_for_execution sha (Some ?a) (Some dec) (Some inc) t' = Gives ()"
    using app assms(3,8) decision_validate_screens [OF app(1)]
    by (simp add: validate_for_execution_iff bound_to_def)
  then have "manager_validate sha IoOk ?id (Some dec) (Some inc) t' (Some s2) = Gives ?a"
    using manager_validate_found [OF s2(3) s2(2) nb] same by simp
  ultimately show ?thesis using s2(1) by auto
qed

theorem requested_approval_passes_once_granted_witness:
  "\<exists>app s1 s2 a.
     request_approval (\<lambda>_. []) IoOk sample_request second (Some empty_approvals) = (Gives app, Some s1) \<and>
     manager_approve IoOk (oa_approval_id app) ''node-1'' (2 * second) (Some s1) = (None, Some s2) \<and>
     manager_validate (\<lambda>_. []) IoOk (oa_approval_id app) (Some sample_guarded_decision) (Some sample_incident)
       (3 * second) (Some s2) = Gives a"
proof -
  obtain app s1 where r: "request_approval (\<lambda>_. []) IoOk sample_request second (Some empty_approvals) =
      (Gives app, Some s1)" and e: "oa_expires_at app = second + 15 * minute"
    using sample_request_succeeds by blast
  have "rq_decision sample_request = Some sample_guarded_decision"
    "dec_incident_id sample_guarded_decision = inc_id sample_incident"
    "dec_node_id sample_guarded_decision = inc_node_id sample_incident"
    by (simp_all add: sample_request_def sample_guarded_decision_def)
  with requested_approval_passes_once_granted [OF r _ sample_guarded_sel(4), of sample_incident "''node-1''"
      "2 * second" "3 * second"] r e sample_incident_texts
  show ?thesis by auto
qed

section \<open>Where the binding is weaker than documented\<close>

text \<open>
  The parameter part of the fingerprint joins \<open>k=v;\<close>, and no screen rejects \<open>=\<close>: decisions
  with different parameters share a fingerprint, whatever the digest.
\<close>

theorem fingerprint_ignores_parameter_boundary:
  "compute_fingerprint sha (dec\<lparr>dec_parameters := [(''a=b'', ''c'')]\<rparr>) =
     compute_fingerprint sha (dec\<lparr>dec_parameters := [(''a'', ''b=c'')]\<rparr>) \<and>
   \<not> contains_dangerous_payload ''a=b'' \<and> \<not> contains_dangerous_payload ''b=c''"
proof -
  have "\<not> contains_dangerous_payload ''a=b''" "\<not> contains_dangerous_payload ''b=c''" by code_simp+
  then show ?thesis
    by (simp add: compute_fingerprint_def fingerprint_preimage_def sorted_params_def split: option.split)
qed

text \<open>The fields of a decision identifier are joined with \<open>:\<close>, which a policy name may contain.\<close>

theorem decision_id_ignores_field_boundary:
  "compute_decision_id sha i ''a:b'' ''c'' act tgt = compute_decision_id sha i ''a'' ''b:c'' act tgt"
proof -
  have "trim_space ''a:b'' = ''a:b''" "trim_space ''c'' = ''c''" "trim_space ''a'' = ''a''"
    "trim_space ''b:c'' = ''b:c''" by code_simp+
  then show ?thesis by (simp add: compute_decision_id_def)
qed

text \<open>An identifier shorter than four bytes makes the gate panic before the mismatch is reported.\<close>

theorem short_decision_id_panics:
  assumes "oa_status app = ApprovalApproved" "now < oa_expires_at app" "oa_consumed_at app = None"
    and "oa_incident_id app = dec_incident_id dec" "dec_incident_id dec = inc_id inc"
    and "oa_decision_id app = dec_id dec" "length (dec_id dec) < 4"
  shows "validate_for_execution sha (Some app) (Some dec) (Some inc) now = Panics"
  using assms bound_id_None [of "''act-''" "dec_id dec"]
  by (simp add: validate_for_execution_def status_gate_def)

end
