(* ===== verification/Mitigation_Store.thy ===== *)
theory Mitigation_Store
  imports Approval_Store
begin

text \<open>
  The durable mitigation store: \<open>StoredMitigation\<close>, its status machine
  (\<open>edge/agent/storage/store.go\<close>) and the transactions on the table \<open>mitigation_records\<close>
  (\<open>edge/agent/storage/sqlite.go\<close>).  \<open>action_id\<close> is the primary key, \<open>decision_id\<close> is UNIQUE.
  The execution mode is kept as text, as in the code.  The start and update times that
  \<open>MarkMitigationExecuting\<close> and \<open>MarkMitigationUnknown\<close> take are not used by their bodies and
  are left out.
\<close>

section \<open>Records and the status machine\<close>

record stored_mitigation =
  sm_action_id :: string
  sm_decision_id :: string
  sm_incident_id :: string
  sm_node_id :: string
  sm_action_type :: action_type
  sm_target :: string
  sm_status :: mitigation_status
  sm_mode :: string
  sm_message :: msg
  sm_error_code :: msg
  sm_parameters :: gomap
  sm_started_at :: gotime
  sm_completed_at :: "gotime option"
  sm_duration_ms :: int
  sm_simulated :: bool
  sm_created_at :: gotime
  sm_updated_at :: gotime

definition stored_mitigation_validate :: "stored_mitigation \<Rightarrow> store_err option" where
  "stored_mitigation_validate m =
     (if blank (sm_action_id m) then Some (ErrInvalidRecord ''action_id cannot be empty'')
      else if blank (sm_decision_id m) then Some (ErrInvalidRecord ''decision_id cannot be empty'')
      else if blank (sm_incident_id m) then Some (ErrInvalidRecord ''incident_id cannot be empty'')
      else if blank (sm_node_id m) then Some (ErrInvalidRecord ''node_id cannot be empty'')
      else if \<not> action_type_valid (sm_action_type m) then Some (ErrInvalidRecord ''invalid action_type'')
      else if blank (sm_target m) then Some (ErrInvalidRecord ''target cannot be empty'')
      else if \<not> mitigation_status_valid (sm_status m)
        then Some (ErrInvalidRecord ''invalid mitigation status'')
      else if is_zero (sm_started_at m) then Some (ErrInvalidRecord ''started_at timestamp cannot be zero'')
      else if ptr_before (sm_completed_at m) (sm_started_at m)
        then Some (ErrInvalidRecord ''completed_at cannot be before started_at'')
      else None)"

definition to_mitigation_action :: "stored_mitigation \<Rightarrow> mitigation_action" where
  "to_mitigation_action m =
     \<lparr>ma_action_id = sm_action_id m, ma_incident_id = sm_incident_id m,
      ma_action_type = sm_action_type m, ma_target = sm_target m, ma_status = sm_status m,
      ma_message = sm_message m, ma_error = sm_error_code m,
      ma_triggered_at = sm_started_at m, ma_completed_at = sm_completed_at m\<rparr>"

definition mitigation_can :: "mitigation_status \<Rightarrow> mitigation_status \<Rightarrow> bool" where
  "mitigation_can current next \<longleftrightarrow>
     (if current = next then True
      else case current of
        MitigationPending \<Rightarrow> next = MitigationExecuting \<or> next = MitigationSkipped \<or> next = MitigationFailed
      | MitigationExecuting \<Rightarrow> next = MitigationExecuted \<or> next = MitigationFailed \<or>
                               next = MitigationUnknownReconciliationRequired
      | _ \<Rightarrow> False)"

fun mitigation_terminal :: "mitigation_status \<Rightarrow> bool" where
  "mitigation_terminal MitigationPending = False"
| "mitigation_terminal MitigationExecuting = False"
| "mitigation_terminal _ = True"

interpretation mitigation_fsm: status_fsm mitigation_can mitigation_terminal
  by unfold_locales (auto simp: mitigation_can_def split: mitigation_status.splits if_splits)

record mitigation_store =
  mt_closed :: bool
  mt_rows :: "stored_mitigation list"

definition set_mitigations :: "stored_mitigation list \<Rightarrow> mitigation_store \<Rightarrow> mitigation_store" where
  "set_mitigations rows s = s\<lparr>mt_rows := rows\<rparr>"

definition find_mitigation :: "string \<Rightarrow> stored_mitigation list \<Rightarrow> stored_mitigation option" where
  "find_mitigation aid rows = find (\<lambda>r. sm_action_id r = aid) rows"

section \<open>Operations\<close>

text \<open>
  A zero \<open>created_at\<close> or \<open>updated_at\<close> is replaced by the clock reading \<open>now\<close>; an empty
  parameter map is stored as NULL and read back as a nil map, which is the same map here.
\<close>

definition or_now :: "gotime \<Rightarrow> gotime \<Rightarrow> gotime" where
  "or_now now t = (if is_zero t then now else t)"

definition record_mitigation ::
  "db_io \<Rightarrow> gotime \<Rightarrow> stored_mitigation option \<Rightarrow> mitigation_store \<Rightarrow> store_err option \<times> mitigation_store" where
  "record_mitigation io now mp s =
     (case mp of None \<Rightarrow> (Some (ErrInvalidRecord ''mitigation''), s) | Some m \<Rightarrow>
      case stored_mitigation_validate m of Some e \<Rightarrow> (Some e, s) | None \<Rightarrow>
      case db_guard (mt_closed s) io of Some e \<Rightarrow> (Some e, s) | None \<Rightarrow>
        if list_ex (\<lambda>r. sm_action_id r = sm_action_id m \<or> sm_decision_id r = sm_decision_id m) (mt_rows s)
        then (Some ErrDuplicateMitigation, s)
        else (None, set_mitigations (mt_rows s @
               [m\<lparr>sm_created_at := or_now now (sm_created_at m),
                  sm_updated_at := or_now now (sm_updated_at m)\<rparr>]) s))"

definition get_mitigation :: "db_io \<Rightarrow> string \<Rightarrow> mitigation_store \<Rightarrow> store_err + stored_mitigation" where
  "get_mitigation io aid s =
     (if blank aid then Inl (ErrBlankArgument ''action_id'')
      else case db_guard (mt_closed s) io of Some e \<Rightarrow> Inl e | None \<Rightarrow>
        (case find_mitigation aid (mt_rows s) of
           None \<Rightarrow> Inl ErrMitigationNotFound | Some r \<Rightarrow> Inr r))"

definition get_mitigation_by_decision_id ::
  "db_io \<Rightarrow> string \<Rightarrow> mitigation_store \<Rightarrow> store_err + stored_mitigation" where
  "get_mitigation_by_decision_id io did s =
     (if blank did then Inl (ErrBlankArgument ''decision_id'')
      else case db_guard (mt_closed s) io of Some e \<Rightarrow> Inl e | None \<Rightarrow>
        (case find (\<lambda>r. sm_decision_id r = did) (mt_rows s) of
           None \<Rightarrow> Inl ErrMitigationNotFound | Some r \<Rightarrow> Inr r))"

definition list_mitigations ::
  "db_io \<Rightarrow> string \<Rightarrow> int \<Rightarrow> mitigation_store \<Rightarrow> store_err + stored_mitigation list" where
  "list_mitigations io iid limit s =
     (case db_guard (mt_closed s) io of Some e \<Rightarrow> Inl e | None \<Rightarrow>
        let n = (if limit \<le> 0 then 100 else nat limit);
            rows = (if iid \<noteq> [] then filter (\<lambda>r. sm_incident_id r = iid) (mt_rows s) else mt_rows s)
        in Inr (take n (sort_key (\<lambda>r. format_db_time (sm_started_at r)) rows)))"

definition update_mitigation_status ::
  "db_io \<Rightarrow> gotime \<Rightarrow> string \<Rightarrow> mitigation_status \<Rightarrow> msg \<Rightarrow> msg \<Rightarrow> gotime option \<Rightarrow> int \<Rightarrow>
   mitigation_store \<Rightarrow> store_err option \<times> mitigation_store" where
  "update_mitigation_status io now aid st message code completed ms s =
     (if blank aid then (Some (ErrBlankArgument ''action_id''), s)
      else if \<not> mitigation_status_valid st then (Some (ErrInvalidRecord ''invalid mitigation status''), s)
      else case db_guard (mt_closed s) io of Some e \<Rightarrow> (Some e, s) | None \<Rightarrow>
      case find_mitigation aid (mt_rows s) of None \<Rightarrow> (Some ErrMitigationNotFound, s) | Some r \<Rightarrow>
        if \<not> mitigation_can (sm_status r) st
        then (Some (ErrInvalidMitigationTransition (sm_status r) st), s)
        else (None, set_mitigations (update_where (\<lambda>r. sm_action_id r = aid)
               (\<lambda>r. r\<lparr>sm_status := st, sm_message := message, sm_error_code := code,
                      sm_completed_at := (case completed of None \<Rightarrow> sm_completed_at r | Some t \<Rightarrow> Some t),
                      sm_duration_ms := (if 0 < ms then ms else sm_duration_ms r),
                      sm_updated_at := now\<rparr>) (mt_rows s)) s))"

definition mark_mitigation_executing where
  "mark_mitigation_executing io now aid =
     update_mitigation_status io now aid MitigationExecuting (Lit ''mitigation execution started'') no_msg None 0"

definition mark_mitigation_executed where
  "mark_mitigation_executed io now aid message completed ms =
     update_mitigation_status io now aid MitigationExecuted message no_msg (Some completed) ms"

definition mark_mitigation_failed where
  "mark_mitigation_failed io now aid message code completed ms =
     update_mitigation_status io now aid MitigationFailed message code (Some completed) ms"

definition mark_mitigation_unknown where
  "mark_mitigation_unknown io now aid message code =
     update_mitigation_status io now aid MitigationUnknownReconciliationRequired message code None 0"

definition in_flight_row :: "stored_mitigation \<Rightarrow> bool" where
  "in_flight_row r \<longleftrightarrow> sm_status r = MitigationExecuting"

definition recover_in_flight_mitigations ::
  "db_io \<Rightarrow> gotime \<Rightarrow> mitigation_store \<Rightarrow> (store_err + nat) \<times> mitigation_store" where
  "recover_in_flight_mitigations io now s =
     (case db_guard (mt_closed s) io of Some e \<Rightarrow> (Inl e, s) | None \<Rightarrow>
        (Inr (rows_affected in_flight_row (mt_rows s)),
         set_mitigations (update_where in_flight_row
           (\<lambda>r. r\<lparr>sm_status := MitigationUnknownReconciliationRequired,
                  sm_message := Fmt ''%s%s'' [AMsgs [sm_message r], AStr '' [RECOVERED ON RESTART: unconfirmed in-flight execution transitioned to UNKNOWN_RECONCILIATION_REQUIRED]''],
                  sm_error_code := Lit ''RESTART_RECONCILIATION_REQUIRED'',
                  sm_updated_at := now\<rparr>) (mt_rows s)) s))"

definition count_mitigations :: "db_io \<Rightarrow> mitigation_store \<Rightarrow> store_err + nat" where
  "count_mitigations io s =
     (case db_guard (mt_closed s) io of Some e \<Rightarrow> Inl e | None \<Rightarrow> Inr (length (mt_rows s)))"

section \<open>Invariant and life cycle\<close>

definition mitigations_unique :: "mitigation_store \<Rightarrow> bool" where
  "mitigations_unique s \<longleftrightarrow>
     distinct (map sm_action_id (mt_rows s)) \<and> distinct (map sm_decision_id (mt_rows s))"

definition mitigation_status_of :: "mitigation_store \<Rightarrow> string \<Rightarrow> mitigation_status option" where
  "mitigation_status_of s aid = map_option sm_status (find_mitigation aid (mt_rows s))"

datatype mitigation_op =
    MOpRecord stored_mitigation
  | MOpUpdate string mitigation_status msg msg "gotime option" int
  | MOpRecover

fun mitigation_exec ::
  "db_io \<Rightarrow> gotime \<Rightarrow> mitigation_op \<Rightarrow> mitigation_store \<Rightarrow> store_err option \<times> mitigation_store" where
  "mitigation_exec io now (MOpRecord m) s = record_mitigation io now (Some m) s"
| "mitigation_exec io now (MOpUpdate aid st message code completed ms) s =
     update_mitigation_status io now aid st message code completed ms s"
| "mitigation_exec io now MOpRecover s =
     (case recover_in_flight_mitigations io now s of (Inl e, s') \<Rightarrow> (Some e, s') | (Inr n, s') \<Rightarrow> (None, s'))"

lemma set_mitigations_sel [simp]:
  "mt_rows (set_mitigations rows s) = rows" "mt_closed (set_mitigations rows s) = mt_closed s"
  by (simp_all add: set_mitigations_def)

lemma find_mitigation_update [simp]:
  assumes "\<And>r. sm_action_id (f r) = sm_action_id r"
  shows "find_mitigation aid (update_where p f rows) =
         map_option (\<lambda>r. if p r then f r else r) (find_mitigation aid rows)"
  unfolding find_mitigation_def by (rule find_key_update_where) (rule assms)

lemma find_mitigation_Some:
  "find_mitigation aid rows = Some r \<Longrightarrow> r \<in> set rows \<and> sm_action_id r = aid"
  by (auto simp: find_mitigation_def find_Some_iff)

lemma find_mitigation_snoc:
  "find_mitigation aid (rows @ [m]) =
     (case find_mitigation aid rows of Some r \<Rightarrow> Some r
      | None \<Rightarrow> if sm_action_id m = aid then Some m else None)"
  by (induction rows) (auto simp: find_mitigation_def)

lemmas mitigation_op_defs = record_mitigation_def update_mitigation_status_def
  recover_in_flight_mitigations_def

lemma mitigation_exec_unique [inv_intros]:
  "mitigations_unique s \<Longrightarrow> mitigations_unique (snd (mitigation_exec io now op s))"
proof (cases op)
  case (MOpRecord m)
  moreover assume "mitigations_unique s"
  ultimately show ?thesis
    by (auto simp: mitigations_unique_def mitigation_op_defs list_ex_iff split: option.splits)
qed (auto simp: mitigations_unique_def mitigation_op_defs map_update_where split: option.splits)

lemma mitigation_can_unknown: "mitigation_can MitigationExecuting MitigationUnknownReconciliationRequired"
  by (simp add: mitigation_can_def)

lemma mitigation_exec_can:
  assumes "find_mitigation aid (mt_rows s) = Some r"
  shows "\<exists>r'. find_mitigation aid (mt_rows (snd (mitigation_exec io now op s))) = Some r' \<and>
    mitigation_can (sm_status r) (sm_status r') \<and> sm_decision_id r' = sm_decision_id r"
proof (cases op)
  case (MOpRecord m)
  then show ?thesis using assms mitigation_fsm.can_refl
    by (auto simp: record_mitigation_def find_mitigation_snoc split: option.splits)
next
  case (MOpUpdate i st message code completed ms)
  then show ?thesis using assms mitigation_fsm.can_refl find_mitigation_Some [OF assms]
    by (auto simp: update_mitigation_status_def split: option.splits)
next
  case MOpRecover
  then show ?thesis using assms mitigation_fsm.can_refl mitigation_can_unknown
    by (auto simp: recover_in_flight_mitigations_def in_flight_row_def split: option.splits)
qed

fun mitigation_run ::
  "(db_io \<times> gotime \<times> mitigation_op) list \<Rightarrow> mitigation_store \<Rightarrow> mitigation_store" where
  "mitigation_run [] s = s"
| "mitigation_run ((io, now, op) # ops) s = mitigation_run ops (snd (mitigation_exec io now op s))"

text \<open>The statuses a record passes through in a run are a history of the status machine.\<close>

fun mitigation_trace ::
  "string \<Rightarrow> (db_io \<times> gotime \<times> mitigation_op) list \<Rightarrow> mitigation_store \<Rightarrow> mitigation_status list" where
  "mitigation_trace aid [] s = []"
| "mitigation_trace aid ((io, now, op) # ops) s =
     (let s' = snd (mitigation_exec io now op s)
      in (case find_mitigation aid (mt_rows s') of None \<Rightarrow> [] | Some r \<Rightarrow> [sm_status r]) @
         mitigation_trace aid ops s')"

lemma mitigation_trace_history:
  assumes "find_mitigation aid (mt_rows s) = Some r"
  shows "mitigation_fsm.history_ok (sm_status r) (mitigation_trace aid ops s)"
  using assms
proof (induction ops arbitrary: s r)
  case Nil
  then show ?case by simp
next
  case (Cons x ops)
  obtain io now op where x: "x = (io, now, op)" by (cases x)
  obtain r' where "find_mitigation aid (mt_rows (snd (mitigation_exec io now op s))) = Some r'"
    "mitigation_can (sm_status r) (sm_status r')"
    using mitigation_exec_can [OF Cons.prems] by blast
  with Cons.IH show ?case by (simp add: x Let_def)
qed

lemma mitigation_run_found:
  assumes "find_mitigation aid (mt_rows s) = Some r"
  shows "\<exists>r'. find_mitigation aid (mt_rows (mitigation_run ops s)) = Some r' \<and>
    sm_status r' = last (sm_status r # mitigation_trace aid ops s)"
  using assms
proof (induction ops arbitrary: s r)
  case Nil
  then show ?case by simp
next
  case (Cons x ops)
  obtain io now op where x: "x = (io, now, op)" by (cases x)
  obtain r' where r': "find_mitigation aid (mt_rows (snd (mitigation_exec io now op s))) = Some r'"
    using mitigation_exec_can [OF Cons.prems] by blast
  with Cons.IH [OF r'] show ?case by (simp add: x Let_def)
qed

section \<open>Properties\<close>

definition sample_mitigation :: stored_mitigation where
  "sample_mitigation = \<lparr>sm_action_id = ''act-1'', sm_decision_id = ''dec-1'', sm_incident_id = ''i'',
     sm_node_id = ''n'', sm_action_type = ActionSimulatedAlert, sm_target = ''t'',
     sm_status = MitigationExecuting, sm_mode = ''DRY_RUN'', sm_message = no_msg, sm_error_code = no_msg,
     sm_parameters = [], sm_started_at = second, sm_completed_at = None, sm_duration_ms = 0,
     sm_simulated = True, sm_created_at = second, sm_updated_at = second\<rparr>"

definition sample_mitigations :: mitigation_store where
  "sample_mitigations = \<lparr>mt_closed = False, mt_rows = [sample_mitigation]\<rparr>"

lemma sample_mitigation_found: "find_mitigation ''act-1'' (mt_rows sample_mitigations) = Some sample_mitigation"
  by (simp add: find_mitigation_def sample_mitigations_def sample_mitigation_def)

text \<open>
  Mitigation history.  Over every sequence of store operations a recorded mitigation is
  never lost, keeps moving along the documented transitions, and once it is in a terminal
  status (executed, failed, skipped or awaiting reconciliation) it stays there: in
  particular a mitigation stranded by a crash is never turned into an executed one.
\<close>

theorem mitigation_terminal_is_final:
  assumes "find_mitigation aid (mt_rows s) = Some r" and "mitigation_terminal (sm_status r)"
  shows "mitigation_status_of (mitigation_run ops s) aid = Some (sm_status r) \<and>
    set (mitigation_trace aid ops s) \<subseteq> {sm_status r}"
proof -
  have sub: "set (mitigation_trace aid ops s) \<subseteq> {sm_status r}"
    using mitigation_fsm.terminal_forever [OF assms(2) mitigation_trace_history [OF assms(1)]] .
  then have "last (sm_status r # mitigation_trace aid ops s) = sm_status r"
    by (cases "mitigation_trace aid ops s" rule: rev_cases) auto
  with mitigation_run_found [OF assms(1), of ops] sub show ?thesis
    by (auto simp: mitigation_status_of_def)
qed

theorem mitigation_terminal_is_final_witness:
  "mitigation_status_of (mitigation_run [(IoOk, 5, MOpRecover), (IoOk, 9, MOpUpdate ''act-1'' MitigationExecuted no_msg no_msg None 0)]
      (snd (recover_in_flight_mitigations IoOk 3 sample_mitigations))) ''act-1'' =
    Some MitigationUnknownReconciliationRequired"
proof -
  let ?s = "snd (recover_in_flight_mitigations IoOk 3 sample_mitigations)"
  obtain r where "find_mitigation ''act-1'' (mt_rows ?s) = Some r"
    "sm_status r = MitigationUnknownReconciliationRequired"
    using sample_mitigation_found
    by (simp add: recover_in_flight_mitigations_def sample_mitigations_def in_flight_row_def sample_mitigation_def)
  then show ?thesis
    using mitigation_terminal_is_final [of "''act-1''" ?s r
        "[(IoOk, 5, MOpRecover), (IoOk, 9, MOpUpdate ''act-1'' MitigationExecuted no_msg no_msg None 0)]"]
    by auto
qed

text \<open>
  Crash recovery of mitigations.  \<open>RecoverInFlightMitigations\<close> reports the number of
  records that were \<open>EXECUTING\<close>, moves exactly those to
  \<open>UNKNOWN_RECONCILIATION_REQUIRED\<close>, leaves every other status alone, leaves no record
  executing, and running it again recovers nothing.
\<close>

theorem recovery_reconciles_in_flight:
  assumes "recover_in_flight_mitigations io now s = (Inr n, s')"
  shows "n = length (filter in_flight_row (mt_rows s)) \<and>
    map sm_status (mt_rows s') =
      map (\<lambda>r. if in_flight_row r then MitigationUnknownReconciliationRequired else sm_status r) (mt_rows s) \<and>
    filter in_flight_row (mt_rows s') = [] \<and>
    recover_in_flight_mitigations IoOk later s' = (Inr 0, s')"
proof -
  have ok: "db_guard (mt_closed s) io = None"
    using assms by (simp add: recover_in_flight_mitigations_def split: option.splits)
  then have "\<not> mt_closed s" by (simp add: db_guard_None)
  moreover have none: "filter in_flight_row (mt_rows s') = []"
    using assms ok
    by (auto simp: recover_in_flight_mitigations_def filter_empty_conv update_where_def in_flight_row_def)
  then have "rows_affected in_flight_row (mt_rows s') = 0" by (simp add: rows_affected_def)
  moreover note upd = update_where_none [OF this]
  ultimately show ?thesis
    using assms ok
    by (auto simp: recover_in_flight_mitigations_def rows_affected_def update_where_def in_flight_row_def
        set_mitigations_def)
qed

theorem recovery_reconciles_in_flight_witness:
  "\<exists>s'. recover_in_flight_mitigations IoOk 3 sample_mitigations = (Inr 1, s') \<and>
     filter in_flight_row (mt_rows s') = [] \<and> recover_in_flight_mitigations IoOk 9 s' = (Inr 0, s')"
proof -
  obtain s' where s': "recover_in_flight_mitigations IoOk 3 sample_mitigations = (Inr 1, s')"
    by (simp add: recover_in_flight_mitigations_def sample_mitigations_def rows_affected_def in_flight_row_def
        sample_mitigation_def)
  with recovery_reconciles_in_flight [OF s', of 9] show ?thesis by blast
qed

end
