(* ===== verification/Executor.thy ===== *)
theory Executor
  imports Approval Mitigation_Store
begin

text \<open>
  \<open>edge/agent/response/executor.go\<close>: the simulated executor.

  What a call reads from outside, the clock, the state of its context and whether the
  database answers, is an environment indexed by the point of the code that reads it.  The
  functions of this theory are the calls run one at a time.  The validator is the \<open>StandardSafetyValidator\<close> of theory
  \<open>Response_Validator\<close>, the stores are optional, and \<open>Panics\<close> is the run-time panic of the
  slice \<open>DecisionID[4:]\<close>.
\<close>

section \<open>State, environment, results\<close>

record exec_result =
  er_execution_id :: string
  er_decision_id :: string
  er_incident_id :: string
  er_node_id :: string
  er_action_type :: action_type
  er_target :: string
  er_status :: mitigation_status
  er_mode :: execution_mode
  er_message :: msg
  er_error_code :: msg
  er_started_at :: gotime
  er_completed_at :: gotime
  er_duration :: duration
  er_simulated :: bool

datatype point = AtStart | AtLookup | AtApprovalLookup | AtValidate | AtReject | AtLoad | AtGate
  | AtConsume | AtRecord | AtSimulate | AtComplete | AtMark | AtUpdate | AtCooldown

record env =
  clock :: "point \<Rightarrow> gotime"
  ctx_at :: "point \<Rightarrow> ctx_err option"
  db_at :: "point \<Rightarrow> db_io"

record validated_decision =
  vd_decision :: decision
  vd_safety :: safety_result

record executor =
  ex_validator :: validator
  ex_store :: "mitigation_store option"
  ex_approvals :: "approval_store option"
  ex_history :: "string \<rightharpoonup> exec_result"
  ex_count :: int

datatype exec_err =
    XCtx ctx_err | XNilDecision | XNilIncident | XNilSafetyResult
  | XDecisionResultMismatch string string | XUnvalidatedDecision validation_code msg
  | XUnvalidated | XSafety validator_err | XUnknownActionType
  | XEmptyApprovalID | XForbidden | XNilApprovalStore
  | XLoad string store_err | XGate approval_err | XConsume store_err

datatype exec_return = Returns "exec_result option" "exec_err option" | RunPanics

definition new_simulated_executor :: "validator option \<Rightarrow> executor" where
  "new_simulated_executor v =
     \<lparr>ex_validator = (case v of None \<Rightarrow> new_standard_validator | Some v' \<Rightarrow> v'),
      ex_store = None, ex_approvals = None, ex_history = (\<lambda>_. None), ex_count = 0\<rparr>"

text \<open>\<open>WithStore\<close> adopts a store's approval interface unless one is set; \<open>WithApprovalStore\<close> sets it.\<close>

definition attach_store :: "mitigation_store option \<Rightarrow> approval_store option \<Rightarrow> executor \<Rightarrow> executor" where
  "attach_store ms as ex =
     ex\<lparr>ex_store := ms,
        ex_approvals := (if ex_approvals ex = None \<and> as \<noteq> None then as else ex_approvals ex)\<rparr>"

definition attach_approval_store :: "approval_store option \<Rightarrow> executor \<Rightarrow> executor" where
  "attach_approval_store as ex = ex\<lparr>ex_approvals := as\<rparr>"

section \<open>Conversions\<close>

fun mode_string :: "execution_mode \<Rightarrow> string" where
  "mode_string ModeDryRun = ''DRY_RUN''"
| "mode_string ModeAutoExecute = ''AUTO_EXECUTE''"
| "mode_string ModeApprovalRequired = ''APPROVAL_REQUIRED''"
| "mode_string (ModeOther s) = s"

definition mode_of :: "string \<Rightarrow> execution_mode" where
  "mode_of s =
     (if s = ''DRY_RUN'' then ModeDryRun else if s = ''AUTO_EXECUTE'' then ModeAutoExecute
      else if s = ''APPROVAL_REQUIRED'' then ModeApprovalRequired else ModeOther s)"

lemma mode_string_of [simp]: "mode_string (mode_of s) = s"
  by (simp add: mode_of_def)

definition exec_to_mitigation_action :: "exec_result \<Rightarrow> mitigation_action option" where
  "exec_to_mitigation_action r =
     (case (if has_prefix (er_decision_id r) ''dec-'' then suffixed_id ''act-'' (er_decision_id r)
            else Some (er_execution_id r)) of
        None \<Rightarrow> None
      | Some aid \<Rightarrow> Some
          \<lparr>ma_action_id = aid, ma_incident_id = er_incident_id r, ma_action_type = er_action_type r,
           ma_target = er_target r, ma_status = er_status r, ma_message = er_message r,
           ma_error = er_error_code r, ma_triggered_at = er_started_at r,
           ma_completed_at = Some (er_completed_at r)\<rparr>)"

definition stored_to_result :: "stored_mitigation \<Rightarrow> exec_result option" where
  "stored_to_result m =
     map_option (\<lambda>eid.
       \<lparr>er_execution_id = eid, er_decision_id = sm_decision_id m, er_incident_id = sm_incident_id m,
        er_node_id = sm_node_id m, er_action_type = sm_action_type m, er_target = sm_target m,
        er_status = sm_status m, er_mode = mode_of (sm_mode m), er_message = sm_message m,
        er_error_code = sm_error_code m, er_started_at = sm_started_at m,
        er_completed_at = (case sm_completed_at m of Some t \<Rightarrow> t | None \<Rightarrow> sm_updated_at m),
        er_duration = to_int64 (to_int64 (sm_duration_ms m) * millisecond),
        er_simulated = sm_simulated m\<rparr>)
     (suffixed_id ''exec-'' (sm_decision_id m))"

definition result_to_stored :: "exec_result \<Rightarrow> gomap \<Rightarrow> stored_mitigation" where
  "result_to_stored r params =
     \<lparr>sm_action_id = (if has_prefix (er_decision_id r) ''dec-'' then ''act-'' @ drop 4 (er_decision_id r)
                      else er_execution_id r),
      sm_decision_id = er_decision_id r, sm_incident_id = er_incident_id r,
      sm_node_id = er_node_id r, sm_action_type = er_action_type r, sm_target = er_target r,
      sm_status = er_status r, sm_mode = mode_string (er_mode r), sm_message = er_message r,
      sm_error_code = er_error_code r, sm_parameters = params, sm_started_at = er_started_at r,
      sm_completed_at = (if is_zero (er_completed_at r) then None else Some (er_completed_at r)),
      sm_duration_ms = milliseconds (er_duration r), sm_simulated = er_simulated r,
      sm_created_at = er_started_at r, sm_updated_at = er_completed_at r\<rparr>"

text \<open>The result a decision ends with at a given point; \<open>None\<close> is the panic of the slice.\<close>

definition decision_result ::
  "decision \<Rightarrow> mitigation_status \<Rightarrow> msg \<Rightarrow> msg \<Rightarrow> gotime \<Rightarrow> gotime \<Rightarrow> exec_result option" where
  "decision_result dec st message code started completed =
     map_option (\<lambda>eid.
       \<lparr>er_execution_id = eid, er_decision_id = dec_id dec, er_incident_id = dec_incident_id dec,
        er_node_id = dec_node_id dec, er_action_type = dec_action_type dec, er_target = dec_target dec,
        er_status = st, er_mode = dec_mode dec, er_message = message, er_error_code = code,
        er_started_at = started, er_completed_at = completed,
        er_duration = time_sub completed started, er_simulated = True\<rparr>)
     (suffixed_id ''exec-'' (dec_id dec))"

text \<open>
  Error texts, as the verb \<open>%v\<close> renders them.  The texts of driver failures are not known
  here; a mismatch shows its two values.
\<close>

fun ctx_text :: "ctx_err \<Rightarrow> string" where
  "ctx_text CtxCanceled = ''context canceled''"
| "ctx_text CtxDeadlineExceeded = ''context deadline exceeded''"

fun gate_text :: "approval_err \<Rightarrow> msg" where
  "gate_text (ErrApprovalNotApproved (ApprovalOther s)) =
     Fmt ''approval has not been approved: unknown status %s'' [AStr s]"
| "gate_text (ErrApprovalNotApproved _) = Lit ''approval has not been approved''"
| "gate_text ErrApprovalAlreadyConsumed = Lit ''approval has already been consumed''"
| "gate_text ErrApprovalExpired = Lit ''approval has expired''"
| "gate_text ErrApprovalRejected = Lit ''approval has been rejected''"
| "gate_text ErrApprovalCancelled = Lit ''approval has been cancelled''"
| "gate_text (ErrApprovalDecisionMismatch a b) =
     Fmt ''approval decision binding mismatch: %q != %q'' [AStr a, AStr b]"
| "gate_text ErrForbiddenNotOverridable = Lit ''forbidden actions cannot be approved or overridden''"
| "gate_text (ErrNotApprovalRequired c) =
     Fmt ''approval validation only applies to APPROVAL_REQUIRED decisions, got %s'' [AStr (auth_class_string c)]"
| "gate_text ErrGateNotAllowlisted = Lit ''action type is not allowlisted''"
| "gate_text ErrGateInvalidTarget = Lit ''target is invalid''"
| "gate_text AErrNilApproval = Lit ''approval record is nil''"
| "gate_text _ = Lit ''approval error''"

fun consume_text :: "store_err \<Rightarrow> msg" where
  "consume_text ErrStoreApprovalAlreadyConsumed = Lit ''approval has already been consumed''"
| "consume_text ErrStoreApprovalExpired = Lit ''approval has expired''"
| "consume_text ErrApprovalNotFound = Lit ''approval not found''"
| "consume_text ErrStoreClosed = Lit ''storage engine is closed''"
| "consume_text (StoreCtx e) = Lit (ctx_text e)"
| "consume_text _ = Lit ''database error''"

text \<open>\<open>finalErr.Error()\<close> of the two errors a simulation can end with.\<close>

fun sim_err_text :: "exec_err \<Rightarrow> msg" where
  "sim_err_text (XCtx e) = Lit (ctx_text e)"
| "sim_err_text _ = Lit ''unknown action type cannot be executed''"

section \<open>Steps of a call\<close>

definition new_validated_decision ::
  "decision option \<Rightarrow> safety_result option \<Rightarrow> exec_err + validated_decision" where
  "new_validated_decision dp rp =
     (case dp of None \<Rightarrow> Inl XNilDecision | Some dec \<Rightarrow>
      case rp of None \<Rightarrow> Inl XNilSafetyResult | Some res \<Rightarrow>
      if dec_id dec \<noteq> sr_decision_id res
        then Inl (XDecisionResultMismatch (dec_id dec) (sr_decision_id res))
      else if \<not> sr_allowed res then Inl (XUnvalidatedDecision (sr_code res) (sr_reason res))
      else Inr \<lparr>vd_decision = dec, vd_safety = res\<rparr>)"

text \<open>A store call whose error is discarded (\<open>_ = e.store...\<close>), if there is a store.\<close>

definition with_store ::
  "(mitigation_store \<Rightarrow> store_err option \<times> mitigation_store) \<Rightarrow> executor \<Rightarrow> executor" where
  "with_store f ex = (case ex_store ex of None \<Rightarrow> ex | Some s \<Rightarrow> ex\<lparr>ex_store := Some (snd (f s))\<rparr>)"

text \<open>The deferred function of a leader: an executed result enters the history.\<close>

definition remember :: "string \<Rightarrow> exec_result option \<Rightarrow> executor \<Rightarrow> executor" where
  "remember did res ex =
     (case res of
        None \<Rightarrow> ex
      | Some r \<Rightarrow> if er_status r = MitigationExecuted
                  then ex\<lparr>ex_history := (ex_history ex)(did \<mapsto> r)\<rparr> else ex)"

text \<open>The idempotent lookups: the history, then the durable store, whose record is cached.\<close>

definition lookup_cached :: "env \<Rightarrow> string \<Rightarrow> executor \<Rightarrow> exec_return option \<times> executor" where
  "lookup_cached ev did ex =
     (case ex_history ex did of
        Some r \<Rightarrow> (Some (Returns (Some r) None), ex)
      | None \<Rightarrow>
          (case ex_store ex of None \<Rightarrow> (None, ex) | Some s \<Rightarrow>
             (case get_mitigation_by_decision_id (db_at ev AtLookup) did s of
                Inl _ \<Rightarrow> (None, ex)
              | Inr m \<Rightarrow>
                  (case stored_to_result m of
                     None \<Rightarrow> (Some RunPanics, ex)
                   | Some r \<Rightarrow> (Some (Returns (Some r) None), ex\<lparr>ex_history := (ex_history ex)(did \<mapsto> r)\<rparr>)))))"

definition param :: "decision \<Rightarrow> string \<Rightarrow> string" where
  "param dec k = (case map_of (dec_parameters dec) k of None \<Rightarrow> [] | Some w \<Rightarrow> w)"

definition simulation_message :: "decision \<Rightarrow> msg option" where
  "simulation_message dec =
     (case dec_action_type dec of
        ActionSimulatedThrottle \<Rightarrow> Some (Fmt ''[SIMULATED] Throttling target %q (percent=%s%%, duration=%ss). Zero host mutations performed.''
          [AStr (dec_target dec), AStr (param dec ''throttle_percent''), AStr (param dec ''duration_sec'')])
      | ActionSimulatedRestart \<Rightarrow> Some (Fmt ''[SIMULATED] Restarting target %q (grace_period=%ss). Zero host mutations performed.''
          [AStr (dec_target dec), AStr (param dec ''grace_period_sec'')])
      | ActionSimulatedIsolate \<Rightarrow> Some (Fmt ''[SIMULATED] Isolating target %q. Zero host mutations performed.''
          [AStr (dec_target dec)])
      | ActionSimulatedAlert \<Rightarrow> Some (Fmt ''[SIMULATED] Emitting alert for target %q (priority=%s). Zero host mutations performed.''
          [AStr (dec_target dec), AStr (param dec ''priority'')])
      | ActionOther _ \<Rightarrow> None)"

definition execute_simulation :: "env \<Rightarrow> decision \<Rightarrow> gotime \<Rightarrow> executor \<Rightarrow> exec_return \<times> executor" where
  "execute_simulation ev dec started ex =
     (case ctx_at ev AtSimulate of
        Some e \<Rightarrow>
          (case decision_result dec MitigationFailed
              (Fmt ''action execution cancelled before simulation: %v'' [AStr (ctx_text e)])
              (Lit ''CONTEXT_CANCELLED'') started (clock ev AtComplete) of
             None \<Rightarrow> (RunPanics, ex) | Some r \<Rightarrow> (Returns (Some r) (Some (XCtx e)), ex))
      | None \<Rightarrow>
          (let ex' = ex\<lparr>ex_count := ex_count ex + 1\<rparr>
           in case simulation_message dec of
                None \<Rightarrow>
                  (case decision_result dec MitigationFailed
                      (Fmt ''unknown action type %q cannot be simulated'' [AStr (action_type_string (dec_action_type dec))])
                      (Lit (validation_code_string CodeUnknownActionType)) started (clock ev AtComplete) of
                     None \<Rightarrow> (RunPanics, ex') | Some r \<Rightarrow> (Returns (Some r) (Some XUnknownActionType), ex'))
              | Some message \<Rightarrow>
                  (case decision_result dec MitigationExecuted message no_msg started (clock ev AtComplete) of
                     None \<Rightarrow> (RunPanics, ex') | Some r \<Rightarrow> (Returns (Some r) None, ex'))))"

definition in_flight_record :: "decision \<Rightarrow> string \<Rightarrow> msg \<Rightarrow> gotime \<Rightarrow> stored_mitigation" where
  "in_flight_record dec aid message started =
     \<lparr>sm_action_id = aid, sm_decision_id = dec_id dec, sm_incident_id = dec_incident_id dec,
      sm_node_id = dec_node_id dec, sm_action_type = dec_action_type dec, sm_target = dec_target dec,
      sm_status = MitigationExecuting, sm_mode = mode_string (dec_mode dec), sm_message = message,
      sm_error_code = no_msg, sm_parameters = dec_parameters dec, sm_started_at = started,
      sm_completed_at = None, sm_duration_ms = 0, sm_simulated = True,
      sm_created_at = started, sm_updated_at = started\<rparr>"

text \<open>
  The tail the three entry points share: record the mitigation as executing, simulate,
  record the outcome, start the cooldown of the target, and remember an executed result.
\<close>

definition cooldown_after_execution :: duration where
  "cooldown_after_execution = 300 * second"

definition record_outcome :: "env \<Rightarrow> string \<Rightarrow> exec_result \<Rightarrow> executor \<Rightarrow> executor" where
  "record_outcome ev aid r ex =
     (if er_status r = MitigationExecuted
      then with_store (mark_mitigation_executed (db_at ev AtMark) (clock ev AtUpdate) aid
             (er_message r) (er_completed_at r) (milliseconds (er_duration r))) ex
      else with_store (mark_mitigation_failed (db_at ev AtMark) (clock ev AtUpdate) aid
             (er_message r) (er_error_code r) (er_completed_at r) (milliseconds (er_duration r))) ex)"

definition record_failure ::
  "env \<Rightarrow> string \<Rightarrow> gotime \<Rightarrow> exec_result option \<Rightarrow> exec_err \<Rightarrow> executor \<Rightarrow> executor" where
  "record_failure ev aid started res e ex =
     (let code = (case res of None \<Rightarrow> no_msg | Some r \<Rightarrow> er_error_code r);
          now = clock ev AtMark
      in with_store (mark_mitigation_failed (db_at ev AtMark) (clock ev AtUpdate) aid (sim_err_text e) code
           now (milliseconds (time_sub now started))) ex)"

definition run_validated ::
  "env \<Rightarrow> decision \<Rightarrow> msg \<Rightarrow> gotime \<Rightarrow> executor \<Rightarrow> exec_return \<times> executor" where
  "run_validated ev dec start_message started ex =
     (case suffixed_id ''act-'' (dec_id dec) of None \<Rightarrow> (RunPanics, ex) | Some aid \<Rightarrow>
      let ex1 = with_store (record_mitigation (db_at ev AtRecord) (clock ev AtRecord)
                  (Some (in_flight_record dec aid start_message started))) ex
      in case execute_simulation ev dec started ex1 of
           (RunPanics, ex2) \<Rightarrow> (RunPanics, ex2)
         | (Returns res (Some e), ex2) \<Rightarrow>
             (Returns res (Some e), remember (dec_id dec) res (record_failure ev aid started res e ex2))
         | (Returns res None, ex2) \<Rightarrow>
             let ex3 = (case res of None \<Rightarrow> ex2 | Some r \<Rightarrow> record_outcome ev aid r ex2);
                 ex4 = ex3\<lparr>ex_validator := record_execution (dec_target dec) cooldown_after_execution
                             (clock ev AtCooldown) (ex_validator ex3)\<rparr>
             in (Returns res None, remember (dec_id dec) res ex4))"

section \<open>Entry points\<close>

text \<open>A rejected decision is recorded as it is and reported; the store's error is discarded.\<close>

definition record_rejection :: "env \<Rightarrow> decision \<Rightarrow> exec_result \<Rightarrow> executor \<Rightarrow> executor" where
  "record_rejection ev dec r ex =
     remember (dec_id dec) (Some r)
       (with_store (record_mitigation (db_at ev AtRecord) (clock ev AtRecord)
          (Some (result_to_stored r (dec_parameters dec)))) ex)"

definition reject_with ::
  "env \<Rightarrow> decision \<Rightarrow> mitigation_status \<Rightarrow> msg \<Rightarrow> msg \<Rightarrow> gotime \<Rightarrow> exec_err option \<Rightarrow> executor \<Rightarrow>
   exec_return \<times> executor" where
  "reject_with ev dec st message code started err ex =
     (case decision_result dec st message code started (clock ev AtReject) of
        None \<Rightarrow> (RunPanics, ex)
      | Some r \<Rightarrow> (Returns (Some r) err, record_rejection ev dec r ex))"

text \<open>What \<open>Execute\<close> does as the leader for its decision.\<close>

definition execute_leader ::
  "digest \<Rightarrow> env \<Rightarrow> decision \<Rightarrow> incident \<Rightarrow> gotime \<Rightarrow> executor \<Rightarrow> exec_return \<times> executor" where
  "execute_leader sha ev dec inc started ex =
     (case validate_auto sha (ctx_at ev AtValidate) (clock ev AtValidate) (ex_validator ex) (Some dec) (Some inc) of
        Inl e \<Rightarrow> (Returns None (Some (XSafety e)), ex)
      | Inr sr \<Rightarrow>
          if \<not> sr_allowed sr
          then reject_with ev dec
                 (if dec_auth_class dec = AuthApprovalRequired \<or> dec_mode dec = ModeApprovalRequired
                  then MitigationSkipped else MitigationFailed)
                 (Fmt ''safety validation rejected action: %s'' [AMsgs [sr_reason sr]])
                 (Lit (validation_code_string (sr_code sr))) started None ex
          else (case new_validated_decision (Some dec) (Some sr) of
                  Inl e \<Rightarrow> (Returns None (Some e), ex)
                | Inr vd \<Rightarrow> run_validated ev dec (Lit ''simulated action execution started'') started ex))"

definition approved_leader ::
  "digest \<Rightarrow> env \<Rightarrow> decision \<Rightarrow> incident \<Rightarrow> string \<Rightarrow> gotime \<Rightarrow> approval_store \<Rightarrow> executor \<Rightarrow>
   exec_return \<times> executor" where
  "approved_leader sha ev dec inc aid started as ex =
     (case get_approval (db_at ev AtLoad) aid as of
        Inl e \<Rightarrow> (Returns None (Some (XLoad aid e)), ex)
      | Inr stored \<Rightarrow>
        let app = stored_to_approval stored; now = clock ev AtGate
        in case validate_for_execution sha (Some app) (Some dec) (Some inc) now of
             Panics \<Rightarrow> (RunPanics, ex)
           | Fails e \<Rightarrow>
               reject_with ev dec MitigationFailed
                 (Fmt ''execution-time approval validation failed: %v'' [AMsgs [gate_text e]])
                 (Lit ''APPROVAL_VALIDATION_FAILED'') started (Some (XGate e)) ex
           | Gives _ \<Rightarrow>
             (case validate_approved sha (ctx_at ev AtValidate) (clock ev AtValidate) (ex_validator ex)
                 (Some dec) (Some inc) of
                Inl e \<Rightarrow> (Returns None (Some (XSafety e)), ex)
              | Inr sr \<Rightarrow>
                if \<not> sr_allowed sr
                then reject_with ev dec MitigationFailed
                       (Fmt ''safety validation rejected approved action: %s'' [AMsgs [sr_reason sr]])
                       (Lit (validation_code_string (sr_code sr))) started None ex
                else (case consume_approval (db_at ev AtConsume) (oa_approval_id app) now as of
                        (Some e, as') \<Rightarrow>
                          (case decision_result dec MitigationFailed
                              (Fmt ''approval consumption failed (already consumed or expired): %v'' [AMsgs [consume_text e]])
                              (Lit ''APPROVAL_CONSUMPTION_FAILED'') started (clock ev AtReject) of
                             None \<Rightarrow> (RunPanics, ex\<lparr>ex_approvals := Some as'\<rparr>)
                           | Some r \<Rightarrow> (Returns (Some r) (Some (XConsume e)), ex\<lparr>ex_approvals := Some as'\<rparr>))
                      | (None, as') \<Rightarrow>
                          let ex' = ex\<lparr>ex_approvals := Some as'\<rparr>
                          in case new_validated_decision (Some dec) (Some sr) of
                               Inl e \<Rightarrow> (Returns None (Some e), ex')
                             | Inr vd \<Rightarrow> run_validated ev dec
                                 (Fmt ''approved simulated action execution started (approval: %s, approver: %s)''
                                    [AStr (oa_approval_id app), AStr (oa_approved_by app)]) started ex')))"

definition execute_with_approval ::
  "digest \<Rightarrow> env \<Rightarrow> decision option \<Rightarrow> incident option \<Rightarrow> string \<Rightarrow> executor \<Rightarrow> exec_return \<times> executor" where
  "execute_with_approval sha ev dp ip aid ex =
     (case ctx_at ev AtStart of Some e \<Rightarrow> (Returns None (Some (XCtx e)), ex) | None \<Rightarrow>
      case dp of None \<Rightarrow> (Returns None (Some XNilDecision), ex) | Some dec \<Rightarrow>
      case ip of None \<Rightarrow> (Returns None (Some XNilIncident), ex) | Some inc \<Rightarrow>
      if blank aid then (Returns None (Some XEmptyApprovalID), ex)
      else if dec_auth_class dec = AuthForbidden
      then (case decision_result dec MitigationFailed
              (Lit ''action is classified as FORBIDDEN and cannot be authorized by operator approval'')
              (Lit (validation_code_string CodeForbiddenAction)) (clock ev AtStart) (clock ev AtReject) of
              None \<Rightarrow> (RunPanics, ex) | Some r \<Rightarrow> (Returns (Some r) (Some XForbidden), ex))
      else (case ex_approvals ex of None \<Rightarrow> (Returns None (Some XNilApprovalStore), ex) | Some as \<Rightarrow>
        (case lookup_cached ev (dec_id dec) ex of
           (Some r, ex') \<Rightarrow> (r, ex')
         | (None, _) \<Rightarrow> approved_leader sha ev dec inc aid (clock ev AtStart) as ex)))"

text \<open>The approval an approval-required decision finds in the store, if it is approved.\<close>

definition approved_record :: "env \<Rightarrow> decision \<Rightarrow> executor \<Rightarrow> string option" where
  "approved_record ev dec ex =
     (if dec_auth_class dec = AuthApprovalRequired
      then case ex_approvals ex of None \<Rightarrow> None | Some as \<Rightarrow>
        (case get_approval_by_decision_id (db_at ev AtApprovalLookup) (dec_id dec) as of
           Inl _ \<Rightarrow> None
         | Inr app \<Rightarrow> if sa_status app = ApprovalApproved then Some (sa_approval_id app) else None)
      else None)"

definition cancelled_result :: "ctx_err \<Rightarrow> decision option \<Rightarrow> gotime \<Rightarrow> exec_result" where
  "cancelled_result e dp started =
     \<lparr>er_execution_id = ''exec-cancelled-'' @ itoa (unix_nano started),
      er_decision_id = (case dp of None \<Rightarrow> [] | Some d \<Rightarrow> dec_id d),
      er_incident_id = (case dp of None \<Rightarrow> [] | Some d \<Rightarrow> dec_incident_id d),
      er_node_id = (case dp of None \<Rightarrow> [] | Some d \<Rightarrow> dec_node_id d),
      er_action_type = (case dp of None \<Rightarrow> ActionOther [] | Some d \<Rightarrow> dec_action_type d),
      er_target = (case dp of None \<Rightarrow> [] | Some d \<Rightarrow> dec_target d),
      er_status = MitigationFailed,
      er_mode = (case dp of None \<Rightarrow> ModeDryRun | Some d \<Rightarrow> dec_mode d),
      er_message = Fmt ''action execution cancelled before start: %v'' [AStr (ctx_text e)],
      er_error_code = Lit ''CONTEXT_CANCELLED'', er_started_at = started, er_completed_at = started,
      er_duration = 0, er_simulated = True\<rparr>"

text \<open>
  \<open>Execute\<close>.  When it delegates to \<open>ExecuteWithApproval\<close> the clock, the context and the
  database are read anew, from the environment \<open>ev'\<close>.
\<close>

definition execute ::
  "digest \<Rightarrow> env \<Rightarrow> env \<Rightarrow> decision option \<Rightarrow> incident option \<Rightarrow> executor \<Rightarrow> exec_return \<times> executor" where
  "execute sha ev ev' dp ip ex =
     (case ctx_at ev AtStart of
        Some e \<Rightarrow> (Returns (Some (cancelled_result e dp (clock ev AtStart))) (Some (XCtx e)), ex)
      | None \<Rightarrow>
      case dp of None \<Rightarrow> (Returns None (Some XNilDecision), ex) | Some dec \<Rightarrow>
      case ip of None \<Rightarrow> (Returns None (Some XNilIncident), ex) | Some inc \<Rightarrow>
      case lookup_cached ev (dec_id dec) ex of
        (Some r, ex') \<Rightarrow> (r, ex')
      | (None, _) \<Rightarrow>
        (case approved_record ev dec ex of
           Some aid \<Rightarrow> execute_with_approval sha ev' dp ip aid ex
         | None \<Rightarrow> execute_leader sha ev dec inc (clock ev AtStart) ex))"

definition execute_validated ::
  "env \<Rightarrow> validated_decision option \<Rightarrow> executor \<Rightarrow> exec_return \<times> executor" where
  "execute_validated ev vp ex =
     (case ctx_at ev AtStart of Some e \<Rightarrow> (Returns None (Some (XCtx e)), ex) | None \<Rightarrow>
      case vp of None \<Rightarrow> (Returns None (Some XUnvalidated), ex) | Some vd \<Rightarrow>
      if \<not> sr_allowed (vd_safety vd) then (Returns None (Some XUnvalidated), ex)
      else (case lookup_cached ev (dec_id (vd_decision vd)) ex of
              (Some r, ex') \<Rightarrow> (r, ex')
            | (None, _) \<Rightarrow> run_validated ev (vd_decision vd) (Lit ''simulated action execution started'')
                             (clock ev AtStart) ex))"

definition get_execution :: "string \<Rightarrow> executor \<Rightarrow> exec_result option" where
  "get_execution did ex = ex_history ex did"

definition reset_history :: "executor \<Rightarrow> executor" where
  "reset_history ex = ex\<lparr>ex_history := (\<lambda>_. None), ex_count := 0\<rparr>"

end
