(* ===== verification/Executor_Safety.thy ===== *)
theory Executor_Safety
  imports Executor
begin

text \<open>
  What the executor promises: nothing is simulated outside the safety perimeter, nothing
  forbidden is ever simulated, an approved action runs only on an approval it consumes, and
  a decision is simulated at most once.
\<close>

section \<open>Frames\<close>

lemma with_store_sel [simp]:
  "ex_count (with_store f ex) = ex_count ex" "ex_history (with_store f ex) = ex_history ex"
  "ex_validator (with_store f ex) = ex_validator ex" "ex_approvals (with_store f ex) = ex_approvals ex"
  by (simp_all add: with_store_def split: option.split)

lemma with_store_store:
  "ex_store (with_store f ex) = map_option (\<lambda>s. snd (f s)) (ex_store ex)"
  by (simp add: with_store_def split: option.split)

lemma remember_sel [simp]:
  "ex_count (remember did res ex) = ex_count ex" "ex_store (remember did res ex) = ex_store ex"
  "ex_validator (remember did res ex) = ex_validator ex"
  "ex_approvals (remember did res ex) = ex_approvals ex"
  by (simp_all add: remember_def split: option.split)

lemma record_sel [simp]:
  "ex_count (record_outcome ev aid r ex) = ex_count ex"
  "ex_history (record_outcome ev aid r ex) = ex_history ex"
  "ex_approvals (record_outcome ev aid r ex) = ex_approvals ex"
  "ex_count (record_failure ev aid started res e ex) = ex_count ex"
  "ex_history (record_failure ev aid started res e ex) = ex_history ex"
  "ex_approvals (record_failure ev aid started res e ex) = ex_approvals ex"
  by (simp_all add: record_outcome_def record_failure_def Let_def)

lemma remember_not_executed: "er_status r \<noteq> MitigationExecuted \<Longrightarrow> remember did (Some r) ex = ex"
  by (simp add: remember_def)

lemma remember_executed:
  "er_status r = MitigationExecuted \<Longrightarrow>
     ex_history (remember did (Some r) ex) = (ex_history ex)(did \<mapsto> r)"
  by (simp add: remember_def)

lemma decision_result_Some:
  "decision_result dec st m c s t = Some r \<Longrightarrow>
     er_status r = st \<and> er_decision_id r = dec_id dec \<and> er_started_at r = s \<and> er_completed_at r = t \<and>
     er_simulated r \<and> er_action_type r = dec_action_type dec \<and> er_target r = dec_target dec \<and>
     suffixed_id ''exec-'' (dec_id dec) = Some (er_execution_id r)"
  by (auto simp: decision_result_def)

lemma simulation_message_None: "simulation_message dec = None \<longleftrightarrow> \<not> action_type_valid (dec_action_type dec)"
  by (simp add: simulation_message_def split: action_type.split)

lemma reject_with_frame:
  assumes "reject_with ev dec st m c started err ex = (ret, ex')" and "st \<noteq> MitigationExecuted"
  shows "ex_count ex' = ex_count ex" "ex_history ex' = ex_history ex" "ex_approvals ex' = ex_approvals ex"
    "ret \<noteq> Returns None None"
  using assms
  by (auto simp: reject_with_def record_rejection_def remember_not_executed
      dest: decision_result_Some split: option.splits)

lemma lookup_cached_frame:
  assumes "lookup_cached ev did ex = (ro, ex')"
  shows "ex_count ex' = ex_count ex" "ex_approvals ex' = ex_approvals ex" "ex_store ex' = ex_store ex"
    "ex_validator ex' = ex_validator ex"
    "ex_history ex i = Some r \<Longrightarrow> ex_history ex' i = Some r"
    "ro = None \<Longrightarrow> ex_history ex did = None"
  using assms by (auto simp: lookup_cached_def split: option.splits sum.splits)

lemma lookup_cached_hit:
  "ex_history ex did = Some r \<Longrightarrow> lookup_cached ev did ex = (Some (Returns (Some r) None), ex)"
  by (simp add: lookup_cached_def)

section \<open>The simulation\<close>

text \<open>A simulation is cancelled, refused as unknown, or dispatched and executed.\<close>

lemma execute_simulation_cases:
  assumes "execute_simulation ev dec started ex = (ret, ex')"
    and "suffixed_id ''exec-'' (dec_id dec) \<noteq> None"
  obtains (cancelled) r e where "ex' = ex" "ret = Returns (Some r) (Some e)" "er_status r = MitigationFailed"
  | (unknown) r where "ex' = ex\<lparr>ex_count := ex_count ex + 1\<rparr>" "ret = Returns (Some r) (Some XUnknownActionType)"
      "er_status r = MitigationFailed" "\<not> action_type_valid (dec_action_type dec)"
  | (ran) r where "ex' = ex\<lparr>ex_count := ex_count ex + 1\<rparr>" "ret = Returns (Some r) None"
      "er_status r = MitigationExecuted" "er_decision_id r = dec_id dec" "ctx_at ev AtSimulate = None"
      "er_started_at r = started" "er_completed_at r = clock ev AtComplete"
      "er_action_type r = dec_action_type dec" "er_target r = dec_target dec"
      "suffixed_id ''exec-'' (dec_id dec) = Some (er_execution_id r)"
proof -
  consider e where "ctx_at ev AtSimulate = Some e"
    | "ctx_at ev AtSimulate = None" "simulation_message dec = None"
    | m where "ctx_at ev AtSimulate = None" "simulation_message dec = Some m"
    by (cases "ctx_at ev AtSimulate"; cases "simulation_message dec") auto
  then show ?thesis
  proof cases
    case (1 e)
    with assms that(1) show ?thesis
      by (auto simp: execute_simulation_def decision_result_def split: option.splits)
  next
    case 2
    with assms that(2) show ?thesis
      by (auto simp: execute_simulation_def Let_def decision_result_def simulation_message_None
          split: option.splits)
  next
    case (3 m)
    obtain r where r: "decision_result dec MitigationExecuted m no_msg started (clock ev AtComplete) = Some r"
      using assms(2) by (auto simp: decision_result_def)
    from 3 r assms(1) have "ex' = ex\<lparr>ex_count := ex_count ex + 1\<rparr>" "ret = Returns (Some r) None"
      by (simp_all add: execute_simulation_def Let_def)
    with decision_result_Some [OF r] 3 that(3) show ?thesis by blast
  qed
qed

lemma suffixed_ids: "suffixed_id p did = None \<longleftrightarrow> suffixed_id q did = None"
  by (simp add: suffixed_id_None)

text \<open>The shared tail leaves counter and history alone, refuses, or simulates and remembers.\<close>

lemma run_validated_cases:
  assumes "run_validated ev dec m started ex = (ret, ex')"
  obtains (idle) "ex_count ex' = ex_count ex" "ex_history ex' = ex_history ex"
      "ex_approvals ex' = ex_approvals ex"
  | (unknown) r where "ex_count ex' = ex_count ex + 1" "ex_history ex' = ex_history ex"
      "ex_approvals ex' = ex_approvals ex" "ret = Returns (Some r) (Some XUnknownActionType)"
      "\<not> action_type_valid (dec_action_type dec)"
  | (run) r where "ex_count ex' = ex_count ex + 1" "ret = Returns (Some r) None"
      "er_status r = MitigationExecuted" "er_decision_id r = dec_id dec"
      "ex_history ex' = (ex_history ex)(dec_id dec \<mapsto> r)" "ex_approvals ex' = ex_approvals ex"
proof (cases "suffixed_id ''act-'' (dec_id dec)")
  case None
  with assms that(1) show ?thesis by (auto simp: run_validated_def)
next
  case (Some aid)
  let ?ex1 = "with_store (record_mitigation (db_at ev AtRecord) (clock ev AtRecord)
    (Some (in_flight_record dec aid m started))) ex"
  obtain sret ex2 where sim: "execute_simulation ev dec started ?ex1 = (sret, ex2)" by fastforce
  from Some have "suffixed_id ''exec-'' (dec_id dec) \<noteq> None"
    using suffixed_ids [of "''exec-''" "dec_id dec" "''act-''"] by simp
  from sim this show ?thesis
  proof (cases rule: execute_simulation_cases)
    case (cancelled r e)
    with assms Some sim that(1) show ?thesis
      by (auto simp: run_validated_def remember_not_executed)
  next
    case (unknown r)
    with assms Some sim that(2) show ?thesis
      by (auto simp: run_validated_def remember_not_executed)
  next
    case (ran r)
    with assms Some sim that(3) show ?thesis
      by (auto simp: run_validated_def Let_def remember_executed)
  qed
qed

section \<open>The leaders\<close>

lemma perimeter_action: "within_perimeter sha v now a dec inc \<Longrightarrow> action_type_valid (dec_action_type dec)"
  by (simp add: within_perimeter_def)

lemma validate_auto_allowed:
  "validate_auto sha ctx now v (Some dec) (Some inc) = Inr sr \<Longrightarrow> sr_allowed sr \<Longrightarrow>
     within_perimeter sha v now False dec inc"
  by (auto simp: validate_auto_def elim: validate_internal_cases)

lemma validate_approved_allowed:
  "validate_approved sha ctx now v (Some dec) (Some inc) = Inr sr \<Longrightarrow> sr_allowed sr \<Longrightarrow>
     within_perimeter sha v now True dec inc"
  by (auto simp: validate_approved_def elim: validate_internal_cases)

lemma execute_leader_cases:
  assumes "execute_leader sha ev dec inc started ex = (ret, ex')"
  obtains (idle) "ex_count ex' = ex_count ex" "ex_history ex' = ex_history ex"
      "ex_approvals ex' = ex_approvals ex"
  | (run) r where "ex_count ex' = ex_count ex + 1" "ret = Returns (Some r) None"
      "er_status r = MitigationExecuted" "er_decision_id r = dec_id dec"
      "ex_history ex' = (ex_history ex)(dec_id dec \<mapsto> r)" "ex_approvals ex' = ex_approvals ex"
      "within_perimeter sha (ex_validator ex) (clock ev AtValidate) False dec inc"
proof (cases "validate_auto sha (ctx_at ev AtValidate) (clock ev AtValidate) (ex_validator ex) (Some dec) (Some inc)")
  case (Inl e)
  with assms that(1) show ?thesis by (auto simp: execute_leader_def)
next
  case (Inr sr)
  show ?thesis
  proof (cases "sr_allowed sr")
    case False
    with assms Inr obtain st m c where "reject_with ev dec st m c started None ex = (ret, ex')"
      "st \<noteq> MitigationExecuted"
      by (auto simp: execute_leader_def split: if_splits)
    from reject_with_frame [OF this] that(1) show ?thesis by blast
  next
    case True
    note peri = validate_auto_allowed [OF Inr True]
    show ?thesis
    proof (cases "new_validated_decision (Some dec) (Some sr)")
      case (Inl e)
      with assms Inr True \<open>validate_auto _ _ _ _ _ _ = Inr sr\<close> that(1) show ?thesis
        by (auto simp: execute_leader_def)
    next
      case (Inr vd)
      with assms True \<open>validate_auto _ _ _ _ _ _ = Inr sr\<close>
      have "run_validated ev dec (Lit ''simulated action execution started'') started ex = (ret, ex')"
        by (simp add: execute_leader_def)
      from this perimeter_action [OF peri] show ?thesis
        by (cases rule: run_validated_cases) (use that peri in blast)+
    qed
  qed
qed

text \<open>
  The approval store after an approved leader: untouched, or after one \<open>ConsumeApproval\<close>.
\<close>

definition approvals_after :: "env \<Rightarrow> string \<Rightarrow> approval_store \<Rightarrow> executor \<Rightarrow> bool" where
  "approvals_after ev aid as ex' \<longleftrightarrow>
     ex_approvals ex' = Some as \<or>
     ex_approvals ex' = Some (snd (consume_approval (db_at ev AtConsume) aid (clock ev AtGate) as))"

lemma get_approval_Inr:
  "get_approval io aid as = Inr r \<Longrightarrow>
     find_approval aid (ap_rows as) = Some r \<and> sa_approval_id r = aid \<and> \<not> blank aid"
  by (auto simp: get_approval_def dest: find_approval_Some split: if_splits option.splits)

lemma approved_leader_cases:
  assumes "approved_leader sha ev dec inc aid started as ex = (ret, ex')" and "ex_approvals ex = Some as"
  obtains (idle) "ex_count ex' = ex_count ex" "ex_history ex' = ex_history ex" "approvals_after ev aid as ex'"
  | (run) r app as' where "ex_count ex' = ex_count ex + 1" "ret = Returns (Some r) None"
      "er_status r = MitigationExecuted" "er_decision_id r = dec_id dec"
      "ex_history ex' = (ex_history ex)(dec_id dec \<mapsto> r)"
      "within_perimeter sha (ex_validator ex) (clock ev AtValidate) True dec inc"
      "find_approval aid (ap_rows as) = Some app"
      "validate_for_execution sha (Some (stored_to_approval app)) (Some dec) (Some inc) (clock ev AtGate) = Gives ()"
      "consume_approval (db_at ev AtConsume) aid (clock ev AtGate) as = (None, as')" "ex_approvals ex' = Some as'"
proof (cases "get_approval (db_at ev AtLoad) aid as")
  case (Inl e)
  with assms that(1) show ?thesis by (auto simp: approved_leader_def approvals_after_def)
next
  case (Inr stored)
  note st = Inr get_approval_Inr [OF Inr]
  define gate where "gate = validate_for_execution sha (Some (stored_to_approval stored)) (Some dec) (Some inc) (clock ev AtGate)"
  define val where "val = validate_approved sha (ctx_at ev AtValidate) (clock ev AtValidate) (ex_validator ex)
                 (Some dec) (Some inc)"
  have oid: "oa_approval_id (stored_to_approval stored) = aid"
    using st by (simp add: stored_to_approval_def)
  have rejected: ?thesis if "reject_with ev dec MitigationFailed m c started err ex = (ret, ex')" for m c err
    using reject_with_frame [OF that] assms(2) \<open>\<lbrakk>_; _; _\<rbrakk> \<Longrightarrow> thesis\<close> by (auto simp: approvals_after_def)
  consider "gate = Panics" | e where "gate = Fails e" | e where "gate = Gives ()" "val = Inl e"
    | sr where "gate = Gives ()" "val = Inr sr" "\<not> sr_allowed sr"
    | sr where "gate = Gives ()" "val = Inr sr" "sr_allowed sr"
    by (cases gate; cases val) auto
  then show ?thesis
  proof cases
    case 1
    with assms st that(1) show ?thesis
      by (auto simp: approved_leader_def approvals_after_def gate_def Let_def)
  next
    case (2 e)
    with assms(1) st rejected show ?thesis
      by (simp add: approved_leader_def gate_def Let_def)
  next
    case (3 e)
    with assms st that(1) show ?thesis
      by (auto simp: approved_leader_def approvals_after_def gate_def val_def Let_def)
  next
    case (4 sr)
    with assms(1) st rejected show ?thesis
      by (simp add: approved_leader_def gate_def val_def Let_def)
  next
    case (5 sr)
    note peri = validate_approved_allowed [OF 5(2) [unfolded val_def] 5(3)]
    obtain ce as' where c: "consume_approval (db_at ev AtConsume) aid (clock ev AtGate) as = (ce, as')"
      by fastforce
    show ?thesis
    proof (cases ce)
      case (Some e)
      with assms 5 st c oid that(1) show ?thesis
        by (auto simp: approved_leader_def approvals_after_def gate_def val_def Let_def split: option.splits)
    next
      case None
      let ?ex = "ex\<lparr>ex_approvals := Some as'\<rparr>"
      show ?thesis
      proof (cases "new_validated_decision (Some dec) (Some sr)")
        case (Inl e)
        with assms 5 st c oid None that(1) show ?thesis
          by (auto simp: approved_leader_def approvals_after_def gate_def val_def Let_def)
      next
        case (Inr vd)
        with assms 5 st c oid None obtain m where "run_validated ev dec m started ?ex = (ret, ex')"
          by (auto simp: approved_leader_def gate_def val_def Let_def)
        from this perimeter_action [OF peri] show ?thesis
          using that(1) that(2) [OF _ _ _ _ _ peri _ _ c [unfolded None]] c None 5(1) st
          by (cases rule: run_validated_cases) (auto simp: approvals_after_def gate_def)
      qed
    qed
  qed
qed

section \<open>The entry points\<close>

text \<open>A call that simulates went through a leader: the lookups found nothing.\<close>

lemma execute_with_approval_cases:
  assumes "execute_with_approval sha ev dp ip aid ex = (ret, ex')"
  obtains (idle) "ex_count ex' = ex_count ex" "\<And>i r. ex_history ex i = Some r \<Longrightarrow> ex_history ex' i = Some r"
      "ex_approvals ex' = ex_approvals ex \<or> (\<exists>as. ex_approvals ex = Some as \<and> approvals_after ev aid as ex')"
  | (run) dec inc r as app as' where "dp = Some dec" "ip = Some inc" "ex_approvals ex = Some as"
      "ex_count ex' = ex_count ex + 1" "ret = Returns (Some r) None"
      "er_status r = MitigationExecuted" "er_decision_id r = dec_id dec"
      "ex_history ex (dec_id dec) = None" "ex_history ex' = (ex_history ex)(dec_id dec \<mapsto> r)"
      "within_perimeter sha (ex_validator ex) (clock ev AtValidate) True dec inc"
      "find_approval aid (ap_rows as) = Some app"
      "validate_for_execution sha (Some (stored_to_approval app)) (Some dec) (Some inc) (clock ev AtGate) = Gives ()"
      "consume_approval (db_at ev AtConsume) aid (clock ev AtGate) as = (None, as')" "ex_approvals ex' = Some as'"
proof -
  have stop: ?thesis if "ex' = ex" using that idle by blast
  show ?thesis
  proof (cases "ctx_at ev AtStart \<noteq> None \<or> dp = None \<or> ip = None \<or> blank aid \<or> ex_approvals ex = None")
    case True
    with assms stop show ?thesis
      by (auto simp: execute_with_approval_def split: option.splits if_splits)
  next
    case False
    then obtain dec inc as where d: "dp = Some dec" "ip = Some inc" "ex_approvals ex = Some as"
      "ctx_at ev AtStart = None" "\<not> blank aid" by auto
    show ?thesis
    proof (cases "dec_auth_class dec = AuthForbidden")
      case True
      with assms d stop show ?thesis
        by (auto simp: execute_with_approval_def split: option.splits)
    next
      case False
      obtain ro ex1 where l: "lookup_cached ev (dec_id dec) ex = (ro, ex1)" by fastforce
      note lf = lookup_cached_frame [OF l]
      show ?thesis
      proof (cases ro)
        case (Some r)
        with assms d False l have "ex' = ex1" by (simp add: execute_with_approval_def)
        with lf idle show ?thesis by auto
      next
        case None
        with assms d False l have "approved_leader sha ev dec inc aid (clock ev AtStart) as ex = (ret, ex')"
          by (simp add: execute_with_approval_def)
        from this d(3) show ?thesis
          by (cases rule: approved_leader_cases) (use d lf(6) None idle run in auto)
      qed
    qed
  qed
qed

lemma execute_cases:
  assumes "execute sha ev ev' dp ip ex = (ret, ex')"
  obtains (idle) "ex_count ex' = ex_count ex" "\<And>i r. ex_history ex i = Some r \<Longrightarrow> ex_history ex' i = Some r"
      "ex_approvals ex' = ex_approvals ex"
  | (run) dec inc r where "dp = Some dec" "ip = Some inc"
      "ex_count ex' = ex_count ex + 1" "ret = Returns (Some r) None"
      "er_status r = MitigationExecuted" "er_decision_id r = dec_id dec"
      "ex_history ex (dec_id dec) = None" "ex_history ex' = (ex_history ex)(dec_id dec \<mapsto> r)"
      "within_perimeter sha (ex_validator ex) (clock ev AtValidate) False dec inc"
      "ex_approvals ex' = ex_approvals ex"
  | (approved) dec aid where "dp = Some dec" "approved_record ev dec ex = Some aid"
      "ex_history ex (dec_id dec) = None"
      "execute_with_approval sha ev' dp ip aid ex = (ret, ex')"
proof (cases "ctx_at ev AtStart \<noteq> None \<or> dp = None \<or> ip = None")
  case True
  with assms idle show ?thesis by (auto simp: execute_def split: option.splits)
next
  case False
  then obtain dec inc where d: "dp = Some dec" "ip = Some inc" "ctx_at ev AtStart = None" by auto
  obtain ro ex1 where l: "lookup_cached ev (dec_id dec) ex = (ro, ex1)" by fastforce
  note lf = lookup_cached_frame [OF l]
  show ?thesis
  proof (cases ro)
    case (Some r)
    with assms d l have "ex' = ex1" by (simp add: execute_def)
    with lf idle show ?thesis by auto
  next
    case None
    show ?thesis
    proof (cases "approved_record ev dec ex")
      case (Some aid)
      with assms d l None lf(6) approved show ?thesis by (simp add: execute_def)
    next
      case None'': None
      with assms d l None have "execute_leader sha ev dec inc (clock ev AtStart) ex = (ret, ex')"
        by (simp add: execute_def)
      then show ?thesis
        by (cases rule: execute_leader_cases) (use d lf(6) None idle run in auto)
    qed
  qed
qed

lemma execute_validated_cases:
  assumes "execute_validated ev vp ex = (ret, ex')"
  obtains (idle) "ex_count ex' = ex_count ex" "\<And>i r. ex_history ex i = Some r \<Longrightarrow> ex_history ex' i = Some r"
  | (unknown) vd r where "vp = Some vd" "ret = Returns (Some r) (Some XUnknownActionType)"
      "ex_count ex' = ex_count ex + 1" "ex_history ex' = ex_history ex"
      "\<not> action_type_valid (dec_action_type (vd_decision vd))"
  | (run) vd r where "vp = Some vd" "sr_allowed (vd_safety vd)" "ex_count ex' = ex_count ex + 1"
      "ret = Returns (Some r) None" "er_status r = MitigationExecuted"
      "er_decision_id r = dec_id (vd_decision vd)" "ex_history ex (dec_id (vd_decision vd)) = None"
      "ex_history ex' = (ex_history ex)(dec_id (vd_decision vd) \<mapsto> r)"
proof (cases "ctx_at ev AtStart \<noteq> None \<or> vp = None")
  case True
  with assms idle show ?thesis by (auto simp: execute_validated_def split: option.splits)
next
  case False
  then obtain vd where d: "vp = Some vd" "ctx_at ev AtStart = None" by auto
  obtain ro ex1 where l: "lookup_cached ev (dec_id (vd_decision vd)) ex = (ro, ex1)" by fastforce
  note lf = lookup_cached_frame [OF l]
  show ?thesis
  proof (cases "sr_allowed (vd_safety vd)")
    case False
    with assms d idle show ?thesis by (auto simp: execute_validated_def)
  next
    case True
    show ?thesis
    proof (cases ro)
      case (Some r)
      with assms d l True have "ex' = ex1" by (simp add: execute_validated_def)
      with lf idle show ?thesis by auto
    next
      case None
      with assms d l True have "run_validated ev (vd_decision vd)
          (Lit ''simulated action execution started'') (clock ev AtStart) ex = (ret, ex')"
        by (simp add: execute_validated_def)
      then show ?thesis
        by (cases rule: run_validated_cases) (use d lf(6) None True idle unknown run in auto)
    qed
  qed
qed

section \<open>Sequences of calls\<close>

datatype exec_call =
    CallExecute env env "decision option" "incident option"
  | CallValidated env "validated_decision option"
  | CallApproved env "decision option" "incident option" string

fun call_executor :: "digest \<Rightarrow> exec_call \<Rightarrow> executor \<Rightarrow> exec_return \<times> executor" where
  "call_executor sha (CallExecute ev ev' dp ip) ex = execute sha ev ev' dp ip ex"
| "call_executor sha (CallValidated ev vp) ex = execute_validated ev vp ex"
| "call_executor sha (CallApproved ev dp ip aid) ex = execute_with_approval sha ev dp ip aid ex"

text \<open>The decision a call is about.\<close>

fun call_decision :: "exec_call \<Rightarrow> decision option" where
  "call_decision (CallExecute ev ev' dp ip) = dp"
| "call_decision (CallValidated ev vp) = map_option vd_decision vp"
| "call_decision (CallApproved ev dp ip aid) = dp"

definition call_for :: "string \<Rightarrow> exec_call \<Rightarrow> bool" where
  "call_for did c \<longleftrightarrow> map_option dec_id (call_decision c) = Some did"

fun executed_return :: "exec_return \<Rightarrow> bool" where
  "executed_return (Returns (Some r) None) = (er_status r = MitigationExecuted)"
| "executed_return _ = False"

text \<open>A call performs a simulation when it moves the counter and returns an executed result.\<close>

definition simulates :: "exec_return \<Rightarrow> executor \<Rightarrow> executor \<Rightarrow> bool" where
  "simulates ret ex ex' \<longleftrightarrow> ex_count ex' \<noteq> ex_count ex \<and> executed_return ret"

lemma call_executor_cases:
  assumes "call_executor sha c ex = (ret, ex')"
  obtains (idle) "\<not> simulates ret ex ex'" "\<And>i r. ex_history ex i = Some r \<Longrightarrow> ex_history ex' i = Some r"
  | (run) dec r where "call_decision c = Some dec" "ex_history ex (dec_id dec) = None"
      "ex_history ex' = (ex_history ex)(dec_id dec \<mapsto> r)" "simulates ret ex ex'"
proof (cases c)
  case (CallExecute ev ev' dp ip)
  with assms have e: "execute sha ev ev' dp ip ex = (ret, ex')" by simp
  then show ?thesis
  proof (cases rule: execute_cases)
    case idle
    with that(1) show ?thesis by (simp add: simulates_def)
  next
    case (run dec inc r)
    with that(2) CallExecute show ?thesis by (simp add: simulates_def)
  next
    case (approved dec aid)
    from approved(4) show ?thesis
      by (cases rule: execute_with_approval_cases) (use that CallExecute in \<open>auto simp: simulates_def\<close>)
  qed
next
  case (CallValidated ev vp)
  with assms have "execute_validated ev vp ex = (ret, ex')" by simp
  then show ?thesis
    by (cases rule: execute_validated_cases) (use that CallValidated in \<open>auto simp: simulates_def\<close>)
next
  case (CallApproved ev dp ip aid)
  with assms have "execute_with_approval sha ev dp ip aid ex = (ret, ex')" by simp
  then show ?thesis
    by (cases rule: execute_with_approval_cases) (use that CallApproved in \<open>auto simp: simulates_def\<close>)
qed

definition exec_step :: "digest \<Rightarrow> exec_call \<Rightarrow> executor \<Rightarrow> bool \<times> executor" where
  "exec_step sha c ex = (let (ret, ex') = call_executor sha c ex in (simulates ret ex ex', ex'))"

interpretation executions: consume_once "exec_step sha" call_for
  "\<lambda>ex did. ex_history ex did \<noteq> None" "\<lambda>_. True" for sha
proof unfold_locales
  fix ex did c
  obtain ret ex' where c: "call_executor sha c ex = (ret, ex')" by fastforce
  { assume "ex_history ex did \<noteq> None"
    with c show "ex_history (snd (exec_step sha c ex)) did \<noteq> None"
      by (cases rule: call_executor_cases) (auto simp: exec_step_def c) }
  { assume "call_for did c" "fst (exec_step sha c ex)"
    with c show "\<not> ex_history ex did \<noteq> None"
      by (cases rule: call_executor_cases) (auto simp: exec_step_def c call_for_def) }
  { assume "call_for did c" "fst (exec_step sha c ex)"
    with c show "ex_history (snd (exec_step sha c ex)) did \<noteq> None"
      by (cases rule: call_executor_cases) (auto simp: exec_step_def c call_for_def) }
qed simp

text \<open>How many calls of a sequence simulate the decision \<open>did\<close>.\<close>

fun simulation_runs :: "digest \<Rightarrow> string \<Rightarrow> exec_call list \<Rightarrow> executor \<Rightarrow> nat" where
  "simulation_runs sha did [] ex = 0"
| "simulation_runs sha did (c # cs) ex =
     (let (ret, ex') = call_executor sha c ex
      in (if call_for did c \<and> simulates ret ex ex' then 1 else 0) + simulation_runs sha did cs ex')"

lemma simulation_runs_once: "simulation_runs sha did cs ex = executions.successes sha did cs ex"
  by (induction cs arbitrary: ex) (auto simp: exec_step_def split_beta Let_def)

end
