(* ===== verification/Executor_Properties.thy ===== *)
theory Executor_Properties
  imports Executor_Safety
begin

text \<open>
  The properties of the executor: the perimeter of every simulation, the consumption of the
  approval before it, at most one simulation per decision and per approval, and the durable
  record that survives a restart.
\<close>

section \<open>The durable record of an execution\<close>

lemma find_decision_update:
  assumes "\<And>r. sm_decision_id (f r) = sm_decision_id r"
  shows "find (\<lambda>r. sm_decision_id r = did) (update_where p f rows) =
         map_option (\<lambda>r. if p r then f r else r) (find (\<lambda>r. sm_decision_id r = did) rows)"
  by (rule find_key_update_where) (rule assms)

definition unrecorded :: "string \<Rightarrow> string \<Rightarrow> mitigation_store \<Rightarrow> bool" where
  "unrecorded aid did s \<longleftrightarrow>
     \<not> list_ex (\<lambda>r. sm_action_id r = aid \<or> sm_decision_id r = did) (mt_rows s)"

lemma find_snoc_fresh:
  "\<not> list_ex (\<lambda>r. g r = k) rows \<Longrightarrow> find (\<lambda>r. g r = k) (rows @ [x]) = (if g x = k then Some x else None)"
  by (induction rows) auto

lemma unrecorded_snoc:
  assumes "unrecorded aid did s" "sm_action_id m = aid" "sm_decision_id m = did"
  shows "find_mitigation aid (mt_rows s @ [m]) = Some m"
    "find (\<lambda>r. sm_decision_id r = did) (mt_rows s @ [m]) = Some m"
  using assms by (auto simp: unrecorded_def find_mitigation_def list_ex_iff intro!: find_snoc_fresh [THEN trans])

text \<open>Recording, then marking executed, leaves the executed record under both identifiers.\<close>

lemma record_then_mark:
  assumes "unrecorded aid did s" "\<not> mt_closed s" "stored_mitigation_validate m = None"
    and "sm_action_id m = aid" "sm_decision_id m = did" "sm_status m = MitigationExecuting"
  shows "\<exists>s1 s2 m'. record_mitigation IoOk now (Some m) s = (None, s1) \<and>
    mark_mitigation_executed IoOk later aid message completed ms s1 = (None, s2) \<and> \<not> mt_closed s2 \<and>
    find (\<lambda>r. sm_decision_id r = did) (mt_rows s2) = Some m' \<and>
    sm_status m' = MitigationExecuted \<and> sm_decision_id m' = did"
proof -
  let ?m = "m\<lparr>sm_created_at := or_now now (sm_created_at m), sm_updated_at := or_now now (sm_updated_at m)\<rparr>"
  let ?s1 = "set_mitigations (mt_rows s @ [?m]) s"
  have rec: "record_mitigation IoOk now (Some m) s = (None, ?s1)"
    using assms by (auto simp: record_mitigation_def unrecorded_def)
  have fm: "find_mitigation aid (mt_rows ?s1) = Some ?m"
    and fd: "find (\<lambda>r. sm_decision_id r = did) (mt_rows ?s1) = Some ?m"
    using unrecorded_snoc [OF assms(1), of ?m] assms(4,5) by simp_all
  have "\<not> blank aid" using assms(3,4) by (auto simp: stored_mitigation_validate_def split: if_splits)
  moreover have "mitigation_can MitigationExecuting MitigationExecuted" by (simp add: mitigation_can_def)
  ultimately show ?thesis
    using assms fm fd rec
    by (simp add: mark_mitigation_executed_def update_mitigation_status_def find_decision_update)
qed

lemma act_id_not_blank: "suffixed_id (CHR ''a'' # p) did = Some aid \<Longrightarrow> \<not> blank aid"
  by (auto simp: suffixed_id_def space_heads_def byte_def intro!: not_blank_Cons)

lemma compute_decision_id_not_blank: "\<not> blank (compute_decision_id sha i n v a t)"
  by (simp add: compute_decision_id_def not_blank_Cons space_heads_def byte_def)

lemma in_flight_record_valid:
  assumes "within_perimeter sha v now approved dec inc" "suffixed_id ''act-'' (dec_id dec) = Some aid"
    and "started \<noteq> 0"
  shows "stored_mitigation_validate (in_flight_record dec aid m started) = None"
  using assms act_id_not_blank [OF assms(2)] compute_decision_id_not_blank is_valid_target_not_blank
  by (auto simp: stored_mitigation_validate_def in_flight_record_def within_perimeter_def
      expected_decision_id_def is_zero_def ptr_before_def)

lemma run_validated_recorded:
  assumes "run_validated ev dec m started ex = (Returns (Some r) None, ex')"
    and "ex_count ex' \<noteq> ex_count ex" "er_status r = MitigationExecuted"
    and "within_perimeter sha v now approved dec inc" "started \<noteq> 0"
    and "ex_store ex = Some s" "\<not> mt_closed s" "db_at ev AtRecord = IoOk" "db_at ev AtMark = IoOk"
    and "suffixed_id ''act-'' (dec_id dec) = Some aid" "unrecorded aid (dec_id dec) s"
  shows "\<exists>s' m'. ex_store ex' = Some s' \<and> \<not> mt_closed s' \<and>
    find (\<lambda>q. sm_decision_id q = dec_id dec) (mt_rows s') = Some m' \<and>
    sm_status m' = MitigationExecuted \<and> sm_decision_id m' = dec_id dec \<and>
    suffixed_id ''exec-'' (dec_id dec) = Some (er_execution_id r)"
proof -
  let ?rec = "in_flight_record dec aid m started"
  let ?ex1 = "with_store (record_mitigation IoOk (clock ev AtRecord) (Some ?rec)) ex"
  obtain sret ex2 where sim: "execute_simulation ev dec started ?ex1 = (sret, ex2)" by fastforce
  from assms(10) have "suffixed_id ''exec-'' (dec_id dec) \<noteq> None"
    using suffixed_ids [of "''exec-''" "dec_id dec" "''act-''"] by simp
  from sim this show ?thesis
  proof (cases rule: execute_simulation_cases)
    case (cancelled r' e)
    with assms sim show ?thesis by (auto simp: run_validated_def)
  next
    case (unknown r')
    with assms sim show ?thesis by (auto simp: run_validated_def)
  next
    case (ran r')
    obtain s1 s2 m' where step: "record_mitigation IoOk (clock ev AtRecord) (Some ?rec) s = (None, s1)"
      "mark_mitigation_executed IoOk (clock ev AtUpdate) aid (er_message r') (er_completed_at r')
         (milliseconds (er_duration r')) s1 = (None, s2)"
      and fin: "\<not> mt_closed s2" "find (\<lambda>q. sm_decision_id q = dec_id dec) (mt_rows s2) = Some m'"
        "sm_status m' = MitigationExecuted" "sm_decision_id m' = dec_id dec"
      using record_then_mark [OF assms(11,7) in_flight_record_valid [OF assms(4,10,5)],
          of m "clock ev AtRecord" "clock ev AtUpdate" "er_message r'" "er_completed_at r'"
            "milliseconds (er_duration r')"]
      by (auto simp: in_flight_record_def)
    from assms(1,8,9,10) sim ran have "r' = r" and
      "ex' = remember (dec_id dec) (Some r) ((record_outcome ev aid r ex2)\<lparr>ex_validator :=
         record_execution (dec_target dec) cooldown_after_execution (clock ev AtCooldown)
           (ex_validator (record_outcome ev aid r ex2))\<rparr>)"
      by (auto simp: run_validated_def Let_def)
    with ran step assms(6,9) have "ex_store ex' = Some s2"
      by (simp add: record_outcome_def with_store_store)
    with fin ran \<open>r' = r\<close> show ?thesis by blast
  qed
qed

section \<open>Approvals spent by executions\<close>

text \<open>Executor calls interleaved with operations of other clients on the approval store.\<close>

datatype agent_op = DoCall exec_call | DoLedger db_io approval_op

definition ledger_op :: "db_io \<Rightarrow> approval_op \<Rightarrow> executor \<Rightarrow> executor" where
  "ledger_op io op ex =
     (case ex_approvals ex of None \<Rightarrow> ex
      | Some as \<Rightarrow> ex\<lparr>ex_approvals := Some (snd (approval_exec io op as))\<rparr>)"

fun agent_step :: "digest \<Rightarrow> agent_op \<Rightarrow> executor \<Rightarrow> bool \<times> executor" where
  "agent_step sha (DoCall c) ex = exec_step sha c ex"
| "agent_step sha (DoLedger io op) ex = (False, ledger_op io op ex)"

fun spends_approval :: "string \<Rightarrow> agent_op \<Rightarrow> bool" where
  "spends_approval aid (DoCall (CallApproved ev dp ip aid')) = (aid' = aid)"
| "spends_approval aid _ = False"

definition approval_spent :: "executor \<Rightarrow> string \<Rightarrow> bool" where
  "approval_spent ex aid \<longleftrightarrow>
     (\<exists>as. ex_approvals ex = Some as \<and> status_of as aid = Some ApprovalConsumed)"

definition approvals_ok :: "executor \<Rightarrow> bool" where
  "approvals_ok ex \<longleftrightarrow> (\<forall>as. ex_approvals ex = Some as \<longrightarrow> ids_unique as)"

lemma consume_is_exec: "snd (consume_approval io aid now as) = snd (approval_exec io (OpConsume aid now) as)"
  by simp

lemma consumed_stays:
  "status_of as i = Some ApprovalConsumed \<Longrightarrow> status_of (snd (approval_exec io op as)) i = Some ApprovalConsumed"
  using approval_exec_moves [of as i ApprovalConsumed io op] by (auto simp: approval_moves_consumed)

lemma approvals_after_ok:
  assumes "approvals_after ev aid as ex'" "ex_approvals ex = Some as" "approvals_ok ex"
  shows "approvals_ok ex'" "approval_spent ex i \<Longrightarrow> approval_spent ex' i"
proof -
  have u: "ids_unique as" using assms(2,3) by (simp add: approvals_ok_def)
  show "approvals_ok ex'"
    using assms(1) u approval_exec_unique [OF u, of "db_at ev AtConsume" "OpConsume aid (clock ev AtGate)"]
    by (auto simp: approvals_after_def approvals_ok_def)
  show "approval_spent ex i \<Longrightarrow> approval_spent ex' i"
    using assms(1,2) consumed_stays [of as i "db_at ev AtConsume" "OpConsume aid (clock ev AtGate)"]
    by (auto simp: approvals_after_def approval_spent_def)
qed

lemma execute_with_approval_approvals:
  assumes "execute_with_approval sha ev dp ip aid ex = (ret, ex')" "approvals_ok ex"
  shows "approvals_ok ex' \<and> (approval_spent ex i \<longrightarrow> approval_spent ex' i)"
  using assms(1)
proof (cases rule: execute_with_approval_cases)
  case idle
  from idle(3) show ?thesis
  proof
    assume "ex_approvals ex' = ex_approvals ex"
    with assms(2) show ?thesis by (simp add: approvals_ok_def approval_spent_def)
  next
    assume "\<exists>as. ex_approvals ex = Some as \<and> approvals_after ev aid as ex'"
    with approvals_after_ok assms(2) show ?thesis by blast
  qed
next
  case (run dec inc r as app as')
  then have "approvals_after ev aid as ex'" by (simp add: approvals_after_def)
  with approvals_after_ok [OF _ run(3) assms(2)] show ?thesis by blast
qed

lemma execute_validated_approvals: "ex_approvals (snd (execute_validated ev vp ex)) = ex_approvals ex"
proof -
  have rv: "ex_approvals (snd (run_validated ev d m t ex)) = ex_approvals ex" for d m t
    using run_validated_cases [of ev d m t ex "fst (run_validated ev d m t ex)" "snd (run_validated ev d m t ex)"]
    by (metis prod.collapse)
  have lk: "ex_approvals (snd (lookup_cached ev did ex)) = ex_approvals ex" for did
    using lookup_cached_frame(2) by (metis prod.collapse)
  show ?thesis
    by (auto simp: execute_validated_def rv split: option.split prod.split dest!: arg_cong [where f = snd])
       (metis lk snd_conv)+
qed

lemma call_executor_approvals:
  assumes "call_executor sha c ex = (ret, ex')" "approvals_ok ex"
  shows "approvals_ok ex' \<and> (approval_spent ex i \<longrightarrow> approval_spent ex' i)"
proof -
  have same: "approvals_ok ex' \<and> (approval_spent ex i \<longrightarrow> approval_spent ex' i)"
    if "ex_approvals ex' = ex_approvals ex"
    using that assms(2) by (simp add: approvals_ok_def approval_spent_def)
  show ?thesis
  proof (cases c)
    case (CallExecute ev ev' dp ip)
    with assms(1) have "execute sha ev ev' dp ip ex = (ret, ex')" by simp
    then show ?thesis
      by (cases rule: execute_cases) (use same execute_with_approval_approvals assms(2) in blast)+
  next
    case (CallValidated ev vp)
    with assms(1) same execute_validated_approvals [of ev vp ex] show ?thesis by simp
  next
    case (CallApproved ev dp ip aid)
    with assms execute_with_approval_approvals show ?thesis by simp
  qed
qed

lemma approved_call_spends:
  assumes "execute_with_approval sha ev dp ip aid ex = (ret, ex')" "simulates ret ex ex'" "approvals_ok ex"
  shows "\<not> approval_spent ex aid" "approval_spent ex' aid"
proof -
  from assms(1) have "\<not> approval_spent ex aid \<and> approval_spent ex' aid"
  proof (cases rule: execute_with_approval_cases)
    case idle
    with assms(2) show ?thesis by (simp add: simulates_def)
  next
    case (run dec inc r as app as')
    then have "ids_unique as" using assms(3) by (simp add: approvals_ok_def)
    from consume_success [OF this run(13)] obtain q where "find_approval aid (ap_rows as) = Some q"
      "sa_status q = ApprovalApproved" "status_of as' aid = Some ApprovalConsumed" by blast
    with run(3,14) show ?thesis by (simp add: approval_spent_def status_of_def)
  qed
  then show "\<not> approval_spent ex aid" "approval_spent ex' aid" by blast+
qed

interpretation funding: consume_once "agent_step sha" spends_approval approval_spent approvals_ok for sha
proof unfold_locales
  fix ex op i
  assume ok: "approvals_ok ex"
  have step: "approvals_ok (snd (agent_step sha op ex)) \<and>
      (approval_spent ex j \<longrightarrow> approval_spent (snd (agent_step sha op ex)) j)" for j
  proof (cases op)
    case (DoCall c)
    obtain ret ex' where "call_executor sha c ex = (ret, ex')" by fastforce
    with DoCall call_executor_approvals [OF this ok] show ?thesis by (simp add: exec_step_def)
  next
    case (DoLedger io aop)
    with ok approval_exec_unique consumed_stays show ?thesis
      by (auto simp: ledger_op_def approvals_ok_def approval_spent_def split: option.splits)
  qed
  then show "approvals_ok (snd (agent_step sha op ex))" by blast
  show "approval_spent ex i \<Longrightarrow> approval_spent (snd (agent_step sha op ex)) i" using step by blast
  assume "spends_approval i op" "fst (agent_step sha op ex)"
  then obtain ev dp ip where op: "op = DoCall (CallApproved ev dp ip i)" and
    ran: "fst (agent_step sha op ex)"
    by (cases "(i, op)" rule: spends_approval.cases) auto
  obtain ret ex' where e: "execute_with_approval sha ev dp ip i ex = (ret, ex')" by fastforce
  with op ran have "simulates ret ex ex'" "snd (agent_step sha op ex) = ex'"
    by (simp_all add: exec_step_def)
  with approved_call_spends [OF e _ ok] show "\<not> approval_spent ex i"
    "approval_spent (snd (agent_step sha op ex)) i" by metis+
qed

text \<open>How many \<open>ExecuteWithApproval\<close> calls naming \<open>aid\<close> simulate something, in a sequence.\<close>

fun funded_runs :: "digest \<Rightarrow> string \<Rightarrow> agent_op list \<Rightarrow> executor \<Rightarrow> nat" where
  "funded_runs sha aid [] ex = 0"
| "funded_runs sha aid (op # ops) ex =
     (let (ran, ex') = agent_step sha op ex
      in (if spends_approval aid op \<and> ran then 1 else 0) + funded_runs sha aid ops ex')"

lemma funded_runs_once: "funded_runs sha aid ops ex = funding.successes sha aid ops ex"
  by (induction ops arbitrary: ex) (simp_all add: split_beta Let_def)

section \<open>Enabled executions\<close>

lemma perimeter_id_length: "within_perimeter sha v now a dec inc \<Longrightarrow> \<not> length (dec_id dec) < 4"
  using compute_decision_id_prefix(2) by (auto simp: within_perimeter_def expected_decision_id_def not_less)

lemma run_validated_runs:
  assumes "action_type_valid (dec_action_type dec)" "\<not> length (dec_id dec) < 4" "ctx_at ev AtSimulate = None"
  shows "\<exists>r ex'. run_validated ev dec m started ex = (Returns (Some r) None, ex') \<and>
    er_status r = MitigationExecuted \<and> ex_count ex' = ex_count ex + 1"
proof -
  obtain aid where aid: "suffixed_id ''act-'' (dec_id dec) = Some aid"
    using assms(2) suffixed_id_None by (metis option.exhaust)
  have eid: "suffixed_id ''exec-'' (dec_id dec) \<noteq> None" using assms(2) suffixed_id_None by metis
  let ?ex1 = "with_store (record_mitigation (db_at ev AtRecord) (clock ev AtRecord)
    (Some (in_flight_record dec aid m started))) ex"
  obtain sret ex2 where sim: "execute_simulation ev dec started ?ex1 = (sret, ex2)" by fastforce
  from sim eid show ?thesis
  proof (cases rule: execute_simulation_cases)
    case (cancelled r e)
    with sim assms(1,3) simulation_message_None [of dec] show ?thesis
      by (auto simp: execute_simulation_def Let_def split: option.splits)
  next
    case (unknown r)
    with assms(1) show ?thesis by simp
  next
    case (ran r)
    with sim aid show ?thesis by (simp add: run_validated_def Let_def)
  qed
qed

lemma validated_of_perimeter:
  assumes "within_perimeter sha v now a dec inc"
  obtains sr where "validate_internal sha None now v (Some dec) (Some inc) a = Inr sr" "sr_allowed sr"
    "new_validated_decision (Some dec) (Some sr) = Inr \<lparr>vd_decision = dec, vd_safety = sr\<rparr>"
proof -
  obtain sr where sr: "validate_internal sha None now v (Some dec) (Some inc) a = Inr sr"
    using validator_total by blast
  from validate_internal_Inr [OF sr] assms that [OF sr] show ?thesis
    by (simp add: new_validated_decision_def)
qed

lemma execute_leader_runs:
  assumes "within_perimeter sha (ex_validator ex) (clock ev AtValidate) False dec inc"
    and "ctx_at ev AtValidate = None" "ctx_at ev AtSimulate = None"
  shows "\<exists>r ex'. execute_leader sha ev dec inc started ex = (Returns (Some r) None, ex') \<and>
    er_status r = MitigationExecuted \<and> ex_count ex' = ex_count ex + 1"
  using assms run_validated_runs [OF perimeter_action [OF assms(1)] perimeter_id_length [OF assms(1)] assms(3)]
  by (auto simp: execute_leader_def validate_auto_def elim: validated_of_perimeter)

lemma approved_leader_runs:
  assumes "within_perimeter sha (ex_validator ex) (clock ev AtValidate) True dec inc"
    and "ctx_at ev AtValidate = None" "ctx_at ev AtSimulate = None"
    and "get_approval (db_at ev AtLoad) aid as = Inr app"
    and "validate_for_execution sha (Some (stored_to_approval app)) (Some dec) (Some inc) (clock ev AtGate) = Gives ()"
    and "fst (consume_approval (db_at ev AtConsume) aid (clock ev AtGate) as) = None"
  shows "\<exists>r ex'. approved_leader sha ev dec inc aid started as ex = (Returns (Some r) None, ex') \<and>
    er_status r = MitigationExecuted \<and> ex_count ex' = ex_count ex + 1"
proof -
  obtain as' where c: "consume_approval (db_at ev AtConsume) aid (clock ev AtGate) as = (None, as')"
    using assms(6) by (cases "consume_approval (db_at ev AtConsume) aid (clock ev AtGate) as") simp
  have id: "oa_approval_id (stored_to_approval app) = aid"
    using get_approval_Inr [OF assms(4)] by (simp add: stored_to_approval_def)
  obtain sr where sr: "validate_internal sha None (clock ev AtValidate) (ex_validator ex) (Some dec) (Some inc) True = Inr sr"
    "sr_allowed sr" "new_validated_decision (Some dec) (Some sr) = Inr \<lparr>vd_decision = dec, vd_safety = sr\<rparr>"
    using assms(1) by (rule validated_of_perimeter)
  obtain m where l: "approved_leader sha ev dec inc aid started as ex =
      run_validated ev dec m started (ex\<lparr>ex_approvals := Some as'\<rparr>)"
    using assms sr c id by (simp add: approved_leader_def validate_approved_def Let_def)
  show ?thesis
    using run_validated_runs [OF perimeter_action [OF assms(1)] perimeter_id_length [OF assms(1)] assms(3),
        of m started "ex\<lparr>ex_approvals := Some as'\<rparr>"]
    by (simp add: l)
qed

section \<open>A sample executor\<close>

definition sample_env :: env where
  "sample_env = \<lparr>clock = (\<lambda>_. 5 * second), ctx_at = (\<lambda>_. None), db_at = (\<lambda>_. IoOk)\<rparr>"

definition sample_granted :: stored_approval where
  "sample_granted = \<lparr>sa_approval_id = ''app-'', sa_decision_id = ''dec-'', sa_incident_id = ''inc-1'',
     sa_action_id = ''act-'', sa_node_id = ''node-1'', sa_action_type = ActionSimulatedAlert,
     sa_target = ''local_syslog'', sa_policy_version = ''1.0.0'', sa_fingerprint = ''fp-'',
     sa_status = ApprovalApproved, sa_requested_at = second, sa_expires_at = 9 * second,
     sa_requested_by = ''op'', sa_approved_by = ''boss'', sa_rejected_by = [], sa_reason = [],
     sa_created_at = second, sa_updated_at = second, sa_consumed_at = None\<rparr>"

definition sample_executor :: executor where
  "sample_executor = (new_simulated_executor None)
     \<lparr>ex_store := Some \<lparr>mt_closed = False, mt_rows = []\<rparr>,
      ex_approvals := Some \<lparr>ap_closed = False, ap_rows = [sample_granted]\<rparr>\<rparr>"

definition sample_auto_decision :: decision where
  "sample_auto_decision = build_decision (\<lambda>_. []) default_policy sample_incident
     (the (select_rule default_policy sample_incident))"

lemma sample_executor_sel [simp]:
  "ex_store sample_executor = Some \<lparr>mt_closed = False, mt_rows = []\<rparr>"
  "ex_approvals sample_executor = Some \<lparr>ap_closed = False, ap_rows = [sample_granted]\<rparr>"
  "ex_history sample_executor = (\<lambda>_. None)" "ex_count sample_executor = 0"
  "ex_validator sample_executor = new_standard_validator"
  by (simp_all add: sample_executor_def new_simulated_executor_def)

lemma sample_env_sel [simp]:
  "clock sample_env = (\<lambda>_. 5 * second)" "ctx_at sample_env = (\<lambda>_. None)" "db_at sample_env = (\<lambda>_. IoOk)"
  by (simp_all add: sample_env_def)

lemma sample_auto_perimeter:
  "within_perimeter (\<lambda>_. []) new_standard_validator (5 * second) a sample_auto_decision sample_incident"
proof -
  obtain r where r: "select_rule default_policy sample_incident = Some r"
    using sample_incident_fallback by blast
  then have "policy_evaluate (\<lambda>_. []) None default_policy (Some sample_incident) = Inr sample_auto_decision"
    using sample_incident_valid
    by (simp add: policy_evaluate_def sample_auto_decision_def sample_incident_def)
  then show ?thesis by (rule default_decision_within_perimeter)
qed

lemma sample_lookup [simp]: "lookup_cached sample_env did sample_executor = (None, sample_executor)"
  by (simp add: lookup_cached_def get_mitigation_by_decision_id_def)

lemma sample_auto_auth: "dec_auth_class sample_auto_decision = AuthAutoExecute"
  using sample_auto_perimeter [of False] by (auto simp: within_perimeter_def)

lemma sample_auto_runs:
  "\<exists>r ex'. execute (\<lambda>_. []) sample_env sample_env (Some sample_auto_decision) (Some sample_incident) sample_executor =
     (Returns (Some r) None, ex') \<and> er_status r = MitigationExecuted \<and> ex_count ex' = ex_count sample_executor + 1"
  using execute_leader_runs [of "\<lambda>_. []" sample_executor sample_env sample_auto_decision sample_incident]
    sample_auto_perimeter sample_auto_auth
  by (simp add: execute_def approved_record_def)

lemma sample_guarded_perimeter:
  "within_perimeter (\<lambda>_. []) new_standard_validator now True sample_guarded_decision sample_incident"
  using sample_incident_texts default_policy_texts default_targets_valid default_keys_clean default_priorities_clean
  by (simp add: within_perimeter_def sample_guarded_sel expected_decision_id_def compute_decision_id_def
      hex_bytes_def new_standard_validator_def new_cooldowns_def ranges_ok_def)
    (simp add: sample_incident_def sample_guarded_decision_def build_decision_def approval_rule_sel
      default_keys_clean default_priorities_clean)

lemma sample_granted_gate:
  "validate_for_execution (\<lambda>_. []) (Some (stored_to_approval sample_granted)) (Some sample_guarded_decision)
     (Some sample_incident) (5 * second) = Gives ()"
proof -
  have ids: "bound_id p ''dec-'' = Some p" for p
    by (simp add: bound_id_def suffixed_id_def slice_from_def has_prefix_def)
  have "compute_fingerprint (\<lambda>_. []) sample_guarded_decision = Some ''fp-''"
    by (simp add: compute_fingerprint_def sample_guarded_sel ids hex_bytes_def)
  then show ?thesis
    by (simp add: validate_for_execution_iff bound_to_def stored_to_approval_def sample_granted_def
        sample_guarded_sel ids default_targets_valid)
       (simp add: sample_incident_def)
qed

lemma sample_granted_consumed:
  "fst (consume_approval IoOk ''app-'' (5 * second) \<lparr>ap_closed = False, ap_rows = [sample_granted]\<rparr>) = None"
proof -
  have "\<not> blank ''app-''" by code_simp
  moreover have "format_db_time (5 * second) < format_db_time (9 * second)" by (simp add: db_less_whole)
  ultimately show ?thesis
    by (intro consume_enabled) (auto simp: ids_unique_def find_approval_def sample_granted_def)
qed

lemma sample_approved_runs:
  "\<exists>r ex'. execute_with_approval (\<lambda>_. []) sample_env (Some sample_guarded_decision) (Some sample_incident)
       ''app-'' sample_executor = (Returns (Some r) None, ex') \<and>
     er_status r = MitigationExecuted \<and> ex_count ex' = ex_count sample_executor + 1"
proof -
  have "\<not> blank ''app-''" by code_simp
  moreover from this have "get_approval IoOk ''app-'' \<lparr>ap_closed = False, ap_rows = [sample_granted]\<rparr> = Inr sample_granted"
    by (simp add: get_approval_def find_approval_def sample_granted_def)
  ultimately show ?thesis
    using approved_leader_runs [of "\<lambda>_. []" sample_executor sample_env sample_guarded_decision sample_incident
        "''app-''" "\<lparr>ap_closed = False, ap_rows = [sample_granted]\<rparr>" sample_granted]
      sample_guarded_perimeter sample_granted_gate sample_granted_consumed
    by (simp add: execute_with_approval_def sample_guarded_sel)
qed

section \<open>Properties\<close>

text \<open>
  C0. Nothing is simulated outside the perimeter.  Whenever \<open>Execute\<close> moves the simulation
  counter, it moves it by one, the decision and the incident were given, the decision was
  inside the safety perimeter when the validator looked (either auto-executable, or
  approval-required with an approval on file), and the executed result it returns is the one
  remembered for the decision.  In particular a forbidden decision is never simulated.
\<close>

theorem execution_within_perimeter:
  assumes "execute sha ev ev' dp ip ex = (ret, ex')" and "ex_count ex' \<noteq> ex_count ex"
  shows "\<exists>dec inc r. dp = Some dec \<and> ip = Some inc \<and> ex_count ex' = ex_count ex + 1 \<and>
    (dec_auth_class dec = AuthAutoExecute \<and>
       within_perimeter sha (ex_validator ex) (clock ev AtValidate) False dec inc \<or>
     dec_auth_class dec = AuthApprovalRequired \<and> approved_record ev dec ex \<noteq> None \<and>
       within_perimeter sha (ex_validator ex) (clock ev' AtValidate) True dec inc) \<and>
    ret = Returns (Some r) None \<and> er_status r = MitigationExecuted \<and> er_decision_id r = dec_id dec \<and>
    get_execution (dec_id dec) ex' = Some r"
  using assms(1)
proof (cases rule: execute_cases)
  case idle
  with assms(2) show ?thesis by simp
next
  case (run dec inc r)
  then show ?thesis by (auto simp: get_execution_def within_perimeter_def)
next
  case (approved dec aid)
  from approved(2) have req: "dec_auth_class dec = AuthApprovalRequired"
    by (auto simp: approved_record_def split: if_splits)
  from approved(4) show ?thesis
  proof (cases rule: execute_with_approval_cases)
    case idle
    with assms(2) show ?thesis by simp
  next
    case (run d inc r as app as')
    with approved req show ?thesis by (auto simp: get_execution_def)
  qed
qed

theorem execution_within_perimeter_witness:
  "\<exists>r ex'. execute (\<lambda>_. []) sample_env sample_env (Some sample_auto_decision) (Some sample_incident) sample_executor =
     (Returns (Some r) None, ex') \<and> get_execution (dec_id sample_auto_decision) ex' = Some r"
proof -
  obtain r ex' where e: "execute (\<lambda>_. []) sample_env sample_env (Some sample_auto_decision) (Some sample_incident)
      sample_executor = (Returns (Some r) None, ex')" "ex_count ex' = ex_count sample_executor + 1"
    using sample_auto_runs by blast
  then have "ex_count ex' \<noteq> ex_count sample_executor" by simp
  from execution_within_perimeter [OF e(1) this] e show ?thesis by auto
qed

text \<open>
  An approved action runs only on an approval it consumes.  Whenever
  \<open>ExecuteWithApproval\<close> simulates, the stored approval was approved, unexpired and bound to
  the decision in every field and by the fingerprint, the decision is approval-required and
  inside the perimeter, and the approval is \<open>CONSUMED\<close> in the store when the call returns.
\<close>

theorem approved_execution_consumes_its_approval:
  assumes "execute_with_approval sha ev dp ip aid ex = (ret, ex')" and "ex_count ex' \<noteq> ex_count ex"
    and "ex_approvals ex = Some as" and "ids_unique as"
  shows "\<exists>dec inc app as' r. dp = Some dec \<and> ip = Some inc \<and>
    find_approval aid (ap_rows as) = Some app \<and> sa_status app = ApprovalApproved \<and>
    clock ev AtGate < sa_expires_at app \<and> sa_consumed_at app = None \<and>
    bound_to sha (stored_to_approval app) dec inc \<and> dec_auth_class dec = AuthApprovalRequired \<and>
    within_perimeter sha (ex_validator ex) (clock ev AtValidate) True dec inc \<and>
    ex_approvals ex' = Some as' \<and> status_of as' aid = Some ApprovalConsumed \<and>
    ret = Returns (Some r) None \<and> er_status r = MitigationExecuted \<and> er_decision_id r = dec_id dec"
  using assms(1)
proof (cases rule: execute_with_approval_cases)
  case idle
  with assms(2) show ?thesis by simp
next
  case (run dec inc r as2 app as')
  then have as2: "as2 = as" using assms(3) by simp
  obtain q where "status_of as' aid = Some ApprovalConsumed"
    using consume_success [OF assms(4)] run(13) as2 by blast
  with run as2 validate_for_execution_iff [of sha "stored_to_approval app" dec inc "clock ev AtGate"]
  show ?thesis by (intro exI) (auto simp: stored_to_approval_def)
qed

theorem approved_execution_consumes_its_approval_witness:
  "\<exists>ex' as'. ex_approvals ex' = Some as' \<and> status_of as' ''app-'' = Some ApprovalConsumed \<and>
     ex' = snd (execute_with_approval (\<lambda>_. []) sample_env (Some sample_guarded_decision) (Some sample_incident)
       ''app-'' sample_executor)"
proof -
  obtain r ex' where e: "execute_with_approval (\<lambda>_. []) sample_env (Some sample_guarded_decision)
      (Some sample_incident) ''app-'' sample_executor = (Returns (Some r) None, ex')"
    "ex_count ex' = ex_count sample_executor + 1"
    using sample_approved_runs by blast
  then have "ex_count ex' \<noteq> ex_count sample_executor" by simp
  from approved_execution_consumes_its_approval [OF e(1) this sample_executor_sel(2)] e show ?thesis
    by (auto simp: ids_unique_def)
qed

text \<open>
  C0. A decision is simulated at most once.  In every sequence of \<open>Execute\<close>,
  \<open>ExecuteValidated\<close> and \<open>ExecuteWithApproval\<close> calls, on any decisions and under any clock,
  cancellations and database failures, at most one call simulates a given decision.
\<close>

theorem decision_simulated_at_most_once: "simulation_runs sha did cs ex \<le> 1"
  unfolding simulation_runs_once by (rule executions.at_most_one_success) simp

text \<open>
  C0. An approval funds at most one simulation.  In every sequence of executor calls and of
  operations other clients perform on the approval store, at most one
  \<open>ExecuteWithApproval\<close> call naming a given approval simulates anything.
\<close>

theorem approval_funds_at_most_one_simulation:
  assumes "approvals_ok ex"
  shows "funded_runs sha aid ops ex \<le> 1"
  unfolding funded_runs_once by (rule funding.at_most_one_success) (rule assms)

theorem approval_funds_at_most_one_simulation_witness:
  "funded_runs (\<lambda>_. []) ''app-''
     [DoCall (CallApproved sample_env (Some sample_guarded_decision) (Some sample_incident) ''app-''),
      DoLedger IoOk (OpExpireStale 0),
      DoCall (CallApproved sample_env (Some sample_guarded_decision) (Some sample_incident) ''app-'')]
     sample_executor \<le> 1"
  by (rule approval_funds_at_most_one_simulation) (simp add: approvals_ok_def ids_unique_def)

text \<open>
  C0. An execution survives a restart.  When \<open>Execute\<close> simulates an auto-executable decision
  and the store accepts the records, an executor restarted on the same store, with an empty
  history, answers the same decision from the store: the result is \<open>EXECUTED\<close> with the same
  execution identifier, and nothing is simulated again.
\<close>

theorem execution_survives_restart:
  assumes "execute sha ev ev' (Some dec) ip ex = (Returns (Some r) None, ex')"
    and "ex_count ex' \<noteq> ex_count ex" and "dec_auth_class dec = AuthAutoExecute"
    and "clock ev AtStart \<noteq> 0" and "ex_store ex = Some s" and "\<not> mt_closed s"
    and "db_at ev AtRecord = IoOk" and "db_at ev AtMark = IoOk"
    and "suffixed_id ''act-'' (dec_id dec) = Some aid" and "unrecorded aid (dec_id dec) s"
    and "ex_store fresh = ex_store ex'" and "ex_history fresh = (\<lambda>_. None)"
    and "ctx_at ev2 AtStart = None" and "db_at ev2 AtLookup = IoOk"
  shows "\<exists>r2 fresh'. execute sha ev2 ev3 (Some dec) (Some inc2) fresh = (Returns (Some r2) None, fresh') \<and>
    er_status r2 = MitigationExecuted \<and> er_execution_id r2 = er_execution_id r \<and>
    ex_count fresh' = ex_count fresh"
proof -
  obtain inc where ip: "ip = Some inc" and start: "ctx_at ev AtStart = None"
    and look: "fst (lookup_cached ev (dec_id dec) ex) = None"
    and lead: "execute_leader sha ev dec inc (clock ev AtStart) ex = (Returns (Some r) None, ex')"
    using assms(1-3) lookup_cached_frame(1) [of ev "dec_id dec" ex]
    by (auto simp: execute_def approved_record_def split: option.splits prod.splits)
  from lead obtain peri: "within_perimeter sha (ex_validator ex) (clock ev AtValidate) False dec inc"
    and exed: "er_status r = MitigationExecuted"
    using assms(2) by (auto elim: execute_leader_cases)
  from lead assms(2) have run: "run_validated ev dec (Lit ''simulated action execution started'') (clock ev AtStart) ex =
      (Returns (Some r) None, ex')"
    by (auto simp: execute_leader_def dest: reject_with_frame split: sum.splits if_splits)
  obtain s' m' where st: "ex_store ex' = Some s'" "\<not> mt_closed s'"
    "find (\<lambda>q. sm_decision_id q = dec_id dec) (mt_rows s') = Some m'"
    "sm_status m' = MitigationExecuted" "sm_decision_id m' = dec_id dec"
    "suffixed_id ''exec-'' (dec_id dec) = Some (er_execution_id r)"
    using run_validated_recorded [OF run assms(2) exed peri assms(4-10)] by blast
  have nb: "\<not> blank (dec_id dec)"
    using peri compute_decision_id_not_blank by (auto simp: within_perimeter_def expected_decision_id_def)
  obtain r2 where r2: "stored_to_result m' = Some r2" "er_status r2 = MitigationExecuted"
    "er_execution_id r2 = er_execution_id r"
    using st by (auto simp: stored_to_result_def)
  have "lookup_cached ev2 (dec_id dec) fresh =
      (Some (Returns (Some r2) None), fresh\<lparr>ex_history := (ex_history fresh)(dec_id dec \<mapsto> r2)\<rparr>)"
    using assms(11,12,14) st nb r2 by (simp add: lookup_cached_def get_mitigation_by_decision_id_def)
  then show ?thesis using r2 assms(13) by (simp add: execute_def)
qed

lemma sample_auto_id: "dec_id sample_auto_decision = ''dec-''"
  by (simp add: sample_auto_decision_def compute_decision_id_def hex_bytes_def)

theorem execution_survives_restart_witness:
  "\<exists>ex' r2 fresh'. ex' = snd (execute (\<lambda>_. []) sample_env sample_env (Some sample_auto_decision)
       (Some sample_incident) sample_executor) \<and>
     execute (\<lambda>_. []) sample_env sample_env (Some sample_auto_decision) (Some sample_incident)
       ((new_simulated_executor None)\<lparr>ex_store := ex_store ex'\<rparr>) = (Returns (Some r2) None, fresh') \<and>
     er_status r2 = MitigationExecuted \<and> ex_count fresh' = 0"
proof -
  obtain r ex' where e: "execute (\<lambda>_. []) sample_env sample_env (Some sample_auto_decision) (Some sample_incident)
      sample_executor = (Returns (Some r) None, ex')" "ex_count ex' = ex_count sample_executor + 1"
    using sample_auto_runs by blast
  then have ne: "ex_count ex' \<noteq> ex_count sample_executor" by simp
  have "suffixed_id ''act-'' (dec_id sample_auto_decision) = Some ''act-''"
    by (simp add: sample_auto_id suffixed_id_def slice_from_def)
  from execution_survives_restart [OF e(1) ne sample_auto_auth _ sample_executor_sel(1) _ _ _ this,
      of "(new_simulated_executor None)\<lparr>ex_store := ex_store ex'\<rparr>" sample_env sample_env sample_incident]
  show ?thesis by (auto simp: unrecorded_def new_simulated_executor_def e(1))
qed

text \<open>
  A recorded decision is answered from the record.  Once the store holds a mitigation
  for a decision, in whatever status, no entry point simulates that decision again: the
  counter, the approvals and the cooldowns stay as they are.
\<close>

theorem recorded_decision_is_not_simulated:
  assumes "ex_store ex = Some s" and "\<not> mt_closed s" and "\<not> blank (dec_id dec)"
    and "find (\<lambda>q. sm_decision_id q = dec_id dec) (mt_rows s) = Some m" and "db_at ev AtLookup = IoOk"
  shows "ex_count (snd (execute sha ev ev' (Some dec) ip ex)) = ex_count ex \<and>
    ex_count (snd (execute_with_approval sha ev (Some dec) ip aid ex)) = ex_count ex \<and>
    ex_count (snd (execute_validated ev (Some \<lparr>vd_decision = dec, vd_safety = sr\<rparr>) ex)) = ex_count ex \<and>
    ex_approvals (snd (execute_with_approval sha ev (Some dec) ip aid ex)) = ex_approvals ex"
proof -
  obtain ret ex1 where l: "lookup_cached ev (dec_id dec) ex = (Some ret, ex1)"
    using assms
    by (cases "ex_history ex (dec_id dec)"; cases "stored_to_result m")
       (simp_all add: lookup_cached_def get_mitigation_by_decision_id_def)
  note f = lookup_cached_frame [OF l]
  show ?thesis
    using l f(1,2)
    by (auto simp: execute_def execute_with_approval_def execute_validated_def split: option.split)
qed

theorem recorded_decision_is_not_simulated_witness:
  "ex_count (snd (execute (\<lambda>_. []) sample_env sample_env (Some (sample_auto_decision\<lparr>dec_id := ''dec-1''\<rparr>)) None
     (sample_executor\<lparr>ex_store := Some sample_mitigations\<rparr>))) = 0"
proof -
  have "\<not> blank ''dec-1''" by code_simp
  then show ?thesis
    using recorded_decision_is_not_simulated [of "sample_executor\<lparr>ex_store := Some sample_mitigations\<rparr>"
        sample_mitigations "sample_auto_decision\<lparr>dec_id := ''dec-1''\<rparr>" sample_mitigation sample_env
        "\<lambda>_. []" sample_env None "''x''"]
    by (simp add: sample_mitigations_def sample_mitigation_def)
qed

section \<open>Where the executor departs from its documentation\<close>

text \<open>
  An approval-required decision that is tried before its approval is recorded as
  \<open>SKIPPED\<close>; when the operator then approves it, \<open>ExecuteWithApproval\<close> answers from that
  record, without an error and without consuming the approval.
\<close>

theorem early_attempt_blocks_approved_execution:
  "\<exists>r ex1 r2 ex2.
     execute (\<lambda>_. []) sample_env sample_env (Some sample_guarded_decision) (Some sample_incident)
       (sample_executor\<lparr>ex_approvals := None\<rparr>) = (Returns (Some r) None, ex1) \<and>
     er_status r = MitigationSkipped \<and>
     execute_with_approval (\<lambda>_. []) sample_env (Some sample_guarded_decision) (Some sample_incident) ''app-''
       (ex1\<lparr>ex_approvals := ex_approvals sample_executor\<rparr>) = (Returns (Some r2) None, ex2) \<and>
     er_status r2 = MitigationSkipped \<and> ex_approvals ex2 = ex_approvals sample_executor \<and> ex_count ex2 = 0"
proof -
  let ?ex = "sample_executor\<lparr>ex_approvals := None\<rparr>"
  have texts: "\<not> blank ''act-''" "\<not> blank ''dec-''" "\<not> blank ''app-''" by code_simp+
  obtain sr where sr: "validate_internal (\<lambda>_. []) None (5 * second) new_standard_validator
      (Some sample_guarded_decision) (Some sample_incident) False = Inr sr"
    using validator_total by blast
  then have "\<not> sr_allowed sr"
    using validate_internal_Inr [OF sr] by (simp add: within_perimeter_def sample_guarded_sel)
  moreover obtain r where r: "decision_result sample_guarded_decision MitigationSkipped
        (Fmt ''safety validation rejected action: %s'' [AMsgs [sr_reason sr]])
        (Lit (validation_code_string (sr_code sr))) (5 * second) (5 * second) = Some r"
    by (simp add: decision_result_def sample_guarded_sel suffixed_id_def slice_from_def)
  ultimately have first: "execute (\<lambda>_. []) sample_env sample_env (Some sample_guarded_decision)
      (Some sample_incident) ?ex = (Returns (Some r) None, record_rejection sample_env sample_guarded_decision r ?ex)"
    using sr sample_lookup [of "''dec-''"]
    by (simp add: execute_def approved_record_def execute_leader_def validate_auto_def reject_with_def
        sample_guarded_sel lookup_cached_def get_mitigation_by_decision_id_def)
  let ?m = "result_to_stored r (dec_parameters sample_guarded_decision)"
  have m: "sm_decision_id ?m = ''dec-''" "sm_action_id ?m = ''act-''" "sm_status ?m = MitigationSkipped"
    using decision_result_Some [OF r]
    by (simp_all add: result_to_stored_def sample_guarded_sel has_prefix_def)
  have "stored_mitigation_validate ?m = None"
    using r texts sample_incident_texts default_targets_valid is_valid_target_not_blank
    by (auto simp: stored_mitigation_validate_def result_to_stored_def decision_result_def sample_guarded_sel
        is_zero_def ptr_before_def has_prefix_def)
  then obtain m' where rec: "record_mitigation IoOk (5 * second) (Some ?m) \<lparr>mt_closed = False, mt_rows = []\<rparr> =
      (None, \<lparr>mt_closed = False, mt_rows = [m']\<rparr>)" "sm_decision_id m' = ''dec-''" "sm_status m' = MitigationSkipped"
    using m by (simp add: record_mitigation_def set_mitigations_def)
  let ?ex1 = "record_rejection sample_env sample_guarded_decision r ?ex"
  have ex1: "ex_store ?ex1 = Some \<lparr>mt_closed = False, mt_rows = [m']\<rparr>" "ex_history ?ex1 = (\<lambda>_. None)"
    "ex_count ?ex1 = 0"
    using decision_result_Some [OF r] rec
    by (simp_all add: record_rejection_def remember_not_executed with_store_store)
  obtain r2 where r2: "stored_to_result m' = Some r2" "er_status r2 = MitigationSkipped"
    using rec by (auto simp: stored_to_result_def suffixed_id_def slice_from_def)
  have "\<exists>ex2. execute_with_approval (\<lambda>_. []) sample_env (Some sample_guarded_decision) (Some sample_incident) ''app-''
      (?ex1\<lparr>ex_approvals := ex_approvals sample_executor\<rparr>) = (Returns (Some r2) None, ex2) \<and>
      ex_approvals ex2 = ex_approvals sample_executor \<and> ex_count ex2 = 0"
    using texts ex1 rec r2
    by (simp add: execute_with_approval_def sample_guarded_sel lookup_cached_def get_mitigation_by_decision_id_def)
  with first r2 decision_result_Some [OF r] show ?thesis by blast
qed

end
