(* ===== verification/Verification_Store.thy ===== *)
theory Verification_Store
  imports Approval_Store
begin

text \<open>
  The durable verification store: \<open>StoredVerification\<close> (\<open>edge/agent/storage/store.go\<close>) and
  the operations on the table \<open>verification_records\<close> (\<open>edge/agent/storage/sqlite.go\<close>), keyed by
  \<open>verification_id\<close>.
\<close>

section \<open>Records\<close>

datatype cond_type = ThresholdUpper | ThresholdLower | CondOther string

fun cond_type_string :: "cond_type \<Rightarrow> string" where
  "cond_type_string ThresholdUpper = ''THRESHOLD_UPPER''"
| "cond_type_string ThresholdLower = ''THRESHOLD_LOWER''"
| "cond_type_string (CondOther s) = s"

type_synonym evidence = "(string \<times> msg) list"

record stored_verification =
  sv_id :: string
  sv_incident_id :: string
  sv_action_id :: string
  sv_decision_id :: string
  sv_node_id :: string
  sv_metric_name :: string
  sv_condition_type :: cond_type
  sv_threshold :: float64
  sv_comparator :: string
  sv_status :: verification_status
  sv_required :: int
  sv_healthy :: int
  sv_total :: int
  sv_started_at :: gotime
  sv_expires_at :: gotime
  sv_completed_at :: "gotime option"
  sv_recovered_at :: "gotime option"
  sv_last_at :: "gotime option"
  sv_last_value :: "float64 option"
  sv_reason :: msg
  sv_evidence :: evidence
  sv_created_at :: gotime
  sv_updated_at :: gotime

definition stored_verification_validate :: "stored_verification \<Rightarrow> store_err option" where
  "stored_verification_validate v =
     (if blank (sv_id v) then Some (ErrInvalidRecord ''verification_id cannot be empty'')
      else if blank (sv_incident_id v) then Some (ErrInvalidRecord ''incident_id cannot be empty'')
      else if blank (sv_action_id v) then Some (ErrInvalidRecord ''action_id cannot be empty'')
      else if blank (sv_decision_id v) then Some (ErrInvalidRecord ''decision_id cannot be empty'')
      else if blank (sv_node_id v) then Some (ErrInvalidRecord ''node_id cannot be empty'')
      else if blank (sv_metric_name v) then Some (ErrInvalidRecord ''metric_name cannot be empty'')
      else if blank (cond_type_string (sv_condition_type v))
        then Some (ErrInvalidRecord ''condition_type cannot be empty'')
      else if \<not> verification_status_valid (sv_status v)
        then Some (ErrInvalidRecord ''invalid verification status'')
      else if sv_required v \<le> 0 then Some (ErrInvalidRecord ''required_observations must be positive'')
      else if is_zero (sv_started_at v) then Some (ErrInvalidRecord ''started_at cannot be zero'')
      else if is_zero (sv_expires_at v) then Some (ErrInvalidRecord ''expires_at cannot be zero'')
      else if sv_expires_at v < sv_started_at v
        then Some (ErrInvalidRecord ''expires_at cannot be before started_at'')
      else None)"

record verification_store =
  vf_closed :: bool
  vf_rows :: "stored_verification list"

definition set_verifications :: "stored_verification list \<Rightarrow> verification_store \<Rightarrow> verification_store" where
  "set_verifications rows s = s\<lparr>vf_rows := rows\<rparr>"

definition find_verification :: "string \<Rightarrow> stored_verification list \<Rightarrow> stored_verification option" where
  "find_verification vid rows = find (\<lambda>r. sv_id r = vid) rows"

text \<open>\<open>nullStringFromTimePtr\<close>: a nil pointer and the zero time are both NULL.\<close>

definition null_time :: "gotime option \<Rightarrow> gotime option" where
  "null_time p = (case p of None \<Rightarrow> None | Some t \<Rightarrow> if is_zero t then None else Some t)"

section \<open>Operations\<close>

definition record_verification ::
  "db_io \<Rightarrow> stored_verification \<Rightarrow> verification_store \<Rightarrow> store_err option \<times> verification_store" where
  "record_verification io v s =
     (case stored_verification_validate v of Some e \<Rightarrow> (Some e, s) | None \<Rightarrow>
      case db_guard (vf_closed s) io of Some e \<Rightarrow> (Some e, s) | None \<Rightarrow>
        if list_ex (\<lambda>r. sv_id r = sv_id v) (vf_rows s) then (Some ErrDuplicateVerification, s)
        else (None, set_verifications (vf_rows s @
               [v\<lparr>sv_completed_at := null_time (sv_completed_at v),
                  sv_recovered_at := null_time (sv_recovered_at v),
                  sv_last_at := null_time (sv_last_at v)\<rparr>]) s))"

definition get_verification_record ::
  "db_io \<Rightarrow> string \<Rightarrow> verification_store \<Rightarrow> store_err + stored_verification" where
  "get_verification_record io vid s =
     (if blank vid then Inl (ErrBlankArgument ''verification_id'')
      else case db_guard (vf_closed s) io of Some e \<Rightarrow> Inl e | None \<Rightarrow>
        (case find_verification vid (vf_rows s) of
           None \<Rightarrow> Inl ErrStoreVerificationNotFound | Some r \<Rightarrow> Inr r))"

text \<open>\<open>ORDER BY started_at DESC LIMIT 1\<close>, on the text of the timestamps.\<close>

definition newest :: "stored_verification list \<Rightarrow> stored_verification option" where
  "newest rows =
     (case sort_by (\<lambda>a b. format_db_time (sv_started_at b) < format_db_time (sv_started_at a)) rows of
        [] \<Rightarrow> None | r # _ \<Rightarrow> Some r)"

definition get_verification_by_action ::
  "db_io \<Rightarrow> string \<Rightarrow> verification_store \<Rightarrow> store_err + stored_verification" where
  "get_verification_by_action io aid s =
     (if blank aid then Inl (ErrBlankArgument ''action_id'')
      else case db_guard (vf_closed s) io of Some e \<Rightarrow> Inl e | None \<Rightarrow>
        (case newest (filter (\<lambda>r. sv_action_id r = aid) (vf_rows s)) of
           None \<Rightarrow> Inl ErrStoreVerificationNotFound | Some r \<Rightarrow> Inr r))"

definition get_active_verification_record ::
  "db_io \<Rightarrow> string \<Rightarrow> string \<Rightarrow> verification_store \<Rightarrow> store_err + stored_verification option" where
  "get_active_verification_record io node metric s =
     (case db_guard (vf_closed s) io of Some e \<Rightarrow> Inl e | None \<Rightarrow>
        Inr (newest (filter (\<lambda>r. sv_node_id r = node \<and> sv_metric_name r = metric \<and>
                                 sv_status r = VerificationPending) (vf_rows s))))"

record verification_progress =
  vp_status :: verification_status
  vp_healthy :: int
  vp_total :: int
  vp_value :: float64
  vp_last_at :: "gotime option"
  vp_completed_at :: "gotime option"
  vp_recovered_at :: "gotime option"
  vp_reason :: msg
  vp_evidence :: evidence

definition apply_progress :: "verification_progress \<Rightarrow> gotime \<Rightarrow> stored_verification \<Rightarrow> stored_verification" where
  "apply_progress p now r =
     r\<lparr>sv_status := vp_status p, sv_healthy := vp_healthy p, sv_total := vp_total p,
       sv_last_value := (if is_finite (vp_value p) then Some (vp_value p) else None),
       sv_last_at := null_time (vp_last_at p), sv_completed_at := null_time (vp_completed_at p),
       sv_recovered_at := null_time (vp_recovered_at p), sv_reason := vp_reason p,
       sv_evidence := vp_evidence p, sv_updated_at := now\<rparr>"

definition update_verification_progress ::
  "db_io \<Rightarrow> string \<Rightarrow> verification_progress \<Rightarrow> gotime \<Rightarrow> verification_store \<Rightarrow>
   store_err option \<times> verification_store" where
  "update_verification_progress io vid p now s =
     (if blank vid then (Some (ErrBlankArgument ''verification_id''), s)
      else case db_guard (vf_closed s) io of Some e \<Rightarrow> (Some e, s) | None \<Rightarrow>
      case find_verification vid (vf_rows s) of None \<Rightarrow> (Some ErrStoreVerificationNotFound, s) | Some r \<Rightarrow>
        if verification_terminal (sv_status r) \<and> sv_status r \<noteq> vp_status p
        then (Some ErrStoreVerificationTerminal, s)
        else if \<not> verification_can (sv_status r) (vp_status p)
        then (Some (ErrInvalidVerificationTransition (sv_status r) (vp_status p)), s)
        else (None, set_verifications
               (update_where (\<lambda>r. sv_id r = vid) (apply_progress p now) (vf_rows s)) s))"

definition stale_verification :: "gotime \<Rightarrow> stored_verification \<Rightarrow> bool" where
  "stale_verification now r \<longleftrightarrow>
     sv_status r = VerificationPending \<and> format_db_time (sv_expires_at r) \<le> format_db_time now"

definition time_out_stale ::
  "msg \<Rightarrow> db_io \<Rightarrow> gotime \<Rightarrow> verification_store \<Rightarrow> (store_err + nat) \<times> verification_store" where
  "time_out_stale reason io now s =
     (case db_guard (vf_closed s) io of Some e \<Rightarrow> (Inl e, s) | None \<Rightarrow>
        (Inr (rows_affected (stale_verification now) (vf_rows s)),
         set_verifications (update_where (stale_verification now)
           (\<lambda>r. r\<lparr>sv_status := VerificationTimedOut, sv_reason := reason, sv_updated_at := now\<rparr>)
           (vf_rows s)) s))"

definition expire_stale_verifications where
  "expire_stale_verifications =
     time_out_stale (Lit ''verification deadline elapsed without recovery confirmation'')"

definition recover_in_flight_verifications where
  "recover_in_flight_verifications =
     time_out_stale (Lit ''verification expired during agent restart or offline window'')"

definition list_verifications ::
  "db_io \<Rightarrow> string \<Rightarrow> int \<Rightarrow> verification_store \<Rightarrow> store_err + stored_verification list" where
  "list_verifications io iid limit s =
     (case db_guard (vf_closed s) io of Some e \<Rightarrow> Inl e | None \<Rightarrow>
        let n = (if limit \<le> 0 then 100 else nat limit);
            rows = (if iid \<noteq> [] then filter (\<lambda>r. sv_incident_id r = iid) (vf_rows s) else vf_rows s)
        in Inr (take n (sort_key (\<lambda>r. format_db_time (sv_started_at r)) rows)))"

definition count_verifications :: "db_io \<Rightarrow> verification_store \<Rightarrow> store_err + nat" where
  "count_verifications io s =
     (case db_guard (vf_closed s) io of Some e \<Rightarrow> Inl e | None \<Rightarrow> Inr (length (vf_rows s)))"

section \<open>Lemmas\<close>

lemma set_verifications_sel [simp]:
  "vf_rows (set_verifications rows s) = rows" "vf_closed (set_verifications rows s) = vf_closed s"
  by (simp_all add: set_verifications_def)

lemma find_verification_update [simp]:
  assumes "\<And>r. sv_id (f r) = sv_id r"
  shows "find_verification vid (update_where p f rows) =
         map_option (\<lambda>r. if p r then f r else r) (find_verification vid rows)"
  unfolding find_verification_def by (rule find_key_update_where) (rule assms)

lemma find_verification_Some:
  "find_verification vid rows = Some r \<Longrightarrow> r \<in> set rows \<and> sv_id r = vid"
  by (auto simp: find_verification_def find_Some_iff)

lemma find_verification_snoc:
  "find_verification vid (rows @ [m]) =
     (case find_verification vid rows of Some r \<Rightarrow> Some r
      | None \<Rightarrow> if sv_id m = vid then Some m else None)"
  by (induction rows) (auto simp: find_verification_def)

lemma apply_progress_sel [simp]:
  "sv_id (apply_progress p now r) = sv_id r" "sv_status (apply_progress p now r) = vp_status p"
  by (simp_all add: apply_progress_def)

text \<open>Every operation moves a record along the status machine and loses none.\<close>

definition verification_moved :: "verification_store \<Rightarrow> verification_store \<Rightarrow> string \<Rightarrow> bool" where
  "verification_moved s s' vid \<longleftrightarrow>
     (\<forall>r. find_verification vid (vf_rows s) = Some r \<longrightarrow>
        (\<exists>r'. find_verification vid (vf_rows s') = Some r' \<and> verification_can (sv_status r) (sv_status r')))"

lemma verification_moved_refl [simp]: "verification_moved s s vid"
  by (simp add: verification_moved_def verification_fsm.can_refl)

lemma verification_can_timeout: "verification_can VerificationPending VerificationTimedOut"
  by (simp add: verification_can_def)

lemma record_verification_moved: "verification_moved s (snd (record_verification io v s)) vid"
  by (auto simp: record_verification_def verification_moved_def find_verification_snoc
      verification_fsm.can_refl split: option.splits)

lemma update_verification_moved:
  "verification_moved s (snd (update_verification_progress io i p now s)) vid"
proof (cases "find_verification vid (vf_rows s)")
  case (Some r)
  then have "sv_id r = vid" using find_verification_Some by blast
  with Some show ?thesis
    by (auto simp: update_verification_progress_def verification_moved_def verification_fsm.can_refl
        split: option.splits)
qed (simp add: verification_moved_def)

lemma time_out_stale_moved: "verification_moved s (snd (time_out_stale m io now s)) vid"
  by (auto simp: time_out_stale_def verification_moved_def verification_fsm.can_refl
      verification_can_timeout stale_verification_def split: option.splits)

end
