(* ===== verification/Verification.thy ===== *)
theory Verification
  imports Verification_Store
begin

text \<open>
  \<open>edge/agent/verification\<close>: recovery conditions, verification requests and the local
  verification engine (\<open>verification.go\<close>, \<open>config.go\<close>, \<open>engine.go\<close>).

  A \<open>*verificationState\<close> is an address in the engine's heap: \<open>activeStreams\<close> and \<open>byID\<close> hold
  addresses, so the two maps share the state as the pointers of the code do.  The clock, the
  identifier generator and the answers of the database are arguments.  The methods of the
  engine hold its mutex for their whole body, so each of them is one step.
\<close>

section \<open>Conditions and requests\<close>

datatype ver_err =
    VEmptyIncidentID | VEmptyActionID | VEmptyDecisionID | VEmptyNodeID | VEmptyMetricName
  | VInvalidMitigationStatus mitigation_status | VInvalidRecoveryCondition
  | VUnsupportedCondition | VNaNMetricValue | VZeroTimestamp | VZeroStartedAt
  | VStaleSample gotime gotime | VDuplicateSample string | VNotFound | VActiveExists string
  | VTerminal | VIDGenerator | VPersist store_err | VEmptyVerificationID | VFromStore store_err
  | VInvalidRequired | VInvalidTimeout | VNilRequest
  | VNilIncidentEngine | VNotRecovered verification_status | VNoActiveIncident
  | VIncidentMismatch string string | VHandoffFailed

fun cond_type_valid :: "cond_type \<Rightarrow> bool" where
  "cond_type_valid (CondOther _) = False"
| "cond_type_valid _ = True"

record recovery_condition =
  rc_type :: cond_type
  rc_metric :: string
  rc_threshold :: float64
  rc_comparator :: string

definition condition_validate :: "recovery_condition \<Rightarrow> ver_err option" where
  "condition_validate rc =
     (if blank (rc_metric rc) then Some VEmptyMetricName
      else if \<not> cond_type_valid (rc_type rc) then Some VUnsupportedCondition
      else if \<not> is_finite (rc_threshold rc) then Some VInvalidRecoveryCondition
      else if rc_type rc = ThresholdUpper \<and> rc_comparator rc \<noteq> ''<='' then Some VInvalidRecoveryCondition
      else if rc_type rc = ThresholdLower \<and> rc_comparator rc \<noteq> ''>='' then Some VInvalidRecoveryCondition
      else None)"

definition condition_evaluate :: "recovery_condition \<Rightarrow> float64 \<Rightarrow> ver_err + bool" where
  "condition_evaluate rc v =
     (if \<not> is_finite v then Inl VNaNMetricValue
      else case rc_type rc of
        ThresholdUpper \<Rightarrow> Inr (fle v (rc_threshold rc))
      | ThresholdLower \<Rightarrow> Inr (fle (rc_threshold rc) v)
      | CondOther _ \<Rightarrow> Inl VUnsupportedCondition)"

definition threshold_upper_condition :: "string \<Rightarrow> float64 \<Rightarrow> recovery_condition" where
  "threshold_upper_condition m t =
     \<lparr>rc_type = ThresholdUpper, rc_metric = m, rc_threshold = t, rc_comparator = ''<=''\<rparr>"

definition threshold_lower_condition :: "string \<Rightarrow> float64 \<Rightarrow> recovery_condition" where
  "threshold_lower_condition m t =
     \<lparr>rc_type = ThresholdLower, rc_metric = m, rc_threshold = t, rc_comparator = ''>=''\<rparr>"

record verification_request =
  vq_incident_id :: string
  vq_action_id :: string
  vq_decision_id :: string
  vq_node_id :: string
  vq_mitigation_status :: mitigation_status
  vq_condition :: recovery_condition
  vq_started_at :: gotime
  vq_timeout :: duration
  vq_required :: int

definition request_validate :: "verification_request \<Rightarrow> ver_err option" where
  "request_validate r =
     (if blank (vq_incident_id r) then Some VEmptyIncidentID
      else if blank (vq_action_id r) then Some VEmptyActionID
      else if blank (vq_decision_id r) then Some VEmptyDecisionID
      else if blank (vq_node_id r) then Some VEmptyNodeID
      else if vq_mitigation_status r \<noteq> MitigationExecuted
        then Some (VInvalidMitigationStatus (vq_mitigation_status r))
      else case condition_validate (vq_condition r) of Some e \<Rightarrow> Some e | None \<Rightarrow>
        if is_zero (vq_started_at r) then Some VZeroStartedAt else None)"

record verification_result =
  vr_id :: string
  vr_status :: verification_status
  vr_incident_id :: string
  vr_action_id :: string
  vr_decision_id :: string
  vr_node_id :: string
  vr_metric :: string
  vr_observations :: int
  vr_healthy :: int
  vr_required :: int
  vr_started_at :: gotime
  vr_expires_at :: gotime
  vr_completed_at :: "gotime option"
  vr_recovered_at :: "gotime option"
  vr_reason :: msg
  vr_evidence :: evidence

section \<open>Configuration\<close>

record ver_config =
  vc_required :: int
  vc_timeout :: duration
  vc_max_timeout :: duration

definition default_ver_config :: ver_config where
  "default_ver_config = \<lparr>vc_required = 3, vc_timeout = 5 * minute, vc_max_timeout = 24 * 60 * minute\<rparr>"

text \<open>\<open>Validate\<close> also fills in the maximal timeout.\<close>

definition ver_config_validate :: "ver_config \<Rightarrow> ver_err + ver_config" where
  "ver_config_validate c =
     (if vc_required c \<le> 0 \<or> 100 < vc_required c then Inl VInvalidRequired
      else if vc_timeout c \<le> 0 then Inl VInvalidTimeout
      else let c' = (if vc_max_timeout c \<le> 0 then c\<lparr>vc_max_timeout := 24 * 60 * minute\<rparr> else c)
           in if vc_max_timeout c' < vc_timeout c' then Inl VInvalidTimeout else Inr c')"

section \<open>State\<close>

record ver_state =
  vs_id :: string
  vs_incident :: string
  vs_node :: string
  vs_metric :: string
  vs_action :: string
  vs_decision :: string
  vs_condition :: recovery_condition
  vs_status :: verification_status
  vs_required :: int
  vs_healthy :: int
  vs_total :: int
  vs_started :: gotime
  vs_expires :: gotime
  vs_completed :: "gotime option"
  vs_recovered :: "gotime option"
  vs_last_at :: "gotime option"
  vs_last_value :: "float64 option"
  vs_reason :: msg
  vs_evidence :: evidence
  vs_seen :: "string \<rightharpoonup> gotime"

type_synonym stream_key = "string \<times> string"
type_synonym addr = nat

record ver_engine =
  ve_config :: ver_config
  ve_store :: "verification_store option"
  ve_heap :: "ver_state list"
  ve_active :: "(stream_key \<times> addr) list"
  ve_by_id :: "string \<rightharpoonup> addr"

definition new_ver_engine :: "ver_config \<Rightarrow> verification_store option \<Rightarrow> ver_err + ver_engine" where
  "new_ver_engine c store =
     (case ver_config_validate c of Inl e \<Rightarrow> Inl e
      | Inr c' \<Rightarrow> Inr \<lparr>ve_config = c', ve_store = store, ve_heap = [], ve_active = [], ve_by_id = (\<lambda>_. None)\<rparr>)"

definition to_result :: "ver_state \<Rightarrow> verification_result" where
  "to_result s =
     \<lparr>vr_id = vs_id s, vr_status = vs_status s, vr_incident_id = vs_incident s,
      vr_action_id = vs_action s, vr_decision_id = vs_decision s, vr_node_id = vs_node s,
      vr_metric = vs_metric s, vr_observations = vs_total s, vr_healthy = vs_healthy s,
      vr_required = vs_required s, vr_started_at = vs_started s, vr_expires_at = vs_expires s,
      vr_completed_at = vs_completed s, vr_recovered_at = vs_recovered s, vr_reason = vs_reason s,
      vr_evidence = vs_evidence s\<rparr>"

definition state_to_stored :: "gotime \<Rightarrow> ver_state \<Rightarrow> stored_verification" where
  "state_to_stored now s =
     \<lparr>sv_id = vs_id s, sv_incident_id = vs_incident s, sv_action_id = vs_action s,
      sv_decision_id = vs_decision s, sv_node_id = vs_node s, sv_metric_name = vs_metric s,
      sv_condition_type = rc_type (vs_condition s), sv_threshold = rc_threshold (vs_condition s),
      sv_comparator = rc_comparator (vs_condition s), sv_status = vs_status s,
      sv_required = vs_required s, sv_healthy = vs_healthy s, sv_total = vs_total s,
      sv_started_at = vs_started s, sv_expires_at = vs_expires s, sv_completed_at = vs_completed s,
      sv_recovered_at = vs_recovered s, sv_last_at = vs_last_at s, sv_last_value = vs_last_value s,
      sv_reason = vs_reason s, sv_evidence = vs_evidence s, sv_created_at = vs_started s,
      sv_updated_at = now\<rparr>"

definition sample_identity :: "metric_sample \<Rightarrow> string" where
  "sample_identity m =
     (let sid = trim_space (ms_sample_id m)
      in if sid \<noteq> [] then ''sid:'' @ sid
         else ''fallback:'' @ ms_node_id m @ '':'' @ ms_name m @ '':'' @ itoa (unix_nano (ms_timestamp m)) @
              '':'' @ itoa (float_bits (ms_value m)))"

text \<open>The progress record \<open>UpdateVerificationProgress\<close> is called with.\<close>

definition progress_of :: "float64 \<Rightarrow> gotime option \<Rightarrow> ver_state \<Rightarrow> verification_progress" where
  "progress_of value recovered s =
     \<lparr>vp_status = vs_status s, vp_healthy = vs_healthy s, vp_total = vs_total s, vp_value = value,
      vp_last_at = vs_last_at s, vp_completed_at = vs_completed s, vp_recovered_at = recovered,
      vp_reason = vs_reason s, vp_evidence = vs_evidence s\<rparr>"

definition persist ::
  "db_io \<Rightarrow> gotime \<Rightarrow> float64 \<Rightarrow> gotime option \<Rightarrow> ver_state \<Rightarrow> ver_engine \<Rightarrow> ver_engine" where
  "persist io now value recovered s e =
     (case ve_store e of None \<Rightarrow> e
      | Some st \<Rightarrow> e\<lparr>ve_store := Some (snd (update_verification_progress io (vs_id s)
                      (progress_of value recovered s) now st))\<rparr>)"

definition put_state :: "addr \<Rightarrow> ver_state \<Rightarrow> ver_engine \<Rightarrow> ver_engine" where
  "put_state a s e = e\<lparr>ve_heap := (ve_heap e)[a := s]\<rparr>"

definition drop_stream :: "stream_key \<Rightarrow> ver_engine \<Rightarrow> ver_engine" where
  "drop_stream k e = e\<lparr>ve_active := AList.delete k (ve_active e)\<rparr>"

section \<open>Starting a verification\<close>

definition effective_timeout :: "ver_config \<Rightarrow> duration \<Rightarrow> duration" where
  "effective_timeout c t =
     (let t' = (if t \<le> 0 then vc_timeout c else t) in if vc_max_timeout c < t' then vc_max_timeout c else t')"

definition initial_state :: "ver_config \<Rightarrow> string \<Rightarrow> verification_request \<Rightarrow> ver_state" where
  "initial_state c vid r =
     \<lparr>vs_id = vid, vs_incident = vq_incident_id r, vs_node = vq_node_id r,
      vs_metric = rc_metric (vq_condition r), vs_action = vq_action_id r,
      vs_decision = vq_decision_id r, vs_condition = vq_condition r, vs_status = VerificationPending,
      vs_required = (if vq_required r \<le> 0 then vc_required c else vq_required r),
      vs_healthy = 0, vs_total = 0, vs_started = vq_started_at r,
      vs_expires = vq_started_at r + effective_timeout c (vq_timeout r),
      vs_completed = None, vs_recovered = None, vs_last_at = None, vs_last_value = None,
      vs_reason = Lit ''verification initiated; waiting for subsequent telemetry observations'',
      vs_evidence = [], vs_seen = (\<lambda>_. None)\<rparr>"

text \<open>The identifier generator's answer is an argument; \<open>None\<close> is its error.\<close>

definition start_verification ::
  "db_io \<Rightarrow> gotime \<Rightarrow> string option \<Rightarrow> verification_request \<Rightarrow> ver_engine \<Rightarrow>
   (ver_err + verification_result) \<times> ver_engine" where
  "start_verification io now gen req e =
     (case request_validate req of Some err \<Rightarrow> (Inl err, e) | None \<Rightarrow>
      let key = (vq_node_id req, rc_metric (vq_condition req));
          clash = (case map_of (ve_active e) key of None \<Rightarrow> None
                   | Some a \<Rightarrow> if \<not> verification_terminal (vs_status (ve_heap e ! a))
                              then Some (vs_id (ve_heap e ! a)) else None)
      in case clash of Some i \<Rightarrow> (Inl (VActiveExists i), e) | None \<Rightarrow>
         case gen of None \<Rightarrow> (Inl VIDGenerator, e) | Some vid \<Rightarrow>
         let s = initial_state (ve_config e) vid req;
             (err, store') = (case ve_store e of None \<Rightarrow> (None, None)
               | Some st \<Rightarrow> (case record_verification io (state_to_stored now s) st of
                   (er, st') \<Rightarrow> (er, Some st')));
             e' = e\<lparr>ve_store := store'\<rparr>
         in case err of
              Some er \<Rightarrow> (Inl (VPersist er), e')
            | None \<Rightarrow> (Inr (to_result s),
                e'\<lparr>ve_heap := ve_heap e @ [s],
                   ve_active := AList.update key (length (ve_heap e)) (ve_active e),
                   ve_by_id := (ve_by_id e)(vid \<mapsto> length (ve_heap e))\<rparr>))"

section \<open>Processing a sample\<close>

definition expired_by :: "gotime \<Rightarrow> metric_sample \<Rightarrow> ver_state \<Rightarrow> bool" where
  "expired_by now m s \<longleftrightarrow> vs_expires s \<le> ms_timestamp m \<or> vs_expires s < now"

definition timed_out :: "msg \<Rightarrow> ver_state \<Rightarrow> ver_state" where
  "timed_out reason s =
     s\<lparr>vs_status := VerificationTimedOut, vs_completed := Some (vs_expires s), vs_reason := reason\<rparr>"

text \<open>The sample is noted as seen, in the map and in the evidence.\<close>

definition note_seen :: "string \<Rightarrow> gotime \<Rightarrow> ver_state \<Rightarrow> ver_state" where
  "note_seen sid t s =
     s\<lparr>vs_seen := (vs_seen s)(sid \<mapsto> t),
       vs_evidence := AList.update ''seen_samples''
         (case map_of (vs_evidence s) ''seen_samples'' of
            Some (Lit l) \<Rightarrow> if l \<noteq> [] then Lit (l @ '','' @ sid) else Lit sid
          | _ \<Rightarrow> Lit sid) (vs_evidence s)\<rparr>"

definition recovery_evidence :: "metric_sample \<Rightarrow> ver_state \<Rightarrow> evidence \<Rightarrow> evidence" where
  "recovery_evidence m s ev =
     AList.update ''comparator'' (Lit (rc_comparator (vs_condition s)))
      (AList.update ''recovery_threshold'' (Fmt ''%.4f'' [AFloat (rc_threshold (vs_condition s))])
       (AList.update ''last_value'' (Fmt ''%.4f'' [AFloat (ms_value m)])
        (AList.update ''healthy_observations'' (Lit (itoa (vs_healthy s)))
         (AList.update ''required_observations'' (Lit (itoa (vs_required s)))
          (AList.update ''metric'' (Lit (ms_name m)) ev)))))"

text \<open>A sample that was accepted and evaluated.\<close>

definition observe :: "metric_sample \<Rightarrow> bool \<Rightarrow> ver_state \<Rightarrow> ver_state" where
  "observe m healthy s =
     (let t = ms_timestamp m;
          s1 = s\<lparr>vs_last_value := Some (ms_value m), vs_last_at := Some t, vs_total := vs_total s + 1\<rparr>
      in if healthy
         then let s2 = s1\<lparr>vs_healthy := vs_healthy s1 + 1\<rparr>
              in if vs_required s2 \<le> vs_healthy s2
                 then s2\<lparr>vs_status := VerificationRecovered, vs_recovered := Some t, vs_completed := Some t,
                         vs_reason := Lit ''recovery condition satisfied by subsequent telemetry'',
                         vs_evidence := recovery_evidence m s2 (vs_evidence s2)\<rparr>
                 else s2\<lparr>vs_reason := Fmt ''healthy observation %d of %d accepted''
                                       [AInt (vs_healthy s2), AInt (vs_required s2)]\<rparr>
         else s1\<lparr>vs_healthy := 0,
                 vs_reason := Fmt ''unhealthy observation %f breached recovery threshold, streak reset''
                               [AFloat (ms_value m)]\<rparr>)"

definition sample_validate :: "metric_sample \<Rightarrow> ver_err option" where
  "sample_validate m =
     (if blank (ms_name m) then Some VEmptyMetricName
      else if blank (ms_node_id m) then Some VEmptyNodeID
      else if \<not> is_finite (ms_value m) then Some VNaNMetricValue
      else if is_zero (ms_timestamp m) then Some VZeroTimestamp
      else None)"

text \<open>What a sample does to the verification of its stream: an error or a result, and the new state.\<close>

definition take_sample :: "gotime \<Rightarrow> metric_sample \<Rightarrow> ver_state \<Rightarrow> ver_err option \<times> ver_state" where
  "take_sample now m s =
     (if expired_by now m s
      then (None, timed_out (Lit ''recovery not confirmed within configured verification window'') s)
      else if ms_timestamp m < vs_started s then (Some (VStaleSample (ms_timestamp m) (vs_started s)), s)
      else let sid = sample_identity m
      in if vs_seen s sid \<noteq> None then (Some (VDuplicateSample sid), s)
         else let s1 = note_seen sid (ms_timestamp m) s
         in case condition_evaluate (vs_condition s1) (ms_value m) of
              Inl err \<Rightarrow> (Some err, s1)
            | Inr healthy \<Rightarrow> (None, observe m healthy s1))"

definition process_sample ::
  "db_io \<Rightarrow> gotime \<Rightarrow> metric_sample \<Rightarrow> ver_engine \<Rightarrow> (ver_err + verification_result option) \<times> ver_engine" where
  "process_sample io now m e =
     (case sample_validate m of Some err \<Rightarrow> (Inl err, e) | None \<Rightarrow>
      let key = (ms_node_id m, ms_name m)
      in case map_of (ve_active e) key of None \<Rightarrow> (Inr None, e) | Some a \<Rightarrow>
         let s = ve_heap e ! a
         in if verification_terminal (vs_status s) then (Inl VTerminal, e)
            else case take_sample now m s of
              (Some err, s') \<Rightarrow> (Inl err, put_state a s' e)
            | (None, s') \<Rightarrow>
                let e1 = put_state a s' e;
                    e2 = (if verification_terminal (vs_status s') then drop_stream key e1 else e1)
                in (Inr (Some (to_result s')),
                    persist io now (ms_value m) (if expired_by now m s then None else vs_recovered s') s' e2))"

section \<open>Cancelling, failing and timing out\<close>

definition finish_verification ::
  "verification_status \<Rightarrow> msg \<Rightarrow> db_io \<Rightarrow> gotime \<Rightarrow> string \<Rightarrow> msg \<Rightarrow> ver_engine \<Rightarrow> ver_err option \<times> ver_engine" where
  "finish_verification st dflt io now vid reason e =
     (case ve_by_id e vid of None \<Rightarrow> (Some VNotFound, e) | Some a \<Rightarrow>
      let s = ve_heap e ! a
      in if verification_terminal (vs_status s) then (Some VTerminal, e)
         else let s' = s\<lparr>vs_status := st, vs_completed := Some now,
                         vs_reason := (if reason = no_msg then dflt else reason)\<rparr>
              in (None, persist io now (Fin 0) None s'
                   (drop_stream (vs_node s, vs_metric s) (put_state a s' e))))"

definition cancel_verification where
  "cancel_verification =
     finish_verification VerificationCancelled (Lit ''verification cancelled by operator or caller'')"

definition fail_verification where
  "fail_verification =
     finish_verification VerificationNotRecovered (Lit ''verification marked not recovered by caller'')"

text \<open>
  \<open>ReconcileTimeouts\<close> walks the active streams; the database may answer differently for each
  record (\<open>ios\<close>) and for the final sweep (\<open>io\<close>).
\<close>

definition reconcile_one ::
  "(string \<Rightarrow> db_io) \<Rightarrow> gotime \<Rightarrow> stream_key \<times> addr \<Rightarrow> nat \<times> ver_engine \<Rightarrow> nat \<times> ver_engine" where
  "reconcile_one ios now ka ne =
     (let e = snd ne; s = ve_heap e ! snd ka
      in if \<not> verification_terminal (vs_status s) \<and> vs_expires s \<le> now
         then let s' = timed_out (Lit ''verification deadline elapsed without recovery confirmation'') s
              in (Suc (fst ne),
                  persist (ios (vs_id s)) now (Fin 0) None s' (drop_stream (fst ka) (put_state (snd ka) s' e)))
         else ne)"

definition reconcile_timeouts ::
  "(string \<Rightarrow> db_io) \<Rightarrow> db_io \<Rightarrow> gotime \<Rightarrow> ver_engine \<Rightarrow> nat \<times> ver_engine" where
  "reconcile_timeouts ios io now e =
     (let (n, e') = fold (reconcile_one ios now) (ve_active e) (0, e)
      in (n, case ve_store e' of None \<Rightarrow> e'
             | Some st \<Rightarrow> e'\<lparr>ve_store := Some (snd (expire_stale_verifications io now st))\<rparr>))"

section \<open>Looking up\<close>

definition stored_to_verification_result :: "stored_verification \<Rightarrow> verification_result" where
  "stored_to_verification_result v =
     \<lparr>vr_id = sv_id v, vr_status = sv_status v, vr_incident_id = sv_incident_id v,
      vr_action_id = sv_action_id v, vr_decision_id = sv_decision_id v, vr_node_id = sv_node_id v,
      vr_metric = sv_metric_name v, vr_observations = sv_total v, vr_healthy = sv_healthy v,
      vr_required = sv_required v, vr_started_at = sv_started_at v, vr_expires_at = sv_expires_at v,
      vr_completed_at = sv_completed_at v, vr_recovered_at = sv_recovered_at v,
      vr_reason = sv_reason v, vr_evidence = sv_evidence v\<rparr>"

definition get_verification :: "db_io \<Rightarrow> string \<Rightarrow> ver_engine \<Rightarrow> ver_err + verification_result" where
  "get_verification io vid e =
     (if blank vid then Inl VEmptyVerificationID
      else case ve_by_id e vid of Some a \<Rightarrow> Inr (to_result (ve_heap e ! a)) | None \<Rightarrow>
        (case ve_store e of None \<Rightarrow> Inl VNotFound
         | Some st \<Rightarrow> (case get_verification_record io vid st of
             Inl er \<Rightarrow> Inl (VFromStore er) | Inr v \<Rightarrow> Inr (stored_to_verification_result v))))"

definition get_active_verification :: "string \<Rightarrow> string \<Rightarrow> ver_engine \<Rightarrow> verification_result option" where
  "get_active_verification node metric e =
     (case map_of (ve_active e) (node, metric) of None \<Rightarrow> None
      | Some a \<Rightarrow> if verification_terminal (vs_status (ve_heap e ! a)) then None
                 else Some (to_result (ve_heap e ! a)))"

section \<open>Restoring after a restart\<close>

text \<open>\<open>seenSamples\<close> is rebuilt from the evidence, at the time the verification started.\<close>

definition restored_seen :: "gotime \<Rightarrow> evidence \<Rightarrow> string \<Rightarrow> gotime option" where
  "restored_seen t ev =
     (case map_of ev ''seen_samples'' of
        Some (Lit l) \<Rightarrow>
          if l = [] then (\<lambda>_. None)
          else (\<lambda>k. if k \<noteq> [] \<and> k \<in> trim_space ` set (split_on (CHR '','') l) then Some t else None)
      | _ \<Rightarrow> (\<lambda>_. None))"

definition restored_state :: "stored_verification \<Rightarrow> ver_state" where
  "restored_state r =
     \<lparr>vs_id = sv_id r, vs_incident = sv_incident_id r, vs_node = sv_node_id r,
      vs_metric = sv_metric_name r, vs_action = sv_action_id r, vs_decision = sv_decision_id r,
      vs_condition = \<lparr>rc_type = sv_condition_type r, rc_metric = sv_metric_name r,
                      rc_threshold = sv_threshold r, rc_comparator = sv_comparator r\<rparr>,
      vs_status = VerificationPending, vs_required = sv_required r, vs_healthy = sv_healthy r,
      vs_total = sv_total r, vs_started = sv_started_at r, vs_expires = sv_expires_at r,
      vs_completed = None, vs_recovered = None, vs_last_at = sv_last_at r,
      vs_last_value = sv_last_value r, vs_reason = sv_reason r, vs_evidence = sv_evidence r,
      vs_seen = restored_seen (sv_started_at r) (sv_evidence r)\<rparr>"

definition recover_one ::
  "(string \<Rightarrow> db_io) \<Rightarrow> gotime \<Rightarrow> stored_verification \<Rightarrow> (nat \<times> nat) \<times> ver_engine \<Rightarrow> (nat \<times> nat) \<times> ver_engine" where
  "recover_one ios now r ne =
     (let restored = fst (fst ne); expired = snd (fst ne); e = snd ne
      in if sv_status r \<noteq> VerificationPending then ne
         else if sv_expires_at r \<le> now
         then ((restored, Suc expired),
               case ve_store e of None \<Rightarrow> e
               | Some st \<Rightarrow> e\<lparr>ve_store := Some (snd (update_verification_progress (ios (sv_id r)) (sv_id r)
                   \<lparr>vp_status = VerificationTimedOut, vp_healthy = sv_healthy r, vp_total = sv_total r,
                    vp_value = Fin 0, vp_last_at = sv_last_at r, vp_completed_at = Some (sv_expires_at r),
                    vp_recovered_at = None,
                    vp_reason = Lit ''verification expired during offline or shutdown window'',
                    vp_evidence = sv_evidence r\<rparr> now st))\<rparr>)
         else ((Suc restored, expired),
               e\<lparr>ve_heap := ve_heap e @ [restored_state r],
                 ve_active := AList.update (sv_node_id r, sv_metric_name r) (length (ve_heap e)) (ve_active e),
                 ve_by_id := (ve_by_id e)(sv_id r \<mapsto> length (ve_heap e))\<rparr>))"

definition recover_verifications ::
  "db_io \<Rightarrow> (string \<Rightarrow> db_io) \<Rightarrow> gotime \<Rightarrow> ver_engine \<Rightarrow> (ver_err + nat \<times> nat) \<times> ver_engine" where
  "recover_verifications io ios now e =
     (case ve_store e of None \<Rightarrow> (Inr (0, 0), e) | Some st \<Rightarrow>
      case list_verifications io [] 1000 st of
        Inl er \<Rightarrow> (Inl (VFromStore er), e)
      | Inr rs \<Rightarrow> (let (n, e') = fold (recover_one ios now) rs ((0, 0), e) in (Inr n, e')))"

section \<open>Calls\<close>

text \<open>A call of one of the methods of the engine, with its clock and the answers of the database.\<close>

datatype ver_op =
    VStart db_io gotime "string option" verification_request
  | VSample db_io gotime metric_sample
  | VCancel db_io gotime string msg
  | VFail db_io gotime string msg
  | VReconcile "string \<Rightarrow> db_io" db_io gotime
  | VRecover db_io "string \<Rightarrow> db_io" gotime

fun ver_step :: "ver_op \<Rightarrow> ver_engine \<Rightarrow> ver_engine" where
  "ver_step (VStart io now gen req) e = snd (start_verification io now gen req e)"
| "ver_step (VSample io now m) e = snd (process_sample io now m e)"
| "ver_step (VCancel io now vid reason) e = snd (cancel_verification io now vid reason e)"
| "ver_step (VFail io now vid reason) e = snd (fail_verification io now vid reason e)"
| "ver_step (VReconcile ios io now) e = snd (reconcile_timeouts ios io now e)"
| "ver_step (VRecover io ios now) e = snd (recover_verifications io ios now e)"

definition ver_run :: "ver_op list \<Rightarrow> ver_engine \<Rightarrow> ver_engine" where
  "ver_run ops e = fold ver_step ops e"

fun op_samples :: "ver_op \<Rightarrow> metric_sample set" where
  "op_samples (VSample _ _ m) = {m}"
| "op_samples _ = {}"

fun is_recover :: "ver_op \<Rightarrow> bool" where
  "is_recover (VRecover _ _ _) = True"
| "is_recover _ = False"

end
