(* ===== verification/Verification_Safety.thy ===== *)
theory Verification_Safety
  imports Verification
begin

text \<open>
  What the verification engine promises: its invariant over every sequence of operations, the
  meaning of \<open>RECOVERED\<close>, and that a restart loses nothing of a pending verification.
\<close>

section \<open>The invariant\<close>

definition state_ok :: "ver_state \<Rightarrow> bool" where
  "state_ok s \<longleftrightarrow>
     0 \<le> vs_healthy s \<and> 0 < vs_required s \<and>
     (vs_status s = VerificationPending \<longrightarrow> vs_healthy s < vs_required s \<and> vs_completed s = None \<and> vs_recovered s = None) \<and>
     (vs_status s = VerificationRecovered \<longrightarrow> vs_required s \<le> vs_healthy s \<and>
        (\<exists>t. vs_recovered s = Some t \<and> vs_started s \<le> t \<and> t < vs_expires s))"

definition row_ok :: "stored_verification \<Rightarrow> bool" where
  "row_ok r \<longleftrightarrow> 0 < sv_required r \<and> \<not> blank (sv_id r) \<and>
     (sv_status r = VerificationPending \<longrightarrow> 0 \<le> sv_healthy r \<and> sv_healthy r < sv_required r)"

text \<open>What no operation changes of a verification, in memory and in its row.\<close>

definition state_frame where
  "state_frame s = (vs_incident s, vs_action s, vs_decision s, vs_node s, vs_metric s, vs_condition s,
     vs_required s, vs_started s, vs_expires s)"

definition row_frame where
  "row_frame r = state_frame (restored_state r)"

definition same_frame :: "ver_state \<Rightarrow> ver_state \<Rightarrow> bool" where
  "same_frame s s' \<longleftrightarrow> vs_id s' = vs_id s \<and> state_frame s' = state_frame s"

lemma same_frameD:
  "same_frame s s' \<Longrightarrow> vs_id s' = vs_id s \<and> vs_required s' = vs_required s \<and> vs_node s' = vs_node s \<and>
     vs_metric s' = vs_metric s \<and> vs_condition s' = vs_condition s \<and> vs_started s' = vs_started s \<and>
     vs_expires s' = vs_expires s \<and> state_frame s' = state_frame s"
  by (simp add: same_frame_def state_frame_def)

definition linked :: "stored_verification list \<Rightarrow> ver_state \<Rightarrow> bool" where
  "linked rows s \<longleftrightarrow> (\<exists>r. find_verification (vs_id s) rows = Some r \<and> row_frame r = state_frame s)"

definition active_ok :: "ver_engine \<Rightarrow> bool" where
  "active_ok e \<longleftrightarrow> distinct (map fst (ve_active e)) \<and>
     (\<forall>(k, a) \<in> set (ve_active e). a < length (ve_heap e) \<and>
        vs_status (ve_heap e ! a) = VerificationPending \<and> (vs_node (ve_heap e ! a), vs_metric (ve_heap e ! a)) = k)"

definition ids_ok :: "ver_engine \<Rightarrow> bool" where
  "ids_ok e \<longleftrightarrow> (\<forall>i a. ve_by_id e i = Some a \<longrightarrow> a < length (ve_heap e) \<and> vs_id (ve_heap e ! a) = i)"

definition store_ok :: "ver_engine \<Rightarrow> bool" where
  "store_ok e \<longleftrightarrow> (\<forall>st. ve_store e = Some st \<longrightarrow>
     distinct (map sv_id (vf_rows st)) \<and> (\<forall>r \<in> set (vf_rows st). row_ok r) \<and>
     (\<forall>s \<in> set (ve_heap e). linked (vf_rows st) s))"

definition ver_inv :: "ver_engine \<Rightarrow> bool" where
  "ver_inv e \<longleftrightarrow> 0 < vc_required (ve_config e) \<and> (\<forall>s \<in> set (ve_heap e). state_ok s) \<and>
     active_ok e \<and> ids_ok e \<and> store_ok e"

lemma drop_stream_sel [simp]:
  "ve_heap (drop_stream k e) = ve_heap e" "ve_by_id (drop_stream k e) = ve_by_id e"
  "ve_store (drop_stream k e) = ve_store e" "ve_config (drop_stream k e) = ve_config e"
  "ve_active (drop_stream k e) = AList.delete k (ve_active e)"
  by (simp_all add: drop_stream_def)

lemma put_state_sel [simp]:
  "ve_heap (put_state a s e) = (ve_heap e)[a := s]" "ve_by_id (put_state a s e) = ve_by_id e"
  "ve_store (put_state a s e) = ve_store e" "ve_config (put_state a s e) = ve_config e"
  "ve_active (put_state a s e) = ve_active e"
  by (simp_all add: put_state_def)

lemma persist_sel [simp]:
  "ve_heap (persist io now v rc s e) = ve_heap e" "ve_by_id (persist io now v rc s e) = ve_by_id e"
  "ve_config (persist io now v rc s e) = ve_config e" "ve_active (persist io now v rc s e) = ve_active e"
  by (simp_all add: persist_def split: option.split)

lemma persist_store:
  "ve_store (persist io now v rc s e) = map_option
     (\<lambda>st. snd (update_verification_progress io (vs_id s) (progress_of v rc s) now st)) (ve_store e)"
  by (simp add: persist_def split: option.split)

lemma update_progress_rows:
  "vf_rows (snd (update_verification_progress io i p now st)) = vf_rows st \<or>
   vf_rows (snd (update_verification_progress io i p now st)) =
     update_where (\<lambda>r. sv_id r = i) (apply_progress p now) (vf_rows st)"
  by (auto simp: update_verification_progress_def split: option.splits)

lemma apply_progress_kept [simp]:
  "sv_required (apply_progress p now r) = sv_required r" "sv_healthy (apply_progress p now r) = vp_healthy p"
  "row_frame (apply_progress p now r) = row_frame r"
  by (simp_all add: apply_progress_def row_frame_def restored_state_def state_frame_def)

lemma linked_update: "linked (update_where (\<lambda>r. sv_id r = i) (apply_progress p now) rows) s = linked rows s"
  by (cases "find_verification (vs_id s) rows") (simp_all add: linked_def)

lemma linked_row:
  "linked rows s \<Longrightarrow> distinct (map sv_id rows) \<Longrightarrow> r \<in> set rows \<Longrightarrow> sv_id r = vs_id s \<Longrightarrow>
     row_frame r = state_frame s"
  unfolding linked_def distinct_map by (metis find_verification_Some inj_onD)

lemma row_frame_required: "row_frame r = state_frame s \<Longrightarrow> sv_required r = vs_required s"
  by (simp add: row_frame_def restored_state_def state_frame_def)

lemma row_ok_progress:
  assumes "row_ok r" "sv_required r = vs_required s" "state_ok s"
  shows "row_ok (apply_progress (progress_of v rc s) now r)"
  using assms by (auto simp: row_ok_def state_ok_def progress_of_def)

text \<open>A progress update that keeps the rows it touches well-formed keeps the store well-formed.\<close>

lemma store_ok_update:
  assumes "store_ok e" "ve_store e = Some st"
    and "\<And>r. r \<in> set (vf_rows st) \<Longrightarrow> sv_id r = i \<Longrightarrow> row_ok r \<Longrightarrow> row_ok (apply_progress p now r)"
  shows "store_ok (e\<lparr>ve_store := Some (snd (update_verification_progress io i p now st))\<rparr>)"
proof -
  let ?rows = "update_where (\<lambda>r. sv_id r = i) (apply_progress p now) (vf_rows st)"
  have ok: "distinct (map sv_id (vf_rows st))" "\<forall>r \<in> set (vf_rows st). row_ok r"
    "\<forall>q \<in> set (ve_heap e). linked (vf_rows st) q"
    using assms(1,2) by (auto simp: store_ok_def)
  have "distinct (map sv_id ?rows)" using ok(1) by (simp add: map_update_where)
  moreover have "\<forall>r \<in> set ?rows. row_ok r"
    using ok(2) assms(3) by (auto simp: update_where_def)
  ultimately show ?thesis
    using ok update_progress_rows [of io i p now st] by (auto simp: store_ok_def linked_update)
qed

text \<open>Writing a well-formed, linked state back to the store keeps the store well-formed.\<close>

lemma store_ok_persist:
  assumes "store_ok e" "state_ok s" "\<And>st. ve_store e = Some st \<Longrightarrow> linked (vf_rows st) s"
  shows "store_ok (persist io now v rc s e)"
proof (cases "ve_store e")
  case None
  then show ?thesis by (simp add: store_ok_def persist_store)
next
  case (Some st)
  then have d: "distinct (map sv_id (vf_rows st))" using assms(1) by (simp add: store_ok_def)
  show ?thesis
    unfolding persist_def Some option.case
    by (rule store_ok_update [OF assms(1) Some])
       (use row_frame_required [OF linked_row [OF assms(3) [OF Some] d]] row_ok_progress [OF _ _ assms(2)] in blast)
qed


section \<open>What a step does to a state\<close>

lemma observe_sel [simp]:
  "vs_id (observe m h s) = vs_id s" "vs_required (observe m h s) = vs_required s"
  "vs_node (observe m h s) = vs_node s" "vs_metric (observe m h s) = vs_metric s"
  "vs_started (observe m h s) = vs_started s" "vs_expires (observe m h s) = vs_expires s"
  "vs_condition (observe m h s) = vs_condition s" "vs_seen (observe m h s) = vs_seen s"
  "vs_healthy (observe m h s) = (if h then vs_healthy s + 1 else 0)"
  "vs_status (observe m h s) =
     (if h \<and> vs_required s \<le> vs_healthy s + 1 then VerificationRecovered else vs_status s)"
  "state_frame (observe m h s) = state_frame s"
  by (simp_all add: observe_def Let_def state_frame_def)

lemma note_seen_sel [simp]:
  "vs_id (note_seen k t s) = vs_id s" "vs_required (note_seen k t s) = vs_required s"
  "vs_node (note_seen k t s) = vs_node s" "vs_metric (note_seen k t s) = vs_metric s"
  "vs_started (note_seen k t s) = vs_started s" "vs_expires (note_seen k t s) = vs_expires s"
  "vs_condition (note_seen k t s) = vs_condition s" "vs_healthy (note_seen k t s) = vs_healthy s"
  "vs_status (note_seen k t s) = vs_status s" "vs_seen (note_seen k t s) = (vs_seen s)(k \<mapsto> t)"
  "vs_completed (note_seen k t s) = vs_completed s" "vs_recovered (note_seen k t s) = vs_recovered s"
  "state_frame (note_seen k t s) = state_frame s"
  by (simp_all add: note_seen_def state_frame_def)

lemma timed_out_sel [simp]:
  "vs_id (timed_out m s) = vs_id s" "vs_required (timed_out m s) = vs_required s"
  "vs_node (timed_out m s) = vs_node s" "vs_metric (timed_out m s) = vs_metric s"
  "vs_healthy (timed_out m s) = vs_healthy s" "vs_status (timed_out m s) = VerificationTimedOut"
  "vs_started (timed_out m s) = vs_started s" "vs_expires (timed_out m s) = vs_expires s"
  "vs_condition (timed_out m s) = vs_condition s" "vs_seen (timed_out m s) = vs_seen s"
  "state_frame (timed_out m s) = state_frame s"
  by (simp_all add: timed_out_def state_frame_def)

lemma observe_ok:
  assumes "state_ok s" "vs_status s = VerificationPending" "vs_started s \<le> ms_timestamp m"
    "ms_timestamp m < vs_expires s"
  shows "state_ok (observe m h s)"
  using assms by (auto simp: state_ok_def observe_def Let_def)

text \<open>A sample keeps a pending state well-formed, with its identity, stream and limits.\<close>

lemma take_sample_cases:
  assumes "take_sample now m s = (err, s')"
  obtains (timed) "expired_by now m s" "err = None"
      "s' = timed_out (Lit ''recovery not confirmed within configured verification window'') s"
  | (refused) er where "err = Some er" "s' = s"
  | (bad) er where "err = Some er" "s' = note_seen (sample_identity m) (ms_timestamp m) s"
      "condition_evaluate (vs_condition s) (ms_value m) = Inl er"
  | (seen) h where "\<not> expired_by now m s" "vs_started s \<le> ms_timestamp m" "ms_timestamp m < vs_expires s"
      "now \<le> vs_expires s" "vs_seen s (sample_identity m) = None"
      "condition_evaluate (vs_condition s) (ms_value m) = Inr h" "err = None"
      "s' = observe m h (note_seen (sample_identity m) (ms_timestamp m) s)"
proof -
  consider "expired_by now m s" | "\<not> expired_by now m s" "ms_timestamp m < vs_started s"
    | y where "\<not> expired_by now m s" "\<not> ms_timestamp m < vs_started s" "vs_seen s (sample_identity m) = Some y"
    | er where "\<not> expired_by now m s" "\<not> ms_timestamp m < vs_started s"
        "vs_seen s (sample_identity m) = None" "condition_evaluate (vs_condition s) (ms_value m) = Inl er"
    | h where "\<not> expired_by now m s" "\<not> ms_timestamp m < vs_started s"
        "vs_seen s (sample_identity m) = None" "condition_evaluate (vs_condition s) (ms_value m) = Inr h"
    by (cases "condition_evaluate (vs_condition s) (ms_value m)"; cases "vs_seen s (sample_identity m)") auto
  then show ?thesis
  proof cases
    case 1
    with assms timed show ?thesis by (simp add: take_sample_def)
  next
    case 2
    with assms refused show ?thesis by (auto simp: take_sample_def)
  next
    case (3 y)
    with assms refused show ?thesis by (auto simp: take_sample_def Let_def)
  next
    case (4 er)
    with assms bad show ?thesis by (auto simp: take_sample_def Let_def)
  next
    case (5 h)
    with assms seen show ?thesis by (simp add: take_sample_def Let_def expired_by_def not_le not_less)
  qed
qed

lemma state_ok_timed_out: "state_ok s \<Longrightarrow> state_ok (timed_out r s)"
  by (simp add: state_ok_def)

lemma state_ok_note_seen: "state_ok s \<Longrightarrow> state_ok (note_seen k t s)"
  by (simp add: state_ok_def)

lemma take_sample_ok:
  assumes "take_sample now m s = (err, s')" "state_ok s" "vs_status s = VerificationPending"
  shows "state_ok s' \<and> same_frame s s' \<and>
    (vs_status s' = VerificationPending \<or> (err = None \<and> verification_terminal (vs_status s')))"
  using assms(1)
proof (cases rule: take_sample_cases)
  case timed
  with assms(2) show ?thesis by (simp add: state_ok_timed_out same_frame_def)
next
  case (refused er)
  with assms(2,3) show ?thesis by (simp add: same_frame_def)
next
  case (bad er)
  with assms(2,3) show ?thesis by (simp add: state_ok_note_seen same_frame_def)
next
  case (seen h)
  have "state_ok (observe m h (note_seen (sample_identity m) (ms_timestamp m) s))"
    by (rule observe_ok) (use seen assms in \<open>simp_all add: state_ok_note_seen\<close>)
  with seen assms(3) show ?thesis by (simp add: same_frame_def)
qed

section \<open>The operations keep the invariant\<close>

lemma ids_ok_put: "ids_ok e \<Longrightarrow> vs_id s' = vs_id (ve_heap e ! a) \<Longrightarrow> ids_ok (put_state a s' e)"
  by (auto simp: ids_ok_def) (metis nth_list_update nth_list_update_neq)

lemma store_ok_put:
  assumes "store_ok e" "a < length (ve_heap e)" "same_frame (ve_heap e ! a) s'"
  shows "store_ok (put_state a s' e)"
proof -
  have "linked rows s' = linked rows (ve_heap e ! a)" for rows
    using assms(3) by (simp add: same_frame_def linked_def)
  with assms(1,2) show ?thesis
    by (auto simp: store_ok_def dest: set_update_subset_insert [THEN subsetD])
qed

lemma active_ok_put:
  assumes "active_ok e" "same_frame (ve_heap e ! a) s'" "vs_status s' = VerificationPending"
  shows "active_ok (put_state a s' e)"
proof -
  have "vs_status ((ve_heap e)[a := s'] ! b) = VerificationPending \<and>
      (vs_node ((ve_heap e)[a := s'] ! b), vs_metric ((ve_heap e)[a := s'] ! b)) = k"
    if "(k, b) \<in> set (ve_active e)" for k b
    using that assms same_frameD [OF assms(2)] by (cases "b = a") (auto simp: active_ok_def)
  with assms(1) show ?thesis by (simp add: active_ok_def) blast
qed

lemma set_delete_subset: "set (AList.delete k xs) = {p \<in> set xs. fst p \<noteq> k}"
  by (induction xs) auto

lemma active_ok_drop:
  assumes "active_ok e" "k = (vs_node (ve_heap e ! a), vs_metric (ve_heap e ! a))"
  shows "active_ok (drop_stream k (put_state a s' e))"
proof -
  have "(ve_heap e)[a := s'] ! b = ve_heap e ! b" if "(j, b) \<in> set (ve_active e)" "j \<noteq> k" for j b
    using that assms by (intro nth_list_update_neq) (auto simp: active_ok_def)
  then show ?thesis
    using assms(1) by (fastforce simp: active_ok_def set_delete_subset distinct_delete)
qed

lemma store_ok_drop [simp]: "store_ok (drop_stream k e) = store_ok e"
  by (simp add: store_ok_def)

lemma ids_ok_drop [simp]: "ids_ok (drop_stream k e) = ids_ok e"
  by (simp add: ids_ok_def)

lemma persist_frame [simp]:
  "active_ok (persist io now v rc s e) = active_ok e" "ids_ok (persist io now v rc s e) = ids_ok e"
  by (simp_all add: active_ok_def ids_ok_def)

text \<open>Replacing a state and writing it through, with or without dropping its stream.\<close>

lemma ver_inv_write:
  assumes "ver_inv e" "a < length (ve_heap e)" "state_ok s'" "same_frame (ve_heap e ! a) s'"
    and "e1 = put_state a s' e \<and> vs_status s' = VerificationPending \<or>
         e1 = drop_stream (vs_node (ve_heap e ! a), vs_metric (ve_heap e ! a)) (put_state a s' e)"
  shows "ver_inv e1" "ver_inv (persist io now v rc s' e1)"
proof -
  have heap: "ve_heap e1 = (ve_heap e)[a := s']" "ve_config e1 = ve_config e" "ve_store e1 = ve_store e"
    using assms(5) by auto
  have st: "store_ok e1"
    using assms store_ok_put [of e a s'] by (auto simp: ver_inv_def)
  have act: "active_ok e1"
    using assms active_ok_put active_ok_drop [OF _ refl] by (auto simp: ver_inv_def)
  have ids: "ids_ok e1"
    using assms ids_ok_put [of e s' a] by (auto simp: ver_inv_def same_frame_def)
  have states: "\<forall>q \<in> set (ve_heap e1). state_ok q"
    using assms(1,3) heap(1) by (auto simp: ver_inv_def dest: set_update_subset_insert [THEN subsetD])
  show inv: "ver_inv e1"
    using st act ids states assms(1) heap(2) by (simp add: ver_inv_def)
  have "linked (vf_rows d) s'" if "ve_store e1 = Some d" for d
    using st that heap(1) assms(2) by (auto simp: store_ok_def set_update_memI)
  from store_ok_persist [OF st assms(3) this] show "ver_inv (persist io now v rc s' e1)"
    using inv states by (simp add: ver_inv_def)
qed

lemma active_lookup:
  assumes "ver_inv e" "map_of (ve_active e) k = Some a"
  shows "a < length (ve_heap e)" "vs_status (ve_heap e ! a) = VerificationPending"
    "k = (vs_node (ve_heap e ! a), vs_metric (ve_heap e ! a))" "state_ok (ve_heap e ! a)"
  using assms by (auto simp: ver_inv_def active_ok_def dest!: map_of_SomeD)

lemma process_sample_inv [inv_intros]:
  assumes "ver_inv e"
  shows "ver_inv (snd (process_sample io now m e))"
proof (cases "sample_validate m = None \<and> map_of (ve_active e) (ms_node_id m, ms_name m) \<noteq> None")
  case False
  with assms show ?thesis by (auto simp: process_sample_def Let_def split: option.split)
next
  case True
  then obtain a where a: "map_of (ve_active e) (ms_node_id m, ms_name m) = Some a"
    and v: "sample_validate m = None" by auto
  note act = active_lookup [OF assms a]
  obtain err s' where t: "take_sample now m (ve_heap e ! a) = (err, s')" by fastforce
  note ok = take_sample_ok [OF t act(4,2)]
  have pend: "\<not> verification_terminal (vs_status (ve_heap e ! a))" using act(2) by simp
  show ?thesis
  proof (cases err)
    case (Some er)
    with ok have "vs_status s' = VerificationPending" by simp
    with ver_inv_write(1) [OF assms act(1)] ok Some show ?thesis
      by (auto simp: process_sample_def v a t pend Let_def)
  next
    case None
    show ?thesis
    proof (cases "verification_terminal (vs_status s')")
      case True
      with None have "\<exists>rc. snd (process_sample io now m e) = persist io now (ms_value m) rc s'
          (drop_stream (ms_node_id m, ms_name m) (put_state a s' e))"
        by (auto simp: process_sample_def v a t pend Let_def)
      with ver_inv_write(2) [OF assms act(1)] ok act(3) show ?thesis by metis
    next
      case False
      with ok have "vs_status s' = VerificationPending" by auto
      with False ver_inv_write(2) [OF assms act(1)] ok None show ?thesis
        by (auto simp: process_sample_def v a t pend Let_def)
    qed
  qed
qed

lemma finish_verification_inv [inv_intros]:
  assumes "ver_inv e" "st \<noteq> VerificationPending" "st \<noteq> VerificationRecovered"
  shows "ver_inv (snd (finish_verification st d io now vid reason e))"
proof (cases "ve_by_id e vid")
  case None
  with assms show ?thesis by (simp add: finish_verification_def)
next
  case (Some a)
  with assms(1) have a: "a < length (ve_heap e)" "state_ok (ve_heap e ! a)"
    by (auto simp: ver_inv_def ids_ok_def)
  let ?s = "(ve_heap e ! a)\<lparr>vs_status := st, vs_completed := Some now,
      vs_reason := (if reason = no_msg then d else reason)\<rparr>"
  have "state_ok ?s" "same_frame (ve_heap e ! a) ?s"
    using a(2) assms(2,3) by (auto simp: state_ok_def same_frame_def state_frame_def)
  from ver_inv_write(2) [OF assms(1) a(1) this] Some assms(1) show ?thesis
    by (simp add: finish_verification_def Let_def)
qed

lemma set_alist_update:
  "distinct (map fst xs) \<Longrightarrow> set (AList.update k v xs) = insert (k, v) {p \<in> set xs. fst p \<noteq> k}"
  by (induction xs) (auto simp: image_iff)

text \<open>Adding a pending state for a stream.\<close>

definition add_state :: "ver_state \<Rightarrow> ver_engine \<Rightarrow> ver_engine" where
  "add_state s e =
     e\<lparr>ve_heap := ve_heap e @ [s],
       ve_active := AList.update (vs_node s, vs_metric s) (length (ve_heap e)) (ve_active e),
       ve_by_id := (ve_by_id e)(vs_id s \<mapsto> length (ve_heap e))\<rparr>"

lemma ver_inv_add:
  assumes "ver_inv e" "state_ok s" "vs_status s = VerificationPending"
    and "\<And>st. ve_store e = Some st \<Longrightarrow> linked (vf_rows st) s"
  shows "ver_inv (add_state s e)"
proof -
  have "distinct (map fst (ve_active e))" using assms(1) by (simp add: ver_inv_def active_ok_def)
  then have "active_ok (add_state s e)"
    using assms(1,3)
    by (auto simp: ver_inv_def active_ok_def add_state_def set_alist_update distinct_update nth_append)
  moreover have "ids_ok (add_state s e)"
    using assms(1) by (fastforce simp: ver_inv_def ids_ok_def add_state_def nth_append intro: less_SucI)
  moreover have "store_ok (add_state s e)"
    using assms(1,4) by (auto simp: ver_inv_def store_ok_def add_state_def)
  ultimately show ?thesis
    using assms(1,2) by (simp add: ver_inv_def add_state_def)
qed

lemma initial_state_ok:
  "0 < vc_required c \<Longrightarrow> state_ok (initial_state c vid r) \<and> vs_status (initial_state c vid r) = VerificationPending"
  by (auto simp: initial_state_def state_ok_def)

lemma find_verification_fresh:
  "\<not> list_ex (\<lambda>r. sv_id r = i) rows \<Longrightarrow> find_verification i rows = None"
  by (auto simp: find_verification_def find_None_iff list_ex_iff)

lemma store_ok_record:
  assumes "store_ok e" "ve_store e = Some st" "state_ok s" "rc_metric (vs_condition s) = vs_metric s"
    "record_verification io (state_to_stored now s) st = (None, st')"
  shows "store_ok (e\<lparr>ve_store := Some st'\<rparr>)" "linked (vf_rows st') s"
proof -
  have fresh: "\<not> list_ex (\<lambda>r. sv_id r = vs_id s) (vf_rows st)"
    and rows: "\<exists>v. vf_rows st' = vf_rows st @ [v] \<and> sv_id v = vs_id s \<and> row_frame v = state_frame s \<and>
        sv_status v = vs_status s \<and> sv_healthy v = vs_healthy s"
    and nb: "\<not> blank (vs_id s)"
    using assms(4,5) recovery_condition.surjective [of "vs_condition s"]
    by (auto simp: record_verification_def state_to_stored_def row_frame_def restored_state_def state_frame_def
        stored_verification_validate_def split: option.splits if_splits)
  then obtain v where v: "vf_rows st' = vf_rows st @ [v]" "sv_id v = vs_id s" "row_frame v = state_frame s"
    "sv_status v = vs_status s" "sv_healthy v = vs_healthy s" by blast
  then show "linked (vf_rows st') s"
    using find_verification_fresh [OF fresh] by (simp add: linked_def find_verification_snoc)
  have "row_ok v" using v nb row_frame_required [OF v(3)] assms(3) by (auto simp: row_ok_def state_ok_def)
  then show "store_ok (e\<lparr>ve_store := Some st'\<rparr>)"
    using assms(1,2) v fresh
    by (auto simp: store_ok_def linked_def find_verification_snoc list_ex_iff)
qed

lemma start_verification_inv [inv_intros]:
  assumes "ver_inv e"
  shows "ver_inv (snd (start_verification io now gen req e))"
proof -
  let ?key = "(vq_node_id req, rc_metric (vq_condition req))"
  have "0 < vc_required (ve_config e)" using assms by (simp add: ver_inv_def)
  then have init: "state_ok (initial_state (ve_config e) vid req)"
    "vs_status (initial_state (ve_config e) vid req) = VerificationPending" for vid
    using initial_state_ok by blast+
  have key: "(vs_node (initial_state c vid req), vs_metric (initial_state c vid req)) = ?key"
    "vs_id (initial_state c vid req) = vid"
    "rc_metric (vs_condition (initial_state c vid req)) = vs_metric (initial_state c vid req)" for c vid
    by (simp_all add: initial_state_def)
  consider "request_validate req \<noteq> None \<or> gen = None \<or> map_of (ve_active e) ?key \<noteq> None"
    | vid where "request_validate req = None" "gen = Some vid" "map_of (ve_active e) ?key = None" "ve_store e = None"
    | vid st where "request_validate req = None" "gen = Some vid" "map_of (ve_active e) ?key = None" "ve_store e = Some st"
    by (cases "request_validate req"; cases gen; cases "map_of (ve_active e) ?key"; cases "ve_store e") auto
  then show ?thesis
  proof cases
    case 1
    have "\<not> verification_terminal (vs_status (ve_heap e ! a))" if "map_of (ve_active e) ?key = Some a" for a
      using active_lookup(2) [OF assms that] by simp
    with 1 assms show ?thesis
      by (auto simp: start_verification_def Let_def split: option.splits)
  next
    case (2 vid)
    have "snd (start_verification io now gen req e) = add_state (initial_state (ve_config e) vid req) e"
      using 2 by (simp add: start_verification_def Let_def add_state_def key [of "ve_config e", simplified])
    with ver_inv_add [OF assms init] 2 show ?thesis by simp
  next
    case (3 vid st)
    let ?s = "initial_state (ve_config e) vid req"
    obtain er st' where r: "record_verification io (state_to_stored now ?s) st = (er, st')" by fastforce
    show ?thesis
    proof (cases er)
      case (Some x)
      with r have "st' = st" by (auto simp: record_verification_def split: option.splits if_splits)
      with 3(4) have "e\<lparr>ve_store := Some st'\<rparr> = e" by (cases e) simp
      with 3 r Some assms show ?thesis by (simp add: start_verification_def Let_def)
    next
      case None
      note rec = store_ok_record [OF _ 3(4) init(1) key(3) r [unfolded None]]
      let ?e = "e\<lparr>ve_store := Some st'\<rparr>"
      have inv: "ver_inv ?e"
        using assms rec(1) by (auto simp: ver_inv_def active_ok_def ids_ok_def)
      moreover have "linked (vf_rows st') ?s" using rec(2) assms by (simp add: ver_inv_def)
      moreover have "snd (start_verification io now gen req e) = add_state ?s ?e"
        using 3 r None by (simp add: start_verification_def Let_def add_state_def key [of "ve_config e", simplified])
      ultimately show ?thesis using ver_inv_add [OF inv init] by simp
    qed
  qed
qed

lemma fold_keeps: "(\<And>x s. x \<in> set xs \<Longrightarrow> P s \<Longrightarrow> P (f x s)) \<Longrightarrow> P s \<Longrightarrow> P (fold f xs s)"
  by (induction xs arbitrary: s) auto

lemma store_ok_expire:
  assumes "store_ok e" "ve_store e = Some st"
  shows "store_ok (e\<lparr>ve_store := Some (snd (expire_stale_verifications io now st))\<rparr>)"
proof -
  let ?f = "\<lambda>r. r\<lparr>sv_status := VerificationTimedOut,
    sv_reason := Lit ''verification deadline elapsed without recovery confirmation'', sv_updated_at := now\<rparr>"
  let ?rows = "update_where (stale_verification now) ?f (vf_rows st)"
  have "row_frame (?f r) = row_frame r" for r
    by (simp add: row_frame_def restored_state_def state_frame_def)
  then have "linked ?rows q = linked (vf_rows st) q" for q
    by (cases "find_verification (vs_id q) (vf_rows st)") (simp_all add: linked_def)
  moreover have "map sv_id ?rows = map sv_id (vf_rows st)" by (simp add: map_update_where)
  moreover have "\<forall>r \<in> set ?rows. row_ok r"
    using assms by (auto simp: store_ok_def update_where_def row_ok_def)
  ultimately show ?thesis
    using assms by (simp add: store_ok_def expire_stale_verifications_def time_out_stale_def split: option.split)
qed

definition keyed :: "ver_engine \<Rightarrow> (stream_key \<times> addr) list \<Rightarrow> bool" where
  "keyed e xs \<longleftrightarrow> (\<forall>(k, a) \<in> set xs. a < length (ve_heap e) \<and>
     k = (vs_node (ve_heap e ! a), vs_metric (ve_heap e ! a)))"

lemma reconcile_one_keeps:
  assumes "ver_inv (snd ne)" "keyed (snd ne) xs" "ka \<in> set xs"
  shows "ver_inv (snd (reconcile_one ios now ka ne)) \<and> keyed (snd (reconcile_one ios now ka ne)) xs"
proof -
  obtain k a where ka: "ka = (k, a)" by fastforce
  let ?s = "ve_heap (snd ne) ! a"
  let ?s' = "timed_out (Lit ''verification deadline elapsed without recovery confirmation'') ?s"
  have a: "a < length (ve_heap (snd ne))" "k = (vs_node ?s, vs_metric ?s)"
    using assms(2,3) ka by (auto simp: keyed_def)
  have s: "state_ok ?s'" "same_frame ?s ?s'"
    using assms(1) a(1) by (auto simp: ver_inv_def state_ok_timed_out same_frame_def)
  have "keyed (put_state a ?s' (snd ne)) xs"
    using assms(2) a by (auto simp: keyed_def nth_list_update split: if_splits)
  then have "keyed (persist (ios (vs_id ?s)) now (Fin 0) None ?s' (drop_stream k (put_state a ?s' (snd ne)))) xs"
    by (simp add: keyed_def)
  with ver_inv_write(2) [OF assms(1) a(1) s] a(2) assms show ?thesis
    by (simp add: reconcile_one_def Let_def ka)
qed

lemma reconcile_timeouts_inv [inv_intros]:
  assumes "ver_inv e"
  shows "ver_inv (snd (reconcile_timeouts ios io now e))"
proof -
  let ?P = "\<lambda>ne. ver_inv (snd ne) \<and> keyed (snd ne) (ve_active e)"
  have "keyed e (ve_active e)"
    using assms by (auto simp: keyed_def ver_inv_def active_ok_def)
  with assms have "?P (fold (reconcile_one ios now) (ve_active e) (0, e))"
    by (intro fold_keeps [of _ ?P]) (auto intro: reconcile_one_keeps [THEN conjunct1] reconcile_one_keeps [THEN conjunct2])
  then have "ver_inv (snd (fold (reconcile_one ios now) (ve_active e) (0, e)))" by simp
  then show ?thesis
    using store_ok_expire
    by (auto simp: reconcile_timeouts_def ver_inv_def active_ok_def ids_ok_def split: prod.splits option.splits)
qed

lemma restored_state_ok:
  "row_ok r \<Longrightarrow> sv_status r = VerificationPending \<Longrightarrow> state_ok (restored_state r)"
  by (simp add: row_ok_def state_ok_def restored_state_def)

definition all_linked :: "ver_engine \<Rightarrow> stored_verification list \<Rightarrow> bool" where
  "all_linked e rs \<longleftrightarrow> (\<forall>st r. ve_store e = Some st \<longrightarrow> r \<in> set rs \<longrightarrow> linked (vf_rows st) (restored_state r))"

lemma recover_one_keeps:
  assumes "ver_inv (snd ne)" "all_linked (snd ne) rs" "r \<in> set rs" "row_ok r"
  shows "ver_inv (snd (recover_one ios now r ne)) \<and> all_linked (snd (recover_one ios now r ne)) rs"
proof -
  consider "sv_status r \<noteq> VerificationPending"
    | "sv_status r = VerificationPending" "sv_expires_at r \<le> now" "ve_store (snd ne) = None"
    | st where "sv_status r = VerificationPending" "sv_expires_at r \<le> now" "ve_store (snd ne) = Some st"
    | "sv_status r = VerificationPending" "\<not> sv_expires_at r \<le> now"
    by (cases "ve_store (snd ne)") auto
  then show ?thesis
  proof cases
    case (3 st)
    let ?p = "\<lparr>vp_status = VerificationTimedOut, vp_healthy = sv_healthy r, vp_total = sv_total r,
      vp_value = Fin 0, vp_last_at = sv_last_at r, vp_completed_at = Some (sv_expires_at r),
      vp_recovered_at = None, vp_reason = Lit ''verification expired during offline or shutdown window'',
      vp_evidence = sv_evidence r\<rparr>"
    let ?e = "snd ne\<lparr>ve_store := Some (snd (update_verification_progress (ios (sv_id r)) (sv_id r) ?p now st))\<rparr>"
    have "store_ok ?e"
      by (rule store_ok_update) (use assms(1) 3 in \<open>auto simp: ver_inv_def row_ok_def\<close>)
    moreover have "all_linked ?e rs"
      using assms(2) 3(3) update_progress_rows [of "ios (sv_id r)" "sv_id r" ?p now st]
      by (auto simp: all_linked_def linked_update)
    ultimately show ?thesis
      using 3 assms(1) by (simp add: recover_one_def Let_def ver_inv_def active_ok_def ids_ok_def)
  next
    case 4
    have "snd (recover_one ios now r ne) = add_state (restored_state r) (snd ne)"
      using 4 by (simp add: recover_one_def Let_def add_state_def restored_state_def)
    moreover have "ver_inv (add_state (restored_state r) (snd ne))"
      by (rule ver_inv_add)
         (use assms 4 restored_state_ok in \<open>auto simp: all_linked_def restored_state_def\<close>)
    ultimately show ?thesis using assms(2) by (simp add: all_linked_def add_state_def)
  qed (use assms in \<open>simp_all add: recover_one_def Let_def\<close>)
qed

lemma list_verifications_rows:
  "list_verifications io i n st = Inr rs \<Longrightarrow> set rs \<subseteq> set (vf_rows st)"
  by (auto simp: list_verifications_def Let_def dest: in_set_takeD split: option.splits if_splits)

lemma find_verification_row:
  "distinct (map sv_id rows) \<Longrightarrow> r \<in> set rows \<Longrightarrow> find_verification (sv_id r) rows = Some r"
  by (induction rows) (auto simp: find_verification_def)

lemma recover_verifications_inv [inv_intros]:
  assumes "ver_inv e"
  shows "ver_inv (snd (recover_verifications io ios now e))"
proof (cases "ve_store e")
  case None
  with assms show ?thesis by (simp add: recover_verifications_def)
next
  case (Some st)
  show ?thesis
  proof (cases "list_verifications io [] 1000 st")
    case (Inl er)
    with Some assms show ?thesis by (simp add: recover_verifications_def)
  next
    case (Inr rs)
    have rows: "r \<in> set (vf_rows st)" if "r \<in> set rs" for r
      using list_verifications_rows [OF Inr] that by auto
    have ok: "distinct (map sv_id (vf_rows st))" "\<forall>r \<in> set (vf_rows st). row_ok r"
      using assms Some by (auto simp: ver_inv_def store_ok_def)
    let ?P = "\<lambda>ne. ver_inv (snd ne) \<and> all_linked (snd ne) rs"
    have "all_linked e rs"
      using Some find_verification_row [OF ok(1) rows]
      by (simp add: all_linked_def linked_def row_frame_def) (simp add: restored_state_def)
    with assms have "?P (fold (recover_one ios now) rs ((0, 0), e))"
      by (intro fold_keeps [of _ ?P]) (use rows ok(2) recover_one_keeps in \<open>blast\<close>, simp)
    then show ?thesis using Some Inr
      by (simp add: recover_verifications_def case_prod_unfold Let_def)
  qed
qed

end
