(* ===== verification/Verification_Runs.thy ===== *)
theory Verification_Runs
  imports Verification_Safety
begin

text \<open>
  Sequences of calls of the verification engine: how the states of its heap and the rows of its
  store evolve.
\<close>

section \<open>The invariant over runs\<close>

lemma ver_run_Nil [simp]: "ver_run [] e = e"
  by (simp add: ver_run_def)

lemma ver_run_Cons [simp]: "ver_run (x # xs) e = ver_run xs (ver_step x e)"
  by (simp add: ver_run_def)

lemma ver_step_inv: "ver_inv e \<Longrightarrow> ver_inv (ver_step x e)"
  by (cases x) (simp_all add: inv_intros cancel_verification_def fail_verification_def)

lemma ver_run_inv: "ver_inv e \<Longrightarrow> ver_inv (ver_run xs e)"
  by (induction xs arbitrary: e) (simp_all add: ver_step_inv)

text \<open>A store an engine can be started on, and the engine started on it.\<close>

definition ver_rows_ok :: "verification_store option \<Rightarrow> bool" where
  "ver_rows_ok store \<longleftrightarrow> (\<forall>st. store = Some st \<longrightarrow>
     distinct (map sv_id (vf_rows st)) \<and> (\<forall>r \<in> set (vf_rows st). row_ok r))"

lemma new_ver_engine_inv:
  "new_ver_engine c store = Inr e \<Longrightarrow> ver_rows_ok store \<Longrightarrow> ver_inv e"
  by (auto simp: new_ver_engine_def ver_config_validate_def ver_inv_def active_ok_def ids_ok_def store_ok_def
      ver_rows_ok_def Let_def split: sum.splits if_splits)

lemma new_ver_engine_heap: "new_ver_engine c store = Inr e \<Longrightarrow> ve_heap e = []"
  by (auto simp: new_ver_engine_def split: sum.splits)

section \<open>How a state evolves\<close>

definition state_step :: "metric_sample set \<Rightarrow> ver_state \<Rightarrow> ver_state \<Rightarrow> bool" where
  "state_step S s s' \<longleftrightarrow> \<not> verification_terminal (vs_status s) \<and>
     ((\<exists>now m err. m \<in> S \<and> ms_node_id m = vs_node s \<and> ms_name m = vs_metric s \<and>
         take_sample now m s = (err, s')) \<or>
      (\<exists>st c r. verification_terminal st \<and> st \<noteq> VerificationRecovered \<and>
         s' = s\<lparr>vs_status := st, vs_completed := c, vs_reason := r\<rparr>))"

lemma state_step_finish:
  "\<not> verification_terminal (vs_status s) \<Longrightarrow> verification_terminal st \<Longrightarrow> st \<noteq> VerificationRecovered \<Longrightarrow>
   state_step S s (s\<lparr>vs_status := st, vs_completed := c, vs_reason := r\<rparr>)"
  unfolding state_step_def by blast

definition fresh_state :: "bool \<Rightarrow> ver_state \<Rightarrow> bool" where
  "fresh_state rec s \<longleftrightarrow> (\<exists>c vid r. s = initial_state c vid r) \<or> (rec \<and> (\<exists>r. s = restored_state r))"

definition heap_evolves :: "metric_sample set \<Rightarrow> bool \<Rightarrow> ver_state list \<Rightarrow> ver_state list \<Rightarrow> bool" where
  "heap_evolves S rec h h' \<longleftrightarrow> length h \<le> length h' \<and>
     (\<forall>a < length h. (state_step S)\<^sup>*\<^sup>* (h ! a) (h' ! a)) \<and>
     (\<forall>a. length h \<le> a \<longrightarrow> a < length h' \<longrightarrow> fresh_state rec (h' ! a))"

lemma heap_evolves_refl [simp]: "heap_evolves S rec h h"
  by (simp add: heap_evolves_def)

lemma heap_evolves_put:
  "state_step S (h ! a) s' \<Longrightarrow> heap_evolves S rec h (h[a := s'])"
  by (cases "a < length h") (auto simp: heap_evolves_def nth_list_update)

lemma heap_evolves_snoc: "fresh_state rec s \<Longrightarrow> heap_evolves S rec h (h @ [s])"
  by (auto simp: heap_evolves_def nth_append less_Suc_eq)

definition frozen :: "ver_state list \<Rightarrow> ver_state list \<Rightarrow> bool" where
  "frozen h h' \<longleftrightarrow> length h \<le> length h' \<and>
     (\<forall>a < length h. verification_terminal (vs_status (h ! a)) \<longrightarrow> h' ! a = h ! a)"

lemma state_step_terminal: "(state_step S)\<^sup>*\<^sup>* s s' \<Longrightarrow> verification_terminal (vs_status s) \<Longrightarrow> s' = s"
  by (erule converse_rtranclpE) (auto simp: state_step_def)

lemma heap_evolves_frozen: "heap_evolves S rec h h' \<Longrightarrow> frozen h h'"
  by (auto simp: heap_evolves_def frozen_def dest: state_step_terminal)

lemma frozen_trans: "frozen h h' \<Longrightarrow> frozen h' h'' \<Longrightarrow> frozen h h''"
  by (auto simp: frozen_def)

lemma process_sample_evolves:
  assumes "ver_inv e"
  shows "heap_evolves {m} rec (ve_heap e) (ve_heap (snd (process_sample io now m e)))"
proof (cases "sample_validate m = None \<and> map_of (ve_active e) (ms_node_id m, ms_name m) \<noteq> None")
  case False
  then show ?thesis by (auto simp: process_sample_def Let_def split: option.split)
next
  case True
  then obtain a where a: "map_of (ve_active e) (ms_node_id m, ms_name m) = Some a"
    and v: "sample_validate m = None" by auto
  note act = active_lookup [OF assms a]
  obtain err s' where t: "take_sample now m (ve_heap e ! a) = (err, s')" by fastforce
  have "state_step {m} (ve_heap e ! a) s'"
    using act t by (auto simp: state_step_def)
  from heap_evolves_put [OF this] show ?thesis
    using act(2) by (auto simp: process_sample_def v a t Let_def split: option.split)
qed

lemma finish_verification_evolves:
  assumes "verification_terminal st" "st \<noteq> VerificationRecovered"
  shows "heap_evolves S rec (ve_heap e) (ve_heap (snd (finish_verification st d io now vid reason e)))"
proof -
  have "heap_evolves S rec (ve_heap e) ((ve_heap e)[a := (ve_heap e ! a)
      \<lparr>vs_status := st, vs_completed := c, vs_reason := r\<rparr>])"
    if "\<not> verification_terminal (vs_status (ve_heap e ! a))" for a c r
    by (rule heap_evolves_put) (use that assms in \<open>simp add: state_step_finish\<close>)
  then show ?thesis by (auto simp: finish_verification_def Let_def split: option.split)
qed

lemma reconcile_one_evolves:
  "heap_evolves S rec (ve_heap (snd ne)) (ve_heap (snd (reconcile_one ios now ka ne)))"
proof -
  have "heap_evolves S rec (ve_heap (snd ne)) ((ve_heap (snd ne))[a := timed_out r (ve_heap (snd ne) ! a)])"
    if "\<not> verification_terminal (vs_status (ve_heap (snd ne) ! a))" for a r
    by (rule heap_evolves_put) (use that in \<open>simp add: timed_out_def state_step_finish\<close>)
  then show ?thesis by (simp add: reconcile_one_def Let_def)
qed

lemma heap_evolves_trans:
  assumes "heap_evolves S rec h h'" "heap_evolves S rec h' h''" "length h' = length h"
  shows "heap_evolves S rec h h''"
  using assms by (auto simp: heap_evolves_def intro: rtranclp_trans)

lemma reconcile_one_length [simp]:
  "length (ve_heap (snd (reconcile_one ios now ka ne))) = length (ve_heap (snd ne))"
  by (simp add: reconcile_one_def Let_def)

lemma reconcile_timeouts_evolves:
  "heap_evolves S rec (ve_heap e) (ve_heap (snd (reconcile_timeouts ios io now e)))"
proof -
  let ?P = "\<lambda>ne. length (ve_heap (snd ne)) = length (ve_heap e) \<and> heap_evolves S rec (ve_heap e) (ve_heap (snd ne))"
  have "?P (fold (reconcile_one ios now) (ve_active e) (0, e))"
    by (rule fold_keeps) (use reconcile_one_evolves heap_evolves_trans in \<open>auto\<close>)
  then show ?thesis
    by (auto simp: reconcile_timeouts_def split: prod.splits option.splits)
qed

lemma start_verification_evolves:
  "heap_evolves S rec (ve_heap e) (ve_heap (snd (start_verification io now gen req e)))"
proof -
  have "heap_evolves S rec (ve_heap e) (ve_heap e @ [initial_state c vid r])" for c vid r
    by (rule heap_evolves_snoc) (auto simp: fresh_state_def)
  then show ?thesis
    by (auto simp: start_verification_def Let_def split: option.splits prod.splits)
qed

lemma recover_one_grows:
  "ve_heap (snd (recover_one ios now r ne)) = ve_heap (snd ne) \<or>
   ve_heap (snd (recover_one ios now r ne)) = ve_heap (snd ne) @ [restored_state r]"
  by (auto simp: recover_one_def Let_def split: option.splits)

lemma recover_verifications_evolves:
  "heap_evolves S True (ve_heap e) (ve_heap (snd (recover_verifications io ios now e)))"
proof -
  let ?P = "\<lambda>ne :: (nat \<times> nat) \<times> ver_engine. \<exists>rs. ve_heap (snd ne) = ve_heap e @ map restored_state rs"
  have "?P (fold (recover_one ios now) xs ((0, 0), e))" for xs
  proof (rule fold_keeps)
    fix r ne
    assume "?P ne"
    then obtain rs where rs: "ve_heap (snd ne) = ve_heap e @ map restored_state rs" ..
    show "?P (recover_one ios now r ne)"
      using recover_one_grows [of ios now r ne] rs by (auto intro: exI [of _ rs] exI [of _ "rs @ [r]"])
  qed auto
  moreover have "heap_evolves S True h (h @ map restored_state rs)" for h rs
    by (auto simp: heap_evolves_def nth_append fresh_state_def)
  ultimately have "heap_evolves S True (ve_heap e) (ve_heap (snd (fold (recover_one ios now) xs ((0, 0), e))))" for xs
    by metis
  then show ?thesis
    by (simp add: recover_verifications_def case_prod_unfold Let_def split: option.split sum.split)
qed

lemma ver_step_evolves:
  assumes "ver_inv e"
  shows "heap_evolves (op_samples x) (is_recover x) (ve_heap e) (ve_heap (ver_step x e))"
  using process_sample_evolves [OF assms]
  by (cases x)
     (simp_all add: start_verification_evolves finish_verification_evolves reconcile_timeouts_evolves
       recover_verifications_evolves cancel_verification_def fail_verification_def)

text \<open>What holds of every new state and survives a step holds of every state of a run.\<close>

lemma run_states:
  assumes "ver_inv e" "\<And>s. s \<in> set (ve_heap e) \<Longrightarrow> P s" "\<And>x. x \<in> set xs \<Longrightarrow> \<not> is_recover x"
    and "\<And>c vid r. P (initial_state c vid r)"
    and "\<And>x s s'. x \<in> set xs \<Longrightarrow> P s \<Longrightarrow> state_step (op_samples x) s s' \<Longrightarrow> P s'"
  shows "\<forall>s \<in> set (ve_heap (ver_run xs e)). P s"
  using assms
proof (induction xs arbitrary: e)
  case (Cons x xs)
  have mono: "P s'" if "(state_step (op_samples x))\<^sup>*\<^sup>* s s'" "P s" for s s'
    using that by (induction rule: rtranclp_induct) (auto intro: Cons.prems(5) [of x])
  have "P s" if "s \<in> set (ve_heap (ver_step x e))" for s
  proof -
    from that obtain a where a: "a < length (ve_heap (ver_step x e))" "s = ve_heap (ver_step x e) ! a"
      by (auto simp: in_set_conv_nth)
    note ev = ver_step_evolves [OF Cons.prems(1), of x, unfolded heap_evolves_def]
    show ?thesis
    proof (cases "a < length (ve_heap e)")
      case True
      with ev a mono [of "ve_heap e ! a" s] Cons.prems(2) show ?thesis by simp
    next
      case False
      with ev a Cons.prems(3) [of x] have "fresh_state False s" by simp
      with Cons.prems(4) show ?thesis by (auto simp: fresh_state_def)
    qed
  qed
  note new = this
  have later: "P s'" if "y \<in> set xs" "P s" "state_step (op_samples y) s s'" for y s s'
    using that Cons.prems(5) [of y s s'] by simp
  show ?case
    unfolding ver_run_Cons
    by (rule Cons.IH [OF ver_step_inv [OF Cons.prems(1)] new])
       (use Cons.prems(3,4) later in \<open>auto\<close>)
qed simp

end
