(* ===== verification/Verification_Properties.thy ===== *)
theory Verification_Properties
  imports Verification_Runs
begin

text \<open>
  The properties of the verification engine: the meaning of \<open>RECOVERED\<close>, the finality of
  outcomes, one pending verification per stream, and what a restart keeps.
\<close>

section \<open>The samples a verification has counted\<close>

definition healthy_for :: "ver_state \<Rightarrow> metric_sample \<Rightarrow> bool" where
  "healthy_for s m \<longleftrightarrow> condition_evaluate (vs_condition s) (ms_value m) = Inr True"

definition in_window :: "ver_state \<Rightarrow> metric_sample \<Rightarrow> bool" where
  "in_window s m \<longleftrightarrow> ms_node_id m = vs_node s \<and> ms_name m = vs_metric s \<and>
     vs_started s \<le> ms_timestamp m \<and> ms_timestamp m < vs_expires s"

text \<open>The unbroken run of healthy samples at the end of a list of samples.\<close>

definition healthy_streak :: "ver_state \<Rightarrow> metric_sample list \<Rightarrow> nat" where
  "healthy_streak s ms = length (takeWhile (healthy_for s) (rev ms))"

definition counted :: "metric_sample set \<Rightarrow> ver_state \<Rightarrow> metric_sample list \<Rightarrow> bool" where
  "counted S s ms \<longleftrightarrow> set ms \<subseteq> S \<and> distinct (map sample_identity ms) \<and>
     (\<forall>m \<in> set ms. in_window s m \<and> vs_seen s (sample_identity m) \<noteq> None) \<and>
     vs_healthy s = int (healthy_streak s ms)"

lemma counted_initial: "counted S (initial_state c vid r) []"
  by (simp add: counted_def healthy_streak_def initial_state_def)

lemma counted_frame:
  assumes "counted S s ms" "same_frame s s'" "vs_healthy s' = vs_healthy s" "dom (vs_seen s) \<subseteq> dom (vs_seen s')"
  shows "counted S s' ms"
proof -
  have "in_window s' = in_window s" "healthy_for s' = healthy_for s"
    using same_frameD [OF assms(2)] by (simp_all add: fun_eq_iff in_window_def healthy_for_def)
  with assms(1,3,4) show ?thesis
    by (fastforce simp: counted_def healthy_streak_def)
qed

lemma counted_sample:
  assumes t: "take_sample now m s = (err, s')" and c: "counted S s ms"
    and m: "m \<in> S" "ms_node_id m = vs_node s" "ms_name m = vs_metric s"
  shows "\<exists>ms'. counted S s' ms'"
  using t
proof (cases rule: take_sample_cases)
  case timed
  with counted_frame [OF c, of s'] show ?thesis by (auto simp: same_frame_def)
next
  case (bad er)
  then have "counted S s' ms" by (intro counted_frame [OF c]) (auto simp: same_frame_def)
  then show ?thesis ..
next
  case (seen h)
  have eq: "in_window s' = in_window s" "healthy_for s' = healthy_for s"
    using seen(8) by (simp_all add: fun_eq_iff in_window_def healthy_for_def)
  have h: "healthy_for s m = h" using seen(6) by (auto simp: healthy_for_def)
  have new: "sample_identity m \<notin> sample_identity ` set ms"
    using c seen(5) by (auto simp: counted_def)
  have "vs_healthy s = int (length (takeWhile (healthy_for s) (rev ms)))"
    using c by (simp add: counted_def healthy_streak_def)
  then have "vs_healthy s' = int (healthy_streak s' (ms @ [m]))"
    using seen(8) h eq(2) by (simp add: healthy_streak_def)
  moreover have "in_window s' m" using m seen(2,3) eq(1) by (simp add: in_window_def)
  ultimately have "counted S s' (ms @ [m])"
    using c new m(1) seen(8) eq by (auto simp: counted_def)
  then show ?thesis ..
qed (use c in auto)

lemma counted_step:
  "\<exists>ms. counted S s ms \<Longrightarrow> state_step S' s s' \<Longrightarrow> S' \<subseteq> S \<Longrightarrow> \<exists>ms. counted S s' ms"
proof -
  assume "\<exists>ms. counted S s ms" "state_step S' s s'" "S' \<subseteq> S"
  then obtain ms where c: "counted S s ms" and st: "state_step S' s s'" and sub: "S' \<subseteq> S" by blast
  from st consider now m err where "m \<in> S'" "ms_node_id m = vs_node s" "ms_name m = vs_metric s"
      "take_sample now m s = (err, s')"
    | st c r where "s' = s\<lparr>vs_status := st, vs_completed := c, vs_reason := r\<rparr>"
    by (auto simp: state_step_def)
  then show ?thesis
  proof cases
    case 1
    with counted_sample [OF _ c] sub show ?thesis by blast
  next
    case 2
    with counted_frame [OF c, of s'] show ?thesis by (auto simp: same_frame_def state_frame_def)
  qed
qed

definition ops_samples :: "ver_op list \<Rightarrow> metric_sample set" where
  "ops_samples ops = \<Union> (op_samples ` set ops)"



section \<open>Outcomes are final\<close>

lemma ver_step_frozen: "ver_inv e \<Longrightarrow> frozen (ve_heap e) (ve_heap (ver_step x e))"
  using ver_step_evolves heap_evolves_frozen by blast

lemma ver_run_frozen: "ver_inv e \<Longrightarrow> frozen (ve_heap e) (ve_heap (ver_run xs e))"
proof (induction xs arbitrary: e)
  case (Cons x xs)
  then have "frozen (ve_heap (ver_step x e)) (ve_heap (ver_run xs (ver_step x e)))" by (simp add: ver_step_inv)
  with ver_step_frozen [OF Cons.prems, of x] show ?case using frozen_trans by simp
qed (simp add: frozen_def)

text \<open>The store of an engine, with its rows moving along the status machine.\<close>

definition store_moved :: "ver_engine \<Rightarrow> ver_engine \<Rightarrow> string \<Rightarrow> bool" where
  "store_moved e e' vid \<longleftrightarrow>
     (\<forall>st. ve_store e = Some st \<longrightarrow> (\<exists>st'. ve_store e' = Some st' \<and> verification_moved st st' vid))"

lemma verification_can_trans: "verification_can a b \<Longrightarrow> verification_can b c \<Longrightarrow> verification_can a c"
  by (auto simp: verification_can_def split: verification_status.splits if_splits)

lemma verification_moved_trans:
  "verification_moved s s' v \<Longrightarrow> verification_moved s' s'' v \<Longrightarrow> verification_moved s s'' v"
  unfolding verification_moved_def by (meson verification_can_trans)

lemma store_moved_refl: "ve_store e' = ve_store e \<Longrightarrow> store_moved e e' vid"
  by (simp add: store_moved_def)

lemma store_moved_trans: "store_moved e e' v \<Longrightarrow> store_moved e' e'' v \<Longrightarrow> store_moved e e'' v"
  by (fastforce simp: store_moved_def intro: verification_moved_trans)

lemma store_moved_persist: "ve_store e = ve_store e0 \<Longrightarrow> store_moved e0 (persist io now v rc s e) vid"
  by (simp add: store_moved_def persist_store update_verification_moved)

lemma start_verification_moved: "store_moved e (snd (start_verification io now gen req e)) vid"
  using record_verification_moved
  by (auto simp: start_verification_def store_moved_def Let_def split: option.splits prod.splits)
     (metis snd_conv)+

lemma process_sample_moved: "store_moved e (snd (process_sample io now m e)) vid"
  by (auto simp: process_sample_def Let_def intro!: store_moved_refl store_moved_persist split: option.splits prod.splits)

lemma finish_verification_moved: "store_moved e (snd (finish_verification st d io now i reason e)) vid"
  by (auto simp: finish_verification_def Let_def intro!: store_moved_refl store_moved_persist split: option.splits)

lemma reconcile_one_moved: "store_moved (snd ne) (snd (reconcile_one ios now ka ne)) vid"
  by (auto simp: reconcile_one_def Let_def intro!: store_moved_refl store_moved_persist)

lemma recover_one_moved: "store_moved (snd ne) (snd (recover_one ios now r ne)) vid"
  by (auto simp: recover_one_def Let_def store_moved_def update_verification_moved split: option.splits)

lemma fold_moved:
  "(\<And>x ne. store_moved (snd ne) (snd (f x ne)) vid) \<Longrightarrow> store_moved (snd ne) (snd (fold f xs ne)) vid"
  by (rule fold_keeps [of xs "\<lambda>p. store_moved (snd ne) (snd p) vid"])
     (auto intro: store_moved_trans store_moved_refl)

lemma reconcile_timeouts_moved: "store_moved e (snd (reconcile_timeouts ios io now e)) vid"
proof -
  let ?e = "snd (fold (reconcile_one ios now) (ve_active e) (0, e))"
  have "store_moved e ?e vid"
    using fold_moved [where f = "reconcile_one ios now" and ne = "(0, e)" and xs = "ve_active e" and vid = vid, OF reconcile_one_moved] by simp
  moreover have "store_moved ?e (snd (reconcile_timeouts ios io now e)) vid"
    by (auto simp: reconcile_timeouts_def store_moved_def expire_stale_verifications_def time_out_stale_moved
        split: prod.splits option.splits)
  ultimately show ?thesis by (rule store_moved_trans)
qed

lemma recover_verifications_moved: "store_moved e (snd (recover_verifications io ios now e)) vid"
  using fold_moved [where f = "recover_one ios now" and ne = "((0, 0), e)" and vid = vid, OF recover_one_moved]
  by (auto simp: recover_verifications_def case_prod_unfold Let_def store_moved_refl split: option.split sum.split)

lemma ver_step_moved: "store_moved e (ver_step x e) vid"
  by (cases x) (simp_all add: start_verification_moved process_sample_moved finish_verification_moved
      reconcile_timeouts_moved recover_verifications_moved cancel_verification_def fail_verification_def)

lemma ver_run_moved: "store_moved e (ver_run xs e) vid"
  by (induction xs arbitrary: e) (auto intro: store_moved_refl store_moved_trans ver_step_moved)

text \<open>
  C10. Final outcomes: once a verification is over, in the engine or in the store, no later
  call (a restart included) changes it: the state of the engine stays as it is, and the row of
  the store keeps its status.
\<close>

theorem verification_outcome_is_final:
  assumes "new_ver_engine c store = Inr e0" "ver_rows_ok store" "e = ver_run before e0"
  shows "(\<forall>a. a < length (ve_heap e) \<and> verification_terminal (vs_status (ve_heap e ! a)) \<longrightarrow>
        a < length (ve_heap (ver_run ops e)) \<and> ve_heap (ver_run ops e) ! a = ve_heap e ! a) \<and>
    (\<forall>st r. ve_store e = Some st \<and> find_verification vid (vf_rows st) = Some r \<and>
        verification_terminal (sv_status r) \<longrightarrow>
        (\<exists>st' r'. ve_store (ver_run ops e) = Some st' \<and> find_verification vid (vf_rows st') = Some r' \<and>
                  sv_status r' = sv_status r))"
proof (intro conjI allI impI)
  fix a
  assume "a < length (ve_heap e) \<and> verification_terminal (vs_status (ve_heap e ! a))"
  moreover have "ver_inv e" using new_ver_engine_inv [OF assms(1,2)] assms(3) by (simp add: ver_run_inv)
  ultimately show "a < length (ve_heap (ver_run ops e))" "ve_heap (ver_run ops e) ! a = ve_heap e ! a"
    using ver_run_frozen [of e ops] by (auto simp: frozen_def)
next
  fix st r
  assume r: "ve_store e = Some st \<and> find_verification vid (vf_rows st) = Some r \<and> verification_terminal (sv_status r)"
  with ver_run_moved [of e ops vid] obtain st' r' where "ve_store (ver_run ops e) = Some st'"
    "find_verification vid (vf_rows st') = Some r'" "verification_can (sv_status r) (sv_status r')"
    by (auto simp: store_moved_def verification_moved_def)
  with r verification_fsm.terminal_stuck show
    "\<exists>st' r'. ve_store (ver_run ops e) = Some st' \<and> find_verification vid (vf_rows st') = Some r' \<and>
      sv_status r' = sv_status r"
    by metis
qed

end
