(* ===== verification/Go_Strings.thy ===== *)
theory Go_Strings
  imports Prelude
begin

text \<open>Texts of Go: \<open>strings.TrimSpace\<close> and the walk over runes.\<close>

section \<open>Trimming\<close>

text \<open>
  Rules for \<open>strings.TrimSpace\<close>: texts it leaves alone, its fixed points, and hexadecimal and decimal texts.
\<close>

lemma strip_stops: "w \<in> set ws \<Longrightarrow> w \<noteq> [] \<Longrightarrow> strip ws s \<noteq> [] \<Longrightarrow> \<not> starts_with w (strip ws s)"
proof (induction ws s rule: strip.induct)
  case (1 ws s)
  show ?case
  proof (cases "find (\<lambda>w. w \<noteq> [] \<and> s \<noteq> [] \<and> starts_with w s) ws")
    case None
    then have "strip ws s = s" by (subst strip.simps) simp
    with 1 None show ?thesis by (auto simp: find_None_iff)
  next
    case (Some v)
    then have "strip ws s = strip ws (drop (length v) s)" by (subst strip.simps) simp
    with 1 Some show ?thesis by simp
  qed
qed

lemma starts_with_append:
  assumes "starts_with w (u @ v)" "v \<noteq> [] \<Longrightarrow> byte (hd v) \<notin> set w"
  shows "starts_with w u"
proof (cases "length w \<le> length u \<or> v = []")
  case True
  with assms(1) show ?thesis by (auto simp: starts_with_def)
next
  case False
  then have "byte (hd v) \<in> set (take (length w) (map byte (u @ v)))"
    by (cases v) (auto simp: Suc_diff_le take_Cons' not_le)
  with assms(1) have "byte (hd v) \<in> set w" unfolding starts_with_def by metis
  with assms(2) False show ?thesis by simp
qed

lemma space_runes_bytes:
  "w \<in> set space_runes \<Longrightarrow> b \<in> set w \<Longrightarrow> b < 33 \<or> 127 < b"
  by (auto simp: space_runes_def)

lemma rev_space_runes_bytes:
  assumes "w \<in> set (map rev space_runes)" "byte c \<in> {33..127}"
  shows "byte c \<notin> set w"
  using assms space_runes_bytes by fastforce

lemma strip_front:
  assumes "byte c \<notin> set space_heads"
  shows "strip space_runes (c # s) = c # s"
proof (rule strip_id)
  fix w assume w: "w \<in> set space_runes" "w \<noteq> []"
  then obtain x w' where "w = x # w'" "x \<in> set space_heads"
    using space_runes_heads [OF w(1)] by (metis list.collapse)
  with assms show "\<not> starts_with w (c # s)" by (auto simp: starts_with_def)
qed

lemma trim_prefixed:
  assumes "byte c \<notin> set space_heads" "trim_space x \<noteq> []" "byte (last (c # p)) \<in> {33..127}"
  shows "trim_space ((c # p) @ trim_space x) = (c # p) @ trim_space x"
proof -
  let ?ws = "map rev space_runes"
  let ?u = "strip ?ws (rev (strip space_runes x))"
  have u: "trim_space x = rev ?u" "?u \<noteq> []" using assms(2) by (simp_all add: trim_space_def)
  have "strip ?ws (?u @ rev (c # p)) = ?u @ rev (c # p)"
  proof (rule strip_id)
    fix w assume w: "w \<in> set ?ws" "w \<noteq> []"
    have "byte (hd (rev (c # p))) \<notin> set w"
      unfolding hd_rev by (rule rev_space_runes_bytes [OF w(1) assms(3)])
    with starts_with_append [of w ?u "rev (c # p)"] strip_stops [OF w u(2)]
    show "\<not> starts_with w (?u @ rev (c # p))" by blast
  qed
  with strip_front [OF assms(1), of "p @ trim_space x"] show ?thesis
    by (simp add: trim_space_def)
qed

lemma trim_solid:
  assumes "byte c \<notin> set space_heads" "byte (last (c # p)) \<in> {33..127}"
  shows "trim_space (c # p) = c # p"
proof -
  have "strip (map rev space_runes) (rev (c # p)) = rev (c # p)"
  proof (rule strip_id)
    fix w assume w: "w \<in> set (map rev space_runes)" "w \<noteq> []"
    then have "byte (hd (rev (c # p))) \<noteq> hd w"
      using rev_space_runes_bytes [OF w(1) assms(2)] unfolding hd_rev by (metis hd_in_set)
    then show "\<not> starts_with w (rev (c # p))"
      using w(2) by (cases w; cases "rev (c # p)") (auto simp: starts_with_def)
  qed
  with strip_front [OF assms(1), of p] show ?thesis by (simp add: trim_space_def)
qed

lemma byte_digit: "n < 10 \<Longrightarrow> byte (char_of (48 + n :: nat)) = 48 + n"
  by (simp add: byte_def of_char_of)

lemma last_itoa: "\<exists>v n. itoa i = v @ [char_of (48 + n :: nat)] \<and> n < 10"
proof -
  have "\<exists>v n. show_nat k = v @ [char_of (48 + n :: nat)] \<and> n < 10" for k
    by (subst show_nat.simps) (auto intro: exI [of _ k] exI [of _ "k mod 10"])
  then show ?thesis by (auto simp: itoa_def) (metis append_Cons)+
qed

lemma strip_suffix: "\<exists>u. s = u @ strip ws s"
proof (induction ws s rule: strip.induct)
  case (1 ws s)
  show ?case
  proof (cases "find (\<lambda>w. w \<noteq> [] \<and> s \<noteq> [] \<and> starts_with w s) ws")
    case (Some w)
    with 1 obtain u where "drop (length w) s = u @ strip ws (drop (length w) s)" by blast
    then have "s = (take (length w) s @ u) @ strip ws (drop (length w) s)" by (metis append.assoc append_take_drop_id)
    moreover have "strip ws s = strip ws (drop (length w) s)" using Some by (subst strip.simps) simp
    ultimately show ?thesis by metis
  qed (subst strip.simps, simp)
qed

lemma trim_space_idem: "trim_space (trim_space s) = trim_space s"
proof (cases "trim_space s = []")
  case False
  let ?left = "strip space_runes s" and ?ws = "map rev space_runes"
  obtain u where u: "rev ?left = u @ strip ?ws (rev ?left)" using strip_suffix by blast
  then have left: "?left = trim_space s @ rev u" unfolding trim_space_def by (metis rev_append rev_rev_ident)
  have "strip space_runes (trim_space s) = trim_space s"
  proof (rule strip_id)
    fix w assume w: "w \<in> set space_runes" "w \<noteq> []"
    from False left have "?left \<noteq> []" by auto
    from strip_stops [OF w this] show "\<not> starts_with w (trim_space s)"
      unfolding left by (auto simp: starts_with_def)
  qed
  moreover have "strip ?ws (rev (trim_space s)) = rev (trim_space s)"
  proof (rule strip_id)
    fix w assume w: "w \<in> set ?ws" "w \<noteq> []"
    from False have "strip ?ws (rev ?left) \<noteq> []" by (simp add: trim_space_def)
    from strip_stops [OF w this] show "\<not> starts_with w (rev (trim_space s))" by (simp add: trim_space_def)
  qed
  ultimately show ?thesis unfolding trim_space_def [of "trim_space s"] by simp
qed (simp add: trim_space_def)

section \<open>Hexadecimal\<close>

lemma byte_hex_digit: "n < 16 \<Longrightarrow> byte (hex_digit n) = (if n < 10 then 48 + n else 87 + n)"
  by (simp add: hex_digit_def byte_def of_char_of)

lemma hex_bytes_Cons: "hex_bytes (b # bs) = hex_digit (b div 16 mod 16) # hex_digit (b mod 16) # hex_bytes bs"
  by (simp add: hex_bytes_def)

lemma hex_bytes_chars: "c \<in> set (hex_bytes bs) \<Longrightarrow> byte c \<in> {48..57} \<union> {97..102}"
proof (induction bs)
  case (Cons b bs)
  have "byte (hex_digit n) \<in> {48..57} \<union> {97..102}" if "n < 16" for n
    using that by (simp add: byte_hex_digit)
  from this [of "b div 16 mod 16"] this [of "b mod 16"] Cons show ?case by (auto simp: hex_bytes_Cons)
qed (simp add: hex_bytes_def)

lemma trim_hex: "trim_space (hex_bytes bs) = hex_bytes bs"
proof (cases "hex_bytes bs")
  case (Cons c p)
  have "last (c # p) \<in> set (hex_bytes bs)" "c \<in> set (hex_bytes bs)" unfolding Cons by simp_all
  then have "byte c \<notin> set space_heads" "byte (last (c # p)) \<in> {33..127}"
    using hex_bytes_chars by (fastforce simp: space_heads_def)+
  from trim_solid [OF this] show ?thesis by (simp add: Cons)
qed (simp add: trim_space_def)

lemma to_lower_low: "(\<And>c. c \<in> set s \<Longrightarrow> byte c \<in> {48..57} \<union> {97..102}) \<Longrightarrow> to_lower s = s"
proof (induction s)
  case (Cons a s)
  have "to_lower s = s" by (rule Cons.IH) (rule Cons.prems, simp)
  moreover have "byte a \<noteq> 0xC4" "byte a \<noteq> 0xE2" "\<not> (65 \<le> byte a \<and> byte a \<le> 90)" using Cons.prems [of a] by auto
  ultimately show ?case by (auto simp: starts_with_def lower_byte_def)
qed simp

lemma lower_hex: "to_lower (hex_bytes bs) = hex_bytes bs"
  using to_lower_low hex_bytes_chars by blast

section \<open>Runes\<close>

text \<open>
  Go's iteration over the runes of a string (\<open>for _, r := range s\<close>) and \<open>truncateReason\<close> of
  \<open>edge/agent/sync/syncer.go\<close>, which cuts a text at a rune.
\<close>

text \<open>The second bytes a leading byte accepts, and the number of bytes it announces.\<close>

definition lead :: "nat \<Rightarrow> (nat \<times> nat \<times> nat) option" where
  "lead b =
     (if 194 \<le> b \<and> b \<le> 223 then Some (2, 128, 191)
      else if b = 224 then Some (3, 160, 191)
      else if b = 237 then Some (3, 128, 159)
      else if 225 \<le> b \<and> b \<le> 239 then Some (3, 128, 191)
      else if b = 240 then Some (4, 144, 191)
      else if 241 \<le> b \<and> b \<le> 243 then Some (4, 128, 191)
      else if b = 244 then Some (4, 128, 143)
      else None)"

definition continuation :: "char \<Rightarrow> bool" where
  "continuation c \<longleftrightarrow> 128 \<le> byte c \<and> byte c \<le> 191"

text \<open>The length of a well-formed rune at the front of a text.\<close>

fun rune_at :: "string \<Rightarrow> nat option" where
  "rune_at [] = None"
| "rune_at (c # s) =
     (if byte c < 128 then Some 1
      else case lead (byte c) of None \<Rightarrow> None | Some (n, lo, hi) \<Rightarrow>
        (case s of [] \<Rightarrow> None | d # s' \<Rightarrow>
           if lo \<le> byte d \<and> byte d \<le> hi \<and> n - 2 \<le> length s' \<and> list_all continuation (take (n - 2) s')
           then Some n else None))"

text \<open>
  The bytes an iteration steps over, and the length (\<open>utf8.RuneLen\<close>) of the rune it yields: a byte
  that starts no rune yields U+FFFD, of length 3.
\<close>

definition rune_step :: "string \<Rightarrow> nat \<times> nat" where
  "rune_step s = (case rune_at s of Some n \<Rightarrow> (n, n) | None \<Rightarrow> (1, 3))"

lemma lead_width: "lead b = Some (n, lo, hi) \<Longrightarrow> 2 \<le> n \<and> n \<le> 4"
  by (auto simp: lead_def split: if_splits)

lemma rune_at_width: "rune_at s = Some n \<Longrightarrow> 0 < n \<and> n \<le> length s"
  by (cases s rule: rune_at.cases) (auto split: if_splits option.splits list.splits dest: lead_width)

lemma rune_step_pos: "0 < fst (rune_step s)" "0 < snd (rune_step s)"
  by (auto simp: rune_step_def dest: rune_at_width split: option.split)

section \<open>Truncation\<close>

text \<open>The loop that counts the bytes of the leading runes that fit.\<close>

function rune_prefix :: "nat \<Rightarrow> nat \<Rightarrow> string \<Rightarrow> nat" where
  "rune_prefix limit cnt s =
     (if s = [] then cnt
      else if limit < cnt + snd (rune_step s) then cnt
      else rune_prefix limit (cnt + snd (rune_step s)) (drop (fst (rune_step s)) s))"
  by auto
termination
  by (relation "measure (\<lambda>(_, _, s). length s)") (use rune_step_pos in auto)

declare rune_prefix.simps [simp del]

definition truncate_reason :: "string \<Rightarrow> int \<Rightarrow> string" where
  "truncate_reason s max_bytes =
     (if max_bytes \<le> 0 then []
      else if int (length s) \<le> max_bytes then s
      else if max_bytes \<le> 3 then take (rune_prefix (nat max_bytes) 0 s) s
      else take (rune_prefix (nat max_bytes - 3) 0 s) s @ ''...'')"

lemma rune_prefix_bounds:
  "cnt \<le> limit \<Longrightarrow> cnt \<le> rune_prefix limit cnt s \<and> rune_prefix limit cnt s \<le> limit"
proof (induction limit cnt s rule: rune_prefix.induct)
  case (1 limit cnt s)
  show ?case
    by (subst (1 2) rune_prefix.simps) (use 1 in \<open>auto simp: not_less\<close>)
qed

lemma length_truncate_reason: "0 \<le> n \<Longrightarrow> int (length (truncate_reason s n)) \<le> n"
  using rune_prefix_bounds [of 0 "nat n" s] rune_prefix_bounds [of 0 "nat n - 3" s]
  by (auto simp: truncate_reason_def)

section \<open>Valid texts\<close>

text \<open>A text that is a sequence of well-formed runes.\<close>

function valid_utf8 :: "string \<Rightarrow> bool" where
  "valid_utf8 s \<longleftrightarrow> s = [] \<or> (case rune_at s of None \<Rightarrow> False | Some n \<Rightarrow> valid_utf8 (drop n s))"
  by auto
termination
  by (relation "measure length") (auto dest: rune_at_width)

declare valid_utf8.simps [simp del]

lemma valid_utf8_Nil [simp]: "valid_utf8 []"
  by (simp add: valid_utf8.simps)

lemma rune_at_append: "rune_at s = Some n \<Longrightarrow> rune_at (take n s @ t) = Some n"
proof (cases s)
  case (Cons c s')
  assume r: "rune_at s = Some n"
  show ?thesis
  proof (cases "byte c < 128")
    case True
    with r Cons have "n = 1" by simp
    with True Cons show ?thesis by simp
  next
    case False
    with r Cons obtain lo hi d u where l: "lead (byte c) = Some (n, lo, hi)" "s' = d # u"
      "lo \<le> byte d \<and> byte d \<le> hi \<and> n - 2 \<le> length u \<and> list_all continuation (take (n - 2) u)"
      by (auto split: option.splits list.splits if_splits)
    have "2 \<le> n" using lead_width [OF l(1)] by simp
    then obtain k where "n = Suc (Suc k)" by (cases n; cases "n - 1") auto
    with l Cons False show ?thesis by simp
  qed
qed simp

lemma valid_utf8_append:
  "valid_utf8 u \<Longrightarrow> valid_utf8 v \<Longrightarrow> valid_utf8 (u @ v)"
proof (induction u rule: valid_utf8.induct)
  case (1 u)
  show ?case
  proof (cases "u = []")
    case False
    with 1(2) obtain n where n: "rune_at u = Some n" "valid_utf8 (drop n u)"
      by (subst (asm) valid_utf8.simps) (auto split: option.splits)
    with 1 False have IH: "valid_utf8 (drop n u @ v)" by blast
    have "n \<le> length u" using rune_at_width [OF n(1)] by simp
    then have "rune_at (u @ v) = Some n" "drop n (u @ v) = drop n u @ v"
      using rune_at_append [OF n(1), of "drop n u @ v"] by (simp_all add: append_assoc [symmetric])
    with IH show ?thesis by (subst valid_utf8.simps) simp
  qed (use 1 in simp)
qed

lemma valid_utf8_rune: "rune_at s = Some n \<Longrightarrow> valid_utf8 (take n s)"
proof -
  assume r: "rune_at s = Some n"
  then have "rune_at (take n s) = Some n" using rune_at_append [of s n "[]"] by simp
  then show ?thesis by (subst valid_utf8.simps) simp
qed

lemma rune_prefix_valid:
  "valid_utf8 s \<Longrightarrow> \<exists>k. rune_prefix limit cnt s = cnt + k \<and> k \<le> length s \<and> valid_utf8 (take k s)"
proof (induction limit cnt s rule: rune_prefix.induct)
  case (1 limit cnt s)
  show ?case
  proof (cases "s = [] \<or> limit < cnt + snd (rune_step s)")
    case True
    then show ?thesis by (subst rune_prefix.simps) (auto intro: exI [of _ 0])
  next
    case False
    with 1(2) obtain n where n: "rune_at s = Some n" "valid_utf8 (drop n s)"
      by (subst (asm) valid_utf8.simps) (auto split: option.splits)
    then have step: "rune_step s = (n, n)" by (simp add: rune_step_def)
    with 1(1) False n obtain k where k: "rune_prefix limit (cnt + n) (drop n s) = cnt + n + k"
      "k \<le> length (drop n s)" "valid_utf8 (take k (drop n s))" by auto
    have "take (n + k) s = take n s @ take k (drop n s)" by (simp add: take_add)
    then have "valid_utf8 (take (n + k) s)" using valid_utf8_append valid_utf8_rune n(1) k(3) by metis
    moreover have "n + k \<le> length s" using k(2) rune_at_width [OF n(1)] by auto
    moreover have "rune_prefix limit cnt s = cnt + (n + k)"
      by (subst rune_prefix.simps) (use False step k(1) in simp)
    ultimately show ?thesis by blast
  qed
qed

text \<open>A valid text stays valid: the cut never splits a rune.\<close>

lemma valid_utf8_ascii: "\<forall>c \<in> set s. byte c < 128 \<Longrightarrow> valid_utf8 s"
proof (induction s)
  case (Cons c s)
  then show ?case by (subst valid_utf8.simps) simp
qed simp

lemma valid_utf8_truncate_reason: "valid_utf8 s \<Longrightarrow> valid_utf8 (truncate_reason s n)"
proof -
  assume v: "valid_utf8 s"
  have cut: "valid_utf8 (take (rune_prefix l 0 s) s)" for l
    using rune_prefix_valid [OF v, of l 0] by auto
  have "valid_utf8 ''...''" by (rule valid_utf8_ascii) (simp add: byte_def)
  with v cut show ?thesis by (simp add: truncate_reason_def valid_utf8_append)
qed

end
