(* ===== verification/Verification_Restart.thy ===== *)
theory Verification_Restart
  imports Verification_Properties Go_Strings
begin

text \<open>
  What a restart keeps of a pending verification: the row of the store carries the whole state,
  the samples already counted included, when no sample identity contains a comma.
\<close>

section \<open>Sample identities survive trimming\<close>

lemma sample_identity_trimmed: "trim_space (sample_identity m) = sample_identity m"
proof (cases "trim_space (ms_sample_id m) = []")
  case True
  obtain v n where v: "itoa (float_bits (ms_value m)) = v @ [char_of (48 + n :: nat)]" "n < 10"
    using last_itoa by blast
  then obtain p where p: "sample_identity m = CHR ''f'' # p @ [char_of (48 + n :: nat)]"
    using True by (simp add: sample_identity_def)
  show ?thesis unfolding p
    by (rule trim_solid) (use v(2) in \<open>simp_all add: byte_digit space_heads_def byte_def [of "CHR ''f''"]\<close>)
next
  case False
  then have "sample_identity m = (CHR ''s'' # ''id:'') @ trim_space (ms_sample_id m)"
    by (simp add: sample_identity_def)
  then show ?thesis
    using trim_prefixed [of "CHR ''s''" "ms_sample_id m" "''id:''"] False
    by (simp add: space_heads_def byte_def)
qed

lemma sample_identity_nonempty [simp]: "sample_identity m \<noteq> []"
  by (simp add: sample_identity_def Let_def)


section \<open>The row carries the state\<close>

text \<open>The samples already seen, as the evidence keeps them.\<close>

definition seen_recorded :: "ver_state \<Rightarrow> bool" where
  "seen_recorded s \<longleftrightarrow>
     (\<exists>ids. map_of (vs_evidence s) ''seen_samples'' = (if ids = [] then None else Some (Lit (join '','' ids))) \<and>
        dom (vs_seen s) = set ids \<and> (\<forall>i \<in> set ids. i \<noteq> [] \<and> CHR '','' \<notin> set i \<and> trim_space i = i))"

definition comma_free :: "metric_sample \<Rightarrow> bool" where
  "comma_free m \<longleftrightarrow> CHR '','' \<notin> set (sample_identity m)"

lemma seen_recorded_initial: "seen_recorded (initial_state c vid r)"
  by (auto simp: seen_recorded_def initial_state_def intro: exI [of _ "[]"])

lemma join_nonempty: "xs \<noteq> [] \<Longrightarrow> (\<And>x. x \<in> set xs \<Longrightarrow> x \<noteq> []) \<Longrightarrow> join sep xs \<noteq> []"
  by (induction sep xs rule: join.induct) auto

lemma seen_recorded_note:
  assumes "seen_recorded s" "comma_free m"
  shows "seen_recorded (note_seen (sample_identity m) t s)"
proof -
  let ?i = "sample_identity m"
  obtain ids where ids: "map_of (vs_evidence s) ''seen_samples'' = (if ids = [] then None else Some (Lit (join '','' ids)))"
    "dom (vs_seen s) = set ids" "\<forall>i \<in> set ids. i \<noteq> [] \<and> CHR '','' \<notin> set i \<and> trim_space i = i"
    using assms(1) by (auto simp: seen_recorded_def)
  have "map_of (vs_evidence (note_seen ?i t s)) ''seen_samples'' = Some (Lit (join '','' (ids @ [?i])))"
    using ids(1,3) join_nonempty [of ids] by (cases "ids = []")
      (auto simp: note_seen_def update_conv' join_snoc)
  then show ?thesis
    using ids assms(2) sample_identity_trimmed [of m]
    unfolding seen_recorded_def by (intro exI [of _ "ids @ [?i]"]) (auto simp: comma_free_def)
qed

lemma seen_recorded_observe: "seen_recorded s \<Longrightarrow> seen_recorded (observe m h s)"
  by (simp add: seen_recorded_def observe_def Let_def recovery_evidence_def update_conv')

lemma seen_recorded_same:
  "seen_recorded s \<Longrightarrow> vs_evidence s' = vs_evidence s \<Longrightarrow> vs_seen s' = vs_seen s \<Longrightarrow> seen_recorded s'"
  by (simp add: seen_recorded_def)

lemma seen_recorded_sample:
  assumes "take_sample now m s = (err, s')" "seen_recorded s" "comma_free m"
  shows "seen_recorded s'"
  using assms(1)
proof (cases rule: take_sample_cases)
  case timed
  with assms(2) show ?thesis by (auto intro: seen_recorded_same simp: timed_out_def)
qed (use assms in \<open>simp_all add: seen_recorded_note seen_recorded_observe\<close>)

lemma seen_recorded_step:
  assumes "seen_recorded s" "state_step S s s'" "\<forall>m \<in> S. comma_free m"
  shows "seen_recorded s'"
  using assms(2,3) seen_recorded_sample [OF _ assms(1)] seen_recorded_same [OF assms(1)]
  by (auto simp: state_step_def)

lemma seen_recorded_restored:
  assumes "seen_recorded s"
  shows "dom (restored_seen t (vs_evidence s)) = dom (vs_seen s)"
proof -
  obtain ids where ids: "map_of (vs_evidence s) ''seen_samples'' = (if ids = [] then None else Some (Lit (join '','' ids)))"
    "dom (vs_seen s) = set ids" "\<forall>i \<in> set ids. i \<noteq> [] \<and> CHR '','' \<notin> set i \<and> trim_space i = i"
    using assms by (auto simp: seen_recorded_def)
  show ?thesis
  proof (cases "ids = []")
    case True
    with ids show ?thesis by (simp add: restored_seen_def)
  next
    case False
    have "trim_space ` set (split_on (CHR '','') (join '','' ids)) = set ids"
      using False ids(3) by (subst split_on_join) (auto simp: image_iff)
    then show ?thesis
      using False ids join_nonempty [OF False] by (auto simp: restored_seen_def dom_def split: if_splits)
  qed
qed

text \<open>Two states that differ only in the times at which their samples were seen.\<close>

definition same_but_times :: "ver_state \<Rightarrow> ver_state \<Rightarrow> bool" where
  "same_but_times s s' \<longleftrightarrow> dom (vs_seen s') = dom (vs_seen s) \<and> s' = s\<lparr>vs_seen := vs_seen s'\<rparr>"

text \<open>A stream of samples, each with the time of its call.\<close>

definition feed :: "(gotime \<times> metric_sample) list \<Rightarrow> ver_state \<Rightarrow> ver_state" where
  "feed xs s = fold (\<lambda>(now, m) s. if verification_terminal (vs_status s) then s else snd (take_sample now m s)) xs s"

lemma same_but_times_sample:
  assumes "same_but_times s s'"
  shows "fst (take_sample now m s') = fst (take_sample now m s)"
    and "same_but_times (snd (take_sample now m s)) (snd (take_sample now m s'))"
proof -
  obtain f where s': "s' = s\<lparr>vs_seen := f\<rparr>" "dom f = dom (vs_seen s)"
    using assms by (auto simp: same_but_times_def)
  then have seen: "f k = None \<longleftrightarrow> vs_seen s k = None" for k by (metis domIff)
  have noted: "note_seen k t (s\<lparr>vs_seen := f\<rparr>) = (note_seen k t s)\<lparr>vs_seen := f(k \<mapsto> t)\<rparr>" for k t
    by (simp add: note_seen_def)
  have obs: "observe m h (q\<lparr>vs_seen := g\<rparr>) = (observe m h q)\<lparr>vs_seen := g\<rparr>" for h q g
    by (simp add: observe_def Let_def recovery_evidence_def)
  show "fst (take_sample now m s') = fst (take_sample now m s)"
    by (simp add: take_sample_def s'(1) seen Let_def noted expired_by_def timed_out_def split: sum.split)
  show "same_but_times (snd (take_sample now m s)) (snd (take_sample now m s'))"
    using s'(2)
    by (auto simp: take_sample_def s'(1) seen Let_def noted obs expired_by_def timed_out_def same_but_times_def split: sum.split)
qed

lemma same_but_times_result: "same_but_times s s' \<Longrightarrow> to_result s' = to_result s"
  by (cases s; cases s') (auto simp: same_but_times_def to_result_def)

lemma same_but_times_feed: "same_but_times s s' \<Longrightarrow> same_but_times (feed xs s) (feed xs s')"
proof (induction xs arbitrary: s s')
  case (Cons x xs)
  obtain now m where x: "x = (now, m)" by fastforce
  have "vs_status s' = vs_status s" using Cons.prems by (auto simp: same_but_times_def) (metis ver_state.ext_inject ver_state.surjective ver_state.update_convs(20))
  with Cons.IH [OF same_but_times_sample(2) [OF Cons.prems, of now m]] Cons.IH [OF Cons.prems] show ?case
    by (simp add: feed_def x)
qed (simp add: feed_def)

text \<open>The row written for a pending state gives the state back.\<close>

lemma same_but_times_progress:
  assumes "row_frame r0 = state_frame s" "sv_id r0 = vs_id s" "vs_status s = VerificationPending"
    "vs_completed s = None" "vs_recovered s = None" "seen_recorded s"
    "vs_last_at s = Some t" "\<not> is_zero t" "vs_last_value s = Some v" "is_finite v"
  shows "same_but_times s (restored_state (apply_progress (progress_of v (vs_recovered s) s) now r0))"
  using assms seen_recorded_restored [OF assms(6)]
  by (cases s) (auto simp: same_but_times_def restored_state_def apply_progress_def progress_of_def null_time_def
      row_frame_def state_frame_def)

lemma ver_run_seen_recorded:
  assumes "new_ver_engine c store = Inr e0" "ver_rows_ok store" "list_all (\<lambda>x. \<not> is_recover x) ops"
    and "\<forall>x \<in> set ops. \<forall>m \<in> op_samples x. comma_free m"
  shows "\<forall>s \<in> set (ve_heap (ver_run ops e0)). seen_recorded s"
proof (rule run_states [OF new_ver_engine_inv [OF assms(1,2)]])
  show "seen_recorded s'" if "x \<in> set ops" "seen_recorded s" "state_step (op_samples x) s s'" for x s s'
    using seen_recorded_step [OF that(2,3)] that(1) assms(4) by blast
qed (use assms seen_recorded_initial in \<open>auto simp: new_ver_engine_heap list_all_iff\<close>)

lemma process_sample_pending:
  assumes "ver_inv e" "process_sample io now m e = (Inr (Some res), e')" "vr_status res = VerificationPending"
  obtains a s' where "map_of (ve_active e) (ms_node_id m, ms_name m) = Some a"
    "sample_validate m = None" "take_sample now m (ve_heap e ! a) = (None, s')" "vs_status s' = VerificationPending"
    "res = to_result s'" "e' = persist io now (ms_value m) (vs_recovered s') s' (put_state a s' e)"
proof -
  from assms(2) obtain a where a: "map_of (ve_active e) (ms_node_id m, ms_name m) = Some a"
    and v: "sample_validate m = None" by (auto simp: process_sample_def Let_def split: option.splits)
  note act = active_lookup [OF assms(1) a]
  obtain err s' where t: "take_sample now m (ve_heap e ! a) = (err, s')" by fastforce
  with assms(2) act(2) a v have err: "err = None" and res: "res = to_result s'"
    by (auto simp: process_sample_def Let_def split: option.splits)
  with assms(3) have p: "vs_status s' = VerificationPending" by (simp add: to_result_def)
  have "\<not> expired_by now m (ve_heap e ! a)"
    using t p by (auto simp: take_sample_def timed_out_def)
  with assms(2) act(2) a v t err p have "e' = persist io now (ms_value m) (vs_recovered s') s' (put_state a s' e)"
    by (simp add: process_sample_def Let_def)
  with that a v t err p res show ?thesis by blast
qed


end
