(* ===== verification/Verification_Examples.thy ===== *)
theory Verification_Examples
  imports Verification_Restart
begin

text \<open>
  The properties of the verification engine at concrete inputs, and the restart that counts a
  sample twice because its identity contains a comma.
\<close>

definition example_request :: verification_request where
  "example_request =
     \<lparr>vq_incident_id = ''i'', vq_action_id = ''a'', vq_decision_id = ''d'', vq_node_id = ''n'',
      vq_mitigation_status = MitigationExecuted, vq_condition = threshold_upper_condition ''cpu'' (Fin 80),
      vq_started_at = 10, vq_timeout = 100, vq_required = 2\<rparr>"

definition example_sample :: "string \<Rightarrow> gotime \<Rightarrow> metric_sample" where
  "example_sample i t =
     \<lparr>ms_sample_id = i, ms_node_id = ''n'', ms_name = ''cpu'', ms_value = Fin 40, ms_unit = [],
      ms_labels = [], ms_timestamp = t\<rparr>"

definition empty_verifications :: verification_store where
  "empty_verifications = \<lparr>vf_closed = False, vf_rows = []\<rparr>"

definition example_engine :: ver_engine where
  "example_engine = \<lparr>ve_config = default_ver_config, ve_store = Some empty_verifications, ve_heap = [],
     ve_active = [], ve_by_id = (\<lambda>_. None)\<rparr>"

lemma new_example_engine: "new_ver_engine default_ver_config (Some empty_verifications) = Inr example_engine"
  by (simp add: new_ver_engine_def ver_config_validate_def default_ver_config_def example_engine_def Let_def)

lemma example_rows: "ver_rows_ok (Some empty_verifications)"
  by (simp add: ver_rows_ok_def empty_verifications_def)

lemma not_blank_example:
  "\<not> blank ''i''" "\<not> blank ''a''" "\<not> blank ''d''" "\<not> blank ''n''" "\<not> blank ''v''" "\<not> blank ''cpu''"
  "\<not> blank ''THRESHOLD_UPPER''"
  by code_simp+

definition example_state :: ver_state where
  "example_state = initial_state default_ver_config ''v'' example_request"

lemmas example_defs = example_request_def example_sample_def empty_verifications_def example_engine_def
  example_state_def initial_state_def default_ver_config_def threshold_upper_condition_def

lemma request_example_valid: "request_validate example_request = None"
  by (simp add: request_validate_def example_defs condition_validate_def not_blank_example is_zero_def)

lemma record_example:
  "record_verification IoOk (state_to_stored 10 example_state) empty_verifications =
     (None, \<lparr>vf_closed = False, vf_rows = [state_to_stored 10 example_state]\<rparr>)"
proof -
  have "stored_verification_validate (state_to_stored 10 example_state) = None"
    by (simp add: example_defs stored_verification_validate_def state_to_stored_def not_blank_example
        is_zero_def effective_timeout_def)
  moreover have "(state_to_stored 10 example_state)\<lparr>sv_completed_at := None, sv_recovered_at := None,
      sv_last_at := None\<rparr> = state_to_stored 10 example_state"
    by (simp add: state_to_stored_def example_defs)
  ultimately show ?thesis
    by (simp add: record_verification_def empty_verifications_def set_verifications_def null_time_def)
       (simp add: state_to_stored_def example_defs)
qed

lemma example_start:
  "ver_step (VStart IoOk 10 (Some ''v'') example_request) example_engine =
     example_engine\<lparr>ve_store := Some \<lparr>vf_closed = False, vf_rows = [state_to_stored 10 example_state]\<rparr>,
       ve_heap := [example_state], ve_active := [((''n'', ''cpu''), 0)], ve_by_id := [''v'' \<mapsto> 0]\<rparr>"
proof -
  have e: "ve_active example_engine = []" "ve_heap example_engine = []" "ve_by_id example_engine = (\<lambda>_. None)"
    "ve_store example_engine = Some empty_verifications" "ve_config example_engine = default_ver_config"
    by (simp_all add: example_engine_def)
  have k: "(vq_node_id example_request, rc_metric (vq_condition example_request)) = (''n'', ''cpu'')"
    by (simp add: example_request_def threshold_upper_condition_def)
  show ?thesis
    by (simp add: start_verification_def request_example_valid Let_def e record_example
        flip: example_state_def k)
qed

lemma sample_example_valid: "t \<noteq> 0 \<Longrightarrow> sample_validate (example_sample i t) = None"
  by (simp add: sample_validate_def example_defs not_blank_example is_zero_def)


text \<open>A healthy sample, taken by the pending verification of its stream.\<close>

lemma take_example:
  assumes "vs_condition s = threshold_upper_condition ''cpu'' (Fin 80)" "vs_started s \<le> t" "t < vs_expires s"
    "now \<le> vs_expires s" "vs_seen s (sample_identity (example_sample i t)) = None"
  shows "take_sample now (example_sample i t) s =
    (None, observe (example_sample i t) True (note_seen (sample_identity (example_sample i t)) t s))"
  using assms
  by (simp add: take_sample_def expired_by_def condition_evaluate_def threshold_upper_condition_def example_sample_def)

lemma example_sample_sel:
  "ms_node_id (example_sample i t) = ''n''" "ms_name (example_sample i t) = ''cpu''"
  "ms_value (example_sample i t) = Fin 40" "ms_timestamp (example_sample i t) = t"
  by (simp_all add: example_sample_def)

lemma process_example:
  assumes "map_of (ve_active e) (''n'', ''cpu'') = Some a" "vs_status (ve_heap e ! a) = VerificationPending"
    "take_sample now (example_sample i t) (ve_heap e ! a) = (None, s')" "t \<noteq> 0"
    "t < vs_expires (ve_heap e ! a)" "now \<le> vs_expires (ve_heap e ! a)"
  shows "process_sample io now (example_sample i t) e = (Inr (Some (to_result s')),
     persist io now (Fin 40) (vs_recovered s') s'
       (if verification_terminal (vs_status s') then drop_stream (''n'', ''cpu'') (put_state a s' e)
        else put_state a s' e))"
  using assms sample_example_valid [of t i]
  by (simp add: process_sample_def Let_def example_sample_sel expired_by_def)

definition example_engine1 :: ver_engine where
  "example_engine1 = ver_run [VStart IoOk 10 (Some ''v'') example_request] example_engine"

lemma example_engine1_sel:
  "ve_store example_engine1 = Some \<lparr>vf_closed = False, vf_rows = [state_to_stored 10 example_state]\<rparr>"
  "ve_heap example_engine1 = [example_state]" "ve_active example_engine1 = [((''n'', ''cpu''), 0)]"
  by (simp_all add: example_engine1_def example_start del: ver_step.simps)

lemma example_state_sel:
  "vs_condition example_state = threshold_upper_condition ''cpu'' (Fin 80)" "vs_started example_state = 10"
  "vs_expires example_state = 110" "vs_seen example_state = (\<lambda>_. None)" "vs_status example_state = VerificationPending"
  "vs_required example_state = 2" "vs_healthy example_state = 0" "vs_id example_state = ''v''"
  by (simp_all add: example_defs effective_timeout_def)

text \<open>Identities of short samples.\<close>

lemma example_identity:
  "sample_identity (example_sample ''p'' t) = ''sid:p''" "sample_identity (example_sample ''q'' t) = ''sid:q''"
  "sample_identity (example_sample ''x,y'' t) = ''sid:x,y''"
proof -
  have "trim_space ''p'' = ''p''" "trim_space ''q'' = ''q''" "trim_space ''x,y'' = ''x,y''" by code_simp+
  then show "sample_identity (example_sample ''p'' t) = ''sid:p''" "sample_identity (example_sample ''q'' t) = ''sid:q''"
    "sample_identity (example_sample ''x,y'' t) = ''sid:x,y''"
    by (simp_all add: sample_identity_def example_sample_def)
qed

definition example_state2 :: ver_state where
  "example_state2 = observe (example_sample ''p'' 20) True (note_seen ''sid:p'' 20 example_state)"

lemma example_state2_sel:
  "vs_condition example_state2 = threshold_upper_condition ''cpu'' (Fin 80)" "vs_started example_state2 = 10"
  "vs_expires example_state2 = 110" "vs_seen example_state2 = [''sid:p'' \<mapsto> 20]" "vs_required example_state2 = 2"
  "vs_status example_state2 = VerificationPending" "vs_healthy example_state2 = 1" "vs_id example_state2 = ''v''"
  by (simp_all add: example_state2_def example_state_sel)

lemma take_first: "take_sample 20 (example_sample ''p'' 20) example_state = (None, example_state2)"
  by (subst take_example) (simp_all add: example_state_sel example_state2_def example_identity)

definition example_state3 :: ver_state where
  "example_state3 = observe (example_sample ''q'' 30) True (note_seen ''sid:q'' 30 example_state2)"

lemma take_second: "take_sample 30 (example_sample ''q'' 30) example_state2 = (None, example_state3)"
  by (subst take_example) (simp_all add: example_state2_sel example_state3_def example_identity)

lemma first_example:
  "process_sample IoOk 20 (example_sample ''p'' 20) example_engine1 =
     (Inr (Some (to_result example_state2)),
      persist IoOk 20 (Fin 40) (vs_recovered example_state2) example_state2 (put_state 0 example_state2 example_engine1))"
  using process_example [of example_engine1 0 20 "''p''" 20 example_state2 IoOk]
  by (simp add: example_engine1_sel example_state_sel take_first example_state2_sel)

definition example_engine2 :: ver_engine where
  "example_engine2 = snd (process_sample IoOk 20 (example_sample ''p'' 20) example_engine1)"

lemma example_engine2_sel:
  "ve_heap example_engine2 = [example_state2]" "ve_active example_engine2 = [((''n'', ''cpu''), 0)]"
  by (simp_all add: example_engine2_def first_example example_engine1_sel)

lemma second_example: "ve_heap (snd (process_sample IoOk 30 (example_sample ''q'' 30) example_engine2)) = [example_state3]"
  using process_example [of example_engine2 0 30 "''q''" 30 example_state3 IoOk]
  by (simp add: example_engine2_sel example_state2_sel take_second)

definition example_ops :: "ver_op list" where
  "example_ops = [VStart IoOk 10 (Some ''v'') example_request, VSample IoOk 20 (example_sample ''p'' 20),
     VSample IoOk 30 (example_sample ''q'' 30)]"

lemma example_run: "ve_heap (ver_run example_ops example_engine) = [example_state3]"
proof -
  have "ver_run example_ops example_engine = snd (process_sample IoOk 30 (example_sample ''q'' 30) example_engine2)"
    unfolding example_engine2_def example_engine1_def example_ops_def by simp
  with second_example show ?thesis by simp
qed

lemma example_state3_status: "vs_status example_state3 = VerificationRecovered"
  by (simp add: example_state3_def example_state2_sel)


theorem verification_outcome_is_final_witness:
  "ve_heap (ver_run [VCancel IoOk 40 ''v'' no_msg] (ver_run example_ops example_engine)) ! 0 = example_state3"
  using verification_outcome_is_final [OF new_example_engine example_rows refl, of example_ops
      "[VCancel IoOk 40 ''v'' no_msg]" "''v''", THEN conjunct1, rule_format, of 0]
  by (simp add: example_run example_state3_status)


section \<open>A comma in a sample identity\<close>

definition comma_sample :: metric_sample where
  "comma_sample = example_sample ''x,y'' 20"

definition comma_state :: ver_state where
  "comma_state = observe comma_sample True (note_seen ''sid:x,y'' 20 example_state)"

definition comma_row :: stored_verification where
  "comma_row = apply_progress (progress_of (Fin 40) (vs_recovered comma_state) comma_state) 20 (state_to_stored 10 example_state)"

definition comma_engine :: ver_engine where
  "comma_engine = ver_run [VStart IoOk 10 (Some ''v'') example_request, VSample IoOk 20 comma_sample] example_engine"

lemma comma_state_sel:
  "vs_status comma_state = VerificationPending" "vs_expires comma_state = 110" "vs_started comma_state = 10"
  "vs_seen comma_state = [''sid:x,y'' \<mapsto> 20]" "vs_healthy comma_state = 1" "vs_required comma_state = 2" "vs_id comma_state = ''v''"
  "vs_evidence comma_state = [(''seen_samples'', Lit ''sid:x,y'')]"
  by (simp_all add: comma_state_def example_state_sel)
     (simp add: observe_def note_seen_def Let_def example_state_sel, simp add: example_defs)

lemma comma_engine_store:
  "ve_store comma_engine = Some \<lparr>vf_closed = False, vf_rows = [comma_row]\<rparr>" "ve_heap comma_engine = [comma_state]"
  "ve_active comma_engine = [((''n'', ''cpu''), 0)]"
proof -
  have "take_sample 20 comma_sample example_state = (None, comma_state)"
    unfolding comma_sample_def by (subst take_example)
      (simp_all add: example_state_sel comma_state_def example_identity comma_sample_def)
  then have eq: "comma_engine = persist IoOk 20 (Fin 40) (vs_recovered comma_state) comma_state (put_state 0 comma_state example_engine1)"
    using process_example [of example_engine1 0 20 "''x,y''" 20 comma_state IoOk]
    unfolding comma_engine_def example_engine1_def comma_sample_def [symmetric]
    by (simp add: example_engine1_sel [unfolded example_engine1_def, simplified] example_state_sel comma_state_sel)
  have "sv_id (state_to_stored 10 example_state) = ''v''" "sv_status (state_to_stored 10 example_state) = VerificationPending"
    by (simp_all add: state_to_stored_def example_state_sel)
  then show "ve_store comma_engine = Some \<lparr>vf_closed = False, vf_rows = [comma_row]\<rparr>"
    "ve_heap comma_engine = [comma_state]" "ve_active comma_engine = [((''n'', ''cpu''), 0)]"
    unfolding eq by (simp_all add: example_engine1_sel persist_store comma_state_sel update_verification_progress_def
        not_blank_example find_verification_def progress_of_def verification_can_def set_verifications_def
        update_where_def comma_row_def)
qed

lemma comma_row_sel:
  "sv_status comma_row = VerificationPending" "sv_expires_at comma_row = 110" "sv_started_at comma_row = 10" "sv_node_id comma_row = ''n''"
  "sv_metric_name comma_row = ''cpu''" "sv_required comma_row = 2" "sv_healthy comma_row = 1"
  "sv_evidence comma_row = [(''seen_samples'', Lit ''sid:x,y'')]"
  "restored_state comma_row = (restored_state comma_row)\<lparr>vs_condition := threshold_upper_condition ''cpu'' (Fin 80)\<rparr>"
  by (simp_all add: comma_row_def apply_progress_def progress_of_def comma_state_sel)
     (simp_all add: state_to_stored_def example_defs effective_timeout_def restored_state_def)

text \<open>
  Restart and commas: a sample whose identity contains a comma is counted twice when the
  process restarts in between.  The running engine refuses its repetition as a duplicate; the
  restored engine accepts it, and the verification is \<open>RECOVERED\<close> after a single sample
  although two are required.
\<close>

theorem comma_sample_counted_twice_after_restart:
  "\<exists>st s. ve_store comma_engine = Some st \<and>
     fst (process_sample IoOk 30 comma_sample comma_engine) = Inl (VDuplicateSample ''sid:x,y'') \<and>
     ve_heap (ver_run [VRecover IoOk (\<lambda>_. IoOk) 25, VSample IoOk 30 comma_sample] (example_engine\<lparr>ve_store := Some st\<rparr>)) = [s] \<and>
     vs_status s = VerificationRecovered \<and> vs_required s = 2"
proof -
  let ?s = "restored_state comma_row"
  let ?s' = "observe comma_sample True (note_seen ''sid:x,y'' 20 ?s)"
  let ?e = "example_engine\<lparr>ve_store := Some \<lparr>vf_closed = False, vf_rows = [comma_row]\<rparr>, ve_heap := [?s],
    ve_active := [((''n'', ''cpu''), 0)], ve_by_id := (ve_by_id example_engine)(sv_id comma_row \<mapsto> 0)\<rparr>"
  have s: "vs_status ?s = VerificationPending" "vs_required ?s = 2" "vs_healthy ?s = 1" "vs_started ?s = 10" "vs_expires ?s = 110"
    "vs_seen ?s = restored_seen 10 [(''seen_samples'', Lit ''sid:x,y'')]"
    by (simp_all add: restored_state_def comma_row_sel(1-8))
  have c: "vs_condition ?s = threshold_upper_condition ''cpu'' (Fin 80)"
    by (subst comma_row_sel(9)) simp
  have "trim_space ''sid:x'' = ''sid:x''" "trim_space ''y'' = ''y''" by code_simp+
  then have "vs_seen ?s ''sid:x,y'' = None"
    by (simp add: s restored_seen_def)
  then have t: "take_sample 30 comma_sample ?s = (None, ?s')"
    unfolding comma_sample_def by (subst take_example) (simp_all add: s c example_identity)
  have rec: "ver_step (VRecover IoOk (\<lambda>_. IoOk) 25) (example_engine\<lparr>ve_store := Some \<lparr>vf_closed = False, vf_rows = [comma_row]\<rparr>\<rparr>) = ?e"
    by (simp add: recover_verifications_def list_verifications_def recover_one_def Let_def comma_row_sel(1-8))
       (simp add: example_engine_def)
  have "process_sample IoOk 30 comma_sample ?e = (Inr (Some (to_result ?s')),
      persist IoOk 30 (Fin 40) (vs_recovered ?s') ?s' (drop_stream (''n'', ''cpu'') (put_state 0 ?s' ?e)))"
    using process_example [of ?e 0 30 "''x,y''" 20 ?s' IoOk] t by (simp add: s comma_sample_def)
  then have "ve_heap (ver_run [VRecover IoOk (\<lambda>_. IoOk) 25, VSample IoOk 30 comma_sample]
      (example_engine\<lparr>ve_store := Some \<lparr>vf_closed = False, vf_rows = [comma_row]\<rparr>\<rparr>)) = [?s']"
    using rec by simp
  moreover have "fst (process_sample IoOk 30 comma_sample comma_engine) = Inl (VDuplicateSample ''sid:x,y'')"
    using sample_example_valid [of 20 "''x,y''"]
    by (simp add: process_sample_def comma_sample_def example_sample_sel comma_engine_store comma_state_sel
        Let_def take_sample_def expired_by_def example_identity)
  ultimately show ?thesis using s comma_engine_store(1) by simp
qed

end
