(* ===== verification/Escalation_Store.thy ===== *)
theory Escalation_Store
  imports Verification_Store
begin

text \<open>
  The durable escalation store: \<open>StoredEscalation\<close> and \<open>StoredCircuitState\<close>
  (\<open>edge/agent/storage/store.go\<close>) and the operations on the tables \<open>escalation_records\<close>, keyed
  by \<open>escalation_id\<close>, and \<open>circuit_breaker_states\<close>, keyed by node and incident
  (\<open>edge/agent/storage/sqlite.go\<close>).
\<close>

section \<open>Records\<close>

record stored_escalation =
  se_id :: string
  se_incident_id :: string
  se_node_id :: string
  se_action_id :: string
  se_policy_version :: string
  se_class :: failure_class
  se_status :: escalation_status
  se_attempt :: int
  se_max_attempts :: int
  se_reason :: msg
  se_evidence :: evidence
  se_created_at :: gotime
  se_updated_at :: gotime
  se_resolved_at :: "gotime option"

definition stored_escalation_validate :: "stored_escalation \<Rightarrow> store_err option" where
  "stored_escalation_validate e =
     (if blank (se_id e) then Some (ErrInvalidRecord ''escalation_id cannot be empty'')
      else if blank (se_incident_id e) then Some (ErrInvalidRecord ''incident_id cannot be empty'')
      else if blank (se_node_id e) then Some (ErrInvalidRecord ''node_id cannot be empty'')
      else if \<not> failure_class_valid (se_class e) then Some (ErrInvalidRecord ''invalid failure classification'')
      else if \<not> escalation_status_valid (se_status e) then Some (ErrInvalidRecord ''invalid escalation status'')
      else if se_attempt e < 0 then Some (ErrInvalidRecord ''attempt cannot be negative'')
      else if se_max_attempts e < 0 then Some (ErrInvalidRecord ''max_attempts cannot be negative'')
      else if is_zero (se_created_at e) then Some (ErrInvalidRecord ''created_at cannot be zero'')
      else if ptr_before (se_resolved_at e) (se_created_at e)
        then Some (ErrInvalidRecord ''resolved_at cannot be before created_at'')
      else None)"

record stored_circuit =
  cb_node_id :: string
  cb_incident_id :: string
  cb_state :: circuit_state
  cb_failure_count :: int
  cb_tripped_at :: "gotime option"
  cb_reset_at :: "gotime option"
  cb_reset_by :: string
  cb_updated_at :: gotime

definition stored_circuit_validate :: "stored_circuit \<Rightarrow> store_err option" where
  "stored_circuit_validate c =
     (if blank (cb_node_id c) \<or> blank (cb_incident_id c) \<or> \<not> circuit_state_valid (cb_state c) \<or>
         cb_failure_count c < 0 \<or> is_zero (cb_updated_at c)
      then Some ErrInvalidCircuitStateRecord else None)"

record escalation_store =
  es_closed :: bool
  es_rows :: "stored_escalation list"
  es_circuits :: "string \<times> string \<rightharpoonup> stored_circuit"

section \<open>Escalation records\<close>

definition record_escalation ::
  "db_io \<Rightarrow> stored_escalation \<Rightarrow> escalation_store \<Rightarrow> store_err option \<times> escalation_store" where
  "record_escalation io e s =
     (case stored_escalation_validate e of Some er \<Rightarrow> (Some er, s) | None \<Rightarrow>
      case db_guard (es_closed s) io of Some er \<Rightarrow> (Some er, s) | None \<Rightarrow>
        if list_ex (\<lambda>r. se_id r = se_id e) (es_rows s) then (Some ErrDuplicateEscalation, s)
        else (None, s\<lparr>es_rows := es_rows s @ [e]\<rparr>))"

definition find_escalation :: "string \<Rightarrow> stored_escalation list \<Rightarrow> stored_escalation option" where
  "find_escalation eid rows = find (\<lambda>r. se_id r = eid) rows"

definition get_escalation :: "db_io \<Rightarrow> string \<Rightarrow> escalation_store \<Rightarrow> store_err + stored_escalation" where
  "get_escalation io eid s =
     (if blank eid then Inl ErrEscalationNotFound
      else case db_guard (es_closed s) io of Some er \<Rightarrow> Inl er | None \<Rightarrow>
        (case find_escalation eid (es_rows s) of None \<Rightarrow> Inl ErrEscalationNotFound | Some r \<Rightarrow> Inr r))"

definition list_escalations ::
  "db_io \<Rightarrow> string \<Rightarrow> int \<Rightarrow> escalation_store \<Rightarrow> store_err + stored_escalation list" where
  "list_escalations io iid limit s =
     (case db_guard (es_closed s) io of Some er \<Rightarrow> Inl er | None \<Rightarrow>
        let n = (if limit \<le> 0 then 100 else nat limit);
            rows = (if \<not> blank iid then filter (\<lambda>r. se_incident_id r = iid) (es_rows s) else es_rows s)
        in Inr (take n (sort_key (\<lambda>r. format_db_time (se_created_at r)) rows)))"

text \<open>The rows of a node and incident.\<close>

definition rows_of :: "string \<Rightarrow> string \<Rightarrow> escalation_store \<Rightarrow> stored_escalation list" where
  "rows_of node inc s = filter (\<lambda>r. se_node_id r = node \<and> se_incident_id r = inc) (es_rows s)"

definition count_failures_in_window ::
  "db_io \<Rightarrow> string \<Rightarrow> string \<Rightarrow> gotime \<Rightarrow> escalation_store \<Rightarrow> store_err + int" where
  "count_failures_in_window io node inc since s =
     (case db_guard (es_closed s) io of Some er \<Rightarrow> Inl er | None \<Rightarrow>
        Inr (int (length (filter (\<lambda>r. format_db_time since \<le> format_db_time (se_created_at r)) (rows_of node inc s)))))"

text \<open>\<open>ORDER BY created_at DESC LIMIT 1\<close>, on the text of the timestamps.\<close>

definition latest_of :: "stored_escalation list \<Rightarrow> stored_escalation option" where
  "latest_of rows =
     (case sort_by (\<lambda>a b. format_db_time (se_created_at b) < format_db_time (se_created_at a)) rows of
        [] \<Rightarrow> None | r # _ \<Rightarrow> Some r)"

definition get_latest_escalation ::
  "db_io \<Rightarrow> string \<Rightarrow> string \<Rightarrow> escalation_store \<Rightarrow> store_err + stored_escalation option" where
  "get_latest_escalation io node inc s =
     (case db_guard (es_closed s) io of Some er \<Rightarrow> Inl er | None \<Rightarrow> Inr (latest_of (rows_of node inc s)))"

definition update_escalation_status ::
  "db_io \<Rightarrow> string \<Rightarrow> escalation_status \<Rightarrow> gotime option \<Rightarrow> msg \<Rightarrow> gotime \<Rightarrow> escalation_store \<Rightarrow>
   store_err option \<times> escalation_store" where
  "update_escalation_status io eid next resolved reason now s =
     (case db_guard (es_closed s) io of Some er \<Rightarrow> (Some er, s) | None \<Rightarrow>
      case find_escalation eid (es_rows s) of None \<Rightarrow> (Some ErrEscalationNotFound, s) | Some r \<Rightarrow>
        if \<not> escalation_can (se_status r) next then (Some (ErrEscalationTransition (se_status r) next), s)
        else (None, s\<lparr>es_rows := update_where (\<lambda>r. se_id r = eid)
               (\<lambda>r. r\<lparr>se_status := next, se_reason := (if reason \<noteq> no_msg then reason else se_reason r),
                      se_resolved_at := (case resolved of None \<Rightarrow> se_resolved_at r | Some t \<Rightarrow> Some t),
                      se_updated_at := now\<rparr>) (es_rows s)\<rparr>))"

definition count_escalations :: "db_io \<Rightarrow> escalation_store \<Rightarrow> store_err + nat" where
  "count_escalations io s =
     (case db_guard (es_closed s) io of Some er \<Rightarrow> Inl er | None \<Rightarrow> Inr (length (es_rows s)))"

section \<open>Circuit breakers\<close>

definition get_circuit_state ::
  "db_io \<Rightarrow> string \<Rightarrow> string \<Rightarrow> escalation_store \<Rightarrow> store_err + stored_circuit option" where
  "get_circuit_state io node inc s =
     (case db_guard (es_closed s) io of Some er \<Rightarrow> Inl er | None \<Rightarrow> Inr (es_circuits s (node, inc)))"

definition set_circuit_state ::
  "db_io \<Rightarrow> stored_circuit \<Rightarrow> escalation_store \<Rightarrow> store_err option \<times> escalation_store" where
  "set_circuit_state io c s =
     (case stored_circuit_validate c of Some er \<Rightarrow> (Some er, s) | None \<Rightarrow>
      case db_guard (es_closed s) io of Some er \<Rightarrow> (Some er, s) | None \<Rightarrow>
        (None, s\<lparr>es_circuits := (es_circuits s)((cb_node_id c, cb_incident_id c) \<mapsto> c)\<rparr>))"

section \<open>Lemmas\<close>

lemma record_escalation_cases:
  assumes "record_escalation io e s = (er, s')"
  obtains (recorded) "er = None" "s' = s\<lparr>es_rows := es_rows s @ [e]\<rparr>" "se_id e \<notin> se_id ` set (es_rows s)"
  | (kept) x where "er = Some x" "s' = s" "x = ErrDuplicateEscalation \<longrightarrow> se_id e \<in> se_id ` set (es_rows s)"
proof -
  have "db_guard cl io \<noteq> Some ErrDuplicateEscalation" for cl
    by (cases io) (auto simp: db_guard_def)
  moreover have "stored_escalation_validate e \<noteq> Some ErrDuplicateEscalation"
    by (simp add: stored_escalation_validate_def)
  ultimately have "(er = None \<and> s' = s\<lparr>es_rows := es_rows s @ [e]\<rparr> \<and> se_id e \<notin> se_id ` set (es_rows s)) \<or>
      (\<exists>x. er = Some x \<and> s' = s \<and> (x = ErrDuplicateEscalation \<longrightarrow> se_id e \<in> se_id ` set (es_rows s)))"
    using assms
    by (cases "stored_escalation_validate e"; cases "db_guard (es_closed s) io")
       (auto simp: record_escalation_def list_ex_iff image_iff eq_commute split: if_splits)
  with that show ?thesis by blast
qed

lemma set_circuit_state_cases:
  assumes "set_circuit_state io c s = (er, s')"
  obtains (written) "er = None" "s' = s\<lparr>es_circuits := (es_circuits s)((cb_node_id c, cb_incident_id c) \<mapsto> c)\<rparr>"
  | (failed) x where "er = Some x" "s' = s"
proof -
  have "(er = None \<and> s' = s\<lparr>es_circuits := (es_circuits s)((cb_node_id c, cb_incident_id c) \<mapsto> c)\<rparr>) \<or>
      ((\<exists>x. er = Some x) \<and> s' = s)"
    using assms by (cases "stored_circuit_validate c"; cases "db_guard (es_closed s) io")
      (auto simp: set_circuit_state_def)
  with that show ?thesis by blast
qed

text \<open>Sorting in descending order starts with a greatest element.\<close>

lemma insert_by_sorted_desc:
  fixes key :: "'a \<Rightarrow> 'k::linorder"
  shows "sorted_wrt (\<lambda>a b. key b \<le> key a) xs \<Longrightarrow>
    sorted_wrt (\<lambda>a b. key b \<le> key a) (insert_by (\<lambda>a b. key b < key a) x xs)"
  by (induction xs) auto

lemma sort_by_sorted_desc:
  fixes key :: "'a \<Rightarrow> 'k::linorder"
  shows "sorted_wrt (\<lambda>a b. key b \<le> key a) (sort_by (\<lambda>a b. key b < key a) xs)"
  unfolding sort_by_def by (induction xs) (simp_all add: insert_by_sorted_desc)

lemma latest_of_None: "latest_of rows = None \<longleftrightarrow> rows = []"
proof -
  have "sort_by lt rows = [] \<longleftrightarrow> rows = []" for lt by simp
  then show ?thesis by (auto simp: latest_of_def split: list.split)
qed

lemma latest_of_greatest:
  assumes "latest_of rows = Some r"
  shows "r \<in> set rows" "q \<in> set rows \<Longrightarrow> format_db_time (se_created_at q) \<le> format_db_time (se_created_at r)"
proof -
  let ?lt = "\<lambda>a b. format_db_time (se_created_at b) < format_db_time (se_created_at a)"
  from assms obtain rest where s: "sort_by ?lt rows = r # rest"
    by (auto simp: latest_of_def split: list.splits)
  with set_sort_by [of ?lt rows] have rows: "set rows = insert r (set rest)" by simp
  then show "r \<in> set rows" by simp
  show "q \<in> set rows \<Longrightarrow> format_db_time (se_created_at q) \<le> format_db_time (se_created_at r)"
    using sort_by_sorted_desc [of "\<lambda>r. format_db_time (se_created_at r)" rows] s rows by auto
qed

end
