(* ===== verification/Escalation.thy ===== *)
theory Escalation
  imports Escalation_Store Response_Decision
begin

text \<open>
  \<open>edge/agent/escalation\<close>: the escalation policy (\<open>policy.go\<close>), the identifiers of escalation
  records (\<open>id.go\<close>) and the engine (\<open>engine.go\<close>) that answers a failed mitigation or
  verification with a retry, an escalation or nothing, and keeps the circuit breakers.

  The engine holds its mutex while it evaluates, so an evaluation is one step.  It reads the
  clock once and calls the store up to four times; the database may answer differently at each
  call (\<open>esc_point\<close>).  The digest SHA-256 is an argument.
\<close>

section \<open>Policy\<close>

datatype esc_err =
    EscInvalidPolicyVersion | EscNegativeMaxRetries | EscNegativeCooldown | EscInvalidFailureWindow
  | EscInvalidCircuitThreshold | EscEmptyResetBy | EscInvalidTargetStatus
  | EscEmptyIncidentID | EscEmptyNodeID | EscEmptyActionID | EscInvalidClass
  | EscNilStore | EscNilRecord | EscUnrecognizedMitigation mitigation_status
  | EscUnrecognizedVerification verification_status | EscStore store_err

record escalation_policy =
  ep_max_retries :: int
  ep_cooldown :: duration
  ep_window :: duration
  ep_threshold :: int
  ep_version :: string

definition default_escalation_policy :: escalation_policy where
  "default_escalation_policy =
     \<lparr>ep_max_retries = 3, ep_cooldown = 5 * minute, ep_window = 30 * minute, ep_threshold = 3,
      ep_version = ''v1.0.0''\<rparr>"

definition escalation_policy_validate :: "escalation_policy \<Rightarrow> esc_err option" where
  "escalation_policy_validate p =
     (if blank (ep_version p) then Some EscInvalidPolicyVersion
      else if ep_max_retries p < 0 then Some EscNegativeMaxRetries
      else if ep_cooldown p < 0 then Some EscNegativeCooldown
      else if ep_window p \<le> 0 then Some EscInvalidFailureWindow
      else if ep_threshold p \<le> 0 then Some EscInvalidCircuitThreshold
      else None)"

datatype decision_action = DoRetry | DoEscalate | DoNone

record escalation_decision =
  ed_action :: decision_action
  ed_class :: "failure_class option"
  ed_attempt :: int
  ed_next_retry_at :: "gotime option"
  ed_circuit :: circuit_state
  ed_reason :: msg
  ed_should_transition :: bool
  ed_target :: "incident_status option"

section \<open>Identifiers\<close>

fun failure_class_string :: "failure_class \<Rightarrow> string" where
  "failure_class_string FailureMitigationFailed = ''MITIGATION_FAILED''"
| "failure_class_string FailureVerificationTimedOut = ''VERIFICATION_TIMED_OUT''"
| "failure_class_string FailureVerificationRejected = ''VERIFICATION_REJECTED''"
| "failure_class_string FailureUnknownReconciliationRequired = ''UNKNOWN_RECONCILIATION_REQUIRED''"
| "failure_class_string FailureCooldownActive = ''COOLDOWN_ACTIVE''"
| "failure_class_string FailureRetryBudgetExhausted = ''RETRY_BUDGET_EXHAUSTED''"
| "failure_class_string FailureCircuitBreakerOpen = ''CIRCUIT_BREAKER_OPEN''"
| "failure_class_string (FailureOther s) = s"

definition escalation_raw :: "string \<Rightarrow> string \<Rightarrow> string \<Rightarrow> failure_class \<Rightarrow> string \<Rightarrow> int \<Rightarrow> string" where
  "escalation_raw inc node action fc version attempt =
     join ''|'' [trim_space inc, trim_space node, trim_space action, trim_space (failure_class_string fc),
                 trim_space version, itoa attempt]"

definition compute_escalation_id ::
  "digest \<Rightarrow> string \<Rightarrow> string \<Rightarrow> string \<Rightarrow> failure_class \<Rightarrow> string \<Rightarrow> int \<Rightarrow> string" where
  "compute_escalation_id sha inc node action fc version attempt =
     ''esc-'' @ hex_bytes (take 16 (sha (escalation_raw inc node action fc version attempt)))"

section \<open>Evaluating a failure\<close>

record failure_request =
  fr_incident_id :: string
  fr_node_id :: string
  fr_action_id :: string
  fr_metric :: string
  fr_class :: failure_class
  fr_reason :: msg
  fr_evidence :: evidence

datatype esc_point = PCircuit | PLatest | PCount | PSetCircuit | PRecord

text \<open>The record an evaluation writes.\<close>

definition escalation_of ::
  "digest \<Rightarrow> escalation_policy \<Rightarrow> gotime \<Rightarrow> failure_request \<Rightarrow> failure_class \<Rightarrow> escalation_status \<Rightarrow> int \<Rightarrow> msg \<Rightarrow>
   stored_escalation" where
  "escalation_of sha p now r fc st attempt reason =
     \<lparr>se_id = compute_escalation_id sha (fr_incident_id r) (fr_node_id r) (fr_action_id r) fc (ep_version p) attempt,
      se_incident_id = fr_incident_id r, se_node_id = fr_node_id r, se_action_id = fr_action_id r,
      se_policy_version = ep_version p, se_class = fc, se_status = st, se_attempt = attempt,
      se_max_attempts = ep_max_retries p, se_reason = reason, se_evidence = fr_evidence r,
      se_created_at = now, se_updated_at = now, se_resolved_at = None\<rparr>"

definition escalate_with :: "failure_class \<Rightarrow> int \<Rightarrow> circuit_state \<Rightarrow> msg \<Rightarrow> escalation_decision" where
  "escalate_with fc attempt circuit reason =
     \<lparr>ed_action = DoEscalate, ed_class = Some fc, ed_attempt = attempt, ed_next_retry_at = None,
      ed_circuit = circuit, ed_reason = reason, ed_should_transition = True,
      ed_target = Some StatusEscalated\<rparr>"

definition no_action :: "failure_class option \<Rightarrow> int \<Rightarrow> gotime option \<Rightarrow> msg \<Rightarrow> escalation_decision" where
  "no_action fc attempt next reason =
     \<lparr>ed_action = DoNone, ed_class = fc, ed_attempt = attempt, ed_next_retry_at = next,
      ed_circuit = CircuitClosed, ed_reason = reason, ed_should_transition = False, ed_target = None\<rparr>"

definition failure_request_validate :: "failure_request \<Rightarrow> esc_err option" where
  "failure_request_validate r =
     (if blank (fr_incident_id r) then Some EscEmptyIncidentID
      else if blank (fr_node_id r) then Some EscEmptyNodeID
      else if blank (fr_action_id r) then Some EscEmptyActionID
      else if \<not> failure_class_valid (fr_class r) then Some EscInvalidClass
      else None)"

text \<open>The circuit breaker trips: its state is written, and then the escalation.\<close>

definition trip ::
  "digest \<Rightarrow> escalation_policy \<Rightarrow> (esc_point \<Rightarrow> db_io) \<Rightarrow> gotime \<Rightarrow> failure_request \<Rightarrow> failure_class \<Rightarrow> int \<Rightarrow> msg \<Rightarrow>
   escalation_store \<Rightarrow> (esc_err + escalation_decision) \<times> escalation_store" where
  "trip sha p io now r fc attempt reason s =
     (case set_circuit_state (io PSetCircuit)
        \<lparr>cb_node_id = fr_node_id r, cb_incident_id = fr_incident_id r, cb_state = CircuitOpen,
         cb_failure_count = attempt, cb_tripped_at = Some now, cb_reset_at = None, cb_reset_by = [],
         cb_updated_at = now\<rparr> s of
        (Some er, s') \<Rightarrow> (Inl (EscStore er), s')
      | (None, s') \<Rightarrow>
          (Inr (escalate_with fc attempt CircuitOpen reason),
           snd (record_escalation (io PRecord)
             (escalation_of sha p now r fc EscalationEscalated attempt reason) s')))"

text \<open>A classification that escalates at once.\<close>

definition escalate_now ::
  "digest \<Rightarrow> escalation_policy \<Rightarrow> (esc_point \<Rightarrow> db_io) \<Rightarrow> gotime \<Rightarrow> failure_request \<Rightarrow> failure_class \<Rightarrow> int \<Rightarrow>
   circuit_state \<Rightarrow> msg \<Rightarrow> escalation_store \<Rightarrow> (esc_err + escalation_decision) \<times> escalation_store" where
  "escalate_now sha p io now r fc attempt circuit reason s =
     (Inr (escalate_with fc attempt circuit reason),
      snd (record_escalation (io PRecord) (escalation_of sha p now r fc EscalationEscalated attempt reason) s))"

text \<open>What follows the circuit and cooldown checks, at attempt number \<open>attempt\<close>.\<close>

definition evaluate_attempt ::
  "digest \<Rightarrow> escalation_policy \<Rightarrow> (esc_point \<Rightarrow> db_io) \<Rightarrow> gotime \<Rightarrow> failure_request \<Rightarrow> int \<Rightarrow>
   escalation_store \<Rightarrow> (esc_err + escalation_decision) \<times> escalation_store" where
  "evaluate_attempt sha p io now r attempt s =
     (if fr_class r = FailureUnknownReconciliationRequired
      then escalate_now sha p io now r (fr_class r) attempt CircuitClosed
             (Lit ''unknown reconciliation requires human operator intervention'') s
      else if fr_class r = FailureVerificationRejected
      then escalate_now sha p io now r (fr_class r) attempt CircuitClosed
             (Lit ''verification rejected; remediation worsened or failed recovery condition'') s
      else if ep_threshold p \<le> attempt
      then trip sha p io now r FailureCircuitBreakerOpen attempt
             (Fmt ''circuit breaker failure threshold (%d) reached; circuit tripped to OPEN'' [AInt (ep_threshold p)]) s
      else if ep_max_retries p < attempt
      then trip sha p io now r FailureRetryBudgetExhausted attempt
             (Fmt ''retry budget exhausted (%d attempts); escalating to operator'' [AInt (ep_max_retries p)]) s
      else case record_escalation (io PRecord)
             (escalation_of sha p now r (fr_class r) EscalationPending attempt (fr_reason r)) s of (er, s') \<Rightarrow>
        if er \<noteq> None \<and> er \<noteq> Some ErrDuplicateEscalation then (Inl (EscStore (the er)), s')
        else (Inr \<lparr>ed_action = DoRetry, ed_class = Some (fr_class r), ed_attempt = attempt,
                   ed_next_retry_at = Some (now + ep_cooldown p), ed_circuit = CircuitClosed,
                   ed_reason = Fmt ''retry %d/%d permitted after cooldown (%v)''
                                 [AInt attempt, AInt (ep_max_retries p), ADur (ep_cooldown p)],
                   ed_should_transition = False, ed_target = None\<rparr>, s'))"

definition evaluate_failure ::
  "digest \<Rightarrow> escalation_policy \<Rightarrow> (esc_point \<Rightarrow> db_io) \<Rightarrow> gotime \<Rightarrow> failure_request \<Rightarrow>
   escalation_store \<Rightarrow> (esc_err + escalation_decision) \<times> escalation_store" where
  "evaluate_failure sha p io now r s =
     (case failure_request_validate r of Some er \<Rightarrow> (Inl er, s) | None \<Rightarrow>
      case get_circuit_state (io PCircuit) (fr_node_id r) (fr_incident_id r) s of
        Inl er \<Rightarrow> (Inl (EscStore er), s)
      | Inr cb \<Rightarrow>
      (case (case cb of Some c \<Rightarrow> if cb_state c = CircuitOpen then Some c else None | None \<Rightarrow> None) of
        Some c \<Rightarrow> escalate_now sha p io now r FailureCircuitBreakerOpen (cb_failure_count c + 1) CircuitOpen
                   (Lit ''circuit breaker is OPEN; autonomous remediation prohibited'') s
      | None \<Rightarrow>
      if fr_class r = FailureCooldownActive
      then (Inr (no_action (Some FailureCooldownActive) 0 None
                   (Lit ''cooldown inquiry evaluated; no failure recorded'')), s)
      else case get_latest_escalation (io PLatest) (fr_node_id r) (fr_incident_id r) s of
        Inl er \<Rightarrow> (Inl (EscStore er), s)
      | Inr latest \<Rightarrow>
      (case (case latest of Some l \<Rightarrow> if now < se_created_at l + ep_cooldown p then Some l else None | None \<Rightarrow> None) of
        Some l \<Rightarrow> (Inr (no_action (Some FailureCooldownActive) (se_attempt l)
                    (Some (se_created_at l + ep_cooldown p))
                    (Fmt ''cooldown active until %s; cannot evaluate new failure or retry during cooldown''
                       [ATime (se_created_at l + ep_cooldown p)])), s)
      | None \<Rightarrow>
      case count_failures_in_window (io PCount) (fr_node_id r) (fr_incident_id r) (now - ep_window p) s of
        Inl er \<Rightarrow> (Inl (EscStore er), s)
      | Inr n \<Rightarrow> evaluate_attempt sha p io now r (n + 1) s)))"

section \<open>Evaluating results\<close>

fun mitigation_status_string :: "mitigation_status \<Rightarrow> string" where
  "mitigation_status_string MitigationPending = ''PENDING''"
| "mitigation_status_string MitigationExecuting = ''EXECUTING''"
| "mitigation_status_string MitigationExecuted = ''EXECUTED''"
| "mitigation_status_string MitigationFailed = ''FAILED''"
| "mitigation_status_string MitigationSkipped = ''SKIPPED''"
| "mitigation_status_string MitigationUnknownReconciliationRequired = ''UNKNOWN_RECONCILIATION_REQUIRED''"
| "mitigation_status_string (MitigationOther s) = s"

definition first_reason :: "msg list \<Rightarrow> msg" where
  "first_reason ms = (case find (\<lambda>m. m \<noteq> no_msg) ms of Some m \<Rightarrow> m | None \<Rightarrow> no_msg)"

definition mitigation_failure :: "string \<Rightarrow> mitigation_action \<Rightarrow> failure_class \<Rightarrow> string \<Rightarrow> failure_request" where
  "mitigation_failure node m fc dflt =
     \<lparr>fr_incident_id = ma_incident_id m, fr_node_id = node, fr_action_id = ma_action_id m, fr_metric = [],
      fr_class = fc, fr_reason = first_reason [ma_error m, ma_message m, Lit dflt], fr_evidence = []\<rparr>"

definition evaluate_mitigation_result ::
  "digest \<Rightarrow> escalation_policy \<Rightarrow> (esc_point \<Rightarrow> db_io) \<Rightarrow> gotime \<Rightarrow> string \<Rightarrow> mitigation_action option \<Rightarrow>
   escalation_store \<Rightarrow> (esc_err + escalation_decision) \<times> escalation_store" where
  "evaluate_mitigation_result sha p io now node mo s =
     (case mo of None \<Rightarrow> (Inl EscNilRecord, s) | Some m \<Rightarrow>
      if blank node then (Inl EscEmptyNodeID, s)
      else case ma_status m of
        MitigationExecuted \<Rightarrow>
          (Inr (no_action None 0 None (Lit ''mitigation executed successfully; awaiting verification'')), s)
      | MitigationFailed \<Rightarrow> evaluate_failure sha p io now
          (mitigation_failure node m FailureMitigationFailed ''simulated mitigation execution failed'') s
      | MitigationUnknownReconciliationRequired \<Rightarrow> evaluate_failure sha p io now
          (mitigation_failure node m FailureUnknownReconciliationRequired
             ''mitigation entered unknown reconciliation required; autonomous retry strictly forbidden'') s
      | MitigationOther _ \<Rightarrow> (Inl (EscUnrecognizedMitigation (ma_status m)), s)
      | st \<Rightarrow> (Inr (no_action None 0 None (Fmt ''mitigation status %s requires no escalation''
                    [AStr (mitigation_status_string st)])), s))"

definition verification_failure :: "stored_verification \<Rightarrow> failure_class \<Rightarrow> string \<Rightarrow> failure_request" where
  "verification_failure v fc dflt =
     \<lparr>fr_incident_id = sv_incident_id v, fr_node_id = sv_node_id v, fr_action_id = sv_action_id v,
      fr_metric = sv_metric_name v, fr_class = fc, fr_reason = first_reason [sv_reason v, Lit dflt],
      fr_evidence = sv_evidence v\<rparr>"

definition evaluate_verification_result ::
  "digest \<Rightarrow> escalation_policy \<Rightarrow> (esc_point \<Rightarrow> db_io) \<Rightarrow> gotime \<Rightarrow> stored_verification option \<Rightarrow>
   escalation_store \<Rightarrow> (esc_err + escalation_decision) \<times> escalation_store" where
  "evaluate_verification_result sha p io now vo s =
     (case vo of None \<Rightarrow> (Inl EscNilRecord, s) | Some v \<Rightarrow>
      case sv_status v of
        VerificationRecovered \<Rightarrow> (Inr (no_action None 0 None
          (Lit ''verification confirmed incident recovery; no escalation required'')), s)
      | VerificationPending \<Rightarrow> (Inr (no_action None 0 None
          (Lit ''verification pending telemetry observations; no escalation required'')), s)
      | VerificationCancelled \<Rightarrow> (Inr (no_action None 0 None
          (Lit ''verification cancelled; automatic retry prohibited'')), s)
      | VerificationTimedOut \<Rightarrow> evaluate_failure sha p io now (verification_failure v FailureVerificationTimedOut
          ''closed-loop verification timed out without satisfying recovery condition'') s
      | VerificationNotRecovered \<Rightarrow> evaluate_failure sha p io now (verification_failure v FailureVerificationRejected
          ''closed-loop verification reached terminal NOT_RECOVERED outcome'') s
      | VerificationOther _ \<Rightarrow> (Inl (EscUnrecognizedVerification (sv_status v)), s))"

section \<open>Circuit breakers\<close>

text \<open>\<open>CanRetry\<close>: whether a retry is permitted, and the end of the cooldown that forbids it.\<close>

definition can_retry ::
  "escalation_policy \<Rightarrow> (esc_point \<Rightarrow> db_io) \<Rightarrow> gotime \<Rightarrow> string \<Rightarrow> string \<Rightarrow> escalation_store \<Rightarrow>
   esc_err + bool \<times> gotime option" where
  "can_retry p io now node inc s =
     (case get_circuit_state (io PCircuit) node inc s of Inl er \<Rightarrow> Inl (EscStore er)
      | Inr cb \<Rightarrow>
        if (case cb of None \<Rightarrow> False | Some c \<Rightarrow> cb_state c = CircuitOpen) then Inr (False, None)
        else case get_latest_escalation (io PLatest) node inc s of Inl er \<Rightarrow> Inl (EscStore er)
        | Inr None \<Rightarrow> Inr (True, None)
        | Inr (Some l) \<Rightarrow>
            if now < se_created_at l + ep_cooldown p then Inr (False, Some (se_created_at l + ep_cooldown p))
            else Inr (True, None))"

definition reset_circuit_breaker ::
  "(esc_point \<Rightarrow> db_io) \<Rightarrow> gotime \<Rightarrow> string \<Rightarrow> string \<Rightarrow> string \<Rightarrow> escalation_store \<Rightarrow>
   esc_err option \<times> escalation_store" where
  "reset_circuit_breaker io now node inc reset_by s =
     (if blank reset_by then (Some EscEmptyResetBy, s)
      else case get_circuit_state (io PCircuit) node inc s of Inl er \<Rightarrow> (Some (EscStore er), s)
      | Inr None \<Rightarrow> (None, s)
      | Inr (Some _) \<Rightarrow>
          (case set_circuit_state (io PSetCircuit)
             \<lparr>cb_node_id = node, cb_incident_id = inc, cb_state = CircuitClosed, cb_failure_count = 0,
              cb_tripped_at = None, cb_reset_at = Some now, cb_reset_by = reset_by, cb_updated_at = now\<rparr> s of
             (er, s') \<Rightarrow> (map_option EscStore er, s')))"

definition get_circuit_breaker_status ::
  "(esc_point \<Rightarrow> db_io) \<Rightarrow> gotime \<Rightarrow> string \<Rightarrow> string \<Rightarrow> escalation_store \<Rightarrow> esc_err + stored_circuit" where
  "get_circuit_breaker_status io now node inc s =
     (case get_circuit_state (io PCircuit) node inc s of Inl er \<Rightarrow> Inl (EscStore er)
      | Inr (Some c) \<Rightarrow> Inr c
      | Inr None \<Rightarrow> Inr \<lparr>cb_node_id = node, cb_incident_id = inc, cb_state = CircuitClosed,
          cb_failure_count = 0, cb_tripped_at = None, cb_reset_at = None, cb_reset_by = [], cb_updated_at = now\<rparr>)"

section \<open>Calls\<close>

datatype esc_op =
    EFailure "esc_point \<Rightarrow> db_io" gotime failure_request
  | EMitigation "esc_point \<Rightarrow> db_io" gotime string "mitigation_action option"
  | EVerification "esc_point \<Rightarrow> db_io" gotime "stored_verification option"
  | EReset "esc_point \<Rightarrow> db_io" gotime string string string

fun esc_step :: "digest \<Rightarrow> escalation_policy \<Rightarrow> esc_op \<Rightarrow> escalation_store \<Rightarrow> escalation_store" where
  "esc_step sha p (EFailure io now r) s = snd (evaluate_failure sha p io now r s)"
| "esc_step sha p (EMitigation io now node m) s = snd (evaluate_mitigation_result sha p io now node m s)"
| "esc_step sha p (EVerification io now v) s = snd (evaluate_verification_result sha p io now v s)"
| "esc_step sha p (EReset io now node inc who) s = snd (reset_circuit_breaker io now node inc who s)"

definition esc_run :: "digest \<Rightarrow> escalation_policy \<Rightarrow> esc_op list \<Rightarrow> escalation_store \<Rightarrow> escalation_store" where
  "esc_run sha p ops s = fold (esc_step sha p) ops s"

text \<open>A reset of a circuit by a named operator.\<close>

fun resets :: "string \<Rightarrow> string \<Rightarrow> esc_op \<Rightarrow> bool" where
  "resets node inc (EReset _ _ n i who) = (n = node \<and> i = inc \<and> \<not> blank who)"
| "resets node inc _ = False"

end
