(* ===== verification/Escalation_Safety.thy ===== *)
theory Escalation_Safety
  imports Escalation
begin

text \<open>
  What the escalation engine promises: an open circuit stays open until a named operator resets
  it, retries are bounded within a failure window, respect the cooldown, and are granted only
  for failures on record; and how the reuse of identifiers escapes the bound once the window
  has slid.
\<close>

section \<open>The cases of an evaluation\<close>

definition circuit_open :: "escalation_store \<Rightarrow> string \<Rightarrow> string \<Rightarrow> bool" where
  "circuit_open s node inc \<longleftrightarrow> (\<exists>c. es_circuits s (node, inc) = Some c \<and> cb_state c = CircuitOpen)"

text \<open>No answer of the engine permits a retry.\<close>

fun no_retry :: "esc_err + escalation_decision \<Rightarrow> bool" where
  "no_retry (Inl _) = True"
| "no_retry (Inr d) = (ed_action d \<noteq> DoRetry)"

lemma record_escalation_circuits: "es_circuits (snd (record_escalation io e s)) = es_circuits s"
  by (auto simp: record_escalation_def split: option.splits)

lemma record_escalation_rows: "\<exists>new. es_rows (snd (record_escalation io e s)) = es_rows s @ new"
  by (auto simp: record_escalation_def split: option.splits)

lemma set_circuit_rows: "es_rows (snd (set_circuit_state io c s)) = es_rows s"
  by (auto simp: set_circuit_state_def split: option.splits)

lemma evaluate_attempt_cases:
  assumes "evaluate_attempt sha p io now r n s = (res, s')"
  obtains (direct) reason where
      "fr_class r = FailureUnknownReconciliationRequired \<or> fr_class r = FailureVerificationRejected"
      "res = Inr (escalate_with (fr_class r) n CircuitClosed reason)"
      "s' = snd (record_escalation (io PRecord) (escalation_of sha p now r (fr_class r) EscalationEscalated n reason) s)"
  | (trips) fc reason where "res = Inr (escalate_with fc n CircuitOpen reason)"
      "circuit_open s' (fr_node_id r) (fr_incident_id r)"
      "\<exists>c. es_circuits s' = (es_circuits s)((fr_node_id r, fr_incident_id r) \<mapsto> c) \<and> cb_state c = CircuitOpen"
      "\<exists>new. es_rows s' = es_rows s @ new"
  | (fails) er where "res = Inl er" "s' = s"
  | (retries) d er where "n < ep_threshold p" "n \<le> ep_max_retries p" "res = Inr d" "ed_action d = DoRetry"
      "ed_attempt d = n" "ed_next_retry_at d = Some (now + ep_cooldown p)"
      "er = None \<or> er = Some ErrDuplicateEscalation"
      "record_escalation (io PRecord) (escalation_of sha p now r (fr_class r) EscalationPending n (fr_reason r)) s = (er, s')"
proof -
  have trip: thesis if "trip sha p io now r fc n reason s = (res, s')" for fc reason
  proof -
    let ?c = "\<lparr>cb_node_id = fr_node_id r, cb_incident_id = fr_incident_id r, cb_state = CircuitOpen,
         cb_failure_count = n, cb_tripped_at = Some now, cb_reset_at = None, cb_reset_by = [],
         cb_updated_at = now\<rparr>"
    obtain er s1 where s1: "set_circuit_state (io PSetCircuit) ?c s = (er, s1)" by fastforce
    from s1 show thesis
    proof (cases rule: set_circuit_state_cases)
      case written
      with that s1 have eq: "res = Inr (escalate_with fc n CircuitOpen reason)" "s' = snd (record_escalation (io PRecord)
          (escalation_of sha p now r fc EscalationEscalated n reason) s1)"
        by (simp_all add: trip_def)
      obtain new where "es_rows s' = es_rows s1 @ new" using record_escalation_rows eq(2) by blast
      then have rows: "\<exists>new. es_rows s' = es_rows s @ new" using written(2) by simp
      have c: "es_circuits s' = (es_circuits s)((fr_node_id r, fr_incident_id r) \<mapsto> ?c)"
        using written(2) eq(2) by (simp add: record_escalation_circuits)
      show thesis
        by (rule trips [OF eq(1) _ _ rows]) (auto simp: circuit_open_def c)
    next
      case (failed x)
      with that s1 fails [of "EscStore x"] show thesis by (auto simp: trip_def)
    qed
  qed
  obtain er s1 where rec: "record_escalation (io PRecord)
      (escalation_of sha p now r (fr_class r) EscalationPending n (fr_reason r)) s = (er, s1)" by fastforce
  have same: "s1 = s" if "er \<noteq> None"
    using rec that by (cases rule: record_escalation_cases) auto
  consider "fr_class r = FailureUnknownReconciliationRequired \<or> fr_class r = FailureVerificationRejected"
    | "fr_class r \<noteq> FailureUnknownReconciliationRequired" "fr_class r \<noteq> FailureVerificationRejected"
        "ep_threshold p \<le> n \<or> ep_max_retries p < n"
    | "fr_class r \<noteq> FailureUnknownReconciliationRequired" "fr_class r \<noteq> FailureVerificationRejected"
        "\<not> ep_threshold p \<le> n" "\<not> ep_max_retries p < n" by blast
  then show ?thesis
  proof cases
    case 1
    with assms direct show ?thesis by (auto simp: evaluate_attempt_def escalate_now_def split: if_splits)
  next
    case 2
    with assms trip show ?thesis by (auto simp: evaluate_attempt_def split: if_splits)
  next
    case 3
    show ?thesis
    proof (cases "er = None \<or> er = Some ErrDuplicateEscalation")
      case True
      with 3 assms rec retries [OF _ _ _ _ _ _ True] show ?thesis
        by (auto simp: evaluate_attempt_def)
    next
      case False
      with 3 assms rec same fails show ?thesis by (auto simp: evaluate_attempt_def)
    qed
  qed
qed

lemma evaluate_failure_cases:
  assumes "evaluate_failure sha p io now r s = (res, s')"
  obtains (refused) er where "res = Inl er" "s' = s"
  | (open_circuit) n reason where "circuit_open s (fr_node_id r) (fr_incident_id r)"
      "res = Inr (escalate_with FailureCircuitBreakerOpen n CircuitOpen reason)"
      "s' = snd (record_escalation (io PRecord)
         (escalation_of sha p now r FailureCircuitBreakerOpen EscalationEscalated n reason) s)"
  | (quiet) d where "\<not> circuit_open s (fr_node_id r) (fr_incident_id r)" "res = Inr d" "ed_action d = DoNone" "s' = s"
  | (attempted) n where "\<not> circuit_open s (fr_node_id r) (fr_incident_id r)" "failure_request_validate r = None"
      "\<And>l. latest_of (rows_of (fr_node_id r) (fr_incident_id r) s) = Some l \<Longrightarrow> se_created_at l + ep_cooldown p \<le> now"
      "n = int (length (filter (\<lambda>q. format_db_time (now - ep_window p) \<le> format_db_time (se_created_at q))
                 (rows_of (fr_node_id r) (fr_incident_id r) s)))"
      "evaluate_attempt sha p io now r (n + 1) s = (res, s')"
proof -
  let ?ok = "failure_request_validate r"
  let ?cb = "es_circuits s (fr_node_id r, fr_incident_id r)"
  let ?latest = "latest_of (rows_of (fr_node_id r) (fr_incident_id r) s)"
  consider er where "?ok = Some er"
    | er where "?ok = None" "db_guard (es_closed s) (io PCircuit) = Some er"
    | c where "?ok = None" "db_guard (es_closed s) (io PCircuit) = None" "?cb = Some c" "cb_state c = CircuitOpen"
    | "?ok = None" "db_guard (es_closed s) (io PCircuit) = None" "\<not> circuit_open s (fr_node_id r) (fr_incident_id r)"
    by (cases ?ok; cases "db_guard (es_closed s) (io PCircuit)"; cases ?cb) (auto simp: circuit_open_def)
  then show ?thesis
  proof cases
    case 1
    with assms refused [of er] show ?thesis by (simp add: evaluate_failure_def)
  next
    case 2
    with assms refused [of "EscStore er"] show ?thesis by (simp add: evaluate_failure_def get_circuit_state_def)
  next
    case 3
    with assms open_circuit show ?thesis
      by (auto simp: evaluate_failure_def get_circuit_state_def escalate_now_def circuit_open_def)
  next
    case 4
    then have nopen: "(case ?cb of Some c \<Rightarrow> if cb_state c = CircuitOpen then Some c else None | None \<Rightarrow> None) = None"
      by (auto simp: circuit_open_def split: option.split)
    show ?thesis
    proof (cases "fr_class r = FailureCooldownActive \<or> db_guard (es_closed s) (io PLatest) \<noteq> None \<or>
        db_guard (es_closed s) (io PCount) \<noteq> None \<or> (\<exists>l. ?latest = Some l \<and> now < se_created_at l + ep_cooldown p)")
      case True
      with 4 nopen assms refused quiet show ?thesis
        by (auto simp: evaluate_failure_def get_circuit_state_def get_latest_escalation_def
            count_failures_in_window_def no_action_def split: option.splits if_splits)
    next
      case False
      then have cool: "(case ?latest of Some l \<Rightarrow> if now < se_created_at l + ep_cooldown p then Some l else None
          | None \<Rightarrow> None) = None" by (auto split: option.split)
      with False 4 nopen assms show ?thesis
        by (intro attempted [OF _ _ _ refl])
           (auto simp: evaluate_failure_def get_circuit_state_def get_latest_escalation_def
            count_failures_in_window_def)
    qed
  qed
qed

section \<open>Runs\<close>

lemma esc_run_Nil [simp]: "esc_run sha p [] s = s"
  by (simp add: esc_run_def)

lemma esc_run_Cons [simp]: "esc_run sha p (x # xs) s = esc_run sha p xs (esc_step sha p x s)"
  by (simp add: esc_run_def)

text \<open>Every call but a reset evaluates one failure or changes nothing.\<close>

lemma esc_step_cases:
  obtains (same) "esc_step sha p op s = s"
  | (failure) io now r where "esc_step sha p op s = snd (evaluate_failure sha p io now r s)"
      "\<And>node inc. \<not> resets node inc op"
  | (reset) io now node inc who where "op = EReset io now node inc who" "\<not> blank who"
proof (cases op)
  case (EFailure io now r)
  with failure show ?thesis by simp
next
  case (EMitigation io now node m)
  have "snd (evaluate_mitigation_result sha p io now node m s) = s \<or>
      (\<exists>r. snd (evaluate_mitigation_result sha p io now node m s) = snd (evaluate_failure sha p io now r s))"
    by (auto simp: evaluate_mitigation_result_def split: option.split mitigation_status.split)
  with EMitigation same failure show ?thesis by auto
next
  case (EVerification io now v)
  have "snd (evaluate_verification_result sha p io now v s) = s \<or>
      (\<exists>r. snd (evaluate_verification_result sha p io now v s) = snd (evaluate_failure sha p io now r s))"
    by (auto simp: evaluate_verification_result_def split: option.split verification_status.split)
  with EVerification same failure show ?thesis by auto
next
  case (EReset io now node inc who)
  with same reset show ?thesis by (cases "blank who") (auto simp: reset_circuit_breaker_def)
qed

lemma evaluate_failure_rows: "\<exists>new. es_rows (snd (evaluate_failure sha p io now r s)) = es_rows s @ new"
proof -
  obtain res s' where e: "evaluate_failure sha p io now r s = (res, s')" by fastforce
  then show ?thesis
  proof (cases rule: evaluate_failure_cases)
    case (open_circuit n reason)
    with e record_escalation_rows show ?thesis by simp
  next
    case (attempted n)
    from attempted(5) show ?thesis
    proof (cases rule: evaluate_attempt_cases)
      case (direct reason)
      with e record_escalation_rows show ?thesis by simp
    next
      case (retries d er)
      with e record_escalation_rows [of "io PRecord" _ s] show ?thesis by (metis snd_conv)
    qed (use e in auto)
  qed (use e in auto)
qed

lemma reset_rows: "es_rows (snd (reset_circuit_breaker io now node inc who s)) = es_rows s"
  using set_circuit_rows
  by (auto simp: reset_circuit_breaker_def split: sum.splits option.splits prod.splits) (metis snd_conv)

lemma esc_step_rows: "\<exists>new. es_rows (esc_step sha p op s) = es_rows s @ new"
proof (cases rule: esc_step_cases [of sha p op s])
  case (failure io now r)
  then show ?thesis by (simp add: evaluate_failure_rows)
next
  case (reset io now node inc who)
  then show ?thesis by (simp add: reset_rows)
qed simp

lemma esc_run_rows: "\<exists>new. es_rows (esc_run sha p ops s) = es_rows s @ new"
proof (induction ops arbitrary: s)
  case (Cons op ops)
  obtain a b where "es_rows (esc_step sha p op s) = es_rows s @ a"
    "es_rows (esc_run sha p ops (esc_step sha p op s)) = es_rows (esc_step sha p op s) @ b"
    using esc_step_rows Cons.IH by blast
  then show ?case by simp
qed simp

lemma evaluate_failure_keeps_open:
  assumes "circuit_open s node inc"
  shows "circuit_open (snd (evaluate_failure sha p io now r s)) node inc"
proof -
  obtain res s' where e: "evaluate_failure sha p io now r s = (res, s')" by fastforce
  then show ?thesis
  proof (cases rule: evaluate_failure_cases)
    case (open_circuit n reason)
    with e assms show ?thesis by (simp add: circuit_open_def record_escalation_circuits)
  next
    case (attempted n)
    from attempted(5) show ?thesis
    proof (cases rule: evaluate_attempt_cases)
      case (direct reason)
      with e assms show ?thesis by (simp add: circuit_open_def record_escalation_circuits)
    next
      case (trips fc reason)
      with e assms show ?thesis by (auto simp: circuit_open_def)
    next
      case (retries d er)
      from retries(8) e assms show ?thesis
        using record_escalation_circuits [of "io PRecord" _ s] by (auto simp: circuit_open_def) (metis snd_conv)
    qed (use e assms in auto)
  qed (use e assms in auto)
qed

lemma esc_step_keeps_open:
  assumes "circuit_open s node inc" "\<not> resets node inc op"
  shows "circuit_open (esc_step sha p op s) node inc"
proof (cases rule: esc_step_cases [of sha p op s])
  case (failure io now r)
  with assms show ?thesis by (simp add: evaluate_failure_keeps_open)
next
  case (reset io now n i who)
  with assms have "(n, i) \<noteq> (node, inc)" by auto
  with assms(1) reset(1) show ?thesis
    by (auto simp: reset_circuit_breaker_def circuit_open_def set_circuit_state_def
        split: sum.split option.split prod.split)
qed (use assms in simp)

lemma esc_run_keeps_open:
  "circuit_open s node inc \<Longrightarrow> \<forall>op \<in> set ops. \<not> resets node inc op \<Longrightarrow> circuit_open (esc_run sha p ops s) node inc"
  by (induction ops arbitrary: s) (simp_all add: esc_step_keeps_open)

text \<open>
  C11. Fail closed: once the circuit breaker of a node and incident is open, it stays open, and
  every failure evaluated for them is answered by an escalation (or an error), never by a retry,
  and no retry is permitted, whatever other calls are made and however the database answers,
  until an operator who gives a name resets it.
\<close>

theorem open_circuit_forbids_retries:
  assumes "circuit_open s node inc" "\<forall>op \<in> set ops. \<not> resets node inc op"
    and "fr_node_id r = node" "fr_incident_id r = inc"
  shows "circuit_open (esc_run sha p ops s) node inc \<and>
    no_retry (fst (evaluate_failure sha p io now r (esc_run sha p ops s))) \<and>
    (\<forall>d. fst (evaluate_failure sha p io now r (esc_run sha p ops s)) = Inr d \<longrightarrow>
       ed_action d = DoEscalate \<and> ed_target d = Some StatusEscalated) \<and>
    (\<forall>t. can_retry p io now node inc (esc_run sha p ops s) \<noteq> Inr (True, t))"
proof -
  let ?s = "esc_run sha p ops s"
  have op: "circuit_open ?s node inc" using assms(1,2) by (rule esc_run_keeps_open)
  obtain res s' where e: "evaluate_failure sha p io now r ?s = (res, s')" by fastforce
  then have "no_retry res \<and> (\<forall>d. res = Inr d \<longrightarrow> ed_action d = DoEscalate \<and> ed_target d = Some StatusEscalated)"
    by (cases rule: evaluate_failure_cases) (use op assms(3,4) in \<open>auto simp: escalate_with_def\<close>)
  moreover have "can_retry p io now node inc ?s \<noteq> Inr (True, t)" for t
    using op by (auto simp: can_retry_def get_circuit_state_def circuit_open_def split: option.split)
  ultimately show ?thesis using op e by simp
qed

section \<open>What a retry means\<close>

lemma retry_cases:
  assumes "evaluate_failure sha p io now r s = (Inr d, s')" "ed_action d = DoRetry"
  obtains n er where "\<not> circuit_open s (fr_node_id r) (fr_incident_id r)" "failure_request_validate r = None"
      "\<And>l. latest_of (rows_of (fr_node_id r) (fr_incident_id r) s) = Some l \<Longrightarrow> se_created_at l + ep_cooldown p \<le> now"
      "n = int (length (filter (\<lambda>q. format_db_time (now - ep_window p) \<le> format_db_time (se_created_at q))
                 (rows_of (fr_node_id r) (fr_incident_id r) s)))"
      "n + 1 < ep_threshold p" "n + 1 \<le> ep_max_retries p" "ed_attempt d = n + 1"
      "ed_next_retry_at d = Some (now + ep_cooldown p)" "er = None \<or> er = Some ErrDuplicateEscalation"
      "record_escalation (io PRecord) (escalation_of sha p now r (fr_class r) EscalationPending (n + 1) (fr_reason r)) s = (er, s')"
  using assms(1)
proof (cases rule: evaluate_failure_cases)
  case (attempted n)
  from attempted(5) show ?thesis
  proof (cases rule: evaluate_attempt_cases)
    case (retries e er)
    with attempted show ?thesis by (intro that) auto
  qed (use assms(2) in \<open>auto simp: escalate_with_def\<close>)
qed (use assms(2) in \<open>auto simp: escalate_with_def\<close>)

text \<open>
  Retries are granted within limits and on record: the engine answers RETRY only while the
  circuit is not open and the cooldown of the latest record is over, for an attempt that is one
  more than the failures counted in the window, below the threshold of the circuit breaker and
  within the retry budget; and then a record with the identifier of this failure is in the store.
\<close>

theorem retry_within_limits:
  assumes "evaluate_failure sha p io now r s = (Inr d, s')" "ed_action d = DoRetry"
  shows "\<not> circuit_open s (fr_node_id r) (fr_incident_id r) \<and>
    ed_attempt d = int (length (filter (\<lambda>q. format_db_time (now - ep_window p) \<le> format_db_time (se_created_at q))
      (rows_of (fr_node_id r) (fr_incident_id r) s))) + 1 \<and>
    ed_attempt d < ep_threshold p \<and> ed_attempt d \<le> ep_max_retries p \<and>
    ed_next_retry_at d = Some (now + ep_cooldown p) \<and>
    (\<forall>l. latest_of (rows_of (fr_node_id r) (fr_incident_id r) s) = Some l \<longrightarrow> se_created_at l + ep_cooldown p \<le> now) \<and>
    compute_escalation_id sha (fr_incident_id r) (fr_node_id r) (fr_action_id r) (fr_class r) (ep_version p) (ed_attempt d)
      \<in> se_id ` set (es_rows s')"
proof -
  obtain n er where n: "\<not> circuit_open s (fr_node_id r) (fr_incident_id r)"
    "\<And>l. latest_of (rows_of (fr_node_id r) (fr_incident_id r) s) = Some l \<Longrightarrow> se_created_at l + ep_cooldown p \<le> now"
    "n = int (length (filter (\<lambda>q. format_db_time (now - ep_window p) \<le> format_db_time (se_created_at q))
       (rows_of (fr_node_id r) (fr_incident_id r) s)))"
    "n + 1 < ep_threshold p" "n + 1 \<le> ep_max_retries p" "ed_attempt d = n + 1"
    "ed_next_retry_at d = Some (now + ep_cooldown p)" "er = None \<or> er = Some ErrDuplicateEscalation"
    "record_escalation (io PRecord) (escalation_of sha p now r (fr_class r) EscalationPending (n + 1) (fr_reason r)) s = (er, s')"
    using assms by (rule retry_cases) blast
  from n(9) have "compute_escalation_id sha (fr_incident_id r) (fr_node_id r) (fr_action_id r) (fr_class r) (ep_version p)
      (n + 1) \<in> se_id ` set (es_rows s')"
    by (cases rule: record_escalation_cases) (use n(8) in \<open>auto simp: escalation_of_def\<close>)
  with n show ?thesis by simp
qed

section \<open>The cooldown\<close>

lemma latest_not_before:
  assumes "q \<in> set (rows_of node inc s)" "now + second \<le> se_created_at q + c"
  obtains l where "latest_of (rows_of node inc s) = Some l" "now < se_created_at l + c"
proof -
  from assms(1) have "latest_of (rows_of node inc s) \<noteq> None" by (auto simp: latest_of_None)
  then obtain l where l: "latest_of (rows_of node inc s) = Some l" by blast
  have "\<not> se_created_at l + second \<le> se_created_at q"
    using latest_of_greatest(2) [OF l assms(1)] db_less_of_second_later by force
  with assms(2) have "now < se_created_at l + c" by linarith
  with l that show ?thesis by blast
qed

lemma cooldown_no_retry:
  assumes "q \<in> set (rows_of (fr_node_id r) (fr_incident_id r) s)" "now + second \<le> se_created_at q + ep_cooldown p"
  shows "no_retry (fst (evaluate_failure sha p io now r s))"
proof -
  obtain l where l: "latest_of (rows_of (fr_node_id r) (fr_incident_id r) s) = Some l" "now < se_created_at l + ep_cooldown p"
    using assms by (rule latest_not_before)
  obtain res s' where e: "evaluate_failure sha p io now r s = (res, s')" by fastforce
  show ?thesis
  proof (cases res)
    case (Inr d)
    with e l have "ed_action d \<noteq> DoRetry" by (metis retry_cases not_less)
    with e Inr show ?thesis by simp
  qed (use e in simp)
qed

lemma cooldown_cannot_retry:
  assumes "q \<in> set (rows_of node inc s)" "now + second \<le> se_created_at q + ep_cooldown p"
  shows "can_retry p io now node inc s \<noteq> Inr (True, t)"
proof -
  obtain l where "latest_of (rows_of node inc s) = Some l" "now < se_created_at l + ep_cooldown p"
    using assms by (rule latest_not_before)
  then show ?thesis
    by (auto simp: can_retry_def get_circuit_state_def get_latest_escalation_def split: option.split)
qed

text \<open>
  The cooldown holds: after a retry granted for a failure that was not on record before, no
  further retry is granted or permitted for the node and incident until the cooldown is over
  (less the second by which the order of the stored timestamps can be off), whatever calls come
  in between, a reset of the circuit included.
\<close>

theorem retry_starts_cooldown:
  assumes "evaluate_failure sha p io now r s = (Inr d, s')" "ed_action d = DoRetry"
    and "compute_escalation_id sha (fr_incident_id r) (fr_node_id r) (fr_action_id r) (fr_class r) (ep_version p) (ed_attempt d)
      \<notin> se_id ` set (es_rows s)"
    and "fr_node_id r' = fr_node_id r" "fr_incident_id r' = fr_incident_id r" "later + second \<le> now + ep_cooldown p"
  shows "no_retry (fst (evaluate_failure sha p io' later r' (esc_run sha p ops s'))) \<and>
    (\<forall>t. can_retry p io' later (fr_node_id r) (fr_incident_id r) (esc_run sha p ops s') \<noteq> Inr (True, t))"
proof -
  obtain n er where n: "ed_attempt d = n + 1" "er = None \<or> er = Some ErrDuplicateEscalation"
    "record_escalation (io PRecord) (escalation_of sha p now r (fr_class r) EscalationPending (n + 1) (fr_reason r)) s = (er, s')"
    using assms(1,2) by (rule retry_cases) blast
  let ?q = "escalation_of sha p now r (fr_class r) EscalationPending (n + 1) (fr_reason r)"
  from n(3) have "?q \<in> set (es_rows s')"
    by (cases rule: record_escalation_cases) (use n assms(3) in \<open>auto simp: escalation_of_def\<close>)
  moreover obtain new where "es_rows (esc_run sha p ops s') = es_rows s' @ new" using esc_run_rows by blast
  ultimately have "?q \<in> set (rows_of (fr_node_id r) (fr_incident_id r) (esc_run sha p ops s'))"
    by (simp add: rows_of_def escalation_of_def)
  with cooldown_no_retry [of ?q r'] cooldown_cannot_retry [of ?q "fr_node_id r" "fr_incident_id r"] assms(4-6)
  show ?thesis by (simp add: escalation_of_def)
qed

end
