(* ===== verification/Escalation_Bounds.thy ===== *)
theory Escalation_Bounds
  imports Escalation_Safety
begin

text \<open>
  How many retries one incident gets: a bound within a failure window, and its failure once the
  window has slid past the records whose identifiers are used again.
\<close>

section \<open>Attempts give distinct identifiers\<close>

definition digits_value :: "string \<Rightarrow> nat" where
  "digits_value s = foldl (\<lambda>n c. 10 * n + (byte c - 48)) 0 s"

lemma show_nat_value: "digits_value (show_nat n) = n"
proof (induction n rule: show_nat.induct)
  case (1 n)
  have "byte (char_of (48 + d :: nat)) = 48 + d" if "d < 10" for d
    using that by (simp add: byte_def of_char_of)
  with 1 show ?case by (subst show_nat.simps) (auto simp: digits_value_def)
qed

lemma show_nat_no_bar: "c \<in> set (show_nat n) \<Longrightarrow> c \<noteq> CHR ''|''"
proof (induction n rule: show_nat.induct)
  case (1 n)
  have "char_of (48 + d :: nat) \<noteq> CHR ''|''" if "d < 10" for d
  proof
    assume "char_of (48 + d :: nat) = CHR ''|''"
    then have "of_char (char_of (48 + d :: nat)) = (of_char (CHR ''|'') :: nat)" by simp
    with that show False by (simp add: of_char_of)
  qed
  note digit = this
  show ?case
  proof (cases "n < 10")
    case True
    then have "set (show_nat n) = {char_of (48 + n)}" by (subst show_nat.simps) simp
    with 1(2) digit [OF True] show ?thesis by simp
  next
    case False
    then have "set (show_nat n) = insert (char_of (48 + n mod 10)) (set (show_nat (n div 10)))"
      by (subst show_nat.simps) simp
    with 1 False digit [of "n mod 10"] show ?thesis by auto
  qed
qed

lemma itoa_nonneg_inject: "0 \<le> a \<Longrightarrow> 0 \<le> b \<Longrightarrow> itoa a = itoa b \<Longrightarrow> a = b"
  by (metis itoa_def linorder_not_less nat_eq_iff show_nat_value)

lemma split_at_last_bar:
  assumes "u @ CHR ''|'' # v = u' @ CHR ''|'' # v'" "CHR ''|'' \<notin> set v" "CHR ''|'' \<notin> set v'"
  shows "v = v'"
proof -
  have "takeWhile (\<lambda>c. c \<noteq> CHR ''|'') (rev (u @ CHR ''|'' # v)) = rev v" if "CHR ''|'' \<notin> set v" for u v
    using that by (simp add: takeWhile_append)
  with assms show ?thesis by (metis rev_rev_ident)
qed

lemma escalation_raw_attempt:
  assumes "escalation_raw i n a f v x = escalation_raw i' n' a' f' v' y" "0 \<le> x" "0 \<le> y"
  shows "x = y"
proof -
  have "\<exists>u. escalation_raw i n a f v x = u @ CHR ''|'' # itoa x" for i n a f v x
    by (simp add: escalation_raw_def)
  then obtain u u' where "u @ CHR ''|'' # itoa x = u' @ CHR ''|'' # itoa y" using assms(1) by metis
  moreover have "CHR ''|'' \<notin> set (itoa z)" if "0 \<le> z" for z
    using that show_nat_no_bar by (auto simp: itoa_def)
  ultimately have "itoa x = itoa y" using assms(2,3) split_at_last_bar by blast
  with assms(2,3) show ?thesis using itoa_nonneg_inject by blast
qed

section \<open>A bound within a window\<close>

text \<open>The failures of one node and incident, and the retries they are answered with.\<close>

type_synonym failure_call = "(esc_point \<Rightarrow> db_io) \<times> gotime \<times> failure_request"

fun is_retry :: "esc_err + escalation_decision \<Rightarrow> bool" where
  "is_retry (Inl _) = False"
| "is_retry (Inr d) = (ed_action d = DoRetry)"

fun retries :: "digest \<Rightarrow> escalation_policy \<Rightarrow> failure_call list \<Rightarrow> escalation_store \<Rightarrow> nat" where
  "retries sha p [] s = 0"
| "retries sha p ((io, now, r) # xs) s =
     (if is_retry (fst (evaluate_failure sha p io now r s)) then 1 else 0) +
     retries sha p xs (snd (evaluate_failure sha p io now r s))"

text \<open>The digests that the failures of a run give to attempts.\<close>

definition attempt_raws :: "escalation_policy \<Rightarrow> failure_request set \<Rightarrow> nat \<Rightarrow> string set" where
  "attempt_raws p rs n = (\<lambda>(r, a). escalation_raw (fr_incident_id r) (fr_node_id r) (fr_action_id r) (fr_class r)
     (ep_version p) (int a)) ` (rs \<times> {1..n})"

definition digest_text :: "digest \<Rightarrow> string \<Rightarrow> string" where
  "digest_text sha raw = hex_bytes (take 16 (sha raw))"

text \<open>The rows a run has left: one per attempt, all of the window.\<close>

definition window_row ::
  "digest \<Rightarrow> escalation_policy \<Rightarrow> string \<Rightarrow> string \<Rightarrow> gotime \<Rightarrow> failure_request set \<Rightarrow> nat \<Rightarrow> stored_escalation \<Rightarrow> bool" where
  "window_row sha p node inc t0 rs n q \<longleftrightarrow>
     se_node_id q = node \<and> se_incident_id q = inc \<and> t0 \<le> se_created_at q \<and>
     (\<exists>r \<in> rs. \<exists>a. 1 \<le> a \<and> a \<le> n \<and>
        se_id q = compute_escalation_id sha (fr_incident_id r) (fr_node_id r) (fr_action_id r) (fr_class r)
                    (ep_version p) (int a))"

definition window_rows ::
  "digest \<Rightarrow> escalation_policy \<Rightarrow> string \<Rightarrow> string \<Rightarrow> gotime \<Rightarrow> failure_request set \<Rightarrow> escalation_store \<Rightarrow> bool" where
  "window_rows sha p node inc t0 rs s \<longleftrightarrow>
     (\<forall>q \<in> set (es_rows s). window_row sha p node inc t0 rs (length (es_rows s)) q)"

lemma window_row_mono: "window_row sha p node inc t0 rs n q \<Longrightarrow> n \<le> m \<Longrightarrow> window_row sha p node inc t0 rs m q"
  unfolding window_row_def using order_trans by blast

lemma window_count:
  assumes "window_rows sha p node inc t0 rs s" "now + second \<le> t0 + ep_window p"
  shows "filter (\<lambda>q. format_db_time (now - ep_window p) \<le> format_db_time (se_created_at q)) (rows_of node inc s) = es_rows s"
proof -
  have "format_db_time (now - ep_window p) \<le> format_db_time (se_created_at q) \<and> se_node_id q = node \<and> se_incident_id q = inc"
    if "q \<in> set (es_rows s)" for q
  proof -
    have "t0 \<le> se_created_at q" "se_node_id q = node" "se_incident_id q = inc"
      using assms(1) that by (auto simp: window_rows_def window_row_def)
    then show ?thesis using assms(2) db_less_of_second_later [of "now - ep_window p" "se_created_at q"] by simp
  qed
  then show ?thesis by (auto simp: rows_of_def filter_id_conv)
qed

lemma window_rows_snoc:
  assumes "window_rows sha p (fr_node_id r) (fr_incident_id r) t0 rs s" "r \<in> rs" "t0 \<le> now"
    and "s' = s\<lparr>es_rows := es_rows s @ [escalation_of sha p now r (fr_class r) st (int (length (es_rows s)) + 1) m]\<rparr>"
  shows "window_rows sha p (fr_node_id r) (fr_incident_id r) t0 rs s'"
proof -
  let ?q = "escalation_of sha p now r (fr_class r) st (int (length (es_rows s)) + 1) m"
  have "window_row sha p (fr_node_id r) (fr_incident_id r) t0 rs (Suc (length (es_rows s))) ?q"
    unfolding window_row_def using assms(2,3)
    by (auto simp: escalation_of_def add.commute intro!: bexI [of _ r] exI [of _ "Suc (length (es_rows s))"])
  moreover have "window_row sha p (fr_node_id r) (fr_incident_id r) t0 rs (Suc (length (es_rows s))) q"
    if "q \<in> set (es_rows s)" for q
    using assms(1) that window_row_mono [where n = "length (es_rows s)"] by (simp add: window_rows_def)
  ultimately show ?thesis by (auto simp: window_rows_def assms(4))
qed

text \<open>A new attempt is never a duplicate.\<close>

lemma attempt_fresh:
  assumes "window_rows sha p node inc t0 rs s" "r \<in> rs" "length (es_rows s) < n"
    and "inj_on (digest_text sha) (attempt_raws p rs n)"
  shows "compute_escalation_id sha (fr_incident_id r) (fr_node_id r) (fr_action_id r) (fr_class r) (ep_version p)
    (int (length (es_rows s)) + 1) \<notin> se_id ` set (es_rows s)"
proof
  let ?raw = "\<lambda>r a. escalation_raw (fr_incident_id r) (fr_node_id r) (fr_action_id r) (fr_class r) (ep_version p) (int a)"
  let ?n = "Suc (length (es_rows s))"
  assume "compute_escalation_id sha (fr_incident_id r) (fr_node_id r) (fr_action_id r) (fr_class r) (ep_version p)
    (int (length (es_rows s)) + 1) \<in> se_id ` set (es_rows s)"
  then obtain q where q: "q \<in> set (es_rows s)" "compute_escalation_id sha (fr_incident_id r) (fr_node_id r) (fr_action_id r)
      (fr_class r) (ep_version p) (int ?n) = se_id q" by (auto simp: add.commute)
  with assms(1) obtain r' a where a: "r' \<in> rs" "1 \<le> a" "a \<le> length (es_rows s)"
    "digest_text sha (?raw r ?n) = digest_text sha (?raw r' a)"
    by (auto simp: window_rows_def window_row_def compute_escalation_id_def digest_text_def simp del: of_nat_Suc)
  moreover have "?raw x k \<in> attempt_raws p rs n" if "x \<in> rs" "1 \<le> k" "k \<le> n" for x k
    unfolding attempt_raws_def by (rule image_eqI [of _ _ "(x, k)"]) (use that in auto)
  then have "?raw r ?n \<in> attempt_raws p rs n" "?raw r' a \<in> attempt_raws p rs n"
    using assms(2,3) a(1-3) by (simp_all del: of_nat_Suc)
  ultimately have "?raw r ?n = ?raw r' a" using assms(4) by (meson inj_onD)
  then have "int ?n = int a" using escalation_raw_attempt by (metis of_nat_0_le_iff)
  with a(3) show False by simp
qed

lemma open_no_retries:
  "circuit_open s node inc \<Longrightarrow> \<forall>(io, now, r) \<in> set xs. fr_node_id r = node \<and> fr_incident_id r = inc \<Longrightarrow>
     retries sha p xs s = 0"
proof (induction xs arbitrary: s)
  case (Cons x xs)
  obtain io now r where x: "x = (io, now, r)" by (cases x)
  have "\<not> is_retry res" if "evaluate_failure sha p io now r s = (res, s')" for res s'
    using that Cons.prems x by (cases rule: evaluate_failure_cases) (auto simp: escalate_with_def)
  then have "\<not> is_retry (fst (evaluate_failure sha p io now r s))" by (metis prod.collapse)
  with Cons evaluate_failure_keeps_open [OF Cons.prems(1)] show ?case by (simp add: x)
qed simp

lemma retry_not_open:
  assumes "evaluate_failure sha p io now r s = (res, s')" "is_retry res"
  shows "\<not> circuit_open s' (fr_node_id r) (fr_incident_id r)"
proof -
  obtain d where d: "res = Inr d" "ed_action d = DoRetry" using assms(2) by (cases res) auto
  obtain n er where n: "\<not> circuit_open s (fr_node_id r) (fr_incident_id r)"
    "record_escalation (io PRecord) (escalation_of sha p now r (fr_class r) EscalationPending (n + 1) (fr_reason r)) s = (er, s')"
    using assms(1) d by (metis retry_cases)
  then have "es_circuits s' = es_circuits s" by (metis record_escalation_circuits snd_conv)
  with n(1) show ?thesis by (simp add: circuit_open_def)
qed

text \<open>What an evaluation within the window does to the rows, when the circuit is not open.\<close>

lemma window_step:
  assumes "window_rows sha p (fr_node_id r) (fr_incident_id r) t0 rs s" "r \<in> rs" "length (es_rows s) < n"
    and "inj_on (digest_text sha) (attempt_raws p rs n)" "t0 \<le> now" "now + second \<le> t0 + ep_window p"
    and "evaluate_failure sha p io now r s = (res, s')" "\<not> circuit_open s' (fr_node_id r) (fr_incident_id r)"
  shows "window_rows sha p (fr_node_id r) (fr_incident_id r) t0 rs s' \<and> length (es_rows s') \<le> Suc (length (es_rows s)) \<and>
    length (es_rows s) \<le> length (es_rows s') \<and>
    (is_retry res \<longrightarrow> length (es_rows s') = Suc (length (es_rows s)) \<and>
       int (length (es_rows s')) < ep_threshold p \<and> int (length (es_rows s')) \<le> ep_max_retries p)"
  using assms(7)
proof (cases rule: evaluate_failure_cases)
  case (open_circuit k reason)
  with evaluate_failure_keeps_open assms(7,8) show ?thesis by (metis snd_conv)
next
  case (attempted k)
  then have k: "k = int (length (es_rows s))" using window_count [OF assms(1,6)] by simp
  note snoc = window_rows_snoc [OF assms(1,2,5) refl]
  from attempted(5) show ?thesis
  proof (cases rule: evaluate_attempt_cases)
    case (direct reason)
    let ?e = "escalation_of sha p now r (fr_class r) EscalationEscalated (k + 1) reason"
    obtain er s1 where "record_escalation (io PRecord) ?e s = (er, s1)" by fastforce
    then show ?thesis
    proof (cases rule: record_escalation_cases)
      case recorded
      with direct snoc \<open>record_escalation (io PRecord) ?e s = (er, s1)\<close> show ?thesis
        by (simp add: k escalate_with_def)
    next
      case (kept x)
      with direct assms(1) \<open>record_escalation (io PRecord) ?e s = (er, s1)\<close> show ?thesis
        by (simp add: escalate_with_def)
    qed
  next
    case (trips fc reason)
    with assms(8) show ?thesis by simp
  next
    case (retries d er)
    from retries(8) show ?thesis
    proof (cases rule: record_escalation_cases)
      case recorded
      with retries snoc show ?thesis by (simp add: k add.commute)
    next
      case (kept x)
      with retries attempt_fresh [OF assms(1-4)] show ?thesis by (auto simp: k escalation_of_def)
    qed
  qed (use assms(1) in simp)
qed (use assms(1) in simp_all)

lemma retries_bound:
  assumes "window_rows sha p node inc t0 rs s" "\<not> circuit_open s node inc"
    and "length (es_rows s) + length xs \<le> n" "inj_on (digest_text sha) (attempt_raws p rs n)"
    and "\<forall>(io, now, r) \<in> set xs. r \<in> rs \<and> fr_node_id r = node \<and> fr_incident_id r = inc \<and> t0 \<le> now \<and>
           now + second \<le> t0 + ep_window p"
  shows "int (retries sha p xs s) \<le>
    max 0 (min (ep_threshold p - 1) (ep_max_retries p) - int (length (es_rows s)))"
  using assms
proof (induction xs arbitrary: s)
  case (Cons x xs)
  obtain io now r where x: "x = (io, now, r)" by (cases x)
  with Cons.prems(5) have r: "r \<in> rs" "fr_node_id r = node" "fr_incident_id r = inc" "t0 \<le> now"
    "now + second \<le> t0 + ep_window p" by auto
  obtain res s' where e: "evaluate_failure sha p io now r s = (res, s')" by fastforce
  show ?case
  proof (cases "circuit_open s' node inc")
    case True
    then have "\<not> is_retry res" using retry_not_open [OF e] r(2,3) by blast
    with True Cons.prems(2,5) open_no_retries [OF True, of xs] e show ?thesis by (auto simp: x split: prod.splits)
  next
    case False
    note st = window_step [of sha p r t0 rs s n now io res s', OF _ r(1) _ Cons.prems(4) r(4,5) e]
    have "window_rows sha p node inc t0 rs s' \<and> length (es_rows s') \<le> Suc (length (es_rows s)) \<and>
      length (es_rows s) \<le> length (es_rows s') \<and>
      (is_retry res \<longrightarrow> length (es_rows s') = Suc (length (es_rows s)) \<and>
        int (length (es_rows s')) < ep_threshold p \<and> int (length (es_rows s')) \<le> ep_max_retries p)"
      using st Cons.prems(1,3) False r(2,3) by auto
    moreover from this Cons.prems False have "int (retries sha p xs s') \<le>
        max 0 (min (ep_threshold p - 1) (ep_max_retries p) - int (length (es_rows s')))"
      by (intro Cons.IH) auto
    ultimately show ?thesis using e by (auto simp: x)
  qed
qed simp


section \<open>After the window\<close>

text \<open>The store after the first failure of an incident was answered with a retry.\<close>

definition once_failed :: "digest \<Rightarrow> escalation_policy \<Rightarrow> gotime \<Rightarrow> failure_request \<Rightarrow> escalation_store" where
  "once_failed sha p t0 r =
     \<lparr>es_closed = False, es_rows = [escalation_of sha p t0 r (fr_class r) EscalationPending 1 (fr_reason r)],
      es_circuits = (\<lambda>_. None)\<rparr>"

lemma once_failed_sel [simp]:
  "es_closed (once_failed sha p t0 r) = False" "es_circuits (once_failed sha p t0 r) k = None"
  by (simp_all add: once_failed_def)

lemma stale_failure_retried:
  assumes "failure_request_validate r = None" "fr_class r \<in> {FailureMitigationFailed, FailureVerificationTimedOut}"
    and "escalation_policy_validate p = None" "1 < ep_threshold p" "1 \<le> ep_max_retries p" "ep_cooldown p \<le> ep_window p"
    and "\<not> is_zero now" "t0 + ep_window p + second \<le> now"
  shows "\<exists>d. evaluate_failure sha p (\<lambda>_. IoOk) now r (once_failed sha p t0 r) = (Inr d, once_failed sha p t0 r) \<and>
    ed_action d = DoRetry \<and> ed_attempt d = 1"
proof -
  let ?q = "escalation_of sha p t0 r (fr_class r) EscalationPending 1 (fr_reason r)"
  have rows: "rows_of (fr_node_id r) (fr_incident_id r) (once_failed sha p t0 r) = [?q]"
    by (simp add: rows_of_def once_failed_def escalation_of_def)
  have created: "se_created_at ?q = t0" by (simp add: escalation_of_def)
  have old: "\<not> format_db_time (now - ep_window p) \<le> format_db_time t0"
    using assms(8) db_less_of_second_later [of t0 "now - ep_window p"] by (simp add: not_le)
  have latest: "latest_of [?q] = Some ?q" by (simp add: latest_of_def sort_by_def)
  have late: "\<not> now < t0 + ep_cooldown p" using assms(6,8) by simp
  have valid: "stored_escalation_validate (escalation_of sha p now r (fr_class r) EscalationPending 1 (fr_reason r)) = None"
  proof -
    have "\<not> blank (compute_escalation_id sha i n a c v k)" for i n a c v k
      by (simp add: compute_escalation_id_def not_blank_Cons byte_def space_heads_def)
    then show ?thesis
      using assms(1,3,7) by (auto simp: stored_escalation_validate_def escalation_of_def failure_request_validate_def
          escalation_policy_validate_def ptr_before_def split: if_splits)
  qed
  have dup: "record_escalation IoOk (escalation_of sha p now r (fr_class r) EscalationPending 1 (fr_reason r))
      (once_failed sha p t0 r) = (Some ErrDuplicateEscalation, once_failed sha p t0 r)"
    using valid by (simp add: record_escalation_def once_failed_def) (simp add: escalation_of_def)
  have "evaluate_failure sha p (\<lambda>_. IoOk) now r (once_failed sha p t0 r) =
      evaluate_attempt sha p (\<lambda>_. IoOk) now r 1 (once_failed sha p t0 r)"
    using assms(1,2) late old
    by (auto simp: evaluate_failure_def get_circuit_state_def get_latest_escalation_def count_failures_in_window_def
        rows latest created)
  then show ?thesis
    using assms(2,4,5) dup by (auto simp: evaluate_attempt_def)
qed

text \<open>
  The limits do not survive the window: a failure that repeats with the same action after the
  failure window has slid past its first record gets attempt number 1 again, and with it the
  identifier of that record; the insertion is refused as a duplicate and the refusal is ignored.
  So every later failure is answered with a retry, with no cooldown in between and without the
  circuit breaker ever tripping: whatever the number of failures, each one is retried.
\<close>

theorem repeated_failure_retried_forever:
  assumes "failure_request_validate r = None" "fr_class r \<in> {FailureMitigationFailed, FailureVerificationTimedOut}"
    and "escalation_policy_validate p = None" "1 < ep_threshold p" "1 \<le> ep_max_retries p" "ep_cooldown p \<le> ep_window p"
    and "\<forall>now \<in> set ts. \<not> is_zero now \<and> t0 + ep_window p + second \<le> now"
  shows "retries sha p (map (\<lambda>now. (\<lambda>_. IoOk, now, r)) ts) (once_failed sha p t0 r) = length ts"
  using assms(7)
proof (induction ts)
  case (Cons now ts)
  then obtain d where "evaluate_failure sha p (\<lambda>_. IoOk) now r (once_failed sha p t0 r) = (Inr d, once_failed sha p t0 r)"
    "ed_action d = DoRetry" using stale_failure_retried [OF assms(1-6)] by (meson list.set_intros(1))
  with Cons show ?case by simp
qed simp

section \<open>Examples\<close>

text \<open>The properties of the escalation engine at concrete inputs.\<close>

definition example_failure :: failure_request where
  "example_failure =
     \<lparr>fr_incident_id = ''i'', fr_node_id = ''n'', fr_action_id = ''a'', fr_metric = [],
      fr_class = FailureMitigationFailed, fr_reason = Lit ''x'', fr_evidence = []\<rparr>"

definition empty_escalations :: escalation_store where
  "empty_escalations = \<lparr>es_closed = False, es_rows = [], es_circuits = (\<lambda>_. None)\<rparr>"

lemma empty_escalations_sel [simp]:
  "es_closed empty_escalations = False" "es_rows empty_escalations = []" "es_circuits empty_escalations k = None"
  by (simp_all add: empty_escalations_def)

text \<open>A digest that tells texts apart by their last character.\<close>

definition last_digest :: digest where
  "last_digest raw = [byte (last raw)]"

lemma not_blank_failure: "\<not> blank ''i''" "\<not> blank ''n''" "\<not> blank ''a''" "\<not> blank ''op''" "\<not> blank ''v1.0.0''"
  by code_simp+

lemma example_failure_valid: "failure_request_validate example_failure = None"
  by (simp add: failure_request_validate_def example_failure_def not_blank_failure)

lemma default_escalation_policy_valid: "escalation_policy_validate default_escalation_policy = None"
  by (simp add: escalation_policy_validate_def default_escalation_policy_def not_blank_failure)

lemma first_failure:
  assumes "t0 \<noteq> 0"
  shows "\<exists>d. evaluate_failure sha default_escalation_policy (\<lambda>_. IoOk) t0 example_failure empty_escalations =
      (Inr d, once_failed sha default_escalation_policy t0 example_failure) \<and> ed_action d = DoRetry \<and> ed_attempt d = 1"
proof -
  have "\<not> blank (compute_escalation_id sha i n a c v k)" for i n a c v k
    by (simp add: compute_escalation_id_def not_blank_Cons byte_def space_heads_def)
  then have "record_escalation IoOk (escalation_of sha default_escalation_policy t0 example_failure FailureMitigationFailed
      EscalationPending 1 (Lit ''x'')) empty_escalations = (None, once_failed sha default_escalation_policy t0 example_failure)"
    using assms
    by (simp add: record_escalation_def empty_escalations_def once_failed_def stored_escalation_validate_def
        escalation_of_def example_failure_def not_blank_failure is_zero_def ptr_before_def default_escalation_policy_def)
  then show ?thesis
    by (simp add: evaluate_failure_def example_failure_valid get_circuit_state_def get_latest_escalation_def
        count_failures_in_window_def rows_of_def latest_of_def)
       (simp add: evaluate_attempt_def example_failure_def default_escalation_policy_def)
qed

theorem retry_within_limits_witness:
  "\<exists>d. fst (evaluate_failure last_digest default_escalation_policy (\<lambda>_. IoOk) 10 example_failure empty_escalations) = Inr d \<and>
     ed_action d = DoRetry \<and> ed_attempt d < 3"
proof -
  obtain d where d: "evaluate_failure last_digest default_escalation_policy (\<lambda>_. IoOk) 10 example_failure empty_escalations =
      (Inr d, once_failed last_digest default_escalation_policy 10 example_failure)" "ed_action d = DoRetry"
    using first_failure [of 10 last_digest] by auto
  from retry_within_limits [OF this] d show ?thesis by (simp add: default_escalation_policy_def)
qed

theorem retry_starts_cooldown_witness:
  "no_retry (fst (evaluate_failure last_digest default_escalation_policy (\<lambda>_. IoOk) (2 * minute) example_failure
     (esc_run last_digest default_escalation_policy [EReset (\<lambda>_. IoOk) minute ''n'' ''i'' ''op'']
       (once_failed last_digest default_escalation_policy 10 example_failure))))"
proof -
  obtain d where d: "evaluate_failure last_digest default_escalation_policy (\<lambda>_. IoOk) 10 example_failure empty_escalations =
      (Inr d, once_failed last_digest default_escalation_policy 10 example_failure)" "ed_action d = DoRetry"
    using first_failure [of 10 last_digest] by auto
  show ?thesis
    using retry_starts_cooldown [OF d _ refl refl, of "2 * minute" "\<lambda>_. IoOk"
        "[EReset (\<lambda>_. IoOk) minute ''n'' ''i'' ''op'']"]
    by (simp add: default_escalation_policy_def)
qed

definition open_store :: escalation_store where
  "open_store = empty_escalations\<lparr>es_circuits := [(''n'', ''i'') \<mapsto>
     \<lparr>cb_node_id = ''n'', cb_incident_id = ''i'', cb_state = CircuitOpen, cb_failure_count = 3, cb_tripped_at = Some 5,
      cb_reset_at = None, cb_reset_by = [], cb_updated_at = 5\<rparr>]\<rparr>"

theorem open_circuit_forbids_retries_witness:
  "circuit_open (esc_run last_digest default_escalation_policy [EReset (\<lambda>_. IoOk) 7 ''n'' ''i'' []] open_store) ''n'' ''i'' \<and>
   no_retry (fst (evaluate_failure last_digest default_escalation_policy (\<lambda>_. IoOk) 10 example_failure
     (esc_run last_digest default_escalation_policy [EReset (\<lambda>_. IoOk) 7 ''n'' ''i'' []] open_store)))"
proof -
  have "circuit_open open_store ''n'' ''i''" by (simp add: circuit_open_def open_store_def)
  moreover have "\<forall>op \<in> set [EReset (\<lambda>_. IoOk) 7 ''n'' ''i'' []]. \<not> resets ''n'' ''i'' op" by simp
  moreover have "fr_node_id example_failure = ''n''" "fr_incident_id example_failure = ''i''"
    by (simp_all add: example_failure_def)
  ultimately show ?thesis
    using open_circuit_forbids_retries [of open_store "''n''" "''i''" _ example_failure] by blast
qed


theorem repeated_failure_retried_forever_witness:
  "retries last_digest default_escalation_policy
     (map (\<lambda>now. (\<lambda>_. IoOk, now, example_failure)) [60 * minute, 60 * minute + 1, 60 * minute + 2, 60 * minute + 3])
     (once_failed last_digest default_escalation_policy 10 example_failure) = 4"
proof -
  have "retries last_digest default_escalation_policy
     (map (\<lambda>now. (\<lambda>_. IoOk, now, example_failure)) [60 * minute, 60 * minute + 1, 60 * minute + 2, 60 * minute + 3])
     (once_failed last_digest default_escalation_policy 10 example_failure) =
     length [60 * minute, 60 * minute + 1, 60 * minute + 2, 60 * minute + 3 :: gotime]"
    by (rule repeated_failure_retried_forever [OF example_failure_valid _ default_escalation_policy_valid])
       (simp_all add: example_failure_def default_escalation_policy_def is_zero_def)
  then show ?thesis by simp
qed

end
