(* ===== verification/Incident_Store.thy ===== *)
theory Incident_Store
  imports Approval_Store
begin

text \<open>
  The durable incident store: the tables \<open>incident_records\<close>, keyed by \<open>incident_id\<close>, and
  \<open>incident_observations\<close>, keyed by \<open>anomaly_id\<close> (\<open>edge/agent/storage/store.go\<close> and
  \<open>sqlite.go\<close>).  A row of the first is the incident it is read back as: mitigations are not
  stored, and the column \<open>created_at\<close> is never read.
\<close>

section \<open>State\<close>

record stored_observation =
  so_anomaly_id :: string
  so_incident_id :: string
  so_node_id :: string
  so_metric_name :: string
  so_detected_at :: gotime
  so_observed_value :: float64
  so_anomaly_score :: float64
  so_detection_method :: string
  so_evidence :: "(string \<times> msg) list option"
  so_created_at :: gotime

record incident_store =
  is_closed :: bool
  is_incidents :: "incident list"
  is_observations :: "stored_observation list"

definition active_status :: "incident_status \<Rightarrow> bool" where
  "active_status s \<longleftrightarrow> s = StatusAnomalyDetected \<or> s = StatusMitigating \<or> s = StatusEscalated"

section \<open>Reading\<close>

definition observed :: "string \<Rightarrow> incident_store \<Rightarrow> bool" where
  "observed aid s \<longleftrightarrow> list_ex (\<lambda>ob. so_anomaly_id ob = aid) (is_observations s)"

definition has_observation :: "db_io \<Rightarrow> string \<Rightarrow> incident_store \<Rightarrow> store_err + bool" where
  "has_observation io aid s =
     (case db_guard (is_closed s) io of Some er \<Rightarrow> Inl er | None \<Rightarrow> Inr (observed aid s))"

definition find_incident :: "string \<Rightarrow> incident list \<Rightarrow> incident option" where
  "find_incident iid rows = find (\<lambda>i. inc_id i = iid) rows"

definition get_incident :: "db_io \<Rightarrow> string \<Rightarrow> incident_store \<Rightarrow> store_err + incident" where
  "get_incident io iid s =
     (case db_guard (is_closed s) io of Some er \<Rightarrow> Inl er | None \<Rightarrow>
        (case find_incident iid (is_incidents s) of None \<Rightarrow> Inl ErrIncidentNotFound | Some i \<Rightarrow> Inr i))"

text \<open>\<open>ORDER BY triggered_at DESC LIMIT 1\<close>, on the text of the timestamps.\<close>

definition get_active_incident_record ::
  "db_io \<Rightarrow> string \<Rightarrow> string \<Rightarrow> incident_store \<Rightarrow> store_err + incident option" where
  "get_active_incident_record io node metric s =
     (case db_guard (is_closed s) io of Some er \<Rightarrow> Inl er | None \<Rightarrow>
        (case sort_by (\<lambda>a b. format_db_time (inc_triggered_at b) < format_db_time (inc_triggered_at a))
           (filter (\<lambda>i. inc_node_id i = node \<and> inc_trigger_metric i = metric \<and> active_status (inc_status i))
              (is_incidents s)) of
           [] \<Rightarrow> Inr None | i # _ \<Rightarrow> Inr (Some i)))"

definition list_active_incidents :: "db_io \<Rightarrow> incident_store \<Rightarrow> store_err + incident list" where
  "list_active_incidents io s =
     (case db_guard (is_closed s) io of Some er \<Rightarrow> Inl er | None \<Rightarrow>
        Inr (sort_key (\<lambda>i. format_db_time (inc_triggered_at i))
               (filter (\<lambda>i. active_status (inc_status i)) (is_incidents s))))"

definition recent :: "gotime \<Rightarrow> nat \<Rightarrow> stored_observation list \<Rightarrow> stored_observation list" where
  "recent since limit os =
     take limit (sort_key (\<lambda>ob. format_db_time (so_detected_at ob))
       (filter (\<lambda>ob. format_db_time since \<le> format_db_time (so_detected_at ob)) os))"

definition list_recent_observations ::
  "db_io \<Rightarrow> string \<Rightarrow> string \<Rightarrow> gotime \<Rightarrow> int \<Rightarrow> incident_store \<Rightarrow> store_err + stored_observation list" where
  "list_recent_observations io node metric since limit s =
     (case db_guard (is_closed s) io of Some er \<Rightarrow> Inl er | None \<Rightarrow>
        Inr (recent since (if limit \<le> 0 then 50 else nat limit)
          (filter (\<lambda>ob. so_node_id ob = node \<and> so_metric_name ob = metric) (is_observations s))))"

definition list_all_recent_observations ::
  "db_io \<Rightarrow> gotime \<Rightarrow> int \<Rightarrow> incident_store \<Rightarrow> store_err + stored_observation list" where
  "list_all_recent_observations io since limit s =
     (case db_guard (is_closed s) io of Some er \<Rightarrow> Inl er | None \<Rightarrow>
        Inr (recent since (if limit \<le> 0 then 500 else nat limit) (is_observations s)))"

section \<open>Writing\<close>

text \<open>The time of an observation that has none is the time of the call.\<close>

definition stamped :: "gotime \<Rightarrow> stored_observation \<Rightarrow> stored_observation" where
  "stamped now obs = (if is_zero (so_created_at obs) then obs\<lparr>so_created_at := now\<rparr> else obs)"

definition record_observation ::
  "db_io \<Rightarrow> gotime \<Rightarrow> stored_observation option \<Rightarrow> incident_store \<Rightarrow> store_err option \<times> incident_store" where
  "record_observation io now oo s =
     (case oo of None \<Rightarrow> (Some ErrNilObservation, s) | Some obs \<Rightarrow>
        if so_anomaly_id obs = [] then (Some ErrNilObservation, s)
        else case db_guard (is_closed s) io of Some er \<Rightarrow> (Some er, s) | None \<Rightarrow>
          if observed (so_anomaly_id obs) s then (Some ErrDuplicateAnomaly, s)
          else (None, s\<lparr>is_observations := is_observations s @ [stamped now obs]\<rparr>))"

definition upsert_incident :: "incident \<Rightarrow> incident list \<Rightarrow> incident list" where
  "upsert_incident inc rows =
     (if find_incident (inc_id inc) rows = None then rows @ [inc\<lparr>inc_mitigations := []\<rparr>]
      else update_where (\<lambda>i. inc_id i = inc_id inc)
        (\<lambda>i. i\<lparr>inc_severity := inc_severity inc, inc_status := inc_status inc,
               inc_description := inc_description inc, inc_trigger_value := inc_trigger_value inc,
               inc_threshold := inc_threshold inc, inc_evidence := inc_evidence inc,
               inc_updated_at := inc_updated_at inc, inc_resolved_at := inc_resolved_at inc\<rparr>) rows)"

text \<open>One transaction: the observation, if it is new, and the incident it belongs to.\<close>

definition persist_incident_evaluation ::
  "db_io \<Rightarrow> gotime \<Rightarrow> stored_observation option \<Rightarrow> incident option \<Rightarrow> incident_store \<Rightarrow>
   (store_err + bool) \<times> incident_store" where
  "persist_incident_evaluation io now oo io' s =
     (case oo of None \<Rightarrow> (Inl ErrNilObservation, s) | Some obs \<Rightarrow>
        if so_anomaly_id obs = [] then (Inl ErrNilObservation, s)
        else case db_guard (is_closed s) io of Some er \<Rightarrow> (Inl er, s) | None \<Rightarrow>
          if observed (so_anomaly_id obs) s then (Inr False, s)
          else case io' of
            None \<Rightarrow> (Inr True, s\<lparr>is_observations := is_observations s @ [stamped now obs]\<rparr>)
          | Some inc \<Rightarrow>
              (case incident_validate inc of Some e \<Rightarrow> (Inl (ErrPersistInvalidIncident e), s) | None \<Rightarrow>
                 (Inr True, s\<lparr>is_incidents := upsert_incident inc (is_incidents s),
                    is_observations := is_observations s @ [stamped now (obs\<lparr>so_incident_id := inc_id inc\<rparr>)]\<rparr>)))"

definition update_incident_status ::
  "db_io \<Rightarrow> string \<Rightarrow> incident_status \<Rightarrow> gotime \<Rightarrow> gotime option \<Rightarrow> incident_store \<Rightarrow>
   store_err option \<times> incident_store" where
  "update_incident_status io iid st updated resolved s =
     (case db_guard (is_closed s) io of Some er \<Rightarrow> (Some er, s) | None \<Rightarrow>
        if find_incident iid (is_incidents s) = None then (Some ErrIncidentNotFound, s)
        else (None, s\<lparr>is_incidents := update_where (\<lambda>i. inc_id i = iid)
               (\<lambda>i. i\<lparr>inc_status := st, inc_updated_at := updated, inc_resolved_at := resolved\<rparr>)
               (is_incidents s)\<rparr>))"

section \<open>Lemmas\<close>

lemma find_incident_update [simp]:
  assumes "\<And>r. inc_id (f r) = inc_id r"
  shows "find_incident iid (update_where p f rows) =
         map_option (\<lambda>r. if p r then f r else r) (find_incident iid rows)"
  unfolding find_incident_def by (rule find_key_update_where) (rule assms)

lemma find_incident_Some: "find_incident iid rows = Some r \<Longrightarrow> r \<in> set rows \<and> inc_id r = iid"
  by (auto simp: find_incident_def find_Some_iff)

lemma find_incident_snoc:
  "find_incident iid (rows @ [m]) =
     (case find_incident iid rows of Some r \<Rightarrow> Some r | None \<Rightarrow> if inc_id m = iid then Some m else None)"
  by (induction rows) (auto simp: find_incident_def)

lemma find_upsert_same:
  "find_incident (inc_id inc) (upsert_incident inc rows) =
     (case find_incident (inc_id inc) rows of None \<Rightarrow> Some (inc\<lparr>inc_mitigations := []\<rparr>)
      | Some i \<Rightarrow> Some (i\<lparr>inc_severity := inc_severity inc, inc_status := inc_status inc,
               inc_description := inc_description inc, inc_trigger_value := inc_trigger_value inc,
               inc_threshold := inc_threshold inc, inc_evidence := inc_evidence inc,
               inc_updated_at := inc_updated_at inc, inc_resolved_at := inc_resolved_at inc\<rparr>))"
  by (auto simp: upsert_incident_def find_incident_snoc dest: find_incident_Some split: option.split)

lemma find_upsert_other:
  "iid \<noteq> inc_id inc \<Longrightarrow> find_incident iid (upsert_incident inc rows) = find_incident iid rows"
  by (auto simp: upsert_incident_def find_incident_snoc dest: find_incident_Some split: option.split)

end
