(* ===== verification/Incident_Engine.thy ===== *)
theory Incident_Engine
  imports Incident_Store
begin

text \<open>
  \<open>edge/agent/incident/engine.go\<close>: the engine that correlates anomaly signals into incidents
  (M of the last N observations of a stream within a window) and drives the incidents through
  their status machine.

  A stream is looked up by the text \<open>node:metric\<close>, as in the code.  The engine holds its mutex
  for each call, so a call is one step; it talks to the store at most twice (\<open>inc_point\<close>).
  Incidents are values: that callers share the engine's pointer to the active incident is not
  modelled.
\<close>

section \<open>Configuration and state\<close>

datatype inc_err =
    IncNilSignal | IncNilIncident | IncInvalidStatus incident_status | IncAlreadyActive string
  | IncInvalidConfig | IncStaleSignal gotime | IncNoActive | IncInvalidSignal type_err
  | IncInvalidIncident type_err | IncIDGenerator | IncInvalidTransition | IncStore store_err

record inc_config =
  ic_m :: int
  ic_n :: int
  ic_window :: duration
  ic_prefix :: string
  ic_severities :: "string \<rightharpoonup> severity"

definition default_inc_config :: inc_config where
  "default_inc_config =
     \<lparr>ic_m = 2, ic_n = 3, ic_window = 5 * minute, ic_prefix = ''threshold_'', ic_severities = (\<lambda>_. None)\<rparr>"

text \<open>The thresholds are the doubles nearest to 0.85, 0.60 and 0.30.\<close>

definition map_severity :: "float64 \<Rightarrow> severity" where
  "map_severity score =
     (if fle (Fin (7656119366529843 / 9007199254740992)) score then SeverityCritical
      else if fle (Fin (5404319552844595 / 9007199254740992)) score then SeverityHigh
      else if fle (Fin (5404319552844595 / 18014398509481984)) score then SeverityMedium
      else SeverityLow)"

record observation =
  ob_anomaly_id :: string
  ob_detected_at :: gotime

record stream_state =
  st_node_id :: string
  st_metric :: string
  st_observations :: "observation list"
  st_seen :: "string \<rightharpoonup> gotime"
  st_active :: "incident option"

record incident_engine =
  ie_config :: inc_config
  ie_store :: "incident_store option"
  ie_streams :: "string \<rightharpoonup> stream_state"

definition new_incident_engine :: "inc_config \<Rightarrow> incident_store option \<Rightarrow> inc_err + incident_engine" where
  "new_incident_engine c store =
     (let c' = c\<lparr>ic_m := (if ic_m c \<le> 0 then 2 else ic_m c), ic_n := (if ic_n c \<le> 0 then 3 else ic_n c),
                 ic_window := (if ic_window c \<le> 0 then 5 * minute else ic_window c),
                 ic_prefix := (if ic_prefix c = [] then ''threshold_'' else ic_prefix c)\<rparr>
      in if ic_n c' < ic_m c' then Inl IncInvalidConfig
         else Inr \<lparr>ie_config = c', ie_store = store, ie_streams = (\<lambda>_. None)\<rparr>)"

definition correlation_key :: "string \<Rightarrow> string \<Rightarrow> string" where
  "correlation_key node metric = node @ '':'' @ metric"

definition new_stream :: "string \<Rightarrow> string \<Rightarrow> stream_state" where
  "new_stream node metric =
     \<lparr>st_node_id = node, st_metric = metric, st_observations = [], st_seen = (\<lambda>_. None), st_active = None\<rparr>"

definition stream_at :: "string \<Rightarrow> string \<Rightarrow> incident_engine \<Rightarrow> stream_state" where
  "stream_at node metric e =
     (case ie_streams e (correlation_key node metric) of Some st \<Rightarrow> st | None \<Rightarrow> new_stream node metric)"

definition put_stream :: "string \<Rightarrow> string \<Rightarrow> stream_state \<Rightarrow> incident_engine \<Rightarrow> incident_engine" where
  "put_stream node metric st e =
     e\<lparr>ie_streams := (ie_streams e)(correlation_key node metric \<mapsto> st)\<rparr>"

section \<open>The sliding window\<close>

definition before :: "observation \<Rightarrow> observation \<Rightarrow> bool" where
  "before a b \<longleftrightarrow> ob_detected_at a < ob_detected_at b"

definition insert_observation :: "observation \<Rightarrow> int \<Rightarrow> duration \<Rightarrow> observation list \<Rightarrow> observation list" where
  "insert_observation ob max_n w os =
     (let sorted = sort_by before (os @ [ob]);
          cutoff = ob_detected_at (last sorted) - w;
          pruned = (case dropWhile (\<lambda>x. ob_detected_at x < cutoff) sorted of [] \<Rightarrow> sorted | xs \<Rightarrow> xs)
      in if max_n < int (length pruned) then drop (length pruned - nat max_n) pruned else pruned)"

definition note_signal :: "inc_config \<Rightarrow> anomaly_signal \<Rightarrow> stream_state \<Rightarrow> stream_state" where
  "note_signal c sig st =
     st\<lparr>st_seen := (st_seen st)(as_anomaly_id sig \<mapsto> as_detected_at sig),
        st_observations := insert_observation
          \<lparr>ob_anomaly_id = as_anomaly_id sig, ob_detected_at = as_detected_at sig\<rparr>
          (ic_n c) (ic_window c) (st_observations st)\<rparr>"

definition valid_count :: "inc_config \<Rightarrow> anomaly_signal \<Rightarrow> stream_state \<Rightarrow> int" where
  "valid_count c sig st =
     (let candidates = sort_by before (st_observations st @
            [\<lparr>ob_anomaly_id = as_anomaly_id sig, ob_detected_at = as_detected_at sig\<rparr>]);
          cutoff = as_detected_at sig - ic_window c
      in int (length (filter (\<lambda>x. \<not> ob_detected_at x < cutoff) candidates)))"

section \<open>Processing a signal\<close>

datatype inc_point = PHas | PPersist

definition observation_of :: "gotime \<Rightarrow> anomaly_signal \<Rightarrow> stored_observation" where
  "observation_of now sig =
     \<lparr>so_anomaly_id = as_anomaly_id sig, so_incident_id = [], so_node_id = as_node_id sig,
      so_metric_name = as_metric_name sig, so_detected_at = as_detected_at sig,
      so_observed_value = as_observed_value sig, so_anomaly_score = as_anomaly_score sig,
      so_detection_method = as_detection_method sig, so_evidence = as_evidence sig, so_created_at = now\<rparr>"

abbreviation float4 :: "float64 \<Rightarrow> msg" where "float4 x \<equiv> Fmt ''%.4f'' [AFloat x]"

text \<open>An active incident takes the values of a further signal.\<close>

definition update_incident :: "anomaly_signal \<Rightarrow> incident \<Rightarrow> incident" where
  "update_incident sig inc =
     inc\<lparr>inc_updated_at := as_detected_at sig, inc_trigger_value := as_observed_value sig,
         inc_evidence := map_option (\<lambda>ev.
           AList.update ''latest_anomaly_score'' (float4 (as_anomaly_score sig))
             (AList.update ''latest_observed_value'' (float4 (as_observed_value sig))
               (AList.update ''latest_anomaly_id'' (Lit (as_anomaly_id sig)) ev))) (inc_evidence inc)\<rparr>"

definition incident_evidence :: "anomaly_signal \<Rightarrow> (string \<times> msg) list" where
  "incident_evidence sig =
     (let ev = (case as_evidence sig of None \<Rightarrow> [] | Some ev \<Rightarrow> ev);
          ev1 = fold (\<lambda>(k, v). AList.update k v)
            [(''anomaly_id'', Lit (as_anomaly_id sig)), (''anomaly_score'', float4 (as_anomaly_score sig)),
             (''deviation'', float4 (as_deviation sig)), (''observed_value'', float4 (as_observed_value sig)),
             (''expected_value'', float4 (as_expected_value sig)),
             (''detection_method'', Lit (as_detection_method sig)),
             (''detector_version'', Lit (as_detector_version sig))] ev
      in if as_correlation_id sig \<noteq> [] then AList.update ''correlation_id'' (Lit (as_correlation_id sig)) ev1 else ev1)"

definition new_incident :: "inc_config \<Rightarrow> string \<Rightarrow> anomaly_signal \<Rightarrow> incident" where
  "new_incident c iid sig =
     \<lparr>inc_id = iid, inc_node_id = as_node_id sig, inc_rule_name = ic_prefix c @ as_metric_name sig,
      inc_severity = (case ic_severities c (as_metric_name sig) of
         Some sv \<Rightarrow> if severity_valid sv then sv else map_severity (as_anomaly_score sig)
       | None \<Rightarrow> map_severity (as_anomaly_score sig)),
      inc_status = StatusAnomalyDetected,
      inc_description = Fmt ''Anomaly threshold exceeded for %s on node %s''
        [AStr (as_metric_name sig), AStr (as_node_id sig)],
      inc_trigger_metric = as_metric_name sig, inc_trigger_value = as_observed_value sig,
      inc_threshold = as_expected_value sig, inc_evidence = Some (incident_evidence sig),
      inc_triggered_at = as_detected_at sig, inc_updated_at = as_detected_at sig,
      inc_resolved_at = None, inc_mitigations = []\<rparr>"

text \<open>The two calls of the store; an engine without one answers that the signal is new.\<close>

definition engine_has :: "db_io \<Rightarrow> string \<Rightarrow> incident_engine \<Rightarrow> inc_err + bool" where
  "engine_has io aid e =
     (case ie_store e of None \<Rightarrow> Inr False | Some s \<Rightarrow>
        (case has_observation io aid s of Inl er \<Rightarrow> Inl (IncStore er) | Inr b \<Rightarrow> Inr b))"

definition engine_persist ::
  "db_io \<Rightarrow> gotime \<Rightarrow> stored_observation option \<Rightarrow> incident option \<Rightarrow> incident_engine \<Rightarrow>
   (inc_err + bool) \<times> incident_engine" where
  "engine_persist io now obs inc e =
     (case ie_store e of None \<Rightarrow> (Inr True, e) | Some s \<Rightarrow>
        (case persist_incident_evaluation io now obs inc s of
           (Inl er, s') \<Rightarrow> (Inl (IncStore er), e\<lparr>ie_store := Some s'\<rparr>)
         | (Inr b, s') \<Rightarrow> (Inr b, e\<lparr>ie_store := Some s'\<rparr>)))"

definition stale_signal :: "inc_config \<Rightarrow> anomaly_signal \<Rightarrow> stream_state \<Rightarrow> bool" where
  "stale_signal c sig st \<longleftrightarrow> st_observations st \<noteq> [] \<and>
     as_detected_at sig < ob_detected_at (last (st_observations st)) - ic_window c"

text \<open>
  The end of \<open>Process\<close>: the incident to store, the incident to remember as active, and what to
  answer when the observation was stored and when it was a duplicate.
\<close>

definition commit_signal ::
  "db_io \<Rightarrow> gotime \<Rightarrow> anomaly_signal \<Rightarrow> incident option \<Rightarrow> incident option \<Rightarrow> incident option \<Rightarrow>
   incident option \<Rightarrow> stream_state \<Rightarrow> incident_engine \<Rightarrow> (inc_err + incident option) \<times> incident_engine" where
  "commit_signal io now sig inc active answer dup st e =
     (case engine_persist io now (Some (observation_of now sig)) inc e of
        (Inl er, e') \<Rightarrow> (Inl er, e')
      | (Inr False, e') \<Rightarrow> (Inr dup, e')
      | (Inr True, e') \<Rightarrow>
          (Inr answer, put_stream (as_node_id sig) (as_metric_name sig)
             ((note_signal (ie_config e) sig st)\<lparr>st_active := active\<rparr>) e'))"

definition process_signal ::
  "(inc_point \<Rightarrow> db_io) \<Rightarrow> gotime \<Rightarrow> string option \<Rightarrow> anomaly_signal option \<Rightarrow> incident_engine \<Rightarrow>
   (inc_err + incident option) \<times> incident_engine" where
  "process_signal io now gen so e =
     (case so of None \<Rightarrow> (Inl IncNilSignal, e) | Some sig \<Rightarrow>
      case anomaly_signal_validate sig of Some er \<Rightarrow> (Inl (IncInvalidSignal er), e) | None \<Rightarrow>
      let node = as_node_id sig; metric = as_metric_name sig; c = ie_config e;
          st = stream_at node metric e; e0 = put_stream node metric st e
      in if st_seen st (as_anomaly_id sig) \<noteq> None then (Inr (st_active st), e0)
      else case engine_has (io PHas) (as_anomaly_id sig) e0 of
        Inl er \<Rightarrow> (Inl er, e0)
      | Inr True \<Rightarrow> (Inr (st_active st), put_stream node metric
          (st\<lparr>st_seen := (st_seen st)(as_anomaly_id sig \<mapsto> as_detected_at sig)\<rparr>) e0)
      | Inr False \<Rightarrow>
        if stale_signal c sig st then (Inl (IncStaleSignal (as_detected_at sig)), e0)
        else case (case st_active st of None \<Rightarrow> None
                   | Some inc \<Rightarrow> if active_status (inc_status inc) then Some inc else None) of
          Some inc \<Rightarrow>
            let inc' = update_incident sig inc
            in commit_signal (io PPersist) now sig (Some inc') (Some inc') (Some inc') (st_active st) st e0
        | None \<Rightarrow>
            if valid_count c sig st < ic_m c
            then commit_signal (io PPersist) now sig None (st_active st) None None st e0
            else case gen of None \<Rightarrow> (Inl IncIDGenerator, e0) | Some iid \<Rightarrow>
              let inc = new_incident c iid sig
              in case incident_validate inc of Some er \<Rightarrow> (Inl (IncInvalidIncident er), e0) | None \<Rightarrow>
                   commit_signal (io PPersist) now sig (Some inc) (Some inc) (Some inc) (st_active st) st e0)"

section \<open>Registering an incident\<close>

definition register_incident ::
  "db_io \<Rightarrow> gotime \<Rightarrow> incident option \<Rightarrow> incident_engine \<Rightarrow> (inc_err + incident option) \<times> incident_engine" where
  "register_incident io now io' e =
     (case io' of None \<Rightarrow> (Inl IncNilIncident, e) | Some inc \<Rightarrow>
      case incident_validate inc of Some er \<Rightarrow> (Inl (IncInvalidIncident er), e) | None \<Rightarrow>
      if inc_status inc \<noteq> StatusAnomalyDetected then (Inl (IncInvalidStatus (inc_status inc)), e)
      else let node = inc_node_id inc; metric = inc_trigger_metric inc;
               st = stream_at node metric e; e0 = put_stream node metric st e
      in case (case st_active st of None \<Rightarrow> None
               | Some a \<Rightarrow> if active_status (inc_status a) then Some a else None) of
        Some a \<Rightarrow>
          if inc_id a = inc_id inc
          then let a' = a\<lparr>inc_updated_at := inc_updated_at inc, inc_trigger_value := inc_trigger_value inc\<rparr>
               in (Inr (Some a'), put_stream node metric (st\<lparr>st_active := Some a'\<rparr>) e0)
          else (Inl (IncAlreadyActive (inc_id a)), e0)
      | None \<Rightarrow>
          (case engine_persist io now None (Some inc) e0 of
             (Inl er, e') \<Rightarrow> (Inl er, e')
           | (Inr False, e') \<Rightarrow> (Inr (st_active st), e')
           | (Inr True, e') \<Rightarrow> (Inr (Some inc), put_stream node metric (st\<lparr>st_active := Some inc\<rparr>) e')))"

section \<open>The life cycle\<close>

definition get_active :: "string \<Rightarrow> string \<Rightarrow> incident_engine \<Rightarrow> incident option" where
  "get_active node metric e =
     (case ie_streams e (correlation_key node metric) of None \<Rightarrow> None | Some st \<Rightarrow>
        (case st_active st of None \<Rightarrow> None | Some inc \<Rightarrow> if active_status (inc_status inc) then Some inc else None))"

text \<open>The stream and the incident it holds, active or not.\<close>

definition held :: "string \<Rightarrow> string \<Rightarrow> incident_engine \<Rightarrow> (stream_state \<times> incident) option" where
  "held node metric e =
     (case ie_streams e (correlation_key node metric) of None \<Rightarrow> None | Some st \<Rightarrow>
        map_option (Pair st) (st_active st))"

definition engine_update_status :: "db_io \<Rightarrow> incident \<Rightarrow> incident_engine \<Rightarrow> inc_err option \<times> incident_engine" where
  "engine_update_status io inc e =
     (case ie_store e of None \<Rightarrow> (None, e) | Some s \<Rightarrow>
        (case update_incident_status io (inc_id inc) (inc_status inc) (inc_updated_at inc) (inc_resolved_at inc) s of
           (er, s') \<Rightarrow> (map_option IncStore er, e\<lparr>ie_store := Some s'\<rparr>)))"

definition transition_active_incident ::
  "db_io \<Rightarrow> string \<Rightarrow> string \<Rightarrow> incident_status \<Rightarrow> gotime \<Rightarrow> incident_engine \<Rightarrow>
   (inc_err + incident) \<times> incident_engine" where
  "transition_active_incident io node metric target now e =
     (case held node metric e of None \<Rightarrow> (Inl IncNoActive, e) | Some (st, inc) \<Rightarrow>
      case transition_to target now inc of None \<Rightarrow> (Inl IncInvalidTransition, e) | Some inc' \<Rightarrow>
      case engine_update_status io inc' e of
        (Some er, e') \<Rightarrow> (Inl er, e')
      | (None, e') \<Rightarrow> (Inr inc', put_stream node metric
          (if target = StatusNormal then st\<lparr>st_active := None, st_observations := []\<rparr>
           else if target = StatusRecovered then st\<lparr>st_active := Some inc', st_observations := []\<rparr>
           else st\<lparr>st_active := Some inc'\<rparr>) e'))"

definition resolve_incident where
  "resolve_incident io node metric now = transition_active_incident io node metric StatusRecovered now"

text \<open>Closing changes the incident in place before it is stored; a failure of the store leaves it so.\<close>

definition close_active_incident ::
  "db_io \<Rightarrow> string \<Rightarrow> string \<Rightarrow> gotime \<Rightarrow> incident_engine \<Rightarrow> (inc_err + incident) \<times> incident_engine" where
  "close_active_incident io node metric now e =
     (case held node metric e of None \<Rightarrow> (Inl IncNoActive, e) | Some (st, inc) \<Rightarrow>
      let closed_stream = st\<lparr>st_active := None, st_observations := []\<rparr>
      in case transition_to StatusRecovered now inc of
        Some inc' \<Rightarrow>
          (case engine_update_status io inc' e of
             (Some er, e') \<Rightarrow> (Inl er, put_stream node metric (st\<lparr>st_active := Some inc'\<rparr>) e')
           | (None, e') \<Rightarrow> (Inr inc', put_stream node metric closed_stream e'))
      | None \<Rightarrow> (Inr (inc\<lparr>inc_updated_at := now\<rparr>), put_stream node metric closed_stream e))"

section \<open>Recovery\<close>

definition restore_incident :: "incident \<Rightarrow> incident_engine \<Rightarrow> incident_engine" where
  "restore_incident inc e =
     (let st = stream_at (inc_node_id inc) (inc_trigger_metric inc) e
      in put_stream (inc_node_id inc) (inc_trigger_metric inc) (st\<lparr>st_active := Some inc\<rparr>) e)"

definition restore_observation :: "stored_observation \<Rightarrow> incident_engine \<Rightarrow> incident_engine" where
  "restore_observation ob e =
     (let st = stream_at (so_node_id ob) (so_metric_name ob) e
      in put_stream (so_node_id ob) (so_metric_name ob)
           (st\<lparr>st_seen := (st_seen st)(so_anomaly_id ob \<mapsto> so_detected_at ob),
               st_observations := insert_observation
                 \<lparr>ob_anomaly_id = so_anomaly_id ob, ob_detected_at = so_detected_at ob\<rparr>
                 (ic_n (ie_config e)) (ic_window (ie_config e)) (st_observations st)\<rparr>) e)"

text \<open>The store is asked twice; a failure of the second call leaves the incidents restored.\<close>

definition recover_incidents ::
  "db_io \<Rightarrow> db_io \<Rightarrow> gotime \<Rightarrow> incident_engine \<Rightarrow> (inc_err + nat \<times> nat) \<times> incident_engine" where
  "recover_incidents io1 io2 ref e =
     (case ie_store e of None \<Rightarrow> (Inr (0, 0), e) | Some s \<Rightarrow>
      case list_active_incidents io1 s of Inl er \<Rightarrow> (Inl (IncStore er), e) | Inr incs \<Rightarrow>
      let e1 = fold restore_incident incs e
      in case list_all_recent_observations io2 (ref - ic_window (ie_config e)) 500 s of
           Inl er \<Rightarrow> (Inl (IncStore er), e1)
         | Inr obs \<Rightarrow> (Inr (length incs, length obs), fold restore_observation obs e1))"

section \<open>Calls\<close>

datatype inc_op =
    IProcess "inc_point \<Rightarrow> db_io" gotime "string option" "anomaly_signal option"
  | IRegister db_io gotime "incident option"
  | ITransition db_io string string incident_status gotime
  | IClose db_io string string gotime
  | IRecover db_io db_io gotime

fun inc_step :: "inc_op \<Rightarrow> incident_engine \<Rightarrow> incident_engine" where
  "inc_step (IProcess io now gen so) e = snd (process_signal io now gen so e)"
| "inc_step (IRegister io now io') e = snd (register_incident io now io' e)"
| "inc_step (ITransition io node metric target now) e = snd (transition_active_incident io node metric target now e)"
| "inc_step (IClose io node metric now) e = snd (close_active_incident io node metric now e)"
| "inc_step (IRecover io1 io2 ref) e = snd (recover_incidents io1 io2 ref e)"

definition inc_run :: "inc_op list \<Rightarrow> incident_engine \<Rightarrow> incident_engine" where
  "inc_run ops e = fold inc_step ops e"

fun inc_signals :: "inc_op \<Rightarrow> anomaly_signal set" where
  "inc_signals (IProcess _ _ _ (Some sig)) = {sig}"
| "inc_signals _ = {}"

fun is_restart :: "inc_op \<Rightarrow> bool" where
  "is_restart (IRecover _ _ _) = True"
| "is_restart _ = False"

end
