(* ===== verification/Incident_Safety.thy ===== *)
theory Incident_Safety
  imports Incident_Engine
begin

text \<open>
  What the incident engine promises: an incident needs M distinct signals of its stream within
  the window, a stream has one active incident at a time, whose status moves along the status
  machine only.
\<close>

section \<open>The window\<close>

interpretation window_order: keyed_order before ob_detected_at
  by unfold_locales (simp add: before_def)

definition window_ok :: "inc_config \<Rightarrow> observation list \<Rightarrow> bool" where
  "window_ok c os \<longleftrightarrow> distinct (map ob_anomaly_id os) \<and> sorted (map ob_detected_at os) \<and>
     (\<forall>x \<in> set os. ob_detected_at (last os) - ic_window c \<le> ob_detected_at x)"

lemma sorted_dropWhile: "sorted (map f xs) \<Longrightarrow> sorted (map f (dropWhile P xs))"
  by (induction xs) auto

lemma distinct_map_dropWhile: "distinct (map f xs) \<Longrightarrow> distinct (map f (dropWhile P xs))"
  by (induction xs) auto

lemma sorted_map_drop: "sorted (map f xs) \<Longrightarrow> sorted (map f (drop n xs))"
  by (simp add: drop_map [symmetric])

lemma dropWhile_sorted_ge:
  "sorted (map f xs) \<Longrightarrow> x \<in> set (dropWhile (\<lambda>x. f x < k) xs) \<Longrightarrow> (k::'k::linorder) \<le> f x"
  by (induction xs) (auto split: if_splits)

lemma last_dropWhile: "dropWhile P xs \<noteq> [] \<Longrightarrow> last (dropWhile P xs) = last xs"
  by (induction xs) auto

lemma window_ok_drop:
  assumes "window_ok c os" "k < length os"
  shows "window_ok c (drop k os)"
proof -
  have "last (drop k os) = last os" using assms(2) by (simp add: last_drop)
  moreover have "distinct (map ob_anomaly_id (drop k os))" "sorted (map ob_detected_at (drop k os))"
    using assms(1) sorted_map_drop by (auto simp: window_ok_def drop_map [symmetric])
  ultimately show ?thesis using assms(1) by (auto simp: window_ok_def dest: in_set_dropD)
qed

lemma insert_observation_ok:
  assumes "window_ok c os" "ob_anomaly_id ob \<notin> ob_anomaly_id ` set os" "0 < ic_window c" "0 < ic_n c"
  shows "window_ok c (insert_observation ob (ic_n c) (ic_window c) os) \<and>
    set (insert_observation ob (ic_n c) (ic_window c) os) \<subseteq> insert ob (set os) \<and>
    int (length (insert_observation ob (ic_n c) (ic_window c) os)) \<le> ic_n c"
proof -
  let ?s = "sort_by before (os @ [ob])"
  let ?cut = "ob_detected_at (last ?s) - ic_window c"
  let ?d = "dropWhile (\<lambda>x. ob_detected_at x < ?cut) ?s"
  have s: "sorted (map ob_detected_at ?s)" by (rule window_order.sorted_sort_by)
  have set: "set ?s = insert ob (set os)" by auto
  have "mset (map ob_anomaly_id ?s) = mset (map ob_anomaly_id (os @ [ob]))"
    by simp
  then have dist: "distinct (map ob_anomaly_id ?s)"
    using assms(1,2) mset_eq_imp_distinct_iff [of "map ob_anomaly_id ?s" "map ob_anomaly_id (os @ [ob])"]
    by (simp add: window_ok_def)
  have ne: "?s \<noteq> []" by simp
  have "\<not> ob_detected_at (last ?s) < ?cut" using assms(3) by simp
  then have dne: "?d \<noteq> []" using ne by (metis dropWhile_eq_Nil_conv last_in_set)
  have d: "window_ok c ?d"
    using dist s last_dropWhile [OF dne]
    by (auto simp: window_ok_def distinct_map_dropWhile sorted_dropWhile dest: dropWhile_sorted_ge [OF s])
  have ins: "insert_observation ob (ic_n c) (ic_window c) os =
      (if ic_n c < int (length ?d) then drop (length ?d - nat (ic_n c)) ?d else ?d)"
    using dne by (auto simp: insert_observation_def Let_def split: list.split)
  have sub: "set ?d \<subseteq> insert ob (set os)" using set by (metis set_dropWhileD subsetI)
  show ?thesis
  proof (cases "ic_n c < int (length ?d)")
    case True
    let ?k = "length ?d - nat (ic_n c)"
    have kne: "drop ?k ?d \<noteq> []" using True assms(4) by simp
    then have "window_ok c (drop ?k ?d)" by (intro window_ok_drop [OF d]) simp
    with True sub ins kne show ?thesis by (auto dest: in_set_dropD)
  next
    case False
    with d sub ins show ?thesis by simp
  qed
qed

lemma window_ok_le_last: "window_ok c os \<Longrightarrow> x \<in> set os \<Longrightarrow> ob_detected_at x \<le> ob_detected_at (last os)"
proof -
  assume w: "window_ok c os" "x \<in> set os"
  then have "os \<noteq> []" by auto
  then obtain ys y where os: "os = ys @ [y]" by (metis rev_exhaust)
  with w show ?thesis by (auto simp: window_ok_def sorted_append)
qed

definition signal_observation :: "anomaly_signal \<Rightarrow> observation" where
  "signal_observation sig = \<lparr>ob_anomaly_id = as_anomaly_id sig, ob_detected_at = as_detected_at sig\<rparr>"

lemma signal_observation_sel [simp]:
  "ob_anomaly_id (signal_observation sig) = as_anomaly_id sig"
  "ob_detected_at (signal_observation sig) = as_detected_at sig"
  by (simp_all add: signal_observation_def)

text \<open>The signals that are counted are distinct and fit into one window.\<close>

lemma valid_count_evidence:
  assumes "window_ok c (st_observations st)" "as_anomaly_id sig \<notin> ob_anomaly_id ` set (st_observations st)"
    "\<not> stale_signal c sig st" "0 < ic_window c"
  shows "\<exists>os. set os \<subseteq> insert (signal_observation sig) (set (st_observations st)) \<and> distinct (map ob_anomaly_id os) \<and>
    int (length os) = valid_count c sig st \<and>
    (\<forall>a \<in> set os. \<forall>b \<in> set os. ob_detected_at a \<le> ob_detected_at b + ic_window c)"
proof -
  let ?obs = "st_observations st"
  let ?s = "sort_by before (?obs @ [signal_observation sig])"
  let ?os = "filter (\<lambda>x. \<not> ob_detected_at x < as_detected_at sig - ic_window c) ?s"
  have "mset (map ob_anomaly_id ?s) = mset (map ob_anomaly_id (?obs @ [signal_observation sig]))" by simp
  then have "distinct (map ob_anomaly_id ?s)"
    using assms(1,2) mset_eq_imp_distinct_iff [of "map ob_anomaly_id ?s" "map ob_anomaly_id (?obs @ [signal_observation sig])"]
    by (simp add: window_ok_def)
  then have dist: "distinct (map ob_anomaly_id ?os)" by (rule distinct_map_filter)
  have len: "int (length ?os) = valid_count c sig st"
    by (simp add: valid_count_def signal_observation_def)
  have span: "ob_detected_at a \<le> ob_detected_at b + ic_window c"
    if "a \<in> set ?os" "b \<in> set ?os" for a b
  proof -
    have last: "ob_detected_at x \<le> ob_detected_at (last ?obs)" "ob_detected_at (last ?obs) - ic_window c \<le> ob_detected_at x"
      if "x \<in> set ?obs" for x
      using window_ok_le_last [OF assms(1) that] assms(1) that by (auto simp: window_ok_def)
    have "ob_detected_at (last ?obs) - ic_window c \<le> as_detected_at sig" if "?obs \<noteq> []"
      using assms(3) that by (simp add: stale_signal_def)
    moreover have "?obs \<noteq> []" if "a \<in> set ?obs" using that by auto
    moreover have "a = signal_observation sig \<or> a \<in> set ?obs" "b = signal_observation sig \<or> b \<in> set ?obs"
      "as_detected_at sig - ic_window c \<le> ob_detected_at b"
      using that by auto
    ultimately show ?thesis using last [of a] last [of b] assms(4) by (auto simp del: )
  qed
  show ?thesis
    by (rule exI [of _ ?os]) (use dist len span in auto)
qed

section \<open>The invariant\<close>

definition stream_ok :: "inc_config \<Rightarrow> anomaly_signal set \<Rightarrow> string \<Rightarrow> stream_state \<Rightarrow> bool" where
  "stream_ok c S k st \<longleftrightarrow> window_ok c (st_observations st) \<and>
     (\<forall>x \<in> set (st_observations st). st_seen st (ob_anomaly_id x) \<noteq> None \<and>
        (\<exists>sig \<in> S. x = signal_observation sig \<and> correlation_key (as_node_id sig) (as_metric_name sig) = k))"

definition inc_inv :: "anomaly_signal set \<Rightarrow> incident_engine \<Rightarrow> bool" where
  "inc_inv S e \<longleftrightarrow> 0 < ic_window (ie_config e) \<and> 0 < ic_m (ie_config e) \<and> ic_m (ie_config e) \<le> ic_n (ie_config e) \<and>
     (\<forall>k st. ie_streams e k = Some st \<longrightarrow> stream_ok (ie_config e) S k st)"

lemma put_stream_sel [simp]:
  "ie_config (put_stream n m st e) = ie_config e" "ie_store (put_stream n m st e) = ie_store e"
  "ie_streams (put_stream n m st e) = (ie_streams e)(correlation_key n m \<mapsto> st)"
  by (simp_all add: put_stream_def)

lemma inc_inv_store [simp]: "inc_inv S (e\<lparr>ie_store := s\<rparr>) = inc_inv S e"
  by (simp add: inc_inv_def)

lemma inc_inv_stream_at: "inc_inv S e \<Longrightarrow> stream_ok (ie_config e) S (correlation_key n m) (stream_at n m e)"
  by (auto simp: inc_inv_def stream_at_def stream_ok_def new_stream_def window_ok_def split: option.split)

lemma inc_inv_put: "inc_inv S e \<Longrightarrow> stream_ok (ie_config e) S (correlation_key n m) st \<Longrightarrow> inc_inv S (put_stream n m st e)"
  by (simp add: inc_inv_def)

lemma stream_ok_active [simp]: "stream_ok c S k (st\<lparr>st_active := a\<rparr>) = stream_ok c S k st"
  by (simp add: stream_ok_def)

lemma stream_ok_empty: "stream_ok c S k (st\<lparr>st_active := a, st_observations := []\<rparr>)"
  by (simp add: stream_ok_def window_ok_def)

lemma stream_ok_seen: "stream_ok c S k st \<Longrightarrow> stream_ok c S k (st\<lparr>st_seen := (st_seen st)(a \<mapsto> t)\<rparr>)"
  by (auto simp: stream_ok_def)

lemma stream_ok_unseen: "stream_ok c S k st \<Longrightarrow> st_seen st a = None \<Longrightarrow> a \<notin> ob_anomaly_id ` set (st_observations st)"
  by (auto simp: stream_ok_def)

lemma stream_ok_note:
  assumes "stream_ok c S (correlation_key (as_node_id sig) (as_metric_name sig)) st" "st_seen st (as_anomaly_id sig) = None"
    "sig \<in> S" "0 < ic_window c" "0 < ic_n c"
  shows "stream_ok c S (correlation_key (as_node_id sig) (as_metric_name sig)) (note_signal c sig st)"
proof -
  have "window_ok c (st_observations st)" "ob_anomaly_id (signal_observation sig) \<notin> ob_anomaly_id ` set (st_observations st)"
    using assms(1) stream_ok_unseen [OF assms(1,2)] by (auto simp: stream_ok_def)
  note ins = insert_observation_ok [OF this assms(4,5)]
  have obs: "st_observations (note_signal c sig st) =
      insert_observation (signal_observation sig) (ic_n c) (ic_window c) (st_observations st)"
    "st_seen (note_signal c sig st) = (st_seen st)(as_anomaly_id sig \<mapsto> as_detected_at sig)"
    by (simp_all add: note_signal_def signal_observation_def)
  show ?thesis
    unfolding stream_ok_def obs using ins assms(1,3) by (auto simp: stream_ok_def)
qed

lemma engine_persist_frame [simp]:
  "ie_config (snd (engine_persist io now obs inc e)) = ie_config e"
  "ie_streams (snd (engine_persist io now obs inc e)) = ie_streams e"
  "inc_inv S (snd (engine_persist io now obs inc e)) = inc_inv S e"
  by (auto simp: engine_persist_def split: option.split prod.split sum.split)

lemma engine_update_frame [simp]:
  "ie_config (snd (engine_update_status io inc e)) = ie_config e"
  "ie_streams (snd (engine_update_status io inc e)) = ie_streams e"
  "inc_inv S (snd (engine_update_status io inc e)) = inc_inv S e"
  by (auto simp: engine_update_status_def split: option.split prod.split)

section \<open>The cases of a signal\<close>

text \<open>What the transaction of an evaluation leaves in the store.\<close>

definition store_evaluation ::
  "gotime \<Rightarrow> stored_observation \<Rightarrow> incident option \<Rightarrow> incident_store \<Rightarrow> incident_store" where
  "store_evaluation now obs inc s =
     s\<lparr>is_incidents := (case inc of None \<Rightarrow> is_incidents s | Some i \<Rightarrow> upsert_incident i (is_incidents s)),
       is_observations := is_observations s @
         [stamped now (case inc of None \<Rightarrow> obs | Some i \<Rightarrow> obs\<lparr>so_incident_id := inc_id i\<rparr>)]\<rparr>"

lemma engine_persist_cases [consumes 2]:
  assumes "engine_persist io now (Some obs) inc e = (res, e')"
    "\<forall>s. ie_store e = Some s \<longrightarrow> \<not> observed (so_anomaly_id obs) s"
  obtains (fails) er where "res = Inl er" "e' = e"
  | (stores) "res = Inr True" "e' = e\<lparr>ie_store := map_option (store_evaluation now obs inc) (ie_store e)\<rparr>"
      "\<And>i s. inc = Some i \<Longrightarrow> ie_store e = Some s \<Longrightarrow> incident_validate i = None"
proof (cases "ie_store e")
  case None
  then have "e\<lparr>ie_store := None\<rparr> = e" by (cases e) simp
  with None assms stores show ?thesis by (auto simp: engine_persist_def)
next
  case (Some s)
  then have same: "e\<lparr>ie_store := Some s\<rparr> = e" by (cases e) simp
  consider "so_anomaly_id obs = []" | er where "so_anomaly_id obs \<noteq> []" "db_guard (is_closed s) io = Some er"
    | "so_anomaly_id obs \<noteq> []" "db_guard (is_closed s) io = None" "inc = None"
    | i er where "so_anomaly_id obs \<noteq> []" "db_guard (is_closed s) io = None" "inc = Some i" "incident_validate i = Some er"
    | i where "so_anomaly_id obs \<noteq> []" "db_guard (is_closed s) io = None" "inc = Some i" "incident_validate i = None"
    by (cases "db_guard (is_closed s) io"; cases inc) (auto, metis not_None_eq)
  then show ?thesis
    using assms(2) assms(1) Some same fails stores
    by cases (auto simp: engine_persist_def persist_incident_evaluation_def store_evaluation_def)
qed

definition no_active :: "stream_state \<Rightarrow> bool" where
  "no_active st \<longleftrightarrow> (\<forall>inc. st_active st = Some inc \<longrightarrow> \<not> active_status (inc_status inc))"

lemma process_signal_cases:
  assumes "process_signal io now gen so e = (res, e')"
  obtains (refused) er where "res = Inl er" "e' = e"
  | (quiet) sig st' where "so = Some sig"
      "st' = stream_at (as_node_id sig) (as_metric_name sig) e \<or>
       st' = stream_at (as_node_id sig) (as_metric_name sig) e
         \<lparr>st_seen := (st_seen (stream_at (as_node_id sig) (as_metric_name sig) e))(as_anomaly_id sig \<mapsto> as_detected_at sig)\<rparr>"
      "e' = put_stream (as_node_id sig) (as_metric_name sig) st' e"
      "\<And>x. res = Inr x \<Longrightarrow> x = st_active (stream_at (as_node_id sig) (as_metric_name sig) e)"
  | (taken) sig st inc where "so = Some sig" "anomaly_signal_validate sig = None"
      "st = stream_at (as_node_id sig) (as_metric_name sig) e"
      "st_seen st (as_anomaly_id sig) = None" "\<not> stale_signal (ie_config e) sig st"
      "e' = put_stream (as_node_id sig) (as_metric_name sig)
         ((note_signal (ie_config e) sig st)\<lparr>st_active := (case inc of None \<Rightarrow> st_active st | Some i \<Rightarrow> Some i)\<rparr>)
         (e\<lparr>ie_store := map_option (store_evaluation now (observation_of now sig) inc) (ie_store e)\<rparr>)"
      "res = Inr inc"
      "(\<exists>old. st_active st = Some old \<and> active_status (inc_status old) \<and> inc = Some (update_incident sig old)) \<or>
       (no_active st \<and> inc = None \<and> valid_count (ie_config e) sig st < ic_m (ie_config e)) \<or>
       (\<exists>iid. no_active st \<and> gen = Some iid \<and> inc = Some (new_incident (ie_config e) iid sig) \<and>
          incident_validate (new_incident (ie_config e) iid sig) = None \<and> ic_m (ie_config e) \<le> valid_count (ie_config e) sig st)"
proof (cases so)
  case None
  with assms refused [of IncNilSignal] show ?thesis by (simp add: process_signal_def)
next
  case (Some sig)
  let ?n = "as_node_id sig" and ?m = "as_metric_name sig"
  let ?st = "stream_at ?n ?m e"
  let ?e0 = "put_stream ?n ?m ?st e"
  have e0: "put_stream ?n ?m x (?e0\<lparr>ie_store := y\<rparr>) = put_stream ?n ?m x (e\<lparr>ie_store := y\<rparr>)"
    "put_stream ?n ?m x ?e0 = put_stream ?n ?m x e" for x y
    by (simp_all add: put_stream_def)
  note def = assms [unfolded process_signal_def Some option.case Let_def]
  show ?thesis
  proof (cases "anomaly_signal_validate sig = None \<and> st_seen ?st (as_anomaly_id sig) = None \<and>
      engine_has (io PHas) (as_anomaly_id sig) ?e0 = Inr False \<and> \<not> stale_signal (ie_config e) sig ?st")
    case False
    show ?thesis
    proof (cases "anomaly_signal_validate sig")
      case (Some er)
      with def refused show ?thesis by auto
    next
      case None
      with False def have "\<exists>st'. (st' = ?st \<or> st' = ?st\<lparr>st_seen := (st_seen ?st)(as_anomaly_id sig \<mapsto> as_detected_at sig)\<rparr>) \<and>
          e' = put_stream ?n ?m st' e \<and> (\<forall>x. res = Inr x \<longrightarrow> x = st_active ?st)"
        by (auto simp: e0 split: if_splits sum.splits bool.splits)
      with Some quiet show ?thesis by blast
    qed
  next
    case True
    then have new: "\<not> observed (so_anomaly_id (observation_of now sig)) s" if "ie_store ?e0 = Some s" for s
      using that by (auto simp: engine_has_def has_observation_def observation_of_def split: option.splits sum.splits)
    have commit: thesis
      if c: "commit_signal (io PPersist) now sig inc (case inc of None \<Rightarrow> st_active ?st | Some i \<Rightarrow> Some i) inc dup ?st ?e0 = (res, e')"
        and w: "(\<exists>old. st_active ?st = Some old \<and> active_status (inc_status old) \<and> inc = Some (update_incident sig old)) \<or>
         (no_active ?st \<and> inc = None \<and> valid_count (ie_config e) sig ?st < ic_m (ie_config e)) \<or>
         (\<exists>iid. no_active ?st \<and> gen = Some iid \<and> inc = Some (new_incident (ie_config e) iid sig) \<and>
          incident_validate (new_incident (ie_config e) iid sig) = None \<and> ic_m (ie_config e) \<le> valid_count (ie_config e) sig ?st)"
      for inc dup
    proof -
      obtain r1 e1 where p: "engine_persist (io PPersist) now (Some (observation_of now sig)) inc ?e0 = (r1, e1)" by fastforce
      have fresh: "\<forall>s. ie_store ?e0 = Some s \<longrightarrow> \<not> observed (so_anomaly_id (observation_of now sig)) s"
        using new by blast
      from p fresh show thesis
      proof (cases rule: engine_persist_cases)
        case (fails er)
        with c p have "res = Inl er" "e' = ?e0" by (simp_all add: commit_signal_def)
        with quiet [OF Some _ \<open>e' = ?e0\<close>] show thesis by simp
      next
        case stores
        with c p have "res = Inr inc" "e' = put_stream ?n ?m ((note_signal (ie_config e) sig ?st)
            \<lparr>st_active := (case inc of None \<Rightarrow> st_active ?st | Some i \<Rightarrow> Some i)\<rparr>)
            (e\<lparr>ie_store := map_option (store_evaluation now (observation_of now sig) inc) (ie_store e)\<rparr>)"
          by (simp_all add: commit_signal_def e0)
        with taken [OF Some _ refl] True w show thesis by blast
      qed
    qed
    show ?thesis
    proof (cases "no_active ?st")
      case False
      then obtain old where old: "st_active ?st = Some old" "active_status (inc_status old)" by (auto simp: no_active_def)
      with True def have "commit_signal (io PPersist) now sig (Some (update_incident sig old)) (Some (update_incident sig old))
          (Some (update_incident sig old)) (st_active ?st) ?st ?e0 = (res, e')" by simp
      with commit [of "Some (update_incident sig old)"] old show thesis by simp
    next
      case no: True
      then have act: "(case st_active ?st of None \<Rightarrow> None
          | Some inc \<Rightarrow> if active_status (inc_status inc) then Some inc else None) = None"
        by (auto simp: no_active_def split: option.split)
      show thesis
      proof (cases "valid_count (ie_config e) sig ?st < ic_m (ie_config e)")
        case lt: True
        with True def act have "commit_signal (io PPersist) now sig None (st_active ?st) None None ?st ?e0 = (res, e')" by simp
        with commit [of None] no lt show thesis by simp
      next
        case ge: False
        show thesis
        proof (cases "\<exists>iid. gen = Some iid \<and> incident_validate (new_incident (ie_config e) iid sig) = None")
          case g: True
          then obtain iid where g: "gen = Some iid" "incident_validate (new_incident (ie_config e) iid sig) = None" by blast
          with True def act ge have "commit_signal (io PPersist) now sig (Some (new_incident (ie_config e) iid sig))
              (Some (new_incident (ie_config e) iid sig)) (Some (new_incident (ie_config e) iid sig)) (st_active ?st) ?st ?e0
              = (res, e')" by simp
          with commit [of "Some (new_incident (ie_config e) iid sig)"] no ge g show thesis by simp
        next
          case ng: False
          with True def act ge have "(\<exists>er. res = Inl er) \<and> e' = ?e0" by (auto split: option.splits)
          with quiet [OF Some, of ?st] show thesis by auto
        qed
      qed
    qed
  qed
qed

section \<open>The operations keep the invariant\<close>

lemma process_signal_inv:
  assumes "inc_inv S e" "inc_signals (IProcess io now gen so) \<subseteq> S"
  shows "inc_inv S (snd (process_signal io now gen so e))"
proof -
  obtain res e' where p: "process_signal io now gen so e = (res, e')" by fastforce
  then show ?thesis
  proof (cases rule: process_signal_cases)
    case (refused er)
    with p assms show ?thesis by simp
  next
    case (quiet sig st')
    have "stream_ok (ie_config e) S (correlation_key (as_node_id sig) (as_metric_name sig)) st'"
      using quiet(2) inc_inv_stream_at [OF assms(1)] stream_ok_seen by auto
    with quiet p assms(1) show ?thesis by (simp add: inc_inv_put)
  next
    case (taken sig st inc)
    have "sig \<in> S" using assms(2) taken(1) by simp
    moreover have "0 < ic_window (ie_config e)" "0 < ic_n (ie_config e)" using assms(1) by (auto simp: inc_inv_def)
    ultimately have "stream_ok (ie_config e) S (correlation_key (as_node_id sig) (as_metric_name sig))
        (note_signal (ie_config e) sig st)"
      using stream_ok_note inc_inv_stream_at [OF assms(1)] taken(3,4) by simp
    with taken p assms(1) show ?thesis by (simp add: inc_inv_put)
  qed
qed

lemma register_incident_inv:
  assumes "inc_inv S e"
  shows "inc_inv S (snd (register_incident io now io' e))"
proof (cases io')
  case (Some inc)
  note st = inc_inv_stream_at [OF assms, of "inc_node_id inc" "inc_trigger_metric inc"]
  have put: "inc_inv S (put_stream (inc_node_id inc) (inc_trigger_metric inc)
      (stream_at (inc_node_id inc) (inc_trigger_metric inc) e\<lparr>st_active := a\<rparr>) x)"
    if "inc_inv S x" "ie_config x = ie_config e" for a x
    using that st by (simp add: inc_inv_put)
  let ?e0 = "put_stream (inc_node_id inc) (inc_trigger_metric inc) (stream_at (inc_node_id inc) (inc_trigger_metric inc) e) e"
  have e0: "inc_inv S ?e0" using assms st by (simp add: inc_inv_put)
  obtain r e1 where p: "engine_persist io now None (Some inc) ?e0 = (r, e1)" by fastforce
  then have "e1 = snd (engine_persist io now None (Some inc) ?e0)" by simp
  then have "inc_inv S e1" "ie_config e1 = ie_config e" using e0 by simp_all
  with e0 put assms p Some show ?thesis
    by (auto simp: register_incident_def Let_def split: option.split sum.split bool.split)
qed (use assms in \<open>simp add: register_incident_def\<close>)

lemma held_stream:
  assumes "inc_inv S e" "held node metric e = Some (st, inc)"
  shows "stream_ok (ie_config e) S (correlation_key node metric) st" "st_active st = Some inc"
  using assms by (auto simp: held_def inc_inv_def split: option.splits)

lemma transition_cases:
  assumes "transition_active_incident io node metric target now e = (res, e')"
  obtains (refused) er where "res = Inl er" "e' = e"
  | (moved) st inc inc' where "held node metric e = Some (st, inc)" "transition_to target now inc = Some inc'"
      "res = Inr inc'" "engine_update_status io inc' e = (None, snd (engine_update_status io inc' e))"
      "e' = put_stream node metric
          (if target = StatusNormal then st\<lparr>st_active := None, st_observations := []\<rparr>
           else if target = StatusRecovered then st\<lparr>st_active := Some inc', st_observations := []\<rparr>
           else st\<lparr>st_active := Some inc'\<rparr>) (snd (engine_update_status io inc' e))"
proof -
  have same: "e1 = e" if "engine_update_status io x e = (Some er, e1)" for x er e1
  proof (cases "ie_store e")
    case (Some s)
    then have "e\<lparr>ie_store := Some s\<rparr> = e" by (cases e) simp
    with Some that show ?thesis
      by (auto simp: engine_update_status_def update_incident_status_def split: prod.splits option.splits if_splits)
  qed (use that in \<open>simp add: engine_update_status_def\<close>)
  consider "held node metric e = None"
    | st inc where "held node metric e = Some (st, inc)" "transition_to target now inc = None"
    | st inc inc' er e1 where "held node metric e = Some (st, inc)" "transition_to target now inc = Some inc'"
        "engine_update_status io inc' e = (Some er, e1)"
    | st inc inc' e1 where "held node metric e = Some (st, inc)" "transition_to target now inc = Some inc'"
        "engine_update_status io inc' e = (None, e1)"
    by (metis not_None_eq surj_pair)
  then show ?thesis
  proof cases
    case 1
    with assms refused [of IncNoActive] show ?thesis by (simp add: transition_active_incident_def)
  next
    case (2 st inc)
    with assms refused [of IncInvalidTransition] show ?thesis by (simp add: transition_active_incident_def)
  next
    case (3 st inc inc' er e1)
    with assms refused [of er] same show ?thesis by (simp add: transition_active_incident_def)
  next
    case (4 st inc inc' e1)
    with assms have "res = Inr inc'" "e' = put_stream node metric
          (if target = StatusNormal then st\<lparr>st_active := None, st_observations := []\<rparr>
           else if target = StatusRecovered then st\<lparr>st_active := Some inc', st_observations := []\<rparr>
           else st\<lparr>st_active := Some inc'\<rparr>) e1"
      by (simp_all add: transition_active_incident_def)
    with 4 moved show ?thesis by simp
  qed
qed

lemma transition_inv:
  assumes "inc_inv S e"
  shows "inc_inv S (snd (transition_active_incident io node metric target now e))"
proof -
  obtain res e' where t: "transition_active_incident io node metric target now e = (res, e')" by fastforce
  then show ?thesis
  proof (cases rule: transition_cases)
    case (moved st inc inc')
    with t held_stream [OF assms moved(1)] assms show ?thesis by (simp add: inc_inv_put stream_ok_empty)
  qed (use t assms in simp)
qed

lemma close_inv:
  assumes "inc_inv S e"
  shows "inc_inv S (snd (close_active_incident io node metric now e))"
proof (cases "held node metric e")
  case (Some p)
  obtain st inc where p: "p = (st, inc)" by fastforce
  note st = held_stream [OF assms Some [unfolded p]]
  have "inc_inv S (snd (engine_update_status io x e))" "ie_config (snd (engine_update_status io x e)) = ie_config e" for x
    using assms by simp_all
  then have "inc_inv S (put_stream node metric st' e1)"
    if "engine_update_status io x e = (r, e1)" "stream_ok (ie_config e) S (correlation_key node metric) st'" for x r e1 st'
    using that inc_inv_put by (metis snd_conv)
  with assms st Some p show ?thesis
    by (auto simp: close_active_incident_def Let_def stream_ok_empty inc_inv_put split: option.split prod.split)
qed (use assms in \<open>simp add: close_active_incident_def\<close>)

lemma inc_step_inv:
  assumes "inc_inv S e" "inc_signals op \<subseteq> S" "\<not> is_restart op"
  shows "inc_inv S (inc_step op e)"
proof (cases op)
  case (IProcess io now gen so)
  with process_signal_inv [OF assms(1)] assms(2) show ?thesis by simp
qed (use assms in \<open>simp_all add: register_incident_inv transition_inv close_inv\<close>)

lemma inc_run_inv:
  "inc_inv S e \<Longrightarrow> \<forall>op \<in> set ops. inc_signals op \<subseteq> S \<and> \<not> is_restart op \<Longrightarrow> inc_inv S (inc_run ops e)"
  by (induction ops arbitrary: e) (simp_all add: inc_run_def inc_step_inv)

lemma new_incident_engine_inv: "new_incident_engine c store = Inr e \<Longrightarrow> inc_inv S e"
  by (auto simp: new_incident_engine_def Let_def inc_inv_def split: if_splits)

end
