(* ===== verification/Incident_Properties.thy ===== *)
theory Incident_Properties
  imports Incident_Safety
begin

text \<open>
  The properties of the incident engine: what an incident takes, one active incident per stream,
  a signal counted once, and incidents that survive a restart.
\<close>

section \<open>M of N\<close>

lemma get_active_stream_at:
  "get_active n m e = (case st_active (stream_at n m e) of None \<Rightarrow> None
     | Some inc \<Rightarrow> if active_status (inc_status inc) then Some inc else None)"
  by (auto simp: get_active_def stream_at_def new_stream_def split: option.split)

lemma no_active_get_active: "no_active (stream_at n m e) \<longleftrightarrow> get_active n m e = None"
  by (auto simp: get_active_stream_at no_active_def split: option.split)

lemma observations_from_signals:
  "\<forall>x \<in> set os. \<exists>sig \<in> S. x = signal_observation sig \<and> P sig \<Longrightarrow>
     \<exists>sigs. os = map signal_observation sigs \<and> set sigs \<subseteq> S \<and> (\<forall>sig \<in> set sigs. P sig)"
proof (induction os)
  case (Cons x os)
  then obtain sig sigs where "sig \<in> S" "x = signal_observation sig" "P sig"
    "os = map signal_observation sigs" "set sigs \<subseteq> S" "\<forall>sig \<in> set sigs. P sig" by auto
  then show ?case by (intro exI [of _ "sig # sigs"]) auto
qed simp


section \<open>One active incident per stream\<close>

lemma get_active_put [simp]:
  "get_active n m (put_stream n' m' st e) = (if correlation_key n m = correlation_key n' m'
     then (case st_active st of None \<Rightarrow> None | Some inc \<Rightarrow> if active_status (inc_status inc) then Some inc else None)
     else get_active n m e)"
  by (simp add: get_active_def)

lemma get_active_store [simp]: "get_active n m (e\<lparr>ie_store := s\<rparr>) = get_active n m e"
  by (simp add: get_active_def)

lemma get_active_persist [simp]: "get_active n m (snd (engine_persist io now obs inc e)) = get_active n m e"
  by (simp add: get_active_def)

lemma get_active_update [simp]: "get_active n m (snd (engine_update_status io inc e)) = get_active n m e"
  by (simp add: get_active_def)

lemma stream_at_key: "correlation_key n m = correlation_key n' m' \<Longrightarrow> st_active (stream_at n m e) = st_active (stream_at n' m' e)"
  by (simp add: stream_at_def new_stream_def split: option.split)

text \<open>The calls that end an active incident of a stream.\<close>

fun ends_incident :: "string \<Rightarrow> string \<Rightarrow> inc_op \<Rightarrow> bool" where
  "ends_incident n m (ITransition _ n' m' target _) =
     (correlation_key n m = correlation_key n' m' \<and> (target = StatusRecovered \<or> target = StatusNormal))"
| "ends_incident n m (IClose _ n' m' _) = (correlation_key n m = correlation_key n' m')"
| "ends_incident n m _ = False"

text \<open>The incident a stream had before and after a call.\<close>

definition continues :: "incident \<Rightarrow> incident \<Rightarrow> bool" where
  "continues inc inc' \<longleftrightarrow> inc_id inc' = inc_id inc \<and> inc_triggered_at inc' = inc_triggered_at inc \<and>
     (inc_status inc' = inc_status inc \<or> incident_can (inc_status inc) (inc_status inc'))"

lemma continues_refl [simp]: "continues inc inc"
  by (simp add: continues_def)

lemma process_keeps_active:
  assumes "get_active n m e = Some inc"
  shows "\<exists>inc'. get_active n m (snd (process_signal io now gen so e)) = Some inc' \<and> continues inc inc'"
proof -
  obtain res e' where p: "process_signal io now gen so e = (res, e')" by fastforce
  have act: "active_status (inc_status inc)" "st_active (stream_at n m e) = Some inc"
    using assms by (auto simp: get_active_stream_at split: option.splits if_splits)
  from p show ?thesis
  proof (cases rule: process_signal_cases)
    case (quiet sig st')
    have "st_active st' = st_active (stream_at (as_node_id sig) (as_metric_name sig) e)" using quiet(2) by auto
    show ?thesis
    proof (cases "correlation_key n m = correlation_key (as_node_id sig) (as_metric_name sig)")
      case True
      then have "st_active st' = Some inc" using stream_at_key [OF True, of e] act \<open>st_active st' = _\<close> by simp
      with p quiet(3) True act show ?thesis by simp
    qed (use p quiet(3) assms in simp)
  next
    case (taken sig st inc')
    show ?thesis
    proof (cases "correlation_key n m = correlation_key (as_node_id sig) (as_metric_name sig)")
      case True
      then have "st_active st = Some inc" using stream_at_key [OF True, of e] act taken(3) by simp
      with taken(8) act have "inc' = Some (update_incident sig inc)" by (auto simp: no_active_def)
      with p taken(6) True act show ?thesis by (simp add: continues_def update_incident_def)
    qed (use p taken(6) assms in simp)
  qed (use p assms in simp)
qed

lemma register_keeps_active:
  assumes "get_active n m e = Some inc"
  shows "\<exists>inc'. get_active n m (snd (register_incident io now io' e)) = Some inc' \<and> continues inc inc'"
proof (cases io')
  case (Some r)
  let ?st = "stream_at (inc_node_id r) (inc_trigger_metric r) e"
  let ?e0 = "put_stream (inc_node_id r) (inc_trigger_metric r) ?st e"
  have act: "active_status (inc_status inc)" "st_active (stream_at n m e) = Some inc"
    using assms by (auto simp: get_active_stream_at split: option.splits if_splits)
  obtain q e1 where p: "engine_persist io now None (Some r) ?e0 = (q, e1)" by fastforce
  have "get_active n m ?e0 = Some inc"
  proof (cases "correlation_key n m = correlation_key (inc_node_id r) (inc_trigger_metric r)")
    case True
    then have "st_active ?st = Some inc" using stream_at_key [OF True, of e] act by simp
    with True act show ?thesis by simp
  qed (use assms in simp)
  then have e1: "get_active n m e1 = Some inc" using get_active_persist p by (metis snd_conv)
  show ?thesis
  proof (cases "correlation_key n m = correlation_key (inc_node_id r) (inc_trigger_metric r)")
    case True
    with act have "st_active ?st = Some inc" using stream_at_key [OF True, of e] by simp
    with True act assms Some show ?thesis
      by (auto simp: register_incident_def Let_def continues_def split: option.split)
  next
    case False
    with assms e1 p Some show ?thesis
      by (auto simp: register_incident_def Let_def split: option.split sum.split bool.split)
  qed
qed (use assms in \<open>simp add: register_incident_def\<close>)

lemma held_active: "get_active n m e = Some inc \<Longrightarrow> correlation_key n m = correlation_key n' m' \<Longrightarrow>
    \<exists>st. held n' m' e = Some (st, inc) \<and> active_status (inc_status inc)"
  by (auto simp: get_active_def held_def split: option.splits if_splits)

lemma transition_keeps_active:
  assumes "get_active n m e = Some inc" "\<not> ends_incident n m (ITransition io n' m' target now)"
  shows "\<exists>inc'. get_active n m (snd (transition_active_incident io n' m' target now e)) = Some inc' \<and> continues inc inc'"
proof -
  obtain res e' where t: "transition_active_incident io n' m' target now e = (res, e')" by fastforce
  then show ?thesis
  proof (cases rule: transition_cases)
    case (moved st i i')
    show ?thesis
    proof (cases "correlation_key n m = correlation_key n' m'")
      case True
      with moved(1) held_active [OF assms(1) True] have i: "i = inc" "active_status (inc_status inc)" by auto
      with transition_to_Some [OF moved(2)] True assms(2) have "active_status (inc_status i')" "continues inc i'"
        by (auto simp: active_status_def continues_def incident_can_def split: incident_status.splits)
      with t moved(5) True assms(2) show ?thesis by auto
    qed (use t moved(5) assms in simp)
  qed (use t assms in simp)
qed

lemma close_keeps_active:
  assumes "get_active n m e = Some inc" "\<not> ends_incident n m (IClose io n' m' now)"
  shows "get_active n m (snd (close_active_incident io n' m' now e)) = Some inc"
proof -
  have "get_active n m e1 = Some inc" if "engine_update_status io x e = (r, e1)" for x r e1
    using that assms(1) get_active_update by (metis snd_conv)
  with assms show ?thesis
    by (auto simp: close_active_incident_def Let_def split: option.split prod.split)
qed

text \<open>
  One incident at a time: while a stream has an active incident, every call keeps it, with
  its identifier and its trigger time, and changes its status only along the status machine,
  unless the call is one that ends it: a transition of this stream to RECOVERED or NORMAL, or a
  closure.
\<close>

theorem active_incident_kept:
  assumes "get_active n m e = Some inc" "\<not> is_restart op" "\<not> ends_incident n m op"
  shows "\<exists>inc'. get_active n m (inc_step op e) = Some inc' \<and> continues inc inc'"
proof (cases op)
  case (IProcess io now gen so)
  with process_keeps_active [OF assms(1)] show ?thesis by simp
next
  case (IRegister io now r)
  with register_keeps_active [OF assms(1)] show ?thesis by simp
next
  case (ITransition io n' m' target now)
  with transition_keeps_active [OF assms(1)] assms(3) show ?thesis by simp
next
  case (IClose io n' m' now)
  with close_keeps_active [OF assms(1)] assms(3) show ?thesis by auto
qed (use assms(2) in simp)

end
