(* ===== verification/Incident_Restart.thy ===== *)
theory Incident_Restart
  imports Incident_Properties
begin

text \<open>
  Incidents across restarts: the rows of \<open>incident_records\<close> with an active status are exactly the
  active incidents of the engine, so a new engine that recovers from the store has the same ones;
  and a signal that has been counted stays counted.
\<close>

section \<open>Memory and store agree\<close>

definition incident_key :: "incident \<Rightarrow> string" where
  "incident_key inc = correlation_key (inc_node_id inc) (inc_trigger_metric inc)"

definition active_at :: "incident_engine \<Rightarrow> string \<Rightarrow> incident option" where
  "active_at e k = (case ie_streams e k of None \<Rightarrow> None | Some st \<Rightarrow> st_active st)"

definition in_step :: "incident_engine \<Rightarrow> incident_store \<Rightarrow> bool" where
  "in_step e s \<longleftrightarrow> ie_store e = Some s \<and> distinct (map inc_id (is_incidents s)) \<and>
     (\<forall>k inc. active_at e k = Some inc \<longrightarrow> inc \<in> set (is_incidents s) \<and> incident_key inc = k) \<and>
     (\<forall>r \<in> set (is_incidents s). active_status (inc_status r) \<longrightarrow> active_at e (incident_key r) = Some r)"

lemma active_at_put [simp]:
  "active_at (put_stream n m st e) = (active_at e)(correlation_key n m := st_active st)"
  by (rule ext) (simp add: active_at_def)

lemma active_at_store [simp]: "active_at (e\<lparr>ie_store := s\<rparr>) = active_at e"
  by (rule ext) (simp add: active_at_def)

lemma active_at_stream_at: "st_active (stream_at n m e) = active_at e (correlation_key n m)"
  by (simp add: active_at_def stream_at_def new_stream_def split: option.split)

lemma get_active_active_at:
  "get_active n m e = (case active_at e (correlation_key n m) of None \<Rightarrow> None
     | Some inc \<Rightarrow> if active_status (inc_status inc) then Some inc else None)"
  by (simp add: get_active_def active_at_def split: option.split)

lemma in_step_same_key:
  assumes "in_step e s" "r \<in> set (is_incidents s)" "r' \<in> set (is_incidents s)"
    "active_status (inc_status r)" "active_status (inc_status r')" "incident_key r = incident_key r'"
  shows "r = r'"
  using assms by (metis in_step_def option.inject)

lemma in_step_same_id: "in_step e s \<Longrightarrow> r \<in> set (is_incidents s) \<Longrightarrow> r' \<in> set (is_incidents s) \<Longrightarrow>
    inc_id r = inc_id r' \<Longrightarrow> r = r'"
  by (auto simp: in_step_def distinct_map inj_on_def)

text \<open>A row that is written takes the place of the row with its identifier, or is new.\<close>

lemma in_step_row_written:
  assumes "in_step e s" "is_incidents s' = update_where (\<lambda>r. inc_id r = inc_id i) f (is_incidents s)"
    "i \<in> set (is_incidents s)" "f i = i'" "inc_id i' = inc_id i" "incident_key i' = incident_key i"
    "active_at e (incident_key i) = Some i" "ie_store e' = Some s'"
    "active_at e' = (active_at e)(incident_key i := a)"
    "a = Some i' \<or> (a = None \<and> \<not> active_status (inc_status i'))"
  shows "in_step e' s'"
proof -
  have rows: "is_incidents s' = map (\<lambda>r. if r = i then i' else r) (is_incidents s)"
    using assms(2,4) in_step_same_id [OF assms(1)] assms(3) by (simp add: update_where_def)
  have "map inc_id (is_incidents s') = map inc_id (is_incidents s)" using rows assms(5) by (auto simp: )
  moreover have "inc \<in> set (is_incidents s') \<and> incident_key inc = k" if "active_at e' k = Some inc" for k inc
  proof (cases "k = incident_key i")
    case True
    with that assms(3,6,9,10) rows show ?thesis by auto
  next
    case False
    with that assms(9) have "active_at e k = Some inc" by simp
    with assms(1) have "inc \<in> set (is_incidents s)" "incident_key inc = k" by (auto simp: in_step_def)
    with False rows show ?thesis by auto
  qed
  moreover have "active_at e' (incident_key r) = Some r"
    if "r \<in> set (is_incidents s')" "active_status (inc_status r)" for r
  proof (cases "r = i'")
    case True
    with that assms(6,9,10) show ?thesis by auto
  next
    case False
    with that rows obtain "r \<in> set (is_incidents s)" "r \<noteq> i" by auto
    with assms(1) that have "active_at e (incident_key r) = Some r" by (simp add: in_step_def)
    moreover from this \<open>r \<noteq> i\<close> assms(7) have "incident_key r \<noteq> incident_key i" by auto
    ultimately show ?thesis using assms(9) by simp
  qed
  ultimately show ?thesis using assms(1,8) by (simp add: in_step_def)
qed

lemma in_step_row_added:
  assumes "in_step e s" "is_incidents s' = is_incidents s @ [i]" "inc_id i \<notin> inc_id ` set (is_incidents s)"
    "\<forall>old. active_at e (incident_key i) = Some old \<longrightarrow> \<not> active_status (inc_status old)"
    "ie_store e' = Some s'" "active_at e' = (active_at e)(incident_key i := Some i)"
  shows "in_step e' s'"
proof -
  have "active_at e' (incident_key r) = Some r" if "r \<in> set (is_incidents s')" "active_status (inc_status r)" for r
  proof (cases "r = i")
    case False
    with that assms(2) have "r \<in> set (is_incidents s)" by simp
    with assms(1) that have "active_at e (incident_key r) = Some r" by (simp add: in_step_def)
    with assms(4,6) that show ?thesis by auto
  qed (simp add: assms(6))
  moreover have "inc \<in> set (is_incidents s') \<and> incident_key inc = k" if "active_at e' k = Some inc" for k inc
  proof (cases "k = incident_key i")
    case False
    with that assms(6) have "active_at e k = Some inc" by simp
    with assms(1,2) show ?thesis by (simp add: in_step_def)
  qed (use that assms(2,6) in simp)
  moreover have "distinct (map inc_id (is_incidents s'))" using assms(1,2,3) by (simp add: in_step_def)
  ultimately show ?thesis using assms(5) by (simp add: in_step_def)
qed

section \<open>The calls that keep them in step\<close>

text \<open>
  The calls of the pipeline: signals and transitions.  An identifier the generator returns must not
  be that of a stored incident (\<open>newUUIDv4\<close> draws it at random).
\<close>

fun fresh_call :: "inc_op \<Rightarrow> incident_store \<Rightarrow> bool" where
  "fresh_call (IProcess _ _ gen _) s =
     (case gen of None \<Rightarrow> True | Some iid \<Rightarrow> iid \<notin> inc_id ` set (is_incidents s))"
| "fresh_call (ITransition _ _ _ _ _) s = True"
| "fresh_call _ s = False"

lemma in_step_quiet:
  "in_step e s \<Longrightarrow> ie_store e' = Some s' \<Longrightarrow> is_incidents s' = is_incidents s \<Longrightarrow> active_at e' = active_at e \<Longrightarrow>
     in_step e' s'"
  by (simp add: in_step_def)

lemma process_in_step:
  assumes "in_step e s" "fresh_call (IProcess io now gen so) s"
  shows "\<exists>s'. in_step (snd (process_signal io now gen so e)) s'"
proof -
  obtain res e' where p: "process_signal io now gen so e = (res, e')" by fastforce
  have store: "ie_store e = Some s" using assms(1) by (simp add: in_step_def)
  from p show ?thesis
  proof (cases rule: process_signal_cases)
    case (quiet sig st')
    then have "st_active st' = active_at e (correlation_key (as_node_id sig) (as_metric_name sig))"
      by (auto simp: active_at_stream_at)
    with p quiet(3) store in_step_quiet [OF assms(1), of e' s] show ?thesis by auto
  next
    case (taken sig st inc)
    let ?k = "correlation_key (as_node_id sig) (as_metric_name sig)"
    let ?s' = "store_evaluation now (observation_of now sig) inc s"
    have act: "st_active st = active_at e ?k" using taken(3) by (simp add: active_at_stream_at)
    have e': "ie_store e' = Some ?s'"
      "active_at e' = (active_at e)(?k := (case inc of None \<Rightarrow> st_active st | Some i \<Rightarrow> Some i))"
      using taken(6) store by simp_all
    from taken(8) have "in_step e' ?s'"
    proof (elim disjE exE conjE)
      fix old assume old: "st_active st = Some old" "active_status (inc_status old)" "inc = Some (update_incident sig old)"
      let ?i = "update_incident sig old"
      have row: "old \<in> set (is_incidents s)" "incident_key old = ?k" "active_at e (incident_key old) = Some old"
        using assms(1) old act by (auto simp: in_step_def)
      have up: "inc_id ?i = inc_id old" "incident_key ?i = incident_key old"
        by (simp_all add: update_incident_def incident_key_def)
      have "\<not> find_incident (inc_id old) (is_incidents s) = None"
        using row(1) by (auto simp: find_incident_def find_None_iff)
      then have "is_incidents ?s' = update_where (\<lambda>r. inc_id r = inc_id old)
        (\<lambda>r. r\<lparr>inc_severity := inc_severity ?i, inc_status := inc_status ?i,
               inc_description := inc_description ?i, inc_trigger_value := inc_trigger_value ?i,
               inc_threshold := inc_threshold ?i, inc_evidence := inc_evidence ?i,
               inc_updated_at := inc_updated_at ?i, inc_resolved_at := inc_resolved_at ?i\<rparr>) (is_incidents s)"
        by (simp only: store_evaluation_def old(3) upsert_incident_def up(1) if_False option.case
            incident_store.select_convs incident_store.update_convs incident_store.surjective) simp
      then show ?thesis
        by (rule in_step_row_written [OF assms(1) _ row(1) _ up row(3) e'(1)])
          (use e'(2) row(2) old(3) in \<open>auto simp: update_incident_def\<close>)
    next
      assume "inc = None"
      then show ?thesis using e' act in_step_quiet [OF assms(1), of e' ?s'] by (simp add: store_evaluation_def)
    next
      fix iid assume new: "no_active st" "gen = Some iid" "inc = Some (new_incident (ie_config e) iid sig)"
      let ?i = "new_incident (ie_config e) iid sig"
      have i: "inc_id ?i = iid" "incident_key ?i = ?k" "?i\<lparr>inc_mitigations := []\<rparr> = ?i"
        by (simp_all add: new_incident_def incident_key_def)
      have fresh: "iid \<notin> inc_id ` set (is_incidents s)" using assms(2) new(2) by simp
      then have "find_incident iid (is_incidents s) = None" by (auto simp: find_incident_def find_None_iff)
      then have "is_incidents ?s' = is_incidents s @ [?i]"
        by (simp add: store_evaluation_def new(3) upsert_incident_def i)
      then show ?thesis
        using in_step_row_added [OF assms(1) _ _ _ e'(1)] fresh i new act e'(2) by (simp add: no_active_def)
    qed
    with p show ?thesis by auto
  qed (use p assms(1) in auto)
qed

lemma transition_in_step:
  assumes "in_step e s"
  shows "\<exists>s'. in_step (snd (transition_active_incident io node metric target now e)) s'"
proof -
  obtain res e' where t: "transition_active_incident io node metric target now e = (res, e')" by fastforce
  have store: "ie_store e = Some s" using assms by (simp add: in_step_def)
  from t show ?thesis
  proof (cases rule: transition_cases)
    case (moved st i i')
    have act: "active_at e (correlation_key node metric) = Some i"
      using moved(1) by (auto simp: held_def active_at_def split: option.splits)
    with assms have row: "i \<in> set (is_incidents s)" "correlation_key node metric = incident_key i" by (auto simp: in_step_def)
    note i' = transition_to_Some [OF moved(2)]
    from moved(4) store obtain s' where s': "ie_store (snd (engine_update_status io i' e)) = Some s'"
      "is_incidents s' = update_where (\<lambda>r. inc_id r = inc_id i')
        (\<lambda>r. r\<lparr>inc_status := inc_status i', inc_updated_at := inc_updated_at i', inc_resolved_at := inc_resolved_at i'\<rparr>)
        (is_incidents s)"
      by (auto simp: engine_update_status_def update_incident_status_def split: option.splits if_splits)
    have "active_at (snd (engine_update_status io i' e)) = active_at e" by (simp add: active_at_def fun_eq_iff)
    with moved(5) have "active_at e' = (active_at e)(incident_key i := (if target = StatusNormal then None else Some i'))"
      by (simp add: row(2))
    moreover have "inc_id i' = inc_id i" "incident_key i' = incident_key i"
      "i\<lparr>inc_status := inc_status i', inc_updated_at := inc_updated_at i', inc_resolved_at := inc_resolved_at i'\<rparr> = i'"
      "target = StatusNormal \<Longrightarrow> \<not> active_status (inc_status i')"
      using moved(2) by (auto simp: transition_to_def incident_key_def active_status_def Let_def split: if_splits)
    ultimately have "in_step e' s'"
      using in_step_row_written [OF assms _ row(1), of s' _ i' e' "if target = StatusNormal then None else Some i'"]
        act row(2) s' moved(5) by (simp split: if_splits)
    with t show ?thesis by auto
  qed (use t assms in auto)
qed

lemma inc_step_in_step:
  assumes "in_step e s" "fresh_call op s"
  shows "\<exists>s'. in_step (inc_step op e) s'"
  using assms process_in_step transition_in_step by (cases op) auto

text \<open>A run whose generated identifiers are new when they are used.\<close>

fun fresh_run :: "inc_op list \<Rightarrow> incident_engine \<Rightarrow> bool" where
  "fresh_run [] e = True"
| "fresh_run (op # ops) e =
     ((case ie_store e of None \<Rightarrow> False | Some s \<Rightarrow> fresh_call op s) \<and> fresh_run ops (inc_step op e))"

lemma inc_run_in_step: "in_step e s \<Longrightarrow> fresh_run ops e \<Longrightarrow> \<exists>s'. in_step (inc_run ops e) s'"
proof (induction ops arbitrary: e s)
  case (Cons op ops)
  then have "fresh_call op s" by (auto simp: in_step_def)
  with Cons obtain s' where "in_step (inc_step op e) s'" using inc_step_in_step by blast
  with Cons show ?case by (auto simp: inc_run_def)
qed (auto simp: inc_run_def)

section \<open>Recovery\<close>

lemma find_SomeD: "find P xs = Some x \<Longrightarrow> x \<in> set xs \<and> P x"
  by (induction xs) (auto split: if_splits)

lemma active_at_restore:
  "active_at (restore_incident inc e) = (active_at e)(incident_key inc \<mapsto> inc)"
  by (simp add: restore_incident_def Let_def incident_key_def)

lemma active_at_restore_all:
  "active_at (fold restore_incident incs e) k =
     (case find (\<lambda>i. incident_key i = k) (rev incs) of Some i \<Rightarrow> Some i | None \<Rightarrow> active_at e k)"
  by (induction incs rule: rev_induct) (auto simp: active_at_restore)

lemma active_at_restore_observation: "active_at (restore_observation ob e) = active_at e"
proof
  fix k
  show "active_at (restore_observation ob e) k = active_at e k"
    by (simp add: restore_observation_def Let_def active_at_stream_at)
qed

lemma active_at_restore_observations [simp]: "active_at (fold restore_observation obs e) = active_at e"
  by (induction obs arbitrary: e) (simp_all add: active_at_restore_observation)

lemma recovered_active_at:
  assumes "list_active_incidents io1 s = Inr incs" "ie_store e = Some s"
  shows "active_at (snd (recover_incidents io1 io2 ref e)) = active_at (fold restore_incident incs e)"
  using assms by (simp add: recover_incidents_def Let_def split: sum.split)

lemma new_engine_empty: "new_incident_engine c store = Inr e \<Longrightarrow> ie_store e = store \<and> active_at e = (\<lambda>_. None)"
  by (auto simp: new_incident_engine_def Let_def active_at_def fun_eq_iff split: if_splits)

lemma recovered_in_step:
  assumes "in_step e s" "new_incident_engine c (Some s) = Inr e'" "db_guard (is_closed s) io1 = None"
  shows "get_active n m (snd (recover_incidents io1 io2 ref e')) = get_active n m e"
proof -
  let ?k = "correlation_key n m"
  let ?rows = "sort_key (\<lambda>i. format_db_time (inc_triggered_at i)) (filter (\<lambda>i. active_status (inc_status i)) (is_incidents s))"
  have "list_active_incidents io1 s = Inr ?rows" by (simp add: list_active_incidents_def assms(3))
  with new_engine_empty [OF assms(2)] have
    rec: "active_at (snd (recover_incidents io1 io2 ref e')) ?k = find (\<lambda>i. incident_key i = ?k) (rev ?rows)"
    by (simp add: recovered_active_at active_at_restore_all split: option.split)
  have "find (\<lambda>i. incident_key i = ?k) (rev ?rows) = get_active n m e"
  proof (cases "find (\<lambda>i. incident_key i = ?k) (rev ?rows)")
    case None
    then have "\<not> active_status (inc_status r)" if "active_at e ?k = Some r" for r
      using that assms(1) by (auto simp: find_None_iff in_step_def)
    with None show ?thesis by (simp add: get_active_active_at split: option.split)
  next
    case (Some r)
    then have "r \<in> set (rev ?rows)" "incident_key r = ?k" using find_SomeD by fastforce+
    then have "r \<in> set (is_incidents s)" "active_status (inc_status r)" by auto
    with assms(1) have "active_at e (incident_key r) = Some r" by (simp add: in_step_def)
    with \<open>incident_key r = ?k\<close> have "active_at e ?k = Some r" by simp
    with Some \<open>active_status _\<close> show ?thesis by (simp add: get_active_active_at)
  qed
  moreover have "active_status (inc_status r)" if "get_active n m e = Some r" for r
    using that by (auto simp: get_active_active_at split: option.splits if_splits)
  ultimately show ?thesis using rec by (auto simp: get_active_active_at [of n m "snd _"] split: option.split)
qed


section \<open>A signal is counted once\<close>

lemma observed_stays_process: "ie_store e = Some s \<Longrightarrow> observed a s \<Longrightarrow>
    \<exists>s'. ie_store (snd (process_signal io now gen so e)) = Some s' \<and> observed a s'"
proof -
  assume s: "ie_store e = Some s" "observed a s"
  obtain res e' where p: "process_signal io now gen so e = (res, e')" by fastforce
  then show ?thesis
    by (cases rule: process_signal_cases) (use p s in \<open>auto simp: store_evaluation_def observed_def\<close>)
qed

lemma observed_stays_persist: "ie_store e = Some s \<Longrightarrow> observed a s \<Longrightarrow>
    \<exists>s'. ie_store (snd (engine_persist io now obs inc e)) = Some s' \<and> observed a s'"
  by (auto simp: engine_persist_def persist_incident_evaluation_def observed_def
      split: option.split sum.split prod.split)

lemma observed_stays_update: "ie_store e = Some s \<Longrightarrow> observed a s \<Longrightarrow>
    \<exists>s'. ie_store (snd (engine_update_status io inc e)) = Some s' \<and> observed a s'"
  by (auto simp: engine_update_status_def update_incident_status_def observed_def split: option.split prod.split)

lemma observed_stays_register: 
  assumes "ie_store e = Some s" "observed a s"
  shows "\<exists>s'. ie_store (snd (register_incident io now io' e)) = Some s' \<and> observed a s'"
proof -
  have "\<exists>s'. ie_store e2 = Some s' \<and> observed a s'"
    if "engine_persist io now None (Some inc) (put_stream n m st e) = (r, e2)" for r e2 n m st inc
    using observed_stays_persist [of "put_stream n m st e" s a io now None "Some inc"] assms that by simp
  with assms show ?thesis
    by (auto simp: register_incident_def Let_def split: option.split sum.split bool.split prod.split)
qed

lemma observed_stays_close:
  assumes "ie_store e = Some s" "observed a s"
  shows "\<exists>s'. ie_store (snd (close_active_incident io n m now e)) = Some s' \<and> observed a s'"
proof -
  have "\<exists>s'. ie_store e2 = Some s' \<and> observed a s'" if "engine_update_status io inc e = (r, e2)" for r e2 inc
    using observed_stays_update [OF assms, of io inc] that by simp
  with assms show ?thesis
    by (auto simp: close_active_incident_def Let_def split: option.split prod.split)
qed

lemma observed_stays_transition:
  assumes "ie_store e = Some s" "observed a s"
  shows "\<exists>s'. ie_store (snd (transition_active_incident io n m target now e)) = Some s' \<and> observed a s'"
proof -
  obtain res e' where t: "transition_active_incident io n m target now e = (res, e')" by fastforce
  then show ?thesis
  proof (cases rule: transition_cases)
    case (moved st i i')
    then show ?thesis using t observed_stays_update [OF assms, of io i'] by simp
  qed (use t assms in auto)
qed

lemma ie_store_restore [simp]:
  "ie_store (fold restore_incident incs e) = ie_store e"
  "ie_store (fold restore_observation obs e') = ie_store e'"
proof -
  show "ie_store (fold restore_incident incs e) = ie_store e"
    by (induction incs arbitrary: e) (simp_all add: restore_incident_def Let_def)
  show "ie_store (fold restore_observation obs e') = ie_store e'"
    by (induction obs arbitrary: e') (simp_all add: restore_observation_def Let_def)
qed

lemma observed_stays:
  assumes "ie_store e = Some s" "observed a s"
  shows "\<exists>s'. ie_store (inc_step op e) = Some s' \<and> observed a s'"
proof (cases op)
  case (IRecover io1 io2 ref)
  with assms show ?thesis by (simp add: recover_incidents_def Let_def split: sum.split)
qed (use assms observed_stays_process observed_stays_register observed_stays_transition observed_stays_close in auto)

lemma observed_stays_run:
  "ie_store e = Some s \<Longrightarrow> observed a s \<Longrightarrow> \<exists>s'. ie_store (inc_run ops e) = Some s' \<and> observed a s'"
proof (induction ops arbitrary: e s)
  case (Cons op ops)
  then obtain s' where "ie_store (inc_step op e) = Some s'" "observed a s'" using observed_stays by blast
  with Cons show ?case by (simp add: inc_run_def)
qed (simp add: inc_run_def)

lemma process_observed:
  assumes "ie_store e = Some s" "observed (as_anomaly_id sig) s"
  shows "get_active n m (snd (process_signal io now gen (Some sig) e)) = get_active n m e \<and>
    ie_store (snd (process_signal io now gen (Some sig) e)) = Some s"
proof -
  have keep: "get_active n m (put_stream a b (stream_at a b e\<lparr>st_seen := f\<rparr>) e) = get_active n m e"
    "get_active n m (put_stream a b (stream_at a b e) e) = get_active n m e" for a b f
    by (simp_all add: get_active_active_at active_at_stream_at)
  have put: "put_stream a b st' (put_stream a b st e) = put_stream a b st' e" for a b st st'
    by (simp add: put_stream_def)
  with assms have "snd (process_signal io now gen (Some sig) e) = e \<or>
      (\<exists>f. snd (process_signal io now gen (Some sig) e) = put_stream (as_node_id sig) (as_metric_name sig)
        (stream_at (as_node_id sig) (as_metric_name sig) e\<lparr>st_seen := f\<rparr>) e) \<or>
      snd (process_signal io now gen (Some sig) e) = put_stream (as_node_id sig) (as_metric_name sig)
        (stream_at (as_node_id sig) (as_metric_name sig) e) e"
    by (auto simp: process_signal_def Let_def engine_has_def has_observation_def put split: option.split sum.split bool.split)
  with keep assms(1) show ?thesis by (elim disjE exE) (simp_all only: put_stream_sel simp_thms)
qed

lemma commit_observed:
  assumes "commit_signal io now sig inc act ans dup st e = (Inr r, e')" "ie_store e = Some s"
  shows "\<exists>s'. ie_store e' = Some s' \<and> observed (as_anomaly_id sig) s'"
  using assms
  by (auto simp: commit_signal_def engine_persist_def persist_incident_evaluation_def observation_of_def
      observed_def stamped_def split: prod.splits sum.splits bool.splits option.splits if_splits)

lemma process_observes:
  assumes "process_signal io now gen (Some sig) e = (Inr r, e')" "ie_store e = Some s"
    "st_seen (stream_at (as_node_id sig) (as_metric_name sig) e) (as_anomaly_id sig) = None"
  shows "\<exists>s'. ie_store e' = Some s' \<and> observed (as_anomaly_id sig) s'"
  using assms
  by (auto simp: process_signal_def Let_def engine_has_def has_observation_def
      split: option.splits sum.splits bool.splits if_splits dest!: commit_observed)

text \<open>
  Counted once: a signal that \<open>Process\<close> has taken, with a store configured, is not counted
  again, whatever calls and restarts come in between: processing it again writes nothing and
  changes the active incident of no stream.
\<close>

theorem signal_counted_once:
  assumes "process_signal io now gen (Some sig) e = (Inr r, e1)" "ie_store e = Some s0"
    and "st_seen (stream_at (as_node_id sig) (as_metric_name sig) e) (as_anomaly_id sig) = None"
    and "ie_store (inc_run ops1 e1) = Some s1" "new_incident_engine c (Some s1) = Inr e2"
  shows "get_active n m (snd (process_signal io' now' gen' (Some sig) (inc_run ops2 e2))) = get_active n m (inc_run ops2 e2) \<and>
    ie_store (snd (process_signal io' now' gen' (Some sig) (inc_run ops2 e2))) = ie_store (inc_run ops2 e2)"
proof -
  from process_observes [OF assms(1-3)] obtain s where "ie_store e1 = Some s" "observed (as_anomaly_id sig) s" by blast
  from observed_stays_run [OF this, of ops1] assms(4) have "observed (as_anomaly_id sig) s1" by simp
  moreover have "ie_store e2 = Some s1" using new_engine_empty [OF assms(5)] by simp
  ultimately obtain s2 where "ie_store (inc_run ops2 e2) = Some s2" "observed (as_anomaly_id sig) s2"
    using observed_stays_run by blast
  with process_observed [OF this] show ?thesis by simp
qed

end
