(* ===== verification/Incident_Examples.thy ===== *)
theory Incident_Examples
  imports Incident_Restart
begin

text \<open>
  The properties of the incident engine at concrete inputs, and runs that show where the engine
  and its store part.
\<close>

section \<open>Two signals make an incident\<close>

definition example_signal :: "string \<Rightarrow> gotime \<Rightarrow> anomaly_signal" where
  "example_signal a t =
     \<lparr>as_anomaly_id = a, as_node_id = ''n'', as_metric_name = ''m'', as_observed_value = Fin 9,
      as_expected_value = Fin 5, as_deviation = Fin 4, as_anomaly_score = Fin 1, as_detection_method = ''d'',
      as_detected_at = t, as_evidence = None, as_correlation_id = [], as_detector_version = ''v''\<rparr>"

lemma example_signal_sel [simp]:
  "as_anomaly_id (example_signal a t) = a" "as_node_id (example_signal a t) = ''n''"
  "as_metric_name (example_signal a t) = ''m''" "as_detected_at (example_signal a t) = t"
  by (simp_all add: example_signal_def)

lemma not_blank_incident: "\<not> blank ''n''" "\<not> blank ''m''" "\<not> blank ''d''" "\<not> blank ''v''" "\<not> blank ''a''" "\<not> blank ''b''"
    "\<not> blank ''i''" "\<not> blank ''threshold_m''"
  by code_simp+

lemma example_signal_valid: "t \<noteq> 0 \<Longrightarrow> \<not> blank a \<Longrightarrow> anomaly_signal_validate (example_signal a t) = None"
  by (simp add: anomaly_signal_validate_def example_signal_def not_blank_incident is_zero_def)

definition empty_incidents :: incident_store where
  "empty_incidents = \<lparr>is_closed = False, is_incidents = [], is_observations = []\<rparr>"

definition incident_engine0 :: "incident_store option \<Rightarrow> incident_engine" where
  "incident_engine0 store = \<lparr>ie_config = default_inc_config, ie_store = store, ie_streams = (\<lambda>_. None)\<rparr>"

lemma incident_engine0_sel [simp]:
  "ie_config (incident_engine0 store) = default_inc_config" "ie_store (incident_engine0 store) = store"
  "ie_streams (incident_engine0 store) k = None"
  by (simp_all add: incident_engine0_def)

lemma new_default_engine: "new_incident_engine default_inc_config store = Inr (incident_engine0 store)"
  by (simp add: new_incident_engine_def default_inc_config_def incident_engine0_def)

lemma default_inc_config_sel [simp]:
  "ic_m default_inc_config = 2" "ic_n default_inc_config = 3" "ic_window default_inc_config = 5 * minute"
  by (simp_all add: default_inc_config_def)

definition first_observation :: stream_state where
  "first_observation = (new_stream ''n'' ''m'')\<lparr>st_seen := [''a'' \<mapsto> 10],
     st_observations := [\<lparr>ob_anomaly_id = ''a'', ob_detected_at = 10\<rparr>]\<rparr>"

definition example_incident :: incident where
  "example_incident = new_incident default_inc_config ''i'' (example_signal ''b'' 20)"

lemma example_incident_valid: "incident_validate example_incident = None"
  by (simp add: incident_validate_def example_incident_def new_incident_def default_inc_config_def not_blank_incident
      is_zero_def map_severity_def example_signal_def ptr_before_def)

abbreviation take_signal :: "string option \<Rightarrow> string \<Rightarrow> gotime \<Rightarrow> inc_op" where
  "take_signal gen a t \<equiv> IProcess (\<lambda>_. IoOk) t gen (Some (example_signal a t))"

lemma first_signal:
  "process_signal (\<lambda>_. IoOk) 10 None (Some (example_signal ''a'' 10)) (incident_engine0 (Some empty_incidents)) =
     (Inr None, put_stream ''n'' ''m'' first_observation (incident_engine0 (Some (empty_incidents
        \<lparr>is_observations := [observation_of 10 (example_signal ''a'' 10)]\<rparr>))))"
  by (simp add: process_signal_def Let_def example_signal_valid not_blank_incident incident_engine0_def empty_incidents_def
      stream_at_def put_stream_def new_stream_def engine_has_def has_observation_def observed_def stale_signal_def
      valid_count_def default_inc_config_def commit_signal_def engine_persist_def persist_incident_evaluation_def
      observation_of_def stamped_def is_zero_def note_signal_def first_observation_def insert_observation_def
      sort_by_def before_def)


definition both_observations :: stream_state where
  "both_observations = (new_stream ''n'' ''m'')\<lparr>st_seen := [''a'' \<mapsto> 10, ''b'' \<mapsto> 20],
     st_observations := [\<lparr>ob_anomaly_id = ''a'', ob_detected_at = 10\<rparr>, \<lparr>ob_anomaly_id = ''b'', ob_detected_at = 20\<rparr>],
     st_active := Some example_incident\<rparr>"

definition detected_store :: incident_store where
  "detected_store = empty_incidents\<lparr>is_incidents := [example_incident],
     is_observations := [observation_of 10 (example_signal ''a'' 10),
       (observation_of 20 (example_signal ''b'' 20))\<lparr>so_incident_id := ''i''\<rparr>]\<rparr>"

lemma example_incident_sel [simp]:
  "inc_id example_incident = ''i''" "inc_node_id example_incident = ''n''" "inc_trigger_metric example_incident = ''m''"
  "inc_status example_incident = StatusAnomalyDetected" "inc_triggered_at example_incident = 20"
  "example_incident\<lparr>inc_mitigations := []\<rparr> = example_incident"
  by (simp_all add: example_incident_def new_incident_def)

lemma second_signal:
  "process_signal (\<lambda>_. IoOk) 20 (Some ''i'') (Some (example_signal ''b'' 20)) (put_stream ''n'' ''m'' first_observation
      (incident_engine0 (Some (empty_incidents\<lparr>is_observations := [observation_of 10 (example_signal ''a'' 10)]\<rparr>)))) =
     (Inr (Some example_incident), put_stream ''n'' ''m'' both_observations (incident_engine0 (Some detected_store)))"
  by (simp add: process_signal_def Let_def example_signal_valid not_blank_incident incident_engine0_def empty_incidents_def
      stream_at_def put_stream_def new_stream_def engine_has_def has_observation_def observed_def stale_signal_def
      valid_count_def example_incident_valid commit_signal_def engine_persist_def persist_incident_evaluation_def
      observation_of_def stamped_def is_zero_def note_signal_def first_observation_def insert_observation_def
      sort_by_def before_def upsert_incident_def find_incident_def example_incident_def [symmetric]
      both_observations_def detected_store_def)


definition one_signal :: incident_engine where
  "one_signal = put_stream ''n'' ''m'' first_observation
     (incident_engine0 (Some (empty_incidents\<lparr>is_observations := [observation_of 10 (example_signal ''a'' 10)]\<rparr>)))"

definition two_signals :: incident_engine where
  "two_signals = put_stream ''n'' ''m'' both_observations (incident_engine0 (Some detected_store))"

lemma two_signals_run:
  "inc_run [take_signal None ''a'' 10] (incident_engine0 (Some empty_incidents)) = one_signal"
  "inc_run [take_signal None ''a'' 10, take_signal (Some ''i'') ''b'' 20] (incident_engine0 (Some empty_incidents)) = two_signals"
  by (simp_all add: inc_run_def first_signal second_signal one_signal_def [symmetric] two_signals_def)
     (simp add: one_signal_def second_signal)

lemma get_active_two_signals: "get_active ''n'' ''m'' two_signals = Some example_incident"
  by (simp add: get_active_def two_signals_def both_observations_def active_status_def)


theorem active_incident_kept_witness:
  "\<exists>inc'. get_active ''n'' ''m'' (inc_step (ITransition IoOk ''n'' ''m'' StatusMitigating 30) two_signals) = Some inc' \<and>
     continues example_incident inc'"
  by (rule active_incident_kept [OF get_active_two_signals]) simp_all


theorem signal_counted_once_witness:
  "get_active ''n'' ''m'' (snd (process_signal (\<lambda>_. IoOk) 50 (Some ''j'') (Some (example_signal ''b'' 20))
     (incident_engine0 (Some detected_store)))) = None"
proof -
  have taken: "process_signal (\<lambda>_. IoOk) 20 (Some ''i'') (Some (example_signal ''b'' 20)) one_signal =
      (Inr (Some example_incident), two_signals)"
    by (simp add: second_signal one_signal_def two_signals_def)
  have store: "ie_store one_signal = Some (empty_incidents\<lparr>is_observations := [observation_of 10 (example_signal ''a'' 10)]\<rparr>)"
    "st_seen (stream_at ''n'' ''m'' one_signal) ''b'' = None" "ie_store (inc_run [] two_signals) = Some detected_store"
    by (simp_all add: one_signal_def two_signals_def stream_at_def first_observation_def new_stream_def inc_run_def)
  have "get_active ''n'' ''m'' (inc_run [] (incident_engine0 (Some detected_store))) = None"
    by (simp add: get_active_def inc_run_def)
  with signal_counted_once [OF taken store(1) _ store(3) new_default_engine, of "''n''" "''m''" "\<lambda>_. IoOk" 50 "Some ''j''" "[]"] store(2)
  show ?thesis by (simp add: inc_run_def)
qed

section \<open>Where memory and store part\<close>

text \<open>
  \<open>CloseActiveIncident\<close> on an incident that is only detected clears the stream without a word to
  the store, so the incident is back after a restart.
\<close>

lemma closed_incident_returns:
  "get_active ''n'' ''m'' (snd (close_active_incident IoOk ''n'' ''m'' 30 two_signals)) = None"
  "ie_store (snd (close_active_incident IoOk ''n'' ''m'' 30 two_signals)) = Some detected_store"
  "get_active ''n'' ''m'' (snd (recover_incidents IoOk IoOk 40 (incident_engine0 (Some detected_store)))) = Some example_incident"
proof -
  have "held ''n'' ''m'' two_signals = Some (both_observations, example_incident)"
    by (simp add: held_def two_signals_def both_observations_def)
  then have "snd (close_active_incident IoOk ''n'' ''m'' 30 two_signals) =
      put_stream ''n'' ''m'' (both_observations\<lparr>st_active := None, st_observations := []\<rparr>) two_signals"
    by (simp add: close_active_incident_def Let_def transition_to_def incident_can_def)
  then show "get_active ''n'' ''m'' (snd (close_active_incident IoOk ''n'' ''m'' 30 two_signals)) = None"
    "ie_store (snd (close_active_incident IoOk ''n'' ''m'' 30 two_signals)) = Some detected_store"
    by (simp_all add: two_signals_def incident_engine0_def)
  have "list_active_incidents IoOk detected_store = Inr [example_incident]"
    by (simp add: list_active_incidents_def detected_store_def empty_incidents_def active_status_def)
  then show "get_active ''n'' ''m'' (snd (recover_incidents IoOk IoOk 40 (incident_engine0 (Some detected_store)))) = Some example_incident"
    by (simp add: get_active_active_at recovered_active_at active_at_restore active_status_def incident_key_def)
qed

text \<open>The transition of a closure happens in memory before it is stored; when the store fails, memory keeps it.\<close>

lemma failed_closure_recovers_in_memory:
  assumes "held n m e = Some (st, inc)" "inc_status inc = StatusMitigating" "ie_store e = Some s"
  shows "get_active n m (snd (close_active_incident IoFault n m now e)) = None"
    "ie_store (snd (close_active_incident IoFault n m now e)) = Some s"
  using assms
  by (simp_all add: close_active_incident_def Let_def transition_to_def incident_can_def engine_update_status_def
      update_incident_status_def db_guard_def active_status_def split: if_splits)

text \<open>With a store, \<open>RegisterIncident\<close> can only repeat an incident that is active already.\<close>

lemma registration_fails_with_store:
  assumes "ie_store e = Some s" "get_active (inc_node_id inc) (inc_trigger_metric inc) e = None"
  shows "\<exists>er. fst (register_incident io now (Some inc) e) = Inl er"
  using assms
  by (auto simp: register_incident_def Let_def engine_persist_def persist_incident_evaluation_def get_active_stream_at
      split: option.split if_splits)

text \<open>Streams are told apart by a text that does not determine node and metric.\<close>

lemma streams_collide: "get_active ''a:b'' ''c'' e = get_active ''a'' ''b:c'' e"
  by (simp add: get_active_def correlation_key_def)

end
