(* ===== verification/Audit_Store.thy ===== *)
theory Audit_Store
  imports Approval_Store
begin

text \<open>
  The audit trail: \<open>StoredAuditEvent\<close> and its validation (\<open>edge/agent/storage/store.go\<close>) and the
  operations on the table \<open>audit_events\<close> (\<open>edge/agent/storage/sqlite.go\<close>), keyed by \<open>event_id\<close>.

  A Go map of metadata is an association list in the order in which the code's loop visits it.
  Texts are taken to be valid UTF-8, which their JSON form preserves.
\<close>

section \<open>Events\<close>

record stored_audit_event =
  ae_event_id :: string
  ae_event_type :: string
  ae_timestamp :: gotime
  ae_node_id :: string
  ae_incident_id :: string
  ae_decision_id :: string
  ae_action_id :: string
  ae_approval_id :: string
  ae_mitigation_record_id :: string
  ae_verification_id :: string
  ae_escalation_id :: string
  ae_correlation_id :: string
  ae_policy_version :: string
  ae_actor :: string
  ae_result :: string
  ae_reason :: string
  ae_metadata :: gomap

abbreviation max_audit_string :: nat where "max_audit_string \<equiv> 128"
abbreviation max_audit_reason :: nat where "max_audit_reason \<equiv> 1024"
abbreviation max_audit_entries :: nat where "max_audit_entries \<equiv> 32"
abbreviation max_audit_bytes :: nat where "max_audit_bytes \<equiv> 8192"

text \<open>Patterns of credentials and of commands that metadata may not contain.\<close>

definition credential_pattern :: "string \<Rightarrow> string \<Rightarrow> bool" where
  "credential_pattern k v \<longleftrightarrow>
     list_ex (contains (to_lower k)) [''password'', ''secret'', ''private_key'', ''token'', ''credential''] \<or>
     contains (to_lower v) ''bearer ''"

definition command_pattern :: "string \<Rightarrow> bool" where
  "command_pattern v \<longleftrightarrow>
     list_ex (contains (to_lower v)) [''/bin/sh'', ''powershell'', ''cmd.exe'', ''exec.command'']"

definition metadata_bytes :: "gomap \<Rightarrow> nat" where
  "metadata_bytes m = sum_list (map (\<lambda>(k, v). length k + length v) m)"

fun stored_metadata_error :: "gomap \<Rightarrow> string option" where
  "stored_metadata_error [] = None"
| "stored_metadata_error ((k, v) # m) =
     (if max_audit_string < length k \<or> max_audit_reason < length v
      then Some ''metadata key/value exceeds length bounds''
      else if credential_pattern k v then Some ''sensitive credential pattern rejected in audit metadata''
      else if command_pattern v then Some ''executable command pattern rejected in audit metadata''
      else stored_metadata_error m)"

text \<open>The optional columns, in the order they are checked.\<close>

definition short_fields :: "stored_audit_event \<Rightarrow> (string \<times> string) list" where
  "short_fields e =
     [(''decision_id'', ae_decision_id e), (''action_id'', ae_action_id e), (''approval_id'', ae_approval_id e),
      (''mitigation_record_id'', ae_mitigation_record_id e), (''verification_id'', ae_verification_id e),
      (''escalation_id'', ae_escalation_id e), (''correlation_id'', ae_correlation_id e),
      (''policy_version'', ae_policy_version e), (''actor'', ae_actor e), (''result'', ae_result e)]"

definition stored_audit_event_validate :: "stored_audit_event \<Rightarrow> string option" where
  "stored_audit_event_validate e =
     (if blank (ae_event_id e) then Some ''event_id cannot be empty''
      else if max_audit_string < length (ae_event_id e) then Some ''event_id exceeds max length''
      else if blank (ae_event_type e) then Some ''event_type cannot be empty''
      else if max_audit_string < length (ae_event_type e) then Some ''event_type exceeds max length''
      else if is_zero (ae_timestamp e) then Some ''timestamp cannot be zero''
      else if blank (ae_node_id e) then Some ''node_id cannot be empty''
      else if max_audit_string < length (ae_node_id e) then Some ''node_id exceeds max length''
      else if blank (ae_incident_id e) then Some ''incident_id cannot be empty''
      else if max_audit_string < length (ae_incident_id e) then Some ''incident_id exceeds max length''
      else case find (\<lambda>(_, v). max_audit_string < length v) (short_fields e) of
        Some (name, _) \<Rightarrow> Some (name @ '' exceeds max length'')
      | None \<Rightarrow>
          if max_audit_reason < length (ae_reason e) then Some ''reason exceeds max length''
          else if max_audit_entries < length (ae_metadata e) then Some ''metadata exceeds maximum entry count''
          else case stored_metadata_error (ae_metadata e) of
            Some er \<Rightarrow> Some er
          | None \<Rightarrow>
              if max_audit_bytes < metadata_bytes (ae_metadata e) then Some ''metadata total size exceeds max allowed''
              else None)"

section \<open>The table\<close>

record audit_store =
  as_closed :: bool
  as_events :: "stored_audit_event list"

definition find_event :: "string \<Rightarrow> stored_audit_event list \<Rightarrow> stored_audit_event option" where
  "find_event i es = find (\<lambda>e. ae_event_id e = i) es"

definition record_audit_event ::
  "db_io \<Rightarrow> stored_audit_event option \<Rightarrow> audit_store \<Rightarrow> store_err option \<times> audit_store" where
  "record_audit_event io eo s =
     (case eo of None \<Rightarrow> (Some (ErrInvalidRecord ''nil audit event''), s) | Some e \<Rightarrow>
      case stored_audit_event_validate e of Some er \<Rightarrow> (Some (ErrInvalidRecord er), s) | None \<Rightarrow>
      case db_guard (as_closed s) io of Some er \<Rightarrow> (Some er, s) | None \<Rightarrow>
      if find_event (ae_event_id e) (as_events s) \<noteq> None then (Some ErrDuplicateAuditEvent, s)
      else (None, s\<lparr>as_events := as_events s @ [e]\<rparr>))"

definition get_audit_event :: "db_io \<Rightarrow> string \<Rightarrow> audit_store \<Rightarrow> store_err + stored_audit_event" where
  "get_audit_event io i s =
     (if blank i then Inl ErrAuditEventNotFound
      else case db_guard (as_closed s) io of Some er \<Rightarrow> Inl er | None \<Rightarrow>
        (case find_event i (as_events s) of None \<Rightarrow> Inl ErrAuditEventNotFound | Some e \<Rightarrow> Inr e))"

record audit_filter =
  af_incident_id :: string
  af_node_id :: string
  af_correlation_id :: string
  af_event_type :: string
  af_since :: gotime
  af_until :: gotime
  af_limit :: int

definition any_event :: audit_filter where
  "any_event = \<lparr>af_incident_id = [], af_node_id = [], af_correlation_id = [], af_event_type = [],
     af_since = 0, af_until = 0, af_limit = 0\<rparr>"

text \<open>A criterion that is blank, or a bound that is zero, does not restrict the query.\<close>

definition selects :: "string \<Rightarrow> string \<Rightarrow> bool" where
  "selects crit v \<longleftrightarrow> blank crit \<or> v = trim_space crit"

definition audit_matches :: "audit_filter \<Rightarrow> stored_audit_event \<Rightarrow> bool" where
  "audit_matches f e \<longleftrightarrow>
     selects (af_incident_id f) (ae_incident_id e) \<and> selects (af_node_id f) (ae_node_id e) \<and>
     selects (af_correlation_id f) (ae_correlation_id e) \<and> selects (af_event_type f) (ae_event_type e) \<and>
     (is_zero (af_since f) \<or> format_db_time (af_since f) \<le> format_db_time (ae_timestamp e)) \<and>
     (is_zero (af_until f) \<or> format_db_time (ae_timestamp e) \<le> format_db_time (af_until f))"

definition audit_limit :: "int \<Rightarrow> nat" where
  "audit_limit n = (if n \<le> 0 then 100 else if 1000 < n then 1000 else nat n)"

text \<open>\<open>ORDER BY timestamp ASC, event_id ASC\<close>.\<close>

definition audit_order :: "stored_audit_event list \<Rightarrow> stored_audit_event list" where
  "audit_order es = sort_key (\<lambda>e. format_db_time (ae_timestamp e)) (sort_key ae_event_id es)"

definition list_audit_events :: "db_io \<Rightarrow> audit_filter \<Rightarrow> audit_store \<Rightarrow> store_err + stored_audit_event list" where
  "list_audit_events io f s =
     (case db_guard (as_closed s) io of Some er \<Rightarrow> Inl er | None \<Rightarrow>
        Inr (take (audit_limit (af_limit f)) (audit_order (filter (audit_matches f) (as_events s)))))"

definition list_audit_events_by_incident where
  "list_audit_events_by_incident io i n s =
     (if blank i then Inr [] else list_audit_events io (any_event\<lparr>af_incident_id := i, af_limit := n\<rparr>) s)"

definition list_audit_events_by_correlation where
  "list_audit_events_by_correlation io c n s =
     (if blank c then Inr [] else list_audit_events io (any_event\<lparr>af_correlation_id := c, af_limit := n\<rparr>) s)"

definition list_audit_events_by_node where
  "list_audit_events_by_node io i n s =
     (if blank i then Inr [] else list_audit_events io (any_event\<lparr>af_node_id := i, af_limit := n\<rparr>) s)"

definition count_audit_events :: "db_io \<Rightarrow> audit_store \<Rightarrow> store_err + nat" where
  "count_audit_events io s =
     (case db_guard (as_closed s) io of Some er \<Rightarrow> Inl er | None \<Rightarrow> Inr (length (as_events s)))"

section \<open>The trail\<close>

text \<open>Events are only ever appended, valid, with an identifier of their own.\<close>

definition trail_ok :: "audit_store \<Rightarrow> bool" where
  "trail_ok s \<longleftrightarrow> distinct (map ae_event_id (as_events s)) \<and>
     (\<forall>e \<in> set (as_events s). stored_audit_event_validate e = None)"

lemma find_event_None: "find_event i es = None \<longleftrightarrow> i \<notin> ae_event_id ` set es"
  by (auto simp: find_event_def find_None_iff)

lemma record_audit_event_cases:
  assumes "record_audit_event io eo s = (r, s')"
  obtains (refused) er where "r = Some er" "s' = s"
  | (appended) e where "r = None" "eo = Some e" "stored_audit_event_validate e = None"
      "ae_event_id e \<notin> ae_event_id ` set (as_events s)" "s' = s\<lparr>as_events := as_events s @ [e]\<rparr>"
proof -
  have "(\<exists>er. r = Some er) \<and> s' = s \<or> (\<exists>e. r = None \<and> eo = Some e \<and> stored_audit_event_validate e = None \<and>
      find_event (ae_event_id e) (as_events s) = None \<and> s' = s\<lparr>as_events := as_events s @ [e]\<rparr>)"
    using assms unfolding record_audit_event_def by (auto split: option.splits if_splits)
  with refused appended show ?thesis by (auto simp: find_event_None)
qed

lemma trail_ok_record: "trail_ok s \<Longrightarrow> trail_ok (snd (record_audit_event io eo s))"
proof -
  assume ok: "trail_ok s"
  obtain r s' where p: "record_audit_event io eo s = (r, s')" by fastforce
  then show ?thesis by (cases rule: record_audit_event_cases) (use ok p in \<open>auto simp: trail_ok_def\<close>)
qed

lemma audit_order_props [simp]:
  "set (audit_order es) = set es" "length (audit_order es) = length es"
  "sorted (map (\<lambda>e. format_db_time (ae_timestamp e)) (audit_order es))"
  by (simp_all add: audit_order_def)

end
