(* ===== verification/Audit_Service.thy ===== *)
theory Audit_Service
  imports Audit_Store Response_Decision
begin

text \<open>
  The audit service (\<open>edge/agent/audit/event.go\<close> and \<open>recorder.go\<close>): the events of an incident
  response, their validation, their stored form, and the service that records and queries them.
  The digest SHA-256 is a parameter.
\<close>

section \<open>Event types\<close>

datatype event_type =
    EventAnomalyDetected | EventIncidentCreated | EventIncidentStateChanged |
    EventResponseDecisionCreated | EventSafetyValidated | EventSafetyRejected |
    EventApprovalRequested | EventApprovalGranted | EventApprovalRejected | EventApprovalExpired |
    EventApprovalCancelled | EventMitigationRecorded | EventMitigationStarted |
    EventMitigationExecuted | EventMitigationFailed | EventVerificationStarted |
    EventVerificationProgress | EventVerificationRecovered | EventVerificationTimedOut |
    EventVerificationRejected | EventEscalationEvaluated | EventRetryAuthorized |
    EventCircuitOpened | EventOrchestrationCompleted | EventOrchestrationStopped |
    EventRecoveryStarted | EventRecoveryStateLoaded | EventRecoveryReconciliationRequired |
    EventRecoveryReconciliationCompleted | EventRecoveryBlocked | EventRecoveryFailed |
    EventRecoveryCompleted | EventControlPlaneRegStarted | EventControlPlaneRegSuccess |
    EventControlPlaneRegFailed | EventControlPlaneConnected | EventControlPlaneDisconnected |
    EventControlPlaneHeartbeatSuccess | EventControlPlaneHeartbeatFailed |
    EventControlPlaneReconnectSched | EventControlPlaneAuthFailed | EventOther string

definition event_type_names :: "(event_type \<times> string) list" where
  "event_type_names =
    [(EventAnomalyDetected, ''ANOMALY_DETECTED''), (EventIncidentCreated, ''INCIDENT_CREATED''),
     (EventIncidentStateChanged, ''INCIDENT_STATE_CHANGED''),
     (EventResponseDecisionCreated, ''RESPONSE_DECISION_CREATED''),
     (EventSafetyValidated, ''SAFETY_VALIDATED''), (EventSafetyRejected, ''SAFETY_REJECTED''),
     (EventApprovalRequested, ''APPROVAL_REQUESTED''),
     (EventApprovalGranted, ''APPROVAL_GRANTED''), (EventApprovalRejected, ''APPROVAL_REJECTED''),
     (EventApprovalExpired, ''APPROVAL_EXPIRED''),
     (EventApprovalCancelled, ''APPROVAL_CANCELLED''),
     (EventMitigationRecorded, ''MITIGATION_RECORDED''),
     (EventMitigationStarted, ''MITIGATION_STARTED''),
     (EventMitigationExecuted, ''MITIGATION_EXECUTED''),
     (EventMitigationFailed, ''MITIGATION_FAILED''),
     (EventVerificationStarted, ''VERIFICATION_STARTED''),
     (EventVerificationProgress, ''VERIFICATION_PROGRESS''),
     (EventVerificationRecovered, ''VERIFICATION_RECOVERED''),
     (EventVerificationTimedOut, ''VERIFICATION_TIMED_OUT''),
     (EventVerificationRejected, ''VERIFICATION_REJECTED''),
     (EventEscalationEvaluated, ''ESCALATION_EVALUATED''),
     (EventRetryAuthorized, ''RETRY_AUTHORIZED''), (EventCircuitOpened, ''CIRCUIT_OPENED''),
     (EventOrchestrationCompleted, ''ORCHESTRATION_COMPLETED''),
     (EventOrchestrationStopped, ''ORCHESTRATION_STOPPED''),
     (EventRecoveryStarted, ''RECOVERY_STARTED''),
     (EventRecoveryStateLoaded, ''RECOVERY_STATE_LOADED''),
     (EventRecoveryReconciliationRequired, ''RECOVERY_RECONCILIATION_REQUIRED''),
     (EventRecoveryReconciliationCompleted, ''RECOVERY_RECONCILIATION_COMPLETED''),
     (EventRecoveryBlocked, ''RECOVERY_BLOCKED''), (EventRecoveryFailed, ''RECOVERY_FAILED''),
     (EventRecoveryCompleted, ''RECOVERY_COMPLETED''),
     (EventControlPlaneRegStarted, ''CONTROL_PLANE_REGISTRATION_STARTED''),
     (EventControlPlaneRegSuccess, ''CONTROL_PLANE_REGISTRATION_SUCCEEDED''),
     (EventControlPlaneRegFailed, ''CONTROL_PLANE_REGISTRATION_FAILED''),
     (EventControlPlaneConnected, ''CONTROL_PLANE_CONNECTED''),
     (EventControlPlaneDisconnected, ''CONTROL_PLANE_DISCONNECTED''),
     (EventControlPlaneHeartbeatSuccess, ''CONTROL_PLANE_HEARTBEAT_SUCCEEDED''),
     (EventControlPlaneHeartbeatFailed, ''CONTROL_PLANE_HEARTBEAT_FAILED''),
     (EventControlPlaneReconnectSched, ''CONTROL_PLANE_RECONNECT_SCHEDULED''),
     (EventControlPlaneAuthFailed, ''CONTROL_PLANE_AUTH_FAILED'')]"

definition event_type_valid :: "event_type \<Rightarrow> bool" where
  "event_type_valid t \<longleftrightarrow> (case t of EventOther _ \<Rightarrow> False | _ \<Rightarrow> True)"

text \<open>The text of a type, and the type of a text; any other text is a type that is not valid.\<close>

definition event_type_string :: "event_type \<Rightarrow> string" where
  "event_type_string t = (case t of EventOther s \<Rightarrow> s | _ \<Rightarrow>
     (case map_of event_type_names t of Some s \<Rightarrow> s | None \<Rightarrow> []))"

definition event_type_of :: "string \<Rightarrow> event_type" where
  "event_type_of s = (case find (\<lambda>(_, n). n = s) event_type_names of Some (t, _) \<Rightarrow> t | None \<Rightarrow> EventOther s)"

section \<open>Events\<close>

record audit_event =
  ev_event_id :: string
  ev_event_type :: event_type
  ev_timestamp :: gotime
  ev_node_id :: string
  ev_incident_id :: string
  ev_decision_id :: string
  ev_action_id :: string
  ev_approval_id :: string
  ev_mitigation_record_id :: string
  ev_verification_id :: string
  ev_escalation_id :: string
  ev_correlation_id :: string
  ev_policy_version :: string
  ev_actor :: string
  ev_result :: string
  ev_reason :: string
  ev_metadata :: gomap

datatype audit_err =
    ErrMissingIdentifier string | ErrOversizedPayload string | ErrInvalidEventType event_type
  | ErrProhibitedContent string | ErrDuplicateEvent | ErrEventNotFound | AuditStore store_err

fun metadata_error :: "gomap \<Rightarrow> audit_err option" where
  "metadata_error [] = None"
| "metadata_error ((k, v) # m) =
     (if max_audit_string < length k \<or> max_audit_reason < length v then Some (ErrOversizedPayload ''metadata'')
      else if credential_pattern k v then Some (ErrProhibitedContent k)
      else if command_pattern v then Some (ErrProhibitedContent k)
      else metadata_error m)"

definition audit_event_validate :: "audit_event \<Rightarrow> audit_err option" where
  "audit_event_validate e =
     (if blank (ev_event_id e) then Some (ErrMissingIdentifier ''event_id'')
      else if max_audit_string < length (ev_event_id e) then Some (ErrOversizedPayload ''event_id'')
      else if \<not> event_type_valid (ev_event_type e) then Some (ErrInvalidEventType (ev_event_type e))
      else if is_zero (ev_timestamp e) then Some (ErrMissingIdentifier ''timestamp'')
      else if blank (ev_node_id e) then Some (ErrMissingIdentifier ''node_id'')
      else if max_audit_string < length (ev_node_id e) then Some (ErrOversizedPayload ''node_id'')
      else if blank (ev_incident_id e) then Some (ErrMissingIdentifier ''incident_id'')
      else if max_audit_string < length (ev_incident_id e) then Some (ErrOversizedPayload ''incident_id'')
      else if list_ex (\<lambda>v. max_audit_string < length v)
        [ev_decision_id e, ev_action_id e, ev_approval_id e, ev_mitigation_record_id e, ev_verification_id e,
         ev_escalation_id e, ev_correlation_id e, ev_policy_version e, ev_actor e, ev_result e]
        then Some (ErrOversizedPayload ''attribute'')
      else if max_audit_reason < length (ev_reason e) then Some (ErrOversizedPayload ''reason'')
      else if max_audit_entries < length (ev_metadata e) then Some (ErrOversizedPayload ''metadata'')
      else case metadata_error (ev_metadata e) of Some er \<Rightarrow> Some er | None \<Rightarrow>
        if max_audit_bytes < metadata_bytes (ev_metadata e) then Some (ErrOversizedPayload ''metadata'') else None)"

definition event_to_stored :: "audit_event \<Rightarrow> stored_audit_event" where
  "event_to_stored e =
     \<lparr>ae_event_id = ev_event_id e, ae_event_type = event_type_string (ev_event_type e), ae_timestamp = ev_timestamp e,
      ae_node_id = ev_node_id e, ae_incident_id = ev_incident_id e, ae_decision_id = ev_decision_id e,
      ae_action_id = ev_action_id e, ae_approval_id = ev_approval_id e,
      ae_mitigation_record_id = ev_mitigation_record_id e, ae_verification_id = ev_verification_id e,
      ae_escalation_id = ev_escalation_id e, ae_correlation_id = ev_correlation_id e,
      ae_policy_version = ev_policy_version e, ae_actor = ev_actor e, ae_result = ev_result e,
      ae_reason = ev_reason e, ae_metadata = ev_metadata e\<rparr>"

definition event_from_stored :: "stored_audit_event \<Rightarrow> audit_event" where
  "event_from_stored s =
     \<lparr>ev_event_id = ae_event_id s, ev_event_type = event_type_of (ae_event_type s), ev_timestamp = ae_timestamp s,
      ev_node_id = ae_node_id s, ev_incident_id = ae_incident_id s, ev_decision_id = ae_decision_id s,
      ev_action_id = ae_action_id s, ev_approval_id = ae_approval_id s,
      ev_mitigation_record_id = ae_mitigation_record_id s, ev_verification_id = ae_verification_id s,
      ev_escalation_id = ae_escalation_id s, ev_correlation_id = ae_correlation_id s,
      ev_policy_version = ae_policy_version s, ev_actor = ae_actor s, ev_result = ae_result s,
      ev_reason = ae_reason s, ev_metadata = ae_metadata s\<rparr>"

definition compute_event_id :: "digest \<Rightarrow> string \<Rightarrow> string \<Rightarrow> event_type \<Rightarrow> int \<Rightarrow> string \<Rightarrow> string" where
  "compute_event_id sha node incident t attempt disc =
     ''evt-'' @ hex_bytes (take 16 (sha (node @ ''|'' @ incident @ ''|'' @ event_type_string t @ ''|'' @ itoa attempt @ ''|'' @ disc)))"

definition compute_correlation_id :: "string \<Rightarrow> string" where
  "compute_correlation_id incident = (if incident = [] then [] else ''corr-'' @ incident)"

section \<open>The service\<close>

record audit_service =
  au_closed :: bool
  au_store :: audit_store

text \<open>The event \<open>Record\<close> stores: correlation, time and identifier are filled in where they are missing.\<close>

definition completed :: "digest \<Rightarrow> gotime \<Rightarrow> audit_event \<Rightarrow> audit_event" where
  "completed sha now e =
     (let e1 = (if ev_correlation_id e = [] \<and> ev_incident_id e \<noteq> []
                then e\<lparr>ev_correlation_id := compute_correlation_id (ev_incident_id e)\<rparr> else e);
          e2 = (if is_zero (ev_timestamp e1) then e1\<lparr>ev_timestamp := now\<rparr> else e1);
          disc = (if ev_action_id e2 \<noteq> [] then ev_action_id e2
                  else if ev_decision_id e2 \<noteq> [] then ev_decision_id e2 else ev_reason e2)
      in if ev_event_id e2 = []
         then e2\<lparr>ev_event_id := compute_event_id sha (ev_node_id e2) (ev_incident_id e2) (ev_event_type e2) 0 disc\<rparr>
         else e2)"

definition audit_record ::
  "digest \<Rightarrow> db_io \<Rightarrow> gotime \<Rightarrow> audit_event \<Rightarrow> audit_service \<Rightarrow> audit_err option \<times> audit_service" where
  "audit_record sha io now e s =
     (if au_closed s then (Some (AuditStore ErrStoreClosed), s)
      else let e' = completed sha now e
      in case audit_event_validate e' of Some er \<Rightarrow> (Some er, s) | None \<Rightarrow>
      (case record_audit_event io (Some (event_to_stored e')) (au_store s) of
         (None, st) \<Rightarrow> (None, s\<lparr>au_store := st\<rparr>)
       | (Some er, st) \<Rightarrow> (Some (if er = ErrDuplicateAuditEvent then ErrDuplicateEvent else AuditStore er), s\<lparr>au_store := st\<rparr>)))"

definition audit_close :: "audit_service \<Rightarrow> audit_service" where
  "audit_close s = s\<lparr>au_closed := True\<rparr>"

definition audit_get :: "db_io \<Rightarrow> string \<Rightarrow> audit_service \<Rightarrow> audit_err + audit_event" where
  "audit_get io i s =
     (if au_closed s then Inl (AuditStore ErrStoreClosed)
      else case get_audit_event io i (au_store s) of
        Inl er \<Rightarrow> Inl (if er = ErrAuditEventNotFound then ErrEventNotFound else AuditStore er)
      | Inr e \<Rightarrow> Inr (event_from_stored e))"

definition audit_query ::
  "(audit_store \<Rightarrow> store_err + stored_audit_event list) \<Rightarrow> audit_service \<Rightarrow> audit_err + audit_event list" where
  "audit_query q s =
     (if au_closed s then Inl (AuditStore ErrStoreClosed)
      else case q (au_store s) of Inl er \<Rightarrow> Inl (AuditStore er) | Inr es \<Rightarrow> Inr (map event_from_stored es))"

definition audit_list_by_incident where
  "audit_list_by_incident io i n = audit_query (list_audit_events_by_incident io i n)"

definition audit_list_by_correlation where
  "audit_list_by_correlation io c n = audit_query (list_audit_events_by_correlation io c n)"

definition audit_list_by_node where
  "audit_list_by_node io i n = audit_query (list_audit_events_by_node io i n)"

definition audit_list where
  "audit_list io f = audit_query (list_audit_events io f)"

definition audit_count :: "db_io \<Rightarrow> audit_service \<Rightarrow> audit_err + nat" where
  "audit_count io s =
     (if au_closed s then Inl (AuditStore ErrStoreClosed)
      else case count_audit_events io (au_store s) of Inl er \<Rightarrow> Inl (AuditStore er) | Inr n \<Rightarrow> Inr n)"

section \<open>Stored form\<close>

lemma names_read_back: "list_all (\<lambda>p. event_type_of (snd p) = fst p) event_type_names"
  by code_simp

lemma names_complete: "event_type_valid t \<Longrightarrow> t \<in> fst ` set event_type_names"
  unfolding event_type_names_def list.set image_insert image_empty fst_conv
  by (cases t; simp only: event_type_valid_def event_type.case insert_iff simp_thms)

lemma event_type_round_trip: "event_type_valid t \<Longrightarrow> event_type_of (event_type_string t) = t"
proof -
  assume v: "event_type_valid t"
  obtain s where s: "map_of event_type_names t = Some s"
    using names_complete [OF v] by (metis map_of_eq_None_iff option.exhaust)
  then have "event_type_of s = t"
    using names_read_back map_of_SomeD [OF s] by (fastforce simp: list_all_iff)
  moreover have "event_type_string t = s"
    using v s by (cases t) (simp_all add: event_type_valid_def event_type_string_def)
  ultimately show ?thesis by simp
qed

lemma event_round_trip:
  "event_type_valid (ev_event_type e) \<Longrightarrow> event_from_stored (event_to_stored e) = e"
  by (simp add: event_from_stored_def event_to_stored_def event_type_round_trip)

lemma audit_event_validate_None: "audit_event_validate e = None \<Longrightarrow>
    event_type_valid (ev_event_type e) \<and> \<not> blank (ev_event_id e) \<and> metadata_error (ev_metadata e) = None"
  by (auto simp: audit_event_validate_def split: if_splits option.splits)

section \<open>What the trail keeps\<close>

text \<open>Calls of \<open>Record\<close>, one after the other.\<close>

definition record_all ::
  "digest \<Rightarrow> (db_io \<times> gotime \<times> audit_event) list \<Rightarrow> audit_service \<Rightarrow> audit_service" where
  "record_all sha cs s = fold (\<lambda>(io, now, e) s. snd (audit_record sha io now e s)) cs s"

lemma audit_record_cases:
  assumes "audit_record sha io now e s = (r, s')"
  obtains (refused) er where "r = Some er" "s' = s"
  | (recorded) "r = None" "\<not> au_closed s" "audit_event_validate (completed sha now e) = None"
      "record_audit_event io (Some (event_to_stored (completed sha now e))) (au_store s) = (None, au_store s')"
      "s' = s\<lparr>au_store := au_store s'\<rparr>"
proof -
  have "(\<exists>er. r = Some er) \<and> s' = s \<or> (r = None \<and> \<not> au_closed s \<and> audit_event_validate (completed sha now e) = None \<and>
      record_audit_event io (Some (event_to_stored (completed sha now e))) (au_store s) = (None, au_store s') \<and>
      s' = s\<lparr>au_store := au_store s'\<rparr>)"
  proof (cases "au_closed s")
    case True
    with assms show ?thesis by (simp add: audit_record_def) blast
  next
    case open_service: False
    show ?thesis
    proof (cases "audit_event_validate (completed sha now e)")
      case (Some er)
      with assms open_service show ?thesis by (simp add: audit_record_def Let_def) blast
    next
      case None
      obtain q st where q: "record_audit_event io (Some (event_to_stored (completed sha now e))) (au_store s) = (q, st)"
        by fastforce
      have same: "s\<lparr>au_store := au_store s\<rparr> = s" by simp
      from q show ?thesis
        by (cases rule: record_audit_event_cases)
          (use assms open_service None q same in \<open>auto simp: audit_record_def Let_def\<close>)
    qed
  qed
  then show ?thesis
  proof (elim disjE exE conjE)
    fix er assume "r = Some er" "s' = s"
    then show thesis by (rule refused)
  qed (rule recorded)
qed

definition kept :: "stored_audit_event \<Rightarrow> audit_service \<Rightarrow> bool" where
  "kept e s \<longleftrightarrow> \<not> au_closed s \<and> \<not> as_closed (au_store s) \<and> find_event (ae_event_id e) (as_events (au_store s)) = Some e"

lemma find_event_append: "find_event i es = Some e \<Longrightarrow> find_event i (es @ es') = Some e"
  by (induction es) (auto simp: find_event_def)

lemma find_event_snoc: "ae_event_id e \<notin> ae_event_id ` set es \<Longrightarrow> find_event (ae_event_id e) (es @ [e]) = Some e"
  by (induction es) (auto simp: find_event_def)

lemma audit_record_keeps: "kept x s \<Longrightarrow> kept x (snd (audit_record sha io now e s))"
proof -
  assume k: "kept x s"
  obtain r s' where p: "audit_record sha io now e s = (r, s')" by fastforce
  then show ?thesis
  proof (cases rule: audit_record_cases)
    case recorded
    have "as_closed (au_store s') = as_closed (au_store s) \<and>
        as_events (au_store s') = as_events (au_store s) @ [event_to_stored (completed sha now e)]"
      using recorded(4) by (cases rule: record_audit_event_cases) simp_all
    moreover have "au_closed s' = au_closed s" using recorded(5) by (metis audit_service.ext_inject audit_service.surjective audit_service.update_convs(2))
    ultimately show ?thesis using k p by (simp add: kept_def find_event_append)
  qed (use k p in simp)
qed

lemma record_all_keeps: "kept x s \<Longrightarrow> kept x (record_all sha cs s)"
  by (induction cs arbitrary: s) (auto simp: record_all_def audit_record_keeps)

text \<open>
  C0. The audit trail keeps what it took: when \<open>Record\<close> accepts an event, the event with its
  missing fields filled in can be read back unchanged by its identifier after any further calls of
  \<open>Record\<close>, whatever they try to record.
\<close>

theorem recorded_event_is_kept:
  assumes "audit_record sha io now e s = (None, s1)"
  shows "audit_get IoOk (ev_event_id (completed sha now e)) (record_all sha later s1) = Inr (completed sha now e)"
  using assms
proof (cases rule: audit_record_cases)
  case recorded
  let ?x = "event_to_stored (completed sha now e)"
  have "kept ?x s1"
    using recorded(4)
  proof (cases rule: record_audit_event_cases)
    case (appended x)
    have "\<not> as_closed (au_store s)" using recorded(4)
      by (auto simp: record_audit_event_def db_guard_def split: option.splits if_splits)
    moreover have "au_closed s1 = au_closed s"
      using recorded(5) by (metis audit_service.ext_inject audit_service.surjective audit_service.update_convs(2))
    ultimately show ?thesis using appended recorded(2)
      by (auto simp: kept_def find_event_snoc)
  qed simp
  then have "kept ?x (record_all sha later s1)" by (rule record_all_keeps)
  moreover have "ae_event_id ?x = ev_event_id (completed sha now e)" by (simp add: event_to_stored_def)
  moreover note audit_event_validate_None [OF recorded(3)]
  ultimately show ?thesis
    by (simp add: audit_get_def get_audit_event_def kept_def event_round_trip)
qed simp

text \<open>
  A clean trail: whatever events are recorded, no stored event has metadata with a credential
  or command pattern, every text is within its bound, and no two events share an identifier.
\<close>

theorem audit_trail_is_clean:
  assumes "as_events (au_store s) = []" "e \<in> set (as_events (au_store (record_all sha cs s)))"
  shows "list_all (\<lambda>(k, v). \<not> credential_pattern k v \<and> \<not> command_pattern v) (ae_metadata e) \<and>
    metadata_bytes (ae_metadata e) \<le> 8192 \<and> length (ae_reason e) \<le> 1024 \<and> \<not> blank (ae_incident_id e) \<and>
    distinct (map ae_event_id (as_events (au_store (record_all sha cs s))))"
proof -
  have "trail_ok (au_store s) \<Longrightarrow> trail_ok (au_store (record_all sha cs s))"
  proof (induction cs arbitrary: s)
    case (Cons c cs)
    obtain io now x where c: "c = (io, now, x)" by (cases c)
    obtain r s' where p: "audit_record sha io now x s = (r, s')" by fastforce
    then have "trail_ok (au_store s')"
      by (cases rule: audit_record_cases) (use Cons.prems in \<open>auto dest: trail_ok_record [of _ io]\<close>, metis snd_conv trail_ok_record)
    with Cons.IH [of s'] p c show ?case by (simp add: record_all_def)
  qed (simp add: record_all_def)
  with assms have ok: "trail_ok (au_store (record_all sha cs s))" by (simp add: trail_ok_def)
  have "stored_metadata_error m = None \<Longrightarrow> list_all (\<lambda>(k, v). \<not> credential_pattern k v \<and> \<not> command_pattern v) m" for m
    by (induction m rule: stored_metadata_error.induct) (auto split: if_splits)
  moreover have "stored_audit_event_validate e = None" using ok assms(2) by (simp add: trail_ok_def)
  ultimately show ?thesis using ok
    by (auto simp: stored_audit_event_validate_def trail_ok_def not_less split: if_splits option.splits)
qed

section \<open>An example\<close>

definition example_event :: audit_event where
  "example_event =
     \<lparr>ev_event_id = ''e'', ev_event_type = EventIncidentCreated, ev_timestamp = 5, ev_node_id = ''n'', ev_incident_id = ''i'',
      ev_decision_id = [], ev_action_id = [], ev_approval_id = [], ev_mitigation_record_id = [], ev_verification_id = [],
      ev_escalation_id = [], ev_correlation_id = ''c'', ev_policy_version = [], ev_actor = [], ev_result = [], ev_reason = [],
      ev_metadata = [(''k'', ''v'')]\<rparr>"

definition empty_audit :: audit_service where
  "empty_audit = \<lparr>au_closed = False, au_store = \<lparr>as_closed = False, as_events = []\<rparr>\<rparr>"

lemma not_blank_event: "\<not> blank ''e''" "\<not> blank ''n''" "\<not> blank ''i''" "\<not> blank ''INCIDENT_CREATED''"
    "\<not> credential_pattern ''k'' ''v''" "\<not> command_pattern ''v''"
  by code_simp+

lemma example_event_completed: "completed sha now example_event = example_event"
  by (simp add: completed_def example_event_def is_zero_def Let_def)

lemma record_example_event:
  "audit_record sha IoOk now example_event empty_audit =
     (None, empty_audit\<lparr>au_store := \<lparr>as_closed = False, as_events = [event_to_stored example_event]\<rparr>\<rparr>)"
  by (simp add: audit_record_def Let_def example_event_completed)
     (simp add: audit_event_validate_def example_event_def not_blank_event event_type_valid_def is_zero_def
      metadata_bytes_def record_audit_event_def empty_audit_def event_to_stored_def stored_audit_event_validate_def
      short_fields_def event_type_string_def event_type_names_def find_event_def)

theorem recorded_event_is_kept_witness:
  "audit_get IoOk ''e'' (record_all (\<lambda>_. []) [(IoFault, 7, example_event)]
     (empty_audit\<lparr>au_store := \<lparr>as_closed = False, as_events = [event_to_stored example_event]\<rparr>\<rparr>)) = Inr example_event"
  using recorded_event_is_kept [OF record_example_event, of "\<lambda>_. []" 5 "[(IoFault, 7, example_event)]"]
  by (simp add: example_event_completed) (simp add: example_event_def)

theorem audit_trail_is_clean_witness:
  "list_all (\<lambda>(k, v). \<not> credential_pattern k v \<and> \<not> command_pattern v) (ae_metadata (event_to_stored example_event))"
  using audit_trail_is_clean [of empty_audit "event_to_stored example_event" "\<lambda>_. []" "[(IoOk, 5, example_event)]"]
  by (simp add: record_all_def record_example_event) (simp add: empty_audit_def)

end
