(* ===== verification/Telemetry_Store.thy ===== *)
theory Telemetry_Store
  imports Approval_Store
begin

text \<open>
  The telemetry outbox: the table \<open>telemetry_batches\<close> of \<open>edge/agent/storage/sqlite.go\<close>, keyed by
  \<open>batch_id\<close>, and the operations on it (\<open>Store\<close> in \<open>edge/agent/storage/store.go\<close>).

  A row keeps the batch its JSON payload is read back as, and \<open>published_at\<close>, which \<open>Record\<close> does
  not show.  Where the query leaves the order of equal sequence numbers open, the model takes the
  order of insertion.
\<close>

section \<open>Rows\<close>

datatype sync_status = SyncPending | SyncSyncing | SyncSynced | SyncFailed | SyncPublished | SyncOther string

fun sync_status_string :: "sync_status \<Rightarrow> string" where
  "sync_status_string SyncPending = ''PENDING''"
| "sync_status_string SyncSyncing = ''SYNCING''"
| "sync_status_string SyncSynced = ''SYNCED''"
| "sync_status_string SyncFailed = ''FAILED''"
| "sync_status_string SyncPublished = ''PUBLISHED''"
| "sync_status_string (SyncOther s) = s"

fun sync_status_valid :: "sync_status \<Rightarrow> bool" where
  "sync_status_valid (SyncOther _) = False"
| "sync_status_valid _ = True"

record batch_row =
  br_batch_id :: string
  br_node_id :: string
  br_sequence_number :: int
  br_collected_at :: gotime
  br_sent_at :: "gotime option"
  br_attempt :: int
  br_payload :: telemetry_batch
  br_created_at :: gotime
  br_sync_status :: sync_status
  br_failed_at :: "gotime option"
  br_error_reason :: string
  br_published_at :: "gotime option"

record telemetry_store =
  ts_closed :: bool
  ts_rows :: "batch_row list"

definition find_batch :: "string \<Rightarrow> batch_row list \<Rightarrow> batch_row option" where
  "find_batch i rows = find (\<lambda>r. br_batch_id r = i) rows"

section \<open>Writing\<close>

definition new_row :: "gotime \<Rightarrow> telemetry_batch \<Rightarrow> batch_row" where
  "new_row now b =
     \<lparr>br_batch_id = tb_batch_id b, br_node_id = tb_node_id b, br_sequence_number = tb_sequence_number b,
      br_collected_at = tb_collected_at b, br_sent_at = tb_sent_at b, br_attempt = tb_attempt b, br_payload = b,
      br_created_at = now, br_sync_status = SyncPending, br_failed_at = None, br_error_reason = [],
      br_published_at = None\<rparr>"

definition persist_batch ::
  "db_io \<Rightarrow> gotime \<Rightarrow> telemetry_batch option \<Rightarrow> telemetry_store \<Rightarrow> store_err option \<times> telemetry_store" where
  "persist_batch io now bo s =
     (case bo of None \<Rightarrow> (Some (ErrInvalidRecord ''nil batch''), s) | Some b \<Rightarrow>
      case telemetry_batch_validate b of Some er \<Rightarrow> (Some (ErrPersistInvalidBatch er), s) | None \<Rightarrow>
      case db_guard (ts_closed s) io of Some er \<Rightarrow> (Some er, s) | None \<Rightarrow>
      if find_batch (tb_batch_id b) (ts_rows s) \<noteq> None then (Some ErrDuplicateBatch, s)
      else (None, s\<lparr>ts_rows := ts_rows s @ [new_row now b]\<rparr>))"

text \<open>An \<open>UPDATE\<close> of the row with a key, which must exist.\<close>

definition update_batch ::
  "db_io \<Rightarrow> string \<Rightarrow> (batch_row \<Rightarrow> batch_row) \<Rightarrow> telemetry_store \<Rightarrow> store_err option \<times> telemetry_store" where
  "update_batch io i f s =
     (case db_guard (ts_closed s) io of Some er \<Rightarrow> (Some er, s) | None \<Rightarrow>
      if find_batch i (ts_rows s) = None then (Some ErrBatchNotFound, s)
      else (None, s\<lparr>ts_rows := update_where (\<lambda>r. br_batch_id r = i) f (ts_rows s)\<rparr>))"

definition mark_batch_synced where
  "mark_batch_synced io i sent =
     update_batch io i (\<lambda>r. r\<lparr>br_sync_status := SyncSynced, br_sent_at := Some sent\<rparr>)"

definition record_sync_attempt where
  "record_sync_attempt io i sent =
     update_batch io i (\<lambda>r. r\<lparr>br_attempt := br_attempt r + 1, br_sent_at := Some sent\<rparr>)"

definition mark_batch_published where
  "mark_batch_published io i t =
     update_batch io i (\<lambda>r. r\<lparr>br_sync_status := SyncPublished, br_published_at := Some t\<rparr>)"

text \<open>
  An \<open>UPDATE\<close> guarded by the status; when no row matches, a second query tells a missing batch from
  one in another status.
\<close>

definition guarded_update ::
  "db_io \<Rightarrow> db_io \<Rightarrow> string \<Rightarrow> sync_status \<Rightarrow> string \<Rightarrow> (batch_row \<Rightarrow> batch_row) \<Rightarrow> telemetry_store \<Rightarrow>
   store_err option \<times> telemetry_store" where
  "guarded_update io1 io2 i status what f s =
     (if i = [] then (Some (ErrBlankArgument ''batch_id''), s)
      else case db_guard (ts_closed s) io1 of Some er \<Rightarrow> (Some er, s) | None \<Rightarrow>
      (case find_batch i (ts_rows s) of
         Some r \<Rightarrow>
           if br_sync_status r = status
           then (None, s\<lparr>ts_rows := update_where (\<lambda>r. br_batch_id r = i) f (ts_rows s)\<rparr>)
           else (Some (case io_err io2 of Some er \<Rightarrow> er
                  | None \<Rightarrow> ErrInvalidBatchTransition what (sync_status_string (br_sync_status r))), s)
       | None \<Rightarrow> (Some (case io_err io2 of Some er \<Rightarrow> er | None \<Rightarrow> ErrBatchNotFound), s)))"

definition mark_batch_quarantined where
  "mark_batch_quarantined io1 io2 i reason failed =
     guarded_update io1 io2 i SyncPending ''quarantine''
       (\<lambda>r. r\<lparr>br_sync_status := SyncFailed, br_error_reason := reason, br_failed_at := Some failed\<rparr>)"

definition requeue_quarantined_batch where
  "requeue_quarantined_batch io1 io2 i =
     guarded_update io1 io2 i SyncFailed ''requeue''
       (\<lambda>r. r\<lparr>br_sync_status := SyncPending, br_attempt := 0, br_error_reason := [], br_failed_at := None\<rparr>)"

section \<open>Reading\<close>

definition get_batch :: "db_io \<Rightarrow> string \<Rightarrow> telemetry_store \<Rightarrow> store_err + batch_row" where
  "get_batch io i s =
     (case db_guard (ts_closed s) io of Some er \<Rightarrow> Inl er | None \<Rightarrow>
        (case find_batch i (ts_rows s) of None \<Rightarrow> Inl ErrBatchNotFound | Some r \<Rightarrow> Inr r))"

definition row_limit :: "int \<Rightarrow> nat" where
  "row_limit n = (if n \<le> 0 then 100 else nat n)"

definition is_pending :: "batch_row \<Rightarrow> bool" where
  "is_pending r \<longleftrightarrow> br_sync_status r = SyncPending"

definition get_pending_batches :: "db_io \<Rightarrow> int \<Rightarrow> telemetry_store \<Rightarrow> store_err + batch_row list" where
  "get_pending_batches io n s =
     (case db_guard (ts_closed s) io of Some er \<Rightarrow> Inl er | None \<Rightarrow>
        Inr (take (row_limit n) (sort_key br_sequence_number (filter is_pending (ts_rows s)))))"

definition get_pending_nodes :: "db_io \<Rightarrow> telemetry_store \<Rightarrow> store_err + string list" where
  "get_pending_nodes io s =
     (case db_guard (ts_closed s) io of Some er \<Rightarrow> Inl er | None \<Rightarrow>
        Inr (sort (remdups (map br_node_id (filter is_pending (ts_rows s))))))"

definition get_pending_batches_by_node ::
  "db_io \<Rightarrow> string \<Rightarrow> int \<Rightarrow> telemetry_store \<Rightarrow> store_err + batch_row list" where
  "get_pending_batches_by_node io node n s =
     (case db_guard (ts_closed s) io of Some er \<Rightarrow> Inl er | None \<Rightarrow>
        Inr (take (row_limit n) (sort_key br_sequence_number
          (filter (\<lambda>r. is_pending r \<and> br_node_id r = node) (ts_rows s)))))"

text \<open>\<open>ORDER BY failed_at, sequence_number, batch_id\<close>; a missing \<open>failed_at\<close> sorts first.\<close>

definition failed_key where
  "failed_key r = (case br_failed_at r of None \<Rightarrow> [] | Some t \<Rightarrow> [format_db_time t])"

definition get_failed_batches :: "db_io \<Rightarrow> int \<Rightarrow> telemetry_store \<Rightarrow> store_err + batch_row list" where
  "get_failed_batches io n s =
     (case db_guard (ts_closed s) io of Some er \<Rightarrow> Inl er | None \<Rightarrow>
        Inr (take (row_limit n) (sort_key failed_key (sort_key br_sequence_number (sort_key br_batch_id
          (filter (\<lambda>r. br_sync_status r = SyncFailed) (ts_rows s)))))))"

definition max_sequence :: "string \<Rightarrow> batch_row list \<Rightarrow> int" where
  "max_sequence node rows = Max (insert (-1) (br_sequence_number ` set (filter (\<lambda>r. br_node_id r = node) rows)))"

definition get_latest_sequence_number :: "db_io \<Rightarrow> string \<Rightarrow> telemetry_store \<Rightarrow> store_err + int" where
  "get_latest_sequence_number io node s =
     (case db_guard (ts_closed s) io of Some er \<Rightarrow> Inl er | None \<Rightarrow> Inr (max_sequence node (ts_rows s)))"

definition count_batches :: "db_io \<Rightarrow> telemetry_store \<Rightarrow> store_err + nat" where
  "count_batches io s =
     (case db_guard (ts_closed s) io of Some er \<Rightarrow> Inl er | None \<Rightarrow> Inr (length (ts_rows s)))"

section \<open>Pruning\<close>

text \<open>
  The batches a pruning may delete: delivered before the cutoff, as texts compare, and not the last
  of their node.
\<close>

definition completed_before :: "gotime \<Rightarrow> gotime option \<Rightarrow> bool" where
  "completed_before cutoff t = (case t of None \<Rightarrow> False | Some t \<Rightarrow> format_db_time t < format_db_time cutoff)"

definition prunable :: "gotime \<Rightarrow> batch_row list \<Rightarrow> batch_row \<Rightarrow> bool" where
  "prunable cutoff rows r \<longleftrightarrow>
     (br_sync_status r = SyncSynced \<and> completed_before cutoff (br_sent_at r) \<or>
      br_sync_status r = SyncPublished \<and> completed_before cutoff (br_published_at r)) \<and>
     list_ex (\<lambda>m. br_node_id m = br_node_id r \<and> br_sequence_number r < br_sequence_number m) rows"

definition prune_completed_batches ::
  "db_io \<Rightarrow> gotime \<Rightarrow> int \<Rightarrow> telemetry_store \<Rightarrow> (store_err + nat) \<times> telemetry_store" where
  "prune_completed_batches io cutoff n s =
     (case db_guard (ts_closed s) io of Some er \<Rightarrow> (Inl er, s) | None \<Rightarrow>
        let gone = map br_batch_id (take (row_limit n)
              (sort_key br_sequence_number (filter (prunable cutoff (ts_rows s)) (ts_rows s))));
            rest = filter (\<lambda>r. br_batch_id r \<notin> set gone) (ts_rows s)
        in (Inr (length (ts_rows s) - length rest), s\<lparr>ts_rows := rest\<rparr>))"

definition close_store :: "telemetry_store \<Rightarrow> telemetry_store" where
  "close_store s = s\<lparr>ts_closed := True\<rparr>"

end
