(* ===== verification/Sync_Transport.thy ===== *)
theory Sync_Transport
  imports Domain_Types
begin

text \<open>
  The two transports of the synchronisation (\<open>edge/agent/sync/client.go\<close> and
  \<open>nats_publisher.go\<close>) and the event envelope (\<open>shared/types/envelope.go\<close>).

  The network is the environment of a call: what every HTTP attempt is answered, what the broker
  answers, when the context ends, and what \<open>encoding/json\<close> makes of a value.  Request headers do not
  influence what the model returns; back-off changes no value but the time the context has to end.
\<close>

section \<open>Errors\<close>

text \<open>The sentinel an error wraps, and its text.\<close>

datatype sync_kind =
    KServerUnavailable | KClientValidation | KUnexpectedStatus | KInvalidNodeID | KMessageTooLarge
  | KNotConnected | KPublishNack | KCtx ctx_err | KOther

record sync_err =
  se_kind :: sync_kind
  se_text :: msg

abbreviation sync_error :: "sync_kind \<Rightarrow> msg \<Rightarrow> sync_err" where
  "sync_error k m \<equiv> \<lparr>se_kind = k, se_text = m\<rparr>"

definition is_permanent_sync_error :: "sync_err option \<Rightarrow> bool" where
  "is_permanent_sync_error e =
     (case e of None \<Rightarrow> False
      | Some er \<Rightarrow> se_kind er = KClientValidation \<or> se_kind er = KInvalidNodeID \<or> se_kind er = KMessageTooLarge)"

section \<open>The envelope\<close>

record telemetry_event =
  te_event_id :: string
  te_event_type :: string
  te_schema_version :: string
  te_source_node_id :: string
  te_sequence_number :: int
  te_occurred_at :: gotime
  te_published_at :: gotime
  te_correlation_id :: string
  te_payload :: "telemetry_batch option"

datatype envelope_err =
    ErrEmptyEventID | ErrEmptyEventType | ErrEmptySchemaVer | ErrEmptySourceNodeID
  | ErrZeroOccurredAt | ErrZeroPublishedAt | ErrNilPayload | EnvelopePayload type_err

definition telemetry_event_validate :: "telemetry_event \<Rightarrow> envelope_err option" where
  "telemetry_event_validate e =
     (if blank (te_event_id e) then Some ErrEmptyEventID
      else if blank (te_event_type e) then Some ErrEmptyEventType
      else if blank (te_schema_version e) then Some ErrEmptySchemaVer
      else if blank (te_source_node_id e) then Some ErrEmptySourceNodeID
      else if is_zero (te_occurred_at e) then Some ErrZeroOccurredAt
      else if is_zero (te_published_at e) then Some ErrZeroPublishedAt
      else case te_payload e of None \<Rightarrow> Some ErrNilPayload
           | Some b \<Rightarrow> map_option EnvelopePayload (telemetry_batch_validate b))"

definition new_telemetry_event :: "telemetry_batch \<Rightarrow> gotime \<Rightarrow> telemetry_event" where
  "new_telemetry_event b published =
     \<lparr>te_event_id = tb_batch_id b, te_event_type = ''aegisedge.telemetry.batch'', te_schema_version = ''1.0.0'',
      te_source_node_id = tb_node_id b, te_sequence_number = tb_sequence_number b,
      te_occurred_at = tb_collected_at b, te_published_at = published, te_correlation_id = tb_batch_id b,
      te_payload = Some b\<rparr>"

section \<open>NATS\<close>

definition subject_prohibited :: "char \<Rightarrow> bool" where
  "subject_prohibited c \<longleftrightarrow> c \<in> set '' .>*''"

definition build_subject :: "string \<Rightarrow> sync_err + string" where
  "build_subject node =
     (let n = trim_space node in
      if n = [] then Inl (sync_error KInvalidNodeID (Fmt ''%w: empty node_id'' []))
      else if list_ex subject_prohibited n
      then Inl (sync_error KInvalidNodeID (Fmt ''%w: %q contains prohibited characters'' [AStr n]))
      else Inr (''aegisedge.v1.telemetry.'' @ n))"

record nats_config =
  nc_max_payload :: int

definition nats_max_payload :: int where
  "nats_max_payload = 2 ^ 20"

definition validate_payload_size :: "nats_config \<Rightarrow> string \<Rightarrow> sync_err option" where
  "validate_payload_size cfg data =
     (let max_size = (if nc_max_payload cfg \<le> 0 then nats_max_payload else nc_max_payload cfg) in
      if max_size < int (length data)
      then Some (sync_error KMessageTooLarge (Fmt ''%w: payload size %d exceeds limit %d'' [AInt (int (length data)), AInt max_size]))
      else None)"

text \<open>The broker's answer; an error tells whether it is \<open>nats.ErrMaxPayload\<close>, and its text.\<close>

datatype pub_reply = PubAck | PubNil | PubError bool string

record nats_env =
  ne_connected :: bool
  ne_now :: gotime
  ne_encode :: "telemetry_event \<Rightarrow> string + string"
  ne_reply :: "string \<Rightarrow> string \<Rightarrow> pub_reply"

text \<open>The reply depends on the subject and on the data that is published.\<close>

definition publish_batch :: "nats_config \<Rightarrow> nats_env \<Rightarrow> telemetry_batch \<Rightarrow> sync_err option" where
  "publish_batch cfg env b =
     (if \<not> ne_connected env then Some (sync_error KNotConnected (Fmt ''%v'' []))
      else case build_subject (tb_node_id b) of Inl er \<Rightarrow> Some er | Inr subject \<Rightarrow>
      case ne_encode env (new_telemetry_event b (ne_now env)) of
        Inl er \<Rightarrow> Some (sync_error KOther (Fmt ''failed to marshal telemetry event: %w'' [AStr er]))
      | Inr data \<Rightarrow>
        (case validate_payload_size cfg data of Some er \<Rightarrow> Some er | None \<Rightarrow>
          (case ne_reply env subject data of
             PubError too_large t \<Rightarrow>
               (if too_large \<or> contains t ''message size exceeds maximum allowed''
                then Some (sync_error KMessageTooLarge (Fmt ''%w: %v'' [AStr t]))
                else Some (sync_error KOther (Fmt ''JetStream publish failed: %w'' [AStr t])))
           | PubNil \<Rightarrow> Some (sync_error KPublishNack (Fmt ''%v'' []))
           | PubAck \<Rightarrow> None)))"

section \<open>HTTP\<close>

record http_client =
  hc_endpoint :: string
  hc_max_retries :: int

definition new_http_client :: "string \<Rightarrow> http_client" where
  "new_http_client url = \<lparr>hc_endpoint = url, hc_max_retries = 3\<rparr>"

text \<open>
  The answer to an attempt: no answer, with the error's text, or a status and a body.  The context
  may have ended before an attempt, or end while the client backs off after one.
\<close>

datatype http_reply = NoReply string | HttpReply int string

record http_env =
  he_encode :: "telemetry_batch \<Rightarrow> string + string"
  he_ctx :: "nat \<Rightarrow> ctx_err option"
  he_request_error :: "string option"
  he_reply :: "nat \<Rightarrow> http_reply"
  he_backoff_ctx :: "nat \<Rightarrow> ctx_err option"

record sync_result =
  sr_batch_id :: string
  sr_node_id :: string
  sr_status :: string
  sr_http_attempts :: nat

text \<open>What an answer means: the end of the call, or an error to retry after.\<close>

definition classify_reply :: "telemetry_batch \<Rightarrow> nat \<Rightarrow> http_reply \<Rightarrow> (sync_err + sync_result) + sync_err" where
  "classify_reply b attempt r =
     (case r of
        NoReply t \<Rightarrow> Inr (sync_error KServerUnavailable (Fmt ''%w: %v'' [AStr t]))
      | HttpReply status body \<Rightarrow>
          if status = 201 then Inl (Inr \<lparr>sr_batch_id = tb_batch_id b, sr_node_id = tb_node_id b, sr_status = ''accepted'', sr_http_attempts = attempt\<rparr>)
          else if status = 200 then Inl (Inr \<lparr>sr_batch_id = tb_batch_id b, sr_node_id = tb_node_id b, sr_status = ''already_accepted'', sr_http_attempts = attempt\<rparr>)
          else if status = 400 \<or> status = 413 \<or> status = 405
          then Inl (Inl (sync_error KClientValidation (Fmt ''%w: status %d: %s'' [AInt status, AStr body])))
          else Inr (sync_error KUnexpectedStatus (Fmt ''%w: status %d: %s'' [AInt status, AStr body])))"

definition ctx_error :: "ctx_err \<Rightarrow> sync_err" where
  "ctx_error e = sync_error (KCtx e) (Fmt ''%v'' [])"

text \<open>The retry loop, from an attempt on; \<open>left\<close> attempts remain, and \<open>last_err\<close> is the latest failure.\<close>

fun http_attempts ::
  "http_env \<Rightarrow> telemetry_batch \<Rightarrow> nat \<Rightarrow> nat \<Rightarrow> sync_err option \<Rightarrow> sync_err + sync_result" where
  "http_attempts env b 0 attempt last_err =
     Inl (case last_err of
        Some er \<Rightarrow> sync_error (se_kind er) (Fmt ''sync failed after %d http attempts: %w'' [AInt (int attempt - 1), AMsgs [se_text er]])
      | None \<Rightarrow> sync_error KOther (Fmt ''sync failed after %d http attempts: %w'' [AInt (int attempt - 1)]))"
| "http_attempts env b (Suc left) attempt last_err =
     (case he_ctx env attempt of Some c \<Rightarrow> Inl (ctx_error c) | None \<Rightarrow>
      case he_request_error env of
        Some t \<Rightarrow> Inl (sync_error KOther (Fmt ''failed to create http request: %w'' [AStr t]))
      | None \<Rightarrow>
        (case classify_reply b attempt (he_reply env attempt) of
           Inl res \<Rightarrow> res
         | Inr er \<Rightarrow>
             (case (if left = 0 then None else he_backoff_ctx env attempt) of
                Some c \<Rightarrow> Inl (ctx_error c)
              | None \<Rightarrow> http_attempts env b left (Suc attempt) (Some er))))"

definition sync_batch :: "http_client \<Rightarrow> http_env \<Rightarrow> telemetry_batch option \<Rightarrow> sync_err + sync_result" where
  "sync_batch c env bo =
     (case bo of None \<Rightarrow> Inl (sync_error KOther (Lit ''cannot sync nil batch'')) | Some b \<Rightarrow>
        (case he_encode env b of
           Inl t \<Rightarrow> Inl (sync_error KOther (Fmt ''failed to marshal batch payload: %w'' [AStr t]))
         | Inr _ \<Rightarrow> http_attempts env b (nat (hc_max_retries c)) 1 None))"

section \<open>What a transport reports\<close>

text \<open>A call succeeds only on a 2xx answer, and gives up on the first rejection.\<close>

lemma http_attempts_Inr: "http_attempts env b left attempt le = Inr r \<Longrightarrow>
    \<exists>k. attempt \<le> k \<and> k < attempt + left \<and> (\<exists>body. he_reply env k = HttpReply 201 body \<or> he_reply env k = HttpReply 200 body)
      \<and> sr_http_attempts r = k \<and> sr_batch_id r = tb_batch_id b"
proof (induction env b left attempt le rule: http_attempts.induct)
  case (2 env b left attempt le)
  show ?case
  proof (cases "classify_reply b attempt (he_reply env attempt)")
    case (Inl res)
    with 2(2) have "res = Inr r" by (auto split: option.splits)
    with Inl show ?thesis
      by (intro exI [of _ attempt]) (auto simp: classify_reply_def split: http_reply.splits if_splits)
  next
    case (Inr er)
    with 2(2) have "http_attempts env b left (Suc attempt) (Some er) = Inr r"
      by (auto split: option.splits if_splits)
    with 2(1) [OF _ _ Inr] 2(2) obtain k where "Suc attempt \<le> k \<and> k < Suc attempt + left \<and>
        (\<exists>body. he_reply env k = HttpReply 201 body \<or> he_reply env k = HttpReply 200 body) \<and>
        sr_http_attempts r = k \<and> sr_batch_id r = tb_batch_id b"
      using Inr by (auto split: option.splits if_splits)
    then show ?thesis by (intro exI [of _ k]) auto
  qed
qed simp

lemma http_attempts_permanent: "http_attempts env b left attempt le = Inl er \<Longrightarrow> is_permanent_sync_error (Some er) \<Longrightarrow>
    \<not> is_permanent_sync_error le \<Longrightarrow>
    \<exists>k status body. attempt \<le> k \<and> k < attempt + left \<and> he_reply env k = HttpReply status body \<and> status \<in> {400, 405, 413}"
proof (induction env b left attempt le rule: http_attempts.induct)
  case (1 env b attempt le)
  then show ?case by (cases le) (auto simp: is_permanent_sync_error_def)
next
  case (2 env b left attempt le)
  show ?case
  proof (cases "classify_reply b attempt (he_reply env attempt)")
    case (Inl res)
    with 2(2,3) have "res = Inl er" by (auto simp: ctx_error_def is_permanent_sync_error_def split: option.splits)
    with Inl show ?thesis
      by (intro exI [of _ attempt]) (auto simp: classify_reply_def split: http_reply.splits if_splits)
  next
    case (Inr e1)
    then have np: "\<not> is_permanent_sync_error (Some e1)"
      by (auto simp: classify_reply_def is_permanent_sync_error_def split: http_reply.splits if_splits)
    from Inr 2(2,3) have "http_attempts env b left (Suc attempt) (Some e1) = Inl er"
      by (auto simp: ctx_error_def is_permanent_sync_error_def split: option.splits if_splits)
    with 2(1) [OF _ _ Inr] 2(2,3) np Inr obtain k status body where "Suc attempt \<le> k \<and> k < Suc attempt + left \<and>
        he_reply env k = HttpReply status body \<and> status \<in> {400, 405, 413}"
      by (auto simp: ctx_error_def is_permanent_sync_error_def split: option.splits if_splits)
    then show ?thesis by (intro exI [of _ k]) auto
  qed
qed

lemma publish_batch_None: "publish_batch cfg env b = None \<Longrightarrow>
    \<exists>subject data. build_subject (tb_node_id b) = Inr subject \<and>
      ne_encode env (new_telemetry_event b (ne_now env)) = Inr data \<and> ne_reply env subject data = PubAck"
  by (auto simp: publish_batch_def split: if_splits sum.splits option.splits pub_reply.splits)

end
