(* ===== verification/Syncer.thy ===== *)
theory Syncer
  imports Telemetry_Store Audit_Store Sync_Transport Go_Strings
begin

text \<open>
  \<open>edge/agent/sync/syncer.go\<close>: the coordinator that delivers the telemetry outbox through one of
  the transports, retries, and quarantines the batches that cannot be delivered.

  A cycle is run in an environment that says, per batch, what the transport answers, when the
  context has ended, and how the database answers.  A batch is sent at most once in a cycle, so its
  identifier names the calls made for it.  \<open>sy_sent\<close> records what was handed to the transport and
  what it answered; no code reads it.  \<open>render\<close> is the text of a message as \<open>fmt\<close> prints it.
\<close>

section \<open>State and environment\<close>

datatype transport = ViaNats | ViaHttp | NoTransport

record sync_config =
  sc_transport :: transport
  sc_max_attempts :: int

definition new_syncer :: "transport \<Rightarrow> int \<Rightarrow> sync_config" where
  "new_syncer t max_attempts =
     \<lparr>sc_transport = t, sc_max_attempts = (if 0 < max_attempts then max_attempts else 10)\<rparr>"

record sync_state =
  sy_store :: telemetry_store
  sy_audit :: "audit_store option"
  sy_sent :: "(telemetry_batch \<times> sync_err option) list"

record sync_env =
  en_nodes_io :: db_io
  en_list_io :: "string \<Rightarrow> db_io"
  en_node_ctx :: "string \<Rightarrow> ctx_err option"
  en_batch_ctx :: "string \<Rightarrow> ctx_err option"
  en_after_ctx :: "string \<Rightarrow> ctx_err option"
  en_now :: "string \<Rightarrow> gotime"
  en_send :: "telemetry_batch \<Rightarrow> sync_err option"
  en_mark_io :: "string \<Rightarrow> db_io"
  en_check_io :: "string \<Rightarrow> db_io"
  en_audit_io :: "string \<Rightarrow> db_io"

datatype sync_failure = FailStore store_err | FailQuarantine store_err | FailSend sync_err

record sync_stats =
  ss_synced :: nat
  ss_failed :: nat
  ss_quarantined :: nat
  ss_node_successes :: "string \<rightharpoonup> nat"
  ss_node_failures :: "string \<rightharpoonup> sync_failure"
  ss_node_quarantines :: "string \<rightharpoonup> nat"

definition new_stats :: sync_stats where
  "new_stats = \<lparr>ss_synced = 0, ss_failed = 0, ss_quarantined = 0, ss_node_successes = (\<lambda>_. None),
     ss_node_failures = (\<lambda>_. None), ss_node_quarantines = (\<lambda>_. None)\<rparr>"

definition bump :: "string \<Rightarrow> (string \<rightharpoonup> nat) \<Rightarrow> (string \<rightharpoonup> nat)" where
  "bump node m = m(node \<mapsto> (case m node of None \<Rightarrow> 1 | Some n \<Rightarrow> Suc n))"

section \<open>Quarantine\<close>

definition quarantine_reason :: "(msg \<Rightarrow> string) \<Rightarrow> sync_config \<Rightarrow> sync_err \<Rightarrow> string" where
  "quarantine_reason render cfg er =
     (if is_permanent_sync_error (Some er) then ''permanent sync failure: '' @ render (se_text er)
      else ''sync retry threshold ('' @ itoa (sc_max_attempts cfg) @ '' logical cycles) exhausted: '' @ render (se_text er))"

definition blank_event :: stored_audit_event where
  "blank_event = \<lparr>ae_event_id = [], ae_event_type = [], ae_timestamp = 0, ae_node_id = [], ae_incident_id = [],
     ae_decision_id = [], ae_action_id = [], ae_approval_id = [], ae_mitigation_record_id = [],
     ae_verification_id = [], ae_escalation_id = [], ae_correlation_id = [], ae_policy_version = [],
     ae_actor = [], ae_result = [], ae_reason = [], ae_metadata = []\<rparr>"

definition quarantine_event :: "string \<Rightarrow> bool \<Rightarrow> gotime \<Rightarrow> batch_row \<Rightarrow> stored_audit_event" where
  "quarantine_event reason permanent sent r =
     blank_event\<lparr>ae_event_id := ''audit-quarantine-'' @ br_batch_id r @ ''-'' @ itoa (unix_nano sent),
       ae_event_type := ''TELEMETRY_BATCH_QUARANTINED'', ae_timestamp := sent, ae_node_id := br_node_id r,
       ae_incident_id := ''quarantine-'' @ br_batch_id r, ae_correlation_id := br_batch_id r, ae_actor := ''syncer'',
       ae_result := ''quarantined'', ae_reason := truncate_reason reason (int max_audit_reason),
       ae_metadata := [(''batch_id'', br_batch_id r), (''sequence_number'', itoa (br_sequence_number r)),
         (''attempts'', itoa (br_attempt r + 1)), (''permanent'', if permanent then ''true'' else ''false'')]\<rparr>"

text \<open>An audit event whose recording fails is dropped.\<close>

definition note_audit :: "db_io \<Rightarrow> stored_audit_event \<Rightarrow> sync_state \<Rightarrow> sync_state" where
  "note_audit io e s =
     s\<lparr>sy_audit := map_option (\<lambda>a. snd (record_audit_event io (Some e) a)) (sy_audit s)\<rparr>"

section \<open>One batch\<close>

text \<open>What the loop over a node's batches does next.\<close>

datatype verdict = GoOn | NextNode | Abort ctx_err

definition sent_payload :: "sync_config \<Rightarrow> gotime \<Rightarrow> batch_row \<Rightarrow> telemetry_batch" where
  "sent_payload cfg now r =
     (if sc_transport cfg = ViaHttp then (br_payload r)\<lparr>tb_sent_at := Some now\<rparr> else br_payload r)"

definition mark_delivered ::
  "sync_config \<Rightarrow> sync_env \<Rightarrow> batch_row \<Rightarrow> telemetry_store \<Rightarrow> store_err option \<times> telemetry_store" where
  "mark_delivered cfg env r =
     (let i = br_batch_id r in
      if sc_transport cfg = ViaNats then mark_batch_published (en_mark_io env i) i (en_now env i)
      else mark_batch_synced (en_mark_io env i) i (en_now env i))"

definition delivered ::
  "sync_config \<Rightarrow> sync_env \<Rightarrow> string \<Rightarrow> batch_row \<Rightarrow> sync_stats \<times> sync_state \<Rightarrow> verdict \<times> sync_stats \<times> sync_state" where
  "delivered cfg env node r = (\<lambda>(st, s).
     case mark_delivered cfg env r (sy_store s) of
       (Some er, t) \<Rightarrow> (NextNode, st\<lparr>ss_node_failures := (ss_node_failures st)(node \<mapsto> FailStore er)\<rparr>, s\<lparr>sy_store := t\<rparr>)
     | (None, t) \<Rightarrow> (GoOn, st\<lparr>ss_synced := Suc (ss_synced st),
          ss_node_successes := bump node (ss_node_successes st)\<rparr>, s\<lparr>sy_store := t\<rparr>))"

definition exhausted :: "sync_config \<Rightarrow> batch_row \<Rightarrow> bool" where
  "exhausted cfg r \<longleftrightarrow> sc_max_attempts cfg \<le> br_attempt r + 1"

definition refused ::
  "(msg \<Rightarrow> string) \<Rightarrow> sync_config \<Rightarrow> sync_env \<Rightarrow> string \<Rightarrow> batch_row \<Rightarrow> sync_err \<Rightarrow> sync_stats \<times> sync_state \<Rightarrow>
   verdict \<times> sync_stats \<times> sync_state" where
  "refused render cfg env node r er = (\<lambda>(st, s).
     let i = br_batch_id r; now = en_now env i; permanent = is_permanent_sync_error (Some er) in
     case en_after_ctx env i of Some c \<Rightarrow> (Abort c, st, s) | None \<Rightarrow>
     if permanent \<or> exhausted cfg r
     then let reason = quarantine_reason render cfg er in
       (case mark_batch_quarantined (en_mark_io env i) (en_check_io env i) i reason now (sy_store s) of
          (Some qe, t) \<Rightarrow> (NextNode, st\<lparr>ss_failed := Suc (ss_failed st),
             ss_node_failures := (ss_node_failures st)(node \<mapsto> FailQuarantine qe)\<rparr>, s\<lparr>sy_store := t\<rparr>)
        | (None, t) \<Rightarrow> (GoOn, st\<lparr>ss_quarantined := Suc (ss_quarantined st),
             ss_node_quarantines := bump node (ss_node_quarantines st)\<rparr>,
             note_audit (en_audit_io env i) (quarantine_event reason permanent now r) (s\<lparr>sy_store := t\<rparr>)))
     else (NextNode, st\<lparr>ss_failed := Suc (ss_failed st), ss_node_failures := (ss_node_failures st)(node \<mapsto> FailSend er)\<rparr>,
       s\<lparr>sy_store := snd (record_sync_attempt (en_mark_io env i) i now (sy_store s))\<rparr>))"

definition sync_record ::
  "(msg \<Rightarrow> string) \<Rightarrow> sync_config \<Rightarrow> sync_env \<Rightarrow> string \<Rightarrow> batch_row \<Rightarrow> sync_stats \<times> sync_state \<Rightarrow>
   verdict \<times> sync_stats \<times> sync_state" where
  "sync_record render cfg env node r = (\<lambda>(st, s).
     let i = br_batch_id r in
     case en_batch_ctx env i of Some c \<Rightarrow> (Abort c, st, s) | None \<Rightarrow>
     if sc_transport cfg = NoTransport then (NextNode, st, s)
     else let b = sent_payload cfg (en_now env i) r; answer = en_send env b;
              s1 = s\<lparr>sy_sent := sy_sent s @ [(b, answer)]\<rparr>
     in case answer of None \<Rightarrow> delivered cfg env node r (st, s1)
        | Some er \<Rightarrow> refused render cfg env node r er (st, s1))"

section \<open>A cycle\<close>

fun sync_records ::
  "(msg \<Rightarrow> string) \<Rightarrow> sync_config \<Rightarrow> sync_env \<Rightarrow> string \<Rightarrow> batch_row list \<Rightarrow> sync_stats \<times> sync_state \<Rightarrow>
   ctx_err option \<times> sync_stats \<times> sync_state" where
  "sync_records render cfg env node [] x = (None, x)"
| "sync_records render cfg env node (r # rs) x =
     (case sync_record render cfg env node r x of
        (GoOn, x') \<Rightarrow> sync_records render cfg env node rs x'
      | (NextNode, x') \<Rightarrow> (None, x')
      | (Abort c, x') \<Rightarrow> (Some c, x'))"

definition sync_node ::
  "(msg \<Rightarrow> string) \<Rightarrow> sync_config \<Rightarrow> sync_env \<Rightarrow> int \<Rightarrow> string \<Rightarrow> sync_stats \<times> sync_state \<Rightarrow>
   ctx_err option \<times> sync_stats \<times> sync_state" where
  "sync_node render cfg env limit node = (\<lambda>(st, s).
     case en_node_ctx env node of Some c \<Rightarrow> (Some c, st, s) | None \<Rightarrow>
     (case get_pending_batches_by_node (en_list_io env node) node limit (sy_store s) of
        Inl er \<Rightarrow> (None, st\<lparr>ss_node_failures := (ss_node_failures st)(node \<mapsto> FailStore er)\<rparr>, s)
      | Inr rs \<Rightarrow> sync_records render cfg env node rs (st, s)))"

fun sync_nodes ::
  "(msg \<Rightarrow> string) \<Rightarrow> sync_config \<Rightarrow> sync_env \<Rightarrow> int \<Rightarrow> string list \<Rightarrow> sync_stats \<times> sync_state \<Rightarrow>
   ctx_err option \<times> sync_stats \<times> sync_state" where
  "sync_nodes render cfg env limit [] x = (None, x)"
| "sync_nodes render cfg env limit (n # ns) x =
     (case sync_node render cfg env limit n x of
        (Some c, x') \<Rightarrow> (Some c, x')
      | (None, x') \<Rightarrow> sync_nodes render cfg env limit ns x')"

definition sync_pending_batches ::
  "(msg \<Rightarrow> string) \<Rightarrow> sync_config \<Rightarrow> sync_env \<Rightarrow> int \<Rightarrow> sync_state \<Rightarrow>
   (store_err + sync_stats \<times> ctx_err option) \<times> sync_state" where
  "sync_pending_batches render cfg env limit s =
     (case get_pending_nodes (en_nodes_io env) (sy_store s) of Inl er \<Rightarrow> (Inl er, s) | Inr nodes \<Rightarrow>
        (case sync_nodes render cfg env (if limit \<le> 0 then 50 else limit) nodes (new_stats, s) of
           (c, st, s') \<Rightarrow> (Inr (st, c), s')))"

section \<open>Requeueing\<close>

definition requeue_event :: "gotime \<Rightarrow> string \<Rightarrow> batch_row option \<Rightarrow> stored_audit_event" where
  "requeue_event now i r =
     blank_event\<lparr>ae_event_id := ''audit-requeue-'' @ i @ ''-'' @ itoa (unix_nano now),
       ae_event_type := ''TELEMETRY_BATCH_REQUEUED'', ae_timestamp := now,
       ae_node_id := (case r of None \<Rightarrow> ''unknown'' | Some r \<Rightarrow> br_node_id r),
       ae_incident_id := ''requeue-'' @ i, ae_correlation_id := i, ae_actor := ''operator'', ae_result := ''requeued'',
       ae_reason := truncate_reason ''operator requested manual requeue of quarantined telemetry batch'' (int max_audit_reason),
       ae_metadata := [(''batch_id'', i),
         (''sequence_number'', itoa (case r of None \<Rightarrow> -1 | Some r \<Rightarrow> br_sequence_number r))]\<rparr>"

definition requeue_batch ::
  "db_io \<Rightarrow> db_io \<Rightarrow> db_io \<Rightarrow> db_io \<Rightarrow> gotime \<Rightarrow> string \<Rightarrow> sync_state \<Rightarrow> store_err option \<times> sync_state" where
  "requeue_batch io1 io2 io3 io4 now i s =
     (case requeue_quarantined_batch io1 io2 i (sy_store s) of
        (Some er, t) \<Rightarrow> (Some er, s\<lparr>sy_store := t\<rparr>)
      | (None, t) \<Rightarrow>
          (None, note_audit io4 (requeue_event now i (case get_batch io3 i t of Inl _ \<Rightarrow> None | Inr r \<Rightarrow> Some r))
             (s\<lparr>sy_store := t\<rparr>)))"

section \<open>Calls\<close>

text \<open>The calls that touch the outbox: the collector's, the coordinator's, the operator's and the retention's.\<close>

datatype tel_op =
    TPersist db_io gotime telemetry_batch
  | TSync sync_config sync_env int
  | TRequeue db_io db_io db_io db_io gotime string
  | TPrune db_io gotime int

fun tel_step :: "(msg \<Rightarrow> string) \<Rightarrow> tel_op \<Rightarrow> sync_state \<Rightarrow> sync_state" where
  "tel_step render (TPersist io now b) s = s\<lparr>sy_store := snd (persist_batch io now (Some b) (sy_store s))\<rparr>"
| "tel_step render (TSync cfg env limit) s = snd (sync_pending_batches render cfg env limit s)"
| "tel_step render (TRequeue io1 io2 io3 io4 now i) s = snd (requeue_batch io1 io2 io3 io4 now i s)"
| "tel_step render (TPrune io cutoff n) s = s\<lparr>sy_store := snd (prune_completed_batches io cutoff n (sy_store s))\<rparr>"

definition tel_run :: "(msg \<Rightarrow> string) \<Rightarrow> tel_op list \<Rightarrow> sync_state \<Rightarrow> sync_state" where
  "tel_run render ops s = fold (tel_step render) ops s"

end
