(* ===== verification/Telemetry_Safety.thy ===== *)
theory Telemetry_Safety
  imports Syncer
begin

text \<open>
  What the outbox promises: a batch that was persisted stays in it until a transport has
  acknowledged it, and the sequence numbers of a node are never used again.
\<close>

section \<open>Acknowledged batches\<close>

text \<open>The HTTP transport stamps \<open>sent_at\<close> on the batch it sends; otherwise a batch is sent as it was persisted.\<close>

definition same_batch :: "telemetry_batch \<Rightarrow> telemetry_batch \<Rightarrow> bool" where
  "same_batch a b \<longleftrightarrow> a\<lparr>tb_sent_at := None\<rparr> = b\<lparr>tb_sent_at := None\<rparr>"

definition acked :: "(telemetry_batch \<times> sync_err option) list \<Rightarrow> telemetry_batch \<Rightarrow> bool" where
  "acked lg b \<longleftrightarrow> (\<exists>b'. (b', None) \<in> set lg \<and> same_batch b' b)"

lemma same_batch_refl [simp]: "same_batch b b"
  by (simp add: same_batch_def)

lemma acked_append [simp]: "acked (lg @ new) b \<longleftrightarrow> acked lg b \<or> acked new b"
  by (auto simp: acked_def)

lemma acked_sent: "acked [(sent_payload cfg now r, None)] (br_payload r)"
  by (simp add: acked_def same_batch_def sent_payload_def)

section \<open>The invariant\<close>

definition row_ok :: "(telemetry_batch \<times> sync_err option) list \<Rightarrow> batch_row \<Rightarrow> bool" where
  "row_ok lg r \<longleftrightarrow> br_batch_id r \<noteq> [] \<and> br_batch_id r = tb_batch_id (br_payload r) \<and> br_node_id r = tb_node_id (br_payload r) \<and>
     br_sequence_number r = tb_sequence_number (br_payload r) \<and>
     (br_sync_status r = SyncPending \<or> br_sync_status r = SyncFailed \<or>
      ((br_sync_status r = SyncSynced \<or> br_sync_status r = SyncPublished) \<and> acked lg (br_payload r)))"

text \<open>\<open>P\<close> is the set of the batches that have been persisted.\<close>

definition outbox_inv :: "telemetry_batch set \<Rightarrow> sync_state \<Rightarrow> bool" where
  "outbox_inv P s \<longleftrightarrow> distinct (map br_batch_id (ts_rows (sy_store s))) \<and>
     (\<forall>r \<in> set (ts_rows (sy_store s)). row_ok (sy_sent s) r) \<and>
     (\<forall>b \<in> P. (\<exists>r \<in> set (ts_rows (sy_store s)). br_payload r = b) \<or> acked (sy_sent s) b) \<and>
     (\<forall>b \<in> P. tb_sequence_number b \<le> max_sequence (tb_node_id b) (ts_rows (sy_store s)))"

lemma find_batch_iff:
  "distinct (map br_batch_id rows) \<Longrightarrow> find_batch i rows = Some r \<longleftrightarrow> r \<in> set rows \<and> br_batch_id r = i"
  by (induction rows) (auto simp: find_batch_def)

lemma find_batch_None: "find_batch i rows = None \<longleftrightarrow> i \<notin> br_batch_id ` set rows"
  by (auto simp: find_batch_def find_None_iff)

lemma max_sequence_ge: "r \<in> set rows \<Longrightarrow> br_sequence_number r \<le> max_sequence (br_node_id r) rows"
  unfolding max_sequence_def by (intro Max_ge) auto

lemma max_sequence_mono:
  assumes "\<And>r. r \<in> set rows \<Longrightarrow> \<exists>r' \<in> set rows'. br_node_id r' = br_node_id r \<and> br_sequence_number r \<le> br_sequence_number r'"
  shows "max_sequence n rows \<le> max_sequence n rows'"
proof -
  let ?S = "\<lambda>rows. insert (-1) (br_sequence_number ` set (filter (\<lambda>r. br_node_id r = n) rows))"
  have "Max (?S rows) \<in> ?S rows" by (intro Max_in) auto
  then consider "Max (?S rows) = -1" | r where "r \<in> set rows" "br_node_id r = n" "Max (?S rows) = br_sequence_number r"
    by auto
  then show ?thesis
  proof cases
    case 1
    then show ?thesis unfolding max_sequence_def by (simp only:) (rule Max_ge; simp)
  next
    case (2 r)
    with assms obtain r' where "r' \<in> set rows'" "br_node_id r' = n" "br_sequence_number r \<le> br_sequence_number r'" by metis
    moreover from this have "br_sequence_number r' \<le> max_sequence n rows'" using max_sequence_ge by blast
    moreover have "max_sequence n rows = br_sequence_number r" using 2(3) by (simp only: max_sequence_def)
    ultimately show ?thesis by simp
  qed
qed

lemma max_sequence_update:
  assumes "\<And>r. br_node_id (f r) = br_node_id r \<and> br_sequence_number (f r) = br_sequence_number r"
  shows "max_sequence n (update_where p f rows) = max_sequence n rows"
proof (rule antisym; rule max_sequence_mono)
  fix r assume "r \<in> set rows"
  then show "\<exists>r' \<in> set (update_where p f rows). br_node_id r' = br_node_id r \<and> br_sequence_number r \<le> br_sequence_number r'"
    using assms by (intro bexI [of _ "if p r then f r else r"]) (auto simp: update_where_def)
qed (use assms in \<open>auto simp: update_where_def split: if_splits\<close>)

lemma row_ok_append: "row_ok lg r \<Longrightarrow> row_ok (lg @ new) r"
  by (auto simp: row_ok_def)

lemma outbox_inv_log: "outbox_inv P s \<Longrightarrow> outbox_inv P (s\<lparr>sy_sent := sy_sent s @ new\<rparr>)"
  by (auto simp: outbox_inv_def row_ok_append)

lemma outbox_inv_audit [simp]: "outbox_inv P (s\<lparr>sy_audit := a\<rparr>) = outbox_inv P s"
  by (simp add: outbox_inv_def)

lemma note_audit_sel [simp]: "sy_store (note_audit io e s) = sy_store s" "sy_sent (note_audit io e s) = sy_sent s"
    "outbox_inv P (note_audit io e s) = outbox_inv P s"
  by (simp_all add: note_audit_def)

section \<open>Updates of a row\<close>

text \<open>What no update of a row changes.\<close>

definition keeps_batch :: "(batch_row \<Rightarrow> batch_row) \<Rightarrow> bool" where
  "keeps_batch f \<longleftrightarrow> (\<forall>r. br_batch_id (f r) = br_batch_id r \<and> br_node_id (f r) = br_node_id r \<and>
     br_sequence_number (f r) = br_sequence_number r \<and> br_payload (f r) = br_payload r)"

lemma outbox_inv_update:
  assumes "outbox_inv P s" "keeps_batch f"
    "\<And>r. r \<in> set (ts_rows (sy_store s)) \<Longrightarrow> br_batch_id r = i \<Longrightarrow> row_ok (sy_sent s) (f r)"
  shows "outbox_inv P (s\<lparr>sy_store := (sy_store s)\<lparr>ts_rows := update_where (\<lambda>r. br_batch_id r = i) f (ts_rows (sy_store s))\<rparr>\<rparr>)"
proof -
  let ?rows = "ts_rows (sy_store s)" and ?new = "update_where (\<lambda>r. br_batch_id r = i) f (ts_rows (sy_store s))"
  have f: "\<And>r. br_batch_id (f r) = br_batch_id r" "\<And>r. br_payload (f r) = br_payload r"
    "\<And>r. br_node_id (f r) = br_node_id r \<and> br_sequence_number (f r) = br_sequence_number r"
    using assms(2) by (auto simp: keeps_batch_def)
  have "map br_batch_id ?new = map br_batch_id ?rows" by (rule map_update_where) (rule f(1))
  moreover have "\<exists>r' \<in> set ?new. br_payload r' = br_payload r" if "r \<in> set ?rows" for r
    using that f by (intro bexI [of _ "if br_batch_id r = i then f r else r"]) (auto simp: update_where_def)
  moreover have "row_ok (sy_sent s) r" if "r \<in> set ?new" for r
    using that assms(1,3) by (auto simp: update_where_def outbox_inv_def)
  moreover have "max_sequence n ?new = max_sequence n ?rows" for n by (rule max_sequence_update) (rule f(3))
  moreover have "(\<exists>r \<in> set ?new. br_payload r = b) \<or> acked (sy_sent s) b" if "b \<in> P" for b
    using that assms(1) calculation(2) unfolding outbox_inv_def by metis
  ultimately show ?thesis using assms(1) by (simp add: outbox_inv_def)
qed

lemma update_batch_cases:
  assumes "update_batch io i f s = (r, s')"
  obtains (refused) er where "r = Some er" "s' = s"
  | (updated) row where "r = None" "find_batch i (ts_rows s) = Some row" "s' = s\<lparr>ts_rows := update_where (\<lambda>r. br_batch_id r = i) f (ts_rows s)\<rparr>"
proof -
  have "(\<exists>er. r = Some er) \<and> s' = s \<or> r = None \<and> (\<exists>row. find_batch i (ts_rows s) = Some row) \<and>
      s' = s\<lparr>ts_rows := update_where (\<lambda>r. br_batch_id r = i) f (ts_rows s)\<rparr>"
    using assms by (auto simp: update_batch_def split: option.splits if_splits)
  with refused updated show ?thesis by fast
qed

lemma guarded_update_cases:
  assumes "guarded_update io1 io2 i status what f s = (r, s')"
  obtains (refused) er where "r = Some er" "s' = s"
  | (updated) row where "r = None" "find_batch i (ts_rows s) = Some row" "br_sync_status row = status"
      "s' = s\<lparr>ts_rows := update_where (\<lambda>r. br_batch_id r = i) f (ts_rows s)\<rparr>"
proof -
  have "r \<noteq> None \<and> s' = s \<or> r = None \<and> (\<exists>row. find_batch i (ts_rows s) = Some row \<and> br_sync_status row = status) \<and>
      s' = s\<lparr>ts_rows := update_where (\<lambda>r. br_batch_id r = i) f (ts_rows s)\<rparr>"
    using assms by (auto simp: guarded_update_def split: option.splits if_splits) metis+
  with refused updated show ?thesis by fast
qed

section \<open>What becomes of one batch\<close>

abbreviation set_row :: "string \<Rightarrow> (batch_row \<Rightarrow> batch_row) \<Rightarrow> telemetry_store \<Rightarrow> telemetry_store" where
  "set_row i f t \<equiv> t\<lparr>ts_rows := update_where (\<lambda>r. br_batch_id r = i) f (ts_rows t)\<rparr>"

definition is_delivered :: "batch_row \<Rightarrow> bool" where
  "is_delivered r \<longleftrightarrow> br_sync_status r = SyncSynced \<or> br_sync_status r = SyncPublished"

lemma mark_delivered_cases:
  assumes "mark_delivered cfg env r t = (e, t')"
  obtains (refused) er where "e = Some er" "t' = t"
  | (marked) f where "e = None" "t' = set_row (br_batch_id r) f t" "keeps_batch f" "\<And>x. is_delivered (f x)"
proof (cases "sc_transport cfg = ViaNats")
  case True
  with assms have "update_batch (en_mark_io env (br_batch_id r)) (br_batch_id r)
      (\<lambda>x. x\<lparr>br_sync_status := SyncPublished, br_published_at := Some (en_now env (br_batch_id r))\<rparr>) t = (e, t')"
    by (simp add: mark_delivered_def mark_batch_published_def Let_def)
  then show ?thesis
    by (cases rule: update_batch_cases) (use refused marked in \<open>auto simp: keeps_batch_def is_delivered_def\<close>)
next
  case False
  with assms have "update_batch (en_mark_io env (br_batch_id r)) (br_batch_id r)
      (\<lambda>x. x\<lparr>br_sync_status := SyncSynced, br_sent_at := Some (en_now env (br_batch_id r))\<rparr>) t = (e, t')"
    by (simp add: mark_delivered_def mark_batch_synced_def Let_def)
  then show ?thesis
    by (cases rule: update_batch_cases) (use refused marked in \<open>auto simp: keeps_batch_def is_delivered_def\<close>)
qed

lemma quarantine_cases:
  assumes "mark_batch_quarantined io1 io2 i reason failed t = (e, t')"
  obtains (refused) er where "e = Some er" "t' = t"
  | (marked) f where "e = None" "t' = set_row i f t" "keeps_batch f" "\<And>x. br_sync_status (f x) = SyncFailed"
  using assms unfolding mark_batch_quarantined_def
  by (cases rule: guarded_update_cases) (use refused marked in \<open>auto simp: keeps_batch_def\<close>)

lemma attempt_cases:
  assumes "record_sync_attempt io i sent t = (e, t')"
  obtains (refused) er where "e = Some er" "t' = t"
  | (marked) f where "e = None" "t' = set_row i f t" "keeps_batch f" "\<And>x. br_sync_status (f x) = br_sync_status x"
      "\<And>x. br_attempt (f x) = br_attempt x + 1"
  using assms unfolding record_sync_attempt_def
  by (cases rule: update_batch_cases) (use refused marked in \<open>auto simp: keeps_batch_def\<close>)

lemma sync_record_cases:
  assumes "sync_record render cfg env node r (st, s) = (v, st', s')"
  obtains (skipped) "v \<noteq> GoOn" "s' = s"
  | (delivered) f where "v = GoOn" "en_send env (sent_payload cfg (en_now env (br_batch_id r)) r) = None"
      "sy_sent s' = sy_sent s @ [(sent_payload cfg (en_now env (br_batch_id r)) r, None)]"
      "sy_store s' = set_row (br_batch_id r) f (sy_store s)" "keeps_batch f" "\<And>x. is_delivered (f x)"
  | (quarantined) f er where "v = GoOn" "en_send env (sent_payload cfg (en_now env (br_batch_id r)) r) = Some er"
      "is_permanent_sync_error (Some er) \<or> exhausted cfg r"
      "sy_sent s' = sy_sent s @ [(sent_payload cfg (en_now env (br_batch_id r)) r, Some er)]"
      "sy_store s' = set_row (br_batch_id r) f (sy_store s)" "keeps_batch f" "\<And>x. br_sync_status (f x) = SyncFailed"
  | (unmarked) answer where "v \<noteq> GoOn" "en_send env (sent_payload cfg (en_now env (br_batch_id r)) r) = answer"
      "sy_sent s' = sy_sent s @ [(sent_payload cfg (en_now env (br_batch_id r)) r, answer)]" "sy_store s' = sy_store s"
  | (retried) f er where "v = NextNode" "en_send env (sent_payload cfg (en_now env (br_batch_id r)) r) = Some er"
      "\<not> is_permanent_sync_error (Some er)" "\<not> exhausted cfg r"
      "sy_sent s' = sy_sent s @ [(sent_payload cfg (en_now env (br_batch_id r)) r, Some er)]"
      "sy_store s' = set_row (br_batch_id r) f (sy_store s)" "keeps_batch f"
      "\<And>x. br_sync_status (f x) = br_sync_status x" "\<And>x. br_attempt (f x) = br_attempt x + 1"
proof -
  let ?i = "br_batch_id r" and ?b = "sent_payload cfg (en_now env (br_batch_id r)) r"
  let ?s1 = "s\<lparr>sy_sent := sy_sent s @ [(?b, en_send env ?b)]\<rparr>"
  consider (none) "en_batch_ctx env ?i \<noteq> None \<or> sc_transport cfg = NoTransport"
    | (ack) "en_send env ?b = None" "Syncer.delivered cfg env node r (st, ?s1) = (v, st', s')"
    | (ref) er where "en_send env ?b = Some er" "Syncer.refused render cfg env node r er (st, ?s1) = (v, st', s')"
    using assms by (cases "en_send env ?b") (auto simp: sync_record_def Let_def split: option.splits if_splits)
  then show thesis
  proof cases
    case none
    with assms skipped show thesis by (auto simp: sync_record_def Let_def split: option.splits if_splits)
  next
    case ack
    obtain e t where m: "mark_delivered cfg env r (sy_store s) = (e, t)" by fastforce
    then show thesis
    proof (cases rule: mark_delivered_cases)
      case (refused er)
      with ack m have "v \<noteq> GoOn" "s' = ?s1" by (auto simp: Syncer.delivered_def)
      then show thesis by (intro unmarked [of "en_send env ?b"]) simp_all
    next
      case (marked f)
      with ack m have "v = GoOn" "s' = ?s1\<lparr>sy_store := t\<rparr>" by (auto simp: Syncer.delivered_def)
      with marked ack(1) show thesis by (intro delivered [of f]) simp_all
    qed
  next
    case (ref er)
    show thesis
    proof (cases "en_after_ctx env ?i")
      case (Some c)
      with ref have "v \<noteq> GoOn" "s' = ?s1" by (auto simp: Syncer.refused_def Let_def)
      then show thesis by (intro unmarked [of "en_send env ?b"]) simp_all
    next
      case live: None
      show thesis
      proof (cases "is_permanent_sync_error (Some er) \<or> exhausted cfg r")
        case True
        obtain e t where m: "mark_batch_quarantined (en_mark_io env ?i) (en_check_io env ?i) ?i
            (quarantine_reason render cfg er) (en_now env ?i) (sy_store s) = (e, t)" by fastforce
        then show thesis
        proof (cases rule: quarantine_cases)
          case (refused qe)
          with ref live True m have "v \<noteq> GoOn" "s' = ?s1" by (auto simp: Syncer.refused_def Let_def)
          then show thesis by (intro unmarked [of "en_send env ?b"]) simp_all
        next
          case (marked f)
          with ref live True m have "v = GoOn" "sy_sent s' = sy_sent ?s1" "sy_store s' = t"
            by (auto simp: Syncer.refused_def Let_def)
          with marked ref(1) True show thesis by (intro quarantined [of er f]) simp_all
        qed
      next
        case False
        with ref live have v: "v = NextNode"
            "s' = ?s1\<lparr>sy_store := snd (record_sync_attempt (en_mark_io env ?i) ?i (en_now env ?i) (sy_store s))\<rparr>"
          by (auto simp: Syncer.refused_def Let_def)
        obtain e t where m: "record_sync_attempt (en_mark_io env ?i) ?i (en_now env ?i) (sy_store s) = (e, t)" by fastforce
        then show thesis
        proof (cases rule: attempt_cases)
          case (refused qe)
          with v m show thesis by (intro unmarked [of "en_send env ?b"]) simp_all
        next
          case (marked f)
          with v m ref(1) False show thesis by (intro retried [of er f]) simp_all
        qed
      qed
    qed
  qed
qed

section \<open>A cycle keeps the invariant\<close>

abbreviation rows :: "sync_state \<Rightarrow> batch_row list" where
  "rows s \<equiv> ts_rows (sy_store s)"

definition covers :: "sync_state \<Rightarrow> batch_row list \<Rightarrow> bool" where
  "covers s rs \<longleftrightarrow> (\<forall>r \<in> set rs. \<exists>x \<in> set (rows s). br_batch_id x = br_batch_id r \<and> br_payload x = br_payload r)"

lemma covers_set_row:
  assumes "keeps_batch f" "sy_store s' = set_row i f (sy_store s)" "covers s rs"
  shows "covers s' rs"
  unfolding covers_def
proof
  fix r assume "r \<in> set rs"
  with assms(3) obtain x where "x \<in> set (rows s)" "br_batch_id x = br_batch_id r" "br_payload x = br_payload r"
    by (auto simp: covers_def)
  then show "\<exists>x \<in> set (rows s'). br_batch_id x = br_batch_id r \<and> br_payload x = br_payload r"
    using assms(1,2) by (intro bexI [of _ "if br_batch_id x = i then f x else x"]) (auto simp: update_where_def keeps_batch_def)
qed

lemma outbox_inv_cong:
  "outbox_inv P s \<Longrightarrow> sy_store s' = sy_store s \<Longrightarrow> sy_sent s' = sy_sent s \<Longrightarrow> outbox_inv P s'"
  by (simp add: outbox_inv_def)

lemma outbox_inv_set_row:
  assumes "outbox_inv P s" "sy_sent s' = sy_sent s @ new" "sy_store s' = set_row i f (sy_store s)" "keeps_batch f"
    "\<And>x. x \<in> set (rows s) \<Longrightarrow> br_batch_id x = i \<Longrightarrow> row_ok (sy_sent s @ new) (f x)"
  shows "outbox_inv P s'"
proof -
  let ?s = "s\<lparr>sy_sent := sy_sent s @ new\<rparr>"
  have "outbox_inv P (?s\<lparr>sy_store := set_row i f (sy_store ?s)\<rparr>)"
    by (rule outbox_inv_update) (use outbox_inv_log [OF assms(1)] assms(4,5) in auto)
  then show ?thesis by (rule outbox_inv_cong) (simp_all add: assms(2,3))
qed

lemma row_ok_keeps:
  assumes "row_ok lg x" "keeps_batch f"
    "br_sync_status (f x) = SyncPending \<or> br_sync_status (f x) = SyncFailed \<or>
     is_delivered (f x) \<and> acked (lg @ new) (br_payload x)"
  shows "row_ok (lg @ new) (f x)"
  using assms by (auto simp: row_ok_def keeps_batch_def is_delivered_def)

lemma row_ok_same_status:
  assumes "row_ok lg x" "keeps_batch f" "br_sync_status (f x) = br_sync_status x"
  shows "row_ok (lg @ new) (f x)"
  using assms by (auto simp: row_ok_def keeps_batch_def)

lemma sync_record_inv:
  assumes "sync_record render cfg env node r (st, s) = (v, st', s')" "outbox_inv P s" "covers s (r # rs)"
  shows "outbox_inv P s' \<and> covers s' rs"
proof -
  have cov: "covers s rs" using assms(3) by (simp add: covers_def)
  obtain x where x: "x \<in> set (rows s)" "br_batch_id x = br_batch_id r" "br_payload x = br_payload r"
    using assms(3) by (auto simp: covers_def)
  have same: "y = x" if "y \<in> set (rows s)" "br_batch_id y = br_batch_id r" for y
    using that x assms(2) by (auto simp: outbox_inv_def distinct_map inj_on_def)
  have ok: "row_ok (sy_sent s) y" if "y \<in> set (rows s)" for y
    using that assms(2) by (simp add: outbox_inv_def)
  from assms(1) show ?thesis
  proof (cases rule: sync_record_cases)
    case skipped
    with assms(2) cov show ?thesis by simp
  next
    case (delivered f)
    have "outbox_inv P s'"
      by (rule outbox_inv_set_row [OF assms(2) delivered(3,4,5)], rule row_ok_keeps [OF ok delivered(5)])
        (use delivered(6) same x acked_sent [of cfg _ r] in auto)
    with covers_set_row [OF delivered(5,4) cov] show ?thesis by simp
  next
    case (quarantined er f)
    have "outbox_inv P s'"
      by (rule outbox_inv_set_row [OF assms(2) quarantined(4,5,6)], rule row_ok_keeps [OF ok quarantined(6)])
        (use quarantined(7) in auto)
    with covers_set_row [OF quarantined(6,5) cov] show ?thesis by simp
  next
    case (unmarked answer)
    have "outbox_inv P s'"
      by (rule outbox_inv_cong [OF outbox_inv_log [OF assms(2)]]) (simp_all add: unmarked(3,4))
    with cov unmarked(4) show ?thesis by (simp add: covers_def)
  next
    case (retried er f)
    have "outbox_inv P s'"
      by (rule outbox_inv_set_row [OF assms(2) retried(5,6,7)], rule row_ok_same_status [OF ok retried(7)])
        (use retried(8) in auto)
    with covers_set_row [OF retried(7,6) cov] show ?thesis by simp
  qed
qed

lemma sync_records_inv:
  "sync_records render cfg env node rs (st, s) = (c, st', s') \<Longrightarrow> outbox_inv P s \<Longrightarrow> covers s rs \<Longrightarrow> outbox_inv P s'"
proof (induction rs arbitrary: st s)
  case (Cons r rs)
  obtain v st1 s1 where r: "sync_record render cfg env node r (st, s) = (v, st1, s1)" by (cases "sync_record render cfg env node r (st, s)")
  from sync_record_inv [OF r Cons.prems(2,3)] have "outbox_inv P s1" "covers s1 rs" by simp_all
  with Cons r show ?case by (cases v) auto
qed simp

lemma pending_by_node_set:
  "get_pending_batches_by_node io node n t = Inr rs \<Longrightarrow>
     set rs \<subseteq> {r \<in> set (ts_rows t). is_pending r \<and> br_node_id r = node} \<and> sorted (map br_sequence_number rs) \<and>
     (distinct (map br_batch_id (ts_rows t)) \<longrightarrow> distinct (map br_batch_id rs))"
proof -
  let ?l = "sort_key br_sequence_number (filter (\<lambda>r. is_pending r \<and> br_node_id r = node) (ts_rows t))"
  assume "get_pending_batches_by_node io node n t = Inr rs"
  then have rs: "rs = take (row_limit n) ?l" by (auto simp: get_pending_batches_by_node_def split: option.splits)
  have "mset (map br_batch_id ?l) = mset (map br_batch_id (filter (\<lambda>r. is_pending r \<and> br_node_id r = node) (ts_rows t)))"
    by simp
  then have "distinct (map br_batch_id (ts_rows t)) \<longrightarrow> distinct (map br_batch_id ?l)"
    using mset_eq_imp_distinct_iff distinct_map_filter by metis
  moreover have "sorted (map br_sequence_number rs)" by (simp add: rs take_map [symmetric] sorted_wrt_take)
  moreover have "set rs \<subseteq> set ?l" unfolding rs by (rule set_take_subset)
  ultimately show ?thesis by (auto simp: rs take_map [symmetric] distinct_take)
qed

lemma sync_node_inv:
  assumes "sync_node render cfg env limit node (st, s) = (c, st', s')" "outbox_inv P s"
  shows "outbox_inv P s'"
proof (cases "en_node_ctx env node")
  case (Some c)
  with assms show ?thesis by (simp add: sync_node_def)
next
  case live: None
  show ?thesis
  proof (cases "get_pending_batches_by_node (en_list_io env node) node limit (sy_store s)")
    case (Inr rs)
    with pending_by_node_set [OF Inr] have "covers s rs" by (auto simp: covers_def)
    moreover have "sync_records render cfg env node rs (st, s) = (c, st', s')"
      using assms(1) live Inr by (simp add: sync_node_def)
    ultimately show ?thesis using sync_records_inv assms(2) by blast
  qed (use assms live in \<open>simp add: sync_node_def\<close>)
qed

lemma sync_nodes_inv:
  "sync_nodes render cfg env limit ns (st, s) = (c, st', s') \<Longrightarrow> outbox_inv P s \<Longrightarrow> outbox_inv P s'"
proof (induction ns arbitrary: st s)
  case (Cons n ns)
  obtain c1 st1 s1 where r: "sync_node render cfg env limit n (st, s) = (c1, st1, s1)"
    by (cases "sync_node render cfg env limit n (st, s)")
  from sync_node_inv [OF r Cons.prems(2)] Cons r show ?case by (cases c1) auto
qed simp

lemma sync_pending_inv: "outbox_inv P s \<Longrightarrow> outbox_inv P (snd (sync_pending_batches render cfg env limit s))"
  by (auto simp: sync_pending_batches_def split: sum.split prod.split dest: sync_nodes_inv)

section \<open>The other calls\<close>

lemma requeue_inv:
  assumes "outbox_inv P s"
  shows "outbox_inv P (snd (requeue_batch io1 io2 io3 io4 now i s))"
proof -
  obtain e t where r: "requeue_quarantined_batch io1 io2 i (sy_store s) = (e, t)" by fastforce
  have "outbox_inv P (s\<lparr>sy_store := t\<rparr>)"
    using r unfolding requeue_quarantined_batch_def
  proof (cases rule: guarded_update_cases)
    case (updated row)
    show ?thesis
      unfolding updated(4)
    proof (rule outbox_inv_update [OF assms])
      fix x assume "x \<in> set (rows s)"
      then have "row_ok (sy_sent s) x" using assms by (simp add: outbox_inv_def)
      then show "row_ok (sy_sent s) (x\<lparr>br_sync_status := SyncPending, br_attempt := 0, br_error_reason := [], br_failed_at := None\<rparr>)"
        by (auto simp: row_ok_def)
    qed (simp add: keeps_batch_def)
  qed (use assms in simp)
  with r show ?thesis by (auto simp: requeue_batch_def split: option.split)
qed

lemma persist_cases:
  assumes "persist_batch io now (Some b) t = (e, t')"
  obtains (refused) er where "e = Some er" "t' = t"
  | (stored) "e = None" "tb_batch_id b \<notin> br_batch_id ` set (ts_rows t)" "t' = t\<lparr>ts_rows := ts_rows t @ [new_row now b]\<rparr>"
      "telemetry_batch_validate b = None" "\<not> ts_closed t"
proof -
  have "(e \<noteq> None \<and> t' = t) \<or> (e = None \<and> tb_batch_id b \<notin> br_batch_id ` set (ts_rows t) \<and>
      t' = t\<lparr>ts_rows := ts_rows t @ [new_row now b]\<rparr> \<and> telemetry_batch_validate b = None \<and> \<not> ts_closed t)"
    using assms by (auto simp: persist_batch_def find_batch_None [symmetric] db_guard_None split: option.splits if_splits)
  with refused stored show ?thesis by fast
qed

lemma persist_inv:
  assumes "outbox_inv P s" "persist_batch io now (Some b) (sy_store s) = (e, t)"
  shows "outbox_inv (if e = None then insert b P else P) (s\<lparr>sy_store := t\<rparr>)"
  using assms(2)
proof (cases rule: persist_cases)
  case stored
  have "tb_batch_id b \<noteq> []" using stored(4) by (auto simp: telemetry_batch_validate_def)
  then have new: "row_ok (sy_sent s) (new_row now b)" "br_payload (new_row now b) = b" "br_batch_id (new_row now b) = tb_batch_id b"
    by (simp_all add: row_ok_def new_row_def)
  have mono: "max_sequence n (rows s) \<le> max_sequence n (rows s @ [new_row now b])" for n
    by (rule max_sequence_mono) auto
  have "tb_sequence_number b \<le> max_sequence (tb_node_id b) (rows s @ [new_row now b])"
    using max_sequence_ge [of "new_row now b" "rows s @ [new_row now b]"] by (simp add: new_row_def)
  moreover have "tb_sequence_number x \<le> max_sequence (tb_node_id x) (rows s @ [new_row now b])" if "x \<in> P" for x
    using that assms(1) mono [of "tb_node_id x"] by (force simp: outbox_inv_def)
  ultimately show ?thesis using assms(1) stored new by (auto simp: outbox_inv_def)
qed (use assms(1) in \<open>auto simp: outbox_inv_def\<close>)

lemma prune_cases:
  assumes "prune_completed_batches io cutoff n t = (e, t')" "distinct (map br_batch_id (ts_rows t))"
  obtains (refused) er where "e = Inl er" "t' = t"
  | (pruned) gone where "gone \<subseteq> {r \<in> set (ts_rows t). prunable cutoff (ts_rows t) r}"
      "t' = t\<lparr>ts_rows := filter (\<lambda>r. r \<notin> gone) (ts_rows t)\<rparr>"
proof (cases "db_guard (ts_closed t) io")
  case None
  let ?gone = "set (take (row_limit n) (sort_key br_sequence_number (filter (prunable cutoff (ts_rows t)) (ts_rows t))))"
  have sub: "?gone \<subseteq> {r \<in> set (ts_rows t). prunable cutoff (ts_rows t) r}"
    using set_take_subset by fastforce
  have "br_batch_id r \<in> br_batch_id ` ?gone \<longleftrightarrow> r \<in> ?gone" if "r \<in> set (ts_rows t)" for r
    using that sub assms(2) by (auto simp: distinct_map inj_on_def)
  then have "filter (\<lambda>r. br_batch_id r \<notin> br_batch_id ` ?gone) (ts_rows t) = filter (\<lambda>r. r \<notin> ?gone) (ts_rows t)"
    by (intro filter_cong) auto
  with None assms(1) have "t' = t\<lparr>ts_rows := filter (\<lambda>r. r \<notin> ?gone) (ts_rows t)\<rparr>"
    by (auto simp: prune_completed_batches_def Let_def)
  with sub pruned show ?thesis by blast
next
  case (Some er)
  with assms(1) have "e = Inl er" "t' = t" by (simp_all add: prune_completed_batches_def)
  then show ?thesis by (rule refused)
qed

lemma prune_keeps_max:
  assumes "gone \<subseteq> {r \<in> set rs. prunable cutoff rs r}"
  shows "max_sequence n (filter (\<lambda>r. r \<notin> gone) rs) = max_sequence n rs"
proof (rule antisym; rule max_sequence_mono)
  fix r assume r: "r \<in> set rs"
  let ?S = "{x \<in> set rs. br_node_id x = br_node_id r}"
  have "finite (br_sequence_number ` ?S)" "br_sequence_number ` ?S \<noteq> {}" using r by auto
  from Max_in [OF this] obtain m where m: "m \<in> ?S" "br_sequence_number m = Max (br_sequence_number ` ?S)" by auto
  have "br_sequence_number x \<le> br_sequence_number m" if "x \<in> ?S" for x using that m(2) by simp
  then have "\<not> prunable cutoff rs m" using m(1) by (force simp: prunable_def list_ex_iff)
  with assms m(1) have "m \<in> set (filter (\<lambda>r. r \<notin> gone) rs)" by auto
  moreover have "br_sequence_number r \<le> br_sequence_number m" using m(2) r by simp
  ultimately show "\<exists>r' \<in> set (filter (\<lambda>r. r \<notin> gone) rs). br_node_id r' = br_node_id r \<and> br_sequence_number r \<le> br_sequence_number r'"
    using m(1) by blast
qed auto

lemma prune_inv:
  assumes "outbox_inv P s"
  shows "outbox_inv P (s\<lparr>sy_store := snd (prune_completed_batches io cutoff n (sy_store s))\<rparr>)"
proof -
  obtain e t where p: "prune_completed_batches io cutoff n (sy_store s) = (e, t)" by fastforce
  have dist: "distinct (map br_batch_id (rows s))" using assms by (simp add: outbox_inv_def)
  from p dist have "outbox_inv P (s\<lparr>sy_store := t\<rparr>)"
  proof (cases rule: prune_cases)
    case (pruned gone)
    have ack: "acked (sy_sent s) (br_payload r)" if "r \<in> gone" for r
      using that pruned(1) assms by (fastforce simp: outbox_inv_def row_ok_def prunable_def)
    have "distinct (map br_batch_id (filter (\<lambda>r. r \<notin> gone) (rows s)))" by (rule distinct_map_filter) (rule dist)
    moreover have "(\<exists>r \<in> set (filter (\<lambda>r. r \<notin> gone) (rows s)). br_payload r = b) \<or> acked (sy_sent s) b" if "b \<in> P" for b
    proof (cases "acked (sy_sent s) b")
      case False
      with that assms obtain r where "r \<in> set (rows s)" "br_payload r = b" by (auto simp: outbox_inv_def)
      moreover from this False ack have "r \<notin> gone" by blast
      ultimately show ?thesis by auto
    qed simp
    ultimately show ?thesis
      using assms prune_keeps_max [OF pruned(1)] unfolding pruned(2) by (simp add: outbox_inv_def)
  qed (use assms in simp)
  with p show ?thesis by simp
qed

section \<open>Runs\<close>

text \<open>The batches the calls of a run have persisted.\<close>

fun persisted :: "(msg \<Rightarrow> string) \<Rightarrow> tel_op list \<Rightarrow> sync_state \<Rightarrow> telemetry_batch set" where
  "persisted render [] s = {}"
| "persisted render (op # ops) s =
     (case op of
        TPersist io now b \<Rightarrow> if fst (persist_batch io now (Some b) (sy_store s)) = None then {b} else {}
      | _ \<Rightarrow> {}) \<union> persisted render ops (tel_step render op s)"

lemma tel_step_inv:
  "outbox_inv P s \<Longrightarrow> outbox_inv (P \<union> persisted render [op] s) (tel_step render op s)"
proof (cases op)
  case (TPersist io now b)
  assume "outbox_inv P s"
  with persist_inv [of P s io now b] TPersist show ?thesis
    by (cases "persist_batch io now (Some b) (sy_store s)") (auto split: if_splits)
qed (simp_all add: sync_pending_inv requeue_inv prune_inv)

lemma tel_run_inv: "outbox_inv P s \<Longrightarrow> outbox_inv (P \<union> persisted render ops s) (tel_run render ops s)"
proof (induction ops arbitrary: P s)
  case (Cons op ops)
  have "outbox_inv ((P \<union> persisted render [op] s) \<union> persisted render ops (tel_step render op s))
      (tel_run render ops (tel_step render op s))"
    by (rule Cons.IH) (rule tel_step_inv [OF Cons.prems])
  then show ?case by (simp add: tel_run_def Un_assoc)
qed (simp add: tel_run_def)

definition empty_outbox :: "sync_state \<Rightarrow> bool" where
  "empty_outbox s \<longleftrightarrow> rows s = [] \<and> sy_sent s = []"

lemma outbox_run_inv: "empty_outbox s \<Longrightarrow> outbox_inv (persisted render ops s) (tel_run render ops s)"
  using tel_run_inv [of "{}" s render ops] by (simp add: outbox_inv_def empty_outbox_def)

end
