(* ===== verification/Telemetry_Properties.thy ===== *)
theory Telemetry_Properties
  imports Telemetry_Safety
begin

text \<open>
  The properties of the telemetry pipeline: nothing is lost, sequence numbers are never used again,
  the batches of a node are sent in order, and the outbox drains.
\<close>

section \<open>Nothing is lost\<close>

lemma tel_run_append: "tel_run render (a @ b) s = tel_run render b (tel_run render a s)"
  by (simp add: tel_run_def)

lemma persisted_append:
  "persisted render (a @ b) s = persisted render a s \<union> persisted render b (tel_run render a s)"
  by (induction a arbitrary: s) (auto simp: tel_run_def)

lemma persisted_inv:
  assumes "empty_outbox s0" "fst (persist_batch io now (Some b) (sy_store (tel_run render before s0))) = None"
  shows "\<exists>P. b \<in> P \<and> outbox_inv P (tel_run render (before @ TPersist io now b # after) s0)"
proof (intro exI conjI)
  show "outbox_inv (persisted render (before @ TPersist io now b # after) s0) (tel_run render (before @ TPersist io now b # after) s0)"
    by (rule outbox_run_inv [OF assms(1)])
  show "b \<in> persisted render (before @ TPersist io now b # after) s0"
    using assms(2) by (simp add: persisted_append)
qed

text \<open>
  C0. No telemetry is lost: once \<open>PersistBatch\<close> has returned without an error, then whatever calls
  follow, synchronisations with any answers and failures, requeueing and pruning included, the batch
  is still in the outbox, pending or quarantined, or a transport has acknowledged it.
\<close>

theorem telemetry_not_lost:
  assumes "empty_outbox s0" "fst (persist_batch io now (Some b) (sy_store (tel_run render before s0))) = None"
    and "s = tel_run render (before @ TPersist io now b # after) s0"
  shows "(\<exists>r \<in> set (ts_rows (sy_store s)). br_payload r = b \<and> (br_sync_status r = SyncPending \<or> br_sync_status r = SyncFailed)) \<or>
    acked (sy_sent s) b"
proof -
  obtain P where "b \<in> P" "outbox_inv P s" using persisted_inv [OF assms(1,2)] assms(3) by blast
  then show ?thesis by (fastforce simp: outbox_inv_def row_ok_def)
qed

text \<open>
  Sequence numbers are never used again: the latest sequence number of a node, from which the
  collector goes on after a restart, is at least that of every batch persisted before, however many
  batches were delivered and pruned meanwhile.
\<close>

theorem sequence_high_water_mark:
  assumes "empty_outbox s0" "fst (persist_batch io now (Some b) (sy_store (tel_run render before s0))) = None"
    and "get_latest_sequence_number io' (tb_node_id b) (sy_store (tel_run render (before @ TPersist io now b # after) s0)) = Inr latest"
  shows "tb_sequence_number b \<le> latest"
proof -
  obtain P where "b \<in> P" "outbox_inv P (tel_run render (before @ TPersist io now b # after) s0)"
    using persisted_inv [OF assms(1,2)] by blast
  with assms(3) show ?thesis by (auto simp: outbox_inv_def get_latest_sequence_number_def split: option.splits)
qed

section \<open>The outbox drains\<close>

definition healthy :: "sync_env \<Rightarrow> bool" where
  "healthy env \<longleftrightarrow> en_nodes_io env = IoOk \<and> (\<forall>n. en_list_io env n = IoOk \<and> en_node_ctx env n = None) \<and>
     (\<forall>i. en_batch_ctx env i = None \<and> en_after_ctx env i = None \<and> en_mark_io env i = IoOk)"

text \<open>The cycles a pending batch can take before it is delivered or quarantined.\<close>

definition tries_left :: "sync_config \<Rightarrow> batch_row \<Rightarrow> nat" where
  "tries_left cfg r = (if is_pending r then nat (max 1 (sc_max_attempts cfg - br_attempt r)) else 0)"

definition backlog :: "sync_config \<Rightarrow> sync_state \<Rightarrow> nat" where
  "backlog cfg s = sum_list (map (tries_left cfg) (rows s))"

lemma sum_update_where_le:
  "(\<And>r. r \<in> set rs \<Longrightarrow> p r \<Longrightarrow> w (f r) \<le> (w r :: nat)) \<Longrightarrow> sum_list (map w (update_where p f rs)) \<le> sum_list (map w rs)"
  by (induction rs) (auto simp: update_where_def intro: add_mono)

lemma sum_update_where_less:
  "(\<And>r. r \<in> set rs \<Longrightarrow> p r \<Longrightarrow> w (f r) \<le> (w r :: nat)) \<Longrightarrow> x \<in> set rs \<Longrightarrow> p x \<Longrightarrow> w (f x) < w x \<Longrightarrow>
     sum_list (map w (update_where p f rs)) < sum_list (map w rs)"
proof (induction rs)
  case (Cons r rs)
  then have le: "sum_list (map w (update_where p f rs)) \<le> sum_list (map w rs)" by (intro sum_update_where_le) simp
  show ?case
  proof (cases "x = r")
    case True
    with Cons.prems le show ?thesis by (simp add: update_where_def)
  next
    case False
    with Cons have "sum_list (map w (update_where p f rs)) < sum_list (map w rs)" by simp
    with Cons.prems(1) [of r] show ?thesis by (auto simp: update_where_def)
  qed
qed simp

lemma tries_left_retry: "br_sync_status (f x) = br_sync_status x \<Longrightarrow> br_attempt (f x) = br_attempt x + 1 \<Longrightarrow>
    tries_left cfg (f x) \<le> tries_left cfg x"
  by (auto simp: tries_left_def is_pending_def)

lemma tries_left_settled: "is_delivered r \<or> br_sync_status r = SyncFailed \<Longrightarrow> tries_left cfg r = 0"
  by (auto simp: tries_left_def is_pending_def is_delivered_def)

definition settles :: "sync_config \<Rightarrow> sync_state \<Rightarrow> sync_state \<Rightarrow> bool" where
  "settles cfg s s' \<longleftrightarrow> ts_closed (sy_store s') = ts_closed (sy_store s) \<and> backlog cfg s' \<le> backlog cfg s"

lemma settles_refl [simp]: "settles cfg s s"
  by (simp add: settles_def)

lemma settles_trans: "settles cfg a b \<Longrightarrow> settles cfg b c \<Longrightarrow> settles cfg a c"
  by (simp add: settles_def)

lemma settles_set_row:
  assumes "sy_store s' = set_row i f (sy_store s)" "\<And>x. tries_left cfg (f x) \<le> tries_left cfg x"
  shows "settles cfg s s'"
  using assms sum_update_where_le [of "rows s" "\<lambda>r. br_batch_id r = i" "tries_left cfg" f]
  by (simp add: settles_def backlog_def)

lemma sync_record_settles:
  assumes "sync_record render cfg env node r (st, s) = (v, st', s')"
  shows "settles cfg s s'"
  using assms
proof (cases rule: sync_record_cases)
  case (delivered f)
  then show ?thesis by (intro settles_set_row [of s' _ f]) (simp_all add: tries_left_settled)
next
  case (quarantined f er)
  then show ?thesis by (intro settles_set_row [of s' _ f]) (simp_all add: tries_left_settled)
next
  case (retried f er)
  then show ?thesis by (intro settles_set_row [of s' _ f]) (simp_all add: tries_left_retry)
qed (simp_all add: settles_def backlog_def)

lemma sync_records_settles: "sync_records render cfg env node rs (st, s) = (c, st', s') \<Longrightarrow> settles cfg s s'"
proof (induction rs arbitrary: st s)
  case (Cons r rs)
  obtain v st1 s1 where r: "sync_record render cfg env node r (st, s) = (v, st1, s1)" by (cases "sync_record render cfg env node r (st, s)")
  from sync_record_settles [OF r] Cons r show ?case by (cases v) (auto intro: settles_trans)
qed simp

lemma sync_node_settles: "sync_node render cfg env limit node (st, s) = (c, st', s') \<Longrightarrow> settles cfg s s'"
  by (auto simp: sync_node_def split: option.splits sum.splits dest: sync_records_settles)

lemma sync_nodes_settles: "sync_nodes render cfg env limit ns (st, s) = (c, st', s') \<Longrightarrow> settles cfg s s'"
proof (induction ns arbitrary: st s)
  case (Cons n ns)
  obtain c1 st1 s1 where r: "sync_node render cfg env limit n (st, s) = (c1, st1, s1)"
    by (cases "sync_node render cfg env limit n (st, s)")
  from sync_node_settles [OF r] Cons r show ?case by (cases c1) (auto intro: settles_trans)
qed simp

text \<open>In a healthy cycle the batch that is tried makes progress, whatever the transport answers.\<close>

lemma sync_record_progress:
  assumes "healthy env" "sc_transport cfg \<noteq> NoTransport" "\<not> ts_closed (sy_store s)" "r \<in> set (rows s)" "is_pending r"
    "br_batch_id r \<noteq> []" "distinct (map br_batch_id (rows s))"
    "sync_record render cfg env node r (st, s) = (v, st', s')"
  shows "backlog cfg s' < backlog cfg s"
proof -
  have found: "find_batch (br_batch_id r) (rows s) = Some r" using assms(4,7) by (simp add: find_batch_iff)
  have env: "en_batch_ctx env i = None" "en_after_ctx env i = None" "en_mark_io env i = IoOk" for i
    using assms(1) by (simp_all add: healthy_def)
  have same: "x = r" if "x \<in> set (rows s)" "br_batch_id x = br_batch_id r" for x
    using that assms(4,7) by (auto simp: distinct_map inj_on_def)
  have less: "backlog cfg s' < backlog cfg s" if "sy_store s' = set_row (br_batch_id r) f (sy_store s)"
    "tries_left cfg (f r) < tries_left cfg r" for f
  proof -
    have "tries_left cfg (f x) \<le> tries_left cfg x" if "x \<in> set (rows s)" "br_batch_id x = br_batch_id r" for x
      using same [OF that] \<open>tries_left cfg (f r) < tries_left cfg r\<close> by simp
    then have "sum_list (map (tries_left cfg) (update_where (\<lambda>x. br_batch_id x = br_batch_id r) f (rows s))) <
        sum_list (map (tries_left cfg) (rows s))"
      using that(2) assms(4) by (intro sum_update_where_less [where x = r]) auto
    with that(1) show ?thesis by (simp add: backlog_def)
  qed
  have pos: "0 < tries_left cfg r" using assms(5) by (simp add: tries_left_def)
  have guard: "db_guard (ts_closed (sy_store s)) IoOk = None" using assms(3) by (simp add: db_guard_def)
  let ?i = "br_batch_id r" and ?b = "sent_payload cfg (en_now env (br_batch_id r)) r"
  show ?thesis
  proof (cases "en_send env ?b")
    case None
    let ?f = "\<lambda>x. if sc_transport cfg = ViaNats then x\<lparr>br_sync_status := SyncPublished, br_published_at := Some (en_now env ?i)\<rparr>
      else x\<lparr>br_sync_status := SyncSynced, br_sent_at := Some (en_now env ?i)\<rparr>"
    have "mark_delivered cfg env r (sy_store s) = (None, set_row ?i ?f (sy_store s))" "is_delivered (?f r)"
      using found guard env(3)
      by (simp_all add: mark_delivered_def mark_batch_published_def mark_batch_synced_def update_batch_def is_delivered_def Let_def)
    with assms(2,8) env None pos show ?thesis
      by (intro less [of ?f]) (auto simp: sync_record_def Let_def delivered_def tries_left_settled)
  next
    case (Some er)
    show ?thesis
    proof (cases "is_permanent_sync_error (Some er) \<or> exhausted cfg r")
      case True
      obtain f where "mark_batch_quarantined (en_mark_io env ?i) (en_check_io env ?i) ?i (quarantine_reason render cfg er)
          (en_now env ?i) (sy_store s) = (None, set_row ?i f (sy_store s))" "br_sync_status (f r) = SyncFailed"
        using found guard env(3) assms(5,6)
        by (simp add: mark_batch_quarantined_def guarded_update_def is_pending_def)
      with assms(2,8) env Some True pos show ?thesis
        by (intro less [of f]) (auto simp: sync_record_def Let_def refused_def tries_left_settled)
    next
      case False
      obtain f where "record_sync_attempt (en_mark_io env ?i) ?i (en_now env ?i) (sy_store s) = (None, set_row ?i f (sy_store s))"
        "br_sync_status (f r) = br_sync_status r" "br_attempt (f r) = br_attempt r + 1"
        using found guard env(3) by (simp add: record_sync_attempt_def update_batch_def)
      with assms(2,5,8) env Some False show ?thesis
        by (intro less [of f]) (auto simp: sync_record_def Let_def refused_def tries_left_def is_pending_def exhausted_def)
    qed
  qed
qed

lemma sync_pending_progress:
  assumes "outbox_inv P s" "healthy env" "sc_transport cfg \<noteq> NoTransport" "\<not> ts_closed (sy_store s)"
    "r0 \<in> set (rows s)" "is_pending r0"
  shows "backlog cfg (snd (sync_pending_batches render cfg env limit s)) < backlog cfg s"
proof -
  let ?nodes = "sort (remdups (map br_node_id (filter is_pending (rows s))))"
  let ?limit = "if limit \<le> 0 then 50 else limit"
  have guard: "db_guard (ts_closed (sy_store s)) IoOk = None" using assms(4) by (simp add: db_guard_def)
  have "br_node_id r0 \<in> set ?nodes" using assms(5,6) by auto
  then obtain n ns where ns: "?nodes = n # ns" by (cases ?nodes) auto
  then have "n \<in> set ?nodes" by simp
  then obtain q where q: "q \<in> set (rows s)" "is_pending q" "br_node_id q = n" by auto
  let ?l = "sort_key br_sequence_number (filter (\<lambda>r. is_pending r \<and> br_node_id r = n) (rows s))"
  have list: "get_pending_batches_by_node (en_list_io env n) n ?limit (sy_store s) = Inr (take (row_limit ?limit) ?l)"
    using assms(2) guard by (simp add: get_pending_batches_by_node_def healthy_def)
  have "q \<in> set ?l" using q by simp
  then obtain r rs where r: "take (row_limit ?limit) ?l = r # rs"
    by (cases ?l; cases "row_limit ?limit") (auto simp: row_limit_def split: if_splits)
  with pending_by_node_set [OF list] have rr: "r \<in> set (rows s)" "is_pending r" by auto
  obtain v st1 s1 where s1: "sync_record render cfg env n r (new_stats, s) = (v, st1, s1)"
    by (cases "sync_record render cfg env n r (new_stats, s)")
  have "br_batch_id r \<noteq> []" "distinct (map br_batch_id (rows s))" using assms(1) rr by (auto simp: outbox_inv_def row_ok_def)
  from sync_record_progress [OF assms(2,3,4) rr this s1] have less: "backlog cfg s1 < backlog cfg s" .
  obtain c2 st2 s2 where s2: "sync_node render cfg env ?limit n (new_stats, s) = (c2, st2, s2)"
    by (cases "sync_node render cfg env ?limit n (new_stats, s)")
  with list r s1 assms(2) have "s2 = s1 \<or> (\<exists>c st. sync_records render cfg env n rs (st1, s1) = (c, st, s2))"
    by (cases v) (auto simp: sync_node_def healthy_def)
  then have "backlog cfg s2 < backlog cfg s" using less sync_records_settles by (fastforce simp: settles_def)
  moreover obtain c3 st3 s3 where s3: "sync_nodes render cfg env ?limit ?nodes (new_stats, s) = (c3, st3, s3)"
    by (cases "sync_nodes render cfg env ?limit ?nodes (new_stats, s)")
  with ns s2 have "s3 = s2 \<or> (\<exists>c. sync_nodes render cfg env ?limit ns (st2, s2) = (c, st3, s3))"
    by (cases c2) auto
  then have "backlog cfg s3 \<le> backlog cfg s2" using sync_nodes_settles by (fastforce simp: settles_def)
  moreover have "snd (sync_pending_batches render cfg env limit s) = s3"
    using assms(2) guard s3 by (simp add: sync_pending_batches_def get_pending_nodes_def healthy_def)
  ultimately show ?thesis by simp
qed

lemma sync_pending_settles: "settles cfg s (snd (sync_pending_batches render cfg env limit s))"
  by (auto simp: sync_pending_batches_def split: sum.split prod.split dest: sync_nodes_settles)

lemma cycles_drain:
  assumes "outbox_inv P s" "sc_transport cfg \<noteq> NoTransport" "\<not> ts_closed (sy_store s)" "\<forall>(env, _) \<in> set cycles. healthy env"
    "backlog cfg s \<le> length cycles"
  shows "filter is_pending (rows (tel_run render (map (\<lambda>(env, limit). TSync cfg env limit) cycles) s)) = []"
  using assms
proof (induction cycles arbitrary: s)
  case Nil
  then have "backlog cfg s = 0" by simp
  then have "\<forall>r \<in> set (rows s). tries_left cfg r = 0" by (simp add: backlog_def)
  moreover have "tries_left cfg r \<noteq> 0" if "is_pending r" for r using that by (simp add: tries_left_def)
  ultimately have "\<not> is_pending r" if "r \<in> set (rows s)" for r using that by blast
  then show ?case by (simp add: tel_run_def filter_empty_conv)
next
  case (Cons c cycles)
  obtain env limit where c: "c = (env, limit)" by (cases c)
  let ?s = "snd (sync_pending_batches render cfg env limit s)"
  have "outbox_inv P ?s" using sync_pending_inv Cons.prems(1) by blast
  moreover have "\<not> ts_closed (sy_store ?s)" using sync_pending_settles Cons.prems(3) by (simp add: settles_def)
  moreover have "backlog cfg ?s \<le> length cycles"
  proof (cases "\<exists>r \<in> set (rows s). is_pending r")
    case True
    then obtain r where "r \<in> set (rows s)" "is_pending r" by blast
    moreover have "healthy env" using Cons.prems(4) c by simp
    ultimately have "backlog cfg ?s < backlog cfg s" using sync_pending_progress Cons.prems(1-3) by blast
    with Cons.prems(5) show ?thesis by simp
  next
    case False
    then have "backlog cfg s = 0" by (auto simp: backlog_def tries_left_def)
    with sync_pending_settles [of cfg s render env limit] show ?thesis by (simp add: settles_def)
  qed
  ultimately have "filter is_pending (rows (tel_run render (map (\<lambda>(env, limit). TSync cfg env limit) cycles) ?s)) = []"
    using Cons by (intro Cons.IH) auto
  with c show ?case by (simp add: tel_run_def)
qed

text \<open>
  C16. The outbox drains: from any state a node can reach, synchronisation cycles in which the
  database answers and the context lives leave no batch pending after at most as many cycles as the
  pending batches have attempts left, whatever the transport answers: every batch has been delivered
  or quarantined, and no batch that cannot be delivered holds up the others.
\<close>

theorem outbox_drains:
  assumes "empty_outbox s0" "s = tel_run render ops s0" "\<not> ts_closed (sy_store s)" "sc_transport cfg \<noteq> NoTransport"
    and "\<forall>(env, _) \<in> set cycles. healthy env" "backlog cfg s \<le> length cycles"
  shows "\<forall>r \<in> set (ts_rows (sy_store (tel_run render (map (\<lambda>(env, limit). TSync cfg env limit) cycles) s))). br_sync_status r \<noteq> SyncPending"
  using cycles_drain [OF outbox_run_inv [OF assms(1), of render ops, folded assms(2)] assms(4,3,5,6)]
  by (auto simp: filter_empty_conv is_pending_def)

section \<open>Order\<close>

lemma set_row_other: "x \<in> set (ts_rows t) \<Longrightarrow> br_batch_id x \<noteq> i \<Longrightarrow> x \<in> set (ts_rows (set_row i f t))"
  by (force simp: update_where_def)

lemma sync_record_other:
  assumes "sync_record render cfg env node r (st, s) = (v, st', s')" "x \<in> set (rows s)" "br_batch_id x \<noteq> br_batch_id r"
  shows "x \<in> set (rows s')"
  using assms(1) by (cases rule: sync_record_cases) (use assms(2,3) set_row_other in auto)

lemma sync_records_other:
  "sync_records render cfg env node rs (st, s) = (c, st', s') \<Longrightarrow> x \<in> set (rows s) \<Longrightarrow>
     br_batch_id x \<notin> br_batch_id ` set rs \<Longrightarrow> x \<in> set (rows s')"
proof (induction rs arbitrary: st s)
  case (Cons r rs)
  obtain v st1 s1 where r: "sync_record render cfg env node r (st, s) = (v, st1, s1)" by (cases "sync_record render cfg env node r (st, s)")
  from sync_record_other [OF r Cons.prems(2)] Cons r show ?case by (cases v) auto
qed simp

text \<open>A batch is settled in a cycle when it was acknowledged, or refused and quarantined.\<close>

definition settled_in :: "sync_state \<Rightarrow> telemetry_batch \<times> sync_err option \<Rightarrow> bool" where
  "settled_in s p \<longleftrightarrow> snd p = None \<or>
     (\<exists>x \<in> set (rows s). br_batch_id x = tb_batch_id (fst p) \<and> br_node_id x = tb_node_id (fst p) \<and> br_sync_status x = SyncFailed)"

lemma sent_payload_sel [simp]:
  "tb_batch_id (sent_payload cfg now r) = tb_batch_id (br_payload r)" "tb_node_id (sent_payload cfg now r) = tb_node_id (br_payload r)"
  "tb_sequence_number (sent_payload cfg now r) = tb_sequence_number (br_payload r)"
  by (simp_all add: sent_payload_def)

text \<open>What a batch adds to the log: nothing, or itself; and then it is settled or the node is left.\<close>

lemma sync_record_log:
  assumes "sync_record render cfg env node r (st, s) = (v, st', s')" "covers s [r]" "br_batch_id r = tb_batch_id (br_payload r)"
    "outbox_inv P s"
  shows "(sy_sent s' = sy_sent s \<and> v \<noteq> GoOn) \<or> (\<exists>p. sy_sent s' = sy_sent s @ [p] \<and>
    tb_sequence_number (fst p) = tb_sequence_number (br_payload r) \<and> tb_node_id (fst p) = tb_node_id (br_payload r) \<and>
    tb_batch_id (fst p) = br_batch_id r \<and> (v = GoOn \<longrightarrow> settled_in s' p))"
  using assms(1)
proof (cases rule: sync_record_cases)
  case (quarantined f er)
  from assms(2) obtain x where x: "x \<in> set (rows s)" "br_batch_id x = br_batch_id r" "br_payload x = br_payload r"
    by (auto simp: covers_def)
  then have "br_node_id x = tb_node_id (br_payload r)" using assms(4) by (auto simp: outbox_inv_def row_ok_def)
  moreover from x have "f x \<in> set (rows s')" by (force simp: quarantined(5) update_where_def)
  moreover have "br_batch_id (f x) = br_batch_id r" "br_node_id (f x) = br_node_id x"
    using quarantined(6) x(2) by (simp_all add: keeps_batch_def)
  ultimately have "settled_in s' (sent_payload cfg (en_now env (br_batch_id r)) r, Some er)"
    using quarantined(7) assms(3) by (auto simp: settled_in_def)
  with quarantined(4) assms(3) show ?thesis by simp
qed (use assms(3) in \<open>auto simp: settled_in_def\<close>)

lemma sync_records_log:
  assumes "sync_records render cfg env node rs (st, s) = (c, st', s')" "outbox_inv P s" "covers s rs"
    "distinct (map br_batch_id rs)" "sorted (map br_sequence_number rs)"
    "\<forall>r \<in> set rs. br_batch_id r = tb_batch_id (br_payload r) \<and> br_sequence_number r = tb_sequence_number (br_payload r) \<and>
       tb_node_id (br_payload r) = node"
  shows "\<exists>new. sy_sent s' = sy_sent s @ new \<and> sorted (map (\<lambda>p. tb_sequence_number (fst p)) new) \<and>
    (\<forall>p \<in> set (butlast new). settled_in s' p) \<and>
    (\<forall>p \<in> set new. tb_node_id (fst p) = node \<and> (\<exists>r \<in> set rs. tb_batch_id (fst p) = br_batch_id r \<and>
       tb_sequence_number (fst p) = br_sequence_number r))"
  using assms
proof (induction rs arbitrary: st s)
  case (Cons r rs)
  obtain v st1 s1 where r: "sync_record render cfg env node r (st, s) = (v, st1, s1)" by (cases "sync_record render cfg env node r (st, s)")
  have "covers s [r]" using Cons.prems(3) by (simp add: covers_def)
  from sync_record_log [OF r this _ Cons.prems(2)] Cons.prems(6) consider "sy_sent s1 = sy_sent s" "v \<noteq> GoOn"
    | p where "sy_sent s1 = sy_sent s @ [p]" "tb_sequence_number (fst p) = br_sequence_number r" "tb_node_id (fst p) = node"
      "tb_batch_id (fst p) = br_batch_id r" "v = GoOn \<longrightarrow> settled_in s1 p" by auto
  then show ?case
  proof cases
    case 1
    with r Cons.prems(1) have "sy_sent s' = sy_sent s" by (cases v) auto
    then show ?thesis by (intro exI [of _ "[]"]) simp
  next
    case (2 p)
    show ?thesis
    proof (cases "v = GoOn")
      case False
      with r Cons.prems(1) have "s' = s1" by (cases v) auto
      with 2 show ?thesis by (intro exI [of _ "[p]"]) auto
    next
      case True
      have rest: "sync_records render cfg env node rs (st1, s1) = (c, st', s')" using r Cons.prems(1) True by simp
      from sync_record_inv [OF r Cons.prems(2,3)] have inv: "outbox_inv P s1" "covers s1 rs" by simp_all
      from Cons.IH [OF rest inv] Cons.prems(4-6) obtain new where new: "sy_sent s' = sy_sent s1 @ new"
        "sorted (map (\<lambda>p. tb_sequence_number (fst p)) new)" "\<forall>p \<in> set (butlast new). settled_in s' p"
        "\<forall>p \<in> set new. tb_node_id (fst p) = node \<and> (\<exists>r \<in> set rs. tb_batch_id (fst p) = br_batch_id r \<and>
           tb_sequence_number (fst p) = br_sequence_number r)" by auto
      have "settled_in s' p"
      proof (cases "snd p = None")
        case False
        with 2(5) True obtain x where x: "x \<in> set (rows s1)" "br_batch_id x = br_batch_id r" "br_sync_status x = SyncFailed"
          "br_node_id x = tb_node_id (fst p)" by (auto simp: settled_in_def 2(4))
        have "br_batch_id x \<notin> br_batch_id ` set rs" using x(2) Cons.prems(4) by auto
        from sync_records_other [OF rest x(1) this] x 2(4) show ?thesis by (auto simp: settled_in_def)
      qed (simp add: settled_in_def)
      moreover have "\<forall>q \<in> set new. tb_sequence_number (fst p) \<le> tb_sequence_number (fst q)"
        using new(4) 2(2) Cons.prems(5) by fastforce
      ultimately show ?thesis using new 2
        by (intro exI [of _ "p # new"]) auto
    qed
  qed
qed auto

lemma sync_node_log:
  assumes "sync_node render cfg env limit node (st, s) = (c, st', s')" "outbox_inv P s"
  shows "\<exists>new. sy_sent s' = sy_sent s @ new \<and> sorted (map (\<lambda>p. tb_sequence_number (fst p)) new) \<and>
    (\<forall>p \<in> set (butlast new). settled_in s' p) \<and> (\<forall>p \<in> set new. tb_node_id (fst p) = node) \<and>
    (\<forall>x \<in> set (rows s). br_node_id x \<noteq> node \<longrightarrow> x \<in> set (rows s'))"
proof (cases "en_node_ctx env node")
  case (Some c)
  with assms show ?thesis by (intro exI [of _ "[]"]) (simp add: sync_node_def)
next
  case live: None
  show ?thesis
  proof (cases "get_pending_batches_by_node (en_list_io env node) node limit (sy_store s)")
    case (Inl er)
    with assms live show ?thesis by (intro exI [of _ "[]"]) (simp add: sync_node_def)
  next
    case (Inr rs)
    note rs = pending_by_node_set [OF Inr]
    have loop: "sync_records render cfg env node rs (st, s) = (c, st', s')"
      using assms(1) live Inr by (simp add: sync_node_def)
    have cov: "covers s rs" using rs by (auto simp: covers_def)
    have ok: "\<forall>r \<in> set rs. br_batch_id r = tb_batch_id (br_payload r) \<and> br_sequence_number r = tb_sequence_number (br_payload r) \<and>
        tb_node_id (br_payload r) = node" "distinct (map br_batch_id rs)"
      using rs assms(2) by (auto simp: outbox_inv_def row_ok_def)
    have "x \<in> set (rows s')" if "x \<in> set (rows s)" "br_node_id x \<noteq> node" for x
    proof (rule sync_records_other [OF loop that(1)])
      have "x \<notin> set rs" using that rs by auto
      moreover have "set rs \<subseteq> set (rows s)" using rs by auto
      ultimately show "br_batch_id x \<notin> br_batch_id ` set rs"
        using assms(2) that(1) by (auto simp: outbox_inv_def distinct_map inj_on_def)
    qed
    with sync_records_log [OF loop assms(2) cov ok(2) _ ok(1)] rs show ?thesis by blast
  qed
qed

text \<open>The log of a cycle, node by node.\<close>

definition in_order :: "sync_state \<Rightarrow> (telemetry_batch \<times> sync_err option) list \<Rightarrow> bool" where
  "in_order s lg \<longleftrightarrow> sorted (map (\<lambda>p. tb_sequence_number (fst p)) lg) \<and> (\<forall>p \<in> set (butlast lg). settled_in s p)"

abbreviation of_node :: "string \<Rightarrow> (telemetry_batch \<times> sync_err option) list \<Rightarrow> (telemetry_batch \<times> sync_err option) list" where
  "of_node n lg \<equiv> filter (\<lambda>p. tb_node_id (fst p) = n) lg"

lemma settled_in_keep:
  assumes "settled_in s p" "\<forall>x \<in> set (rows s). br_node_id x \<noteq> node \<longrightarrow> x \<in> set (rows s')" "tb_node_id (fst p) \<noteq> node"
  shows "settled_in s' p"
  using assms unfolding settled_in_def by metis

lemma sync_nodes_log:
  assumes "sync_nodes render cfg env limit ns (st, s) = (c, st', s')" "outbox_inv P s" "distinct ns"
  shows "\<exists>new. sy_sent s' = sy_sent s @ new \<and> (\<forall>n. in_order s' (of_node n new)) \<and>
    (\<forall>p \<in> set new. tb_node_id (fst p) \<in> set ns) \<and> (\<forall>x \<in> set (rows s). br_node_id x \<notin> set ns \<longrightarrow> x \<in> set (rows s'))"
  using assms
proof (induction ns arbitrary: st s)
  case (Cons n ns)
  obtain c1 st1 s1 where r: "sync_node render cfg env limit n (st, s) = (c1, st1, s1)"
    by (cases "sync_node render cfg env limit n (st, s)")
  from sync_node_log [OF r Cons.prems(2)] obtain new where new: "sy_sent s1 = sy_sent s @ new"
    "sorted (map (\<lambda>p. tb_sequence_number (fst p)) new)" "\<forall>p \<in> set (butlast new). settled_in s1 p"
    "\<forall>p \<in> set new. tb_node_id (fst p) = n" "\<forall>x \<in> set (rows s). br_node_id x \<noteq> n \<longrightarrow> x \<in> set (rows s1)" by blast
  have node: "of_node m new = (if m = n then new else [])" for m
    using new(4) by (auto simp: filter_id_conv filter_empty_conv)
  show ?case
  proof (cases c1)
    case (Some e)
    with r Cons.prems(1) have "s' = s1" by simp
    with new node show ?thesis by (intro exI [of _ new]) (auto simp: in_order_def)
  next
    case None
    with r Cons.prems(1) have rest: "sync_nodes render cfg env limit ns (st1, s1) = (c, st', s')" by simp
    from Cons.IH [OF this sync_node_inv [OF r Cons.prems(2)]] Cons.prems(3) obtain more where more:
      "sy_sent s' = sy_sent s1 @ more" "\<forall>n. in_order s' (of_node n more)" "\<forall>p \<in> set more. tb_node_id (fst p) \<in> set ns"
      "\<forall>x \<in> set (rows s1). br_node_id x \<notin> set ns \<longrightarrow> x \<in> set (rows s')" by auto
    have n: "n \<notin> set ns" using Cons.prems(3) by simp
    have "settled_in s' p" if "p \<in> set (butlast new)" for p
    proof -
      have "tb_node_id (fst p) = n" using that new(4) by (meson in_set_butlastD)
      with that new(3) more(4) n show ?thesis unfolding settled_in_def by metis
    qed
    then have first: "in_order s' new" using new(2) by (simp add: in_order_def)
    have "of_node m (new @ more) = (if m = n then new else of_node m more)" for m
      using node n more(3) by (auto simp: filter_empty_conv)
    then have "in_order s' (of_node m (new @ more))" for m using first more(2) by simp
    with new more show ?thesis by (intro exI [of _ "new @ more"]) auto
  qed
qed (auto simp: in_order_def)

text \<open>
  Order and isolation: in a synchronisation cycle the batches of a node are handed to the
  transport in the order of their sequence numbers, and only after every earlier one of that node has
  been acknowledged or, refused for good, quarantined; a node whose batch fails transiently stops.
\<close>

theorem batches_sent_in_order:
  assumes "empty_outbox s0" "s = tel_run render ops s0" "sync_pending_batches render cfg env limit s = (res, s')"
  shows "\<exists>new. sy_sent s' = sy_sent s @ new \<and> (\<forall>n. in_order s' (of_node n new))"
proof (cases "get_pending_nodes (en_nodes_io env) (sy_store s)")
  case (Inl er)
  with assms(3) show ?thesis by (intro exI [of _ "[]"]) (simp add: sync_pending_batches_def in_order_def)
next
  case (Inr ns)
  then have "distinct ns" by (auto simp: get_pending_nodes_def split: option.splits)
  obtain c st s2 where "sync_nodes render cfg env (if limit \<le> 0 then 50 else limit) ns (new_stats, s) = (c, st, s2)"
    by (cases "sync_nodes render cfg env (if limit \<le> 0 then 50 else limit) ns (new_stats, s)")
  moreover from this Inr assms(3) have "s2 = s'" by (auto simp: sync_pending_batches_def)
  ultimately show ?thesis
    using sync_nodes_log [OF _ outbox_run_inv [OF assms(1), of render ops] \<open>distinct ns\<close>] assms(2) by blast
qed

section \<open>Examples\<close>

text \<open>The properties of the telemetry pipeline at concrete inputs.\<close>

definition example_batch :: "string \<Rightarrow> int \<Rightarrow> telemetry_batch" where
  "example_batch i q =
     \<lparr>tb_batch_id = i, tb_node_id = ''n'', tb_sequence_number = q, tb_collected_at = 5, tb_sent_at = None, tb_attempt = 0,
      tb_metrics = [\<lparr>ms_sample_id = [], ms_node_id = [], ms_name = ''cpu'', ms_value = Fin 1, ms_unit = [],
        ms_labels = [], ms_timestamp = 5\<rparr>]\<rparr>"

definition empty_state :: sync_state where
  "empty_state = \<lparr>sy_store = \<lparr>ts_closed = False, ts_rows = []\<rparr>, sy_audit = None, sy_sent = []\<rparr>"

lemma empty_state_outbox: "empty_outbox empty_state"
  by (simp add: empty_outbox_def empty_state_def)

lemma not_blank_batch: "\<not> blank ''a''" "\<not> blank ''b''" "\<not> blank ''n''" "\<not> blank ''cpu''"
  by code_simp+

lemma example_batch_valid: "0 \<le> q \<Longrightarrow> \<not> blank i \<Longrightarrow> telemetry_batch_validate (example_batch i q) = None"
  by (simp add: telemetry_batch_validate_def example_batch_def not_blank_batch is_zero_def metric_sample_validate_def)

lemma example_persisted: "fst (persist_batch IoOk 6 (Some (example_batch ''a'' 1)) (sy_store (tel_run render [] empty_state))) = None"
  by (simp add: tel_run_def persist_batch_def example_batch_valid not_blank_batch)
     (simp add: empty_state_def find_batch_def)

text \<open>A cycle in which the database answers and the transport always reports the same.\<close>

definition example_env :: "sync_err option \<Rightarrow> sync_env" where
  "example_env answer =
     \<lparr>en_nodes_io = IoOk, en_list_io = (\<lambda>_. IoOk), en_node_ctx = (\<lambda>_. None), en_batch_ctx = (\<lambda>_. None),
      en_after_ctx = (\<lambda>_. None), en_now = (\<lambda>_. 7), en_send = (\<lambda>_. answer), en_mark_io = (\<lambda>_. IoOk),
      en_check_io = (\<lambda>_. IoOk), en_audit_io = (\<lambda>_. IoOk)\<rparr>"

abbreviation unavailable :: sync_err where
  "unavailable \<equiv> sync_error KServerUnavailable (Lit ''x'')"

theorem telemetry_not_lost_witness:
  "(\<exists>r \<in> set (ts_rows (sy_store (tel_run (\<lambda>_. []) ([] @ TPersist IoOk 6 (example_batch ''a'' 1) #
       [TSync (new_syncer ViaNats 0) (example_env (Some unavailable)) 0, TPrune IoOk 9 0]) empty_state))).
     br_payload r = example_batch ''a'' 1 \<and> (br_sync_status r = SyncPending \<or> br_sync_status r = SyncFailed)) \<or>
   acked (sy_sent (tel_run (\<lambda>_. []) ([] @ TPersist IoOk 6 (example_batch ''a'' 1) #
       [TSync (new_syncer ViaNats 0) (example_env (Some unavailable)) 0, TPrune IoOk 9 0]) empty_state)) (example_batch ''a'' 1)"
  by (rule telemetry_not_lost [OF empty_state_outbox example_persisted refl])

lemma example_latest:
  "get_latest_sequence_number IoOk ''n'' (sy_store (tel_run render ([] @ TPersist IoOk 6 (example_batch ''a'' 1) # []) empty_state)) = Inr 1"
  by (simp add: tel_run_def persist_batch_def example_batch_valid not_blank_batch)
     (simp add: empty_state_def find_batch_def get_latest_sequence_number_def max_sequence_def new_row_def example_batch_def)

theorem sequence_high_water_mark_witness: "tb_sequence_number (example_batch ''a'' 1) \<le> 1"
  by (rule sequence_high_water_mark [OF empty_state_outbox example_persisted, where after = "[]" and io' = IoOk and render = "\<lambda>_. []"])
     (use example_latest in \<open>simp add: example_batch_def\<close>)

lemma example_env_healthy: "healthy (example_env answer)"
  by (simp add: healthy_def example_env_def)

theorem outbox_drains_witness:
  "filter (\<lambda>r. br_sync_status r = SyncPending)
     (ts_rows (sy_store (tel_run (\<lambda>_. []) (map (\<lambda>(env, limit). TSync (new_syncer ViaNats 2) env limit)
       [(example_env (Some unavailable), 0), (example_env None, 0)])
       (tel_run (\<lambda>_. []) [TPersist IoOk 6 (example_batch ''a'' 1)] empty_state)))) = []"
proof -
  let ?s = "tel_run (\<lambda>_. []) [TPersist IoOk 6 (example_batch ''a'' 1)] empty_state"
  have "\<not> ts_closed (sy_store ?s)"
    "backlog (new_syncer ViaNats 2) ?s \<le> length [(example_env (Some unavailable), 0 :: int), (example_env None, 0)]"
    by (simp_all add: tel_run_def persist_batch_def example_batch_valid not_blank_batch)
       (simp_all add: empty_state_def find_batch_def backlog_def tries_left_def new_row_def new_syncer_def example_batch_def is_pending_def)
  from outbox_drains [OF empty_state_outbox refl this(1) _ _ this(2)] show ?thesis
    unfolding filter_empty_conv by (simp add: example_env_healthy new_syncer_def)
qed

theorem batches_sent_in_order_witness:
  "\<exists>new. sy_sent (snd (sync_pending_batches (\<lambda>_. []) (new_syncer ViaHttp 0) (example_env None) 0
      (tel_run (\<lambda>_. []) [TPersist IoOk 6 (example_batch ''b'' 2), TPersist IoOk 6 (example_batch ''a'' 1)] empty_state))) =
    sy_sent (tel_run (\<lambda>_. []) [TPersist IoOk 6 (example_batch ''b'' 2), TPersist IoOk 6 (example_batch ''a'' 1)] empty_state) @ new"
  using batches_sent_in_order [OF empty_state_outbox refl prod.collapse [symmetric],
    of "\<lambda>_. []" "new_syncer ViaHttp 0" "example_env None" 0 "[TPersist IoOk 6 (example_batch ''b'' 2), TPersist IoOk 6 (example_batch ''a'' 1)]"]
  by blast

end
