(* ===== verification/Checkpoint_Store.thy ===== *)
theory Checkpoint_Store
  imports Mitigation_Store
begin

text \<open>
  The runtime checkpoints and the node identity of the edge store (\<open>edge/agent/storage/store.go\<close>,
  \<open>edge/agent/storage/sqlite.go\<close>) and the resolution of the identity
  (\<open>edge/agent/coordination/identity.go\<close>).  \<open>checkpoint_id\<close> is the primary key of
  \<open>runtime_checkpoints\<close>; \<open>node_identity\<close> is the table of the identities saved so far.
\<close>

section \<open>Checkpoints\<close>

record stored_checkpoint =
  cp_checkpoint_id :: string
  cp_node_id :: string
  cp_state :: string
  cp_started_at :: gotime
  cp_completed_at :: "gotime option"
  cp_recovery_reason :: string
  cp_last_reconciled_attempt :: int
  cp_schema_version :: int
  cp_created_at :: gotime
  cp_updated_at :: gotime

definition stored_checkpoint_validate :: "stored_checkpoint \<Rightarrow> store_err option" where
  "stored_checkpoint_validate c =
     (if blank (cp_checkpoint_id c) then Some (ErrInvalidRecord ''checkpoint_id cannot be empty'')
      else if blank (cp_node_id c) then Some (ErrInvalidRecord ''node_id cannot be empty'')
      else if blank (cp_state c) then Some (ErrInvalidRecord ''state cannot be empty'')
      else if is_zero (cp_started_at c) then Some (ErrInvalidRecord ''started_at timestamp cannot be zero'')
      else if cp_schema_version c \<le> 0 then Some (ErrInvalidRecord ''schema_version must be positive'')
      else let reason = to_lower (cp_recovery_reason c)
        in if list_ex (contains reason) [''password'', ''secret'', ''bearer '', ''token'']
           then Some (ErrInvalidRecord ''sensitive credential pattern rejected in recovery reason'')
           else if list_ex (contains reason) [''/bin/sh'', ''powershell'', ''cmd.exe'', ''exec.command'']
           then Some (ErrInvalidRecord ''executable command pattern rejected in recovery reason'')
           else None)"

record checkpoint_store =
  cs_closed :: bool
  cs_rows :: "stored_checkpoint list"
  cs_identity :: "(string \<times> gotime) list"

definition find_checkpoint :: "string \<Rightarrow> stored_checkpoint list \<Rightarrow> stored_checkpoint option" where
  "find_checkpoint i rows = find (\<lambda>c. cp_checkpoint_id c = i) rows"

text \<open>An insertion whose key exists updates the columns that \<open>DO UPDATE SET\<close> names.\<close>

definition save_checkpoint ::
  "db_io \<Rightarrow> stored_checkpoint \<Rightarrow> checkpoint_store \<Rightarrow> store_err option \<times> checkpoint_store" where
  "save_checkpoint io c s =
     (case stored_checkpoint_validate c of Some e \<Rightarrow> (Some e, s) | None \<Rightarrow>
      case db_guard (cs_closed s) io of Some e \<Rightarrow> (Some e, s) | None \<Rightarrow>
        (None, s\<lparr>cs_rows :=
          (case find_checkpoint (cp_checkpoint_id c) (cs_rows s) of
             None \<Rightarrow> cs_rows s @ [c]
           | Some _ \<Rightarrow> update_where (\<lambda>r. cp_checkpoint_id r = cp_checkpoint_id c)
               (\<lambda>r. r\<lparr>cp_state := cp_state c, cp_completed_at := cp_completed_at c,
                      cp_recovery_reason := cp_recovery_reason c,
                      cp_last_reconciled_attempt := cp_last_reconciled_attempt c,
                      cp_updated_at := cp_updated_at c\<rparr>) (cs_rows s))\<rparr>))"

text \<open>\<open>ORDER BY created_at DESC, checkpoint_id DESC\<close>, on the text of the timestamps.\<close>

definition checkpoint_order :: "stored_checkpoint list \<Rightarrow> stored_checkpoint list" where
  "checkpoint_order rows =
     sort_by (\<lambda>a b. (format_db_time (cp_created_at b), cp_checkpoint_id b) <
                    (format_db_time (cp_created_at a), cp_checkpoint_id a)) rows"

definition get_latest_checkpoint ::
  "db_io \<Rightarrow> string \<Rightarrow> checkpoint_store \<Rightarrow> store_err + stored_checkpoint option" where
  "get_latest_checkpoint io node s =
     (if blank node then Inl (ErrBlankArgument ''node_id'')
      else case db_guard (cs_closed s) io of Some e \<Rightarrow> Inl e | None \<Rightarrow>
        Inr (case checkpoint_order (filter (\<lambda>c. cp_node_id c = node) (cs_rows s)) of
               [] \<Rightarrow> None | c # _ \<Rightarrow> Some c))"

definition list_checkpoints ::
  "db_io \<Rightarrow> string \<Rightarrow> int \<Rightarrow> checkpoint_store \<Rightarrow> store_err + stored_checkpoint list" where
  "list_checkpoints io node limit s =
     (case db_guard (cs_closed s) io of Some e \<Rightarrow> Inl e | None \<Rightarrow>
        Inr (take (if limit \<le> 0 then 100 else nat limit)
          (checkpoint_order (filter (\<lambda>c. cp_node_id c = node) (cs_rows s)))))"

section \<open>Mitigations of one status\<close>

text \<open>\<open>ORDER BY started_at ASC, action_id ASC LIMIT n\<close>; a limit that is not positive is 100.\<close>

definition mitigation_order :: "stored_mitigation list \<Rightarrow> stored_mitigation list" where
  "mitigation_order rows = sort_key (\<lambda>r. format_db_time (sm_started_at r)) (sort_key sm_action_id rows)"

definition list_mitigations_by_status ::
  "db_io \<Rightarrow> mitigation_status \<Rightarrow> int \<Rightarrow> mitigation_store \<Rightarrow> store_err + stored_mitigation list" where
  "list_mitigations_by_status io st limit s =
     (case db_guard (mt_closed s) io of Some e \<Rightarrow> Inl e | None \<Rightarrow>
        Inr (take (if limit \<le> 0 then 100 else nat limit)
          (mitigation_order (filter (\<lambda>r. sm_status r = st) (mt_rows s)))))"

lemma set_mitigation_order [simp]: "set (mitigation_order rows) = set rows"
  by (simp add: mitigation_order_def)

lemma length_mitigation_order [simp]: "length (mitigation_order rows) = length rows"
  by (simp add: mitigation_order_def)

lemma mitigation_order_Nil [simp]: "mitigation_order rows = [] \<longleftrightarrow> rows = []"
  by (metis length_0_conv length_mitigation_order)

lemma distinct_mitigation_order:
  "distinct (map sm_action_id rows) \<Longrightarrow> distinct (map sm_action_id (mitigation_order rows))"
proof -
  have "mset (map sm_action_id (mitigation_order rows)) = mset (map sm_action_id rows)"
    by (simp add: mitigation_order_def)
  then show "distinct (map sm_action_id rows) \<Longrightarrow> distinct (map sm_action_id (mitigation_order rows))"
    by (metis mset_eq_imp_distinct_iff)
qed

section \<open>Node identity\<close>

definition identity_char :: "char \<Rightarrow> bool" where
  "identity_char c \<longleftrightarrow> (97 \<le> byte c \<and> byte c \<le> 122) \<or> (65 \<le> byte c \<and> byte c \<le> 90) \<or>
     (48 \<le> byte c \<and> byte c \<le> 57) \<or> c = CHR ''-'' \<or> c = CHR ''_''"

definition validate_node_id :: "string \<Rightarrow> store_err option" where
  "validate_node_id node =
     (let i = trim_space node in
      if i = [] then Some ErrInvalidNodeIdentity
      else if length i < 3 \<or> 128 < length i then Some ErrInvalidNodeIdentity
      else if \<not> list_all identity_char i then Some ErrInvalidNodeIdentity
      else if list_ex (contains (to_lower i)) [''secret'', ''password'', ''token''] then Some ErrInvalidNodeIdentity
      else None)"

definition get_node_identity :: "db_io \<Rightarrow> checkpoint_store \<Rightarrow> store_err + string" where
  "get_node_identity io s =
     (case db_guard (cs_closed s) io of Some e \<Rightarrow> Inl e | None \<Rightarrow>
        (case cs_identity s of [] \<Rightarrow> Inl ErrNodeIdentityNotFound | (i, _) # _ \<Rightarrow> Inr i))"

definition save_node_identity ::
  "db_io \<Rightarrow> gotime \<Rightarrow> string \<Rightarrow> checkpoint_store \<Rightarrow> store_err option \<times> checkpoint_store" where
  "save_node_identity io now node s =
     (if cs_closed s then (Some ErrStoreClosed, s)
      else case validate_node_id node of Some e \<Rightarrow> (Some e, s) | None \<Rightarrow>
      case io_err io of Some e \<Rightarrow> (Some e, s) | None \<Rightarrow>
        (case cs_identity s of
           (i, _) # _ \<Rightarrow> (if i = node then None else Some ErrInvalidNodeIdentity, s)
         | [] \<Rightarrow> (None, s\<lparr>cs_identity := [(node, now)]\<rparr>)))"

text \<open>\<open>rnd\<close> is what \<open>crypto/rand\<close> answers: eight bytes, or \<open>None\<close> when it fails.\<close>

definition get_or_create_node_identity ::
  "db_io \<Rightarrow> gotime \<Rightarrow> nat list option \<Rightarrow> string \<Rightarrow> checkpoint_store \<Rightarrow> (store_err + string) \<times> checkpoint_store" where
  "get_or_create_node_identity io now rnd configured s =
     (case db_guard (cs_closed s) io of Some e \<Rightarrow> (Inl e, s) | None \<Rightarrow>
        (case cs_identity s of
           (i, _) # _ \<Rightarrow> (Inr i, s)
         | [] \<Rightarrow>
             (case (if trim_space configured \<noteq> [] then Some (trim_space configured)
                    else map_option (\<lambda>bytes. ''node-'' @ hex_bytes bytes) rnd) of
                None \<Rightarrow> (Inl StoreFault, s)
              | Some candidate \<Rightarrow>
                  (case validate_node_id candidate of Some e \<Rightarrow> (Inl e, s) | None \<Rightarrow>
                     (Inr candidate, s\<lparr>cs_identity := [(candidate, now)]\<rparr>)))))"

text \<open>\<open>ResolveNodeIdentity\<close>: a nil store is an error.\<close>

datatype identity_err = ErrNoIdentityStore | ErrResolveIdentity store_err

definition resolve_node_identity ::
  "db_io \<Rightarrow> gotime \<Rightarrow> nat list option \<Rightarrow> checkpoint_store option \<Rightarrow> string \<Rightarrow>
   (identity_err + string) \<times> checkpoint_store option" where
  "resolve_node_identity io now rnd so configured =
     (case so of None \<Rightarrow> (Inl ErrNoIdentityStore, None) | Some s \<Rightarrow>
        (case get_or_create_node_identity io now rnd configured s of
           (Inl e, s') \<Rightarrow> (Inl (ErrResolveIdentity e), Some s') | (Inr i, s') \<Rightarrow> (Inr i, Some s')))"

section \<open>The identity never changes\<close>

text \<open>Once an identity is resolved, every later resolution answers it, whatever is configured or saved.\<close>

datatype identity_op = SaveIdentity db_io gotime string | CreateIdentity db_io gotime "nat list option" string

fun identity_step :: "identity_op \<Rightarrow> checkpoint_store \<Rightarrow> checkpoint_store" where
  "identity_step (SaveIdentity io now node) s = snd (save_node_identity io now node s)"
| "identity_step (CreateIdentity io now rnd configured) s = snd (get_or_create_node_identity io now rnd configured s)"

definition identity_of :: "checkpoint_store \<Rightarrow> string option" where
  "identity_of s = (case cs_identity s of [] \<Rightarrow> None | (i, _) # _ \<Rightarrow> Some i)"

lemma identity_step_stable: "identity_of s = Some i \<Longrightarrow> identity_step op s = s"
  by (cases op) (auto simp: identity_of_def save_node_identity_def get_or_create_node_identity_def
      split: list.splits option.splits)

lemma identity_run_stable: "identity_of s = Some i \<Longrightarrow> fold identity_step ops s = s"
  by (induction ops) (simp_all add: identity_step_stable)

lemma created_identity:
  "get_or_create_node_identity io now rnd configured s = (Inr i, s') \<Longrightarrow>
     identity_of s' = Some i \<and> cs_closed s' = cs_closed s"
  by (auto simp: get_or_create_node_identity_def identity_of_def split: option.splits list.splits if_splits)

text \<open>
  The identity of a node is stable: once \<open>GetOrCreateNodeIdentity\<close> has answered an identity, every
  later call that succeeds answers the same one, whatever identities are configured or saved in
  between.
\<close>

theorem node_identity_is_stable:
  assumes "get_or_create_node_identity io now rnd configured s = (Inr i, s')"
    and "get_or_create_node_identity io' now' rnd' configured' (fold identity_step ops s') = (Inr j, s'')"
  shows "j = i \<and> s'' = s'"
proof -
  have "identity_of s' = Some i" using created_identity [OF assms(1)] by blast
  then have "identity_of (fold identity_step ops s') = Some i" "fold identity_step ops s' = s'"
    by (simp_all add: identity_run_stable)
  then show ?thesis using assms(2)
    by (auto simp: get_or_create_node_identity_def identity_of_def split: option.splits list.splits if_splits)
qed

text \<open>An identity saved with surrounding blanks passes the validation, which trims, and is stored untrimmed.\<close>

lemma padded_identity_saved:
  "save_node_identity IoOk 5 '' abc '' \<lparr>cs_closed = False, cs_rows = [], cs_identity = []\<rparr> =
     (None, \<lparr>cs_closed = False, cs_rows = [], cs_identity = [('' abc '', 5)]\<rparr>)"
proof -
  have "validate_node_id '' abc '' = None" by code_simp
  then show ?thesis by (simp add: save_node_identity_def)
qed

text \<open>The latest checkpoint is chosen by the text of its time, which is not its time.\<close>

lemma latest_checkpoint_by_text:
  assumes "format_db_time (cp_created_at b) < format_db_time (cp_created_at a)" "cp_node_id a = n" "cp_node_id b = n" "\<not> blank n"
  shows "get_latest_checkpoint IoOk n \<lparr>cs_closed = False, cs_rows = [a, b], cs_identity = []\<rparr> = Inr (Some a)"
proof -
  have "\<not> format_db_time (cp_created_at a) < format_db_time (cp_created_at b)"
    "\<not> format_db_time (cp_created_at a) \<le> format_db_time (cp_created_at b)" using assms(1) by order+
  with assms show ?thesis
    by (simp add: get_latest_checkpoint_def checkpoint_order_def sort_by_def)
qed

end
