(* ===== verification/Health.thy ===== *)
theory Health
  imports Prelude
begin

text \<open>
  \<open>edge/agent/health\<close>: the service state of the agent, the checks of its subsystems, and the answers
  of the liveness and readiness probes.
\<close>

section \<open>States and checks\<close>

datatype service_state = StateInitializing | StateReady | StateDegraded | StateShuttingDown | ServiceOther string

datatype check_status = StatusOk | StatusDegraded | StatusFailed | StatusUnknown | CheckStatusOther string

datatype check_name =
    CheckConfig | CheckStorage | CheckTelemetry | CheckIncidentEngine | CheckResponseEngine
  | CheckMetrics | CheckRecovery | CheckControlPlane | CheckOther string

datatype health_err = HealthInvalidTransition | ErrUnknownCheckName | ErrUnknownCheckStatus

record check_info =
  ci_name :: check_name
  ci_status :: check_status
  ci_required :: bool
  ci_message :: string
  ci_observed_at :: gotime

fun service_state_valid :: "service_state \<Rightarrow> bool" where
  "service_state_valid (ServiceOther _) = False"
| "service_state_valid _ = True"

fun check_status_valid :: "check_status \<Rightarrow> bool" where
  "check_status_valid (CheckStatusOther _) = False"
| "check_status_valid _ = True"

fun check_name_valid :: "check_name \<Rightarrow> bool" where
  "check_name_valid (CheckOther _) = False"
| "check_name_valid _ = True"

definition service_can :: "service_state \<Rightarrow> service_state \<Rightarrow> bool" where
  "service_can s t \<longleftrightarrow> service_state_valid s \<and> service_state_valid t \<and>
     (s = t \<or>
      (case s of
         StateInitializing \<Rightarrow> t = StateReady \<or> t = StateDegraded \<or> t = StateShuttingDown
       | StateReady \<Rightarrow> t = StateDegraded \<or> t = StateShuttingDown
       | StateDegraded \<Rightarrow> t = StateReady \<or> t = StateShuttingDown
       | _ \<Rightarrow> False))"

text \<open>Marks that a diagnostic may not contain: of paths, queries, secrets, identifiers and errors.\<close>

definition sensitive_marks :: "string list" where
  "sensitive_marks = [''/'', [CHR 0x5C], '':'', ''='', ''$'', ''%'', ''@'', '';'']"

definition sensitive_words :: "string list" where
  "sensitive_words = [''select'', ''insert'', ''update'', ''delete'', ''from'', ''where'', ''token'', ''key'', ''secret'', ''pass'',
     ''error'', ''panic'', ''exception'', ''inc-'', ''dec-'', ''act-'', ''corr-'', ''appr-'', ''escl-'', ''evt-'']"

definition sanitize_message :: "string \<Rightarrow> string" where
  "sanitize_message msg =
     (let m = trim_space msg in
      if m = [] then ''available''
      else if list_ex (contains m) sensitive_marks \<or> list_ex (contains (to_lower m)) sensitive_words then ''degraded''
      else take 32 m)"

section \<open>The tracker\<close>

record health_tracker =
  ht_state :: service_state
  ht_checks :: "(check_name \<times> check_info) list"

definition new_health_tracker :: health_tracker where
  "new_health_tracker = \<lparr>ht_state = StateInitializing, ht_checks = []\<rparr>"

definition health_transition :: "service_state \<Rightarrow> health_tracker \<Rightarrow> health_err option \<times> health_tracker" where
  "health_transition to t =
     (if service_can (ht_state t) to then (None, t\<lparr>ht_state := to\<rparr>) else (Some HealthInvalidTransition, t))"

definition register_check :: "gotime \<Rightarrow> check_name \<Rightarrow> bool \<Rightarrow> health_tracker \<Rightarrow> health_err option \<times> health_tracker" where
  "register_check now name required t =
     (if \<not> check_name_valid name then (Some ErrUnknownCheckName, t)
      else (None, t\<lparr>ht_checks := AList.update name
        (case map_of (ht_checks t) name of
           Some info \<Rightarrow> info\<lparr>ci_required := required\<rparr>
         | None \<Rightarrow> \<lparr>ci_name = name, ci_status = StatusUnknown, ci_required = required, ci_message = ''initialized'',
             ci_observed_at = now\<rparr>) (ht_checks t)\<rparr>))"

definition all_required_ok :: "health_tracker \<Rightarrow> bool" where
  "all_required_ok t \<longleftrightarrow> list_all (\<lambda>(_, i). ci_required i \<longrightarrow> ci_status i = StatusOk) (ht_checks t)"

definition set_check_status ::
  "gotime \<Rightarrow> check_name \<Rightarrow> check_status \<Rightarrow> string \<Rightarrow> health_tracker \<Rightarrow> health_err option \<times> health_tracker" where
  "set_check_status now name status msg t =
     (if \<not> check_name_valid name then (Some ErrUnknownCheckName, t)
      else if \<not> check_status_valid status then (Some ErrUnknownCheckStatus, t)
      else
        let info = (case map_of (ht_checks t) name of
               Some i \<Rightarrow> i\<lparr>ci_status := status, ci_message := sanitize_message msg, ci_observed_at := now\<rparr>
             | None \<Rightarrow> \<lparr>ci_name = name, ci_status = status, ci_required = True, ci_message = sanitize_message msg,
                 ci_observed_at = now\<rparr>);
            t' = t\<lparr>ht_checks := AList.update name info (ht_checks t)\<rparr>
        in (None,
          if ht_state t = StateReady
          then if ci_required info \<and> (status = StatusFailed \<or> status = StatusDegraded \<or> status = StatusUnknown)
               then t'\<lparr>ht_state := StateDegraded\<rparr> else t'
          else if ht_state t = StateDegraded \<and> all_required_ok t' then t'\<lparr>ht_state := StateReady\<rparr>
          else t'))"

definition get_check :: "check_name \<Rightarrow> health_tracker \<Rightarrow> check_info option" where
  "get_check name t = map_of (ht_checks t) name"

definition is_live :: "health_tracker \<Rightarrow> bool" where
  "is_live t \<longleftrightarrow> ht_state t \<noteq> StateShuttingDown"

definition is_ready :: "health_tracker \<Rightarrow> bool" where
  "is_ready t \<longleftrightarrow> ht_state t = StateReady \<and> all_required_ok t"

definition health_shutdown :: "health_tracker \<Rightarrow> health_tracker" where
  "health_shutdown t = t\<lparr>ht_state := StateShuttingDown\<rparr>"

record health_snapshot =
  hs_state :: service_state
  hs_live :: bool
  hs_ready :: bool
  hs_healthy :: bool
  hs_checks :: "(check_name \<times> check_info) list"
  hs_timestamp :: gotime

definition health_snapshot :: "gotime \<Rightarrow> health_tracker \<Rightarrow> health_snapshot" where
  "health_snapshot now t =
     \<lparr>hs_state = ht_state t, hs_live = (ht_state t \<noteq> StateShuttingDown),
      hs_ready = (ht_state t = StateReady \<and> all_required_ok t),
      hs_healthy = (ht_state t = StateReady \<and> list_all (\<lambda>(_, i). ci_status i = StatusOk) (ht_checks t)),
      hs_checks = ht_checks t, hs_timestamp = now\<rparr>"

section \<open>Probes\<close>

text \<open>The status code and the body a probe answers with; \<open>HEAD\<close> and refused methods have no body of their own.\<close>

record healthz_response =
  hz_status :: string
  hz_state :: service_state
  hz_live :: bool

record readyz_response =
  rz_status :: string
  rz_snapshot :: health_snapshot

definition healthz :: "string \<Rightarrow> health_tracker \<Rightarrow> nat \<times> healthz_response option" where
  "healthz http_method t =
     (if http_method \<noteq> ''GET'' \<and> http_method \<noteq> ''HEAD'' then (405, None)
      else (if is_live t then 200 else 503,
            if http_method = ''HEAD'' then None
            else Some \<lparr>hz_status = (if is_live t then ''ok'' else ''shutting_down''), hz_state = ht_state t, hz_live = is_live t\<rparr>))"

definition readyz :: "string \<Rightarrow> gotime \<Rightarrow> health_tracker \<Rightarrow> nat \<times> readyz_response option" where
  "readyz http_method now t =
     (if http_method \<noteq> ''GET'' \<and> http_method \<noteq> ''HEAD'' then (405, None)
      else let s = health_snapshot now t
        in (if hs_ready s then 200 else 503,
            if http_method = ''HEAD'' then None
            else Some \<lparr>rz_status = (if hs_ready s then ''ready'' else ''not_ready''), rz_snapshot = s\<rparr>))"

section \<open>Calls\<close>

datatype health_op =
    HTransition service_state | HRegister gotime check_name bool
  | HSet gotime check_name check_status string | HShutdown

fun health_step :: "health_op \<Rightarrow> health_tracker \<Rightarrow> health_tracker" where
  "health_step (HTransition to) t = snd (health_transition to t)"
| "health_step (HRegister now name required) t = snd (register_check now name required t)"
| "health_step (HSet now name status msg) t = snd (set_check_status now name status msg t)"
| "health_step HShutdown t = health_shutdown t"

definition health_run :: "health_op list \<Rightarrow> health_tracker \<Rightarrow> health_tracker" where
  "health_run ops t = fold health_step ops t"

section \<open>The state machine\<close>

text \<open>Every call moves the service state along its machine, or leaves it.\<close>

lemma set_check_status_state:
  "ht_state (snd (set_check_status now name status msg t)) = ht_state t \<or>
     service_can (ht_state t) (ht_state (snd (set_check_status now name status msg t)))"
  by (simp add: set_check_status_def Let_def service_can_def)

lemma health_step_can:
  "ht_state (health_step op t) = ht_state t \<or> op = HShutdown \<or> service_can (ht_state t) (ht_state (health_step op t))"
  by (cases op) (use set_check_status_state in \<open>auto simp: health_transition_def register_check_def\<close>)

lemma shutting_down_step: "ht_state t = StateShuttingDown \<Longrightarrow> ht_state (health_step op t) = StateShuttingDown"
  using health_step_can [of op t] by (cases op) (auto simp: service_can_def health_shutdown_def)

lemma shutting_down_run: "ht_state t = StateShuttingDown \<Longrightarrow> ht_state (health_run ops t) = StateShuttingDown"
  by (induction ops arbitrary: t) (simp_all add: health_run_def shutting_down_step)

section \<open>Diagnostics\<close>

lemma contains_take: "contains (take n s) p \<Longrightarrow> contains s p"
  unfolding contains_iff by (metis append.assoc append_take_drop_id)

lemma sanitize_message_cases:
  "sanitize_message msg = ''available'' \<or> sanitize_message msg = ''degraded'' \<or>
     (sanitize_message msg = take 32 (trim_space msg) \<and> \<not> list_ex (contains (trim_space msg)) sensitive_marks)"
  by (auto simp: sanitize_message_def Let_def)

lemma length_sanitize_message: "length (sanitize_message msg) \<le> 32"
  by (simp add: sanitize_message_def Let_def)

lemma sanitize_message_clean: "\<not> list_ex (contains (sanitize_message msg)) sensitive_marks"
  using sanitize_message_cases [of msg]
proof (elim disjE conjE)
  assume m: "sanitize_message msg = take 32 (trim_space msg)" "\<not> list_ex (contains (trim_space msg)) sensitive_marks"
  then show ?thesis unfolding m(1) by (auto simp: list_ex_iff dest: contains_take)
qed (simp_all add: sensitive_marks_def has_prefix_def)

text \<open>A check's message, in every reachable state.\<close>

definition clean_checks :: "health_tracker \<Rightarrow> bool" where
  "clean_checks t \<longleftrightarrow> (\<forall>(n, i) \<in> set (ht_checks t). length (ci_message i) \<le> 32 \<and>
     \<not> list_ex (contains (ci_message i)) sensitive_marks)"

lemma clean_checks_update:
  assumes "clean_checks t" "length (ci_message i) \<le> 32 \<and> \<not> list_ex (contains (ci_message i)) sensitive_marks"
  shows "clean_checks (t\<lparr>ht_checks := AList.update n i (ht_checks t)\<rparr>)"
proof -
  have "set (AList.update n i xs) \<subseteq> insert (n, i) (set xs)" for xs :: "(check_name \<times> check_info) list"
    by (induction xs) auto
  with assms show ?thesis by (fastforce simp: clean_checks_def)
qed

lemma clean_checks_state [simp]: "clean_checks (t\<lparr>ht_state := s\<rparr>) = clean_checks t"
  by (simp add: clean_checks_def)

lemma health_step_clean: "clean_checks t \<Longrightarrow> clean_checks (health_step op t)"
proof (cases op)
  case (HRegister now name required)
  assume c: "clean_checks t"
  have "\<not> list_ex (contains ''initialized'') sensitive_marks" by (simp add: sensitive_marks_def has_prefix_def)
  with c HRegister show ?thesis
    by (auto simp: register_check_def intro!: clean_checks_update split: option.split)
      (auto simp: clean_checks_def dest!: map_of_SomeD)
next
  case (HSet now name status msg)
  assume "clean_checks t"
  then have "clean_checks (t\<lparr>ht_checks := AList.update name i (ht_checks t)\<rparr>)" if "ci_message i = sanitize_message msg" for i
    using that length_sanitize_message sanitize_message_clean by (intro clean_checks_update) auto
  with HSet \<open>clean_checks t\<close> show ?thesis
    by (auto simp: set_check_status_def Let_def split: option.split)
qed (auto simp: health_transition_def health_shutdown_def)

section \<open>Readiness\<close>

lemma clean_checks_run: "clean_checks t \<Longrightarrow> clean_checks (health_run ops t)"
  by (induction ops arbitrary: t) (simp_all add: health_run_def health_step_clean)

lemma not_ready_shutting_down:
  "ht_state t = StateShuttingDown \<Longrightarrow>
     fst (readyz ''GET'' now t) = 503 \<and> fst (healthz ''GET'' t) = 503"
  by (simp add: readyz_def healthz_def health_snapshot_def Let_def is_live_def)

lemma readyz_200_iff:
  "fst (readyz ''GET'' now t) = 200 \<longleftrightarrow> ht_state t = StateReady \<and> all_required_ok t"
  by (simp add: readyz_def health_snapshot_def Let_def)

text \<open>
  C20. Readiness is earned: however the agent got into its state, the readiness probe answers 200
  exactly when the service is READY and every required check is OK; after a shutdown neither probe
  answers 200 again, whatever is reported later; and no check shows a diagnostic with a mark of a
  path, a query or an assignment, or of more than 32 bytes.
\<close>

theorem readiness_is_earned:
  "(fst (readyz ''GET'' now (health_run ops new_health_tracker)) = 200 \<longleftrightarrow>
      ht_state (health_run ops new_health_tracker) = StateReady \<and>
      filter (\<lambda>(n, i). ci_required i \<and> ci_status i \<noteq> StatusOk) (ht_checks (health_run ops new_health_tracker)) = []) \<and>
   fst (readyz ''GET'' now (health_run (ops @ HShutdown # reports) new_health_tracker)) = 503 \<and>
   fst (healthz ''GET'' (health_run (ops @ HShutdown # reports) new_health_tracker)) = 503 \<and>
   list_all (\<lambda>(n, i). length (ci_message i) \<le> 32 \<and> \<not> list_ex (contains (ci_message i)) sensitive_marks)
     (ht_checks (health_run ops new_health_tracker))"
proof -
  let ?t = "health_run ops new_health_tracker"
  let ?u = "health_run (ops @ HShutdown # reports) new_health_tracker"
  have "?u = health_run reports (health_shutdown ?t)" by (simp add: health_run_def)
  then have "ht_state ?u = StateShuttingDown" by (simp add: shutting_down_run health_shutdown_def)
  moreover have "clean_checks ?t" by (rule clean_checks_run) (simp add: clean_checks_def new_health_tracker_def)
  moreover have "all_required_ok ?t \<longleftrightarrow> filter (\<lambda>(n, i). ci_required i \<and> ci_status i \<noteq> StatusOk) (ht_checks ?t) = []"
    by (auto simp: all_required_ok_def filter_empty_conv list_all_iff)
  ultimately show ?thesis
    using not_ready_shutting_down [of ?u now] readyz_200_iff [of now ?t]
    by (simp add: clean_checks_def list_all_iff)
qed

end
