(* ===== verification/Recovery.thy ===== *)
theory Recovery
  imports Checkpoint_Store Verification_Store Audit_Service Health
begin

text \<open>
  \<open>edge/agent/recovery\<close>: the recovery state machine and its tracker (\<open>state.go\<close>) and the startup
  reconciliation (\<open>manager.go\<close>) over the stores it reads and writes, the health tracker and the audit
  service.  What the environment supplies to one run (clock readings, failures, the text of errors)
  is a record; metrics are not modelled.
\<close>

section \<open>States and the tracker\<close>

datatype recovery_state =
    RecoveryNotRequired | RecoveryLoading | RecoveryReconciling | RecoveryBlocked
  | RecoveryComplete | RecoveryFailed | RecoveryOther string

fun recovery_state_string :: "recovery_state \<Rightarrow> string" where
  "recovery_state_string RecoveryNotRequired = ''RECOVERY_NOT_REQUIRED''"
| "recovery_state_string RecoveryLoading = ''RECOVERY_LOADING''"
| "recovery_state_string RecoveryReconciling = ''RECOVERY_RECONCILING''"
| "recovery_state_string RecoveryBlocked = ''RECOVERY_BLOCKED''"
| "recovery_state_string RecoveryComplete = ''RECOVERY_COMPLETE''"
| "recovery_state_string RecoveryFailed = ''RECOVERY_FAILED''"
| "recovery_state_string (RecoveryOther s) = s"

fun recovery_state_valid :: "recovery_state \<Rightarrow> bool" where
  "recovery_state_valid (RecoveryOther _) = False"
| "recovery_state_valid _ = True"

definition recovery_can :: "recovery_state \<Rightarrow> recovery_state \<Rightarrow> bool" where
  "recovery_can s t \<longleftrightarrow> recovery_state_valid s \<and> recovery_state_valid t \<and> s \<noteq> t \<and>
     (case s of
        RecoveryLoading \<Rightarrow> t = RecoveryNotRequired \<or> t = RecoveryReconciling \<or> t = RecoveryBlocked \<or> t = RecoveryFailed
      | RecoveryReconciling \<Rightarrow> t = RecoveryComplete \<or> t = RecoveryBlocked \<or> t = RecoveryFailed
      | RecoveryBlocked \<Rightarrow> t = RecoveryReconciling \<or> t = RecoveryFailed
      | RecoveryNotRequired \<Rightarrow> t = RecoveryLoading
      | RecoveryComplete \<Rightarrow> t = RecoveryLoading
      | RecoveryFailed \<Rightarrow> t = RecoveryLoading
      | _ \<Rightarrow> False)"

record recovery_tracker =
  rt_state :: recovery_state
  rt_reason :: string

definition new_recovery_tracker :: recovery_tracker where
  "new_recovery_tracker = \<lparr>rt_state = RecoveryLoading, rt_reason = []\<rparr>"

datatype recovery_err =
    RecoveryInvalidTransition | ErrRecoveryNodeId | ErrRecoveryStore
  | ErrRecoveryStep string store_err

definition recovery_transition ::
  "recovery_state \<Rightarrow> recovery_tracker \<Rightarrow> recovery_err option \<times> recovery_tracker" where
  "recovery_transition to t =
     (if recovery_can (rt_state t) to then (None, t\<lparr>rt_state := to\<rparr>) else (Some RecoveryInvalidTransition, t))"

definition set_recovery_reason :: "string \<Rightarrow> recovery_tracker \<Rightarrow> recovery_tracker" where
  "set_recovery_reason r t = t\<lparr>rt_reason := r\<rparr>"

definition recovery_is_complete :: "recovery_tracker \<Rightarrow> bool" where
  "recovery_is_complete t \<longleftrightarrow> rt_state t = RecoveryComplete \<or> rt_state t = RecoveryNotRequired"

definition recovery_is_blocked :: "recovery_tracker \<Rightarrow> bool" where
  "recovery_is_blocked t \<longleftrightarrow> rt_state t = RecoveryBlocked"

section \<open>The manager\<close>

text \<open>
  What a run works on: the stores of the edge, the trackers (a nil health tracker is allowed) and the
  audit service (\<open>None\<close> is the recorder that does nothing).
\<close>

record recovery_world =
  rw_node_id :: string
  rw_checkpoints :: checkpoint_store
  rw_mitigations :: mitigation_store
  rw_verifications :: verification_store
  rw_tracker :: recovery_tracker
  rw_health :: "health_tracker option"
  rw_audit :: "audit_service option"

text \<open>
  What the environment answers during a run: the failures of the store calls, the clock (its readings
  are \<open>re_start\<close>, \<open>re_now\<close> at the end, \<open>re_clock k\<close> in between), and the text of an error.
\<close>

record recovery_env =
  re_start :: gotime
  re_now :: gotime
  re_clock :: "nat \<Rightarrow> gotime"
  re_load_io :: db_io
  re_flight_io :: db_io
  re_unknown_io :: db_io
  re_pending_io :: db_io
  re_update_io :: "nat \<Rightarrow> db_io"
  re_verif_io :: db_io
  re_save_io :: db_io
  re_audit_io :: "nat \<Rightarrow> db_io"
  re_sha :: digest
  re_error_text :: "store_err \<Rightarrow> string"

definition new_recovery_manager ::
  "string \<Rightarrow> (checkpoint_store \<times> mitigation_store \<times> verification_store) option \<Rightarrow> recovery_tracker option \<Rightarrow>
   health_tracker option \<Rightarrow> audit_service option \<Rightarrow> recovery_err + recovery_world" where
  "new_recovery_manager node stores tracker hlth audit =
     (if blank node then Inl ErrRecoveryNodeId
      else case stores of None \<Rightarrow> Inl ErrRecoveryStore | Some (cs, ms, vs) \<Rightarrow>
        Inr \<lparr>rw_node_id = node, rw_checkpoints = cs, rw_mitigations = ms, rw_verifications = vs,
             rw_tracker = (case tracker of None \<Rightarrow> new_recovery_tracker | Some t \<Rightarrow> t),
             rw_health = hlth, rw_audit = audit\<rparr>)"

record recovery_decision =
  rd_state :: recovery_state
  rd_requires_intervention :: bool
  rd_reason :: string
  rd_in_flight :: nat
  rd_reconciled :: nat
  rd_timed_out :: nat
  rd_checkpoint_id :: string

text \<open>An event of the recovery: the fields the manager sets, every other one empty.\<close>

definition recovery_event ::
  "event_type \<Rightarrow> string \<Rightarrow> string \<Rightarrow> string \<Rightarrow> string \<Rightarrow> string \<Rightarrow> string \<Rightarrow> gomap \<Rightarrow> gotime \<Rightarrow> audit_event" where
  "recovery_event ty node incident action decision result reason meta stamp =
     \<lparr>ev_event_id = [], ev_event_type = ty, ev_timestamp = stamp, ev_node_id = node, ev_incident_id = incident,
      ev_decision_id = decision, ev_action_id = action, ev_approval_id = [], ev_mitigation_record_id = [],
      ev_verification_id = [], ev_escalation_id = [], ev_correlation_id = [], ev_policy_version = [],
      ev_actor = [], ev_result = result, ev_reason = reason, ev_metadata = meta\<rparr>"

text \<open>\<open>_ = m.auditRec.Record(...)\<close>: the answer is dropped.\<close>

definition record_recovery :: "recovery_env \<Rightarrow> nat \<Rightarrow> audit_event \<Rightarrow> recovery_world \<Rightarrow> recovery_world" where
  "record_recovery env k e w =
     w\<lparr>rw_audit := map_option (\<lambda>a. snd (audit_record (re_sha env) (re_audit_io env k) (re_clock env k) e a)) (rw_audit w)\<rparr>"

definition move_recovery :: "recovery_state \<Rightarrow> recovery_world \<Rightarrow> recovery_world" where
  "move_recovery to w = w\<lparr>rw_tracker := snd (recovery_transition to (rw_tracker w))\<rparr>"

definition explain_recovery :: "string \<Rightarrow> recovery_world \<Rightarrow> recovery_world" where
  "explain_recovery r w = w\<lparr>rw_tracker := set_recovery_reason r (rw_tracker w)\<rparr>"

definition report_recovery :: "gotime \<Rightarrow> check_status \<Rightarrow> string \<Rightarrow> recovery_world \<Rightarrow> recovery_world" where
  "report_recovery now st m w =
     w\<lparr>rw_health := map_option (\<lambda>h. snd (set_check_status now CheckRecovery st m h)) (rw_health w)\<rparr>"

definition fail_recovery :: "recovery_env \<Rightarrow> string \<Rightarrow> recovery_world \<Rightarrow> recovery_world" where
  "fail_recovery env reason w =
     (let w1 = (if rt_state (rw_tracker w) = RecoveryLoading \<or> rt_state (rw_tracker w) = RecoveryReconciling
                then move_recovery RecoveryFailed w else w)
      in report_recovery (re_now env) StatusFailed (''failed: '' @ reason) (explain_recovery reason w1))"

definition checkpoint_of ::
  "recovery_env \<Rightarrow> string \<Rightarrow> recovery_state \<Rightarrow> gotime option \<Rightarrow> string \<Rightarrow> stored_checkpoint" where
  "checkpoint_of env node st finished reason =
     \<lparr>cp_checkpoint_id = ''cp-'' @ node @ ''-'' @ itoa (unix_nano (re_start env)), cp_node_id = node,
      cp_state = recovery_state_string st, cp_started_at = re_start env, cp_completed_at = finished,
      cp_recovery_reason = reason, cp_last_reconciled_attempt = 1, cp_schema_version = 9,
      cp_created_at = re_start env, cp_updated_at = re_now env\<rparr>"

section \<open>The steps of a run\<close>

text \<open>The audit records of a run have the numbers 0, 1, ..., a pending mitigation those from 4 on.\<close>

definition begin_recovery :: "recovery_env \<Rightarrow> recovery_world \<Rightarrow> recovery_world" where
  "begin_recovery env w =
     record_recovery env 0 (recovery_event EventRecoveryStarted (rw_node_id w) ''system-recovery'' [] []
       ''success'' ''agent runtime restart recovery initiated'' [] (re_start env)) w"

definition audit_checkpoint :: "recovery_env \<Rightarrow> stored_checkpoint option \<Rightarrow> recovery_world \<Rightarrow> recovery_world" where
  "audit_checkpoint env co w =
     (case co of None \<Rightarrow> w | Some c \<Rightarrow>
        record_recovery env 1 (recovery_event EventRecoveryStateLoaded (rw_node_id w) ''system-recovery'' [] []
          ''success'' (''checkpoint '' @ cp_checkpoint_id c @ '' loaded with state '' @ cp_state c)
          [(''checkpoint_id'', cp_checkpoint_id c), (''state'', cp_state c)] (re_clock env 1)) w)"

definition blocked_reason :: "nat \<Rightarrow> string" where
  "blocked_reason n = show_nat n @ '' mitigation(s) in UNKNOWN_RECONCILIATION_REQUIRED require manual operator reconciliation''"

text \<open>Transition to BLOCKED, by way of RECONCILING where the direct move is not allowed.\<close>

definition move_via_reconciling :: "recovery_state \<Rightarrow> recovery_world \<Rightarrow> recovery_world" where
  "move_via_reconciling to w =
     (if fst (recovery_transition to (rw_tracker w)) = None then move_recovery to w
      else move_recovery to (move_recovery RecoveryReconciling w))"

definition block_recovery ::
  "recovery_env \<Rightarrow> nat \<Rightarrow> stored_mitigation list \<Rightarrow> recovery_world \<Rightarrow> recovery_decision \<times> recovery_world" where
  "block_recovery env in_flight unknown w =
     (let reason = blocked_reason (length unknown);
          u = hd unknown;
          w1 = record_recovery env 2 (recovery_event EventRecoveryReconciliationRequired (rw_node_id w)
                 (sm_incident_id u) (sm_action_id u) (sm_decision_id u) ''blocked'' reason [] (re_clock env 2)) w;
          w2 = record_recovery env 3 (recovery_event EventRecoveryBlocked (rw_node_id w)
                 (sm_incident_id u) [] [] ''blocked'' reason [] (re_clock env 3)) w1;
          w3 = explain_recovery reason (move_via_reconciling RecoveryBlocked w2);
          w4 = report_recovery (re_clock env 3) StatusDegraded (''recovery blocked: '' @ reason) w3;
          c = checkpoint_of env (rw_node_id w) RecoveryBlocked None reason
      in (\<lparr>rd_state = RecoveryBlocked, rd_requires_intervention = True, rd_reason = reason, rd_in_flight = in_flight,
           rd_reconciled = 0, rd_timed_out = 0, rd_checkpoint_id = cp_checkpoint_id c\<rparr>,
          w4\<lparr>rw_checkpoints := snd (save_checkpoint (re_save_io env) c (rw_checkpoints w4))\<rparr>))"

abbreviation interrupted :: string where
  "interrupted \<equiv> ''interrupted by agent restart prior to execution''"

text \<open>The pending mitigations, one after the other; the first failure stops the run.\<close>

fun skip_pending ::
  "recovery_env \<Rightarrow> nat \<Rightarrow> stored_mitigation list \<Rightarrow> recovery_world \<Rightarrow> store_err option \<times> recovery_world" where
  "skip_pending env k [] w = (None, w)"
| "skip_pending env k (p # ps) w =
     (case update_mitigation_status (re_update_io env k) (re_clock env (4 + k)) (sm_action_id p) MitigationSkipped
            (Lit interrupted) (Lit ''RESTART_ABORTED'') (Some (re_clock env (4 + k))) 0 (rw_mitigations w) of
        (Some e, _) \<Rightarrow> (Some e, w)
      | (None, ms) \<Rightarrow>
          skip_pending env (Suc k) ps
            (record_recovery env (4 + k) (recovery_event EventRecoveryReconciliationCompleted (rw_node_id w)
               (sm_incident_id p) (sm_action_id p) (sm_decision_id p) ''skipped'' interrupted [] (re_clock env (4 + k)))
             (w\<lparr>rw_mitigations := ms\<rparr>)))"

definition nothing_recovered :: "stored_checkpoint option \<Rightarrow> nat \<Rightarrow> nat \<Rightarrow> nat \<Rightarrow> bool" where
  "nothing_recovered latest in_flight reconciled timed_out \<longleftrightarrow>
     in_flight = 0 \<and> reconciled = 0 \<and> timed_out = 0 \<and>
     (case latest of None \<Rightarrow> True
      | Some c \<Rightarrow> cp_state c = recovery_state_string RecoveryNotRequired \<or>
                  cp_state c = recovery_state_string RecoveryComplete)"

text \<open>The tracker advances from LOADING or RECONCILING only; the state reported follows it.\<close>

definition advance_recovery :: "recovery_state \<Rightarrow> recovery_world \<Rightarrow> recovery_state \<times> recovery_world" where
  "advance_recovery final w =
     (if rt_state (rw_tracker w) = RecoveryLoading then (final, move_via_reconciling final w)
      else if rt_state (rw_tracker w) = RecoveryReconciling
      then if final = RecoveryNotRequired then (RecoveryComplete, move_recovery RecoveryComplete w)
           else (final, move_recovery final w)
      else (final, w))"

definition complete_recovery ::
  "recovery_env \<Rightarrow> stored_checkpoint option \<Rightarrow> nat \<Rightarrow> nat \<Rightarrow> nat \<Rightarrow> recovery_world \<Rightarrow>
   (recovery_err + recovery_decision) \<times> recovery_world" where
  "complete_recovery env latest in_flight reconciled timed_out w =
     (let clean = nothing_recovered latest in_flight reconciled timed_out;
          reason = (if clean then ''clean startup: no in-flight or ambiguous operations found''
            else ''recovery complete: '' @ show_nat in_flight @ '' in-flight, '' @ show_nat reconciled @
                 '' pending reconciled, '' @ show_nat timed_out @ '' verifications timed out'');
          (final, w1) = advance_recovery (if clean then RecoveryNotRequired else RecoveryComplete) w;
          w2 = explain_recovery reason w1;
          c = checkpoint_of env (rw_node_id w) final (Some (re_now env)) reason
      in case save_checkpoint (re_save_io env) c (rw_checkpoints w2) of
           (Some e, _) \<Rightarrow> (Inl (ErrRecoveryStep ''saving checkpoint failed'' e),
              fail_recovery env (''failed to save completion checkpoint: '' @ re_error_text env e) w2)
         | (None, cs) \<Rightarrow>
             (Inr \<lparr>rd_state = final, rd_requires_intervention = False, rd_reason = reason, rd_in_flight = in_flight,
                rd_reconciled = reconciled, rd_timed_out = timed_out, rd_checkpoint_id = cp_checkpoint_id c\<rparr>,
              record_recovery env (4 + reconciled) (recovery_event EventRecoveryCompleted (rw_node_id w)
                ''system-recovery'' [] [] ''success'' reason
                [(''checkpoint_id'', cp_checkpoint_id c), (''state'', recovery_state_string final)] (re_now env))
              (report_recovery (re_now env) StatusOk ''completed'' (w2\<lparr>rw_checkpoints := cs\<rparr>))))"

section \<open>The run\<close>

definition finish_recovery ::
  "recovery_env \<Rightarrow> stored_checkpoint option \<Rightarrow> nat \<Rightarrow> recovery_world \<Rightarrow>
   (recovery_err + recovery_decision) \<times> recovery_world" where
  "finish_recovery env latest in_flight w =
     (case list_mitigations_by_status (re_pending_io env) MitigationPending 100 (rw_mitigations w) of
        Inl e \<Rightarrow> (Inl (ErrRecoveryStep ''listing pending mitigations failed'' e),
          fail_recovery env (''failed to list pending mitigations: '' @ re_error_text env e) w)
      | Inr pending \<Rightarrow>
        (case skip_pending env 0 pending (if pending = [] then w else move_recovery RecoveryReconciling w) of
           (Some e, w1) \<Rightarrow> (Inl (ErrRecoveryStep ''reconciling pending mitigation failed'' e),
             fail_recovery env (''failed to reconcile pending mitigation: '' @ re_error_text env e) w1)
         | (None, w1) \<Rightarrow>
           (case recover_in_flight_verifications (re_verif_io env) (re_now env) (rw_verifications w1) of
              (Inl e, _) \<Rightarrow> (Inl (ErrRecoveryStep ''recovering in-flight verifications failed'' e),
                fail_recovery env (''failed to recover in-flight verifications: '' @ re_error_text env e) w1)
            | (Inr timed_out, vs) \<Rightarrow>
                complete_recovery env latest in_flight (length pending) timed_out (w1\<lparr>rw_verifications := vs\<rparr>))))"

definition run_recovery ::
  "recovery_env \<Rightarrow> recovery_world \<Rightarrow> (recovery_err + recovery_decision) \<times> recovery_world" where
  "run_recovery env w =
     (let w0 = begin_recovery env w in
      case get_latest_checkpoint (re_load_io env) (rw_node_id w) (rw_checkpoints w0) of
        Inl e \<Rightarrow> (Inl (ErrRecoveryStep ''recovery load failed'' e),
          fail_recovery env (''failed to load latest runtime checkpoint: '' @ re_error_text env e) w0)
      | Inr latest \<Rightarrow>
        let w1 = audit_checkpoint env latest w0 in
        (case recover_in_flight_mitigations (re_flight_io env) (re_clock env 1) (rw_mitigations w1) of
           (Inl e, _) \<Rightarrow> (Inl (ErrRecoveryStep ''in-flight mitigation recovery failed'' e),
             fail_recovery env (''failed to recover in-flight mitigations: '' @ re_error_text env e) w1)
         | (Inr in_flight, ms) \<Rightarrow>
           let w2 = w1\<lparr>rw_mitigations := ms\<rparr> in
           (case list_mitigations_by_status (re_unknown_io env) MitigationUnknownReconciliationRequired 100 (rw_mitigations w2) of
              Inl e \<Rightarrow> (Inl (ErrRecoveryStep ''listing unknown mitigations failed'' e),
                fail_recovery env (''failed to list unknown mitigations: '' @ re_error_text env e) w2)
            | Inr unknown \<Rightarrow>
                if unknown \<noteq> [] then (case block_recovery env in_flight unknown w2 of (d, w3) \<Rightarrow> (Inr d, w3))
                else finish_recovery env latest in_flight w2)))"

end
