(* ===== verification/Recovery_Properties.thy ===== *)
theory Recovery_Properties
  imports Recovery
begin

text \<open>
  What a restart may do: the moves of the mitigations it touches, when it declares itself done, and
  what the readiness probe answers meanwhile.
\<close>

section \<open>Frames\<close>

lemma record_recovery_sel [simp]:
  "rw_node_id (record_recovery env k e w) = rw_node_id w"
  "rw_checkpoints (record_recovery env k e w) = rw_checkpoints w"
  "rw_mitigations (record_recovery env k e w) = rw_mitigations w"
  "rw_verifications (record_recovery env k e w) = rw_verifications w"
  "rw_tracker (record_recovery env k e w) = rw_tracker w"
  "rw_health (record_recovery env k e w) = rw_health w"
  by (simp_all add: record_recovery_def)

lemma move_recovery_sel [simp]:
  "rw_node_id (move_recovery to w) = rw_node_id w"
  "rw_checkpoints (move_recovery to w) = rw_checkpoints w"
  "rw_mitigations (move_recovery to w) = rw_mitigations w"
  "rw_verifications (move_recovery to w) = rw_verifications w"
  "rw_health (move_recovery to w) = rw_health w"
  by (simp_all add: move_recovery_def)

lemma move_via_reconciling_sel [simp]:
  "rw_node_id (move_via_reconciling to w) = rw_node_id w"
  "rw_checkpoints (move_via_reconciling to w) = rw_checkpoints w"
  "rw_mitigations (move_via_reconciling to w) = rw_mitigations w"
  "rw_verifications (move_via_reconciling to w) = rw_verifications w"
  "rw_health (move_via_reconciling to w) = rw_health w"
  by (simp_all add: move_via_reconciling_def)

lemma explain_recovery_sel [simp]:
  "rw_node_id (explain_recovery m w) = rw_node_id w"
  "rw_checkpoints (explain_recovery m w) = rw_checkpoints w"
  "rw_mitigations (explain_recovery m w) = rw_mitigations w"
  "rw_verifications (explain_recovery m w) = rw_verifications w"
  "rt_state (rw_tracker (explain_recovery m w)) = rt_state (rw_tracker w)"
  "rw_health (explain_recovery m w) = rw_health w"
  by (simp_all add: explain_recovery_def set_recovery_reason_def)

lemma report_recovery_sel [simp]:
  "rw_node_id (report_recovery now st m w) = rw_node_id w"
  "rw_checkpoints (report_recovery now st m w) = rw_checkpoints w"
  "rw_mitigations (report_recovery now st m w) = rw_mitigations w"
  "rw_verifications (report_recovery now st m w) = rw_verifications w"
  "rw_tracker (report_recovery now st m w) = rw_tracker w"
  by (simp_all add: report_recovery_def)

lemma begin_recovery_sel [simp]:
  "rw_node_id (begin_recovery env w) = rw_node_id w"
  "rw_checkpoints (begin_recovery env w) = rw_checkpoints w"
  "rw_mitigations (begin_recovery env w) = rw_mitigations w"
  "rw_verifications (begin_recovery env w) = rw_verifications w"
  "rw_tracker (begin_recovery env w) = rw_tracker w"
  "rw_health (begin_recovery env w) = rw_health w"
  by (simp_all add: begin_recovery_def)

lemma audit_checkpoint_sel [simp]:
  "rw_node_id (audit_checkpoint env c w) = rw_node_id w"
  "rw_checkpoints (audit_checkpoint env c w) = rw_checkpoints w"
  "rw_mitigations (audit_checkpoint env c w) = rw_mitigations w"
  "rw_verifications (audit_checkpoint env c w) = rw_verifications w"
  "rw_tracker (audit_checkpoint env c w) = rw_tracker w"
  "rw_health (audit_checkpoint env c w) = rw_health w"
  by (simp_all add: audit_checkpoint_def split: option.split)

lemma fail_recovery_sel [simp]:
  "rw_mitigations (fail_recovery env m w) = rw_mitigations w"
  by (simp add: fail_recovery_def Let_def)

lemma fail_recovery_not_complete:
  "recovery_is_complete (rw_tracker (fail_recovery env m w)) \<Longrightarrow> recovery_is_complete (rw_tracker w)"
  by (auto simp: fail_recovery_def recovery_is_complete_def move_recovery_def recovery_transition_def recovery_can_def Let_def
      split: if_splits)

section \<open>Mitigations\<close>

text \<open>A mitigation whose outcome is not known: it was executing, or awaits reconciliation.\<close>

definition unresolved :: "stored_mitigation \<Rightarrow> bool" where
  "unresolved r \<longleftrightarrow> sm_status r = MitigationExecuting \<or> sm_status r = MitigationUnknownReconciliationRequired"

text \<open>The moves a restart may make.\<close>

definition restart_moves :: "mitigation_status \<Rightarrow> mitigation_status \<Rightarrow> bool" where
  "restart_moves st st' \<longleftrightarrow> st' = st \<or>
     (st = MitigationExecuting \<and> st' = MitigationUnknownReconciliationRequired) \<or>
     (st = MitigationPending \<and> st' = MitigationSkipped)"

lemma restart_moves_trans: "restart_moves a b \<Longrightarrow> restart_moves b c \<Longrightarrow> restart_moves a c"
  by (auto simp: restart_moves_def)

definition restarted :: "mitigation_store \<Rightarrow> mitigation_store \<Rightarrow> bool" where
  "restarted s s' \<longleftrightarrow> (\<forall>aid m. find_mitigation aid (mt_rows s) = Some m \<longrightarrow>
     (\<exists>m'. find_mitigation aid (mt_rows s') = Some m' \<and> restart_moves (sm_status m) (sm_status m')))"

lemma restarted_refl [simp]: "restarted s s"
  by (simp add: restarted_def restart_moves_def)

lemma restarted_trans: "restarted s t \<Longrightarrow> restarted t u \<Longrightarrow> restarted s u"
  unfolding restarted_def by (meson restart_moves_trans)

lemma recover_in_flight_restarted:
  assumes "recover_in_flight_mitigations io now s = (r, s')"
  shows "restarted s s'"
  using assms by (auto simp: recover_in_flight_mitigations_def restarted_def restart_moves_def in_flight_row_def split: option.splits)

lemma recover_in_flight_none:
  assumes "recover_in_flight_mitigations io now s = (Inr n, s')"
  shows "\<forall>r \<in> set (mt_rows s'). sm_status r \<noteq> MitigationExecuting"
  using assms by (auto simp: recover_in_flight_mitigations_def update_where_def in_flight_row_def split: option.splits)

lemma skip_restarted:
  assumes "update_mitigation_status io now aid MitigationSkipped m c t ms s = (r, s')"
  shows "restarted s s' \<and> (filter unresolved (mt_rows s) = [] \<longrightarrow> filter unresolved (mt_rows s') = [])"
proof (cases r)
  case None
  with assms obtain x where x: "find_mitigation aid (mt_rows s) = Some x" "mitigation_can (sm_status x) MitigationSkipped"
    by (auto simp: update_mitigation_status_def split: option.splits if_splits)
  then have "restart_moves (sm_status x) MitigationSkipped"
    by (auto simp: mitigation_can_def restart_moves_def split: mitigation_status.splits if_splits)
  moreover have "find_mitigation aid' (mt_rows s) = Some y \<Longrightarrow> sm_action_id y = aid \<Longrightarrow> y = x" for aid' y
    using x(1) find_mitigation_Some by fastforce
  ultimately have "restarted s s'" using assms x None
    by (auto simp: update_mitigation_status_def restarted_def restart_moves_def split: option.splits if_splits)
  moreover have "filter unresolved (mt_rows s) = [] \<longrightarrow> filter unresolved (mt_rows s') = []" using assms x None
    by (auto simp: update_mitigation_status_def filter_empty_conv update_where_def unresolved_def
        split: option.splits if_splits)
  ultimately show ?thesis by blast
next
  case (Some e)
  then have "s' = s" using assms
    by (auto simp: update_mitigation_status_def split: option.splits if_splits)
  then show ?thesis by simp
qed

lemma skip_pending_restarted:
  "skip_pending env k ps w = (r, w') \<Longrightarrow>
     restarted (rw_mitigations w) (rw_mitigations w') \<and> rw_tracker w' = rw_tracker w \<and> rw_health w' = rw_health w \<and>
     rw_node_id w' = rw_node_id w \<and>
     (filter unresolved (mt_rows (rw_mitigations w)) = [] \<longrightarrow> filter unresolved (mt_rows (rw_mitigations w')) = [])"
proof (induction env k ps w rule: skip_pending.induct)
  case (2 env k p ps w)
  let ?u = "update_mitigation_status (re_update_io env k) (re_clock env (4 + k)) (sm_action_id p) MitigationSkipped
            (Lit interrupted) (Lit ''RESTART_ABORTED'') (Some (re_clock env (4 + k))) 0 (rw_mitigations w)"
  obtain e ms where u: "?u = (e, ms)" by fastforce
  show ?case
  proof (cases e)
    case None
    with "2.IH" [of None ms] "2.prems" u skip_restarted [OF u] show ?thesis
      by (auto intro: restarted_trans)
  next
    case (Some x)
    then show ?thesis using "2.prems" u by simp
  qed
qed simp

section \<open>Trackers\<close>

text \<open>The recovery check that a run leaves in the health tracker.\<close>

definition recovery_check :: "recovery_world \<Rightarrow> check_info option" where
  "recovery_check w = (case rw_health w of None \<Rightarrow> None | Some h \<Rightarrow> get_check CheckRecovery h)"

lemma report_recovery_check:
  "check_status_valid st \<Longrightarrow> recovery_check (report_recovery now st m w) = Some i \<Longrightarrow> ci_status i = st"
  by (auto simp: recovery_check_def report_recovery_def set_check_status_def get_check_def Let_def update_conv'
      split: option.splits if_splits)

lemma required_check_not_ready:
  assumes "rw_health w = Some h" "get_check CheckRecovery h = Some i" "ci_required i" "ci_status i \<noteq> StatusOk"
  shows "\<not> is_ready h"
  using assms map_of_SomeD [of "ht_checks h" CheckRecovery i]
  by (fastforce simp: is_ready_def all_required_ok_def get_check_def list_all_iff)

lemma recovery_check_world [simp]:
  "recovery_check (w\<lparr>rw_checkpoints := cs\<rparr>) = recovery_check w"
  "recovery_check (record_recovery env k e w) = recovery_check w"
  by (simp_all add: recovery_check_def)

lemma fail_recovery_check: "recovery_check (fail_recovery env m w) = Some i \<Longrightarrow> ci_status i = StatusFailed"
  unfolding fail_recovery_def Let_def by (rule report_recovery_check [rotated], assumption, simp)

lemma blocked_not_complete:
  "recovery_is_complete (rw_tracker (move_via_reconciling RecoveryBlocked w)) \<Longrightarrow> recovery_is_complete (rw_tracker w)"
  by (auto simp: move_via_reconciling_def move_recovery_def recovery_transition_def recovery_can_def recovery_is_complete_def
      split: if_splits)

section \<open>Runs\<close>

text \<open>
  The outcome of a run from the mitigations \<open>s\<close> and the tracker \<open>t\<close>: mitigations only made the moves of
  a restart; a run that returns asks for intervention exactly when an unresolved mitigation is left; the
  tracker is complete only then, unless it was before; and after an error or a call for intervention the
  check of the recovery is not passed.
\<close>

definition settled :: "mitigation_store \<Rightarrow> bool" where
  "settled s \<longleftrightarrow> filter unresolved (mt_rows s) = []"

definition recovery_outcome ::
  "mitigation_store \<Rightarrow> recovery_tracker \<Rightarrow> (recovery_err + recovery_decision) \<times> recovery_world \<Rightarrow> bool" where
  "recovery_outcome s t out \<longleftrightarrow>
     restarted s (rw_mitigations (snd out)) \<and>
     (case fst out of Inl _ \<Rightarrow> True | Inr d \<Rightarrow> rd_requires_intervention d \<longleftrightarrow> \<not> settled (rw_mitigations (snd out))) \<and>
     (recovery_is_complete (rw_tracker (snd out)) \<longrightarrow>
        recovery_is_complete t \<or> settled (rw_mitigations (snd out))) \<and>
     ((case fst out of Inl _ \<Rightarrow> True | Inr d \<Rightarrow> rd_requires_intervention d) \<longrightarrow>
        (\<forall>i. recovery_check (snd out) = Some i \<longrightarrow> ci_status i \<noteq> StatusOk))"

lemma complete_explain [simp]:
  "recovery_is_complete (rw_tracker (explain_recovery m w)) = recovery_is_complete (rw_tracker w)"
  by (simp add: recovery_is_complete_def)

text \<open>A step may fail while the tracker is not complete, is as it was, or everything is settled.\<close>

definition may_stop :: "recovery_tracker \<Rightarrow> recovery_world \<Rightarrow> bool" where
  "may_stop t w \<longleftrightarrow> recovery_is_complete (rw_tracker w) \<longrightarrow> recovery_is_complete t \<or> settled (rw_mitigations w)"

lemma fail_outcome:
  assumes "restarted s (rw_mitigations w)" "may_stop t w"
  shows "recovery_outcome s t (Inl e, fail_recovery env m w)"
  using assms fail_recovery_not_complete [of env m w]
  by (auto simp: recovery_outcome_def may_stop_def dest: fail_recovery_check)

lemma block_outcome:
  assumes "restarted s (rw_mitigations w)" "may_stop t w" "\<not> settled (rw_mitigations w)"
    and b: "block_recovery env n us w = (d, w')"
  shows "recovery_outcome s t (Inr d, w')"
proof -
  have "rd_requires_intervention d" "rw_mitigations w' = rw_mitigations w"
    using b by (auto simp: block_recovery_def Let_def)
  moreover have "recovery_check w' = Some i \<Longrightarrow> ci_status i = StatusDegraded" for i
    using b report_recovery_check by (fastforce simp: block_recovery_def Let_def)
  moreover obtain u where "recovery_is_complete (rw_tracker w') \<longleftrightarrow>
      recovery_is_complete (rw_tracker (move_via_reconciling RecoveryBlocked u))" "rw_tracker u = rw_tracker w"
    using b by (auto simp: block_recovery_def Let_def)
  then have "recovery_is_complete (rw_tracker w') \<Longrightarrow> recovery_is_complete (rw_tracker w)"
    using blocked_not_complete [of u] by simp
  ultimately show ?thesis using assms(1-3) by (auto simp: recovery_outcome_def may_stop_def)
qed

lemma advance_recovery_sel:
  "advance_recovery f w = (g, w') \<Longrightarrow> rw_mitigations w' = rw_mitigations w"
  by (auto simp: advance_recovery_def split: if_splits)

lemma complete_outcome:
  assumes "restarted s (rw_mitigations w)" "settled (rw_mitigations w)"
  shows "recovery_outcome s t (complete_recovery env l n k v w)"
proof -
  obtain f w1 where adv: "advance_recovery (if nothing_recovered l n k v then RecoveryNotRequired else RecoveryComplete) w = (f, w1)"
    by fastforce
  define m where "m = (if nothing_recovered l n k v then ''clean startup: no in-flight or ambiguous operations found''
            else ''recovery complete: '' @ show_nat n @ '' in-flight, '' @ show_nat k @
                 '' pending reconciled, '' @ show_nat v @ '' verifications timed out'')"
  let ?w2 = "explain_recovery m w1"
  have w2: "rw_mitigations ?w2 = rw_mitigations w" using advance_recovery_sel [OF adv] by simp
  obtain e cs where save: "save_checkpoint (re_save_io env) (checkpoint_of env (rw_node_id w) f (Some (re_now env)) m)
      (rw_checkpoints ?w2) = (e, cs)" by fastforce
  show ?thesis
  proof (cases e)
    case None
    then have "\<exists>d u. complete_recovery env l n k v w = (Inr d, u) \<and> \<not> rd_requires_intervention d \<and> rw_mitigations u = rw_mitigations w"
      using save w2 unfolding complete_recovery_def Let_def m_def [symmetric] adv prod.case by simp
    then show ?thesis using assms by (auto simp: recovery_outcome_def)
  next
    case (Some x)
    then have "\<exists>e m. complete_recovery env l n k v w = (Inl e, fail_recovery env m ?w2)"
      using save unfolding complete_recovery_def Let_def m_def [symmetric] adv prod.case by simp blast
    then show ?thesis using assms w2 fail_outcome [of s ?w2 t] by (auto simp: may_stop_def)
  qed
qed

lemma finish_outcome:
  assumes "restarted s (rw_mitigations w)" "settled (rw_mitigations w)"
  shows "recovery_outcome s t (finish_recovery env l n w)"
proof -
  let ?list = "list_mitigations_by_status (re_pending_io env) MitigationPending 100 (rw_mitigations w)"
  show ?thesis
  proof (cases ?list)
    case (Inl e)
    then show ?thesis using assms fail_outcome [of s w t] by (simp add: finish_recovery_def may_stop_def)
  next
    case (Inr pending)
    obtain e w1 where skip: "skip_pending env 0 pending (if pending = [] then w else move_recovery RecoveryReconciling w) = (e, w1)"
      by fastforce
    from skip_pending_restarted [OF skip] assms
    have w1: "restarted s (rw_mitigations w1)" "settled (rw_mitigations w1)"
      by (auto simp: settled_def intro: restarted_trans split: if_splits)
    obtain v vs where verif: "recover_in_flight_verifications (re_verif_io env) (re_now env) (rw_verifications w1) = (v, vs)"
      by fastforce
    show ?thesis
      using w1 fail_outcome [of s w1 t] complete_outcome [of s "w1\<lparr>rw_verifications := vs\<rparr>" t]
      by (cases e; cases v) (simp_all add: finish_recovery_def Inr skip verif may_stop_def)
  qed
qed

lemma unknown_left:
  assumes "recover_in_flight_mitigations io now s = (Inr n, s')"
    and "list_mitigations_by_status io' MitigationUnknownReconciliationRequired 100 s' = Inr us"
  shows "us = [] \<longleftrightarrow> settled s'"
proof -
  have "us = take 100 (mitigation_order (filter (\<lambda>r. sm_status r = MitigationUnknownReconciliationRequired) (mt_rows s')))"
    using assms(2) by (simp add: list_mitigations_by_status_def split: option.splits)
  then show ?thesis using recover_in_flight_none [OF assms(1)]
    by (auto simp: settled_def unresolved_def filter_empty_conv)
qed

lemma run_outcome: "recovery_outcome (rw_mitigations w) (rw_tracker w) (run_recovery env w)"
proof -
  define w0 where "w0 = begin_recovery env w"
  have w0 [simp]: "rw_mitigations w0 = rw_mitigations w" "rw_tracker w0 = rw_tracker w" by (simp_all add: w0_def)
  show ?thesis
  proof (cases "get_latest_checkpoint (re_load_io env) (rw_node_id w) (rw_checkpoints w0)")
    case (Inl e)
    then show ?thesis using fail_outcome [of "rw_mitigations w" w0 "rw_tracker w"]
      by (simp add: run_recovery_def Let_def may_stop_def flip: w0_def)
  next
    case latest: (Inr l)
    define w1 where "w1 = audit_checkpoint env l w0"
    have w1 [simp]: "rw_mitigations w1 = rw_mitigations w" "rw_tracker w1 = rw_tracker w" by (simp_all add: w1_def)
    obtain n ms where flight: "recover_in_flight_mitigations (re_flight_io env) (re_clock env 1) (rw_mitigations w) = (n, ms)"
      by fastforce
    show ?thesis
    proof (cases n)
      case (Inl e)
      then show ?thesis using flight latest fail_outcome [of "rw_mitigations w" w1 "rw_tracker w"]
        by (simp add: run_recovery_def Let_def may_stop_def flip: w0_def w1_def)
    next
      case (Inr k)
      define w2 where "w2 = w1\<lparr>rw_mitigations := ms\<rparr>"
      have w2 [simp]: "rw_mitigations w2 = ms" "rw_tracker w2 = rw_tracker w" by (simp_all add: w2_def)
      have moved: "restarted (rw_mitigations w) ms" using recover_in_flight_restarted [OF flight] .
      show ?thesis
      proof (cases "list_mitigations_by_status (re_unknown_io env) MitigationUnknownReconciliationRequired 100 ms")
        case (Inl e)
        then show ?thesis using flight latest Inr moved fail_outcome [of "rw_mitigations w" w2 "rw_tracker w"]
          by (simp add: run_recovery_def Let_def may_stop_def flip: w0_def w1_def w2_def)
      next
        case us: (Inr us)
        have "us = [] \<longleftrightarrow> settled ms" using unknown_left us flight Inr by blast
        then show ?thesis
          using flight latest Inr us moved finish_outcome [of "rw_mitigations w" w2 "rw_tracker w" env l k]
            block_outcome [of "rw_mitigations w" w2 "rw_tracker w" env k us]
          by (cases "block_recovery env k us w2")
            (auto simp: run_recovery_def Let_def may_stop_def simp flip: w0_def w1_def w2_def)
      qed
    qed
  qed
qed

section \<open>Properties\<close>

text \<open>
  C0. A restart authorises nothing: whatever fails during \<open>RunRecovery\<close>, each mitigation keeps its
  status, or moves from EXECUTING to UNKNOWN\_RECONCILIATION\_REQUIRED or from PENDING to SKIPPED; a run
  that returns a decision asks for intervention exactly when a mitigation of unknown outcome is left;
  the tracker that was not complete becomes complete only when none is left; and after a run that
  failed or asks for intervention the agent is not ready while the recovery check is a required one.
\<close>

theorem restart_authorises_nothing:
  assumes "run_recovery env w = (r, w')"
  shows "(\<forall>aid m. find_mitigation aid (mt_rows (rw_mitigations w)) = Some m \<longrightarrow>
      (\<exists>m'. find_mitigation aid (mt_rows (rw_mitigations w')) = Some m' \<and> (sm_status m' = sm_status m \<or>
        (sm_status m = MitigationExecuting \<and> sm_status m' = MitigationUnknownReconciliationRequired) \<or>
        (sm_status m = MitigationPending \<and> sm_status m' = MitigationSkipped)))) \<and>
    (\<forall>d. r = Inr d \<longrightarrow> rd_requires_intervention d = list_ex unresolved (mt_rows (rw_mitigations w'))) \<and>
    (recovery_is_complete (rw_tracker w') \<longrightarrow>
      recovery_is_complete (rw_tracker w) \<or> \<not> list_ex unresolved (mt_rows (rw_mitigations w'))) \<and>
    (\<forall>h i. rw_health w' = Some h \<longrightarrow> get_check CheckRecovery h = Some i \<longrightarrow> ci_required i \<longrightarrow>
      (case r of Inl _ \<Rightarrow> True | Inr d \<Rightarrow> rd_requires_intervention d) \<longrightarrow> \<not> is_ready h)"
proof -
  have out: "recovery_outcome (rw_mitigations w) (rw_tracker w) (r, w')" using run_outcome [of w env] assms by simp
  have settled: "settled s \<longleftrightarrow> \<not> list_ex unresolved (mt_rows s)" for s
    by (auto simp: settled_def filter_empty_conv list_ex_iff)
  from out have "restarted (rw_mitigations w) (rw_mitigations w')" by (simp add: recovery_outcome_def)
  moreover have "\<not> is_ready h" if "rw_health w' = Some h" "get_check CheckRecovery h = Some i" "ci_required i"
    "case r of Inl _ \<Rightarrow> True | Inr d \<Rightarrow> rd_requires_intervention d" for h i
  proof -
    have "recovery_check w' = Some i" using that(1,2) by (simp add: recovery_check_def)
    then have "ci_status i \<noteq> StatusOk" using out that(4) by (auto simp: recovery_outcome_def)
    with that show ?thesis using required_check_not_ready by blast
  qed
  moreover have "rd_requires_intervention d = list_ex unresolved (mt_rows (rw_mitigations w'))" if "r = Inr d" for d
    using out that by (simp add: recovery_outcome_def settled)
  moreover have "recovery_is_complete (rw_tracker w') \<longrightarrow>
      recovery_is_complete (rw_tracker w) \<or> \<not> list_ex unresolved (mt_rows (rw_mitigations w'))"
    using out by (simp add: recovery_outcome_def settled)
  ultimately show ?thesis unfolding restarted_def restart_moves_def by blast
qed

definition quiet_env :: recovery_env where
  "quiet_env = \<lparr>re_start = 62135596800 * second + 1, re_now = 62135596801 * second, re_clock = (\<lambda>_. 62135596801 * second),
     re_load_io = IoOk, re_flight_io = IoOk, re_unknown_io = IoOk, re_pending_io = IoOk, re_update_io = (\<lambda>_. IoOk),
     re_verif_io = IoOk, re_save_io = IoOk, re_audit_io = (\<lambda>_. IoOk), re_sha = (\<lambda>_. []), re_error_text = (\<lambda>_. [])\<rparr>"

definition restarted_world :: "stored_mitigation list \<Rightarrow> recovery_world" where
  "restarted_world rows = \<lparr>rw_node_id = ''n'', rw_checkpoints = \<lparr>cs_closed = False, cs_rows = [], cs_identity = []\<rparr>,
     rw_mitigations = \<lparr>mt_closed = False, mt_rows = rows\<rparr>, rw_verifications = \<lparr>vf_closed = False, vf_rows = []\<rparr>,
     rw_tracker = new_recovery_tracker, rw_health = Some new_health_tracker, rw_audit = None\<rparr>"

lemma not_blank_n: "\<not> blank ''n''"
  by (rule not_blank_Cons) code_simp

lemma stranded_run:
  "\<exists>d w'. run_recovery quiet_env (restarted_world [sample_mitigation]) = (Inr d, w')"
proof -
  let ?w = "begin_recovery quiet_env (restarted_world [sample_mitigation])"
  have "get_latest_checkpoint IoOk ''n'' (rw_checkpoints ?w) = Inr None"
    by (simp add: get_latest_checkpoint_def restarted_world_def checkpoint_order_def not_blank_n)
  moreover obtain ms where "recover_in_flight_mitigations IoOk (62135596801 * second) (rw_mitigations ?w) = (Inr 1, ms)"
    "mt_rows ms \<noteq> []" "filter (\<lambda>r. sm_status r = MitigationUnknownReconciliationRequired) (mt_rows ms) = mt_rows ms" "\<not> mt_closed ms"
    by (auto simp: recover_in_flight_mitigations_def restarted_world_def in_flight_row_def sample_mitigation_def
        update_where_def rows_affected_def)
  ultimately show ?thesis
    by (simp add: run_recovery_def Let_def quiet_env_def audit_checkpoint_def list_mitigations_by_status_def
        restarted_world_def split: prod.split)
qed

theorem restart_authorises_nothing_witness:
  "\<exists>d w'. run_recovery quiet_env (restarted_world [sample_mitigation]) = (Inr d, w') \<and>
     rd_requires_intervention d = list_ex unresolved (mt_rows (rw_mitigations w'))"
  using stranded_run restart_authorises_nothing by metis

section \<open>What a restart cannot undo\<close>

text \<open>
  No operation of the store moves a mitigation out of UNKNOWN\_RECONCILIATION\_REQUIRED, so a single
  stranded mitigation makes every later restart call for intervention.
\<close>

theorem stranded_mitigation_blocks_forever:
  assumes "find_mitigation aid (mt_rows (rw_mitigations w)) = Some m"
    and "sm_status m = MitigationUnknownReconciliationRequired"
    and "run_recovery env (w\<lparr>rw_mitigations := mitigation_run ops (rw_mitigations w)\<rparr>) = (Inr d, w')"
  shows "rd_requires_intervention d"
proof -
  let ?s = "mitigation_run ops (rw_mitigations w)"
  have "set (mitigation_trace aid ops (rw_mitigations w)) \<subseteq> {MitigationUnknownReconciliationRequired}"
    using mitigation_fsm.terminal_forever [OF _ mitigation_trace_history [OF assms(1), of ops]] assms(2) by simp
  then have "last (sm_status m # mitigation_trace aid ops (rw_mitigations w)) = MitigationUnknownReconciliationRequired"
    using assms(2) by (cases "mitigation_trace aid ops (rw_mitigations w)" rule: rev_cases) auto
  then obtain x where "find_mitigation aid (mt_rows ?s) = Some x" "sm_status x = MitigationUnknownReconciliationRequired"
    using mitigation_run_found [OF assms(1), of ops] by auto
  moreover have out: "recovery_outcome ?s (rw_tracker w) (Inr d, w')"
    using run_outcome [of "w\<lparr>rw_mitigations := ?s\<rparr>" env] assms(3) by simp
  ultimately obtain y where "find_mitigation aid (mt_rows (rw_mitigations w')) = Some y"
    "sm_status y = MitigationUnknownReconciliationRequired"
    by (fastforce simp: recovery_outcome_def restarted_def restart_moves_def)
  then have "\<not> settled (rw_mitigations w')"
    using find_mitigation_Some by (auto simp: settled_def filter_empty_conv unresolved_def)
  with out show ?thesis by (simp add: recovery_outcome_def)
qed

text \<open>
  A tracker that is BLOCKED stays BLOCKED through a run that completes without pending mitigations: the
  decision and the checkpoint say COMPLETE, the tracker does not.
\<close>

theorem blocked_tracker_is_not_advanced:
  assumes "rt_state (rw_tracker w) = RecoveryBlocked"
  shows "advance_recovery final w = (final, w)"
  using assms by (simp add: advance_recovery_def)

text \<open>
  The identifier of the event of a start is the digest of texts that do not change from one restart to
  the next, so a second start is refused as a duplicate.
\<close>

theorem second_start_is_not_audited:
  assumes "audit_record sha io now (recovery_event EventRecoveryStarted node ''system-recovery'' [] []
      ''success'' ''agent runtime restart recovery initiated'' [] t) s = (None, s')"
  shows "snd (audit_record sha IoOk now' (recovery_event EventRecoveryStarted node ''system-recovery'' [] []
      ''success'' ''agent runtime restart recovery initiated'' [] t') s') = s'"
proof -
  define ev where "ev t = recovery_event EventRecoveryStarted node ''system-recovery'' [] []
      ''success'' ''agent runtime restart recovery initiated'' [] t" for t
  have same: "ae_event_id (event_to_stored (completed sha n (ev a))) = ae_event_id (event_to_stored (completed sha k (ev b)))" for n k a b
    by (simp add: completed_def ev_def recovery_event_def event_to_stored_def Let_def)
  from assms have in_store: "list_ex (\<lambda>e. ae_event_id e = ae_event_id (event_to_stored (completed sha now (ev t)))) (as_events (au_store s'))"
    by (auto simp: audit_record_def record_audit_event_def Let_def simp flip: ev_def split: if_splits option.splits prod.splits)
  show ?thesis
    using in_store same [of now t now' t']
    by (auto simp: audit_record_def record_audit_event_def Let_def find_event_def find_None_iff list_ex_iff simp flip: ev_def split: if_splits option.splits prod.splits)
qed

end
