(* ===== verification/Lifecycle.thy ===== *)
theory Lifecycle
  imports Prelude
begin

text \<open>
  \<open>edge/agent/lifecycle\<close>: the lifecycle coordinator and its ordered shutdown.  \<open>Shutdown\<close> may be
  called by any number of goroutines; between its critical sections it runs unlocked, so the calls are
  processes that interleave: a phase per caller and one step per critical section, hook or wake-up.
  What a hook answers and what a context reads is supplied by the step.  Metrics are not modelled.
\<close>

section \<open>States\<close>

datatype lifecycle_state = StateStarting | StateRunning | LcShuttingDown | StateStopped | LcOther string

datatype lifecycle_err =
    LcInvalidTransition | ErrShutdownTimeout | ErrAlreadyShuttingDown | ErrNilShutdownHook | ErrEmptyHookName
  | HookFailed string string | LcCtx ctx_err

fun lifecycle_state_valid :: "lifecycle_state \<Rightarrow> bool" where
  "lifecycle_state_valid (LcOther _) = False"
| "lifecycle_state_valid _ = True"

definition lifecycle_can :: "lifecycle_state \<Rightarrow> lifecycle_state \<Rightarrow> bool" where
  "lifecycle_can s t \<longleftrightarrow> lifecycle_state_valid s \<and> lifecycle_state_valid t \<and>
     (case s of
        StateStarting \<Rightarrow> t = StateRunning \<or> t = LcShuttingDown
      | StateRunning \<Rightarrow> t = LcShuttingDown
      | LcShuttingDown \<Rightarrow> t = StateStopped
      | _ \<Rightarrow> False)"

section \<open>The coordinator\<close>

text \<open>A hook's function is known by a number; \<open>None\<close> is the nil function.\<close>

record lc_hook =
  lh_name :: string
  lh_order :: int
  lh_function :: "nat option"

record coordinator =
  co_state :: lifecycle_state
  co_hooks :: "lc_hook list"
  co_timeout :: duration
  co_root_cancelled :: bool
  co_done :: bool
  co_error :: "lifecycle_err option"

definition with_timeout :: "duration \<Rightarrow> coordinator \<Rightarrow> coordinator" where
  "with_timeout d c = (if 0 < d then c\<lparr>co_timeout := d\<rparr> else c)"

text \<open>The root context derives from a given parent, which may be cancelled already; \<open>None\<close> is nil.\<close>

definition with_context :: "bool option \<Rightarrow> coordinator \<Rightarrow> coordinator" where
  "with_context parent c = (case parent of None \<Rightarrow> c | Some cancelled \<Rightarrow> c\<lparr>co_root_cancelled := cancelled\<rparr>)"

datatype lc_option = WithTimeout duration | WithContext "bool option"

fun apply_option :: "lc_option \<Rightarrow> coordinator \<Rightarrow> coordinator" where
  "apply_option (WithTimeout d) c = with_timeout d c"
| "apply_option (WithContext parent) c = with_context parent c"

definition new_coordinator :: "lc_option list \<Rightarrow> coordinator" where
  "new_coordinator opts = fold apply_option opts
     \<lparr>co_state = StateStarting, co_hooks = [], co_timeout = 10 * second, co_root_cancelled = False,
      co_done = False, co_error = None\<rparr>"

definition lc_start :: "coordinator \<Rightarrow> lifecycle_err option \<times> coordinator" where
  "lc_start c = (if lifecycle_can (co_state c) StateRunning then (None, c\<lparr>co_state := StateRunning\<rparr>)
     else (Some LcInvalidTransition, c))"

definition register_hook :: "lc_hook \<Rightarrow> coordinator \<Rightarrow> lifecycle_err option \<times> coordinator" where
  "register_hook h c =
     (if lh_name h = [] then (Some ErrEmptyHookName, c)
      else if lh_function h = None then (Some ErrNilShutdownHook, c)
      else if co_state c = LcShuttingDown \<or> co_state c = StateStopped then (Some ErrAlreadyShuttingDown, c)
      else (None, c\<lparr>co_hooks := co_hooks c @ [h]\<rparr>))"

text \<open>The comparator of \<open>sort.SliceStable\<close>: order, then name.\<close>

definition hook_before :: "lc_hook \<Rightarrow> lc_hook \<Rightarrow> bool" where
  "hook_before a b \<longleftrightarrow> (if lh_order a \<noteq> lh_order b then lh_order a < lh_order b else lh_name a < lh_name b)"

interpretation hook_order: keyed_order hook_before "\<lambda>h. (lh_order h, lh_name h)"
  by unfold_locales (auto simp: hook_before_def)

definition shutdown_sequence :: "coordinator \<Rightarrow> lc_hook list" where
  "shutdown_sequence c = sort_by hook_before (co_hooks c)"

section \<open>The context of a shutdown\<close>

text \<open>A caller's context: nil (\<open>None\<close>), or with an optional deadline.\<close>

definition shutdown_deadline :: "gotime \<Rightarrow> duration \<Rightarrow> gotime option option \<Rightarrow> gotime" where
  "shutdown_deadline now timeout ctx = (case ctx of Some (Some d) \<Rightarrow> d | _ \<Rightarrow> now + timeout)"

text \<open>\<open>shutdownCtx.Err()\<close> at \<open>now\<close>, when the caller's own context reads \<open>parent\<close>.\<close>

definition shutdown_ctx_err :: "gotime \<Rightarrow> ctx_err option \<Rightarrow> gotime \<Rightarrow> ctx_err option" where
  "shutdown_ctx_err deadline parent now =
     (case parent of Some e \<Rightarrow> Some e | None \<Rightarrow> if deadline \<le> now then Some CtxDeadlineExceeded else None)"

section \<open>Calls of Shutdown\<close>

text \<open>
  A call that has not begun, waits for another one, runs the hooks (those left, the errors so far, whether
  it timed out), has returned, or has panicked.
\<close>

datatype lc_phase =
    Idle
  | Waiting "gotime option option"
  | Running gotime "lc_hook list" "lifecycle_err list" bool
  | Returned "lifecycle_err option"
  | Panicked

record lifecycle =
  lc_coord :: coordinator
  lc_phase :: "nat \<Rightarrow> lc_phase"
  lc_executed :: "lc_hook list"

definition set_phase :: "nat \<Rightarrow> lc_phase \<Rightarrow> lifecycle \<Rightarrow> lifecycle" where
  "set_phase i p s = s\<lparr>lc_phase := (lc_phase s)(i := p)\<rparr>"

text \<open>The first critical section of \<open>Shutdown(ctx)\<close>, called at \<open>now\<close>.\<close>

definition call_shutdown :: "nat \<Rightarrow> gotime option option \<Rightarrow> gotime \<Rightarrow> lifecycle \<Rightarrow> lifecycle" where
  "call_shutdown i ctx now s =
     (let c = lc_coord s in
      if co_state c = StateStopped then set_phase i (Returned (co_error c)) s
      else if co_state c = LcShuttingDown then set_phase i (Waiting ctx) s
      else set_phase i (Running (shutdown_deadline now (co_timeout c) ctx) (shutdown_sequence c) [] False)
             (s\<lparr>lc_coord := c\<lparr>co_state := LcShuttingDown, co_root_cancelled := True\<rparr>\<rparr>))"

text \<open>
  One turn of the hook loop at \<open>now\<close>: the loop ends early when the context is done, otherwise the next
  hook runs and answers \<open>answer\<close>.
\<close>

definition hook_turn :: "nat \<Rightarrow> ctx_err option \<Rightarrow> gotime \<Rightarrow> string option \<Rightarrow> lifecycle \<Rightarrow> lifecycle" where
  "hook_turn i parent now answer s =
     (case lc_phase s i of
        Running deadline (h # hs) errs timed_out \<Rightarrow>
          if shutdown_ctx_err deadline parent now \<noteq> None
          then set_phase i (Running deadline [] (errs @ [ErrShutdownTimeout]) True) s
          else set_phase i (Running deadline hs
                 (case answer of None \<Rightarrow> errs | Some e \<Rightarrow> errs @ [HookFailed (lh_name h) e]) timed_out)
               (s\<lparr>lc_executed := lc_executed s @ [h]\<rparr>)
      | _ \<Rightarrow> s)"

text \<open>After the loop: the last look at the context, and the second critical section.\<close>

definition final_errors :: "gotime \<Rightarrow> lifecycle_err list \<Rightarrow> bool \<Rightarrow> ctx_err option \<Rightarrow> gotime \<Rightarrow> lifecycle_err list" where
  "final_errors deadline errs timed_out parent now =
     (if shutdown_ctx_err deadline parent now = Some CtxDeadlineExceeded \<and> \<not> timed_out
      then errs @ [ErrShutdownTimeout] else errs)"

definition finish_shutdown :: "nat \<Rightarrow> ctx_err option \<Rightarrow> gotime \<Rightarrow> lifecycle \<Rightarrow> lifecycle" where
  "finish_shutdown i parent now s =
     (case lc_phase s i of
        Running deadline [] errs timed_out \<Rightarrow>
          let err = (case final_errors deadline errs timed_out parent now of [] \<Rightarrow> None | e # _ \<Rightarrow> Some e)
          in set_phase i (Returned err)
               (s\<lparr>lc_coord := (lc_coord s)\<lparr>co_state := StateStopped, co_error := err, co_done := True\<rparr>\<rparr>)
      | _ \<Rightarrow> s)"

text \<open>
  A waiting call: \<open>ctx.Done()\<close> of a nil context panics when the \<open>select\<close> is reached; otherwise the call
  returns once the shutdown is done, or once its own context is (\<open>ctx_done\<close>), whichever the select picks.
\<close>

definition wake_waiting :: "nat \<Rightarrow> ctx_err option \<Rightarrow> lifecycle \<Rightarrow> lifecycle" where
  "wake_waiting i ctx_done s =
     (case lc_phase s i of
        Waiting None \<Rightarrow> set_phase i Panicked s
      | Waiting (Some _) \<Rightarrow>
          (case ctx_done of
             Some e \<Rightarrow> set_phase i (Returned (Some (LcCtx e))) s
           | None \<Rightarrow> if co_done (lc_coord s) then set_phase i (Returned (co_error (lc_coord s))) s else s)
      | _ \<Rightarrow> s)"

section \<open>Steps\<close>

datatype lc_event =
    LcStart
  | LcRegister lc_hook
  | LcCall nat "gotime option option" gotime
  | LcHook nat "ctx_err option" gotime "string option"
  | LcFinish nat "ctx_err option" gotime
  | LcWake nat "ctx_err option"

fun lc_step :: "lc_event \<Rightarrow> lifecycle \<Rightarrow> lifecycle" where
  "lc_step LcStart s = s\<lparr>lc_coord := snd (lc_start (lc_coord s))\<rparr>"
| "lc_step (LcRegister h) s = s\<lparr>lc_coord := snd (register_hook h (lc_coord s))\<rparr>"
| "lc_step (LcCall i ctx now) s = (if lc_phase s i = Idle then call_shutdown i ctx now s else s)"
| "lc_step (LcHook i parent now answer) s = hook_turn i parent now answer s"
| "lc_step (LcFinish i parent now) s = finish_shutdown i parent now s"
| "lc_step (LcWake i ctx_done) s = wake_waiting i ctx_done s"

definition lc_run :: "lc_event list \<Rightarrow> lifecycle \<Rightarrow> lifecycle" where
  "lc_run evs s = fold lc_step evs s"

definition initial_lifecycle :: "lc_option list \<Rightarrow> lifecycle" where
  "initial_lifecycle opts = \<lparr>lc_coord = new_coordinator opts, lc_phase = (\<lambda>_. Idle), lc_executed = []\<rparr>"

text \<open>The signal handler: one call with a deadline, once a signal arrives; a closed channel makes none.\<close>

definition signal_handler :: "nat \<Rightarrow> duration \<Rightarrow> gotime \<Rightarrow> bool \<Rightarrow> lc_event list" where
  "signal_handler i timeout now received = (if received then [LcCall i (Some (Some (now + timeout))) now] else [])"

end
