(* ===== verification/Lifecycle_Properties.thy ===== *)
theory Lifecycle_Properties
  imports Lifecycle
begin

text \<open>
  The shutdown over every interleaving of its callers: the hooks run once, in order; every caller that
  does not give up gets the same answer; and the shutdown ends.
\<close>

section \<open>Invariant\<close>

fun is_running :: "lc_phase \<Rightarrow> bool" where
  "is_running (Running _ _ _ _) = True"
| "is_running _ = False"

text \<open>The hooks still to run, and what the errors so far say about the ones that ran.\<close>

fun progress_ok :: "lc_hook list \<Rightarrow> lc_hook list \<Rightarrow> lc_phase \<Rightarrow> bool" where
  "progress_ok hooks past (Running _ hs errs timed_out) \<longleftrightarrow>
     (if timed_out then hs = [] \<and> errs \<noteq> [] \<and> (\<exists>rest. hooks = past @ rest) else hooks = past @ hs)"
| "progress_ok hooks past _ \<longleftrightarrow> True"

fun answer_ok :: "lifecycle_err option \<Rightarrow> lc_phase \<Rightarrow> bool" where
  "answer_ok err (Returned (Some (LcCtx _))) = True"
| "answer_ok err (Returned r) \<longleftrightarrow> r = err"
| "answer_ok err _ = True"

fun gave_up :: "lc_phase \<Rightarrow> bool" where
  "gave_up (Returned (Some (LcCtx _))) = True"
| "gave_up (Returned _) = False"
| "gave_up p \<longleftrightarrow> \<not> is_running p"

definition lc_inv :: "lifecycle \<Rightarrow> bool" where
  "lc_inv s \<longleftrightarrow>
     (case co_state (lc_coord s) of
        StateStopped \<Rightarrow> co_done (lc_coord s) \<and>
          (\<forall>i. \<not> is_running (lc_phase s i) \<and> answer_ok (co_error (lc_coord s)) (lc_phase s i)) \<and>
          (\<exists>rest. shutdown_sequence (lc_coord s) = lc_executed s @ rest \<and> (co_error (lc_coord s) = None \<longrightarrow> rest = []))
      | LcShuttingDown \<Rightarrow> \<not> co_done (lc_coord s) \<and>
          (\<exists>i. is_running (lc_phase s i) \<and> progress_ok (shutdown_sequence (lc_coord s)) (lc_executed s) (lc_phase s i) \<and>
             (\<forall>j. j \<noteq> i \<longrightarrow> gave_up (lc_phase s j)))
      | LcOther _ \<Rightarrow> False
      | _ \<Rightarrow> \<not> co_done (lc_coord s) \<and> (\<forall>i. lc_phase s i = Idle) \<and> lc_executed s = [])"

lemma set_phase_sel [simp]:
  "lc_coord (set_phase i p s) = lc_coord s"
  "lc_executed (set_phase i p s) = lc_executed s"
  "lc_phase (set_phase i p s) = (lc_phase s)(i := p)"
  by (simp_all add: set_phase_def)

lemma shutdown_sequence_cong [simp]:
  "shutdown_sequence (c\<lparr>co_state := a\<rparr>) = shutdown_sequence c"
  "shutdown_sequence (c\<lparr>co_root_cancelled := b\<rparr>) = shutdown_sequence c"
  "shutdown_sequence (c\<lparr>co_error := e\<rparr>) = shutdown_sequence c"
  "shutdown_sequence (c\<lparr>co_done := d\<rparr>) = shutdown_sequence c"
  by (simp_all add: shutdown_sequence_def)

lemma lc_inv_stopped:
  "co_state (lc_coord s) = StateStopped \<Longrightarrow> lc_inv s \<longleftrightarrow> co_done (lc_coord s) \<and>
     (\<forall>i. \<not> is_running (lc_phase s i) \<and> answer_ok (co_error (lc_coord s)) (lc_phase s i)) \<and>
     (\<exists>rest. shutdown_sequence (lc_coord s) = lc_executed s @ rest \<and> (co_error (lc_coord s) = None \<longrightarrow> rest = []))"
  by (simp add: lc_inv_def)

lemma lc_inv_shutting:
  "co_state (lc_coord s) = LcShuttingDown \<Longrightarrow> lc_inv s \<longleftrightarrow> \<not> co_done (lc_coord s) \<and>
     (\<exists>i. is_running (lc_phase s i) \<and> progress_ok (shutdown_sequence (lc_coord s)) (lc_executed s) (lc_phase s i) \<and>
        (\<forall>j. j \<noteq> i \<longrightarrow> gave_up (lc_phase s j)))"
  by (simp add: lc_inv_def)

lemma lc_inv_open:
  "co_state (lc_coord s) = StateStarting \<or> co_state (lc_coord s) = StateRunning \<Longrightarrow>
     lc_inv s \<longleftrightarrow> \<not> co_done (lc_coord s) \<and> (\<forall>i. lc_phase s i = Idle) \<and> lc_executed s = []"
  by (auto simp: lc_inv_def)

lemma lc_inv_state:
  obtains (opened) "co_state (lc_coord s) = StateStarting \<or> co_state (lc_coord s) = StateRunning"
  | (shutting) "co_state (lc_coord s) = LcShuttingDown" | (stopped) "co_state (lc_coord s) = StateStopped"
  | (broken) "\<not> lc_inv s"
  by (cases "co_state (lc_coord s)") (auto simp: lc_inv_def)

lemma gave_up_cases: "gave_up p \<longleftrightarrow> p = Idle \<or> p = Panicked \<or> (\<exists>c. p = Waiting c) \<or> (\<exists>e. p = Returned (Some (LcCtx e)))"
  by (cases p rule: gave_up.cases) auto

lemma gave_up_answer: "gave_up p \<Longrightarrow> \<not> is_running p \<and> answer_ok err p"
  by (auto simp: gave_up_cases)

section \<open>Every step keeps it\<close>

text \<open>A call that does not run the hooks changes its own phase only.\<close>

lemma lc_inv_give_up:
  assumes "lc_inv s" "co_state (lc_coord s) = LcShuttingDown" "\<not> is_running (lc_phase s i)" "gave_up p"
  shows "lc_inv (set_phase i p s)"
proof -
  obtain k where "is_running (lc_phase s k)" "progress_ok (shutdown_sequence (lc_coord s)) (lc_executed s) (lc_phase s k)"
    "\<forall>j. j \<noteq> k \<longrightarrow> gave_up (lc_phase s j)" "\<not> co_done (lc_coord s)"
    using assms(1) lc_inv_shutting [OF assms(2)] by blast
  moreover from this(1) have "k \<noteq> i" using assms(3) by auto
  ultimately show ?thesis using assms(2,4)
    by (subst lc_inv_shutting) (simp_all, metis)
qed

lemma lc_inv_answer:
  assumes "lc_inv s" "co_state (lc_coord s) = StateStopped" "\<not> is_running p" "answer_ok (co_error (lc_coord s)) p"
  shows "lc_inv (set_phase i p s)"
  using assms by (subst lc_inv_stopped) (auto simp: lc_inv_stopped)

lemma answer_ok_error [simp]: "answer_ok err (Returned err)"
  by (cases err; simp) (rename_tac e, case_tac e; simp)

lemma call_shutdown_inv: "lc_inv s \<Longrightarrow> lc_phase s i = Idle \<Longrightarrow> lc_inv (call_shutdown i ctx now s)"
proof (cases s rule: lc_inv_state)
  case opened
  assume "lc_inv s"
  with opened show ?thesis
    by (auto simp: call_shutdown_def Let_def lc_inv_open lc_inv_shutting)
next
  case shutting
  assume "lc_inv s" "lc_phase s i = Idle"
  with shutting show ?thesis
    by (auto simp: call_shutdown_def Let_def intro!: lc_inv_give_up)
next
  case stopped
  assume "lc_inv s" "lc_phase s i = Idle"
  with stopped show ?thesis
    by (auto simp: call_shutdown_def Let_def intro!: lc_inv_answer)
qed auto

lemma wake_waiting_inv: "lc_inv s \<Longrightarrow> lc_inv (wake_waiting i e s)"
proof (cases "lc_phase s i")
  case (Waiting ctx)
  assume inv: "lc_inv s"
  show ?thesis
  proof (cases s rule: lc_inv_state)
    case opened
    with inv Waiting show ?thesis by (simp add: lc_inv_open)
  next
    case shutting
    then have "\<not> co_done (lc_coord s)" using inv by (simp add: lc_inv_shutting)
    with shutting inv Waiting show ?thesis
      by (auto simp: wake_waiting_def split: option.split intro!: lc_inv_give_up)
  next
    case stopped
    with inv Waiting show ?thesis
      by (auto simp: wake_waiting_def split: option.split intro!: lc_inv_answer)
  qed (use inv in auto)
qed (simp_all add: wake_waiting_def)

lemma running_state:
  assumes "lc_inv s" "is_running (lc_phase s i)"
  shows "co_state (lc_coord s) = LcShuttingDown" "\<not> co_done (lc_coord s)"
    "progress_ok (shutdown_sequence (lc_coord s)) (lc_executed s) (lc_phase s i)"
    "j \<noteq> i \<Longrightarrow> gave_up (lc_phase s j)"
proof -
  show sh: "co_state (lc_coord s) = LcShuttingDown"
    using assms by (cases s rule: lc_inv_state) (auto simp: lc_inv_open lc_inv_stopped)
  obtain k where k: "is_running (lc_phase s k)" "progress_ok (shutdown_sequence (lc_coord s)) (lc_executed s) (lc_phase s k)"
    "\<forall>j. j \<noteq> k \<longrightarrow> gave_up (lc_phase s j)" "\<not> co_done (lc_coord s)"
    using assms(1) lc_inv_shutting [OF sh] by blast
  moreover have "k = i" using k(3) assms(2) gave_up_answer by metis
  ultimately show "\<not> co_done (lc_coord s)"
    "progress_ok (shutdown_sequence (lc_coord s)) (lc_executed s) (lc_phase s i)"
    "j \<noteq> i \<Longrightarrow> gave_up (lc_phase s j)" by auto
qed

lemma hook_turn_inv: "lc_inv s \<Longrightarrow> lc_inv (hook_turn i e now answer s)"
proof (cases "lc_phase s i")
  case (Running dl hs errs t)
  assume inv: "lc_inv s"
  note r = running_state [OF inv, of i, unfolded Running, simplified]
  show ?thesis
  proof (cases hs)
    case Nil
    with inv Running show ?thesis by (simp add: hook_turn_def)
  next
    case (Cons h hs')
    have "lc_inv u" if "co_state (lc_coord u) = LcShuttingDown" "\<not> co_done (lc_coord u)" "is_running (lc_phase u i)"
      "progress_ok (shutdown_sequence (lc_coord u)) (lc_executed u) (lc_phase u i)" "\<forall>j. j \<noteq> i \<longrightarrow> gave_up (lc_phase u j)" for u
      using that by (subst lc_inv_shutting) auto
    from this [of "hook_turn i e now answer s"] Cons Running r show ?thesis
      by (auto simp: hook_turn_def split: if_splits)
  qed
qed (simp_all add: hook_turn_def)

lemma final_errors_Nil: "final_errors dl errs t e now = [] \<Longrightarrow> errs = []"
  by (auto simp: final_errors_def split: if_splits)

lemma finish_shutdown_inv: "lc_inv s \<Longrightarrow> lc_inv (finish_shutdown i e now s)"
proof (cases "lc_phase s i")
  case (Running dl hs errs t)
  assume inv: "lc_inv s"
  note r = running_state [OF inv, of i, unfolded Running, simplified]
  show ?thesis
  proof (cases hs)
    case Nil
    define err where "err = (case final_errors dl errs t e now of [] \<Rightarrow> None | e # _ \<Rightarrow> Some e)"
    have fin: "finish_shutdown i e now s = set_phase i (Returned err)
        (s\<lparr>lc_coord := (lc_coord s)\<lparr>co_state := StateStopped, co_error := err, co_done := True\<rparr>\<rparr>)"
      by (simp add: finish_shutdown_def Running Nil err_def Let_def)
    have "err = None \<Longrightarrow> errs = []" using final_errors_Nil by (auto simp: err_def split: list.splits)
    then have "\<exists>rest. shutdown_sequence (lc_coord s) = lc_executed s @ rest \<and> (err = None \<longrightarrow> rest = [])"
      using r(3) Nil by (auto split: if_splits)
    moreover have "\<not> is_running (lc_phase s j) \<and> answer_ok err (lc_phase s j)" if "j \<noteq> i" for j
      using r(4) [OF that] gave_up_answer by blast
    ultimately show ?thesis unfolding fin by (subst lc_inv_stopped) simp_all
  next
    case (Cons h hs')
    with inv Running show ?thesis by (simp add: finish_shutdown_def)
  qed
qed (simp_all add: finish_shutdown_def)

lemma lc_step_inv: "lc_inv s \<Longrightarrow> lc_inv (lc_step ev s)"
proof (cases ev)
  case LcStart
  assume inv: "lc_inv s"
  show ?thesis
  proof (cases s rule: lc_inv_state)
    case opened
    with inv LcStart show ?thesis
      by (auto simp: lc_inv_open lc_start_def lifecycle_can_def)
  qed (use inv LcStart in \<open>simp_all add: lc_start_def lifecycle_can_def\<close>)
next
  case (LcRegister h)
  assume inv: "lc_inv s"
  show ?thesis
  proof (cases s rule: lc_inv_state)
    case opened
    with inv LcRegister show ?thesis
      by (auto simp: lc_inv_open register_hook_def)
  qed (use inv LcRegister in \<open>simp_all add: register_hook_def\<close>)
qed (simp_all add: call_shutdown_inv wake_waiting_inv hook_turn_inv finish_shutdown_inv)

lemma lc_run_inv: "lc_inv s \<Longrightarrow> lc_inv (lc_run evs s)"
  by (induction evs arbitrary: s) (simp_all add: lc_run_def lc_step_inv)

lemma new_coordinator_sel [simp]:
  "co_state (new_coordinator opts) = StateStarting" "co_done (new_coordinator opts) = False" "co_hooks (new_coordinator opts) = []"
proof -
  have "co_state (fold apply_option opts c) = co_state c \<and> co_done (fold apply_option opts c) = co_done c \<and>
      co_hooks (fold apply_option opts c) = co_hooks c" for c
  proof (induction opts arbitrary: c)
    case (Cons opt opts)
    then show ?case by (cases opt) (simp_all add: with_timeout_def with_context_def split: option.split)
  qed simp
  then show "co_state (new_coordinator opts) = StateStarting" "co_done (new_coordinator opts) = False" "co_hooks (new_coordinator opts) = []"
    by (simp_all add: new_coordinator_def)
qed

lemma initial_lifecycle_inv: "lc_inv (initial_lifecycle opts)"
  by (simp add: lc_inv_open initial_lifecycle_def)

section \<open>Order and agreement\<close>

text \<open>
  C0. Ordered, agreed shutdown: over every interleaving of starts, registrations and calls of
  \<open>Shutdown\<close>, and whatever the hooks and contexts answer, the hooks that ran are a prefix of the
  registered ones in order of their number and name, each once; they all ran when the shutdown ended
  without an error; and every call that returned answers the error of the shutdown once it has stopped,
  unless it gave up on its own context.
\<close>

theorem shutdown_runs_hooks_in_order:
  assumes "s = lc_run evs (initial_lifecycle opts)"
  shows "(\<exists>rest. sort_key (\<lambda>h. (lh_order h, lh_name h)) (co_hooks (lc_coord s)) = lc_executed s @ rest \<and>
      (co_state (lc_coord s) = StateStopped \<and> co_error (lc_coord s) = None \<longrightarrow> rest = [])) \<and>
    (\<forall>i r. lc_phase s i = Returned r \<longrightarrow>
      (\<exists>e. r = Some (LcCtx e)) \<or> co_state (lc_coord s) = StateStopped \<and> r = co_error (lc_coord s))"
proof -
  have inv: "lc_inv s" unfolding assms by (rule lc_run_inv) (rule initial_lifecycle_inv)
  have seq: "sort_key (\<lambda>h. (lh_order h, lh_name h)) (co_hooks (lc_coord s)) = shutdown_sequence (lc_coord s)"
    by (simp add: shutdown_sequence_def hook_order.sort_by_sort_key)
  show ?thesis
  proof (cases s rule: lc_inv_state)
    case opened
    with inv show ?thesis by (auto simp: lc_inv_open)
  next
    case shutting
    with inv obtain i where i: "is_running (lc_phase s i)" by (auto simp: lc_inv_shutting)
    have "\<exists>rest. shutdown_sequence (lc_coord s) = lc_executed s @ rest"
      using running_state(3) [OF inv i] i by (cases "lc_phase s i") (auto split: if_splits)
    moreover have "\<exists>e. r = Some (LcCtx e)" if "lc_phase s j = Returned r" for j r
      using running_state(4) [OF inv i, of j] i that by (cases "j = i") (auto simp: gave_up_cases)
    ultimately show ?thesis unfolding seq using shutting by auto
  next
    case stopped
    have "(\<exists>e. r = Some (LcCtx e)) \<or> r = co_error (lc_coord s)" if "lc_phase s j = Returned r" for j r
    proof -
      have "answer_ok (co_error (lc_coord s)) (Returned r)" using inv that by (metis lc_inv_stopped [OF stopped])
      then show ?thesis by (cases "(co_error (lc_coord s), Returned r)" rule: answer_ok.cases) auto
    qed
    then show ?thesis unfolding seq using inv stopped by (auto simp: lc_inv_stopped)
  qed (use inv in auto)
qed

section \<open>Termination\<close>

fun is_turn :: "nat \<Rightarrow> lc_event \<Rightarrow> bool" where
  "is_turn i (LcHook j _ _ _) \<longleftrightarrow> i = j"
| "is_turn i _ = False"

text \<open>The hooks left to the call \<open>i\<close>: \<open>None\<close> once the shutdown has stopped.\<close>

definition at_most_left :: "nat \<Rightarrow> nat \<Rightarrow> lifecycle \<Rightarrow> bool" where
  "at_most_left i n s \<longleftrightarrow> co_state (lc_coord s) = StateStopped \<or>
     (\<exists>dl hs errs t. co_state (lc_coord s) = LcShuttingDown \<and> lc_phase s i = Running dl hs errs t \<and> length hs \<le> n)"

lemma stopped_step: "co_state (lc_coord s) = StateStopped \<Longrightarrow> co_state (lc_coord (lc_step ev s)) = StateStopped"
  by (cases ev) (auto simp: lc_start_def lifecycle_can_def register_hook_def call_shutdown_def hook_turn_def finish_shutdown_def
      wake_waiting_def Let_def split: lc_phase.splits list.splits option.splits)

lemma left_step:
  assumes "lc_inv s" "at_most_left i (if is_turn i ev then Suc n else n) s"
  shows "at_most_left i n (lc_step ev s)"
proof (cases "co_state (lc_coord s) = StateStopped")
  case True
  then show ?thesis by (simp add: at_most_left_def stopped_step)
next
  case False
  then obtain dl hs errs t where r: "co_state (lc_coord s) = LcShuttingDown" "lc_phase s i = Running dl hs errs t"
    "length hs \<le> (if is_turn i ev then Suc n else n)"
    using assms(2) by (auto simp: at_most_left_def)
  have others: "lc_phase s j = Running a b c d \<Longrightarrow> j = i" for j a b c d
    using running_state(4) [OF assms(1), of i j] r(2) gave_up_answer [of "lc_phase s j"] by fastforce
  show ?thesis
  proof (cases ev)
    case (LcCall j ctx now)
    with r show ?thesis by (auto simp: at_most_left_def call_shutdown_def)
  next
    case (LcHook j e now answer)
    show ?thesis
    proof (cases "j = i")
      case True
      with r LcHook show ?thesis by (auto simp: at_most_left_def hook_turn_def split: list.splits)
    next
      case False
      then have "hook_turn j e now answer s = s"
        using others [of j] by (cases "lc_phase s j") (auto simp: hook_turn_def)
      with False r LcHook show ?thesis by (simp add: at_most_left_def)
    qed
  next
    case (LcFinish j e now)
    show ?thesis
    proof (cases "j = i")
      case True
      with r LcFinish show ?thesis by (auto simp: at_most_left_def finish_shutdown_def Let_def split: list.splits)
    next
      case False
      then have "finish_shutdown j e now s = s"
        using others [of j] by (cases "lc_phase s j") (auto simp: finish_shutdown_def)
      with False r LcFinish show ?thesis by (simp add: at_most_left_def)
    qed
  next
    case (LcWake j e)
    with r show ?thesis
      by (auto simp: at_most_left_def wake_waiting_def split: lc_phase.splits option.splits)
  qed (use r in \<open>auto simp: at_most_left_def lc_start_def lifecycle_can_def register_hook_def\<close>)
qed

lemma left_run:
  "lc_inv s \<Longrightarrow> at_most_left i (n + length (filter (is_turn i) evs)) s \<Longrightarrow> at_most_left i n (lc_run evs s)"
proof (induction evs arbitrary: s)
  case (Cons ev evs)
  have "at_most_left i (n + length (filter (is_turn i) evs)) (lc_step ev s)"
    using Cons.prems by (intro left_step) (simp_all split: if_splits)
  with Cons.IH [OF lc_step_inv [OF Cons.prems(1)]] show ?case by (simp add: lc_run_def)
qed (simp add: lc_run_def)

lemma finish_stops: "at_most_left i 0 s \<Longrightarrow> co_state (lc_coord (lc_step (LcFinish i e now) s)) = StateStopped"
  by (auto simp: at_most_left_def finish_shutdown_def Let_def stopped_step split: lc_phase.splits list.splits)

lemma running_left:
  assumes "lc_inv s" "is_running (lc_phase s i)"
  shows "at_most_left i (length (co_hooks (lc_coord s))) s"
proof -
  obtain dl hs errs t where r: "lc_phase s i = Running dl hs errs t" using assms(2) by (cases "lc_phase s i") auto
  have "length hs \<le> length (shutdown_sequence (lc_coord s))"
    using running_state(3) [OF assms] r by (auto split: if_splits)
  then show ?thesis using running_state(1) [OF assms] r by (auto simp: at_most_left_def shutdown_sequence_def)
qed

text \<open>
  A shutdown ends: once it has begun there is one call that runs it, and after as many of its turns
  as there are hooks, interleaved with anything else, its last step stops the agent; every call that
  still waits with a context of its own then returns at its next wake-up.
\<close>

theorem shutdown_terminates:
  assumes "s = lc_run before (initial_lifecycle opts)" "co_state (lc_coord s) = LcShuttingDown"
  shows "\<exists>i. \<forall>evs e now. length (co_hooks (lc_coord s)) \<le> length (filter (is_turn i) evs) \<longrightarrow>
    co_state (lc_coord (lc_run (evs @ [LcFinish i e now]) s)) = StateStopped \<and>
    (\<forall>j ctx e'. lc_phase (lc_run (evs @ [LcFinish i e now]) s) j = Waiting (Some ctx) \<longrightarrow>
      (\<exists>r. lc_phase (lc_step (LcWake j e') (lc_run (evs @ [LcFinish i e now]) s)) j = Returned r))"
proof -
  have inv: "lc_inv s" unfolding assms(1) by (rule lc_run_inv) (rule initial_lifecycle_inv)
  then obtain i where i: "is_running (lc_phase s i)" using assms(2) by (auto simp: lc_inv_shutting)
  have "co_state (lc_coord (lc_run (evs @ [LcFinish i e now]) s)) = StateStopped"
    if "length (co_hooks (lc_coord s)) \<le> length (filter (is_turn i) evs)" for evs e now
  proof -
    have "at_most_left i (0 + length (filter (is_turn i) evs)) s"
      using running_left [OF inv i] that by (auto simp: at_most_left_def)
    from left_run [OF inv this] finish_stops show ?thesis by (simp add: lc_run_def)
  qed
  moreover have "\<exists>r. lc_phase (lc_step (LcWake j e') u) j = Returned r"
    if "co_state (lc_coord u) = StateStopped" "lc_inv u" "lc_phase u j = Waiting (Some ctx)" for u j ctx e'
    using that by (auto simp: wake_waiting_def lc_inv_stopped split: option.split)
  ultimately show ?thesis using lc_run_inv [OF inv] by blast
qed

section \<open>Witnesses\<close>

abbreviation two_hooks :: "lc_event list" where
  "two_hooks \<equiv> [LcRegister \<lparr>lh_name = ''store'', lh_order = 2, lh_function = Some 0\<rparr>,
     LcRegister \<lparr>lh_name = ''sync'', lh_order = 1, lh_function = Some 1\<rparr>, LcStart, LcCall 7 None 5, LcCall 8 (Some None) 6]"

lemma two_hooks_run:
  "co_state (lc_coord (lc_run two_hooks (initial_lifecycle []))) = LcShuttingDown"
  "length (co_hooks (lc_coord (lc_run two_hooks (initial_lifecycle [])))) = 2"
  by (simp_all add: lc_run_def initial_lifecycle_def new_coordinator_def register_hook_def lc_start_def lifecycle_can_def
      call_shutdown_def Let_def set_phase_def)

theorem shutdown_terminates_witness:
  "\<exists>i. co_state (lc_coord (lc_run ([LcHook i None 6 None, LcHook 3 None 6 None, LcHook i None 7 (Some ''x'')] @ [LcFinish i None 8])
     (lc_run two_hooks (initial_lifecycle [])))) = StateStopped"
proof -
  obtain i where i: "\<forall>evs e now. length (co_hooks (lc_coord (lc_run two_hooks (initial_lifecycle [])))) \<le> length (filter (is_turn i) evs) \<longrightarrow>
      co_state (lc_coord (lc_run (evs @ [LcFinish i e now]) (lc_run two_hooks (initial_lifecycle [])))) = StateStopped"
    using shutdown_terminates [OF refl two_hooks_run(1)] by blast
  have "length (co_hooks (lc_coord (lc_run two_hooks (initial_lifecycle [])))) \<le>
      length (filter (is_turn i) [LcHook i None 6 None, LcHook 3 None 6 None, LcHook i None 7 (Some ''x'')])"
    unfolding two_hooks_run(2) by simp
  with i show ?thesis by blast
qed

theorem shutdown_runs_hooks_in_order_witness:
  "\<exists>rest. sort_key (\<lambda>h. (lh_order h, lh_name h)) (co_hooks (lc_coord (lc_run (two_hooks @ [LcHook 7 None 6 None]) (initial_lifecycle [])))) =
     lc_executed (lc_run (two_hooks @ [LcHook 7 None 6 None]) (initial_lifecycle [])) @ rest"
  using shutdown_runs_hooks_in_order [OF refl, of "two_hooks @ [LcHook 7 None 6 None]" "[]"] by blast

text \<open>A second call with a nil context panics while the shutdown runs; the first call accepts one.\<close>

theorem second_call_with_nil_context_panics:
  "lc_phase (lc_run [LcCall 7 None 5, LcCall 8 None 6, LcWake 8 None] (initial_lifecycle [])) 8 = Panicked"
  by (simp add: lc_run_def initial_lifecycle_def new_coordinator_def call_shutdown_def wake_waiting_def Let_def set_phase_def)

end
