(* ===== verification/Cp_Auth.thy ===== *)
theory Cp_Auth
  imports Response_Decision "HOL-Library.AList"
begin

text \<open>
  Authentication of requests to the control plane: \<open>shared/types/auth.go\<close> and
  \<open>services/control-plane/server/auth.go\<close>.  HMAC-SHA256, SHA-256, \<open>time.Parse\<close> of RFC 3339 texts, the
  parsing of addresses (package \<open>net\<close>) and the loading of certificates are parameters.  Header values
  and methods are the texts \<open>net/http\<close> hands over.
\<close>

section \<open>Errors\<close>

datatype auth_err =
    AuthMissingHeaders | AuthInvalidSignature | AuthExpiredTimestamp | AuthFutureTimestamp | AuthReplayDetected
  | AuthUnauthorized | AuthForbidden | AuthIncompleteTLS | AuthBadNodeID | AuthMalformedTimestamp | AuthConfigError msg

section \<open>Signatures\<close>

type_synonym mac = "string \<Rightarrow> string \<Rightarrow> nat list"

definition upper_byte :: "char \<Rightarrow> char" where
  "upper_byte c = (if 97 \<le> byte c \<and> byte c \<le> 122 then char_of (byte c - 32) else c)"

definition canonical_fields :: "digest \<Rightarrow> string \<Rightarrow> string \<Rightarrow> string \<Rightarrow> string \<Rightarrow> string \<Rightarrow> string \<Rightarrow> string list" where
  "canonical_fields sha method target node ts nonce body =
     [map upper_byte (trim_space method), trim_space target, trim_space node, trim_space ts, trim_space nonce,
      hex_bytes (sha body)]"

definition build_canonical_string :: "digest \<Rightarrow> string \<Rightarrow> string \<Rightarrow> string \<Rightarrow> string \<Rightarrow> string \<Rightarrow> string \<Rightarrow> string" where
  "build_canonical_string sha method target node ts nonce body =
     join [CHR 0x0A] (canonical_fields sha method target node ts nonce body)"

definition sign_request ::
  "mac \<Rightarrow> digest \<Rightarrow> string \<Rightarrow> string \<Rightarrow> string \<Rightarrow> string \<Rightarrow> string \<Rightarrow> string \<Rightarrow> string \<Rightarrow> string" where
  "sign_request hmac sha secret method target node ts nonce body =
     hex_bytes (hmac secret (build_canonical_string sha method target node ts nonce body))"

definition generate_nonce :: "nat list option \<Rightarrow> string option" where
  "generate_nonce rnd = map_option hex_bytes rnd"

record auth_headers =
  ah_node_id :: string
  ah_timestamp :: string
  ah_nonce :: string
  ah_signature :: string

text \<open>\<open>stamp\<close> is the current time as RFC 3339 text.\<close>

definition create_auth_headers ::
  "mac \<Rightarrow> digest \<Rightarrow> nat list option \<Rightarrow> string \<Rightarrow> string \<Rightarrow> string \<Rightarrow> string \<Rightarrow> string \<Rightarrow> string \<Rightarrow> auth_headers option" where
  "create_auth_headers hmac sha rnd stamp secret method target node body =
     (case generate_nonce rnd of
        None \<Rightarrow> None
      | Some nonce \<Rightarrow> Some \<lparr>ah_node_id = node, ah_timestamp = stamp, ah_nonce = nonce,
          ah_signature = sign_request hmac sha secret method target node stamp nonce body\<rparr>)"

definition verify_signature ::
  "mac \<Rightarrow> digest \<Rightarrow> string \<Rightarrow> string \<Rightarrow> string \<Rightarrow> string \<Rightarrow> string \<Rightarrow> string \<Rightarrow> string \<Rightarrow> string \<Rightarrow> bool" where
  "verify_signature hmac sha secret method target node ts nonce signature body =
     (if secret = [] \<or> signature = [] then False
      else sign_request hmac sha secret method target node ts nonce body = to_lower (trim_space signature))"

definition is_bearer :: "string \<Rightarrow> bool" where
  "is_bearer header = has_prefix (to_lower (trim_space header)) ''bearer ''"

definition verify_admin_token :: "string \<Rightarrow> string \<Rightarrow> bool" where
  "verify_admin_token configured header =
     (if trim_space configured = [] then False
      else if \<not> is_bearer header then False
      else trim_space (drop 7 (trim_space header)) = trim_space configured)"

section \<open>Timestamps\<close>

definition decimal :: "char \<Rightarrow> bool" where
  "decimal c \<longleftrightarrow> 48 \<le> byte c \<and> byte c \<le> 57"

text \<open>
  \<open>fmt.Sscanf(s, "%d", &sec)\<close> on a text without blanks in front: an optional sign and the digits that
  follow it; what comes after them is left unread.
\<close>

definition scan_int :: "string \<Rightarrow> int option" where
  "scan_int s =
     (let neg = has_prefix s ''-'';
          body = takeWhile decimal (if has_prefix s ''-'' \<or> has_prefix s ''+'' then tl s else s)
      in if body = [] then None
         else case parse_digits 0 body of
           None \<Rightarrow> None
         | Some n \<Rightarrow> let i = (if neg then - int n else int n)
                     in if - (2 ^ 63) \<le> i \<and> i < 2 ^ 63 then Some i else None)"

definition parse_timestamp :: "(string \<Rightarrow> gotime option) \<Rightarrow> string \<Rightarrow> gotime option" where
  "parse_timestamp rfc3339 s =
     (let clean = trim_space s
      in if clean = [] then None
         else case rfc3339 clean of
           Some t \<Rightarrow> Some t
         | None \<Rightarrow> (case scan_int clean of
             Some sec \<Rightarrow> if 0 < sec then Some ((62135596800 + sec) * second) else None
           | None \<Rightarrow> None))"

section \<open>Replay cache\<close>

record replay_cache =
  rc_seen :: "(string \<times> gotime) list"
  rc_max :: nat

definition new_replay_cache :: "int \<Rightarrow> replay_cache" where
  "new_replay_cache n = \<lparr>rc_seen = [], rc_max = (if n \<le> 0 then 100000 else nat n)\<rparr>"

definition unexpired :: "gotime \<Rightarrow> (string \<times> gotime) list \<Rightarrow> (string \<times> gotime) list" where
  "unexpired now seen = filter (\<lambda>e. \<not> snd e < now) seen"

definition prune_expired :: "gotime \<Rightarrow> replay_cache \<Rightarrow> nat \<times> replay_cache" where
  "prune_expired now c =
     (length (rc_seen c) - length (unexpired now (rc_seen c)), c\<lparr>rc_seen := unexpired now (rc_seen c)\<rparr>)"

definition check_and_add :: "gotime \<Rightarrow> string \<Rightarrow> gotime \<Rightarrow> replay_cache \<Rightarrow> bool \<times> replay_cache" where
  "check_and_add now nonce expiry c =
     (if (case map_of (rc_seen c) nonce of Some e \<Rightarrow> now < e | None \<Rightarrow> False) then (False, c)
      else let c1 = (if rc_max c div 2 \<le> length (rc_seen c) then c\<lparr>rc_seen := unexpired now (rc_seen c)\<rparr> else c)
        in if rc_max c1 \<le> length (rc_seen c1) then (False, c1)
           else (True, c1\<lparr>rc_seen := AList.update nonce expiry (rc_seen c1)\<rparr>))"

section \<open>Configuration\<close>

record auth_config =
  ac_enabled :: bool
  ac_shared_secret :: string
  ac_node_secrets :: gomap
  ac_secret_resolver :: "(string \<Rightarrow> string option) option"
  ac_admin_token :: string
  ac_max_clock_skew :: duration
  ac_replay_protection :: bool
  ac_tls_cert :: string
  ac_tls_key :: string

abbreviation default_clock_skew :: duration where "default_clock_skew \<equiv> 5 * minute"

definition default_auth_config :: auth_config where
  "default_auth_config =
     \<lparr>ac_enabled = False, ac_shared_secret = [], ac_node_secrets = [], ac_secret_resolver = None, ac_admin_token = [],
      ac_max_clock_skew = default_clock_skew, ac_replay_protection = True, ac_tls_cert = [], ac_tls_key = []\<rparr>"

text \<open>
  \<open>net.SplitHostPort\<close> (the host, or an error) and the loopback test of \<open>net.ParseIP\<close>.
\<close>

record net_lib =
  nl_split_host :: "string \<Rightarrow> string option"
  nl_loopback_ip :: "string \<Rightarrow> bool"

definition is_loopback_address :: "net_lib \<Rightarrow> string \<Rightarrow> bool" where
  "is_loopback_address net addr =
     (let clean = trim_space addr
      in if clean = [] then False
         else let host = trim_space (case nl_split_host net clean of Some h \<Rightarrow> h | None \<Rightarrow> clean)
           in if host = [] \<or> host = ''0.0.0.0'' \<or> host = ''::'' then False
              else if to_lower host = ''localhost'' then True
              else nl_loopback_ip net host)"

text \<open>\<open>os.Stat\<close> of the two files and \<open>tls.LoadX509KeyPair\<close>.\<close>

record tls_files =
  tf_exists :: "string \<Rightarrow> bool"
  tf_pair :: "string \<Rightarrow> string \<Rightarrow> bool"

definition validate_tls_config :: "tls_files \<Rightarrow> string \<Rightarrow> string \<Rightarrow> auth_err option" where
  "validate_tls_config fs cert_file key_file =
     (let cert = trim_space cert_file; key = trim_space key_file
      in if cert = [] \<and> key = [] then None
         else if cert = [] \<or> key = [] then Some AuthIncompleteTLS
         else if \<not> tf_exists fs cert then Some (AuthConfigError (Lit ''TLS cert file inaccessible''))
         else if \<not> tf_exists fs key then Some (AuthConfigError (Lit ''TLS key file inaccessible''))
         else if \<not> tf_pair fs cert key then Some (AuthConfigError (Lit ''invalid TLS certificate or private key''))
         else None)"

definition validate_environment :: "net_lib \<Rightarrow> auth_config \<Rightarrow> string \<Rightarrow> bool \<Rightarrow> msg option" where
  "validate_environment net c addr production =
     (if production then
        (if \<not> ac_enabled c then Some (Lit ''authentication cannot be disabled in production'')
         else if ac_admin_token c = [] then Some (Lit ''admin token is required in production'')
         else if ac_shared_secret c \<noteq> [] then Some (Lit ''fleet-wide shared secret is strictly prohibited in production'')
         else if ac_node_secrets c = [] \<and> ac_secret_resolver c = None
         then Some (Lit ''production environment requires per-node credentials'')
         else if ac_tls_cert c = [] \<or> ac_tls_key c = [] then Some (Lit ''production environment requires TLS configuration'')
         else None)
      else if \<not> is_loopback_address net addr then
        (if \<not> ac_enabled c then Some (Lit ''authentication cannot be disabled on non-loopback listen address'')
         else if ac_admin_token c = [] then Some (Lit ''admin token is required on non-loopback listen address'')
         else None)
      else None)"

definition validate_secrets :: "auth_config \<Rightarrow> msg option" where
  "validate_secrets c =
     (if \<not> ac_enabled c then None
      else if ac_shared_secret c = [] \<and> ac_node_secrets c = [] \<and> ac_secret_resolver c = None
      then Some (Lit ''authentication is enabled but neither shared secret nor node secrets are configured'')
      else if ac_shared_secret c \<noteq> [] \<and> length (ac_shared_secret c) < 16
      then Some (Lit ''shared secret must be at least 16 characters'')
      else if list_ex (\<lambda>e. length (snd e) < 16) (ac_node_secrets c)
      then Some (Lit ''per-node secrets must be at least 16 characters'')
      else if ac_admin_token c \<noteq> [] \<and> length (ac_admin_token c) < 16
      then Some (Lit ''admin token must be at least 16 characters'')
      else None)"

definition auth_config_validate :: "net_lib \<Rightarrow> tls_files \<Rightarrow> auth_config \<Rightarrow> string \<Rightarrow> bool \<Rightarrow> auth_err option" where
  "auth_config_validate net fs c addr production =
     (case validate_environment net c addr production of Some e \<Rightarrow> Some (AuthConfigError e) | None \<Rightarrow>
      case validate_secrets c of Some e \<Rightarrow> Some (AuthConfigError e) | None \<Rightarrow>
      validate_tls_config fs (ac_tls_cert c) (ac_tls_key c))"

section \<open>Secrets\<close>

definition valid_node_id :: "string \<Rightarrow> bool" where
  "valid_node_id raw =
     (let i = trim_space raw
      in 3 \<le> length i \<and> length i \<le> 128 \<and>
         list_all (\<lambda>c. decimal c \<or> (97 \<le> byte c \<and> byte c \<le> 122) \<or> (65 \<le> byte c \<and> byte c \<le> 90) \<or>
           c = CHR ''-'' \<or> c = CHR ''_'') i \<and>
         \<not> list_ex (contains (to_lower i)) [''secret'', ''token'', ''password''])"

text \<open>
  \<open>LoadNodeSecretsFile\<close>, on the members of the file's JSON object in their order, each with its value
  or, when that is no string, \<open>None\<close>.
\<close>

datatype secrets_err =
    SecretsDuplicateKey string | SecretsBadValue string | SecretsBlankNode | SecretsBadNode string
  | SecretsEmptySecret string | SecretsShortSecret string | SecretsNone

fun load_members :: "(string \<times> string option) list \<Rightarrow> gomap \<Rightarrow> secrets_err + gomap" where
  "load_members [] secrets = Inr secrets"
| "load_members ((key, v) # rest) secrets =
     (if map_of secrets key \<noteq> None then Inl (SecretsDuplicateKey key)
      else case v of None \<Rightarrow> Inl (SecretsBadValue key) | Some text_value \<Rightarrow>
      if trim_space key = [] then Inl SecretsBlankNode
      else if \<not> valid_node_id (trim_space key) then Inl (SecretsBadNode (trim_space key))
      else if trim_space text_value = [] then Inl (SecretsEmptySecret (trim_space key))
      else if length (trim_space text_value) < 16 then Inl (SecretsShortSecret (trim_space key))
      else load_members rest (AList.update (trim_space key) (trim_space text_value) secrets))"

definition load_node_secrets :: "(string \<times> string option) list \<Rightarrow> secrets_err + gomap" where
  "load_node_secrets members =
     (case load_members members [] of
        Inl e \<Rightarrow> Inl e
      | Inr secrets \<Rightarrow> if secrets = [] then Inl SecretsNone else Inr secrets)"

definition resolve_node_secret :: "auth_config \<Rightarrow> string \<Rightarrow> string option" where
  "resolve_node_secret c node =
     (case ac_secret_resolver c of
        Some resolver \<Rightarrow> (case resolver node of None \<Rightarrow> None | Some s \<Rightarrow> if s = [] then None else Some s)
      | None \<Rightarrow>
          if ac_node_secrets c \<noteq> []
          then (case map_of (ac_node_secrets c) node of None \<Rightarrow> None | Some s \<Rightarrow> if s = [] then None else Some s)
          else if ac_shared_secret c \<noteq> [] then Some (ac_shared_secret c) else None)"

section \<open>Requests\<close>

text \<open>\<open>rq_target\<close> is the request URI, or the path where that is empty.\<close>

record auth_request =
  rq_method :: string
  rq_target :: string
  rq_authorization :: string
  rq_node_id :: string
  rq_timestamp :: string
  rq_nonce :: string
  rq_signature :: string
  rq_body :: string

record auth_context =
  ax_authenticated :: bool
  ax_node_id :: string
  ax_admin :: bool

record crypto =
  cr_hmac :: mac
  cr_sha :: digest
  cr_rfc3339 :: "string \<Rightarrow> gotime option"

definition clock_skew :: "auth_config \<Rightarrow> duration" where
  "clock_skew c = (if ac_max_clock_skew c \<le> 0 then default_clock_skew else ac_max_clock_skew c)"

text \<open>What the headers of a node must satisfy before the replay cache is asked: the time they name.\<close>

definition check_node_request :: "crypto \<Rightarrow> auth_config \<Rightarrow> gotime \<Rightarrow> auth_request \<Rightarrow> auth_err + gotime" where
  "check_node_request cr c now r =
     (let node = trim_space (rq_node_id r); ts = trim_space (rq_timestamp r);
          nonce = trim_space (rq_nonce r); sig = trim_space (rq_signature r)
      in if node = [] \<or> ts = [] \<or> nonce = [] \<or> sig = [] then Inl AuthMissingHeaders
         else if \<not> valid_node_id node then Inl AuthBadNodeID
         else case parse_timestamp (cr_rfc3339 cr) ts of None \<Rightarrow> Inl AuthMalformedTimestamp | Some t \<Rightarrow>
         if clock_skew c < time_sub now t then Inl AuthExpiredTimestamp
         else if clock_skew c < time_sub t now then Inl AuthFutureTimestamp
         else case resolve_node_secret c node of None \<Rightarrow> Inl AuthUnauthorized | Some secret \<Rightarrow>
         if verify_signature (cr_hmac cr) (cr_sha cr) secret (rq_method r) (rq_target r) node ts nonce sig (rq_body r)
         then Inr t else Inl AuthInvalidSignature)"

text \<open>
  \<open>AuthenticateRequest\<close> reads the clock once, and the replay cache reads it again.  Only a server with
  replay protection has a cache.
\<close>

definition authenticate_request ::
  "crypto \<Rightarrow> auth_config \<Rightarrow> gotime \<Rightarrow> gotime \<Rightarrow> auth_request \<Rightarrow> replay_cache option \<Rightarrow>
   (auth_err + auth_context) \<times> replay_cache option" where
  "authenticate_request cr c now cache_now r cache =
     (if \<not> ac_enabled c
      then (Inr \<lparr>ax_authenticated = False, ax_node_id = rq_node_id r, ax_admin = False\<rparr>, cache)
      else if rq_authorization r \<noteq> [] \<and> ac_admin_token c \<noteq> [] \<and> verify_admin_token (ac_admin_token c) (rq_authorization r)
      then (Inr \<lparr>ax_authenticated = True, ax_node_id = [], ax_admin = True\<rparr>, cache)
      else if rq_authorization r \<noteq> [] \<and> is_bearer (rq_authorization r) then (Inl AuthUnauthorized, cache)
      else case check_node_request cr c now r of Inl e \<Rightarrow> (Inl e, cache) | Inr t \<Rightarrow>
        let accepted = Inr \<lparr>ax_authenticated = True, ax_node_id = trim_space (rq_node_id r), ax_admin = False\<rparr>
        in case (if ac_replay_protection c then cache else None) of
             None \<Rightarrow> (accepted, cache)
           | Some rc \<Rightarrow> (case check_and_add cache_now (trim_space (rq_nonce r)) (t + clock_skew c) rc of
               (novel, rc') \<Rightarrow> (if novel then accepted else Inl AuthReplayDetected, Some rc')))"

end
