(* ===== verification/Cp_Records.thy ===== *)
theory Cp_Records
  imports Approval_Store Go_Strings Response_Decision
begin

text \<open>
  \<open>services/control-plane/storage/store.go\<close>: the records of the control-plane store, the status machine
  of quarantined telemetry, its deduplication keys, and the cleaning of failure reasons.  The JSON text
  of the replay metadata is kept as it is (empty for an empty map); the digest SHA-256 is a parameter.
\<close>

section \<open>Errors\<close>

datatype q_status = QQuarantined | QReplayed | QDiscarded | QStatusOther string

datatype cp_err =
    CpStoreClosed | CpDb db_io | CpInvalidMeta | CpBatchNotFound | CpNodeNotFound
  | CpQuarantineNotFound | CpAlreadyIngested | CpInvalidQuarantine | CpPayloadTooLarge | CpReasonTooLong
  | CpSequenceOverflow | CpInvalidTransition q_status q_status | CpStatusConflict
  | CpPayloadConflict string nat nat | CpNoQuarantineId | CpZeroCutoff

definition cp_guard :: "bool \<Rightarrow> db_io \<Rightarrow> cp_err option" where
  "cp_guard cl io = (if cl then Some CpStoreClosed else if io \<noteq> IoOk then Some (CpDb io) else None)"

lemma cp_guard_None: "cp_guard cl io = None \<longleftrightarrow> \<not> cl \<and> io = IoOk"
  by (simp add: cp_guard_def)

section \<open>Batches and nodes\<close>

record batch_meta =
  bm_node_id :: string
  bm_batch_id :: string
  bm_sequence_number :: int
  bm_collected_at :: gotime
  bm_ingested_at :: gotime

definition batch_meta_validate :: "batch_meta \<Rightarrow> cp_err option" where
  "batch_meta_validate m =
     (if blank (bm_node_id m) \<or> blank (bm_batch_id m) \<or> bm_sequence_number m < 0 \<or>
         is_zero (bm_collected_at m) \<or> is_zero (bm_ingested_at m)
      then Some CpInvalidMeta else None)"

record node_record =
  nd_node_id :: string
  nd_status :: node_status
  nd_last_seen :: gotime
  nd_registered_at :: gotime
  nd_agent_version :: string
  nd_protocol_version :: string
  nd_hostname :: string
  nd_os :: string
  nd_architecture :: string
  nd_capabilities :: "string list"
  nd_labels :: gomap
  nd_sequence_number :: int
  nd_heartbeat_sequence :: int
  nd_metadata_version :: int
  nd_updated_at :: gotime

section \<open>Quarantine\<close>

fun q_status_valid :: "q_status \<Rightarrow> bool" where
  "q_status_valid (QStatusOther _) = False"
| "q_status_valid _ = True"

definition q_terminal :: "q_status \<Rightarrow> bool" where
  "q_terminal s \<longleftrightarrow> s = QReplayed \<or> s = QDiscarded"

definition q_can :: "q_status \<Rightarrow> q_status \<Rightarrow> bool" where
  "q_can current target \<longleftrightarrow> q_status_valid current \<and> q_status_valid target \<and> \<not> q_terminal current \<and>
     current = QQuarantined \<and> (target = QReplayed \<or> target = QDiscarded)"

datatype q_category =
    CategoryDeserialization | CategorySchemaValidation | CategoryDeliveryExhausted
  | CategoryStorageFailure | CategoryUnknown | CategoryOther string

fun q_category_valid :: "q_category \<Rightarrow> bool" where
  "q_category_valid (CategoryOther _) = False"
| "q_category_valid _ = True"

abbreviation no_category :: q_category where "no_category \<equiv> CategoryOther []"
abbreviation no_status :: q_status where "no_status \<equiv> QStatusOther []"

record quarantine_record =
  qr_id :: string
  qr_dedup_key :: string
  qr_source_stream :: string
  qr_source_sequence :: "nat option"
  qr_source_subject :: string
  qr_node_id :: string
  qr_batch_id :: string
  qr_payload :: string
  qr_category :: q_category
  qr_reason :: string
  qr_last_category :: q_category
  qr_last_reason :: string
  qr_delivery_count :: int
  qr_attempts :: int
  qr_first_at :: gotime
  qr_last_at :: gotime
  qr_status :: q_status
  qr_status_at :: gotime
  qr_status_reason :: string
  qr_status_by :: string
  qr_replay_metadata :: string
  qr_payload_size :: nat

abbreviation max_quarantine_payload :: nat where "max_quarantine_payload \<equiv> 1048576"
abbreviation max_failure_reason :: nat where "max_failure_reason \<equiv> 2048"
abbreviation max_status_reason :: nat where "max_status_reason \<equiv> 1024"
abbreviation max_dedup_key :: nat where "max_dedup_key \<equiv> 256"

definition quarantine_validate :: "quarantine_record \<Rightarrow> cp_err option" where
  "quarantine_validate r =
     (if max_quarantine_payload < length (qr_payload r) then Some CpPayloadTooLarge
      else if max_failure_reason < length (qr_reason r) then Some CpReasonTooLong
      else if max_failure_reason < length (qr_last_reason r) then Some CpReasonTooLong
      else if qr_delivery_count r < 0 then Some CpInvalidQuarantine
      else if qr_attempts r < 0 then Some CpInvalidQuarantine
      else if (case qr_source_sequence r of None \<Rightarrow> False | Some n \<Rightarrow> 2 ^ 63 - 1 < n) then Some CpSequenceOverflow
      else if qr_category r \<noteq> no_category \<and> \<not> q_category_valid (qr_category r) then Some CpInvalidQuarantine
      else if qr_last_category r \<noteq> no_category \<and> \<not> q_category_valid (qr_last_category r) then Some CpInvalidQuarantine
      else if qr_status r \<noteq> no_status \<and> \<not> q_status_valid (qr_status r) then Some CpInvalidQuarantine
      else if max_dedup_key < length (qr_dedup_key r) then Some CpInvalidQuarantine
      else None)"

text \<open>The identity of a record: its place in the stream, or its batch, or the digest of its content.\<close>

definition derive_dedup_key ::
  "digest \<Rightarrow> string \<Rightarrow> nat option \<Rightarrow> string \<Rightarrow> string \<Rightarrow> string \<Rightarrow> string \<Rightarrow> string" where
  "derive_dedup_key sha stream sq node batch subject payload =
     (case (if trim_space stream \<noteq> [] then sq else None) of
        Some n \<Rightarrow> ''stream:'' @ trim_space stream @ '':'' @ show_nat n
      | None \<Rightarrow>
          let n = trim_space node; b = trim_space batch
          in if n \<noteq> [] \<and> b \<noteq> []
             then ''batch:'' @ show_nat (length n) @ '':'' @ n @ '':'' @ show_nat (length b) @ '':'' @ b
             else ''payload:sha256:'' @ hex_bytes (sha (trim_space subject @ [CHR 0x00] @ payload)))"

section \<open>Redaction\<close>

text \<open>
  The four patterns of \<open>secretPatterns\<close>.  Matching ignores case the way Go folds runes: the long s
  (U+017F) is an s, the Kelvin sign (U+212A) a k.
\<close>

fun fold_letter :: "char \<Rightarrow> string \<Rightarrow> string option" where
  "fold_letter p [] = None"
| "fold_letter p (c # s) =
     (if lower_byte c = p then Some s
      else if p = CHR ''s'' \<and> starts_with [0xC5, 0xBF] (c # s) then Some (drop 1 s)
      else if p = CHR ''k'' \<and> starts_with [0xE2, 0x84, 0xAA] (c # s) then Some (drop 2 s)
      else None)"

fun fold_word :: "string \<Rightarrow> string \<Rightarrow> string option" where
  "fold_word [] s = Some s"
| "fold_word (p # ps) s = (case fold_letter p s of None \<Rightarrow> None | Some s' \<Rightarrow> fold_word ps s')"

definition re_space :: "char \<Rightarrow> bool" where
  "re_space c \<longleftrightarrow> byte c \<in> {9, 10, 12, 13, 32}"

definition token_byte :: "char \<Rightarrow> bool" where
  "token_byte c \<longleftrightarrow> (48 \<le> byte c \<and> byte c \<le> 57) \<or> (65 \<le> byte c \<and> byte c \<le> 90) \<or> (97 \<le> byte c \<and> byte c \<le> 122) \<or>
     c = CHR ''_'' \<or> c = CHR ''-'' \<or> c = CHR ''.''"

text \<open>The longest run of the class \<open>[A-Za-z0-9_\-\.]\<close>: its number of runes, and what follows it.\<close>

fun token_run :: "string \<Rightarrow> nat \<times> string" where
  "token_run [] = (0, [])"
| "token_run (c # s) =
     (if token_byte c then (case token_run s of (n, r) \<Rightarrow> (Suc n, r))
      else if starts_with [0xC5, 0xBF] (c # s) then (case token_run (drop 1 s) of (n, r) \<Rightarrow> (Suc n, r))
      else if starts_with [0xE2, 0x84, 0xAA] (c # s) then (case token_run (drop 2 s) of (n, r) \<Rightarrow> (Suc n, r))
      else (0, c # s))"

text \<open>
  A match at the front of a text: what follows the group that is kept, and what follows the match.
  After the word come blanks (at least one for \<open>bearer\<close>), or blanks, one of \<open>:\<close> and \<open>=\<close>, and blanks.
\<close>

datatype secret_pattern = BearerPattern | AssignPattern string bool

definition after_group :: "secret_pattern \<Rightarrow> string \<Rightarrow> string option" where
  "after_group p s =
     (case p of
        BearerPattern \<Rightarrow>
          (case fold_word ''bearer'' s of None \<Rightarrow> None
           | Some r \<Rightarrow> if r \<noteq> [] \<and> re_space (hd r) then Some (dropWhile re_space r) else None)
      | AssignPattern w _ \<Rightarrow>
          (case fold_word w s of None \<Rightarrow> None
           | Some r \<Rightarrow> (case dropWhile re_space r of
               [] \<Rightarrow> None
             | c # r' \<Rightarrow> if c = CHR '':'' \<or> c = CHR ''='' then Some (dropWhile re_space r') else None)))"

definition after_secret :: "secret_pattern \<Rightarrow> string \<Rightarrow> string option" where
  "after_secret p r =
     (case p of
        AssignPattern _ False \<Rightarrow>
          (let rest = dropWhile (\<lambda>c. \<not> re_space c \<and> c \<noteq> CHR '','' \<and> c \<noteq> CHR '';'') r
           in if length rest < length r then Some rest else None)
      | _ \<Rightarrow> (case token_run r of (n, rest) \<Rightarrow> if 8 \<le> n then Some rest else None))"

definition match_secret :: "secret_pattern \<Rightarrow> string \<Rightarrow> (string \<times> string) option" where
  "match_secret p s =
     (case after_group p s of None \<Rightarrow> None
      | Some r \<Rightarrow> (case after_secret p r of None \<Rightarrow> None
          | Some rest \<Rightarrow> if length rest < length s then Some (take (length s - length r) s, rest) else None))"

function redact :: "secret_pattern \<Rightarrow> string \<Rightarrow> string" where
  "redact p [] = []"
| "redact p (c # s) =
     (case match_secret p (c # s) of
        None \<Rightarrow> c # redact p s
      | Some (kept_text, rest) \<Rightarrow> kept_text @ ''[REDACTED]'' @ redact p rest)"
  by pat_completeness auto
termination
  by (relation "measure (length \<circ> snd)") (auto simp: match_secret_def split: option.splits if_splits)

declare redact.simps [simp del]

definition secret_patterns :: "secret_pattern list" where
  "secret_patterns = [BearerPattern, AssignPattern ''password'' False, AssignPattern ''secret'' False, AssignPattern ''token'' True]"

definition redact_secrets :: "string \<Rightarrow> string" where
  "redact_secrets s = fold redact secret_patterns s"

text \<open>\<open>strings.ToValidUTF8(s, "")\<close>: the bytes that start no rune are dropped.\<close>

function to_valid_utf8 :: "string \<Rightarrow> string" where
  "to_valid_utf8 s =
     (if s = [] then []
      else case rune_at s of
        None \<Rightarrow> to_valid_utf8 (drop 1 s)
      | Some n \<Rightarrow> take n s @ to_valid_utf8 (drop n s))"
  by auto
termination
  by (relation "measure length") (auto dest: rune_at_width)

declare to_valid_utf8.simps [simp del]

definition printable :: "char \<Rightarrow> bool" where
  "printable c \<longleftrightarrow> 32 \<le> byte c \<or> byte c \<in> {9, 10, 13}"

text \<open>The cut steps back from the limit to the first byte of a rune.\<close>

fun rune_start_before :: "string \<Rightarrow> nat \<Rightarrow> nat" where
  "rune_start_before s 0 = 0"
| "rune_start_before s (Suc n) = (if continuation (s ! Suc n) then rune_start_before s n else Suc n)"

definition sanitize_failure_reason :: "string \<Rightarrow> string" where
  "sanitize_failure_reason reason =
     (if reason = [] then []
      else let cleaned = redact_secrets (filter printable (to_valid_utf8 reason))
        in if max_failure_reason < length cleaned
           then take (rune_start_before cleaned (max_failure_reason - 3)) cleaned @ ''...'' else cleaned)"

lemma rune_start_before_le: "rune_start_before s n \<le> n"
  by (induction n) (auto intro: le_SucI)

lemma length_sanitize_failure_reason: "length (sanitize_failure_reason r) \<le> max_failure_reason"
proof -
  let ?c = "redact_secrets (filter printable (to_valid_utf8 r))"
  have "rune_start_before ?c 2045 \<le> 2045" by (rule rune_start_before_le)
  then show ?thesis by (simp add: sanitize_failure_reason_def Let_def)
qed

end
