(* ===== verification/Cp_Store.thy ===== *)
theory Cp_Store
  imports Cp_Records
begin

text \<open>
  \<open>services/control-plane/storage/sqlite.go\<close>: ingested batches, payloads, the node registry and the
  telemetry quarantine.  Timestamps have a fixed width in this store, so their text order is the order
  of the instants and a row keeps instants.  Each operation is one transaction: a failure the database
  reports leaves the tables alone.  Rows hold what the code wrote, so the branches for corrupt rows do
  not occur; JSON columns hold the value they encode, and the decoding of a quarantined payload, which
  comes from outside, is a parameter.
\<close>

section \<open>Tables\<close>

record ingested_row =
  ir_batch :: telemetry_batch
  ir_ingested_at :: gotime

record cp_store =
  cp_closed :: bool
  cp_ingested :: "batch_meta list"
  cp_payloads :: "ingested_row list"
  cp_nodes :: "node_record list"
  cp_quarantine :: "quarantine_record list"

definition is_ingested :: "string \<Rightarrow> string \<Rightarrow> cp_store \<Rightarrow> bool" where
  "is_ingested node batch s \<longleftrightarrow> list_ex (\<lambda>m. bm_node_id m = node \<and> bm_batch_id m = batch) (cp_ingested s)"

definition find_node :: "string \<Rightarrow> node_record list \<Rightarrow> node_record option" where
  "find_node n rows = find (\<lambda>r. nd_node_id r = n) rows"

definition find_quarantine :: "string \<Rightarrow> quarantine_record list \<Rightarrow> quarantine_record option" where
  "find_quarantine i rows = find (\<lambda>r. qr_id r = i) rows"

section \<open>Ingestion\<close>

text \<open>Records of the batch that stand in active quarantine, one of which may be exempt.\<close>

definition blocking :: "telemetry_batch \<Rightarrow> string \<Rightarrow> quarantine_record \<Rightarrow> bool" where
  "blocking b exempt r \<longleftrightarrow> qr_node_id r = tb_node_id b \<and> qr_batch_id r = tb_batch_id b \<and> qr_status r = QQuarantined \<and>
     (exempt \<noteq> [] \<longrightarrow> qr_id r \<noteq> exempt)"

definition advance_activity :: "gotime \<Rightarrow> int \<Rightarrow> node_record \<Rightarrow> node_record" where
  "advance_activity t sq r =
     r\<lparr>nd_last_seen := (if \<not> t < nd_last_seen r then t else nd_last_seen r),
       nd_sequence_number := (if nd_sequence_number r < sq then sq else nd_sequence_number r)\<rparr>"

definition meta_of :: "telemetry_batch \<Rightarrow> gotime \<Rightarrow> batch_meta" where
  "meta_of b ingested =
     \<lparr>bm_node_id = tb_node_id b, bm_batch_id = tb_batch_id b, bm_sequence_number = tb_sequence_number b,
      bm_collected_at = tb_collected_at b, bm_ingested_at = ingested\<rparr>"

text \<open>The steps of an ingestion inside a transaction; \<open>Inr False\<close> is a duplicate.\<close>

definition record_batch_tx ::
  "telemetry_batch \<Rightarrow> gotime \<Rightarrow> string \<Rightarrow> cp_store \<Rightarrow> (cp_err + bool) \<times> cp_store" where
  "record_batch_tx b ingested exempt s =
     (if telemetry_batch_validate b \<noteq> None \<or> is_zero ingested then (Inl CpInvalidMeta, s)
      else if tb_node_id b \<noteq> [] \<and> tb_batch_id b \<noteq> [] \<and> list_ex (blocking b exempt) (cp_quarantine s)
      then (Inl CpStatusConflict, s)
      else if is_ingested (tb_node_id b) (tb_batch_id b) s then (Inr False, s)
      else (Inr True,
        s\<lparr>cp_ingested := cp_ingested s @ [meta_of b ingested],
          cp_payloads := cp_payloads s @ [\<lparr>ir_batch = b, ir_ingested_at = ingested\<rparr>],
          cp_nodes := update_where (\<lambda>r. nd_node_id r = tb_node_id b)
            (advance_activity ingested (tb_sequence_number b)) (cp_nodes s)\<rparr>))"

definition record_batch ::
  "db_io \<Rightarrow> telemetry_batch option \<Rightarrow> gotime \<Rightarrow> cp_store \<Rightarrow> (cp_err + bool) \<times> cp_store" where
  "record_batch io bo ingested s =
     (case bo of None \<Rightarrow> (Inl CpInvalidMeta, s) | Some b \<Rightarrow>
        if telemetry_batch_validate b \<noteq> None \<or> is_zero ingested then (Inl CpInvalidMeta, s)
        else case cp_guard (cp_closed s) io of Some e \<Rightarrow> (Inl e, s) | None \<Rightarrow> record_batch_tx b ingested [] s)"

definition get_payload :: "db_io \<Rightarrow> string \<Rightarrow> string \<Rightarrow> cp_store \<Rightarrow> cp_err + telemetry_batch" where
  "get_payload io node batch s =
     (case cp_guard (cp_closed s) io of Some e \<Rightarrow> Inl e | None \<Rightarrow>
        (case find (\<lambda>r. tb_node_id (ir_batch r) = node \<and> tb_batch_id (ir_batch r) = batch) (cp_payloads s) of
           None \<Rightarrow> Inl CpBatchNotFound | Some r \<Rightarrow> Inr (ir_batch r)))"

text \<open>The last rows in insertion order, oldest first.\<close>

definition get_recent_batches :: "db_io \<Rightarrow> int \<Rightarrow> cp_store \<Rightarrow> cp_err + ingested_row list" where
  "get_recent_batches io limit s =
     (case cp_guard (cp_closed s) io of Some e \<Rightarrow> Inl e | None \<Rightarrow>
        let n = (if limit \<le> 0 then 1000 else nat limit)
        in Inr (drop (length (cp_payloads s) - n) (cp_payloads s)))"

definition has_batch :: "db_io \<Rightarrow> string \<Rightarrow> string \<Rightarrow> cp_store \<Rightarrow> cp_err + bool" where
  "has_batch io node batch s =
     (case cp_guard (cp_closed s) io of Some e \<Rightarrow> Inl e | None \<Rightarrow> Inr (is_ingested node batch s))"

definition cp_count :: "db_io \<Rightarrow> cp_store \<Rightarrow> cp_err + nat" where
  "cp_count io s = (case cp_guard (cp_closed s) io of Some e \<Rightarrow> Inl e | None \<Rightarrow> Inr (length (cp_ingested s)))"

text \<open>
  Payloads older than the cutoff whose batch is not in active quarantine, oldest first, at most
  \<open>limit\<close> of them; the metadata rows stay.
\<close>

definition prunable_payload :: "gotime \<Rightarrow> cp_store \<Rightarrow> ingested_row \<Rightarrow> bool" where
  "prunable_payload cutoff s r \<longleftrightarrow> ir_ingested_at r < cutoff \<and>
     \<not> list_ex (\<lambda>q. qr_node_id q = tb_node_id (ir_batch r) \<and> qr_batch_id q = tb_batch_id (ir_batch r) \<and>
                     qr_status q = QQuarantined) (cp_quarantine s)"

definition payload_key :: "ingested_row \<Rightarrow> string \<times> string" where
  "payload_key r = (tb_node_id (ir_batch r), tb_batch_id (ir_batch r))"

definition prune_telemetry_payloads ::
  "db_io \<Rightarrow> gotime \<Rightarrow> int \<Rightarrow> cp_store \<Rightarrow> (cp_err + nat) \<times> cp_store" where
  "prune_telemetry_payloads io cutoff limit s =
     (if is_zero cutoff then (Inl CpZeroCutoff, s)
      else case cp_guard (cp_closed s) io of Some e \<Rightarrow> (Inl e, s) | None \<Rightarrow>
        let n = (if limit \<le> 0 then 500 else nat limit);
            keys = map payload_key (take n (sort_key ir_ingested_at (filter (prunable_payload cutoff s) (cp_payloads s))))
        in (Inr (length (filter (\<lambda>r. payload_key r \<in> set keys) (cp_payloads s))),
            s\<lparr>cp_payloads := filter (\<lambda>r. payload_key r \<notin> set keys) (cp_payloads s)\<rparr>))"

definition cp_ping :: "ctx_err option \<Rightarrow> db_io \<Rightarrow> cp_store \<Rightarrow> cp_err option" where
  "cp_ping ctx io s =
     (case ctx of Some e \<Rightarrow> Some (CpDb (IoCtx e)) | None \<Rightarrow> cp_guard (cp_closed s) io)"

definition cp_close :: "cp_store \<Rightarrow> cp_store" where
  "cp_close s = s\<lparr>cp_closed := True\<rparr>"

section \<open>The node registry\<close>

definition or_else :: "string \<Rightarrow> string \<Rightarrow> string" where
  "or_else a b = (if a \<noteq> [] then a else b)"

text \<open>A newer version, or the same version and a time not older, advances the metadata.\<close>

definition advances_metadata :: "int \<Rightarrow> gotime \<Rightarrow> node_record \<Rightarrow> bool" where
  "advances_metadata version stamp r \<longleftrightarrow>
     (if nd_metadata_version r < version then True
      else if version < nd_metadata_version r then False
      else \<not> stamp < nd_updated_at r)"

definition merge_metadata :: "node_record \<Rightarrow> int \<Rightarrow> gotime \<Rightarrow> node_record \<Rightarrow> node_record" where
  "merge_metadata req version stamp r =
     (if advances_metadata version stamp r
      then r\<lparr>nd_hostname := or_else (nd_hostname req) (nd_hostname r),
             nd_agent_version := or_else (nd_agent_version req) (nd_agent_version r),
             nd_protocol_version := or_else (nd_protocol_version req) (nd_protocol_version r),
             nd_os := or_else (nd_os req) (nd_os r),
             nd_architecture := or_else (nd_architecture req) (nd_architecture r),
             nd_capabilities := (if nd_capabilities req \<noteq> [] then nd_capabilities req else nd_capabilities r),
             nd_labels := (if nd_labels req \<noteq> [] then nd_labels req else nd_labels r),
             nd_metadata_version := version, nd_updated_at := stamp\<rparr>
      else r)"

text \<open>
  A request without an update time is taken to date from the registration: for a known node, from the
  registration on record.
\<close>

definition reregister :: "node_record \<Rightarrow> node_record \<Rightarrow> node_record" where
  "reregister req r =
     (let last_seen = (if is_zero (nd_last_seen req) then nd_registered_at req else nd_last_seen req);
          stamp = (if is_zero (nd_updated_at req) then nd_registered_at r else nd_updated_at req)
      in (merge_metadata req (nd_metadata_version req) stamp r)
           \<lparr>nd_last_seen := (if nd_last_seen r < last_seen then last_seen else nd_last_seen r),
            nd_sequence_number := max (nd_sequence_number r) (nd_sequence_number req),
            nd_heartbeat_sequence := max (nd_heartbeat_sequence r) (nd_heartbeat_sequence req)\<rparr>)"

definition new_node :: "node_record \<Rightarrow> node_record" where
  "new_node req =
     req\<lparr>nd_last_seen := (if is_zero (nd_last_seen req) then nd_registered_at req else nd_last_seen req),
         nd_status := (if nd_status req = NodeStatusOther [] then NodeStatusHealthy else nd_status req),
         nd_updated_at := (if is_zero (nd_updated_at req) then nd_registered_at req else nd_updated_at req)\<rparr>"

definition register_node ::
  "db_io \<Rightarrow> node_record option \<Rightarrow> cp_store \<Rightarrow> (cp_err + bool) \<times> cp_store" where
  "register_node io ro s =
     (case ro of None \<Rightarrow> (Inl CpInvalidMeta, s) | Some req \<Rightarrow>
        if blank (nd_node_id req) \<or> is_zero (nd_registered_at req) then (Inl CpInvalidMeta, s)
        else case cp_guard (cp_closed s) io of Some e \<Rightarrow> (Inl e, s) | None \<Rightarrow>
          (case find_node (nd_node_id req) (cp_nodes s) of
             None \<Rightarrow> (Inr True, s\<lparr>cp_nodes := cp_nodes s @ [new_node req]\<rparr>)
           | Some _ \<Rightarrow> (Inr False, s\<lparr>cp_nodes :=
               update_where (\<lambda>r. nd_node_id r = nd_node_id req) (reregister req) (cp_nodes s)\<rparr>)))"

definition get_node :: "db_io \<Rightarrow> string \<Rightarrow> cp_store \<Rightarrow> cp_err + node_record" where
  "get_node io node s =
     (if blank node then Inl CpInvalidMeta
      else case cp_guard (cp_closed s) io of Some e \<Rightarrow> Inl e | None \<Rightarrow>
        (case find_node node (cp_nodes s) of None \<Rightarrow> Inl CpNodeNotFound | Some r \<Rightarrow> Inr r))"

definition list_nodes :: "db_io \<Rightarrow> cp_store \<Rightarrow> cp_err + node_record list" where
  "list_nodes io s =
     (case cp_guard (cp_closed s) io of Some e \<Rightarrow> Inl e | None \<Rightarrow>
        Inr (sort_key (\<lambda>r. (nd_registered_at r, nd_node_id r)) (cp_nodes s)))"

definition beat :: "node_status \<Rightarrow> int \<Rightarrow> gotime \<Rightarrow> node_record \<Rightarrow> node_record" where
  "beat st sq t r =
     (let advance = (nd_last_seen r < t \<or> (t = nd_last_seen r \<and> nd_heartbeat_sequence r \<le> sq))
      in r\<lparr>nd_status := (if advance then st else nd_status r),
           nd_last_seen := (if advance then t else nd_last_seen r),
           nd_heartbeat_sequence := (if nd_heartbeat_sequence r < sq then sq else nd_heartbeat_sequence r)\<rparr>)"

definition update_node_heartbeat ::
  "db_io \<Rightarrow> string \<Rightarrow> node_status \<Rightarrow> int \<Rightarrow> gotime \<Rightarrow> cp_store \<Rightarrow> cp_err option \<times> cp_store" where
  "update_node_heartbeat io node st sq t s =
     (if blank node \<or> is_zero t then (Some CpInvalidMeta, s)
      else case cp_guard (cp_closed s) io of Some e \<Rightarrow> (Some e, s) | None \<Rightarrow>
        (case find_node node (cp_nodes s) of
           None \<Rightarrow> (Some CpNodeNotFound, s)
         | Some _ \<Rightarrow> (None, s\<lparr>cp_nodes := update_where (\<lambda>r. nd_node_id r = node) (beat st sq t) (cp_nodes s)\<rparr>)))"

definition update_node_telemetry_activity ::
  "db_io \<Rightarrow> string \<Rightarrow> int \<Rightarrow> gotime \<Rightarrow> cp_store \<Rightarrow> (cp_err + bool) \<times> cp_store" where
  "update_node_telemetry_activity io node sq t s =
     (if blank node \<or> is_zero t then (Inl CpInvalidMeta, s)
      else case cp_guard (cp_closed s) io of Some e \<Rightarrow> (Inl e, s) | None \<Rightarrow>
        (case find_node node (cp_nodes s) of
           None \<Rightarrow> (Inr False, s)
         | Some _ \<Rightarrow> (Inr True, s\<lparr>cp_nodes := update_where (\<lambda>r. nd_node_id r = node) (advance_activity t sq) (cp_nodes s)\<rparr>)))"

end
