(* ===== verification/Cp_Quarantine.thy ===== *)
theory Cp_Quarantine
  imports Cp_Store
begin

text \<open>
  The quarantine of the control plane (\<open>services/control-plane/storage/sqlite.go\<close>): recording failed
  telemetry, reading and listing it, and its resolution by an operator, who replays or discards it.
  \<open>rnd\<close> is what \<open>crypto/rand\<close> answers (\<open>None\<close> when it fails).
\<close>

section \<open>Recording\<close>

definition generate_quarantine_id :: "nat list option \<Rightarrow> string option" where
  "generate_quarantine_id rnd = map_option (\<lambda>bytes. ''qrn-'' @ hex_bytes bytes) rnd"

text \<open>The record with its defaults filled in.\<close>

definition normalise_quarantine :: "digest \<Rightarrow> gotime \<Rightarrow> quarantine_record \<Rightarrow> quarantine_record" where
  "normalise_quarantine sha now r =
     (let category = (if qr_category r = no_category then CategoryUnknown else qr_category r);
          reason = sanitize_failure_reason (qr_reason r);
          first_at = (if is_zero (qr_first_at r) then now else qr_first_at r);
          last_at = (if is_zero (qr_last_at r) then first_at else qr_last_at r)
      in r\<lparr>qr_category := category,
           qr_last_category := (if qr_last_category r = no_category then category else qr_last_category r),
           qr_status := (if qr_status r = no_status then QQuarantined else qr_status r),
           qr_reason := reason,
           qr_last_reason := (if qr_last_reason r = [] then reason else sanitize_failure_reason (qr_last_reason r)),
           qr_dedup_key := (if qr_dedup_key r = []
             then derive_dedup_key sha (qr_source_stream r) (qr_source_sequence r) (qr_node_id r) (qr_batch_id r)
                    (qr_source_subject r) (qr_payload r)
             else qr_dedup_key r),
           qr_first_at := first_at, qr_last_at := last_at,
           qr_status_at := (if is_zero (qr_status_at r) then last_at else qr_status_at r),
           qr_attempts := (if qr_attempts r < 1 then 1 else qr_attempts r)\<rparr>)"

text \<open>What a repeated failure changes on the row: \<open>raw\<close> is the record as it was passed in.\<close>

definition repeat_failure :: "quarantine_record \<Rightarrow> quarantine_record \<Rightarrow> quarantine_record \<Rightarrow> quarantine_record" where
  "repeat_failure raw rec row =
     (let row' = row\<lparr>qr_attempts := qr_attempts row + 1, qr_last_at := qr_last_at rec,
            qr_delivery_count := max (qr_delivery_count rec) (qr_delivery_count row),
            qr_last_category := (if qr_category raw \<noteq> no_category then qr_category raw else qr_last_category row),
            qr_last_reason := (if qr_reason raw \<noteq> [] then sanitize_failure_reason (qr_reason raw) else qr_last_reason row)\<rparr>
      in if q_terminal (qr_status row) then row'
         else row'\<lparr>qr_source_subject := or_else (qr_source_subject rec) (qr_source_subject row),
                  qr_node_id := or_else (qr_node_id rec) (qr_node_id row),
                  qr_batch_id := or_else (qr_batch_id rec) (qr_batch_id row)\<rparr>)"

text \<open>The record handed back after a repeated failure.\<close>

definition repeated_answer :: "quarantine_record \<Rightarrow> quarantine_record \<Rightarrow> quarantine_record \<Rightarrow> quarantine_record" where
  "repeated_answer raw rec row =
     (let a = rec\<lparr>qr_id := qr_id row, qr_payload := qr_payload row, qr_first_at := qr_first_at row,
            qr_category := qr_category row, qr_reason := qr_reason row, qr_attempts := qr_attempts row + 1,
            qr_delivery_count := max (qr_delivery_count rec) (qr_delivery_count row),
            qr_last_category := (if qr_category raw \<noteq> no_category then qr_category raw else qr_last_category row),
            qr_last_reason := (if qr_reason raw \<noteq> [] then sanitize_failure_reason (qr_reason raw) else qr_last_reason row)\<rparr>
      in if q_terminal (qr_status row)
         then a\<lparr>qr_status := qr_status row, qr_status_reason := qr_status_reason row, qr_status_by := qr_status_by row,
               qr_status_at := qr_status_at row,
               qr_source_stream := or_else (qr_source_stream rec) (qr_source_stream row),
               qr_source_sequence := (case qr_source_sequence rec of None \<Rightarrow> qr_source_sequence row | sq \<Rightarrow> sq),
               qr_node_id := or_else (qr_node_id rec) (qr_node_id row),
               qr_batch_id := or_else (qr_batch_id rec) (qr_batch_id row),
               qr_replay_metadata := or_else (qr_replay_metadata row) (qr_replay_metadata rec)\<rparr>
         else a)"

definition record_quarantine ::
  "digest \<Rightarrow> db_io \<Rightarrow> gotime \<Rightarrow> nat list option \<Rightarrow> quarantine_record option \<Rightarrow> cp_store \<Rightarrow>
   (cp_err + quarantine_record) \<times> cp_store" where
  "record_quarantine sha io now rnd ro s =
     (case ro of None \<Rightarrow> (Inl CpInvalidQuarantine, s) | Some raw \<Rightarrow>
      case quarantine_validate raw of Some e \<Rightarrow> (Inl e, s) | None \<Rightarrow>
      if cp_closed s then (Inl CpStoreClosed, s)
      else let rec = normalise_quarantine sha now raw in
        if max_dedup_key < length (qr_dedup_key rec) then (Inl CpInvalidQuarantine, s)
        else if io \<noteq> IoOk then (Inl (CpDb io), s)
        else if qr_node_id rec \<noteq> [] \<and> qr_batch_id rec \<noteq> [] \<and> is_ingested (qr_node_id rec) (qr_batch_id rec) s
        then (Inl CpAlreadyIngested, s)
        else case find (\<lambda>q. qr_dedup_key q = qr_dedup_key rec) (cp_quarantine s) of
          Some row \<Rightarrow>
            if qr_payload row \<noteq> qr_payload rec
            then (Inl (CpPayloadConflict (qr_dedup_key rec) (length (qr_payload row)) (length (qr_payload rec))), s)
            else (Inr (repeated_answer raw rec row),
                  s\<lparr>cp_quarantine := update_where (\<lambda>q. qr_id q = qr_id row) (repeat_failure raw rec) (cp_quarantine s)\<rparr>)
        | None \<Rightarrow>
            (case (if qr_id rec = [] then generate_quarantine_id rnd else Some (qr_id rec)) of
               None \<Rightarrow> (Inl CpNoQuarantineId, s)
             | Some i \<Rightarrow>
                 if find_quarantine i (cp_quarantine s) \<noteq> None then (Inl (CpDb IoFault), s)
                 else (Inr (rec\<lparr>qr_id := i\<rparr>), s\<lparr>cp_quarantine := cp_quarantine s @ [rec\<lparr>qr_id := i\<rparr>]\<rparr>)))"

section \<open>Reading\<close>

definition get_quarantine_record :: "db_io \<Rightarrow> string \<Rightarrow> cp_store \<Rightarrow> cp_err + quarantine_record" where
  "get_quarantine_record io i s =
     (if blank i then Inl CpInvalidQuarantine
      else case cp_guard (cp_closed s) io of Some e \<Rightarrow> Inl e | None \<Rightarrow>
        (case find_quarantine i (cp_quarantine s) of
           None \<Rightarrow> Inl CpQuarantineNotFound
         | Some r \<Rightarrow> Inr (r\<lparr>qr_payload_size := length (qr_payload r)\<rparr>)))"

record quarantine_filter =
  qf_status :: q_status
  qf_node_id :: string
  qf_category :: q_category
  qf_limit :: int
  qf_offset :: int

definition q_matches :: "quarantine_filter \<Rightarrow> quarantine_record \<Rightarrow> bool" where
  "q_matches f r \<longleftrightarrow>
     (qf_status f \<noteq> no_status \<longrightarrow> qr_status r = qf_status f) \<and>
     (\<not> blank (qf_node_id f) \<longrightarrow> qr_node_id r = trim_space (qf_node_id f)) \<and>
     (qf_category f \<noteq> no_category \<longrightarrow> qr_category r = qf_category f)"

text \<open>\<open>ORDER BY last_quarantined_at DESC, id ASC\<close>.\<close>

definition q_order :: "quarantine_record list \<Rightarrow> quarantine_record list" where
  "q_order rows = sort_key (\<lambda>r. (- qr_last_at r, qr_id r)) rows"

text \<open>The listing leaves the payloads out and gives their sizes.\<close>

definition list_quarantine_records ::
  "db_io \<Rightarrow> quarantine_filter \<Rightarrow> cp_store \<Rightarrow> cp_err + quarantine_record list" where
  "list_quarantine_records io f s =
     (if cp_closed s then Inl CpStoreClosed
      else if qf_status f \<noteq> no_status \<and> \<not> q_status_valid (qf_status f) then Inl CpInvalidQuarantine
      else if qf_category f \<noteq> no_category \<and> \<not> q_category_valid (qf_category f) then Inl CpInvalidQuarantine
      else if io \<noteq> IoOk then Inl (CpDb io)
      else let limit = (if qf_limit f \<le> 0 then 50 else if 500 < qf_limit f then 500 else nat (qf_limit f));
               offset = (if qf_offset f < 0 then 0 else nat (qf_offset f))
        in Inr (map (\<lambda>r. r\<lparr>qr_payload := [], qr_payload_size := length (qr_payload r)\<rparr>)
                 (take limit (drop offset (q_order (filter (q_matches f) (cp_quarantine s)))))))"

definition count_active_quarantine :: "db_io \<Rightarrow> cp_store \<Rightarrow> cp_err + nat" where
  "count_active_quarantine io s =
     (case cp_guard (cp_closed s) io of Some e \<Rightarrow> Inl e | None \<Rightarrow>
        Inr (rows_affected (\<lambda>r. qr_status r = QQuarantined) (cp_quarantine s)))"

section \<open>Resolution\<close>

record status_update =
  su_id :: string
  su_expected :: q_status
  su_new :: q_status
  su_reason :: string
  su_by :: string
  su_timestamp :: gotime

definition resolve :: "q_status \<Rightarrow> gotime \<Rightarrow> string \<Rightarrow> string \<Rightarrow> quarantine_record \<Rightarrow> quarantine_record" where
  "resolve st t reason by_whom r =
     r\<lparr>qr_status := st, qr_status_at := t, qr_status_reason := reason, qr_status_by := by_whom\<rparr>"

definition update_quarantine_status ::
  "db_io \<Rightarrow> gotime \<Rightarrow> status_update \<Rightarrow> cp_store \<Rightarrow> (cp_err + quarantine_record) \<times> cp_store" where
  "update_quarantine_status io now u s =
     (if blank (su_id u) then (Inl CpInvalidQuarantine, s)
      else if \<not> q_status_valid (su_new u) then (Inl CpInvalidQuarantine, s)
      else if su_expected u \<noteq> no_status \<and> \<not> q_status_valid (su_expected u) then (Inl CpInvalidQuarantine, s)
      else if max_status_reason < length (su_reason u) then (Inl CpInvalidQuarantine, s)
      else case cp_guard (cp_closed s) io of Some e \<Rightarrow> (Inl e, s) | None \<Rightarrow>
        (case find_quarantine (su_id u) (cp_quarantine s) of
           None \<Rightarrow> (Inl CpQuarantineNotFound, s)
         | Some r \<Rightarrow>
             if su_expected u \<noteq> no_status \<and> qr_status r \<noteq> su_expected u then (Inl CpStatusConflict, s)
             else if \<not> q_can (qr_status r) (su_new u) then (Inl (CpInvalidTransition (qr_status r) (su_new u)), s)
             else let s' = s\<lparr>cp_quarantine := update_where (\<lambda>q. qr_id q = su_id u \<and> qr_status q = qr_status r)
                        (resolve (su_new u) (if is_zero (su_timestamp u) then now else su_timestamp u) (su_reason u) (su_by u))
                        (cp_quarantine s)\<rparr>
               in (get_quarantine_record io (su_id u) s', s')))"

definition discard_quarantine_record ::
  "db_io \<Rightarrow> gotime \<Rightarrow> string \<Rightarrow> string \<Rightarrow> string \<Rightarrow> cp_store \<Rightarrow> (cp_err + quarantine_record) \<times> cp_store" where
  "discard_quarantine_record io now i by_whom reason =
     update_quarantine_status io now \<lparr>su_id = i, su_expected = QQuarantined, su_new = QDiscarded,
       su_reason = reason, su_by = by_whom, su_timestamp = 0\<rparr>"

text \<open>
  The decoding of a payload (\<open>encoding/json\<close>): as an event envelope, whose payload may be nil, and as a
  plain batch.  \<open>None\<close> is a decoding error.
\<close>

record payload_codec =
  pc_event :: "string \<Rightarrow> telemetry_batch option option"
  pc_batch :: "string \<Rightarrow> telemetry_batch option"

definition reconstruct_batch :: "payload_codec \<Rightarrow> string \<Rightarrow> telemetry_batch option" where
  "reconstruct_batch codec payload =
     (case pc_event codec payload of Some (Some b) \<Rightarrow> Some b | _ \<Rightarrow> pc_batch codec payload)"

record replay_result =
  rp_record :: quarantine_record
  rp_batch :: telemetry_batch
  rp_already_ingested :: bool

definition replay_quarantine_record ::
  "payload_codec \<Rightarrow> db_io \<Rightarrow> gotime \<Rightarrow> string \<Rightarrow> string \<Rightarrow> string \<Rightarrow> gotime \<Rightarrow> cp_store \<Rightarrow>
   (cp_err + replay_result) \<times> cp_store" where
  "replay_quarantine_record codec io now i reason by_whom stamp s =
     (if blank i then (Inl CpInvalidQuarantine, s)
      else if max_status_reason < length reason then (Inl CpInvalidQuarantine, s)
      else case cp_guard (cp_closed s) io of Some e \<Rightarrow> (Inl e, s) | None \<Rightarrow>
      case find_quarantine i (cp_quarantine s) of None \<Rightarrow> (Inl CpQuarantineNotFound, s) | Some r \<Rightarrow>
      if qr_status r \<noteq> QQuarantined then (Inl CpStatusConflict, s)
      else case reconstruct_batch codec (qr_payload r) of None \<Rightarrow> (Inl CpInvalidMeta, s) | Some b \<Rightarrow>
      if telemetry_batch_validate b \<noteq> None then (Inl CpInvalidMeta, s)
      else if tb_node_id b \<noteq> qr_node_id r \<or> tb_batch_id b \<noteq> qr_batch_id r then (Inl CpInvalidMeta, s)
      else
        let t = (if is_zero stamp then now else stamp);
            why = (if trim_space reason = [] then ''operator replay'' else trim_space reason)
        in case (if is_ingested (tb_node_id b) (tb_batch_id b) s then (Inr False, s) else record_batch_tx b t i s) of
             (Inl e, _) \<Rightarrow> (Inl e, s)
           | (Inr inserted, s1) \<Rightarrow>
               let s2 = s1\<lparr>cp_quarantine := update_where (\<lambda>q. qr_id q = i \<and> qr_status q = QQuarantined)
                        (resolve QReplayed t why by_whom) (cp_quarantine s1)\<rparr>
               in (case get_quarantine_record io i s2 of
                     Inl e \<Rightarrow> (Inl e, s2)
                   | Inr r' \<Rightarrow> (Inr \<lparr>rp_record = r', rp_batch = b, rp_already_ingested = (\<not> inserted)\<rparr>, s2)))"

text \<open>Payloads of resolved records older than the cutoff are cleared, the oldest first.\<close>

definition prunable_quarantine :: "gotime \<Rightarrow> quarantine_record \<Rightarrow> bool" where
  "prunable_quarantine cutoff r \<longleftrightarrow>
     (qr_status r = QReplayed \<or> qr_status r = QDiscarded) \<and> qr_status_at r < cutoff \<and> qr_payload r \<noteq> []"

definition prune_quarantine_payloads ::
  "db_io \<Rightarrow> gotime \<Rightarrow> int \<Rightarrow> cp_store \<Rightarrow> (cp_err + nat) \<times> cp_store" where
  "prune_quarantine_payloads io cutoff limit s =
     (if is_zero cutoff then (Inl CpZeroCutoff, s)
      else case cp_guard (cp_closed s) io of Some e \<Rightarrow> (Inl e, s) | None \<Rightarrow>
        let n = (if limit \<le> 0 then 500 else nat limit);
            ids = map qr_id (take n (sort_key qr_status_at (filter (prunable_quarantine cutoff) (cp_quarantine s))))
        in (Inr (rows_affected (\<lambda>r. qr_id r \<in> set ids) (cp_quarantine s)),
            s\<lparr>cp_quarantine := update_where (\<lambda>r. qr_id r \<in> set ids) (\<lambda>r. r\<lparr>qr_payload := []\<rparr>) (cp_quarantine s)\<rparr>))"

end
