(* ===== verification/Cp_History.thy ===== *)
theory Cp_History
  imports Cp_Store
begin

text \<open>
  The ring buffer of recent batches (\<open>historyRingBuffer\<close> of \<open>services/control-plane/server/server.go\<close>)
  and what it implements: the list of the last \<open>capacity\<close> batches.  A slot is \<open>None\<close> where the slice
  holds a nil pointer.
\<close>

section \<open>The buffer\<close>

record history_ring =
  hr_entries :: "ingested_row option list"
  hr_capacity :: nat
  hr_head :: nat
  hr_count :: nat

definition new_history_ring :: "int \<Rightarrow> history_ring" where
  "new_history_ring n =
     (let capacity = (if n \<le> 0 then 1000 else nat n)
      in \<lparr>hr_entries = replicate capacity None, hr_capacity = capacity, hr_head = 0, hr_count = 0\<rparr>)"

definition ring_push :: "ingested_row \<Rightarrow> history_ring \<Rightarrow> history_ring" where
  "ring_push x r =
     (if hr_capacity r = 0 then r
      else if hr_count r < hr_capacity r
      then r\<lparr>hr_entries := (hr_entries r)[(hr_head r + hr_count r) mod hr_capacity r := Some x], hr_count := hr_count r + 1\<rparr>
      else r\<lparr>hr_entries := (hr_entries r)[hr_head r := Some x], hr_head := (hr_head r + 1) mod hr_capacity r\<rparr>)"

definition ring_snapshot :: "history_ring \<Rightarrow> ingested_row option list" where
  "ring_snapshot r =
     (if hr_count r = 0 then []
      else let first_chunk = min (hr_capacity r - hr_head r) (hr_count r)
        in take first_chunk (drop (hr_head r) (hr_entries r)) @ take (hr_count r - first_chunk) (hr_entries r))"

definition ring_resize :: "int \<Rightarrow> history_ring \<Rightarrow> bool \<times> history_ring" where
  "ring_resize n r =
     (if n \<le> 0 then (False, r)
      else if nat n = hr_capacity r then (True, r)
      else let current = ring_snapshot r; new_cap = nat n;
               survivors = (if new_cap < length current then drop (length current - new_cap) current else current)
        in (True, \<lparr>hr_entries = survivors @ replicate (new_cap - length survivors) None, hr_capacity = new_cap,
                   hr_head = 0, hr_count = length survivors\<rparr>))"

section \<open>The list it implements\<close>

definition last_n :: "nat \<Rightarrow> 'a list \<Rightarrow> 'a list" where
  "last_n n xs = drop (length xs - n) xs"

definition ring_ok :: "history_ring \<Rightarrow> bool" where
  "ring_ok r \<longleftrightarrow> 0 < hr_capacity r \<and> length (hr_entries r) = hr_capacity r \<and> hr_head r < hr_capacity r \<and>
     hr_count r \<le> hr_capacity r \<and> list_all (\<lambda>e. e \<noteq> None) (ring_snapshot r)"

definition ring_contents :: "history_ring \<Rightarrow> ingested_row list" where
  "ring_contents r = map the (ring_snapshot r)"

lemma ring_index: "h < n \<Longrightarrow> i < n \<Longrightarrow> (h + i) mod n = (if h + i < n then h + i else h + i - n)" for h :: nat
  by (simp add: mod_if)

lemma length_snapshot:
  "length (hr_entries r) = hr_capacity r \<Longrightarrow> hr_head r < hr_capacity r \<Longrightarrow> hr_count r \<le> hr_capacity r \<Longrightarrow>
   length (ring_snapshot r) = hr_count r"
  by (auto simp: ring_snapshot_def Let_def)

lemma snapshot_nth:
  assumes "length (hr_entries r) = hr_capacity r" and "hr_head r < hr_capacity r" and "hr_count r \<le> hr_capacity r"
    and "i < hr_count r"
  shows "ring_snapshot r ! i = hr_entries r ! ((hr_head r + i) mod hr_capacity r)"
  using assms ring_index [of "hr_head r" "hr_capacity r" i]
  by (auto simp: ring_snapshot_def Let_def nth_append min_def add.commute)

lemma last_n_id: "length xs \<le> n \<Longrightarrow> last_n n xs = xs"
  by (simp add: last_n_def)

lemma push_snapshot:
  assumes "ring_ok r"
  shows "ring_snapshot (ring_push x r) = last_n (hr_capacity r) (ring_snapshot r @ [Some x])"
proof -
  let ?n = "hr_capacity r" and ?h = "hr_head r" and ?c = "hr_count r"
  have ok: "0 < ?n" "length (hr_entries r) = ?n" "?h < ?n" "?c \<le> ?n" using assms by (auto simp: ring_ok_def)
  have len: "length (ring_snapshot r) = ?c" using ok by (simp add: length_snapshot)
  show ?thesis
  proof (cases "?c < ?n")
    case True
    let ?r = "r\<lparr>hr_entries := (hr_entries r)[(?h + ?c) mod ?n := Some x], hr_count := ?c + 1\<rparr>"
    have push: "ring_push x r = ?r" using True ok by (simp add: ring_push_def)
    have "ring_snapshot ?r = ring_snapshot r @ [Some x]"
    proof (rule nth_equalityI)
      show "length (ring_snapshot ?r) = length (ring_snapshot r @ [Some x])"
        using ok True len by (simp add: length_snapshot)
      fix i assume "i < length (ring_snapshot ?r)"
      then have i: "i < ?c + 1" using ok True by (simp add: length_snapshot)
      have at: "ring_snapshot ?r ! i = (hr_entries r)[(?h + ?c) mod ?n := Some x] ! ((?h + i) mod ?n)"
        using snapshot_nth [of ?r i] ok True i by simp
      show "ring_snapshot ?r ! i = (ring_snapshot r @ [Some x]) ! i"
      proof (cases "i = ?c")
        case True
        then show ?thesis using at len ok by (simp add: nth_append)
      next
        case False
        then have "i < ?c" using i by simp
        moreover have "(?h + i) mod ?n \<noteq> (?h + ?c) mod ?n"
          using ring_index [of ?h ?n i] ring_index [of ?h ?n ?c] ok True \<open>i < ?c\<close> by auto
        ultimately show ?thesis using at len ok snapshot_nth [of r i] by (simp add: nth_append)
      qed
    qed
    then show ?thesis using push len True by (simp add: last_n_id)
  next
    case False
    then have full: "?c = ?n" using ok by simp
    let ?r = "r\<lparr>hr_entries := (hr_entries r)[?h := Some x], hr_head := (?h + 1) mod ?n\<rparr>"
    have push: "ring_push x r = ?r" using full ok by (simp add: ring_push_def)
    have "ring_snapshot ?r = tl (ring_snapshot r) @ [Some x]"
    proof (rule nth_equalityI)
      show "length (ring_snapshot ?r) = length (tl (ring_snapshot r) @ [Some x])"
        using ok full len by (simp add: length_snapshot)
      fix i assume "i < length (ring_snapshot ?r)"
      then have i: "i < ?n" using ok full by (simp add: length_snapshot)
      have head: "(?h + 1) mod ?n < ?n" using ok by simp
      have at: "ring_snapshot ?r ! i = (hr_entries r)[?h := Some x] ! (((?h + 1) mod ?n + i) mod ?n)"
        using snapshot_nth [of ?r i] ok full i head by simp
      have step: "((?h + 1) mod ?n + i) mod ?n = (?h + Suc i) mod ?n" by (simp add: mod_add_left_eq)
      show "ring_snapshot ?r ! i = (tl (ring_snapshot r) @ [Some x]) ! i"
      proof (cases "Suc i = ?n")
        case True
        then have "(?h + Suc i) mod ?n = ?h" "\<not> i < ?n - 1" "i = ?n - 1" using ok by auto
        then show ?thesis using at step len full ok by (simp add: nth_append)
      next
        case False
        then have si: "Suc i < ?n" using i by simp
        have "i < ?n - 1" using si by simp
        moreover have "(?h + Suc i) mod ?n \<noteq> ?h" using ring_index [of ?h ?n "Suc i"] ok si by auto
        ultimately show ?thesis
          using at step len full si ok snapshot_nth [of r "Suc i"] by (simp add: nth_append nth_tl)
      qed
    qed
    then show ?thesis using push len full ok(1) by (simp add: last_n_def drop_Suc)
  qed
qed

lemma push_ok:
  assumes "ring_ok r"
  shows "ring_ok (ring_push x r)" "hr_capacity (ring_push x r) = hr_capacity r"
proof -
  have all: "list_all (\<lambda>e. e \<noteq> None) (ring_snapshot (ring_push x r))"
    using assms by (auto simp: push_snapshot last_n_def ring_ok_def list_all_iff dest: in_set_dropD)
  then show "ring_ok (ring_push x r)" using assms by (auto simp: ring_ok_def ring_push_def split: if_splits)
  show "hr_capacity (ring_push x r) = hr_capacity r" by (simp add: ring_push_def)
qed

lemma ring_contents_push:
  "ring_ok r \<Longrightarrow> ring_contents (ring_push x r) = last_n (hr_capacity r) (ring_contents r @ [x])"
  by (simp add: ring_contents_def push_snapshot last_n_def drop_map [symmetric])

lemma resize_snapshot:
  assumes "ring_ok r" and "0 < n"
  shows "ring_snapshot (snd (ring_resize n r)) = last_n (nat n) (ring_snapshot r)"
proof -
  have len: "length (ring_snapshot r) = hr_count r" using assms by (simp add: ring_ok_def length_snapshot)
  show ?thesis
  proof (cases "nat n = hr_capacity r")
    case True
    then show ?thesis using assms len by (auto simp: ring_resize_def last_n_def ring_ok_def)
  next
    case False
    then show ?thesis using assms len
      by (auto simp: ring_resize_def Let_def last_n_def ring_snapshot_def [of "\<lparr>hr_entries = _, hr_capacity = _, hr_head = _, hr_count = _\<rparr>"])
  qed
qed

lemma resize_ok:
  assumes "ring_ok r" and "0 < n"
  shows "ring_ok (snd (ring_resize n r))" "hr_capacity (snd (ring_resize n r)) = nat n"
proof -
  have len: "length (ring_snapshot r) = hr_count r" using assms by (simp add: ring_ok_def length_snapshot)
  have "list_all (\<lambda>e. e \<noteq> None) (ring_snapshot (snd (ring_resize n r)))"
    using assms by (auto simp: resize_snapshot last_n_def ring_ok_def list_all_iff dest: in_set_dropD)
  then show "ring_ok (snd (ring_resize n r))" using assms len
    by (auto simp: ring_ok_def ring_resize_def Let_def split: if_splits)
  show "hr_capacity (snd (ring_resize n r)) = nat n" using assms by (auto simp: ring_resize_def Let_def)
qed

section \<open>Refinement\<close>

datatype ring_op = RingPush ingested_row | RingResize int

fun ring_exec :: "ring_op \<Rightarrow> history_ring \<Rightarrow> history_ring" where
  "ring_exec (RingPush x) r = ring_push x r"
| "ring_exec (RingResize n) r = snd (ring_resize n r)"

text \<open>The abstract history: a bound, and the batches it keeps.\<close>

fun window_exec :: "ring_op \<Rightarrow> nat \<times> ingested_row list \<Rightarrow> nat \<times> ingested_row list" where
  "window_exec (RingPush x) (n, xs) = (n, last_n n (xs @ [x]))"
| "window_exec (RingResize m) (n, xs) = (if m \<le> 0 then (n, xs) else (nat m, last_n (nat m) xs))"

definition ring_abs :: "history_ring \<Rightarrow> nat \<times> ingested_row list" where
  "ring_abs r = (hr_capacity r, ring_contents r)"

lemma ring_exec_ok: "ring_ok r \<Longrightarrow> ring_ok (ring_exec op r)"
proof (cases op)
  case (RingResize n)
  assume "ring_ok r"
  with RingResize show ?thesis by (cases "0 < n") (simp_all add: resize_ok, simp add: ring_resize_def)
qed (simp add: push_ok)

lemma ring_exec_abs: "ring_ok r \<Longrightarrow> ring_abs (ring_exec op r) = window_exec op (ring_abs r)"
proof (cases op)
  case (RingPush x)
  assume "ring_ok r"
  with RingPush show ?thesis by (simp add: ring_abs_def push_ok ring_contents_push)
next
  case (RingResize n)
  assume "ring_ok r"
  with RingResize show ?thesis
    by (cases "0 < n")
      (simp_all add: ring_abs_def resize_ok ring_contents_def resize_snapshot last_n_def drop_map, simp add: ring_resize_def)
qed

lemma new_ring_ok: "ring_ok (new_history_ring n)"
  by (simp add: ring_ok_def new_history_ring_def Let_def ring_snapshot_def)

lemma ring_run_abs: "ring_ok r \<Longrightarrow> ring_abs (fold ring_exec ops r) = fold window_exec ops (ring_abs r)"
  by (induction ops arbitrary: r) (simp_all add: ring_exec_ok ring_exec_abs)

text \<open>
  C0. The ring buffer implements the window of the latest batches: from an empty buffer, whatever is
  pushed and however it is resized, its capacity and its snapshot are those of the list that appends
  each batch and keeps the last \<open>capacity\<close> of them; no slot of a snapshot is nil.
\<close>

theorem history_ring_refines_window:
  "ring_abs (fold ring_exec ops (new_history_ring n)) = fold window_exec ops (if n \<le> 0 then 1000 else nat n, []) \<and>
   list_all (\<lambda>e. e \<noteq> None) (ring_snapshot (fold ring_exec ops (new_history_ring n)))"
proof -
  have "ring_abs (new_history_ring n) = (if n \<le> 0 then 1000 else nat n, [])"
    by (simp add: ring_abs_def ring_contents_def new_history_ring_def ring_snapshot_def Let_def)
  moreover have "ring_ok (fold ring_exec ops r)" if "ring_ok r" for r
    using that by (induction ops arbitrary: r) (simp_all add: ring_exec_ok)
  ultimately show ?thesis using ring_run_abs [OF new_ring_ok] new_ring_ok by (metis ring_ok_def)
qed

end
