(* ===== verification/Cp_Server.thy ===== *)
theory Cp_Server
  imports Cp_Auth Cp_Quarantine Cp_History
begin

text \<open>
  The handlers of \<open>services/control-plane/server/server.go\<close>, over a SQLite store that serves as both the
  idempotency store and the quarantine store.  A reply is a status with a body; of an error the body
  keeps the code.  The nodes in memory are the list \<open>nodesList\<close>, which the map \<open>nodes\<close> indexes.  The lock
  of a node makes the store and the memory one step for it.  Decoders of JSON bodies are parameters;
  metrics and logs are not modelled.
\<close>

section \<open>Replies and requests\<close>

datatype reply_body =
    BodyError string
  | BodyStatus string
  | BodyReadiness string string string
  | BodyIngest string string string "gotime option"
  | BodyBatches "ingested_row option list"
  | BodyRegistration string string gotime
  | BodyHeartbeat string string gotime
  | BodyNodes "node_record list"
  | BodyNode node_record
  | BodyQuarantineList "quarantine_record list"
  | BodyQuarantine quarantine_record "telemetry_batch option"
  | BodyReplay string q_status bool string string
  | BodyDiscard string q_status
  | BodyMetrics

type_synonym http_reply = "nat \<times> reply_body"

datatype body_read = BodyRead string | BodyTooLarge | BodyBroken

record http_request =
  hq_auth :: auth_request
  hq_path :: string
  hq_query :: gomap
  hq_body :: body_read

text \<open>What the world answers while a request is handled: clocks and the database.\<close>

record http_env =
  he_auth_now :: gotime
  he_cache_now :: gotime
  he_now :: gotime
  he_io :: "nat \<Rightarrow> db_io"
  he_probe :: "ctx_err option"

record decoders =
  de_batch :: "string \<Rightarrow> telemetry_batch option"
  de_registration :: "string \<Rightarrow> node_registration option"
  de_heartbeat :: "string \<Rightarrow> heartbeat option"
  de_action :: "string \<Rightarrow> string option"
  de_payload :: payload_codec

section \<open>The server\<close>

record pruning_config =
  pc_enabled :: bool
  pc_telemetry_days :: int
  pc_quarantine_days :: int
  pc_interval :: duration
  pc_batch_size :: int

definition default_pruning_config :: pruning_config where
  "default_pruning_config =
     \<lparr>pc_enabled = False, pc_telemetry_days = 30, pc_quarantine_days = 30, pc_interval = 60 * minute, pc_batch_size = 500\<rparr>"

definition pruning_config_validate :: "pruning_config \<Rightarrow> string option" where
  "pruning_config_validate c =
     (if \<not> pc_enabled c then None
      else if pc_telemetry_days c \<le> 0 then Some ''telemetry retention days must be greater than zero''
      else if pc_quarantine_days c \<le> 0 then Some ''quarantine retention days must be greater than zero''
      else if pc_interval c \<le> 0 then Some ''prune interval must be greater than zero''
      else if pc_batch_size c \<le> 0 then Some ''prune batch size must be greater than zero''
      else None)"

record cp_server =
  sv_store :: cp_store
  sv_history :: history_ring
  sv_nodes :: "node_record list"
  sv_auth :: auth_config
  sv_cache :: "replay_cache option"
  sv_init_failed :: bool
  sv_down :: bool
  sv_pruning :: pruning_config

text \<open>\<open>WithPruningConfig\<close>: an invalid option is ignored.\<close>

definition with_pruning_config :: "pruning_config \<Rightarrow> pruning_config \<Rightarrow> pruning_config" where
  "with_pruning_config cfg old =
     (let cfg' = (if pc_enabled cfg \<and> pc_quarantine_days cfg = 0 then cfg\<lparr>pc_quarantine_days := 30\<rparr> else cfg)
      in if pruning_config_validate cfg' \<noteq> None then old else cfg')"

text \<open>
  \<open>NewServer\<close> with a store, and a history size and a pruning configuration from the options; the registry
  and the history are read back from the store.
\<close>

definition new_server :: "(nat \<Rightarrow> db_io) \<Rightarrow> cp_store \<Rightarrow> int \<Rightarrow> pruning_config option \<Rightarrow> cp_server" where
  "new_server io store max_history pruning =
     (let ring0 = new_history_ring 1000;
          ring1 = (if max_history \<le> 0 then ring0 else snd (ring_resize max_history ring0));
          cfg = (case pruning of None \<Rightarrow> default_pruning_config | Some c \<Rightarrow> with_pruning_config c default_pruning_config);
          nodes = list_nodes (io 0) store;
          recent_batches = (case get_recent_batches (io 1) (int (hr_capacity ring1)) store of Inr rs \<Rightarrow> rs | Inl _ \<Rightarrow> [])
      in \<lparr>sv_store = store, sv_history = fold ring_push recent_batches ring1,
          sv_nodes = (case nodes of Inr ns \<Rightarrow> ns | Inl _ \<Rightarrow> []), sv_auth = default_auth_config,
          sv_cache = Some (new_replay_cache 100000),
          sv_init_failed = (case nodes of Inr _ \<Rightarrow> False | Inl _ \<Rightarrow> True), sv_down = False, sv_pruning = cfg\<rparr>)"

definition set_auth_config :: "auth_config \<Rightarrow> cp_server \<Rightarrow> cp_server" where
  "set_auth_config cfg s =
     s\<lparr>sv_auth := cfg, sv_cache := (case sv_cache s of None \<Rightarrow> Some (new_replay_cache 100000) | c \<Rightarrow> c)\<rparr>"

definition mark_shutting_down :: "cp_server \<Rightarrow> cp_server" where
  "mark_shutting_down s = s\<lparr>sv_down := True\<rparr>"

definition server_close :: "cp_server \<Rightarrow> cp_server" where
  "server_close s = (let s1 = mark_shutting_down s in s1\<lparr>sv_store := cp_close (sv_store s1)\<rparr>)"

text \<open>Authentication over the bytes read (none for requests without a body).\<close>

definition authenticate :: "crypto \<Rightarrow> http_env \<Rightarrow> http_request \<Rightarrow> string \<Rightarrow> cp_server \<Rightarrow> (auth_err + auth_context) \<times> cp_server" where
  "authenticate cr e q body s =
     (case authenticate_request cr (sv_auth s) (he_auth_now e) (he_cache_now e) ((hq_auth q)\<lparr>rq_body := body\<rparr>) (sv_cache s) of
        (res, cache) \<Rightarrow> (res, s\<lparr>sv_cache := cache\<rparr>))"

definition auth_error_code :: "auth_err \<Rightarrow> string" where
  "auth_error_code e =
     (case e of AuthInvalidSignature \<Rightarrow> ''invalid_signature'' | AuthExpiredTimestamp \<Rightarrow> ''expired_timestamp''
      | AuthFutureTimestamp \<Rightarrow> ''future_timestamp'' | AuthReplayDetected \<Rightarrow> ''replay_detected''
      | AuthMissingHeaders \<Rightarrow> ''missing_auth_headers'' | _ \<Rightarrow> ''unauthorized'')"

definition write_auth_error :: "auth_err \<Rightarrow> http_reply" where
  "write_auth_error e = (401, BodyError (auth_error_code e))"

text \<open>A node other than the one the data is about is turned away.\<close>

definition impersonates :: "cp_server \<Rightarrow> auth_context \<Rightarrow> string \<Rightarrow> bool" where
  "impersonates s x node \<longleftrightarrow> ac_enabled (sv_auth s) \<and> \<not> ax_admin x \<and> ax_node_id x \<noteq> node"

section \<open>Telemetry\<close>

definition remember_batch :: "telemetry_batch \<Rightarrow> gotime \<Rightarrow> cp_server \<Rightarrow> cp_server" where
  "remember_batch b t s =
     s\<lparr>sv_history := ring_push \<lparr>ir_batch = b, ir_ingested_at = t\<rparr> (sv_history s),
       sv_nodes := update_where (\<lambda>r. nd_node_id r = tb_node_id b) (advance_activity t (tb_sequence_number b)) (sv_nodes s)\<rparr>"

definition handle_ingest_batch :: "crypto \<Rightarrow> decoders \<Rightarrow> http_env \<Rightarrow> http_request \<Rightarrow> cp_server \<Rightarrow> http_reply \<times> cp_server" where
  "handle_ingest_batch cr de e q s =
     (case hq_body q of
        BodyTooLarge \<Rightarrow> ((413, BodyError ''payload_too_large''), s)
      | BodyBroken \<Rightarrow> ((400, BodyError ''malformed_body''), s)
      | BodyRead body \<Rightarrow>
      case authenticate cr e q body s of (Inl err, s1) \<Rightarrow> (write_auth_error err, s1) | (Inr x, s1) \<Rightarrow>
      case de_batch de body of None \<Rightarrow> ((400, BodyError ''malformed_json''), s1) | Some b \<Rightarrow>
      if telemetry_batch_validate b \<noteq> None then ((400, BodyError ''invalid_batch''), s1)
      else if impersonates s1 x (tb_node_id b) then ((403, BodyError ''forbidden''), s1)
      else case record_batch (he_io e 0) (Some b) (he_now e) (sv_store s1) of
        (Inl _, st) \<Rightarrow> ((500, BodyError ''internal_server_error''), s1\<lparr>sv_store := st\<rparr>)
      | (Inr False, st) \<Rightarrow>
          ((200, BodyIngest ''already_accepted'' (tb_batch_id b) (tb_node_id b) None), s1\<lparr>sv_store := st\<rparr>)
      | (Inr True, st) \<Rightarrow>
          ((201, BodyIngest ''accepted'' (tb_batch_id b) (tb_node_id b) (Some (he_now e))),
           remember_batch b (he_now e) (s1\<lparr>sv_store := st\<rparr>)))"

definition handle_list_batches :: "crypto \<Rightarrow> http_env \<Rightarrow> http_request \<Rightarrow> cp_server \<Rightarrow> http_reply \<times> cp_server" where
  "handle_list_batches cr e q s =
     (case authenticate cr e q [] s of (Inl err, s1) \<Rightarrow> (write_auth_error err, s1) | (Inr x, s1) \<Rightarrow>
        if ac_enabled (sv_auth s1) \<and> \<not> ax_admin x then ((403, BodyError ''forbidden''), s1)
        else ((200, BodyBatches (ring_snapshot (sv_history s1))), s1))"

definition handle_telemetry_batches :: "crypto \<Rightarrow> decoders \<Rightarrow> http_env \<Rightarrow> http_request \<Rightarrow> cp_server \<Rightarrow> http_reply \<times> cp_server" where
  "handle_telemetry_batches cr de e q s =
     (if sv_init_failed s then ((503, BodyError ''service_uninitialized''), s)
      else if rq_method (hq_auth q) = ''POST'' then handle_ingest_batch cr de e q s
      else if rq_method (hq_auth q) = ''GET'' then handle_list_batches cr e q s
      else ((405, BodyError ''method_not_allowed''), s))"

text \<open>\<open>IngestBatch\<close>, the entry of the NATS consumer.\<close>

datatype ingest_result = IngestDone | IngestDuplicate | IngestInvalid | IngestFailed cp_err

definition ingest_batch :: "db_io \<Rightarrow> gotime \<Rightarrow> telemetry_batch \<Rightarrow> cp_server \<Rightarrow> ingest_result \<times> cp_server" where
  "ingest_batch io now b s =
     (if telemetry_batch_validate b \<noteq> None then (IngestInvalid, s)
      else case record_batch io (Some b) now (sv_store s) of
        (Inl err, st) \<Rightarrow> (IngestFailed err, s\<lparr>sv_store := st\<rparr>)
      | (Inr False, st) \<Rightarrow> (IngestDuplicate, s\<lparr>sv_store := st\<rparr>)
      | (Inr True, st) \<Rightarrow> (IngestDone, remember_batch b now (s\<lparr>sv_store := st\<rparr>)))"

definition server_count :: "db_io \<Rightarrow> cp_server \<Rightarrow> nat" where
  "server_count io s = (case cp_count io (sv_store s) of Inr n \<Rightarrow> n | Inl _ \<Rightarrow> 0)"

definition has_ingested_batch :: "db_io \<Rightarrow> string \<Rightarrow> string \<Rightarrow> cp_server \<Rightarrow> bool" where
  "has_ingested_batch io node batch s = (case has_batch io node batch (sv_store s) of Inr x \<Rightarrow> x | Inl _ \<Rightarrow> False)"

definition set_max_history_size :: "int \<Rightarrow> cp_server \<Rightarrow> bool \<times> cp_server" where
  "set_max_history_size n s = (case ring_resize n (sv_history s) of (ok, r) \<Rightarrow> (ok, s\<lparr>sv_history := r\<rparr>))"

end
