(* ===== verification/Cp_Handlers.thy ===== *)
theory Cp_Handlers
  imports Cp_Server
begin

text \<open>
  The handlers of \<open>services/control-plane/server/server.go\<close> for nodes, quarantined telemetry, health and
  retention.
\<close>

section \<open>Nodes\<close>

definition registration_record :: "gotime \<Rightarrow> node_registration \<Rightarrow> node_record" where
  "registration_record now reg =
     (let dated = (\<not> is_zero (nr_registered_at reg));
          meta_time = (case nr_updated_at reg of
              Some t \<Rightarrow> if \<not> is_zero t then t else if dated then nr_registered_at reg else now
            | None \<Rightarrow> if dated then nr_registered_at reg else now)
      in \<lparr>nd_node_id = nr_node_id reg, nd_status = NodeStatusHealthy, nd_last_seen = meta_time,
          nd_registered_at = (if dated then nr_registered_at reg else now), nd_agent_version = nr_agent_version reg,
          nd_protocol_version = ''v1'', nd_hostname = nr_hostname reg, nd_os = nr_os reg,
          nd_architecture = nr_architecture reg, nd_capabilities = nr_capabilities reg, nd_labels = nr_labels reg,
          nd_sequence_number = 0, nd_heartbeat_sequence = 0, nd_metadata_version = nr_metadata_version reg,
          nd_updated_at = meta_time\<rparr>)"

text \<open>
  \<open>RegisterNode\<close> writes through the pointer it is given: afterwards the record is the new row, or the
  request merged with the row on record.
\<close>

definition registered_record :: "node_record \<Rightarrow> cp_store \<Rightarrow> node_record" where
  "registered_record req st =
     (case find_node (nd_node_id req) (cp_nodes st) of None \<Rightarrow> new_node req | Some row \<Rightarrow> reregister req row)"

text \<open>What a repeated registration changes on the record in memory.\<close>

definition reconcile_node :: "node_record \<Rightarrow> node_record \<Rightarrow> node_record" where
  "reconcile_node rec e =
     (let dated = e\<lparr>nd_updated_at := (if is_zero (nd_updated_at e) then nd_registered_at e else nd_updated_at e)\<rparr>;
          e1 = (if advances_metadata (nd_metadata_version rec) (nd_updated_at rec) dated
                then e\<lparr>nd_metadata_version := nd_metadata_version rec, nd_updated_at := nd_updated_at rec,
                       nd_hostname := or_else (nd_hostname rec) (nd_hostname e),
                       nd_agent_version := or_else (nd_agent_version rec) (nd_agent_version e),
                       nd_protocol_version := or_else (nd_protocol_version rec) (nd_protocol_version e),
                       nd_os := or_else (nd_os rec) (nd_os e),
                       nd_architecture := or_else (nd_architecture rec) (nd_architecture e),
                       nd_capabilities := (if nd_capabilities rec \<noteq> [] then nd_capabilities rec else nd_capabilities e),
                       nd_labels := (if nd_labels rec \<noteq> [] then nd_labels rec else nd_labels e)\<rparr>
                else e)
      in e1\<lparr>nd_last_seen := (if nd_last_seen e < nd_last_seen rec then nd_last_seen rec else nd_last_seen e),
            nd_sequence_number := max (nd_sequence_number rec) (nd_sequence_number e),
            nd_heartbeat_sequence := max (nd_heartbeat_sequence rec) (nd_heartbeat_sequence e)\<rparr>)"

definition register_in_memory :: "bool \<Rightarrow> node_record \<Rightarrow> cp_server \<Rightarrow> http_reply \<times> cp_server" where
  "register_in_memory is_new rec s =
     (if is_new
      then ((201, BodyRegistration ''registered'' (nd_node_id rec) (nd_registered_at rec)), s\<lparr>sv_nodes := sv_nodes s @ [rec]\<rparr>)
      else case find_node (nd_node_id rec) (sv_nodes s) of
        Some e \<Rightarrow> ((200, BodyRegistration ''already_registered'' (nd_node_id rec) (nd_registered_at e)),
            s\<lparr>sv_nodes := update_where (\<lambda>r. nd_node_id r = nd_node_id rec) (reconcile_node rec) (sv_nodes s)\<rparr>)
      | None \<Rightarrow> ((200, BodyRegistration ''already_registered'' (nd_node_id rec) (nd_registered_at rec)),
            s\<lparr>sv_nodes := sv_nodes s @ [rec]\<rparr>))"

definition handle_node_register :: "crypto \<Rightarrow> decoders \<Rightarrow> http_env \<Rightarrow> http_request \<Rightarrow> cp_server \<Rightarrow> http_reply \<times> cp_server" where
  "handle_node_register cr de e q s =
     (if sv_init_failed s then ((503, BodyError ''service_uninitialized''), s)
      else if rq_method (hq_auth q) \<noteq> ''POST'' then ((405, BodyError ''method_not_allowed''), s)
      else case hq_body q of
        BodyTooLarge \<Rightarrow> ((413, BodyError ''payload_too_large''), s)
      | BodyBroken \<Rightarrow> ((400, BodyError ''malformed_body''), s)
      | BodyRead body \<Rightarrow>
      case authenticate cr e q body s of (Inl err, s1) \<Rightarrow> (write_auth_error err, s1) | (Inr x, s1) \<Rightarrow>
      case de_registration de body of None \<Rightarrow> ((400, BodyError ''malformed_json''), s1) | Some reg \<Rightarrow>
      if node_registration_validate reg \<noteq> None then ((400, BodyError ''invalid_registration''), s1)
      else if \<not> valid_node_id (nr_node_id reg) then ((400, BodyError ''invalid_node_id''), s1)
      else if impersonates s1 x (nr_node_id reg) then ((403, BodyError ''forbidden''), s1)
      else let req = registration_record (he_now e) reg
        in case register_node (he_io e 0) (Some req) (sv_store s1) of
          (Inl _, st) \<Rightarrow> ((500, BodyError ''internal_server_error''), s1\<lparr>sv_store := st\<rparr>)
        | (Inr is_new, st) \<Rightarrow> register_in_memory is_new (registered_record req (sv_store s1)) (s1\<lparr>sv_store := st\<rparr>))"

definition heartbeat_in_memory :: "heartbeat \<Rightarrow> gotime \<Rightarrow> cp_server \<Rightarrow> cp_server" where
  "heartbeat_in_memory hb t s =
     (case find_node (hb_node_id hb) (sv_nodes s) of
        None \<Rightarrow> s\<lparr>sv_nodes := sv_nodes s @ [\<lparr>nd_node_id = hb_node_id hb, nd_status = hb_status hb, nd_last_seen = t,
            nd_registered_at = t, nd_agent_version = [], nd_protocol_version = [], nd_hostname = [], nd_os = [],
            nd_architecture = [], nd_capabilities = [], nd_labels = [], nd_sequence_number = 0,
            nd_heartbeat_sequence = hb_sequence_number hb, nd_metadata_version = 0, nd_updated_at = 0\<rparr>]\<rparr>
      | Some _ \<Rightarrow> s\<lparr>sv_nodes := update_where (\<lambda>r. nd_node_id r = hb_node_id hb)
            (beat (hb_status hb) (hb_sequence_number hb) t) (sv_nodes s)\<rparr>)"

definition handle_node_heartbeat :: "crypto \<Rightarrow> decoders \<Rightarrow> http_env \<Rightarrow> http_request \<Rightarrow> cp_server \<Rightarrow> http_reply \<times> cp_server" where
  "handle_node_heartbeat cr de e q s =
     (if sv_init_failed s then ((503, BodyError ''service_uninitialized''), s)
      else if rq_method (hq_auth q) \<noteq> ''POST'' then ((405, BodyError ''method_not_allowed''), s)
      else case hq_body q of
        BodyTooLarge \<Rightarrow> ((413, BodyError ''payload_too_large''), s)
      | BodyBroken \<Rightarrow> ((400, BodyError ''malformed_body''), s)
      | BodyRead body \<Rightarrow>
      case authenticate cr e q body s of (Inl err, s1) \<Rightarrow> (write_auth_error err, s1) | (Inr x, s1) \<Rightarrow>
      case de_heartbeat de body of None \<Rightarrow> ((400, BodyError ''malformed_json''), s1) | Some hb \<Rightarrow>
      if heartbeat_validate hb \<noteq> None then ((400, BodyError ''invalid_heartbeat''), s1)
      else if impersonates s1 x (hb_node_id hb) then ((403, BodyError ''forbidden''), s1)
      else let t = (if \<not> is_zero (hb_timestamp hb) then hb_timestamp hb else he_now e)
        in case update_node_heartbeat (he_io e 0) (hb_node_id hb) (hb_status hb) (hb_sequence_number hb) t (sv_store s1) of
          (Some CpNodeNotFound, st) \<Rightarrow> ((404, BodyError ''node_not_found''), s1\<lparr>sv_store := st\<rparr>)
        | (Some _, st) \<Rightarrow> ((500, BodyError ''internal_server_error''), s1\<lparr>sv_store := st\<rparr>)
        | (None, st) \<Rightarrow> ((200, BodyHeartbeat ''acknowledged'' (hb_node_id hb) t),
            heartbeat_in_memory hb t (s1\<lparr>sv_store := st\<rparr>)))"

definition trim_prefix :: "string \<Rightarrow> string \<Rightarrow> string" where
  "trim_prefix p s = (if has_prefix s p then drop (length p) s else s)"

definition handle_nodes :: "crypto \<Rightarrow> http_env \<Rightarrow> http_request \<Rightarrow> cp_server \<Rightarrow> http_reply \<times> cp_server" where
  "handle_nodes cr e q s =
     (if sv_init_failed s then ((503, BodyError ''service_uninitialized''), s)
      else if rq_method (hq_auth q) \<noteq> ''GET'' then ((405, BodyError ''method_not_allowed''), s)
      else case authenticate cr e q [] s of (Inl err, s1) \<Rightarrow> (write_auth_error err, s1) | (Inr x, s1) \<Rightarrow>
      let path = trim_prefix ''/'' (trim_prefix ''/api/v1/nodes'' (hq_path q))
      in if path = [] then
           (if ac_enabled (sv_auth s1) \<and> \<not> ax_admin x then ((403, BodyError ''forbidden''), s1)
            else ((200, BodyNodes (sv_nodes s1)), s1))
         else if impersonates s1 x path then ((403, BodyError ''forbidden''), s1)
         else case find_node path (sv_nodes s1) of
           None \<Rightarrow> ((404, BodyError ''node_not_found''), s1)
         | Some r \<Rightarrow> ((200, BodyNode r), s1))"

section \<open>Quarantined telemetry\<close>

definition parse_quarantine_payload :: "payload_codec \<Rightarrow> string \<Rightarrow> telemetry_batch option" where
  "parse_quarantine_payload codec payload =
     (let valid = (\<lambda>b. telemetry_batch_validate b = None);
          direct = (case pc_batch codec payload of Some b \<Rightarrow> if valid b then Some b else None | None \<Rightarrow> None)
      in if payload = [] then None
         else case pc_event codec payload of
           Some (Some b) \<Rightarrow> if valid b then Some b else direct
         | _ \<Rightarrow> direct)"

text \<open>\<open>requireAdminAuth\<close> and \<open>checkAdminAuth\<close>: the reply of a refusal, if any.\<close>

definition check_admin_auth :: "crypto \<Rightarrow> http_env \<Rightarrow> http_request \<Rightarrow> cp_server \<Rightarrow> http_reply option \<times> cp_server" where
  "check_admin_auth cr e q s =
     (let cfg = sv_auth s; header = rq_authorization (hq_auth q)
      in if ac_admin_token cfg = [] then (Some (503, BodyError ''service_unavailable''), s)
         else if \<not> ac_enabled cfg then
           (if header = [] \<or> \<not> verify_admin_token (ac_admin_token cfg) header
            then (Some (401, BodyError ''unauthorized''), s) else (None, s))
         else case authenticate cr e q [] s of
           (Inl _, s1) \<Rightarrow> (Some (401, BodyError ''unauthorized''), s1)
         | (Inr x, s1) \<Rightarrow> (if ax_admin x then None else Some (403, BodyError ''forbidden''), s1))"

definition query_get :: "http_request \<Rightarrow> string \<Rightarrow> string" where
  "query_get q k = trim_space (case map_of (hq_query q) k of Some v \<Rightarrow> v | None \<Rightarrow> [])"

definition parse_status :: "string \<Rightarrow> q_status" where
  "parse_status v = (if v = ''quarantined'' then QQuarantined else if v = ''replayed'' then QReplayed
     else if v = ''discarded'' then QDiscarded else QStatusOther v)"

definition parse_category :: "string \<Rightarrow> q_category" where
  "parse_category v = (if v = ''deserialization_error'' then CategoryDeserialization
     else if v = ''schema_validation'' then CategorySchemaValidation
     else if v = ''delivery_exhausted'' then CategoryDeliveryExhausted
     else if v = ''storage_failure'' then CategoryStorageFailure
     else if v = ''unknown'' then CategoryUnknown else CategoryOther v)"

text \<open>The filter a query asks for; \<open>None\<close> is a bad request.\<close>

definition quarantine_query :: "http_request \<Rightarrow> quarantine_filter option" where
  "quarantine_query q =
     (let st = query_get q ''status''; cat = query_get q ''failure_category'';
          lim = query_get q ''limit''; off = query_get q ''offset'';
          limit = (if lim = [] then Some 50 else case atoi lim of Some n \<Rightarrow> if n \<le> 0 \<or> 500 < n then None else Some n | None \<Rightarrow> None);
          offset = (if off = [] then Some 0 else case atoi off of Some n \<Rightarrow> if n < 0 then None else Some n | None \<Rightarrow> None)
      in if st \<noteq> [] \<and> \<not> q_status_valid (parse_status st) then None
         else if cat \<noteq> [] \<and> \<not> q_category_valid (parse_category cat) then None
         else case (limit, offset) of
           (Some l, Some n) \<Rightarrow> Some \<lparr>qf_status = (if st = [] then no_status else parse_status st),
               qf_node_id = query_get q ''node_id'', qf_category = (if cat = [] then no_category else parse_category cat),
               qf_limit = l, qf_offset = n\<rparr>
         | _ \<Rightarrow> None)"

definition handle_list_quarantine :: "crypto \<Rightarrow> http_env \<Rightarrow> http_request \<Rightarrow> cp_server \<Rightarrow> http_reply \<times> cp_server" where
  "handle_list_quarantine cr e q s =
     (case check_admin_auth cr e q s of (Some r, s1) \<Rightarrow> (r, s1) | (None, s1) \<Rightarrow>
      case quarantine_query q of None \<Rightarrow> ((400, BodyError ''bad_request''), s1) | Some f \<Rightarrow>
      case list_quarantine_records (he_io e 0) f (sv_store s1) of
        Inl _ \<Rightarrow> ((500, BodyError ''storage_error''), s1)
      | Inr rs \<Rightarrow> ((200, BodyQuarantineList rs), s1))"

definition handle_get_quarantine :: "crypto \<Rightarrow> decoders \<Rightarrow> http_env \<Rightarrow> http_request \<Rightarrow> string \<Rightarrow> cp_server \<Rightarrow> http_reply \<times> cp_server" where
  "handle_get_quarantine cr de e q i s =
     (case check_admin_auth cr e q s of (Some r, s1) \<Rightarrow> (r, s1) | (None, s1) \<Rightarrow>
      case get_quarantine_record (he_io e 0) i (sv_store s1) of
        Inl CpQuarantineNotFound \<Rightarrow> ((404, BodyError ''quarantine_not_found''), s1)
      | Inl _ \<Rightarrow> ((500, BodyError ''storage_error''), s1)
      | Inr r \<Rightarrow> ((200, BodyQuarantine r (parse_quarantine_payload (de_payload de) (qr_payload r))), s1))"

text \<open>The reason of an action: the body is cut at 64 KiB, and may be blank.\<close>

definition action_reason :: "decoders \<Rightarrow> http_request \<Rightarrow> string option" where
  "action_reason de q =
     (case hq_body q of
        BodyRead body \<Rightarrow>
          (let cut = take 65536 body
           in case (if trim_space cut = [] then Some [] else de_action de cut) of
                Some reason \<Rightarrow> if max_status_reason < length reason then None else Some reason
              | None \<Rightarrow> None)
      | _ \<Rightarrow> None)"

text \<open>Both actions first look whether the record can be resolved.\<close>

definition resolvable :: "db_io \<Rightarrow> string \<Rightarrow> cp_store \<Rightarrow> http_reply option" where
  "resolvable io i st =
     (case get_quarantine_record io i st of
        Inl CpQuarantineNotFound \<Rightarrow> Some (404, BodyError ''quarantine_not_found'')
      | Inl _ \<Rightarrow> Some (500, BodyError ''storage_error'')
      | Inr r \<Rightarrow> if qr_status r \<noteq> QQuarantined then Some (409, BodyError ''quarantine_status_conflict'') else None)"

definition action_error :: "cp_err \<Rightarrow> http_reply" where
  "action_error err =
     (case err of
        CpQuarantineNotFound \<Rightarrow> (404, BodyError ''quarantine_not_found'')
      | CpStatusConflict \<Rightarrow> (409, BodyError ''quarantine_status_conflict'')
      | CpInvalidTransition _ _ \<Rightarrow> (409, BodyError ''quarantine_status_conflict'')
      | _ \<Rightarrow> (500, BodyError ''storage_error''))"

definition handle_replay_quarantine :: "crypto \<Rightarrow> decoders \<Rightarrow> http_env \<Rightarrow> http_request \<Rightarrow> string \<Rightarrow> cp_server \<Rightarrow> http_reply \<times> cp_server" where
  "handle_replay_quarantine cr de e q i s =
     (case check_admin_auth cr e q s of (Some r, s1) \<Rightarrow> (r, s1) | (None, s1) \<Rightarrow>
      case action_reason de q of None \<Rightarrow> ((400, BodyError ''bad_request''), s1) | Some reason \<Rightarrow>
      case resolvable (he_io e 0) i (sv_store s1) of Some r \<Rightarrow> (r, s1) | None \<Rightarrow>
      case replay_quarantine_record (de_payload de) (he_io e 1) (he_now e) i reason ''admin-token'' (he_now e) (sv_store s1) of
        (Inl err, st) \<Rightarrow>
          (if err = CpInvalidMeta then (422, BodyError ''invalid_replay_payload'') else action_error err, s1\<lparr>sv_store := st\<rparr>)
      | (Inr res, st) \<Rightarrow>
          ((200, BodyReplay (qr_id (rp_record res)) (qr_status (rp_record res)) (rp_already_ingested res)
              (qr_node_id (rp_record res)) (qr_batch_id (rp_record res))),
           (s1\<lparr>sv_store := st\<rparr>)\<lparr>sv_history := (if rp_already_ingested res then sv_history s1
              else ring_push \<lparr>ir_batch = rp_batch res, ir_ingested_at = he_now e\<rparr> (sv_history s1))\<rparr>))"

definition handle_discard_quarantine :: "crypto \<Rightarrow> decoders \<Rightarrow> http_env \<Rightarrow> http_request \<Rightarrow> string \<Rightarrow> cp_server \<Rightarrow> http_reply \<times> cp_server" where
  "handle_discard_quarantine cr de e q i s =
     (case check_admin_auth cr e q s of (Some r, s1) \<Rightarrow> (r, s1) | (None, s1) \<Rightarrow>
      case action_reason de q of None \<Rightarrow> ((400, BodyError ''bad_request''), s1) | Some reason \<Rightarrow>
      case resolvable (he_io e 0) i (sv_store s1) of Some r \<Rightarrow> (r, s1) | None \<Rightarrow>
      case discard_quarantine_record (he_io e 1) (he_now e) i ''admin-token'' reason (sv_store s1) of
        (Inl err, st) \<Rightarrow> (action_error err, s1\<lparr>sv_store := st\<rparr>)
      | (Inr r, st) \<Rightarrow> ((200, BodyDiscard (qr_id r) (qr_status r)), s1\<lparr>sv_store := st\<rparr>))"

definition handle_quarantine_route :: "crypto \<Rightarrow> decoders \<Rightarrow> http_env \<Rightarrow> http_request \<Rightarrow> cp_server \<Rightarrow> http_reply \<times> cp_server" where
  "handle_quarantine_route cr de e q s =
     (let subpath = trim_prefix ''/api/v1/telemetry/quarantine'' (hq_path q); method = rq_method (hq_auth q);
          refuse = (\<lambda>status code. ((status, BodyError code), s))
      in if sv_init_failed s then refuse 503 ''service_uninitialized''
         else if subpath = [] \<or> subpath = ''/'' then
           (if method \<noteq> ''GET'' then refuse 405 ''method_not_allowed'' else handle_list_quarantine cr e q s)
         else case split_on (CHR ''/'') (trim_prefix ''/'' subpath) of
           [p] \<Rightarrow>
             (if trim_space p = [] then refuse 400 ''bad_request''
              else if method \<noteq> ''GET'' then refuse 405 ''method_not_allowed''
              else handle_get_quarantine cr de e q (trim_space p) s)
         | [p, action] \<Rightarrow>
             (if trim_space p = [] then refuse 400 ''bad_request''
              else if action = ''replay'' then
                (if method \<noteq> ''POST'' then refuse 405 ''method_not_allowed''
                 else handle_replay_quarantine cr de e q (trim_space p) s)
              else if action = ''discard'' then
                (if method \<noteq> ''POST'' then refuse 405 ''method_not_allowed''
                 else handle_discard_quarantine cr de e q (trim_space p) s)
              else refuse 404 ''not_found'')
         | _ \<Rightarrow> refuse 404 ''not_found'')"

section \<open>Health\<close>

definition handle_healthz :: "http_request \<Rightarrow> cp_server \<Rightarrow> http_reply" where
  "handle_healthz q s =
     (if rq_method (hq_auth q) \<noteq> ''GET'' then (405, BodyError ''method_not_allowed'')
      else if sv_init_failed s then (503, BodyStatus ''unhealthy'') else (200, BodyStatus ''healthy''))"

text \<open>The probe is bounded by a context: \<open>he_probe\<close> is its error where it ended first.\<close>

definition handle_readyz :: "http_env \<Rightarrow> http_request \<Rightarrow> cp_server \<Rightarrow> http_reply" where
  "handle_readyz e q s =
     (if rq_method (hq_auth q) \<noteq> ''GET'' \<and> rq_method (hq_auth q) \<noteq> ''HEAD'' then (405, BodyError ''method_not_allowed'')
      else if sv_init_failed s then (503, BodyReadiness ''not_ready'' ''unhealthy'' ''server_uninitialized'')
      else if sv_down s then (503, BodyReadiness ''not_ready'' ''healthy'' ''server_shutting_down'')
      else if cp_ping (he_probe e) (he_io e 0) (sv_store s) \<noteq> None then (503, BodyReadiness ''not_ready'' ''unhealthy'' ''storage_unavailable'')
      else (200, BodyReadiness ''ready'' ''healthy'' []))"

section \<open>Retention\<close>

text \<open>The days become a duration, an \<open>int64\<close> of nanoseconds, which is taken off the current time.\<close>

definition retention_cutoff :: "gotime \<Rightarrow> int \<Rightarrow> gotime" where
  "retention_cutoff now days = now + to_int64 (- (days * 24 * 3600 * second))"

definition run_quarantine_prune_pass :: "db_io \<Rightarrow> gotime \<Rightarrow> cp_server \<Rightarrow> (cp_err + nat) \<times> cp_server" where
  "run_quarantine_prune_pass io now s =
     (if sv_down s then (Inr 0, s)
      else let days = (if pc_quarantine_days (sv_pruning s) \<le> 0 then 30 else pc_quarantine_days (sv_pruning s))
        in case prune_quarantine_payloads io (retention_cutoff now days) (pc_batch_size (sv_pruning s)) (sv_store s) of
             (res, st) \<Rightarrow> (res, s\<lparr>sv_store := st\<rparr>))"

definition run_prune_pass :: "(nat \<Rightarrow> db_io) \<Rightarrow> gotime \<Rightarrow> gotime \<Rightarrow> cp_server \<Rightarrow> (cp_err + nat) \<times> cp_server" where
  "run_prune_pass io now now' s =
     (if sv_down s then (Inr 0, s)
      else case prune_telemetry_payloads (io 0) (retention_cutoff now (pc_telemetry_days (sv_pruning s)))
             (pc_batch_size (sv_pruning s)) (sv_store s) of
        (Inl err, st) \<Rightarrow> (Inl err, s\<lparr>sv_store := st\<rparr>)
      | (Inr n, st) \<Rightarrow> (case run_quarantine_prune_pass (io 1) now' (s\<lparr>sv_store := st\<rparr>) of
            (Inl err, s2) \<Rightarrow> (Inl err, s2)
          | (Inr m, s2) \<Rightarrow> (Inr (n + m), s2)))"

section \<open>Routes\<close>

definition under :: "string \<Rightarrow> string \<Rightarrow> bool" where
  "under p path \<longleftrightarrow> path = p \<or> has_prefix path (p @ ''/'')"

definition serve :: "crypto \<Rightarrow> decoders \<Rightarrow> http_env \<Rightarrow> http_request \<Rightarrow> cp_server \<Rightarrow> http_reply \<times> cp_server" where
  "serve cr de e q s =
     (let path = hq_path q
      in if path = ''/healthz'' then (handle_healthz q s, s)
         else if path = ''/readyz'' then (handle_readyz e q s, s)
         else if path = ''/metrics'' then ((200, BodyMetrics), s)
         else if path = ''/api/v1/telemetry/batches'' then handle_telemetry_batches cr de e q s
         else if under ''/api/v1/telemetry/quarantine'' path then handle_quarantine_route cr de e q s
         else if path = ''/api/v1/nodes/register'' then handle_node_register cr de e q s
         else if path = ''/api/v1/nodes/heartbeat'' then handle_node_heartbeat cr de e q s
         else if under ''/api/v1/nodes'' path then handle_nodes cr e q s
         else ((404, BodyError ''404 page not found''), s))"

end
