(* ===== verification/Cp_Safety.thy ===== *)
theory Cp_Safety
  imports Cp_Quarantine
begin

text \<open>
  Runs of the control-plane store: a batch is ingested at most once, never while it stands in active
  quarantine; a resolved quarantine record stays resolved; the registry never goes back.
\<close>

section \<open>Operations\<close>

datatype cp_op =
    OpRecord db_io "telemetry_batch option" gotime
  | OpQuarantine db_io gotime "nat list option" "quarantine_record option"
  | OpStatus db_io gotime status_update
  | OpReplay db_io gotime string string string gotime
  | OpPrunePayloads db_io gotime int
  | OpPruneQuarantine db_io gotime int
  | OpRegister db_io "node_record option"
  | OpHeartbeat db_io string node_status int gotime
  | OpActivity db_io string int gotime
  | OpClose

fun cp_exec :: "digest \<Rightarrow> payload_codec \<Rightarrow> cp_op \<Rightarrow> cp_store \<Rightarrow> cp_store" where
  "cp_exec sha codec (OpRecord io b t) s = snd (record_batch io b t s)"
| "cp_exec sha codec (OpQuarantine io now rnd r) s = snd (record_quarantine sha io now rnd r s)"
| "cp_exec sha codec (OpStatus io now u) s = snd (update_quarantine_status io now u s)"
| "cp_exec sha codec (OpReplay io now i reason by_whom t) s = snd (replay_quarantine_record codec io now i reason by_whom t s)"
| "cp_exec sha codec (OpPrunePayloads io cutoff n) s = snd (prune_telemetry_payloads io cutoff n s)"
| "cp_exec sha codec (OpPruneQuarantine io cutoff n) s = snd (prune_quarantine_payloads io cutoff n s)"
| "cp_exec sha codec (OpRegister io r) s = snd (register_node io r s)"
| "cp_exec sha codec (OpHeartbeat io node st sq t) s = snd (update_node_heartbeat io node st sq t s)"
| "cp_exec sha codec (OpActivity io node sq t) s = snd (update_node_telemetry_activity io node sq t s)"
| "cp_exec sha codec OpClose s = cp_close s"

text \<open>The batch an operation reports as newly ingested.\<close>

fun newly_ingested :: "digest \<Rightarrow> payload_codec \<Rightarrow> cp_op \<Rightarrow> cp_store \<Rightarrow> (string \<times> string) option" where
  "newly_ingested sha codec (OpRecord io (Some b) t) s =
     (if fst (record_batch io (Some b) t s) = Inr True then Some (tb_node_id b, tb_batch_id b) else None)"
| "newly_ingested sha codec (OpReplay io now i reason by_whom t) s =
     (case fst (replay_quarantine_record codec io now i reason by_whom t s) of
        Inr r \<Rightarrow> if rp_already_ingested r then None else Some (tb_node_id (rp_batch r), tb_batch_id (rp_batch r))
      | Inl _ \<Rightarrow> None)"
| "newly_ingested sha codec _ s = None"

definition cp_run :: "digest \<Rightarrow> payload_codec \<Rightarrow> cp_op list \<Rightarrow> cp_store \<Rightarrow> cp_store" where
  "cp_run sha codec ops s = fold (cp_exec sha codec) ops s"

section \<open>What each operation does to the tables\<close>

definition meta_key :: "batch_meta \<Rightarrow> string \<times> string" where
  "meta_key m = (bm_node_id m, bm_batch_id m)"

lemma is_ingested_iff: "is_ingested n b s \<longleftrightarrow> (n, b) \<in> set (map meta_key (cp_ingested s))"
  by (auto simp: is_ingested_def list_ex_iff meta_key_def)

lemma meta_of_key [simp]: "meta_key (meta_of b t) = (tb_node_id b, tb_batch_id b)"
  by (simp add: meta_key_def meta_of_def)

text \<open>An active record of a batch.\<close>

definition stands :: "string \<Rightarrow> string \<Rightarrow> quarantine_record \<Rightarrow> bool" where
  "stands n b q \<longleftrightarrow> qr_status q = QQuarantined \<and> qr_node_id q = n \<and> qr_batch_id q = b"

definition cp_inv :: "cp_store \<Rightarrow> bool" where
  "cp_inv s \<longleftrightarrow> distinct (map meta_key (cp_ingested s)) \<and> distinct (map qr_id (cp_quarantine s)) \<and>
     distinct (map qr_dedup_key (cp_quarantine s)) \<and>
     (\<forall>q \<in> set (cp_quarantine s). qr_status q = QQuarantined \<and> qr_node_id q \<noteq> [] \<and> qr_batch_id q \<noteq> [] \<longrightarrow>
        \<not> is_ingested (qr_node_id q) (qr_batch_id q) s)"

lemma record_batch_tx_cases:
  obtains (same) "snd (record_batch_tx b t x s) = s" "fst (record_batch_tx b t x s) \<noteq> Inr True"
  | (inserted) "fst (record_batch_tx b t x s) = Inr True"
      "snd (record_batch_tx b t x s) = s\<lparr>cp_ingested := cp_ingested s @ [meta_of b t],
          cp_payloads := cp_payloads s @ [\<lparr>ir_batch = b, ir_ingested_at = t\<rparr>],
          cp_nodes := update_where (\<lambda>r. nd_node_id r = tb_node_id b) (advance_activity t (tb_sequence_number b)) (cp_nodes s)\<rparr>"
      "\<not> is_ingested (tb_node_id b) (tb_batch_id b) s" "\<not> list_ex (blocking b x) (cp_quarantine s)"
proof -
  have ids: "telemetry_batch_validate b = None \<Longrightarrow> tb_node_id b \<noteq> [] \<and> tb_batch_id b \<noteq> []"
    by (auto simp: telemetry_batch_validate_def split: if_splits)
  show ?thesis
  proof (cases "telemetry_batch_validate b \<noteq> None \<or> is_zero t \<or> list_ex (blocking b x) (cp_quarantine s) \<or>
      is_ingested (tb_node_id b) (tb_batch_id b) s")
    case True
    then show ?thesis using same ids by (auto simp: record_batch_tx_def)
  next
    case False
    then have "record_batch_tx b t x s = (Inr True, s\<lparr>cp_ingested := cp_ingested s @ [meta_of b t],
          cp_payloads := cp_payloads s @ [\<lparr>ir_batch = b, ir_ingested_at = t\<rparr>],
          cp_nodes := update_where (\<lambda>r. nd_node_id r = tb_node_id b) (advance_activity t (tb_sequence_number b)) (cp_nodes s)\<rparr>)"
      by (simp add: record_batch_tx_def)
    with False show ?thesis using inserted by simp
  qed
qed

lemma record_batch_cases:
  obtains (same) "snd (record_batch io bo t s) = s" "fst (record_batch io bo t s) \<noteq> Inr True"
  | (inserted) b where "bo = Some b" "fst (record_batch io bo t s) = Inr True"
      "record_batch io bo t s = record_batch_tx b t [] s"
proof (cases bo)
  case None
  then show ?thesis using same by (simp add: record_batch_def)
next
  case (Some b)
  show ?thesis
  proof (cases "telemetry_batch_validate b \<noteq> None \<or> is_zero t \<or> cp_guard (cp_closed s) io \<noteq> None")
    case True
    then show ?thesis using same Some by (auto simp: record_batch_def)
  next
    case False
    then have "record_batch io bo t s = record_batch_tx b t [] s" using Some by (simp add: record_batch_def)
    then show ?thesis using same inserted Some
      by (cases b t "[] :: string" s rule: record_batch_tx_cases) auto
  qed
qed

lemma record_quarantine_cases:
  obtains (same) "snd (record_quarantine sha io now rnd ro s) = s"
  | (repeated) raw rec row where "ro = Some raw" "rec = normalise_quarantine sha now raw"
      "find (\<lambda>q. qr_dedup_key q = qr_dedup_key rec) (cp_quarantine s) = Some row" "qr_payload row = qr_payload rec"
      "snd (record_quarantine sha io now rnd ro s) =
         s\<lparr>cp_quarantine := update_where (\<lambda>q. qr_id q = qr_id row) (repeat_failure raw rec) (cp_quarantine s)\<rparr>"
      "qr_node_id rec \<noteq> [] \<and> qr_batch_id rec \<noteq> [] \<longrightarrow> \<not> is_ingested (qr_node_id rec) (qr_batch_id rec) s"
  | (fresh) raw rec i where "ro = Some raw" "rec = normalise_quarantine sha now raw"
      "find (\<lambda>q. qr_dedup_key q = qr_dedup_key rec) (cp_quarantine s) = None" "find_quarantine i (cp_quarantine s) = None"
      "snd (record_quarantine sha io now rnd ro s) = s\<lparr>cp_quarantine := cp_quarantine s @ [rec\<lparr>qr_id := i\<rparr>]\<rparr>"
      "qr_node_id rec \<noteq> [] \<and> qr_batch_id rec \<noteq> [] \<longrightarrow> \<not> is_ingested (qr_node_id rec) (qr_batch_id rec) s"
proof (cases ro)
  case None
  then show ?thesis using same by (simp add: record_quarantine_def)
next
  case (Some raw)
  define rec where "rec = normalise_quarantine sha now raw"
  show ?thesis
  proof (cases "quarantine_validate raw \<noteq> None \<or> cp_closed s \<or> max_dedup_key < length (qr_dedup_key rec) \<or> io \<noteq> IoOk \<or>
      (qr_node_id rec \<noteq> [] \<and> qr_batch_id rec \<noteq> [] \<and> is_ingested (qr_node_id rec) (qr_batch_id rec) s)")
    case True
    then have "snd (record_quarantine sha io now rnd ro s) = s"
      unfolding Some record_quarantine_def Let_def rec_def by (auto split: option.split)
    then show ?thesis by (rule same)
  next
    case False
    then have open_: "quarantine_validate raw = None" "\<not> cp_closed s" "\<not> max_dedup_key < length (qr_dedup_key rec)" "io = IoOk"
      "\<not> (qr_node_id rec \<noteq> [] \<and> qr_batch_id rec \<noteq> [] \<and> is_ingested (qr_node_id rec) (qr_batch_id rec) s)" by auto
    have core: "record_quarantine sha io now rnd ro s =
        (case find (\<lambda>q. qr_dedup_key q = qr_dedup_key rec) (cp_quarantine s) of
          Some row \<Rightarrow>
            if qr_payload row \<noteq> qr_payload rec
            then (Inl (CpPayloadConflict (qr_dedup_key rec) (length (qr_payload row)) (length (qr_payload rec))), s)
            else (Inr (repeated_answer raw rec row),
                  s\<lparr>cp_quarantine := update_where (\<lambda>q. qr_id q = qr_id row) (repeat_failure raw rec) (cp_quarantine s)\<rparr>)
        | None \<Rightarrow>
            (case (if qr_id rec = [] then generate_quarantine_id rnd else Some (qr_id rec)) of
               None \<Rightarrow> (Inl CpNoQuarantineId, s)
             | Some i \<Rightarrow>
                 if find_quarantine i (cp_quarantine s) \<noteq> None then (Inl (CpDb IoFault), s)
                 else (Inr (rec\<lparr>qr_id := i\<rparr>), s\<lparr>cp_quarantine := cp_quarantine s @ [rec\<lparr>qr_id := i\<rparr>]\<rparr>)))"
      by (simp only: record_quarantine_def Some option.case Let_def open_ if_False simp_thms flip: rec_def)
    show ?thesis
    proof (cases "find (\<lambda>q. qr_dedup_key q = qr_dedup_key rec) (cp_quarantine s)")
      case row: (Some row)
      show ?thesis
      proof (cases "qr_payload row = qr_payload rec")
        case True
        show ?thesis
          by (rule repeated [OF Some rec_def row True]) (use True row open_(5) in \<open>simp add: core, blast\<close>)
      next
        case False
        then show ?thesis by (intro same) (simp add: core row)
      qed
    next
      case none: None
      define j where "j = (if qr_id rec = [] then generate_quarantine_id rnd else Some (qr_id rec))"
      show ?thesis
      proof (cases "j = None \<or> find_quarantine (the j) (cp_quarantine s) \<noteq> None")
        case True
        then have "snd (record_quarantine sha io now rnd ro s) = s"
          unfolding core none j_def [symmetric] by (auto split: option.split)
        then show ?thesis by (rule same)
      next
        case False
        then obtain i where i: "j = Some i" "find_quarantine i (cp_quarantine s) = None" by auto
        have eq: "snd (record_quarantine sha io now rnd ro s) = s\<lparr>cp_quarantine := cp_quarantine s @ [rec\<lparr>qr_id := i\<rparr>]\<rparr>"
          unfolding core none j_def [symmetric] by (simp add: i)
        show ?thesis by (rule fresh [OF Some rec_def none i(2) eq]) (use open_(5) in blast)
      qed
    qed
  qed
qed

lemma update_quarantine_status_cases:
  obtains (same) "snd (update_quarantine_status io now u s) = s"
  | (resolved) r t where "find_quarantine (su_id u) (cp_quarantine s) = Some r" "q_can (qr_status r) (su_new u)"
      "snd (update_quarantine_status io now u s) =
         s\<lparr>cp_quarantine := update_where (\<lambda>q. qr_id q = su_id u \<and> qr_status q = qr_status r)
             (resolve (su_new u) t (su_reason u) (su_by u)) (cp_quarantine s)\<rparr>"
proof (cases "snd (update_quarantine_status io now u s) = s")
  case True
  then show ?thesis by (rule same)
next
  case False
  then obtain r where r: "find_quarantine (su_id u) (cp_quarantine s) = Some r" "q_can (qr_status r) (su_new u)"
    by (auto simp: update_quarantine_status_def split: if_splits option.splits)
  have "snd (update_quarantine_status io now u s) =
         s\<lparr>cp_quarantine := update_where (\<lambda>q. qr_id q = su_id u \<and> qr_status q = qr_status r)
             (resolve (su_new u) (if is_zero (su_timestamp u) then now else su_timestamp u) (su_reason u) (su_by u)) (cp_quarantine s)\<rparr>"
    using False r unfolding update_quarantine_status_def Let_def by (auto split: if_splits option.splits)
  with r show ?thesis by (rule resolved)
qed

text \<open>A replay resolves its record, and ingests the batch unless it was ingested before.\<close>

lemma replay_cases:
  obtains (same) "snd (replay_quarantine_record codec io now i reason by_whom stamp s) = s"
      "\<And>r. fst (replay_quarantine_record codec io now i reason by_whom stamp s) \<noteq> Inr r"
  | (already) r b t why where "find_quarantine i (cp_quarantine s) = Some r"
      "is_ingested (tb_node_id (b :: telemetry_batch)) (tb_batch_id b) s"
      "snd (replay_quarantine_record codec io now i reason by_whom stamp s) =
         s\<lparr>cp_quarantine := update_where (\<lambda>q. qr_id q = i \<and> qr_status q = QQuarantined)
             (resolve QReplayed t why by_whom) (cp_quarantine s)\<rparr>"
      "\<And>x. fst (replay_quarantine_record codec io now i reason by_whom stamp s) = Inr x \<Longrightarrow> rp_already_ingested x"
  | (replayed) r b t why s1 x where "find_quarantine i (cp_quarantine s) = Some r"
      "tb_node_id b = qr_node_id r" "tb_batch_id b = qr_batch_id r"
      "record_batch_tx b t i s = (Inr True, s1)"
      "snd (replay_quarantine_record codec io now i reason by_whom stamp s) =
         s1\<lparr>cp_quarantine := update_where (\<lambda>q. qr_id q = i \<and> qr_status q = QQuarantined)
             (resolve QReplayed t why by_whom) (cp_quarantine s1)\<rparr>"
      "fst (replay_quarantine_record codec io now i reason by_whom stamp s) = Inr x"
      "\<not> rp_already_ingested x" "rp_batch x = b"
proof -
  let ?out = "replay_quarantine_record codec io now i reason by_whom stamp s"
  show ?thesis
  proof (cases "\<exists>r b. \<not> blank i \<and> \<not> max_status_reason < length reason \<and> cp_guard (cp_closed s) io = None \<and>
      find_quarantine i (cp_quarantine s) = Some r \<and> qr_status r = QQuarantined \<and>
      reconstruct_batch codec (qr_payload r) = Some b \<and> telemetry_batch_validate b = None \<and>
      tb_node_id b = qr_node_id r \<and> tb_batch_id b = qr_batch_id r")
    case False
    then have "snd ?out = s \<and> (\<forall>x. fst ?out \<noteq> Inr x)"
      unfolding replay_quarantine_record_def by (auto split: option.split)
    then show ?thesis using same by blast
  next
    case True
    then obtain r b where r: "\<not> blank i" "\<not> max_status_reason < length reason" "cp_guard (cp_closed s) io = None"
      "find_quarantine i (cp_quarantine s) = Some r" "qr_status r = QQuarantined"
      "reconstruct_batch codec (qr_payload r) = Some b" "telemetry_batch_validate b = None"
      "tb_node_id b = qr_node_id r" "tb_batch_id b = qr_batch_id r" by blast
    define t where "t = (if is_zero stamp then now else stamp)"
    define why where "why = (if trim_space reason = [] then ''operator replay'' else trim_space reason)"
    define done_with where "done_with s1 = s1\<lparr>cp_quarantine := update_where (\<lambda>q. qr_id q = i \<and> qr_status q = QQuarantined)
        (resolve QReplayed t why by_whom) (cp_quarantine s1)\<rparr>" for s1 :: cp_store
    have read_back: "\<exists>r'. get_quarantine_record io i (done_with s1) = Inr r'"
      if "cp_quarantine s1 = cp_quarantine s" "cp_closed s1 = cp_closed s" for s1
      using r that by (simp add: done_with_def get_quarantine_record_def find_quarantine_def find_key_update_where resolve_def)
    have core: "?out = (case (if is_ingested (tb_node_id b) (tb_batch_id b) s then (Inr False, s) else record_batch_tx b t i s) of
             (Inl e, _) \<Rightarrow> (Inl e, s)
           | (Inr inserted, s1) \<Rightarrow>
               (case get_quarantine_record io i (done_with s1) of
                     Inl e \<Rightarrow> (Inl e, done_with s1)
                   | Inr r' \<Rightarrow> (Inr \<lparr>rp_record = r', rp_batch = b, rp_already_ingested = (\<not> inserted)\<rparr>, done_with s1)))"
      unfolding replay_quarantine_record_def Let_def t_def [symmetric] why_def [symmetric] done_with_def [symmetric]
      using r by simp
    show ?thesis
    proof (cases "is_ingested (tb_node_id b) (tb_batch_id b) s")
      case True
      obtain r' where "get_quarantine_record io i (done_with s) = Inr r'" using read_back by blast
      then have "?out = (Inr \<lparr>rp_record = r', rp_batch = b, rp_already_ingested = True\<rparr>, done_with s)"
        by (simp add: core True)
      then show ?thesis using already [OF r(4) True] by (simp add: done_with_def)
    next
      case False
      show ?thesis
      proof (cases b t i s rule: record_batch_tx_cases)
        case same
        then have "\<exists>e. fst (record_batch_tx b t i s) = Inl e"
          using False by (auto simp: record_batch_tx_def split: if_splits)
        then have "\<exists>e. ?out = (Inl e, s)" using False same(1) by (auto simp: core split: prod.split)
        then show ?thesis using that(1) by auto
      next
        case inserted
        define s1 where "s1 = snd (record_batch_tx b t i s)"
        have tx: "record_batch_tx b t i s = (Inr True, s1)" by (simp add: s1_def prod_eq_iff inserted(1))
        have "cp_quarantine s1 = cp_quarantine s" "cp_closed s1 = cp_closed s" by (simp_all add: s1_def inserted(2))
        then obtain r' where "get_quarantine_record io i (done_with s1) = Inr r'" using read_back by blast
        then have "?out = (Inr \<lparr>rp_record = r', rp_batch = b, rp_already_ingested = False\<rparr>, done_with s1)"
          by (simp add: core tx False)
        then show ?thesis using replayed [OF r(4,8,9) tx] by (simp add: done_with_def)
      qed
    qed
  qed
qed

section \<open>Ingestion\<close>

lemma meta_update_node [simp]: "is_ingested n b (s\<lparr>cp_nodes := x\<rparr>) = is_ingested n b s"
  "is_ingested n b (s\<lparr>cp_quarantine := y\<rparr>) = is_ingested n b s" "is_ingested n b (s\<lparr>cp_payloads := z\<rparr>) = is_ingested n b s"
  by (simp_all add: is_ingested_def)

lemma node_ops_keep [simp]:
  "cp_ingested (snd (register_node io r s)) = cp_ingested s" "cp_quarantine (snd (register_node io r s)) = cp_quarantine s"
  "cp_ingested (snd (update_node_heartbeat io node st sq t s)) = cp_ingested s"
  "cp_quarantine (snd (update_node_heartbeat io node st sq t s)) = cp_quarantine s"
  "cp_ingested (snd (update_node_telemetry_activity io node sq t s)) = cp_ingested s"
  "cp_quarantine (snd (update_node_telemetry_activity io node sq t s)) = cp_quarantine s"
  by (simp_all add: register_node_def update_node_heartbeat_def update_node_telemetry_activity_def split: option.split)

lemma prune_ops_keep [simp]:
  "cp_ingested (snd (prune_telemetry_payloads io c n s)) = cp_ingested s"
  "cp_quarantine (snd (prune_telemetry_payloads io c n s)) = cp_quarantine s"
  "cp_nodes (snd (prune_telemetry_payloads io c n s)) = cp_nodes s"
  "cp_ingested (snd (prune_quarantine_payloads io c n s)) = cp_ingested s"
  "cp_nodes (snd (prune_quarantine_payloads io c n s)) = cp_nodes s"
  by (simp_all add: prune_telemetry_payloads_def prune_quarantine_payloads_def Let_def split: option.split)

lemma quarantine_ops_keep [simp]:
  "cp_ingested (snd (record_quarantine sha io now rnd ro s)) = cp_ingested s"
  "cp_nodes (snd (record_quarantine sha io now rnd ro s)) = cp_nodes s"
  by (cases sha io now rnd ro s rule: record_quarantine_cases; simp)+

lemma status_ops_keep [simp]:
  "cp_ingested (snd (update_quarantine_status io now u s)) = cp_ingested s"
  "cp_nodes (snd (update_quarantine_status io now u s)) = cp_nodes s"
  by (cases io now u s rule: update_quarantine_status_cases; simp)+

lemma close_keeps [simp]: "cp_ingested (cp_close s) = cp_ingested s" "cp_quarantine (cp_close s) = cp_quarantine s"
  "cp_nodes (cp_close s) = cp_nodes s"
  by (simp_all add: cp_close_def)

lemma is_ingested_cong: "cp_ingested s = cp_ingested s' \<Longrightarrow> is_ingested n b s = is_ingested n b s'"
  by (simp add: is_ingested_def)

fun touches_registry :: "cp_op \<Rightarrow> bool" where
  "touches_registry (OpRegister io r) \<longleftrightarrow> True"
| "touches_registry (OpHeartbeat io node st sq t) \<longleftrightarrow> True"
| "touches_registry (OpActivity io node sq t) \<longleftrightarrow> True"
| "touches_registry _ \<longleftrightarrow> False"

text \<open>How an operation can ingest: the new row, and what stood in quarantine.\<close>

lemma ingest_cases:
  obtains (same) "newly_ingested sha codec op s = None" "cp_ingested (cp_exec sha codec op s) = cp_ingested s"
      "\<not> touches_registry op \<Longrightarrow> cp_nodes (cp_exec sha codec op s) = cp_nodes s"
  | (ingested) b t x where "newly_ingested sha codec op s = Some (tb_node_id b, tb_batch_id b)"
      "cp_ingested (cp_exec sha codec op s) = cp_ingested s @ [meta_of b t]"
      "cp_nodes (cp_exec sha codec op s) =
         update_where (\<lambda>r. nd_node_id r = tb_node_id b) (advance_activity t (tb_sequence_number b)) (cp_nodes s)"
      "\<not> is_ingested (tb_node_id b) (tb_batch_id b) s" "\<not> list_ex (blocking b x) (cp_quarantine s)"
      "cp_quarantine (cp_exec sha codec op s) = cp_quarantine s \<and> x = [] \<or>
       (\<exists>t' why w. cp_quarantine (cp_exec sha codec op s) =
          update_where (\<lambda>q. qr_id q = x \<and> qr_status q = QQuarantined) (resolve QReplayed t' why w) (cp_quarantine s))"
proof (cases op)
  case (OpRecord io bo t)
  show ?thesis
  proof (cases io bo t s rule: record_batch_cases)
    case same
    then show ?thesis using that(1) OpRecord by (cases bo) auto
  next
    case (inserted b)
    note eq = this
    show ?thesis
    proof (cases b t "[] :: string" s rule: record_batch_tx_cases)
      case same
      with eq show ?thesis by simp
    next
      case inserted
      show ?thesis
        by (rule that(2) [of b t "[]"]) (use eq inserted OpRecord in simp_all)
    qed
  qed
next
  case (OpReplay io now i reason w stamp)
  show ?thesis
  proof (cases codec io now i reason w stamp s rule: replay_cases)
    case same
    then show ?thesis using that(1) OpReplay by (auto split: sum.split)
  next
    case (already r b t why)
    then show ?thesis using that(1) OpReplay by (auto split: sum.split)
  next
    case (replayed r b t why s1 x)
    note eq = this
    show ?thesis
    proof (cases b t i s rule: record_batch_tx_cases)
      case same
      with eq show ?thesis by simp
    next
      case inserted
      have s1: "s1 = snd (record_batch_tx b t i s)" by (simp add: eq(4))
      have "cp_quarantine s1 = cp_quarantine s" by (simp add: s1 inserted(2))
      then have q: "cp_quarantine (cp_exec sha codec op s) =
          update_where (\<lambda>q. qr_id q = i \<and> qr_status q = QQuarantined) (resolve QReplayed t why w) (cp_quarantine s)"
        using eq(5) OpReplay by simp
      show ?thesis
        by (rule that(2) [of b t i]) (use eq inserted OpReplay s1 q in auto)
    qed
  qed
qed (use that(1) in auto)

lemma ingest_step:
  "of_bool (newly_ingested sha codec op s = Some (n, b)) + of_bool (is_ingested n b s) =
   (of_bool (is_ingested n b (cp_exec sha codec op s)) :: nat)"
  by (cases sha codec op s rule: ingest_cases) (auto simp: is_ingested_iff)

text \<open>The number of times a run reports the batch as newly ingested.\<close>

fun ingestions :: "digest \<Rightarrow> payload_codec \<Rightarrow> string \<Rightarrow> string \<Rightarrow> cp_op list \<Rightarrow> cp_store \<Rightarrow> nat" where
  "ingestions sha codec n b [] s = 0"
| "ingestions sha codec n b (op # ops) s =
     of_bool (newly_ingested sha codec op s = Some (n, b)) + ingestions sha codec n b ops (cp_exec sha codec op s)"

lemma ingestions_count:
  "ingestions sha codec n b ops s + of_bool (is_ingested n b s) = of_bool (is_ingested n b (cp_run sha codec ops s))"
proof (induction ops arbitrary: s)
  case Nil
  then show ?case by (simp add: cp_run_def)
next
  case (Cons op ops)
  show ?case using Cons [of "cp_exec sha codec op s"] ingest_step [of sha codec op s n b] by (simp add: cp_run_def)
qed

text \<open>What is ingested does not stand in quarantine afterwards.\<close>

lemma ingestion_clears_quarantine:
  assumes "newly_ingested sha codec op s = Some (n, b)"
  shows "filter (stands n b) (cp_quarantine (cp_exec sha codec op s)) = []"
  using assms
proof (cases sha codec op s rule: ingest_cases)
  case same
  with assms show ?thesis by simp
next
  case (ingested b' t x)
  with assms have ids: "tb_node_id b' = n" "tb_batch_id b' = b" by auto
  have clear: "stands n b q \<Longrightarrow> x \<noteq> [] \<and> qr_id q = x" if "q \<in> set (cp_quarantine s)" for q
    using ingested(5) that ids by (auto simp: stands_def blocking_def list_ex_iff)
  from ingested(6) show ?thesis
  proof
    assume "cp_quarantine (cp_exec sha codec op s) = cp_quarantine s \<and> x = []"
    then show ?thesis using clear by (auto simp: filter_empty_conv)
  next
    assume "\<exists>t' why w. cp_quarantine (cp_exec sha codec op s) =
          update_where (\<lambda>q. qr_id q = x \<and> qr_status q = QQuarantined) (resolve QReplayed t' why w) (cp_quarantine s)"
    then obtain t' why w where q: "cp_quarantine (cp_exec sha codec op s) =
          update_where (\<lambda>q. qr_id q = x \<and> qr_status q = QQuarantined) (resolve QReplayed t' why w) (cp_quarantine s)"
      by blast
    have "\<not> stands n b (if qr_id q = x \<and> qr_status q = QQuarantined then resolve QReplayed t' why w q else q)"
      if "q \<in> set (cp_quarantine s)" for q
    proof (cases "stands n b q")
      case True
      then show ?thesis using clear [OF that] by (simp add: stands_def resolve_def)
    next
      case False
      then show ?thesis by (simp add: stands_def resolve_def)
    qed
    then show ?thesis unfolding q filter_empty_conv update_where_def set_map by blast
  qed
qed

section \<open>Resolution\<close>

definition same_resolution :: "quarantine_record \<Rightarrow> quarantine_record \<Rightarrow> bool" where
  "same_resolution r r' \<longleftrightarrow> qr_status r' = qr_status r \<and> qr_status_at r' = qr_status_at r \<and>
     qr_status_reason r' = qr_status_reason r \<and> qr_status_by r' = qr_status_by r \<and>
     qr_node_id r' = qr_node_id r \<and> qr_batch_id r' = qr_batch_id r \<and> qr_first_at r' = qr_first_at r"

lemma find_app: "find p (xs @ ys) = (case find p xs of None \<Rightarrow> find p ys | Some x \<Rightarrow> Some x)"
  by (induction xs) auto

fun records_failure :: "cp_op \<Rightarrow> bool" where
  "records_failure (OpQuarantine io now rnd ro) \<longleftrightarrow> True"
| "records_failure _ \<longleftrightarrow> False"

text \<open>What an operation makes of the table: a new row at the end, or rows rewritten in place.\<close>

lemma quarantine_step:
  obtains (appended) q where "cp_quarantine (cp_exec sha codec op s) = cp_quarantine s @ [q]"
      "find_quarantine (qr_id q) (cp_quarantine s) = None" "records_failure op"
  | (rewritten) p f where "cp_quarantine (cp_exec sha codec op s) = update_where p f (cp_quarantine s)"
      "\<And>q. qr_id (f q) = qr_id q" "\<And>q. q_terminal (qr_status q) \<Longrightarrow> p q \<Longrightarrow> same_resolution q (f q)"
      "\<And>q n b. \<not> records_failure op \<Longrightarrow> p q \<Longrightarrow> stands n b (f q) \<Longrightarrow> stands n b q"
proof -
  have keep: thesis if "cp_quarantine (cp_exec sha codec op s) = cp_quarantine s"
    using that rewritten [of "\<lambda>_. False" "\<lambda>q. q"] by simp
  show ?thesis
  proof (cases op)
    case (OpQuarantine io now rnd ro)
    show ?thesis
    proof (cases sha io now rnd ro s rule: record_quarantine_cases)
      case same
      then show ?thesis using keep OpQuarantine by simp
    next
      case (repeated raw rec row)
      show ?thesis
        by (rule rewritten [of "\<lambda>q. qr_id q = qr_id row" "repeat_failure raw rec"])
          (use repeated(5) OpQuarantine in \<open>auto simp: repeat_failure_def Let_def same_resolution_def\<close>)
    next
      case (fresh raw rec i)
      then show ?thesis using appended [of "rec\<lparr>qr_id := i\<rparr>"] OpQuarantine by simp
    qed
  next
    case (OpStatus io now u)
    show ?thesis
    proof (cases io now u s rule: update_quarantine_status_cases)
      case same
      then show ?thesis using keep OpStatus by simp
    next
      case (resolved r t)
      show ?thesis
        by (rule rewritten [of "\<lambda>q. qr_id q = su_id u \<and> qr_status q = qr_status r"
              "resolve (su_new u) t (su_reason u) (su_by u)"])
          (use resolved OpStatus in \<open>auto simp: resolve_def q_can_def stands_def\<close>)
    qed
  next
    case (OpReplay io now i reason w stamp)
    show ?thesis
    proof (cases codec io now i reason w stamp s rule: replay_cases)
      case same
      then show ?thesis using keep OpReplay by simp
    next
      case (already r b t why)
      show ?thesis
        by (rule rewritten [of "\<lambda>q. qr_id q = i \<and> qr_status q = QQuarantined" "resolve QReplayed t why w"])
          (use already OpReplay in \<open>auto simp: resolve_def q_terminal_def stands_def\<close>)
    next
      case (replayed r b t why s1 x)
      have "cp_quarantine s1 = cp_quarantine s"
        using replayed(4) by (cases b t i s rule: record_batch_tx_cases) auto
      then show ?thesis
        by (intro rewritten [of "\<lambda>q. qr_id q = i \<and> qr_status q = QQuarantined" "resolve QReplayed t why w"])
          (use replayed OpReplay in \<open>auto simp: resolve_def q_terminal_def stands_def\<close>)
    qed
  next
    case (OpRecord io bo t)
    then show ?thesis using keep
      by (cases sha codec op s rule: ingest_cases; cases io bo t s rule: record_batch_cases;
          simp add: record_batch_tx_def)
  next
    case (OpPruneQuarantine io cutoff n)
    show ?thesis
    proof (cases "is_zero cutoff \<or> cp_guard (cp_closed s) io \<noteq> None")
      case True
      then show ?thesis using keep OpPruneQuarantine by (auto simp: prune_quarantine_payloads_def)
    next
      case False
      then have "\<exists>p. cp_quarantine (cp_exec sha codec op s) = update_where p (\<lambda>r. r\<lparr>qr_payload := []\<rparr>) (cp_quarantine s)"
        unfolding OpPruneQuarantine cp_exec.simps prune_quarantine_payloads_def Let_def by auto
      then obtain p where "cp_quarantine (cp_exec sha codec op s) = update_where p (\<lambda>r. r\<lparr>qr_payload := []\<rparr>) (cp_quarantine s)"
        by blast
      then show ?thesis
        by (rule rewritten) (simp_all add: same_resolution_def stands_def)
    qed
  qed (use keep in simp_all)
qed

lemma same_resolution_refl: "same_resolution r r"
  by (simp add: same_resolution_def)

lemma same_resolution_trans: "same_resolution a b \<Longrightarrow> same_resolution b c \<Longrightarrow> same_resolution a c"
  by (simp add: same_resolution_def)

lemma resolution_step:
  assumes "find_quarantine i (cp_quarantine s) = Some r" "q_terminal (qr_status r)"
  shows "\<exists>r'. find_quarantine i (cp_quarantine (cp_exec sha codec op s)) = Some r' \<and> same_resolution r r'"
proof (cases rule: quarantine_step [where sha = sha and codec = codec and op = op and s = s])
  case (appended q)
  then show ?thesis using assms same_resolution_refl by (auto simp: find_quarantine_def find_app)
next
  case (rewritten p f)
  have "find_quarantine i (cp_quarantine (cp_exec sha codec op s)) = Some (if p r then f r else r)"
    using assms(1) by (simp add: rewritten(1) find_quarantine_def find_key_update_where [where g = qr_id, OF rewritten(2)])
  then show ?thesis using rewritten(3) [OF assms(2)] same_resolution_refl by auto
qed

lemma resolution_run:
  assumes "find_quarantine i (cp_quarantine s) = Some r" "q_terminal (qr_status r)"
  shows "\<exists>r'. find_quarantine i (cp_quarantine (cp_run sha codec ops s)) = Some r' \<and> same_resolution r r'"
  using assms
proof (induction ops arbitrary: s r)
  case Nil
  then show ?case by (auto simp: cp_run_def same_resolution_refl)
next
  case (Cons op ops)
  obtain r' where r': "find_quarantine i (cp_quarantine (cp_exec sha codec op s)) = Some r'" "same_resolution r r'"
    using resolution_step [OF Cons.prems] by blast
  then have "q_terminal (qr_status r')" using Cons.prems by (simp add: same_resolution_def)
  then show ?case using Cons.IH [OF r'(1)] same_resolution_trans [OF r'(2)] by (auto simp: cp_run_def)
qed

section \<open>Ingested and in quarantine\<close>

text \<open>
  A request of \<open>RecordQuarantine\<close> names its batch completely or not at all.
\<close>

fun names_batch :: "cp_op \<Rightarrow> bool" where
  "names_batch (OpQuarantine io now rnd (Some r)) \<longleftrightarrow> (qr_node_id r = [] \<longleftrightarrow> qr_batch_id r = [])"
| "names_batch _ \<longleftrightarrow> True"

definition ingested_and_held :: "cp_store \<Rightarrow> (string \<times> string) list" where
  "ingested_and_held s = filter (\<lambda>(n, b). n \<noteq> [] \<and> b \<noteq> [] \<and> is_ingested n b s)
     (map (\<lambda>q. (qr_node_id q, qr_batch_id q)) (filter (\<lambda>q. qr_status q = QQuarantined) (cp_quarantine s)))"

lemma ingested_and_held_Nil:
  "ingested_and_held s = [] \<longleftrightarrow> (\<forall>q \<in> set (cp_quarantine s). \<forall>n b. stands n b q \<longrightarrow> n \<noteq> [] \<longrightarrow> b \<noteq> [] \<longrightarrow> \<not> is_ingested n b s)"
  by (auto simp: ingested_and_held_def filter_empty_conv stands_def)

lemma normalise_ids [simp]: "qr_node_id (normalise_quarantine sha now r) = qr_node_id r"
  "qr_batch_id (normalise_quarantine sha now r) = qr_batch_id r"
  by (simp_all add: normalise_quarantine_def Let_def)

lemma repeat_failure_stands:
  assumes "stands n b (repeat_failure raw rec row)"
  shows "if qr_node_id rec = [] \<and> qr_batch_id rec = [] then stands n b row
    else qr_node_id rec \<noteq> [] \<and> qr_batch_id rec \<noteq> [] \<longrightarrow> n = qr_node_id rec \<and> b = qr_batch_id rec"
  using assms by (auto simp: stands_def repeat_failure_def Let_def q_terminal_def or_else_def split: if_splits)

lemma held_step_quarantine:
  assumes "ingested_and_held s = []" and "names_batch (OpQuarantine io now rnd ro)"
  shows "ingested_and_held (snd (record_quarantine sha io now rnd ro s)) = []"
proof (cases sha io now rnd ro s rule: record_quarantine_cases)
  case same
  with assms show ?thesis by simp
next
  case (repeated raw rec row)
  have ids: "qr_node_id rec = [] \<longleftrightarrow> qr_batch_id rec = []" using assms(2) repeated(1,2) by simp
  show ?thesis unfolding ingested_and_held_Nil
  proof (intro ballI allI impI)
    fix q n b
    assume q: "q \<in> set (cp_quarantine (snd (record_quarantine sha io now rnd ro s)))" "stands n b q" "n \<noteq> []" "b \<noteq> []"
    then obtain q0 where q0: "q0 \<in> set (cp_quarantine s)" "q = q0 \<or> q = repeat_failure raw rec q0"
      by (auto simp: repeated(5) update_where_def split: if_splits)
    have "\<not> is_ingested n b s"
    proof (cases "stands n b q0")
      case True
      then show ?thesis using assms(1) q0(1) q by (auto simp: ingested_and_held_Nil)
    next
      case False
      then have "q = repeat_failure raw rec q0" using q0 q by auto
      then show ?thesis using repeat_failure_stands [of n b raw rec q0] q False ids repeated(6) by (auto split: if_splits)
    qed
    then show "\<not> is_ingested n b (snd (record_quarantine sha io now rnd ro s))" by (simp add: repeated(5))
  qed
next
  case (fresh raw rec i)
  then show ?thesis using assms(1) by (auto simp: ingested_and_held_Nil stands_def)
qed

lemma held_step:
  assumes "ingested_and_held s = []" and "names_batch op"
  shows "ingested_and_held (cp_exec sha codec op s) = []"
proof (cases "records_failure op")
  case True
  then show ?thesis using held_step_quarantine assms by (cases op) auto
next
  case False
  have held: "\<exists>q0 \<in> set (cp_quarantine s). stands n b q0"
    if "q \<in> set (cp_quarantine (cp_exec sha codec op s))" "stands n b q" for q n b
  proof (cases rule: quarantine_step [where sha = sha and codec = codec and op = op and s = s])
    case appended
    with False show ?thesis by simp
  next
    case (rewritten p f)
    from that(1) obtain x where "x \<in> set (cp_quarantine s)" "q = (if p x then f x else x)"
      by (auto simp: rewritten(1) update_where_def)
    then show ?thesis using rewritten(4) [OF False] that(2) by (cases "p x") auto
  qed
  show ?thesis unfolding ingested_and_held_Nil
  proof (intro ballI allI impI)
    fix q n b
    assume q: "q \<in> set (cp_quarantine (cp_exec sha codec op s))" "stands n b q" "n \<noteq> []" "b \<noteq> []"
    from held [OF q(1,2)] have old: "\<not> is_ingested n b s" using assms(1) q by (auto simp: ingested_and_held_Nil)
    show "\<not> is_ingested n b (cp_exec sha codec op s)"
    proof
      assume "is_ingested n b (cp_exec sha codec op s)"
      then have "newly_ingested sha codec op s = Some (n, b)"
        using ingest_step [of sha codec op s n b] old by (cases "newly_ingested sha codec op s = Some (n, b)") simp_all
      then show False using ingestion_clears_quarantine q by (auto simp: filter_empty_conv)
    qed
  qed
qed

lemma held_run:
  "ingested_and_held s = [] \<Longrightarrow> list_all names_batch ops \<Longrightarrow> ingested_and_held (cp_run sha codec ops s) = []"
  by (induction ops arbitrary: s) (auto simp: cp_run_def held_step)

section \<open>The registry\<close>

text \<open>A registration is kept, and what it has seen never goes back.\<close>

definition registry_le :: "node_record \<Rightarrow> node_record \<Rightarrow> bool" where
  "registry_le r r' \<longleftrightarrow> nd_node_id r' = nd_node_id r \<and> nd_registered_at r' = nd_registered_at r \<and>
     nd_last_seen r \<le> nd_last_seen r' \<and> nd_sequence_number r \<le> nd_sequence_number r' \<and>
     nd_heartbeat_sequence r \<le> nd_heartbeat_sequence r' \<and> nd_metadata_version r \<le> nd_metadata_version r'"

lemma registry_le_refl: "registry_le r r"
  by (simp add: registry_le_def)

lemma registry_le_trans: "registry_le a b \<Longrightarrow> registry_le b c \<Longrightarrow> registry_le a c"
  by (auto simp: registry_le_def)

lemma registry_le_advance: "registry_le r (advance_activity t sq r)"
  by (simp add: registry_le_def advance_activity_def)

lemma registry_le_beat: "registry_le r (beat st sq t r)"
  by (auto simp: registry_le_def beat_def Let_def)

lemma registry_le_reregister: "registry_le r (reregister req r)"
  by (auto simp: registry_le_def reregister_def merge_metadata_def advances_metadata_def Let_def)

lemma register_node_nodes:
  "cp_nodes (snd (register_node io ro s)) = cp_nodes s \<or> (\<exists>q. cp_nodes (snd (register_node io ro s)) = cp_nodes s @ [q]) \<or>
   (\<exists>p req. cp_nodes (snd (register_node io ro s)) = update_where p (reregister req) (cp_nodes s))"
  by (auto simp: register_node_def split: option.split)

lemma heartbeat_nodes:
  "cp_nodes (snd (update_node_heartbeat io node st sq t s)) = cp_nodes s \<or>
   (\<exists>p. cp_nodes (snd (update_node_heartbeat io node st sq t s)) = update_where p (beat st sq t) (cp_nodes s))"
  by (auto simp: update_node_heartbeat_def split: option.split)

lemma activity_nodes:
  "cp_nodes (snd (update_node_telemetry_activity io node sq t s)) = cp_nodes s \<or>
   (\<exists>p. cp_nodes (snd (update_node_telemetry_activity io node sq t s)) = update_where p (advance_activity t sq) (cp_nodes s))"
  by (auto simp: update_node_telemetry_activity_def split: option.split)

lemma registry_step:
  obtains (appended) q where "cp_nodes (cp_exec sha codec op s) = cp_nodes s @ [q]"
  | (rewritten) p f where "cp_nodes (cp_exec sha codec op s) = update_where p f (cp_nodes s)" "\<And>r. registry_le r (f r)"
proof -
  have keep: thesis if "cp_nodes (cp_exec sha codec op s) = cp_nodes s"
    using that rewritten [of "\<lambda>_. False" "\<lambda>q. q"] registry_le_refl by simp
  show ?thesis
  proof (cases op)
    case (OpRegister io ro)
    then show ?thesis using keep appended rewritten [OF _ registry_le_reregister] register_node_nodes [of io ro s]
      by auto
  next
    case (OpHeartbeat io node st sq t)
    then show ?thesis using keep rewritten [OF _ registry_le_beat] heartbeat_nodes [of io node st sq t s]
      by auto
  next
    case (OpActivity io node sq t)
    then show ?thesis using keep rewritten [OF _ registry_le_advance] activity_nodes [of io node sq t s]
      by auto
  next
    case (OpRecord io bo t)
    then have "\<not> touches_registry op" by simp
    then show ?thesis using keep rewritten [OF _ registry_le_advance] by (cases sha codec op s rule: ingest_cases) blast+
  next
    case (OpReplay io now i reason w stamp)
    then have "\<not> touches_registry op" by simp
    then show ?thesis using keep rewritten [OF _ registry_le_advance] by (cases sha codec op s rule: ingest_cases) blast+
  qed (use keep in simp_all)
qed

lemma registry_step_find:
  assumes "find_node n (cp_nodes s) = Some r"
  shows "\<exists>r'. find_node n (cp_nodes (cp_exec sha codec op s)) = Some r' \<and> registry_le r r'"
proof (cases sha codec op s rule: registry_step)
  case (appended q)
  then show ?thesis using assms registry_le_refl by (auto simp: find_node_def find_app)
next
  case (rewritten p f)
  have "\<And>r. nd_node_id (f r) = nd_node_id r" using rewritten(2) by (simp add: registry_le_def)
  then have "find_node n (cp_nodes (cp_exec sha codec op s)) = Some (if p r then f r else r)"
    using assms by (simp add: rewritten(1) find_node_def find_key_update_where [where g = nd_node_id])
  then show ?thesis using rewritten(2) registry_le_refl by auto
qed

lemma registry_run:
  assumes "find_node n (cp_nodes s) = Some r"
  shows "\<exists>r'. find_node n (cp_nodes (cp_run sha codec ops s)) = Some r' \<and> registry_le r r'"
  using assms
proof (induction ops arbitrary: s r)
  case Nil
  then show ?case by (auto simp: cp_run_def registry_le_refl)
next
  case (Cons op ops)
  obtain r' where r': "find_node n (cp_nodes (cp_exec sha codec op s)) = Some r'" "registry_le r r'"
    using registry_step_find [OF Cons.prems] by blast
  then show ?case using Cons.IH [OF r'(1)] registry_le_trans [OF r'(2)] by (auto simp: cp_run_def)
qed

end
