(* ===== verification/Cp_Auth_Properties.thy ===== *)
theory Cp_Auth_Properties
  imports Cp_Auth
begin

text \<open>
  What an accepted request has proved, and that it is accepted once.
\<close>

section \<open>Requests of nodes\<close>

abbreviation skew_ok :: "auth_config \<Rightarrow> gotime \<Rightarrow> gotime \<Rightarrow> bool" where
  "skew_ok c now t \<equiv> time_sub now t \<le> clock_skew c \<and> time_sub t now \<le> clock_skew c"

definition signed_by_node :: "crypto \<Rightarrow> auth_config \<Rightarrow> auth_request \<Rightarrow> bool" where
  "signed_by_node cr c r \<longleftrightarrow>
     (case resolve_node_secret c (trim_space (rq_node_id r)) of None \<Rightarrow> False | Some secret \<Rightarrow>
        verify_signature (cr_hmac cr) (cr_sha cr) secret (rq_method r) (rq_target r) (trim_space (rq_node_id r))
          (trim_space (rq_timestamp r)) (trim_space (rq_nonce r)) (trim_space (rq_signature r)) (rq_body r))"

definition request_time :: "crypto \<Rightarrow> auth_request \<Rightarrow> gotime option" where
  "request_time cr r = parse_timestamp (cr_rfc3339 cr) (trim_space (rq_timestamp r))"

lemma check_node_request_ok:
  assumes "check_node_request cr c now r = Inr t"
  shows "request_time cr r = Some t" "skew_ok c now t" "signed_by_node cr c r" "valid_node_id (trim_space (rq_node_id r))"
  using assms
  by (auto simp: check_node_request_def Let_def signed_by_node_def request_time_def
      split: if_splits option.splits)

text \<open>A nonce that the cache still holds.\<close>

definition nonce_live :: "gotime \<Rightarrow> string \<Rightarrow> replay_cache option \<Rightarrow> bool" where
  "nonce_live now nonce cache \<longleftrightarrow>
     (case cache of None \<Rightarrow> False | Some rc \<Rightarrow>
        (case map_of (rc_seen rc) nonce of None \<Rightarrow> False | Some e \<Rightarrow> now < e))"

lemma authenticate_request_node:
  assumes "fst (authenticate_request cr c now cache_now r cache) = Inr x" and "ax_authenticated x" and "\<not> ax_admin x"
  obtains t where "check_node_request cr c now r = Inr t" "ax_node_id x = trim_space (rq_node_id r)"
    "ac_replay_protection c \<Longrightarrow> \<not> nonce_live cache_now (trim_space (rq_nonce r)) cache"
    "ac_replay_protection c \<Longrightarrow> cache \<noteq> None \<Longrightarrow>
       \<exists>rc. snd (authenticate_request cr c now cache_now r cache) = Some rc \<and>
            map_of (rc_seen rc) (trim_space (rq_nonce r)) = Some (t + clock_skew c)"
proof -
  have on: "ac_enabled c" "\<not> (rq_authorization r \<noteq> [] \<and> ac_admin_token c \<noteq> [] \<and>
      verify_admin_token (ac_admin_token c) (rq_authorization r))"
    "\<not> (rq_authorization r \<noteq> [] \<and> is_bearer (rq_authorization r))"
    using assms by (auto simp: authenticate_request_def split: if_splits)
  then obtain t where t: "check_node_request cr c now r = Inr t"
    using assms by (auto simp: authenticate_request_def split: sum.splits)
  show thesis
  proof (cases "ac_replay_protection c \<and> cache \<noteq> None")
    case False
    with assms on t show thesis
      by (intro that [of t]) (auto simp: authenticate_request_def nonce_live_def Let_def split: option.splits)
  next
    case True
    then obtain rc where rc: "cache = Some rc" by auto
    define ok where "ok = check_and_add cache_now (trim_space (rq_nonce r)) (t + clock_skew c) rc"
    have eq: "authenticate_request cr c now cache_now r cache =
        (if fst ok then Inr \<lparr>ax_authenticated = True, ax_node_id = trim_space (rq_node_id r), ax_admin = False\<rparr>
         else Inl AuthReplayDetected, Some (snd ok))"
      using on t True rc by (simp add: authenticate_request_def ok_def Let_def split_beta)
    with assms have novel: "fst ok" "x = \<lparr>ax_authenticated = True, ax_node_id = trim_space (rq_node_id r), ax_admin = False\<rparr>"
      by (auto split: if_splits)
    then show thesis using t eq rc
      by (intro that [of t])
        (auto simp: ok_def check_and_add_def Let_def nonce_live_def update_conv' split: if_splits option.splits)
  qed
qed

section \<open>The replay cache\<close>

lemma unexpired_map_of:
  "map_of seen nonce = Some e \<Longrightarrow> \<not> e < now \<Longrightarrow> map_of (unexpired now seen) nonce = Some e"
  by (induction seen) (auto simp: unexpired_def split: if_splits)

lemma check_and_add_keeps:
  assumes "map_of (rc_seen rc) nonce = Some e" and "now < e"
  shows "map_of (rc_seen (snd (check_and_add now n e' rc))) nonce = Some e"
  using assms unexpired_map_of [OF assms(1), of now]
  by (auto simp: check_and_add_def Let_def update_conv' split: option.splits)

lemma authenticate_keeps_nonce:
  assumes "cache = Some rc" and "map_of (rc_seen rc) nonce = Some e" and "cache_now < e"
  shows "\<exists>rc'. snd (authenticate_request cr c now cache_now r cache) = Some rc' \<and> map_of (rc_seen rc') nonce = Some e"
  using assms check_and_add_keeps [OF assms(2,3)]
  by (auto simp: authenticate_request_def Let_def split_beta split: sum.split option.split)

text \<open>A later attempt: the two readings of the clock, and the request.\<close>

type_synonym attempt = "gotime \<times> gotime \<times> auth_request"

fun attempts_run :: "crypto \<Rightarrow> auth_config \<Rightarrow> attempt list \<Rightarrow> replay_cache option \<Rightarrow> replay_cache option" where
  "attempts_run cr c [] cache = cache"
| "attempts_run cr c ((now, cache_now, r) # later) cache =
     attempts_run cr c later (snd (authenticate_request cr c now cache_now r cache))"

lemma attempts_keep_nonce:
  assumes "cache = Some rc" and "map_of (rc_seen rc) nonce = Some e" and "list_all (\<lambda>(now, cache_now, r). cache_now < e) later"
  shows "\<exists>rc'. attempts_run cr c later cache = Some rc' \<and> map_of (rc_seen rc') nonce = Some e"
  using assms
proof (induction later arbitrary: cache rc)
  case Nil
  then show ?case by simp
next
  case (Cons a later)
  obtain now cache_now r where a: "a = (now, cache_now, r)" by (cases a) auto
  obtain rc' where "snd (authenticate_request cr c now cache_now r cache) = Some rc'" "map_of (rc_seen rc') nonce = Some e"
    using authenticate_keeps_nonce [OF Cons.prems(1,2)] Cons.prems(3) a by fastforce
  then show ?case using Cons.IH [of "Some rc'" rc'] Cons.prems(3) a by simp
qed

section \<open>Properties\<close>

lemma accepted_authentic:
  assumes "fst (authenticate_request cr c now cache_now r cache) = Inr x" and "ac_enabled c" and "\<not> ax_admin x"
  shows "signed_by_node cr c r \<and> ax_node_id x = trim_space (rq_node_id r) \<and> valid_node_id (ax_node_id x) \<and>
    (\<exists>t. request_time cr r = Some t \<and> skew_ok c now t) \<and>
    (ac_replay_protection c \<longrightarrow> \<not> nonce_live cache_now (trim_space (rq_nonce r)) cache)"
proof -
  have "ax_authenticated x"
    using assms by (auto simp: authenticate_request_def Let_def split_beta split: if_splits sum.splits option.splits)
  with assms obtain t where t: "check_node_request cr c now r = Inr t" "ax_node_id x = trim_space (rq_node_id r)"
    "ac_replay_protection c \<Longrightarrow> \<not> nonce_live cache_now (trim_space (rq_nonce r)) cache"
    by (elim authenticate_request_node) auto
  then show ?thesis using check_node_request_ok [OF t(1)] by auto
qed

text \<open>
  C24. A request accepted as a node's is authentic and fresh: with authentication enabled, the signature
  verifies, under the secret of the node it names, over its method, target, timestamp, nonce and body;
  the timestamp is within the clock skew of the server's clock; and with replay protection the cache held
  no live entry for its nonce.
\<close>

theorem accepted_node_request_is_authentic:
  assumes "fst (authenticate_request cr c now cache_now r cache) = Inr x" and "ac_enabled c" and "\<not> ax_admin x"
  shows "signed_by_node cr c r \<and> ax_node_id x = trim_space (rq_node_id r) \<and> valid_node_id (ax_node_id x) \<and>
    (\<exists>t. request_time cr r = Some t \<and> skew_ok c now t) \<and>
    (ac_replay_protection c \<longrightarrow> \<not> nonce_live cache_now (trim_space (rq_nonce r)) cache)"
  using assms by (rule accepted_authentic)

text \<open>
  C0. A nonce is accepted once in its window: after a request of a node has been accepted with time \<open>t\<close>,
  no request with the same nonce is accepted as a node's while the cache reads a time before \<open>t\<close> plus the
  clock skew, whatever requests come in between and even if the cache is full.
\<close>

theorem nonce_accepted_once_in_window:
  assumes "fst (authenticate_request cr c now cache_now r (Some rc)) = Inr x" and "ax_authenticated x" and "\<not> ax_admin x"
    and "ac_replay_protection c" and "request_time cr r = Some t"
    and "list_all (\<lambda>(n, cn, q). cn < t + clock_skew c) later" and "cn' < t + clock_skew c"
    and "trim_space (rq_nonce r') = trim_space (rq_nonce r)"
  shows "case fst (authenticate_request cr c n' cn' r'
      (attempts_run cr c later (snd (authenticate_request cr c now cache_now r (Some rc))))) of
    Inl _ \<Rightarrow> True | Inr y \<Rightarrow> ax_admin y \<or> \<not> ax_authenticated y"
proof -
  obtain t0 where t0: "check_node_request cr c now r = Inr t0"
    "\<exists>rc1. snd (authenticate_request cr c now cache_now r (Some rc)) = Some rc1 \<and>
       map_of (rc_seen rc1) (trim_space (rq_nonce r)) = Some (t0 + clock_skew c)"
    using authenticate_request_node [OF assms(1-3)] assms(4) by (metis option.distinct(1))
  then have "t0 = t" using check_node_request_ok(1) [OF t0(1)] assms(5) by simp
  with t0 obtain rc1 where rc1: "snd (authenticate_request cr c now cache_now r (Some rc)) = Some rc1"
    "map_of (rc_seen rc1) (trim_space (rq_nonce r)) = Some (t + clock_skew c)" by blast
  obtain rc2 where rc2: "attempts_run cr c later (Some rc1) = Some rc2"
    "map_of (rc_seen rc2) (trim_space (rq_nonce r)) = Some (t + clock_skew c)"
    using attempts_keep_nonce [OF refl rc1(2) assms(6)] by blast
  have live: "nonce_live cn' (trim_space (rq_nonce r')) (Some rc2)"
    using rc2(2) assms(7,8) by (simp add: nonce_live_def)
  show ?thesis
    unfolding rc1 rc2
    using authenticate_request_node [of cr c n' cn' r' "Some rc2"] live assms(4)
    by (auto split: sum.split)
qed

text \<open>
  Production serves no stranger: a configuration that passes validation for production accepts only
  requests that carry the admin token or are signed with the secret of their own node; the shared secret
  of the fleet is never used, and a secret from the configured table has at least 16 bytes.
\<close>

theorem production_requires_credentials:
  assumes "auth_config_validate net fs c addr True = None" and "fst (authenticate_request cr c now cache_now r cache) = Inr x"
  shows "ax_authenticated x \<and>
    (if ax_admin x then verify_admin_token (ac_admin_token c) (rq_authorization r)
     else signed_by_node cr (c\<lparr>ac_shared_secret := []\<rparr>) r \<and>
       (ac_secret_resolver c = None \<longrightarrow>
          list_ex (\<lambda>(n, s). n = trim_space (rq_node_id r) \<and> 16 \<le> length s) (ac_node_secrets c)))"
proof -
  have c: "ac_enabled c" "ac_shared_secret c = []" "\<not> list_ex (\<lambda>e. length (snd e) < 16) (ac_node_secrets c)"
    "ac_node_secrets c \<noteq> [] \<or> ac_secret_resolver c \<noteq> None"
    using assms(1)
    by (auto simp: auth_config_validate_def validate_environment_def validate_secrets_def split: option.splits if_splits)
  show ?thesis
  proof (cases "ax_admin x")
    case True
    with assms(2) c(1) show ?thesis
      by (auto simp: authenticate_request_def Let_def split_beta split: if_splits sum.splits option.splits)
  next
    case False
    have auth: "ax_authenticated x"
      using assms(2) c(1) by (auto simp: authenticate_request_def Let_def split_beta split: if_splits sum.splits option.splits)
    have signed: "signed_by_node cr c r"
      using accepted_authentic [OF assms(2) c(1) False] by simp
    moreover have "c\<lparr>ac_shared_secret := []\<rparr> = c" using c(2) by simp
    moreover have "list_ex (\<lambda>(n, s). n = trim_space (rq_node_id r) \<and> 16 \<le> length s) (ac_node_secrets c)"
      if none: "ac_secret_resolver c = None"
    proof -
      obtain s where "map_of (ac_node_secrets c) (trim_space (rq_node_id r)) = Some s"
        using signed c(4) unfolding signed_by_node_def resolve_node_secret_def none
        by (auto split: option.splits)
      then have "(trim_space (rq_node_id r), s) \<in> set (ac_node_secrets c)" by (rule map_of_SomeD)
      then show ?thesis using c(3) by (auto simp: list_ex_iff not_less)
    qed
    ultimately show ?thesis using auth False by simp
  qed
qed

text \<open>
  A signature binds every part of a request: two requests have the same text to sign only if method,
  target, node, timestamp and nonce (without surrounding blanks) and the digest of the body are the same,
  provided none of them contains a line break.
\<close>

theorem signature_binds_request:
  assumes "build_canonical_string sha method target node ts nonce body =
      build_canonical_string sha method' target' node' ts' nonce' body'"
    and "list_all (\<lambda>f. CHR 0x0A \<notin> set f) (canonical_fields sha method target node ts nonce body)"
    and "list_all (\<lambda>f. CHR 0x0A \<notin> set f) (canonical_fields sha method' target' node' ts' nonce' body')"
  shows "canonical_fields sha method target node ts nonce body = canonical_fields sha method' target' node' ts' nonce' body'"
proof -
  have "split_on (CHR 0x0A) (join [CHR 0x0A] (canonical_fields sha m t n s u b)) = canonical_fields sha m t n s u b"
    if "list_all (\<lambda>f. CHR 0x0A \<notin> set f) (canonical_fields sha m t n s u b)" for m t n s u b
    using that by (intro split_on_join) (auto simp: canonical_fields_def)
  with assms show ?thesis by (metis build_canonical_string_def)
qed

section \<open>Witnesses\<close>

definition toy_crypto :: crypto where
  "toy_crypto = \<lparr>cr_hmac = \<lambda>_ _. [1], cr_sha = \<lambda>_. [], cr_rfc3339 = \<lambda>_. Some 1000\<rparr>"

definition toy_config :: auth_config where
  "toy_config = default_auth_config\<lparr>ac_enabled := True, ac_node_secrets := [(''abc'', ''0123456789abcdef'')],
     ac_admin_token := ''0123456789abcdef'', ac_max_clock_skew := 10, ac_tls_cert := ''c'', ac_tls_key := ''k''\<rparr>"

definition toy_request :: auth_request where
  "toy_request = \<lparr>rq_method = ''POST'', rq_target = ''/'', rq_authorization = [], rq_node_id = ''abc'', rq_timestamp = ''t'',
     rq_nonce = ''n'', rq_signature = ''01'', rq_body = []\<rparr>"

definition toy_context :: auth_context where
  "toy_context = \<lparr>ax_authenticated = True, ax_node_id = ''abc'', ax_admin = False\<rparr>"

definition toy_cache :: replay_cache where
  "toy_cache = \<lparr>rc_seen = [], rc_max = 4\<rparr>"

lemma toy_accepted: "fst (authenticate_request toy_crypto toy_config 1000 1000 toy_request (Some toy_cache)) = Inr toy_context"
  by code_simp

theorem accepted_node_request_is_authentic_witness:
  "signed_by_node toy_crypto toy_config toy_request \<and> skew_ok toy_config 1000 1000"
proof -
  have "signed_by_node toy_crypto toy_config toy_request \<and> ax_node_id toy_context = trim_space (rq_node_id toy_request) \<and>
    valid_node_id (ax_node_id toy_context) \<and>
    (\<exists>t. request_time toy_crypto toy_request = Some t \<and> skew_ok toy_config 1000 t) \<and>
    (ac_replay_protection toy_config \<longrightarrow> \<not> nonce_live 1000 (trim_space (rq_nonce toy_request)) (Some toy_cache))"
    by (rule accepted_node_request_is_authentic [OF toy_accepted])
      (simp_all add: toy_config_def default_auth_config_def toy_context_def)
  then show ?thesis by (simp add: time_sub_def clock_skew_def toy_config_def default_auth_config_def)
qed

lemma toy_time: "request_time toy_crypto toy_request = Some 1000"
  by code_simp

lemma toy_skew: "clock_skew toy_config = 10"
  by (simp add: clock_skew_def toy_config_def)

theorem nonce_accepted_once_in_window_witness:
  "fst (authenticate_request toy_crypto toy_config 1005 1009 toy_request
      (attempts_run toy_crypto toy_config [(1001, 1002, toy_request)]
        (snd (authenticate_request toy_crypto toy_config 1000 1000 toy_request (Some toy_cache))))) \<noteq> Inr toy_context"
proof -
  have "case fst (authenticate_request toy_crypto toy_config 1005 1009 toy_request
      (attempts_run toy_crypto toy_config [(1001, 1002, toy_request)]
        (snd (authenticate_request toy_crypto toy_config 1000 1000 toy_request (Some toy_cache))))) of
    Inl _ \<Rightarrow> True | Inr y \<Rightarrow> ax_admin y \<or> \<not> ax_authenticated y"
    by (rule nonce_accepted_once_in_window [OF toy_accepted, where t = 1000])
      (simp_all add: toy_context_def toy_time toy_config_def default_auth_config_def clock_skew_def)
  then show ?thesis by (auto simp: toy_context_def)
qed

definition toy_net :: net_lib where
  "toy_net = \<lparr>nl_split_host = \<lambda>_. None, nl_loopback_ip = \<lambda>_. False\<rparr>"

definition toy_files :: tls_files where
  "toy_files = \<lparr>tf_exists = \<lambda>_. True, tf_pair = \<lambda>_ _. True\<rparr>"

lemma toy_valid: "auth_config_validate toy_net toy_files toy_config ''0.0.0.0:8443'' True = None"
  by code_simp

theorem production_requires_credentials_witness:
  "list_ex (\<lambda>(n, s). n = trim_space (rq_node_id toy_request) \<and> 16 \<le> length s) (ac_node_secrets toy_config)"
proof -
  have "ax_authenticated toy_context \<and>
    (if ax_admin toy_context then verify_admin_token (ac_admin_token toy_config) (rq_authorization toy_request)
     else signed_by_node toy_crypto (toy_config\<lparr>ac_shared_secret := []\<rparr>) toy_request \<and>
       (ac_secret_resolver toy_config = None \<longrightarrow>
          list_ex (\<lambda>(n, s). n = trim_space (rq_node_id toy_request) \<and> 16 \<le> length s) (ac_node_secrets toy_config)))"
    by (rule production_requires_credentials [OF toy_valid toy_accepted])
  then show ?thesis by (simp add: toy_context_def toy_config_def default_auth_config_def)
qed

theorem signature_binds_request_witness:
  "canonical_fields (\<lambda>_. []) ''post'' ''/'' '' n'' ''1'' ''x'' [] = canonical_fields (\<lambda>_. []) ''POST'' ''/'' ''n'' ''1'' ''x '' []"
  by (rule signature_binds_request) code_simp+

section \<open>At the edge of the window\<close>

text \<open>
  At the very end of the window the timestamp still counts as fresh, and the entry of the cache as expired:
  the same request is accepted again.
\<close>

theorem replay_accepted_at_the_edge:
  "fst (authenticate_request toy_crypto toy_config 1010 1010 toy_request
      (snd (authenticate_request toy_crypto toy_config 1000 1000 toy_request (Some toy_cache)))) = Inr toy_context"
  by code_simp

text \<open>The nonces of all nodes share one cache: a nonce used by one node blocks it for another.\<close>

definition other_request :: auth_request where
  "other_request = toy_request\<lparr>rq_node_id := ''xyz''\<rparr>"

theorem nonce_of_another_node_is_refused:
  "fst (authenticate_request toy_crypto (toy_config\<lparr>ac_node_secrets := (''xyz'', ''0123456789abcdef'') # ac_node_secrets toy_config\<rparr>)
      1001 1001 other_request
      (snd (authenticate_request toy_crypto toy_config 1000 1000 toy_request (Some toy_cache)))) = Inl AuthReplayDetected"
  by code_simp

text \<open>
  The duplicate test of the secrets file looks at the key as written, the table is filled under the key
  without blanks, so a second entry for a node replaces the first.
\<close>

theorem padded_duplicate_replaces_secret:
  "load_node_secrets [(''abc'', Some ''0123456789abcdef''), ('' abc'', Some ''fedcba9876543210'')] =
     Inr [(''abc'', ''fedcba9876543210'')]"
  by code_simp

end
