(* ===== verification/Cp_Server_Safety.thy ===== *)
theory Cp_Server_Safety
  imports Cp_Handlers Cp_Safety Cp_Auth_Properties
begin

text \<open>
  The server over its runs: the registry in memory mirrors the one in the store, and only those who have
  proved who they are change the store.
\<close>

section \<open>Frames\<close>

lemma authenticate_frame:
  obtains c where "snd (authenticate cr e q body s) = s\<lparr>sv_cache := c\<rparr>"
  by (auto simp: authenticate_def split_beta)

lemma authenticate_frame_simps [simp]:
  "sv_store (snd (authenticate cr e q body s)) = sv_store s" "sv_nodes (snd (authenticate cr e q body s)) = sv_nodes s"
  "sv_history (snd (authenticate cr e q body s)) = sv_history s" "sv_auth (snd (authenticate cr e q body s)) = sv_auth s"
  "sv_pruning (snd (authenticate cr e q body s)) = sv_pruning s" "sv_down (snd (authenticate cr e q body s)) = sv_down s"
  by (simp_all add: authenticate_def split_beta)

lemma check_admin_frame [simp]:
  "sv_store (snd (check_admin_auth cr e q s)) = sv_store s" "sv_nodes (snd (check_admin_auth cr e q s)) = sv_nodes s"
  "sv_history (snd (check_admin_auth cr e q s)) = sv_history s"
  by (auto simp: check_admin_auth_def Let_def split_beta split: sum.split prod.split dest: sym)

section \<open>What a request can write\<close>

text \<open>The request has been accepted, from an administrator, from the node itself, or without authentication.\<close>

definition accepted_for :: "crypto \<Rightarrow> http_env \<Rightarrow> http_request \<Rightarrow> cp_server \<Rightarrow> string \<Rightarrow> bool" where
  "accepted_for cr e q s node \<longleftrightarrow>
     (\<exists>body x. hq_body q = BodyRead body \<and> fst (authenticate cr e q body s) = Inr x \<and>
        (ac_enabled (sv_auth s) \<longrightarrow> ax_admin x \<or> ax_node_id x = node))"

abbreviation activity_of :: "telemetry_batch \<Rightarrow> gotime \<Rightarrow> node_record list \<Rightarrow> node_record list" where
  "activity_of b t \<equiv> update_where (\<lambda>r. nd_node_id r = tb_node_id b) (advance_activity t (tb_sequence_number b))"

lemma record_batch_inserted:
  assumes "fst (record_batch io (Some b) t st) = Inr True"
  shows "snd (record_batch io (Some b) t st) = st\<lparr>cp_ingested := cp_ingested st @ [meta_of b t],
          cp_payloads := cp_payloads st @ [\<lparr>ir_batch = b, ir_ingested_at = t\<rparr>], cp_nodes := activity_of b t (cp_nodes st)\<rparr>"
proof (cases io "Some b" t st rule: record_batch_cases)
  case same
  with assms show ?thesis by simp
next
  case (inserted b')
  then have eq: "record_batch io (Some b) t st = record_batch_tx b t [] st" by simp
  show ?thesis
    by (cases b t "[] :: string" st rule: record_batch_tx_cases) (use assms eq in auto)
qed

lemma record_batch_refused:
  assumes "fst (record_batch io (Some b) t st) \<noteq> Inr True"
  shows "snd (record_batch io (Some b) t st) = st"
  using assms by (cases io "Some b" t st rule: record_batch_cases) auto

lemma handle_ingest_cases:
  obtains (kept) "sv_store (snd (handle_ingest_batch cr de e q s)) = sv_store s"
      "sv_nodes (snd (handle_ingest_batch cr de e q s)) = sv_nodes s"
      "fst (fst (handle_ingest_batch cr de e q s)) \<noteq> 201"
  | (recorded) b where "accepted_for cr e q s (tb_node_id b)"
      "fst (record_batch (he_io e 0) (Some b) (he_now e) (sv_store s)) = Inr True"
      "sv_store (snd (handle_ingest_batch cr de e q s)) = snd (record_batch (he_io e 0) (Some b) (he_now e) (sv_store s))"
      "sv_nodes (snd (handle_ingest_batch cr de e q s)) = activity_of b (he_now e) (sv_nodes s)"
      "fst (handle_ingest_batch cr de e q s) = (201, BodyIngest ''accepted'' (tb_batch_id b) (tb_node_id b) (Some (he_now e)))"
proof (cases "hq_body q")
  case (BodyRead body)
  define au where "au = authenticate cr e q body s"
  have frame: "sv_store (snd au) = sv_store s" "sv_nodes (snd au) = sv_nodes s" "sv_auth (snd au) = sv_auth s"
    by (simp_all add: au_def)
  show ?thesis
  proof (cases "fst au")
    case (Inl err)
    then show ?thesis using BodyRead frame
      by (intro kept) (simp_all add: handle_ingest_batch_def split_beta write_auth_error_def flip: au_def)
  next
    case (Inr x)
    show ?thesis
    proof (cases "\<exists>b. de_batch de body = Some b \<and> telemetry_batch_validate b = None \<and> \<not> impersonates (snd au) x (tb_node_id b)")
      case False
      then show ?thesis using BodyRead frame Inr
        by (intro kept) (auto simp: handle_ingest_batch_def split_beta split: option.split simp flip: au_def)
    next
      case True
      then obtain b where b: "de_batch de body = Some b" "telemetry_batch_validate b = None"
        "\<not> impersonates (snd au) x (tb_node_id b)" by blast
      define rb where "rb = record_batch (he_io e 0) (Some b) (he_now e) (sv_store s)"
      have eq: "handle_ingest_batch cr de e q s = (case rb of
        (Inl _, st) \<Rightarrow> ((500, BodyError ''internal_server_error''), (snd au)\<lparr>sv_store := st\<rparr>)
      | (Inr False, st) \<Rightarrow>
          ((200, BodyIngest ''already_accepted'' (tb_batch_id b) (tb_node_id b) None), (snd au)\<lparr>sv_store := st\<rparr>)
      | (Inr True, st) \<Rightarrow>
          ((201, BodyIngest ''accepted'' (tb_batch_id b) (tb_node_id b) (Some (he_now e))),
           remember_batch b (he_now e) ((snd au)\<lparr>sv_store := st\<rparr>)))"
        using BodyRead Inr b frame by (simp add: handle_ingest_batch_def split_beta flip: au_def rb_def)
      show ?thesis
      proof (cases "fst rb = Inr True")
        case True
        have "accepted_for cr e q s (tb_node_id b)"
          unfolding accepted_for_def using BodyRead Inr b(3) frame by (auto simp: au_def impersonates_def)
        then show ?thesis using True frame eq
          by (intro recorded [of b]) (simp_all add: rb_def split_beta remember_batch_def)
      next
        case False
        then have "snd rb = sv_store s" unfolding rb_def by (rule record_batch_refused)
        then show ?thesis using False frame eq
          by (intro kept) (auto simp: split_beta split: sum.split bool.split)
      qed
    qed
  qed
qed (use kept in \<open>simp_all add: handle_ingest_batch_def\<close>)

lemma register_in_memory_frame [simp]:
  "sv_store (snd (register_in_memory n rec s)) = sv_store s"
  by (simp add: register_in_memory_def split: option.split)

lemma sv_nodes_register_in_memory:
  "sv_nodes (snd (register_in_memory n rec s)) =
     (if n \<or> find_node (nd_node_id rec) (sv_nodes s) = None then sv_nodes s @ [rec]
      else update_where (\<lambda>r. nd_node_id r = nd_node_id rec) (reconcile_node rec) (sv_nodes s))"
  by (simp add: register_in_memory_def split: option.split)

lemma register_refused: "fst (register_node io ro st) = Inl err \<Longrightarrow> snd (register_node io ro st) = st"
  by (auto simp: register_node_def split: option.splits if_splits)

lemma handle_register_cases:
  obtains (kept) "sv_store (snd (handle_node_register cr de e q s)) = sv_store s"
      "sv_nodes (snd (handle_node_register cr de e q s)) = sv_nodes s"
  | (registered) req n where "accepted_for cr e q s (nd_node_id req)"
      "fst (register_node (he_io e 0) (Some req) (sv_store s)) = Inr n"
      "sv_store (snd (handle_node_register cr de e q s)) = snd (register_node (he_io e 0) (Some req) (sv_store s))"
      "sv_nodes (snd (handle_node_register cr de e q s)) =
         (let rec = registered_record req (sv_store s)
          in if n \<or> find_node (nd_node_id rec) (sv_nodes s) = None then sv_nodes s @ [rec]
             else update_where (\<lambda>r. nd_node_id r = nd_node_id rec) (reconcile_node rec) (sv_nodes s))"
proof (cases "sv_init_failed s \<or> rq_method (hq_auth q) \<noteq> ''POST''")
  case True
  then show ?thesis by (intro kept) (auto simp: handle_node_register_def)
next
  case ready: False
  show ?thesis
  proof (cases "hq_body q")
    case (BodyRead body)
    define au where "au = authenticate cr e q body s"
    have frame: "sv_store (snd au) = sv_store s" "sv_nodes (snd au) = sv_nodes s" "sv_auth (snd au) = sv_auth s"
      by (simp_all add: au_def)
    show ?thesis
    proof (cases "fst au")
      case (Inl err)
      then show ?thesis using BodyRead frame ready
        by (intro kept) (simp_all add: handle_node_register_def split_beta write_auth_error_def flip: au_def)
    next
      case (Inr x)
      show ?thesis
      proof (cases "\<exists>reg. de_registration de body = Some reg \<and> node_registration_validate reg = None \<and>
          valid_node_id (nr_node_id reg) \<and> \<not> impersonates (snd au) x (nr_node_id reg)")
        case False
        then show ?thesis using BodyRead frame Inr ready
          by (intro kept) (auto simp: handle_node_register_def split_beta Let_def split: option.split simp flip: au_def)
      next
        case True
        then obtain reg where reg: "de_registration de body = Some reg" "node_registration_validate reg = None"
          "valid_node_id (nr_node_id reg)" "\<not> impersonates (snd au) x (nr_node_id reg)" by blast
        define req where "req = registration_record (he_now e) reg"
        have id: "nd_node_id req = nr_node_id reg" by (simp add: req_def registration_record_def Let_def)
        define rn where "rn = register_node (he_io e 0) (Some req) (sv_store s)"
        have eq: "handle_node_register cr de e q s = (case rn of
            (Inl _, st) \<Rightarrow> ((500, BodyError ''internal_server_error''), (snd au)\<lparr>sv_store := st\<rparr>)
          | (Inr is_new, st) \<Rightarrow> register_in_memory is_new (registered_record req (sv_store s)) ((snd au)\<lparr>sv_store := st\<rparr>))"
          using BodyRead Inr reg frame ready
          by (simp add: handle_node_register_def split_beta Let_def flip: au_def req_def)
            (simp add: rn_def frame split: sum.split)
        show ?thesis
        proof (cases "fst rn")
          case (Inl err)
          then have "snd rn = sv_store s" unfolding rn_def by (rule register_refused)
          then show ?thesis using Inl frame eq by (intro kept) (auto simp: split_beta)
        next
          case (Inr n)
          have "accepted_for cr e q s (nd_node_id req)"
            unfolding accepted_for_def using BodyRead \<open>fst au = Inr x\<close> reg(4) frame id by (auto simp: au_def impersonates_def)
          then show ?thesis using Inr frame eq
            by (intro registered [of req n]) (simp_all add: rn_def split_beta sv_nodes_register_in_memory Let_def)
        qed
      qed
    qed
  qed (use kept ready in \<open>simp_all add: handle_node_register_def\<close>)
qed

lemma heartbeat_refused: "fst (update_node_heartbeat io node st sq t sto) = Some err \<Longrightarrow> snd (update_node_heartbeat io node st sq t sto) = sto"
  by (auto simp: update_node_heartbeat_def split: option.splits if_splits)

lemma handle_heartbeat_cases:
  obtains (kept) "sv_store (snd (handle_node_heartbeat cr de e q s)) = sv_store s"
      "sv_nodes (snd (handle_node_heartbeat cr de e q s)) = sv_nodes s"
  | (beaten) hb t st where "accepted_for cr e q s (hb_node_id hb)"
      "update_node_heartbeat (he_io e 0) (hb_node_id hb) (hb_status hb) (hb_sequence_number hb) t (sv_store s) = (None, st)"
      "sv_store (snd (handle_node_heartbeat cr de e q s)) = st"
      "sv_nodes (snd (handle_node_heartbeat cr de e q s)) = sv_nodes (heartbeat_in_memory hb t s)"
proof (cases "sv_init_failed s \<or> rq_method (hq_auth q) \<noteq> ''POST''")
  case True
  then show ?thesis by (intro kept) (auto simp: handle_node_heartbeat_def)
next
  case ready: False
  show ?thesis
  proof (cases "hq_body q")
    case (BodyRead body)
    define au where "au = authenticate cr e q body s"
    have frame: "sv_store (snd au) = sv_store s" "sv_nodes (snd au) = sv_nodes s" "sv_auth (snd au) = sv_auth s"
      by (simp_all add: au_def)
    show ?thesis
    proof (cases "fst au")
      case (Inl err)
      then show ?thesis using BodyRead frame ready
        by (intro kept) (simp_all add: handle_node_heartbeat_def split_beta write_auth_error_def flip: au_def)
    next
      case (Inr x)
      show ?thesis
      proof (cases "\<exists>hb. de_heartbeat de body = Some hb \<and> heartbeat_validate hb = None \<and> \<not> impersonates (snd au) x (hb_node_id hb)")
        case False
        then show ?thesis using BodyRead frame Inr ready
          by (intro kept) (auto simp: handle_node_heartbeat_def split_beta Let_def split: option.split simp flip: au_def)
      next
        case True
        then obtain hb where hb: "de_heartbeat de body = Some hb" "heartbeat_validate hb = None"
          "\<not> impersonates (snd au) x (hb_node_id hb)" by blast
        define t where "t = (if \<not> is_zero (hb_timestamp hb) then hb_timestamp hb else he_now e)"
        define up where "up = update_node_heartbeat (he_io e 0) (hb_node_id hb) (hb_status hb) (hb_sequence_number hb) t (sv_store s)"
        have eq: "handle_node_heartbeat cr de e q s = (case up of
            (Some CpNodeNotFound, st) \<Rightarrow> ((404, BodyError ''node_not_found''), (snd au)\<lparr>sv_store := st\<rparr>)
          | (Some _, st) \<Rightarrow> ((500, BodyError ''internal_server_error''), (snd au)\<lparr>sv_store := st\<rparr>)
          | (None, st) \<Rightarrow> ((200, BodyHeartbeat ''acknowledged'' (hb_node_id hb) t),
              heartbeat_in_memory hb t ((snd au)\<lparr>sv_store := st\<rparr>)))"
          using BodyRead Inr hb frame ready
          by (simp add: handle_node_heartbeat_def split_beta Let_def flip: au_def)
            (simp add: up_def t_def frame split: option.split cp_err.split)
        show ?thesis
        proof (cases "fst up")
          case (Some err)
          then have "snd up = sv_store s" unfolding up_def by (rule heartbeat_refused)
          then show ?thesis using Some frame eq by (intro kept) (auto simp: split_beta split: cp_err.split)
        next
          case None
          have "accepted_for cr e q s (hb_node_id hb)"
            unfolding accepted_for_def using BodyRead \<open>fst au = Inr x\<close> hb(3) frame by (auto simp: au_def impersonates_def)
          then show ?thesis using None frame eq
            by (intro beaten [of hb t "snd up"])
              (simp_all add: up_def split_beta heartbeat_in_memory_def prod_eq_iff split: option.split)
        qed
      qed
    qed
  qed (use kept ready in \<open>simp_all add: handle_node_heartbeat_def\<close>)
qed

section \<open>Administrators\<close>

definition admin_request :: "cp_server \<Rightarrow> http_request \<Rightarrow> bool" where
  "admin_request s q \<longleftrightarrow> verify_admin_token (ac_admin_token (sv_auth s)) (rq_authorization (hq_auth q))"

lemma authenticate_admin:
  "fst (authenticate cr e q body s) = Inr x \<Longrightarrow> ax_admin x \<Longrightarrow> admin_request s q"
  by (auto simp: authenticate_def authenticate_request_def admin_request_def Let_def split_beta
      split: if_splits sum.splits option.splits)

lemma check_admin_request: "fst (check_admin_auth cr e q s) = None \<Longrightarrow> admin_request s q"
  by (auto simp: check_admin_auth_def Let_def split_beta admin_request_def [symmetric] dest: authenticate_admin
      split: if_splits sum.splits)

definition resolves :: "decoders \<Rightarrow> cp_store \<Rightarrow> cp_store \<Rightarrow> bool" where
  "resolves de st st' \<longleftrightarrow>
     (\<exists>io now i reason w t. st' = snd (replay_quarantine_record (de_payload de) io now i reason w t st)) \<or>
     (\<exists>io now u. st' = snd (update_quarantine_status io now u st))"

lemma resolves_intros [simp]:
  "resolves de st (snd (replay_quarantine_record (de_payload de) io now i reason w t st))"
  "resolves de st (snd (update_quarantine_status io now u st))"
  unfolding resolves_def by blast+

lemma handle_replay_cases:
  "sv_nodes (snd (handle_replay_quarantine cr de e q i s)) = sv_nodes s \<and>
   (sv_store (snd (handle_replay_quarantine cr de e q i s)) = sv_store s \<or>
    admin_request s q \<and> resolves de (sv_store s) (sv_store (snd (handle_replay_quarantine cr de e q i s))))"
proof -
  define ca where "ca = check_admin_auth cr e q s"
  have frame: "sv_store (snd ca) = sv_store s" "sv_nodes (snd ca) = sv_nodes s" by (simp_all add: ca_def)
  show ?thesis
  proof (cases "fst ca = None")
    case False
    then show ?thesis using frame by (auto simp: handle_replay_quarantine_def split_beta simp flip: ca_def)
  next
    case True
    then have "admin_request s q" unfolding ca_def by (rule check_admin_request)
    then show ?thesis using True frame
      unfolding handle_replay_quarantine_def ca_def [symmetric]
      by (auto simp: split_beta split: option.split sum.split)
  qed
qed

lemma handle_discard_cases:
  "sv_nodes (snd (handle_discard_quarantine cr de e q i s)) = sv_nodes s \<and>
   (sv_store (snd (handle_discard_quarantine cr de e q i s)) = sv_store s \<or>
    admin_request s q \<and> (\<exists>io now u. sv_store (snd (handle_discard_quarantine cr de e q i s)) =
      snd (update_quarantine_status io now u (sv_store s))))"
proof -
  define ca where "ca = check_admin_auth cr e q s"
  have frame: "sv_store (snd ca) = sv_store s" "sv_nodes (snd ca) = sv_nodes s" by (simp_all add: ca_def)
  show ?thesis
  proof (cases "fst ca = None")
    case False
    then show ?thesis using frame by (auto simp: handle_discard_quarantine_def split_beta simp flip: ca_def)
  next
    case True
    then have "admin_request s q" unfolding ca_def by (rule check_admin_request)
    then show ?thesis using True frame
      unfolding handle_discard_quarantine_def ca_def [symmetric] discard_quarantine_record_def
      by (auto simp: split_beta split: option.split sum.split)
  qed
qed

text \<open>Whether a request is an operator's replay.\<close>

definition is_replay :: "http_request \<Rightarrow> bool" where
  "is_replay q \<longleftrightarrow>
     (case split_on (CHR ''/'') (trim_prefix ''/'' (trim_prefix ''/api/v1/telemetry/quarantine'' (hq_path q))) of
        [p, action] \<Rightarrow> action = ''replay'' | _ \<Rightarrow> False)"

lemma handle_list_get_frame [simp]:
  "sv_store (snd (handle_list_quarantine cr e q s)) = sv_store s" "sv_nodes (snd (handle_list_quarantine cr e q s)) = sv_nodes s"
  "sv_store (snd (handle_get_quarantine cr de e q i s)) = sv_store s" "sv_nodes (snd (handle_get_quarantine cr de e q i s)) = sv_nodes s"
  by (auto simp: handle_list_quarantine_def handle_get_quarantine_def split_beta split: option.split sum.split cp_err.split)

lemma handle_route_cases:
  "sv_nodes (snd (handle_quarantine_route cr de e q s)) = sv_nodes s \<and>
   (sv_store (snd (handle_quarantine_route cr de e q s)) = sv_store s \<or>
    admin_request s q \<and> resolves de (sv_store s) (sv_store (snd (handle_quarantine_route cr de e q s))) \<and>
     (\<not> is_replay q \<longrightarrow> (\<exists>io now u. sv_store (snd (handle_quarantine_route cr de e q s)) =
        snd (update_quarantine_status io now u (sv_store s)))))"
proof -
  have discard: "sv_nodes (snd (handle_discard_quarantine cr de e q i s)) = sv_nodes s \<and>
     (sv_store (snd (handle_discard_quarantine cr de e q i s)) = sv_store s \<or>
      admin_request s q \<and> resolves de (sv_store s) (sv_store (snd (handle_discard_quarantine cr de e q i s))) \<and>
      (\<exists>io now u. sv_store (snd (handle_discard_quarantine cr de e q i s)) = snd (update_quarantine_status io now u (sv_store s))))" for i
    using handle_discard_cases [of cr de e q i s] by (metis resolves_intros(2))
  define parts where "parts = split_on (CHR ''/'') (trim_prefix ''/'' (trim_prefix ''/api/v1/telemetry/quarantine'' (hq_path q)))"
  have r: "is_replay q \<longleftrightarrow> (case parts of [p, action] \<Rightarrow> action = ''replay'' | _ \<Rightarrow> False)"
    by (simp add: is_replay_def parts_def)
  show ?thesis
  proof (cases "\<exists>p action. parts = [p, action]")
    case True
    then obtain p action where p: "parts = [p, action]" by blast
    show ?thesis
      unfolding handle_quarantine_route_def Let_def parts_def [symmetric] p
      using discard [of "trim_space p"] handle_replay_cases [of cr de e q "trim_space p" s] r p by simp
  next
    case False
    then show ?thesis
      unfolding handle_quarantine_route_def Let_def parts_def [symmetric]
      by (auto split: list.split)
  qed
qed

end
