(* ===== verification/Cp_Properties.thy ===== *)
theory Cp_Properties
  imports Cp_Safety
begin

text \<open>
  Properties of the control-plane store over whole runs, and the cases where records and promises part.
\<close>

section \<open>Examples\<close>

definition cp_batch :: "string \<Rightarrow> string \<Rightarrow> telemetry_batch" where
  "cp_batch n b =
     \<lparr>tb_batch_id = b, tb_node_id = n, tb_sequence_number = 1, tb_collected_at = 5, tb_sent_at = None, tb_attempt = 0,
      tb_metrics = [\<lparr>ms_sample_id = [], ms_node_id = [], ms_name = ''cpu'', ms_value = Fin 1, ms_unit = [],
        ms_labels = [], ms_timestamp = 5\<rparr>]\<rparr>"

definition cp_failure :: "string \<Rightarrow> string \<Rightarrow> string \<Rightarrow> quarantine_record" where
  "cp_failure i n b =
     \<lparr>qr_id = i, qr_dedup_key = ''k'', qr_source_stream = [], qr_source_sequence = None, qr_source_subject = [],
      qr_node_id = n, qr_batch_id = b, qr_payload = ''p'', qr_category = CategoryStorageFailure, qr_reason = [],
      qr_last_category = CategoryStorageFailure, qr_last_reason = [], qr_delivery_count = 1, qr_attempts = 1,
      qr_first_at = 6, qr_last_at = 6, qr_status = QQuarantined, qr_status_at = 6, qr_status_reason = [],
      qr_status_by = [], qr_replay_metadata = [], qr_payload_size = 0\<rparr>"

definition cp_node :: node_record where
  "cp_node =
     \<lparr>nd_node_id = ''n'', nd_status = NodeStatusHealthy, nd_last_seen = 5, nd_registered_at = 5, nd_agent_version = [],
      nd_protocol_version = [], nd_hostname = [], nd_os = [], nd_architecture = [], nd_capabilities = [], nd_labels = [],
      nd_sequence_number = 0, nd_heartbeat_sequence = 0, nd_metadata_version = 0, nd_updated_at = 5\<rparr>"

definition cp_empty :: cp_store where
  "cp_empty = \<lparr>cp_closed = False, cp_ingested = [], cp_payloads = [], cp_nodes = [], cp_quarantine = []\<rparr>"

definition cp_codec :: payload_codec where
  "cp_codec = \<lparr>pc_event = \<lambda>_. None, pc_batch = \<lambda>_. Some (cp_batch ''n'' ''b'')\<rparr>"

definition no_digest :: digest where
  "no_digest _ = []"

lemma cp_not_blank: "\<not> blank ''n''" "\<not> blank ''b''" "\<not> blank ''q''" "\<not> blank ''cpu''"
  by code_simp+

lemma cp_trim_Nil: "trim_space [] = []"
  by code_simp

lemma cp_batch_valid: "telemetry_batch_validate (cp_batch ''n'' ''b'') = None"
  by (simp add: telemetry_batch_validate_def cp_batch_def cp_not_blank is_zero_def metric_sample_validate_def)

lemma cp_failure_valid: "quarantine_validate (cp_failure i n b) = None"
  by (simp add: quarantine_validate_def cp_failure_def)

lemma cp_failure_normal: "normalise_quarantine no_digest t (cp_failure i n b) = cp_failure i n b"
  by (simp add: normalise_quarantine_def cp_failure_def is_zero_def sanitize_failure_reason_def)

lemmas cp_eval = record_batch_def record_batch_tx_def record_quarantine_def replay_quarantine_record_def Let_def
  cp_guard_def is_ingested_def meta_of_def find_quarantine_def update_where_def get_quarantine_record_def
  cp_not_blank cp_trim_Nil cp_batch_valid cp_failure_valid cp_failure_normal is_zero_def reconstruct_batch_def cp_codec_def
  cp_run_def cp_empty_def blocking_def

section \<open>Properties\<close>


text \<open>
  C22. No batch is both ingested and in active quarantine, over any sequence of operations whose
  recorded failures name node and batch together or neither of them.
\<close>

theorem no_ingested_batch_in_quarantine:
  assumes "ingested_and_held s = []" and "list_all names_batch ops"
  shows "ingested_and_held (cp_run sha codec ops s) = []"
  using assms by (rule held_run)

theorem no_ingested_batch_in_quarantine_witness:
  "ingested_and_held (cp_run no_digest cp_codec
     [OpQuarantine IoOk 6 None (Some (cp_failure ''q'' ''n'' ''b'')), OpReplay IoOk 7 ''q'' [] ''op'' 7] cp_empty) = [] \<and>
   is_ingested ''n'' ''b'' (cp_run no_digest cp_codec
     [OpQuarantine IoOk 6 None (Some (cp_failure ''q'' ''n'' ''b'')), OpReplay IoOk 7 ''q'' [] ''op'' 7] cp_empty)"
proof
  show "ingested_and_held (cp_run no_digest cp_codec
     [OpQuarantine IoOk 6 None (Some (cp_failure ''q'' ''n'' ''b'')), OpReplay IoOk 7 ''q'' [] ''op'' 7] cp_empty) = []"
    by (rule no_ingested_batch_in_quarantine) (simp_all add: ingested_and_held_def cp_empty_def cp_failure_def)
  show "is_ingested ''n'' ''b'' (cp_run no_digest cp_codec
     [OpQuarantine IoOk 6 None (Some (cp_failure ''q'' ''n'' ''b'')), OpReplay IoOk 7 ''q'' [] ''op'' 7] cp_empty)"
    by (simp add: cp_eval) (simp add: cp_eval cp_failure_def cp_batch_def resolve_def)
qed

text \<open>
  The resolution of quarantined telemetry is final: once a record has been replayed or discarded,
  no operation changes its status, the time, the reason and the operator of the resolution, or the
  batch it names.
\<close>

theorem quarantine_resolution_is_final:
  assumes "find_quarantine i (cp_quarantine s) = Some r" and "q_terminal (qr_status r)"
  shows "\<exists>r'. find_quarantine i (cp_quarantine (cp_run sha codec ops s)) = Some r' \<and> same_resolution r r'"
  using assms by (rule resolution_run)

definition cp_discarded :: cp_store where
  "cp_discarded = cp_empty\<lparr>cp_quarantine := [(cp_failure ''q'' ''n'' ''b'')\<lparr>qr_status := QDiscarded, qr_status_by := ''op''\<rparr>]\<rparr>"

theorem quarantine_resolution_is_final_witness:
  "\<exists>r'. find_quarantine ''q'' (cp_quarantine (cp_run no_digest cp_codec
      [OpQuarantine IoOk 8 None (Some (cp_failure [] ''n'' ''b'')), OpReplay IoOk 9 ''q'' [] ''other'' 9] cp_discarded)) = Some r' \<and>
    qr_status r' = QDiscarded \<and> qr_status_by r' = ''op''"
proof -
  have "\<exists>r'. find_quarantine ''q'' (cp_quarantine (cp_run no_digest cp_codec
      [OpQuarantine IoOk 8 None (Some (cp_failure [] ''n'' ''b'')), OpReplay IoOk 9 ''q'' [] ''other'' 9] cp_discarded)) = Some r' \<and>
    same_resolution (hd (cp_quarantine cp_discarded)) r'"
    by (rule quarantine_resolution_is_final)
      (simp_all add: find_quarantine_def cp_discarded_def cp_empty_def cp_failure_def q_terminal_def)
  then show ?thesis by (auto simp: same_resolution_def cp_discarded_def cp_failure_def)
qed

text \<open>
  The node registry never goes back: a registered node stays registered, with its registration
  time, and the time it was last seen, its telemetry and heartbeat sequence numbers and its metadata
  version only grow, however late or repeated the requests about it are.
\<close>

theorem registry_never_goes_back:
  assumes "find_node n (cp_nodes s) = Some r"
  shows "\<exists>r'. find_node n (cp_nodes (cp_run sha codec ops s)) = Some r' \<and> registry_le r r'"
  using assms by (rule registry_run)

theorem registry_never_goes_back_witness:
  "\<exists>r'. find_node ''n'' (cp_nodes (cp_run no_digest cp_codec
      [OpHeartbeat IoOk ''n'' NodeStatusHealthy 1 3, OpRegister IoOk (Some (cp_node\<lparr>nd_registered_at := 1\<rparr>)), OpClose]
      (cp_empty\<lparr>cp_nodes := [cp_node]\<rparr>))) = Some r' \<and> registry_le cp_node r'"
  by (rule registry_never_goes_back) (simp add: find_node_def cp_node_def)

section \<open>Where records and promises part\<close>

text \<open>
  A failure that names the node alone is merged into the row of its deduplication key without asking
  whether the batch that results is ingested: the row then holds an ingested batch in active quarantine.
\<close>

definition half_named :: "cp_op list" where
  "half_named =
     [OpRecord IoOk (Some (cp_batch ''n'' ''b'')) 6,
      OpQuarantine IoOk 6 None (Some (cp_failure ''q'' [] ''b'')),
      OpQuarantine IoOk 7 None (Some (cp_failure [] ''n'' []))]"

theorem half_named_failure_holds_ingested_batch:
  "ingested_and_held (cp_run no_digest cp_codec half_named cp_empty) = [(''n'', ''b'')]"
proof -
  define s1 where "s1 = cp_exec no_digest cp_codec (OpRecord IoOk (Some (cp_batch ''n'' ''b'')) 6) cp_empty"
  have s1: "cp_quarantine s1 = []" "cp_closed s1 = False" "cp_ingested s1 = [meta_of (cp_batch ''n'' ''b'') 6]"
    by (simp_all add: s1_def record_batch_def record_batch_tx_def cp_batch_valid is_zero_def cp_guard_def cp_empty_def is_ingested_def)
  define s2 where "s2 = cp_exec no_digest cp_codec (OpQuarantine IoOk 6 None (Some (cp_failure ''q'' [] ''b''))) s1"
  have s2: "cp_quarantine s2 = [cp_failure ''q'' [] ''b'']" "cp_closed s2 = False" "cp_ingested s2 = cp_ingested s1"
    by (simp_all add: s2_def record_quarantine_def cp_failure_valid cp_failure_normal s1 find_quarantine_def Let_def)
      (simp_all add: cp_failure_def s1)
  have s3: "cp_quarantine (cp_exec no_digest cp_codec (OpQuarantine IoOk 7 None (Some (cp_failure [] ''n'' []))) s2) =
      [repeat_failure (cp_failure [] ''n'' []) (cp_failure [] ''n'' []) (cp_failure ''q'' [] ''b'')]"
    by (simp add: record_quarantine_def cp_failure_valid cp_failure_normal s2 Let_def) (simp add: cp_failure_def s2 update_where_def)
  have stands: "map (\<lambda>q. (qr_node_id q, qr_batch_id q)) (filter (\<lambda>q. qr_status q = QQuarantined)
      [repeat_failure (cp_failure [] ''n'' []) (cp_failure [] ''n'' []) (cp_failure ''q'' [] ''b'')]) = [(''n'', ''b'')]"
    by (simp add: repeat_failure_def cp_failure_def q_terminal_def or_else_def Let_def)
  show ?thesis
    unfolding half_named_def cp_run_def fold_simps comp_apply id_apply s1_def [symmetric] s2_def [symmetric]
      ingested_and_held_def s3 stands
    by (simp add: is_ingested_def s2 s1 meta_of_def cp_batch_def)
qed

text \<open>
  Once the payload of a discarded record has been pruned, a redelivery of the same message is refused
  with a payload conflict.
\<close>

theorem redelivery_after_pruning_conflicts:
  "fst (record_quarantine no_digest IoOk 20 None (Some (cp_failure [] ''n'' ''b''))
     (cp_run no_digest cp_codec [OpPruneQuarantine IoOk 10 0] cp_discarded)) = Inl (CpPayloadConflict ''k'' 0 1)"
  by (simp add: cp_discarded_def cp_eval prune_quarantine_payloads_def)
    (simp add: cp_failure_def prunable_quarantine_def)

end
