(* ===== verification/Cp_Server_Properties.thy ===== *)
theory Cp_Server_Properties
  imports Cp_Server_Safety Cp_Properties
begin

text \<open>
  The registry in memory and in the store, who can write, and what an acknowledged batch is worth.
\<close>

section \<open>Operations of a server\<close>

datatype sv_op =
    SvRequest http_env http_request
  | SvIngest db_io gotime telemetry_batch
  | SvQuarantine db_io gotime "nat list option" "quarantine_record option"
  | SvPrune "nat \<Rightarrow> db_io" gotime gotime
  | SvResize int
  | SvAuth auth_config
  | SvClose

fun sv_exec :: "crypto \<Rightarrow> decoders \<Rightarrow> sv_op \<Rightarrow> cp_server \<Rightarrow> cp_server" where
  "sv_exec cr de (SvRequest e q) s = snd (serve cr de e q s)"
| "sv_exec cr de (SvIngest io now b) s = snd (ingest_batch io now b s)"
| "sv_exec cr de (SvQuarantine io now rnd r) s = s\<lparr>sv_store := snd (record_quarantine (cr_sha cr) io now rnd r (sv_store s))\<rparr>"
| "sv_exec cr de (SvPrune io now now') s = snd (run_prune_pass io now now' s)"
| "sv_exec cr de (SvResize n) s = snd (set_max_history_size n s)"
| "sv_exec cr de (SvAuth cfg) s = set_auth_config cfg s"
| "sv_exec cr de SvClose s = server_close s"

definition sv_run :: "crypto \<Rightarrow> decoders \<Rightarrow> sv_op list \<Rightarrow> cp_server \<Rightarrow> cp_server" where
  "sv_run cr de ops s = fold (sv_exec cr de) ops s"

section \<open>The mirror\<close>

definition mirrors :: "node_record list \<Rightarrow> node_record list \<Rightarrow> bool" where
  "mirrors mem rows \<longleftrightarrow> (\<forall>n. find_node n mem = find_node n rows)"

definition dated :: "node_record list \<Rightarrow> bool" where
  "dated rows \<longleftrightarrow> list_all (\<lambda>r. \<not> is_zero (nd_updated_at r) \<and> \<not> is_zero (nd_registered_at r)) rows"

definition registry_inv :: "cp_server \<Rightarrow> bool" where
  "registry_inv s \<longleftrightarrow> mirrors (sv_nodes s) (cp_nodes (sv_store s)) \<and> dated (cp_nodes (sv_store s))"

lemma find_node_update_where:
  assumes "\<And>r. nd_node_id (f r) = nd_node_id r"
  shows "find_node n (update_where p f rows) = map_option (\<lambda>r. if p r then f r else r) (find_node n rows)"
  unfolding find_node_def by (rule find_key_update_where) (rule assms)

lemma find_node_append: "find_node n (rows @ [r]) =
    (case find_node n rows of None \<Rightarrow> if nd_node_id r = n then Some r else None | Some x \<Rightarrow> Some x)"
  by (simp add: find_node_def find_app split: option.split)

lemma mirrors_update:
  assumes "mirrors mem rows" and "\<And>r. nd_node_id (f r) = nd_node_id r"
  shows "mirrors (update_where p f mem) (update_where p f rows)"
  using assms by (simp add: mirrors_def find_node_update_where)

lemma keeps_node_id [simp]: "nd_node_id (advance_activity t sq r) = nd_node_id r" "nd_node_id (beat st sq t r) = nd_node_id r"
  "nd_node_id (reregister req r) = nd_node_id r" "nd_node_id (reconcile_node rec r) = nd_node_id r" "nd_node_id (new_node req) = nd_node_id req"
  by (simp_all add: advance_activity_def beat_def reregister_def merge_metadata_def reconcile_node_def new_node_def Let_def)

lemma find_node_id: "find_node n rows = Some r \<Longrightarrow> nd_node_id r = n"
  by (auto simp: find_node_def find_Some_iff)

lemma dated_update:
  assumes "dated rows" and "\<And>r. dated [r] \<Longrightarrow> dated [f r]"
  shows "dated (update_where p f rows)"
  using assms by (auto simp: dated_def list_all_iff update_where_def)

lemma dated_find: "dated rows \<Longrightarrow> find_node n rows = Some r \<Longrightarrow> dated [r]"
  by (auto simp: dated_def list_all_iff find_node_def find_Some_iff)

lemma dated_ops: "dated [r] \<Longrightarrow> dated [advance_activity t sq r]" "dated [r] \<Longrightarrow> dated [beat st sq t r]"
  "dated [r] \<Longrightarrow> dated [reregister req r]"
  by (auto simp: dated_def advance_activity_def beat_def reregister_def merge_metadata_def Let_def)

text \<open>Merging what the store has already merged changes nothing more.\<close>

lemma reconcile_reregister:
  assumes "dated [row]"
  shows "reconcile_node (reregister req row) row = reregister req row"
proof -
  have row: "\<not> is_zero (nd_updated_at row)" using assms by (simp add: dated_def)
  let ?stamp = "if is_zero (nd_updated_at req) then nd_registered_at row else nd_updated_at req"
  show ?thesis
  proof (cases "advances_metadata (nd_metadata_version req) ?stamp row")
    case True
    then show ?thesis using row
      by (auto simp: reconcile_node_def reregister_def merge_metadata_def advances_metadata_def Let_def or_else_def split: if_splits)
  next
    case False
    then have same: "merge_metadata req (nd_metadata_version req) ?stamp row = row" by (simp add: merge_metadata_def)
    then show ?thesis using row
      unfolding reregister_def Let_def same
      by (auto simp: reconcile_node_def advances_metadata_def Let_def or_else_def)
  qed
qed

lemma register_cases:
  assumes "fst (register_node io (Some req) st) = Inr n"
  obtains (fresh) "n" "find_node (nd_node_id req) (cp_nodes st) = None" "\<not> is_zero (nd_registered_at req)"
      "cp_nodes (snd (register_node io (Some req) st)) = cp_nodes st @ [new_node req]" "registered_record req st = new_node req"
  | (known) row where "\<not> n" "find_node (nd_node_id req) (cp_nodes st) = Some row"
      "cp_nodes (snd (register_node io (Some req) st)) =
         update_where (\<lambda>r. nd_node_id r = nd_node_id req) (reregister req) (cp_nodes st)"
      "registered_record req st = reregister req row"
  using assms by (auto simp: register_node_def registered_record_def split: if_splits option.splits)

lemma mirrors_register:
  assumes "mirrors mem (cp_nodes st)" and "dated (cp_nodes st)" and "fst (register_node io (Some req) st) = Inr n"
  shows "mirrors (let rec = registered_record req st
      in if n \<or> find_node (nd_node_id rec) mem = None then mem @ [rec]
         else update_where (\<lambda>r. nd_node_id r = nd_node_id rec) (reconcile_node rec) mem)
     (cp_nodes (snd (register_node io (Some req) st))) \<and>
    dated (cp_nodes (snd (register_node io (Some req) st)))"
  using assms(3)
proof (cases rule: register_cases)
  case fresh
  have a: "mirrors (let rec = registered_record req st
      in if n \<or> find_node (nd_node_id rec) mem = None then mem @ [rec]
         else update_where (\<lambda>r. nd_node_id r = nd_node_id rec) (reconcile_node rec) mem)
     (cp_nodes (snd (register_node io (Some req) st)))"
    using assms(1) fresh by (simp add: mirrors_def find_node_append)
  have "dated (cp_nodes (snd (register_node io (Some req) st)))"
    using assms(2) fresh(3) unfolding fresh(4) by (simp add: dated_def new_node_def)
  with a show ?thesis by (rule conjI)
next
  case (known row)
  have row: "dated [row]" "nd_node_id row = nd_node_id req" "find_node (nd_node_id req) mem = Some row"
    using assms(1,2) known(2) by (auto simp: mirrors_def dest: dated_find find_node_id)
  have same: "reconcile_node (reregister req row) row = reregister req row" by (rule reconcile_reregister) (rule row(1))
  have "find_node m (update_where (\<lambda>r. nd_node_id r = nd_node_id req) (reconcile_node (reregister req row)) mem) =
      find_node m (update_where (\<lambda>r. nd_node_id r = nd_node_id req) (reregister req) (cp_nodes st))" for m
  proof (cases "m = nd_node_id req")
    case True
    then show ?thesis using row known(2) same by (simp add: find_node_update_where)
  next
    case False
    then show ?thesis using assms(1)
      by (auto simp: find_node_update_where mirrors_def dest: find_node_id split: option.split intro!: map_option_cong)
  qed
  then have a: "mirrors (let rec = registered_record req st
      in if n \<or> find_node (nd_node_id rec) mem = None then mem @ [rec]
         else update_where (\<lambda>r. nd_node_id r = nd_node_id rec) (reconcile_node rec) mem)
     (cp_nodes (snd (register_node io (Some req) st)))"
    using known row by (simp add: mirrors_def)
  have "dated (cp_nodes (snd (register_node io (Some req) st)))"
    unfolding known(3) by (rule dated_update [OF assms(2) dated_ops(3)])
  with a show ?thesis by (rule conjI)
qed

lemma heartbeat_ok_cases:
  assumes "update_node_heartbeat io node st sq t sto = (None, sto')"
  obtains row where "find_node node (cp_nodes sto) = Some row"
    "cp_nodes sto' = update_where (\<lambda>r. nd_node_id r = node) (beat st sq t) (cp_nodes sto)"
  using assms by (auto simp: update_node_heartbeat_def split: if_splits option.splits)

lemma registry_inv_serve:
  assumes "registry_inv s" and "\<not> is_replay q"
  shows "registry_inv (snd (serve cr de e q s))"
proof -
  have keep: "registry_inv s'" if "sv_store s' = sv_store s" "sv_nodes s' = sv_nodes s" for s'
    using assms that by (simp add: registry_inv_def)
  have mirror: "mirrors (sv_nodes s) (cp_nodes (sv_store s))" "dated (cp_nodes (sv_store s))"
    using assms by (simp_all add: registry_inv_def)
  have ingest: "registry_inv (snd (handle_ingest_batch cr de e q s))"
  proof (cases cr de e q s rule: handle_ingest_cases)
    case kept
    then show ?thesis using keep by blast
  next
    case (recorded b)
    have "cp_nodes (sv_store (snd (handle_ingest_batch cr de e q s))) = activity_of b (he_now e) (cp_nodes (sv_store s))"
      using record_batch_inserted [OF recorded(2)] recorded(3) by simp
    then show ?thesis using recorded(4) mirror
      by (simp add: registry_inv_def mirrors_update dated_update [OF _ dated_ops(1)])
  qed
  have batches: "registry_inv (snd (handle_list_batches cr e q s))"
    by (rule keep) (simp_all add: handle_list_batches_def split_beta split: sum.split)
  have register: "registry_inv (snd (handle_node_register cr de e q s))"
  proof (cases cr de e q s rule: handle_register_cases)
    case kept
    then show ?thesis using keep by blast
  next
    case (registered req n)
    show ?thesis unfolding registry_inv_def registered(3,4)
      using mirrors_register [OF mirror registered(2)] by blast
  qed
  have heartbeat: "registry_inv (snd (handle_node_heartbeat cr de e q s))"
  proof (cases cr de e q s rule: handle_heartbeat_cases)
    case kept
    then show ?thesis using keep by blast
  next
    case (beaten hb t st)
    obtain row where row: "find_node (hb_node_id hb) (cp_nodes (sv_store s)) = Some row"
      "cp_nodes st = update_where (\<lambda>r. nd_node_id r = hb_node_id hb) (beat (hb_status hb) (hb_sequence_number hb) t) (cp_nodes (sv_store s))"
      using beaten(2) by (elim heartbeat_ok_cases) auto
    have "find_node (hb_node_id hb) (sv_nodes s) = Some row" using row(1) mirror(1) by (simp add: mirrors_def)
    then show ?thesis unfolding registry_inv_def beaten(3,4) row(2)
      using mirror by (simp add: heartbeat_in_memory_def mirrors_update dated_update [OF _ dated_ops(2)])
  qed
  have nodes: "registry_inv (snd (handle_nodes cr e q s))"
    by (rule keep) (simp_all add: handle_nodes_def Let_def split_beta split: sum.split option.split)
  have quarantine: "registry_inv (snd (handle_quarantine_route cr de e q s))"
    using handle_route_cases [of cr de e q s] assms by (auto simp: registry_inv_def)
  show ?thesis
    unfolding serve_def Let_def handle_telemetry_batches_def
    using ingest batches register heartbeat nodes quarantine assms(1) by simp
qed

lemma registry_inv_step:
  assumes "registry_inv s" and "case op of SvRequest e q \<Rightarrow> \<not> is_replay q | _ \<Rightarrow> True"
  shows "registry_inv (sv_exec cr de op s)"
proof (cases op)
  case (SvRequest e q)
  then show ?thesis using assms registry_inv_serve by simp
next
  case (SvIngest io now b)
  show ?thesis
  proof (cases "telemetry_batch_validate b = None \<and> fst (record_batch io (Some b) now (sv_store s)) = Inr True")
    case True
    then show ?thesis using assms record_batch_inserted [of io b now "sv_store s"] SvIngest
      by (simp add: ingest_batch_def split_beta remember_batch_def registry_inv_def mirrors_update dated_update [OF _ dated_ops(1)])
  next
    case False
    then have "sv_store (snd (ingest_batch io now b s)) = sv_store s \<and> sv_nodes (snd (ingest_batch io now b s)) = sv_nodes s"
      using record_batch_refused [of io b now "sv_store s"]
      by (auto simp: ingest_batch_def split_beta split: sum.split bool.split)
    then show ?thesis using assms SvIngest by (simp add: registry_inv_def)
  qed
next
  case (SvPrune io now now')
  have "cp_nodes (sv_store (snd (run_prune_pass io now now' s))) = cp_nodes (sv_store s) \<and> sv_nodes (snd (run_prune_pass io now now' s)) = sv_nodes s"
    by (auto simp: run_prune_pass_def run_quarantine_prune_pass_def Let_def split_beta split: sum.split)
  then show ?thesis using assms SvPrune by (simp add: registry_inv_def)
next
  case (SvResize n)
  then show ?thesis using assms by (simp add: set_max_history_size_def registry_inv_def split_beta)
qed (use assms in \<open>simp_all add: registry_inv_def set_auth_config_def server_close_def mark_shutting_down_def Let_def\<close>)

fun replays :: "sv_op \<Rightarrow> bool" where
  "replays (SvRequest e q) \<longleftrightarrow> is_replay q"
| "replays _ \<longleftrightarrow> False"

lemma registry_inv_run:
  "registry_inv s \<Longrightarrow> list_all (\<lambda>op. \<not> replays op) ops \<Longrightarrow> registry_inv (sv_run cr de ops s)"
proof (induction ops arbitrary: s)
  case Nil
  then show ?case by (simp add: sv_run_def)
next
  case (Cons op ops)
  then have "registry_inv (sv_exec cr de op s)" by (intro registry_inv_step) (auto split: sv_op.split)
  then show ?case using Cons by (simp add: sv_run_def)
qed

section \<open>A server over a store\<close>

lemma find_node_distinct:
  "distinct (map nd_node_id rows) \<Longrightarrow> find_node n rows = Some r \<longleftrightarrow> r \<in> set rows \<and> nd_node_id r = n"
  by (induction rows) (auto simp: find_node_def)

lemma find_node_sorted:
  assumes "distinct (map nd_node_id rows)"
  shows "find_node n (sort_key k rows) = find_node n rows"
proof -
  have "distinct (map nd_node_id (sort_key k rows))"
    using assms by (metis mset_map mset_eq_imp_distinct_iff mset_sort)
  then have "find_node n (sort_key k rows) = Some r \<longleftrightarrow> find_node n rows = Some r" for r
    using find_node_distinct [OF assms] by (simp add: find_node_distinct)
  then show ?thesis by (cases "find_node n rows") (metis option.exhaust)+
qed

lemma new_server_registry:
  assumes "distinct (map nd_node_id (cp_nodes st))" and "dated (cp_nodes st)" and "\<not> cp_closed st" and "io 0 = IoOk"
  shows "registry_inv (new_server io st m pc)"
  using assms
  by (simp add: registry_inv_def new_server_def Let_def list_nodes_def cp_guard_def mirrors_def find_node_sorted)

section \<open>Examples\<close>

definition toy_decoders :: decoders where
  "toy_decoders = \<lparr>de_batch = \<lambda>_. Some (cp_batch ''abc'' ''b''), de_registration = \<lambda>_. None, de_heartbeat = \<lambda>_. None,
     de_action = \<lambda>_. None, de_payload = cp_codec\<rparr>"

definition toy_env :: http_env where
  "toy_env = \<lparr>he_auth_now = 1000, he_cache_now = 1000, he_now = 1000, he_io = \<lambda>_. IoOk, he_probe = None\<rparr>"

definition toy_post :: http_request where
  "toy_post = \<lparr>hq_auth = toy_request, hq_path = ''/api/v1/telemetry/batches'', hq_query = [], hq_body = BodyRead []\<rparr>"

definition toy_server :: cp_server where
  "toy_server = \<lparr>sv_store = cp_empty, sv_history = new_history_ring 2, sv_nodes = [], sv_auth = toy_config,
     sv_cache = Some toy_cache, sv_init_failed = False, sv_down = False, sv_pruning = default_pruning_config\<rparr>"

section \<open>Properties\<close>

text \<open>
  C26. The registry in memory mirrors the durable one: a server started on a store whose rows carry
  distinct identifiers and dates holds, after any sequence of requests, deliveries, prune passes and
  configuration changes other than replays of quarantined telemetry, exactly the record of each node that
  the store holds, also when the database fails in between.
\<close>

theorem registry_mirrors_store:
  assumes "distinct (map nd_node_id (cp_nodes st))" and "dated (cp_nodes st)" and "\<not> cp_closed st" and "io 0 = IoOk"
    and "list_all (\<lambda>op. \<not> replays op) ops"
  shows "find_node n (sv_nodes (sv_run cr de ops (new_server io st m pc))) =
     find_node n (cp_nodes (sv_store (sv_run cr de ops (new_server io st m pc))))"
proof -
  have "registry_inv (sv_run cr de ops (new_server io st m pc))"
    by (rule registry_inv_run [OF new_server_registry [where io = io, OF assms(1-4)] assms(5)])
  then show ?thesis by (simp add: registry_inv_def mirrors_def)
qed

theorem registry_mirrors_store_witness:
  "find_node ''n'' (sv_nodes (sv_run toy_crypto toy_decoders [SvIngest IoOk 9 (cp_batch ''n'' ''b''), SvClose]
      (new_server (\<lambda>_. IoOk) (cp_empty\<lparr>cp_nodes := [cp_node]\<rparr>) 5 None))) =
   find_node ''n'' (cp_nodes (sv_store (sv_run toy_crypto toy_decoders [SvIngest IoOk 9 (cp_batch ''n'' ''b''), SvClose]
      (new_server (\<lambda>_. IoOk) (cp_empty\<lparr>cp_nodes := [cp_node]\<rparr>) 5 None))))"
  by (rule registry_mirrors_store) (simp_all add: cp_empty_def cp_node_def dated_def is_zero_def)

text \<open>Everything about other nodes, and the quarantine, is as it was.\<close>

definition only_about :: "string \<Rightarrow> cp_store \<Rightarrow> cp_store \<Rightarrow> bool" where
  "only_about n st st' \<longleftrightarrow> cp_quarantine st' = cp_quarantine st \<and>
     (\<forall>m. m \<noteq> n \<longrightarrow> find_node m (cp_nodes st') = find_node m (cp_nodes st) \<and> (\<forall>b. is_ingested m b st' = is_ingested m b st))"

lemma only_about_ingest:
  assumes "fst (record_batch io (Some b) t st) = Inr True"
  shows "only_about (tb_node_id b) st (snd (record_batch io (Some b) t st))"
  unfolding record_batch_inserted [OF assms] only_about_def
  by (auto simp: find_node_update_where is_ingested_def meta_of_def dest: find_node_id split: option.split intro!: option.map_ident_strong)

lemma only_about_register:
  assumes "fst (register_node io (Some req) st) = Inr n"
  shows "only_about (nd_node_id req) st (snd (register_node io (Some req) st))"
proof -
  have rest: "cp_quarantine (snd (register_node io (Some req) st)) = cp_quarantine st"
    "is_ingested m b (snd (register_node io (Some req) st)) = is_ingested m b st" for m b
    by (simp_all add: is_ingested_def)
  show ?thesis using assms
  proof (cases rule: register_cases)
    case fresh
    then show ?thesis by (auto simp: only_about_def rest find_node_append split: option.split)
  next
    case (known row)
    then show ?thesis
      by (auto simp: only_about_def rest find_node_update_where dest: find_node_id intro!: option.map_ident_strong)
  qed
qed

lemma only_about_heartbeat:
  assumes "update_node_heartbeat io node st sq t sto = (None, sto')"
  shows "only_about node sto sto'"
proof -
  have rest: "cp_quarantine sto' = cp_quarantine sto" "is_ingested m b sto' = is_ingested m b sto" for m b
    using node_ops_keep(3,4) [of io node st sq t sto] assms by (simp_all add: is_ingested_def)
  obtain row where "cp_nodes sto' = update_where (\<lambda>r. nd_node_id r = node) (beat st sq t) (cp_nodes sto)"
    using assms by (elim heartbeat_ok_cases) auto
  then show ?thesis
    by (auto simp: only_about_def rest find_node_update_where dest: find_node_id intro!: option.map_ident_strong)
qed

lemma accepted_for_proof:
  assumes "accepted_for cr e q s node" and "ac_enabled (sv_auth s)"
  obtains "admin_request s q"
  | body where "hq_body q = BodyRead body" "signed_by_node cr (sv_auth s) ((hq_auth q)\<lparr>rq_body := body\<rparr>)"
      "trim_space (rq_node_id (hq_auth q)) = node"
proof -
  obtain body x where x: "hq_body q = BodyRead body" "fst (authenticate cr e q body s) = Inr x" "ax_admin x \<or> ax_node_id x = node"
    using assms by (auto simp: accepted_for_def)
  show thesis
  proof (cases "ax_admin x")
    case True
    then show thesis using authenticate_admin [OF x(2)] that(1) by blast
  next
    case False
    have "fst (authenticate_request cr (sv_auth s) (he_auth_now e) (he_cache_now e) ((hq_auth q)\<lparr>rq_body := body\<rparr>) (sv_cache s)) = Inr x"
      using x(2) by (simp add: authenticate_def split_beta)
    from accepted_authentic [OF this assms(2) False] show thesis using that(2) x False by simp
  qed
qed

text \<open>
  C27. Only callers who have proved who they are change the store: with authentication enabled, a request
  leaves the store as it is, or carries the admin token, or is signed, over the body that was read, with
  the secret of the node it names, and then it changes nothing about other nodes and nothing in the
  quarantine.
\<close>

theorem only_proven_callers_write:
  assumes "ac_enabled (sv_auth s)"
  shows "sv_store (snd (serve cr de e q s)) = sv_store s \<or> admin_request s q \<or>
    (\<exists>body. hq_body q = BodyRead body \<and> signed_by_node cr (sv_auth s) ((hq_auth q)\<lparr>rq_body := body\<rparr>) \<and>
       only_about (trim_space (rq_node_id (hq_auth q))) (sv_store s) (sv_store (snd (serve cr de e q s))))"
proof -
  define ok where "ok s' \<longleftrightarrow> sv_store s' = sv_store s \<or> admin_request s q \<or>
    (\<exists>body. hq_body q = BodyRead body \<and> signed_by_node cr (sv_auth s) ((hq_auth q)\<lparr>rq_body := body\<rparr>) \<and>
       only_about (trim_space (rq_node_id (hq_auth q))) (sv_store s) (sv_store s'))" for s' :: cp_server
  have proven: "ok s'" if "accepted_for cr e q s node" "only_about node (sv_store s) (sv_store s')" for s' :: cp_server and node
    using that(1) assms by (cases rule: accepted_for_proof) (use that(2) in \<open>auto simp: ok_def\<close>)
  have keep: "ok s'" if "sv_store s' = sv_store s" for s' :: cp_server using that by (simp add: ok_def)
  have ingest: "ok (snd (handle_ingest_batch cr de e q s))"
    by (cases cr de e q s rule: handle_ingest_cases) (auto intro: keep proven simp: only_about_ingest)
  have batches: "ok (snd (handle_list_batches cr e q s))"
    by (rule keep) (simp add: handle_list_batches_def split_beta split: sum.split)
  have register: "ok (snd (handle_node_register cr de e q s))"
    by (cases cr de e q s rule: handle_register_cases) (auto intro: keep proven simp: only_about_register)
  have heartbeat: "ok (snd (handle_node_heartbeat cr de e q s))"
    by (cases cr de e q s rule: handle_heartbeat_cases) (auto intro: keep proven dest: only_about_heartbeat)
  have nodes: "ok (snd (handle_nodes cr e q s))"
    by (rule keep) (simp add: handle_nodes_def Let_def split_beta split: sum.split option.split)
  have quarantine: "ok (snd (handle_quarantine_route cr de e q s))"
    using handle_route_cases [of cr de e q s] by (auto simp: ok_def)
  have "ok (snd (serve cr de e q s))"
    unfolding serve_def Let_def handle_telemetry_batches_def
    using ingest batches register heartbeat nodes quarantine keep by simp
  then show ?thesis by (simp add: ok_def)
qed

theorem only_proven_callers_write_witness:
  "sv_store (snd (serve toy_crypto toy_decoders toy_env toy_post toy_server)) = sv_store toy_server \<or> admin_request toy_server toy_post \<or>
    (\<exists>body. hq_body toy_post = BodyRead body \<and>
       signed_by_node toy_crypto (sv_auth toy_server) ((hq_auth toy_post)\<lparr>rq_body := body\<rparr>) \<and>
       only_about (trim_space (rq_node_id (hq_auth toy_post))) (sv_store toy_server)
         (sv_store (snd (serve toy_crypto toy_decoders toy_env toy_post toy_server))))"
  by (rule only_proven_callers_write) (simp add: toy_server_def toy_config_def)

lemma record_batch_duplicate:
  "fst (record_batch io (Some b) t st) = Inr False \<Longrightarrow> is_ingested (tb_node_id b) (tb_batch_id b) st"
  by (auto simp: record_batch_def record_batch_tx_def split: if_splits option.splits)

lemma ingest_reply:
  assumes "fst (handle_ingest_batch cr de e q s) = (code, BodyIngest word b n t)"
  obtains (accepted) batch c where "tb_node_id batch = n" "tb_batch_id batch = b" "t = Some (he_now e)"
      "fst (record_batch (he_io e 0) (Some batch) (he_now e) (sv_store s)) = Inr True"
      "snd (handle_ingest_batch cr de e q s) = remember_batch batch (he_now e)
         (s\<lparr>sv_cache := c, sv_store := snd (record_batch (he_io e 0) (Some batch) (he_now e) (sv_store s))\<rparr>)"
  | (duplicate) batch where "tb_node_id batch = n" "tb_batch_id batch = b" "code = 200"
      "fst (record_batch (he_io e 0) (Some batch) (he_now e) (sv_store s)) = Inr False"
      "sv_store (snd (handle_ingest_batch cr de e q s)) = snd (record_batch (he_io e 0) (Some batch) (he_now e) (sv_store s))"
proof (cases "hq_body q")
  case (BodyRead body)
  obtain res c where au: "authenticate cr e q body s = (res, s\<lparr>sv_cache := c\<rparr>)"
    by (metis authenticate_frame prod.collapse)
  obtain x where x: "res = Inr x" using assms BodyRead au by (cases res) (auto simp: handle_ingest_batch_def write_auth_error_def)
  obtain batch where b: "de_batch de body = Some batch" "telemetry_batch_validate batch = None"
    "\<not> impersonates (s\<lparr>sv_cache := c\<rparr>) x (tb_node_id batch)"
    using assms BodyRead au x by (auto simp: handle_ingest_batch_def split: option.splits if_splits)
  define rb where "rb = record_batch (he_io e 0) (Some batch) (he_now e) (sv_store s)"
  have eq: "handle_ingest_batch cr de e q s = (case rb of
        (Inl _, st) \<Rightarrow> ((500, BodyError ''internal_server_error''), s\<lparr>sv_cache := c, sv_store := st\<rparr>)
      | (Inr False, st) \<Rightarrow>
          ((200, BodyIngest ''already_accepted'' (tb_batch_id batch) (tb_node_id batch) None), s\<lparr>sv_cache := c, sv_store := st\<rparr>)
      | (Inr True, st) \<Rightarrow>
          ((201, BodyIngest ''accepted'' (tb_batch_id batch) (tb_node_id batch) (Some (he_now e))),
           remember_batch batch (he_now e) (s\<lparr>sv_cache := c, sv_store := st\<rparr>)))"
    using BodyRead au x b by (simp add: handle_ingest_batch_def flip: rb_def)
  consider (t) "fst rb = Inr True" | (f) "fst rb = Inr False" | (l) err where "fst rb = Inl err"
    by (cases "fst rb") (auto intro: bool.exhaust)
  then show thesis
  proof cases
    case t
    then show thesis using assms eq by (intro accepted [of batch c]) (auto simp: split_beta rb_def)
  next
    case f
    then show thesis using assms eq by (intro duplicate [of batch]) (auto simp: split_beta rb_def)
  next
    case l
    then show thesis using assms eq by (simp add: split_beta)
  qed
qed (use assms in \<open>simp_all add: handle_ingest_batch_def\<close>)

lemma other_replies:
  "fst (handle_list_batches cr e q s) \<noteq> (code, BodyIngest w b n t)"
  "fst (handle_nodes cr e q s) \<noteq> (code, BodyIngest w b n t)"
  "fst (handle_node_heartbeat cr de e q s) \<noteq> (code, BodyIngest w b n t)"
  "fst (handle_node_register cr de e q s) \<noteq> (code, BodyIngest w b n t)"
  by (auto simp: handle_list_batches_def handle_nodes_def handle_node_heartbeat_def handle_node_register_def
      register_in_memory_def write_auth_error_def Let_def split_beta split: sum.split option.split body_read.split cp_err.split)

lemma admin_replies: "fst (check_admin_auth cr e q s) \<noteq> Some (code, BodyIngest w b n t)"
  by (auto simp: check_admin_auth_def Let_def split_beta split: sum.split)

lemma action_replies: "action_error err \<noteq> (code, BodyIngest w b n t)" "resolvable io i st \<noteq> Some (code, BodyIngest w b n t)"
  by (auto simp: action_error_def resolvable_def split: cp_err.split sum.split)

lemma quarantine_replies:
  "fst (handle_list_quarantine cr e q s) \<noteq> (code, BodyIngest w b n t)"
  "fst (handle_get_quarantine cr de e q i s) \<noteq> (code, BodyIngest w b n t)"
  "fst (handle_replay_quarantine cr de e q i s) \<noteq> (code, BodyIngest w b n t)"
  "fst (handle_discard_quarantine cr de e q i s) \<noteq> (code, BodyIngest w b n t)"
  by (auto simp: admin_replies action_replies handle_list_quarantine_def handle_get_quarantine_def handle_replay_quarantine_def handle_discard_quarantine_def
      split_beta split: sum.split option.split cp_err.split)

lemma route_replies: "fst (handle_quarantine_route cr de e q s) \<noteq> (code, BodyIngest w b n t)"
  using quarantine_replies
  by (auto simp: handle_quarantine_route_def Let_def split: list.split)

lemma serve_ingest_reply:
  assumes "fst (serve cr de e q s) = (code, BodyIngest word b n t)"
  shows "serve cr de e q s = handle_ingest_batch cr de e q s"
  using assms
  by (auto simp: serve_def Let_def handle_telemetry_batches_def handle_healthz_def handle_readyz_def other_replies route_replies
      split: if_splits)

text \<open>
  C28. An acknowledgement means durable: whenever the server answers a delivery over HTTP with a batch
  accepted or already accepted, the store holds the batch as ingested; and when it was accepted now, its
  payload is in the store under the time given in the answer and it is the newest batch of the history.
\<close>

theorem acknowledged_batch_is_durable:
  assumes "fst (serve cr de e q s) = (code, BodyIngest word b n t)"
  shows "is_ingested n b (sv_store (snd (serve cr de e q s))) \<and>
    (code = 201 \<longrightarrow> (\<exists>batch. tb_node_id batch = n \<and> tb_batch_id batch = b \<and> t = Some (he_now e) \<and>
       \<lparr>ir_batch = batch, ir_ingested_at = he_now e\<rparr> \<in> set (cp_payloads (sv_store (snd (serve cr de e q s)))) \<and>
       sv_history (snd (serve cr de e q s)) = ring_push \<lparr>ir_batch = batch, ir_ingested_at = he_now e\<rparr> (sv_history s)))"
proof -
  from assms have served: "serve cr de e q s = handle_ingest_batch cr de e q s" by (rule serve_ingest_reply)
  from assms have "fst (handle_ingest_batch cr de e q s) = (code, BodyIngest word b n t)" by (simp add: served)
  then show ?thesis
  proof (cases rule: ingest_reply)
    case (accepted batch c)
    show ?thesis unfolding served accepted(5) record_batch_inserted [OF accepted(4)]
      using accepted(1-3) by (auto simp: remember_batch_def is_ingested_iff)
  next
    case (duplicate batch)
    then show ?thesis using record_batch_duplicate [OF duplicate(4)]
      record_batch_refused [of "he_io e 0" batch "he_now e" "sv_store s"] by (simp add: served)
  qed
qed

lemma toy_post_accepted:
  "fst (authenticate toy_crypto toy_env toy_post [] toy_server) = Inr toy_context"
proof -
  have "(hq_auth toy_post)\<lparr>rq_body := []\<rparr> = toy_request" by (simp add: toy_post_def toy_request_def)
  then show ?thesis using toy_accepted by (simp add: authenticate_def split_beta toy_env_def toy_server_def)
qed

lemma toy_post_valid: "telemetry_batch_validate (cp_batch ''abc'' ''b'') = None"
proof -
  have "\<not> blank ''abc''" by code_simp
  then show ?thesis by (simp add: telemetry_batch_validate_def cp_batch_def cp_not_blank is_zero_def metric_sample_validate_def)
qed

lemma toy_post_reply:
  "fst (serve toy_crypto toy_decoders toy_env toy_post toy_server) = (201, BodyIngest ''accepted'' ''b'' ''abc'' (Some 1000))"
proof -
  obtain c where au: "authenticate toy_crypto toy_env toy_post [] toy_server = (Inr toy_context, toy_server\<lparr>sv_cache := c\<rparr>)"
    using toy_post_accepted by (metis authenticate_frame prod.collapse)
  have stored: "record_batch IoOk (Some (cp_batch ''abc'' ''b'')) 1000 cp_empty =
      (Inr True, cp_empty\<lparr>cp_ingested := [meta_of (cp_batch ''abc'' ''b'') 1000],
        cp_payloads := [\<lparr>ir_batch = cp_batch ''abc'' ''b'', ir_ingested_at = 1000\<rparr>], cp_nodes := []\<rparr>)"
    by (simp add: record_batch_def record_batch_tx_def toy_post_valid is_zero_def cp_guard_def cp_empty_def is_ingested_def update_where_def)
  have ids: "tb_node_id (cp_batch ''abc'' ''b'') = ''abc''" "tb_batch_id (cp_batch ''abc'' ''b'') = ''b''"
    by (simp_all add: cp_batch_def)
  have sel: "hq_body toy_post = BodyRead []" "hq_path toy_post = ''/api/v1/telemetry/batches''" "rq_method (hq_auth toy_post) = ''POST''"
    "he_io toy_env 0 = IoOk" "he_now toy_env = 1000" "sv_store toy_server = cp_empty" "\<not> sv_init_failed toy_server"
    "de_batch toy_decoders [] = Some (cp_batch ''abc'' ''b'')"
    by (simp_all add: toy_post_def toy_request_def toy_env_def toy_server_def toy_decoders_def)
  have "fst (handle_ingest_batch toy_crypto toy_decoders toy_env toy_post toy_server) =
      (201, BodyIngest ''accepted'' ''b'' ''abc'' (Some 1000))"
    by (simp add: handle_ingest_batch_def sel au stored toy_post_valid impersonates_def ids) (simp add: toy_context_def)
  then show ?thesis by (simp add: serve_def sel handle_telemetry_batches_def)
qed

theorem acknowledged_batch_is_durable_witness:
  "is_ingested ''abc'' ''b'' (sv_store (snd (serve toy_crypto toy_decoders toy_env toy_post toy_server)))"
  using acknowledged_batch_is_durable [OF toy_post_reply] by simp

section \<open>Where the server and its promises part\<close>

text \<open>
  A replay writes the batch and the activity of its node to the store, but not to the registry in memory.
\<close>

theorem replay_leaves_memory_behind:
  assumes "replay_quarantine_record codec io now i reason w stamp (sv_store s) = (Inr x, st)" and "\<not> rp_already_ingested x"
    and "registry_inv s" and "find_node (tb_node_id (rp_batch x)) (sv_nodes s) = Some r"
    and "nd_sequence_number r < tb_sequence_number (rp_batch x)"
  shows "\<not> mirrors (sv_nodes s) (cp_nodes st)"
proof -
  have st: "st = snd (replay_quarantine_record codec io now i reason w stamp (sv_store s))" by (simp add: assms(1))
  have fx: "fst (replay_quarantine_record codec io now i reason w stamp (sv_store s)) = Inr x" by (simp add: assms(1))
  obtain t where nodes: "cp_nodes st = activity_of (rp_batch x) t (cp_nodes (sv_store s))"
  proof (cases codec io now i reason w stamp "sv_store s" rule: replay_cases)
    case same
    with fx show thesis by simp
  next
    case already
    with fx assms(2) show thesis by simp
  next
    case (replayed r' b t why s1 x')
    then have b: "b = rp_batch x" using fx by simp
    have "cp_nodes s1 = activity_of b t (cp_nodes (sv_store s))"
      using replayed(4) by (cases b t i "sv_store s" rule: record_batch_tx_cases) auto
    then show thesis using that [of t] replayed(5) b by (simp add: st)
  qed
  have row: "find_node (tb_node_id (rp_batch x)) (cp_nodes (sv_store s)) = Some r"
    using assms(3,4) by (simp add: registry_inv_def mirrors_def)
  then have "find_node (tb_node_id (rp_batch x)) (cp_nodes st) = Some (advance_activity t (tb_sequence_number (rp_batch x)) r)"
    unfolding nodes by (auto simp: find_node_update_where dest: find_node_id)
  moreover have "advance_activity t (tb_sequence_number (rp_batch x)) r \<noteq> r"
    using assms(5) by (auto simp: advance_activity_def dest: arg_cong [of _ _ nd_sequence_number])
  ultimately show ?thesis using assms(4) unfolding mirrors_def by (metis option.inject)
qed

text \<open>
  A retention of more than 106751 days passes validation, but overflows the duration: the cutoff lies in
  the future, and a pass prunes the payloads that were ingested just now.
\<close>

definition long_retention :: pruning_config where
  "long_retention = default_pruning_config\<lparr>pc_enabled := True, pc_telemetry_days := 106752\<rparr>"

theorem long_retention_prunes_everything:
  "pruning_config_validate long_retention = None \<and>
   cp_payloads (sv_store (snd (run_prune_pass (\<lambda>_. IoOk) 1000 1000 (toy_server\<lparr>sv_pruning := long_retention,
     sv_store := cp_empty\<lparr>cp_payloads := [\<lparr>ir_batch = cp_batch ''n'' ''b'', ir_ingested_at = 1000\<rparr>]\<rparr>\<rparr>)))) = []"
  by (simp add: pruning_config_validate_def long_retention_def default_pruning_config_def run_prune_pass_def
      retention_cutoff_def to_int64_def prune_telemetry_payloads_def run_quarantine_prune_pass_def toy_server_def
      cp_empty_def is_zero_def cp_guard_def prunable_payload_def Let_def payload_key_def prune_quarantine_payloads_def update_where_def)

end
