(* ===== verification/Cp_Consumer.thy ===== *)
theory Cp_Consumer
  imports Cp_Server Sync_Transport "HOL-Library.Word"
begin

text \<open>
  \<open>services/control-plane/nats/consumer.go\<close>: the telemetry consumer over the control-plane server, whose
  SQLite store is the quarantine store and the idempotency store, as \<open>main.go\<close> wires it.  Stream
  sequences and delivery counts are 64-bit words.  The broker, the clock, the database and
  \<open>encoding/json\<close> are the environment of an operation; the map of pending items is a list of entries in
  the order the runtime walks it.  Logging is not modelled, save the flags it leaves in the state.
\<close>

section \<open>Configuration\<close>

record consumer_config =
  cc_stream :: string
  cc_consumer :: string
  cc_adv_stream :: string
  cc_adv_consumer :: string
  cc_max_deliver :: int
  cc_ack_wait :: duration
  cc_max_ack_pending :: int
  cc_retry_backoff :: duration
  cc_max_recovery_batch :: int
  cc_scan_interval :: duration
  cc_stalled_threshold :: duration

definition bad_name :: "string \<Rightarrow> bool" where
  "bad_name s \<longleftrightarrow> list_ex (\<lambda>c. c \<in> set [CHR '' '', CHR 0x09, CHR 0x0D, CHR 0x0A, CHR ''.'', CHR ''*'', CHR ''>'']) s"

definition stalled_default :: "duration \<Rightarrow> duration" where
  "stalled_default ack_wait = (let d = to_int64 (2 * ack_wait) in if d < 60 * second then 60 * second else d)"

text \<open>The defaults \<open>NewTelemetryConsumer\<close> fills in before it connects; a bad name is refused.\<close>

definition fill_names :: "consumer_config \<Rightarrow> consumer_config" where
  "fill_names c =
     c\<lparr>cc_stream := or_else (cc_stream c) ''AEGISEDGE_TELEMETRY'',
       cc_consumer := or_else (cc_consumer c) ''control-plane-telemetry''\<rparr>"

definition fill_numbers :: "consumer_config \<Rightarrow> consumer_config" where
  "fill_numbers c =
     (let ack_wait = (if cc_ack_wait c \<le> 0 then 30 * second else cc_ack_wait c)
      in c\<lparr>cc_max_deliver := (if cc_max_deliver c \<le> 0 then 5 else cc_max_deliver c),
           cc_ack_wait := ack_wait,
           cc_max_ack_pending := (if cc_max_ack_pending c \<le> 0 then 1000 else cc_max_ack_pending c),
           cc_retry_backoff := (if cc_retry_backoff c \<le> 0 then 100 * millisecond else cc_retry_backoff c),
           cc_max_recovery_batch := (if cc_max_recovery_batch c \<le> 0 then 100 else cc_max_recovery_batch c),
           cc_scan_interval := (if cc_scan_interval c \<le> 0 then 500 * millisecond else cc_scan_interval c),
           cc_stalled_threshold := (if cc_stalled_threshold c \<le> 0 then stalled_default ack_wait
             else cc_stalled_threshold c)\<rparr>)"

definition fill_advisory :: "consumer_config \<Rightarrow> consumer_config" where
  "fill_advisory c =
     c\<lparr>cc_adv_stream := or_else (cc_adv_stream c) (cc_stream c @ ''_ADVISORIES''),
       cc_adv_consumer := or_else (cc_adv_consumer c) (cc_consumer c @ ''-advisories'')\<rparr>"

section \<open>What the broker must provide\<close>

definition nats_tokens :: "string \<Rightarrow> string list" where
  "nats_tokens s = split_on (CHR ''.'') s"

fun tokens_cover :: "string list \<Rightarrow> string list \<Rightarrow> bool" where
  "tokens_cover [] ts = (ts = [])"
| "tokens_cover (p # ps) ts =
     (if p = ''>'' then True
      else case ts of [] \<Rightarrow> False
        | t # ts' \<Rightarrow> if p \<noteq> ''*'' \<and> p \<noteq> t then False else tokens_cover ps ts')"

definition nats_subject_covers :: "string \<Rightarrow> string \<Rightarrow> bool" where
  "nats_subject_covers pattern target =
     (if pattern = target \<or> pattern = ''>'' then True else tokens_cover (nats_tokens pattern) (nats_tokens target))"

datatype retention_policy = LimitsPolicy | InterestPolicy | WorkQueuePolicy
datatype discard_policy = DiscardOld | DiscardNew
datatype ack_policy = AckExplicitPolicy | AckAllPolicy | AckNonePolicy

record stream_config =
  st_subjects :: "string list"
  st_retention :: retention_policy
  st_discard :: discard_policy

record js_consumer_config =
  jc_ack_policy :: ack_policy
  jc_filter :: string

datatype setup_err =
    SetupBadName string | SetupConnect | SetupJetStream | SetupStream | SetupConsumer
  | SetupAdvisoryStream | SetupAdvisoryConsumer | SetupSubjects | SetupRetention | SetupDiscard
  | SetupAckPolicy | SetupFilter

definition validate_advisory_stream_config :: "stream_config \<Rightarrow> string \<Rightarrow> setup_err option" where
  "validate_advisory_stream_config cfg subject =
     (if \<not> list_ex (\<lambda>p. nats_subject_covers p subject) (st_subjects cfg) then Some SetupSubjects
      else if st_retention cfg \<noteq> LimitsPolicy then Some SetupRetention
      else if st_discard cfg \<noteq> DiscardOld then Some SetupDiscard
      else None)"

definition validate_advisory_consumer_config :: "js_consumer_config \<Rightarrow> string \<Rightarrow> setup_err option" where
  "validate_advisory_consumer_config cfg subject =
     (if jc_ack_policy cfg \<noteq> AckExplicitPolicy then Some SetupAckPolicy
      else if jc_filter cfg \<noteq> [] \<and> jc_filter cfg \<noteq> subject then Some SetupFilter
      else None)"

section \<open>State\<close>

record recovery_item =
  ri_seq :: "64 word"
  ri_delivery_count :: int
  ri_category :: q_category
  ri_reason :: string
  ri_subject :: string
  ri_node_id :: string
  ri_batch_id :: string
  ri_data :: string
  ri_attempts :: int
  ri_last_attempt :: gotime

record scan_retry_item =
  sc_seq :: "64 word"
  sc_attempts :: int
  sc_last_attempt :: gotime

record stalled_item =
  sl_seq :: "64 word"
  sl_first_observed :: gotime
  sl_last_observed :: gotime
  sl_warn_emitted :: bool
  sl_last_warn :: gotime

record telemetry_consumer =
  tc_server :: cp_server
  tc_config :: consumer_config
  tc_pending :: "recovery_item list"
  tc_retries :: "scan_retry_item list"
  tc_stalled :: "stalled_item list"
  tc_stalled_count :: int
  tc_exhausted :: "64 word set"
  tc_cursor :: "64 word"
  tc_cancelled :: bool
  tc_running :: bool
  tc_stopped :: bool
  tc_consumed :: int
  tc_exhausted_deliveries :: int
  tc_quarantined :: int
  tc_terminated :: int
  tc_recovered :: int
  tc_adv_msgs :: int
  tc_adv_bytes :: int
  tc_adv_pending_ack :: int
  tc_adv_backlog :: int
  tc_adv_fetch_errors :: int
  tc_adv_evictions :: int
  tc_adv_first_seq :: "64 word"

abbreviation tc_store :: "telemetry_consumer \<Rightarrow> cp_store" where
  "tc_store s \<equiv> sv_store (tc_server s)"

definition set_store :: "cp_store \<Rightarrow> telemetry_consumer \<Rightarrow> telemetry_consumer" where
  "set_store st s = s\<lparr>tc_server := (tc_server s)\<lparr>sv_store := st\<rparr>\<rparr>"

text \<open>
  \<open>NewTelemetryConsumer\<close>: what the broker answers.  An advisory stream or consumer that exists comes with
  its configuration, unless that cannot be read.
\<close>

datatype 'a lookup = Absent | Unreadable | Present 'a

record setup_env =
  su_connects :: bool
  su_jetstream :: bool
  su_stream :: bool
  su_consumer :: bool
  su_adv_stream :: "stream_config lookup"
  su_adv_stream_create :: bool
  su_adv_consumer :: "js_consumer_config lookup"
  su_adv_consumer_create :: bool

definition advisory_subject :: "string \<Rightarrow> string" where
  "advisory_subject stream = ''$JS.EVENT.ADVISORY.CONSUMER.MAX_DELIVERIES.'' @ stream @ ''.''"

definition setup_consumer :: "setup_env \<Rightarrow> consumer_config \<Rightarrow> setup_err + consumer_config" where
  "setup_consumer e cfg0 =
     (let c1 = fill_names cfg0
      in if bad_name (cc_stream c1) then Inl (SetupBadName (cc_stream c1))
         else if bad_name (cc_consumer c1) then Inl (SetupBadName (cc_consumer c1))
         else let c2 = fill_numbers c1; c3 = fill_advisory c2;
                  stream_filter = advisory_subject (cc_stream c3) @ ''>'';
                  consumer_filter = advisory_subject (cc_stream c3) @ cc_consumer c3
           in if \<not> su_connects e then Inl SetupConnect
              else if \<not> su_jetstream e then Inl SetupJetStream
              else if \<not> su_stream e then Inl SetupStream
              else if \<not> su_consumer e then Inl SetupConsumer
              else if bad_name (cc_adv_stream c3) then Inl (SetupBadName (cc_adv_stream c3))
              else if bad_name (cc_adv_consumer c3) then Inl (SetupBadName (cc_adv_consumer c3))
              else case (case su_adv_stream e of
                    Present sc \<Rightarrow> validate_advisory_stream_config sc stream_filter
                  | Unreadable \<Rightarrow> Some SetupAdvisoryStream
                  | Absent \<Rightarrow> if su_adv_stream_create e then None else Some SetupAdvisoryStream) of
                Some err \<Rightarrow> Inl err
              | None \<Rightarrow>
                  (case (case su_adv_consumer e of
                      Present jc \<Rightarrow> validate_advisory_consumer_config jc consumer_filter
                    | Unreadable \<Rightarrow> Some SetupAdvisoryConsumer
                    | Absent \<Rightarrow> if su_adv_consumer_create e then None else Some SetupAdvisoryConsumer) of
                    Some err \<Rightarrow> Inl err | None \<Rightarrow> Inr c3))"

text \<open>The options that change the configuration, applied last; an empty name or a number not positive is ignored.\<close>

datatype consumer_option =
    AdvisoryStreamName string | AdvisoryConsumerName string | MaxRecoveryBatch int | ScanInterval duration
  | StalledThreshold duration

fun apply_option :: "consumer_option \<Rightarrow> consumer_config \<Rightarrow> consumer_config" where
  "apply_option (AdvisoryStreamName n) c = (if n \<noteq> [] then c\<lparr>cc_adv_stream := n\<rparr> else c)"
| "apply_option (AdvisoryConsumerName n) c = (if n \<noteq> [] then c\<lparr>cc_adv_consumer := n\<rparr> else c)"
| "apply_option (MaxRecoveryBatch n) c = (if 0 < n then c\<lparr>cc_max_recovery_batch := n\<rparr> else c)"
| "apply_option (ScanInterval d) c = (if 0 < d then c\<lparr>cc_scan_interval := d\<rparr> else c)"
| "apply_option (StalledThreshold d) c = (if 0 < d then c\<lparr>cc_stalled_threshold := d\<rparr> else c)"

definition new_telemetry_consumer :: "setup_env \<Rightarrow> consumer_config \<Rightarrow> consumer_option list \<Rightarrow> cp_server \<Rightarrow> setup_err + telemetry_consumer" where
  "new_telemetry_consumer e cfg0 opts srv =
     (case setup_consumer e cfg0 of Inl err \<Rightarrow> Inl err | Inr cfg \<Rightarrow>
        Inr \<lparr>tc_server = srv, tc_config = fold apply_option opts cfg, tc_pending = [], tc_retries = [], tc_stalled = [], tc_stalled_count = 0,
             tc_exhausted = {}, tc_cursor = 0, tc_cancelled = False, tc_running = False, tc_stopped = False,
             tc_consumed = 0, tc_exhausted_deliveries = 0, tc_quarantined = 0, tc_terminated = 0, tc_recovered = 0,
             tc_adv_msgs = 0, tc_adv_bytes = 0, tc_adv_pending_ack = 0, tc_adv_backlog = 0, tc_adv_fetch_errors = 0,
             tc_adv_evictions = 0, tc_adv_first_seq = 0\<rparr>)"

definition consumer_start :: "telemetry_consumer \<Rightarrow> telemetry_consumer" where
  "consumer_start s = (if tc_running s then s else s\<lparr>tc_running := True\<rparr>)"

text \<open>\<open>Stop\<close>: the store is not the consumer's own, so it stays open.\<close>

definition consumer_stop :: "telemetry_consumer \<Rightarrow> telemetry_consumer" where
  "consumer_stop s =
     (if tc_stopped s then s
      else s\<lparr>tc_stopped := True, tc_running := False, tc_cancelled := True, tc_stalled := [], tc_stalled_count := 0\<rparr>)"

end
