(* ===== verification/Cp_Delivery.thy ===== *)
theory Cp_Delivery
  imports Cp_Consumer
begin

text \<open>
  \<open>services/control-plane/nats/consumer.go\<close>: the handling of one delivery, \<open>processMessage\<close>, and the cycle
  that fetches deliveries.
\<close>

section \<open>Messages\<close>

record nats_meta =
  mt_delivered :: "64 word"
  mt_seq :: "64 word"
  mt_stream :: string

text \<open>\<open>nm_msg_id\<close> is the header \<open>Nats-Msg-Id\<close>, empty where it is missing, of a message that has headers.\<close>

record nats_msg =
  nm_data :: string
  nm_subject :: string
  nm_msg_id :: "string option"
  nm_meta :: "nats_meta option"

text \<open>What the broker is told: nothing, so that the message is delivered again, or one of its verbs.\<close>

datatype disposition = Unanswered | Acked | Nacked | NackedAfter duration | Terminated

datatype failure_cause =
    CauseJson string | CauseEnvelope envelope_err | CauseBatch type_err | CauseIngest telemetry_batch | CauseStore cp_err

record consume_env =
  cv_ended :: "nat \<Rightarrow> bool"
  cv_decode :: "string \<Rightarrow> telemetry_event option"
  cv_render :: "failure_cause \<Rightarrow> string"
  cv_sha :: digest
  cv_ingest_io :: db_io
  cv_ingest_now :: gotime
  cv_quarantine_io :: db_io
  cv_now :: gotime
  cv_random :: "nat list option"
  cv_term_ok :: bool

definition extract_node_id :: "string \<Rightarrow> string" where
  "extract_node_id subject =
     (if has_prefix subject ''aegisedge.v1.telemetry.''
      then drop (length ''aegisedge.v1.telemetry.'') subject else [])"

definition header_batch_id :: "string option \<Rightarrow> string" where
  "header_batch_id h = (case h of None \<Rightarrow> [] | Some v \<Rightarrow> v)"

section \<open>Quarantine\<close>

text \<open>The record the consumer writes, in the three places that write one.\<close>

definition consumer_record ::
  "digest \<Rightarrow> gotime \<Rightarrow> string \<Rightarrow> string \<Rightarrow> 64 word option \<Rightarrow> string \<Rightarrow> string \<Rightarrow> string \<Rightarrow> string \<Rightarrow>
   q_category \<Rightarrow> string \<Rightarrow> int \<Rightarrow> quarantine_record" where
  "consumer_record sha now i stream sq subject node batch data category reason delivered_n =
     \<lparr>qr_id = i,
      qr_dedup_key = derive_dedup_key sha stream (map_option unat sq) node batch subject data,
      qr_source_stream = stream, qr_source_sequence = map_option unat sq, qr_source_subject = subject,
      qr_node_id = node, qr_batch_id = batch, qr_payload = data, qr_category = category,
      qr_reason = sanitize_failure_reason reason, qr_last_category = no_category, qr_last_reason = [],
      qr_delivery_count = delivered_n, qr_attempts = 1, qr_first_at = now, qr_last_at = now,
      qr_status = QQuarantined, qr_status_at = now, qr_status_reason = [], qr_status_by = [],
      qr_replay_metadata = [], qr_payload_size = 0\<rparr>"

definition write_record ::
  "digest \<Rightarrow> db_io \<Rightarrow> gotime \<Rightarrow> nat list option \<Rightarrow> (string \<Rightarrow> quarantine_record) \<Rightarrow> telemetry_consumer \<Rightarrow>
   (cp_err + quarantine_record) \<times> telemetry_consumer" where
  "write_record sha io now rnd mk s =
     (case generate_quarantine_id rnd of None \<Rightarrow> (Inl CpNoQuarantineId, s) | Some i \<Rightarrow>
        (case record_quarantine sha io now rnd (Some (mk i)) (tc_store s) of (res, st) \<Rightarrow> (res, set_store st s)))"

definition int_of_count :: "64 word \<Rightarrow> int" where
  "int_of_count w = sint w"

text \<open>\<open>markExhausted\<close>: an entry that exists is kept.\<close>

definition pending_for :: "64 word \<Rightarrow> telemetry_consumer \<Rightarrow> recovery_item option" where
  "pending_for sq s = find (\<lambda>r. ri_seq r = sq) (tc_pending s)"

definition mark_exhausted ::
  "64 word option \<Rightarrow> int \<Rightarrow> q_category \<Rightarrow> string \<Rightarrow> string \<Rightarrow> string \<Rightarrow> string \<Rightarrow> string \<Rightarrow>
   telemetry_consumer \<Rightarrow> telemetry_consumer" where
  "mark_exhausted sqo n category reason subject node batch data s =
     (case sqo of None \<Rightarrow> s | Some sq \<Rightarrow>
        let s1 = s\<lparr>tc_exhausted := insert sq (tc_exhausted s)\<rparr>
        in if pending_for sq s \<noteq> None then s1
           else s1\<lparr>tc_pending := tc_pending s @
             [\<lparr>ri_seq = sq, ri_delivery_count = n, ri_category = category, ri_reason = reason, ri_subject = subject,
               ri_node_id = node, ri_batch_id = batch, ri_data = data, ri_attempts = 0, ri_last_attempt = 0\<rparr>]\<rparr>)"

definition mark_sequence_exhausted :: "64 word \<Rightarrow> telemetry_consumer \<Rightarrow> telemetry_consumer" where
  "mark_sequence_exhausted sq s =
     mark_exhausted (Some sq) (cc_max_deliver (tc_config s)) CategoryDeliveryExhausted
       ''marked exhausted by operator or broker advisory'' [] [] [] [] s"

definition drop_pending :: "64 word \<Rightarrow> telemetry_consumer \<Rightarrow> telemetry_consumer" where
  "drop_pending sq s = s\<lparr>tc_pending := filter (\<lambda>r. ri_seq r \<noteq> sq) (tc_pending s)\<rparr>"

section \<open>One delivery\<close>

text \<open>
  The delay before a message is delivered again: the multiplier is a shifted \<open>int64\<close>, zero once the shift
  leaves the word, and the product wraps.
\<close>

definition retry_delay :: "duration \<Rightarrow> 64 word \<Rightarrow> duration" where
  "retry_delay base n =
     (let d = to_int64 (base * sint (push_bit (unat (n - 1)) (1 :: 64 word)))
      in if 5 * second < d then 5 * second else d)"

record delivery =
  dl_count :: "64 word"
  dl_seq :: "64 word option"
  dl_stream :: string

definition delivery_of :: "consumer_config \<Rightarrow> nats_msg \<Rightarrow> delivery" where
  "delivery_of cfg m =
     (case nm_meta m of
        None \<Rightarrow> \<lparr>dl_count = 1, dl_seq = None, dl_stream = cc_stream cfg\<rparr>
      | Some t \<Rightarrow> \<lparr>dl_count = mt_delivered t, dl_seq = Some (mt_seq t), dl_stream = or_else (mt_stream t) (cc_stream cfg)\<rparr>)"

definition last_delivery :: "consumer_config \<Rightarrow> delivery \<Rightarrow> bool" where
  "last_delivery cfg d \<longleftrightarrow> (word_of_int (cc_max_deliver cfg) :: 64 word) \<le> dl_count d"

definition message_record ::
  "consume_env \<Rightarrow> nats_msg \<Rightarrow> delivery \<Rightarrow> string \<Rightarrow> string \<Rightarrow> q_category \<Rightarrow> string \<Rightarrow> string \<Rightarrow> quarantine_record" where
  "message_record e m d node batch category reason i =
     consumer_record (cv_sha e) (cv_now e) i (dl_stream d) (dl_seq d) (nm_subject m) node batch (nm_data m) category reason
       (int_of_count (dl_count d))"

definition record_message ::
  "consume_env \<Rightarrow> nats_msg \<Rightarrow> delivery \<Rightarrow> string \<Rightarrow> string \<Rightarrow> q_category \<Rightarrow> string \<Rightarrow> telemetry_consumer \<Rightarrow>
   (cp_err + quarantine_record) \<times> telemetry_consumer" where
  "record_message e m d node batch category reason s =
     write_record (cv_sha e) (cv_quarantine_io e) (cv_now e) (cv_random e)
       (message_record e m d node batch category reason) s"

definition enqueue_recovery ::
  "nats_msg \<Rightarrow> delivery \<Rightarrow> string \<Rightarrow> string \<Rightarrow> q_category \<Rightarrow> string \<Rightarrow> telemetry_consumer \<Rightarrow> telemetry_consumer" where
  "enqueue_recovery m d node batch category reason s =
     mark_exhausted (dl_seq d) (int_of_count (dl_count d)) category reason (nm_subject m) node batch (nm_data m) s"

text \<open>\<open>termMessage\<close>: the verb may fail.\<close>

definition term_message :: "consume_env \<Rightarrow> telemetry_consumer \<Rightarrow> disposition \<times> telemetry_consumer" where
  "term_message e s = (if cv_term_ok e then (Terminated, s\<lparr>tc_terminated := tc_terminated s + 1\<rparr>) else (Unanswered, s))"

definition ack_consumed :: "telemetry_consumer \<Rightarrow> disposition \<times> telemetry_consumer" where
  "ack_consumed s = (Acked, s\<lparr>tc_consumed := tc_consumed s + 1\<rparr>)"

definition handle_permanent_failure ::
  "consume_env \<Rightarrow> nats_msg \<Rightarrow> delivery \<Rightarrow> q_category \<Rightarrow> string \<Rightarrow> string \<Rightarrow> string \<Rightarrow> telemetry_consumer \<Rightarrow>
   disposition \<times> telemetry_consumer" where
  "handle_permanent_failure e m d category reason node batch s =
     (case record_message e m d node batch category reason s of
        (Inr _, s1) \<Rightarrow> term_message e (s1\<lparr>tc_quarantined := tc_quarantined s1 + 1\<rparr>)
      | (Inl CpAlreadyIngested, s1) \<Rightarrow> ack_consumed s1
      | (Inl (CpPayloadConflict _ _ _), s1) \<Rightarrow> (Nacked, s1)
      | (Inl _, s1) \<Rightarrow>
          if \<not> last_delivery (tc_config s) d
          then (NackedAfter (retry_delay (cc_retry_backoff (tc_config s)) (dl_count d)), s1)
          else (Nacked, enqueue_recovery m d node batch category reason
                  (s1\<lparr>tc_exhausted_deliveries := tc_exhausted_deliveries s1 + 1\<rparr>)))"

text \<open>A transient failure: retried with a delay, or quarantined at the last delivery.\<close>

definition handle_transient_failure ::
  "consume_env \<Rightarrow> nats_msg \<Rightarrow> delivery \<Rightarrow> failure_cause \<Rightarrow> string \<Rightarrow> string \<Rightarrow> telemetry_consumer \<Rightarrow>
   disposition \<times> telemetry_consumer" where
  "handle_transient_failure e m d cause node batch s =
     (if \<not> last_delivery (tc_config s) d
      then (NackedAfter (retry_delay (cc_retry_backoff (tc_config s)) (dl_count d)), s)
      else
        let reason = ''delivery limit reached ('' @ show_nat (unat (dl_count d)) @ ''/'' @
              show_nat (nat (cc_max_deliver (tc_config s))) @ ''): storage failure: '' @ cv_render e cause;
            s0 = s\<lparr>tc_exhausted_deliveries := tc_exhausted_deliveries s + 1\<rparr>
        in case record_message e m d node batch CategoryDeliveryExhausted reason s0 of
          (Inr _, s1) \<Rightarrow> (Nacked, s1\<lparr>tc_quarantined := tc_quarantined s1 + 1\<rparr>)
        | (Inl CpAlreadyIngested, s1) \<Rightarrow> ack_consumed s1
        | (Inl _, s1) \<Rightarrow> (Nacked, enqueue_recovery m d node batch CategoryDeliveryExhausted reason s1))"

definition deliver_batch ::
  "consume_env \<Rightarrow> nats_msg \<Rightarrow> delivery \<Rightarrow> telemetry_event \<Rightarrow> telemetry_batch \<Rightarrow> telemetry_consumer \<Rightarrow>
   disposition \<times> telemetry_consumer" where
  "deliver_batch e m d ev b s =
     (if cv_ended e 1 then (Unanswered, s)
      else case ingest_batch (cv_ingest_io e) (cv_ingest_now e) b (tc_server s) of (res, srv) \<Rightarrow>
        let s1 = s\<lparr>tc_server := srv\<rparr>
        in if cv_ended e 2 \<or> res = IngestFailed (CpDb (IoCtx CtxCanceled)) then (Unanswered, s1)
           else case res of
             IngestDone \<Rightarrow> ack_consumed s1
           | IngestDuplicate \<Rightarrow> ack_consumed s1
           | IngestInvalid \<Rightarrow>
               handle_transient_failure e m d (CauseIngest b) (te_source_node_id ev) (tb_batch_id b) s1
           | IngestFailed CpInvalidMeta \<Rightarrow>
               handle_permanent_failure e m d CategorySchemaValidation
                 (''invalid_storage_meta: '' @ cv_render e (CauseStore CpInvalidMeta)) (tb_node_id b) (tb_batch_id b) s1
           | IngestFailed err \<Rightarrow>
               handle_transient_failure e m d (CauseStore err) (te_source_node_id ev) (tb_batch_id b) s1)"

definition process_message :: "consume_env \<Rightarrow> nats_msg \<Rightarrow> telemetry_consumer \<Rightarrow> disposition \<times> telemetry_consumer" where
  "process_message e m s =
     (if cv_ended e 0 then (Unanswered, s)
      else let d = delivery_of (tc_config s) m
        in case cv_decode e (nm_data m) of
          None \<Rightarrow>
            handle_permanent_failure e m d CategoryDeserialization
              (''malformed_json: '' @ cv_render e (CauseJson (nm_data m)))
              (extract_node_id (nm_subject m)) (header_batch_id (nm_msg_id m)) s
        | Some ev \<Rightarrow>
            (case telemetry_event_validate ev of
               Some err \<Rightarrow>
                 handle_permanent_failure e m d CategorySchemaValidation
                   (''invalid_envelope: '' @ cv_render e (CauseEnvelope err))
                   (or_else (te_source_node_id ev) (extract_node_id (nm_subject m))) [] s
             | None \<Rightarrow>
                 (case te_payload ev of
                    None \<Rightarrow> handle_permanent_failure e m d CategorySchemaValidation ''nil_payload'' (te_source_node_id ev) [] s
                  | Some b \<Rightarrow>
                      (case telemetry_batch_validate b of
                         Some err \<Rightarrow>
                           handle_permanent_failure e m d CategorySchemaValidation
                             (''invalid_domain_payload: '' @ cv_render e (CauseBatch err)) (tb_node_id b) (tb_batch_id b) s
                       | None \<Rightarrow> deliver_batch e m d ev b s))))"

text \<open>
  One turn of \<open>consumeLoop\<close> over the deliveries a fetch returned: the context is looked at before each, and
  ends the loop for good.
\<close>

fun consume_messages ::
  "(nat \<Rightarrow> bool) \<Rightarrow> nat \<Rightarrow> (consume_env \<times> nats_msg) list \<Rightarrow> telemetry_consumer \<Rightarrow> disposition list \<times> telemetry_consumer" where
  "consume_messages ended k [] s = ([], s)"
| "consume_messages ended k ((e, m) # ms) s =
     (if ended k then ([], s\<lparr>tc_running := False\<rparr>)
      else case process_message e m s of (dp, s1) \<Rightarrow>
        (case consume_messages ended (Suc k) ms s1 of (ds, s2) \<Rightarrow> (dp # ds, s2)))"

end
