(* ===== verification/Cp_Reconcile.thy ===== *)
theory Cp_Reconcile
  imports Cp_Delivery
begin

text \<open>
  \<open>services/control-plane/nats/consumer.go\<close>: what happens to messages the broker has given up on.  The
  advisories of the broker, the entries pending in memory and the scan of the unacknowledged range all end
  in the quarantine.  The two loops over a range of sequences count a 64-bit word up, and are written as
  they are: a loop that does not end has the value \<open>None\<close>.
\<close>

section \<open>Stalled sequences\<close>

definition set_stalled :: "stalled_item list \<Rightarrow> telemetry_consumer \<Rightarrow> telemetry_consumer" where
  "set_stalled xs s = s\<lparr>tc_stalled := xs, tc_stalled_count := int (length xs)\<rparr>"

definition clear_stalled_sequence :: "64 word \<Rightarrow> telemetry_consumer \<Rightarrow> telemetry_consumer" where
  "clear_stalled_sequence sq s =
     (if list_ex (\<lambda>x. sl_seq x = sq) (tc_stalled s)
      then set_stalled (filter (\<lambda>x. sl_seq x \<noteq> sq) (tc_stalled s)) s else s)"

definition stalled_threshold :: "consumer_config \<Rightarrow> duration" where
  "stalled_threshold cfg =
     (if cc_stalled_threshold cfg \<le> 0 then stalled_default (cc_ack_wait cfg) else cc_stalled_threshold cfg)"

text \<open>A sequence held longer than the threshold is warned about, and again every ten minutes.\<close>

definition observe_stalled :: "consumer_config \<Rightarrow> gotime \<Rightarrow> stalled_item \<Rightarrow> stalled_item" where
  "observe_stalled cfg now x =
     (if stalled_threshold cfg \<le> time_sub now (sl_first_observed x) \<and>
         (\<not> sl_warn_emitted x \<or> (\<not> is_zero (sl_last_warn x) \<and> 10 * minute \<le> time_sub now (sl_last_warn x)))
      then x\<lparr>sl_warn_emitted := True, sl_last_warn := now\<rparr> else x)"

definition record_stalled_sequence :: "gotime \<Rightarrow> 64 word \<Rightarrow> telemetry_consumer \<Rightarrow> telemetry_consumer" where
  "record_stalled_sequence now sq s =
     (if list_ex (\<lambda>x. sl_seq x = sq) (tc_stalled s)
      then s\<lparr>tc_stalled := update_where (\<lambda>x. sl_seq x = sq)
               (\<lambda>x. observe_stalled (tc_config s) now (x\<lparr>sl_last_observed := now\<rparr>)) (tc_stalled s)\<rparr>
      else set_stalled (tc_stalled s @ [observe_stalled (tc_config s) now
             \<lparr>sl_seq = sq, sl_first_observed = now, sl_last_observed = now, sl_warn_emitted = False, sl_last_warn = 0\<rparr>]) s)"

text \<open>What the broker says of its consumer.\<close>

record consumer_info =
  ci_ack_pending :: int
  ci_delivered :: "64 word"
  ci_ack_floor :: "64 word"

definition nothing_pending :: "consumer_info \<Rightarrow> bool" where
  "nothing_pending i \<longleftrightarrow> ci_ack_pending i = 0 \<or> ci_delivered i \<le> ci_ack_floor i"

definition prune_stalled_sequences :: "consumer_info option \<Rightarrow> telemetry_consumer \<Rightarrow> telemetry_consumer" where
  "prune_stalled_sequences io s =
     (case io of None \<Rightarrow> s | Some i \<Rightarrow>
        if nothing_pending i then (if tc_stalled s \<noteq> [] then set_stalled [] s else s)
        else let kept_items = filter (\<lambda>x. \<not> (sl_seq x \<le> ci_ack_floor i \<or> ci_delivered i < sl_seq x)) (tc_stalled s)
          in if length kept_items \<noteq> length (tc_stalled s) then set_stalled kept_items s else s)"

record stalled_info =
  sf_seq :: "64 word"
  sf_first_observed :: gotime
  sf_last_observed :: gotime
  sf_elapsed :: duration
  sf_warn_emitted :: bool

definition stalled_sequences :: "gotime \<Rightarrow> telemetry_consumer \<Rightarrow> stalled_info list" where
  "stalled_sequences now s =
     map (\<lambda>x. \<lparr>sf_seq = sl_seq x, sf_first_observed = sl_first_observed x, sf_last_observed = sl_last_observed x,
               sf_elapsed = time_sub now (sl_first_observed x), sf_warn_emitted = sl_warn_emitted x\<rparr>) (tc_stalled s)"

section \<open>Recovering one sequence\<close>

record raw_msg =
  rw_data :: string
  rw_subject :: string
  rw_msg_id :: "string option"

datatype fetched = Fetched raw_msg | MsgNotFound | FetchFault

record recover_env =
  re_fetch :: "64 word \<Rightarrow> fetched"
  re_decode :: "string \<Rightarrow> telemetry_event option"
  re_render :: "failure_cause \<Rightarrow> string"
  re_sha :: digest
  re_check_io :: db_io
  re_io :: db_io
  re_now :: gotime
  re_random :: "nat list option"

datatype recover_err =
    RecoverNotFound | RecoverFetch | RecoverIngested | RecoverNotEligible | RecoverCheck cp_err | RecoverStore cp_err

definition already_ingested :: "recover_err \<Rightarrow> bool" where
  "already_ingested e \<longleftrightarrow> e = RecoverIngested \<or> e = RecoverStore CpAlreadyIngested"

record verdict =
  vd_category :: q_category
  vd_reason :: string
  vd_node :: string
  vd_batch :: string
  vd_poison :: bool

definition inspect_raw :: "recover_env \<Rightarrow> raw_msg \<Rightarrow> verdict" where
  "inspect_raw e m =
     (case re_decode e (rw_data m) of
        None \<Rightarrow> \<lparr>vd_category = CategoryDeserialization, vd_reason = ''malformed_json: '' @ re_render e (CauseJson (rw_data m)),
                 vd_node = extract_node_id (rw_subject m), vd_batch = header_batch_id (rw_msg_id m), vd_poison = True\<rparr>
      | Some ev \<Rightarrow>
          (case telemetry_event_validate ev of
             Some err \<Rightarrow> \<lparr>vd_category = CategorySchemaValidation, vd_reason = ''invalid_envelope: '' @ re_render e (CauseEnvelope err),
                 vd_node = or_else (te_source_node_id ev) (extract_node_id (rw_subject m)), vd_batch = [], vd_poison = True\<rparr>
           | None \<Rightarrow>
               (case te_payload ev of
                  None \<Rightarrow> \<lparr>vd_category = CategorySchemaValidation, vd_reason = ''nil_payload'',
                      vd_node = te_source_node_id ev, vd_batch = [], vd_poison = True\<rparr>
                | Some b \<Rightarrow>
                    (case telemetry_batch_validate b of
                       Some err \<Rightarrow> \<lparr>vd_category = CategorySchemaValidation,
                           vd_reason = ''invalid_domain_payload: '' @ re_render e (CauseBatch err),
                           vd_node = tb_node_id b, vd_batch = tb_batch_id b, vd_poison = True\<rparr>
                     | None \<Rightarrow> \<lparr>vd_category = CategoryDeliveryExhausted,
                           vd_reason = ''recovered from stream after delivery exhaustion'',
                           vd_node = te_source_node_id ev, vd_batch = tb_batch_id b, vd_poison = False\<rparr>))))"

text \<open>
  Whether a message may be quarantined: a poisoned one always, a valid one when the store does not hold its
  batch and its exhaustion is known.
\<close>

definition eligible :: "recover_env \<Rightarrow> bool \<Rightarrow> 64 word \<Rightarrow> verdict \<Rightarrow> telemetry_consumer \<Rightarrow> recover_err option" where
  "eligible e force sq v s =
     (if vd_poison v then None
      else case has_batch (re_check_io e) (vd_node v) (vd_batch v) (tc_store s) of
        Inl err \<Rightarrow> Some (RecoverCheck err)
      | Inr True \<Rightarrow> Some RecoverIngested
      | Inr False \<Rightarrow> if force \<or> sq \<in> tc_exhausted s then None else Some RecoverNotEligible)"

definition count_recovered :: "quarantine_record \<Rightarrow> telemetry_consumer \<Rightarrow> telemetry_consumer" where
  "count_recovered r s =
     (if qr_attempts r = 1
      then s\<lparr>tc_quarantined := tc_quarantined s + 1, tc_recovered := tc_recovered s + 1\<rparr> else s)"

definition recover_stream_sequence ::
  "recover_env \<Rightarrow> bool \<Rightarrow> 64 word \<Rightarrow> telemetry_consumer \<Rightarrow> (recover_err + quarantine_record) \<times> telemetry_consumer" where
  "recover_stream_sequence e force sq s =
     (case re_fetch e sq of
        MsgNotFound \<Rightarrow> (Inl RecoverNotFound, s)
      | FetchFault \<Rightarrow> (Inl RecoverFetch, s)
      | Fetched m \<Rightarrow>
      let v = inspect_raw e m
      in case eligible e force sq v s of Some err \<Rightarrow> (Inl err, s) | None \<Rightarrow>
         case write_record (re_sha e) (re_io e) (re_now e) (re_random e)
             (\<lambda>i. consumer_record (re_sha e) (re_now e) i (cc_stream (tc_config s)) (Some sq) (rw_subject m)
                 (vd_node v) (vd_batch v) (rw_data m) (vd_category v) (vd_reason v) (cc_max_deliver (tc_config s))) s of
           (Inl err, s1) \<Rightarrow> (Inl (RecoverStore err), s1)
         | (Inr r, s1) \<Rightarrow>
             let s2 = count_recovered r s1;
                 s3 = (if force then s2\<lparr>tc_exhausted := insert sq (tc_exhausted s2)\<rparr> else s2)
             in (Inr r, clear_stalled_sequence sq (drop_pending sq s3)))"

section \<open>Ranges\<close>

partial_function (option) range_loop ::
  "(nat \<Rightarrow> recover_env) \<Rightarrow> (nat \<Rightarrow> bool) \<Rightarrow> bool \<Rightarrow> nat \<Rightarrow> 64 word \<Rightarrow> 64 word \<Rightarrow> int \<Rightarrow> telemetry_consumer \<Rightarrow>
   (int \<times> bool \<times> telemetry_consumer) option" where
  "range_loop envs ended force k sq last_seq n s =
     (if \<not> sq \<le> last_seq then Some (n, False, s)
      else if ended k then Some (n, True, s)
      else range_loop envs ended force (Suc k) (sq + 1) last_seq
             (case fst (recover_stream_sequence (envs k) force sq s) of Inl _ \<Rightarrow> n | Inr _ \<Rightarrow> n + 1)
             (snd (recover_stream_sequence (envs k) force sq s)))"

text \<open>The flag tells that the context ended the loop.\<close>

definition recover_stream_range ::
  "(nat \<Rightarrow> recover_env) \<Rightarrow> (nat \<Rightarrow> bool) \<Rightarrow> bool \<Rightarrow> 64 word \<Rightarrow> 64 word \<Rightarrow> telemetry_consumer \<Rightarrow>
   (int \<times> bool \<times> telemetry_consumer) option" where
  "recover_stream_range envs ended force first_seq last_seq s =
     (if last_seq < first_seq then Some (0, False, s) else range_loop envs ended force 0 first_seq last_seq 0 s)"

section \<open>The scan of the unacknowledged range\<close>

text \<open>An entry that failed waits 50 ms, doubled with each attempt, two seconds at most.\<close>

definition item_backoff :: "int \<Rightarrow> duration" where
  "item_backoff attempts =
     (if 0 < attempts
      then min (2 * second) (50 * millisecond * 2 ^ nat (min (attempts - 1) 6))
      else 50 * millisecond)"

definition due :: "gotime \<Rightarrow> int \<Rightarrow> gotime \<Rightarrow> bool" where
  "due now attempts last_attempt \<longleftrightarrow> item_backoff attempts \<le> time_sub now last_attempt"

definition drop_retry :: "64 word \<Rightarrow> telemetry_consumer \<Rightarrow> telemetry_consumer" where
  "drop_retry sq s = s\<lparr>tc_retries := filter (\<lambda>r. sc_seq r \<noteq> sq) (tc_retries s)\<rparr>"

text \<open>A retry that fails again is counted, and dropped after fifteen failures.\<close>

definition fail_retry :: "gotime \<Rightarrow> 64 word \<Rightarrow> telemetry_consumer \<Rightarrow> telemetry_consumer" where
  "fail_retry now sq s =
     s\<lparr>tc_retries := filter (\<lambda>r. \<not> (sc_seq r = sq \<and> 15 < sc_attempts r))
         (update_where (\<lambda>r. sc_seq r = sq) (\<lambda>r. r\<lparr>sc_attempts := sc_attempts r + 1, sc_last_attempt := now\<rparr>) (tc_retries s))\<rparr>"

definition add_retry :: "gotime \<Rightarrow> 64 word \<Rightarrow> telemetry_consumer \<Rightarrow> telemetry_consumer" where
  "add_retry now sq s =
     (if list_ex (\<lambda>r. sc_seq r = sq) (tc_retries s) then s
      else s\<lparr>tc_retries := tc_retries s @ [\<lparr>sc_seq = sq, sc_attempts = 1, sc_last_attempt = now\<rparr>]\<rparr>)"

text \<open>What the result of a recovery means for the scan; \<open>failed\<close> is what a transient error does.\<close>

definition settle_scan ::
  "gotime \<Rightarrow> 64 word \<Rightarrow> (telemetry_consumer \<Rightarrow> telemetry_consumer) \<Rightarrow> recover_err + quarantine_record \<Rightarrow>
   telemetry_consumer \<Rightarrow> bool \<times> telemetry_consumer" where
  "settle_scan now sq failed res s =
     (case res of
        Inr _ \<Rightarrow> (True, drop_retry sq (clear_stalled_sequence sq s))
      | Inl err \<Rightarrow>
          if already_ingested err \<or> err = RecoverNotFound then (True, drop_retry sq (clear_stalled_sequence sq s))
          else if err = RecoverNotEligible then (True, drop_retry sq (record_stalled_sequence now sq s))
          else (False, failed s))"

record scan_env =
  sn_recover :: "nat \<Rightarrow> recover_env"
  sn_ended :: "nat \<Rightarrow> bool"
  sn_clock :: "nat \<Rightarrow> gotime"

fun retry_scan ::
  "scan_env \<Rightarrow> nat \<Rightarrow> scan_retry_item list \<Rightarrow> int \<Rightarrow> 64 word list \<Rightarrow> telemetry_consumer \<Rightarrow>
   int \<times> 64 word list \<times> bool \<times> telemetry_consumer" where
  "retry_scan e k [] n seen s = (n, seen, False, s)"
| "retry_scan e k (x # xs) n seen s =
     (if sn_ended e k then (n, seen, True, s)
      else case recover_stream_sequence (sn_recover e k) False (sc_seq x) s of (res, s1) \<Rightarrow>
        case settle_scan (sn_clock e k) (sc_seq x) (fail_retry (sn_clock e k) (sc_seq x)) res s1 of (handled, s2) \<Rightarrow>
          retry_scan e (Suc k) xs (case res of Inl _ \<Rightarrow> n | Inr _ \<Rightarrow> n + 1)
            (if handled then sc_seq x # seen else seen) s2)"

text \<open>The loop over the range; sequences the retries have dealt with are skipped.\<close>

definition scan_step :: "scan_env \<Rightarrow> nat \<Rightarrow> 64 word list \<Rightarrow> 64 word \<Rightarrow> int \<times> telemetry_consumer \<Rightarrow> int \<times> telemetry_consumer" where
  "scan_step e k seen sq ns =
     (case ns of (n, s) \<Rightarrow>
        if sq \<in> set seen then (n, s)
        else case recover_stream_sequence (sn_recover e k) False sq s of (res, s1) \<Rightarrow>
          (case res of Inl _ \<Rightarrow> n | Inr _ \<Rightarrow> n + 1,
           snd (settle_scan (sn_clock e k) sq (add_retry (sn_clock e k) sq) res s1)))"

partial_function (option) scan_loop ::
  "scan_env \<Rightarrow> nat \<Rightarrow> 64 word list \<Rightarrow> 64 word \<Rightarrow> 64 word \<Rightarrow> int \<times> telemetry_consumer \<Rightarrow>
   (bool \<times> int \<times> telemetry_consumer) option" where
  "scan_loop e k seen sq last_seq ns =
     (if \<not> sq \<le> last_seq then Some (False, ns)
      else if sn_ended e k then Some (True, ns)
      else scan_loop e (Suc k) seen (sq + 1) last_seq (scan_step e k seen sq ns))"

definition scan_first :: "consumer_info \<Rightarrow> telemetry_consumer \<Rightarrow> 64 word" where
  "scan_first i s = (if ci_ack_floor i + 1 < tc_cursor s then tc_cursor s else ci_ack_floor i + 1)"

definition scan_last :: "consumer_info \<Rightarrow> telemetry_consumer \<Rightarrow> 64 word" where
  "scan_last i s =
     (let w = (word_of_int (cc_max_recovery_batch (tc_config s)) :: 64 word);
          size_w = (if w = 0 then 100 else w);
          stop = scan_first i s + size_w - 1
      in if ci_delivered i < stop then ci_delivered i else stop)"

datatype scan_result = ScanNoInfo | ScanDone int | ScanEnded int

definition recover_unacknowledged ::
  "scan_env \<Rightarrow> gotime \<Rightarrow> consumer_info option \<Rightarrow> telemetry_consumer \<Rightarrow> (scan_result \<times> telemetry_consumer) option" where
  "recover_unacknowledged e now io s =
     (case io of None \<Rightarrow> Some (ScanNoInfo, s) | Some i \<Rightarrow>
        let s0 = prune_stalled_sequences (Some i) s;
            retries = filter (\<lambda>r. due now (sc_attempts r) (sc_last_attempt r)) (tc_retries s0)
        in case retry_scan e 0 retries 0 [] s0 of (n, seen, ended, s1) \<Rightarrow>
          if ended then Some (ScanEnded n, s1)
          else if nothing_pending i then Some (ScanDone n, s1)
          else let first_seq = scan_first i s1; last_seq = scan_last i s1
            in if last_seq < first_seq then Some (ScanDone n, s1)
               else map_option (\<lambda>(ended, n', s2).
                      if ended then (ScanEnded n', s2)
                      else (ScanDone n', s2\<lparr>tc_cursor := (if ci_delivered i \<le> last_seq then ci_ack_floor i + 1 else last_seq + 1)\<rparr>))
                    (scan_loop e (length retries) seen first_seq last_seq (n, s1)))"

end
