(* ===== verification/Cp_Advisory.thy ===== *)
theory Cp_Advisory
  imports Cp_Reconcile
begin

text \<open>
  \<open>services/control-plane/nats/consumer.go\<close>: the advisories of the broker, the pass over the entries
  pending in memory, and the worker that runs them with the scan.
\<close>

section \<open>Advisories\<close>

record advisory =
  av_stream :: string
  av_consumer :: string
  av_stream_seq :: "64 word"
  av_deliveries :: "64 word"

datatype advisory_err = AdvisoryJson | AdvisoryNoSequence | AdvisoryStream | AdvisoryConsumer | AdvisoryDeliveries

definition validate_advisory ::
  "(string \<Rightarrow> advisory option) \<Rightarrow> consumer_config \<Rightarrow> string \<Rightarrow> advisory_err + advisory" where
  "validate_advisory decode cfg data =
     (case decode data of None \<Rightarrow> Inl AdvisoryJson | Some a \<Rightarrow>
        if av_stream_seq a = 0 then Inl AdvisoryNoSequence
        else if av_stream a \<noteq> [] \<and> av_stream a \<noteq> cc_stream cfg then Inl AdvisoryStream
        else if av_consumer a \<noteq> [] \<and> av_consumer a \<noteq> cc_consumer cfg then Inl AdvisoryConsumer
        else if 0 < av_deliveries a \<and> av_deliveries a < word_of_int (cc_max_deliver cfg) then Inl AdvisoryDeliveries
        else Inr a)"

text \<open>An advisory of the live subscription has no message to answer; its disposition is \<open>Unanswered\<close>.\<close>

definition handle_advisory_data ::
  "(string \<Rightarrow> advisory option) \<Rightarrow> recover_env \<Rightarrow> bool \<Rightarrow> bool \<Rightarrow> string \<Rightarrow> telemetry_consumer \<Rightarrow>
   disposition \<times> telemetry_consumer" where
  "handle_advisory_data decode e has_msg delay_ok data s =
     (let ack = (if has_msg then Acked else Unanswered)
      in case validate_advisory decode (tc_config s) data of Inl _ \<Rightarrow> (ack, s) | Inr a \<Rightarrow>
        let sq = av_stream_seq a;
            s0 = s\<lparr>tc_exhausted := insert sq (tc_exhausted s)\<rparr>
        in case recover_stream_sequence e True sq s0 of
             (Inr _, s1) \<Rightarrow> (ack, s1)
           | (Inl err, s1) \<Rightarrow>
               if already_ingested err then (ack, clear_stalled_sequence sq (drop_pending sq s1))
               else if err = RecoverNotFound then (ack, s1)
               else if (case err of RecoverStore (CpPayloadConflict _ _ _) \<Rightarrow> True | _ \<Rightarrow> False) then (ack, s1)
               else (if has_msg then (if delay_ok then NackedAfter (cc_retry_backoff (tc_config s)) else Nacked) else Unanswered,
                     mark_exhausted (Some sq) (sint (av_deliveries a)) CategoryDeliveryExhausted
                       ''broker max-deliveries advisory received'' [] [] [] [] s1))"

text \<open>A fetch from the advisory stream: what it returned, and how the iteration over it ended.\<close>

datatype fetch_end = FetchQuiet | FetchError

datatype advisory_fetch =
    FetchFailed fetch_end
  | FetchedAdvisories "(recover_env \<times> bool \<times> string) list" fetch_end

fun handle_advisories ::
  "(string \<Rightarrow> advisory option) \<Rightarrow> (nat \<Rightarrow> bool) \<Rightarrow> nat \<Rightarrow> (recover_env \<times> bool \<times> string) list \<Rightarrow> telemetry_consumer \<Rightarrow>
   bool \<times> disposition list \<times> telemetry_consumer" where
  "handle_advisories decode ended k [] s = (False, [], s)"
| "handle_advisories decode ended k ((e, delay_ok, data) # ms) s =
     (if ended k then (True, [], s)
      else case handle_advisory_data decode e True delay_ok data s of (dp, s1) \<Rightarrow>
        (case handle_advisories decode ended (Suc k) ms s1 of (stop, ds, s2) \<Rightarrow> (stop, dp # ds, s2)))"

definition count_fetch_error :: "telemetry_consumer \<Rightarrow> telemetry_consumer" where
  "count_fetch_error s = s\<lparr>tc_adv_fetch_errors := tc_adv_fetch_errors s + 1\<rparr>"

definition reconcile_durable_advisories ::
  "(string \<Rightarrow> advisory option) \<Rightarrow> (nat \<Rightarrow> bool) \<Rightarrow> advisory_fetch \<Rightarrow> telemetry_consumer \<Rightarrow>
   disposition list \<times> telemetry_consumer" where
  "reconcile_durable_advisories decode ended f s =
     (case f of
        FetchFailed FetchQuiet \<Rightarrow> ([], s)
      | FetchFailed FetchError \<Rightarrow> ([], count_fetch_error s)
      | FetchedAdvisories ms how \<Rightarrow>
          (case handle_advisories decode ended 0 ms s of (stop, ds, s1) \<Rightarrow>
             (ds, if \<not> stop \<and> how = FetchError \<and> \<not> ended (length ms) then count_fetch_error s1 else s1)))"

record stream_info =
  si_msgs :: "64 word"
  si_bytes :: "64 word"
  si_first_seq :: "64 word"
  si_max_msgs :: int
  si_max_bytes :: int
  si_discard :: discard_policy

definition at_capacity :: "stream_info \<Rightarrow> bool" where
  "at_capacity i \<longleftrightarrow> (0 < si_max_msgs i \<and> word_of_int (si_max_msgs i) \<le> si_msgs i) \<or>
     (0 < si_max_bytes i \<and> word_of_int (si_max_bytes i) \<le> si_bytes i)"

text \<open>Advisories that left a full stream: the step of its first sequence since the last look.\<close>

definition evicted_count :: "64 word \<Rightarrow> stream_info \<Rightarrow> int" where
  "evicted_count previous i =
     (if 0 < previous \<and> previous < si_first_seq i then sint (si_first_seq i - previous)
      else if previous = 0 \<and> 1 < si_first_seq i then sint (si_first_seq i - 1)
      else 0)"

definition inspect_advisory_stream_health ::
  "stream_info option \<Rightarrow> (64 word \<times> int) option \<Rightarrow> telemetry_consumer \<Rightarrow> telemetry_consumer" where
  "inspect_advisory_stream_health io co s =
     (case io of None \<Rightarrow> s | Some i \<Rightarrow>
        let n = (if si_discard i = DiscardOld \<and> at_capacity i then evicted_count (tc_adv_first_seq s) i else 0);
            s1 = s\<lparr>tc_adv_msgs := sint (si_msgs i), tc_adv_bytes := sint (si_bytes i), tc_adv_first_seq := si_first_seq i,
                   tc_adv_evictions := (if 0 < n then tc_adv_evictions s + n else tc_adv_evictions s)\<rparr>
        in case co of None \<Rightarrow> s1
           | Some (pending_n, ack_pending) \<Rightarrow> s1\<lparr>tc_adv_backlog := sint pending_n, tc_adv_pending_ack := ack_pending\<rparr>)"

section \<open>Entries pending in memory\<close>

text \<open>
  What an entry lacks is read from the stream; a message that cannot be read is passed over, and the entry
  is recorded as it stands.
\<close>

definition complete_item :: "recover_env \<Rightarrow> recovery_item \<Rightarrow> recovery_item" where
  "complete_item e x =
     (if ri_data x = [] \<or> ri_node_id x = [] \<or> ri_batch_id x = []
      then (case re_fetch e (ri_seq x) of
          Fetched m \<Rightarrow>
            let ev = re_decode e (rw_data m);
                node1 = (case ev of Some v \<Rightarrow> or_else (ri_node_id x) (te_source_node_id v) | None \<Rightarrow> ri_node_id x);
                batch1 = (case ev of
                    Some v \<Rightarrow> (case te_payload v of Some b \<Rightarrow> or_else (ri_batch_id x) (tb_batch_id b) | None \<Rightarrow> ri_batch_id x)
                  | None \<Rightarrow> ri_batch_id x)
            in x\<lparr>ri_data := or_else (ri_data x) (rw_data m), ri_subject := or_else (ri_subject x) (rw_subject m),
                 ri_node_id := or_else node1 (extract_node_id (rw_subject m)),
                 ri_batch_id := or_else batch1 (header_batch_id (rw_msg_id m))\<rparr>
        | _ \<Rightarrow> x)
      else x)"

definition fail_item :: "gotime \<Rightarrow> 64 word \<Rightarrow> telemetry_consumer \<Rightarrow> telemetry_consumer" where
  "fail_item now sq s =
     s\<lparr>tc_pending := update_where (\<lambda>r. ri_seq r = sq)
         (\<lambda>r. r\<lparr>ri_attempts := ri_attempts r + 1, ri_last_attempt := now\<rparr>) (tc_pending s)\<rparr>"

definition release_item :: "64 word \<Rightarrow> telemetry_consumer \<Rightarrow> telemetry_consumer" where
  "release_item sq s = clear_stalled_sequence sq (drop_pending sq s)"

definition item_record :: "recover_env \<Rightarrow> consumer_config \<Rightarrow> recovery_item \<Rightarrow> string \<Rightarrow> quarantine_record" where
  "item_record e cfg x i =
     consumer_record (re_sha e) (re_now e) i (cc_stream cfg) (Some (ri_seq x)) (ri_subject x) (ri_node_id x)
       (ri_batch_id x) (ri_data x) (ri_category x) (ri_reason x) (ri_delivery_count x)"

definition recover_item :: "recover_env \<Rightarrow> gotime \<Rightarrow> recovery_item \<Rightarrow> telemetry_consumer \<Rightarrow> telemetry_consumer" where
  "recover_item e failed_at x s =
     (if generate_quarantine_id (re_random e) = None then s
      else case write_record (re_sha e) (re_io e) (re_now e) (re_random e) (item_record e (tc_config s) (complete_item e x)) s of
        (Inr r, s1) \<Rightarrow> release_item (ri_seq x) (count_recovered r s1)
      | (Inl CpAlreadyIngested, s1) \<Rightarrow> release_item (ri_seq x) s1
      | (Inl (CpPayloadConflict _ _ _), s1) \<Rightarrow> release_item (ri_seq x) s1
      | (Inl _, s1) \<Rightarrow> fail_item failed_at (ri_seq x) s1)"

fun recover_items :: "scan_env \<Rightarrow> nat \<Rightarrow> recovery_item list \<Rightarrow> telemetry_consumer \<Rightarrow> telemetry_consumer" where
  "recover_items e k [] s = s"
| "recover_items e k (x # xs) s =
     (if sn_ended e k then s
      else recover_items e (Suc k) xs (recover_item (sn_recover e k) (sn_clock e k) x s))"

definition process_pending_recovery_pass :: "scan_env \<Rightarrow> gotime \<Rightarrow> telemetry_consumer \<Rightarrow> telemetry_consumer" where
  "process_pending_recovery_pass e now s =
     recover_items e 0 (filter (\<lambda>x. due now (ri_attempts x) (ri_last_attempt x)) (tc_pending s)) s"

section \<open>The worker\<close>

text \<open>One turn of \<open>recoveryWorkerLoop\<close>, on startup and at every tick.\<close>

record worker_env =
  we_stream :: "stream_info option"
  we_consumer :: "(64 word \<times> int) option"
  we_decode :: "string \<Rightarrow> advisory option"
  we_fetch_ended :: "nat \<Rightarrow> bool"
  we_fetch :: advisory_fetch
  we_pending :: scan_env
  we_pending_now :: gotime
  we_scan :: scan_env
  we_scan_now :: gotime
  we_info :: "consumer_info option"

definition recovery_worker_pass :: "worker_env \<Rightarrow> telemetry_consumer \<Rightarrow> telemetry_consumer option" where
  "recovery_worker_pass e s =
     (let s1 = inspect_advisory_stream_health (we_stream e) (we_consumer e) s;
          s2 = snd (reconcile_durable_advisories (we_decode e) (we_fetch_ended e) (we_fetch e) s1);
          s3 = process_pending_recovery_pass (we_pending e) (we_pending_now e) s2
      in map_option snd (recover_unacknowledged (we_scan e) (we_scan_now e) (we_info e) s3))"

end
