(* ===== verification/Cp_Consumer_Safety.thy ===== *)
theory Cp_Consumer_Safety
  imports Cp_Advisory Cp_Server_Properties
begin

text \<open>
  What the handling of a delivery and of an exhausted message leaves in the store and in memory.
\<close>

section \<open>Quarantine writes\<close>

lemma derive_dedup_key_nonempty [simp]: "derive_dedup_key sha stream sq node batch subject payload \<noteq> []"
  by (simp add: derive_dedup_key_def Let_def split: option.split)

lemma normalise_quarantine_keeps [simp]:
  "qr_payload (normalise_quarantine sha now r) = qr_payload r"
  "qr_dedup_key r \<noteq> [] \<Longrightarrow> qr_dedup_key (normalise_quarantine sha now r) = qr_dedup_key r"
  "qr_id (normalise_quarantine sha now r) = qr_id r"
  by (simp_all add: normalise_quarantine_def Let_def)

lemma repeat_failure_keeps [simp]:
  "qr_payload (repeat_failure raw rec row) = qr_payload row"
  "qr_dedup_key (repeat_failure raw rec row) = qr_dedup_key row"
  "qr_id (repeat_failure raw rec row) = qr_id row"
  by (simp_all add: repeat_failure_def Let_def)

text \<open>A row of the quarantine under a key, with a payload.\<close>

definition quarantined_as :: "string \<Rightarrow> string \<Rightarrow> cp_store \<Rightarrow> bool" where
  "quarantined_as key payload s \<longleftrightarrow> list_ex (\<lambda>q. qr_dedup_key q = key \<and> qr_payload q = payload) (cp_quarantine s)"

lemma find_in_set: "find p xs = Some x \<Longrightarrow> x \<in> set xs \<and> p x"
  by (induction xs) (auto split: if_splits)

lemma record_quarantine_answers:
  assumes "record_quarantine sha io now rnd (Some raw) s = (res, s')" and "qr_dedup_key raw \<noteq> []"
  shows "(\<forall>r. res = Inr r \<longrightarrow> quarantined_as (qr_dedup_key raw) (qr_payload raw) s')
    \<and> (res = Inl CpAlreadyIngested \<longrightarrow> is_ingested (qr_node_id raw) (qr_batch_id raw) s')
    \<and> (\<forall>k m n. res = Inl (CpPayloadConflict k m n) \<longrightarrow>
        list_ex (\<lambda>q. qr_dedup_key q = qr_dedup_key raw \<and> qr_payload q \<noteq> qr_payload raw) (cp_quarantine s'))
    \<and> (\<forall>e. res = Inl e \<longrightarrow> s' = s)
    \<and> cp_ingested s' = cp_ingested s"
proof -
  define rec where "rec = normalise_quarantine sha now raw"
  have rec: "qr_dedup_key rec = qr_dedup_key raw" "qr_payload rec = qr_payload raw" "qr_node_id rec = qr_node_id raw"
    "qr_batch_id rec = qr_batch_id raw" using assms(2) by (simp_all add: rec_def normalise_quarantine_def Let_def)
  show ?thesis
  proof (cases "quarantine_validate raw \<noteq> None \<or> cp_closed s \<or> max_dedup_key < length (qr_dedup_key rec) \<or> io \<noteq> IoOk \<or>
      (qr_node_id rec \<noteq> [] \<and> qr_batch_id rec \<noteq> [] \<and> is_ingested (qr_node_id rec) (qr_batch_id rec) s)")
    case True
    have "s' = s \<and> (\<exists>e. res = Inl e \<and> (\<forall>k m n. e \<noteq> CpPayloadConflict k m n) \<and>
        (e = CpAlreadyIngested \<longrightarrow> is_ingested (qr_node_id rec) (qr_batch_id rec) s))"
      using assms(1) True unfolding record_quarantine_def Let_def option.case rec_def [symmetric]
      by (auto simp: quarantine_validate_def split: if_splits option.splits)
    with rec show ?thesis by auto
  next
    case False
    then have open_: "quarantine_validate raw = None" "\<not> cp_closed s" "\<not> max_dedup_key < length (qr_dedup_key rec)" "io = IoOk"
      "\<not> (qr_node_id rec \<noteq> [] \<and> qr_batch_id rec \<noteq> [] \<and> is_ingested (qr_node_id rec) (qr_batch_id rec) s)" by auto
    have core: "(res, s') =
        (case find (\<lambda>q. qr_dedup_key q = qr_dedup_key rec) (cp_quarantine s) of
          Some row \<Rightarrow>
            if qr_payload row \<noteq> qr_payload rec
            then (Inl (CpPayloadConflict (qr_dedup_key rec) (length (qr_payload row)) (length (qr_payload rec))), s)
            else (Inr (repeated_answer raw rec row),
                  s\<lparr>cp_quarantine := update_where (\<lambda>q. qr_id q = qr_id row) (repeat_failure raw rec) (cp_quarantine s)\<rparr>)
        | None \<Rightarrow>
            (case (if qr_id rec = [] then generate_quarantine_id rnd else Some (qr_id rec)) of
               None \<Rightarrow> (Inl CpNoQuarantineId, s)
             | Some i \<Rightarrow>
                 if find_quarantine i (cp_quarantine s) \<noteq> None then (Inl (CpDb IoFault), s)
                 else (Inr (rec\<lparr>qr_id := i\<rparr>), s\<lparr>cp_quarantine := cp_quarantine s @ [rec\<lparr>qr_id := i\<rparr>]\<rparr>)))"
      unfolding assms(1) [symmetric] using open_(5)
      by (simp only: record_quarantine_def option.case Let_def open_ if_False simp_thms flip: rec_def)
    show ?thesis
    proof (cases "find (\<lambda>q. qr_dedup_key q = qr_dedup_key rec) (cp_quarantine s)")
      case row: (Some row)
      note in_table = find_in_set [OF row]
      show ?thesis
      proof (cases "qr_payload row = qr_payload rec")
        case True
        with row have eq: "res = Inr (repeated_answer raw rec row)"
          "s' = s\<lparr>cp_quarantine := update_where (\<lambda>q. qr_id q = qr_id row) (repeat_failure raw rec) (cp_quarantine s)\<rparr>"
          using core by simp_all
        have "repeat_failure raw rec row \<in> set (cp_quarantine s')"
          using in_table by (force simp: eq update_where_def)
        then have "quarantined_as (qr_dedup_key raw) (qr_payload raw) s'"
          using in_table True rec unfolding quarantined_as_def list_ex_iff
          by (intro bexI [of _ "repeat_failure raw rec row"]) simp_all
        with eq show ?thesis by simp
      next
        case False
        with row have eq: "res = Inl (CpPayloadConflict (qr_dedup_key rec) (length (qr_payload row)) (length (qr_payload rec)))" "s' = s"
          using core by simp_all
        with in_table False rec show ?thesis by (auto simp: list_ex_iff)
      qed
    next
      case none: None
      then show ?thesis
        using core rec by (auto simp: quarantined_as_def split: option.splits if_splits)
    qed
  qed
qed


text \<open>A write of the consumer: the answer, what it means, and what the write leaves alone.\<close>

lemma consumer_record_fields [simp]:
  "qr_dedup_key (consumer_record sha now i stream sq subject node batch data category reason n) =
     derive_dedup_key sha stream (map_option unat sq) node batch subject data"
  "qr_payload (consumer_record sha now i stream sq subject node batch data category reason n) = data"
  "qr_node_id (consumer_record sha now i stream sq subject node batch data category reason n) = node"
  "qr_batch_id (consumer_record sha now i stream sq subject node batch data category reason n) = batch"
  by (simp_all add: consumer_record_def)

lemma set_store_fields [simp]:
  "tc_store (set_store st s) = st" "tc_pending (set_store st s) = tc_pending s" "tc_config (set_store st s) = tc_config s"
  "tc_exhausted (set_store st s) = tc_exhausted s" "tc_stalled (set_store st s) = tc_stalled s"
  "tc_stalled_count (set_store st s) = tc_stalled_count s" "tc_retries (set_store st s) = tc_retries s"
  by (simp_all add: set_store_def)

lemma write_record_answers:
  assumes "write_record sha io now rnd mk s = (res, s')"
    and "\<And>i. qr_dedup_key (mk i) = key" "\<And>i. qr_payload (mk i) = payload" "\<And>i. qr_node_id (mk i) = node"
      "\<And>i. qr_batch_id (mk i) = batch" "key \<noteq> []"
  shows "(\<forall>r. res = Inr r \<longrightarrow> quarantined_as key payload (tc_store s'))
    \<and> (res = Inl CpAlreadyIngested \<longrightarrow> is_ingested node batch (tc_store s'))
    \<and> (\<forall>k m n. res = Inl (CpPayloadConflict k m n) \<longrightarrow>
        list_ex (\<lambda>q. qr_dedup_key q = key \<and> qr_payload q \<noteq> payload) (cp_quarantine (tc_store s')))
    \<and> (\<forall>e. res = Inl e \<longrightarrow> tc_store s' = tc_store s)
    \<and> cp_ingested (tc_store s') = cp_ingested (tc_store s)"
proof (cases "generate_quarantine_id rnd")
  case None
  with assms(1) show ?thesis by (auto simp: write_record_def)
next
  case (Some i)
  obtain res0 st where eq: "record_quarantine sha io now rnd (Some (mk i)) (tc_store s) = (res0, st)" by fastforce
  with assms(1) Some have res: "res = res0" "s' = set_store st s" by (auto simp: write_record_def)
  show ?thesis
    unfolding res set_store_fields by (rule record_quarantine_answers [OF eq, unfolded assms(2-5), OF assms(6)])
qed

lemma write_record_keeps:
  assumes "write_record sha io now rnd mk s = (res, s')"
  shows "tc_pending s' = tc_pending s \<and> tc_config s' = tc_config s \<and> tc_exhausted s' = tc_exhausted s \<and>
    tc_stalled s' = tc_stalled s \<and> tc_stalled_count s' = tc_stalled_count s \<and> tc_retries s' = tc_retries s"
  using assms by (auto simp: write_record_def split: option.splits prod.splits)

section \<open>Deliveries\<close>

definition message_key :: "consume_env \<Rightarrow> consumer_config \<Rightarrow> nats_msg \<Rightarrow> string \<Rightarrow> string \<Rightarrow> string" where
  "message_key e cfg m node batch =
     (let d = delivery_of cfg m
      in derive_dedup_key (cv_sha e) (dl_stream d) (map_option unat (dl_seq d)) node batch (nm_subject m) (nm_data m))"

text \<open>Where the data of a delivery, or the obligation to deal with it, can be.\<close>

definition kept_in_quarantine :: "consume_env \<Rightarrow> consumer_config \<Rightarrow> nats_msg \<Rightarrow> telemetry_consumer \<Rightarrow> bool" where
  "kept_in_quarantine e cfg m s \<longleftrightarrow> (\<exists>node batch. quarantined_as (message_key e cfg m node batch) (nm_data m) (tc_store s))"

definition key_taken :: "consume_env \<Rightarrow> consumer_config \<Rightarrow> nats_msg \<Rightarrow> telemetry_consumer \<Rightarrow> bool" where
  "key_taken e cfg m s \<longleftrightarrow> (\<exists>node batch. list_ex (\<lambda>q. qr_dedup_key q = message_key e cfg m node batch \<and>
     qr_payload q \<noteq> nm_data m) (cp_quarantine (tc_store s)))"

definition awaits_recovery :: "nats_msg \<Rightarrow> telemetry_consumer \<Rightarrow> bool" where
  "awaits_recovery m s \<longleftrightarrow> (case nm_meta m of None \<Rightarrow> False | Some t \<Rightarrow> mt_seq t \<in> tc_exhausted s \<and> pending_for (mt_seq t) s \<noteq> None)"

definition batch_names :: "consume_env \<Rightarrow> nats_msg \<Rightarrow> (string \<times> string) set" where
  "batch_names e m =
     (case cv_decode e (nm_data m) of
        None \<Rightarrow> {(extract_node_id (nm_subject m), header_batch_id (nm_msg_id m))}
      | Some ev \<Rightarrow>
          (case te_payload ev of
             None \<Rightarrow> {(or_else (te_source_node_id ev) (extract_node_id (nm_subject m)), [])}
           | Some b \<Rightarrow> {(or_else (te_source_node_id ev) (extract_node_id (nm_subject m)), []),
                (te_source_node_id ev, tb_batch_id b), (tb_node_id b, tb_batch_id b)}))"

definition accounted :: "consume_env \<Rightarrow> nats_msg \<Rightarrow> telemetry_consumer \<Rightarrow> disposition \<Rightarrow> telemetry_consumer \<Rightarrow> bool" where
  "accounted e m s dp s' \<longleftrightarrow>
     (case dp of
        Acked \<Rightarrow> (\<exists>x \<in> batch_names e m. is_ingested (fst x) (snd x) (tc_store s'))
      | Terminated \<Rightarrow> kept_in_quarantine e (tc_config s) m s'
      | Nacked \<Rightarrow> kept_in_quarantine e (tc_config s) m s' \<or> key_taken e (tc_config s) m s' \<or> awaits_recovery m s' \<or> nm_meta m = None
      | NackedAfter t \<Rightarrow> \<not> last_delivery (tc_config s) (delivery_of (tc_config s) m) \<and> t \<le> 5 * second
      | Unanswered \<Rightarrow> cv_ended e 0 \<or> cv_ended e 1 \<or> cv_ended e 2 \<or> cv_ingest_io e = IoCtx CtxCanceled \<or>
          \<not> cv_term_ok e \<and> kept_in_quarantine e (tc_config s) m s')"

lemma retry_delay_le [simp]: "retry_delay base n \<le> 5000000000"
  by (simp add: retry_delay_def Let_def)

lemma mark_exhausted_awaits:
  "pending_for sq (mark_exhausted (Some sq) n category reason subject node batch data s) \<noteq> None"
  "sq \<in> tc_exhausted (mark_exhausted (Some sq) n category reason subject node batch data s)"
  by (simp_all add: mark_exhausted_def pending_for_def Let_def find_app split: option.split)

lemma enqueue_recovery_awaits:
  "nm_meta m = None \<or> awaits_recovery m (enqueue_recovery m (delivery_of cfg m) node batch category reason s)"
  by (auto simp: awaits_recovery_def enqueue_recovery_def delivery_of_def mark_exhausted_awaits split: option.split)

lemma awaits_recovery_counters [simp]:
  "awaits_recovery m (s\<lparr>tc_quarantined := x\<rparr>) = awaits_recovery m s"
  by (simp add: awaits_recovery_def pending_for_def split: option.split)

lemma record_message_answers:
  assumes "record_message e m (delivery_of cfg m) node batch category reason s = (res, s')"
  shows "(\<forall>r. res = Inr r \<longrightarrow> kept_in_quarantine e cfg m s')
    \<and> (res = Inl CpAlreadyIngested \<longrightarrow> is_ingested node batch (tc_store s'))
    \<and> (\<forall>k x n. res = Inl (CpPayloadConflict k x n) \<longrightarrow> key_taken e cfg m s')"
proof -
  have "(\<forall>r. res = Inr r \<longrightarrow> quarantined_as (message_key e cfg m node batch) (nm_data m) (tc_store s'))
    \<and> (res = Inl CpAlreadyIngested \<longrightarrow> is_ingested node batch (tc_store s'))
    \<and> (\<forall>k x n. res = Inl (CpPayloadConflict k x n) \<longrightarrow>
        list_ex (\<lambda>q. qr_dedup_key q = message_key e cfg m node batch \<and> qr_payload q \<noteq> nm_data m) (cp_quarantine (tc_store s')))
    \<and> (\<forall>x. res = Inl x \<longrightarrow> tc_store s' = tc_store s)
    \<and> cp_ingested (tc_store s') = cp_ingested (tc_store s)"
    by (rule write_record_answers [OF assms [unfolded record_message_def]])
      (simp_all add: message_record_def message_key_def Let_def)
  then show ?thesis unfolding kept_in_quarantine_def key_taken_def by blast
qed


lemma ingest_batch_answers:
  assumes "ingest_batch io now b srv = (res, srv')"
  shows "res = IngestDone \<or> res = IngestDuplicate \<Longrightarrow> is_ingested (tb_node_id b) (tb_batch_id b) (sv_store srv')"
    and "res = IngestFailed (CpDb (IoCtx CtxCanceled)) \<Longrightarrow> io = IoCtx CtxCanceled"
    and "res \<noteq> IngestDone \<Longrightarrow> sv_store srv' = sv_store srv"
  using assms
  by (auto simp: ingest_batch_def record_batch_def record_batch_tx_def remember_batch_def is_ingested_def meta_of_def cp_guard_def
      split: if_splits option.splits sum.splits bool.splits prod.splits)

lemma kept_counters [simp]:
  "kept_in_quarantine e cfg m (s\<lparr>tc_quarantined := x\<rparr>) = kept_in_quarantine e cfg m s"
  "kept_in_quarantine e cfg m (s\<lparr>tc_terminated := x\<rparr>) = kept_in_quarantine e cfg m s"
  by (simp_all add: kept_in_quarantine_def)

lemma handle_permanent_failure_accounted:
  assumes "handle_permanent_failure e m (delivery_of (tc_config s) m) category reason node batch s = (dp, s')"
    and "(node, batch) \<in> batch_names e m"
  shows "accounted e m s dp s'"
proof -
  obtain res s1 where rec: "record_message e m (delivery_of (tc_config s) m) node batch category reason s = (res, s1)" by fastforce
  note answers = record_message_answers [OF rec]
  show ?thesis
  proof (cases res)
    case (Inr r)
    with assms(1) rec answers show ?thesis
      by (auto simp: handle_permanent_failure_def term_message_def accounted_def split: if_splits)
  next
    case (Inl err)
    show ?thesis
    proof (cases "err = CpAlreadyIngested \<or> (\<exists>k x n. err = CpPayloadConflict k x n)")
      case True
      then show ?thesis
      proof
        assume "err = CpAlreadyIngested"
        then show ?thesis
          using assms Inl rec answers
          by (auto simp: handle_permanent_failure_def ack_consumed_def accounted_def intro!: bexI [of _ "(node, batch)"])
      next
        assume "\<exists>k x n. err = CpPayloadConflict k x n"
        then show ?thesis
          using assms(1) Inl rec answers by (auto simp: handle_permanent_failure_def accounted_def)
      qed
    next
      case False
      let ?d = "delivery_of (tc_config s) m"
      let ?q = "enqueue_recovery m ?d node batch category reason (s1\<lparr>tc_exhausted_deliveries := tc_exhausted_deliveries s1 + 1\<rparr>)"
      have "(dp, s') = (if \<not> last_delivery (tc_config s) ?d
          then (NackedAfter (retry_delay (cc_retry_backoff (tc_config s)) (dl_count ?d)), s1) else (Nacked, ?q))"
        using assms(1) Inl rec False by (cases err) (auto simp: handle_permanent_failure_def)
      then show ?thesis
        using enqueue_recovery_awaits [of m "tc_config s"] by (auto simp: accounted_def split: if_splits)
    qed
  qed
qed

lemma handle_transient_failure_accounted:
  assumes "handle_transient_failure e m (delivery_of (tc_config s) m) cause node batch s = (dp, s')"
    and "(node, batch) \<in> batch_names e m"
  shows "accounted e m s dp s'"
proof (cases "last_delivery (tc_config s) (delivery_of (tc_config s) m)")
  case False
  with assms(1) show ?thesis by (auto simp: handle_transient_failure_def accounted_def)
next
  case True
  let ?d = "delivery_of (tc_config s) m"
  let ?s0 = "s\<lparr>tc_exhausted_deliveries := tc_exhausted_deliveries s + 1\<rparr>"
  define reason where "reason = ''delivery limit reached ('' @ show_nat (unat (dl_count ?d)) @ ''/'' @
    show_nat (nat (cc_max_deliver (tc_config s))) @ ''): storage failure: '' @ cv_render e cause"
  obtain res s1 where rec: "record_message e m ?d node batch CategoryDeliveryExhausted reason ?s0 = (res, s1)" by fastforce
  note answers = record_message_answers [OF rec]
  have eq: "(dp, s') = (case res of
      Inr _ \<Rightarrow> (Nacked, s1\<lparr>tc_quarantined := tc_quarantined s1 + 1\<rparr>)
    | Inl CpAlreadyIngested \<Rightarrow> ack_consumed s1
    | Inl _ \<Rightarrow> (Nacked, enqueue_recovery m ?d node batch CategoryDeliveryExhausted reason s1))"
    using assms(1) True rec unfolding handle_transient_failure_def Let_def reason_def [symmetric]
    by (simp split: sum.split cp_err.split)
  show ?thesis
  proof (cases res)
    case (Inr r)
    with eq answers show ?thesis by (simp add: accounted_def)
  next
    case (Inl err)
    show ?thesis
    proof (cases "err = CpAlreadyIngested")
      case True
      with eq Inl answers assms(2) show ?thesis
        by (auto simp: ack_consumed_def accounted_def intro!: bexI [of _ "(node, batch)"])
    next
      case False
      with eq Inl have "dp = Nacked" "s' = enqueue_recovery m ?d node batch CategoryDeliveryExhausted reason s1"
        by (cases err; simp)+
      then show ?thesis using enqueue_recovery_awaits [of m "tc_config s"] by (auto simp: accounted_def)
    qed
  qed
qed

lemma deliver_batch_accounted:
  assumes "deliver_batch e m (delivery_of (tc_config s) m) ev b s = (dp, s')"
    and "(tb_node_id b, tb_batch_id b) \<in> batch_names e m" and "(te_source_node_id ev, tb_batch_id b) \<in> batch_names e m"
  shows "accounted e m s dp s'"
proof -
  obtain res srv where ing: "ingest_batch (cv_ingest_io e) (cv_ingest_now e) b (tc_server s) = (res, srv)" by fastforce
  note answers = ingest_batch_answers [OF ing]
  let ?s1 = "s\<lparr>tc_server := srv\<rparr>" and ?d = "delivery_of (tc_config s) m"
  have frame_s: "accounted e m ?s1 dp s' = accounted e m s dp s'" by (cases dp) (simp_all add: accounted_def)
  have perm: "handle_permanent_failure e m ?d cat why n bt ?s1 = (dp, s') \<Longrightarrow> (n, bt) \<in> batch_names e m \<Longrightarrow> ?thesis" for cat why n bt
    using handle_permanent_failure_accounted [of e m ?s1 cat why n bt dp s'] frame_s by simp
  have trans_f: "handle_transient_failure e m ?d c n bt ?s1 = (dp, s') \<Longrightarrow> (n, bt) \<in> batch_names e m \<Longrightarrow> ?thesis" for c n bt
    using handle_transient_failure_accounted [of e m ?s1 c n bt dp s'] frame_s by simp
  show ?thesis
  proof (cases "cv_ended e 1 \<or> cv_ended e 2 \<or> res = IngestFailed (CpDb (IoCtx CtxCanceled))")
    case True
    then show ?thesis using assms(1) ing answers(2) by (auto simp: deliver_batch_def accounted_def split: if_splits)
  next
    case False
    then have go: "(dp, s') = (case res of
        IngestDone \<Rightarrow> ack_consumed ?s1
      | IngestDuplicate \<Rightarrow> ack_consumed ?s1
      | IngestInvalid \<Rightarrow> handle_transient_failure e m ?d (CauseIngest b) (te_source_node_id ev) (tb_batch_id b) ?s1
      | IngestFailed CpInvalidMeta \<Rightarrow> handle_permanent_failure e m ?d CategorySchemaValidation
          (''invalid_storage_meta: '' @ cv_render e (CauseStore CpInvalidMeta)) (tb_node_id b) (tb_batch_id b) ?s1
      | IngestFailed err \<Rightarrow> handle_transient_failure e m ?d (CauseStore err) (te_source_node_id ev) (tb_batch_id b) ?s1)"
      using assms(1) ing by (simp add: deliver_batch_def Let_def)
    show ?thesis
    proof (cases "res = IngestDone \<or> res = IngestDuplicate")
      case True
      with go answers(1) assms(2) show ?thesis
        by (auto simp: ack_consumed_def accounted_def intro!: bexI [of _ "(tb_node_id b, tb_batch_id b)"])
    next
      case False
      then consider "res = IngestInvalid" | err where "res = IngestFailed err" by (cases res) auto
      then show ?thesis
      proof cases
        case 1
        with go have "handle_transient_failure e m ?d (CauseIngest b) (te_source_node_id ev) (tb_batch_id b) ?s1 = (dp, s')" by simp
        then show ?thesis using assms(3) by (rule trans_f)
      next
        case (2 err)
        with go trans_f [OF _ assms(3)] perm [OF _ assms(2)] show ?thesis by (cases err) auto
      qed
    qed
  qed
qed

end
