(* ===== verification/Cp_Consumer_Properties.thy ===== *)
theory Cp_Consumer_Properties
  imports Cp_Consumer_Safety
begin

text \<open>
  What the NATS consumer promises: every delivery is accounted for, a valid message is quarantined only when
  the broker has given up on it, and the loops over stream sequences return.
\<close>

section \<open>Deliveries\<close>

text \<open>
  C0. Every delivery is accounted for.  Whatever \<open>processMessage\<close> answers the broker, the data is kept: an
  acknowledged message names a batch the store holds as ingested; a terminated one is in the quarantine
  under its key, with its payload; one negatively acknowledged without a delay is in the quarantine, or its
  key is taken there by another payload, or its sequence awaits recovery in memory (a message without
  metadata apart); one that is delayed has deliveries left and waits five seconds at most; and one left
  unanswered was interrupted by the shutdown, or its termination failed after it was quarantined.
\<close>

theorem delivery_is_accounted_for: "accounted e m s (fst (process_message e m s)) (snd (process_message e m s))"
proof -
  obtain dp s' where run: "process_message e m s = (dp, s')" by fastforce
  have "accounted e m s dp s'"
  proof (cases "cv_ended e 0")
    case True
    with run show ?thesis by (auto simp: process_message_def accounted_def)
  next
    case up: False
    note step = handle_permanent_failure_accounted [of e m s]
    show ?thesis
    proof (cases "cv_decode e (nm_data m)")
      case None
      show ?thesis
        by (rule step) (use run up None in \<open>auto simp: process_message_def Let_def batch_names_def\<close>)
    next
      case ev: (Some ev)
      show ?thesis
      proof (cases "telemetry_event_validate ev")
        case (Some err)
        show ?thesis
          by (rule step) (use run up ev Some in \<open>auto simp: process_message_def Let_def batch_names_def split: option.split\<close>)
      next
        case None
        then obtain b where b: "te_payload ev = Some b" "telemetry_batch_validate b = None"
          by (auto simp: telemetry_event_validate_def split: if_splits option.splits)
        show ?thesis
          by (rule deliver_batch_accounted [of e m s ev b])
            (use run up ev None b in \<open>simp_all add: process_message_def Let_def batch_names_def\<close>)
      qed
    qed
  qed
  then show ?thesis by (simp add: run)
qed

section \<open>Loops over stream sequences\<close>

text \<open>A sequence below the greatest word has a successor, which is nearer to the end of the range.\<close>

lemma word_next:
  assumes "(sq :: 64 word) \<le> z" "z \<noteq> - 1"
  shows "unat (sq + 1) = Suc (unat sq)"
proof -
  have "sq \<noteq> - 1"
  proof
    assume "sq = - 1"
    moreover have "z \<le> - 1" by (rule max_word_max)
    ultimately show False using assms by (metis order.antisym)
  qed
  then have "1 + sq \<noteq> 0" by (metis add.commute eq_neg_iff_add_eq_0)
  then show ?thesis by (metis add.commute unatSuc)
qed

lemma range_loop_returns:
  assumes "last_seq \<noteq> - 1"
  shows "\<exists>r. range_loop envs ended force k sq last_seq n s = Some r"
proof (induction "Suc (unat last_seq) - unat sq" arbitrary: k sq n s rule: less_induct)
  case less
  show ?case
  proof (cases "sq \<le> last_seq \<and> \<not> ended k")
    case False
    then show ?thesis by (subst range_loop.simps) auto
  next
    case True
    then have "unat (sq + 1) = Suc (unat sq)" "unat sq \<le> unat last_seq"
      using assms word_next [of sq last_seq] by (simp_all add: word_le_nat_alt)
    then have "Suc (unat last_seq) - unat (sq + 1) < Suc (unat last_seq) - unat sq" by simp
    from less [OF this] True show ?thesis by (subst range_loop.simps) simp
  qed
qed

lemma range_loop_interrupted:
  assumes "k \<le> j" "ended j"
  shows "\<exists>r. range_loop envs ended force k sq last_seq n s = Some r"
  using assms
proof (induction "j - k" arbitrary: k sq n s)
  case 0
  then show ?case by (subst range_loop.simps) auto
next
  case (Suc d)
  then have "d = j - Suc k" "Suc k \<le> j" by auto
  from Suc(1) [OF this Suc(4)] show ?case by (subst range_loop.simps) auto
qed

lemma range_loop_endless:
  assumes ret: "range_loop envs ended force k sq last_seq n s = Some r"
  shows "last_seq \<noteq> - 1 \<or> (\<exists>j. ended j)"
proof (rule range_loop.raw_induct [where P = "\<lambda>envs ended force k sq last_seq n s r. last_seq \<noteq> - 1 \<or> (\<exists>j. ended j)", OF _ ret])
  fix f envs ended force k and sq last_seq :: "64 word" and n s r
  assume IH: "\<And>envs ended force k sq last_seq n s r.
      f envs ended force k sq last_seq n s = Some r \<Longrightarrow> last_seq \<noteq> - 1 \<or> (\<exists>j. ended j)"
    and eq: "(if \<not> sq \<le> last_seq then Some (n, False, s)
      else if ended k then Some (n, True, s)
      else f envs ended force (Suc k) (sq + 1) last_seq
             (case fst (recover_stream_sequence (envs k) force sq s) of Inl _ \<Rightarrow> n | Inr _ \<Rightarrow> n + 1)
             (snd (recover_stream_sequence (envs k) force sq s))) = Some r"
  show "last_seq \<noteq> - 1 \<or> (\<exists>j. ended j)"
    using eq IH by (auto split: if_splits)
qed

lemma scan_loop_returns:
  assumes "last_seq \<noteq> - 1"
  shows "\<exists>r. scan_loop e k seen sq last_seq ns = Some r"
proof (induction "Suc (unat last_seq) - unat sq" arbitrary: k sq ns rule: less_induct)
  case less
  show ?case
  proof (cases "sq \<le> last_seq \<and> \<not> sn_ended e k")
    case False
    then show ?thesis by (subst scan_loop.simps) auto
  next
    case True
    then have "unat (sq + 1) = Suc (unat sq)" "unat sq \<le> unat last_seq"
      using assms word_next [of sq last_seq] by (simp_all add: word_le_nat_alt)
    then have "Suc (unat last_seq) - unat (sq + 1) < Suc (unat last_seq) - unat sq" by simp
    from less [OF this] True show ?thesis by (subst scan_loop.simps) simp
  qed
qed

lemma scan_last_le: "scan_last i s \<le> ci_delivered i"
  by (simp add: scan_last_def Let_def not_less)

lemma recover_unacknowledged_returns:
  assumes "ci_delivered i \<noteq> - 1"
  shows "\<exists>r. recover_unacknowledged e now (Some i) s = Some r"
proof -
  have "scan_last i s1 \<noteq> - 1" for s1
    using scan_last_le [of i s1] assms by (metis word_order.extremum_uniqueI)
  then have loop: "\<exists>r. scan_loop e k seen sq (scan_last i s1) ns = Some r" for k seen sq s1 ns
    by (rule scan_loop_returns)
  obtain n seen ended s1 where rs: "retry_scan e 0 (filter (\<lambda>r. due now (sc_attempts r) (sc_last_attempt r))
      (tc_retries (prune_stalled_sequences (Some i) s))) 0 [] (prune_stalled_sequences (Some i) s) = (n, seen, ended, s1)"
    by (metis prod_cases4)
  obtain r where "scan_loop e (length (filter (\<lambda>r. due now (sc_attempts r) (sc_last_attempt r))
      (tc_retries (prune_stalled_sequences (Some i) s)))) seen (scan_first i s1) (scan_last i s1) (n, s1) = Some r"
    using loop by blast
  then show ?thesis
    unfolding recover_unacknowledged_def option.case Let_def rs prod.case by auto
qed

text \<open>
  C0. The loops over stream sequences return.  \<open>RecoverStreamRange\<close> fails to return exactly when it is asked
  for a range that ends in the greatest 64-bit sequence and its context never ends: the counter wraps and
  the loop starts over.  The scan of the unacknowledged range returns unless the broker reports that
  greatest sequence as delivered.
\<close>

theorem sequence_loops_return:
  "(recover_stream_range envs ended force first_seq last_seq s = None \<longleftrightarrow>
      first_seq \<le> last_seq \<and> last_seq = - 1 \<and> (\<forall>k. \<not> ended k)) \<and>
   (ci_delivered i = - 1 \<or> (\<exists>r. recover_unacknowledged e now (Some i) s = Some r))"
proof
  show "recover_stream_range envs ended force first_seq last_seq s = None \<longleftrightarrow>
      first_seq \<le> last_seq \<and> last_seq = - 1 \<and> (\<forall>k. \<not> ended k)"
  proof (cases "last_seq < first_seq")
    case True
    then show ?thesis by (auto simp: recover_stream_range_def)
  next
    case False
    then have eq: "recover_stream_range envs ended force first_seq last_seq s =
        range_loop envs ended force 0 first_seq last_seq 0 s" by (simp add: recover_stream_range_def)
    from False have le: "first_seq \<le> last_seq" by simp
    show ?thesis unfolding eq
      using le range_loop_returns [of last_seq envs ended force 0 first_seq 0 s]
        range_loop_interrupted [of 0 _ ended envs force first_seq last_seq 0 s]
        range_loop_endless [of envs ended force 0 first_seq last_seq 0 s]
      by (cases "range_loop envs ended force 0 first_seq last_seq 0 s") auto
  qed
  show "ci_delivered i = - 1 \<or> (\<exists>r. recover_unacknowledged e now (Some i) s = Some r)"
    using recover_unacknowledged_returns by blast
qed

section \<open>Exhausted messages\<close>

lemma stream_key: "derive_dedup_key sha stream (Some n) node batch subject payload =
    derive_dedup_key sha stream (Some n) node' batch' subject payload" if "trim_space stream \<noteq> []"
  using that by (simp add: derive_dedup_key_def)

lemma count_recovered_frame [simp]:
  "tc_store (count_recovered r s) = tc_store s" "tc_pending (count_recovered r s) = tc_pending s"
  by (simp_all add: count_recovered_def)

lemma clear_stalled_frame [simp]:
  "tc_store (clear_stalled_sequence sq s) = tc_store s" "tc_pending (clear_stalled_sequence sq s) = tc_pending s"
  by (simp_all add: clear_stalled_sequence_def set_stalled_def)

lemma drop_pending_frame [simp]: "tc_store (drop_pending sq s) = tc_store s" "pending_for sq (drop_pending sq s) = None"
  by (auto simp: drop_pending_def pending_for_def find_None_iff)

lemma pending_for_cong: "tc_pending s = tc_pending s' \<Longrightarrow> pending_for sq s = pending_for sq s'"
  by (simp add: pending_for_def)

text \<open>The event of a valid message, and its batch.\<close>

definition valid_event :: "recover_env \<Rightarrow> raw_msg \<Rightarrow> (telemetry_event \<times> telemetry_batch) option" where
  "valid_event e m =
     (case re_decode e (rw_data m) of None \<Rightarrow> None
      | Some ev \<Rightarrow> (case te_payload ev of None \<Rightarrow> None
          | Some b \<Rightarrow> if telemetry_event_validate ev = None then Some (ev, b) else None))"

lemma inspect_valid:
  "valid_event e m = Some (ev, b) \<Longrightarrow> \<not> vd_poison (inspect_raw e m) \<and> vd_node (inspect_raw e m) = te_source_node_id ev \<and>
     vd_batch (inspect_raw e m) = tb_batch_id b"
  by (auto simp: valid_event_def inspect_raw_def telemetry_event_validate_def split: option.splits if_splits)

lemma eligible_valid:
  "eligible e force sq v s = None \<Longrightarrow> \<not> vd_poison v \<Longrightarrow>
     (force \<or> sq \<in> tc_exhausted s) \<and> \<not> is_ingested (vd_node v) (vd_batch v) (tc_store s)"
  by (auto simp: eligible_def has_batch_def split: sum.splits option.splits bool.splits if_splits)

lemma recover_success:
  assumes "recover_stream_sequence e force sq s = (Inr r, s')"
  obtains m where "re_fetch e sq = Fetched m" "eligible e force sq (inspect_raw e m) s = None"
    "quarantined_as (derive_dedup_key (re_sha e) (cc_stream (tc_config s)) (Some (unat sq)) (vd_node (inspect_raw e m))
       (vd_batch (inspect_raw e m)) (rw_subject m) (rw_data m)) (rw_data m) (tc_store s')"
    "cp_ingested (tc_store s') = cp_ingested (tc_store s)" "pending_for sq s' = None"
proof (cases "re_fetch e sq")
  case (Fetched m)
  let ?v = "inspect_raw e m"
  let ?mk = "\<lambda>i. consumer_record (re_sha e) (re_now e) i (cc_stream (tc_config s)) (Some sq) (rw_subject m)
      (vd_node ?v) (vd_batch ?v) (rw_data m) (vd_category ?v) (vd_reason ?v) (cc_max_deliver (tc_config s))"
  obtain res s1 where w: "write_record (re_sha e) (re_io e) (re_now e) (re_random e) ?mk s = (res, s1)" by fastforce
  have el: "eligible e force sq ?v s = None" and res: "res = Inr r"
    and s': "tc_store s' = tc_store s1" "pending_for sq s' = None"
    using assms Fetched w
    by (auto simp: recover_stream_sequence_def Let_def pending_for_cong [OF clear_stalled_frame(2)] split: option.splits sum.splits)
  have "quarantined_as (derive_dedup_key (re_sha e) (cc_stream (tc_config s)) (Some (unat sq)) (vd_node ?v)
       (vd_batch ?v) (rw_subject m) (rw_data m)) (rw_data m) (tc_store s1) \<and> cp_ingested (tc_store s1) = cp_ingested (tc_store s)"
    using write_record_answers [OF w, of "derive_dedup_key (re_sha e) (cc_stream (tc_config s)) (Some (unat sq)) (vd_node ?v)
       (vd_batch ?v) (rw_subject m) (rw_data m)" "rw_data m" "vd_node ?v" "vd_batch ?v"] unfolding res by simp
  then show ?thesis unfolding s'(1) [symmetric] using that [OF Fetched el] s'(2) by blast
qed (use assms in \<open>simp_all add: recover_stream_sequence_def\<close>)


definition toy_event :: telemetry_event where
  "toy_event = new_telemetry_event (cp_batch ''abc'' ''b'') 9"

definition toy_recovery :: recover_env where
  "toy_recovery =
     \<lparr>re_fetch = \<lambda>_. Fetched \<lparr>rw_data = ''x'', rw_subject = [], rw_msg_id = None\<rparr>, re_decode = \<lambda>_. Some toy_event,
      re_render = \<lambda>_. [], re_sha = no_digest, re_check_io = IoOk, re_io = IoOk, re_now = 7, re_random = Some [1]\<rparr>"

definition toy_consumer :: telemetry_consumer where
  "toy_consumer =
     \<lparr>tc_server = toy_server, tc_config = \<lparr>cc_stream = ''s'', cc_consumer = ''c'', cc_adv_stream = [], cc_adv_consumer = [],
        cc_max_deliver = 5, cc_ack_wait = 1, cc_max_ack_pending = 1, cc_retry_backoff = 1, cc_max_recovery_batch = 1,
        cc_scan_interval = 1, cc_stalled_threshold = 1\<rparr>,
      tc_pending = [], tc_retries = [], tc_stalled = [], tc_stalled_count = 0,
      tc_exhausted = {}, tc_cursor = 0, tc_cancelled = False, tc_running = False, tc_stopped = False,
      tc_consumed = 0, tc_exhausted_deliveries = 0, tc_quarantined = 0, tc_terminated = 0, tc_recovered = 0,
      tc_adv_msgs = 0, tc_adv_bytes = 0, tc_adv_pending_ack = 0, tc_adv_backlog = 0, tc_adv_fetch_errors = 0,
      tc_adv_evictions = 0, tc_adv_first_seq = 0\<rparr>"

lemma toy_event_valid: "telemetry_event_validate toy_event = None"
proof -
  have "\<not> blank ''abc''" "\<not> blank ''aegisedge.telemetry.batch''" "\<not> blank ''1.0.0''" by code_simp+
  then show ?thesis
    by (simp add: telemetry_event_validate_def toy_event_def new_telemetry_event_def toy_post_valid)
      (simp add: cp_batch_def is_zero_def cp_not_blank)
qed

lemma toy_recovers: "\<exists>r. fst (recover_stream_sequence toy_recovery True 3 toy_consumer) = Inr r"
proof -
  have reason: "length (sanitize_failure_reason r) \<le> 2048" for r by (rule length_sanitize_failure_reason)
  have name: "trim_space ''s'' = ''s''" by code_simp
  have show3: "show_nat 3 = ''3''" by code_simp
  have payload: "te_payload toy_event = Some (cp_batch ''abc'' ''b'')" by (simp add: toy_event_def new_telemetry_event_def)
  define v where "v = inspect_raw toy_recovery \<lparr>rw_data = ''x'', rw_subject = [], rw_msg_id = None\<rparr>"
  have v: "\<not> vd_poison v" "vd_category v = CategoryDeliveryExhausted"
    by (simp_all add: v_def inspect_raw_def toy_recovery_def toy_event_valid payload toy_post_valid)
  have el: "eligible toy_recovery True 3 v toy_consumer = None"
    using v by (simp add: eligible_def has_batch_def toy_recovery_def toy_consumer_def toy_server_def cp_empty_def cp_guard_def is_ingested_def)
  let ?mk = "\<lambda>i. consumer_record no_digest 7 i ''s'' (Some 3) [] (vd_node v) (vd_batch v) ''x'' (vd_category v) (vd_reason v) 5"
  have valid: "quarantine_validate (?mk i) = None" for i
    using reason [of "vd_reason v"]
    by (simp add: quarantine_validate_def consumer_record_def v derive_dedup_key_def name show3)
  have "\<exists>r. fst (write_record no_digest IoOk 7 (Some [1]) ?mk toy_consumer) = Inr r"
    using valid
    by (simp add: write_record_def generate_quarantine_id_def record_quarantine_def Let_def toy_consumer_def toy_server_def
        cp_empty_def is_ingested_def find_quarantine_def split_beta normalise_quarantine_keeps)
      (simp add: derive_dedup_key_def name show3)
  then obtain r where "fst (write_record no_digest IoOk 7 (Some [1]) ?mk toy_consumer) = Inr r" by blast
  moreover have "re_fetch toy_recovery 3 = Fetched \<lparr>rw_data = ''x'', rw_subject = [], rw_msg_id = None\<rparr>"
    "re_sha toy_recovery = no_digest" "re_io toy_recovery = IoOk" "re_now toy_recovery = 7" "re_random toy_recovery = Some [1]"
    "cc_stream (tc_config toy_consumer) = ''s''" "cc_max_deliver (tc_config toy_consumer) = 5"
    by (simp_all add: toy_recovery_def toy_consumer_def)
  ultimately show ?thesis
    by (simp add: recover_stream_sequence_def el [unfolded v_def] Let_def split_beta v_def split: sum.split)
qed


section \<open>Where the consumer and its promises part\<close>

text \<open>
  A pending entry whose message cannot be read is recorded all the same, with an empty payload under the
  key of its sequence; the entry is dropped, and the message itself then conflicts with the record.
\<close>

theorem unreadable_message_is_recorded_empty:
  assumes "re_fetch e (ri_seq x) = FetchFault" and "ri_data x = []"
    and "fst (write_record (re_sha e) (re_io e) (re_now e) (re_random e) (item_record e (tc_config s) x) s) = Inr r"
  shows "quarantined_as (derive_dedup_key (re_sha e) (cc_stream (tc_config s)) (Some (unat (ri_seq x))) (ri_node_id x)
      (ri_batch_id x) (ri_subject x) []) [] (tc_store (recover_item e now x s)) \<and>
    pending_for (ri_seq x) (recover_item e now x s) = None"
proof -
  let ?w = "write_record (re_sha e) (re_io e) (re_now e) (re_random e) (item_record e (tc_config s) x) s"
  have w: "?w = (Inr r, snd ?w)" using assms(3) by (metis prod.collapse)
  have q: "quarantined_as (derive_dedup_key (re_sha e) (cc_stream (tc_config s)) (Some (unat (ri_seq x))) (ri_node_id x)
      (ri_batch_id x) (ri_subject x) []) [] (tc_store (snd ?w))"
    using write_record_answers [OF w, of "derive_dedup_key (re_sha e) (cc_stream (tc_config s)) (Some (unat (ri_seq x)))
      (ri_node_id x) (ri_batch_id x) (ri_subject x) []" "[]" "ri_node_id x" "ri_batch_id x"] assms(2)
    by (simp add: item_record_def)
  have "generate_quarantine_id (re_random e) \<noteq> None" using assms(3) by (auto simp: write_record_def split: option.splits)
  then have "recover_item e now x s = release_item (ri_seq x) (count_recovered r (snd ?w))"
    using w assms(1) by (auto simp: recover_item_def complete_item_def split: prod.split)
  with q show ?thesis by (simp add: release_item_def pending_for_cong [OF clear_stalled_frame(2)])
qed

text \<open>The back-off is not monotone: past 63 deliveries the shifted multiplier is zero.\<close>

theorem retry_delay_collapses: "retry_delay 100000000 7 = 5000000000 \<and> retry_delay 100000000 65 = 0"
  by (simp add: retry_delay_def to_int64_def Let_def)

end
