(* ===== verification/Go_Float.thy ===== *)
theory Go_Float
  imports Prelude
begin

text \<open>
  Arithmetic on \<open>float64\<close>: the exact result, rounded to the nearest double with ties to even, as IEEE 754
  prescribes and Go requires.  The sign of zero is not kept, so the quotient of a number by zero is taken
  for a positive zero; the code that is modelled divides by numbers that are not zero.
\<close>

section \<open>Rounding\<close>

definition round_even :: "rat \<Rightarrow> int" where
  "round_even m =
     (let f = \<lfloor>m\<rfloor>; r = m - of_int f
      in if r < 1 / 2 then f else if 1 / 2 < r then f + 1 else if even f then f else f + 1)"

text \<open>The binary exponent of a positive rational: the greatest \<open>e\<close> with \<open>2 powi e \<le> q\<close>.\<close>

definition binary_exponent :: "rat \<Rightarrow> int" where
  "binary_exponent q =
     (let (n, d) = quotient_of q;
          guess = int (bit_length (nat n)) - int (bit_length (nat d))
      in if q < 2 powi guess then guess - 1 else guess)"

definition max_float :: rat where
  "max_float = (2 ^ 53 - 1) * 2 ^ 971"

definition to_float :: "rat \<Rightarrow> float64" where
  "to_float q =
     (if q = 0 then Fin 0
      else let a = \<bar>q\<bar>;
               e = max (binary_exponent a) (- 1022);
               x = of_int (round_even (a * 2 powi (52 - e))) * 2 powi (e - 52)
        in if max_float < x then (if q < 0 then NegInf else PosInf) else Fin (sgn q * x))"

section \<open>Arithmetic\<close>

fun fneg :: "float64 \<Rightarrow> float64" where
  "fneg NaN = NaN"
| "fneg PosInf = NegInf"
| "fneg NegInf = PosInf"
| "fneg (Fin a) = Fin (- a)"

fun fabs :: "float64 \<Rightarrow> float64" where
  "fabs NegInf = PosInf"
| "fabs (Fin a) = Fin \<bar>a\<bar>"
| "fabs x = x"

fun fadd :: "float64 \<Rightarrow> float64 \<Rightarrow> float64" where
  "fadd (Fin a) (Fin b) = to_float (a + b)"
| "fadd NaN _ = NaN"
| "fadd _ NaN = NaN"
| "fadd PosInf NegInf = NaN"
| "fadd NegInf PosInf = NaN"
| "fadd PosInf _ = PosInf"
| "fadd _ PosInf = PosInf"
| "fadd NegInf _ = NegInf"
| "fadd _ NegInf = NegInf"

definition fsub :: "float64 \<Rightarrow> float64 \<Rightarrow> float64" where
  "fsub x y = fadd x (fneg y)"

definition signed_inf :: "rat \<Rightarrow> float64" where
  "signed_inf a = (if a = 0 then NaN else if a < 0 then NegInf else PosInf)"

fun fmul :: "float64 \<Rightarrow> float64 \<Rightarrow> float64" where
  "fmul (Fin a) (Fin b) = to_float (a * b)"
| "fmul NaN _ = NaN"
| "fmul _ NaN = NaN"
| "fmul PosInf (Fin b) = signed_inf b"
| "fmul NegInf (Fin b) = signed_inf (- b)"
| "fmul (Fin a) PosInf = signed_inf a"
| "fmul (Fin a) NegInf = signed_inf (- a)"
| "fmul PosInf PosInf = PosInf"
| "fmul NegInf NegInf = PosInf"
| "fmul PosInf NegInf = NegInf"
| "fmul NegInf PosInf = NegInf"

fun fdiv :: "float64 \<Rightarrow> float64 \<Rightarrow> float64" where
  "fdiv (Fin a) (Fin b) = (if b = 0 then signed_inf a else to_float (a / b))"
| "fdiv NaN _ = NaN"
| "fdiv _ NaN = NaN"
| "fdiv PosInf (Fin b) = (if b < 0 then NegInf else PosInf)"
| "fdiv NegInf (Fin b) = (if b < 0 then PosInf else NegInf)"
| "fdiv (Fin a) _ = Fin 0"
| "fdiv _ _ = NaN"

text \<open>\<open>math.Min\<close> and \<open>math.Max\<close>: NaN unless the other argument is the absorbing infinity.\<close>

definition fmin :: "float64 \<Rightarrow> float64 \<Rightarrow> float64" where
  "fmin x y = (if x = NegInf \<or> y = NegInf then NegInf else if x = NaN \<or> y = NaN then NaN else if flt x y then x else y)"

definition fmax :: "float64 \<Rightarrow> float64 \<Rightarrow> float64" where
  "fmax x y = (if x = PosInf \<or> y = PosInf then PosInf else if x = NaN \<or> y = NaN then NaN else if flt y x then x else y)"

text \<open>
  \<open>math.Sqrt\<close> is correctly rounded.  The root of a positive double is a normal number; its integer
  significand is found by bisection, and the root of a double is never half way between two doubles.
\<close>

function root_between :: "nat \<Rightarrow> nat \<Rightarrow> rat \<Rightarrow> nat" where
  "root_between lo hi q =
     (if hi \<le> lo + 1 then lo
      else let mid = (lo + hi) div 2
        in if of_nat (mid * mid) \<le> q then root_between mid hi q else root_between lo mid q)"
  by auto
termination
  by (relation "measure (\<lambda>(lo, hi, _). hi - lo)") auto

declare root_between.simps [simp del]

definition sqrt_rat :: "rat \<Rightarrow> rat" where
  "sqrt_rat q =
     (let e = binary_exponent q div 2;
          scaled = q * 4 powi (52 - e);
          m = root_between 0 (2 ^ 54) scaled;
          up = (of_nat (2 * m + 1)) ^ 2 < 4 * scaled
      in of_nat (if up then m + 1 else m) * 2 powi (e - 52))"

fun fsqrt :: "float64 \<Rightarrow> float64" where
  "fsqrt (Fin a) = (if a = 0 then Fin 0 else if a < 0 then NaN else Fin (sqrt_rat a))"
| "fsqrt PosInf = PosInf"
| "fsqrt _ = NaN"

section \<open>Rules\<close>

lemma flt_NaN [simp]: "\<not> flt x NaN" "\<not> flt NaN x"
  by (cases x; simp)+

lemma fle_NaN [simp]: "\<not> fle x NaN" "\<not> fle NaN x"
  by (cases x; simp)+

lemma flt_fle: "flt x y \<Longrightarrow> fle x y"
  by (cases x; cases y) auto

lemma not_flt_fle: "x \<noteq> NaN \<Longrightarrow> y \<noteq> NaN \<Longrightarrow> \<not> flt x y \<longleftrightarrow> fle y x"
  by (cases x; cases y) auto

lemma fle_trans: "fle x y \<Longrightarrow> fle y z \<Longrightarrow> fle x z"
  by (cases x; cases y; cases z) auto

lemma fle_flt_trans: "fle x y \<Longrightarrow> flt y z \<Longrightarrow> flt x z"
  by (cases x; cases y; cases z) auto

lemma flt_le_contra: "flt x y \<Longrightarrow> fle y x \<Longrightarrow> False"
  by (cases x; cases y) auto

lemma to_float_not_NaN [simp]: "to_float q \<noteq> NaN"
  by (simp add: to_float_def Let_def)

lemma to_float_nonneg: "0 \<le> q \<Longrightarrow> fle (Fin 0) (to_float q)"
proof -
  assume "0 \<le> q"
  have "0 \<le> round_even (\<bar>q\<bar> * 2 powi (52 - max (binary_exponent \<bar>q\<bar>) (- 1022)))"
  proof -
    have "0 \<le> \<bar>q\<bar> * 2 powi (52 - max (binary_exponent \<bar>q\<bar>) (- 1022))" by simp
    then have "0 \<le> \<lfloor>\<bar>q\<bar> * 2 powi (52 - max (binary_exponent \<bar>q\<bar>) (- 1022))\<rfloor>" by simp
    then show ?thesis unfolding round_even_def Let_def by (simp split: if_split)
  qed
  with \<open>0 \<le> q\<close> show ?thesis by (auto simp: to_float_def Let_def sgn_if)
qed

text \<open>A quotient of magnitudes, cut to the unit interval, lies in it.\<close>

definition unit_score :: "float64 \<Rightarrow> float64" where
  "unit_score x = fmin (Fin 1) (fmax (Fin 0) x)"

lemma unit_score_range: "x \<noteq> NaN \<Longrightarrow> \<exists>q. unit_score x = Fin q \<and> 0 \<le> q \<and> q \<le> 1"
  by (cases x) (auto simp: unit_score_def fmin_def fmax_def)

lemma small_floats: "to_float 0 = Fin 0" "to_float 1 = Fin 1"
  by code_simp+

lemma to_float_two: "to_float 2 = Fin 2"
  by code_simp

end
