(* ===== verification/Detector.thy ===== *)
theory Detector
  imports Go_Float Incident_Engine Response_Decision
begin

text \<open>
  \<open>edge/agent/detector/threshold.go\<close>: anomaly identifiers, incidents made of signals, and the detector of
  static thresholds with hysteresis.  The texts of an instant and of a \<open>float64\<close>, and SHA-256, are
  parameters of the identifier; texts in the evidence of a signal are kept unrendered.
\<close>

section \<open>Identifiers\<close>

type_synonym id_generator = "string \<Rightarrow> string \<Rightarrow> string \<Rightarrow> gotime \<Rightarrow> string \<Rightarrow> float64 \<Rightarrow> string option"

text \<open>The first sixteen bytes of the digest, with the version and the variant of RFC 4122.\<close>

definition uuid_text :: "nat list \<Rightarrow> string" where
  "uuid_text bytes =
     (let b0 = take 16 bytes; b1 = b0[6 := b0 ! 6 mod 16 + 64]; b = b1[8 := b1 ! 8 mod 64 + 128]
      in hex_bytes (take 4 b) @ ''-'' @ hex_bytes (take 2 (drop 4 b)) @ ''-'' @ hex_bytes (take 2 (drop 6 b)) @ ''-'' @
         hex_bytes (take 2 (drop 8 b)) @ ''-'' @ hex_bytes (take 6 (drop 10 b)))"

definition default_anomaly_id :: "digest \<Rightarrow> (gotime \<Rightarrow> string) \<Rightarrow> (float64 \<Rightarrow> string) \<Rightarrow> id_generator" where
  "default_anomaly_id sha time_text float_text node metric version t sample v =
     (let nl = [CHR 0x0A]
      in Some (uuid_text (sha (''AegisEdge:AnomalyID:v1'' @ nl @ node @ nl @ metric @ nl @ version @ nl @
           time_text t @ nl @ sample @ nl @ float_text v @ nl))))"

section \<open>Incidents\<close>

definition derive_incident_id :: "digest \<Rightarrow> string \<Rightarrow> string" where
  "derive_incident_id sha anomaly_id =
     (let t = trim_space anomaly_id
      in if has_prefix t ''ano-'' then ''inc-'' @ drop 4 t else ''inc-'' @ hex_bytes (take 12 (sha t)))"

definition severity_of :: "string \<Rightarrow> severity" where
  "severity_of s =
     (if s = ''LOW'' then SeverityLow else if s = ''MEDIUM'' then SeverityMedium else if s = ''HIGH'' then SeverityHigh
      else if s = ''CRITICAL'' then SeverityCritical else SeverityOther s)"

definition evidence_text :: "(string \<times> msg) list \<Rightarrow> string \<Rightarrow> string option" where
  "evidence_text ev k = (case map_of ev k of Some (Lit s) \<Rightarrow> Some s | _ \<Rightarrow> None)"

datatype detect_err =
    DetectNilSignal | DetectSignal type_err | DetectIncident type_err | DetectSample type_err | DetectNegative
  | DetectId | DetectNilBatch | DetectBatch type_err

definition map_anomaly_to_incident :: "digest \<Rightarrow> anomaly_signal option \<Rightarrow> detect_err + incident" where
  "map_anomaly_to_incident sha so =
     (case so of None \<Rightarrow> Inl DetectNilSignal | Some sig \<Rightarrow>
        case anomaly_signal_validate sig of Some e \<Rightarrow> Inl (DetectSignal e) | None \<Rightarrow>
        let given = (case as_evidence sig of None \<Rightarrow> [] | Some ev \<Rightarrow> ev);
            ev = fold (\<lambda>(k, v). AList.update k v)
              [(''anomaly_id'', Lit (as_anomaly_id sig)), (''anomaly_score'', float4 (as_anomaly_score sig)),
               (''detection_method'', Lit (as_detection_method sig)), (''detector_version'', Lit (as_detector_version sig))] given;
            sev = (case evidence_text given ''severity'' of
                Some s \<Rightarrow> if severity_valid (severity_of s) then severity_of s else map_severity (as_anomaly_score sig)
              | None \<Rightarrow> map_severity (as_anomaly_score sig));
            rule = (case evidence_text given ''rule_name'' of
                Some s \<Rightarrow> if \<not> blank s then s else ''threshold_'' @ as_metric_name sig
              | None \<Rightarrow> ''threshold_'' @ as_metric_name sig);
            inc = \<lparr>inc_id = derive_incident_id sha (as_anomaly_id sig), inc_node_id = as_node_id sig, inc_rule_name = rule,
                inc_severity = sev, inc_status = StatusAnomalyDetected,
                inc_description = Fmt ''Threshold breach detected on %s: observed %.4f (threshold %.4f)''
                  [AStr (as_metric_name sig), AFloat (as_observed_value sig), AFloat (as_expected_value sig)],
                inc_trigger_metric = as_metric_name sig, inc_trigger_value = as_observed_value sig,
                inc_threshold = as_expected_value sig, inc_evidence = Some ev, inc_triggered_at = as_detected_at sig,
                inc_updated_at = as_detected_at sig, inc_resolved_at = None, inc_mitigations = []\<rparr>
        in case incident_validate inc of Some e \<Rightarrow> Inl (DetectIncident e) | None \<Rightarrow> Inr inc)"

section \<open>Threshold rules\<close>

record threshold_rule =
  tr_metric :: string
  tr_upper :: "float64 option"
  tr_upper_recovery :: "float64 option"
  tr_lower :: "float64 option"
  tr_lower_recovery :: "float64 option"
  tr_expected :: "float64 option"
  tr_max_deviation :: "float64 option"
  tr_disallow_negative :: bool

datatype rule_err =
    ErrEmptyRuleMetricName | ErrNoThresholdDefined | ErrInvalidUpperThreshold | ErrInvalidLowerThreshold
  | ErrInvalidRecoveryThreshold | ErrInvalidExpectedValueRule | ErrInvalidMaxDeviation | ErrUpperLessThanLower
  | ErrUpperRecoveryTooHigh | ErrLowerRecoveryTooLow | ErrNegativeThresholdDisallow
  | ErrNoRules | ErrDuplicateMetricRule string

text \<open>A threshold with its recovery threshold; the flag tells the upper side.\<close>

definition validate_side :: "bool \<Rightarrow> bool \<Rightarrow> float64 option \<Rightarrow> float64 option \<Rightarrow> rule_err option" where
  "validate_side is_upper no_negative threshold recovery =
     (case threshold of None \<Rightarrow> None | Some v \<Rightarrow>
        if \<not> is_finite v then Some (if is_upper then ErrInvalidUpperThreshold else ErrInvalidLowerThreshold)
        else if no_negative \<and> flt v (Fin 0) then Some ErrNegativeThresholdDisallow
        else case recovery of None \<Rightarrow> None | Some r \<Rightarrow>
          if \<not> is_finite r then Some ErrInvalidRecoveryThreshold
          else if no_negative \<and> flt r (Fin 0) then Some ErrNegativeThresholdDisallow
          else if is_upper \<and> flt v r then Some ErrUpperRecoveryTooHigh
          else if \<not> is_upper \<and> flt r v then Some ErrLowerRecoveryTooLow
          else None)"

definition threshold_rule_validate :: "threshold_rule \<Rightarrow> rule_err option" where
  "threshold_rule_validate r =
     (if blank (tr_metric r) then Some ErrEmptyRuleMetricName
      else if tr_upper r = None \<and> tr_lower r = None then Some ErrNoThresholdDefined
      else case validate_side True (tr_disallow_negative r) (tr_upper r) (tr_upper_recovery r) of Some e \<Rightarrow> Some e | None \<Rightarrow>
      case validate_side False (tr_disallow_negative r) (tr_lower r) (tr_lower_recovery r) of Some e \<Rightarrow> Some e | None \<Rightarrow>
      if (case (tr_upper r, tr_lower r) of (Some u, Some l) \<Rightarrow> flt u l | _ \<Rightarrow> False) then Some ErrUpperLessThanLower
      else if (case tr_expected r of Some x \<Rightarrow> \<not> is_finite x | None \<Rightarrow> False) then Some ErrInvalidExpectedValueRule
      else if (case tr_expected r of Some x \<Rightarrow> tr_disallow_negative r \<and> flt x (Fin 0) | None \<Rightarrow> False)
      then Some ErrNegativeThresholdDisallow
      else if (case tr_max_deviation r of Some d \<Rightarrow> \<not> is_finite d \<or> fle d (Fin 0) | None \<Rightarrow> False) then Some ErrInvalidMaxDeviation
      else None)"

definition default_rule :: "string \<Rightarrow> rat \<Rightarrow> rat \<Rightarrow> rat \<Rightarrow> bool \<Rightarrow> threshold_rule" where
  "default_rule metric high recovery expected no_negative =
     \<lparr>tr_metric = metric, tr_upper = Some (Fin high), tr_upper_recovery = Some (Fin recovery), tr_lower = None,
      tr_lower_recovery = None, tr_expected = Some (Fin expected), tr_max_deviation = None,
      tr_disallow_negative = no_negative\<rparr>"

definition default_threshold_rules :: "threshold_rule list" where
  "default_threshold_rules =
     [default_rule ''cpu_usage_percent'' 90 80 50 True, default_rule ''memory_usage_percent'' 90 80 60 True,
      default_rule ''disk_usage_percent'' 90 85 40 True, default_rule ''temperature_celsius'' 85 75 50 False]"

section \<open>The threshold detector\<close>

record metric_state =
  mst_upper :: bool
  mst_lower :: bool

abbreviation nominal :: metric_state where "nominal \<equiv> \<lparr>mst_upper = False, mst_lower = False\<rparr>"

record threshold_detector =
  td_version :: string
  td_rules :: "threshold_rule list"
  td_states :: "string \<rightharpoonup> metric_state"
  td_id :: id_generator

fun collect_rules :: "('r \<Rightarrow> rule_err option) \<Rightarrow> ('r \<Rightarrow> string) \<Rightarrow> 'r list \<Rightarrow> 'r list \<Rightarrow> rule_err + 'r list" where
  "collect_rules validate metric acc [] = Inr acc"
| "collect_rules validate metric acc (r # rs) =
     (case validate r of Some e \<Rightarrow> Inl e | None \<Rightarrow>
        if metric r \<in> set (map metric acc) then Inl (ErrDuplicateMetricRule (metric r))
        else collect_rules validate metric (acc @ [r]) rs)"

definition detector_version :: "string \<Rightarrow> string" where
  "detector_version v = (if trim_space v = [] then ''1.0.0'' else trim_space v)"

definition new_threshold_detector :: "id_generator \<Rightarrow> string \<Rightarrow> threshold_rule list \<Rightarrow> rule_err + threshold_detector" where
  "new_threshold_detector gen version rules =
     (if rules = [] then Inl ErrNoRules
      else case collect_rules threshold_rule_validate tr_metric [] rules of Inl e \<Rightarrow> Inl e | Inr rs \<Rightarrow>
        Inr \<lparr>td_version = detector_version version, td_rules = rs, td_states = (\<lambda>_. None), td_id = gen\<rparr>)"

definition reset_threshold_state :: "threshold_detector \<Rightarrow> threshold_detector" where
  "reset_threshold_state d = d\<lparr>td_states := (\<lambda>_. None)\<rparr>"

definition sample_node :: "metric_sample \<Rightarrow> string" where
  "sample_node m = (if ms_node_id m = [] then ''local-edge'' else ms_node_id m)"

definition threshold_key :: "metric_sample \<Rightarrow> string" where
  "threshold_key m = sample_node m @ '':'' @ ms_name m"

definition find_rule :: "string \<Rightarrow> threshold_rule list \<Rightarrow> threshold_rule option" where
  "find_rule metric rules = find (\<lambda>r. tr_metric r = metric) rules"

definition recovery_of :: "float64 option \<Rightarrow> float64 \<Rightarrow> float64" where
  "recovery_of recovery v = (case recovery of None \<Rightarrow> v | Some r \<Rightarrow> r)"

text \<open>A side of the hysteresis: whether it is active afterwards, and whether a breach begins.\<close>

definition upper_step :: "threshold_rule \<Rightarrow> float64 \<Rightarrow> bool \<Rightarrow> bool \<times> bool" where
  "upper_step r v active =
     (case tr_upper r of None \<Rightarrow> (active, False) | Some high \<Rightarrow>
        if active then (if fle v (recovery_of (tr_upper_recovery r) high) then (False, False) else (True, False))
        else if flt high v then (True, True) else (False, False))"

definition lower_step :: "threshold_rule \<Rightarrow> float64 \<Rightarrow> bool \<Rightarrow> bool \<times> bool" where
  "lower_step r v active =
     (case tr_lower r of None \<Rightarrow> (active, False) | Some low \<Rightarrow>
        if active then (if fle (recovery_of (tr_lower_recovery r) low) v then (False, False) else (True, False))
        else if flt v low then (True, True) else (False, False))"

definition max_deviation :: "threshold_rule \<Rightarrow> float64 \<Rightarrow> float64" where
  "max_deviation r expected =
     (case tr_max_deviation r of
        Some d \<Rightarrow> if flt (Fin 0) d then d else if fabs expected = Fin 0 then Fin 100 else fabs expected
      | None \<Rightarrow> if fabs expected = Fin 0 then Fin 100 else fabs expected)"

definition breach_signal ::
  "threshold_rule \<Rightarrow> string \<Rightarrow> string \<Rightarrow> string \<Rightarrow> metric_sample \<Rightarrow> string \<Rightarrow> float64 \<Rightarrow> float64 option \<Rightarrow> anomaly_signal" where
  "breach_signal r version node direction m i threshold recovery =
     (let expected = (case tr_expected r of None \<Rightarrow> threshold | Some x \<Rightarrow> x);
          deviation = fsub (ms_value m) expected
      in \<lparr>as_anomaly_id = i, as_node_id = node, as_metric_name = ms_name m, as_observed_value = ms_value m,
          as_expected_value = expected, as_deviation = deviation,
          as_anomaly_score = unit_score (fdiv (fabs deviation) (max_deviation r expected)),
          as_detection_method = ''static_threshold'', as_detected_at = ms_timestamp m,
          as_evidence = Some [(''direction'', Lit direction), (''state'', Lit ''breached''), (''threshold'', float4 threshold),
            (''recovery_thresh'', float4 (recovery_of recovery threshold))],
          as_correlation_id = [], as_detector_version = version\<rparr>)"

definition emit_breach ::
  "threshold_detector \<Rightarrow> threshold_rule \<Rightarrow> string \<Rightarrow> metric_sample \<Rightarrow> float64 option \<Rightarrow> float64 option \<Rightarrow>
   detect_err + anomaly_signal option" where
  "emit_breach d r direction m threshold recovery =
     (case threshold of None \<Rightarrow> Inr None | Some v \<Rightarrow>
      case td_id d (sample_node m) (ms_name m) (td_version d) (ms_timestamp m) (ms_sample_id m) (ms_value m) of
        None \<Rightarrow> Inl DetectId
      | Some i \<Rightarrow>
          let sig = breach_signal r (td_version d) (sample_node m) direction m i v recovery
          in case anomaly_signal_validate sig of Some e \<Rightarrow> Inl (DetectSignal e) | None \<Rightarrow> Inr (Some sig))"

definition threshold_detect ::
  "metric_sample \<Rightarrow> threshold_detector \<Rightarrow> (detect_err + anomaly_signal option) \<times> threshold_detector" where
  "threshold_detect m d =
     (case metric_sample_validate m of Some e \<Rightarrow> (Inl (DetectSample e), d) | None \<Rightarrow>
      case find_rule (ms_name m) (td_rules d) of None \<Rightarrow> (Inr None, d) | Some r \<Rightarrow>
      if tr_disallow_negative r \<and> flt (ms_value m) (Fin 0) then (Inl DetectNegative, d)
      else let key = threshold_key m;
               st = (case td_states d key of None \<Rightarrow> nominal | Some st \<Rightarrow> st)
        in case (upper_step r (ms_value m) (mst_upper st), lower_step r (ms_value m) (mst_lower st)) of
          ((up, new_up), (low, new_low)) \<Rightarrow>
            let d' = d\<lparr>td_states := (td_states d)(key \<mapsto> \<lparr>mst_upper = up, mst_lower = low\<rparr>)\<rparr>
            in (if new_up then emit_breach d r ''upper'' m (tr_upper r) (tr_upper_recovery r)
                else if new_low then emit_breach d r ''lower'' m (tr_lower r) (tr_lower_recovery r)
                else Inr None, d'))"

text \<open>
  The samples of a batch in order: the first error ends the batch, and the signals found before it are not
  returned.  A detector is its step on a sample.
\<close>

definition correlate :: "telemetry_batch \<Rightarrow> anomaly_signal \<Rightarrow> anomaly_signal" where
  "correlate b sig =
     (if as_correlation_id sig = [] \<and> tb_batch_id b \<noteq> [] then sig\<lparr>as_correlation_id := tb_batch_id b\<rparr> else sig)"

fun detect_samples ::
  "(metric_sample \<Rightarrow> 'd \<Rightarrow> (detect_err + anomaly_signal option) \<times> 'd) \<Rightarrow> telemetry_batch \<Rightarrow> metric_sample list \<Rightarrow>
   anomaly_signal list \<Rightarrow> 'd \<Rightarrow> (detect_err + anomaly_signal list) \<times> 'd" where
  "detect_samples step b [] acc d = (Inr acc, d)"
| "detect_samples step b (m # ms) acc d =
     (case step m d of
        (Inl e, d') \<Rightarrow> (Inl e, d')
      | (Inr None, d') \<Rightarrow> detect_samples step b ms acc d'
      | (Inr (Some sig), d') \<Rightarrow> detect_samples step b ms (acc @ [correlate b sig]) d')"

definition detect_batch ::
  "(metric_sample \<Rightarrow> 'd \<Rightarrow> (detect_err + anomaly_signal option) \<times> 'd) \<Rightarrow> telemetry_batch option \<Rightarrow> 'd \<Rightarrow>
   (detect_err + anomaly_signal list) \<times> 'd" where
  "detect_batch step bo d =
     (case bo of None \<Rightarrow> (Inl DetectNilBatch, d) | Some b \<Rightarrow>
        (case telemetry_batch_validate b of Some e \<Rightarrow> (Inl (DetectBatch e), d)
         | None \<Rightarrow> detect_samples step b (tb_metrics b) [] d))"

end
