(* ===== verification/Detector_Statistical.thy ===== *)
theory Detector_Statistical
  imports Detector
begin

text \<open>
  \<open>edge/agent/detector/statistical.go\<close>: the rolling z-score detector.  A stream is keyed by its node and
  metric; its history holds the latest values, oldest first.
\<close>

record statistical_rule =
  sr_metric :: string
  sr_window :: int
  sr_min_observations :: int
  sr_threshold :: float64
  sr_max_z :: "float64 option"
  sr_epsilon :: float64
  sr_min_difference :: float64

datatype statistical_err =
    ErrEmptyStatMetric | ErrInvalidWindowSize | ErrInvalidMinObservations | ErrInvalidZScoreThreshold | ErrInvalidMaxZScore
  | ErrNoStatRules | ErrDuplicateStatRule string

definition statistical_rule_validate :: "statistical_rule \<Rightarrow> statistical_err option" where
  "statistical_rule_validate r =
     (if blank (sr_metric r) then Some ErrEmptyStatMetric
      else if sr_window r \<le> 0 then Some ErrInvalidWindowSize
      else if sr_min_observations r < 2 \<or> sr_window r < sr_min_observations r then Some ErrInvalidMinObservations
      else if \<not> is_finite (sr_threshold r) \<or> fle (sr_threshold r) (Fin 0) then Some ErrInvalidZScoreThreshold
      else case sr_max_z r of None \<Rightarrow> None
        | Some z \<Rightarrow> if \<not> is_finite z \<or> flt z (sr_threshold r) then Some ErrInvalidMaxZScore else None)"

record statistical_detector =
  sd_version :: string
  sd_rules :: "statistical_rule list"
  sd_states :: "string \<times> string \<rightharpoonup> float64 list"
  sd_id :: id_generator

fun collect_statistical :: "statistical_rule list \<Rightarrow> statistical_rule list \<Rightarrow> statistical_err + statistical_rule list" where
  "collect_statistical acc [] = Inr acc"
| "collect_statistical acc (r # rs) =
     (case statistical_rule_validate r of Some e \<Rightarrow> Inl e | None \<Rightarrow>
        if sr_metric r \<in> set (map sr_metric acc) then Inl (ErrDuplicateStatRule (sr_metric r))
        else collect_statistical (acc @ [r]) rs)"

definition new_statistical_detector ::
  "id_generator \<Rightarrow> string \<Rightarrow> statistical_rule list \<Rightarrow> statistical_err + statistical_detector" where
  "new_statistical_detector gen version rules =
     (if rules = [] then Inl ErrNoStatRules
      else case collect_statistical [] rules of Inl e \<Rightarrow> Inl e | Inr rs \<Rightarrow>
        Inr \<lparr>sd_version = detector_version version, sd_rules = rs, sd_states = (\<lambda>_. None), sd_id = gen\<rparr>)"

definition default_statistical_rules :: "statistical_rule list" where
  "default_statistical_rules =
     map (\<lambda>m. \<lparr>sr_metric = m, sr_window = 20, sr_min_observations = 10, sr_threshold = Fin 3, sr_max_z = None,
               sr_epsilon = Fin 0, sr_min_difference = Fin 0\<rparr>)
       [''cpu_usage_percent'', ''memory_usage_percent'', ''disk_usage_percent'', ''temperature_celsius'']"

definition reset_statistical_state :: "statistical_detector \<Rightarrow> statistical_detector" where
  "reset_statistical_state d = d\<lparr>sd_states := (\<lambda>_. None)\<rparr>"

definition get_history :: "string \<Rightarrow> string \<Rightarrow> statistical_detector \<Rightarrow> float64 list option" where
  "get_history node metric d = sd_states d (if node = [] then ''local-edge'' else node, metric)"

definition push_value :: "int \<Rightarrow> float64 \<Rightarrow> float64 list \<Rightarrow> float64 list" where
  "push_value window v h =
     (let h' = h @ [v] in if window < int (length h') then drop (length h' - nat window) h' else h')"

text \<open>The baseline of a history: its mean and its standard deviation, summed up in order.\<close>

definition fsum :: "float64 list \<Rightarrow> float64" where
  "fsum xs = fold (\<lambda>v acc. fadd acc v) xs (Fin 0)"

definition mean_of :: "float64 list \<Rightarrow> float64" where
  "mean_of h = fdiv (fsum h) (Fin (of_nat (length h)))"

definition std_dev_of :: "float64 list \<Rightarrow> float64" where
  "std_dev_of h =
     (let mean = mean_of h
      in fsqrt (fdiv (fsum (map (\<lambda>v. fmul (fsub v mean) (fsub v mean)) h)) (Fin (of_nat (length h)))))"

record assessment =
  az_mean :: float64
  az_std_dev :: float64
  az_deviation :: float64
  az_z_score :: float64
  az_zero :: bool
  az_anomaly :: bool

definition assess :: "statistical_rule \<Rightarrow> float64 list \<Rightarrow> float64 \<Rightarrow> assessment" where
  "assess r h v =
     (let mean = mean_of h; sd = std_dev_of h;
          eps = (if fle (sr_epsilon r) (Fin 0) then to_float (1 / 10 ^ 9) else sr_epsilon r);
          min_diff = (if fle (sr_min_difference r) (Fin 0) then to_float (1 / 10 ^ 6) else sr_min_difference r);
          deviation = fsub v mean; diff = fabs deviation
      in if fle sd eps
         then (if flt min_diff diff
               then \<lparr>az_mean = mean, az_std_dev = sd, az_deviation = deviation,
                     az_z_score = fmax (sr_threshold r) (fmul (fdiv diff (fmax (fabs mean) (Fin 1))) (sr_threshold r)),
                     az_zero = True, az_anomaly = True\<rparr>
               else \<lparr>az_mean = mean, az_std_dev = sd, az_deviation = deviation, az_z_score = Fin 0, az_zero = True,
                     az_anomaly = False\<rparr>)
         else let z = fdiv diff sd
           in \<lparr>az_mean = mean, az_std_dev = sd, az_deviation = deviation, az_z_score = z, az_zero = False,
               az_anomaly = fle (sr_threshold r) z\<rparr>)"

definition statistical_signal ::
  "statistical_rule \<Rightarrow> string \<Rightarrow> metric_sample \<Rightarrow> string \<Rightarrow> nat \<Rightarrow> assessment \<Rightarrow> anomaly_signal" where
  "statistical_signal r version m i n a =
     (let max_z = (case sr_max_z r of Some z \<Rightarrow> z | None \<Rightarrow> fmul (sr_threshold r) (Fin 2));
          float6 = (\<lambda>x. Fmt ''%.6f'' [AFloat x]);
          evidence = [(''direction'', Lit (if flt (ms_value m) (az_mean a) then ''lower'' else ''upper'')),
            (''mean'', float6 (az_mean a)), (''standard_deviation'', float6 (az_std_dev a)), (''z_score'', float6 (az_z_score a)),
            (''z_threshold'', float4 (sr_threshold r)), (''window_size'', Fmt ''%d'' [AInt (sr_window r)]),
            (''observation_count'', Fmt ''%d'' [AInt (int n)]), (''rule_name'', Lit (''statistical_'' @ ms_name m)),
            (''detector_version'', Lit version),
            (''description'', Fmt ''Statistical anomaly detected on %s: observed %.4f (mean %.4f, stddev %.4f, z %.4f)''
              [AStr (ms_name m), AFloat (ms_value m), AFloat (az_mean a), AFloat (az_std_dev a), AFloat (az_z_score a)])]
      in \<lparr>as_anomaly_id = i, as_node_id = sample_node m, as_metric_name = ms_name m, as_observed_value = ms_value m,
          as_expected_value = az_mean a, as_deviation = az_deviation a,
          as_anomaly_score = unit_score (fdiv (az_z_score a) max_z),
          as_detection_method = ''z_score'', as_detected_at = ms_timestamp m,
          as_evidence = Some (if az_zero a then evidence @ [(''zero_stddev'', Lit ''true'')] else evidence),
          as_correlation_id = [], as_detector_version = version\<rparr>)"

definition emit_statistical ::
  "statistical_detector \<Rightarrow> statistical_rule \<Rightarrow> metric_sample \<Rightarrow> nat \<Rightarrow> assessment \<Rightarrow> detect_err + anomaly_signal option" where
  "emit_statistical d r m n a =
     (case sd_id d (sample_node m) (ms_name m) (sd_version d) (ms_timestamp m) (ms_sample_id m) (ms_value m) of
        None \<Rightarrow> Inl DetectId
      | Some i \<Rightarrow>
          let sig = statistical_signal r (sd_version d) m i n a
          in case anomaly_signal_validate sig of Some e \<Rightarrow> Inl (DetectSignal e) | None \<Rightarrow> Inr (Some sig))"

definition statistical_detect ::
  "metric_sample \<Rightarrow> statistical_detector \<Rightarrow> (detect_err + anomaly_signal option) \<times> statistical_detector" where
  "statistical_detect m d =
     (case metric_sample_validate m of Some e \<Rightarrow> (Inl (DetectSample e), d) | None \<Rightarrow>
      case find (\<lambda>r. sr_metric r = ms_name m) (sd_rules d) of None \<Rightarrow> (Inr None, d) | Some r \<Rightarrow>
      let key = (sample_node m, ms_name m);
          h = (case sd_states d key of None \<Rightarrow> [] | Some h \<Rightarrow> h);
          d' = d\<lparr>sd_states := (sd_states d)(key \<mapsto> push_value (sr_window r) (ms_value m) h)\<rparr>
      in if int (length h) < sr_min_observations r then (Inr None, d')
         else let a = assess r h (ms_value m)
           in (if az_anomaly a then emit_statistical d r m (length h) a else Inr None, d'))"

end
