(* ===== verification/Ml_Model.thy ===== *)
theory Ml_Model
  imports Go_Float Response_Decision
begin

text \<open>
  \<open>shared/ml\<close>: the model artifact of the isolation forest, its validation, its compatibility with an engine
  and the states of its deployment.  \<open>math.Log\<close> is a parameter, and so are \<open>encoding/json\<close> and SHA-256, of
  which the checksum is made.  Indices are Go's \<open>int\<close>.
\<close>

section \<open>The artifact\<close>

datatype model_status = ModelActive | ModelStale | ModelDisabled | ModelStatusOther string

record norm_params =
  np_metric :: string
  np_mean :: float64
  np_std_dev :: float64
  np_min :: float64
  np_max :: float64

record tree_node =
  tn_feature :: int
  tn_split :: float64
  tn_left :: int
  tn_right :: int
  tn_size :: int

definition is_leaf :: "tree_node \<Rightarrow> bool" where
  "is_leaf n \<longleftrightarrow> tn_left n = - 1 \<and> tn_right n = - 1"

record isolation_tree =
  it_root :: int
  it_nodes :: "tree_node list"

record signature_info =
  si_algorithm :: string
  si_key_id :: string
  si_signature :: string
  si_signed_at :: gotime

record model_manifest =
  mm_model_id :: string
  mm_version :: string
  mm_format :: string
  mm_algorithm :: string
  mm_feature_schema :: string
  mm_dataset :: string
  mm_created_at :: gotime
  mm_dimensions :: int
  mm_metrics :: "string list"
  mm_norms :: "norm_params list"
  mm_trees :: "isolation_tree list"
  mm_sub_sample :: int
  mm_threshold :: float64
  mm_checksum :: string
  mm_status :: model_status
  mm_signature :: "signature_info option"

definition canonical_metrics :: "string list" where
  "canonical_metrics = [''cpu_usage_percent'', ''memory_usage_percent'', ''disk_usage_percent'', ''temperature_celsius'']"

datatype ml_err =
    ErrNilModelManifest | ErrEmptyModelID | ErrEmptyModelVersion | ErrUnsupportedAlgorithm
  | ErrUnsupportedFeatureSchema | ErrInvalidInputDimensions | ErrUnsupportedMetricName | ErrDuplicateMetricName
  | ErrInvalidNormalizationParams | ErrInvalidDecisionThreshold | ErrInvalidSubSampleSize | ErrInvalidModelStatus
  | ErrChecksumMismatch | ErrMarshal | ErrEmptyTrees | ErrExcessiveTreeCount | ErrExcessiveNodeCount
  | ErrExcessiveTreeDepth | ErrInvalidTreeRoot | ErrInvalidChildIndex | ErrInvalidFeatureIndex
  | ErrInvalidSplitValue | ErrMalformedLeafNode | ErrTreeCycleDetected | ErrUnreachableNodes
  | ErrMissingRequiredFeature | ErrInvalidFeatureValue | ErrDimensionMismatch | ErrCorruptModelArtifact ml_err
  | ErrEmptyArtifact | ErrUnmarshal | ErrPanicked

abbreviation max_trees :: nat where "max_trees \<equiv> 1000"
abbreviation max_nodes_per_tree :: nat where "max_nodes_per_tree \<equiv> 2048"
abbreviation max_total_nodes :: nat where "max_total_nodes \<equiv> 100000"
abbreviation max_tree_depth :: nat where "max_tree_depth \<equiv> 50"

text \<open>\<open>EulerMascheroni\<close> is a constant of the source; the program uses the nearest double.\<close>

definition euler_mascheroni :: float64 where
  "euler_mascheroni = to_float (577215664901532860606512090082402431042 / 10 ^ 39)"

definition expected_path_length :: "(float64 \<Rightarrow> float64) \<Rightarrow> float64 \<Rightarrow> float64" where
  "expected_path_length ln_fn n =
     (if fle n (Fin 1) then Fin 0
      else if n = Fin 2 then Fin 1
      else fsub (fmul (Fin 2) (fadd (ln_fn (fsub n (Fin 1))) euler_mascheroni))
             (fdiv (fmul (Fin 2) (fsub n (Fin 1))) n))"

section \<open>Validation\<close>

fun validate_metrics :: "string list \<Rightarrow> string list \<Rightarrow> ml_err option" where
  "validate_metrics seen [] = None"
| "validate_metrics seen (m # ms) =
     (let t = trim_space m
      in if t = [] then Some ErrUnsupportedMetricName
         else if t \<in> set seen then Some ErrDuplicateMetricName
         else if t \<notin> set canonical_metrics then Some ErrUnsupportedMetricName
         else validate_metrics (t # seen) ms)"

definition norm_ok :: "norm_params \<Rightarrow> string \<Rightarrow> bool" where
  "norm_ok p metric \<longleftrightarrow> np_metric p = metric \<and> is_finite (np_mean p) \<and>
     is_finite (np_std_dev p) \<and> \<not> fle (np_std_dev p) (Fin 0) \<and> is_finite (np_min p) \<and> is_finite (np_max p) \<and>
     \<not> flt (np_max p) (np_min p)"

definition validate_node :: "int \<Rightarrow> nat \<Rightarrow> tree_node \<Rightarrow> ml_err option" where
  "validate_node dims n x =
     (if is_leaf x then
        (if tn_feature x \<noteq> - 1 then Some ErrMalformedLeafNode
         else if tn_size x < 1 then Some ErrMalformedLeafNode
         else if \<not> is_finite (tn_split x) then Some ErrInvalidSplitValue
         else None)
      else if tn_left x < 0 \<or> int n \<le> tn_left x then Some ErrInvalidChildIndex
      else if tn_right x < 0 \<or> int n \<le> tn_right x then Some ErrInvalidChildIndex
      else if tn_left x = tn_right x then Some ErrInvalidChildIndex
      else if tn_feature x < 0 \<or> dims \<le> tn_feature x then Some ErrInvalidFeatureIndex
      else if \<not> is_finite (tn_split x) then Some ErrInvalidSplitValue
      else None)"

fun first_error :: "('a \<Rightarrow> 'e option) \<Rightarrow> 'a list \<Rightarrow> 'e option" where
  "first_error f [] = None"
| "first_error f (x # xs) = (case f x of Some e \<Rightarrow> Some e | None \<Rightarrow> first_error f xs)"

definition unseen :: "bool list \<Rightarrow> nat" where
  "unseen vis = length (filter Not vis)"

lemma unseen_mark: "i < length vis \<Longrightarrow> \<not> vis ! i \<Longrightarrow> Suc (unseen (vis[i := True])) = unseen vis"
  by (induction vis arbitrary: i) (auto simp: unseen_def nth_Cons split: nat.splits if_splits)

text \<open>
  The walk over the graph of a tree: a stack of nodes with their depths, the visited nodes and the number of
  edges into each.  A node reached again, or a path that is too deep, is an error; an index out of range
  would panic.  The result of a walk that ends well is what it visited.
\<close>

function walk_tree ::
  "tree_node list \<Rightarrow> bool list \<Rightarrow> nat list \<Rightarrow> (nat \<times> nat) list \<Rightarrow> ml_err + bool list" where
  "walk_tree nodes vis deg [] = Inr vis"
| "walk_tree nodes vis deg ((i, d) # stack) =
     (if max_tree_depth < d then Inl ErrExcessiveTreeDepth
      else if length nodes \<le> i then Inl ErrPanicked
      else let x = nodes ! i; l = nat (tn_left x); r = nat (tn_right x)
        in if is_leaf x then walk_tree nodes vis deg stack
           else if tn_left x < 0 \<or> length vis \<le> l \<or> length deg \<le> l then Inl ErrPanicked
           else let deg1 = deg[l := deg ! l + 1]
             in if 1 < deg1 ! l \<or> vis ! l then Inl ErrTreeCycleDetected
                else if tn_right x < 0 \<or> length vis \<le> r \<or> length deg \<le> r then Inl ErrPanicked
                else let vis1 = vis[l := True]; deg2 = deg1[r := deg1 ! r + 1]
                  in if 1 < deg2 ! r \<or> vis1 ! r then Inl ErrTreeCycleDetected
                     else walk_tree nodes (vis1[r := True]) deg2 ((r, d + 1) # (l, d + 1) # stack))"
  by pat_completeness auto

termination
proof (relation "measure (\<lambda>(nodes, vis, deg, stack). unseen vis + length stack)", goal_cases)
  case (3 nodes vis deg i d stack x l r deg1 vis1 deg2)
  then have "l < length vis" "\<not> vis ! l" "r < length vis1" "\<not> vis1 ! r" by auto
  with unseen_mark [of l vis] unseen_mark [of r vis1] 3 show ?case by simp
qed auto

declare walk_tree.simps(2) [simp del]

definition validate_tree :: "int \<Rightarrow> isolation_tree \<Rightarrow> ml_err option" where
  "validate_tree dims t =
     (let n = length (it_nodes t)
      in if it_root t < 0 \<or> int n \<le> it_root t then Some ErrInvalidTreeRoot
         else case first_error (validate_node dims n) (it_nodes t) of Some e \<Rightarrow> Some e | None \<Rightarrow>
         case walk_tree (it_nodes t) ((replicate n False)[nat (it_root t) := True]) (replicate n 0) [(nat (it_root t), 0)] of
           Inl e \<Rightarrow> Some e
         | Inr vis \<Rightarrow> if list_all id vis then None else Some ErrUnreachableNodes)"

fun validate_trees :: "int \<Rightarrow> nat \<Rightarrow> isolation_tree list \<Rightarrow> ml_err option" where
  "validate_trees dims sofar [] = None"
| "validate_trees dims sofar (t # ts) =
     (let n = length (it_nodes t); sofar' = sofar + n
      in if n = 0 then Some ErrEmptyTrees
         else if max_nodes_per_tree < n then Some ErrExcessiveNodeCount
         else if max_total_nodes < sofar' then Some ErrExcessiveNodeCount
         else case validate_tree dims t of Some e \<Rightarrow> Some e | None \<Rightarrow> validate_trees dims sofar' ts)"

definition compute_checksum :: "digest \<Rightarrow> (model_manifest \<Rightarrow> string option) \<Rightarrow> model_manifest \<Rightarrow> string option" where
  "compute_checksum sha encode m = map_option (\<lambda>data. hex_bytes (sha data)) (encode (m\<lparr>mm_checksum := []\<rparr>))"

text \<open>\<open>strings.EqualFold\<close> with a text of hexadecimal digits ignores the case of ASCII letters.\<close>

definition validate_checksum :: "digest \<Rightarrow> (model_manifest \<Rightarrow> string option) \<Rightarrow> model_manifest \<Rightarrow> ml_err option" where
  "validate_checksum sha encode m =
     (if trim_space (mm_checksum m) = [] then None
      else case compute_checksum sha encode m of
        None \<Rightarrow> Some ErrMarshal
      | Some h \<Rightarrow> if map lower_byte (trim_space (mm_checksum m)) = h then None else Some ErrChecksumMismatch)"

definition manifest_validate :: "digest \<Rightarrow> (model_manifest \<Rightarrow> string option) \<Rightarrow> model_manifest option \<Rightarrow> ml_err option" where
  "manifest_validate sha encode mo =
     (case mo of None \<Rightarrow> Some ErrNilModelManifest | Some m \<Rightarrow>
        if blank (mm_model_id m) then Some ErrEmptyModelID
        else if blank (mm_version m) then Some ErrEmptyModelVersion
        else if mm_algorithm m \<noteq> ''isolation_forest'' then Some ErrUnsupportedAlgorithm
        else if mm_feature_schema m \<noteq> ''features.v1.0.0'' then Some ErrUnsupportedFeatureSchema
        else if mm_status m \<noteq> ModelActive then Some ErrInvalidModelStatus
        else if mm_dimensions m \<le> 0 \<or> 64 < mm_dimensions m then Some ErrInvalidInputDimensions
        else if int (length (mm_metrics m)) \<noteq> mm_dimensions m then Some ErrInvalidInputDimensions
        else case validate_metrics [] (mm_metrics m) of Some e \<Rightarrow> Some e | None \<Rightarrow>
        if int (length (mm_norms m)) \<noteq> mm_dimensions m then Some ErrInvalidNormalizationParams
        else if \<not> list_all2 norm_ok (mm_norms m) (mm_metrics m) then Some ErrInvalidNormalizationParams
        else if \<not> is_finite (mm_threshold m) \<or> fle (mm_threshold m) (Fin 0) \<or> fle (Fin 1) (mm_threshold m)
        then Some ErrInvalidDecisionThreshold
        else if mm_sub_sample m < 2 \<or> 10000 < mm_sub_sample m then Some ErrInvalidSubSampleSize
        else if mm_trees m = [] then Some ErrEmptyTrees
        else if max_trees < length (mm_trees m) then Some ErrExcessiveTreeCount
        else case validate_trees (mm_dimensions m) 0 (mm_trees m) of Some e \<Rightarrow> Some e | None \<Rightarrow>
        validate_checksum sha encode m)"

text \<open>\<open>Serialize\<close> adds a newline to the indented JSON; \<open>Deserialize\<close> validates what it decoded.\<close>

definition model_serialize ::
  "digest \<Rightarrow> (model_manifest \<Rightarrow> string option) \<Rightarrow> (model_manifest \<Rightarrow> string option) \<Rightarrow> model_manifest option \<Rightarrow> ml_err + string" where
  "model_serialize sha encode indent mo =
     (case mo of None \<Rightarrow> Inl ErrNilModelManifest | Some m \<Rightarrow>
        (case manifest_validate sha encode mo of Some e \<Rightarrow> Inl e | None \<Rightarrow>
          (case indent m of None \<Rightarrow> Inl ErrMarshal | Some data \<Rightarrow> Inr (data @ [CHR 0x0A]))))"

definition model_deserialize ::
  "digest \<Rightarrow> (model_manifest \<Rightarrow> string option) \<Rightarrow> (string \<Rightarrow> model_manifest option) \<Rightarrow> string \<Rightarrow> ml_err + model_manifest" where
  "model_deserialize sha encode decode data =
     (if data = [] then Inl (ErrCorruptModelArtifact ErrEmptyArtifact)
      else case decode data of None \<Rightarrow> Inl (ErrCorruptModelArtifact ErrUnmarshal) | Some m \<Rightarrow>
        (case manifest_validate sha encode (Some m) of Some e \<Rightarrow> Inl (ErrCorruptModelArtifact e) | None \<Rightarrow> Inr m))"

section \<open>Compatibility\<close>

record compatibility_requirement =
  cr_algorithm :: string
  cr_feature_schema :: string
  cr_dimensions :: int
  cr_metrics :: "string list"
  cr_max_trees :: int
  cr_max_nodes :: int
  cr_max_total :: int
  cr_max_depth :: int
  cr_format :: string

definition default_requirements :: compatibility_requirement where
  "default_requirements =
     \<lparr>cr_algorithm = ''isolation_forest'', cr_feature_schema = ''features.v1.0.0'', cr_dimensions = 4,
      cr_metrics = canonical_metrics, cr_max_trees = 1000, cr_max_nodes = 2048, cr_max_total = 100000,
      cr_max_depth = 50, cr_format = ''aegisedge.model.v1''\<rparr>"

datatype issue =
    NilManifest | AlgorithmIssue | SchemaIssue | FormatIssue | DimensionIssue | MetricCountIssue | MetricOrderIssue nat
  | TreeCountIssue | NodeCountIssue nat | TotalNodesIssue

record compatibility_report =
  rp_compatible :: bool
  rp_model_id :: string
  rp_version :: string
  rp_algorithm :: string
  rp_feature_schema :: string
  rp_issues :: "issue list"

definition metric_issues :: "string list \<Rightarrow> string list \<Rightarrow> issue list" where
  "metric_issues expected actual =
     (if expected = [] then []
      else if length actual \<noteq> length expected then [MetricCountIssue]
      else map MetricOrderIssue (filter (\<lambda>i. actual ! i \<noteq> expected ! i) [0..<length expected]))"

definition compatibility_issues :: "model_manifest \<Rightarrow> compatibility_requirement \<Rightarrow> issue list" where
  "compatibility_issues m req =
     (if cr_algorithm req \<noteq> [] \<and> mm_algorithm m \<noteq> cr_algorithm req then [AlgorithmIssue] else []) @
     (if cr_feature_schema req \<noteq> [] \<and> mm_feature_schema m \<noteq> cr_feature_schema req then [SchemaIssue] else []) @
     (if mm_format m \<noteq> [] \<and> cr_format req \<noteq> [] \<and> mm_format m \<noteq> cr_format req then [FormatIssue] else []) @
     (if 0 < cr_dimensions req \<and> mm_dimensions m \<noteq> cr_dimensions req then [DimensionIssue] else []) @
     metric_issues (cr_metrics req) (mm_metrics m) @
     (if 0 < cr_max_trees req \<and> cr_max_trees req < int (length (mm_trees m)) then [TreeCountIssue] else []) @
     map NodeCountIssue (filter (\<lambda>i. 0 < cr_max_nodes req \<and> cr_max_nodes req < int (length (it_nodes (mm_trees m ! i))))
       [0..<length (mm_trees m)]) @
     (if 0 < cr_max_total req \<and> cr_max_total req < int (sum_list (map (\<lambda>t. length (it_nodes t)) (mm_trees m)))
      then [TotalNodesIssue] else [])"

definition check_compatibility :: "model_manifest option \<Rightarrow> compatibility_requirement \<Rightarrow> compatibility_report" where
  "check_compatibility mo req =
     (case mo of
        None \<Rightarrow> \<lparr>rp_compatible = False, rp_model_id = [], rp_version = [], rp_algorithm = [], rp_feature_schema = [],
                 rp_issues = [NilManifest]\<rparr>
      | Some m \<Rightarrow> \<lparr>rp_compatible = (compatibility_issues m req = []), rp_model_id = mm_model_id m, rp_version = mm_version m,
                 rp_algorithm = mm_algorithm m, rp_feature_schema = mm_feature_schema m, rp_issues = compatibility_issues m req\<rparr>)"

section \<open>Deployment\<close>

datatype deployment_state =
    DeployPending | DeployDownloading | DeployVerified | DeployValidated | DeployStaged | DeployActive
  | DeployRejected | DeployFailed | DeployRolledBack | DeployOther string

fun deployment_state_valid :: "deployment_state \<Rightarrow> bool" where
  "deployment_state_valid (DeployOther _) = False"
| "deployment_state_valid _ = True"

definition deployment_targets :: "deployment_state \<Rightarrow> deployment_state list" where
  "deployment_targets s =
     (case s of
        DeployPending \<Rightarrow> [DeployDownloading, DeployRejected, DeployFailed]
      | DeployDownloading \<Rightarrow> [DeployVerified, DeployFailed, DeployRejected]
      | DeployVerified \<Rightarrow> [DeployValidated, DeployRejected, DeployFailed]
      | DeployValidated \<Rightarrow> [DeployStaged, DeployRejected, DeployFailed]
      | DeployStaged \<Rightarrow> [DeployActive, DeployRejected, DeployFailed]
      | DeployActive \<Rightarrow> [DeployRolledBack, DeployFailed]
      | _ \<Rightarrow> [])"

definition deployment_can :: "deployment_state \<Rightarrow> deployment_state \<Rightarrow> bool" where
  "deployment_can s t \<longleftrightarrow> t \<in> set (deployment_targets s)"

record deployment_metadata =
  dm_id :: string
  dm_model_id :: string
  dm_version :: string
  dm_format :: string
  dm_feature_schema :: string
  dm_checksum :: string
  dm_size :: int
  dm_deployed_at :: gotime
  dm_rollback :: bool
  dm_fleet :: string
  dm_node :: string
  dm_signature :: "signature_info option"

datatype deployment_err =
    ErrEmptyDeploymentID | DeployModelID | DeployModelVersion | DeploySchema | DeployChecksum | ErrInvalidArtifactSize
  | ErrDeployedAt

definition deployment_validate :: "deployment_metadata \<Rightarrow> deployment_err option" where
  "deployment_validate d =
     (if blank (dm_id d) then Some ErrEmptyDeploymentID
      else if blank (dm_model_id d) then Some DeployModelID
      else if blank (dm_version d) then Some DeployModelVersion
      else if dm_feature_schema d \<noteq> ''features.v1.0.0'' then Some DeploySchema
      else if blank (dm_checksum d) then Some DeployChecksum
      else if dm_size d \<le> 0 then Some ErrInvalidArtifactSize
      else if is_zero (dm_deployed_at d) then Some ErrDeployedAt
      else None)"

end
