(* ===== verification/Detector_Ml.thy ===== *)
theory Detector_Ml
  imports Detector Ml_Model
begin

text \<open>
  \<open>edge/agent/detector/ml.go\<close>: the isolation forest detector.  \<open>math.Log\<close> and \<open>math.Pow\<close>, and the order in
  which a map is walked, are parameters.  A panic inside the evaluation of the forest is caught by \<open>Score\<close>
  and becomes an error.
\<close>

record ml_lib =
  lib_ln :: "float64 \<Rightarrow> float64"
  lib_pow2 :: "float64 \<Rightarrow> float64"
  lib_order :: "(int \<times> nat) list \<Rightarrow> (int \<times> nat) list"
  lib_pick :: nat

type_synonym buffer_key = "string \<times> gotime"

record ml_detector =
  md_manifest :: model_manifest
  md_c_psi :: float64
  md_id :: id_generator
  md_buffer :: "(buffer_key \<times> (string \<times> float64) list) list"

datatype ml_detect_err = MlModel ml_err | MlDetect detect_err

definition int_float :: "int \<Rightarrow> float64" where
  "int_float n = to_float (of_int n)"

definition new_ml_detector ::
  "ml_lib \<Rightarrow> digest \<Rightarrow> (model_manifest \<Rightarrow> string option) \<Rightarrow> id_generator \<Rightarrow> model_manifest option \<Rightarrow> ml_err + ml_detector" where
  "new_ml_detector lib sha encode gen mo =
     (case manifest_validate sha encode mo of Some e \<Rightarrow> Inl e | None \<Rightarrow>
        (case mo of None \<Rightarrow> Inl ErrNilModelManifest | Some m \<Rightarrow>
          Inr \<lparr>md_manifest = m, md_c_psi = expected_path_length (lib_ln lib) (int_float (mm_sub_sample m)),
               md_id = gen, md_buffer = []\<rparr>))"

definition reset_buffer :: "ml_detector \<Rightarrow> ml_detector" where
  "reset_buffer d = d\<lparr>md_buffer := []\<rparr>"

section \<open>Features\<close>

fun metric_map :: "(string \<times> float64) list \<Rightarrow> metric_sample list \<Rightarrow> ml_detect_err + (string \<times> float64) list" where
  "metric_map acc [] = Inr acc"
| "metric_map acc (m # ms) =
     (case metric_sample_validate m of Some e \<Rightarrow> Inl (MlDetect (DetectSample e)) | None \<Rightarrow>
        if map_of acc (ms_name m) \<noteq> None then Inl (MlModel ErrDuplicateMetricName)
        else metric_map (AList.update (ms_name m) (ms_value m) acc) ms)"

fun features_of :: "(string \<times> float64) list \<Rightarrow> string list \<Rightarrow> ml_err + float64 list" where
  "features_of values [] = Inr []"
| "features_of values (n # ns) =
     (case map_of values n of None \<Rightarrow> Inl ErrMissingRequiredFeature | Some v \<Rightarrow>
        if \<not> is_finite v then Inl ErrInvalidFeatureValue
        else case features_of values ns of Inl e \<Rightarrow> Inl e | Inr vs \<Rightarrow> Inr (v # vs))"

definition extract_features :: "model_manifest \<Rightarrow> telemetry_batch \<Rightarrow> ml_detect_err + float64 list" where
  "extract_features mf b =
     (case metric_map [] (tb_metrics b) of Inl e \<Rightarrow> Inl e | Inr values \<Rightarrow>
        (case features_of values (mm_metrics mf) of Inl e \<Rightarrow> Inl (MlModel e) | Inr vs \<Rightarrow> Inr vs))"

definition normalize_features :: "model_manifest \<Rightarrow> float64 list \<Rightarrow> ml_err + float64 list" where
  "normalize_features mf raw =
     (if int (length raw) \<noteq> mm_dimensions mf then Inl ErrDimensionMismatch
      else if \<not> list_all is_finite raw then Inl ErrInvalidFeatureValue
      else Inr (map2 (\<lambda>v p. fdiv (fsub v (np_mean p)) (np_std_dev p)) raw (mm_norms mf)))"

section \<open>Inference\<close>

text \<open>
  One tree: \<open>steps\<close> more nodes may be looked at, of \<open>MaxTreeDepth + 1\<close>.  An index out of range panics.
\<close>

definition node_at :: "tree_node list \<Rightarrow> int \<Rightarrow> tree_node option" where
  "node_at nodes i = (if 0 \<le> i \<and> i < int (length nodes) then Some (nodes ! nat i) else None)"

fun descend ::
  "(float64 \<Rightarrow> float64) \<Rightarrow> tree_node list \<Rightarrow> float64 list \<Rightarrow> nat \<Rightarrow> nat \<Rightarrow> int \<Rightarrow> ml_err + float64" where
  "descend ln_fn nodes v 0 depth i = Inl ErrExcessiveTreeDepth"
| "descend ln_fn nodes v (Suc steps) depth i =
     (case node_at nodes i of None \<Rightarrow> Inl ErrPanicked | Some x \<Rightarrow>
        if is_leaf x then Inr (fadd (int_float (int depth)) (expected_path_length ln_fn (int_float (tn_size x))))
        else if tn_feature x < 0 \<or> int (length v) \<le> tn_feature x then Inl ErrInvalidFeatureIndex
        else descend ln_fn nodes v steps (Suc depth)
          (if flt (v ! nat (tn_feature x)) (tn_split x) then tn_left x else tn_right x))"

definition traverse_tree :: "(float64 \<Rightarrow> float64) \<Rightarrow> isolation_tree \<Rightarrow> float64 list \<Rightarrow> ml_err + float64 \<times> int" where
  "traverse_tree ln_fn t v =
     (case node_at (it_nodes t) (it_root t) of None \<Rightarrow> Inl ErrPanicked | Some x \<Rightarrow>
        (case descend ln_fn (it_nodes t) v (Suc max_tree_depth) 0 (it_root t) of
           Inl e \<Rightarrow> Inl e
         | Inr len \<Rightarrow> Inr (len, if is_leaf x then - 1 else tn_feature x)))"

fun traverse_forest :: "(float64 \<Rightarrow> float64) \<Rightarrow> float64 list \<Rightarrow> isolation_tree list \<Rightarrow> float64 \<Rightarrow> int list \<Rightarrow> ml_err + float64 \<times> int list" where
  "traverse_forest ln_fn v [] acc roots = Inr (acc, roots)"
| "traverse_forest ln_fn v (t # ts) acc roots =
     (case traverse_tree ln_fn t v of Inl e \<Rightarrow> Inl e
      | Inr (len, f) \<Rightarrow> traverse_forest ln_fn v ts (fadd acc len) (if 0 \<le> f then f # roots else roots))"

definition split_counts :: "int list \<Rightarrow> (int \<times> nat) list" where
  "split_counts roots = map (\<lambda>f. (f, length (filter ((=) f) roots))) (remdups roots)"

definition dominant :: "(int \<times> nat) list \<Rightarrow> int" where
  "dominant counts = fst (fold (\<lambda>(f, n) (best, top_n). if top_n < int n then (f, int n) else (best, top_n)) counts (- 1, - 1))"

definition forest_score :: "ml_lib \<Rightarrow> ml_detector \<Rightarrow> float64 list \<Rightarrow> ml_err + float64 \<times> float64 \<times> string" where
  "forest_score lib d v =
     (let mf = md_manifest d
      in case traverse_forest (lib_ln lib) v (mm_trees mf) (Fin 0) [] of Inl e \<Rightarrow> Inl e | Inr (len, roots) \<Rightarrow>
         let avg = fdiv len (int_float (int (length (mm_trees mf))));
             f = dominant (lib_order lib (split_counts roots));
             diag = (if 0 \<le> f \<and> f < int (length (mm_metrics mf)) then mm_metrics mf ! nat f else []);
             score = (if flt (Fin 0) (md_c_psi d) then lib_pow2 lib (fdiv (fneg avg) (md_c_psi d)) else Fin (1 / 2))
         in Inr (avg, score, diag))"

definition ml_signal ::
  "model_manifest \<Rightarrow> string \<Rightarrow> gotime \<Rightarrow> string \<Rightarrow> float64 list \<Rightarrow> float64 \<Rightarrow> float64 \<Rightarrow> string \<Rightarrow> anomaly_signal" where
  "ml_signal mf node t i raw avg score diag =
     (let tau = mm_threshold mf;
          intensity = unit_score (fdiv (fsub score tau) (fsub (Fin 1) tau));
          float6 = (\<lambda>x. Fmt ''%.6f'' [AFloat x]); num = (\<lambda>n. Fmt ''%d'' [AInt n])
      in \<lparr>as_anomaly_id = i, as_node_id = node, as_metric_name = ''composite_multivariate'', as_observed_value = score,
          as_expected_value = tau, as_deviation = fsub score tau, as_anomaly_score = intensity,
          as_detection_method = ''ml_isolation_forest'', as_detected_at = t,
          as_evidence = Some [(''model_id'', Lit (mm_model_id mf)), (''model_version'', Lit (mm_version mf)),
            (''feature_schema_version'', Lit (mm_feature_schema mf)), (''raw_score'', float6 score),
            (''decision_threshold'', float4 tau), (''avg_path_length'', float6 avg),
            (''tree_count'', num (int (length (mm_trees mf)))), (''sub_sample_size'', num (mm_sub_sample mf)),
            (''features'', Fmt '','' [AMsgs (map2 (\<lambda>n v. Fmt ''%s=%.2f'' [AStr n, AFloat v]) (mm_metrics mf) raw)]),
            (''diagnostic_path_feature'', Lit diag), (''rule_name'', Lit ''ml_isolation_forest''),
            (''detector_version'', Lit (mm_version mf)),
            (''description'', Fmt ''Isolation Forest anomaly detected: raw score %.4f >= threshold %.4f (intensity %.4f, avg path %.4f)''
              [AFloat score, AFloat tau, AFloat intensity, AFloat avg])],
          as_correlation_id = [], as_detector_version = mm_version mf\<rparr>)"

definition detect_vector ::
  "ml_lib \<Rightarrow> ml_detector \<Rightarrow> string \<Rightarrow> gotime \<Rightarrow> string \<Rightarrow> float64 list \<Rightarrow> ml_detect_err + anomaly_signal option" where
  "detect_vector lib d node0 t sample raw =
     (let mf = md_manifest d; node = (if node0 = [] then ''local-edge'' else node0)
      in if mm_status mf \<noteq> ModelActive then Inr None
         else case normalize_features mf raw of Inl e \<Rightarrow> Inl (MlModel e) | Inr v \<Rightarrow>
         case forest_score lib d v of Inl e \<Rightarrow> Inl (MlModel e) | Inr (avg, score, diag) \<Rightarrow>
         if flt score (mm_threshold mf) then Inr None
         else case md_id d node ''composite_multivariate'' (mm_version mf) t sample score of
           None \<Rightarrow> Inl (MlDetect DetectId)
         | Some i \<Rightarrow>
             let sig = ml_signal mf node t i raw avg score diag
             in case anomaly_signal_validate sig of Some e \<Rightarrow> Inl (MlDetect (DetectSignal e)) | None \<Rightarrow> Inr (Some sig))"

text \<open>
  Single samples are collected per node and instant until every dimension has arrived; a buffer that has
  grown too large loses an entry first, whichever the map yields.
\<close>

definition evict_one :: "nat \<Rightarrow> 'b list \<Rightarrow> 'b list" where
  "evict_one pick xs = (if 1000 < length xs then (let i = pick mod length xs in take i xs @ drop (Suc i) xs) else xs)"

definition ml_detect ::
  "ml_lib \<Rightarrow> metric_sample \<Rightarrow> ml_detector \<Rightarrow> (ml_detect_err + anomaly_signal option) \<times> ml_detector" where
  "ml_detect lib m d =
     (let mf = md_manifest d
      in case metric_sample_validate m of Some e \<Rightarrow> (Inl (MlDetect (DetectSample e)), d) | None \<Rightarrow>
         if mm_status mf \<noteq> ModelActive then (Inr None, d)
         else if ms_name m \<notin> set (mm_metrics mf) then (Inr None, d)
         else
           let key = (sample_node m, ms_timestamp m);
               buffer = evict_one (lib_pick lib) (md_buffer d);
               found = (case map_of buffer key of None \<Rightarrow> [] | Some x \<Rightarrow> x);
               entry = AList.update (ms_name m) (ms_value m) found
           in if int (length entry) < mm_dimensions mf then (Inr None, d\<lparr>md_buffer := AList.update key entry buffer\<rparr>)
              else let raw = map (\<lambda>n. case map_of entry n of Some v \<Rightarrow> v | None \<Rightarrow> Fin 0) (mm_metrics mf)
                in (detect_vector lib d (sample_node m) (ms_timestamp m) (ms_sample_id m) raw,
                    d\<lparr>md_buffer := filter (\<lambda>(k, _). k \<noteq> key) buffer\<rparr>))"

definition ml_detect_batch :: "ml_lib \<Rightarrow> telemetry_batch option \<Rightarrow> ml_detector \<Rightarrow> ml_detect_err + anomaly_signal list" where
  "ml_detect_batch lib bo d =
     (case bo of None \<Rightarrow> Inl (MlDetect DetectNilBatch) | Some b \<Rightarrow>
        case telemetry_batch_validate b of Some e \<Rightarrow> Inl (MlDetect (DetectBatch e)) | None \<Rightarrow>
        if mm_status (md_manifest d) \<noteq> ModelActive then Inr []
        else case extract_features (md_manifest d) b of
          Inl e \<Rightarrow> if e = MlModel ErrMissingRequiredFeature then Inr [] else Inl e
        | Inr raw \<Rightarrow>
            (case detect_vector lib d (tb_node_id b) (tb_collected_at b) (tb_batch_id b) raw of
               Inl e \<Rightarrow> Inl e
             | Inr None \<Rightarrow> Inr []
             | Inr (Some sig) \<Rightarrow> Inr [correlate b sig]))"

section \<open>A validated forest can be evaluated\<close>

text \<open>A node whose leaves are at most \<open>k\<close> steps away, along children that exist and features in range.\<close>

fun shallow :: "int \<Rightarrow> tree_node list \<Rightarrow> nat \<Rightarrow> nat \<Rightarrow> bool" where
  "shallow dims nodes 0 i \<longleftrightarrow> i < length nodes \<and> is_leaf (nodes ! i)"
| "shallow dims nodes (Suc k) i \<longleftrightarrow> i < length nodes \<and>
     (is_leaf (nodes ! i) \<or>
      0 \<le> tn_left (nodes ! i) \<and> 0 \<le> tn_right (nodes ! i) \<and> 0 \<le> tn_feature (nodes ! i) \<and> tn_feature (nodes ! i) < dims \<and>
      shallow dims nodes k (nat (tn_left (nodes ! i))) \<and> shallow dims nodes k (nat (tn_right (nodes ! i))))"

lemma first_error_None: "first_error f xs = None \<longleftrightarrow> (\<forall>x \<in> set xs. f x = None)"
  by (induction xs) (auto split: option.splits)

lemma validate_node_inner:
  "validate_node dims n x = None \<Longrightarrow> \<not> is_leaf x \<Longrightarrow>
     0 \<le> tn_left x \<and> 0 \<le> tn_right x \<and> 0 \<le> tn_feature x \<and> tn_feature x < dims"
  by (auto simp: validate_node_def split: if_splits)

lemma walk_tree_reads:
  "walk_tree nodes vis deg ((i, d) # stack) = Inr seen \<Longrightarrow> d \<le> max_tree_depth \<and> i < length nodes"
  by (simp add: walk_tree.simps(2) not_less split: if_split_asm)

lemma walk_tree_leaf:
  "walk_tree nodes vis deg ((i, d) # stack) = Inr seen \<Longrightarrow> is_leaf (nodes ! i) \<Longrightarrow> walk_tree nodes vis deg stack = Inr seen"
  by (simp add: walk_tree.simps(2) split: if_split_asm)

lemma walk_tree_inner:
  assumes "walk_tree nodes vis deg ((i, d) # stack) = Inr seen" and "\<not> is_leaf (nodes ! i)"
    and "l = nat (tn_left (nodes ! i))" and "r = nat (tn_right (nodes ! i))"
  shows "\<exists>vis' deg'. walk_tree nodes vis' deg' ((r, d + 1) # (l, d + 1) # stack) = Inr seen \<and>
           Suc (Suc (unseen vis')) = unseen vis"
proof -
  from walk_tree_reads [OF assms(1)] have top: "\<not> max_tree_depth < d" "\<not> length nodes \<le> i" by auto
  let ?deg1 = "deg[l := deg ! l + 1]" and ?vis1 = "vis[l := True]"
  note step = assms(1) [unfolded walk_tree.simps(2) [of nodes vis deg i d stack] Let_def if_not_P [OF top(1)] if_not_P [OF top(2)] if_not_P [OF assms(2)],
      folded assms(3) assms(4)]
  have g1: "\<not> (tn_left (nodes ! i) < 0 \<or> length vis \<le> l \<or> length deg \<le> l)" using step by (rule contrapos_pn) simp
  note step = step [unfolded if_not_P [OF g1]]
  have g2: "\<not> (1 < ?deg1 ! l \<or> vis ! l)" using step by (rule contrapos_pn) simp
  note step = step [unfolded if_not_P [OF g2]]
  have g3: "\<not> (tn_right (nodes ! i) < 0 \<or> length vis \<le> r \<or> length deg \<le> r)" using step by (rule contrapos_pn) simp
  note step = step [unfolded if_not_P [OF g3]]
  have g4: "\<not> (1 < ?deg1[r := ?deg1 ! r + 1] ! r \<or> ?vis1 ! r)" using step by (rule contrapos_pn) simp
  note step = step [unfolded if_not_P [OF g4]]
  from unseen_mark [of l vis] unseen_mark [of r ?vis1] g1 g2 g3 g4
  have "Suc (Suc (unseen (?vis1[r := True]))) = unseen vis" by simp
  with step show ?thesis by blast
qed

lemma walk_tree_shallow:
  assumes "walk_tree nodes vis deg stack = Inr seen" and "\<forall>x \<in> set nodes. validate_node dims n x = None"
    and "(i, d) \<in> set stack"
  shows "d \<le> max_tree_depth \<and> shallow dims nodes (max_tree_depth - d) i"
  using assms
proof (induction "unseen vis + length stack" arbitrary: vis deg stack i d rule: less_induct)
  case (less vis stack deg i d)
  note IH = less(1) [OF _ _ less(3)]
  from less(4) obtain i0 d0 rest where stack: "stack = (i0, d0) # rest" by (cases stack) auto
  let ?x = "nodes ! i0"
  note run = less(2) [unfolded stack]
  from walk_tree_reads [OF run] have top: "d0 \<le> max_tree_depth" "i0 < length nodes" by auto
  show ?case
  proof (cases "is_leaf ?x")
    case True
    note IH = IH [OF _ walk_tree_leaf [OF run True], unfolded stack, simplified]
    have "shallow dims nodes (max_tree_depth - d0) i0" using True top by (cases "max_tree_depth - d0") simp_all
    with IH less(4) top show ?thesis unfolding stack by auto
  next
    case inner: False
    let ?l = "nat (tn_left ?x)" and ?r = "nat (tn_right ?x)"
    from validate_node_inner [of dims n ?x] inner less(3) top
    have range: "0 \<le> tn_left ?x" "0 \<le> tn_right ?x" "0 \<le> tn_feature ?x" "tn_feature ?x < dims" by simp_all
    from walk_tree_inner [OF run inner refl refl] obtain vis' deg'
      where next_run: "walk_tree nodes vis' deg' ((?r, d0 + 1) # (?l, d0 + 1) # rest) = Inr seen"
        and fewer: "Suc (Suc (unseen vis')) = unseen vis" by blast
    have IH: "(j, e) \<in> set ((?r, d0 + 1) # (?l, d0 + 1) # rest) \<Longrightarrow>
        e \<le> max_tree_depth \<and> shallow dims nodes (max_tree_depth - e) j" for j e
      by (rule IH [OF _ next_run]) (use fewer stack in simp)
    have "shallow dims nodes (max_tree_depth - d0) i0"
    proof -
      from IH [of ?l "d0 + 1"] IH [of ?r "d0 + 1"] have sub: "d0 + 1 \<le> max_tree_depth"
        "shallow dims nodes (max_tree_depth - (d0 + 1)) ?l" "shallow dims nodes (max_tree_depth - (d0 + 1)) ?r" by simp_all
      then have "max_tree_depth - d0 = Suc (max_tree_depth - (d0 + 1))" by simp
      with sub range top show ?thesis by simp
    qed
    with IH less(4) top show ?thesis unfolding stack by auto
  qed
qed

lemma descend_shallow:
  "shallow dims nodes k i \<Longrightarrow> int (length v) = dims \<Longrightarrow> \<exists>len. descend ln_fn nodes v (Suc k) depth (int i) = Inr len"
proof (induction k arbitrary: i depth)
  case 0
  then show ?case by (simp add: node_at_def)
next
  case (Suc k)
  show ?case
  proof (cases "is_leaf (nodes ! i)")
    case True
    with Suc.prems show ?thesis by (simp add: node_at_def)
  next
    case False
    let ?x = "nodes ! i"
    let ?next = "if flt (v ! nat (tn_feature ?x)) (tn_split ?x) then tn_left ?x else tn_right ?x"
    from Suc.prems False have sub: "0 \<le> ?next" "shallow dims nodes k (nat ?next)" "tn_feature ?x < dims" "0 \<le> tn_feature ?x"
      "i < length nodes" by auto
    from Suc.IH [OF sub(2) Suc.prems(2), of "Suc depth"] sub(1)
    obtain len where "descend ln_fn nodes v (Suc k) (Suc depth) ?next = Inr len" by auto
    then have "descend ln_fn nodes v (Suc (Suc k)) depth (int i) = Inr len"
      using sub False Suc.prems(2) by (subst descend.simps) (simp add: node_at_def)
    then show ?thesis by blast
  qed
qed

lemma validate_tree_shallow:
  assumes "validate_tree dims t = None"
  shows "0 \<le> it_root t \<and> it_root t < int (length (it_nodes t)) \<and> shallow dims (it_nodes t) max_tree_depth (nat (it_root t))"
proof -
  let ?n = "length (it_nodes t)"
  from assms have root: "0 \<le> it_root t" "it_root t < int ?n"
    and sound: "\<forall>x \<in> set (it_nodes t). validate_node dims ?n x = None"
    by (auto simp: validate_tree_def Let_def first_error_None not_less not_le split: if_split_asm option.split_asm)
  from assms root sound obtain vis where
    "walk_tree (it_nodes t) ((replicate ?n False)[nat (it_root t) := True]) (replicate ?n 0) [(nat (it_root t), 0)] = Inr vis"
    by (auto simp: validate_tree_def Let_def first_error_None split: if_split_asm option.split_asm sum.split_asm)
  from walk_tree_shallow [OF this sound, of "nat (it_root t)" 0] root show ?thesis by simp
qed

lemma traverse_tree_total:
  assumes "validate_tree dims t = None" and "int (length v) = dims"
  shows "\<exists>r. traverse_tree ln_fn t v = Inr r"
proof -
  from validate_tree_shallow [OF assms(1)]
  have root: "0 \<le> it_root t" "it_root t < int (length (it_nodes t))"
    "shallow dims (it_nodes t) max_tree_depth (nat (it_root t))" by simp_all
  from descend_shallow [OF root(3) assms(2), of ln_fn 0] root(1)
  obtain len where "descend ln_fn (it_nodes t) v (Suc max_tree_depth) 0 (it_root t) = Inr len" by auto
  with root show ?thesis by (simp add: traverse_tree_def node_at_def)
qed

lemma validate_trees_each: "validate_trees dims sofar ts = None \<Longrightarrow> t \<in> set ts \<Longrightarrow> validate_tree dims t = None"
  by (induction dims sofar ts rule: validate_trees.induct) (auto simp: Let_def split: if_split_asm option.split_asm)

lemma traverse_forest_total:
  assumes "\<forall>t \<in> set ts. validate_tree dims t = None" and "int (length v) = dims"
  shows "\<exists>r. traverse_forest ln_fn v ts acc roots = Inr r"
  using assms
proof (induction ts arbitrary: acc roots)
  case (Cons t ts)
  then obtain len f where "traverse_tree ln_fn t v = Inr (len, f)"
    using traverse_tree_total [of dims t v ln_fn] by auto
  with Cons show ?case by simp
qed simp

lemma manifest_validate_trees:
  "manifest_validate sha encode (Some m) = None \<Longrightarrow>
     (\<forall>t \<in> set (mm_trees m). validate_tree (mm_dimensions m) t = None) \<and> int (length (mm_norms m)) = mm_dimensions m"
  by (auto simp: manifest_validate_def dest: validate_trees_each split: if_split_asm option.split_asm)

lemma forest_score_total:
  assumes "new_ml_detector lib sha encode gen mo = Inr d" and "int (length v) = mm_dimensions (md_manifest d)"
  shows "\<exists>r. forest_score lib d v = Inr r"
proof -
  from assms(1) have "manifest_validate sha encode (Some (md_manifest d)) = None"
    by (auto simp: new_ml_detector_def split: option.split_asm)
  from manifest_validate_trees [OF this] traverse_forest_total [OF _ assms(2), of "mm_trees (md_manifest d)" "lib_ln lib" "Fin 0" "[]"]
  obtain r where "traverse_forest (lib_ln lib) v (mm_trees (md_manifest d)) (Fin 0) [] = Inr r" by blast
  then show ?thesis by (cases r) (simp add: forest_score_def Let_def)
qed

lemma normalize_features_length:
  "normalize_features mf raw = Inr v \<Longrightarrow> int (length (mm_norms mf)) = mm_dimensions mf \<Longrightarrow> int (length v) = mm_dimensions mf"
  by (auto simp: normalize_features_def split: if_split_asm)

text \<open>
  C34. A model that passed validation is never the reason an inference fails: when evaluating a vector returns an error,
  the vector had the wrong length or a value that is no number, or the anomaly identifier or the signal was refused.
  In particular no tree is too deep, no feature or child index is out of range and nothing panics.
\<close>
theorem validated_model_never_fails:
  assumes "new_ml_detector lib sha encode gen mo = Inr d" and "detect_vector lib d node t i raw = Inl e"
  shows "(int (length raw) \<noteq> mm_dimensions (md_manifest d) \<and> e = MlModel ErrDimensionMismatch) \<or>
    (\<not> list_all is_finite raw \<and> e = MlModel ErrInvalidFeatureValue) \<or>
    e = MlDetect DetectId \<or> (\<exists>s. e = MlDetect (DetectSignal s))"
proof (cases "normalize_features (md_manifest d) raw")
  case (Inl x)
  with assms(2) show ?thesis
    by (auto simp: detect_vector_def Let_def normalize_features_def split: if_split_asm)
next
  case (Inr v)
  from assms(1) have "manifest_validate sha encode (Some (md_manifest d)) = None"
    by (auto simp: new_ml_detector_def split: option.split_asm)
  with manifest_validate_trees [OF this] normalize_features_length [OF Inr] forest_score_total [OF assms(1), of v]
  obtain avg score diag where "forest_score lib d v = Inr (avg, score, diag)" by auto
  with Inr assms(2) show ?thesis
    by (auto simp: detect_vector_def Let_def split: if_split_asm option.split_asm)
qed

definition small_model :: model_manifest where
  "small_model = \<lparr>mm_model_id = ''m'', mm_version = ''1'', mm_format = [], mm_algorithm = ''isolation_forest'',
     mm_feature_schema = ''features.v1.0.0'', mm_dataset = [], mm_created_at = 1, mm_dimensions = 1,
     mm_metrics = [''cpu_usage_percent''],
     mm_norms = [\<lparr>np_metric = ''cpu_usage_percent'', np_mean = Fin 0, np_std_dev = Fin 1, np_min = Fin 0, np_max = Fin 1\<rparr>],
     mm_trees = [\<lparr>it_root = 0, it_nodes =
       [\<lparr>tn_feature = 0, tn_split = Fin 0, tn_left = 1, tn_right = 2, tn_size = 2\<rparr>,
        \<lparr>tn_feature = - 1, tn_split = Fin 0, tn_left = - 1, tn_right = - 1, tn_size = 1\<rparr>,
        \<lparr>tn_feature = - 1, tn_split = Fin 0, tn_left = - 1, tn_right = - 1, tn_size = 1\<rparr>]\<rparr>],
     mm_sub_sample = 2, mm_threshold = Fin (1 / 2), mm_checksum = [], mm_status = ModelActive, mm_signature = None\<rparr>"

definition small_lib :: ml_lib where
  "small_lib = \<lparr>lib_ln = (\<lambda>x. x), lib_pow2 = (\<lambda>_. Fin 1), lib_order = (\<lambda>x. x), lib_pick = 0\<rparr>"

lemma small_texts:
  "\<not> blank ''m''" "\<not> blank ''1''" "trim_space ''cpu_usage_percent'' = ''cpu_usage_percent''" "trim_space [] = []"
  by code_simp+

lemma small_tree_valid: "validate_trees 1 0 (mm_trees small_model) = None"
  by (simp add: small_model_def validate_tree_def validate_node_def is_leaf_def walk_tree.simps(2) Let_def numeral_2_eq_2)

lemma small_model_valid: "manifest_validate (\<lambda>_. []) (\<lambda>_. None) (Some small_model) = None"
  using small_tree_valid
  by (simp add: manifest_validate_def small_model_def small_texts canonical_metrics_def norm_ok_def validate_checksum_def)

theorem validated_model_never_fails_witness:
  "\<exists>d. new_ml_detector small_lib (\<lambda>_. []) (\<lambda>_. None) (\<lambda>_ _ _ _ _ _. None) (Some small_model) = Inr d \<and>
     detect_vector small_lib d ''n'' 1 ''s'' [Fin 2] = Inl (MlDetect DetectId)"
proof -
  let ?d = "\<lparr>md_manifest = small_model, md_c_psi = expected_path_length (\<lambda>x. x) (int_float 2),
      md_id = (\<lambda>_ _ _ _ _ _. None), md_buffer = []\<rparr>"
  have new: "new_ml_detector small_lib (\<lambda>_. []) (\<lambda>_. None) (\<lambda>_ _ _ _ _ _. None) (Some small_model) = Inr ?d"
    by (simp add: new_ml_detector_def small_model_valid) (simp add: small_lib_def small_model_def)
  let ?nodes = "it_nodes (hd (mm_trees small_model))"
  have "descend (\<lambda>x. x) ?nodes [Fin 2] (Suc (Suc k)) 0 0 = Inr (Fin 1)" for k
    by (simp add: small_model_def node_at_def is_leaf_def int_float_def expected_path_length_def small_floats to_float_two)
  from this [of 49] have "traverse_tree (\<lambda>x. x) (hd (mm_trees small_model)) [Fin 2] = Inr (Fin 1, 0)"
    by (simp add: traverse_tree_def small_model_def node_at_def is_leaf_def)
  then have "detect_vector small_lib ?d ''n'' 1 ''s'' [Fin 2] = Inl (MlDetect DetectId)"
    by (simp add: detect_vector_def small_model_def small_lib_def normalize_features_def forest_score_def fsub_def int_float_def expected_path_length_def split_counts_def dominant_def
        Let_def small_floats to_float_two)
  with validated_model_never_fails [OF new this] new show ?thesis by auto
qed

end
