(* ===== verification/Detector_Properties.thy ===== *)
theory Detector_Properties
  imports Detector_Statistical Detector_Ml
begin

text \<open>
  What the detectors remember of a stream of samples, against the stream itself: the hysteresis of the
  threshold detector and the sliding window of the statistical one.
\<close>

section \<open>Hysteresis\<close>

text \<open>
  The reference: after the values \<open>vs\<close> a side is in breach if some value crossed its threshold and none
  since then has come back to its recovery threshold.
\<close>

definition in_breach :: "('a \<Rightarrow> bool) \<Rightarrow> ('a \<Rightarrow> bool) \<Rightarrow> 'a list \<Rightarrow> bool" where
  "in_breach crosses recovers vs \<longleftrightarrow>
     (\<exists>xs v ys. vs = xs @ v # ys \<and> crosses v \<and> (\<forall>y \<in> set ys. \<not> recovers y))"

lemma in_breach_Nil [simp]: "\<not> in_breach crosses recovers []"
  by (simp add: in_breach_def)

lemma in_breach_snoc:
  "in_breach crosses recovers (vs @ [v]) \<longleftrightarrow> crosses v \<or> (in_breach crosses recovers vs \<and> \<not> recovers v)"
proof
  assume "in_breach crosses recovers (vs @ [v])"
  then obtain xs w ys where split: "vs @ [v] = xs @ w # ys" and "crosses w" "\<forall>y \<in> set ys. \<not> recovers y"
    unfolding in_breach_def by blast
  then show "crosses v \<or> (in_breach crosses recovers vs \<and> \<not> recovers v)"
    by (cases ys rule: rev_cases) (auto simp: in_breach_def)
next
  assume "crosses v \<or> (in_breach crosses recovers vs \<and> \<not> recovers v)"
  then show "in_breach crosses recovers (vs @ [v])"
  proof
    assume "crosses v"
    then show ?thesis unfolding in_breach_def by (metis empty_iff list.set(1))
  next
    assume "in_breach crosses recovers vs \<and> \<not> recovers v"
    then obtain xs w ys where "vs = xs @ w # ys" "crosses w" "\<forall>y \<in> set (ys @ [v]). \<not> recovers y"
      unfolding in_breach_def by auto
    then show ?thesis unfolding in_breach_def by (metis append.assoc append_Cons)
  qed
qed

definition crosses_upper :: "threshold_rule \<Rightarrow> float64 \<Rightarrow> bool" where
  "crosses_upper r v \<longleftrightarrow> (case tr_upper r of None \<Rightarrow> False | Some high \<Rightarrow> flt high v)"

definition recovers_upper :: "threshold_rule \<Rightarrow> float64 \<Rightarrow> bool" where
  "recovers_upper r v \<longleftrightarrow> (case tr_upper r of None \<Rightarrow> False | Some high \<Rightarrow> fle v (recovery_of (tr_upper_recovery r) high))"

definition crosses_lower :: "threshold_rule \<Rightarrow> float64 \<Rightarrow> bool" where
  "crosses_lower r v \<longleftrightarrow> (case tr_lower r of None \<Rightarrow> False | Some low \<Rightarrow> flt v low)"

definition recovers_lower :: "threshold_rule \<Rightarrow> float64 \<Rightarrow> bool" where
  "recovers_lower r v \<longleftrightarrow> (case tr_lower r of None \<Rightarrow> False | Some low \<Rightarrow> fle (recovery_of (tr_lower_recovery r) low) v)"

definition upper_breached :: "threshold_rule \<Rightarrow> float64 list \<Rightarrow> bool" where
  "upper_breached r = in_breach (crosses_upper r) (recovers_upper r)"

definition lower_breached :: "threshold_rule \<Rightarrow> float64 list \<Rightarrow> bool" where
  "lower_breached r = in_breach (crosses_lower r) (recovers_lower r)"

lemma finite_separates:
  "is_finite a \<Longrightarrow> is_finite b \<Longrightarrow> \<not> flt a b \<Longrightarrow> flt a v \<Longrightarrow> \<not> fle v b"
  "is_finite a \<Longrightarrow> is_finite b \<Longrightarrow> \<not> flt b a \<Longrightarrow> flt v a \<Longrightarrow> \<not> fle b v"
  by (cases a; cases b; cases v; simp)+

text \<open>A side of a valid rule does not cross its threshold and recover on one value.\<close>

lemma valid_rule_separates:
  assumes "threshold_rule_validate r = None"
  shows "crosses_upper r v \<Longrightarrow> \<not> recovers_upper r v" and "crosses_lower r v \<Longrightarrow> \<not> recovers_lower r v"
proof -
  from assms have upper: "validate_side True (tr_disallow_negative r) (tr_upper r) (tr_upper_recovery r) = None"
    and lower: "validate_side False (tr_disallow_negative r) (tr_lower r) (tr_lower_recovery r) = None"
    by (simp_all add: threshold_rule_validate_def split: if_split_asm option.split_asm)
  show "\<not> recovers_upper r v" if "crosses_upper r v"
  proof (cases "tr_upper r")
    case (Some high)
    with upper that show ?thesis
      using finite_separates(1) [of high _ v] flt_le_contra [of high v]
      by (cases "tr_upper_recovery r")
        (auto simp: crosses_upper_def recovers_upper_def validate_side_def recovery_of_def split: if_split_asm)
  qed (simp add: recovers_upper_def)
  show "\<not> recovers_lower r v" if "crosses_lower r v"
  proof (cases "tr_lower r")
    case (Some low)
    with lower that show ?thesis
      using finite_separates(2) [of low _ v] flt_le_contra [of v low]
      by (cases "tr_lower_recovery r")
        (auto simp: crosses_lower_def recovers_lower_def validate_side_def recovery_of_def split: if_split_asm)
  qed (simp add: recovers_lower_def)
qed

lemma upper_step_refines:
  "threshold_rule_validate r = None \<Longrightarrow>
     upper_step r v (upper_breached r vs) = (upper_breached r (vs @ [v]), upper_breached r (vs @ [v]) \<and> \<not> upper_breached r vs)"
  using valid_rule_separates(1) [of r v]
  by (auto simp: upper_step_def upper_breached_def in_breach_snoc crosses_upper_def recovers_upper_def split: option.splits)

lemma lower_step_refines:
  "threshold_rule_validate r = None \<Longrightarrow>
     lower_step r v (lower_breached r vs) = (lower_breached r (vs @ [v]), lower_breached r (vs @ [v]) \<and> \<not> lower_breached r vs)"
  using valid_rule_separates(2) [of r v]
  by (auto simp: lower_step_def lower_breached_def in_breach_snoc crosses_lower_def recovers_lower_def split: option.splits)

section \<open>Streams of samples\<close>

definition run_threshold :: "metric_sample list \<Rightarrow> threshold_detector \<Rightarrow> threshold_detector" where
  "run_threshold ms d = fold (\<lambda>m d. snd (threshold_detect m d)) ms d"

definition state_at :: "threshold_detector \<Rightarrow> string \<Rightarrow> metric_state" where
  "state_at d k = (case td_states d k of None \<Rightarrow> nominal | Some st \<Rightarrow> st)"

definition sample_accepted :: "threshold_rule \<Rightarrow> metric_sample \<Rightarrow> bool" where
  "sample_accepted r m \<longleftrightarrow> metric_sample_validate m = None \<and> \<not> (tr_disallow_negative r \<and> flt (ms_value m) (Fin 0))"

definition stream_values :: "threshold_rule \<Rightarrow> string \<Rightarrow> metric_sample list \<Rightarrow> float64 list" where
  "stream_values r k ms = map ms_value (filter (\<lambda>m. threshold_key m = k \<and> sample_accepted r m) ms)"

lemma threshold_detect_rules [simp]: "td_rules (snd (threshold_detect m d)) = td_rules d"
  by (auto simp: threshold_detect_def Let_def split: option.splits prod.splits)

lemma threshold_detect_elsewhere:
  "threshold_key m \<noteq> k \<Longrightarrow> state_at (snd (threshold_detect m d)) k = state_at d k"
  by (auto simp: threshold_detect_def Let_def state_at_def split: option.splits prod.splits)

lemma threshold_detect_refused:
  "find_rule (ms_name m) (td_rules d) = Some r \<Longrightarrow> \<not> sample_accepted r m \<Longrightarrow> snd (threshold_detect m d) = d"
  by (auto simp: threshold_detect_def sample_accepted_def split: option.splits)

lemma threshold_detect_accepted:
  assumes "find_rule (ms_name m) (td_rules d) = Some r" and "sample_accepted r m"
    and "upper_step r (ms_value m) (mst_upper (state_at d (threshold_key m))) = (up, new_up)"
    and "lower_step r (ms_value m) (mst_lower (state_at d (threshold_key m))) = (low, new_low)"
  shows "threshold_detect m d =
    (if new_up then emit_breach d r ''upper'' m (tr_upper r) (tr_upper_recovery r)
     else if new_low then emit_breach d r ''lower'' m (tr_lower r) (tr_lower_recovery r) else Inr None,
     d\<lparr>td_states := (td_states d)(threshold_key m \<mapsto> \<lparr>mst_upper = up, mst_lower = low\<rparr>)\<rparr>)"
  using assms unfolding sample_accepted_def state_at_def by (auto simp: threshold_detect_def Let_def)

lemma threshold_detect_stream:
  assumes "find_rule n (td_rules d) = Some r" and "threshold_rule_validate r = None"
    and "threshold_key m = k \<longrightarrow> ms_name m = n"
    and "state_at d k = \<lparr>mst_upper = upper_breached r vs, mst_lower = lower_breached r vs\<rparr>"
  shows "state_at (snd (threshold_detect m d)) k =
    \<lparr>mst_upper = upper_breached r (vs @ stream_values r k [m]), mst_lower = lower_breached r (vs @ stream_values r k [m])\<rparr>"
proof (cases "threshold_key m = k \<and> sample_accepted r m")
  case True
  let ?vs = "vs @ [ms_value m]"
  from True assms threshold_detect_accepted [of m d r] upper_step_refines [OF assms(2), of "ms_value m" vs]
    lower_step_refines [OF assms(2), of "ms_value m" vs]
  have "snd (threshold_detect m d) = d\<lparr>td_states := (td_states d)(k \<mapsto>
      \<lparr>mst_upper = upper_breached r ?vs, mst_lower = lower_breached r ?vs\<rparr>)\<rparr>" by simp
  with True show ?thesis by (simp add: state_at_def stream_values_def)
next
  case False
  then have "state_at (snd (threshold_detect m d)) k = state_at d k"
    using assms threshold_detect_elsewhere threshold_detect_refused by metis
  with False assms(4) show ?thesis by (auto simp: stream_values_def)
qed

lemma run_threshold_stream:
  assumes "find_rule n (td_rules d) = Some r" and "threshold_rule_validate r = None"
    and "\<forall>m \<in> set ms. threshold_key m = k \<longrightarrow> ms_name m = n"
    and "state_at d k = \<lparr>mst_upper = upper_breached r vs, mst_lower = lower_breached r vs\<rparr>"
  shows "td_rules (run_threshold ms d) = td_rules d \<and> state_at (run_threshold ms d) k =
    \<lparr>mst_upper = upper_breached r (vs @ stream_values r k ms), mst_lower = lower_breached r (vs @ stream_values r k ms)\<rparr>"
  using assms
proof (induction ms arbitrary: d vs)
  case (Cons m ms)
  let ?d = "snd (threshold_detect m d)"
  have "state_at ?d k = \<lparr>mst_upper = upper_breached r (vs @ stream_values r k [m]),
      mst_lower = lower_breached r (vs @ stream_values r k [m])\<rparr>"
    using threshold_detect_stream [of n d r m k vs] Cons.prems by simp
  from Cons.IH [OF _ _ _ this] Cons.prems show ?case
    by (simp add: run_threshold_def stream_values_def)
qed (simp add: run_threshold_def stream_values_def)

lemma collect_rules_keeps:
  "collect_rules validate metric acc rs = Inr out \<Longrightarrow> out = acc @ rs \<and> (\<forall>r \<in> set rs. validate r = None)"
  by (induction rs arbitrary: acc) (simp_all split: option.splits if_splits, fastforce)

lemma new_threshold_detector_rules:
  "new_threshold_detector gen version rules = Inr d \<Longrightarrow>
     td_rules d = rules \<and> td_states d = (\<lambda>_. None) \<and> (\<forall>r \<in> set rules. threshold_rule_validate r = None)"
  by (auto simp: new_threshold_detector_def dest: collect_rules_keeps split: sum.splits if_splits)

lemma emit_breach_reports: "threshold \<noteq> None \<Longrightarrow> emit_breach d r dir m threshold recovery \<noteq> Inr None"
  by (auto simp: emit_breach_def Let_def split: option.splits)

lemma onset_has_threshold:
  "upper_breached r (vs @ [v]) \<Longrightarrow> \<not> upper_breached r vs \<Longrightarrow> tr_upper r \<noteq> None"
  "lower_breached r (vs @ [v]) \<Longrightarrow> \<not> lower_breached r vs \<Longrightarrow> tr_lower r \<noteq> None"
  by (auto simp: upper_breached_def lower_breached_def in_breach_snoc crosses_upper_def crosses_lower_def split: option.splits)


definition cpu_rule :: threshold_rule where
  "cpu_rule = default_rule ''cpu'' 90 80 50 True"

definition cpu_sample :: "rat \<Rightarrow> metric_sample" where
  "cpu_sample v = \<lparr>ms_sample_id = ''s'', ms_node_id = ''n'', ms_name = ''cpu'', ms_value = Fin v, ms_unit = [], ms_labels = [],
     ms_timestamp = 1\<rparr>"

lemma cpu_texts: "\<not> blank ''cpu''" "trim_space ''1'' = ''1''" "\<not> blank ''x''"
  by code_simp+


section \<open>The sliding window\<close>

definition last_values :: "int \<Rightarrow> 'a list \<Rightarrow> 'a list" where
  "last_values w vs = drop (length vs - nat w) vs"

lemma push_value_last: "0 < w \<Longrightarrow> push_value w v (last_values w vs) = last_values w (vs @ [v])"
  by (cases "nat w \<le> length vs") (auto simp: push_value_def last_values_def Let_def Suc_diff_le)

definition run_statistical :: "metric_sample list \<Rightarrow> statistical_detector \<Rightarrow> statistical_detector" where
  "run_statistical ms d = fold (\<lambda>m d. snd (statistical_detect m d)) ms d"

definition values_of :: "string \<Rightarrow> string \<Rightarrow> metric_sample list \<Rightarrow> float64 list" where
  "values_of node n ms =
     map ms_value (filter (\<lambda>m. sample_node m = node \<and> ms_name m = n \<and> metric_sample_validate m = None) ms)"

definition window_at :: "statistical_detector \<Rightarrow> string \<Rightarrow> string \<Rightarrow> float64 list" where
  "window_at d node n = (case sd_states d (node, n) of None \<Rightarrow> [] | Some h \<Rightarrow> h)"

lemma statistical_detect_frame [simp]:
  "sd_rules (snd (statistical_detect m d)) = sd_rules d" "sd_id (snd (statistical_detect m d)) = sd_id d"
  "sd_version (snd (statistical_detect m d)) = sd_version d"
  by (simp_all add: statistical_detect_def Let_def split: option.splits)

lemma statistical_detect_window:
  assumes "find (\<lambda>r. sr_metric r = n) (sd_rules d) = Some r" and "0 < sr_window r"
    and "window_at d node n = last_values (sr_window r) vs"
  shows "window_at (snd (statistical_detect m d)) node n = last_values (sr_window r) (vs @ values_of node n [m])"
  using assms push_value_last [OF assms(2), of "ms_value m" vs]
  by (auto simp: statistical_detect_def Let_def window_at_def values_of_def split: option.splits)

lemma run_statistical_window:
  assumes "find (\<lambda>r. sr_metric r = n) (sd_rules d) = Some r" and "0 < sr_window r"
    and "window_at d node n = last_values (sr_window r) vs"
  shows "sd_rules (run_statistical ms d) = sd_rules d \<and> sd_id (run_statistical ms d) = sd_id d \<and>
    sd_version (run_statistical ms d) = sd_version d \<and>
    window_at (run_statistical ms d) node n = last_values (sr_window r) (vs @ values_of node n ms)"
  using assms
proof (induction ms arbitrary: d vs)
  case (Cons m ms)
  from Cons.IH [OF _ _ statistical_detect_window [OF Cons.prems, of m]] Cons.prems show ?case
    by (simp add: run_statistical_def values_of_def)
qed (simp add: run_statistical_def values_of_def)

lemma collect_statistical_keeps:
  "collect_statistical acc rs = Inr out \<Longrightarrow> out = acc @ rs \<and> (\<forall>r \<in> set rs. statistical_rule_validate r = None)"
  by (induction rs arbitrary: acc) (simp_all split: option.splits if_splits, fastforce)

lemma valid_window: "statistical_rule_validate r = None \<Longrightarrow> 0 < sr_window r \<and> 2 \<le> sr_min_observations r"
  by (simp add: statistical_rule_validate_def split: if_split_asm)

text \<open>
  C0. The statistical detector is a function of a sliding window: after any samples, what it does with a valid sample of a
  metric with a rule depends on the last \<open>WindowSize\<close> valid values of that node and metric before it and on nothing else.
  With fewer values than \<open>MinObservations\<close> it says nothing; otherwise it assesses the value against the mean
  and deviation of those values, the value itself not among them.
\<close>
theorem statistical_detector_sees_the_window:
  fixes ms :: "metric_sample list"
  assumes "new_statistical_detector gen version rules = Inr d0" and "find (\<lambda>r. sr_metric r = ms_name m) rules = Some r"
    and "metric_sample_validate m = None"
  defines "base \<equiv> last_values (sr_window r) (values_of (sample_node m) (ms_name m) ms)"
  shows "fst (statistical_detect m (run_statistical ms d0)) =
    (if int (length base) < sr_min_observations r \<or> \<not> az_anomaly (assess r base (ms_value m)) then Inr None
     else emit_statistical d0 r m (length base) (assess r base (ms_value m)))"
proof -
  from assms(1) have d0: "sd_rules d0 = rules" "sd_states d0 = (\<lambda>_. None)"
    and valid: "\<forall>r \<in> set rules. statistical_rule_validate r = None"
    by (auto simp: new_statistical_detector_def dest: collect_statistical_keeps split: sum.splits if_splits)
  from assms(2) valid have pos: "0 < sr_window r" by (auto simp: find_Some_iff dest: valid_window)
  have "window_at d0 (sample_node m) (ms_name m) = last_values (sr_window r) []"
    by (simp add: window_at_def d0 last_values_def)
  from run_statistical_window [OF _ pos this, of ms] assms(2) d0
  have run: "sd_rules (run_statistical ms d0) = rules" "sd_id (run_statistical ms d0) = sd_id d0"
    "sd_version (run_statistical ms d0) = sd_version d0" "window_at (run_statistical ms d0) (sample_node m) (ms_name m) = base"
    by (simp_all add: base_def)
  show ?thesis
    unfolding run(4) [symmetric] using assms(2,3) run
    by (simp add: statistical_detect_def Let_def window_at_def emit_statistical_def split: option.splits)
qed

definition cpu_statistics :: statistical_rule where
  "cpu_statistics = \<lparr>sr_metric = ''cpu'', sr_window = 3, sr_min_observations = 3, sr_threshold = Fin 3, sr_max_z = None,
     sr_epsilon = Fin 0, sr_min_difference = Fin 0\<rparr>"

text \<open>A sample that is refused and one of another metric do not count towards the three observations.\<close>

theorem statistical_detector_sees_the_window_witness:
  "\<exists>d. new_statistical_detector (\<lambda>_ _ _ _ _ _. Some ''a'') ''1'' [cpu_statistics] = Inr d \<and>
     fst (statistical_detect (cpu_sample 99) (run_statistical [cpu_sample 10, (cpu_sample 10)\<lparr>ms_value := PosInf\<rparr>,
       (cpu_sample 10)\<lparr>ms_name := ''x''\<rparr>, cpu_sample 11] d)) = Inr None"
proof -
  let ?d = "\<lparr>sd_version = ''1'', sd_rules = [cpu_statistics], sd_states = (\<lambda>_. None), sd_id = (\<lambda>_ _ _ _ _ _. Some ''a'')\<rparr>"
  let ?ms = "[cpu_sample 10, (cpu_sample 10)\<lparr>ms_value := PosInf\<rparr>, (cpu_sample 10)\<lparr>ms_name := ''x''\<rparr>, cpu_sample 11]"
  have new: "new_statistical_detector (\<lambda>_ _ _ _ _ _. Some ''a'') ''1'' [cpu_statistics] = Inr ?d"
    by (simp add: new_statistical_detector_def detector_version_def cpu_statistics_def statistical_rule_validate_def cpu_texts)
  have "values_of (sample_node (cpu_sample 99)) (ms_name (cpu_sample 99)) ?ms = [Fin 10, Fin 11]"
    by (simp add: values_of_def sample_node_def cpu_sample_def metric_sample_validate_def is_zero_def cpu_texts)
  with statistical_detector_sees_the_window [OF new, of "cpu_sample 99" cpu_statistics ?ms] new show ?thesis
    by (simp add: last_values_def cpu_statistics_def cpu_sample_def metric_sample_validate_def is_zero_def cpu_texts)
qed

end
