(* ===== verification/Coord_Client.thy ===== *)
theory Coord_Client
  imports Cp_Auth Domain_Types Audit_Service Go_Strings
begin

text \<open>
  \<open>edge/agent/coordination/client.go\<close>: the HTTP client an edge agent registers and sends heartbeats with.
  \<open>encoding/json\<close>, the parsing of URLs and the exchange itself are parameters; so are the texts of the
  errors they report.
\<close>

section \<open>Errors\<close>

datatype coord_err =
    CoordNilPayload string | CoordInvalid string type_err | CoordMarshal string | CoordRequest string
  | CoordNodeNotFound | CoordUnavailable string | CoordRejected int | CoordAuthFailed int | CoordBadBody string
  | CoordEmptyNode

fun coord_err_text :: "(type_err \<Rightarrow> string) \<Rightarrow> coord_err \<Rightarrow> string" where
  "coord_err_text type_text (CoordNilPayload what) = what @ '' cannot be nil''"
| "coord_err_text type_text (CoordInvalid what e) = ''invalid '' @ what @ '': '' @ type_text e"
| "coord_err_text type_text (CoordMarshal e) = ''failed to marshal request payload: '' @ e"
| "coord_err_text type_text (CoordRequest e) = ''failed to create request: '' @ e"
| "coord_err_text type_text CoordNodeNotFound = ''node not registered on control plane''"
| "coord_err_text type_text (CoordUnavailable e) = ''control plane server is unavailable: '' @ e"
| "coord_err_text type_text (CoordRejected s) = ''control plane rejected payload validation: status '' @ itoa s"
| "coord_err_text type_text (CoordAuthFailed s) = ''control plane authentication failed: status '' @ itoa s"
| "coord_err_text type_text (CoordBadBody e) = ''failed to parse response body: '' @ e"
| "coord_err_text type_text CoordEmptyNode = ''nodeID cannot be empty''"

text \<open>What the status of an answer means, in the order of the tests; \<open>None\<close> is success.\<close>

definition classify_status :: "int \<Rightarrow> coord_err option" where
  "classify_status s =
     (if s = 401 \<or> s = 403 then Some (CoordAuthFailed s)
      else if s = 404 then Some CoordNodeNotFound
      else if 500 \<le> s then Some (CoordUnavailable (''status '' @ itoa s))
      else if s < 200 \<or> 300 \<le> s then Some (CoordRejected s)
      else None)"

section \<open>Requests\<close>

record coord_client =
  hc_base :: string
  hc_timeout :: duration
  hc_node :: string
  hc_secret :: string

definition trim_right_slash :: "string \<Rightarrow> string" where
  "trim_right_slash s = rev (dropWhile (\<lambda>c. c = CHR ''/'') (rev s))"

definition new_coord_client :: "string \<Rightarrow> duration \<Rightarrow> coord_client" where
  "new_coord_client base timeout =
     \<lparr>hc_base = trim_right_slash (trim_space base), hc_timeout = (if timeout \<le> 0 then 5 * second else timeout),
      hc_node = [], hc_secret = []\<rparr>"

definition set_auth :: "string \<Rightarrow> string \<Rightarrow> coord_client \<Rightarrow> coord_client" where
  "set_auth node secret c = c\<lparr>hc_node := node, hc_secret := secret\<rparr>"

text \<open>
  What the client takes from the libraries for one request: the random bytes of the nonce, the current time
  as text, the request URI of a URL (its path where that is empty), and the error of \<open>http.NewRequest\<close>.
\<close>

record wire =
  wr_crypto :: crypto
  wr_random :: "nat list option"
  wr_stamp :: string
  wr_target :: "string \<Rightarrow> string"
  wr_new_request :: "string \<Rightarrow> string option"

record coord_request =
  hq_method :: string
  hq_url :: string
  hq_headers :: gomap
  hq_auth :: "auth_headers option"
  hq_body :: string

datatype http_outcome = HttpFailed string | HttpAnswered int string

text \<open>Without a secret, or when no nonce can be made, the request goes out unsigned.\<close>

definition auth_for :: "wire \<Rightarrow> coord_client \<Rightarrow> string \<Rightarrow> string \<Rightarrow> string \<Rightarrow> string \<Rightarrow> auth_headers option" where
  "auth_for w c http_method url fallback body =
     (if hc_secret c = [] then None
      else create_auth_headers (cr_hmac (wr_crypto w)) (cr_sha (wr_crypto w)) (wr_random w) (wr_stamp w) (hc_secret c)
        http_method (wr_target w url) (if hc_node c = [] then fallback else hc_node c) body)"

abbreviation max_response_body :: nat where "max_response_body \<equiv> 1048576"

definition read_answer :: "(string \<Rightarrow> string + 'a) \<Rightarrow> http_outcome \<Rightarrow> coord_err + 'a" where
  "read_answer decode answer =
     (case answer of HttpFailed e \<Rightarrow> Inl (CoordUnavailable e)
      | HttpAnswered s body \<Rightarrow>
          (case classify_status s of Some e \<Rightarrow> Inl e | None \<Rightarrow>
             (case decode (take max_response_body body) of Inl e \<Rightarrow> Inl (CoordBadBody e) | Inr x \<Rightarrow> Inr x)))"

definition post_request :: "wire \<Rightarrow> coord_client \<Rightarrow> string \<Rightarrow> string \<Rightarrow> string \<Rightarrow> coord_request" where
  "post_request w c url fallback body =
     \<lparr>hq_method = ''POST'', hq_url = url,
      hq_headers = [(''Content-Type'', ''application/json''), (''Accept'', ''application/json'')],
      hq_auth = auth_for w c ''POST'' url fallback body, hq_body = body\<rparr>"

definition do_post ::
  "wire \<Rightarrow> coord_client \<Rightarrow> string \<Rightarrow> string \<Rightarrow> string + string \<Rightarrow> (coord_request \<Rightarrow> http_outcome) \<Rightarrow>
   (string \<Rightarrow> string + 'a) \<Rightarrow> coord_err + 'a" where
  "do_post w c url fallback payload net decode =
     (case payload of Inl e \<Rightarrow> Inl (CoordMarshal e) | Inr body \<Rightarrow>
        (case wr_new_request w url of Some e \<Rightarrow> Inl (CoordRequest e) | None \<Rightarrow>
          read_answer decode (net (post_request w c url fallback body))))"

record registration_response =
  rr_status :: string
  rr_node :: string
  rr_message :: string

definition client_register_node ::
  "wire \<Rightarrow> (node_registration \<Rightarrow> string + string) \<Rightarrow> (coord_request \<Rightarrow> http_outcome) \<Rightarrow>
   (string \<Rightarrow> string + registration_response) \<Rightarrow> coord_client \<Rightarrow> node_registration option \<Rightarrow> coord_err + registration_response" where
  "client_register_node w encode net decode c ro =
     (case ro of None \<Rightarrow> Inl (CoordNilPayload ''node registration'') | Some r \<Rightarrow>
        (case node_registration_validate r of Some e \<Rightarrow> Inl (CoordInvalid ''node registration'' e) | None \<Rightarrow>
          do_post w c (hc_base c @ ''/api/v1/nodes/register'') (nr_node_id r) (encode r) net decode))"

text \<open>The answer to a heartbeat has the fields of the answer to a registration.\<close>

definition send_heartbeat_request ::
  "wire \<Rightarrow> (heartbeat \<Rightarrow> string + string) \<Rightarrow> (coord_request \<Rightarrow> http_outcome) \<Rightarrow>
   (string \<Rightarrow> string + registration_response) \<Rightarrow> coord_client \<Rightarrow> heartbeat option \<Rightarrow> coord_err + registration_response" where
  "send_heartbeat_request w encode net decode c ho =
     (case ho of None \<Rightarrow> Inl (CoordNilPayload ''heartbeat'') | Some h \<Rightarrow>
        (case heartbeat_validate h of Some e \<Rightarrow> Inl (CoordInvalid ''heartbeat'' e) | None \<Rightarrow>
          do_post w c (hc_base c @ ''/api/v1/nodes/heartbeat'') (hb_node_id h) (encode h) net decode))"

definition get_remote_node ::
  "wire \<Rightarrow> (coord_request \<Rightarrow> http_outcome) \<Rightarrow> (string \<Rightarrow> string + node_registration) \<Rightarrow> coord_client \<Rightarrow> string \<Rightarrow>
   coord_err + node_registration" where
  "get_remote_node w net decode c node =
     (let clean = trim_space node; url = hc_base c @ ''/api/v1/nodes/'' @ clean
      in if clean = [] then Inl CoordEmptyNode
         else case wr_new_request w url of Some e \<Rightarrow> Inl (CoordRequest e) | None \<Rightarrow>
           read_answer decode (net \<lparr>hq_method = ''GET'', hq_url = url, hq_headers = [(''Accept'', ''application/json'')],
             hq_auth = auth_for w c ''GET'' url clean [], hq_body = []\<rparr>))"

section \<open>What the server sees\<close>

text \<open>The request as \<open>AuthenticateRequest\<close> of the control plane reads it; a missing header reads as empty.\<close>

definition as_received :: "wire \<Rightarrow> coord_request \<Rightarrow> auth_request" where
  "as_received w q =
     (let field = (\<lambda>f. case hq_auth q of None \<Rightarrow> [] | Some h \<Rightarrow> f h)
      in \<lparr>rq_method = hq_method q, rq_target = wr_target w (hq_url q), rq_authorization = [], rq_node_id = field ah_node_id,
          rq_timestamp = field ah_timestamp, rq_nonce = field ah_nonce, rq_signature = field ah_signature, rq_body = hq_body q\<rparr>)"

lemma sign_request_trims:
  "sign_request hmac sha secret method target (trim_space node) (trim_space ts) (trim_space nonce) body =
     sign_request hmac sha secret method target node ts nonce body"
  by (simp add: sign_request_def build_canonical_string_def canonical_fields_def trim_space_idem)

lemma verify_own_signature:
  assumes "secret \<noteq> []" and "hmac secret (build_canonical_string sha method target node ts nonce body) \<noteq> []"
  shows "verify_signature hmac sha secret method target (trim_space node) (trim_space ts) (trim_space nonce)
    (trim_space (sign_request hmac sha secret method target node ts nonce body)) body"
proof -
  let ?sig = "sign_request hmac sha secret method target node ts nonce body"
  have "?sig \<noteq> []" using assms(2) by (cases "hmac secret (build_canonical_string sha method target node ts nonce body)")
      (auto simp: sign_request_def hex_bytes_Cons)
  moreover have "trim_space ?sig = ?sig" "to_lower ?sig = ?sig" by (simp_all add: sign_request_def trim_hex lower_hex)
  ultimately show ?thesis using assms(1) sign_request_trims by (simp add: verify_signature_def)
qed


definition edge_wire :: wire where
  "edge_wire = \<lparr>wr_crypto = \<lparr>cr_hmac = (\<lambda>_ _. [7]), cr_sha = (\<lambda>_. []), cr_rfc3339 = (\<lambda>_. Some 5)\<rparr>, wr_random = Some [255],
     wr_stamp = ''t'', wr_target = (\<lambda>u. u), wr_new_request = (\<lambda>_. None)\<rparr>"

lemma edge_texts: "trim_space ''edge'' = ''edge''" "trim_space ''t'' = ''t''" "valid_node_id ''edge''"
  by code_simp+


end
