(* ===== verification/Coordinator.thy ===== *)
theory Coordinator
  imports Coord_Client Health Go_Float
begin

text \<open>
  \<open>edge/agent/coordination\<close> (\<open>state.go\<close>, \<open>coordinator.go\<close>): the state of the connection to the control plane
  and the loop that registers the node and keeps sending heartbeats.  The coordinator is given the health
  tracker and the audit service of its state tracker, as \<open>main.go\<close> does.  Every reading of the clock and
  every write of an event is numbered, and the environment says what it yields.  Metrics and log output are
  not modelled.
\<close>

section \<open>Connection states\<close>

datatype coord_state =
    CoordDisconnected | CoordConnecting | CoordConnected | CoordDegraded | CoordStopping | CoordOtherState int

fun coord_state_string :: "coord_state \<Rightarrow> string" where
  "coord_state_string CoordDisconnected = ''DISCONNECTED''"
| "coord_state_string CoordConnecting = ''CONNECTING''"
| "coord_state_string CoordConnected = ''CONNECTED''"
| "coord_state_string CoordDegraded = ''DEGRADED''"
| "coord_state_string CoordStopping = ''STOPPING''"
| "coord_state_string (CoordOtherState _) = ''UNKNOWN''"

text \<open>
  \<open>cv_convert\<close> is what the conversion to an \<open>int64\<close> makes of a \<open>float64\<close> out of its range, which Go leaves to
  the implementation.
\<close>

record coord_env =
  cv_sha :: digest
  cv_clock :: "nat \<Rightarrow> gotime"
  cv_io :: "nat \<Rightarrow> db_io"
  cv_type_text :: "type_err \<Rightarrow> string"
  cv_duration_text :: "duration \<Rightarrow> string"
  cv_convert :: "float64 \<Rightarrow> int"

record coord_tracker =
  kt_state :: coord_state
  kt_last_connected :: gotime
  kt_last_heartbeat :: gotime
  kt_last_error :: string
  kt_node :: string
  kt_health :: "health_tracker option"
  kt_audit :: "audit_service option"
  kt_reads :: nat

definition read_clock :: "coord_env \<Rightarrow> coord_tracker \<Rightarrow> gotime \<times> coord_tracker" where
  "read_clock env t = (cv_clock env (kt_reads t), t\<lparr>kt_reads := Suc (kt_reads t)\<rparr>)"

definition set_control_plane :: "coord_env \<Rightarrow> check_status \<Rightarrow> string \<Rightarrow> coord_tracker \<Rightarrow> coord_tracker" where
  "set_control_plane env status msg t =
     (case kt_health t of None \<Rightarrow> t | Some h \<Rightarrow>
        (case read_clock env t of (now, t1) \<Rightarrow> t1\<lparr>kt_health := Some (snd (set_check_status now CheckControlPlane status msg h))\<rparr>))"

definition coordination_event :: "event_type \<Rightarrow> string \<Rightarrow> string \<Rightarrow> string \<Rightarrow> gomap \<Rightarrow> gotime \<Rightarrow> audit_event" where
  "coordination_event kind node result reason metadata now =
     \<lparr>ev_event_id = [], ev_event_type = kind, ev_timestamp = now, ev_node_id = node, ev_incident_id = ''system-coordination'',
      ev_decision_id = [], ev_action_id = [], ev_approval_id = [], ev_mitigation_record_id = [], ev_verification_id = [],
      ev_escalation_id = [], ev_correlation_id = [], ev_policy_version = [], ev_actor = [], ev_result = result,
      ev_reason = reason, ev_metadata = metadata\<rparr>"

text \<open>The result of \<open>Record\<close> is dropped; it reads the clock itself for an event without a time.\<close>

definition note_event :: "coord_env \<Rightarrow> audit_event \<Rightarrow> coord_tracker \<Rightarrow> coord_tracker" where
  "note_event env e t =
     (case kt_audit t of None \<Rightarrow> t | Some a \<Rightarrow>
        t\<lparr>kt_audit := Some (snd (audit_record (cv_sha env) (cv_io env (kt_reads t)) (cv_clock env (kt_reads t)) e a)),
          kt_reads := Suc (kt_reads t)\<rparr>)"

definition note_now :: "coord_env \<Rightarrow> event_type \<Rightarrow> string \<Rightarrow> string \<Rightarrow> gomap \<Rightarrow> coord_tracker \<Rightarrow> coord_tracker" where
  "note_now env kind result reason metadata t =
     (case kt_audit t of None \<Rightarrow> t | Some _ \<Rightarrow>
        (case read_clock env t of (now, t1) \<Rightarrow> note_event env (coordination_event kind (kt_node t) result reason metadata now) t1))"

definition new_coord_tracker :: "coord_env \<Rightarrow> string \<Rightarrow> health_tracker option \<Rightarrow> audit_service option \<Rightarrow> coord_tracker" where
  "new_coord_tracker env node h a =
     set_control_plane env StatusDegraded ''disconnected from control plane''
       \<lparr>kt_state = CoordDisconnected, kt_last_connected = 0, kt_last_heartbeat = 0, kt_last_error = [], kt_node = node,
        kt_health = h, kt_audit = a, kt_reads = 0\<rparr>"

text \<open>The change of state itself, under the lock.\<close>

definition move_state :: "coord_env \<Rightarrow> coord_state \<Rightarrow> string \<Rightarrow> coord_tracker \<Rightarrow> coord_tracker" where
  "move_state env new reason t =
     (let t1 = t\<lparr>kt_state := new\<rparr>
      in if new = CoordConnected
         then (case read_clock env t1 of (now, t2) \<Rightarrow> t2\<lparr>kt_last_connected := now, kt_last_error := []\<rparr>)
         else if reason \<noteq> [] then t1\<lparr>kt_last_error := reason\<rparr> else t1)"

definition with_reason :: "string \<Rightarrow> string \<Rightarrow> string" where
  "with_reason msg reason = (if reason = [] then msg else msg @ '': '' @ reason)"

definition show_health :: "coord_env \<Rightarrow> coord_state \<Rightarrow> string \<Rightarrow> coord_tracker \<Rightarrow> coord_tracker" where
  "show_health env new reason t =
     (case new of
        CoordConnected \<Rightarrow> set_control_plane env StatusOk ''connected to control plane'' t
      | CoordConnecting \<Rightarrow> set_control_plane env StatusDegraded ''connecting to control plane'' t
      | CoordDegraded \<Rightarrow> set_control_plane env StatusDegraded (with_reason ''control plane connection degraded'' reason) t
      | CoordDisconnected \<Rightarrow> set_control_plane env StatusDegraded (with_reason ''disconnected from control plane'' reason) t
      | CoordStopping \<Rightarrow> set_control_plane env StatusFailed ''stopping coordination'' t
      | CoordOtherState _ \<Rightarrow> t)"

text \<open>With an audit service the clock is read on every transition, whether or not an event follows.\<close>

definition audit_transition :: "coord_env \<Rightarrow> coord_state \<Rightarrow> coord_state \<Rightarrow> string \<Rightarrow> coord_tracker \<Rightarrow> coord_tracker" where
  "audit_transition env old new reason t =
     (case kt_audit t of None \<Rightarrow> t | Some _ \<Rightarrow>
        (case read_clock env t of (now, t1) \<Rightarrow>
           if new = CoordConnected \<and> old \<noteq> CoordConnected
           then note_event env (coordination_event EventControlPlaneConnected (kt_node t) ''success'' reason [] now) t1
           else if old = CoordConnected \<and> new \<noteq> CoordConnected
           then note_event env (coordination_event EventControlPlaneDisconnected (kt_node t) ''failed'' reason [] now) t1
           else t1))"

definition coord_transition :: "coord_env \<Rightarrow> coord_state \<Rightarrow> string \<Rightarrow> coord_tracker \<Rightarrow> coord_tracker" where
  "coord_transition env new reason t =
     (if kt_state t = new \<and> kt_last_error t = reason then t
      else audit_transition env (kt_state t) new reason (show_health env new reason (move_state env new reason t)))"

definition coord_record_heartbeat :: "coord_env \<Rightarrow> bool \<Rightarrow> string \<Rightarrow> coord_tracker \<Rightarrow> coord_tracker" where
  "coord_record_heartbeat env success err t =
     (case read_clock env t of (now, t1) \<Rightarrow>
        if success
        then note_event env (coordination_event EventControlPlaneHeartbeatSuccess (kt_node t) ''success'' [] [] now)
          (t1\<lparr>kt_last_heartbeat := now\<rparr>)
        else note_event env (coordination_event EventControlPlaneHeartbeatFailed (kt_node t) ''failed'' err [] now)
          (t1\<lparr>kt_last_error := err\<rparr>))"

section \<open>The coordinator\<close>

record coord_config =
  cc_node :: string
  cc_hostname :: string
  cc_os :: string
  cc_architecture :: string
  cc_ip :: string
  cc_agent_version :: string
  cc_capabilities :: "string list"
  cc_labels :: gomap
  cc_heartbeat :: duration
  cc_initial :: duration
  cc_max :: duration
  cc_factor :: float64
  cc_timeout :: duration

text \<open>\<open>os.Hostname\<close> and the names of the platform are arguments.\<close>

definition default_coord_config :: "string option \<Rightarrow> string \<Rightarrow> string \<Rightarrow> string \<Rightarrow> coord_config" where
  "default_coord_config host os arch node =
     \<lparr>cc_node = node, cc_hostname = (case host of None \<Rightarrow> ''unknown-host'' | Some h \<Rightarrow> if h = [] then ''unknown-host'' else h),
      cc_os = os, cc_architecture = arch, cc_ip = [], cc_agent_version = ''0.1.0'',
      cc_capabilities = [''telemetry'', ''anomaly_detection'', ''mitigation'', ''incident_fsm''], cc_labels = [],
      cc_heartbeat = 10 * second, cc_initial = second, cc_max = 30 * second, cc_factor = Fin 2, cc_timeout = 5 * second\<rparr>"

definition fill_config :: "coord_config \<Rightarrow> coord_config" where
  "fill_config c = c\<lparr>
     cc_heartbeat := (if cc_heartbeat c \<le> 0 then 10 * second else cc_heartbeat c),
     cc_initial := (if cc_initial c \<le> 0 then second else cc_initial c),
     cc_max := (if cc_max c \<le> 0 then 30 * second else cc_max c),
     cc_factor := (if flt (cc_factor c) (Fin 1) then Fin 2 else cc_factor c),
     cc_timeout := (if cc_timeout c \<le> 0 then 5 * second else cc_timeout c),
     cc_agent_version := (if cc_agent_version c = [] then ''0.1.0'' else cc_agent_version c),
     cc_hostname := (if cc_hostname c = [] then ''edge-node'' else cc_hostname c)\<rparr>"

text \<open>Where the goroutine of the loop is: a request in flight, waiting for its timer, or gone.\<close>

datatype loop_pc = LoopAbsent | LoopStarted | LoopRegistering | LoopWaiting | LoopBeating

record coord_loop =
  kc_config :: coord_config
  kc_tracker :: coord_tracker
  kc_running :: bool
  kc_cancelled :: bool
  kc_pc :: loop_pc
  kc_seq :: int
  kc_backoff :: duration
  kc_retry :: duration
  kc_registered :: bool

definition new_coord_loop :: "coord_config \<Rightarrow> coord_tracker \<Rightarrow> coord_loop" where
  "new_coord_loop cfg t =
     (let c = fill_config cfg
      in \<lparr>kc_config = c, kc_tracker = t, kc_running = False, kc_cancelled = False, kc_pc = LoopAbsent, kc_seq = 0,
          kc_backoff = cc_initial c, kc_retry = cc_initial c, kc_registered = False\<rparr>)"

abbreviation on_tracker :: "(coord_tracker \<Rightarrow> coord_tracker) \<Rightarrow> coord_loop \<Rightarrow> coord_loop" where
  "on_tracker f s \<equiv> s\<lparr>kc_tracker := f (kc_tracker s)\<rparr>"

definition coord_event :: "coord_env \<Rightarrow> event_type \<Rightarrow> string \<Rightarrow> string \<Rightarrow> gomap \<Rightarrow> coord_loop \<Rightarrow> coord_loop" where
  "coord_event env kind result reason metadata s =
     on_tracker (\<lambda>t. case kt_audit t of None \<Rightarrow> t | Some _ \<Rightarrow>
       (case read_clock env t of (now, t1) \<Rightarrow>
          note_event env (coordination_event kind (cc_node (kc_config s)) result reason metadata now) t1)) s"

definition next_interval :: "coord_loop \<Rightarrow> duration" where
  "next_interval s =
     (if kc_registered s \<and> kt_state (kc_tracker s) = CoordConnected then cc_heartbeat (kc_config s)
      else if kc_retry s \<le> 0 then cc_initial (kc_config s)
      else kc_retry s)"

definition truncate_rat :: "rat \<Rightarrow> int" where
  "truncate_rat q = (if q < 0 then \<lceil>q\<rceil> else \<lfloor>q\<rfloor>)"

definition float_to_duration :: "coord_env \<Rightarrow> float64 \<Rightarrow> duration" where
  "float_to_duration env x =
     (case x of Fin q \<Rightarrow> if - (2 ^ 63) \<le> truncate_rat q \<and> truncate_rat q < 2 ^ 63 then truncate_rat q else cv_convert env x
      | _ \<Rightarrow> cv_convert env x)"

definition next_backoff :: "coord_env \<Rightarrow> coord_config \<Rightarrow> duration \<Rightarrow> duration" where
  "next_backoff env c d =
     (let n = float_to_duration env (fmul (to_float (of_int d)) (cc_factor c)) in if cc_max c < n then cc_max c else n)"

definition schedule_reconnect :: "coord_env \<Rightarrow> coord_loop \<Rightarrow> coord_loop" where
  "schedule_reconnect env s =
     (let backoff = kc_backoff s; shown = cv_duration_text env backoff
      in coord_event env EventControlPlaneReconnectSched ''success'' (''reconnect backoff '' @ shown) [(''backoff'', shown)]
        (s\<lparr>kc_retry := backoff, kc_backoff := next_backoff env (kc_config s) backoff\<rparr>))"

definition reset_backoff :: "coord_loop \<Rightarrow> coord_loop" where
  "reset_backoff s = s\<lparr>kc_backoff := cc_initial (kc_config s), kc_retry := cc_initial (kc_config s)\<rparr>"

text \<open>A registration up to its request, and from the answer on.\<close>

definition begin_registration :: "coord_env \<Rightarrow> coord_loop \<Rightarrow> node_registration \<times> coord_loop" where
  "begin_registration env s =
     (let s1 = on_tracker (coord_transition env CoordConnecting ''initiating node registration'') s; c = kc_config s;
          (now, t) = read_clock env (kc_tracker s1);
          s2 = on_tracker (note_event env (coordination_event EventControlPlaneRegStarted (cc_node c) ''success'' [] [] now))
            (s1\<lparr>kc_tracker := t\<rparr>)
      in (\<lparr>nr_node_id = cc_node c, nr_hostname = cc_hostname c, nr_os = cc_os c, nr_architecture = cc_architecture c,
           nr_ip_address = cc_ip c, nr_agent_version = cc_agent_version c, nr_capabilities = cc_capabilities c,
           nr_labels = cc_labels c, nr_registered_at = now, nr_updated_at = None, nr_metadata_version = 0\<rparr>,
          s2\<lparr>kc_pc := LoopRegistering\<rparr>))"

definition is_auth_failure :: "coord_err \<Rightarrow> bool" where
  "is_auth_failure e = (case e of CoordAuthFailed _ \<Rightarrow> True | _ \<Rightarrow> False)"

definition finish_registration ::
  "coord_env \<Rightarrow> coord_err + registration_response option \<Rightarrow> coord_loop \<Rightarrow> coord_loop" where
  "finish_registration env answer s =
     (case answer of
        Inl e \<Rightarrow>
          let reason = coord_err_text (cv_type_text env) e;
              s1 = coord_event env (if is_auth_failure e then EventControlPlaneAuthFailed else EventControlPlaneRegFailed)
                ''failed'' reason [] s;
              s2 = on_tracker (coord_transition env CoordDegraded (''registration failed: '' @ reason)) s1
          in (schedule_reconnect env s2)\<lparr>kc_pc := LoopWaiting\<rparr>
      | Inr resp \<Rightarrow>
          let status = (case resp of Some r \<Rightarrow> if rr_status r = ''already_registered'' then ''already_registered'' else ''success''
                | None \<Rightarrow> ''success'');
              s1 = coord_event env EventControlPlaneRegSuccess ''success'' status [] (reset_backoff (s\<lparr>kc_registered := True\<rparr>))
          in (on_tracker (coord_transition env CoordConnected ''registration succeeded'') s1)\<lparr>kc_pc := LoopWaiting\<rparr>)"

definition begin_heartbeat :: "coord_env \<Rightarrow> coord_loop \<Rightarrow> heartbeat \<times> coord_loop" where
  "begin_heartbeat env s =
     (let n = to_int64 (kc_seq s + 1);
          status = (case kt_health (kc_tracker s) of
            Some h \<Rightarrow> if ht_state h = StateDegraded then NodeStatusDegraded else NodeStatusHealthy | None \<Rightarrow> NodeStatusHealthy);
          (now, t) = read_clock env (kc_tracker s)
      in (\<lparr>hb_node_id = cc_node (kc_config s), hb_sequence_number = n, hb_timestamp = now, hb_status = status,
           hb_metrics_summary = []\<rparr>,
          s\<lparr>kc_seq := n, kc_tracker := t, kc_pc := LoopBeating\<rparr>))"

definition finish_heartbeat ::
  "coord_env \<Rightarrow> coord_err + registration_response option \<Rightarrow> coord_loop \<Rightarrow> coord_loop" where
  "finish_heartbeat env answer s =
     (case answer of
        Inl e \<Rightarrow>
          let reason = coord_err_text (cv_type_text env) e;
              s1 = on_tracker (coord_record_heartbeat env False reason) s;
              s2 = (if is_auth_failure e then coord_event env EventControlPlaneAuthFailed ''failed'' reason [] s1 else s1)
          in if e = CoordNodeNotFound then snd (begin_registration env (s2\<lparr>kc_registered := False\<rparr>))
             else (schedule_reconnect env (on_tracker (coord_transition env CoordDegraded (''heartbeat failed: '' @ reason)) s2))
               \<lparr>kc_pc := LoopWaiting\<rparr>
      | Inr _ \<Rightarrow>
          let s1 = reset_backoff (on_tracker (coord_record_heartbeat env True []) s)
          in (if kt_state (kc_tracker s1) = CoordConnected then s1
              else on_tracker (coord_transition env CoordConnected ''heartbeat restored connection'') s1)\<lparr>kc_pc := LoopWaiting\<rparr>)"

section \<open>Steps\<close>

text \<open>
  The loop between its blocking points, and the calls of other goroutines.  A step that is not possible where
  the loop stands changes nothing.  A wait ends with the timer or, once the context is cancelled, the loop;
  \<open>Stop\<close> waits for the loop to end or gives up.  A loop started after a \<open>Stop\<close> that gave up, while the old one
  still runs, is not modelled.
\<close>

datatype coord_op =
    KStart | KBegin | KRegistered "coord_err + registration_response option" | KTimer
  | KBeat "coord_err + registration_response option" | KEnd | KStop | KStopped | KStopGivesUp

definition coord_start :: "coord_loop \<Rightarrow> bool \<times> coord_loop" where
  "coord_start s =
     (if kc_running s then (False, s)
      else (True, s\<lparr>kc_running := True, kc_cancelled := False, kc_pc := LoopStarted\<rparr>))"

definition stop_begins :: "coord_env \<Rightarrow> coord_loop \<Rightarrow> coord_loop" where
  "stop_begins env s =
     (if kc_running s
      then on_tracker (coord_transition env CoordStopping ''coordination stopping'') (s\<lparr>kc_cancelled := True\<rparr>) else s)"

fun coord_step :: "coord_env \<Rightarrow> coord_op \<Rightarrow> coord_loop \<Rightarrow> coord_loop" where
  "coord_step env KStart s = (if kc_pc s = LoopAbsent then snd (coord_start s) else s)"
| "coord_step env KBegin s = (if kc_pc s = LoopStarted then snd (begin_registration env s) else s)"
| "coord_step env (KRegistered answer) s = (if kc_pc s = LoopRegistering then finish_registration env answer s else s)"
| "coord_step env KTimer s =
     (if kc_pc s \<noteq> LoopWaiting then s
      else if \<not> kc_registered s then snd (begin_registration env s) else snd (begin_heartbeat env s))"
| "coord_step env (KBeat answer) s = (if kc_pc s = LoopBeating then finish_heartbeat env answer s else s)"
| "coord_step env KEnd s = (if kc_pc s = LoopWaiting \<and> kc_cancelled s then s\<lparr>kc_pc := LoopAbsent\<rparr> else s)"
| "coord_step env KStop s = stop_begins env s"
| "coord_step env KStopped s = (if kc_cancelled s \<and> kc_pc s = LoopAbsent then s\<lparr>kc_running := False\<rparr> else s)"
| "coord_step env KStopGivesUp s = (if kc_cancelled s then s\<lparr>kc_running := False\<rparr> else s)"

definition coord_run :: "coord_env \<Rightarrow> coord_op list \<Rightarrow> coord_loop \<Rightarrow> coord_loop" where
  "coord_run env ops s = fold (coord_step env) ops s"

end
