(* ===== verification/Coord_Properties.thy ===== *)
theory Coord_Properties
  imports Coordinator
begin

text \<open>
  What the coordination with the control plane means to the rest of the agent: readiness does not depend on it,
  the health check shows it, and the waits between attempts are bounded.
\<close>

section \<open>Frames\<close>

lemma read_clock_simps [simp]:
  "kt_state (snd (read_clock env t)) = kt_state t" "kt_health (snd (read_clock env t)) = kt_health t"
  "kt_audit (snd (read_clock env t)) = kt_audit t" "kt_node (snd (read_clock env t)) = kt_node t"
  "kt_last_error (snd (read_clock env t)) = kt_last_error t"
  by (simp_all add: read_clock_def)

lemma note_event_simps [simp]:
  "kt_state (note_event env e t) = kt_state t" "kt_health (note_event env e t) = kt_health t"
  by (simp_all add: note_event_def split: option.split)

lemma move_state_simps [simp]:
  "kt_state (move_state env new reason t) = new" "kt_health (move_state env new reason t) = kt_health t"
  by (simp_all add: move_state_def Let_def read_clock_def)

lemma set_control_plane_state [simp]: "kt_state (set_control_plane env status msg t) = kt_state t"
  by (simp add: set_control_plane_def read_clock_def split: option.split)

lemma audit_transition_simps [simp]:
  "kt_state (audit_transition env old new reason t) = kt_state t"
  "kt_health (audit_transition env old new reason t) = kt_health t"
  by (simp_all add: audit_transition_def read_clock_def split: option.split)

lemma show_health_state [simp]: "kt_state (show_health env new reason t) = kt_state t"
  by (simp add: show_health_def split: coord_state.split)

lemma coord_transition_state [simp]: "kt_state (coord_transition env new reason t) = new"
  by (simp add: coord_transition_def)

lemma coord_record_heartbeat_simps [simp]:
  "kt_state (coord_record_heartbeat env ok err t) = kt_state t" "kt_health (coord_record_heartbeat env ok err t) = kt_health t"
  by (simp_all add: coord_record_heartbeat_def read_clock_def)

lemma coord_event_simps [simp]:
  "kt_state (kc_tracker (coord_event env k r rs m s)) = kt_state (kc_tracker s)"
  "kt_health (kc_tracker (coord_event env k r rs m s)) = kt_health (kc_tracker s)"
  "kc_registered (coord_event env k r rs m s) = kc_registered s" "kc_pc (coord_event env k r rs m s) = kc_pc s"
  "kc_config (coord_event env k r rs m s) = kc_config s" "kc_retry (coord_event env k r rs m s) = kc_retry s"
  "kc_backoff (coord_event env k r rs m s) = kc_backoff s"
  by (simp_all add: coord_event_def read_clock_def split: option.split)

section \<open>The control plane and readiness\<close>

text \<open>A ready agent whose check of the control plane is optional and shows whether it is connected.\<close>

definition autonomous :: "health_tracker option \<Rightarrow> coord_state \<Rightarrow> bool" where
  "autonomous ho st \<longleftrightarrow> (case ho of None \<Rightarrow> False | Some h \<Rightarrow> is_ready h \<and>
     (case get_check CheckControlPlane h of None \<Rightarrow> False
      | Some i \<Rightarrow> \<not> ci_required i \<and> (ci_status i = StatusOk \<longleftrightarrow> st = CoordConnected)))"

lemma set_check_optional:
  assumes "is_ready h" and "get_check n h = Some i" and "\<not> ci_required i" and "check_name_valid n" and "check_status_valid status"
  shows "is_ready (snd (set_check_status now n status msg h)) \<and>
    get_check n (snd (set_check_status now n status msg h)) =
      Some (i\<lparr>ci_status := status, ci_message := sanitize_message msg, ci_observed_at := now\<rparr>)"
proof -
  let ?i = "i\<lparr>ci_status := status, ci_message := sanitize_message msg, ci_observed_at := now\<rparr>"
  have "set (AList.update n ?i xs) \<subseteq> insert (n, ?i) (set xs)" for xs :: "(check_name \<times> check_info) list"
    by (induction xs) auto
  then have "all_required_ok (h\<lparr>ht_checks := AList.update n ?i (ht_checks h)\<rparr>)"
    using assms(1,3) by (fastforce simp: is_ready_def all_required_ok_def list_all_iff)
  with assms show ?thesis
    by (simp add: set_check_status_def Let_def get_check_def is_ready_def update_conv' all_required_ok_def)
qed

lemma set_control_plane_autonomous:
  assumes "autonomous (kt_health t) st" and "check_status_valid status" and "status = StatusOk \<longleftrightarrow> new = CoordConnected"
  shows "autonomous (kt_health (set_control_plane env status msg t)) new"
proof -
  from assms(1) obtain h i where h: "kt_health t = Some h" "is_ready h" "get_check CheckControlPlane h = Some i" "\<not> ci_required i"
    by (auto simp: autonomous_def split: option.splits)
  with set_check_optional [OF h(2,3,4), of status "cv_clock env (kt_reads t)" msg] assms(2,3) show ?thesis
    by (simp add: set_control_plane_def read_clock_def autonomous_def)
qed

lemma coord_transition_autonomous:
  assumes "autonomous (kt_health t) (kt_state t)" and "coord_state_string new \<noteq> ''UNKNOWN''"
  shows "autonomous (kt_health (coord_transition env new reason t)) new"
proof (cases "kt_state t = new \<and> kt_last_error t = reason")
  case False
  have "autonomous (kt_health (show_health env new reason (move_state env new reason t))) new"
    using assms by (cases new) (simp_all add: show_health_def set_control_plane_autonomous [of _ "kt_state t"])
  with False show ?thesis by (auto simp: coord_transition_def)
qed (use assms in \<open>auto simp: coord_transition_def\<close>)

definition coord_inv :: "coord_loop \<Rightarrow> bool" where
  "coord_inv s \<longleftrightarrow> autonomous (kt_health (kc_tracker s)) (kt_state (kc_tracker s)) \<and>
     (kt_state (kc_tracker s) = CoordConnected \<longrightarrow> kc_registered s) \<and> (kc_pc s = LoopBeating \<longrightarrow> kc_registered s)"

lemma begin_registration_inv:
  "autonomous (kt_health (kc_tracker s)) (kt_state (kc_tracker s)) \<Longrightarrow> coord_inv (snd (begin_registration env s))"
  by (simp add: coord_inv_def begin_registration_def Let_def read_clock_def coord_transition_autonomous)

lemma schedule_reconnect_simps [simp]:
  "kt_state (kc_tracker (schedule_reconnect env s)) = kt_state (kc_tracker s)"
  "kt_health (kc_tracker (schedule_reconnect env s)) = kt_health (kc_tracker s)"
  "kc_registered (schedule_reconnect env s) = kc_registered s" "kc_config (schedule_reconnect env s) = kc_config s"
  by (simp_all add: schedule_reconnect_def Let_def)

lemma reset_backoff_simps [simp]:
  "kc_tracker (reset_backoff s) = kc_tracker s" "kc_registered (reset_backoff s) = kc_registered s"
  "kc_pc (reset_backoff s) = kc_pc s" "kc_config (reset_backoff s) = kc_config s"
  by (simp_all add: reset_backoff_def)

lemma finish_registration_inv: "coord_inv s \<Longrightarrow> coord_inv (finish_registration env answer s)"
  by (cases answer) (simp_all add: coord_inv_def finish_registration_def Let_def coord_transition_autonomous)

lemma finish_heartbeat_inv:
  assumes "coord_inv s" and "kc_pc s = LoopBeating"
  shows "coord_inv (finish_heartbeat env answer s)"
proof (cases answer)
  case (Inl e)
  show ?thesis
  proof (cases "e = CoordNodeNotFound")
    case True
    with assms Inl show ?thesis
      by (simp add: finish_heartbeat_def Let_def is_auth_failure_def begin_registration_inv coord_inv_def [of s])
  next
    case False
    with assms Inl show ?thesis
      by (simp add: finish_heartbeat_def Let_def coord_inv_def coord_transition_autonomous)
  qed
next
  case (Inr r)
  with assms show ?thesis
    by (cases "kt_state (kc_tracker s)") (simp_all add: finish_heartbeat_def Let_def coord_inv_def coord_transition_autonomous)
qed

lemma coord_step_inv:
  assumes "coord_inv s"
  shows "coord_inv (coord_step env op s)"
proof (cases op)
  case (KRegistered a)
  then show ?thesis using assms by (simp add: finish_registration_inv)
next
  case (KBeat a)
  then show ?thesis using assms by (simp add: finish_heartbeat_inv)
next
  case KTimer
  have "coord_inv (snd (begin_registration env s))"
    using assms begin_registration_inv unfolding coord_inv_def [of s] by blast
  moreover have "kc_registered s \<Longrightarrow> coord_inv (snd (begin_heartbeat env s))"
    using assms by (simp add: coord_inv_def begin_heartbeat_def Let_def read_clock_def)
  ultimately show ?thesis using KTimer assms by simp
next
  case KBegin
  have "coord_inv (snd (begin_registration env s))"
    using assms begin_registration_inv unfolding coord_inv_def [of s] by blast
  with KBegin assms show ?thesis by simp
qed (use assms in \<open>simp_all add: coord_inv_def coord_start_def stop_begins_def coord_transition_autonomous\<close>)

lemma coord_run_inv: "coord_inv s \<Longrightarrow> coord_inv (coord_run env ops s)"
  by (induction ops arbitrary: s) (simp_all add: coord_run_def coord_step_inv)


definition ready_health :: health_tracker where
  "ready_health = \<lparr>ht_state = StateReady, ht_checks = [(CheckControlPlane,
     \<lparr>ci_name = CheckControlPlane, ci_status = StatusUnknown, ci_required = False, ci_message = [], ci_observed_at = 0\<rparr>)]\<rparr>"

definition quiet_coord_env :: coord_env where
  "quiet_coord_env = \<lparr>cv_sha = (\<lambda>_. []), cv_clock = int, cv_io = (\<lambda>_. IoOk), cv_type_text = (\<lambda>_. []),
     cv_duration_text = (\<lambda>_. []), cv_convert = (\<lambda>_. - (2 ^ 63))\<rparr>"


section \<open>Waits\<close>

text \<open>The loop never waits without a bound, and never less than not at all.\<close>

definition wait_bound :: "coord_config \<Rightarrow> duration" where
  "wait_bound c = max (cc_heartbeat c) (max (cc_initial c) (cc_max c))"

definition waits_ok :: "coord_loop \<Rightarrow> bool" where
  "waits_ok s \<longleftrightarrow> 0 < cc_heartbeat (kc_config s) \<and> 0 < cc_initial (kc_config s) \<and>
     kc_retry s \<le> wait_bound (kc_config s) \<and> kc_backoff s \<le> wait_bound (kc_config s)"

lemma next_backoff_le: "next_backoff env c d \<le> wait_bound c"
  by (simp add: next_backoff_def Let_def wait_bound_def le_max_iff_disj)

lemma waits_ok_reset: "waits_ok s \<Longrightarrow> waits_ok (reset_backoff s)"
  by (simp add: waits_ok_def reset_backoff_def wait_bound_def)

lemma waits_ok_schedule: "waits_ok s \<Longrightarrow> waits_ok (schedule_reconnect env s)"
  by (simp add: waits_ok_def schedule_reconnect_def Let_def next_backoff_le)

lemma waits_ok_cong:
  "kc_config s' = kc_config s \<Longrightarrow> kc_retry s' = kc_retry s \<Longrightarrow> kc_backoff s' = kc_backoff s \<Longrightarrow> waits_ok s' = waits_ok s"
  by (simp add: waits_ok_def)

lemma waits_ok_frames [simp]:
  "waits_ok (coord_event env k r rs m s) = waits_ok s" "waits_ok (s\<lparr>kc_tracker := t\<rparr>) = waits_ok s"
  "waits_ok (s\<lparr>kc_pc := pc\<rparr>) = waits_ok s" "waits_ok (s\<lparr>kc_registered := b\<rparr>) = waits_ok s"
  "waits_ok (s\<lparr>kc_running := b\<rparr>) = waits_ok s" "waits_ok (s\<lparr>kc_cancelled := b\<rparr>) = waits_ok s"
  "waits_ok (s\<lparr>kc_seq := n\<rparr>) = waits_ok s"
  by (simp_all add: waits_ok_def)

lemma begin_registration_waits [simp]: "waits_ok (snd (begin_registration env s)) = waits_ok s"
  by (simp add: begin_registration_def Let_def read_clock_def)

lemma coord_step_waits: "waits_ok s \<Longrightarrow> waits_ok (coord_step env op s)"
  by (cases "(env, op, s)" rule: coord_step.cases)
    (simp_all add: coord_start_def stop_begins_def finish_registration_def finish_heartbeat_def begin_heartbeat_def Let_def
      read_clock_def waits_ok_schedule waits_ok_reset split: sum.split)

lemma waits_are_bounded:
  "0 < next_interval (coord_run env ops (new_coord_loop cfg t)) \<and>
   next_interval (coord_run env ops (new_coord_loop cfg t)) \<le> wait_bound (kc_config (coord_run env ops (new_coord_loop cfg t)))"
proof -
  have "waits_ok s \<Longrightarrow> waits_ok (coord_run env ops s)" for s
    by (induction ops arbitrary: s) (simp_all add: coord_run_def coord_step_waits)
  moreover have "waits_ok (new_coord_loop cfg t)"
    by (simp add: new_coord_loop_def waits_ok_def fill_config_def wait_bound_def Let_def le_max_iff_disj)
  ultimately have "waits_ok (coord_run env ops (new_coord_loop cfg t))" by blast
  then show ?thesis by (auto simp: waits_ok_def next_interval_def wait_bound_def)
qed

section \<open>What the code does not mean to do\<close>

text \<open>
  The identifier \<open>Record\<close> gives an event is made of its node, incident, type and reason, so every heartbeat that
  succeeds gives the same one, and the store refuses all but the first.
\<close>

lemma coordination_events_share_identifier:
  assumes "\<not> is_zero now1" and "\<not> is_zero now2"
  shows "ev_event_id (completed sha t1 (coordination_event k node r reason m1 now1)) =
    ev_event_id (completed sha t2 (coordination_event k node r reason m2 now2))"
  using assms by (simp add: completed_def coordination_event_def compute_correlation_id_def Let_def)

text \<open>A request in flight when \<open>Stop\<close> begins takes the tracker out of \<open>STOPPING\<close> again.\<close>

lemma request_in_flight:
  "kc_pc (snd (begin_registration env s)) = LoopRegistering" "kc_pc (stop_begins env s) = kc_pc s"
  "kc_cancelled (snd (begin_registration env s)) = kc_cancelled s"
  by (simp_all add: begin_registration_def stop_begins_def Let_def read_clock_def)

lemma failed_registration_degrades:
  "kt_state (kc_tracker (finish_registration env (Inl e) s)) = CoordDegraded"
  "kc_pc (finish_registration env (Inl e) s) = LoopWaiting"
  by (simp_all add: finish_registration_def Let_def)

lemma stopped_coordinator_shows_degraded:
  "kt_state (kc_tracker (coord_run env [KStart, KBegin, KStop, KRegistered (Inl e), KEnd, KStopped] (new_coord_loop cfg t)))
     = CoordDegraded"
proof -
  define s where "s = stop_begins env (snd (begin_registration env (snd (coord_start (new_coord_loop cfg t)))))"
  have "coord_run env [KStart, KBegin, KStop] (new_coord_loop cfg t) = s"
    by (simp add: s_def coord_run_def new_coord_loop_def coord_start_def Let_def)
  moreover have "kc_pc s = LoopRegistering" by (simp add: s_def request_in_flight)
  ultimately show ?thesis
    by (simp add: coord_run_def failed_registration_degrades)
qed

text \<open>A factor too large for the conversion gives whatever the conversion gives, not the cap.\<close>

lemma fmul_PosInf: "\<exists>y. fmul x PosInf = y \<and> (\<forall>q. y \<noteq> Fin q)"
  by (cases x) (simp_all add: signed_inf_def)

lemma backoff_collapses:
  assumes "cc_factor c = PosInf" and "0 < cc_max c"
  shows "next_backoff quiet_coord_env (fill_config c) d = - (2 ^ 63)"
proof -
  obtain y where "fmul (to_float (of_int d)) PosInf = y" "\<forall>q. y \<noteq> Fin q" using fmul_PosInf by blast
  then have "float_to_duration quiet_coord_env (fmul (to_float (of_int d)) PosInf) = - (2 ^ 63)"
    by (cases y) (simp_all add: float_to_duration_def quiet_coord_env_def)
  with assms show ?thesis by (simp add: next_backoff_def fill_config_def)
qed

end
