(* ===== verification/Model_Store.thy ===== *)
theory Model_Store
  imports Ml_Model
begin

text \<open>
  \<open>edge/agent/modelstore/store.go\<close>: the store of model artifacts on the file system.  A file is named by its
  directory and its name; every call into the operating system is numbered, and the environment says whether it
  succeeds, so that any of them can fail.  The directories exist and are not removed.
\<close>

section \<open>Files\<close>

datatype store_dir = DirStaging | DirCandidate | DirActive | DirPrevious

type_synonym file_path = "store_dir \<times> string"

record model_fs =
  mf_files :: "file_path \<Rightarrow> string option"
  mf_ops :: nat

text \<open>\<open>fe_partial\<close> is what a write that fails leaves in the file; \<open>fe_nonce\<close> are the random bytes as text.\<close>

record fs_env =
  fe_ok :: "nat \<Rightarrow> bool"
  fe_partial :: "nat \<Rightarrow> string \<Rightarrow> string"
  fe_clock :: "nat \<Rightarrow> gotime"
  fe_nonce :: "nat \<Rightarrow> string"

definition fs_call :: "fs_env \<Rightarrow> model_fs \<Rightarrow> bool \<times> model_fs" where
  "fs_call env fs = (fe_ok env (mf_ops fs), fs\<lparr>mf_ops := Suc (mf_ops fs)\<rparr>)"

definition fs_now :: "fs_env \<Rightarrow> model_fs \<Rightarrow> gotime \<times> model_fs" where
  "fs_now env fs = (fe_clock env (mf_ops fs), fs\<lparr>mf_ops := Suc (mf_ops fs)\<rparr>)"

definition fs_set :: "file_path \<Rightarrow> string option \<Rightarrow> model_fs \<Rightarrow> model_fs" where
  "fs_set p x fs = fs\<lparr>mf_files := (mf_files fs)(p := x)\<rparr>"

datatype stat_result = StatPresent | StatMissing | StatFailed

definition fs_stat :: "fs_env \<Rightarrow> file_path \<Rightarrow> model_fs \<Rightarrow> stat_result \<times> model_fs" where
  "fs_stat env p fs =
     (case fs_call env fs of (ok, fs1) \<Rightarrow>
        (if \<not> ok then StatFailed else if mf_files fs1 p = None then StatMissing else StatPresent, fs1))"

definition fs_remove :: "fs_env \<Rightarrow> file_path \<Rightarrow> model_fs \<Rightarrow> model_fs" where
  "fs_remove env p fs = (case fs_call env fs of (ok, fs1) \<Rightarrow> if ok then fs_set p None fs1 else fs1)"

definition fs_create :: "fs_env \<Rightarrow> bool \<Rightarrow> file_path \<Rightarrow> model_fs \<Rightarrow> bool \<times> model_fs" where
  "fs_create env exclusive p fs =
     (case fs_call env fs of (ok, fs1) \<Rightarrow>
        if ok \<and> \<not> (exclusive \<and> mf_files fs1 p \<noteq> None) then (True, fs_set p (Some []) fs1) else (False, fs1))"

definition fs_write :: "fs_env \<Rightarrow> file_path \<Rightarrow> string \<Rightarrow> model_fs \<Rightarrow> bool \<times> model_fs" where
  "fs_write env p data fs =
     (case fs_call env fs of (ok, fs1) \<Rightarrow>
        (ok, fs_set p (Some (if ok then data else fe_partial env (mf_ops fs) data)) fs1))"

definition fs_rename :: "fs_env \<Rightarrow> file_path \<Rightarrow> file_path \<Rightarrow> model_fs \<Rightarrow> bool \<times> model_fs" where
  "fs_rename env p q fs =
     (case fs_call env fs of (ok, fs1) \<Rightarrow>
        (case mf_files fs1 p of Some data \<Rightarrow> if ok then (True, fs_set p None (fs_set q (Some data) fs1)) else (False, fs1)
         | None \<Rightarrow> (False, fs1)))"

datatype read_err = ReadFailed | ReadTooLarge

text \<open>Opening and reading are two calls.\<close>

definition read_bounded :: "fs_env \<Rightarrow> file_path \<Rightarrow> int \<Rightarrow> model_fs \<Rightarrow> (read_err + string) \<times> model_fs" where
  "read_bounded env p limit fs =
     (case fs_call env fs of (opened, fs1) \<Rightarrow>
        (case mf_files fs1 p of
           Some data \<Rightarrow>
             if \<not> opened then (Inl ReadFailed, fs1)
             else (case fs_call env fs1 of (ok, fs2) \<Rightarrow>
               (if \<not> ok then Inl ReadFailed else if limit < int (length data) then Inl ReadTooLarge else Inr data, fs2))
         | None \<Rightarrow> (Inl ReadFailed, fs1)))"

text \<open>
  \<open>safeWriteReplace\<close>: the temporary file is written, synchronised and closed; the target is removed if it is
  there, and the temporary file renamed to it.  The temporary file is removed at the end in any case.
\<close>

definition write_and_rename :: "fs_env \<Rightarrow> file_path \<Rightarrow> file_path \<Rightarrow> string \<Rightarrow> model_fs \<Rightarrow> bool \<times> model_fs" where
  "write_and_rename env tmp target data fs =
     (case fs_create env False tmp fs of (False, fs1) \<Rightarrow> (False, fs1) | (True, fs1) \<Rightarrow>
      case fs_write env tmp data fs1 of (False, fs2) \<Rightarrow> (False, fs2) | (True, fs2) \<Rightarrow>
      case fs_call env fs2 of (False, fs3) \<Rightarrow> (False, fs3) | (True, fs3) \<Rightarrow>
      case fs_call env fs3 of (False, fs4) \<Rightarrow> (False, fs4) | (True, fs4) \<Rightarrow>
      case fs_stat env target fs4 of (found, fs5) \<Rightarrow>
        fs_rename env tmp target (if found = StatPresent then fs_remove env target fs5 else fs5))"

definition safe_write_replace :: "fs_env \<Rightarrow> file_path \<Rightarrow> file_path \<Rightarrow> string \<Rightarrow> model_fs \<Rightarrow> bool \<times> model_fs" where
  "safe_write_replace env tmp target data fs =
     (case write_and_rename env tmp target data fs of (ok, fs1) \<Rightarrow> (ok, fs_remove env tmp fs1))"

section \<open>The store\<close>

text \<open>\<open>encoding/json\<close>, compact and indented, on manifests and on deployment metadata, and SHA-256.\<close>

record model_lib =
  lb_sha :: digest
  lb_encode :: "model_manifest \<Rightarrow> string option"
  lb_indent :: "model_manifest \<Rightarrow> string option"
  lb_decode :: "string \<Rightarrow> model_manifest option"
  lb_meta_indent :: "deployment_metadata \<Rightarrow> string option"
  lb_meta_decode :: "string \<Rightarrow> deployment_metadata option"

datatype model_store_err =
    StoreEmptyArtifact | StoreTooLarge | StoreWrite | StoreRead | StoreDeserialize | StoreChecksum | StoreValidation
  | StoreIncompatible "issue list" | StoreConflict | StoreNoCandidate | StoreNoActive | StoreNoPrevious
  | StoreInvalidDir | StoreNilManifest

record file_store =
  sto_limit :: int
  sto_req :: compatibility_requirement
  sto_fs :: model_fs
  sto_counter :: nat

record stored_model =
  sl_manifest :: model_manifest
  sl_meta :: deployment_metadata
  sl_at :: gotime

record staged_candidate =
  cd_manifest :: model_manifest
  cd_meta :: deployment_metadata
  cd_at :: gotime
  cd_reused :: bool

record stage_request =
  sq_artifact :: string
  sq_meta :: "deployment_metadata option"
  sq_req :: "compatibility_requirement option"

abbreviation model_file :: string where "model_file \<equiv> ''model.json''"
abbreviation meta_file :: string where "meta_file \<equiv> ''metadata.json''"
abbreviation model_tmp :: string where "model_tmp \<equiv> ''model.json.tmp''"
abbreviation meta_tmp :: string where "meta_tmp \<equiv> ''metadata.json.tmp''"
abbreviation meta_limit :: int where "meta_limit \<equiv> 1048576"

definition effective_req :: "compatibility_requirement \<Rightarrow> compatibility_requirement" where
  "effective_req req = (if cr_algorithm req = [] then default_requirements else req)"

text \<open>Files left in the staging directory by an interrupted operation are removed; \<open>listed\<close> is what \<open>ReadDir\<close> gives.\<close>

definition has_suffix :: "string \<Rightarrow> string \<Rightarrow> bool" where
  "has_suffix s x \<longleftrightarrow> has_prefix (rev s) (rev x)"

definition clean_staging :: "fs_env \<Rightarrow> string list \<Rightarrow> model_fs \<Rightarrow> model_fs" where
  "clean_staging env listed fs = fold (\<lambda>n fs. if has_suffix n ''.tmp'' then fs_remove env (DirStaging, n) fs else fs) listed fs"

text \<open>\<open>base\<close> is the cleaned base directory; the flags tell whether its absolute path and the four directories could be made.\<close>

definition new_file_store ::
  "fs_env \<Rightarrow> string \<Rightarrow> bool \<Rightarrow> bool list \<Rightarrow> int \<Rightarrow> compatibility_requirement \<Rightarrow> string list \<Rightarrow> model_fs \<Rightarrow> model_store_err + file_store" where
  "new_file_store env base resolved made limit req listed fs =
     (if base = [] \<or> base = ''.'' \<or> \<not> resolved then Inl StoreInvalidDir
      else if \<not> list_all id made then Inl StoreWrite
      else Inr \<lparr>sto_limit = (if limit \<le> 0 then 16777216 else limit), sto_req = effective_req req,
          sto_fs = clean_staging env listed fs, sto_counter = 0\<rparr>)"

definition build_metadata ::
  "fs_env \<Rightarrow> model_manifest \<Rightarrow> int \<Rightarrow> deployment_metadata option \<Rightarrow> model_fs \<Rightarrow> deployment_metadata \<times> model_fs" where
  "build_metadata env m len user fs =
     (case fs_now env fs of (now, fs1) \<Rightarrow>
        (let dep = ''dep-'' @ mm_model_id m @ ''-'' @ mm_version m @ ''-'' @ itoa (unix_nano now)
         in \<lparr>dm_id = (case user of Some u \<Rightarrow> if dm_id u \<noteq> [] then dm_id u else dep | None \<Rightarrow> dep),
             dm_model_id = mm_model_id m, dm_version = mm_version m, dm_format = mm_format m,
             dm_feature_schema = mm_feature_schema m, dm_checksum = mm_checksum m, dm_size = len,
             dm_deployed_at = (case user of Some u \<Rightarrow> if is_zero (dm_deployed_at u) then now else dm_deployed_at u | None \<Rightarrow> now),
             dm_rollback = False, dm_fleet = (case user of Some u \<Rightarrow> dm_fleet u | None \<Rightarrow> []),
             dm_node = (case user of Some u \<Rightarrow> dm_node u | None \<Rightarrow> []), dm_signature = mm_signature m\<rparr>, fs1))"

text \<open>\<open>strings.EqualFold\<close> where one of the texts is hexadecimal.\<close>

definition equal_fold :: "string \<Rightarrow> string \<Rightarrow> bool" where
  "equal_fold a b \<longleftrightarrow> map lower_byte a = map lower_byte b"

section \<open>Reading\<close>

definition lib_deserialize :: "model_lib \<Rightarrow> string \<Rightarrow> ml_err + model_manifest" where
  "lib_deserialize lib = model_deserialize (lb_sha lib) (lb_encode lib) (lb_decode lib)"

definition read_metadata :: "model_lib \<Rightarrow> fs_env \<Rightarrow> file_path \<Rightarrow> model_fs \<Rightarrow> deployment_metadata option \<times> model_fs" where
  "read_metadata lib env p fs =
     (case read_bounded env p meta_limit fs of
        (Inl _, fs1) \<Rightarrow> (None, fs1)
      | (Inr data, fs1) \<Rightarrow> (lb_meta_decode lib data, fs1))"

definition read_candidate_metadata :: "model_lib \<Rightarrow> fs_env \<Rightarrow> model_fs \<Rightarrow> deployment_metadata option \<times> model_fs" where
  "read_candidate_metadata lib env fs =
     (case fs_stat env (DirCandidate, meta_file) fs of (found, fs1) \<Rightarrow>
        if found = StatMissing then (None, fs1) else read_metadata lib env (DirCandidate, meta_file) fs1)"

text \<open>The manifest of the candidate, or nothing when there is none or it cannot be read.\<close>

definition read_candidate_manifest :: "model_lib \<Rightarrow> fs_env \<Rightarrow> file_store \<Rightarrow> model_manifest option \<times> model_fs" where
  "read_candidate_manifest lib env s =
     (case fs_stat env (DirCandidate, model_file) (sto_fs s) of (found, fs1) \<Rightarrow>
        if found = StatMissing then (None, fs1)
        else case read_bounded env (DirCandidate, model_file) (sto_limit s) fs1 of
          (Inl _, fs2) \<Rightarrow> (None, fs2)
        | (Inr data, fs2) \<Rightarrow> (case lib_deserialize lib data of Inl _ \<Rightarrow> (None, fs2) | Inr m \<Rightarrow> (Some m, fs2)))"

definition metadata_or_built ::
  "fs_env \<Rightarrow> model_manifest \<Rightarrow> int \<Rightarrow> deployment_metadata option \<Rightarrow> deployment_metadata option \<times> model_fs \<Rightarrow>
   deployment_metadata \<times> model_fs" where
  "metadata_or_built env m len user found =
     (case found of (Some meta, fs) \<Rightarrow> (meta, fs) | (None, fs) \<Rightarrow> build_metadata env m len user fs)"

definition get_candidate :: "model_lib \<Rightarrow> fs_env \<Rightarrow> file_store \<Rightarrow> (model_store_err + staged_candidate) \<times> file_store" where
  "get_candidate lib env s =
     (case fs_stat env (DirCandidate, model_file) (sto_fs s) of (found, fs1) \<Rightarrow>
        if found = StatMissing then (Inl StoreNoCandidate, s\<lparr>sto_fs := fs1\<rparr>)
        else case read_bounded env (DirCandidate, model_file) (sto_limit s) fs1 of
          (Inl _, fs2) \<Rightarrow> (Inl StoreRead, s\<lparr>sto_fs := fs2\<rparr>)
        | (Inr data, fs2) \<Rightarrow>
            (case lib_deserialize lib data of Inl _ \<Rightarrow> (Inl StoreValidation, s\<lparr>sto_fs := fs2\<rparr>)
             | Inr m \<Rightarrow>
                (case metadata_or_built env m (int (length data)) None (read_candidate_metadata lib env fs2) of (meta, fs3) \<Rightarrow>
                   (Inr \<lparr>cd_manifest = m, cd_meta = meta, cd_at = dm_deployed_at meta, cd_reused = False\<rparr>, s\<lparr>sto_fs := fs3\<rparr>))))"

definition read_stored ::
  "model_lib \<Rightarrow> fs_env \<Rightarrow> store_dir \<Rightarrow> model_store_err \<Rightarrow> file_store \<Rightarrow> (model_store_err + stored_model) \<times> file_store" where
  "read_stored lib env dir missing s =
     (case fs_stat env (dir, model_file) (sto_fs s) of (found, fs1) \<Rightarrow>
        if found = StatMissing then (Inl missing, s\<lparr>sto_fs := fs1\<rparr>)
        else case read_bounded env (dir, model_file) (sto_limit s) fs1 of
          (Inl _, fs2) \<Rightarrow> (Inl StoreRead, s\<lparr>sto_fs := fs2\<rparr>)
        | (Inr data, fs2) \<Rightarrow>
            (case lib_deserialize lib data of Inl _ \<Rightarrow> (Inl StoreValidation, s\<lparr>sto_fs := fs2\<rparr>)
             | Inr m \<Rightarrow>
                (case metadata_or_built env m (int (length data)) None (read_metadata lib env (dir, meta_file) fs2) of
                   (meta, fs3) \<Rightarrow>
                     (Inr \<lparr>sl_manifest = m, sl_meta = meta, sl_at = dm_deployed_at meta\<rparr>, s\<lparr>sto_fs := fs3\<rparr>))))"

definition get_stored_active :: "model_lib \<Rightarrow> fs_env \<Rightarrow> file_store \<Rightarrow> (model_store_err + stored_model) \<times> file_store" where
  "get_stored_active lib env = read_stored lib env DirActive StoreNoActive"

definition get_stored_previous :: "model_lib \<Rightarrow> fs_env \<Rightarrow> file_store \<Rightarrow> (model_store_err + stored_model) \<times> file_store" where
  "get_stored_previous lib env = read_stored lib env DirPrevious StoreNoPrevious"

section \<open>Staging\<close>

text \<open>
  The checks of an artifact that has been read back: its manifest or the class of the error.  \<open>StageModel\<close> tells the
  classes apart by the sentinel errors and by the text of a decoding error; here by their constructors.
\<close>

definition vet_artifact ::
  "model_lib \<Rightarrow> compatibility_requirement \<Rightarrow> deployment_metadata option \<Rightarrow> string \<Rightarrow> model_store_err + model_manifest" where
  "vet_artifact lib req user data =
     (case lib_deserialize lib data of
        Inl e \<Rightarrow> Inl (if e = ErrCorruptModelArtifact ErrChecksumMismatch then StoreChecksum
          else if e = ErrCorruptModelArtifact ErrUnmarshal then StoreDeserialize else StoreValidation)
      | Inr m \<Rightarrow>
          if trim_space (mm_checksum m) = [] then Inl StoreChecksum
          else case compute_checksum (lb_sha lib) (lb_encode lib) m of None \<Rightarrow> Inl StoreChecksum | Some h \<Rightarrow>
          if \<not> equal_fold (mm_checksum m) h then Inl StoreChecksum
          else if (case user of Some u \<Rightarrow> trim_space (dm_checksum u) \<noteq> [] \<and> \<not> equal_fold (dm_checksum u) h | None \<Rightarrow> False)
          then Inl StoreChecksum
          else case manifest_validate (lb_sha lib) (lb_encode lib) (Some m) of Some _ \<Rightarrow> Inl StoreValidation | None \<Rightarrow>
          let report = check_compatibility (Some m) req
          in if \<not> rp_compatible report then Inl (StoreIncompatible (rp_issues report)) else Inr m)"

definition staging_path :: "fs_env \<Rightarrow> file_store \<Rightarrow> file_path \<times> file_store" where
  "staging_path env s =
     (let n = (sto_counter s + 1) mod 2 ^ 64
      in case fs_now env (sto_fs s) of (now, fs1) \<Rightarrow>
         ((DirStaging, ''stage_'' @ itoa (unix_nano now) @ ''_'' @ itoa (int n) @ ''_'' @ fe_nonce env (mf_ops (sto_fs s)) @ ''.tmp''),
          s\<lparr>sto_counter := n, sto_fs := fs1\<rparr>))"

text \<open>The artifact through the staging file: written, synchronised, closed and read back.\<close>

definition write_staging ::
  "fs_env \<Rightarrow> int \<Rightarrow> file_path \<Rightarrow> string \<Rightarrow> model_fs \<Rightarrow> (model_store_err + string) \<times> model_fs" where
  "write_staging env limit tmp data fs =
     (case fs_create env True tmp fs of (False, fs1) \<Rightarrow> (Inl StoreWrite, fs1) | (True, fs1) \<Rightarrow>
      case fs_write env tmp data fs1 of (False, fs2) \<Rightarrow> (Inl StoreWrite, fs2) | (True, fs2) \<Rightarrow>
      case fs_call env fs2 of (False, fs3) \<Rightarrow> (Inl StoreWrite, fs3) | (True, fs3) \<Rightarrow>
      case fs_call env fs3 of (False, fs4) \<Rightarrow> (Inl StoreWrite, fs4) | (True, fs4) \<Rightarrow>
      case read_bounded env tmp limit fs4 of
        (Inl _, fs5) \<Rightarrow> (Inl StoreRead, fs5) | (Inr back, fs5) \<Rightarrow> (Inr back, fs5))"

text \<open>The promotion of a vetted artifact: first the model, then its metadata.\<close>

definition promote ::
  "model_lib \<Rightarrow> fs_env \<Rightarrow> model_manifest \<Rightarrow> deployment_metadata option \<Rightarrow> string \<Rightarrow> model_fs \<Rightarrow>
   (model_store_err + staged_candidate) \<times> model_fs" where
  "promote lib env m user data fs =
     (case safe_write_replace env (DirCandidate, model_tmp) (DirCandidate, model_file) data fs of
        (False, fs1) \<Rightarrow> (Inl StoreWrite, fs1)
      | (True, fs1) \<Rightarrow>
          (case build_metadata env m (int (length data)) user fs1 of (meta, fs2) \<Rightarrow>
             (case lb_meta_indent lib meta of None \<Rightarrow> (Inl StoreWrite, fs2) | Some text_of \<Rightarrow>
                (case safe_write_replace env (DirCandidate, meta_tmp) (DirCandidate, meta_file) (text_of @ [CHR 0x0A]) fs2 of
                   (False, fs3) \<Rightarrow> (Inl StoreWrite, fs3)
                 | (True, fs3) \<Rightarrow>
                     (Inr \<lparr>cd_manifest = m, cd_meta = meta, cd_at = dm_deployed_at meta, cd_reused = False\<rparr>, fs3)))))"

definition place_candidate ::
  "model_lib \<Rightarrow> fs_env \<Rightarrow> model_manifest \<Rightarrow> deployment_metadata option \<Rightarrow> string \<Rightarrow> file_store \<Rightarrow>
   (model_store_err + staged_candidate) \<times> model_fs" where
  "place_candidate lib env m user data s =
     (case read_candidate_manifest lib env s of
        (None, fs1) \<Rightarrow> promote lib env m user data fs1
      | (Some old, fs1) \<Rightarrow>
          if mm_model_id old \<noteq> mm_model_id m \<or> mm_version old \<noteq> mm_version m then promote lib env m user data fs1
          else if equal_fold (mm_checksum old) (mm_checksum m)
          then (case metadata_or_built env m (int (length data)) user (read_candidate_metadata lib env fs1) of (meta, fs2) \<Rightarrow>
            (Inr \<lparr>cd_manifest = old, cd_meta = meta, cd_at = dm_deployed_at meta, cd_reused = True\<rparr>, fs2))
          else (Inl StoreConflict, fs1))"

definition stage_model :: "model_lib \<Rightarrow> fs_env \<Rightarrow> stage_request \<Rightarrow> file_store \<Rightarrow> (model_store_err + staged_candidate) \<times> file_store" where
  "stage_model lib env q s =
     (let len = int (length (sq_artifact q)); user = sq_meta q
      in if len = 0 then (Inl StoreEmptyArtifact, s)
         else if sto_limit s < len then (Inl StoreTooLarge, s)
         else if (case user of None \<Rightarrow> False | Some u \<Rightarrow> deployment_validate u \<noteq> None \<or> (0 < dm_size u \<and> dm_size u \<noteq> len))
         then (Inl StoreValidation, s)
         else
           let req = (case sq_req q of Some r \<Rightarrow> r | None \<Rightarrow> sto_req s); (tmp, s1) = staging_path env s;
               (answer, fs1) =
                 (case write_staging env (sto_limit s) tmp (sq_artifact q) (sto_fs s1) of
                    (Inl e, fs) \<Rightarrow> (Inl e, fs)
                  | (Inr back, fs) \<Rightarrow>
                      (case vet_artifact lib req user back of
                         Inl e \<Rightarrow> (Inl e, fs)
                       | Inr m \<Rightarrow> place_candidate lib env m user back (s1\<lparr>sto_fs := fs\<rparr>)))
           in (answer, s1\<lparr>sto_fs := fs_remove env tmp fs1\<rparr>))"

definition clear_dir :: "fs_env \<Rightarrow> store_dir \<Rightarrow> file_store \<Rightarrow> file_store" where
  "clear_dir env dir s = s\<lparr>sto_fs := fs_remove env (dir, meta_file) (fs_remove env (dir, model_file) (sto_fs s))\<rparr>"

definition clear_candidate :: "fs_env \<Rightarrow> file_store \<Rightarrow> file_store" where
  "clear_candidate env = clear_dir env DirCandidate"

definition clear_previous :: "fs_env \<Rightarrow> file_store \<Rightarrow> file_store" where
  "clear_previous env = clear_dir env DirPrevious"

section \<open>Active and previous\<close>

definition save_active ::
  "model_lib \<Rightarrow> fs_env \<Rightarrow> model_manifest option \<Rightarrow> deployment_metadata option \<Rightarrow> file_store \<Rightarrow>
   (model_store_err + stored_model) \<times> file_store" where
  "save_active lib env mo meta s =
     (case mo of None \<Rightarrow> (Inl StoreNilManifest, s) | Some m \<Rightarrow>
        (case model_serialize (lb_sha lib) (lb_encode lib) (lb_indent lib) mo of Inl _ \<Rightarrow> (Inl StoreWrite, s) | Inr data \<Rightarrow>
          (case safe_write_replace env (DirActive, model_tmp) (DirActive, model_file) data (sto_fs s) of
             (False, fs1) \<Rightarrow> (Inl StoreWrite, s\<lparr>sto_fs := fs1\<rparr>)
           | (True, fs1) \<Rightarrow>
               (case metadata_or_built env m (int (length data)) None (meta, fs1) of (md, fs2) \<Rightarrow>
                  (case lb_meta_indent lib md of None \<Rightarrow> (Inl StoreWrite, s\<lparr>sto_fs := fs2\<rparr>) | Some text_of \<Rightarrow>
                     (case safe_write_replace env (DirActive, meta_tmp) (DirActive, meta_file) (text_of @ [CHR 0x0A]) fs2 of
                        (False, fs3) \<Rightarrow> (Inl StoreWrite, s\<lparr>sto_fs := fs3\<rparr>)
                      | (True, fs3) \<Rightarrow>
                          (Inr \<lparr>sl_manifest = m, sl_meta = md, sl_at = dm_deployed_at md\<rparr>, s\<lparr>sto_fs := fs3\<rparr>)))))))"

definition rotate_active :: "fs_env \<Rightarrow> file_store \<Rightarrow> model_store_err option \<times> file_store" where
  "rotate_active env s =
     (case fs_stat env (DirActive, model_file) (sto_fs s) of (found, fs1) \<Rightarrow>
        if found = StatMissing then (None, s\<lparr>sto_fs := fs1\<rparr>)
        else case read_bounded env (DirActive, model_file) (sto_limit s) fs1 of
          (Inl _, fs2) \<Rightarrow> (Some StoreRead, s\<lparr>sto_fs := fs2\<rparr>)
        | (Inr data, fs2) \<Rightarrow>
            (case safe_write_replace env (DirPrevious, model_tmp) (DirPrevious, model_file) data fs2 of
               (False, fs3) \<Rightarrow> (Some StoreWrite, s\<lparr>sto_fs := fs3\<rparr>)
             | (True, fs3) \<Rightarrow>
                 (case fs_stat env (DirActive, meta_file) fs3 of (meta_found, fs4) \<Rightarrow>
                    if meta_found \<noteq> StatPresent then (None, s\<lparr>sto_fs := fs4\<rparr>)
                    else case read_bounded env (DirActive, meta_file) meta_limit fs4 of
                      (Inl _, fs5) \<Rightarrow> (None, s\<lparr>sto_fs := fs5\<rparr>)
                    | (Inr meta, fs5) \<Rightarrow>
                        (None, s\<lparr>sto_fs := snd (safe_write_replace env (DirPrevious, meta_tmp) (DirPrevious, meta_file) meta fs5)\<rparr>))))"

text \<open>The metadata of a directory for the swap: empty when there is none or it cannot be read.\<close>

definition swap_metadata :: "fs_env \<Rightarrow> store_dir \<Rightarrow> model_fs \<Rightarrow> string \<times> model_fs" where
  "swap_metadata env dir fs =
     (case fs_stat env (dir, meta_file) fs of (found, fs1) \<Rightarrow>
        if found \<noteq> StatPresent then ([], fs1)
        else case read_bounded env (dir, meta_file) meta_limit fs1 of (Inl _, fs2) \<Rightarrow> ([], fs2) | (Inr d, fs2) \<Rightarrow> (d, fs2))"

definition put_model :: "fs_env \<Rightarrow> store_dir \<Rightarrow> string \<Rightarrow> string \<Rightarrow> model_fs \<Rightarrow> bool \<times> model_fs" where
  "put_model env dir data meta fs =
     (case safe_write_replace env (dir, model_tmp) (dir, model_file) data fs of
        (False, fs1) \<Rightarrow> (False, fs1)
      | (True, fs1) \<Rightarrow> (True, if meta = [] then fs1 else snd (safe_write_replace env (dir, meta_tmp) (dir, meta_file) meta fs1)))"

definition swap_active :: "fs_env \<Rightarrow> file_store \<Rightarrow> model_store_err option \<times> file_store" where
  "swap_active env s =
     (case fs_stat env (DirActive, model_file) (sto_fs s) of (active, fs1) \<Rightarrow>
      if active = StatMissing then (Some StoreNoActive, s\<lparr>sto_fs := fs1\<rparr>)
      else case fs_stat env (DirPrevious, model_file) fs1 of (previous, fs2) \<Rightarrow>
      if previous = StatMissing then (Some StoreNoPrevious, s\<lparr>sto_fs := fs2\<rparr>)
      else case read_bounded env (DirActive, model_file) (sto_limit s) fs2 of
        (Inl _, fs3) \<Rightarrow> (Some StoreRead, s\<lparr>sto_fs := fs3\<rparr>)
      | (Inr a, fs3) \<Rightarrow>
      case read_bounded env (DirPrevious, model_file) (sto_limit s) fs3 of
        (Inl _, fs4) \<Rightarrow> (Some StoreRead, s\<lparr>sto_fs := fs4\<rparr>)
      | (Inr p, fs4) \<Rightarrow>
      case swap_metadata env DirActive fs4 of (am, fs5) \<Rightarrow>
      case swap_metadata env DirPrevious fs5 of (pm, fs6) \<Rightarrow>
      case put_model env DirActive p pm fs6 of
        (False, fs7) \<Rightarrow> (Some StoreWrite, s\<lparr>sto_fs := fs7\<rparr>)
      | (True, fs7) \<Rightarrow>
      case put_model env DirPrevious a am fs7 of
        (False, fs8) \<Rightarrow> (Some StoreWrite, s\<lparr>sto_fs := fs8\<rparr>)
      | (True, fs8) \<Rightarrow> (None, s\<lparr>sto_fs := fs8\<rparr>))"

end
