(* ===== verification/Model_Activation.thy ===== *)
theory Model_Activation
  imports Model_Store Detector_Ml
begin

text \<open>
  \<open>edge/agent/modelactivation/manager.go\<close>: which model the agent serves.  A staged candidate becomes active and the
  active model is kept to go back to.  The operations are serialised by a mutex and each is one step of the manager.
  The store behind it is the one of \<open>modelstore\<close>.
\<close>

section \<open>The manager\<close>

record model_info =
  mi_model_id :: string
  mi_version :: string
  mi_format :: string
  mi_feature_schema :: string
  mi_checksum :: string
  mi_threshold :: float64
  mi_trees :: int
  mi_sub_sample :: int
  mi_created_at :: gotime

text \<open>The active and the previous model have the same fields; \<open>sn_at\<close> is \<open>ActivatedAt\<close> or \<open>RetainedAt\<close>.\<close>

record model_snapshot =
  sn_info :: model_info
  sn_meta :: "deployment_metadata option"
  sn_at :: gotime
  sn_manifest :: model_manifest

record candidate_snapshot =
  cs_info :: model_info
  cs_meta :: deployment_metadata
  cs_at :: gotime

datatype activation_err =
    NoActiveModel | NoCandidateModel | CandidateReadFailed model_store_err | CandidateMismatch | ActiveModelConflict
  | ActivationFailed | NoPreviousModel | PreviousModelUnavailable | PreviousModelInvalid | PreviousModelIncompatible
  | RollbackFailed | NilModelStore | InitInvalid ml_err | ActivationDetector ml_detect_err

text \<open>The reasons of failure that are recorded, by what their texts are made of.\<close>

datatype failure_reason =
    ReasonNone | ReasonNoCandidate | ReasonReadCandidate model_store_err | ReasonMismatch string
  | ReasonNoChecksum | ReasonChecksum string | ReasonStructure ml_err | ReasonStatus model_status
  | ReasonIncompatible "issue list" | ReasonMetadata deployment_err | ReasonMetadataChecksum | ReasonConflict string
  | ReasonDetector ml_err | ReasonNoPrevious | ReasonReadPrevious model_store_err

record activation_result =
  ar_success :: bool
  ar_already :: bool
  ar_model_id :: string
  ar_version :: string
  ar_checksum :: string
  ar_at :: gotime
  ar_previous :: "model_info option"
  ar_reason :: failure_reason

record rollback_result =
  rr_success :: bool
  rr_rolled_back :: bool
  rr_active :: model_info
  rr_previous :: "model_info option"
  rr_at :: gotime
  rr_reason :: failure_reason

record activation_manager =
  am_store :: file_store
  am_req :: compatibility_requirement
  am_active :: "model_snapshot option"
  am_detector :: "ml_detector option"
  am_previous :: "model_snapshot option"
  am_last :: "activation_result option"
  am_last_rollback :: "rollback_result option"

text \<open>What the manager relies on: the store's libraries and file system, the detector's, and its identifiers.\<close>

record act_env =
  ae_lib :: model_lib
  ae_fs :: fs_env
  ae_ml :: ml_lib
  ae_gen :: id_generator

definition build_model_info :: "model_manifest \<Rightarrow> model_info" where
  "build_model_info m =
     \<lparr>mi_model_id = mm_model_id m, mi_version = mm_version m, mi_format = mm_format m,
      mi_feature_schema = mm_feature_schema m, mi_checksum = mm_checksum m, mi_threshold = mm_threshold m,
      mi_trees = int (length (mm_trees m)), mi_sub_sample = mm_sub_sample m, mi_created_at = mm_created_at m\<rparr>"

text \<open>The info of a failed rollback has its first three texts only.\<close>

definition failed_info :: "string \<Rightarrow> string \<Rightarrow> string \<Rightarrow> model_info" where
  "failed_info i v h =
     \<lparr>mi_model_id = i, mi_version = v, mi_format = [], mi_feature_schema = [], mi_checksum = h, mi_threshold = Fin 0,
      mi_trees = 0, mi_sub_sample = 0, mi_created_at = 0\<rparr>"

definition make_detector :: "act_env \<Rightarrow> model_manifest \<Rightarrow> ml_err + ml_detector" where
  "make_detector env m = new_ml_detector (ae_ml env) (lb_sha (ae_lib env)) (lb_encode (ae_lib env)) (ae_gen env) (Some m)"

definition manager_now :: "act_env \<Rightarrow> activation_manager \<Rightarrow> gotime \<times> activation_manager" where
  "manager_now env mgr =
     (case fs_now (ae_fs env) (sto_fs (am_store mgr)) of (now, fs) \<Rightarrow> (now, mgr\<lparr>am_store := (am_store mgr)\<lparr>sto_fs := fs\<rparr>\<rparr>))"

definition record_activation_failure ::
  "act_env \<Rightarrow> string \<Rightarrow> string \<Rightarrow> string \<Rightarrow> failure_reason \<Rightarrow> activation_manager \<Rightarrow> activation_manager" where
  "record_activation_failure env i v h reason mgr =
     (case manager_now env mgr of (now, mgr1) \<Rightarrow>
        mgr1\<lparr>am_last := Some \<lparr>ar_success = False, ar_already = False, ar_model_id = i, ar_version = v, ar_checksum = h,
          ar_at = now, ar_previous = map_option sn_info (am_previous mgr), ar_reason = reason\<rparr>\<rparr>)"

definition record_rollback_failure ::
  "act_env \<Rightarrow> string \<Rightarrow> string \<Rightarrow> string \<Rightarrow> failure_reason \<Rightarrow> activation_manager \<Rightarrow> activation_manager" where
  "record_rollback_failure env i v h reason mgr =
     (case manager_now env mgr of (now, mgr1) \<Rightarrow>
        mgr1\<lparr>am_last_rollback := Some \<lparr>rr_success = False, rr_rolled_back = False, rr_active = failed_info i v h,
          rr_previous = map_option sn_info (am_previous mgr), rr_at = now, rr_reason = reason\<rparr>\<rparr>)"

section \<open>Vetting\<close>

text \<open>
  The checks before a model is switched to, in \<open>Activate\<close> and again, with other texts, in \<open>Rollback\<close>: the reason of
  the first that fails.  \<open>ReasonChecksum\<close> has the checksum computed, nothing if there is none.
\<close>

definition vet_model ::
  "model_lib \<Rightarrow> compatibility_requirement \<Rightarrow> model_manifest \<Rightarrow> deployment_metadata option \<Rightarrow> failure_reason option" where
  "vet_model lib req m meta =
     (if trim_space (mm_checksum m) = [] then Some ReasonNoChecksum
      else case compute_checksum (lb_sha lib) (lb_encode lib) m of None \<Rightarrow> Some (ReasonChecksum []) | Some h \<Rightarrow>
      if \<not> equal_fold (mm_checksum m) h then Some (ReasonChecksum h)
      else case manifest_validate (lb_sha lib) (lb_encode lib) (Some m) of Some e \<Rightarrow> Some (ReasonStructure e) | None \<Rightarrow>
      if mm_status m \<noteq> ModelActive then Some (ReasonStatus (mm_status m))
      else let report = check_compatibility (Some m) req
      in if \<not> rp_compatible report then Some (ReasonIncompatible (rp_issues report))
      else case meta of None \<Rightarrow> None | Some d \<Rightarrow>
        (case deployment_validate d of Some e \<Rightarrow> Some (ReasonMetadata e) | None \<Rightarrow>
         if \<not> equal_fold (dm_checksum d) (mm_checksum m) then Some ReasonMetadataChecksum else None))"

text \<open>The checksum that is recorded with a reason.\<close>

definition recorded_checksum :: "failure_reason \<Rightarrow> model_manifest \<Rightarrow> string" where
  "recorded_checksum reason m = (if reason = ReasonNoChecksum then [] else mm_checksum m)"

text \<open>Same identity, and same model.\<close>

definition same_identity :: "model_info \<Rightarrow> model_manifest \<Rightarrow> bool" where
  "same_identity i m \<longleftrightarrow> mi_model_id i = mm_model_id m \<and> mi_version i = mm_version m"

definition same_model :: "model_info \<Rightarrow> model_manifest \<Rightarrow> bool" where
  "same_model i m \<longleftrightarrow> same_identity i m \<and> equal_fold (mi_checksum i) (mm_checksum m)"

section \<open>Start\<close>

text \<open>Whether a model that was stored or configured can be served at the start: the detector or why not.\<close>

definition startup_detector ::
  "act_env \<Rightarrow> compatibility_requirement \<Rightarrow> model_manifest \<Rightarrow> activation_err + ml_detector" where
  "startup_detector env req m =
     (case manifest_validate (lb_sha (ae_lib env)) (lb_encode (ae_lib env)) (Some m) of Some e \<Rightarrow> Inl (InitInvalid e) | None \<Rightarrow>
        if \<not> rp_compatible (check_compatibility (Some m) req) then Inl ActivationFailed
        else case make_detector env m of Inl e \<Rightarrow> Inl (InitInvalid e) | Inr d \<Rightarrow> Inr d)"

definition recover_from_store :: "act_env \<Rightarrow> activation_manager \<Rightarrow> activation_manager" where
  "recover_from_store env mgr =
     (case get_stored_active (ae_lib env) (ae_fs env) (am_store mgr) of
        (Inl _, st) \<Rightarrow> mgr\<lparr>am_store := st\<rparr>
      | (Inr a, st) \<Rightarrow>
          (case startup_detector env (am_req mgr) (sl_manifest a) of Inl _ \<Rightarrow> mgr\<lparr>am_store := st\<rparr> | Inr d \<Rightarrow>
             let mgr1 = mgr\<lparr>am_active := Some \<lparr>sn_info = build_model_info (sl_manifest a), sn_meta = Some (sl_meta a),
                   sn_at = sl_at a, sn_manifest = sl_manifest a\<rparr>, am_detector := Some d\<rparr>
             in case get_stored_previous (ae_lib env) (ae_fs env) st of
                  (Inl _, st1) \<Rightarrow> mgr1\<lparr>am_store := st1\<rparr>
                | (Inr p, st1) \<Rightarrow>
                    mgr1\<lparr>am_store := st1, am_previous := Some \<lparr>sn_info = build_model_info (sl_manifest p),
                      sn_meta = Some (sl_meta p), sn_at = sl_at p, sn_manifest = sl_manifest p\<rparr>\<rparr>))"

definition set_initial_model ::
  "act_env \<Rightarrow> model_manifest \<Rightarrow> deployment_metadata option \<Rightarrow> activation_manager \<Rightarrow> activation_err + activation_manager" where
  "set_initial_model env m meta mgr =
     (case startup_detector env (am_req mgr) m of Inl e \<Rightarrow> Inl e | Inr d \<Rightarrow>
        (case manager_now env mgr of (now, mgr1) \<Rightarrow>
           Inr (mgr1\<lparr>am_active := Some \<lparr>sn_info = build_model_info m, sn_meta = meta, sn_at = now, sn_manifest = m\<rparr>,
             am_detector := Some d,
             am_last := Some \<lparr>ar_success = True, ar_already = False, ar_model_id = mm_model_id m, ar_version = mm_version m,
               ar_checksum = mm_checksum m, ar_at = now, ar_previous = None, ar_reason = ReasonNone\<rparr>,
             am_store := snd (save_active (ae_lib env) (ae_fs env) (Some m) meta (am_store mgr1))\<rparr>)))"

definition new_activation_manager ::
  "act_env \<Rightarrow> file_store option \<Rightarrow> compatibility_requirement \<Rightarrow> model_manifest option \<Rightarrow> deployment_metadata option \<Rightarrow>
   activation_err + activation_manager" where
  "new_activation_manager env store req initial meta =
     (case store of None \<Rightarrow> Inl NilModelStore | Some st \<Rightarrow>
        let mgr = \<lparr>am_store = st, am_req = effective_req req, am_active = None, am_detector = None, am_previous = None,
              am_last = None, am_last_rollback = None\<rparr>
        in case initial of Some m \<Rightarrow> set_initial_model env m meta mgr | None \<Rightarrow> Inr (recover_from_store env mgr))"

section \<open>Activation\<close>

definition candidate_matches :: "string \<Rightarrow> staged_candidate \<Rightarrow> bool" where
  "candidate_matches target c \<longleftrightarrow> target = [] \<or> target = mm_model_id (cd_manifest c) \<or>
     target = mm_model_id (cd_manifest c) @ '':'' @ mm_version (cd_manifest c) \<or> target = dm_id (cd_meta c)"

text \<open>The switch to a vetted model: what is written to the store is not waited for, nor is its failure noticed.\<close>

definition switch_to ::
  "act_env \<Rightarrow> model_manifest \<Rightarrow> deployment_metadata \<Rightarrow> ml_detector \<Rightarrow> activation_manager \<Rightarrow> activation_result \<times> activation_manager" where
  "switch_to env m meta d mgr =
     (let st = (if am_active mgr \<noteq> None then snd (rotate_active (ae_fs env) (am_store mgr)) else am_store mgr);
          st1 = snd (save_active (ae_lib env) (ae_fs env) (Some m) (Some meta) st)
      in case manager_now env (mgr\<lparr>am_store := st1\<rparr>) of (now, mgr1) \<Rightarrow>
         let previous = (case am_active mgr of Some a \<Rightarrow> Some (a\<lparr>sn_at := now\<rparr>) | None \<Rightarrow> am_previous mgr);
             result = \<lparr>ar_success = True, ar_already = False, ar_model_id = mm_model_id m, ar_version = mm_version m,
               ar_checksum = mm_checksum m, ar_at = now, ar_previous = map_option sn_info previous, ar_reason = ReasonNone\<rparr>
         in (result, mgr1\<lparr>am_previous := previous, am_detector := Some d, am_last := Some result,
               am_active := Some \<lparr>sn_info = build_model_info m, sn_meta = Some meta, sn_at = now, sn_manifest = m\<rparr>\<rparr>))"

text \<open>The detector is built before anything is changed.\<close>

definition run_candidate ::
  "act_env \<Rightarrow> staged_candidate \<Rightarrow> activation_manager \<Rightarrow> (activation_err + activation_result) \<times> activation_manager" where
  "run_candidate env c mgr =
     (let m = cd_manifest c
      in case make_detector env m of
           Inl e \<Rightarrow> (Inl ActivationFailed, record_activation_failure env (mm_model_id m) (mm_version m) (mm_checksum m) (ReasonDetector e) mgr)
         | Inr d \<Rightarrow> (case switch_to env m (cd_meta c) d mgr of (result, mgr1) \<Rightarrow> (Inr result, mgr1)))"

definition activate_candidate ::
  "act_env \<Rightarrow> staged_candidate \<Rightarrow> activation_manager \<Rightarrow> (activation_err + activation_result) \<times> activation_manager" where
  "activate_candidate env c mgr =
     (let m = cd_manifest c;
          failed = (\<lambda>err reason.
            (Inl err, record_activation_failure env (mm_model_id m) (mm_version m) (recorded_checksum reason m) reason mgr))
      in case vet_model (ae_lib env) (am_req mgr) m (Some (cd_meta c)) of Some reason \<Rightarrow> failed ActivationFailed reason | None \<Rightarrow>
         case am_active mgr of
           Some a \<Rightarrow>
             if same_model (sn_info a) m then
               (let result = \<lparr>ar_success = True, ar_already = True, ar_model_id = mi_model_id (sn_info a),
                     ar_version = mi_version (sn_info a), ar_checksum = mi_checksum (sn_info a), ar_at = sn_at a,
                     ar_previous = map_option sn_info (am_previous mgr), ar_reason = ReasonNone\<rparr>
                in (Inr result, mgr\<lparr>am_last := Some result\<rparr>))
             else if same_identity (sn_info a) m then failed ActiveModelConflict (ReasonConflict (mi_checksum (sn_info a)))
             else run_candidate env c mgr
         | None \<Rightarrow> run_candidate env c mgr)"

definition activate ::
  "act_env \<Rightarrow> string \<Rightarrow> activation_manager \<Rightarrow> (activation_err + activation_result) \<times> activation_manager" where
  "activate env candidate_id mgr =
     (case get_candidate (ae_lib env) (ae_fs env) (am_store mgr) of
        (Inl e, st) \<Rightarrow>
          let mgr1 = mgr\<lparr>am_store := st\<rparr>
          in if e = StoreNoCandidate then (Inl NoCandidateModel, record_activation_failure env [] [] [] ReasonNoCandidate mgr1)
             else (Inl ActivationFailed, record_activation_failure env [] [] [] (ReasonReadCandidate e) mgr1)
      | (Inr c, st) \<Rightarrow>
          let mgr1 = mgr\<lparr>am_store := st\<rparr>; target = trim_space candidate_id; m = cd_manifest c
          in if \<not> candidate_matches target c
             then (Inl CandidateMismatch,
                   record_activation_failure env (mm_model_id m) (mm_version m) (mm_checksum m) (ReasonMismatch target) mgr1)
             else activate_candidate env c mgr1)"

section \<open>Rollback\<close>

text \<open>The previous model: the one of the store, or the one in memory when the store has none.\<close>

definition previous_model ::
  "act_env \<Rightarrow> model_snapshot \<Rightarrow> activation_manager \<Rightarrow>
   (model_store_err + model_manifest \<times> deployment_metadata option) \<times> activation_manager" where
  "previous_model env p mgr =
     (case get_stored_previous (ae_lib env) (ae_fs env) (am_store mgr) of (r, st) \<Rightarrow>
        (case r of Inr x \<Rightarrow> Inr (sl_manifest x, Some (sl_meta x))
         | Inl e \<Rightarrow> if e = StoreNoPrevious then Inr (sn_manifest p, sn_meta p) else Inl e,
         mgr\<lparr>am_store := st\<rparr>))"

definition rollback_err :: "failure_reason \<Rightarrow> activation_err" where
  "rollback_err reason = (case reason of ReasonIncompatible _ \<Rightarrow> PreviousModelIncompatible | _ \<Rightarrow> PreviousModelInvalid)"

definition switch_back ::
  "act_env \<Rightarrow> model_manifest \<Rightarrow> deployment_metadata option \<Rightarrow> ml_detector \<Rightarrow> activation_manager \<Rightarrow> rollback_result \<times> activation_manager" where
  "switch_back env m meta d mgr =
     (let st = snd (swap_active (ae_fs env) (am_store mgr))
      in case manager_now env (mgr\<lparr>am_store := st\<rparr>) of (now, mgr1) \<Rightarrow>
         let previous = (case am_active mgr of Some a \<Rightarrow> Some (a\<lparr>sn_at := now\<rparr>) | None \<Rightarrow> None);
             result = \<lparr>rr_success = True, rr_rolled_back = True, rr_active = build_model_info m,
               rr_previous = map_option sn_info previous, rr_at = now, rr_reason = ReasonNone\<rparr>
         in (result, mgr1\<lparr>am_previous := previous, am_detector := Some d, am_last_rollback := Some result,
               am_active := Some \<lparr>sn_info = build_model_info m, sn_meta = meta, sn_at = now, sn_manifest = m\<rparr>\<rparr>))"

definition run_previous ::
  "act_env \<Rightarrow> model_manifest \<Rightarrow> deployment_metadata option \<Rightarrow> activation_manager \<Rightarrow>
   (activation_err + rollback_result) \<times> activation_manager" where
  "run_previous env m meta mgr =
     (case make_detector env m of
        Inl e \<Rightarrow> (Inl RollbackFailed, record_rollback_failure env (mm_model_id m) (mm_version m) (mm_checksum m) (ReasonDetector e) mgr)
      | Inr d \<Rightarrow> (case switch_back env m meta d mgr of (result, mgr1) \<Rightarrow> (Inr result, mgr1)))"

definition rollback_to ::
  "act_env \<Rightarrow> model_snapshot \<Rightarrow> model_manifest \<Rightarrow> deployment_metadata option \<Rightarrow> activation_manager \<Rightarrow>
   (activation_err + rollback_result) \<times> activation_manager" where
  "rollback_to env p m meta mgr =
     (let failed = (\<lambda>err reason.
            (Inl err, record_rollback_failure env (mm_model_id m) (mm_version m) (recorded_checksum reason m) reason mgr))
      in case vet_model (ae_lib env) (am_req mgr) m meta of Some reason \<Rightarrow> failed (rollback_err reason) reason | None \<Rightarrow>
         case am_active mgr of
           Some a \<Rightarrow>
             if same_model (sn_info a) m then
               (let result = \<lparr>rr_success = True, rr_rolled_back = False, rr_active = sn_info a,
                     rr_previous = Some (sn_info p), rr_at = sn_at a, rr_reason = ReasonNone\<rparr>
                in (Inr result, mgr\<lparr>am_last_rollback := Some result\<rparr>))
             else run_previous env m meta mgr
         | None \<Rightarrow> run_previous env m meta mgr)"

definition rollback :: "act_env \<Rightarrow> activation_manager \<Rightarrow> (activation_err + rollback_result) \<times> activation_manager" where
  "rollback env mgr =
     (case am_previous mgr of
        None \<Rightarrow> (Inl NoPreviousModel, record_rollback_failure env [] [] [] ReasonNoPrevious mgr)
      | Some p \<Rightarrow>
          (case previous_model env p mgr of
             (Inl e, mgr1) \<Rightarrow>
               (Inl PreviousModelUnavailable, record_rollback_failure env (mi_model_id (sn_info p)) (mi_version (sn_info p))
                  (mi_checksum (sn_info p)) (ReasonReadPrevious e) mgr1)
           | (Inr (m, meta), mgr1) \<Rightarrow> rollback_to env p m meta mgr1))"

section \<open>Queries\<close>

definition active_snapshot :: "activation_manager \<Rightarrow> activation_err + model_snapshot" where
  "active_snapshot mgr = (case am_active mgr of None \<Rightarrow> Inl NoActiveModel | Some a \<Rightarrow> Inr a)"

definition previous_snapshot :: "activation_manager \<Rightarrow> activation_err + model_snapshot" where
  "previous_snapshot mgr = (case am_previous mgr of None \<Rightarrow> Inl NoPreviousModel | Some p \<Rightarrow> Inr p)"

definition candidate_snapshot_of ::
  "act_env \<Rightarrow> activation_manager \<Rightarrow> (activation_err + candidate_snapshot) \<times> activation_manager" where
  "candidate_snapshot_of env mgr =
     (case get_candidate (ae_lib env) (ae_fs env) (am_store mgr) of (r, st) \<Rightarrow>
        (case r of
           Inl e \<Rightarrow> Inl (if e = StoreNoCandidate then NoCandidateModel else CandidateReadFailed e)
         | Inr c \<Rightarrow> Inr \<lparr>cs_info = build_model_info (cd_manifest c), cs_meta = cd_meta c, cs_at = cd_at c\<rparr>,
         mgr\<lparr>am_store := st\<rparr>))"

record activation_status =
  st_active :: "model_info option"
  st_activated_at :: "gotime option"
  st_candidate :: "model_info option"
  st_previous :: "model_info option"
  st_rollback :: bool
  st_last :: "activation_result option"
  st_last_rollback :: "rollback_result option"

text \<open>The flags \<open>HasActiveModel\<close>, \<open>HasCandidate\<close> and \<open>HasPreviousModel\<close> say which fields are there.\<close>

definition activation_status_of :: "act_env \<Rightarrow> activation_manager \<Rightarrow> activation_status \<times> activation_manager" where
  "activation_status_of env mgr =
     (case get_candidate (ae_lib env) (ae_fs env) (am_store mgr) of (r, st) \<Rightarrow>
        (\<lparr>st_active = map_option sn_info (am_active mgr), st_activated_at = map_option sn_at (am_active mgr),
          st_candidate = (case r of Inr c \<Rightarrow> Some (build_model_info (cd_manifest c)) | Inl _ \<Rightarrow> None),
          st_previous = map_option sn_info (am_previous mgr), st_rollback = (am_previous mgr \<noteq> None),
          st_last = am_last mgr, st_last_rollback = am_last_rollback mgr\<rparr>,
         mgr\<lparr>am_store := st\<rparr>))"

section \<open>The runtime detector\<close>

definition runtime_name :: "activation_manager \<Rightarrow> string" where
  "runtime_name mgr = (if am_detector mgr = None then ''ml_isolation_forest (unloaded)'' else ''ml_isolation_forest'')"

definition runtime_version :: "activation_manager \<Rightarrow> string" where
  "runtime_version mgr = (case am_detector mgr of None \<Rightarrow> [] | Some d \<Rightarrow> mm_version (md_manifest d))"

definition runtime_detect ::
  "act_env \<Rightarrow> metric_sample \<Rightarrow> activation_manager \<Rightarrow> (activation_err + anomaly_signal option) \<times> activation_manager" where
  "runtime_detect env m mgr =
     (case am_detector mgr of None \<Rightarrow> (Inl NoActiveModel, mgr) | Some d \<Rightarrow>
        (case ml_detect (ae_ml env) m d of (r, d1) \<Rightarrow>
           (case r of Inl e \<Rightarrow> Inl (ActivationDetector e) | Inr x \<Rightarrow> Inr x, mgr\<lparr>am_detector := Some d1\<rparr>)))"

definition runtime_detect_batch ::
  "act_env \<Rightarrow> telemetry_batch option \<Rightarrow> activation_manager \<Rightarrow> activation_err + anomaly_signal list" where
  "runtime_detect_batch env b mgr =
     (case am_detector mgr of None \<Rightarrow> Inl NoActiveModel | Some d \<Rightarrow>
        (case ml_detect_batch (ae_ml env) b d of Inl e \<Rightarrow> Inl (ActivationDetector e) | Inr x \<Rightarrow> Inr x))"

definition runtime_detect_vector ::
  "act_env \<Rightarrow> string \<Rightarrow> gotime \<Rightarrow> string \<Rightarrow> float64 list \<Rightarrow> activation_manager \<Rightarrow> activation_err + anomaly_signal option" where
  "runtime_detect_vector env node t sample v mgr =
     (case am_detector mgr of None \<Rightarrow> Inl NoActiveModel | Some d \<Rightarrow>
        (case detect_vector (ae_ml env) d node t sample v of Inl e \<Rightarrow> Inl (ActivationDetector e) | Inr x \<Rightarrow> Inr x))"

definition runtime_anomaly_score ::
  "act_env \<Rightarrow> float64 list \<Rightarrow> activation_manager \<Rightarrow> activation_err + float64 \<times> float64" where
  "runtime_anomaly_score env v mgr =
     (case am_detector mgr of None \<Rightarrow> Inl NoActiveModel | Some d \<Rightarrow>
        (case normalize_features (md_manifest d) v of Inl e \<Rightarrow> Inl (ActivationDetector (MlModel e)) | Inr x \<Rightarrow>
           (case forest_score (ae_ml env) d x of Inl e \<Rightarrow> Inl (ActivationDetector (MlModel e))
            | Inr (avg, score, _) \<Rightarrow> Inr (avg, score))))"

end
