(* ===== verification/Model_Store_Safety.thy ===== *)
theory Model_Store_Safety
  imports Model_Store Detector_Ml
begin

text \<open>
  What the operations of the model store do to its files, whichever calls into the operating system fail: the
  replacement of a file never leaves half of it, staging leaves the active and the previous model alone, and what is
  staged has been vetted; and when no call fails, the operations do what they are for.
\<close>

section \<open>Replacing a file\<close>

lemmas fs_defs = fs_call_def fs_now_def fs_set_def fs_stat_def fs_remove_def fs_create_def fs_write_def fs_rename_def

lemma fs_call_files: "fs_call env fs = (ok, fs1) \<Longrightarrow> mf_files fs1 = mf_files fs"
  by (auto simp: fs_call_def)

lemma fs_now_files: "fs_now env fs = (t, fs1) \<Longrightarrow> mf_files fs1 = mf_files fs"
  by (auto simp: fs_now_def)

lemma fs_stat_files: "fs_stat env p fs = (r, fs1) \<Longrightarrow> mf_files fs1 = mf_files fs"
  by (auto simp: fs_stat_def fs_call_def)

lemma fs_stat_missing: "fs_stat env p fs = (StatMissing, fs1) \<Longrightarrow> mf_files fs p = None"
  by (auto simp: fs_stat_def fs_call_def split: if_splits)

lemma read_bounded_files: "read_bounded env p limit fs = (r, fs1) \<Longrightarrow> mf_files fs1 = mf_files fs"
  by (auto simp: read_bounded_def fs_call_def split: option.splits if_splits)

lemma read_bounded_Inr:
  "read_bounded env p limit fs = (Inr data, fs1) \<Longrightarrow> mf_files fs p = Some data \<and> int (length data) \<le> limit"
  by (auto simp: read_bounded_def fs_call_def split: option.splits if_splits)

lemma fs_remove_files: "mf_files (fs_remove env p fs) q = (if q = p \<and> fe_ok env (mf_ops fs) then None else mf_files fs q)"
  by (simp add: fs_remove_def fs_call_def fs_set_def)

text \<open>Nothing but the files of a set is different.\<close>

definition only :: "file_path set \<Rightarrow> model_fs \<Rightarrow> model_fs \<Rightarrow> bool" where
  "only S fs fs' \<longleftrightarrow> (\<forall>p. p \<notin> S \<longrightarrow> mf_files fs' p = mf_files fs p)"

lemma onlyD: "only S fs fs' \<Longrightarrow> p \<notin> S \<Longrightarrow> mf_files fs' p = mf_files fs p"
  by (simp add: only_def del: split_paired_All)

lemma onlyI: "(\<And>p. p \<notin> S \<Longrightarrow> mf_files fs' p = mf_files fs p) \<Longrightarrow> only S fs fs'"
  by (simp add: only_def del: split_paired_All)

lemma only_same: "mf_files fs' = mf_files fs \<Longrightarrow> only S fs fs'"
  by (simp add: only_def)

lemma only_trans: "only S fs fs1 \<Longrightarrow> only T fs1 fs2 \<Longrightarrow> S \<subseteq> U \<Longrightarrow> T \<subseteq> U \<Longrightarrow> only U fs fs2"
  by (rule onlyI) (metis onlyD subsetD)

lemma fs_create_only: "fs_create env x p fs = (ok, fs1) \<Longrightarrow> only {p} fs fs1"
  by (rule onlyI) (auto simp: fs_create_def fs_call_def fs_set_def split: if_splits)

lemma fs_write_only: "fs_write env p data fs = (ok, fs1) \<Longrightarrow> only {p} fs fs1 \<and> (ok \<longrightarrow> mf_files fs1 p = Some data)"
  by (auto intro!: onlyI simp: fs_write_def fs_call_def fs_set_def split: if_splits)

lemma fs_remove_only: "only {p} fs (fs_remove env p fs)"
  by (rule onlyI) (simp add: fs_remove_files)

lemma fs_rename_only:
  "fs_rename env p q fs = (ok, fs1) \<Longrightarrow> p \<noteq> q \<Longrightarrow>
     only {p, q} fs fs1 \<and> mf_files fs1 q = (if ok then mf_files fs p else mf_files fs q) \<and> (ok \<longrightarrow> mf_files fs p \<noteq> None)"
  by (auto intro!: onlyI simp: fs_rename_def fs_call_def fs_set_def split: option.splits if_splits)

text \<open>What a replacement leaves in the files, given whether it succeeded.\<close>

definition replaced :: "file_path \<Rightarrow> file_path \<Rightarrow> string \<Rightarrow> bool \<Rightarrow> model_fs \<Rightarrow> model_fs \<Rightarrow> bool" where
  "replaced tmp target data ok fs fs' \<longleftrightarrow> only {tmp, target} fs fs' \<and>
     (if ok then mf_files fs' target = Some data else mf_files fs' target = mf_files fs target \<or> mf_files fs' target = None)"

lemma replaced_early: "only {tmp} fs fs' \<Longrightarrow> tmp \<noteq> target \<Longrightarrow> replaced tmp target data False fs fs'"
  by (auto simp: replaced_def only_def simp del: split_paired_All)

lemma write_and_rename_replaced:
  assumes run: "write_and_rename env tmp target data fs = (ok, fs')" and ne: "tmp \<noteq> target"
  shows "replaced tmp target data ok fs fs'"
proof -
  obtain c1 fs1 where 1: "fs_create env False tmp fs = (c1, fs1)" by fastforce
  obtain c2 fs2 where 2: "fs_write env tmp data fs1 = (c2, fs2)" by fastforce
  obtain c3 fs3 where 3: "fs_call env fs2 = (c3, fs3)" by fastforce
  obtain c4 fs4 where 4: "fs_call env fs3 = (c4, fs4)" by fastforce
  obtain found fs5 where 5: "fs_stat env target fs4 = (found, fs5)" by fastforce
  let ?fs6 = "if found = StatPresent then fs_remove env target fs5 else fs5"
  obtain c7 fs7 where 7: "fs_rename env tmp target ?fs6 = (c7, fs7)" by fastforce
  have o1: "only {tmp} fs fs1" by (rule fs_create_only [OF 1])
  have o2: "only {tmp} fs fs2" by (rule only_trans [OF o1]) (use fs_write_only [OF 2] in auto)
  have same: "mf_files fs3 = mf_files fs2" "mf_files fs4 = mf_files fs2" "mf_files fs5 = mf_files fs2"
    using fs_call_files [OF 3] fs_call_files [OF 4] fs_stat_files [OF 5] by simp_all
  have o4: "only {tmp} fs fs3" "only {tmp} fs fs4" "only {tmp} fs fs5" using o2 same by (simp_all add: only_def)
  have six: "mf_files ?fs6 target = mf_files fs target \<or> mf_files ?fs6 target = None" "only {target} fs5 ?fs6"
    using onlyD [OF o2, of target] ne same by (simp_all add: fs_remove_files fs_remove_only only_same)
  have six_tmp: "c2 \<Longrightarrow> mf_files ?fs6 tmp = Some data"
    using fs_write_only [OF 2] same ne by (simp add: fs_remove_files)
  have o6: "only {tmp, target} fs ?fs6"
    by (rule only_trans [OF o4(3) six(2)]) simp_all
  have o7: "only {tmp, target} fs fs7"
    by (rule only_trans [OF o6]) (use fs_rename_only [OF 7 ne] in auto)
  have last: "c2 \<Longrightarrow> replaced tmp target data c7 fs fs7"
    using o7 six(1) six_tmp fs_rename_only [OF 7 ne] by (auto simp: replaced_def)
  from run show ?thesis
    using replaced_early [OF o1 ne] replaced_early [OF o2 ne] replaced_early [OF o4(1) ne] replaced_early [OF o4(2) ne] last
    by (auto simp: write_and_rename_def 1 2 3 4 5 7 split: bool.splits)
qed

lemma safe_write_replace_replaced:
  assumes "safe_write_replace env tmp target data fs = (ok, fs')" and ne: "tmp \<noteq> target"
  shows "replaced tmp target data ok fs fs'"
proof -
  obtain c fs1 where 1: "write_and_rename env tmp target data fs = (c, fs1)" by fastforce
  with assms(1) have e: "ok = c" "fs' = fs_remove env tmp fs1" by (simp_all add: safe_write_replace_def)
  from write_and_rename_replaced [OF 1 ne] have r: "replaced tmp target data c fs fs1" .
  have "only {tmp, target} fs fs'"
    by (rule only_trans [of "{tmp, target}" _ fs1]) (use r e fs_remove_only [of tmp fs1] in \<open>auto simp: replaced_def\<close>)
  with r e ne show ?thesis by (simp add: replaced_def fs_remove_files)
qed

section \<open>Which directories an operation touches\<close>

definition only_in :: "store_dir set \<Rightarrow> model_fs \<Rightarrow> model_fs \<Rightarrow> bool" where
  "only_in D fs fs' \<longleftrightarrow> (\<forall>d n. d \<notin> D \<longrightarrow> mf_files fs' (d, n) = mf_files fs (d, n))"

lemma only_in_same: "mf_files fs' = mf_files fs \<Longrightarrow> only_in D fs fs'"
  by (simp add: only_in_def)

lemma only_in_trans: "only_in D fs fs1 \<Longrightarrow> only_in D fs1 fs2 \<Longrightarrow> only_in D fs fs2"
  by (simp add: only_in_def)

lemma only_in_mono: "only_in D fs fs1 \<Longrightarrow> D \<subseteq> E \<Longrightarrow> only_in E fs fs1"
  by (auto simp: only_in_def)

lemma only_in_files: "only_in D fs fs' \<Longrightarrow> d \<notin> D \<Longrightarrow> mf_files fs' (d, n) = mf_files fs (d, n)"
  by (simp add: only_in_def)

lemma only_into: "only S fs fs' \<Longrightarrow> fst ` S \<subseteq> D \<Longrightarrow> only_in D fs fs'"
  by (force simp: only_in_def only_def simp del: split_paired_All)

text \<open>
  What a caller may rely on when it replaces a file: the target is the new text, the old one or gone, never a part of the
  new one, and nothing but the target and the temporary file is different.
\<close>

locale atomic_replace =
  fixes replace :: "file_path \<Rightarrow> file_path \<Rightarrow> string \<Rightarrow> model_fs \<Rightarrow> bool \<times> model_fs"
  assumes replace_contract: "replace tmp target data fs = (ok, fs') \<Longrightarrow> tmp \<noteq> target \<Longrightarrow> replaced tmp target data ok fs fs'"
begin

lemma replace_only_in:
  "replace (d, n) (d, n') data fs = (ok, fs') \<Longrightarrow> n \<noteq> n' \<Longrightarrow> d \<in> D \<Longrightarrow> only_in D fs fs'"
  using replace_contract [of "(d, n)" "(d, n')" data fs ok fs'] by (auto simp: replaced_def intro: only_into)

lemma replace_result:
  "replace (d, n) (d, n') data fs = (ok, fs') \<Longrightarrow> n \<noteq> n' \<Longrightarrow>
     (if ok then mf_files fs' (d, n') = Some data
      else mf_files fs' (d, n') = mf_files fs (d, n') \<or> mf_files fs' (d, n') = None) \<and>
     (\<forall>k. k \<noteq> n \<longrightarrow> k \<noteq> n' \<longrightarrow> mf_files fs' (d, k) = mf_files fs (d, k))"
  using replace_contract [of "(d, n)" "(d, n')" data fs ok fs'] by (auto simp: replaced_def only_def)

end

interpretation swr: atomic_replace "safe_write_replace env" for env
  by unfold_locales (rule safe_write_replace_replaced)

lemma build_metadata_files: "build_metadata env m len user fs = (md, fs1) \<Longrightarrow> mf_files fs1 = mf_files fs"
  by (auto simp: build_metadata_def fs_now_def Let_def)

lemma metadata_or_built_files: "metadata_or_built env m len user (found, fs) = (md, fs1) \<Longrightarrow> mf_files fs1 = mf_files fs"
  by (auto simp: metadata_or_built_def dest: build_metadata_files split: option.splits)

lemma read_metadata_files: "read_metadata lib env p fs = (md, fs1) \<Longrightarrow> mf_files fs1 = mf_files fs"
  by (auto simp: read_metadata_def dest: read_bounded_files split: prod.splits sum.splits)

lemma read_candidate_metadata_files: "read_candidate_metadata lib env fs = (md, fs1) \<Longrightarrow> mf_files fs1 = mf_files fs"
  by (auto simp: read_candidate_metadata_def dest!: read_metadata_files fs_stat_files split: prod.splits if_splits)

lemma read_candidate_manifest_result:
  assumes "read_candidate_manifest lib env s = (r, fs1)"
  shows "mf_files fs1 = mf_files (sto_fs s) \<and> (\<forall>m. r = Some m \<longrightarrow>
     (\<exists>data. mf_files (sto_fs s) (DirCandidate, model_file) = Some data \<and> lib_deserialize lib data = Inr m))"
  using assms
  by (auto simp: read_candidate_manifest_def dest!: fs_stat_files
      dest: read_bounded_files read_bounded_Inr split: prod.splits sum.splits if_splits)

text \<open>Reading changes no file and nothing of the store.\<close>

definition same_store :: "file_store \<Rightarrow> file_store \<Rightarrow> bool" where
  "same_store s s' \<longleftrightarrow> mf_files (sto_fs s') = mf_files (sto_fs s) \<and> sto_limit s' = sto_limit s \<and> sto_req s' = sto_req s"

lemma get_candidate_result:
  assumes "get_candidate lib env s = (r, s')"
  shows "same_store s s' \<and> (\<forall>c. r = Inr c \<longrightarrow>
     (\<exists>data. mf_files (sto_fs s) (DirCandidate, model_file) = Some data \<and> lib_deserialize lib data = Inr (cd_manifest c)))"
proof -
  obtain found fs1 where 1: "fs_stat env (DirCandidate, model_file) (sto_fs s) = (found, fs1)" by fastforce
  obtain b fs2 where 2: "read_bounded env (DirCandidate, model_file) (sto_limit s) fs1 = (b, fs2)" by fastforce
  obtain md fs3 where 3: "read_candidate_metadata lib env fs2 = (md, fs3)" by fastforce
  note same = fs_stat_files [OF 1] read_bounded_files [OF 2] read_candidate_metadata_files [OF 3]
  show ?thesis
  proof (cases b)
    case (Inl e)
    then show ?thesis using assms same by (auto simp: get_candidate_def 1 2 same_store_def split: if_splits)
  next
    case (Inr data)
    from read_bounded_Inr [OF 2 [unfolded Inr]] same assms show ?thesis
      by (auto simp: get_candidate_def 1 2 3 Inr same_store_def dest: metadata_or_built_files
          split: if_splits sum.splits prod.splits)
  qed
qed

lemma read_stored_result:
  assumes "read_stored lib env dir missing s = (r, s')"
  shows "same_store s s' \<and> (\<forall>m. r = Inr m \<longrightarrow>
     (\<exists>data. mf_files (sto_fs s) (dir, model_file) = Some data \<and> lib_deserialize lib data = Inr (sl_manifest m)))"
proof -
  obtain found fs1 where 1: "fs_stat env (dir, model_file) (sto_fs s) = (found, fs1)" by fastforce
  obtain b fs2 where 2: "read_bounded env (dir, model_file) (sto_limit s) fs1 = (b, fs2)" by fastforce
  obtain md fs3 where 3: "read_metadata lib env (dir, meta_file) fs2 = (md, fs3)" by fastforce
  note same = fs_stat_files [OF 1] read_bounded_files [OF 2] read_metadata_files [OF 3]
  show ?thesis
  proof (cases b)
    case (Inl e)
    then show ?thesis using assms same by (auto simp: read_stored_def 1 2 same_store_def split: if_splits)
  next
    case (Inr data)
    from read_bounded_Inr [OF 2 [unfolded Inr]] same assms show ?thesis
      by (auto simp: read_stored_def 1 2 3 Inr same_store_def dest: metadata_or_built_files
          split: if_splits sum.splits prod.splits)
  qed
qed

section \<open>Staging\<close>

lemma write_staging_only:
  assumes "write_staging env limit tmp data fs = (r, fs')"
  shows "only {tmp} fs fs' \<and> (\<forall>got. r = Inr got \<longrightarrow> got = data)"
proof -
  obtain c1 fs1 where 1: "fs_create env True tmp fs = (c1, fs1)" by fastforce
  obtain c2 fs2 where 2: "fs_write env tmp data fs1 = (c2, fs2)" by fastforce
  obtain c3 fs3 where 3: "fs_call env fs2 = (c3, fs3)" by fastforce
  obtain c4 fs4 where 4: "fs_call env fs3 = (c4, fs4)" by fastforce
  obtain b fs5 where 5: "read_bounded env tmp limit fs4 = (b, fs5)" by fastforce
  have o1: "only {tmp} fs fs1" by (rule fs_create_only [OF 1])
  have o2: "only {tmp} fs fs2" by (rule only_trans [OF o1]) (use fs_write_only [OF 2] in auto)
  have same: "mf_files fs3 = mf_files fs2" "mf_files fs4 = mf_files fs2" "mf_files fs5 = mf_files fs2"
    using fs_call_files [OF 3] fs_call_files [OF 4] read_bounded_files [OF 5] by simp_all
  have o4: "only {tmp} fs fs3" "only {tmp} fs fs4" "only {tmp} fs fs5" using o2 same by (simp_all add: only_def)
  have "c2 \<Longrightarrow> b = Inr got \<Longrightarrow> got = data" for got
    using read_bounded_Inr [of env tmp limit fs4 got fs5] 5 fs_write_only [OF 2] same by simp
  with assms o1 o2 o4 show ?thesis
    by (auto simp: write_staging_def 1 2 3 4 5 split: bool.splits sum.splits)
qed

abbreviation candidate_file :: "model_fs \<Rightarrow> string option" where
  "candidate_file fs \<equiv> mf_files fs (DirCandidate, model_file)"

lemma promote_result:
  assumes "promote lib env m user data fs = (r, fs')"
  shows "only_in {DirCandidate} fs fs' \<and>
    (case r of
       Inl e \<Rightarrow> candidate_file fs' = candidate_file fs \<or> candidate_file fs' = None \<or> candidate_file fs' = Some data
     | Inr c \<Rightarrow> candidate_file fs' = Some data \<and> cd_manifest c = m \<and> \<not> cd_reused c)"
proof -
  obtain c1 fs1 where 1: "safe_write_replace env (DirCandidate, model_tmp) (DirCandidate, model_file) data fs = (c1, fs1)" by fastforce
  obtain md fs2 where 2: "build_metadata env m (int (length data)) user fs1 = (md, fs2)" by fastforce
  from swr.replace_only_in [OF 1, of "{DirCandidate}"] build_metadata_files [OF 2]
  have o: "only_in {DirCandidate} fs fs1" "only_in {DirCandidate} fs fs2" by (auto simp: only_in_def)
  have model: "if c1 then candidate_file fs1 = Some data
      else candidate_file fs1 = candidate_file fs \<or> candidate_file fs1 = None"
    using swr.replace_result [OF 1] by simp
  have kept: "candidate_file fs2 = candidate_file fs1" using build_metadata_files [OF 2] by simp
  have meta: "only_in {DirCandidate} fs fs3 \<and> candidate_file fs3 = candidate_file fs2"
    if "safe_write_replace env (DirCandidate, meta_tmp) (DirCandidate, meta_file) text_of fs2 = (c3, fs3)" for text_of c3 fs3
    using swr.replace_only_in [OF that, of "{DirCandidate}"] only_in_trans [OF o(2)] swr.replace_result [OF that] by simp
  from assms o model kept show ?thesis
    by (auto simp: promote_def 1 2 split: bool.splits option.splits if_splits prod.splits dest!: meta)
qed

text \<open>
  A vetted artifact has its place: either the candidate that was there, which has the same identity and checksum, or
  the artifact itself.
\<close>

definition candidate_placed :: "model_lib \<Rightarrow> string \<Rightarrow> model_manifest \<Rightarrow> string option \<Rightarrow> string option \<Rightarrow> staged_candidate \<Rightarrow> bool" where
  "candidate_placed lib data m old new c \<longleftrightarrow>
     (if cd_reused c
      then (\<exists>held. old = Some held \<and> new = Some held \<and>
        lib_deserialize lib held = Inr (cd_manifest c) \<and> mm_model_id (cd_manifest c) = mm_model_id m \<and>
        mm_version (cd_manifest c) = mm_version m \<and> equal_fold (mm_checksum (cd_manifest c)) (mm_checksum m))
      else new = Some data \<and> cd_manifest c = m)"

lemma place_candidate_result:
  assumes "place_candidate lib env m user data s = (r, fs')"
  shows "only_in {DirCandidate} (sto_fs s) fs' \<and>
    (case r of
       Inl e \<Rightarrow> candidate_file fs' = candidate_file (sto_fs s) \<or> candidate_file fs' = None \<or> candidate_file fs' = Some data
     | Inr c \<Rightarrow> candidate_placed lib data m (candidate_file (sto_fs s)) (candidate_file fs') c)"
proof -
  obtain old fs1 where 1: "read_candidate_manifest lib env s = (old, fs1)" by fastforce
  from read_candidate_manifest_result [OF 1] have same: "mf_files fs1 = mf_files (sto_fs s)"
    and held: "\<And>x. old = Some x \<Longrightarrow> \<exists>data. candidate_file (sto_fs s) = Some data \<and> lib_deserialize lib data = Inr x"
    by auto
  obtain rp fp where p: "promote lib env m user data fs1 = (rp, fp)" by fastforce
  from promote_result [OF p] same have promoted: "only_in {DirCandidate} (sto_fs s) fp"
    "case rp of Inl e \<Rightarrow> candidate_file fp = candidate_file (sto_fs s) \<or> candidate_file fp = None \<or> candidate_file fp = Some data
     | Inr c \<Rightarrow> candidate_file fp = Some data \<and> cd_manifest c = m \<and> \<not> cd_reused c"
    by (auto simp: only_in_def split: sum.splits)
  obtain md fr where r: "read_candidate_metadata lib env fs1 = (md, fr)" by fastforce
  obtain meta fm where b: "metadata_or_built env m (int (length data)) user (md, fr) = (meta, fm)" by fastforce
  have reused: "mf_files fm = mf_files (sto_fs s)"
    using metadata_or_built_files [OF b] read_candidate_metadata_files [OF r] same by simp
  show ?thesis
  proof (cases old)
    case None
    with assms promoted show ?thesis by (auto simp: place_candidate_def 1 p candidate_placed_def split: sum.splits)
  next
    case (Some x)
    with assms promoted reused held [OF Some] same show ?thesis
      by (auto simp: place_candidate_def 1 p r b only_in_same candidate_placed_def split: sum.splits if_splits)
  qed
qed

lemma staging_path_result:
  "staging_path env s = (tmp, s1) \<Longrightarrow>
     fst tmp = DirStaging \<and> mf_files (sto_fs s1) = mf_files (sto_fs s) \<and> sto_limit s1 = sto_limit s \<and> sto_req s1 = sto_req s"
  by (auto simp: staging_path_def fs_now_def Let_def)

definition effective_request :: "stage_request \<Rightarrow> file_store \<Rightarrow> compatibility_requirement" where
  "effective_request q s = (case sq_req q of Some r \<Rightarrow> r | None \<Rightarrow> sto_req s)"

lemma staging_only_in: "only {tmp} fs fs' \<Longrightarrow> fst tmp = DirStaging \<Longrightarrow> only_in {DirStaging, DirCandidate} fs fs'"
  by (rule only_into) auto


text \<open>
  C37. Staging, whichever file operations fail, changes nothing in the directories of the active and the previous model.
  When it succeeds, the artifact was decoded, its checksum recomputed, and it was validated and found compatible, and the
  candidate on disk is that artifact or the one that was there, of the same identity and checksum.  When it fails, the
  candidate is as it was or gone, unless the artifact had passed every check.
\<close>
theorem staging_vets_and_isolates:
  assumes "stage_model lib env q s = (r, s')"
  shows "only_in {DirStaging, DirCandidate} (sto_fs s) (sto_fs s') \<and>
    (case r of
       Inl e \<Rightarrow> candidate_file (sto_fs s') = candidate_file (sto_fs s) \<or> candidate_file (sto_fs s') = None \<or>
         candidate_file (sto_fs s') = Some (sq_artifact q) \<and>
         (\<exists>m. vet_artifact lib (effective_request q s) (sq_meta q) (sq_artifact q) = Inr m)
     | Inr c \<Rightarrow> \<exists>m. vet_artifact lib (effective_request q s) (sq_meta q) (sq_artifact q) = Inr m \<and>
         candidate_placed lib (sq_artifact q) m (candidate_file (sto_fs s)) (candidate_file (sto_fs s')) c)"
proof -
  let ?len = "int (length (sq_artifact q))" and ?req = "effective_request q s"
  let ?refused = "?len = 0 \<or> sto_limit s < ?len \<or>
    (case sq_meta q of None \<Rightarrow> False | Some u \<Rightarrow> deployment_validate u \<noteq> None \<or> (0 < dm_size u \<and> dm_size u \<noteq> ?len))"
  obtain tmp s1 where 1: "staging_path env s = (tmp, s1)" by fastforce
  note path = staging_path_result [OF 1]
  obtain w fs2 where 2: "write_staging env (sto_limit s) tmp (sq_artifact q) (sto_fs s1) = (w, fs2)" by fastforce
  from write_staging_only [OF 2] path
  have o2: "only_in {DirStaging, DirCandidate} (sto_fs s) fs2" "candidate_file fs2 = candidate_file (sto_fs s)"
    and w: "\<And>got. w = Inr got \<Longrightarrow> got = sq_artifact q"
    by (cases tmp; auto simp: only_def only_in_def)+
  have tidy: "only_in {DirStaging, DirCandidate} (sto_fs s) (fs_remove env tmp fs) \<and>
      candidate_file (fs_remove env tmp fs) = candidate_file fs"
    if "only_in {DirStaging, DirCandidate} (sto_fs s) fs" for fs
    using that path staging_only_in [OF fs_remove_only, of tmp fs env] by (auto simp: fs_remove_files intro: only_in_trans)
  show ?thesis
  proof (cases ?refused)
    case True
    with assms show ?thesis by (auto simp: stage_model_def Let_def only_in_same split: if_splits)
  next
    case False
    then have "\<not> ?len = 0" "\<not> sto_limit s < ?len" "\<not> (case sq_meta q of None \<Rightarrow> False
      | Some u \<Rightarrow> deployment_validate u \<noteq> None \<or> (0 < dm_size u \<and> dm_size u \<noteq> ?len))" by blast+
    note run = assms [unfolded stage_model_def Let_def, unfolded this [THEN if_not_P] 1 prod.case 2, folded effective_request_def]
    show ?thesis
    proof (cases "\<exists>m. w = Inr (sq_artifact q) \<and> vet_artifact lib ?req (sq_meta q) (sq_artifact q) = Inr m")
      case True
      then obtain m where m: "w = Inr (sq_artifact q)" "vet_artifact lib ?req (sq_meta q) (sq_artifact q) = Inr m" by blast
      obtain rp fp where p: "place_candidate lib env m (sq_meta q) (sq_artifact q) (s1\<lparr>sto_fs := fs2\<rparr>) = (rp, fp)" by fastforce
      from place_candidate_result [OF p]
      have placed: "only_in {DirStaging, DirCandidate} (sto_fs s) fp"
        by (auto intro: only_in_trans [OF o2(1)] only_in_mono)
      from run have "r = rp" "s' = s1\<lparr>sto_fs := fs_remove env tmp fp\<rparr>" by (simp_all add: m p)
      with tidy [OF placed] path m(2) o2(2) place_candidate_result [OF p] show ?thesis
        by (cases r) auto
    next
      case bad: False
      have "\<exists>e. r = Inl e" "s' = s1\<lparr>sto_fs := fs_remove env tmp fs2\<rparr>"
        using run bad w by (cases w; cases "vet_artifact lib ?req (sq_meta q) (sq_artifact q)"; auto)+
      with tidy [OF o2(1)] o2(2) path show ?thesis by auto
    qed
  qed
qed

section \<open>When nothing fails\<close>

text \<open>What the operations of the model store achieve when no call into the operating system fails.\<close>

definition calm :: "fs_env \<Rightarrow> bool" where
  "calm env \<longleftrightarrow> (\<forall>n. fe_ok env n)"

lemma calm_call: "calm env \<Longrightarrow> fs_call env fs = (True, fs\<lparr>mf_ops := Suc (mf_ops fs)\<rparr>)"
  by (simp add: calm_def fs_call_def)

lemma calm_stat: "calm env \<Longrightarrow> mf_files fs p = Some data \<Longrightarrow> \<exists>fs1. fs_stat env p fs = (StatPresent, fs1) \<and> mf_files fs1 = mf_files fs"
  by (simp add: fs_stat_def calm_call)

lemma calm_read:
  "calm env \<Longrightarrow> mf_files fs p = Some data \<Longrightarrow> int (length data) \<le> limit \<Longrightarrow>
     \<exists>fs1. read_bounded env p limit fs = (Inr data, fs1) \<and> mf_files fs1 = mf_files fs"
  by (simp add: read_bounded_def calm_call)

lemma calm_replace:
  assumes "calm env" and "n \<noteq> n'"
  shows "\<exists>fs'. safe_write_replace env (d, n) (d, n') data fs = (True, fs')"
proof -
  have "\<exists>fs'. write_and_rename env (d, n) (d, n') data fs = (True, fs')"
    using assms by (simp add: write_and_rename_def fs_create_def fs_write_def fs_stat_def fs_rename_def fs_remove_def
        fs_set_def calm_call)
  then show ?thesis by (auto simp: safe_write_replace_def)
qed

text \<open>A model and its metadata are in a directory.\<close>

definition in_dir :: "store_dir \<Rightarrow> string \<Rightarrow> string \<Rightarrow> (file_path \<Rightarrow> string option) \<Rightarrow> bool" where
  "in_dir d data x files \<longleftrightarrow> files (d, model_file) = Some data \<and> files (d, meta_file) = Some x"

definition readable :: "model_lib \<Rightarrow> int \<Rightarrow> string \<Rightarrow> string \<Rightarrow> model_manifest \<Rightarrow> deployment_metadata \<Rightarrow> bool" where
  "readable lib limit data x m md \<longleftrightarrow> int (length data) \<le> limit \<and> lib_deserialize lib data = Inr m \<and>
     x \<noteq> [] \<and> int (length x) \<le> meta_limit \<and> lb_meta_decode lib x = Some md"

lemma in_dir_only_in: "in_dir d data x (mf_files fs) \<Longrightarrow> only_in D fs fs' \<Longrightarrow> d \<notin> D \<Longrightarrow> in_dir d data x (mf_files fs')"
  by (simp add: in_dir_def only_in_files)

lemma calm_read_metadata:
  assumes "calm env" and "mf_files fs (d, meta_file) = Some x" and "readable lib limit data x m md"
  shows "\<exists>fs1. read_metadata lib env (d, meta_file) fs = (Some md, fs1) \<and> mf_files fs1 = mf_files fs"
  using calm_read [OF assms(1,2), of meta_limit] assms(3) by (auto simp: read_metadata_def readable_def)

lemma calm_get_candidate:
  assumes c: "calm env" and h: "in_dir DirCandidate data x (mf_files (sto_fs s))" and r: "readable lib (sto_limit s) data x m md"
  shows "\<exists>cd st. get_candidate lib env s = (Inr cd, st) \<and> same_store s st \<and> cd_manifest cd = m \<and> cd_meta cd = md"
proof -
  from calm_stat [OF c, of "sto_fs s" "(DirCandidate, model_file)" data] h obtain fs1
    where 1: "fs_stat env (DirCandidate, model_file) (sto_fs s) = (StatPresent, fs1)" "mf_files fs1 = mf_files (sto_fs s)"
    by (auto simp: in_dir_def)
  with calm_read [OF c, of fs1 "(DirCandidate, model_file)" data "sto_limit s"] h r obtain fs2
    where 2: "read_bounded env (DirCandidate, model_file) (sto_limit s) fs1 = (Inr data, fs2)" "mf_files fs2 = mf_files (sto_fs s)"
    by (auto simp: in_dir_def readable_def)
  with calm_stat [OF c, of fs2 "(DirCandidate, meta_file)" x] h obtain fs3
    where 3: "fs_stat env (DirCandidate, meta_file) fs2 = (StatPresent, fs3)" "mf_files fs3 = mf_files (sto_fs s)"
    by (auto simp: in_dir_def)
  with calm_read_metadata [OF c, of fs3 DirCandidate x] h r obtain fs4
    where 4: "read_metadata lib env (DirCandidate, meta_file) fs3 = (Some md, fs4)" "mf_files fs4 = mf_files (sto_fs s)"
    by (fastforce simp: in_dir_def)
  from r 4 show ?thesis
    by (simp add: get_candidate_def 1 2 readable_def read_candidate_metadata_def 3 metadata_or_built_def same_store_def)
qed

lemma calm_read_stored:
  assumes c: "calm env" and h: "in_dir d data x (mf_files (sto_fs s))" and r: "readable lib (sto_limit s) data x m md"
  shows "\<exists>a st. read_stored lib env d missing s = (Inr a, st) \<and> same_store s st \<and> sl_manifest a = m \<and> sl_meta a = md"
proof -
  from calm_stat [OF c, of "sto_fs s" "(d, model_file)" data] h obtain fs1
    where 1: "fs_stat env (d, model_file) (sto_fs s) = (StatPresent, fs1)" "mf_files fs1 = mf_files (sto_fs s)"
    by (auto simp: in_dir_def)
  with calm_read [OF c, of fs1 "(d, model_file)" data "sto_limit s"] h r obtain fs2
    where 2: "read_bounded env (d, model_file) (sto_limit s) fs1 = (Inr data, fs2)" "mf_files fs2 = mf_files (sto_fs s)"
    by (auto simp: in_dir_def readable_def)
  with calm_read_metadata [OF c, of fs2 d x] h r obtain fs4
    where 4: "read_metadata lib env (d, meta_file) fs2 = (Some md, fs4)" "mf_files fs4 = mf_files (sto_fs s)"
    by (fastforce simp: in_dir_def)
  from r 4 show ?thesis
    by (simp add: read_stored_def 1 2 readable_def metadata_or_built_def same_store_def)
qed

text \<open>Model and metadata are put into a directory.\<close>

lemma calm_put:
  assumes c: "calm env" and x: "x \<noteq> []"
  shows "\<exists>fs'. put_model env d data x fs = (True, fs') \<and> in_dir d data x (mf_files fs') \<and> only_in {d} fs fs'"
proof -
  from calm_replace [OF c, of model_tmp model_file d data fs] obtain fs1
    where 1: "safe_write_replace env (d, model_tmp) (d, model_file) data fs = (True, fs1)" by auto
  from calm_replace [OF c, of meta_tmp meta_file d x fs1] obtain fs2
    where 2: "safe_write_replace env (d, meta_tmp) (d, meta_file) x fs1 = (True, fs2)" by auto
  from swr.replace_result [OF 1] swr.replace_result [OF 2] have "in_dir d data x (mf_files fs2)" by (simp add: in_dir_def)
  moreover from swr.replace_only_in [OF 1, of "{d}"] swr.replace_only_in [OF 2, of "{d}"] have "only_in {d} fs fs2"
    by (auto intro: only_in_trans)
  ultimately show ?thesis using x by (simp add: put_model_def 1 2)
qed

lemma calm_rotate:
  assumes c: "calm env" and h: "in_dir DirActive data x (mf_files (sto_fs s))" and r: "readable lib (sto_limit s) data x m md"
  shows "\<exists>st. rotate_active env s = (None, st) \<and> in_dir DirPrevious data x (mf_files (sto_fs st)) \<and>
    only_in {DirPrevious} (sto_fs s) (sto_fs st) \<and> sto_limit st = sto_limit s \<and> sto_req st = sto_req s"
proof -
  from calm_stat [OF c, of "sto_fs s" "(DirActive, model_file)" data] h obtain fs1
    where 1: "fs_stat env (DirActive, model_file) (sto_fs s) = (StatPresent, fs1)" "mf_files fs1 = mf_files (sto_fs s)"
    by (auto simp: in_dir_def)
  with calm_read [OF c, of fs1 "(DirActive, model_file)" data "sto_limit s"] h r obtain fs2
    where 2: "read_bounded env (DirActive, model_file) (sto_limit s) fs1 = (Inr data, fs2)" "mf_files fs2 = mf_files (sto_fs s)"
    by (auto simp: in_dir_def readable_def)
  from calm_replace [OF c, of model_tmp model_file DirPrevious data fs2] obtain fs3
    where 3: "safe_write_replace env (DirPrevious, model_tmp) (DirPrevious, model_file) data fs2 = (True, fs3)" by auto
  from swr.replace_only_in [OF 3, of "{DirPrevious}"] have o3: "only_in {DirPrevious} (sto_fs s) fs3"
    using only_in_trans [OF only_in_same [OF 2(2)]] by simp
  from calm_stat [OF c, of fs3 "(DirActive, meta_file)" x] h only_in_files [OF o3, of DirActive] obtain fs4
    where 4: "fs_stat env (DirActive, meta_file) fs3 = (StatPresent, fs4)" "mf_files fs4 = mf_files fs3"
    by (auto simp: in_dir_def)
  with calm_read [OF c, of fs4 "(DirActive, meta_file)" x meta_limit] h r only_in_files [OF o3, of DirActive] obtain fs5
    where 5: "read_bounded env (DirActive, meta_file) meta_limit fs4 = (Inr x, fs5)" "mf_files fs5 = mf_files fs3"
    by (auto simp: in_dir_def readable_def)
  from calm_replace [OF c, of meta_tmp meta_file DirPrevious x fs5] obtain fs6
    where 6: "safe_write_replace env (DirPrevious, meta_tmp) (DirPrevious, meta_file) x fs5 = (True, fs6)" by auto
  have "only_in {DirPrevious} (sto_fs s) fs6"
    by (rule only_in_trans [OF o3 only_in_trans [OF only_in_same [OF 5(2)]]]) (rule swr.replace_only_in [OF 6], simp_all)
  moreover have "in_dir DirPrevious data x (mf_files fs6)"
    using swr.replace_result [OF 3] swr.replace_result [OF 6] 5(2) by (simp add: in_dir_def)
  ultimately show ?thesis by (simp add: rotate_active_def 1 2 3 4 5 6)
qed

lemma calm_save:
  assumes c: "calm env" and data: "model_serialize (lb_sha lib) (lb_encode lib) (lb_indent lib) (Some m) = Inr data"
    and t: "lb_meta_indent lib md = Some t"
  shows "\<exists>a st. save_active lib env (Some m) (Some md) s = (Inr a, st) \<and>
    in_dir DirActive data (t @ [CHR 0x0A]) (mf_files (sto_fs st)) \<and>
    only_in {DirActive} (sto_fs s) (sto_fs st) \<and> sto_limit st = sto_limit s \<and> sto_req st = sto_req s"
proof -
  from calm_replace [OF c, of model_tmp model_file DirActive data "sto_fs s"] obtain fs1
    where 1: "safe_write_replace env (DirActive, model_tmp) (DirActive, model_file) data (sto_fs s) = (True, fs1)" by auto
  from calm_replace [OF c, of meta_tmp meta_file DirActive "t @ [CHR 0x0A]" fs1] obtain fs2
    where 2: "safe_write_replace env (DirActive, meta_tmp) (DirActive, meta_file) (t @ [CHR 0x0A]) fs1 = (True, fs2)" by auto
  have "only_in {DirActive} (sto_fs s) fs2"
    by (rule only_in_trans [OF swr.replace_only_in [OF 1] swr.replace_only_in [OF 2]]) simp_all
  moreover have "in_dir DirActive data (t @ [CHR 0x0A]) (mf_files fs2)"
    using swr.replace_result [OF 1] swr.replace_result [OF 2] by (simp add: in_dir_def)
  ultimately show ?thesis using t by (simp add: save_active_def data 1 2 metadata_or_built_def)
qed

lemma calm_swap_metadata:
  assumes c: "calm env" and h: "mf_files fs (d, meta_file) = Some x" and "int (length x) \<le> meta_limit"
  shows "\<exists>fs1. swap_metadata env d fs = (x, fs1) \<and> mf_files fs1 = mf_files fs"
proof -
  from calm_stat [OF c h] obtain fs1 where 1: "fs_stat env (d, meta_file) fs = (StatPresent, fs1)" "mf_files fs1 = mf_files fs" by auto
  with calm_read [OF c, of fs1 "(d, meta_file)" x meta_limit] h assms(3) obtain fs2
    where "read_bounded env (d, meta_file) meta_limit fs1 = (Inr x, fs2)" "mf_files fs2 = mf_files fs" by auto
  with 1 show ?thesis by (simp add: swap_metadata_def)
qed

lemma calm_swap:
  assumes c: "calm env"
    and a: "in_dir DirActive da xa (mf_files (sto_fs s))" "readable lib (sto_limit s) da xa ma mda"
    and p: "in_dir DirPrevious dp xp (mf_files (sto_fs s))" "readable lib (sto_limit s) dp xp mp mdp"
  shows "\<exists>st. swap_active env s = (None, st) \<and> in_dir DirActive dp xp (mf_files (sto_fs st)) \<and>
    in_dir DirPrevious da xa (mf_files (sto_fs st)) \<and> sto_limit st = sto_limit s \<and> sto_req st = sto_req s"
proof -
  let ?f = "mf_files (sto_fs s)"
  from a p have f: "?f (DirActive, model_file) = Some da" "?f (DirActive, meta_file) = Some xa"
    "?f (DirPrevious, model_file) = Some dp" "?f (DirPrevious, meta_file) = Some xp" by (simp_all add: in_dir_def)
  from a(2) p(2) have l: "int (length da) \<le> sto_limit s" "int (length dp) \<le> sto_limit s"
    "int (length xa) \<le> meta_limit" "int (length xp) \<le> meta_limit" "xa \<noteq> []" "xp \<noteq> []" by (simp_all add: readable_def)
  obtain fs1 where 1: "fs_stat env (DirActive, model_file) (sto_fs s) = (StatPresent, fs1)" "mf_files fs1 = ?f"
    using calm_stat [OF c f(1)] by auto
  obtain fs2 where 2: "fs_stat env (DirPrevious, model_file) fs1 = (StatPresent, fs2)" "mf_files fs2 = ?f"
    using calm_stat [OF c, of fs1] f(3) 1(2) by force
  obtain fs3 where 3: "read_bounded env (DirActive, model_file) (sto_limit s) fs2 = (Inr da, fs3)" "mf_files fs3 = ?f"
    using calm_read [OF c, of fs2 "(DirActive, model_file)" da] f(1) l(1) 2(2) by auto
  obtain fs4 where 4: "read_bounded env (DirPrevious, model_file) (sto_limit s) fs3 = (Inr dp, fs4)" "mf_files fs4 = ?f"
    using calm_read [OF c, of fs3 "(DirPrevious, model_file)" dp] f(3) l(2) 3(2) by auto
  obtain fs5 where 5: "swap_metadata env DirActive fs4 = (xa, fs5)" "mf_files fs5 = ?f"
    using calm_swap_metadata [OF c, of fs4 DirActive xa] f(2) l(3) 4(2) by auto
  obtain fs6 where 6: "swap_metadata env DirPrevious fs5 = (xp, fs6)" "mf_files fs6 = ?f"
    using calm_swap_metadata [OF c, of fs5 DirPrevious xp] f(4) l(4) 5(2) by auto
  obtain fs7 where 7: "put_model env DirActive dp xp fs6 = (True, fs7)" "in_dir DirActive dp xp (mf_files fs7)"
    using calm_put [OF c l(6)] by blast
  obtain fs8 where 8: "put_model env DirPrevious da xa fs7 = (True, fs8)" "in_dir DirPrevious da xa (mf_files fs8)"
    "only_in {DirPrevious} fs7 fs8"
    using calm_put [OF c l(5)] by blast
  from in_dir_only_in [OF 7(2) 8(3)] 8(2) show ?thesis by (simp add: swap_active_def 1 2 3 4 5 6 7 8)
qed

section \<open>Staging succeeds\<close>

lemma calm_write_staging:
  assumes "calm env" and "mf_files fs tmp = None" and "int (length data) \<le> limit"
  shows "\<exists>fs1. write_staging env limit tmp data fs = (Inr data, fs1)"
proof -
  obtain fs1 where 1: "fs_create env True tmp fs = (True, fs1)" "mf_files fs1 tmp = Some []"
    using assms(1,2) by (simp add: fs_create_def calm_call fs_set_def)
  obtain fs2 where 2: "fs_write env tmp data fs1 = (True, fs2)" "mf_files fs2 tmp = Some data"
    using assms(1) by (simp add: fs_write_def calm_call fs_set_def)
  obtain fs3 where 3: "fs_call env fs2 = (True, fs3)" "mf_files fs3 tmp = Some data"
    using assms(1) 2(2) by (simp add: calm_call)
  obtain fs4 where 4: "fs_call env fs3 = (True, fs4)" "mf_files fs4 tmp = Some data"
    using assms(1) 3(2) by (simp add: calm_call)
  from calm_read [OF assms(1) 4(2) assms(3)] show ?thesis by (auto simp: write_staging_def 1 2 3 4)
qed

lemma calm_promote:
  assumes "calm env" and "\<And>md. lb_meta_indent lib md \<noteq> None"
  shows "\<exists>c fs1. promote lib env m user data fs = (Inr c, fs1) \<and> cd_manifest c = m \<and> \<not> cd_reused c"
proof -
  from calm_replace [OF assms(1), of model_tmp model_file DirCandidate data fs] obtain fs1
    where 1: "safe_write_replace env (DirCandidate, model_tmp) (DirCandidate, model_file) data fs = (True, fs1)" by auto
  obtain md fs2 where 2: "build_metadata env m (int (length data)) user fs1 = (md, fs2)" by fastforce
  from assms(2) [of md] obtain t where t: "lb_meta_indent lib md = Some t" by blast
  from calm_replace [OF assms(1), of meta_tmp meta_file DirCandidate "t @ [CHR 0x0A]" fs2] obtain fs3
    where 3: "safe_write_replace env (DirCandidate, meta_tmp) (DirCandidate, meta_file) (t @ [CHR 0x0A]) fs2 = (True, fs3)" by auto
  show ?thesis by (simp add: promote_def 1 2 t 3)
qed

text \<open>An artifact that passes every check is staged into a store without a candidate.\<close>

lemma calm_stage:
  assumes c: "calm env" and path: "staging_path env s = (tmp, s1)" "mf_files (sto_fs s) tmp = None"
    and none: "candidate_file (sto_fs s) = None"
    and q: "sq_artifact q \<noteq> []" "int (length (sq_artifact q)) \<le> sto_limit s" "sq_meta q = None"
    and vet: "vet_artifact lib (effective_request q s) None (sq_artifact q) = Inr m"
    and json: "\<And>md. lb_meta_indent lib md \<noteq> None"
  shows "\<exists>cd s'. stage_model lib env q s = (Inr cd, s') \<and> cd_manifest cd = m"
proof -
  from staging_path_result [OF path(1)] have s1: "fst tmp = DirStaging" "mf_files (sto_fs s1) = mf_files (sto_fs s)" by simp_all
  from calm_write_staging [OF c, of "sto_fs s1" tmp "sq_artifact q" "sto_limit s"] path(2) s1 q(2) obtain fs2
    where 2: "write_staging env (sto_limit s) tmp (sq_artifact q) (sto_fs s1) = (Inr (sq_artifact q), fs2)" by auto
  from write_staging_only [OF 2] s1 none have none2: "candidate_file fs2 = None"
    using onlyD [of "{tmp}" "sto_fs s1" fs2 "(DirCandidate, model_file)"] by (cases tmp) auto
  obtain fs3 where 3: "read_candidate_manifest lib env (s1\<lparr>sto_fs := fs2\<rparr>) = (None, fs3)"
    using none2 c by (simp add: read_candidate_manifest_def fs_stat_def calm_call)
  from calm_promote [OF c json, of m None "sq_artifact q" fs3] obtain cd fs4
    where 4: "promote lib env m None (sq_artifact q) fs3 = (Inr cd, fs4)" "cd_manifest cd = m" by blast
  have "\<not> int (length (sq_artifact q)) = 0" "\<not> sto_limit s < int (length (sq_artifact q))" using q by simp_all
  with vet show ?thesis
    by (simp add: stage_model_def Let_def path(1) 2 q(3) place_candidate_def 3 4 effective_request_def)
qed

section \<open>A concrete store\<close>

text \<open>Two versions of a model, and a store for them whose texts are the versions.\<close>

definition sample_model :: "string \<Rightarrow> model_manifest" where
  "sample_model v = small_model\<lparr>mm_version := v, mm_checksum := ''11''\<rparr>"

definition sample_meta :: "string \<Rightarrow> deployment_metadata" where
  "sample_meta v = \<lparr>dm_id = ''d'', dm_model_id = ''m'', dm_version = v, dm_format = [], dm_feature_schema = ''features.v1.0.0'',
     dm_checksum = ''11'', dm_size = 2, dm_deployed_at = 1, dm_rollback = False, dm_fleet = [], dm_node = [], dm_signature = None\<rparr>"

definition sample_lib :: model_lib where
  "sample_lib = \<lparr>lb_sha = (\<lambda>_. [17]), lb_encode = (\<lambda>_. Some []), lb_indent = (\<lambda>m. Some (mm_version m)),
     lb_decode = (\<lambda>t. Some (sample_model (butlast t))), lb_meta_indent = (\<lambda>d. Some (dm_version d)),
     lb_meta_decode = (\<lambda>t. Some (sample_meta (butlast t)))\<rparr>"

definition sample_req :: compatibility_requirement where
  "sample_req = \<lparr>cr_algorithm = ''isolation_forest'', cr_feature_schema = [], cr_dimensions = 0, cr_metrics = [], cr_max_trees = 0,
     cr_max_nodes = 0, cr_max_total = 0, cr_max_depth = 0, cr_format = []\<rparr>"

definition sample_fs :: "(nat \<Rightarrow> bool) \<Rightarrow> fs_env" where
  "sample_fs ok = \<lparr>fe_ok = ok, fe_partial = (\<lambda>_ _. []), fe_clock = (\<lambda>n. int n + 1), fe_nonce = (\<lambda>_. [])\<rparr>"

definition sample_model_store :: "(file_path \<Rightarrow> string option) \<Rightarrow> file_store" where
  "sample_model_store f = \<lparr>sto_limit = 10, sto_req = sample_req, sto_fs = \<lparr>mf_files = f, mf_ops = 0\<rparr>, sto_counter = 0\<rparr>"

lemma sample_texts: "\<not> blank ''2''" "\<not> blank ''d''" "\<not> blank ''11''" "trim_space ''11'' = ''11''" "hex_bytes [17] = ''11''" "equal_fold ''11'' ''11''"
  "map lower_byte ''11'' = ''11''" "lower_byte CHR ''1'' = CHR ''1''"
  by code_simp+

lemma sample_valid:
  "\<not> blank v \<Longrightarrow> manifest_validate (\<lambda>_. [17]) (\<lambda>_. Some []) (Some (sample_model v)) = None"
  using small_tree_valid
  by (simp add: manifest_validate_def sample_model_def small_model_def small_texts sample_texts canonical_metrics_def
      norm_ok_def validate_checksum_def compute_checksum_def)

lemma sample_compatible: "rp_compatible (check_compatibility (Some (sample_model v)) sample_req)"
  by (simp add: check_compatibility_def compatibility_issues_def sample_req_def sample_model_def small_model_def metric_issues_def)

lemma sample_sel:
  "mm_checksum (sample_model v) = ''11''" "mm_version (sample_model v) = v" "mm_model_id (sample_model v) = ''m''"
  "mm_status (sample_model v) = ModelActive"
  "compute_checksum (lb_sha sample_lib) (lb_encode sample_lib) (sample_model v) = Some ''11''"
  by (simp_all add: sample_model_def small_model_def sample_lib_def compute_checksum_def sample_texts)

lemma sample_valid_lib: "\<not> blank v \<Longrightarrow> manifest_validate (lb_sha sample_lib) (lb_encode sample_lib) (Some (sample_model v)) = None"
  by (simp add: sample_lib_def sample_valid)

lemma sample_deserialize: "\<not> blank v \<Longrightarrow> lib_deserialize sample_lib (v @ [CHR 0x0A]) = Inr (sample_model v)"
  by (simp add: lib_deserialize_def model_deserialize_def sample_lib_def sample_valid)

lemma sample_vetted: "\<not> blank v \<Longrightarrow> vet_artifact sample_lib sample_req None (v @ [CHR 0x0A]) = Inr (sample_model v)"
  by (simp add: vet_artifact_def sample_deserialize Let_def sample_compatible sample_sel sample_texts sample_valid_lib)

theorem staging_vets_and_isolates_witness:
  "\<exists>c s'. stage_model sample_lib (sample_fs (\<lambda>_. True)) \<lparr>sq_artifact = ''1'' @ [CHR 0x0A], sq_meta = None, sq_req = None\<rparr>
      (sample_model_store (\<lambda>_. None)) = (Inr c, s') \<and> only_in {DirStaging, DirCandidate} (sto_fs (sample_model_store (\<lambda>_. None))) (sto_fs s') \<and>
    cd_manifest c = sample_model ''1''"
proof -
  let ?s = "sample_model_store (\<lambda>_. None)" and ?e = "sample_fs (\<lambda>_. True)"
  let ?q = "\<lparr>sq_artifact = ''1'' @ [CHR 0x0A], sq_meta = None, sq_req = None\<rparr>"
  obtain tmp s1 where p: "staging_path ?e ?s = (tmp, s1)" by fastforce
  have "\<exists>cd s'. stage_model sample_lib ?e ?q ?s = (Inr cd, s') \<and> cd_manifest cd = sample_model ''1''"
  proof (rule calm_stage [OF _ p])
    show "vet_artifact sample_lib (effective_request ?q ?s) None (sq_artifact ?q) = Inr (sample_model ''1'')"
      using sample_vetted [of "''1''"] by (simp add: effective_request_def sample_model_store_def small_texts)
  qed (simp_all add: calm_def sample_fs_def sample_model_store_def sample_lib_def)
  then obtain cd s' where run: "stage_model sample_lib ?e ?q ?s = (Inr cd, s')" "cd_manifest cd = sample_model ''1''" by blast
  from staging_vets_and_isolates [OF run(1)] run show ?thesis by blast
qed

end
