(* ===== verification/Model_Activation_Properties.thy ===== *)
theory Model_Activation_Properties
  imports Model_Activation Model_Store_Safety
begin

text \<open>
  What the activation manager guarantees whichever calls into the operating system fail and whatever the files hold:
  the model that is served has been vetted, and an operation that fails changes neither what is served nor what is kept.
  When nothing fails, an activation can be rolled back, also across restarts.
\<close>

section \<open>What the operations leave alone\<close>

definition same_slots :: "activation_manager \<Rightarrow> activation_manager \<Rightarrow> bool" where
  "same_slots mgr mgr' \<longleftrightarrow> am_active mgr' = am_active mgr \<and> am_detector mgr' = am_detector mgr \<and>
     am_previous mgr' = am_previous mgr \<and> am_req mgr' = am_req mgr"

abbreviation manager_files :: "activation_manager \<Rightarrow> file_path \<Rightarrow> string option" where
  "manager_files mgr \<equiv> mf_files (sto_fs (am_store mgr))"

definition untouched :: "activation_manager \<Rightarrow> activation_manager \<Rightarrow> bool" where
  "untouched mgr mgr' \<longleftrightarrow> same_slots mgr mgr' \<and> manager_files mgr' = manager_files mgr"

lemma untouched_trans: "untouched a b \<Longrightarrow> untouched b c \<Longrightarrow> untouched a c"
  by (simp add: untouched_def same_slots_def)

lemma manager_now_untouched: "manager_now env mgr = (now, mgr1) \<Longrightarrow> untouched mgr mgr1"
  by (auto simp: manager_now_def fs_now_def untouched_def same_slots_def)

lemma record_activation_failure_untouched: "untouched mgr (record_activation_failure env i v h reason mgr)"
  by (simp add: record_activation_failure_def manager_now_def fs_now_def untouched_def same_slots_def)

lemma record_rollback_failure_untouched: "untouched mgr (record_rollback_failure env i v h reason mgr)"
  by (simp add: record_rollback_failure_def manager_now_def fs_now_def untouched_def same_slots_def)

lemma store_untouched: "same_store (am_store mgr) st \<Longrightarrow> untouched mgr (mgr\<lparr>am_store := st\<rparr>)"
  by (simp add: untouched_def same_slots_def same_store_def)

lemma last_untouched [simp]:
  "untouched mgr (mgr\<lparr>am_last := r\<rparr>)" "untouched mgr (mgr\<lparr>am_last_rollback := r'\<rparr>)"
  by (simp_all add: untouched_def same_slots_def)

section \<open>The switch\<close>

text \<open>A model with its metadata is served, what was active is kept: the rest of the manager's state as it was.\<close>

definition switched ::
  "act_env \<Rightarrow> model_manifest \<Rightarrow> deployment_metadata option \<Rightarrow> model_snapshot option \<Rightarrow> activation_manager \<Rightarrow> activation_manager \<Rightarrow> bool" where
  "switched env m meta otherwise mgr mgr' \<longleftrightarrow>
     (\<exists>now d. make_detector env m = Inr d \<and> vet_model (ae_lib env) (am_req mgr) m meta = None \<and> am_req mgr' = am_req mgr \<and>
        am_active mgr' = Some \<lparr>sn_info = build_model_info m, sn_meta = meta, sn_at = now, sn_manifest = m\<rparr> \<and>
        am_detector mgr' = Some d \<and>
        am_previous mgr' = (case am_active mgr of Some a \<Rightarrow> Some (a\<lparr>sn_at := now\<rparr>) | None \<Rightarrow> otherwise))"

lemma switch_to_switched:
  assumes "switch_to env m meta d mgr = (r, mgr')" and "make_detector env m = Inr d"
    and "vet_model (ae_lib env) (am_req mgr) m (Some meta) = None"
  shows "switched env m (Some meta) (am_previous mgr) mgr mgr' \<and> \<not> ar_already r \<and> ar_success r"
proof -
  let ?st = "if am_active mgr \<noteq> None then snd (rotate_active (ae_fs env) (am_store mgr)) else am_store mgr"
  obtain now mgr1 where 1: "manager_now env (mgr\<lparr>am_store := snd (save_active (ae_lib env) (ae_fs env) (Some m) (Some meta) ?st)\<rparr>) = (now, mgr1)"
    by fastforce
  note run = assms(1) [unfolded switch_to_def Let_def 1 prod.case]
  from run manager_now_untouched [OF 1] assms(2,3) show ?thesis
    by (auto simp: switched_def untouched_def same_slots_def split: option.splits)
qed

lemma switch_back_switched:
  assumes "switch_back env m meta d mgr = (r, mgr')" and "make_detector env m = Inr d"
    and "vet_model (ae_lib env) (am_req mgr) m meta = None"
  shows "switched env m meta None mgr mgr' \<and> rr_rolled_back r \<and> rr_success r"
proof -
  obtain now mgr1 where 1: "manager_now env (mgr\<lparr>am_store := snd (swap_active (ae_fs env) (am_store mgr))\<rparr>) = (now, mgr1)"
    by fastforce
  from manager_now_untouched [OF 1] assms show ?thesis
    by (auto simp: switch_back_def Let_def 1 switched_def untouched_def same_slots_def split: option.splits)
qed

lemma run_candidate_outcome:
  assumes "run_candidate env c mgr = (r, mgr')" and "vet_model (ae_lib env) (am_req mgr) (cd_manifest c) (Some (cd_meta c)) = None"
  shows "case r of Inl e \<Rightarrow> untouched mgr mgr'
    | Inr x \<Rightarrow> \<not> ar_already x \<and> switched env (cd_manifest c) (Some (cd_meta c)) (am_previous mgr) mgr mgr'"
  using assms switch_to_switched
  by (fastforce simp: run_candidate_def Let_def record_activation_failure_untouched split: sum.splits prod.splits)

lemma run_previous_outcome:
  assumes "run_previous env m meta mgr = (r, mgr')" and "vet_model (ae_lib env) (am_req mgr) m meta = None"
  shows "case r of Inl e \<Rightarrow> untouched mgr mgr' | Inr x \<Rightarrow> rr_rolled_back x \<and> switched env m meta None mgr mgr'"
  using assms switch_back_switched
  by (fastforce simp: run_previous_def record_rollback_failure_untouched split: sum.splits prod.splits)

lemma activate_candidate_outcome:
  assumes run: "activate_candidate env c mgr = (r, mgr')"
  shows "case r of Inl e \<Rightarrow> untouched mgr mgr'
    | Inr x \<Rightarrow> if ar_already x then untouched mgr mgr' \<and> (\<exists>a. am_active mgr = Some a \<and> same_model (sn_info a) (cd_manifest c))
        else switched env (cd_manifest c) (Some (cd_meta c)) (am_previous mgr) mgr mgr'"
proof (cases "vet_model (ae_lib env) (am_req mgr) (cd_manifest c) (Some (cd_meta c))")
  case None
  note out = run_candidate_outcome [OF _ None]
  show ?thesis
  proof (cases "am_active mgr")
    case none: None
    with run None out show ?thesis by (cases r) (auto simp: activate_candidate_def Let_def)
  next
    case (Some a)
    show ?thesis
    proof (cases "same_identity (sn_info a) (cd_manifest c)")
      case True
      with run None Some show ?thesis
        by (cases r) (auto simp: activate_candidate_def Let_def record_activation_failure_untouched split: if_splits)
    next
      case False
      with run None Some out show ?thesis
        by (cases r) (auto simp: activate_candidate_def Let_def same_model_def)
    qed
  qed
next
  case (Some reason)
  with run show ?thesis by (auto simp: activate_candidate_def Let_def record_activation_failure_untouched)
qed

lemma activate_outcome:
  assumes "activate env i mgr = (r, mgr')"
  shows "case r of Inl e \<Rightarrow> untouched mgr mgr'
    | Inr x \<Rightarrow> if ar_already x then untouched mgr mgr'
        else \<exists>c. (\<exists>data. manager_files mgr (DirCandidate, model_file) = Some data \<and>
            lib_deserialize (ae_lib env) data = Inr (cd_manifest c)) \<and> candidate_matches (trim_space i) c \<and>
          switched env (cd_manifest c) (Some (cd_meta c)) (am_previous mgr) mgr mgr'"
proof -
  obtain g st where g: "get_candidate (ae_lib env) (ae_fs env) (am_store mgr) = (g, st)" by fastforce
  from get_candidate_result [OF g] have st: "untouched mgr (mgr\<lparr>am_store := st\<rparr>)"
    and found: "\<And>c. g = Inr c \<Longrightarrow> \<exists>data. manager_files mgr (DirCandidate, model_file) = Some data \<and>
        lib_deserialize (ae_lib env) data = Inr (cd_manifest c)"
    by (auto intro: store_untouched)
  note fail = untouched_trans [OF st record_activation_failure_untouched]
  show ?thesis
  proof (cases g)
    case (Inl e)
    with assms fail show ?thesis by (auto simp: activate_def g Let_def split: if_splits)
  next
    case (Inr c)
    show ?thesis
    proof (cases "candidate_matches (trim_space i) c")
      case False
      with assms fail Inr show ?thesis by (auto simp: activate_def g Let_def)
    next
      case True
      with assms Inr have "activate_candidate env c (mgr\<lparr>am_store := st\<rparr>) = (r, mgr')" by (simp add: activate_def g Let_def)
      from activate_candidate_outcome [OF this] found [OF Inr] True untouched_trans [OF st] show ?thesis
        by (cases r) (auto simp: switched_def split: if_splits)
    qed
  qed
qed

lemma rollback_to_outcome:
  assumes run: "rollback_to env p m meta mgr = (r, mgr')"
  shows "case r of Inl e \<Rightarrow> untouched mgr mgr'
    | Inr x \<Rightarrow> if rr_rolled_back x then switched env m meta None mgr mgr' else untouched mgr mgr'"
proof (cases "vet_model (ae_lib env) (am_req mgr) m meta")
  case None
  note out = run_previous_outcome [OF _ None]
  show ?thesis
  proof (cases "am_active mgr")
    case none: None
    with run None out show ?thesis by (cases r) (auto simp: rollback_to_def Let_def)
  next
    case (Some a)
    with run None out show ?thesis by (cases r; cases "same_model (sn_info a) m") (auto simp: rollback_to_def Let_def)
  qed
next
  case (Some reason)
  with run show ?thesis by (auto simp: rollback_to_def Let_def record_rollback_failure_untouched)
qed

lemma previous_model_result:
  assumes "previous_model env p mgr = (r, mgr1)"
  shows "untouched mgr mgr1 \<and> (\<forall>m meta. r = Inr (m, meta) \<longrightarrow>
    (case manager_files mgr (DirPrevious, model_file) of
       Some data \<Rightarrow> lib_deserialize (ae_lib env) data = Inr m
     | None \<Rightarrow> m = sn_manifest p \<and> meta = sn_meta p))"
proof -
  obtain g st where g: "get_stored_previous (ae_lib env) (ae_fs env) (am_store mgr) = (g, st)" by fastforce
  from read_stored_result [OF g [unfolded get_stored_previous_def]]
  have st: "untouched mgr (mgr\<lparr>am_store := st\<rparr>)"
    and found: "\<And>x. g = Inr x \<Longrightarrow> \<exists>data. manager_files mgr (DirPrevious, model_file) = Some data \<and>
        lib_deserialize (ae_lib env) data = Inr (sl_manifest x)"
    by (auto intro: store_untouched)
  have missing: "manager_files mgr (DirPrevious, model_file) = None" if "g = Inl StoreNoPrevious"
    using g that by (auto simp: get_stored_previous_def read_stored_def dest: fs_stat_missing
        split: prod.splits if_splits sum.splits)
  from assms st found missing show ?thesis
    by (auto simp: previous_model_def g split: sum.splits if_splits)
qed

lemma rollback_outcome:
  assumes "rollback env mgr = (r, mgr')"
  shows "case r of Inl e \<Rightarrow> untouched mgr mgr'
    | Inr x \<Rightarrow> if rr_rolled_back x then \<exists>p m meta. am_previous mgr = Some p \<and>
          (case manager_files mgr (DirPrevious, model_file) of
             Some data \<Rightarrow> lib_deserialize (ae_lib env) data = Inr m
           | None \<Rightarrow> m = sn_manifest p) \<and> switched env m meta None mgr mgr'
        else untouched mgr mgr'"
proof (cases "am_previous mgr")
  case None
  with assms show ?thesis by (auto simp: rollback_def record_rollback_failure_untouched)
next
  case (Some p)
  obtain g mgr1 where g: "previous_model env p mgr = (g, mgr1)" by fastforce
  note same = previous_model_result [OF g]
  show ?thesis
  proof (cases g)
    case (Inl e)
    with assms Some same untouched_trans [OF _ record_rollback_failure_untouched] show ?thesis
      by (auto simp: rollback_def g)
  next
    case (Inr x)
    obtain m meta where x: "x = (m, meta)" by (cases x)
    from assms Some Inr x have "rollback_to env p m meta mgr1 = (r, mgr')" by (simp add: rollback_def g)
    from rollback_to_outcome [OF this] same Inr x Some untouched_trans [of mgr mgr1] show ?thesis
      by (cases r) (auto simp: switched_def untouched_def same_slots_def split: option.splits if_splits)
  qed
qed

section \<open>What is served has been vetted\<close>

text \<open>
  What can happen to the manager and its store, in any order; also that the files become anything else, which stands for
  whatever other programs or a crash do to them.
\<close>

datatype manager_op =
    OpActivate string | OpRollback | OpStage stage_request | OpClearCandidate | OpClearPrevious
  | OpDetect metric_sample | OpQuery | OpFiles "file_path \<Rightarrow> string option"

fun manager_step :: "act_env \<Rightarrow> manager_op \<Rightarrow> activation_manager \<Rightarrow> activation_manager" where
  "manager_step env (OpActivate i) mgr = snd (activate env i mgr)"
| "manager_step env OpRollback mgr = snd (rollback env mgr)"
| "manager_step env (OpStage q) mgr = mgr\<lparr>am_store := snd (stage_model (ae_lib env) (ae_fs env) q (am_store mgr))\<rparr>"
| "manager_step env OpClearCandidate mgr = mgr\<lparr>am_store := clear_candidate (ae_fs env) (am_store mgr)\<rparr>"
| "manager_step env OpClearPrevious mgr = mgr\<lparr>am_store := clear_previous (ae_fs env) (am_store mgr)\<rparr>"
| "manager_step env (OpDetect x) mgr = snd (runtime_detect env x mgr)"
| "manager_step env OpQuery mgr = snd (activation_status_of env mgr)"
| "manager_step env (OpFiles f) mgr = mgr\<lparr>am_store := (am_store mgr)\<lparr>sto_fs := (sto_fs (am_store mgr))\<lparr>mf_files := f\<rparr>\<rparr>\<rparr>"

definition manager_run :: "act_env \<Rightarrow> manager_op list \<Rightarrow> activation_manager \<Rightarrow> activation_manager" where
  "manager_run env ops mgr = fold (manager_step env) ops mgr"

text \<open>A model that may be served.\<close>

definition servable :: "act_env \<Rightarrow> compatibility_requirement \<Rightarrow> model_manifest \<Rightarrow> bool" where
  "servable env req m \<longleftrightarrow> manifest_validate (lb_sha (ae_lib env)) (lb_encode (ae_lib env)) (Some m) = None \<and>
     rp_compatible (check_compatibility (Some m) req)"

definition serving_ok :: "act_env \<Rightarrow> activation_manager \<Rightarrow> bool" where
  "serving_ok env mgr \<longleftrightarrow>
     (case am_active mgr of
        None \<Rightarrow> am_detector mgr = None
      | Some a \<Rightarrow> map_option md_manifest (am_detector mgr) = Some (sn_manifest a) \<and> sn_info a = build_model_info (sn_manifest a) \<and>
          servable env (am_req mgr) (sn_manifest a))"

lemma make_detector_manifest: "make_detector env m = Inr d \<Longrightarrow> md_manifest d = m"
  by (auto simp: make_detector_def new_ml_detector_def split: option.splits)

lemma vet_model_servable: "vet_model (ae_lib env) req m meta = None \<Longrightarrow> servable env req m"
  by (auto simp: vet_model_def servable_def Let_def split: if_splits option.splits)

lemma switched_serving: "switched env m meta x mgr mgr' \<Longrightarrow> serving_ok env mgr'"
  by (auto simp: switched_def serving_ok_def dest: make_detector_manifest vet_model_servable)

lemma untouched_serving: "untouched mgr mgr' \<Longrightarrow> serving_ok env mgr \<Longrightarrow> serving_ok env mgr'"
  by (simp add: serving_ok_def untouched_def same_slots_def split: option.splits)

lemma ml_detect_manifest: "ml_detect lib x d = (r, d') \<Longrightarrow> md_manifest d' = md_manifest d"
  by (auto simp: ml_detect_def Let_def split: if_splits option.splits)

text \<open>Once there is a model to serve, there always is.\<close>

definition kept_serving :: "act_env \<Rightarrow> activation_manager \<Rightarrow> activation_manager \<Rightarrow> bool" where
  "kept_serving env mgr mgr' \<longleftrightarrow> am_req mgr' = am_req mgr \<and> (serving_ok env mgr \<longrightarrow> serving_ok env mgr') \<and>
     (am_active mgr \<noteq> None \<longrightarrow> am_active mgr' \<noteq> None)"

lemma untouched_kept: "untouched mgr mgr' \<Longrightarrow> kept_serving env mgr mgr'"
  using untouched_serving by (auto simp: kept_serving_def untouched_def same_slots_def)

lemma switched_kept: "switched env m meta x mgr mgr' \<Longrightarrow> kept_serving env mgr mgr'"
  using switched_serving by (auto simp: kept_serving_def switched_def)

lemma store_kept: "kept_serving env mgr (mgr\<lparr>am_store := st\<rparr>)"
  by (simp add: kept_serving_def serving_ok_def split: option.splits)

lemma activate_kept: "kept_serving env mgr (snd (activate env i mgr))"
proof -
  obtain r mgr' where a: "activate env i mgr = (r, mgr')" by fastforce
  from activate_outcome [OF a] show ?thesis
    by (auto simp: a intro: untouched_kept switched_kept split: sum.splits if_splits)
qed

lemma rollback_kept: "kept_serving env mgr (snd (rollback env mgr))"
proof -
  obtain r mgr' where a: "rollback env mgr = (r, mgr')" by fastforce
  from rollback_outcome [OF a] show ?thesis
    by (auto simp: a intro: untouched_kept switched_kept split: sum.splits if_splits)
qed

lemma manager_step_kept: "kept_serving env mgr (manager_step env op mgr)"
proof (cases op)
  case (OpDetect x)
  then show ?thesis
    by (auto simp: runtime_detect_def kept_serving_def serving_ok_def dest: ml_detect_manifest split: option.splits prod.splits)
next
  case OpQuery
  then show ?thesis by (simp add: activation_status_of_def store_kept split: prod.splits)
qed (simp_all add: activate_kept rollback_kept store_kept)

lemma manager_run_kept: "kept_serving env mgr (manager_run env ops mgr)"
proof (induction ops arbitrary: mgr)
  case (Cons op ops)
  from manager_step_kept [of env mgr op] Cons [of "manager_step env op mgr"] show ?case
    by (simp add: manager_run_def kept_serving_def)
qed (simp add: manager_run_def kept_serving_def)

lemma startup_detector_servable:
  "startup_detector env req m = Inr d \<Longrightarrow> servable env req m \<and> md_manifest d = m"
  by (auto simp: startup_detector_def servable_def dest: make_detector_manifest split: option.splits if_splits sum.splits)

lemma new_manager_serving:
  assumes "new_activation_manager env store req initial meta = Inr mgr"
  shows "serving_ok env mgr \<and> am_req mgr = effective_req req"
  using assms
  by (auto simp: new_activation_manager_def set_initial_model_def recover_from_store_def serving_ok_def Let_def
      dest!: startup_detector_servable manager_now_untouched simp: untouched_def same_slots_def
      split: option.splits sum.splits prod.splits)

section \<open>Activation, rollback, restart\<close>

text \<open>A model with its metadata is on disk in a directory; it can be written so that it is read back.\<close>

definition on_disk ::
  "model_lib \<Rightarrow> int \<Rightarrow> store_dir \<Rightarrow> model_manifest \<Rightarrow> deployment_metadata \<Rightarrow> (file_path \<Rightarrow> string option) \<Rightarrow> bool" where
  "on_disk lib limit d m md files \<longleftrightarrow> (\<exists>data x. in_dir d data x files \<and> readable lib limit data x m md)"

definition writable :: "model_lib \<Rightarrow> int \<Rightarrow> model_manifest \<Rightarrow> deployment_metadata \<Rightarrow> bool" where
  "writable lib limit m md \<longleftrightarrow>
     (\<exists>data t. model_serialize (lb_sha lib) (lb_encode lib) (lb_indent lib) (Some m) = Inr data \<and> lb_meta_indent lib md = Some t \<and>
        readable lib limit data (t @ [CHR 0x0A]) m md)"

abbreviation disk ::
  "act_env \<Rightarrow> store_dir \<Rightarrow> model_manifest \<Rightarrow> deployment_metadata \<Rightarrow> activation_manager \<Rightarrow> bool" where
  "disk env d m md mgr \<equiv> on_disk (ae_lib env) (sto_limit (am_store mgr)) d m md (manager_files mgr)"

definition serves :: "activation_manager \<Rightarrow> model_manifest option" where
  "serves mgr = map_option sn_manifest (am_active mgr)"

definition keeps :: "activation_manager \<Rightarrow> model_manifest option" where
  "keeps mgr = map_option sn_manifest (am_previous mgr)"

lemma manager_now_same:
  "manager_now env mgr = (now, mgr1) \<Longrightarrow> manager_files mgr1 = manager_files mgr \<and> sto_limit (am_store mgr1) = sto_limit (am_store mgr)"
  by (auto simp: manager_now_def fs_now_def)

lemma calm_switch_to:
  assumes c: "calm (ae_fs env)" and active: "am_active mgr \<noteq> None" "disk env DirActive ma mda mgr"
    and w: "writable (ae_lib env) (sto_limit (am_store mgr)) m md"
    and run: "switch_to env m md d mgr = (r, mgr')"
  shows "disk env DirActive m md mgr' \<and> disk env DirPrevious ma mda mgr' \<and> sto_limit (am_store mgr') = sto_limit (am_store mgr)"
proof -
  from active(2) obtain da xa where a: "in_dir DirActive da xa (manager_files mgr)"
    "readable (ae_lib env) (sto_limit (am_store mgr)) da xa ma mda" by (auto simp: on_disk_def)
  from calm_rotate [OF c a] obtain st where
    1: "rotate_active (ae_fs env) (am_store mgr) = (None, st)" "in_dir DirPrevious da xa (mf_files (sto_fs st))"
      "sto_limit st = sto_limit (am_store mgr)" by blast
  from w obtain data t where wr: "model_serialize (lb_sha (ae_lib env)) (lb_encode (ae_lib env)) (lb_indent (ae_lib env)) (Some m) = Inr data"
    "lb_meta_indent (ae_lib env) md = Some t" "readable (ae_lib env) (sto_limit (am_store mgr)) data (t @ [CHR 0x0A]) m md"
    by (auto simp: writable_def)
  from calm_save [OF c wr(1,2), of st] obtain r1 st1 where
    2: "save_active (ae_lib env) (ae_fs env) (Some m) (Some md) st = (Inr r1, st1)"
      "in_dir DirActive data (t @ [CHR 0x0A]) (mf_files (sto_fs st1))" "only_in {DirActive} (sto_fs st) (sto_fs st1)"
      "sto_limit st1 = sto_limit st" by blast
  from in_dir_only_in [OF 1(2) 2(3)] have prev: "in_dir DirPrevious da xa (mf_files (sto_fs st1))" by simp
  obtain now mgr1 where 3: "manager_now env (mgr\<lparr>am_store := st1\<rparr>) = (now, mgr1)" by fastforce
  have "am_store mgr' = am_store mgr1"
    using run active(1) by (auto simp: switch_to_def Let_def 1(1) 2(1) 3)
  with manager_now_same [OF 3] 1(3) 2(2,4) prev a(2) wr(3) show ?thesis by (auto simp: on_disk_def)
qed

lemma calm_switch_back:
  assumes c: "calm (ae_fs env)" and a: "disk env DirActive ma mda mgr" and p: "disk env DirPrevious m md mgr"
    and run: "switch_back env m meta d mgr = (r, mgr')"
  shows "disk env DirActive m md mgr' \<and> disk env DirPrevious ma mda mgr' \<and> sto_limit (am_store mgr') = sto_limit (am_store mgr)"
proof -
  from a obtain da xa where a: "in_dir DirActive da xa (manager_files mgr)"
    "readable (ae_lib env) (sto_limit (am_store mgr)) da xa ma mda" by (auto simp: on_disk_def)
  from p obtain dp xp where p: "in_dir DirPrevious dp xp (manager_files mgr)"
    "readable (ae_lib env) (sto_limit (am_store mgr)) dp xp m md" by (auto simp: on_disk_def)
  from calm_swap [OF c a p] obtain st where
    1: "swap_active (ae_fs env) (am_store mgr) = (None, st)" "in_dir DirActive dp xp (mf_files (sto_fs st))"
      "in_dir DirPrevious da xa (mf_files (sto_fs st))" "sto_limit st = sto_limit (am_store mgr)" by blast
  obtain now mgr1 where 3: "manager_now env (mgr\<lparr>am_store := st\<rparr>) = (now, mgr1)" by fastforce
  have "am_store mgr' = am_store mgr1" using run by (auto simp: switch_back_def Let_def 1(1) 3)
  with manager_now_same [OF 3] 1(2-4) a(2) p(2) show ?thesis by (auto simp: on_disk_def)
qed

lemma servable_detector: "servable env req m \<Longrightarrow> \<exists>d. make_detector env m = Inr d"
  by (simp add: servable_def make_detector_def new_ml_detector_def)

lemma calm_activate:
  assumes c: "calm (ae_fs env)" and a: "am_active mgr = Some a" "\<not> same_identity (sn_info a) m" "disk env DirActive ma mda mgr"
    and cand: "disk env DirCandidate m md mgr" "writable (ae_lib env) (sto_limit (am_store mgr)) m md"
    and vet: "vet_model (ae_lib env) (am_req mgr) m (Some md) = None"
    and i: "trim_space i = [] \<or> trim_space i = mm_model_id m"
    and run: "activate env i mgr = (r, mgr')"
  shows "(\<exists>x. r = Inr x) \<and> switched env m (Some md) (am_previous mgr) mgr mgr' \<and> disk env DirActive m md mgr' \<and>
    disk env DirPrevious ma mda mgr' \<and> sto_limit (am_store mgr') = sto_limit (am_store mgr)"
proof -
  from cand(1) obtain dc xc where hc: "in_dir DirCandidate dc xc (manager_files mgr)"
    "readable (ae_lib env) (sto_limit (am_store mgr)) dc xc m md" by (auto simp: on_disk_def)
  from calm_get_candidate [OF c hc] obtain cd st where
    1: "get_candidate (ae_lib env) (ae_fs env) (am_store mgr) = (Inr cd, st)" "same_store (am_store mgr) st"
      "cd_manifest cd = m" "cd_meta cd = md" by blast
  let ?mgr = "mgr\<lparr>am_store := st\<rparr>"
  from 1(2) have same: "manager_files ?mgr = manager_files mgr" "sto_limit st = sto_limit (am_store mgr)"
    by (simp_all add: same_store_def)
  from servable_detector [OF vet_model_servable [OF vet]] obtain d where d: "make_detector env m = Inr d" by blast
  obtain x mgr2 where sw: "switch_to env m md d ?mgr = (x, mgr2)" by fastforce
  have "activate env i mgr = (Inr x, mgr2)"
    using i a(1,2) vet d by (auto simp: activate_def 1 Let_def candidate_matches_def activate_candidate_def same_model_def run_candidate_def sw)
  moreover from switch_to_switched [OF sw d] vet have "switched env m (Some md) (am_previous mgr) mgr mgr2"
    by (simp add: switched_def)
  moreover from calm_switch_to [OF c _ _ _ sw, of ma mda] a(1,3) cand(2) same
  have "disk env DirActive m md mgr2 \<and> disk env DirPrevious ma mda mgr2 \<and> sto_limit (am_store mgr2) = sto_limit (am_store mgr)" by auto
  ultimately show ?thesis using run by auto
qed

lemma calm_rollback:
  assumes c: "calm (ae_fs env)" and a: "am_active mgr = Some a" "\<not> same_identity (sn_info a) m" "disk env DirActive ma mda mgr"
    and p: "am_previous mgr = Some p" "disk env DirPrevious m md mgr"
    and vet: "vet_model (ae_lib env) (am_req mgr) m (Some md) = None" and run: "rollback env mgr = (r, mgr')"
  shows "(\<exists>x. r = Inr x) \<and> switched env m (Some md) None mgr mgr' \<and> disk env DirActive m md mgr' \<and> disk env DirPrevious ma mda mgr' \<and>
    sto_limit (am_store mgr') = sto_limit (am_store mgr)"
proof -
  from p(2) obtain dp xp where hp: "in_dir DirPrevious dp xp (manager_files mgr)"
    "readable (ae_lib env) (sto_limit (am_store mgr)) dp xp m md" by (auto simp: on_disk_def)
  from calm_read_stored [OF c hp] obtain s st where
    1: "get_stored_previous (ae_lib env) (ae_fs env) (am_store mgr) = (Inr s, st)" "same_store (am_store mgr) st"
      "sl_manifest s = m" "sl_meta s = md" unfolding get_stored_previous_def by blast
  let ?mgr = "mgr\<lparr>am_store := st\<rparr>"
  from 1(2) have same: "manager_files ?mgr = manager_files mgr" "sto_limit st = sto_limit (am_store mgr)"
    by (simp_all add: same_store_def)
  from servable_detector [OF vet_model_servable [OF vet]] obtain d where d: "make_detector env m = Inr d" by blast
  obtain x mgr2 where sw: "switch_back env m (Some md) d ?mgr = (x, mgr2)" by fastforce
  have "rollback env mgr = (Inr x, mgr2)"
    using p(1) a(1,2) vet d by (simp add: rollback_def previous_model_def 1 rollback_to_def Let_def same_model_def run_previous_def sw)
  moreover from switch_back_switched [OF sw d] vet have "switched env m (Some md) None mgr mgr2" by (simp add: switched_def)
  moreover from calm_switch_back [OF c _ _ sw, of ma mda md] a(3) p(2) same
  have "disk env DirActive m md mgr2 \<and> disk env DirPrevious ma mda mgr2 \<and> sto_limit (am_store mgr2) = sto_limit (am_store mgr)" by auto
  ultimately show ?thesis using run by auto
qed

text \<open>A restart serves and keeps what is on disk.\<close>

lemma calm_restart:
  assumes c: "calm (ae_fs env)" and a: "disk env DirActive ma mda mgr" "servable env (effective_req req) ma"
    and p: "disk env DirPrevious mp mdp mgr"
  shows "\<exists>mgr'. new_activation_manager env (Some (am_store mgr)) req None None = Inr mgr' \<and>
    serves mgr' = Some ma \<and> keeps mgr' = Some mp"
proof -
  from a(1) obtain da xa where ha: "in_dir DirActive da xa (manager_files mgr)"
    "readable (ae_lib env) (sto_limit (am_store mgr)) da xa ma mda" by (auto simp: on_disk_def)
  from p obtain dp xp where hp: "in_dir DirPrevious dp xp (manager_files mgr)"
    "readable (ae_lib env) (sto_limit (am_store mgr)) dp xp mp mdp" by (auto simp: on_disk_def)
  from calm_read_stored [OF c ha] obtain s st where
    1: "get_stored_active (ae_lib env) (ae_fs env) (am_store mgr) = (Inr s, st)" "same_store (am_store mgr) st" "sl_manifest s = ma"
    unfolding get_stored_active_def by blast
  from 1(2) hp have hp: "in_dir DirPrevious dp xp (mf_files (sto_fs st))" "readable (ae_lib env) (sto_limit st) dp xp mp mdp"
    by (simp_all add: same_store_def)
  from calm_read_stored [OF c hp] obtain s' st' where
    2: "get_stored_previous (ae_lib env) (ae_fs env) st = (Inr s', st')" "sl_manifest s' = mp"
    unfolding get_stored_previous_def by blast
  from servable_detector [OF a(2)] obtain d where "make_detector env ma = Inr d" by blast
  with a(2) have "startup_detector env (effective_req req) ma = Inr d" by (simp add: startup_detector_def servable_def)
  then show ?thesis by (simp add: new_activation_manager_def recover_from_store_def 1 2 serves_def keeps_def)
qed

text \<open>A model without a checksum can be configured as the first one, and then not be gone back to.\<close>

lemma unchecked_model_starts_but_is_not_restored:
  assumes "trim_space (mm_checksum m) = []" and "servable env req m"
  shows "(\<exists>d. startup_detector env req m = Inr d) \<and> vet_model (ae_lib env) req m meta = Some ReasonNoChecksum"
  using servable_detector [OF assms(2)] assms by (auto simp: startup_detector_def servable_def vet_model_def)

section \<open>A concrete manager\<close>

text \<open>A manager that serves version 1 of a model and has version 2 staged.\<close>

definition sample_act_env :: "(nat \<Rightarrow> bool) \<Rightarrow> act_env" where
  "sample_act_env ok = \<lparr>ae_lib = sample_lib, ae_fs = sample_fs ok, ae_ml = small_lib, ae_gen = (\<lambda>_ _ _ _ _ _. None)\<rparr>"

definition sample_files :: "file_path \<Rightarrow> string option" where
  "sample_files p = (case p of (d, n) \<Rightarrow>
     if d = DirActive then Some (''1'' @ [CHR 0x0A]) else if d = DirCandidate then Some (''2'' @ [CHR 0x0A]) else None)"

definition sample_manager :: activation_manager where
  "sample_manager = \<lparr>am_store = sample_model_store sample_files, am_req = sample_req,
     am_active = Some \<lparr>sn_info = build_model_info (sample_model ''1''), sn_meta = None, sn_at = 1, sn_manifest = sample_model ''1''\<rparr>,
     am_detector = Some \<lparr>md_manifest = sample_model ''1'', md_c_psi = Fin 0, md_id = (\<lambda>_ _ _ _ _ _. None), md_buffer = []\<rparr>,
     am_previous = None, am_last = None, am_last_rollback = None\<rparr>"

lemma sample_startup: "\<exists>d. startup_detector (sample_act_env ok) sample_req (sample_model ''1'') = Inr d"
  using sample_valid_lib [of "''1''"] sample_compatible
  by (simp add: startup_detector_def sample_act_env_def make_detector_def new_ml_detector_def small_texts)

lemma sample_vet:
  assumes "\<not> blank v"
  shows "vet_model sample_lib sample_req (sample_model v) (Some (sample_meta v)) = None"
  using assms
  by (simp add: vet_model_def sample_sel sample_texts sample_valid_lib sample_compatible Let_def deployment_validate_def)
    (simp add: sample_meta_def sample_texts small_texts is_zero_def)

lemma sample_on_disk:
  "on_disk sample_lib 10 DirActive (sample_model ''1'') (sample_meta ''1'') sample_files"
  "on_disk sample_lib 10 DirCandidate (sample_model ''2'') (sample_meta ''2'') sample_files"
  using sample_deserialize [of "''1''"] sample_deserialize [of "''2''"] sample_texts small_texts
  by (simp_all add: on_disk_def in_dir_def readable_def sample_files_def sample_lib_def)

lemma sample_writable: "writable sample_lib 10 (sample_model ''2'') (sample_meta ''2'')"
  using sample_deserialize [of "''2''"] sample_valid [of "''2''"]
  by (simp add: writable_def readable_def model_serialize_def sample_lib_def sample_sel sample_meta_def sample_texts)

lemma sample_manager_ok:
  "calm (ae_fs (sample_act_env (\<lambda>_. True)))" "am_req sample_manager = effective_req sample_req"
  "serves sample_manager = Some (sample_model ''1'')" "serving_ok (sample_act_env (\<lambda>_. True)) sample_manager"
  "disk (sample_act_env (\<lambda>_. True)) DirActive (sample_model ''1'') (sample_meta ''1'') sample_manager"
  "vet_model (ae_lib (sample_act_env (\<lambda>_. True))) (am_req sample_manager) (sample_model ''1'') (Some (sample_meta ''1'')) = None"
  "disk (sample_act_env (\<lambda>_. True)) DirCandidate (sample_model ''2'') (sample_meta ''2'') sample_manager"
  "vet_model (ae_lib (sample_act_env (\<lambda>_. True))) (am_req sample_manager) (sample_model ''2'') (Some (sample_meta ''2'')) = None"
  "\<not> same_identity (build_model_info (sample_model ''1'')) (sample_model ''2'')"
  "writable (ae_lib (sample_act_env (\<lambda>_. True))) (sto_limit (am_store sample_manager)) (sample_model ''2'') (sample_meta ''2'')"
  "trim_space [] = [] \<or> trim_space [] = mm_model_id (sample_model ''2'')"
  using sample_on_disk sample_writable sample_vet [of "''1''"] sample_vet [of "''2''"] sample_valid_lib [of "''1''"] sample_compatible
  by (simp_all add: calm_def sample_act_env_def sample_fs_def sample_manager_def effective_req_def sample_req_def serves_def
      serving_ok_def servable_def sample_model_store_def small_texts sample_texts same_identity_def build_model_info_def sample_sel)

lemma sample_activates: "\<exists>x. fst (activate (sample_act_env (\<lambda>_. True)) [] sample_manager) = Inr x"
proof -
  obtain r mgr1 where 1: "activate (sample_act_env (\<lambda>_. True)) [] sample_manager = (r, mgr1)" by fastforce
  from calm_activate [OF sample_manager_ok(1) _ _ sample_manager_ok(5,7,10,8,11) 1] sample_manager_ok(9) 1 show ?thesis
    by (auto simp: sample_manager_def)
qed

section \<open>The properties\<close>

text \<open>
  C38. Only a vetted model is ever served: after any sequence of stagings, activations, rollbacks, inferences and changes
  of the files by anybody, with any file operation failing, the detector that answers runs the manifest the manager
  reports as active, and that manifest is valid and compatible with the agent.  A manager that serves a model at its
  start always serves one.
\<close>
theorem only_vetted_models_serve:
  assumes "new_activation_manager env store req initial meta = Inr mgr"
  shows "let mgr' = manager_run env ops mgr in
    (am_detector mgr \<noteq> None \<longrightarrow> am_detector mgr' \<noteq> None) \<and>
    (case am_detector mgr' of
       None \<Rightarrow> am_active mgr' = None
     | Some d \<Rightarrow> serves mgr' = Some (md_manifest d) \<and>
         map_option sn_info (am_active mgr') = Some (build_model_info (md_manifest d)) \<and>
         manifest_validate (lb_sha (ae_lib env)) (lb_encode (ae_lib env)) (Some (md_manifest d)) = None \<and>
         compatibility_issues (md_manifest d) (effective_req req) = [])"
proof -
  from new_manager_serving [OF assms] manager_run_kept [of env mgr ops]
  show ?thesis
    by (auto simp: Let_def kept_serving_def serving_ok_def servable_def check_compatibility_def serves_def split: option.splits)
qed

theorem only_vetted_models_serve_witness:
  "\<exists>mgr. new_activation_manager (sample_act_env (\<lambda>n. n \<noteq> 2)) (Some (sample_model_store (\<lambda>_. None))) sample_req (Some (sample_model ''1'')) None = Inr mgr \<and>
     am_detector (manager_run (sample_act_env (\<lambda>n. n \<noteq> 2)) [OpFiles (\<lambda>_. Some []), OpActivate [], OpRollback] mgr) \<noteq> None"
proof -
  let ?e = "sample_act_env (\<lambda>n. n \<noteq> 2)"
  obtain d where d: "startup_detector ?e sample_req (sample_model ''1'') = Inr d" using sample_startup by blast
  then obtain mgr where new: "new_activation_manager ?e (Some (sample_model_store (\<lambda>_. None))) sample_req (Some (sample_model ''1'')) None = Inr mgr"
    and "am_detector mgr = Some d"
    by (auto simp: new_activation_manager_def set_initial_model_def Let_def effective_req_def sample_req_def manager_now_def fs_now_def)
  with only_vetted_models_serve [OF new, of "[OpFiles (\<lambda>_. Some []), OpActivate [], OpRollback]"] show ?thesis
    by (auto simp: Let_def)
qed

text \<open>
  C39. Activation and rollback happen as a whole or not at all, whichever file operations fail: on an error the active
  model, its detector, the previous model and the files of the store are as they were; on success either nothing was to
  be done, or the detector, the active model with its metadata and the previous model are exchanged together, the new one
  has passed every check, and the one that was active is the previous one.
\<close>
theorem switch_is_all_or_nothing:
  assumes "activate env i mgr = (r, mgr1)" and "rollback env mgr = (r', mgr2)"
  shows "(case r of
      Inl e \<Rightarrow> untouched mgr mgr1
    | Inr x \<Rightarrow> if ar_already x then untouched mgr mgr1
        else \<exists>m meta. switched env m (Some meta) (am_previous mgr) mgr mgr1 \<and>
          (\<exists>data. manager_files mgr (DirCandidate, model_file) = Some data \<and> lib_deserialize (ae_lib env) data = Inr m)) \<and>
    (case r' of
      Inl e \<Rightarrow> untouched mgr mgr2
    | Inr x \<Rightarrow> if rr_rolled_back x then \<exists>m meta. switched env m meta None mgr mgr2 \<and> am_previous mgr \<noteq> None
        else untouched mgr mgr2)"
proof (rule conjI)
  from activate_outcome [OF assms(1)]
  show "case r of
      Inl e \<Rightarrow> untouched mgr mgr1
    | Inr x \<Rightarrow> if ar_already x then untouched mgr mgr1
        else \<exists>m meta. switched env m (Some meta) (am_previous mgr) mgr mgr1 \<and>
          (\<exists>data. manager_files mgr (DirCandidate, model_file) = Some data \<and> lib_deserialize (ae_lib env) data = Inr m)"
    by (cases r) (auto split: if_splits)
next
  from rollback_outcome [OF assms(2)]
  show "case r' of
      Inl e \<Rightarrow> untouched mgr mgr2
    | Inr x \<Rightarrow> if rr_rolled_back x then \<exists>m meta. switched env m meta None mgr mgr2 \<and> am_previous mgr \<noteq> None
        else untouched mgr mgr2"
    by (cases r') (auto split: if_splits)
qed

theorem switch_is_all_or_nothing_witness:
  "(\<exists>x. fst (activate (sample_act_env (\<lambda>_. True)) [] sample_manager) = Inr x) \<and>
     untouched sample_manager (snd (rollback (sample_act_env (\<lambda>_. True)) sample_manager))"
proof -
  let ?e = "sample_act_env (\<lambda>_. True)"
  obtain r mgr1 where 1: "activate ?e [] sample_manager = (r, mgr1)" by fastforce
  obtain r' mgr2 where 2: "rollback ?e sample_manager = (r', mgr2)" by fastforce
  have "r' = Inl NoPreviousModel" using 2 by (simp add: rollback_def sample_manager_def)
  with switch_is_all_or_nothing [OF 1 2] 1 2 sample_activates show ?thesis by simp
qed



end
