(* ===== verification/Spec2Isabelle.thy ===== *)
theory Spec2Isabelle
  imports Response_Safety Approval Executor_Properties Verification_Examples Escalation_Bounds
    Incident_Examples Audit_Service Telemetry_Properties Recovery_Properties Lifecycle_Properties
    Cp_Server_Properties Cp_Consumer_Properties Detector_Properties Coord_Properties
    Model_Activation_Properties
begin

text \<open>
  AegisEdge is an edge agent that watches its own telemetry, correlates anomalies into incidents and answers them with
  simulated mitigations under a safety policy, and a control plane that ingests the telemetry of many agents.  This is
  a model of both, translated from the Go sources under \<open>src/\<close> (\<open>edge/agent\<close>, \<open>shared\<close>, \<open>services/control-plane\<close>),
  with the theorems that make the parts correct.  The properties are the theorems with a claim number; most theories
  named \<open>_Properties\<close>, \<open>_Safety\<close>, \<open>_Bounds\<close>, \<open>_Restart\<close> hold the invariants behind them and \<open>_Examples\<close> their
  concrete instances.

  \<^bold>\<open>Foundations.\<close>  \<open>Prelude\<close>: Go strings as lists of bytes, instants and durations in nanoseconds, \<open>float64\<close> as a
  rational, an infinity or NaN, messages kept unrendered, rows of a table as lists; and three interfaces as locales,
  each interpreted where a component provides it: a status machine with final states (\<open>status_fsm\<close>), an order by a
  key (\<open>keyed_order\<close>) and steps that spend something once (\<open>consume_once\<close>: approvals, simulations, funding).  \<open>Go_Strings\<close>: rules for
  \<open>strings.TrimSpace\<close> and the walk over runes.  \<open>Go_Float\<close>: IEEE arithmetic with rounding to the nearest even.
  \<open>Db_Time\<close>: instants as SQLite text, which SQL compares as text.  \<open>Domain_Types\<close>: the contracts of
  \<open>shared/types\<close> and their status machines.

  \<^bold>\<open>Detection.\<close>  \<open>Detector\<close>, \<open>Detector_Statistical\<close>, \<open>Detector_Ml\<close> (\<open>detector/threshold.go\<close>, \<open>statistical.go\<close>,
  \<open>ml.go\<close>) over \<open>Ml_Model\<close> (\<open>shared/ml\<close>).  \<open>Detector_Properties\<close>: the threshold detector is the hysteresis its
  rules describe, the statistical one a function of its window; a validated forest can always be evaluated.

  \<^bold>\<open>Incidents.\<close>  \<open>Incident_Store\<close>, \<open>Incident_Engine\<close> (\<open>incident/engine.go\<close> and its tables): an incident takes M
  signals, a stream has one active incident, and a restart keeps both.

  \<^bold>\<open>Response.\<close>  \<open>Response_Decision\<close>, \<open>Response_Policy\<close>, \<open>Response_Validator\<close>, \<open>Approval_Store\<close>, \<open>Approval\<close>,
  \<open>Mitigation_Store\<close>, \<open>Executor\<close> (\<open>response/*.go\<close> and their tables).  \<open>Response_Safety\<close> gives the verdict of the
  validator as a declarative perimeter; \<open>Approval_Ledger\<close> the life of an approval; \<open>Executor_Safety\<close> and
  \<open>Executor_Properties\<close> that a decision and an approval are simulated at most once, inside the perimeter, also
  across restarts.

  \<^bold>\<open>After a response.\<close>  \<open>Verification\<close> (\<open>verification/*.go\<close>): what \<open>RECOVERED\<close> means, finality, restart.
  \<open>Escalation\<close> (\<open>escalation/*.go\<close>): bounded retries and a circuit that fails closed.

  \<^bold>\<open>Running the agent.\<close>  \<open>Telemetry_Store\<close>, \<open>Sync_Transport\<close>, \<open>Syncer\<close> (\<open>sync/*.go\<close>): nothing is lost and the
  outbox drains.  \<open>Audit_Store\<close>, \<open>Audit_Service\<close> (\<open>audit/*.go\<close>).  \<open>Health\<close> (\<open>health/*.go\<close>).  \<open>Checkpoint_Store\<close>,
  \<open>Recovery\<close> (\<open>recovery/*.go\<close>): a restart authorises nothing.  \<open>Lifecycle\<close> (\<open>lifecycle.go\<close>): the shutdown over every
  interleaving of its callers.  \<open>Coord_Client\<close>, \<open>Coordinator\<close> (\<open>coordination/*.go\<close>): what the agent signs the control
  plane accepts, and losing the control plane costs no readiness.

  \<^bold>\<open>Control plane.\<close>  \<open>Cp_Records\<close>, \<open>Cp_Store\<close>, \<open>Cp_Quarantine\<close> (\<open>storage/*.go\<close>): a batch is ingested at most once,
  never while quarantined.  \<open>Cp_Auth\<close> (\<open>server/auth.go\<close>, \<open>shared/types/auth.go\<close>): signatures and the replay cache.
  \<open>Cp_History\<close>, \<open>Cp_Server\<close>, \<open>Cp_Handlers\<close> (\<open>server/server.go\<close>): every handler, with the memory that mirrors the
  store.  \<open>Cp_Consumer\<close>, \<open>Cp_Delivery\<close>, \<open>Cp_Reconcile\<close>, \<open>Cp_Advisory\<close> (\<open>nats/consumer.go\<close>): every delivery is
  accounted for, and the loops over sequences return.

  \<^bold>\<open>Models.\<close>  \<open>Model_Store\<close> (\<open>modelstore/store.go\<close>): artifacts on a file system whose every call may fail; the interface
  \<open>atomic_replace\<close> says what replacing a file leaves.  \<open>Model_Activation\<close> (\<open>modelactivation/manager.go\<close>): which model
  is served.  \<open>Model_Store_Safety\<close>, \<open>Model_Activation_Properties\<close>: only vetted models serve and a switch happens as a
  whole or not at all, whatever fails; when nothing fails, an activation can be rolled back, also across restarts.

  \<^bold>\<open>Conventions.\<close>  A component is a record of its state; an operation takes the state, what it reads from its
  environment (instants, failures of the database, answers of the network) and its arguments, and returns its result
  with the new state.  Errors are values.  A transaction of SQLite is one step on the rows of its tables, which the
  driver can fail.  Concurrent calls are interleavings of such steps (\<open>Lifecycle\<close>, \<open>Coordinator\<close>, the executor's
  environment).  Loops are recursive functions with termination proofs; the only fuel is the depth of a tree of the
  forest, \<open>MaxTreeDepth + 1\<close> as in the source, which validation shows to be enough.  Integers of the source that can
  overflow wrap explicitly (\<open>to_int64\<close>) or are words; the rest are bounded by their use.

  \<^bold>\<open>Parameters.\<close>  SHA-256, HMAC, \<open>encoding/json\<close>, \<open>math.Log\<close> and \<open>math.Pow\<close>, random bytes, the clock, package \<open>net\<close>,
  the NATS client, HTTP exchanges and the rendering of numbers and instants as text.

  \<^bold>\<open>Not modelled.\<close>  The orchestrator, which composes the response components per incident; crashes of the process between
  two file operations of the model store; metrics, logging, configuration, command line tools, entry points, the generator
  of synthetic telemetry and offline training.  They call the modelled components or are pure input and output.
\<close>

end
